(* ===== verification/Prelude.thy ===== *)
theory Prelude
  imports "HOL-Library.Word"
begin

text \<open>
  Shared vocabulary of the development: the fixed-width integer types of
  \<^verbatim>\<open>linux/types.h\<close>, the byte and bit-field idioms the headers write inline
  (big-endian halves, 24-bit identifiers, packed decimal), and the facts about
  them, lists and words that the component theories rest on.  Arithmetic is kept
  at the width the C code stores it in; conversions that C performs implicitly
  appear as \<open>ucast\<close>.
\<close>

unbundle bit_operations_syntax

section \<open>Integer types\<close>

type_synonym u8 = "8 word"
type_synonym u16 = "16 word"
type_synonym u32 = "32 word"
type_synonym u64 = "64 word"

named_theorems wire_simps
  "definitions of message functions, and evaluation of reads and writes at constant offsets"

section \<open>Words below a power of two\<close>

lemma take_bit_less:
  fixes b :: "'a::len word"
  assumes "b < 2 ^ n" and "n < LENGTH('a)"
  shows "take_bit n b = b"
proof -
  have "uint b < 2 ^ n"
    using assms word_2p_lem [of n b] by (simp add: word_size)
  then show ?thesis
    by (simp add: mask_eq_iff take_bit_eq_mask)
qed

lemma less_not_bit:
  fixes b :: "'a::len word"
  assumes "b < 2 ^ n" and "n < LENGTH('a)" and "n \<le> k"
  shows "\<not> bit b k"
  using take_bit_less [OF assms(1,2)] assms(3) by (metis bit_take_bit_iff not_less)

lemma unat_less_256: "unat (x :: u8) < 256"
  by (rule order_less_le_trans [OF unsigned_less]) simp

lemma unat_and_mask: "unat (x AND mask n :: 'a::len word) = unat x mod 2 ^ n"
  by (simp flip: take_bit_eq_mask take_bit_eq_mod add: unsigned_take_bit_eq)

lemma mask_numerals:
  "(1 :: 'a::len word) = mask 1" "(3 :: 'a::len word) = mask 2"
  "(0xf :: 'a::len word) = mask 4" "(0x3f :: 'a::len word) = mask 6"
  "(0x7f :: 'a::len word) = mask 7" "(0xff :: 'a::len word) = mask 8"
  "(0xffffff :: 'a::len word) = mask 24"
  by (simp_all add: mask_eq_exp_minus_1)

lemma bit_u8_less: "bit (w :: u8) n \<Longrightarrow> n < 8"
  using bit_imp_le_length [of w n] by simp

lemma bit_u16_less: "bit (w :: u16) n \<Longrightarrow> n < 16"
  using bit_imp_le_length [of w n] by simp

lemma bit_u32_less: "bit (w :: u32) n \<Longrightarrow> n < 32"
  using bit_imp_le_length [of w n] by simp

lemma bit_u64_less: "bit (w :: u64) n \<Longrightarrow> n < 64"
  using bit_imp_le_length [of w n] by simp

lemmas bit_less = bit_u8_less bit_u16_less bit_u32_less bit_u64_less

text \<open>
  A bit field packed above another one: the C idiom \<^verbatim>\<open>(a << n) | b\<close>, read back with
  a shift and a mask.
\<close>

lemma field_hi:
  fixes a b :: "'a::len word"
  assumes "b < 2 ^ n" and "n < LENGTH('a)"
  shows "drop_bit n (push_bit n a OR b) = take_bit (LENGTH('a) - n) a"
  by (rule bit_word_eqI)
    (use less_not_bit [OF assms] in \<open>auto simp: bit_simps dest: bit_imp_le_length\<close>)

lemma field_lo:
  fixes a b :: "'a::len word"
  assumes "b < 2 ^ n" and "n < LENGTH('a)"
  shows "(push_bit n a OR b) AND mask n = b"
proof (rule bit_word_eqI)
  fix k
  show "bit ((push_bit n a OR b) AND mask n) k = bit b k"
    using less_not_bit [OF assms, of k] by (cases "k < n") (auto simp: bit_simps dest: bit_imp_le_length)
qed

lemma drop_bit_mask_same: "drop_bit n (mask n) = (0 :: 'a::len word)"
  by (rule bit_word_eqI) (auto simp: bit_simps)

section \<open>Two fields in a byte\<close>

text \<open>\<^verbatim>\<open>(a << n) | b\<close>, stored into a \<^verbatim>\<open>__u8\<close>.\<close>

definition pack8 :: "nat \<Rightarrow> u8 \<Rightarrow> u8 \<Rightarrow> u8" where
  "pack8 n a b = push_bit n a OR b"

lemma drop_pack8:
  assumes "b < 2 ^ n" and "a < 2 ^ (8 - n)" and "0 < n" and "n < 8"
  shows "drop_bit n (pack8 n a b) = a"
  using assms field_hi [of b n a] take_bit_less [of a "8 - n"] by (simp add: pack8_def)

lemma and_mask_pack8:
  assumes "b < 2 ^ n" and "n < 8"
  shows "pack8 n a b AND mask n = b"
  using assms field_lo [of b n a] by (simp add: pack8_def)

lemma drop_pack8_numerals [simp]:
  "b < 4 \<Longrightarrow> a < 64 \<Longrightarrow> drop_bit 2 (pack8 2 a b) = a"
  "b < 16 \<Longrightarrow> a < 16 \<Longrightarrow> drop_bit 4 (pack8 4 a b) = a"
  "b < 64 \<Longrightarrow> a < 4 \<Longrightarrow> drop_bit 6 (pack8 6 a b) = a"
  "b < 128 \<Longrightarrow> a < 2 \<Longrightarrow> drop_bit 7 (pack8 7 a b) = a"
  by (rule drop_pack8; simp)+

lemma and_pack8_numerals [simp]:
  "b < 4 \<Longrightarrow> pack8 2 a b AND 3 = b"
  "b < 16 \<Longrightarrow> pack8 4 a b AND 0xf = b"
  "b < 64 \<Longrightarrow> pack8 6 a b AND 0x3f = b"
  "b < 128 \<Longrightarrow> pack8 7 a b AND 0x7f = b"
  unfolding mask_numerals by (rule and_mask_pack8; simp)+

lemma and_mask_less:
  fixes x :: "'a::len word"
  assumes "n < LENGTH('a)"
  shows "x AND mask n < 2 ^ n"
  using assms word_2p_lem [of n "x AND mask n"] and_mask_lt_2p [of x n] by (simp add: word_size)

lemma and_numeral_less [simp]:
  "(x :: u8) AND 3 < 4" "(x :: u8) AND 0xf < 16" "(x :: u8) AND 0x3f < 64" "(x :: u8) AND 0x7f < 128"
  using and_mask_less [of 2 x] and_mask_less [of 4 x] and_mask_less [of 6 x] and_mask_less [of 7 x]
  unfolding mask_numerals by simp_all

lemma drop_bit_numeral_less [simp]:
  "drop_bit 2 (x :: u8) < 64" "drop_bit 4 (x :: u8) < 16" "drop_bit 6 (x :: u8) < 4"
  "drop_bit 7 (x :: u8) < 2"
  using unat_less_256 [of x]
  by (simp_all add: word_less_nat_alt unat_drop_bit_eq drop_bit_eq_div unat_div less_mult_imp_div_less)

lemma u8_less_2: "(x :: u8) < 2 \<Longrightarrow> x = 0 \<or> x = 1"
  by unat_arith

lemma and_one_below [simp]: "(x :: u8) < 2 \<Longrightarrow> x AND 1 = x"
  by (drule u8_less_2) auto

lemma and_numeral_below [simp]:
  "(x :: u8) < 4 \<Longrightarrow> x AND 3 = x" "(x :: u8) < 16 \<Longrightarrow> x AND 0xf = x"
  "(x :: u8) < 64 \<Longrightarrow> x AND 0x3f = x" "(x :: u8) < 128 \<Longrightarrow> x AND 0x7f = x"
  unfolding mask_numerals
  by (simp_all add: take_bit_less flip: take_bit_eq_mask)

lemma bits_less:
  fixes x :: "'a::len word"
  assumes "\<And>k. n \<le> k \<Longrightarrow> \<not> bit x k" and "n < LENGTH('a)"
  shows "x < 2 ^ n"
proof -
  have "x AND mask n = x"
    using assms(1) by (intro bit_word_eqI) (auto simp: bit_simps not_le [symmetric])
  then show ?thesis
    using and_mask_less [OF assms(2), of x] by simp
qed

section \<open>Bytes of wider integers\<close>

text \<open>\<^verbatim>\<open>x >> 8\<close> and \<^verbatim>\<open>x & 0xff\<close>, stored into a \<^verbatim>\<open>__u8\<close>.\<close>

definition hi8 :: "u16 \<Rightarrow> u8" where
  "hi8 x = ucast (drop_bit 8 x)"

definition lo8 :: "u16 \<Rightarrow> u8" where
  "lo8 x = ucast (x AND 0xff)"

text \<open>\<^verbatim>\<open>(a << 8) | b\<close>, stored into a \<^verbatim>\<open>__u16\<close>.\<close>

definition be16 :: "u8 \<Rightarrow> u8 \<Rightarrow> u16" where
  "be16 a b = push_bit 8 (ucast a) OR ucast b"

text \<open>\<^verbatim>\<open>x >> 16\<close>, \<^verbatim>\<open>(x >> 8) & 0xff\<close> and \<^verbatim>\<open>x & 0xff\<close> of a \<^verbatim>\<open>__u32\<close>, and their join.\<close>

definition byte2 :: "u32 \<Rightarrow> u8" where
  "byte2 x = ucast (drop_bit 16 x)"

definition byte1 :: "u32 \<Rightarrow> u8" where
  "byte1 x = ucast (drop_bit 8 x AND 0xff)"

definition byte0 :: "u32 \<Rightarrow> u8" where
  "byte0 x = ucast (x AND 0xff)"

definition be24 :: "u8 \<Rightarrow> u8 \<Rightarrow> u8 \<Rightarrow> u32" where
  "be24 a b c = push_bit 16 (ucast a) OR push_bit 8 (ucast b) OR ucast c"

lemma be16_hi8_lo8 [simp]: "be16 (hi8 x) (lo8 x) = x"
  unfolding be16_def hi8_def lo8_def mask_numerals
  by (rule bit_word_eqI) (auto simp: bit_simps dest: bit_less)

lemma hi8_be16 [simp]: "hi8 (be16 a b) = a"
  unfolding be16_def hi8_def
  by (rule bit_word_eqI) (auto simp: bit_simps dest: bit_less)

lemma lo8_be16 [simp]: "lo8 (be16 a b) = b"
  unfolding be16_def lo8_def mask_numerals
  by (rule bit_word_eqI) (auto simp: bit_simps dest: bit_less)

lemma hi8_less:
  assumes "x < 2 ^ (8 + n)" and "n < 8"
  shows "hi8 x < 2 ^ n"
proof (rule bits_less)
  fix k assume "n \<le> k"
  then show "\<not> bit (hi8 x) k"
    using less_not_bit [OF assms(1), of "8 + k"] assms(2) by (simp add: hi8_def bit_simps)
qed (use assms in simp)

lemma hi8_less_4 [simp]: "x < 1024 \<Longrightarrow> hi8 x < 4"
  using hi8_less [of x 2] by simp

lemma hi8_eq_0_iff: "hi8 x = 0 \<longleftrightarrow> x < 256"
proof
  assume h: "hi8 x = 0"
  have "\<not> bit x k" if "8 \<le> k" for k
  proof
    assume "bit x k"
    then have "bit (hi8 x) (k - 8)"
      using that bit_u16_less [of x k] by (simp add: hi8_def bit_simps)
    then show False by (simp add: h)
  qed
  then have "x < 2 ^ 8" by (rule bits_less) simp_all
  then show "x < 256" by simp
next
  assume "x < 256"
  then have "\<not> bit x k" if "8 \<le> k" for k
    using less_not_bit [of x 8 k] that by simp
  then show "hi8 x = 0"
    by (intro bit_word_eqI) (auto simp: hi8_def bit_simps)
qed

lemma ucast_lo8: "x < 256 \<Longrightarrow> ucast (lo8 x) = x"
  using be16_hi8_lo8 [of x] hi8_eq_0_iff [of x] by (simp add: be16_def)

lemma be24_bytes: "be24 (byte2 x) (byte1 x) (byte0 x) = x AND 0xffffff"
  unfolding be24_def byte2_def byte1_def byte0_def mask_numerals
proof (rule bit_word_eqI)
  fix n assume "n < LENGTH(32)"
  consider "n < 8" | "8 \<le> n" "n < 16" | "16 \<le> n" by linarith
  then show "bit (push_bit 16 (ucast (ucast (drop_bit 16 x) :: u8)) OR
        push_bit 8 (ucast (ucast (drop_bit 8 x AND mask 8) :: u8)) OR
        ucast (ucast (x AND mask 8) :: u8) :: u32) n = bit (x AND mask 24) n"
    by cases (auto simp: bit_simps dest: bit_less)
qed

lemma be24_below [simp]: "x < 2 ^ 24 \<Longrightarrow> be24 (byte2 x) (byte1 x) (byte0 x) = x"
  unfolding be24_bytes mask_numerals by (simp add: take_bit_less flip: take_bit_eq_mask)

text \<open>A byte stored over the low half of a halfword, as a byte-wide member of a union does.\<close>

definition set_lo8 :: "u8 \<Rightarrow> u16 \<Rightarrow> u16" where
  "set_lo8 v w = be16 (hi8 w) v"

lemma set_lo8_simps [simp]: "lo8 (set_lo8 v w) = v" "hi8 (set_lo8 v w) = hi8 w"
  by (simp_all add: set_lo8_def)

text \<open>The upper part of a ten-bit value joined at the wrong shift.\<close>

lemma folded_major:
  assumes "x < 1024" and "256 \<le> x"
  shows "push_bit 6 (ucast (hi8 x)) OR ucast (lo8 x) \<noteq> (x :: u16)"
proof -
  have h: "hi8 x < 4" using assms(1) by simp
  have "\<not> bit (push_bit 6 (ucast (hi8 x)) OR ucast (lo8 x) :: u16) k" if "8 \<le> k" for k
    using less_not_bit [of "hi8 x" 2 "k - 6"] h that by (auto simp: bit_simps dest: bit_less)
  then have "push_bit 6 (ucast (hi8 x)) OR ucast (lo8 x) < (2 ^ 8 :: u16)"
    by (rule bits_less) simp_all
  then show ?thesis using assms(2) by auto
qed

section \<open>Packed decimal\<close>

text \<open>\<^verbatim>\<open>((x / 10) << 4) | (x % 10)\<close> and \<^verbatim>\<open>(b >> 4) * 10 + (b & 0xf)\<close>.\<close>

definition to_bcd :: "u8 \<Rightarrow> u8" where
  "to_bcd x = push_bit 4 (x div 10) OR (x mod 10)"

definition from_bcd :: "u8 \<Rightarrow> u8" where
  "from_bcd b = drop_bit 4 b * 10 + (b AND 0xf)"

lemma from_bcd_to_bcd [simp]:
  assumes "x < 100"
  shows "from_bcd (to_bcd x) = x"
proof -
  have "unat x mod 10 < 16" by (rule less_trans [of _ 10]) auto
  then have r: "x mod 10 < 2 ^ 4" by (simp add: word_less_nat_alt unat_mod)
  have q: "x div 10 < 2 ^ 4" using assms by (simp add: word_less_nat_alt unat_div)
  have "from_bcd (to_bcd x) = take_bit 4 (x div 10) * 10 + x mod 10"
    using field_hi [OF r, of "x div 10"] field_lo [OF r, of "x div 10"]
    unfolding from_bcd_def to_bcd_def mask_numerals by simp
  also have "\<dots> = x" using take_bit_less [OF q] by (simp add: div_mult_mod_eq)
  finally show ?thesis .
qed

section \<open>Reads and writes at constant offsets\<close>

lemma all_less_numeral [wire_simps]:
  "(\<forall>i < numeral k. P i) \<longleftrightarrow> P (pred_numeral k) \<and> (\<forall>i < pred_numeral k. P i)"
  by (metis less_Suc_eq numeral_eq_Suc)

lemma all_less_one [wire_simps]: "(\<forall>i < Suc 0. P i) \<longleftrightarrow> P 0"
  by simp

lemma nth_list_update_len [wire_simps]:
  "length xs = n \<Longrightarrow> i < n \<Longrightarrow> xs[j := x] ! i = (if i = j then x else xs ! i)"
  by (auto simp: nth_list_update)

lemma unat_le_mono: "(a :: 'a::len word) \<le> b \<Longrightarrow> unat a \<le> unat b"
  by (simp add: word_le_nat_alt)

lemma unat_ucast_up:
  "LENGTH('a::len) \<le> LENGTH('b::len) \<Longrightarrow> unat (ucast (x :: 'a word) :: 'b word) = unat x"
  by (simp add: unsigned_ucast_eq take_bit_nat_eq_self less_le_trans [OF unsigned_less])

lemma unat_of_nat8: "n < 256 \<Longrightarrow> unat (of_nat n :: u8) = n"
  by (rule of_nat_inverse) simp_all

lemma unat_of_nat16: "n < 2 ^ 16 \<Longrightarrow> unat (of_nat n :: u16) = n"
  by (rule of_nat_inverse) simp_all

lemma unat_of_nat32: "n < 2 ^ 32 \<Longrightarrow> unat (of_nat n :: u32) = n"
  by (rule of_nat_inverse) simp_all

lemma unat_of_nat64: "n < 2 ^ 64 \<Longrightarrow> unat (of_nat n :: u64) = n"
  by (rule of_nat_inverse) simp_all

section \<open>Rounding to a power of two\<close>

lemma and_not_mask: "x AND NOT (mask n) = push_bit n (drop_bit n (x :: 'a::len word))"
  by (rule bit_word_eqI) (auto simp: bit_simps dest: bit_imp_le_length)

lemma unat_and_not_mask:
  fixes x :: "'a::len word"
  shows "unat (x AND NOT (mask n)) = unat x div 2 ^ n * 2 ^ n"
proof -
  have "unat x div 2 ^ n * 2 ^ n < 2 ^ LENGTH('a)" for x :: "'a word"
    by (rule le_less_trans [OF div_times_less_eq_dividend unsigned_less])
  then show ?thesis
    unfolding and_not_mask unsigned_push_bit_eq unsigned_drop_bit_eq
    by (simp add: push_bit_eq_mult drop_bit_eq_div take_bit_eq_mod)
qed

text \<open>\<^verbatim>\<open>(x + a - 1) & ~(a - 1)\<close> for \<^verbatim>\<open>a\<close> a power of two: the least multiple of \<^verbatim>\<open>a\<close> not below \<^verbatim>\<open>x\<close>.\<close>

definition round_up :: "nat \<Rightarrow> nat \<Rightarrow> nat" where
  "round_up a x = (x + a - 1) div a * a"

lemma round_up:
  assumes "0 < a"
  shows "a dvd round_up a x" and "x \<le> round_up a x" and "round_up a x < x + a"
    and "a dvd y \<Longrightarrow> x \<le> y \<Longrightarrow> round_up a x \<le> y"
proof -
  show "a dvd round_up a x" by (simp add: round_up_def)
  have e: "round_up a x + (x + a - 1) mod a = x + a - 1"
    by (simp add: round_up_def)
  moreover have "(x + a - 1) mod a < a" using assms by simp
  ultimately show "x \<le> round_up a x" and "round_up a x < x + a"
    using assms by linarith+
  assume "a dvd y" "x \<le> y"
  then obtain k where "y = a * k" by blast
  then have "(x + a - 1) div a \<le> (a * k + (a - 1)) div a"
    using \<open>x \<le> y\<close> assms by (intro div_le_mono) simp
  also have "\<dots> = k" using assms by (intro div_nat_eqI) (auto simp: algebra_simps)
  finally show "round_up a x \<le> y"
    using \<open>y = a * k\<close> by (simp add: round_up_def mult.commute)
qed

lemma round_up_offset:
  assumes "0 < a" and "a dvd p"
  shows "round_up a (p + k) = p + round_up a k"
proof -
  obtain q where "p = a * q" using assms(2) by blast
  then have "p + k + a - 1 = (k + a - 1) + q * a"
    using assms(1) \<open>p = a * q\<close> by (simp add: mult.commute)
  then have "(p + k + a - 1) div a = q + (k + a - 1) div a"
    using assms(1) by (simp only: div_mult_self1)
  then show ?thesis
    by (simp add: round_up_def \<open>p = a * q\<close> algebra_simps)
qed

lemma unat_round_up:
  fixes x :: "'a::len word"
  assumes "unat x + 2 ^ n - 1 < 2 ^ LENGTH('a)" and "n < LENGTH('a)"
  shows "unat ((x + (2 ^ n - 1)) AND NOT (2 ^ n - 1)) = round_up (2 ^ n) (unat x)"
proof -
  have "unat (mask n :: 'a word) = nat (uint (mask n :: 'a word))" by simp
  also have "\<dots> = nat (mask n)"
    using assms(2) by (simp add: uint_mask_eq min_def)
  finally have m: "unat (2 ^ n - 1 :: 'a word) = 2 ^ n - 1"
    by (simp add: mask_eq_exp_minus_1 nat_diff_distrib nat_power_eq)
  then have "unat (x + (2 ^ n - 1)) = unat x + 2 ^ n - 1"
    using assms(1) unat_add_lem [of x "2 ^ n - 1"] by simp
  then show ?thesis
    unfolding round_up_def by (simp add: unat_and_not_mask flip: mask_eq_exp_minus_1)
qed

section \<open>Searching an index range\<close>

lemma find_upt_None: "find P [a..<b] = None \<longleftrightarrow> (\<forall>i. a \<le> i \<longrightarrow> i < b \<longrightarrow> \<not> P i)"
  by (auto simp: find_None_iff)

lemma find_upt_Some:
  assumes "find P [a..<b] = Some i"
  shows "a \<le> i" and "i < b" and "P i" and "\<forall>j. a \<le> j \<longrightarrow> j < i \<longrightarrow> \<not> P j"
proof -
  obtain k where k: "k < b - a" "i = a + k" "P i" "\<forall>j < k. \<not> P (a + j)"
    using assms by (auto simp: find_Some_iff)
  then show "a \<le> i" "i < b" "P i" by simp_all
  show "\<forall>j. a \<le> j \<longrightarrow> j < i \<longrightarrow> \<not> P j"
  proof (intro allI impI)
    fix j assume "a \<le> j" "j < i"
    then show "\<not> P j" using k(2) spec [OF k(4), of "j - a"] by simp
  qed
qed

end
