(* ===== verification/Cec_Core.thy ===== *)
theory Cec_Core
  imports Prelude
begin

text \<open>
  The CEC message object of \<^verbatim>\<open>linux/cec.h\<close>: \<^verbatim>\<open>struct cec_msg\<close> as a record, its accessors,
  initialisation, reply addressing and status test, and the interfaces the message
  functions of \<^verbatim>\<open>linux/cec-funcs.h\<close> share.  \<^verbatim>\<open>cec_builder\<close> is the contract of a
  \<^verbatim>\<open>cec_msg_*\<close> function (what it does to the frame and what it leaves alone),
  \<^verbatim>\<open>cec_codec\<close> the contract between a \<^verbatim>\<open>cec_msg_*\<close> function and the \<^verbatim>\<open>cec_ops_*\<close>
  function that reads the operands back on the receiving side.
\<close>

section \<open>The message object\<close>

type_synonym c_int = int

abbreviation (input) CEC_MAX_MSG_SIZE :: nat where
  "CEC_MAX_MSG_SIZE \<equiv> 16"

abbreviation (input) CEC_PHYS_ADDR_INVALID :: u16 where
  "CEC_PHYS_ADDR_INVALID \<equiv> 0xffff"

record cec_msg =
  tx_ts :: u64
  rx_ts :: u64
  len :: u32
  timeout :: u32
  sequence :: u32
  flags :: u32
  msg :: "u8 list"
  reply :: u8
  rx_status :: u8
  tx_status :: u8
  tx_arb_lost_cnt :: u8
  tx_nack_cnt :: u8
  tx_low_drive_cnt :: u8
  tx_error_cnt :: u8

definition cec_msg_initiator :: "cec_msg \<Rightarrow> u8" where
  "cec_msg_initiator m = drop_bit 4 (msg m ! 0)"

definition cec_msg_destination :: "cec_msg \<Rightarrow> u8" where
  "cec_msg_destination m = msg m ! 0 AND 0xf"

definition cec_msg_opcode :: "cec_msg \<Rightarrow> c_int" where
  "cec_msg_opcode m = (if len m > 1 then uint (msg m ! 1) else -1)"

definition cec_msg_is_broadcast :: "cec_msg \<Rightarrow> bool" where
  "cec_msg_is_broadcast m \<longleftrightarrow> (msg m ! 0 AND 0xf) = 0xf"

definition cec_msg_set_reply_to :: "cec_msg \<Rightarrow> cec_msg \<Rightarrow> cec_msg" where
  "cec_msg_set_reply_to m orig =
     m\<lparr>msg := (msg m)[0 := pack8 4 (cec_msg_destination orig) (cec_msg_initiator orig)],
       reply := 0, timeout := 0, flags := 0\<rparr>"

text \<open>A zeroed object, as \<^verbatim>\<open>memset(msg, 0, sizeof(*msg))\<close> leaves it.\<close>

definition cec_zero :: cec_msg where
  "cec_zero =
     \<lparr>tx_ts = 0, rx_ts = 0, len = 0, timeout = 0, sequence = 0, flags = 0,
      msg = replicate CEC_MAX_MSG_SIZE 0,
      reply = 0, rx_status = 0, tx_status = 0, tx_arb_lost_cnt = 0, tx_nack_cnt = 0,
      tx_low_drive_cnt = 0, tx_error_cnt = 0\<rparr>"

definition cec_msg_init :: "cec_msg \<Rightarrow> u8 \<Rightarrow> u8 \<Rightarrow> cec_msg" where
  "cec_msg_init m initiator destination =
     (let m = cec_zero;
          m = m\<lparr>msg := (msg m)[0 := pack8 4 initiator destination]\<rparr>
      in m\<lparr>len := 1\<rparr>)"

subsection \<open>Transfer status\<close>

abbreviation (input) CEC_MSG_FL_REPLY_TO_FOLLOWERS :: u32 where
  "CEC_MSG_FL_REPLY_TO_FOLLOWERS \<equiv> 1"
abbreviation (input) CEC_MSG_FL_RAW :: u32 where "CEC_MSG_FL_RAW \<equiv> 2"

abbreviation (input) CEC_TX_STATUS_OK :: u8 where "CEC_TX_STATUS_OK \<equiv> push_bit 0 1"
abbreviation (input) CEC_TX_STATUS_ARB_LOST :: u8 where "CEC_TX_STATUS_ARB_LOST \<equiv> push_bit 1 1"
abbreviation (input) CEC_TX_STATUS_NACK :: u8 where "CEC_TX_STATUS_NACK \<equiv> push_bit 2 1"
abbreviation (input) CEC_TX_STATUS_LOW_DRIVE :: u8 where "CEC_TX_STATUS_LOW_DRIVE \<equiv> push_bit 3 1"
abbreviation (input) CEC_TX_STATUS_ERROR :: u8 where "CEC_TX_STATUS_ERROR \<equiv> push_bit 4 1"
abbreviation (input) CEC_TX_STATUS_MAX_RETRIES :: u8 where "CEC_TX_STATUS_MAX_RETRIES \<equiv> push_bit 5 1"
abbreviation (input) CEC_TX_STATUS_ABORTED :: u8 where "CEC_TX_STATUS_ABORTED \<equiv> push_bit 6 1"
abbreviation (input) CEC_TX_STATUS_TIMEOUT :: u8 where "CEC_TX_STATUS_TIMEOUT \<equiv> push_bit 7 1"

abbreviation (input) CEC_RX_STATUS_OK :: u8 where "CEC_RX_STATUS_OK \<equiv> push_bit 0 1"
abbreviation (input) CEC_RX_STATUS_TIMEOUT :: u8 where "CEC_RX_STATUS_TIMEOUT \<equiv> push_bit 1 1"
abbreviation (input) CEC_RX_STATUS_FEATURE_ABORT :: u8 where "CEC_RX_STATUS_FEATURE_ABORT \<equiv> push_bit 2 1"
abbreviation (input) CEC_RX_STATUS_ABORTED :: u8 where "CEC_RX_STATUS_ABORTED \<equiv> push_bit 3 1"

definition cec_msg_status_is_ok :: "cec_msg \<Rightarrow> bool" where
  "cec_msg_status_is_ok m =
     (if tx_status m \<noteq> 0 \<and> tx_status m AND CEC_TX_STATUS_OK = 0 then False
      else if rx_status m \<noteq> 0 \<and> rx_status m AND CEC_RX_STATUS_OK = 0 then False
      else if tx_status m = 0 \<and> rx_status m = 0 then False
      else rx_status m AND CEC_RX_STATUS_FEATURE_ABORT = 0)"

section \<open>Well-formed messages and frames\<close>

text \<open>
  The payload array has exactly sixteen bytes; a message that can be sent has between one
  (a poll) and sixteen of them on the wire.
\<close>

definition cec_buf :: "cec_msg \<Rightarrow> bool" where
  "cec_buf m \<longleftrightarrow> length (msg m) = CEC_MAX_MSG_SIZE"

definition cec_wf :: "cec_msg \<Rightarrow> bool" where
  "cec_wf m \<longleftrightarrow> cec_buf m \<and> 1 \<le> len m \<and> len m \<le> 16"

text \<open>What a transmission carries, and its arrival in a receiver's message object.\<close>

definition cec_frame :: "cec_msg \<Rightarrow> u8 list" where
  "cec_frame m = take (unat (len m)) (msg m)"

definition cec_receive :: "u8 list \<Rightarrow> cec_msg \<Rightarrow> cec_msg" where
  "cec_receive bs r = r\<lparr>len := word_of_nat (length bs), msg := bs @ drop (length bs) (msg r)\<rparr>"

text \<open>Everything but the frame and the expected reply opcode.\<close>

definition cec_meta :: "cec_msg \<Rightarrow> (u64 \<times> u64) \<times> (u32 \<times> u32 \<times> u32) \<times> (u8 \<times> u8 \<times> u8 \<times> u8 \<times> u8 \<times> u8)" where
  "cec_meta m = ((tx_ts m, rx_ts m), (timeout m, sequence m, flags m),
     (rx_status m, tx_status m, tx_arb_lost_cnt m, tx_nack_cnt m, tx_low_drive_cnt m,
      tx_error_cnt m))"

lemma cec_buf_zero [simp]: "cec_buf cec_zero"
  by (simp add: cec_buf_def cec_zero_def)

lemma cec_wf_init [simp]: "cec_wf (cec_msg_init m i d)"
  by (simp add: cec_msg_init_def cec_wf_def cec_buf_def cec_zero_def)

lemma init_addr:
  "i < 16 \<Longrightarrow> d < 16 \<Longrightarrow> cec_msg_initiator (cec_msg_init m i d) = i"
  "d < 16 \<Longrightarrow> cec_msg_destination (cec_msg_init m i d) = d"
  by (simp_all add: cec_msg_init_def cec_zero_def cec_msg_initiator_def cec_msg_destination_def)

lemma cec_wf_buf: "cec_wf m \<Longrightarrow> cec_buf m"
  by (simp add: cec_wf_def)

lemma cec_wf_len: "cec_wf m \<Longrightarrow> unat (len m) \<le> 16"
  using unat_le_mono [of "len m" 16] by (simp add: cec_wf_def)

lemma length_cec_frame: "cec_wf m \<Longrightarrow> length (cec_frame m) = unat (len m)"
  using cec_wf_len [of m] by (simp add: cec_frame_def cec_wf_def cec_buf_def)

lemma cec_buf_receive: "cec_buf r \<Longrightarrow> length bs \<le> 16 \<Longrightarrow> cec_buf (cec_receive bs r)"
  by (simp add: cec_receive_def cec_buf_def)

lemma cec_frame_receive:
  assumes "cec_wf m" and "cec_buf r"
  shows "cec_frame (cec_receive (cec_frame m) r) = cec_frame m"
    and "len (cec_receive (cec_frame m) r) = len m"
    and "cec_wf (cec_receive (cec_frame m) r)"
  using assms cec_wf_len [OF assms(1)] length_cec_frame [OF assms(1)]
  by (auto simp: cec_receive_def cec_wf_def cec_buf_def cec_frame_def)

lemma cec_frame_eq_nth:
  assumes "cec_frame r = cec_frame m" and "cec_wf r" and "cec_wf m"
  shows "len r = len m" and "\<forall>i < unat (len m). msg r ! i = msg m ! i"
proof -
  have "unat (len r) = unat (len m)"
    using length_cec_frame [OF assms(2)] length_cec_frame [OF assms(3)] assms(1) by simp
  then show l: "len r = len m" by (rule unsigned_word_eqI)
  show "\<forall>i < unat (len m). msg r ! i = msg m ! i"
    using assms(1) l unfolding cec_frame_def by (metis nth_take)
qed

lemma cec_frame_eqI:
  assumes "len r = len m" and "\<forall>i < unat (len m). msg r ! i = msg m ! i"
    and "cec_buf r" and "cec_buf m"
  shows "cec_frame r = cec_frame m"
  using assms by (auto simp: cec_frame_def cec_buf_def intro!: nth_take_lemma nth_equalityI)

text \<open>The expected reply is not part of the frame.\<close>

lemma frame_of_reply [simp]:
  "cec_frame (m\<lparr>reply := x\<rparr>) = cec_frame m" "cec_wf (m\<lparr>reply := x\<rparr>) = cec_wf m"
  "cec_buf (m\<lparr>reply := x\<rparr>) = cec_buf m" "cec_msg_opcode (m\<lparr>reply := x\<rparr>) = cec_msg_opcode m"
  "cec_msg_initiator (m\<lparr>reply := x\<rparr>) = cec_msg_initiator m"
  "cec_msg_destination (m\<lparr>reply := x\<rparr>) = cec_msg_destination m"
  by (simp_all add: cec_frame_def cec_wf_def cec_buf_def cec_msg_opcode_def
      cec_msg_initiator_def cec_msg_destination_def)

section \<open>The contract of a message builder\<close>

text \<open>What a call of a builder with opcode \<open>opc\<close> turns a message into.\<close>

definition cec_sent :: "u8 \<Rightarrow> bool \<Rightarrow> cec_msg \<Rightarrow> cec_msg \<Rightarrow> bool" where
  "cec_sent opc bcast m m' \<longleftrightarrow>
     cec_wf m' \<and> 2 \<le> len m' \<and> cec_msg_opcode m' = uint opc \<and>
     cec_msg_initiator m' = cec_msg_initiator m \<and>
     (if bcast then cec_msg_is_broadcast m'
      else cec_msg_destination m' = cec_msg_destination m) \<and>
     cec_meta m' = cec_meta m"

lemma cec_sent_reply [simp]: "cec_sent opc bcast m (m'\<lparr>reply := x\<rparr>) = cec_sent opc bcast m m'"
  by (simp add: cec_sent_def cec_msg_is_broadcast_def cec_meta_def)

text \<open>
  Every \<^verbatim>\<open>cec_msg_<name>\<close> function writes the length, the opcode byte and the operands of
  one message, either keeps the destination or forces it to broadcast, may set the
  expected reply, and touches nothing else.
\<close>

locale cec_builder =
  fixes build :: "cec_msg \<Rightarrow> cec_msg" and opc :: u8 and bcast :: bool
  assumes build_buf: "cec_buf m \<Longrightarrow> cec_buf (build m)"
    and build_len: "cec_buf m \<Longrightarrow> 2 \<le> len (build m) \<and> len (build m) \<le> 16"
    and build_addr: "cec_buf m \<Longrightarrow>
      msg (build m) ! 0 = (if bcast then msg m ! 0 OR 0xf else msg m ! 0)"
    and build_opcode: "cec_buf m \<Longrightarrow> msg (build m) ! 1 = opc"
    and build_meta: "cec_buf m \<Longrightarrow> cec_meta (build m) = cec_meta m"
begin

lemma build_wf: "cec_buf m \<Longrightarrow> cec_wf (build m)"
  using build_buf [of m] build_len [of m]
  by (auto simp: cec_wf_def intro: order_trans [of 1 2])

lemma opcode_of_build: "cec_buf m \<Longrightarrow> cec_msg_opcode (build m) = uint opc"
  using build_len [of m] build_opcode [of m] order_less_le_trans [of 1 2 "len (build m)"]
  by (simp add: cec_msg_opcode_def)

lemma initiator_of_build: "cec_buf m \<Longrightarrow> cec_msg_initiator (build m) = cec_msg_initiator m"
  using build_addr [of m] unfolding cec_msg_initiator_def mask_numerals
  by (simp add: drop_bit_mask_same)

lemma destination_of_build:
  "cec_buf m \<Longrightarrow> \<not> bcast \<Longrightarrow> cec_msg_destination (build m) = cec_msg_destination m"
  using build_addr [of m] by (simp add: cec_msg_destination_def)

lemma broadcast_of_build: "cec_buf m \<Longrightarrow> bcast \<Longrightarrow> cec_msg_is_broadcast (build m)"
  using build_addr [of m] by (simp add: cec_msg_is_broadcast_def bit.conj_disj_distrib2)

lemma build_sent: "cec_buf m \<Longrightarrow> cec_sent opc bcast m (build m)"
  using build_wf [of m] build_len [of m] opcode_of_build [of m] initiator_of_build [of m]
    destination_of_build [of m] broadcast_of_build [of m] build_meta [of m]
  by (simp add: cec_sent_def)

end

text \<open>A builder that leaves the unused end of the payload array alone.\<close>

locale cec_tight_builder = cec_builder +
  assumes build_tail: "cec_buf m \<Longrightarrow> unat (len (build m)) \<le> i \<Longrightarrow> i < CEC_MAX_MSG_SIZE \<Longrightarrow>
      msg (build m) ! i = msg m ! i"

section \<open>The contract between a builder and its operand reader\<close>

text \<open>
  \<^verbatim>\<open>send a\<close> writes operands \<^verbatim>\<open>a\<close>; \<^verbatim>\<open>parse\<close> reads them back from any message whose
  frame is the one sent, whatever lies in the receiver's buffer behind it.  \<^verbatim>\<open>view\<close> is
  what the operands mean (a C structure with a union has members that mean nothing, a
  string is cut at the frame's end), \<^verbatim>\<open>ok\<close> which operands fit their fields.
\<close>

locale cec_codec =
  fixes send :: "'a \<Rightarrow> cec_msg \<Rightarrow> cec_msg" and opc :: u8 and bcast :: bool
    and parse :: "cec_msg \<Rightarrow> 'b" and view :: "'a \<Rightarrow> 'b" and ok :: "'a \<Rightarrow> bool"
  assumes send_builder: "cec_builder (send a) opc bcast"
    and parse_frame: "ok a \<Longrightarrow> cec_buf m \<Longrightarrow> cec_buf r \<Longrightarrow> len r = len (send a m) \<Longrightarrow>
      \<forall>i < unat (len (send a m)). msg r ! i = msg (send a m) ! i \<Longrightarrow> parse r = view a"
begin

lemma send_wf: "cec_buf m \<Longrightarrow> cec_wf (send a m)"
  by (rule cec_builder.build_wf [OF send_builder])

lemma parse_same_frame:
  assumes "ok a" and "cec_buf m" and "cec_wf r" and "cec_frame r = cec_frame (send a m)"
  shows "parse r = view a"
  using assms cec_frame_eq_nth [OF assms(4,3) send_wf [OF assms(2)]]
  by (auto intro!: parse_frame simp: cec_wf_def)

lemma parse_send: "ok a \<Longrightarrow> cec_buf m \<Longrightarrow> parse (send a m) = view a"
  by (rule parse_same_frame) (auto simp: send_wf)

lemma parse_receive:
  assumes "ok a" and "cec_buf m" and "cec_buf r"
  shows "parse (cec_receive (cec_frame (send a m)) r) = view a"
  using assms cec_frame_receive [OF send_wf [OF assms(2)] assms(3)]
  by (auto intro: parse_same_frame)

lemma send_inject:
  assumes "ok a" and "ok b" and "cec_buf m" and "cec_buf n"
    and "cec_frame (send a m) = cec_frame (send b n)"
  shows "view a = view b"
  using parse_same_frame [OF assms(2,4) send_wf [OF assms(3)] assms(5)]
    parse_send [OF assms(1,3)] by simp

end

sublocale cec_codec \<subseteq> sent: cec_builder "send a" opc bcast for a
  by (rule send_builder)

locale cec_tight_codec = cec_codec +
  assumes send_tail: "cec_buf m \<Longrightarrow> unat (len (send a m)) \<le> i \<Longrightarrow> i < CEC_MAX_MSG_SIZE \<Longrightarrow>
      msg (send a m) ! i = msg m ! i"

sublocale cec_tight_codec \<subseteq> sent: cec_tight_builder "send a" opc bcast for a
  by unfold_locales (rule send_tail)

lemma cec_tight_codecI:
  assumes "\<And>a. cec_tight_builder (send a) opc bcast"
    and "\<And>a m r. ok a \<Longrightarrow> cec_buf m \<Longrightarrow> cec_buf r \<Longrightarrow> len r = len (send a m) \<Longrightarrow>
      \<forall>i < unat (len (send a m)). msg r ! i = msg (send a m) ! i \<Longrightarrow> parse r = view a"
  shows "cec_tight_codec send opc bcast parse view ok"
proof (intro cec_tight_codec.intro cec_codec.intro cec_tight_codec_axioms.intro)
  show "cec_builder (send a) opc bcast" for a
    using assms(1) by (rule cec_tight_builder.axioms(1))
  show "msg (send a m) ! i = msg m ! i"
    if "cec_buf m" "unat (len (send a m)) \<le> i" "i < 16" for m a i
    using assms(1) that by (rule cec_tight_builder.build_tail)
qed (rule assms(2))

section \<open>Messages that ask for an answer\<close>

text \<open>
  \<^verbatim>\<open>rep\<close> is the \<^verbatim>\<open>int reply\<close> argument: nonzero makes the transmission wait for the opcode
  \<^verbatim>\<open>answer\<close>, zero clears the expectation.
\<close>

locale cec_request =
  fixes ask :: "c_int \<Rightarrow> cec_msg \<Rightarrow> cec_msg" and opc :: u8 and bcast :: bool and answer :: u8
  assumes ask_builder: "cec_tight_builder (ask rep) opc bcast"
    and ask_reply: "reply (ask rep m) = (if rep \<noteq> 0 then answer else 0)"
begin

lemma asks_for: "answer \<noteq> 0 \<Longrightarrow> reply (ask rep m) = answer \<longleftrightarrow> rep \<noteq> 0"
  by (simp add: ask_reply)

text \<open>Asking again replaces the earlier expectation.\<close>

lemma ask_again: "reply (ask rep (ask rep' m)) = reply (ask rep m)"
  by (simp add: ask_reply)

end

sublocale cec_request \<subseteq> asked: cec_tight_builder "ask rep" opc bcast for rep
  by (rule ask_builder)

lemmas cec_contract_simps [wire_simps] = cec_buf_def cec_meta_def

section \<open>Properties\<close>

lemma u8_flag: "(w :: u8) AND push_bit n 1 = 0 \<longleftrightarrow> \<not> bit w n"
  by (simp add: bit_iff_and_push_bit_not_eq_0)

text \<open>A message's status is fine exactly when it was transmitted or received, each of the two
  that happened has its OK bit, and what was received is not a Feature Abort.\<close>

lemma status_is_ok_meaning:
  "cec_msg_status_is_ok m \<longleftrightarrow>
     (tx_status m \<noteq> 0 \<or> rx_status m \<noteq> 0) \<and>
     (tx_status m = 0 \<or> bit (tx_status m) 0) \<and> (rx_status m = 0 \<or> bit (rx_status m) 0) \<and>
     \<not> bit (rx_status m) 2"
  unfolding cec_msg_status_is_ok_def u8_flag by auto

end
