(* ===== verification/Cec_Opcodes.thy ===== *)
theory Cec_Opcodes
  imports Prelude
begin

text \<open>
  The constants of \<^verbatim>\<open>linux/cec.h\<close>: the message opcodes with the feature that owns each,
  the opcodes of the capability discovery messages, the operand values the message
  functions test, and the table of the values listed for every operand, under the
  argument name the header gives it.
\<close>

section \<open>Message opcodes\<close>


subsection \<open>One Touch Play Feature\<close>

abbreviation (input) CEC_MSG_ACTIVE_SOURCE :: u8 where "CEC_MSG_ACTIVE_SOURCE \<equiv> 0x82"
abbreviation (input) CEC_MSG_IMAGE_VIEW_ON :: u8 where "CEC_MSG_IMAGE_VIEW_ON \<equiv> 0x04"
abbreviation (input) CEC_MSG_TEXT_VIEW_ON :: u8 where "CEC_MSG_TEXT_VIEW_ON \<equiv> 0x0d"

subsection \<open>Routing Control Feature\<close>

abbreviation (input) CEC_MSG_INACTIVE_SOURCE :: u8 where "CEC_MSG_INACTIVE_SOURCE \<equiv> 0x9d"
abbreviation (input) CEC_MSG_REQUEST_ACTIVE_SOURCE :: u8 where "CEC_MSG_REQUEST_ACTIVE_SOURCE \<equiv> 0x85"
abbreviation (input) CEC_MSG_ROUTING_CHANGE :: u8 where "CEC_MSG_ROUTING_CHANGE \<equiv> 0x80"
abbreviation (input) CEC_MSG_ROUTING_INFORMATION :: u8 where "CEC_MSG_ROUTING_INFORMATION \<equiv> 0x81"
abbreviation (input) CEC_MSG_SET_STREAM_PATH :: u8 where "CEC_MSG_SET_STREAM_PATH \<equiv> 0x86"

subsection \<open>Standby Feature\<close>

abbreviation (input) CEC_MSG_STANDBY :: u8 where "CEC_MSG_STANDBY \<equiv> 0x36"

subsection \<open>One Touch Record Feature\<close>

abbreviation (input) CEC_MSG_RECORD_OFF :: u8 where "CEC_MSG_RECORD_OFF \<equiv> 0x0b"
abbreviation (input) CEC_MSG_RECORD_ON :: u8 where "CEC_MSG_RECORD_ON \<equiv> 0x09"
abbreviation (input) CEC_MSG_RECORD_STATUS :: u8 where "CEC_MSG_RECORD_STATUS \<equiv> 0x0a"
abbreviation (input) CEC_MSG_RECORD_TV_SCREEN :: u8 where "CEC_MSG_RECORD_TV_SCREEN \<equiv> 0x0f"

subsection \<open>Timer Programming Feature\<close>

abbreviation (input) CEC_MSG_CLEAR_ANALOGUE_TIMER :: u8 where "CEC_MSG_CLEAR_ANALOGUE_TIMER \<equiv> 0x33"
abbreviation (input) CEC_MSG_CLEAR_DIGITAL_TIMER :: u8 where "CEC_MSG_CLEAR_DIGITAL_TIMER \<equiv> 0x99"
abbreviation (input) CEC_MSG_CLEAR_EXT_TIMER :: u8 where "CEC_MSG_CLEAR_EXT_TIMER \<equiv> 0xa1"
abbreviation (input) CEC_MSG_SET_ANALOGUE_TIMER :: u8 where "CEC_MSG_SET_ANALOGUE_TIMER \<equiv> 0x34"
abbreviation (input) CEC_MSG_SET_DIGITAL_TIMER :: u8 where "CEC_MSG_SET_DIGITAL_TIMER \<equiv> 0x97"
abbreviation (input) CEC_MSG_SET_EXT_TIMER :: u8 where "CEC_MSG_SET_EXT_TIMER \<equiv> 0xa2"
abbreviation (input) CEC_MSG_SET_TIMER_PROGRAM_TITLE :: u8 where "CEC_MSG_SET_TIMER_PROGRAM_TITLE \<equiv> 0x67"
abbreviation (input) CEC_MSG_TIMER_CLEARED_STATUS :: u8 where "CEC_MSG_TIMER_CLEARED_STATUS \<equiv> 0x43"
abbreviation (input) CEC_MSG_TIMER_STATUS :: u8 where "CEC_MSG_TIMER_STATUS \<equiv> 0x35"

subsection \<open>System Information Feature\<close>

abbreviation (input) CEC_MSG_CEC_VERSION :: u8 where "CEC_MSG_CEC_VERSION \<equiv> 0x9e"
abbreviation (input) CEC_MSG_GET_CEC_VERSION :: u8 where "CEC_MSG_GET_CEC_VERSION \<equiv> 0x9f"
abbreviation (input) CEC_MSG_GIVE_PHYSICAL_ADDR :: u8 where "CEC_MSG_GIVE_PHYSICAL_ADDR \<equiv> 0x83"
abbreviation (input) CEC_MSG_GET_MENU_LANGUAGE :: u8 where "CEC_MSG_GET_MENU_LANGUAGE \<equiv> 0x91"
abbreviation (input) CEC_MSG_REPORT_PHYSICAL_ADDR :: u8 where "CEC_MSG_REPORT_PHYSICAL_ADDR \<equiv> 0x84"
abbreviation (input) CEC_MSG_SET_MENU_LANGUAGE :: u8 where "CEC_MSG_SET_MENU_LANGUAGE \<equiv> 0x32"
abbreviation (input) CEC_MSG_REPORT_FEATURES :: u8 where "CEC_MSG_REPORT_FEATURES \<equiv> 0xa6"
abbreviation (input) CEC_MSG_GIVE_FEATURES :: u8 where "CEC_MSG_GIVE_FEATURES \<equiv> 0xa5"

subsection \<open>Deck Control Feature\<close>

abbreviation (input) CEC_MSG_DECK_CONTROL :: u8 where "CEC_MSG_DECK_CONTROL \<equiv> 0x42"
abbreviation (input) CEC_MSG_DECK_STATUS :: u8 where "CEC_MSG_DECK_STATUS \<equiv> 0x1b"
abbreviation (input) CEC_MSG_GIVE_DECK_STATUS :: u8 where "CEC_MSG_GIVE_DECK_STATUS \<equiv> 0x1a"
abbreviation (input) CEC_MSG_PLAY :: u8 where "CEC_MSG_PLAY \<equiv> 0x41"

subsection \<open>Tuner Control Feature\<close>

abbreviation (input) CEC_MSG_GIVE_TUNER_DEVICE_STATUS :: u8 where "CEC_MSG_GIVE_TUNER_DEVICE_STATUS \<equiv> 0x08"
abbreviation (input) CEC_MSG_SELECT_ANALOGUE_SERVICE :: u8 where "CEC_MSG_SELECT_ANALOGUE_SERVICE \<equiv> 0x92"
abbreviation (input) CEC_MSG_SELECT_DIGITAL_SERVICE :: u8 where "CEC_MSG_SELECT_DIGITAL_SERVICE \<equiv> 0x93"
abbreviation (input) CEC_MSG_TUNER_DEVICE_STATUS :: u8 where "CEC_MSG_TUNER_DEVICE_STATUS \<equiv> 0x07"
abbreviation (input) CEC_MSG_TUNER_STEP_DECREMENT :: u8 where "CEC_MSG_TUNER_STEP_DECREMENT \<equiv> 0x06"
abbreviation (input) CEC_MSG_TUNER_STEP_INCREMENT :: u8 where "CEC_MSG_TUNER_STEP_INCREMENT \<equiv> 0x05"

subsection \<open>Vendor Specific Commands Feature\<close>

abbreviation (input) CEC_MSG_DEVICE_VENDOR_ID :: u8 where "CEC_MSG_DEVICE_VENDOR_ID \<equiv> 0x87"
abbreviation (input) CEC_MSG_GIVE_DEVICE_VENDOR_ID :: u8 where "CEC_MSG_GIVE_DEVICE_VENDOR_ID \<equiv> 0x8c"
abbreviation (input) CEC_MSG_VENDOR_COMMAND :: u8 where "CEC_MSG_VENDOR_COMMAND \<equiv> 0x89"
abbreviation (input) CEC_MSG_VENDOR_COMMAND_WITH_ID :: u8 where "CEC_MSG_VENDOR_COMMAND_WITH_ID \<equiv> 0xa0"
abbreviation (input) CEC_MSG_VENDOR_REMOTE_BUTTON_DOWN :: u8 where "CEC_MSG_VENDOR_REMOTE_BUTTON_DOWN \<equiv> 0x8a"
abbreviation (input) CEC_MSG_VENDOR_REMOTE_BUTTON_UP :: u8 where "CEC_MSG_VENDOR_REMOTE_BUTTON_UP \<equiv> 0x8b"

subsection \<open>OSD Display Feature\<close>

abbreviation (input) CEC_MSG_SET_OSD_STRING :: u8 where "CEC_MSG_SET_OSD_STRING \<equiv> 0x64"

subsection \<open>Device OSD Transfer Feature\<close>

abbreviation (input) CEC_MSG_GIVE_OSD_NAME :: u8 where "CEC_MSG_GIVE_OSD_NAME \<equiv> 0x46"
abbreviation (input) CEC_MSG_SET_OSD_NAME :: u8 where "CEC_MSG_SET_OSD_NAME \<equiv> 0x47"

subsection \<open>Device Menu Control Feature\<close>

abbreviation (input) CEC_MSG_MENU_REQUEST :: u8 where "CEC_MSG_MENU_REQUEST \<equiv> 0x8d"
abbreviation (input) CEC_MSG_MENU_STATUS :: u8 where "CEC_MSG_MENU_STATUS \<equiv> 0x8e"
abbreviation (input) CEC_MSG_USER_CONTROL_PRESSED :: u8 where "CEC_MSG_USER_CONTROL_PRESSED \<equiv> 0x44"
abbreviation (input) CEC_MSG_USER_CONTROL_RELEASED :: u8 where "CEC_MSG_USER_CONTROL_RELEASED \<equiv> 0x45"

subsection \<open>Remote Control Passthrough Feature\<close>


subsection \<open>Power Status Feature\<close>

abbreviation (input) CEC_MSG_GIVE_DEVICE_POWER_STATUS :: u8 where "CEC_MSG_GIVE_DEVICE_POWER_STATUS \<equiv> 0x8f"
abbreviation (input) CEC_MSG_REPORT_POWER_STATUS :: u8 where "CEC_MSG_REPORT_POWER_STATUS \<equiv> 0x90"

subsection \<open>General Protocol Messages\<close>

abbreviation (input) CEC_MSG_FEATURE_ABORT :: u8 where "CEC_MSG_FEATURE_ABORT \<equiv> 0x00"
abbreviation (input) CEC_MSG_ABORT :: u8 where "CEC_MSG_ABORT \<equiv> 0xff"

subsection \<open>System Audio Control Feature\<close>

abbreviation (input) CEC_MSG_GIVE_AUDIO_STATUS :: u8 where "CEC_MSG_GIVE_AUDIO_STATUS \<equiv> 0x71"
abbreviation (input) CEC_MSG_GIVE_SYSTEM_AUDIO_MODE_STATUS :: u8 where "CEC_MSG_GIVE_SYSTEM_AUDIO_MODE_STATUS \<equiv> 0x7d"
abbreviation (input) CEC_MSG_REPORT_AUDIO_STATUS :: u8 where "CEC_MSG_REPORT_AUDIO_STATUS \<equiv> 0x7a"
abbreviation (input) CEC_MSG_REPORT_SHORT_AUDIO_DESCRIPTOR :: u8 where "CEC_MSG_REPORT_SHORT_AUDIO_DESCRIPTOR \<equiv> 0xa3"
abbreviation (input) CEC_MSG_REQUEST_SHORT_AUDIO_DESCRIPTOR :: u8 where "CEC_MSG_REQUEST_SHORT_AUDIO_DESCRIPTOR \<equiv> 0xa4"
abbreviation (input) CEC_MSG_SET_SYSTEM_AUDIO_MODE :: u8 where "CEC_MSG_SET_SYSTEM_AUDIO_MODE \<equiv> 0x72"
abbreviation (input) CEC_MSG_SYSTEM_AUDIO_MODE_REQUEST :: u8 where "CEC_MSG_SYSTEM_AUDIO_MODE_REQUEST \<equiv> 0x70"
abbreviation (input) CEC_MSG_SYSTEM_AUDIO_MODE_STATUS :: u8 where "CEC_MSG_SYSTEM_AUDIO_MODE_STATUS \<equiv> 0x7e"

subsection \<open>Audio Rate Control Feature\<close>

abbreviation (input) CEC_MSG_SET_AUDIO_RATE :: u8 where "CEC_MSG_SET_AUDIO_RATE \<equiv> 0x9a"

subsection \<open>Audio Return Channel Control Feature\<close>

abbreviation (input) CEC_MSG_INITIATE_ARC :: u8 where "CEC_MSG_INITIATE_ARC \<equiv> 0xc0"
abbreviation (input) CEC_MSG_REPORT_ARC_INITIATED :: u8 where "CEC_MSG_REPORT_ARC_INITIATED \<equiv> 0xc1"
abbreviation (input) CEC_MSG_REPORT_ARC_TERMINATED :: u8 where "CEC_MSG_REPORT_ARC_TERMINATED \<equiv> 0xc2"
abbreviation (input) CEC_MSG_REQUEST_ARC_INITIATION :: u8 where "CEC_MSG_REQUEST_ARC_INITIATION \<equiv> 0xc3"
abbreviation (input) CEC_MSG_REQUEST_ARC_TERMINATION :: u8 where "CEC_MSG_REQUEST_ARC_TERMINATION \<equiv> 0xc4"
abbreviation (input) CEC_MSG_TERMINATE_ARC :: u8 where "CEC_MSG_TERMINATE_ARC \<equiv> 0xc5"

subsection \<open>Dynamic Audio Lipsync Feature\<close>

abbreviation (input) CEC_MSG_REQUEST_CURRENT_LATENCY :: u8 where "CEC_MSG_REQUEST_CURRENT_LATENCY \<equiv> 0xa7"
abbreviation (input) CEC_MSG_REPORT_CURRENT_LATENCY :: u8 where "CEC_MSG_REPORT_CURRENT_LATENCY \<equiv> 0xa8"

subsection \<open>Capability Discovery and Control Feature\<close>

abbreviation (input) CEC_MSG_CDC_MESSAGE :: u8 where "CEC_MSG_CDC_MESSAGE \<equiv> 0xf8"
abbreviation (input) CEC_MSG_CDC_HEC_INQUIRE_STATE :: u8 where "CEC_MSG_CDC_HEC_INQUIRE_STATE \<equiv> 0x00"
abbreviation (input) CEC_MSG_CDC_HEC_REPORT_STATE :: u8 where "CEC_MSG_CDC_HEC_REPORT_STATE \<equiv> 0x01"
abbreviation (input) CEC_MSG_CDC_HEC_SET_STATE_ADJACENT :: u8 where "CEC_MSG_CDC_HEC_SET_STATE_ADJACENT \<equiv> 0x02"
abbreviation (input) CEC_MSG_CDC_HEC_SET_STATE :: u8 where "CEC_MSG_CDC_HEC_SET_STATE \<equiv> 0x03"
abbreviation (input) CEC_MSG_CDC_HEC_REQUEST_DEACTIVATION :: u8 where "CEC_MSG_CDC_HEC_REQUEST_DEACTIVATION \<equiv> 0x04"
abbreviation (input) CEC_MSG_CDC_HEC_NOTIFY_ALIVE :: u8 where "CEC_MSG_CDC_HEC_NOTIFY_ALIVE \<equiv> 0x05"
abbreviation (input) CEC_MSG_CDC_HEC_DISCOVER :: u8 where "CEC_MSG_CDC_HEC_DISCOVER \<equiv> 0x06"

subsection \<open>Hotplug Detect messages\<close>

abbreviation (input) CEC_MSG_CDC_HPD_SET_STATE :: u8 where "CEC_MSG_CDC_HPD_SET_STATE \<equiv> 0x10"
abbreviation (input) CEC_MSG_CDC_HPD_REPORT_STATE :: u8 where "CEC_MSG_CDC_HPD_REPORT_STATE \<equiv> 0x11"

text \<open>End of Messages\<close>


text \<open>All top-level opcodes, and all second-level ones of \<^verbatim>\<open>CEC_MSG_CDC_MESSAGE\<close>.\<close>

definition cec_opcodes :: "u8 list" where
  "cec_opcodes =
    [CEC_MSG_ACTIVE_SOURCE, CEC_MSG_IMAGE_VIEW_ON, CEC_MSG_TEXT_VIEW_ON,
     CEC_MSG_INACTIVE_SOURCE, CEC_MSG_REQUEST_ACTIVE_SOURCE, CEC_MSG_ROUTING_CHANGE,
     CEC_MSG_ROUTING_INFORMATION, CEC_MSG_SET_STREAM_PATH, CEC_MSG_STANDBY,
     CEC_MSG_RECORD_OFF, CEC_MSG_RECORD_ON, CEC_MSG_RECORD_STATUS,
     CEC_MSG_RECORD_TV_SCREEN, CEC_MSG_CLEAR_ANALOGUE_TIMER, CEC_MSG_CLEAR_DIGITAL_TIMER,
     CEC_MSG_CLEAR_EXT_TIMER, CEC_MSG_SET_ANALOGUE_TIMER, CEC_MSG_SET_DIGITAL_TIMER,
     CEC_MSG_SET_EXT_TIMER, CEC_MSG_SET_TIMER_PROGRAM_TITLE, CEC_MSG_TIMER_CLEARED_STATUS,
     CEC_MSG_TIMER_STATUS, CEC_MSG_CEC_VERSION, CEC_MSG_GET_CEC_VERSION,
     CEC_MSG_GIVE_PHYSICAL_ADDR, CEC_MSG_GET_MENU_LANGUAGE, CEC_MSG_REPORT_PHYSICAL_ADDR,
     CEC_MSG_SET_MENU_LANGUAGE, CEC_MSG_REPORT_FEATURES, CEC_MSG_GIVE_FEATURES,
     CEC_MSG_DECK_CONTROL, CEC_MSG_DECK_STATUS, CEC_MSG_GIVE_DECK_STATUS, CEC_MSG_PLAY,
     CEC_MSG_GIVE_TUNER_DEVICE_STATUS, CEC_MSG_SELECT_ANALOGUE_SERVICE,
     CEC_MSG_SELECT_DIGITAL_SERVICE, CEC_MSG_TUNER_DEVICE_STATUS,
     CEC_MSG_TUNER_STEP_DECREMENT, CEC_MSG_TUNER_STEP_INCREMENT, CEC_MSG_DEVICE_VENDOR_ID,
     CEC_MSG_GIVE_DEVICE_VENDOR_ID, CEC_MSG_VENDOR_COMMAND, CEC_MSG_VENDOR_COMMAND_WITH_ID,
     CEC_MSG_VENDOR_REMOTE_BUTTON_DOWN, CEC_MSG_VENDOR_REMOTE_BUTTON_UP,
     CEC_MSG_SET_OSD_STRING, CEC_MSG_GIVE_OSD_NAME, CEC_MSG_SET_OSD_NAME,
     CEC_MSG_MENU_REQUEST, CEC_MSG_MENU_STATUS, CEC_MSG_USER_CONTROL_PRESSED,
     CEC_MSG_USER_CONTROL_RELEASED, CEC_MSG_GIVE_DEVICE_POWER_STATUS,
     CEC_MSG_REPORT_POWER_STATUS, CEC_MSG_FEATURE_ABORT, CEC_MSG_ABORT,
     CEC_MSG_GIVE_AUDIO_STATUS, CEC_MSG_GIVE_SYSTEM_AUDIO_MODE_STATUS,
     CEC_MSG_REPORT_AUDIO_STATUS, CEC_MSG_REPORT_SHORT_AUDIO_DESCRIPTOR,
     CEC_MSG_REQUEST_SHORT_AUDIO_DESCRIPTOR, CEC_MSG_SET_SYSTEM_AUDIO_MODE,
     CEC_MSG_SYSTEM_AUDIO_MODE_REQUEST, CEC_MSG_SYSTEM_AUDIO_MODE_STATUS,
     CEC_MSG_SET_AUDIO_RATE, CEC_MSG_INITIATE_ARC, CEC_MSG_REPORT_ARC_INITIATED,
     CEC_MSG_REPORT_ARC_TERMINATED, CEC_MSG_REQUEST_ARC_INITIATION,
     CEC_MSG_REQUEST_ARC_TERMINATION, CEC_MSG_TERMINATE_ARC,
     CEC_MSG_REQUEST_CURRENT_LATENCY, CEC_MSG_REPORT_CURRENT_LATENCY, CEC_MSG_CDC_MESSAGE]"

definition cec_cdc_opcodes :: "u8 list" where
  "cec_cdc_opcodes =
    [CEC_MSG_CDC_HEC_INQUIRE_STATE, CEC_MSG_CDC_HEC_REPORT_STATE,
     CEC_MSG_CDC_HEC_SET_STATE_ADJACENT, CEC_MSG_CDC_HEC_SET_STATE,
     CEC_MSG_CDC_HEC_REQUEST_DEACTIVATION, CEC_MSG_CDC_HEC_NOTIFY_ALIVE,
     CEC_MSG_CDC_HEC_DISCOVER, CEC_MSG_CDC_HPD_SET_STATE, CEC_MSG_CDC_HPD_REPORT_STATE]"

text \<open>The opcodes of the messages that go to every device.\<close>

definition cec_broadcast_opcodes :: "u8 list" where
  "cec_broadcast_opcodes =
    [CEC_MSG_ACTIVE_SOURCE, CEC_MSG_REQUEST_ACTIVE_SOURCE, CEC_MSG_ROUTING_CHANGE,
     CEC_MSG_ROUTING_INFORMATION, CEC_MSG_SET_STREAM_PATH, CEC_MSG_REPORT_PHYSICAL_ADDR,
     CEC_MSG_SET_MENU_LANGUAGE, CEC_MSG_REPORT_FEATURES, CEC_MSG_DEVICE_VENDOR_ID,
     CEC_MSG_REQUEST_CURRENT_LATENCY, CEC_MSG_REPORT_CURRENT_LATENCY, CEC_MSG_CDC_MESSAGE]"


section \<open>Operand values tested by the message functions\<close>

abbreviation (input) CEC_OP_RECORD_SRC_OWN :: u8 where "CEC_OP_RECORD_SRC_OWN \<equiv> 1"
abbreviation (input) CEC_OP_RECORD_SRC_DIGITAL :: u8 where "CEC_OP_RECORD_SRC_DIGITAL \<equiv> 2"
abbreviation (input) CEC_OP_RECORD_SRC_ANALOG :: u8 where "CEC_OP_RECORD_SRC_ANALOG \<equiv> 3"
abbreviation (input) CEC_OP_RECORD_SRC_EXT_PLUG :: u8 where "CEC_OP_RECORD_SRC_EXT_PLUG \<equiv> 4"
abbreviation (input) CEC_OP_RECORD_SRC_EXT_PHYS_ADDR :: u8 where "CEC_OP_RECORD_SRC_EXT_PHYS_ADDR \<equiv> 5"
abbreviation (input) CEC_OP_SERVICE_ID_METHOD_BY_CHANNEL :: u8 where "CEC_OP_SERVICE_ID_METHOD_BY_CHANNEL \<equiv> 1"
abbreviation (input) CEC_OP_DIG_SERVICE_BCAST_SYSTEM_ATSC_GEN :: u8 where "CEC_OP_DIG_SERVICE_BCAST_SYSTEM_ATSC_GEN \<equiv> 0x01"
abbreviation (input) CEC_OP_DIG_SERVICE_BCAST_SYSTEM_ATSC_CABLE :: u8 where "CEC_OP_DIG_SERVICE_BCAST_SYSTEM_ATSC_CABLE \<equiv> 0x10"
abbreviation (input) CEC_OP_DIG_SERVICE_BCAST_SYSTEM_ATSC_SAT :: u8 where "CEC_OP_DIG_SERVICE_BCAST_SYSTEM_ATSC_SAT \<equiv> 0x11"
abbreviation (input) CEC_OP_DIG_SERVICE_BCAST_SYSTEM_ATSC_T :: u8 where "CEC_OP_DIG_SERVICE_BCAST_SYSTEM_ATSC_T \<equiv> 0x12"
abbreviation (input) CEC_OP_PROG_INFO_NOT_ENOUGH_SPACE :: u8 where "CEC_OP_PROG_INFO_NOT_ENOUGH_SPACE \<equiv> 0x09"
abbreviation (input) CEC_OP_PROG_INFO_MIGHT_NOT_BE_ENOUGH_SPACE :: u8 where "CEC_OP_PROG_INFO_MIGHT_NOT_BE_ENOUGH_SPACE \<equiv> 0x0b"
abbreviation (input) CEC_OP_PROG_ERROR_DUPLICATE :: u8 where "CEC_OP_PROG_ERROR_DUPLICATE \<equiv> 0x0e"
abbreviation (input) CEC_OP_PRIM_DEVTYPE_TV :: u8 where "CEC_OP_PRIM_DEVTYPE_TV \<equiv> 0"
abbreviation (input) CEC_OP_PRIM_DEVTYPE_SWITCH :: u8 where "CEC_OP_PRIM_DEVTYPE_SWITCH \<equiv> 6"
abbreviation (input) CEC_OP_PRIM_DEVTYPE_PROCESSOR :: u8 where "CEC_OP_PRIM_DEVTYPE_PROCESSOR \<equiv> 7"
abbreviation (input) CEC_OP_FEAT_EXT :: u8 where "CEC_OP_FEAT_EXT \<equiv> 0x80"
abbreviation (input) CEC_OP_STATUS_REQ_OFF :: u8 where "CEC_OP_STATUS_REQ_OFF \<equiv> 2"
abbreviation (input) CEC_OP_UI_CMD_SELECT_BROADCAST_TYPE :: u8 where "CEC_OP_UI_CMD_SELECT_BROADCAST_TYPE \<equiv> 0x56"
abbreviation (input) CEC_OP_UI_CMD_SELECT_SOUND_PRESENTATION :: u8 where "CEC_OP_UI_CMD_SELECT_SOUND_PRESENTATION \<equiv> 0x57"
abbreviation (input) CEC_OP_UI_CMD_PLAY_FUNCTION :: u8 where "CEC_OP_UI_CMD_PLAY_FUNCTION \<equiv> 0x60"
abbreviation (input) CEC_OP_UI_CMD_TUNE_FUNCTION :: u8 where "CEC_OP_UI_CMD_TUNE_FUNCTION \<equiv> 0x67"
abbreviation (input) CEC_OP_UI_CMD_SELECT_MEDIA_FUNCTION :: u8 where "CEC_OP_UI_CMD_SELECT_MEDIA_FUNCTION \<equiv> 0x68"
abbreviation (input) CEC_OP_UI_CMD_SELECT_AV_INPUT_FUNCTION :: u8 where "CEC_OP_UI_CMD_SELECT_AV_INPUT_FUNCTION \<equiv> 0x69"
abbreviation (input) CEC_OP_UI_CMD_SELECT_AUDIO_INPUT_FUNCTION :: u8 where "CEC_OP_UI_CMD_SELECT_AUDIO_INPUT_FUNCTION \<equiv> 0x6a"

section \<open>Operand tables\<close>

text \<open>Record Source Type Operand (\<^verbatim>\<open>rec_src_type\<close>).\<close>

definition op_rec_src_type :: "(string \<times> u8) list" where
  "op_rec_src_type =
    [(''RECORD_SRC_OWN'', 1), (''RECORD_SRC_DIGITAL'', 2), (''RECORD_SRC_ANALOG'', 3),
     (''RECORD_SRC_EXT_PLUG'', 4), (''RECORD_SRC_EXT_PHYS_ADDR'', 5)]"

text \<open>Service Identification Method Operand (\<^verbatim>\<open>service_id_method\<close>).\<close>

definition op_service_id_method :: "(string \<times> u8) list" where
  "op_service_id_method =
    [(''SERVICE_ID_METHOD_BY_DIG_ID'', 0), (''SERVICE_ID_METHOD_BY_CHANNEL'', 1)]"

text \<open>Digital Service Broadcast System Operand (\<^verbatim>\<open>dig_bcast_system\<close>).\<close>

definition op_dig_bcast_system :: "(string \<times> u8) list" where
  "op_dig_bcast_system =
    [(''DIG_SERVICE_BCAST_SYSTEM_ARIB_GEN'', 0x00),
     (''DIG_SERVICE_BCAST_SYSTEM_ATSC_GEN'', 0x01),
     (''DIG_SERVICE_BCAST_SYSTEM_DVB_GEN'', 0x02),
     (''DIG_SERVICE_BCAST_SYSTEM_ARIB_BS'', 0x08),
     (''DIG_SERVICE_BCAST_SYSTEM_ARIB_CS'', 0x09),
     (''DIG_SERVICE_BCAST_SYSTEM_ARIB_T'', 0x0a),
     (''DIG_SERVICE_BCAST_SYSTEM_ATSC_CABLE'', 0x10),
     (''DIG_SERVICE_BCAST_SYSTEM_ATSC_SAT'', 0x11),
     (''DIG_SERVICE_BCAST_SYSTEM_ATSC_T'', 0x12),
     (''DIG_SERVICE_BCAST_SYSTEM_DVB_C'', 0x18),
     (''DIG_SERVICE_BCAST_SYSTEM_DVB_S'', 0x19),
     (''DIG_SERVICE_BCAST_SYSTEM_DVB_S2'', 0x1a), (''DIG_SERVICE_BCAST_SYSTEM_DVB_T'', 0x1b)]"

text \<open>Analogue Broadcast Type Operand (\<^verbatim>\<open>ana_bcast_type\<close>).\<close>

definition op_ana_bcast_type :: "(string \<times> u8) list" where
  "op_ana_bcast_type =
    [(''ANA_BCAST_TYPE_CABLE'', 0), (''ANA_BCAST_TYPE_SATELLITE'', 1),
     (''ANA_BCAST_TYPE_TERRESTRIAL'', 2)]"

text \<open>Broadcast System Operand (\<^verbatim>\<open>bcast_system\<close>).\<close>

definition op_bcast_system :: "(string \<times> u8) list" where
  "op_bcast_system =
    [(''BCAST_SYSTEM_PAL_BG'', 0x00), (''BCAST_SYSTEM_SECAM_LQ'', 0x01),
     (''BCAST_SYSTEM_PAL_M'', 0x02), (''BCAST_SYSTEM_NTSC_M'', 0x03),
     (''BCAST_SYSTEM_PAL_I'', 0x04), (''BCAST_SYSTEM_SECAM_DK'', 0x05),
     (''BCAST_SYSTEM_SECAM_BG'', 0x06), (''BCAST_SYSTEM_SECAM_L'', 0x07),
     (''BCAST_SYSTEM_PAL_DK'', 0x08), (''BCAST_SYSTEM_OTHER'', 0x1f)]"

text \<open>Channel Number Format Operand (\<^verbatim>\<open>channel_number_fmt\<close>).\<close>

definition op_channel_number_fmt :: "(string \<times> u8) list" where
  "op_channel_number_fmt =
    [(''CHANNEL_NUMBER_FMT_1_PART'', 0x01), (''CHANNEL_NUMBER_FMT_2_PART'', 0x02)]"

text \<open>Record Status Operand (\<^verbatim>\<open>rec_status\<close>).\<close>

definition op_rec_status :: "(string \<times> u8) list" where
  "op_rec_status =
    [(''RECORD_STATUS_CUR_SRC'', 0x01), (''RECORD_STATUS_DIG_SERVICE'', 0x02),
     (''RECORD_STATUS_ANA_SERVICE'', 0x03), (''RECORD_STATUS_EXT_INPUT'', 0x04),
     (''RECORD_STATUS_NO_DIG_SERVICE'', 0x05), (''RECORD_STATUS_NO_ANA_SERVICE'', 0x06),
     (''RECORD_STATUS_NO_SERVICE'', 0x07), (''RECORD_STATUS_INVALID_EXT_PLUG'', 0x09),
     (''RECORD_STATUS_INVALID_EXT_PHYS_ADDR'', 0x0a), (''RECORD_STATUS_UNSUP_CA'', 0x0b),
     (''RECORD_STATUS_NO_CA_ENTITLEMENTS'', 0x0c), (''RECORD_STATUS_CANT_COPY_SRC'', 0x0d),
     (''RECORD_STATUS_NO_MORE_COPIES'', 0x0e), (''RECORD_STATUS_NO_MEDIA'', 0x10),
     (''RECORD_STATUS_PLAYING'', 0x11), (''RECORD_STATUS_ALREADY_RECORDING'', 0x12),
     (''RECORD_STATUS_MEDIA_PROT'', 0x13), (''RECORD_STATUS_NO_SIGNAL'', 0x14),
     (''RECORD_STATUS_MEDIA_PROBLEM'', 0x15), (''RECORD_STATUS_NO_SPACE'', 0x16),
     (''RECORD_STATUS_PARENTAL_LOCK'', 0x17), (''RECORD_STATUS_TERMINATED_OK'', 0x1a),
     (''RECORD_STATUS_ALREADY_TERM'', 0x1b), (''RECORD_STATUS_OTHER'', 0x1f)]"

text \<open>Recording Sequence Operand (\<^verbatim>\<open>recording_seq\<close>).\<close>

definition op_recording_seq :: "(string \<times> u8) list" where
  "op_recording_seq =
    [(''REC_SEQ_SUNDAY'', 0x01), (''REC_SEQ_MONDAY'', 0x02), (''REC_SEQ_TUESDAY'', 0x04),
     (''REC_SEQ_WEDNESDAY'', 0x08), (''REC_SEQ_THURSDAY'', 0x10),
     (''REC_SEQ_FRIDAY'', 0x20), (''REC_SEQ_SATURDAY'', 0x40), (''REC_SEQ_ONCE_ONLY'', 0x00)]"

text \<open>External Source Specifier Operand (\<^verbatim>\<open>ext_src_spec\<close>).\<close>

definition op_ext_src_spec :: "(string \<times> u8) list" where
  "op_ext_src_spec =
    [(''EXT_SRC_PLUG'', 0x04), (''EXT_SRC_PHYS_ADDR'', 0x05)]"

text \<open>Timer Cleared Status Data Operand (\<^verbatim>\<open>timer_cleared_status\<close>).\<close>

definition op_timer_cleared_status :: "(string \<times> u8) list" where
  "op_timer_cleared_status =
    [(''TIMER_CLR_STAT_RECORDING'', 0x00), (''TIMER_CLR_STAT_NO_MATCHING'', 0x01),
     (''TIMER_CLR_STAT_NO_INFO'', 0x02), (''TIMER_CLR_STAT_CLEARED'', 0x80)]"

text \<open>Timer Overlap Warning Operand (\<^verbatim>\<open>timer_overlap_warning\<close>).\<close>

definition op_timer_overlap_warning :: "(string \<times> u8) list" where
  "op_timer_overlap_warning =
    [(''TIMER_OVERLAP_WARNING_NO_OVERLAP'', 0), (''TIMER_OVERLAP_WARNING_OVERLAP'', 1)]"

text \<open>Media Info Operand (\<^verbatim>\<open>media_info\<close>).\<close>

definition op_media_info :: "(string \<times> u8) list" where
  "op_media_info =
    [(''MEDIA_INFO_UNPROT_MEDIA'', 0), (''MEDIA_INFO_PROT_MEDIA'', 1),
     (''MEDIA_INFO_NO_MEDIA'', 2)]"

text \<open>Programmed Indicator Operand (\<^verbatim>\<open>prog_indicator\<close>).\<close>

definition op_prog_indicator :: "(string \<times> u8) list" where
  "op_prog_indicator =
    [(''PROG_IND_NOT_PROGRAMMED'', 0), (''PROG_IND_PROGRAMMED'', 1)]"

text \<open>Programmed Info Operand (\<^verbatim>\<open>prog_info\<close>).\<close>

definition op_prog_info :: "(string \<times> u8) list" where
  "op_prog_info =
    [(''PROG_INFO_ENOUGH_SPACE'', 0x08), (''PROG_INFO_NOT_ENOUGH_SPACE'', 0x09),
     (''PROG_INFO_MIGHT_NOT_BE_ENOUGH_SPACE'', 0x0b), (''PROG_INFO_NONE_AVAILABLE'', 0x0a)]"

text \<open>Not Programmed Error Info Operand (\<^verbatim>\<open>prog_error\<close>).\<close>

definition op_prog_error :: "(string \<times> u8) list" where
  "op_prog_error =
    [(''PROG_ERROR_NO_FREE_TIMER'', 0x01), (''PROG_ERROR_DATE_OUT_OF_RANGE'', 0x02),
     (''PROG_ERROR_REC_SEQ_ERROR'', 0x03), (''PROG_ERROR_INV_EXT_PLUG'', 0x04),
     (''PROG_ERROR_INV_EXT_PHYS_ADDR'', 0x05), (''PROG_ERROR_CA_UNSUPP'', 0x06),
     (''PROG_ERROR_INSUF_CA_ENTITLEMENTS'', 0x07),
     (''PROG_ERROR_RESOLUTION_UNSUPP'', 0x08), (''PROG_ERROR_PARENTAL_LOCK'', 0x09),
     (''PROG_ERROR_CLOCK_FAILURE'', 0x0a), (''PROG_ERROR_DUPLICATE'', 0x0e)]"

text \<open>CEC Version Operand (\<^verbatim>\<open>cec_version\<close>).\<close>

definition op_cec_version :: "(string \<times> u8) list" where
  "op_cec_version =
    [(''CEC_VERSION_1_3A'', 4), (''CEC_VERSION_1_4'', 5), (''CEC_VERSION_2_0'', 6)]"

text \<open>Primary Device Type Operand (\<^verbatim>\<open>prim_devtype\<close>).\<close>

definition op_prim_devtype :: "(string \<times> u8) list" where
  "op_prim_devtype =
    [(''PRIM_DEVTYPE_TV'', 0), (''PRIM_DEVTYPE_RECORD'', 1), (''PRIM_DEVTYPE_TUNER'', 3),
     (''PRIM_DEVTYPE_PLAYBACK'', 4), (''PRIM_DEVTYPE_AUDIOSYSTEM'', 5),
     (''PRIM_DEVTYPE_SWITCH'', 6), (''PRIM_DEVTYPE_PROCESSOR'', 7)]"

text \<open>All Device Types Operand (\<^verbatim>\<open>all_device_types\<close>).\<close>

definition op_all_device_types :: "(string \<times> u8) list" where
  "op_all_device_types =
    [(''ALL_DEVTYPE_TV'', 0x80), (''ALL_DEVTYPE_RECORD'', 0x40),
     (''ALL_DEVTYPE_TUNER'', 0x20), (''ALL_DEVTYPE_PLAYBACK'', 0x10),
     (''ALL_DEVTYPE_AUDIOSYSTEM'', 0x08), (''ALL_DEVTYPE_SWITCH'', 0x04)]"

text \<open>Feature extension Operand (\<^verbatim>\<open>feat_ext\<close>).\<close>

definition op_feat_ext :: "(string \<times> u8) list" where
  "op_feat_ext =
    [(''FEAT_EXT'', 0x80)]"

text \<open>RC Profile Operand (\<^verbatim>\<open>rc_profile\<close>).\<close>

definition op_rc_profile :: "(string \<times> u8) list" where
  "op_rc_profile =
    [(''FEAT_RC_TV_PROFILE_NONE'', 0x00), (''FEAT_RC_TV_PROFILE_1'', 0x02),
     (''FEAT_RC_TV_PROFILE_2'', 0x06), (''FEAT_RC_TV_PROFILE_3'', 0x0a),
     (''FEAT_RC_TV_PROFILE_4'', 0x0e), (''FEAT_RC_SRC_HAS_DEV_ROOT_MENU'', 0x50),
     (''FEAT_RC_SRC_HAS_DEV_SETUP_MENU'', 0x48), (''FEAT_RC_SRC_HAS_CONTENTS_MENU'', 0x44),
     (''FEAT_RC_SRC_HAS_MEDIA_TOP_MENU'', 0x42),
     (''FEAT_RC_SRC_HAS_MEDIA_CONTEXT_MENU'', 0x41)]"

text \<open>Device Feature Operand (\<^verbatim>\<open>dev_features\<close>).\<close>

definition op_dev_features :: "(string \<times> u8) list" where
  "op_dev_features =
    [(''FEAT_DEV_HAS_RECORD_TV_SCREEN'', 0x40), (''FEAT_DEV_HAS_SET_OSD_STRING'', 0x20),
     (''FEAT_DEV_HAS_DECK_CONTROL'', 0x10), (''FEAT_DEV_HAS_SET_AUDIO_RATE'', 0x08),
     (''FEAT_DEV_SINK_HAS_ARC_TX'', 0x04), (''FEAT_DEV_SOURCE_HAS_ARC_RX'', 0x02)]"

text \<open>Deck Control Mode Operand (\<^verbatim>\<open>deck_control_mode\<close>).\<close>

definition op_deck_control_mode :: "(string \<times> u8) list" where
  "op_deck_control_mode =
    [(''DECK_CTL_MODE_SKIP_FWD'', 1), (''DECK_CTL_MODE_SKIP_REV'', 2),
     (''DECK_CTL_MODE_STOP'', 3), (''DECK_CTL_MODE_EJECT'', 4)]"

text \<open>Deck Info Operand (\<^verbatim>\<open>deck_info\<close>).\<close>

definition op_deck_info :: "(string \<times> u8) list" where
  "op_deck_info =
    [(''DECK_INFO_PLAY'', 0x11), (''DECK_INFO_RECORD'', 0x12),
     (''DECK_INFO_PLAY_REV'', 0x13), (''DECK_INFO_STILL'', 0x14),
     (''DECK_INFO_SLOW'', 0x15), (''DECK_INFO_SLOW_REV'', 0x16),
     (''DECK_INFO_FAST_FWD'', 0x17), (''DECK_INFO_FAST_REV'', 0x18),
     (''DECK_INFO_NO_MEDIA'', 0x19), (''DECK_INFO_STOP'', 0x1a),
     (''DECK_INFO_SKIP_FWD'', 0x1b), (''DECK_INFO_SKIP_REV'', 0x1c),
     (''DECK_INFO_INDEX_SEARCH_FWD'', 0x1d), (''DECK_INFO_INDEX_SEARCH_REV'', 0x1e),
     (''DECK_INFO_OTHER'', 0x1f)]"

text \<open>Status Request Operand (\<^verbatim>\<open>status_req\<close>).\<close>

definition op_status_req :: "(string \<times> u8) list" where
  "op_status_req =
    [(''STATUS_REQ_ON'', 1), (''STATUS_REQ_OFF'', 2), (''STATUS_REQ_ONCE'', 3)]"

text \<open>Play Mode Operand (\<^verbatim>\<open>play_mode\<close>).\<close>

definition op_play_mode :: "(string \<times> u8) list" where
  "op_play_mode =
    [(''PLAY_MODE_PLAY_FWD'', 0x24), (''PLAY_MODE_PLAY_REV'', 0x20),
     (''PLAY_MODE_PLAY_STILL'', 0x25), (''PLAY_MODE_PLAY_FAST_FWD_MIN'', 0x05),
     (''PLAY_MODE_PLAY_FAST_FWD_MED'', 0x06), (''PLAY_MODE_PLAY_FAST_FWD_MAX'', 0x07),
     (''PLAY_MODE_PLAY_FAST_REV_MIN'', 0x09), (''PLAY_MODE_PLAY_FAST_REV_MED'', 0x0a),
     (''PLAY_MODE_PLAY_FAST_REV_MAX'', 0x0b), (''PLAY_MODE_PLAY_SLOW_FWD_MIN'', 0x15),
     (''PLAY_MODE_PLAY_SLOW_FWD_MED'', 0x16), (''PLAY_MODE_PLAY_SLOW_FWD_MAX'', 0x17),
     (''PLAY_MODE_PLAY_SLOW_REV_MIN'', 0x19), (''PLAY_MODE_PLAY_SLOW_REV_MED'', 0x1a),
     (''PLAY_MODE_PLAY_SLOW_REV_MAX'', 0x1b)]"

text \<open>Recording Flag Operand (\<^verbatim>\<open>rec_flag\<close>).\<close>

definition op_rec_flag :: "(string \<times> u8) list" where
  "op_rec_flag =
    [(''REC_FLAG_NOT_USED'', 0), (''REC_FLAG_USED'', 1)]"

text \<open>Tuner Display Info Operand (\<^verbatim>\<open>tuner_display_info\<close>).\<close>

definition op_tuner_display_info :: "(string \<times> u8) list" where
  "op_tuner_display_info =
    [(''TUNER_DISPLAY_INFO_DIGITAL'', 0), (''TUNER_DISPLAY_INFO_NONE'', 1),
     (''TUNER_DISPLAY_INFO_ANALOGUE'', 2)]"

text \<open>Display Control Operand (\<^verbatim>\<open>disp_ctl\<close>).\<close>

definition op_disp_ctl :: "(string \<times> u8) list" where
  "op_disp_ctl =
    [(''DISP_CTL_DEFAULT'', 0x00), (''DISP_CTL_UNTIL_CLEARED'', 0x40),
     (''DISP_CTL_CLEAR'', 0x80)]"

text \<open>Menu Request Type Operand (\<^verbatim>\<open>menu_req\<close>).\<close>

definition op_menu_req :: "(string \<times> u8) list" where
  "op_menu_req =
    [(''MENU_REQUEST_ACTIVATE'', 0x00), (''MENU_REQUEST_DEACTIVATE'', 0x01),
     (''MENU_REQUEST_QUERY'', 0x02)]"

text \<open>Menu State Operand (\<^verbatim>\<open>menu_state\<close>).\<close>

definition op_menu_state :: "(string \<times> u8) list" where
  "op_menu_state =
    [(''MENU_STATE_ACTIVATED'', 0x00), (''MENU_STATE_DEACTIVATED'', 0x01)]"

text \<open>UI Command Operand (\<^verbatim>\<open>ui_cmd\<close>).\<close>

definition op_ui_cmd :: "(string \<times> u8) list" where
  "op_ui_cmd =
    [(''UI_CMD_SELECT'', 0x00), (''UI_CMD_UP'', 0x01), (''UI_CMD_DOWN'', 0x02),
     (''UI_CMD_LEFT'', 0x03), (''UI_CMD_RIGHT'', 0x04), (''UI_CMD_RIGHT_UP'', 0x05),
     (''UI_CMD_RIGHT_DOWN'', 0x06), (''UI_CMD_LEFT_UP'', 0x07),
     (''UI_CMD_LEFT_DOWN'', 0x08), (''UI_CMD_DEVICE_ROOT_MENU'', 0x09),
     (''UI_CMD_DEVICE_SETUP_MENU'', 0x0a), (''UI_CMD_CONTENTS_MENU'', 0x0b),
     (''UI_CMD_FAVORITE_MENU'', 0x0c), (''UI_CMD_BACK'', 0x0d),
     (''UI_CMD_MEDIA_TOP_MENU'', 0x10), (''UI_CMD_MEDIA_CONTEXT_SENSITIVE_MENU'', 0x11),
     (''UI_CMD_NUMBER_ENTRY_MODE'', 0x1d), (''UI_CMD_NUMBER_11'', 0x1e),
     (''UI_CMD_NUMBER_12'', 0x1f), (''UI_CMD_NUMBER_0_OR_NUMBER_10'', 0x20),
     (''UI_CMD_NUMBER_1'', 0x21), (''UI_CMD_NUMBER_2'', 0x22), (''UI_CMD_NUMBER_3'', 0x23),
     (''UI_CMD_NUMBER_4'', 0x24), (''UI_CMD_NUMBER_5'', 0x25), (''UI_CMD_NUMBER_6'', 0x26),
     (''UI_CMD_NUMBER_7'', 0x27), (''UI_CMD_NUMBER_8'', 0x28), (''UI_CMD_NUMBER_9'', 0x29),
     (''UI_CMD_DOT'', 0x2a), (''UI_CMD_ENTER'', 0x2b), (''UI_CMD_CLEAR'', 0x2c),
     (''UI_CMD_NEXT_FAVORITE'', 0x2f), (''UI_CMD_CHANNEL_UP'', 0x30),
     (''UI_CMD_CHANNEL_DOWN'', 0x31), (''UI_CMD_PREVIOUS_CHANNEL'', 0x32),
     (''UI_CMD_SOUND_SELECT'', 0x33), (''UI_CMD_INPUT_SELECT'', 0x34),
     (''UI_CMD_DISPLAY_INFORMATION'', 0x35), (''UI_CMD_HELP'', 0x36),
     (''UI_CMD_PAGE_UP'', 0x37), (''UI_CMD_PAGE_DOWN'', 0x38), (''UI_CMD_POWER'', 0x40),
     (''UI_CMD_VOLUME_UP'', 0x41), (''UI_CMD_VOLUME_DOWN'', 0x42), (''UI_CMD_MUTE'', 0x43),
     (''UI_CMD_PLAY'', 0x44), (''UI_CMD_STOP'', 0x45), (''UI_CMD_PAUSE'', 0x46),
     (''UI_CMD_RECORD'', 0x47), (''UI_CMD_REWIND'', 0x48), (''UI_CMD_FAST_FORWARD'', 0x49),
     (''UI_CMD_EJECT'', 0x4a), (''UI_CMD_SKIP_FORWARD'', 0x4b),
     (''UI_CMD_SKIP_BACKWARD'', 0x4c), (''UI_CMD_STOP_RECORD'', 0x4d),
     (''UI_CMD_PAUSE_RECORD'', 0x4e), (''UI_CMD_ANGLE'', 0x50),
     (''UI_CMD_SUB_PICTURE'', 0x51), (''UI_CMD_VIDEO_ON_DEMAND'', 0x52),
     (''UI_CMD_ELECTRONIC_PROGRAM_GUIDE'', 0x53), (''UI_CMD_TIMER_PROGRAMMING'', 0x54),
     (''UI_CMD_INITIAL_CONFIGURATION'', 0x55), (''UI_CMD_SELECT_BROADCAST_TYPE'', 0x56),
     (''UI_CMD_SELECT_SOUND_PRESENTATION'', 0x57), (''UI_CMD_AUDIO_DESCRIPTION'', 0x58),
     (''UI_CMD_INTERNET'', 0x59), (''UI_CMD_3D_MODE'', 0x5a),
     (''UI_CMD_PLAY_FUNCTION'', 0x60), (''UI_CMD_PAUSE_PLAY_FUNCTION'', 0x61),
     (''UI_CMD_RECORD_FUNCTION'', 0x62), (''UI_CMD_PAUSE_RECORD_FUNCTION'', 0x63),
     (''UI_CMD_STOP_FUNCTION'', 0x64), (''UI_CMD_MUTE_FUNCTION'', 0x65),
     (''UI_CMD_RESTORE_VOLUME_FUNCTION'', 0x66), (''UI_CMD_TUNE_FUNCTION'', 0x67),
     (''UI_CMD_SELECT_MEDIA_FUNCTION'', 0x68), (''UI_CMD_SELECT_AV_INPUT_FUNCTION'', 0x69),
     (''UI_CMD_SELECT_AUDIO_INPUT_FUNCTION'', 0x6a),
     (''UI_CMD_POWER_TOGGLE_FUNCTION'', 0x6b), (''UI_CMD_POWER_OFF_FUNCTION'', 0x6c),
     (''UI_CMD_POWER_ON_FUNCTION'', 0x6d), (''UI_CMD_F1_BLUE'', 0x71),
     (''UI_CMD_F2_RED'', 0x72), (''UI_CMD_F3_GREEN'', 0x73), (''UI_CMD_F4_YELLOW'', 0x74),
     (''UI_CMD_F5'', 0x75), (''UI_CMD_DATA'', 0x76)]"

text \<open>UI Broadcast Type Operand (\<^verbatim>\<open>ui_bcast_type\<close>).\<close>

definition op_ui_bcast_type :: "(string \<times> u8) list" where
  "op_ui_bcast_type =
    [(''UI_BCAST_TYPE_TOGGLE_ALL'', 0x00), (''UI_BCAST_TYPE_TOGGLE_DIG_ANA'', 0x01),
     (''UI_BCAST_TYPE_ANALOGUE'', 0x10), (''UI_BCAST_TYPE_ANALOGUE_T'', 0x20),
     (''UI_BCAST_TYPE_ANALOGUE_CABLE'', 0x30), (''UI_BCAST_TYPE_ANALOGUE_SAT'', 0x40),
     (''UI_BCAST_TYPE_DIGITAL'', 0x50), (''UI_BCAST_TYPE_DIGITAL_T'', 0x60),
     (''UI_BCAST_TYPE_DIGITAL_CABLE'', 0x70), (''UI_BCAST_TYPE_DIGITAL_SAT'', 0x80),
     (''UI_BCAST_TYPE_DIGITAL_COM_SAT'', 0x90), (''UI_BCAST_TYPE_DIGITAL_COM_SAT2'', 0x91),
     (''UI_BCAST_TYPE_IP'', 0xa0)]"

text \<open>UI Sound Presentation Control Operand (\<^verbatim>\<open>ui_snd_pres_ctl\<close>).\<close>

definition op_ui_snd_pres_ctl :: "(string \<times> u8) list" where
  "op_ui_snd_pres_ctl =
    [(''UI_SND_PRES_CTL_DUAL_MONO'', 0x10), (''UI_SND_PRES_CTL_KARAOKE'', 0x20),
     (''UI_SND_PRES_CTL_DOWNMIX'', 0x80), (''UI_SND_PRES_CTL_REVERB'', 0x90),
     (''UI_SND_PRES_CTL_EQUALIZER'', 0xa0), (''UI_SND_PRES_CTL_BASS_UP'', 0xb1),
     (''UI_SND_PRES_CTL_BASS_NEUTRAL'', 0xb2), (''UI_SND_PRES_CTL_BASS_DOWN'', 0xb3),
     (''UI_SND_PRES_CTL_TREBLE_UP'', 0xc1), (''UI_SND_PRES_CTL_TREBLE_NEUTRAL'', 0xc2),
     (''UI_SND_PRES_CTL_TREBLE_DOWN'', 0xc3)]"

text \<open>Power Status Operand (\<^verbatim>\<open>pwr_state\<close>).\<close>

definition op_pwr_state :: "(string \<times> u8) list" where
  "op_pwr_state =
    [(''POWER_STATUS_ON'', 0), (''POWER_STATUS_STANDBY'', 1), (''POWER_STATUS_TO_ON'', 2),
     (''POWER_STATUS_TO_STANDBY'', 3)]"

text \<open>Abort Reason Operand (\<^verbatim>\<open>reason\<close>).\<close>

definition op_reason :: "(string \<times> u8) list" where
  "op_reason =
    [(''ABORT_UNRECOGNIZED_OP'', 0), (''ABORT_INCORRECT_MODE'', 1),
     (''ABORT_NO_SOURCE'', 2), (''ABORT_INVALID_OP'', 3), (''ABORT_REFUSED'', 4),
     (''ABORT_UNDETERMINED'', 5)]"

text \<open>Audio Mute Status Operand (\<^verbatim>\<open>aud_mute_status\<close>).\<close>

definition op_aud_mute_status :: "(string \<times> u8) list" where
  "op_aud_mute_status =
    [(''AUD_MUTE_STATUS_OFF'', 0), (''AUD_MUTE_STATUS_ON'', 1)]"

text \<open>System Audio Status Operand (\<^verbatim>\<open>sys_aud_status\<close>).\<close>

definition op_sys_aud_status :: "(string \<times> u8) list" where
  "op_sys_aud_status =
    [(''SYS_AUD_STATUS_OFF'', 0), (''SYS_AUD_STATUS_ON'', 1)]"

text \<open>Audio Format ID Operand (\<^verbatim>\<open>audio_format_id\<close>).\<close>

definition op_audio_format_id :: "(string \<times> u8) list" where
  "op_audio_format_id =
    [(''AUD_FMT_ID_CEA861'', 0), (''AUD_FMT_ID_CEA861_CXT'', 1)]"

text \<open>Audio Rate Operand (\<^verbatim>\<open>audio_rate\<close>).\<close>

definition op_audio_rate :: "(string \<times> u8) list" where
  "op_audio_rate =
    [(''AUD_RATE_OFF'', 0), (''AUD_RATE_WIDE_STD'', 1), (''AUD_RATE_WIDE_FAST'', 2),
     (''AUD_RATE_WIDE_SLOW'', 3), (''AUD_RATE_NARROW_STD'', 4),
     (''AUD_RATE_NARROW_FAST'', 5), (''AUD_RATE_NARROW_SLOW'', 6)]"

text \<open>Low Latency Mode Operand (\<^verbatim>\<open>low_latency_mode\<close>).\<close>

definition op_low_latency_mode :: "(string \<times> u8) list" where
  "op_low_latency_mode =
    [(''LOW_LATENCY_MODE_OFF'', 0), (''LOW_LATENCY_MODE_ON'', 1)]"

text \<open>Audio Output Compensated Operand (\<^verbatim>\<open>audio_out_compensated\<close>).\<close>

definition op_audio_out_compensated :: "(string \<times> u8) list" where
  "op_audio_out_compensated =
    [(''AUD_OUT_COMPENSATED_NA'', 0), (''AUD_OUT_COMPENSATED_DELAY'', 1),
     (''AUD_OUT_COMPENSATED_NO_DELAY'', 2), (''AUD_OUT_COMPENSATED_PARTIAL_DELAY'', 3)]"

text \<open>HEC Functionality State Operand (\<^verbatim>\<open>hec_func_state\<close>).\<close>

definition op_hec_func_state :: "(string \<times> u8) list" where
  "op_hec_func_state =
    [(''HEC_FUNC_STATE_NOT_SUPPORTED'', 0), (''HEC_FUNC_STATE_INACTIVE'', 1),
     (''HEC_FUNC_STATE_ACTIVE'', 2), (''HEC_FUNC_STATE_ACTIVATION_FIELD'', 3)]"

text \<open>Host Functionality State Operand (\<^verbatim>\<open>host_func_state\<close>).\<close>

definition op_host_func_state :: "(string \<times> u8) list" where
  "op_host_func_state =
    [(''HOST_FUNC_STATE_NOT_SUPPORTED'', 0), (''HOST_FUNC_STATE_INACTIVE'', 1),
     (''HOST_FUNC_STATE_ACTIVE'', 2)]"

text \<open>ENC Functionality State Operand (\<^verbatim>\<open>enc_func_state\<close>).\<close>

definition op_enc_func_state :: "(string \<times> u8) list" where
  "op_enc_func_state =
    [(''ENC_FUNC_STATE_EXT_CON_NOT_SUPPORTED'', 0),
     (''ENC_FUNC_STATE_EXT_CON_INACTIVE'', 1), (''ENC_FUNC_STATE_EXT_CON_ACTIVE'', 2)]"

text \<open>CDC Error Code Operand (\<^verbatim>\<open>cdc_errcode\<close>).\<close>

definition op_cdc_errcode :: "(string \<times> u8) list" where
  "op_cdc_errcode =
    [(''CDC_ERROR_CODE_NONE'', 0), (''CDC_ERROR_CODE_CAP_UNSUPPORTED'', 1),
     (''CDC_ERROR_CODE_WRONG_STATE'', 2), (''CDC_ERROR_CODE_OTHER'', 3)]"

text \<open>HEC Support Operand (\<^verbatim>\<open>hec_support\<close>).\<close>

definition op_hec_support :: "(string \<times> u8) list" where
  "op_hec_support =
    [(''HEC_SUPPORT_NO'', 0), (''HEC_SUPPORT_YES'', 1)]"

text \<open>HEC Activation Operand (\<^verbatim>\<open>hec_activation\<close>).\<close>

definition op_hec_activation :: "(string \<times> u8) list" where
  "op_hec_activation =
    [(''HEC_ACTIVATION_ON'', 0), (''HEC_ACTIVATION_OFF'', 1)]"

text \<open>HEC Set State Operand (\<^verbatim>\<open>hec_set_state\<close>).\<close>

definition op_hec_set_state :: "(string \<times> u8) list" where
  "op_hec_set_state =
    [(''HEC_SET_STATE_DEACTIVATE'', 0), (''HEC_SET_STATE_ACTIVATE'', 1)]"

text \<open>HPD State Operand (\<^verbatim>\<open>hpd_state\<close>).\<close>

definition op_hpd_state :: "(string \<times> u8) list" where
  "op_hpd_state =
    [(''HPD_STATE_CP_EDID_DISABLE'', 0), (''HPD_STATE_CP_EDID_ENABLE'', 1),
     (''HPD_STATE_CP_EDID_DISABLE_ENABLE'', 2), (''HPD_STATE_EDID_DISABLE'', 3),
     (''HPD_STATE_EDID_ENABLE'', 4), (''HPD_STATE_EDID_DISABLE_ENABLE'', 5)]"

text \<open>HPD Error Code Operand (\<^verbatim>\<open>hpd_error\<close>).\<close>

definition op_hpd_error :: "(string \<times> u8) list" where
  "op_hpd_error =
    [(''HPD_ERROR_NONE'', 0), (''HPD_ERROR_INITIATOR_NOT_CAPABLE'', 1),
     (''HPD_ERROR_INITIATOR_WRONG_STATE'', 2), (''HPD_ERROR_OTHER'', 3),
     (''HPD_ERROR_NONE_NO_VIDEO'', 4)]"

lemmas op_tables = cec_opcodes_def cec_cdc_opcodes_def
  op_rec_src_type_def op_service_id_method_def op_dig_bcast_system_def
  op_ana_bcast_type_def op_bcast_system_def op_channel_number_fmt_def op_rec_status_def
  op_recording_seq_def op_ext_src_spec_def op_timer_cleared_status_def
  op_timer_overlap_warning_def op_media_info_def op_prog_indicator_def op_prog_info_def
  op_prog_error_def op_cec_version_def op_prim_devtype_def op_all_device_types_def
  op_feat_ext_def op_rc_profile_def op_dev_features_def op_deck_control_mode_def
  op_deck_info_def op_status_req_def op_play_mode_def op_rec_flag_def
  op_tuner_display_info_def op_disp_ctl_def op_menu_req_def op_menu_state_def
  op_ui_cmd_def op_ui_bcast_type_def op_ui_snd_pres_ctl_def op_pwr_state_def
  op_reason_def op_aud_mute_status_def op_sys_aud_status_def op_audio_format_id_def
  op_audio_rate_def op_low_latency_mode_def op_audio_out_compensated_def
  op_hec_func_state_def op_host_func_state_def op_enc_func_state_def op_cdc_errcode_def
  op_hec_support_def op_hec_activation_def op_hec_set_state_def op_hpd_state_def
  op_hpd_error_def

end
