(* ===== verification/Cec_Routing.thy ===== *)
theory Cec_Routing
  imports Cec_Core Cec_Opcodes
begin

text \<open>
  One Touch Play, Routing Control and Standby messages of \<^verbatim>\<open>linux/cec-funcs.h\<close>: active source
  announcements and the routing of physical addresses.
\<close>

section \<open>One Touch Play\<close>

definition cec_msg_active_source :: "cec_msg \<Rightarrow> u16 \<Rightarrow> cec_msg" where
  "cec_msg_active_source m phys_addr =
     m\<lparr>len := 4,
       msg := (msg m)[0 := msg m ! 0 OR 0xf, 1 := CEC_MSG_ACTIVE_SOURCE, 2 := hi8 phys_addr,
         3 := lo8 phys_addr]\<rparr>"

definition cec_ops_active_source :: "cec_msg \<Rightarrow> u16" where
  "cec_ops_active_source m = be16 (msg m ! 2) (msg m ! 3)"

definition cec_msg_image_view_on :: "cec_msg \<Rightarrow> cec_msg" where
  "cec_msg_image_view_on m =
     m\<lparr>len := 2,
       msg := (msg m)[1 := CEC_MSG_IMAGE_VIEW_ON]\<rparr>"

definition cec_msg_text_view_on :: "cec_msg \<Rightarrow> cec_msg" where
  "cec_msg_text_view_on m =
     m\<lparr>len := 2,
       msg := (msg m)[1 := CEC_MSG_TEXT_VIEW_ON]\<rparr>"

section \<open>Routing Control\<close>

definition cec_msg_inactive_source :: "cec_msg \<Rightarrow> u16 \<Rightarrow> cec_msg" where
  "cec_msg_inactive_source m phys_addr =
     m\<lparr>len := 4,
       msg := (msg m)[1 := CEC_MSG_INACTIVE_SOURCE, 2 := hi8 phys_addr, 3 := lo8 phys_addr]\<rparr>"

definition cec_ops_inactive_source :: "cec_msg \<Rightarrow> u16" where
  "cec_ops_inactive_source m = be16 (msg m ! 2) (msg m ! 3)"

definition cec_msg_request_active_source ::
  "cec_msg \<Rightarrow> c_int \<Rightarrow> cec_msg" where
  "cec_msg_request_active_source m rep =
     m\<lparr>len := 2,
       msg := (msg m)[0 := msg m ! 0 OR 0xf, 1 := CEC_MSG_REQUEST_ACTIVE_SOURCE],
       reply := if rep \<noteq> 0 then CEC_MSG_ACTIVE_SOURCE else 0\<rparr>"

definition cec_msg_routing_information :: "cec_msg \<Rightarrow> u16 \<Rightarrow> cec_msg" where
  "cec_msg_routing_information m phys_addr =
     m\<lparr>len := 4,
       msg := (msg m)[0 := msg m ! 0 OR 0xf, 1 := CEC_MSG_ROUTING_INFORMATION,
         2 := hi8 phys_addr, 3 := lo8 phys_addr]\<rparr>"

definition cec_ops_routing_information :: "cec_msg \<Rightarrow> u16" where
  "cec_ops_routing_information m = be16 (msg m ! 2) (msg m ! 3)"

definition cec_msg_routing_change ::
  "cec_msg \<Rightarrow> c_int \<Rightarrow> u16 \<Rightarrow> u16 \<Rightarrow> cec_msg" where
  "cec_msg_routing_change m rep orig_phys_addr new_phys_addr =
     m\<lparr>len := 6,
       msg := (msg m)[0 := msg m ! 0 OR 0xf, 1 := CEC_MSG_ROUTING_CHANGE,
         2 := hi8 orig_phys_addr, 3 := lo8 orig_phys_addr, 4 := hi8 new_phys_addr,
         5 := lo8 new_phys_addr],
       reply := if rep \<noteq> 0 then CEC_MSG_ROUTING_INFORMATION else 0\<rparr>"

definition cec_ops_routing_change :: "cec_msg \<Rightarrow> u16 \<times> u16" where
  "cec_ops_routing_change m =
     (be16 (msg m ! 2) (msg m ! 3), be16 (msg m ! 4) (msg m ! 5))"

definition cec_msg_set_stream_path :: "cec_msg \<Rightarrow> u16 \<Rightarrow> cec_msg" where
  "cec_msg_set_stream_path m phys_addr =
     m\<lparr>len := 4,
       msg := (msg m)[0 := msg m ! 0 OR 0xf, 1 := CEC_MSG_SET_STREAM_PATH, 2 := hi8 phys_addr,
         3 := lo8 phys_addr]\<rparr>"

definition cec_ops_set_stream_path :: "cec_msg \<Rightarrow> u16" where
  "cec_ops_set_stream_path m = be16 (msg m ! 2) (msg m ! 3)"

section \<open>Standby\<close>

definition cec_msg_standby :: "cec_msg \<Rightarrow> cec_msg" where
  "cec_msg_standby m =
     m\<lparr>len := 2,
       msg := (msg m)[1 := CEC_MSG_STANDBY]\<rparr>"

lemmas routing_defs [wire_simps] =
  cec_msg_active_source_def cec_ops_active_source_def cec_msg_image_view_on_def
  cec_msg_text_view_on_def cec_msg_inactive_source_def cec_ops_inactive_source_def
  cec_msg_request_active_source_def cec_msg_routing_information_def
  cec_ops_routing_information_def cec_msg_routing_change_def cec_ops_routing_change_def
  cec_msg_set_stream_path_def cec_ops_set_stream_path_def cec_msg_standby_def

section \<open>Contracts\<close>

interpretation active_source: cec_tight_codec
  "\<lambda>phys_addr m. cec_msg_active_source m phys_addr"
  CEC_MSG_ACTIVE_SOURCE True cec_ops_active_source "\<lambda>x. x" "\<lambda>_. True"
  by unfold_locales (auto simp: wire_simps)

interpretation image_view_on: cec_tight_builder
  "\<lambda>m. cec_msg_image_view_on m" CEC_MSG_IMAGE_VIEW_ON False
  by unfold_locales (auto simp: wire_simps)

interpretation text_view_on: cec_tight_builder
  "\<lambda>m. cec_msg_text_view_on m" CEC_MSG_TEXT_VIEW_ON False
  by unfold_locales (auto simp: wire_simps)

interpretation inactive_source: cec_tight_codec
  "\<lambda>phys_addr m. cec_msg_inactive_source m phys_addr"
  CEC_MSG_INACTIVE_SOURCE False cec_ops_inactive_source "\<lambda>x. x" "\<lambda>_. True"
  by unfold_locales (auto simp: wire_simps)

interpretation request_active_source: cec_request
  "\<lambda>rep m. cec_msg_request_active_source m rep"
  CEC_MSG_REQUEST_ACTIVE_SOURCE True CEC_MSG_ACTIVE_SOURCE
  by unfold_locales (auto simp: wire_simps)

interpretation routing_information: cec_tight_codec
  "\<lambda>phys_addr m. cec_msg_routing_information m phys_addr"
  CEC_MSG_ROUTING_INFORMATION True cec_ops_routing_information "\<lambda>x. x" "\<lambda>_. True"
  by unfold_locales (auto simp: wire_simps)

interpretation routing_change: cec_tight_codec
  "\<lambda>(orig_phys_addr, new_phys_addr) m. cec_msg_routing_change m rep orig_phys_addr
    new_phys_addr"
  CEC_MSG_ROUTING_CHANGE True cec_ops_routing_change "\<lambda>x. x" "\<lambda>_. True" for rep
  by unfold_locales (auto simp: wire_simps)

interpretation routing_change_q: cec_request
  "\<lambda>rep m. cec_msg_routing_change m rep orig_phys_addr new_phys_addr"
  CEC_MSG_ROUTING_CHANGE True CEC_MSG_ROUTING_INFORMATION
  for orig_phys_addr new_phys_addr
  by unfold_locales (auto simp: wire_simps)

interpretation set_stream_path: cec_tight_codec
  "\<lambda>phys_addr m. cec_msg_set_stream_path m phys_addr"
  CEC_MSG_SET_STREAM_PATH True cec_ops_set_stream_path "\<lambda>x. x" "\<lambda>_. True"
  by unfold_locales (auto simp: wire_simps)

interpretation standby: cec_tight_builder "\<lambda>m. cec_msg_standby m" CEC_MSG_STANDBY False
  by unfold_locales (auto simp: wire_simps)

section \<open>Steps\<close>

text \<open>One rule for every builder of the group, at all arguments.\<close>

inductive routing_step :: "u8 \<Rightarrow> bool \<Rightarrow> cec_msg \<Rightarrow> cec_msg \<Rightarrow> bool" where
  active_source: "routing_step CEC_MSG_ACTIVE_SOURCE True m (cec_msg_active_source m phys_addr)"
| image_view_on: "routing_step CEC_MSG_IMAGE_VIEW_ON False m (cec_msg_image_view_on m)"
| text_view_on: "routing_step CEC_MSG_TEXT_VIEW_ON False m (cec_msg_text_view_on m)"
| inactive_source: "routing_step CEC_MSG_INACTIVE_SOURCE False m (cec_msg_inactive_source m
     phys_addr)"
| request_active_source: "routing_step CEC_MSG_REQUEST_ACTIVE_SOURCE True m
     (cec_msg_request_active_source m rep)"
| routing_information: "routing_step CEC_MSG_ROUTING_INFORMATION True m
     (cec_msg_routing_information m phys_addr)"
| routing_change: "routing_step CEC_MSG_ROUTING_CHANGE True m (cec_msg_routing_change m rep
     orig_phys_addr new_phys_addr)"
| set_stream_path: "routing_step CEC_MSG_SET_STREAM_PATH True m (cec_msg_set_stream_path m
     phys_addr)"
| standby: "routing_step CEC_MSG_STANDBY False m (cec_msg_standby m)"

lemmas routing_sent =
  active_source.sent.build_sent
  image_view_on.build_sent
  text_view_on.build_sent
  inactive_source.sent.build_sent
  request_active_source.asked.build_sent
  routing_information.sent.build_sent
  routing_change.sent.build_sent [where a = "(orig_phys_addr, new_phys_addr)" for orig_phys_addr
      new_phys_addr, unfolded prod.case]
  set_stream_path.sent.build_sent
  standby.build_sent

lemma routing_step_sent: "routing_step opc bcast m m' \<Longrightarrow> cec_buf m \<Longrightarrow> cec_sent opc bcast m m'"
  by (induction rule: routing_step.induct) (auto intro: routing_sent)

lemma routing_step_opcode: "routing_step opc bcast m m' \<Longrightarrow> opc \<in> set cec_opcodes"
  by (induction rule: routing_step.induct) (simp_all add: cec_opcodes_def)

lemma routing_step_bcast: "routing_step opc bcast m m' \<Longrightarrow> bcast \<longleftrightarrow> opc \<in> set cec_broadcast_opcodes"
  by (induction rule: routing_step.induct) (simp_all add: cec_broadcast_opcodes_def)

end
