(* ===== verification/Cec_Record.thy ===== *)
theory Cec_Record
  imports Cec_Core Cec_Opcodes
begin

text \<open>
  One Touch Record messages, and the service identifications (\<^verbatim>\<open>struct
  cec_op_digital_service_id\<close> and its packing into seven payload bytes) that the record,
  timer and tuner messages carry.  A union is modelled by its storage: aligned
  little-endian halfwords of which every member is a named part, so that writing one
  member and reading another (the code writes the \<^verbatim>\<open>dvb\<close> member where a caller reads
  \<^verbatim>\<open>atsc\<close>) gives what it gives in C.
\<close>

section \<open>Service identification\<close>

record cec_op_digital_service_id =
  service_id_method :: u8
  dig_bcast_system :: u8
  ds_w0 :: u16
  ds_w1 :: u16
  ds_w2 :: u16

subsection \<open>Members of the union\<close>

abbreviation (input) "arib_transport_id d \<equiv> ds_w0 d"
abbreviation (input) "arib_service_id d \<equiv> ds_w1 d"
abbreviation (input) "arib_orig_network_id d \<equiv> ds_w2 d"
abbreviation (input) "atsc_transport_id d \<equiv> ds_w0 d"
abbreviation (input) "atsc_program_number d \<equiv> ds_w1 d"
abbreviation (input) "dvb_transport_id d \<equiv> ds_w0 d"
abbreviation (input) "dvb_service_id d \<equiv> ds_w1 d"
abbreviation (input) "dvb_orig_network_id d \<equiv> ds_w2 d"
abbreviation (input) "channel_number_fmt d \<equiv> lo8 (ds_w0 d)"
abbreviation (input) "channel_major d \<equiv> ds_w1 d"
abbreviation (input) "channel_minor d \<equiv> ds_w2 d"

subsection \<open>Packing and unpacking\<close>

text \<open>
  The C functions take a pointer into the payload array; here the array and the index
  the pointer starts at.
\<close>

definition cec_set_digital_service_id ::
  "u8 list \<Rightarrow> nat \<Rightarrow> cec_op_digital_service_id \<Rightarrow> u8 list" where
  "cec_set_digital_service_id buf p digital =
     (let buf = buf[p := pack8 7 (service_id_method digital) (dig_bcast_system digital)] in
      if service_id_method digital = CEC_OP_SERVICE_ID_METHOD_BY_CHANNEL then
        buf[p + 1 := pack8 2 (channel_number_fmt digital) (hi8 (channel_major digital)),
            p + 2 := lo8 (channel_major digital),
            p + 3 := hi8 (channel_minor digital), p + 4 := lo8 (channel_minor digital),
            p + 5 := 0, p + 6 := 0]
      else if dig_bcast_system digital = CEC_OP_DIG_SERVICE_BCAST_SYSTEM_ATSC_GEN \<or>
          dig_bcast_system digital = CEC_OP_DIG_SERVICE_BCAST_SYSTEM_ATSC_CABLE \<or>
          dig_bcast_system digital = CEC_OP_DIG_SERVICE_BCAST_SYSTEM_ATSC_SAT \<or>
          dig_bcast_system digital = CEC_OP_DIG_SERVICE_BCAST_SYSTEM_ATSC_T then
        buf[p + 1 := hi8 (atsc_transport_id digital), p + 2 := lo8 (atsc_transport_id digital),
            p + 3 := hi8 (atsc_program_number digital), p + 4 := lo8 (atsc_program_number digital),
            p + 5 := 0, p + 6 := 0]
      else
        buf[p + 1 := hi8 (dvb_transport_id digital), p + 2 := lo8 (dvb_transport_id digital),
            p + 3 := hi8 (dvb_service_id digital), p + 4 := lo8 (dvb_service_id digital),
            p + 5 := hi8 (dvb_orig_network_id digital),
            p + 6 := lo8 (dvb_orig_network_id digital)])"

definition cec_get_digital_service_id ::
  "u8 list \<Rightarrow> nat \<Rightarrow> cec_op_digital_service_id \<Rightarrow> cec_op_digital_service_id" where
  "cec_get_digital_service_id buf p digital =
     (let digital = digital\<lparr>service_id_method := drop_bit 7 (buf ! p),
                            dig_bcast_system := buf ! p AND 0x7f\<rparr> in
      if service_id_method digital = CEC_OP_SERVICE_ID_METHOD_BY_CHANNEL then
        digital\<lparr>ds_w0 := set_lo8 (drop_bit 2 (buf ! (p + 1))) (ds_w0 digital),
                ds_w1 := push_bit 6 (ucast (buf ! (p + 1) AND 3)) OR ucast (buf ! (p + 2)),
                ds_w2 := be16 (buf ! (p + 3)) (buf ! (p + 4))\<rparr>
      else
        digital\<lparr>ds_w0 := be16 (buf ! (p + 1)) (buf ! (p + 2)),
                ds_w1 := be16 (buf ! (p + 3)) (buf ! (p + 4)),
                ds_w2 := be16 (buf ! (p + 5)) (buf ! (p + 6))\<rparr>)"


subsection \<open>What a service identification means\<close>

text \<open>
  The abstract value: the members that the identification method and the broadcast
  system select.
\<close>

datatype service_id =
  By_channel u8 u8 u16 u16
| By_atsc u8 u16 u16
| By_dvb u8 u16 u16 u16

definition is_atsc :: "u8 \<Rightarrow> bool" where
  "is_atsc b \<longleftrightarrow> b \<in> {CEC_OP_DIG_SERVICE_BCAST_SYSTEM_ATSC_GEN,
     CEC_OP_DIG_SERVICE_BCAST_SYSTEM_ATSC_CABLE, CEC_OP_DIG_SERVICE_BCAST_SYSTEM_ATSC_SAT,
     CEC_OP_DIG_SERVICE_BCAST_SYSTEM_ATSC_T}"

definition ds_view :: "cec_op_digital_service_id \<Rightarrow> service_id" where
  "ds_view d =
     (if service_id_method d = CEC_OP_SERVICE_ID_METHOD_BY_CHANNEL
      then By_channel (dig_bcast_system d) (channel_number_fmt d) (channel_major d) (channel_minor d)
      else if is_atsc (dig_bcast_system d)
      then By_atsc (dig_bcast_system d) (atsc_transport_id d) (atsc_program_number d)
      else By_dvb (dig_bcast_system d) (dvb_transport_id d) (dvb_service_id d) (dvb_orig_network_id d))"

text \<open>
  The fields of the wire format: one bit of method, seven of broadcast system, and for
  a channel six bits of number format and ten of major number.
\<close>

definition ds_fits :: "cec_op_digital_service_id \<Rightarrow> bool" where
  "ds_fits d \<longleftrightarrow> service_id_method d < 2 \<and> dig_bcast_system d < 128 \<and>
     (service_id_method d = CEC_OP_SERVICE_ID_METHOD_BY_CHANNEL \<longrightarrow>
        channel_number_fmt d < 64 \<and> channel_major d < 1024)"

text \<open>The major numbers the reader can give back: it keeps eight of the ten bits.\<close>

definition ds_ok :: "cec_op_digital_service_id \<Rightarrow> bool" where
  "ds_ok d \<longleftrightarrow> ds_fits d \<and>
     (service_id_method d = CEC_OP_SERVICE_ID_METHOD_BY_CHANNEL \<longrightarrow> channel_major d < 256)"

lemma ds_method_cases: "ds_fits d \<Longrightarrow> service_id_method d = 0 \<or> service_id_method d = 1"
  by (auto simp: ds_fits_def dest: u8_less_2)

text \<open>The two contracts of the packing functions, over any array with room for seven bytes.\<close>

lemma length_set_digital [simp]:
  "length (cec_set_digital_service_id buf p d) = length buf"
  by (simp add: cec_set_digital_service_id_def Let_def)

lemma nth_set_digital_outside [simp]:
  "i < p \<or> p + 7 \<le> i \<Longrightarrow> cec_set_digital_service_id buf p d ! i = buf ! i"
  by (auto simp: cec_set_digital_service_id_def Let_def)

definition agree7 :: "u8 list \<Rightarrow> u8 list \<Rightarrow> nat \<Rightarrow> bool" where
  "agree7 a b p \<longleftrightarrow> (\<forall>k < 7. a ! (p + k) = b ! (p + k))"

lemma get_set_channel:
  assumes "p + 6 < length buf" and "ds_fits d" and "service_id_method d = 1"
    and "agree7 r (cec_set_digital_service_id buf p d) p"
  shows "ds_view (cec_get_digital_service_id r p d0) =
    By_channel (dig_bcast_system d) (channel_number_fmt d)
      (push_bit 6 (ucast (hi8 (channel_major d))) OR ucast (lo8 (channel_major d)))
      (channel_minor d)"
  using assms
  by (simp add: agree7_def cec_set_digital_service_id_def cec_get_digital_service_id_def
      ds_fits_def ds_view_def all_less_numeral nth_list_update)

lemma get_set_id:
  assumes "p + 6 < length buf" and "ds_fits d" and "service_id_method d = 0"
    and "agree7 r (cec_set_digital_service_id buf p d) p"
  shows "ds_view (cec_get_digital_service_id r p d0) = ds_view d"
  using assms
  by (auto simp: agree7_def cec_set_digital_service_id_def cec_get_digital_service_id_def
      ds_fits_def ds_view_def is_atsc_def all_less_numeral nth_list_update)

lemma get_set_digital:
  assumes "p + 6 < length buf" and "ds_ok d"
    and "agree7 r (cec_set_digital_service_id buf p d) p"
  shows "ds_view (cec_get_digital_service_id r p d0) = ds_view d"
proof -
  have fits: "ds_fits d" using assms(2) by (simp add: ds_ok_def)
  from ds_method_cases [OF fits] show ?thesis
  proof
    assume "service_id_method d = 0"
    then show ?thesis using get_set_id [OF assms(1) fits _ assms(3)] by simp
  next
    assume m: "service_id_method d = 1"
    have "channel_major d < 256" using assms(2) m by (simp add: ds_ok_def)
    then have "push_bit 6 (ucast (hi8 (channel_major d))) OR ucast (lo8 (channel_major d))
        = channel_major d"
      using hi8_eq_0_iff [of "channel_major d"] by (simp add: ucast_lo8)
    with get_set_channel [OF assms(1) fits m assms(3), of d0] m show ?thesis
      by (simp add: ds_view_def)
  qed
qed

text \<open>A whole received frame that ends in a packed identification.\<close>

lemma get_set_digital_frame:
  assumes "\<forall>i < p + 7. r ! i = cec_set_digital_service_id buf p d ! i"
    and "p + 6 < length buf" and "ds_ok d"
  shows "ds_view (cec_get_digital_service_id r p d0) = ds_view d" and "\<forall>i < p. r ! i = buf ! i"
  using assms get_set_digital [of p buf d r d0] by (auto simp: agree7_def)

section \<open>Record source\<close>

record cec_op_record_src =
  rs_type :: u8
  rs_w0 :: u16
  rs_w1 :: u16
  rs_w2 :: u16
  rs_w3 :: u16

subsection \<open>Members of the union\<close>

definition rs_digital :: "cec_op_record_src \<Rightarrow> cec_op_digital_service_id" where
  "rs_digital s = \<lparr>service_id_method = lo8 (rs_w0 s), dig_bcast_system = hi8 (rs_w0 s),
     ds_w0 = rs_w1 s, ds_w1 = rs_w2 s, ds_w2 = rs_w3 s\<rparr>"

definition rs_set_digital ::
  "cec_op_digital_service_id \<Rightarrow> cec_op_record_src \<Rightarrow> cec_op_record_src" where
  "rs_set_digital d s = s\<lparr>rs_w0 := be16 (dig_bcast_system d) (service_id_method d),
     rs_w1 := ds_w0 d, rs_w2 := ds_w1 d, rs_w3 := ds_w2 d\<rparr>"

abbreviation (input) "rs_ana_bcast_type s \<equiv> lo8 (rs_w0 s)"
abbreviation (input) "rs_ana_freq s \<equiv> rs_w1 s"
abbreviation (input) "rs_bcast_system s \<equiv> lo8 (rs_w2 s)"
abbreviation (input) "rs_plug s \<equiv> lo8 (rs_w0 s)"
abbreviation (input) "rs_phys_addr s \<equiv> rs_w0 s"

lemma rs_digital_set [simp]: "rs_digital (rs_set_digital d s) = d"
  by (cases d) (simp add: rs_digital_def rs_set_digital_def)

lemma rs_type_set_digital [simp]: "rs_type (rs_set_digital d s) = rs_type s"
  by (simp add: rs_set_digital_def)

section \<open>Record messages\<close>

definition cec_msg_record_off :: "cec_msg \<Rightarrow> c_int \<Rightarrow> cec_msg" where
  "cec_msg_record_off m rep =
     m\<lparr>len := 2,
       msg := (msg m)[1 := CEC_MSG_RECORD_OFF],
       reply := if rep \<noteq> 0 then CEC_MSG_RECORD_STATUS else 0\<rparr>"

definition cec_msg_record_on_own :: "cec_msg \<Rightarrow> cec_msg" where
  "cec_msg_record_on_own m =
     m\<lparr>len := 3,
       msg := (msg m)[1 := CEC_MSG_RECORD_ON, 2 := CEC_OP_RECORD_SRC_OWN]\<rparr>"

definition cec_msg_record_on_digital :: "cec_msg \<Rightarrow> cec_op_digital_service_id \<Rightarrow> cec_msg" where
  "cec_msg_record_on_digital m digital =
     (let m = m\<lparr>len := 10,
                msg := (msg m)[1 := CEC_MSG_RECORD_ON, 2 := CEC_OP_RECORD_SRC_DIGITAL]\<rparr> in
      m\<lparr>msg := cec_set_digital_service_id (msg m) 3 digital\<rparr>)"


definition cec_msg_record_on_analog ::
  "cec_msg \<Rightarrow> u8 \<Rightarrow> u16 \<Rightarrow> u8 \<Rightarrow> cec_msg" where
  "cec_msg_record_on_analog m ana_bcast_type ana_freq bcast_system =
     m\<lparr>len := 7,
       msg := (msg m)[1 := CEC_MSG_RECORD_ON, 2 := CEC_OP_RECORD_SRC_ANALOG,
         3 := ana_bcast_type, 4 := hi8 ana_freq, 5 := lo8 ana_freq, 6 := bcast_system]\<rparr>"

definition cec_msg_record_on_plug :: "cec_msg \<Rightarrow> u8 \<Rightarrow> cec_msg" where
  "cec_msg_record_on_plug m plug =
     m\<lparr>len := 4,
       msg := (msg m)[1 := CEC_MSG_RECORD_ON, 2 := CEC_OP_RECORD_SRC_EXT_PLUG, 3 := plug]\<rparr>"

definition cec_msg_record_on_phys_addr :: "cec_msg \<Rightarrow> u16 \<Rightarrow> cec_msg" where
  "cec_msg_record_on_phys_addr m phys_addr =
     m\<lparr>len := 5,
       msg := (msg m)[1 := CEC_MSG_RECORD_ON, 2 := CEC_OP_RECORD_SRC_EXT_PHYS_ADDR,
         3 := hi8 phys_addr, 4 := lo8 phys_addr]\<rparr>"

text \<open>An unknown source type leaves the frame as it was; only the reply field is set.\<close>

definition cec_msg_record_on :: "cec_msg \<Rightarrow> c_int \<Rightarrow> cec_op_record_src \<Rightarrow> cec_msg" where
  "cec_msg_record_on m rep rec_src =
     (let m =
        (if rs_type rec_src = CEC_OP_RECORD_SRC_OWN then cec_msg_record_on_own m
         else if rs_type rec_src = CEC_OP_RECORD_SRC_DIGITAL then
           cec_msg_record_on_digital m (rs_digital rec_src)
         else if rs_type rec_src = CEC_OP_RECORD_SRC_ANALOG then
           cec_msg_record_on_analog m (rs_ana_bcast_type rec_src) (rs_ana_freq rec_src)
             (rs_bcast_system rec_src)
         else if rs_type rec_src = CEC_OP_RECORD_SRC_EXT_PLUG then
           cec_msg_record_on_plug m (rs_plug rec_src)
         else if rs_type rec_src = CEC_OP_RECORD_SRC_EXT_PHYS_ADDR then
           cec_msg_record_on_phys_addr m (rs_phys_addr rec_src)
         else m) in
      m\<lparr>reply := if rep \<noteq> 0 then CEC_MSG_RECORD_STATUS else 0\<rparr>)"

definition cec_ops_record_on :: "cec_msg \<Rightarrow> cec_op_record_src \<Rightarrow> cec_op_record_src" where
  "cec_ops_record_on m rec_src =
     (let rec_src = rec_src\<lparr>rs_type := msg m ! 2\<rparr> in
      if rs_type rec_src = CEC_OP_RECORD_SRC_OWN then rec_src
      else if rs_type rec_src = CEC_OP_RECORD_SRC_DIGITAL then
        rs_set_digital (cec_get_digital_service_id (msg m) 3 (rs_digital rec_src)) rec_src
      else if rs_type rec_src = CEC_OP_RECORD_SRC_ANALOG then
        rec_src\<lparr>rs_w0 := set_lo8 (msg m ! 3) (rs_w0 rec_src),
                rs_w1 := be16 (msg m ! 4) (msg m ! 5),
                rs_w2 := set_lo8 (msg m ! 6) (rs_w2 rec_src)\<rparr>
      else if rs_type rec_src = CEC_OP_RECORD_SRC_EXT_PLUG then
        rec_src\<lparr>rs_w0 := set_lo8 (msg m ! 3) (rs_w0 rec_src)\<rparr>
      else if rs_type rec_src = CEC_OP_RECORD_SRC_EXT_PHYS_ADDR then
        rec_src\<lparr>rs_w0 := be16 (msg m ! 3) (msg m ! 4)\<rparr>
      else rec_src)"


definition cec_msg_record_status :: "cec_msg \<Rightarrow> u8 \<Rightarrow> cec_msg" where
  "cec_msg_record_status m rec_status =
     m\<lparr>len := 3,
       msg := (msg m)[1 := CEC_MSG_RECORD_STATUS, 2 := rec_status]\<rparr>"

definition cec_ops_record_status :: "cec_msg \<Rightarrow> u8" where
  "cec_ops_record_status m = msg m ! 2"

definition cec_msg_record_tv_screen :: "cec_msg \<Rightarrow> c_int \<Rightarrow> cec_msg" where
  "cec_msg_record_tv_screen m rep =
     m\<lparr>len := 2,
       msg := (msg m)[1 := CEC_MSG_RECORD_TV_SCREEN],
       reply := if rep \<noteq> 0 then CEC_MSG_RECORD_ON else 0\<rparr>"

lemmas record_defs [wire_simps] =
  cec_msg_record_off_def cec_msg_record_on_own_def cec_msg_record_on_digital_def
  cec_msg_record_on_analog_def cec_msg_record_on_plug_def cec_msg_record_on_phys_addr_def
  cec_msg_record_status_def cec_ops_record_status_def cec_msg_record_tv_screen_def

subsection \<open>What a record source means\<close>

datatype record_source =
  Src_own
| Src_digital service_id
| Src_analog u8 u16 u8
| Src_plug u8
| Src_phys_addr u16
| Src_unknown u8

definition rs_view :: "cec_op_record_src \<Rightarrow> record_source" where
  "rs_view s =
     (if rs_type s = CEC_OP_RECORD_SRC_OWN then Src_own
      else if rs_type s = CEC_OP_RECORD_SRC_DIGITAL then Src_digital (ds_view (rs_digital s))
      else if rs_type s = CEC_OP_RECORD_SRC_ANALOG then
        Src_analog (rs_ana_bcast_type s) (rs_ana_freq s) (rs_bcast_system s)
      else if rs_type s = CEC_OP_RECORD_SRC_EXT_PLUG then Src_plug (rs_plug s)
      else if rs_type s = CEC_OP_RECORD_SRC_EXT_PHYS_ADDR then Src_phys_addr (rs_phys_addr s)
      else Src_unknown (rs_type s))"

lemma rs_view_simps:
  "rs_type s = CEC_OP_RECORD_SRC_OWN \<Longrightarrow> rs_view s = Src_own"
  "rs_type s = CEC_OP_RECORD_SRC_DIGITAL \<Longrightarrow> rs_view s = Src_digital (ds_view (rs_digital s))"
  "rs_type s = CEC_OP_RECORD_SRC_ANALOG \<Longrightarrow>
   rs_view s = Src_analog (rs_ana_bcast_type s) (rs_ana_freq s) (rs_bcast_system s)"
  "rs_type s = CEC_OP_RECORD_SRC_EXT_PLUG \<Longrightarrow> rs_view s = Src_plug (rs_plug s)"
  "rs_type s = CEC_OP_RECORD_SRC_EXT_PHYS_ADDR \<Longrightarrow> rs_view s = Src_phys_addr (rs_phys_addr s)"
  by (simp_all add: rs_view_def)

section \<open>Contracts\<close>

interpretation record_off: cec_request
  "\<lambda>rep m. cec_msg_record_off m rep"
  CEC_MSG_RECORD_OFF False CEC_MSG_RECORD_STATUS
  by unfold_locales (auto simp: wire_simps)

interpretation record_status: cec_tight_codec
  "\<lambda>rec_status m. cec_msg_record_status m rec_status"
  CEC_MSG_RECORD_STATUS False cec_ops_record_status "\<lambda>x. x" "\<lambda>_. True"
  by unfold_locales (auto simp: wire_simps)

interpretation record_tv_screen: cec_request
  "\<lambda>rep m. cec_msg_record_tv_screen m rep"
  CEC_MSG_RECORD_TV_SCREEN False CEC_MSG_RECORD_ON
  by unfold_locales (auto simp: wire_simps)

interpretation record_on_own: cec_tight_codec
  "\<lambda>(_ :: unit) m. cec_msg_record_on_own m" CEC_MSG_RECORD_ON False
  "\<lambda>m. rs_view (cec_ops_record_on m rs0)" "\<lambda>_. Src_own" "\<lambda>_. True" for rs0
  by unfold_locales (auto simp: wire_simps cec_ops_record_on_def rs_view_def)

interpretation record_on_digital: cec_tight_codec
  "\<lambda>d m. cec_msg_record_on_digital m d" CEC_MSG_RECORD_ON False
  "\<lambda>m. rs_view (cec_ops_record_on m rs0)" "\<lambda>d. Src_digital (ds_view d)" ds_ok for rs0
proof unfold_locales
  fix d m r
  assume h: "ds_ok d" "cec_buf m" "cec_buf r" "len r = len (cec_msg_record_on_digital m d)"
    "\<forall>i < unat (len (cec_msg_record_on_digital m d)). msg r ! i = msg (cec_msg_record_on_digital m d) ! i"
  have "agree7 (msg r) (cec_set_digital_service_id
      ((msg m)[1 := CEC_MSG_RECORD_ON, 2 := CEC_OP_RECORD_SRC_DIGITAL]) 3 d) 3"
    using h by (simp add: agree7_def cec_msg_record_on_digital_def)
  then have "ds_view (cec_get_digital_service_id (msg r) 3 d0) = ds_view d" for d0
    using h by (intro get_set_digital) (auto simp: cec_buf_def)
  moreover have "msg r ! 2 = CEC_OP_RECORD_SRC_DIGITAL"
    using h by (simp add: wire_simps)
  ultimately show "rs_view (cec_ops_record_on r rs0) = Src_digital (ds_view d)"
    by (simp add: cec_ops_record_on_def rs_view_def Let_def)
qed (auto simp: wire_simps)

interpretation record_on_analog: cec_tight_codec
  "\<lambda>(t, f, s) m. cec_msg_record_on_analog m t f s" CEC_MSG_RECORD_ON False
  "\<lambda>m. rs_view (cec_ops_record_on m rs0)" "\<lambda>(t, f, s). Src_analog t f s" "\<lambda>_. True" for rs0
  by unfold_locales (auto simp: wire_simps cec_ops_record_on_def rs_view_def)

interpretation record_on_plug: cec_tight_codec
  "\<lambda>p m. cec_msg_record_on_plug m p" CEC_MSG_RECORD_ON False
  "\<lambda>m. rs_view (cec_ops_record_on m rs0)" Src_plug "\<lambda>_. True" for rs0
  by unfold_locales (auto simp: wire_simps cec_ops_record_on_def rs_view_def)

interpretation record_on_phys_addr: cec_tight_codec
  "\<lambda>p m. cec_msg_record_on_phys_addr m p" CEC_MSG_RECORD_ON False
  "\<lambda>m. rs_view (cec_ops_record_on m rs0)" Src_phys_addr "\<lambda>_. True" for rs0
  by unfold_locales (auto simp: wire_simps cec_ops_record_on_def rs_view_def)

section \<open>Properties\<close>

definition rs_ok :: "cec_op_record_src \<Rightarrow> bool" where
  "rs_ok s \<longleftrightarrow> 1 \<le> rs_type s \<and> rs_type s \<le> 5 \<and>
     (rs_type s = CEC_OP_RECORD_SRC_DIGITAL \<longrightarrow> ds_ok (rs_digital s))"

lemma rs_type_cases:
  "1 \<le> (t :: u8) \<Longrightarrow> t \<le> 5 \<Longrightarrow>
   t = CEC_OP_RECORD_SRC_OWN \<or> t = CEC_OP_RECORD_SRC_DIGITAL \<or> t = CEC_OP_RECORD_SRC_ANALOG \<or>
   t = CEC_OP_RECORD_SRC_EXT_PLUG \<or> t = CEC_OP_RECORD_SRC_EXT_PHYS_ADDR"
  by unat_arith

lemma record_on_known:
  assumes "rs_ok s" and "cec_buf m"
  shows "cec_wf (cec_msg_record_on m rep s) \<and>
    cec_msg_opcode (cec_msg_record_on m rep s) = uint CEC_MSG_RECORD_ON \<and>
    (cec_wf r \<longrightarrow> cec_frame r = cec_frame (cec_msg_record_on m rep s) \<longrightarrow>
      rs_view (cec_ops_record_on r rs0) = rs_view s)"
proof -
  have "1 \<le> rs_type s" "rs_type s \<le> 5" using assms(1) by (simp_all add: rs_ok_def)
  then consider "rs_type s = CEC_OP_RECORD_SRC_OWN" | "rs_type s = CEC_OP_RECORD_SRC_DIGITAL"
    | "rs_type s = CEC_OP_RECORD_SRC_ANALOG" | "rs_type s = CEC_OP_RECORD_SRC_EXT_PLUG"
    | "rs_type s = CEC_OP_RECORD_SRC_EXT_PHYS_ADDR"
    using rs_type_cases by blast
  then show ?thesis
  proof cases
    case 1
    with assms record_on_own.parse_same_frame show ?thesis
      by (simp add: cec_msg_record_on_def rs_view_simps record_on_own.send_wf
          record_on_own.sent.opcode_of_build)
  next
    case 2
    with assms have "ds_ok (rs_digital s)" by (simp add: rs_ok_def)
    with 2 assms show ?thesis
      by (simp add: cec_msg_record_on_def rs_view_simps record_on_digital.send_wf
          record_on_digital.sent.opcode_of_build record_on_digital.parse_same_frame)
  next
    case 3
    with assms record_on_analog.parse_same_frame
      [where a = "(lo8 (rs_w0 s), rs_w1 s, lo8 (rs_w2 s))"]
      record_on_analog.send_wf [where a = "(lo8 (rs_w0 s), rs_w1 s, lo8 (rs_w2 s))"]
      record_on_analog.sent.opcode_of_build [where a = "(lo8 (rs_w0 s), rs_w1 s, lo8 (rs_w2 s))"]
    show ?thesis by (simp add: cec_msg_record_on_def rs_view_simps)
  next
    case 4
    with assms show ?thesis
      by (simp add: cec_msg_record_on_def rs_view_simps record_on_plug.send_wf
          record_on_plug.sent.opcode_of_build record_on_plug.parse_same_frame)
  next
    case 5
    with assms show ?thesis
      by (simp add: cec_msg_record_on_def rs_view_simps record_on_phys_addr.send_wf
          record_on_phys_addr.sent.opcode_of_build record_on_phys_addr.parse_same_frame)
  qed
qed

lemma record_on_sent:
  assumes "1 \<le> rs_type s" and "rs_type s \<le> 5" and "cec_buf m"
  shows "cec_sent CEC_MSG_RECORD_ON False m (cec_msg_record_on m rep s)"
  using rs_type_cases [OF assms(1,2)] assms(3)
    record_on_analog.sent.build_sent [where a = "(lo8 (rs_w0 s), rs_w1 s, lo8 (rs_w2 s))" and m = m]
  by (elim disjE) (simp_all add: cec_msg_record_on_def record_on_own.sent.build_sent
      record_on_digital.sent.build_sent record_on_plug.sent.build_sent
      record_on_phys_addr.sent.build_sent)

section \<open>Steps\<close>

text \<open>One rule for every builder of the group, at all arguments.\<close>

inductive record_step :: "u8 \<Rightarrow> bool \<Rightarrow> cec_msg \<Rightarrow> cec_msg \<Rightarrow> bool" where
  record_off: "record_step CEC_MSG_RECORD_OFF False m (cec_msg_record_off m rep)"
| record_status: "record_step CEC_MSG_RECORD_STATUS False m (cec_msg_record_status m rec_status)"
| record_tv_screen: "record_step CEC_MSG_RECORD_TV_SCREEN False m (cec_msg_record_tv_screen m
     rep)"
| record_on_own: "record_step CEC_MSG_RECORD_ON False m (cec_msg_record_on_own m)"
| record_on_digital: "record_step CEC_MSG_RECORD_ON False m (cec_msg_record_on_digital m d)"
| record_on_analog: "record_step CEC_MSG_RECORD_ON False m (cec_msg_record_on_analog m a b c)"
| record_on_plug: "record_step CEC_MSG_RECORD_ON False m (cec_msg_record_on_plug m p)"
| record_on_phys_addr: "record_step CEC_MSG_RECORD_ON False m (cec_msg_record_on_phys_addr m p)"
| record_on: "1 \<le> rs_type s \<Longrightarrow> rs_type s \<le> 5 \<Longrightarrow> record_step
     CEC_MSG_RECORD_ON False m (cec_msg_record_on m rep s)"

lemmas record_sent =
  record_off.asked.build_sent
  record_status.sent.build_sent
  record_tv_screen.asked.build_sent
  record_on_own.sent.build_sent
  record_on_digital.sent.build_sent
  record_on_analog.sent.build_sent [where a = "(a, b, c)" for a b c, unfolded prod.case]
  record_on_plug.sent.build_sent
  record_on_phys_addr.sent.build_sent
  record_on_sent

lemma record_step_sent: "record_step opc bcast m m' \<Longrightarrow> cec_buf m \<Longrightarrow> cec_sent opc bcast m m'"
  by (induction rule: record_step.induct) (auto intro: record_sent)

lemma record_step_opcode: "record_step opc bcast m m' \<Longrightarrow> opc \<in> set cec_opcodes"
  by (induction rule: record_step.induct) (simp_all add: cec_opcodes_def)

lemma record_step_bcast: "record_step opc bcast m m' \<Longrightarrow> bcast \<longleftrightarrow> opc \<in> set cec_broadcast_opcodes"
  by (induction rule: record_step.induct) (simp_all add: cec_broadcast_opcodes_def)

section \<open>Properties\<close>

text \<open>C14: Packing a service identification whose fields fit the wire format and unpacking the
  seven bytes gives the same identification back, unless it names a channel with a major
  number of 256 or more: the reader shifts the upper two bits by six where the writer split
  them off at eight, so those identifications never come back.\<close>

theorem digital_service_id_roundtrip:
  assumes "ds_fits d" and "p + 6 < length buf"
  shows "ds_view (cec_get_digital_service_id (cec_set_digital_service_id buf p d) p d0) = ds_view d
    \<longleftrightarrow> \<not> (service_id_method d = CEC_OP_SERVICE_ID_METHOD_BY_CHANNEL \<and> channel_major d \<ge> 256)"
proof (cases "service_id_method d = 1 \<and> channel_major d \<ge> 256")
  case False
  then show ?thesis
    using assms get_set_digital [of p buf d "cec_set_digital_service_id buf p d" d0]
    by (auto simp: ds_ok_def agree7_def not_le)
next
  case True
  have a: "agree7 (cec_set_digital_service_id buf p d) (cec_set_digital_service_id buf p d) p"
    by (simp add: agree7_def)
  have "push_bit 6 (ucast (hi8 (channel_major d))) OR ucast (lo8 (channel_major d)) \<noteq> channel_major d"
    using True assms(1) by (intro folded_major) (simp_all add: ds_fits_def)
  then show ?thesis
    using get_set_channel [OF assms(2,1) _ a, of d0] True by (simp add: ds_view_def)
qed

lemma digital_service_id_roundtrip_witness:
  "ds_view (cec_get_digital_service_id (cec_set_digital_service_id (replicate 7 0) 0
       \<lparr>service_id_method = 1, dig_bcast_system = 2, ds_w0 = 1, ds_w1 = 300, ds_w2 = 7\<rparr>) 0
       \<lparr>service_id_method = 0, dig_bcast_system = 0, ds_w0 = 0, ds_w1 = 0, ds_w2 = 0\<rparr>) =
     ds_view \<lparr>service_id_method = 1, dig_bcast_system = 2, ds_w0 = 1, ds_w1 = 300, ds_w2 = 7\<rparr>
   \<longleftrightarrow> \<not> (service_id_method \<lparr>service_id_method = 1, dig_bcast_system = 2, ds_w0 = 1,
         ds_w1 = 300, ds_w2 = 7\<rparr> = CEC_OP_SERVICE_ID_METHOD_BY_CHANNEL \<and>
       channel_major \<lparr>service_id_method = 1, dig_bcast_system = 2, ds_w0 = 1, ds_w1 = 300,
         ds_w2 = 7\<rparr> \<ge> 256)"
  by (rule digital_service_id_roundtrip) (simp_all add: ds_fits_def lo8_def)

lemma record_on_far_channel:
  assumes "rs_type s = CEC_OP_RECORD_SRC_DIGITAL" and "ds_fits (rs_digital s)"
    and "service_id_method (rs_digital s) = CEC_OP_SERVICE_ID_METHOD_BY_CHANNEL"
    and "channel_major (rs_digital s) \<ge> 256"
    and "cec_buf m" and "cec_wf r" and "cec_frame r = cec_frame (cec_msg_record_on m rep s)"
  shows "rs_view (cec_ops_record_on r rs0) \<noteq> rs_view s"
proof -
  let ?d = "rs_digital s" and ?m = "cec_msg_record_on_digital m (rs_digital s)"
  have fr: "cec_frame r = cec_frame ?m"
    using assms(1,7) by (simp add: cec_msg_record_on_def)
  have wf: "cec_wf ?m" using assms(5) by (rule record_on_digital.send_wf)
  note eq = cec_frame_eq_nth [OF fr assms(6) wf]
  have a: "agree7 (msg r) (cec_set_digital_service_id
      ((msg m)[1 := CEC_MSG_RECORD_ON, 2 := CEC_OP_RECORD_SRC_DIGITAL]) 3 ?d) 3"
    using eq by (simp add: agree7_def cec_msg_record_on_digital_def)
  have "push_bit 6 (ucast (hi8 (channel_major ?d))) OR ucast (lo8 (channel_major ?d))
      \<noteq> channel_major ?d"
    using assms(2-4) by (intro folded_major) (simp_all add: ds_fits_def)
  then have "ds_view (cec_get_digital_service_id (msg r) 3 d0) \<noteq> ds_view ?d" for d0
    using get_set_channel [OF _ assms(2,3) a, of d0] assms(3,5) by (simp add: ds_view_def cec_buf_def)
  moreover have "msg r ! 2 = CEC_OP_RECORD_SRC_DIGITAL"
    using eq assms(5) by (simp add: wire_simps)
  ultimately show ?thesis
    using assms(1) by (simp add: cec_ops_record_on_def rs_view_def Let_def)
qed

text \<open>C17: A Record On message of any of the five source types, a digital service given by
  fields that fit the wire format (one bit of method, seven of broadcast system, for a channel
  six bits of number format and ten of major number), is well formed and goes to the
  destination already set.  A receiver reads the same source from its frame, whatever its
  message object and its source structure held before, except when the source is a digital
  channel with a major number of 256 or more: then it never reads the same source.\<close>

theorem record_on_delivered:
  assumes "1 \<le> rs_type s" and "rs_type s \<le> 5"
    and "rs_type s = CEC_OP_RECORD_SRC_DIGITAL \<longrightarrow> ds_fits (rs_digital s)"
    and "cec_buf m" and "cec_buf r"
  shows "cec_sent CEC_MSG_RECORD_ON False m (cec_msg_record_on m rep s) \<and>
    (rs_view (cec_ops_record_on (cec_receive (cec_frame (cec_msg_record_on m rep s)) r) rs0) = rs_view s
     \<longleftrightarrow> \<not> (rs_type s = CEC_OP_RECORD_SRC_DIGITAL \<and>
           service_id_method (rs_digital s) = CEC_OP_SERVICE_ID_METHOD_BY_CHANNEL \<and>
           channel_major (rs_digital s) \<ge> 256))"
proof -
  note sent = record_on_sent [OF assms(1,2,4), of rep]
  then have "cec_wf (cec_msg_record_on m rep s)" by (simp add: cec_sent_def)
  note fr = cec_frame_receive [OF this assms(5)]
  show ?thesis
  proof (cases "rs_ok s")
    case True
    with record_on_known [OF True assms(4)] fr sent show ?thesis
      by (auto simp: rs_ok_def ds_ok_def)
  next
    case False
    then have "rs_type s = 2" "service_id_method (rs_digital s) = 1"
      "channel_major (rs_digital s) \<ge> 256"
      using assms(1-3) by (auto simp: rs_ok_def ds_ok_def not_less)
    with record_on_far_channel [of s m _ rep rs0] assms fr sent show ?thesis by simp
  qed
qed

lemma record_on_delivered_witness:
  "cec_sent CEC_MSG_RECORD_ON False cec_zero
     (cec_msg_record_on cec_zero 1 \<lparr>rs_type = 3, rs_w0 = 1, rs_w1 = 0x1234, rs_w2 = 2, rs_w3 = 0\<rparr>) \<and>
   (rs_view (cec_ops_record_on (cec_receive (cec_frame (cec_msg_record_on cec_zero 1
       \<lparr>rs_type = 3, rs_w0 = 1, rs_w1 = 0x1234, rs_w2 = 2, rs_w3 = 0\<rparr>)) cec_zero)
       \<lparr>rs_type = 0, rs_w0 = 9, rs_w1 = 9, rs_w2 = 9, rs_w3 = 9\<rparr>) =
     rs_view \<lparr>rs_type = 3, rs_w0 = 1, rs_w1 = 0x1234, rs_w2 = 2, rs_w3 = 0\<rparr>
    \<longleftrightarrow> \<not> (rs_type \<lparr>rs_type = 3, rs_w0 = 1, rs_w1 = 0x1234, rs_w2 = 2, rs_w3 = 0\<rparr> =
          CEC_OP_RECORD_SRC_DIGITAL \<and>
        service_id_method (rs_digital \<lparr>rs_type = 3, rs_w0 = 1, rs_w1 = 0x1234, rs_w2 = 2,
          rs_w3 = 0\<rparr>) = CEC_OP_SERVICE_ID_METHOD_BY_CHANNEL \<and>
        channel_major (rs_digital \<lparr>rs_type = 3, rs_w0 = 1, rs_w1 = 0x1234, rs_w2 = 2,
          rs_w3 = 0\<rparr>) \<ge> 256))"
  by (rule record_on_delivered) simp_all

text \<open>A source type outside one to five builds nothing: the object keeps the frame it had,
  old opcode and length included, and only the expected reply is set.\<close>

theorem record_on_unknown_type:
  assumes "rs_type s = 0 \<or> 5 < rs_type s"
  shows "cec_msg_record_on m rep s = m\<lparr>reply := if rep \<noteq> 0 then CEC_MSG_RECORD_STATUS else 0\<rparr>"
  using assms by (auto simp: cec_msg_record_on_def)

lemma record_on_unknown_type_witness:
  "cec_msg_record_on cec_zero 1 \<lparr>rs_type = 6, rs_w0 = 1, rs_w1 = 2, rs_w2 = 3, rs_w3 = 4\<rparr> =
     cec_zero\<lparr>reply := if (1 :: c_int) \<noteq> 0 then CEC_MSG_RECORD_STATUS else 0\<rparr>"
  by (rule record_on_unknown_type) simp

end
