(* ===== verification/Cec_Buffers.thy ===== *)
theory Cec_Buffers
  imports Cec_Core
begin

text \<open>
  Byte arrays as the message functions use them: C strings, \<^verbatim>\<open>strlen\<close>, \<^verbatim>\<open>memcpy\<close> between
  the payload and a caller's buffer, and the facts about counted copies that the string,
  vendor and descriptor messages share.
\<close>

section \<open>Strings and copies\<close>

definition c_string :: "u8 list \<Rightarrow> u8 list" where
  "c_string s = takeWhile (\<lambda>c. c \<noteq> 0) s"

text \<open>\<^verbatim>\<open>strlen\<close> assigned to an \<^verbatim>\<open>unsigned int\<close>.\<close>

definition strlen_u32 :: "u8 list \<Rightarrow> u32" where
  "strlen_u32 s = word_of_nat (length (c_string s))"

text \<open>\<^verbatim>\<open>memcpy(dst + at, src, n)\<close>, and the array after it.\<close>

definition memcpy :: "u8 list \<Rightarrow> nat \<Rightarrow> u8 list \<Rightarrow> nat \<Rightarrow> u8 list" where
  "memcpy dst at src n = take at dst @ take n src @ drop (at + n) dst"

lemma length_memcpy [simp]:
  "at + n \<le> length dst \<Longrightarrow> n \<le> length src \<Longrightarrow> length (memcpy dst at src n) = length dst"
  by (simp add: memcpy_def)

lemma nth_memcpy:
  assumes "at + n \<le> length dst" and "n \<le> length src" and "i < length dst"
  shows "memcpy dst at src n ! i =
    (if i < at then dst ! i else if i < at + n then src ! (i - at) else dst ! i)"
  using assms by (auto simp: memcpy_def nth_append min_def)

text \<open>A copy of constant size is that many stores.\<close>

lemma memcpy_0 [simp]: "memcpy dst at src 0 = dst"
  by (simp add: memcpy_def)

lemma memcpy_Suc:
  "n < length src \<Longrightarrow> at + n < length dst \<Longrightarrow>
   memcpy dst at src (Suc n) = (memcpy dst at src n)[at + n := src ! n]"
  by (rule nth_equalityI) (auto simp: nth_memcpy nth_list_update less_Suc_eq)

lemma memcpy_numeral [wire_simps]:
  "pred_numeral k < length src \<Longrightarrow> at + pred_numeral k < length dst \<Longrightarrow>
   memcpy dst at src (numeral k) =
     (memcpy dst at src (pred_numeral k))[at + pred_numeral k := src ! pred_numeral k]"
  unfolding numeral_eq_Suc by (rule memcpy_Suc)

lemma memcpy_one [wire_simps]:
  "0 < length src \<Longrightarrow> at < length dst \<Longrightarrow> memcpy dst at src (Suc 0) = dst[at := src ! 0]"
  using memcpy_Suc [of 0 src at dst] by simp

lemma c_string_append_zero:
  "0 \<notin> set xs \<Longrightarrow> c_string (xs @ 0 # ys) = xs"
  unfolding c_string_def by (subst takeWhile_append2) auto

lemma length_c_string: "length (c_string s) \<le> length s"
  by (simp add: c_string_def length_takeWhile_le)

lemma nth_c_string: "i < length (c_string s) \<Longrightarrow> s ! i = c_string s ! i"
  by (simp add: c_string_def takeWhile_nth)

lemma zero_notin_c_string: "0 \<notin> set (c_string s)"
  by (auto simp: c_string_def dest: set_takeWhileD)

text \<open>Reading a terminated copy of the first \<^verbatim>\<open>n\<close> bytes of a string back.\<close>

lemma c_string_copied:
  assumes "n \<le> length (c_string s)" and "n < length buf" and "n \<le> length src"
    and "\<forall>i < n. src ! i = s ! i"
  shows "c_string ((memcpy buf 0 src n)[n := 0]) = take n (c_string s)"
proof -
  have "take n src = take n (c_string s)"
    using assms by (intro nth_equalityI) (auto simp: nth_c_string)
  moreover have "(take n src @ drop n buf)[n := 0] = take n src @ 0 # drop (Suc n) buf"
    using assms(2,3) by (simp add: list_update_append Cons_nth_drop_Suc [symmetric])
  moreover have "0 \<notin> set (take n (c_string s))"
    using zero_notin_c_string [of s] by (meson in_set_takeD)
  ultimately show ?thesis
    by (simp add: memcpy_def c_string_append_zero)
qed

section \<open>Counts clamped to the payload\<close>

lemma unat_clamp: "unat (if (n :: 'a::len word) > c then c else n) = min (unat n) (unat c)"
  by (simp add: word_less_nat_alt min_def)

lemma unat_strlen: "length (c_string s) < 2 ^ 32 \<Longrightarrow> unat (strlen_u32 s) = length (c_string s)"
  by (simp add: strlen_u32_def unsigned_of_nat take_bit_nat_eq_self)

lemma unat_strlen_le: "unat (strlen_u32 s) \<le> length s"
  using order_trans [OF take_bit_nat_less_eq_self [of 32 "length (c_string s)"] length_c_string [of s]]
  by (simp add: strlen_u32_def unsigned_of_nat)

text \<open>\<^verbatim>\<open>p\<close> bytes of arbitrary content: a caller's buffer of known size.\<close>

abbreviation vec :: "nat \<Rightarrow> (nat \<Rightarrow> 'a) \<Rightarrow> 'a list" where
  "vec p b \<equiv> map b [0..<p]"

lemma vec_nth: "length xs = n \<Longrightarrow> vec n (nth xs) = xs"
  by (metis map_nth)

section \<open>Messages that end in a counted copy\<close>

text \<open>
  After \<^verbatim>\<open>k\<close> header bytes come \<^verbatim>\<open>n\<close> bytes of a source, and the length is \<^verbatim>\<open>k + n\<close>.
  Whether the header also forces the destination to broadcast does not arise: the
  counted messages of the header are all directed.
\<close>

definition put_counted :: "cec_msg \<Rightarrow> u8 list \<Rightarrow> u32 \<Rightarrow> u8 list \<Rightarrow> u32 \<Rightarrow> cec_msg" where
  "put_counted m header k src n =
     m\<lparr>len := k + n, msg := memcpy header (unat k) src (unat n)\<rparr>"

lemma unat_counted: "unat k + unat n \<le> 16 \<Longrightarrow> unat (k + n :: u32) = unat k + unat n"
  by (simp add: unat_word_ariths)

lemma counted_tight_builder:
  assumes build: "\<And>m. build m = put_counted m (header m) k src n"
    and k: "2 \<le> unat k" "unat k + unat n \<le> 16" "unat n \<le> length src"
    and header: "\<And>m. cec_buf m \<Longrightarrow> length (header m) = 16 \<and> header m ! 0 = msg m ! 0 \<and>
      header m ! 1 = opc \<and> (\<forall>i. unat k \<le> i \<longrightarrow> i < 16 \<longrightarrow> header m ! i = msg m ! i)"
  shows "cec_tight_builder build opc False"
proof
  fix m assume m: "cec_buf m"
  have hl: "length (header m) = 16" using header [OF m] by simp
  show "cec_buf (build m)"
    using hl k by (simp add: build put_counted_def cec_buf_def)
  show "2 \<le> len (build m) \<and> len (build m) \<le> 16"
    using unat_counted [OF k(2)] k by (simp add: build put_counted_def word_le_nat_alt)
  show "msg (build m) ! 0 = (if False then msg m ! 0 OR 0xf else msg m ! 0)"
    and "msg (build m) ! 1 = opc"
    using hl k header [OF m] by (simp_all add: build put_counted_def nth_memcpy)
  show "cec_meta (build m) = cec_meta m"
    by (simp add: build put_counted_def cec_meta_def)
  fix i assume "unat (len (build m)) \<le> i" and "i < 16"
  then show "msg (build m) ! i = msg m ! i"
    using unat_counted [OF k(2)] hl k header [OF m]
    by (simp add: build put_counted_def nth_memcpy)
qed

text \<open>What the receiver of such a frame finds.\<close>

lemma counted_frame:
  assumes "len r = len (put_counted m header k src n)"
    and "\<forall>i < unat (len (put_counted m header k src n)). msg r ! i = msg (put_counted m header k src n) ! i"
    and "unat k + unat n \<le> 16" and "unat n \<le> length src" and "length header = 16" and "cec_buf r"
  shows "len r = k + n" and "\<forall>i < unat k. msg r ! i = header ! i"
    and "take (unat n) (drop (unat k) (msg r)) = take (unat n) src"
proof -
  have bytes: "\<forall>i < unat k + unat n. msg r ! i = (if i < unat k then header ! i else src ! (i - unat k))"
    using assms unat_counted [OF assms(3)] by (auto simp: put_counted_def nth_memcpy)
  show "len r = k + n"
    using assms(1) by (simp add: put_counted_def)
  show "\<forall>i < unat k. msg r ! i = header ! i" using bytes by simp
  show "take (unat n) (drop (unat k) (msg r)) = take (unat n) src"
    using bytes assms(3,4,6) by (intro nth_equalityI) (auto simp: cec_buf_def)
qed

section \<open>Text operands\<close>

text \<open>
  The common form of the functions that send and read a string: \<^verbatim>\<open>k\<close> header bytes, at
  most \<^verbatim>\<open>c\<close> characters, no terminator on the wire.
\<close>

definition text_count :: "u32 \<Rightarrow> u8 list \<Rightarrow> u32" where
  "text_count c s = (let n = strlen_u32 s in if n > c then c else n)"

definition text_received :: "u32 \<Rightarrow> u32 \<Rightarrow> cec_msg \<Rightarrow> u32" where
  "text_received k c m =
     (let n = (if len m > k then len m - k else 0) in if n > c then c else n)"

lemma text_count_le: "unat (text_count c s) \<le> unat c"
  unfolding text_count_def Let_def unat_clamp by simp

lemma text_count_src: "unat (text_count c s) \<le> length s"
  using unat_strlen_le [of s] unfolding text_count_def Let_def unat_clamp by simp

lemma text_count_eq:
  "length (c_string s) < 2 ^ 32 \<Longrightarrow> unat (text_count c s) = min (length (c_string s)) (unat c)"
  unfolding text_count_def Let_def unat_clamp by (simp add: unat_strlen)

lemma text_received_eq:
  assumes "len m = k + n" and "unat k + unat n \<le> 16" and "unat n \<le> unat c"
  shows "text_received k c m = n"
proof -
  have "unat (k + n) = unat k + unat n" by (rule unat_counted [OF assms(2)])
  then have "\<not> k < k + n \<longrightarrow> n = 0"
    by (auto simp: word_less_nat_alt unat_eq_0)
  moreover have "\<not> n > c" using assms(3) by (simp add: word_le_nat_alt not_less)
  ultimately show ?thesis by (auto simp: text_received_def assms(1) Let_def)
qed

lemma text_roundtrip:
  assumes "len r = len (put_counted m header k s (text_count c s))"
    and "\<forall>i < unat (len (put_counted m header k s (text_count c s))).
      msg r ! i = msg (put_counted m header k s (text_count c s)) ! i"
    and "unat k + unat c \<le> 16" and "length header = 16" and "cec_buf r"
    and "length (c_string s) < 2 ^ 32" and "unat c < length buf"
  shows "c_string ((memcpy buf 0 (drop (unat k) (msg r)) (unat (text_received k c r)))
      [unat (text_received k c r) := 0]) = take (unat c) (c_string s)"
proof -
  have le: "unat k + unat (text_count c s) \<le> 16"
    using text_count_le [of c s] assms(3) by linarith
  note fr = counted_frame [OF assms(1,2) le text_count_src assms(4,5)]
  have n: "text_received k c r = text_count c s"
    by (rule text_received_eq [OF fr(1) le text_count_le])
  have c: "unat (text_count c s) = min (length (c_string s)) (unat c)"
    by (rule text_count_eq [OF assms(6)])
  have "\<forall>i < unat (text_count c s). drop (unat k) (msg r) ! i = s ! i"
    using fr(3) by (metis nth_take)
  then have "c_string ((memcpy buf 0 (drop (unat k) (msg r)) (unat (text_count c s)))
      [unat (text_count c s) := 0]) = take (unat (text_count c s)) (c_string s)"
    using assms(3,5,7) c by (intro c_string_copied) (auto simp: cec_buf_def)
  then show ?thesis by (simp add: n c min_def)
qed

end
