(* ===== verification/Cec_Timer.thy ===== *)
theory Cec_Timer
  imports Cec_Record Cec_Buffers
begin

text \<open>
  Timer Programming messages: setting and clearing analogue, digital and external-source
  timers, the timer status with its optional free-space duration, and the programme
  title.  Hours and minutes travel in packed decimal.
\<close>

section \<open>Timer status\<close>

definition cec_msg_timer_status ::
  "cec_msg \<Rightarrow> u8 \<Rightarrow> u8 \<Rightarrow> u8 \<Rightarrow> u8 \<Rightarrow> u8 \<Rightarrow> u8 \<Rightarrow> cec_msg" where
  "cec_msg_timer_status m timer_overlap_warning media_info prog_info prog_error
     duration_hr duration_min =
     (let m = m\<lparr>len := 3,
                msg := (msg m)[1 := CEC_MSG_TIMER_STATUS,
                  2 := push_bit 7 timer_overlap_warning OR push_bit 5 media_info OR
                       (if prog_info \<noteq> 0 then 0x10 else 0) OR
                       (if prog_info \<noteq> 0 then prog_info else prog_error)]\<rparr> in
      if prog_info = CEC_OP_PROG_INFO_NOT_ENOUGH_SPACE \<or>
         prog_info = CEC_OP_PROG_INFO_MIGHT_NOT_BE_ENOUGH_SPACE \<or>
         prog_error = CEC_OP_PROG_ERROR_DUPLICATE
      then m\<lparr>len := len m + 2, msg := (msg m)[3 := to_bcd duration_hr, 4 := to_bcd duration_min]\<rparr>
      else m)"

definition cec_ops_timer_status ::
  "cec_msg \<Rightarrow> u8 \<times> u8 \<times> u8 \<times> u8 \<times> u8 \<times> u8" where
  "cec_ops_timer_status m =
     (let timer_overlap_warning = drop_bit 7 (msg m ! 2);
          media_info = drop_bit 5 (msg m ! 2) AND 3;
          (prog_info, prog_error) =
            (if msg m ! 2 AND 0x10 \<noteq> 0 then (msg m ! 2 AND 0xf, 0) else (0, msg m ! 2 AND 0xf));
          (duration_hr, duration_min) =
            (if prog_info = CEC_OP_PROG_INFO_NOT_ENOUGH_SPACE \<or>
                prog_info = CEC_OP_PROG_INFO_MIGHT_NOT_BE_ENOUGH_SPACE \<or>
                prog_error = CEC_OP_PROG_ERROR_DUPLICATE
             then (from_bcd (msg m ! 3), from_bcd (msg m ! 4)) else (0, 0))
      in (timer_overlap_warning, media_info, prog_info, prog_error, duration_hr, duration_min))"


definition cec_msg_timer_cleared_status :: "cec_msg \<Rightarrow> u8 \<Rightarrow> cec_msg" where
  "cec_msg_timer_cleared_status m timer_cleared_status =
     m\<lparr>len := 3,
       msg := (msg m)[1 := CEC_MSG_TIMER_CLEARED_STATUS, 2 := timer_cleared_status]\<rparr>"

definition cec_ops_timer_cleared_status :: "cec_msg \<Rightarrow> u8" where
  "cec_ops_timer_cleared_status m = msg m ! 2"

section \<open>Clearing timers\<close>

definition cec_msg_clear_analogue_timer ::
  "cec_msg \<Rightarrow> c_int \<Rightarrow> u8 \<Rightarrow> u8 \<Rightarrow> u8 \<Rightarrow>
   u8 \<Rightarrow> u8 \<Rightarrow> u8 \<Rightarrow> u8 \<Rightarrow> u8 \<Rightarrow>
   u16 \<Rightarrow> u8 \<Rightarrow> cec_msg" where
  "cec_msg_clear_analogue_timer m rep day month start_hr start_min duration_hr duration_min
     recording_seq ana_bcast_type ana_freq bcast_system =
     m\<lparr>len := 13,
       msg := (msg m)[1 := CEC_MSG_CLEAR_ANALOGUE_TIMER, 2 := day, 3 := month,
         4 := to_bcd start_hr, 5 := to_bcd start_min, 6 := to_bcd duration_hr,
         7 := to_bcd duration_min, 8 := recording_seq, 9 := ana_bcast_type, 10 := hi8 ana_freq,
         11 := lo8 ana_freq, 12 := bcast_system],
       reply := if rep \<noteq> 0 then CEC_MSG_TIMER_CLEARED_STATUS else 0\<rparr>"

definition cec_ops_clear_analogue_timer ::
  "cec_msg \<Rightarrow> u8 \<times> u8 \<times> u8 \<times> u8 \<times> u8 \<times> u8 \<times> u8 \<times> u8 \<times> u16 \<times> u8" where
  "cec_ops_clear_analogue_timer m =
     (msg m ! 2, msg m ! 3, from_bcd (msg m ! 4), from_bcd (msg m ! 5), from_bcd (msg m ! 6),
      from_bcd (msg m ! 7), msg m ! 8, msg m ! 9, be16 (msg m ! 10) (msg m ! 11), msg m ! 12)"

definition cec_msg_clear_digital_timer ::
  "cec_msg \<Rightarrow> c_int \<Rightarrow> u8 \<Rightarrow> u8 \<Rightarrow> u8 \<Rightarrow> u8 \<Rightarrow> u8 \<Rightarrow> u8 \<Rightarrow> u8 \<Rightarrow>
   cec_op_digital_service_id \<Rightarrow> cec_msg" where
  "cec_msg_clear_digital_timer m rep day month start_hr start_min duration_hr duration_min
     recording_seq digital =
     (let m = m\<lparr>len := 16,
                reply := if rep \<noteq> 0 then CEC_MSG_TIMER_CLEARED_STATUS else 0,
                msg := (msg m)[1 := CEC_MSG_CLEAR_DIGITAL_TIMER, 2 := day, 3 := month,
                  4 := to_bcd start_hr, 5 := to_bcd start_min, 6 := to_bcd duration_hr,
                  7 := to_bcd duration_min, 8 := recording_seq]\<rparr> in
      m\<lparr>msg := cec_set_digital_service_id (msg m) 9 digital\<rparr>)"

definition cec_ops_clear_digital_timer ::
  "cec_msg \<Rightarrow> cec_op_digital_service_id \<Rightarrow>
   u8 \<times> u8 \<times> u8 \<times> u8 \<times> u8 \<times> u8 \<times> u8 \<times> cec_op_digital_service_id" where
  "cec_ops_clear_digital_timer m digital =
     (msg m ! 2, msg m ! 3, from_bcd (msg m ! 4), from_bcd (msg m ! 5), from_bcd (msg m ! 6),
      from_bcd (msg m ! 7), msg m ! 8, cec_get_digital_service_id (msg m) 9 digital)"


definition cec_msg_clear_ext_timer ::
  "cec_msg \<Rightarrow> c_int \<Rightarrow> u8 \<Rightarrow> u8 \<Rightarrow> u8 \<Rightarrow>
   u8 \<Rightarrow> u8 \<Rightarrow> u8 \<Rightarrow> u8 \<Rightarrow> u8 \<Rightarrow>
   u8 \<Rightarrow> u16 \<Rightarrow> cec_msg" where
  "cec_msg_clear_ext_timer m rep day month start_hr start_min duration_hr duration_min
     recording_seq ext_src_spec plug phys_addr =
     m\<lparr>len := 13,
       msg := (msg m)[1 := CEC_MSG_CLEAR_EXT_TIMER, 2 := day, 3 := month, 4 := to_bcd start_hr,
         5 := to_bcd start_min, 6 := to_bcd duration_hr, 7 := to_bcd duration_min,
         8 := recording_seq, 9 := ext_src_spec, 10 := plug, 11 := hi8 phys_addr,
         12 := lo8 phys_addr],
       reply := if rep \<noteq> 0 then CEC_MSG_TIMER_CLEARED_STATUS else 0\<rparr>"

definition cec_ops_clear_ext_timer ::
  "cec_msg \<Rightarrow> u8 \<times> u8 \<times> u8 \<times> u8 \<times> u8 \<times> u8 \<times> u8 \<times> u8 \<times> u8 \<times> u16" where
  "cec_ops_clear_ext_timer m =
     (msg m ! 2, msg m ! 3, from_bcd (msg m ! 4), from_bcd (msg m ! 5), from_bcd (msg m ! 6),
      from_bcd (msg m ! 7), msg m ! 8, msg m ! 9, msg m ! 10, be16 (msg m ! 11) (msg m ! 12))"

section \<open>Setting timers\<close>

definition cec_msg_set_analogue_timer ::
  "cec_msg \<Rightarrow> c_int \<Rightarrow> u8 \<Rightarrow> u8 \<Rightarrow> u8 \<Rightarrow>
   u8 \<Rightarrow> u8 \<Rightarrow> u8 \<Rightarrow> u8 \<Rightarrow> u8 \<Rightarrow>
   u16 \<Rightarrow> u8 \<Rightarrow> cec_msg" where
  "cec_msg_set_analogue_timer m rep day month start_hr start_min duration_hr duration_min
     recording_seq ana_bcast_type ana_freq bcast_system =
     m\<lparr>len := 13,
       msg := (msg m)[1 := CEC_MSG_SET_ANALOGUE_TIMER, 2 := day, 3 := month,
         4 := to_bcd start_hr, 5 := to_bcd start_min, 6 := to_bcd duration_hr,
         7 := to_bcd duration_min, 8 := recording_seq, 9 := ana_bcast_type, 10 := hi8 ana_freq,
         11 := lo8 ana_freq, 12 := bcast_system],
       reply := if rep \<noteq> 0 then CEC_MSG_TIMER_STATUS else 0\<rparr>"

definition cec_ops_set_analogue_timer ::
  "cec_msg \<Rightarrow> u8 \<times> u8 \<times> u8 \<times> u8 \<times> u8 \<times> u8 \<times> u8 \<times> u8 \<times> u16 \<times> u8" where
  "cec_ops_set_analogue_timer m =
     (msg m ! 2, msg m ! 3, from_bcd (msg m ! 4), from_bcd (msg m ! 5), from_bcd (msg m ! 6),
      from_bcd (msg m ! 7), msg m ! 8, msg m ! 9, be16 (msg m ! 10) (msg m ! 11), msg m ! 12)"

definition cec_msg_set_digital_timer ::
  "cec_msg \<Rightarrow> c_int \<Rightarrow> u8 \<Rightarrow> u8 \<Rightarrow> u8 \<Rightarrow> u8 \<Rightarrow> u8 \<Rightarrow> u8 \<Rightarrow> u8 \<Rightarrow>
   cec_op_digital_service_id \<Rightarrow> cec_msg" where
  "cec_msg_set_digital_timer m rep day month start_hr start_min duration_hr duration_min
     recording_seq digital =
     (let m = m\<lparr>len := 16,
                reply := if rep \<noteq> 0 then CEC_MSG_TIMER_STATUS else 0,
                msg := (msg m)[1 := CEC_MSG_SET_DIGITAL_TIMER, 2 := day, 3 := month,
                  4 := to_bcd start_hr, 5 := to_bcd start_min, 6 := to_bcd duration_hr,
                  7 := to_bcd duration_min, 8 := recording_seq]\<rparr> in
      m\<lparr>msg := cec_set_digital_service_id (msg m) 9 digital\<rparr>)"

definition cec_ops_set_digital_timer ::
  "cec_msg \<Rightarrow> cec_op_digital_service_id \<Rightarrow>
   u8 \<times> u8 \<times> u8 \<times> u8 \<times> u8 \<times> u8 \<times> u8 \<times> cec_op_digital_service_id" where
  "cec_ops_set_digital_timer m digital =
     (msg m ! 2, msg m ! 3, from_bcd (msg m ! 4), from_bcd (msg m ! 5), from_bcd (msg m ! 6),
      from_bcd (msg m ! 7), msg m ! 8, cec_get_digital_service_id (msg m) 9 digital)"


definition cec_msg_set_ext_timer ::
  "cec_msg \<Rightarrow> c_int \<Rightarrow> u8 \<Rightarrow> u8 \<Rightarrow> u8 \<Rightarrow>
   u8 \<Rightarrow> u8 \<Rightarrow> u8 \<Rightarrow> u8 \<Rightarrow> u8 \<Rightarrow>
   u8 \<Rightarrow> u16 \<Rightarrow> cec_msg" where
  "cec_msg_set_ext_timer m rep day month start_hr start_min duration_hr duration_min
     recording_seq ext_src_spec plug phys_addr =
     m\<lparr>len := 13,
       msg := (msg m)[1 := CEC_MSG_SET_EXT_TIMER, 2 := day, 3 := month, 4 := to_bcd start_hr,
         5 := to_bcd start_min, 6 := to_bcd duration_hr, 7 := to_bcd duration_min,
         8 := recording_seq, 9 := ext_src_spec, 10 := plug, 11 := hi8 phys_addr,
         12 := lo8 phys_addr],
       reply := if rep \<noteq> 0 then CEC_MSG_TIMER_STATUS else 0\<rparr>"

definition cec_ops_set_ext_timer ::
  "cec_msg \<Rightarrow> u8 \<times> u8 \<times> u8 \<times> u8 \<times> u8 \<times> u8 \<times> u8 \<times> u8 \<times> u8 \<times> u16" where
  "cec_ops_set_ext_timer m =
     (msg m ! 2, msg m ! 3, from_bcd (msg m ! 4), from_bcd (msg m ! 5), from_bcd (msg m ! 6),
      from_bcd (msg m ! 7), msg m ! 8, msg m ! 9, msg m ! 10, be16 (msg m ! 11) (msg m ! 12))"

section \<open>Programme title\<close>

definition cec_msg_set_timer_program_title :: "cec_msg \<Rightarrow> u8 list \<Rightarrow> cec_msg" where
  "cec_msg_set_timer_program_title m prog_title =
     (let n = strlen_u32 prog_title; n = (if n > 14 then 14 else n) in
      m\<lparr>len := 2 + n,
        msg := memcpy ((msg m)[1 := CEC_MSG_SET_TIMER_PROGRAM_TITLE]) 2 prog_title (unat n)\<rparr>)"

definition cec_ops_set_timer_program_title :: "cec_msg \<Rightarrow> u8 list \<Rightarrow> u8 list" where
  "cec_ops_set_timer_program_title m prog_title =
     (let n = (if len m > 2 then len m - 2 else 0); n = (if n > 14 then 14 else n);
          prog_title = memcpy prog_title 0 (drop 2 (msg m)) (unat n)
      in prog_title[unat n := 0])"


lemmas timer_defs [wire_simps] =
  cec_msg_timer_cleared_status_def cec_ops_timer_cleared_status_def
  cec_msg_clear_analogue_timer_def cec_ops_clear_analogue_timer_def
  cec_msg_clear_digital_timer_def cec_ops_clear_digital_timer_def
  cec_msg_clear_ext_timer_def cec_ops_clear_ext_timer_def
  cec_msg_set_analogue_timer_def cec_ops_set_analogue_timer_def
  cec_msg_set_digital_timer_def cec_ops_set_digital_timer_def
  cec_msg_set_ext_timer_def cec_ops_set_ext_timer_def

section \<open>Contracts\<close>

text \<open>The two-digit values packed decimal can carry.\<close>

definition bcd4 :: "u8 \<Rightarrow> u8 \<Rightarrow> u8 \<Rightarrow> u8 \<Rightarrow> bool" where
  "bcd4 a b c d \<longleftrightarrow> a < 100 \<and> b < 100 \<and> c < 100 \<and> d < 100"

interpretation timer_cleared_status: cec_tight_codec
  "\<lambda>timer_cleared_status m. cec_msg_timer_cleared_status m timer_cleared_status"
  CEC_MSG_TIMER_CLEARED_STATUS False cec_ops_timer_cleared_status "\<lambda>x. x" "\<lambda>_. True"
  by unfold_locales (auto simp: wire_simps)

interpretation clear_analogue_timer: cec_tight_codec
  "\<lambda>(day, month, start_hr, start_min, duration_hr, duration_min, recording_seq,
    ana_bcast_type, ana_freq, bcast_system) m. cec_msg_clear_analogue_timer m rep day month
    start_hr start_min duration_hr duration_min recording_seq ana_bcast_type ana_freq
    bcast_system"
  CEC_MSG_CLEAR_ANALOGUE_TIMER False cec_ops_clear_analogue_timer "\<lambda>x. x" "\<lambda>(day, month, start_hr, start_min, duration_hr, duration_min, recording_seq, ana_bcast_type, ana_freq, bcast_system). bcd4 start_hr start_min duration_hr duration_min" for rep
  by unfold_locales (auto simp: wire_simps bcd4_def)

interpretation set_analogue_timer: cec_tight_codec
  "\<lambda>(day, month, start_hr, start_min, duration_hr, duration_min, recording_seq,
    ana_bcast_type, ana_freq, bcast_system) m. cec_msg_set_analogue_timer m rep day month
    start_hr start_min duration_hr duration_min recording_seq ana_bcast_type ana_freq
    bcast_system"
  CEC_MSG_SET_ANALOGUE_TIMER False cec_ops_set_analogue_timer "\<lambda>x. x" "\<lambda>(day, month, start_hr, start_min, duration_hr, duration_min, recording_seq, ana_bcast_type, ana_freq, bcast_system). bcd4 start_hr start_min duration_hr duration_min" for rep
  by unfold_locales (auto simp: wire_simps bcd4_def)

interpretation clear_ext_timer: cec_tight_codec
  "\<lambda>(day, month, start_hr, start_min, duration_hr, duration_min, recording_seq,
    ext_src_spec, plug, phys_addr) m. cec_msg_clear_ext_timer m rep day month start_hr start_min
    duration_hr duration_min recording_seq ext_src_spec plug phys_addr"
  CEC_MSG_CLEAR_EXT_TIMER False cec_ops_clear_ext_timer "\<lambda>x. x" "\<lambda>(day, month, start_hr, start_min, duration_hr, duration_min, recording_seq, ext_src_spec, plug, phys_addr). bcd4 start_hr start_min duration_hr duration_min" for rep
  by unfold_locales (auto simp: wire_simps bcd4_def)

interpretation set_ext_timer: cec_tight_codec
  "\<lambda>(day, month, start_hr, start_min, duration_hr, duration_min, recording_seq,
    ext_src_spec, plug, phys_addr) m. cec_msg_set_ext_timer m rep day month start_hr start_min
    duration_hr duration_min recording_seq ext_src_spec plug phys_addr"
  CEC_MSG_SET_EXT_TIMER False cec_ops_set_ext_timer "\<lambda>x. x" "\<lambda>(day, month, start_hr, start_min, duration_hr, duration_min, recording_seq, ext_src_spec, plug, phys_addr). bcd4 start_hr start_min duration_hr duration_min" for rep
  by unfold_locales (auto simp: wire_simps bcd4_def)

interpretation clear_analogue_timer_q: cec_request
  "\<lambda>rep m. cec_msg_clear_analogue_timer m rep day month start_hr start_min duration_hr
    duration_min recording_seq ana_bcast_type ana_freq bcast_system"
  CEC_MSG_CLEAR_ANALOGUE_TIMER False CEC_MSG_TIMER_CLEARED_STATUS
  for day month start_hr start_min duration_hr duration_min recording_seq ana_bcast_type ana_freq bcast_system
  by unfold_locales (auto simp: wire_simps)

interpretation set_analogue_timer_q: cec_request
  "\<lambda>rep m. cec_msg_set_analogue_timer m rep day month start_hr start_min duration_hr
    duration_min recording_seq ana_bcast_type ana_freq bcast_system"
  CEC_MSG_SET_ANALOGUE_TIMER False CEC_MSG_TIMER_STATUS
  for day month start_hr start_min duration_hr duration_min recording_seq ana_bcast_type ana_freq bcast_system
  by unfold_locales (auto simp: wire_simps)

interpretation clear_ext_timer_q: cec_request
  "\<lambda>rep m. cec_msg_clear_ext_timer m rep day month start_hr start_min duration_hr
    duration_min recording_seq ext_src_spec plug phys_addr"
  CEC_MSG_CLEAR_EXT_TIMER False CEC_MSG_TIMER_CLEARED_STATUS
  for day month start_hr start_min duration_hr duration_min recording_seq ext_src_spec plug phys_addr
  by unfold_locales (auto simp: wire_simps)

interpretation set_ext_timer_q: cec_request
  "\<lambda>rep m. cec_msg_set_ext_timer m rep day month start_hr start_min duration_hr
    duration_min recording_seq ext_src_spec plug phys_addr"
  CEC_MSG_SET_EXT_TIMER False CEC_MSG_TIMER_STATUS
  for day month start_hr start_min duration_hr duration_min recording_seq ext_src_spec plug phys_addr
  by unfold_locales (auto simp: wire_simps)

subsection \<open>Digital timers\<close>

definition digital_timer_view ::
  "u8 \<times> u8 \<times> u8 \<times> u8 \<times> u8 \<times> u8 \<times> u8 \<times> cec_op_digital_service_id \<Rightarrow>
   u8 \<times> u8 \<times> u8 \<times> u8 \<times> u8 \<times> u8 \<times> u8 \<times> service_id" where
  "digital_timer_view = (\<lambda>(day, month, sh, sm, dh, dm, seq, d).
     (day, month, sh, sm, dh, dm, seq, ds_view d))"

interpretation clear_digital_timer: cec_tight_codec
  "\<lambda>(day, month, sh, sm, dh, dm, seq, d) m. cec_msg_clear_digital_timer m rep day month sh sm dh dm seq d"
  CEC_MSG_CLEAR_DIGITAL_TIMER False
  "\<lambda>m. digital_timer_view (cec_ops_clear_digital_timer m d0)" digital_timer_view
  "\<lambda>(day, month, sh, sm, dh, dm, seq, d). bcd4 sh sm dh dm \<and> ds_ok d" for rep d0
proof unfold_locales
  fix a m r
  assume h: "case a of (day, month, sh, sm, dh, dm, seq, d) \<Rightarrow> bcd4 sh sm dh dm \<and> ds_ok d"
    "cec_buf m" "cec_buf r"
    "\<forall>i < unat (len ((case a of (day, month, sh, sm, dh, dm, seq, d) \<Rightarrow>
        \<lambda>m. cec_msg_clear_digital_timer m rep day month sh sm dh dm seq d) m)).
      msg r ! i = msg ((case a of (day, month, sh, sm, dh, dm, seq, d) \<Rightarrow>
        \<lambda>m. cec_msg_clear_digital_timer m rep day month sh sm dh dm seq d) m) ! i"
  obtain day month sh sm dh dm seq d where a: "a = (day, month, sh, sm, dh, dm, seq, d)"
    by (cases a) auto
  let ?buf = "(msg m)[1 := CEC_MSG_CLEAR_DIGITAL_TIMER, 2 := day, 3 := month, 4 := to_bcd sh,
    5 := to_bcd sm, 6 := to_bcd dh, 7 := to_bcd dm, 8 := seq]"
  have "\<forall>i < 9 + 7. msg r ! i = cec_set_digital_service_id ?buf 9 d ! i"
    using h(4) by (simp add: a cec_msg_clear_digital_timer_def)
  moreover have "9 + 6 < length ?buf" "ds_ok d" "bcd4 sh sm dh dm"
    using h(1,2) by (simp_all add: a cec_buf_def)
  ultimately have "ds_view (cec_get_digital_service_id (msg r) 9 d0) = ds_view d"
    and "\<forall>i < 9. msg r ! i = ?buf ! i"
    using get_set_digital_frame by blast+
  with \<open>bcd4 sh sm dh dm\<close> h(2)
  show "digital_timer_view (cec_ops_clear_digital_timer r d0) = digital_timer_view a"
    by (simp add: a digital_timer_view_def bcd4_def wire_simps)
qed (auto simp: wire_simps)

interpretation set_digital_timer: cec_tight_codec
  "\<lambda>(day, month, sh, sm, dh, dm, seq, d) m. cec_msg_set_digital_timer m rep day month sh sm dh dm seq d"
  CEC_MSG_SET_DIGITAL_TIMER False
  "\<lambda>m. digital_timer_view (cec_ops_set_digital_timer m d0)" digital_timer_view
  "\<lambda>(day, month, sh, sm, dh, dm, seq, d). bcd4 sh sm dh dm \<and> ds_ok d" for rep d0
proof unfold_locales
  fix a m r
  assume h: "case a of (day, month, sh, sm, dh, dm, seq, d) \<Rightarrow> bcd4 sh sm dh dm \<and> ds_ok d"
    "cec_buf m" "cec_buf r"
    "\<forall>i < unat (len ((case a of (day, month, sh, sm, dh, dm, seq, d) \<Rightarrow>
        \<lambda>m. cec_msg_set_digital_timer m rep day month sh sm dh dm seq d) m)).
      msg r ! i = msg ((case a of (day, month, sh, sm, dh, dm, seq, d) \<Rightarrow>
        \<lambda>m. cec_msg_set_digital_timer m rep day month sh sm dh dm seq d) m) ! i"
  obtain day month sh sm dh dm seq d where a: "a = (day, month, sh, sm, dh, dm, seq, d)"
    by (cases a) auto
  let ?buf = "(msg m)[1 := CEC_MSG_SET_DIGITAL_TIMER, 2 := day, 3 := month, 4 := to_bcd sh,
    5 := to_bcd sm, 6 := to_bcd dh, 7 := to_bcd dm, 8 := seq]"
  have "\<forall>i < 9 + 7. msg r ! i = cec_set_digital_service_id ?buf 9 d ! i"
    using h(4) by (simp add: a cec_msg_set_digital_timer_def)
  moreover have "9 + 6 < length ?buf" "ds_ok d" "bcd4 sh sm dh dm"
    using h(1,2) by (simp_all add: a cec_buf_def)
  ultimately have "ds_view (cec_get_digital_service_id (msg r) 9 d0) = ds_view d"
    and "\<forall>i < 9. msg r ! i = ?buf ! i"
    using get_set_digital_frame by blast+
  with \<open>bcd4 sh sm dh dm\<close> h(2)
  show "digital_timer_view (cec_ops_set_digital_timer r d0) = digital_timer_view a"
    by (simp add: a digital_timer_view_def bcd4_def wire_simps)
qed (auto simp: wire_simps)

interpretation clear_digital_timer_q: cec_request
  "\<lambda>rep m. cec_msg_clear_digital_timer m rep day month start_hr start_min duration_hr
    duration_min recording_seq digital"
  CEC_MSG_CLEAR_DIGITAL_TIMER False CEC_MSG_TIMER_CLEARED_STATUS
  for day month start_hr start_min duration_hr duration_min recording_seq digital
  by unfold_locales (auto simp: wire_simps)

interpretation set_digital_timer_q: cec_request
  "\<lambda>rep m. cec_msg_set_digital_timer m rep day month start_hr start_min duration_hr
    duration_min recording_seq digital"
  CEC_MSG_SET_DIGITAL_TIMER False CEC_MSG_TIMER_STATUS
  for day month start_hr start_min duration_hr duration_min recording_seq digital
  by unfold_locales (auto simp: wire_simps)

subsection \<open>Timer status\<close>

text \<open>
  The bits of the status byte, and what the reader makes of the operands: the error is
  dropped where there is programmed information, the duration where neither asks for it.
\<close>

lemma status_byte:
  fixes t i f p :: u8
  assumes "t < 2" and "i < 4" and "f = 0 \<or> f = 0x10" and "p < 16"
  shows "drop_bit 7 (push_bit 7 t OR push_bit 5 i OR f OR p) = t" (is "?t")
    and "drop_bit 5 (push_bit 7 t OR push_bit 5 i OR f OR p) AND 3 = i" (is "?i")
    and "(push_bit 7 t OR push_bit 5 i OR f OR p) AND 0xf = p" (is "?p")
    and "(push_bit 7 t OR push_bit 5 i OR f OR p) AND 0x10 = 0 \<longleftrightarrow> f = 0" (is "?f")
proof -
  have tn: "1 \<le> k \<Longrightarrow> \<not> bit t k" for k using less_not_bit [of t 1 k] assms(1) by simp
  have in': "2 \<le> k \<Longrightarrow> \<not> bit i k" for k using less_not_bit [of i 2 k] assms(2) by simp
  have pn: "4 \<le> k \<Longrightarrow> \<not> bit p k" for k using less_not_bit [of p 4 k] assms(4) by simp
  have fn: "bit f k \<longleftrightarrow> f \<noteq> 0 \<and> k = 4" for k
    using assms(3) bit_exp_iff [of 4 k, where 'a = u8] by auto
  have t0: "bit t k \<Longrightarrow> k = 0" for k using tn [of k] by (cases k) auto
  show ?t by (rule bit_word_eqI) (auto simp: bit_simps in' pn fn dest: t0)
  have i1: "bit i k \<Longrightarrow> k < 2" for k using in' [of k] by (meson not_less)
  show ?i unfolding mask_numerals
    by (rule bit_word_eqI) (auto simp: bit_simps tn in' pn fn dest: i1)
  have p1: "bit p k \<Longrightarrow> k < 4" for k using pn [of k] by (meson not_less)
  show ?p unfolding mask_numerals
    by (rule bit_word_eqI) (auto simp: bit_simps tn in' fn dest: p1)
  show ?f using and_exp_eq_0_iff_not_bit [of "push_bit 7 t OR push_bit 5 i OR f OR p" 4]
    by (auto simp: bit_simps tn in' pn fn)
qed

definition timer_status_view ::
  "u8 \<times> u8 \<times> u8 \<times> u8 \<times> u8 \<times> u8 \<Rightarrow> u8 \<times> u8 \<times> u8 \<times> u8 \<times> u8 \<times> u8" where
  "timer_status_view = (\<lambda>(ovl, media, info, err, dh, dm).
     let err = (if info \<noteq> 0 then 0 else err);
         timed = (info = CEC_OP_PROG_INFO_NOT_ENOUGH_SPACE \<or>
                  info = CEC_OP_PROG_INFO_MIGHT_NOT_BE_ENOUGH_SPACE \<or>
                  err = CEC_OP_PROG_ERROR_DUPLICATE)
     in (ovl, media, info, err, if timed then dh else 0, if timed then dm else 0))"

definition timer_status_ok :: "u8 \<times> u8 \<times> u8 \<times> u8 \<times> u8 \<times> u8 \<Rightarrow> bool" where
  "timer_status_ok = (\<lambda>(ovl, media, info, err, dh, dm).
     ovl < 2 \<and> media < 4 \<and> info < 16 \<and> err < 16 \<and> dh < 100 \<and> dm < 100)"

lemma ops_timer_status_byte:
  assumes "timer_status_ok (t, i, info, err, dh, dm)"
    and "msg r ! 2 = push_bit 7 t OR push_bit 5 i OR (if info \<noteq> 0 then 0x10 else 0) OR
      (if info \<noteq> 0 then info else err)"
    and "info = CEC_OP_PROG_INFO_NOT_ENOUGH_SPACE \<or> info = CEC_OP_PROG_INFO_MIGHT_NOT_BE_ENOUGH_SPACE \<or>
      info = 0 \<and> err = CEC_OP_PROG_ERROR_DUPLICATE \<Longrightarrow>
      msg r ! 3 = to_bcd dh \<and> msg r ! 4 = to_bcd dm"
  shows "cec_ops_timer_status r = timer_status_view (t, i, info, err, dh, dm)"
proof (cases "info = 0")
  case True
  have "t < 2" "i < 4" "err < 16" "dh < 100" "dm < 100"
    using assms(1) by (simp_all add: timer_status_ok_def)
  with status_byte [where t = t and i = i and f = 0 and p = err] True assms(2,3) show ?thesis
    by (auto simp: cec_ops_timer_status_def timer_status_view_def)
next
  case False
  have "t < 2" "i < 4" "info < 16" "dh < 100" "dm < 100"
    using assms(1) by (simp_all add: timer_status_ok_def)
  with status_byte [where t = t and i = i and f = "0x10" and p = info] False assms(2,3) show ?thesis
    by (auto simp: cec_ops_timer_status_def timer_status_view_def)
qed

interpretation timer_status: cec_tight_codec
  "\<lambda>(ovl, media, info, err, dh, dm) m. cec_msg_timer_status m ovl media info err dh dm"
  CEC_MSG_TIMER_STATUS False cec_ops_timer_status timer_status_view timer_status_ok
proof unfold_locales
  fix a m r
  assume h: "timer_status_ok a" "cec_buf m" "cec_buf r"
    "\<forall>i < unat (len ((case a of (ovl, media, info, err, dh, dm) \<Rightarrow>
        \<lambda>m. cec_msg_timer_status m ovl media info err dh dm) m)).
      msg r ! i = msg ((case a of (ovl, media, info, err, dh, dm) \<Rightarrow>
        \<lambda>m. cec_msg_timer_status m ovl media info err dh dm) m) ! i"
  obtain t i info err dh dm where a: "a = (t, i, info, err, dh, dm)"
    by (cases a) auto
  show "cec_ops_timer_status r = timer_status_view a"
    unfolding a
    by (rule ops_timer_status_byte)
      (use h in \<open>auto simp: a cec_msg_timer_status_def Let_def wire_simps split: if_splits\<close>)
qed (auto simp: cec_msg_timer_status_def Let_def wire_simps split: if_splits)

subsection \<open>Programme title\<close>

lemma title_counted:
  "cec_msg_set_timer_program_title m s =
     put_counted m ((msg m)[1 := CEC_MSG_SET_TIMER_PROGRAM_TITLE]) 2 s (text_count 14 s)"
  by (simp add: cec_msg_set_timer_program_title_def put_counted_def text_count_def Let_def)

lemma title_received:
  "cec_ops_set_timer_program_title m buf =
     (memcpy buf 0 (drop (unat (2 :: u32)) (msg m)) (unat (text_received 2 14 m)))
       [unat (text_received 2 14 m) := 0]"
  by (simp add: cec_ops_set_timer_program_title_def text_received_def Let_def)

lemma title_builder:
  "cec_tight_builder (\<lambda>m. cec_msg_set_timer_program_title m s) CEC_MSG_SET_TIMER_PROGRAM_TITLE False"
  by (rule counted_tight_builder [OF title_counted])
    (use text_count_le [of 14 s] in \<open>auto simp: text_count_src cec_buf_def\<close>)

interpretation set_timer_program_title: cec_tight_codec
  "\<lambda>s m. cec_msg_set_timer_program_title m s" CEC_MSG_SET_TIMER_PROGRAM_TITLE False
  "\<lambda>m. c_string (cec_ops_set_timer_program_title m (vec 15 b))"
  "\<lambda>s. take 14 (c_string s)" "\<lambda>s. length (c_string s) < 2 ^ 32" for b
proof (rule cec_tight_codecI)
  show "cec_tight_builder (\<lambda>m. cec_msg_set_timer_program_title m s)
      CEC_MSG_SET_TIMER_PROGRAM_TITLE False" for s
    by (rule title_builder)
next
  fix s m r
  assume "length (c_string s) < 2 ^ 32" "cec_buf m" "cec_buf r"
    "len r = len (cec_msg_set_timer_program_title m s)"
    "\<forall>i < unat (len (cec_msg_set_timer_program_title m s)).
      msg r ! i = msg (cec_msg_set_timer_program_title m s) ! i"
  then show "c_string (cec_ops_set_timer_program_title r (vec 15 b)) = take 14 (c_string s)"
    using text_roundtrip [where k = 2 and c = 14 and buf = "vec 15 b"]
    by (auto simp: title_counted title_received cec_buf_def)
qed

section \<open>Steps\<close>

text \<open>One rule for every builder of the group, at all arguments.\<close>

inductive timer_step :: "u8 \<Rightarrow> bool \<Rightarrow> cec_msg \<Rightarrow> cec_msg \<Rightarrow> bool" where
  timer_cleared_status: "timer_step CEC_MSG_TIMER_CLEARED_STATUS False m
     (cec_msg_timer_cleared_status m timer_cleared_status)"
| clear_analogue_timer: "timer_step CEC_MSG_CLEAR_ANALOGUE_TIMER False m
     (cec_msg_clear_analogue_timer m rep day month start_hr start_min duration_hr duration_min
     recording_seq ana_bcast_type ana_freq bcast_system)"
| set_analogue_timer: "timer_step CEC_MSG_SET_ANALOGUE_TIMER False m (cec_msg_set_analogue_timer m
     rep day month start_hr start_min duration_hr duration_min recording_seq ana_bcast_type
     ana_freq bcast_system)"
| clear_ext_timer: "timer_step CEC_MSG_CLEAR_EXT_TIMER False m (cec_msg_clear_ext_timer m rep day
     month start_hr start_min duration_hr duration_min recording_seq ext_src_spec plug
     phys_addr)"
| set_ext_timer: "timer_step CEC_MSG_SET_EXT_TIMER False m (cec_msg_set_ext_timer m rep day month
     start_hr start_min duration_hr duration_min recording_seq ext_src_spec plug phys_addr)"
| clear_digital_timer: "timer_step CEC_MSG_CLEAR_DIGITAL_TIMER False m
     (cec_msg_clear_digital_timer m rep day month start_hr start_min duration_hr duration_min
     recording_seq digital)"
| set_digital_timer: "timer_step CEC_MSG_SET_DIGITAL_TIMER False m (cec_msg_set_digital_timer m
     rep day month start_hr start_min duration_hr duration_min recording_seq digital)"
| timer_status: "timer_step CEC_MSG_TIMER_STATUS False m (cec_msg_timer_status m t i p e h dm)"
| set_timer_program_title: "timer_step CEC_MSG_SET_TIMER_PROGRAM_TITLE False m
     (cec_msg_set_timer_program_title m s)"

lemmas timer_sent =
  timer_cleared_status.sent.build_sent
  clear_analogue_timer.sent.build_sent [where a = "(day, month, start_hr, start_min, duration_hr,
      duration_min, recording_seq, ana_bcast_type, ana_freq, bcast_system)" for day month
      start_hr start_min duration_hr duration_min recording_seq ana_bcast_type ana_freq
      bcast_system, unfolded prod.case]
  set_analogue_timer.sent.build_sent [where a = "(day, month, start_hr, start_min, duration_hr,
      duration_min, recording_seq, ana_bcast_type, ana_freq, bcast_system)" for day month
      start_hr start_min duration_hr duration_min recording_seq ana_bcast_type ana_freq
      bcast_system, unfolded prod.case]
  clear_ext_timer.sent.build_sent [where a = "(day, month, start_hr, start_min, duration_hr,
      duration_min, recording_seq, ext_src_spec, plug, phys_addr)" for day month start_hr
      start_min duration_hr duration_min recording_seq ext_src_spec plug phys_addr, unfolded
      prod.case]
  set_ext_timer.sent.build_sent [where a = "(day, month, start_hr, start_min, duration_hr,
      duration_min, recording_seq, ext_src_spec, plug, phys_addr)" for day month start_hr
      start_min duration_hr duration_min recording_seq ext_src_spec plug phys_addr, unfolded
      prod.case]
  clear_digital_timer_q.asked.build_sent
  set_digital_timer_q.asked.build_sent
  timer_status.sent.build_sent [where a = "(a, b, c, d, e, f)" for a b c d e f, unfolded
      prod.case]
  set_timer_program_title.sent.build_sent

lemma timer_step_sent: "timer_step opc bcast m m' \<Longrightarrow> cec_buf m \<Longrightarrow> cec_sent opc bcast m m'"
  by (induction rule: timer_step.induct) (auto intro: timer_sent)

lemma timer_step_opcode: "timer_step opc bcast m m' \<Longrightarrow> opc \<in> set cec_opcodes"
  by (induction rule: timer_step.induct) (simp_all add: cec_opcodes_def)

lemma timer_step_bcast: "timer_step opc bcast m m' \<Longrightarrow> bcast \<longleftrightarrow> opc \<in> set cec_broadcast_opcodes"
  by (induction rule: timer_step.induct) (simp_all add: cec_broadcast_opcodes_def)

section \<open>Properties\<close>

text \<open>A Set Digital Timer message reaches its receiver with every operand intact: date,
  recording sequence, the four packed decimal times below one hundred, and a service
  identification that fits (channel major numbers below 256).\<close>

theorem set_digital_timer_delivered:
  assumes "sh < 100" and "sm < 100" and "dh < 100" and "dm < 100" and "ds_ok d"
    and "cec_buf m" and "cec_buf r"
  shows "digital_timer_view (cec_ops_set_digital_timer (cec_receive (cec_frame
      (cec_msg_set_digital_timer m rep day month sh sm dh dm seq d)) r) d0) =
    (day, month, sh, sm, dh, dm, seq, ds_view d)"
  using set_digital_timer.parse_receive
      [of "(day, month, sh, sm, dh, dm, seq, d)" m r rep d0] assms
  by (simp add: bcd4_def digital_timer_view_def)

lemma set_digital_timer_delivered_witness:
  "digital_timer_view (cec_ops_set_digital_timer (cec_receive (cec_frame
      (cec_msg_set_digital_timer cec_zero 1 24 12 20 15 1 30 0
        \<lparr>service_id_method = 0, dig_bcast_system = 0x12, ds_w0 = 1, ds_w1 = 300, ds_w2 = 0\<rparr>)) cec_zero)
      \<lparr>service_id_method = 0, dig_bcast_system = 0, ds_w0 = 9, ds_w1 = 9, ds_w2 = 9\<rparr>) =
    (24, 12, 20, 15, 1, 30, 0,
     ds_view \<lparr>service_id_method = 0, dig_bcast_system = 0x12, ds_w0 = 1, ds_w1 = 300, ds_w2 = 0\<rparr>)"
  by (rule set_digital_timer_delivered) (simp_all add: ds_ok_def ds_fits_def)

text \<open>Clearing or setting an analogue or external timer is symmetric: the four readers
  return exactly the operands their builders were given, for times below one hundred.\<close>

theorem analogue_and_external_timers_delivered:
  assumes "sh < 100" and "sm < 100" and "dh < 100" and "dm < 100" and "cec_buf m" and "cec_buf r"
  shows "cec_ops_clear_analogue_timer (cec_receive (cec_frame
        (cec_msg_clear_analogue_timer m rep day month sh sm dh dm seq t f b)) r) =
      (day, month, sh, sm, dh, dm, seq, t, f, b) \<and>
    cec_ops_set_analogue_timer (cec_receive (cec_frame
        (cec_msg_set_analogue_timer m rep day month sh sm dh dm seq t f b)) r) =
      (day, month, sh, sm, dh, dm, seq, t, f, b) \<and>
    cec_ops_clear_ext_timer (cec_receive (cec_frame
        (cec_msg_clear_ext_timer m rep day month sh sm dh dm seq spec plug pa)) r) =
      (day, month, sh, sm, dh, dm, seq, spec, plug, pa) \<and>
    cec_ops_set_ext_timer (cec_receive (cec_frame
        (cec_msg_set_ext_timer m rep day month sh sm dh dm seq spec plug pa)) r) =
      (day, month, sh, sm, dh, dm, seq, spec, plug, pa)"
  using assms
    clear_analogue_timer.parse_receive [of "(day, month, sh, sm, dh, dm, seq, t, f, b)" m r rep]
    set_analogue_timer.parse_receive [of "(day, month, sh, sm, dh, dm, seq, t, f, b)" m r rep]
    clear_ext_timer.parse_receive [of "(day, month, sh, sm, dh, dm, seq, spec, plug, pa)" m r rep]
    set_ext_timer.parse_receive [of "(day, month, sh, sm, dh, dm, seq, spec, plug, pa)" m r rep]
  by (simp add: bcd4_def)

lemma analogue_and_external_timers_delivered_witness:
  "cec_ops_clear_analogue_timer (cec_receive (cec_frame
      (cec_msg_clear_analogue_timer cec_zero 1 31 10 23 59 2 5 0 1 0x0abc 7)) cec_zero) =
    (31, 10, 23, 59, 2, 5, 0, 1, 0x0abc, 7)"
  by (rule conjunct1 [OF analogue_and_external_timers_delivered]) simp_all

text \<open>A Timer Status is delivered as the programmed info decides: with an info the error is
  dropped, without one the error is sent, and the remaining duration travels exactly when
  there is not enough space, perhaps not enough space, or a duplicate.\<close>

theorem timer_status_delivered:
  assumes "overlap < 2" and "media < 4" and "info < 16" and "err < 16" and "dh < 100" and "dm < 100"
    and "cec_buf m" and "cec_buf r"
  shows "cec_ops_timer_status (cec_receive (cec_frame
      (cec_msg_timer_status m overlap media info err dh dm)) r) =
    (if info \<noteq> 0
     then (overlap, media, info, 0,
           if info \<in> {CEC_OP_PROG_INFO_NOT_ENOUGH_SPACE, CEC_OP_PROG_INFO_MIGHT_NOT_BE_ENOUGH_SPACE}
           then dh else 0,
           if info \<in> {CEC_OP_PROG_INFO_NOT_ENOUGH_SPACE, CEC_OP_PROG_INFO_MIGHT_NOT_BE_ENOUGH_SPACE}
           then dm else 0)
     else (overlap, media, 0, err, if err = CEC_OP_PROG_ERROR_DUPLICATE then dh else 0,
           if err = CEC_OP_PROG_ERROR_DUPLICATE then dm else 0))"
  using assms timer_status.parse_receive [of "(overlap, media, info, err, dh, dm)" m r]
  by (auto simp: timer_status_ok_def timer_status_view_def Let_def)

lemma timer_status_delivered_witness:
  "cec_ops_timer_status (cec_receive (cec_frame
      (cec_msg_timer_status cec_zero 1 2 9 14 3 25)) cec_zero) =
    (if (9 :: u8) \<noteq> 0
     then (1, 2, 9, 0,
           if (9 :: u8) \<in> {CEC_OP_PROG_INFO_NOT_ENOUGH_SPACE, CEC_OP_PROG_INFO_MIGHT_NOT_BE_ENOUGH_SPACE}
           then 3 else 0,
           if (9 :: u8) \<in> {CEC_OP_PROG_INFO_NOT_ENOUGH_SPACE, CEC_OP_PROG_INFO_MIGHT_NOT_BE_ENOUGH_SPACE}
           then 25 else 0)
     else (1, 2, 0, 14, if (14 :: u8) = CEC_OP_PROG_ERROR_DUPLICATE then 3 else 0,
           if (14 :: u8) = CEC_OP_PROG_ERROR_DUPLICATE then 25 else 0))"
  by (rule timer_status_delivered) simp_all

text \<open>A programme title is delivered as the C string's first fourteen characters,
  terminated in the receiver's fifteen-byte array.\<close>

theorem timer_program_title_delivered:
  assumes "length (c_string s) < 2 ^ 32" and "cec_buf m" and "cec_buf r" and "length buf = 15"
  shows "c_string (cec_ops_set_timer_program_title (cec_receive (cec_frame
      (cec_msg_set_timer_program_title m s)) r) buf) = take 14 (c_string s)"
proof -
  have "vec 15 (nth buf) = buf"
    by (rule vec_nth [OF assms(4)])
  then show ?thesis
    using set_timer_program_title.parse_receive [OF assms(1-3), of "nth buf"] by simp
qed

lemma timer_program_title_delivered_witness:
  "c_string (cec_ops_set_timer_program_title (cec_receive (cec_frame
      (cec_msg_set_timer_program_title cec_zero [0x4e, 0x65, 0x77, 0x73, 0, 0x21])) cec_zero)
      (replicate 15 0xff)) = take 14 (c_string [0x4e, 0x65, 0x77, 0x73, 0, 0x21])"
  by (rule timer_program_title_delivered) (simp_all add: c_string_def)

end
