(* ===== verification/Cec_System.thy ===== *)
theory Cec_System
  imports Cec_Buffers Cec_Opcodes
begin

text \<open>
  System Information, Deck Control and power status messages, and the vendor specific
  commands with their counted payloads.
\<close>

section \<open>System Information\<close>

definition cec_msg_cec_version :: "cec_msg \<Rightarrow> u8 \<Rightarrow> cec_msg" where
  "cec_msg_cec_version m cec_version =
     m\<lparr>len := 3,
       msg := (msg m)[1 := CEC_MSG_CEC_VERSION, 2 := cec_version]\<rparr>"

definition cec_ops_cec_version :: "cec_msg \<Rightarrow> u8" where
  "cec_ops_cec_version m = msg m ! 2"

definition cec_msg_get_cec_version :: "cec_msg \<Rightarrow> c_int \<Rightarrow> cec_msg" where
  "cec_msg_get_cec_version m rep =
     m\<lparr>len := 2,
       msg := (msg m)[1 := CEC_MSG_GET_CEC_VERSION],
       reply := if rep \<noteq> 0 then CEC_MSG_CEC_VERSION else 0\<rparr>"

definition cec_msg_report_physical_addr ::
  "cec_msg \<Rightarrow> u16 \<Rightarrow> u8 \<Rightarrow> cec_msg" where
  "cec_msg_report_physical_addr m phys_addr prim_devtype =
     m\<lparr>len := 5,
       msg := (msg m)[0 := msg m ! 0 OR 0xf, 1 := CEC_MSG_REPORT_PHYSICAL_ADDR,
         2 := hi8 phys_addr, 3 := lo8 phys_addr, 4 := prim_devtype]\<rparr>"

definition cec_ops_report_physical_addr :: "cec_msg \<Rightarrow> u16 \<times> u8" where
  "cec_ops_report_physical_addr m =
     (be16 (msg m ! 2) (msg m ! 3), msg m ! 4)"

definition cec_msg_give_physical_addr ::
  "cec_msg \<Rightarrow> c_int \<Rightarrow> cec_msg" where
  "cec_msg_give_physical_addr m rep =
     m\<lparr>len := 2,
       msg := (msg m)[1 := CEC_MSG_GIVE_PHYSICAL_ADDR],
       reply := if rep \<noteq> 0 then CEC_MSG_REPORT_PHYSICAL_ADDR else 0\<rparr>"

definition cec_msg_set_menu_language :: "cec_msg \<Rightarrow> u8 list \<Rightarrow> cec_msg" where
  "cec_msg_set_menu_language m language =
     m\<lparr>len := 5,
       msg := memcpy ((msg m)[0 := msg m ! 0 OR 0xf, 1 := CEC_MSG_SET_MENU_LANGUAGE]) 2 language 3\<rparr>"

definition cec_ops_set_menu_language :: "cec_msg \<Rightarrow> u8 list \<Rightarrow> u8 list" where
  "cec_ops_set_menu_language m language = (memcpy language 0 (drop 2 (msg m)) 3)[3 := 0]"


definition cec_msg_get_menu_language :: "cec_msg \<Rightarrow> c_int \<Rightarrow> cec_msg" where
  "cec_msg_get_menu_language m rep =
     m\<lparr>len := 2,
       msg := (msg m)[1 := CEC_MSG_GET_MENU_LANGUAGE],
       reply := if rep \<noteq> 0 then CEC_MSG_SET_MENU_LANGUAGE else 0\<rparr>"

definition cec_msg_report_features ::
  "cec_msg \<Rightarrow> u8 \<Rightarrow> u8 \<Rightarrow> u8 \<Rightarrow> u8 \<Rightarrow>
   cec_msg" where
  "cec_msg_report_features m cec_version all_device_types rc_profile dev_features =
     m\<lparr>len := 6,
       msg := (msg m)[0 := msg m ! 0 OR 0xf, 1 := CEC_MSG_REPORT_FEATURES, 2 := cec_version,
         3 := all_device_types, 4 := rc_profile, 5 := dev_features]\<rparr>"

text \<open>\<^verbatim>\<open>while (p < &msg->msg[limit] && (*p & CEC_OP_FEAT_EXT)) p++\<close>\<close>

function skip_ext :: "u8 list \<Rightarrow> nat \<Rightarrow> nat \<Rightarrow> nat" where
  "skip_ext buf p limit =
     (if p < limit \<and> buf ! p AND CEC_OP_FEAT_EXT \<noteq> 0 then skip_ext buf (p + 1) limit else p)"
  by pat_completeness auto

termination
  by (relation "measure (\<lambda>(buf, p, limit). limit - p)") auto

declare skip_ext.simps [simp del]

text \<open>The two pointers are indices into the payload array, \<^verbatim>\<open>None\<close> for \<^verbatim>\<open>NULL\<close>.\<close>

definition cec_ops_report_features ::
  "cec_msg \<Rightarrow> u8 \<times> u8 \<times> nat option \<times> nat option" where
  "cec_ops_report_features m =
     (let p = 4;
          cec_version = msg m ! 2;
          all_device_types = msg m ! 3;
          rc_profile = Some p;
          p = skip_ext (msg m) p 14;
          (dev_features, p) =
            (if msg m ! p AND CEC_OP_FEAT_EXT = 0
             then (Some (p + 1), skip_ext (msg m) p 15) else (None, p));
          (rc_profile, dev_features) =
            (if msg m ! p AND CEC_OP_FEAT_EXT \<noteq> 0 then (None, None) else (rc_profile, dev_features))
      in (cec_version, all_device_types, rc_profile, dev_features))"


definition cec_msg_give_features :: "cec_msg \<Rightarrow> c_int \<Rightarrow> cec_msg" where
  "cec_msg_give_features m rep =
     m\<lparr>len := 2,
       msg := (msg m)[1 := CEC_MSG_GIVE_FEATURES],
       reply := if rep \<noteq> 0 then CEC_MSG_REPORT_FEATURES else 0\<rparr>"

section \<open>Deck Control\<close>

definition cec_msg_deck_control :: "cec_msg \<Rightarrow> u8 \<Rightarrow> cec_msg" where
  "cec_msg_deck_control m deck_control_mode =
     m\<lparr>len := 3,
       msg := (msg m)[1 := CEC_MSG_DECK_CONTROL, 2 := deck_control_mode]\<rparr>"

definition cec_ops_deck_control :: "cec_msg \<Rightarrow> u8" where
  "cec_ops_deck_control m = msg m ! 2"

definition cec_msg_deck_status :: "cec_msg \<Rightarrow> u8 \<Rightarrow> cec_msg" where
  "cec_msg_deck_status m deck_info =
     m\<lparr>len := 3,
       msg := (msg m)[1 := CEC_MSG_DECK_STATUS, 2 := deck_info]\<rparr>"

definition cec_ops_deck_status :: "cec_msg \<Rightarrow> u8" where
  "cec_ops_deck_status m = msg m ! 2"

definition cec_msg_give_deck_status ::
  "cec_msg \<Rightarrow> c_int \<Rightarrow> u8 \<Rightarrow> cec_msg" where
  "cec_msg_give_deck_status m rep status_req =
     m\<lparr>len := 3,
       msg := (msg m)[1 := CEC_MSG_GIVE_DECK_STATUS, 2 := status_req],
       reply := if rep \<noteq> 0 \<and> status_req \<noteq> CEC_OP_STATUS_REQ_OFF
         then CEC_MSG_DECK_STATUS else 0\<rparr>"

definition cec_ops_give_deck_status :: "cec_msg \<Rightarrow> u8" where
  "cec_ops_give_deck_status m = msg m ! 2"

definition cec_msg_play :: "cec_msg \<Rightarrow> u8 \<Rightarrow> cec_msg" where
  "cec_msg_play m play_mode =
     m\<lparr>len := 3,
       msg := (msg m)[1 := CEC_MSG_PLAY, 2 := play_mode]\<rparr>"

definition cec_ops_play :: "cec_msg \<Rightarrow> u8" where
  "cec_ops_play m = msg m ! 2"

section \<open>Vendor Specific Commands\<close>

definition cec_msg_device_vendor_id :: "cec_msg \<Rightarrow> u32 \<Rightarrow> cec_msg" where
  "cec_msg_device_vendor_id m vendor_id =
     m\<lparr>len := 5,
       msg := (msg m)[0 := msg m ! 0 OR 0xf, 1 := CEC_MSG_DEVICE_VENDOR_ID,
         2 := byte2 vendor_id, 3 := byte1 vendor_id, 4 := byte0 vendor_id]\<rparr>"

definition cec_ops_device_vendor_id :: "cec_msg \<Rightarrow> u32" where
  "cec_ops_device_vendor_id m = be24 (msg m ! 2) (msg m ! 3) (msg m ! 4)"

definition cec_msg_give_device_vendor_id ::
  "cec_msg \<Rightarrow> c_int \<Rightarrow> cec_msg" where
  "cec_msg_give_device_vendor_id m rep =
     m\<lparr>len := 2,
       msg := (msg m)[1 := CEC_MSG_GIVE_DEVICE_VENDOR_ID],
       reply := if rep \<noteq> 0 then CEC_MSG_DEVICE_VENDOR_ID else 0\<rparr>"

definition cec_msg_vendor_command :: "cec_msg \<Rightarrow> u8 \<Rightarrow> u8 list \<Rightarrow> cec_msg" where
  "cec_msg_vendor_command m sz vendor_cmd =
     (let sz = (if sz > 14 then 14 else sz) in
      m\<lparr>len := 2 + ucast sz,
        msg := memcpy ((msg m)[1 := CEC_MSG_VENDOR_COMMAND]) 2 vendor_cmd (unat sz)\<rparr>)"

text \<open>A pointer into the payload is the bytes from it on.\<close>

definition cec_ops_vendor_command :: "cec_msg \<Rightarrow> u8 \<times> u8 list" where
  "cec_ops_vendor_command m =
     (let sz = ucast (len m - 2); sz = (if sz > 14 then 14 else sz)
      in (sz, drop 2 (msg m)))"

definition cec_msg_vendor_command_with_id :: "cec_msg \<Rightarrow> u32 \<Rightarrow> u8 \<Rightarrow> u8 list \<Rightarrow> cec_msg" where
  "cec_msg_vendor_command_with_id m vendor_id sz vendor_cmd =
     (let sz = (if sz > 11 then 11 else sz) in
      m\<lparr>len := 5 + ucast sz,
        msg := memcpy ((msg m)[1 := CEC_MSG_VENDOR_COMMAND_WITH_ID, 2 := byte2 vendor_id,
          3 := byte1 vendor_id, 4 := byte0 vendor_id]) 5 vendor_cmd (unat sz)\<rparr>)"

definition cec_ops_vendor_command_with_id :: "cec_msg \<Rightarrow> u32 \<times> u8 \<times> u8 list" where
  "cec_ops_vendor_command_with_id m =
     (let sz = ucast (len m - 5); sz = (if sz > 11 then 11 else sz)
      in (be24 (msg m ! 2) (msg m ! 3) (msg m ! 4), sz, drop 5 (msg m)))"

definition cec_msg_vendor_remote_button_down :: "cec_msg \<Rightarrow> u8 \<Rightarrow> u8 list \<Rightarrow> cec_msg" where
  "cec_msg_vendor_remote_button_down m sz rc_code =
     (let sz = (if sz > 14 then 14 else sz) in
      m\<lparr>len := 2 + ucast sz,
        msg := memcpy ((msg m)[1 := CEC_MSG_VENDOR_REMOTE_BUTTON_DOWN]) 2 rc_code (unat sz)\<rparr>)"

definition cec_ops_vendor_remote_button_down :: "cec_msg \<Rightarrow> u8 \<times> u8 list" where
  "cec_ops_vendor_remote_button_down m =
     (let sz = ucast (len m - 2); sz = (if sz > 14 then 14 else sz)
      in (sz, drop 2 (msg m)))"


definition cec_msg_vendor_remote_button_up :: "cec_msg \<Rightarrow> cec_msg" where
  "cec_msg_vendor_remote_button_up m =
     m\<lparr>len := 2,
       msg := (msg m)[1 := CEC_MSG_VENDOR_REMOTE_BUTTON_UP]\<rparr>"

section \<open>Power Status\<close>

definition cec_msg_report_power_status :: "cec_msg \<Rightarrow> u8 \<Rightarrow> cec_msg" where
  "cec_msg_report_power_status m pwr_state =
     m\<lparr>len := 3,
       msg := (msg m)[1 := CEC_MSG_REPORT_POWER_STATUS, 2 := pwr_state]\<rparr>"

definition cec_ops_report_power_status :: "cec_msg \<Rightarrow> u8" where
  "cec_ops_report_power_status m = msg m ! 2"

definition cec_msg_give_device_power_status ::
  "cec_msg \<Rightarrow> c_int \<Rightarrow> cec_msg" where
  "cec_msg_give_device_power_status m rep =
     m\<lparr>len := 2,
       msg := (msg m)[1 := CEC_MSG_GIVE_DEVICE_POWER_STATUS],
       reply := if rep \<noteq> 0 then CEC_MSG_REPORT_POWER_STATUS else 0\<rparr>"

lemmas system_defs [wire_simps] =
  cec_msg_cec_version_def cec_ops_cec_version_def cec_msg_get_cec_version_def
  cec_msg_report_physical_addr_def cec_ops_report_physical_addr_def
  cec_msg_give_physical_addr_def cec_msg_get_menu_language_def cec_msg_report_features_def
  cec_msg_give_features_def cec_msg_deck_control_def cec_ops_deck_control_def
  cec_msg_deck_status_def cec_ops_deck_status_def cec_msg_give_deck_status_def
  cec_ops_give_deck_status_def cec_msg_play_def cec_ops_play_def
  cec_msg_device_vendor_id_def cec_ops_device_vendor_id_def cec_msg_give_device_vendor_id_def
  cec_msg_vendor_remote_button_up_def cec_msg_report_power_status_def
  cec_ops_report_power_status_def cec_msg_give_device_power_status_def

section \<open>Contracts\<close>

interpretation cec_version: cec_tight_codec
  "\<lambda>cec_version m. cec_msg_cec_version m cec_version"
  CEC_MSG_CEC_VERSION False cec_ops_cec_version "\<lambda>x. x" "\<lambda>_. True"
  by unfold_locales (auto simp: wire_simps)

interpretation get_cec_version: cec_request
  "\<lambda>rep m. cec_msg_get_cec_version m rep"
  CEC_MSG_GET_CEC_VERSION False CEC_MSG_CEC_VERSION
  by unfold_locales (auto simp: wire_simps)

interpretation report_physical_addr: cec_tight_codec
  "\<lambda>(phys_addr, prim_devtype) m. cec_msg_report_physical_addr m phys_addr prim_devtype"
  CEC_MSG_REPORT_PHYSICAL_ADDR True cec_ops_report_physical_addr "\<lambda>x. x" "\<lambda>_. True"
  by unfold_locales (auto simp: wire_simps)

interpretation give_physical_addr: cec_request
  "\<lambda>rep m. cec_msg_give_physical_addr m rep"
  CEC_MSG_GIVE_PHYSICAL_ADDR False CEC_MSG_REPORT_PHYSICAL_ADDR
  by unfold_locales (auto simp: wire_simps)

interpretation get_menu_language: cec_request
  "\<lambda>rep m. cec_msg_get_menu_language m rep"
  CEC_MSG_GET_MENU_LANGUAGE False CEC_MSG_SET_MENU_LANGUAGE
  by unfold_locales (auto simp: wire_simps)

interpretation give_features: cec_request
  "\<lambda>rep m. cec_msg_give_features m rep"
  CEC_MSG_GIVE_FEATURES False CEC_MSG_REPORT_FEATURES
  by unfold_locales (auto simp: wire_simps)

interpretation deck_control: cec_tight_codec
  "\<lambda>deck_control_mode m. cec_msg_deck_control m deck_control_mode"
  CEC_MSG_DECK_CONTROL False cec_ops_deck_control "\<lambda>x. x" "\<lambda>_. True"
  by unfold_locales (auto simp: wire_simps)

interpretation deck_status: cec_tight_codec
  "\<lambda>deck_info m. cec_msg_deck_status m deck_info"
  CEC_MSG_DECK_STATUS False cec_ops_deck_status "\<lambda>x. x" "\<lambda>_. True"
  by unfold_locales (auto simp: wire_simps)

interpretation give_deck_status: cec_tight_codec
  "\<lambda>status_req m. cec_msg_give_deck_status m rep status_req"
  CEC_MSG_GIVE_DECK_STATUS False cec_ops_give_deck_status "\<lambda>x. x" "\<lambda>_. True" for rep
  by unfold_locales (auto simp: wire_simps)

interpretation play: cec_tight_codec
  "\<lambda>play_mode m. cec_msg_play m play_mode"
  CEC_MSG_PLAY False cec_ops_play "\<lambda>x. x" "\<lambda>_. True"
  by unfold_locales (auto simp: wire_simps)

interpretation device_vendor_id: cec_tight_codec
  "\<lambda>vendor_id m. cec_msg_device_vendor_id m vendor_id"
  CEC_MSG_DEVICE_VENDOR_ID True cec_ops_device_vendor_id "\<lambda>x. x" "\<lambda>vendor_id. vendor_id < 2 ^ 24"
  by unfold_locales (auto simp: wire_simps)

interpretation give_device_vendor_id: cec_request
  "\<lambda>rep m. cec_msg_give_device_vendor_id m rep"
  CEC_MSG_GIVE_DEVICE_VENDOR_ID False CEC_MSG_DEVICE_VENDOR_ID
  by unfold_locales (auto simp: wire_simps)

interpretation vendor_remote_button_up: cec_tight_builder
  "\<lambda>m. cec_msg_vendor_remote_button_up m" CEC_MSG_VENDOR_REMOTE_BUTTON_UP False
  by unfold_locales (auto simp: wire_simps)

interpretation report_power_status: cec_tight_codec
  "\<lambda>pwr_state m. cec_msg_report_power_status m pwr_state"
  CEC_MSG_REPORT_POWER_STATUS False cec_ops_report_power_status "\<lambda>x. x" "\<lambda>_. True"
  by unfold_locales (auto simp: wire_simps)

interpretation give_device_power_status: cec_request
  "\<lambda>rep m. cec_msg_give_device_power_status m rep"
  CEC_MSG_GIVE_DEVICE_POWER_STATUS False CEC_MSG_REPORT_POWER_STATUS
  by unfold_locales (auto simp: wire_simps)

text \<open>The language is the first three bytes of the caller's array.\<close>

interpretation set_menu_language: cec_tight_codec
  "\<lambda>(a, b, c) m. cec_msg_set_menu_language m (a # b # c # rest)" CEC_MSG_SET_MENU_LANGUAGE True
  "\<lambda>m. cec_ops_set_menu_language m (vec 4 f)" "\<lambda>(a, b, c). [a, b, c, 0]" "\<lambda>_. True" for rest f
  by unfold_locales
    (auto simp: wire_simps cec_msg_set_menu_language_def cec_ops_set_menu_language_def upt_rec)

subsection \<open>Counted vendor payloads\<close>

definition clamp_size :: "u8 \<Rightarrow> u8 list \<Rightarrow> u32" where
  "clamp_size c cmd = (let sz = word_of_nat (length cmd) in ucast (if sz > c then c else sz))"

lemma unat_u8_to_u32: "unat (ucast (x :: u8) :: u32) = unat x"
  using unat_less_256 [of x]
  by (simp add: unsigned_ucast_eq take_bit_nat_eq_self)

lemma unat_clamp_size: "unat (clamp_size c cmd) = min (length cmd mod 256) (unat c)"
  unfolding clamp_size_def Let_def unat_u8_to_u32 unat_clamp
  by (simp add: unsigned_of_nat take_bit_eq_mod)

lemma clamp_size_src: "unat (clamp_size c cmd) \<le> length (cmd @ rest)"
  using mod_less_eq_dividend [of "length cmd" 256] by (simp add: unat_clamp_size)

lemma clamp_size_le: "min (length cmd mod 256) c \<le> length cmd + length rest"
  using mod_less_eq_dividend [of "length cmd" 256] by linarith

text \<open>The size the reader computes from the length of the frame.\<close>

lemma received_size:
  assumes "len r = k + n" and "unat n \<le> unat c" and "unat k + unat n \<le> 16"
  shows "(if ucast (len r - k) > (c :: u8) then c else ucast (len r - k)) = (ucast (n :: u32) :: u8)"
    and "unat (ucast n :: u8) = unat n"
proof -
  have "unat n < 256" using assms(3) by simp
  then show u: "unat (ucast n :: u8) = unat n"
    by (simp add: unsigned_ucast_eq take_bit_nat_eq_self)
  then have "\<not> (ucast n :: u8) > c"
    using assms(2) by (simp add: word_less_nat_alt)
  then show "(if ucast (len r - k) > c then c else ucast (len r - k)) = (ucast n :: u8)"
    by (simp add: assms(1))
qed

lemma vendor_counted:
  "cec_msg_vendor_command m (word_of_nat (length cmd)) (cmd @ rest) =
     put_counted m ((msg m)[1 := CEC_MSG_VENDOR_COMMAND]) 2 (cmd @ rest) (clamp_size 14 cmd)"
  "cec_msg_vendor_remote_button_down m (word_of_nat (length cmd)) (cmd @ rest) =
     put_counted m ((msg m)[1 := CEC_MSG_VENDOR_REMOTE_BUTTON_DOWN]) 2 (cmd @ rest) (clamp_size 14 cmd)"
  "cec_msg_vendor_command_with_id m vendor_id (word_of_nat (length cmd)) (cmd @ rest) =
     put_counted m ((msg m)[1 := CEC_MSG_VENDOR_COMMAND_WITH_ID, 2 := byte2 vendor_id,
          3 := byte1 vendor_id, 4 := byte0 vendor_id]) 5 (cmd @ rest) (clamp_size 11 cmd)"
  by (simp_all add: put_counted_def clamp_size_def Let_def unat_u8_to_u32
      cec_msg_vendor_command_def cec_msg_vendor_remote_button_down_def
      cec_msg_vendor_command_with_id_def)

text \<open>The payload a reader's size and pointer denote.\<close>

definition counted_bytes :: "u8 \<times> u8 list \<Rightarrow> u8 list" where
  "counted_bytes = (\<lambda>(sz, p). take (unat sz) p)"

lemma counted_bytes_received:
  assumes "len r = len (put_counted m header k (cmd @ rest) (clamp_size c cmd))"
    and "\<forall>i < unat (len (put_counted m header k (cmd @ rest) (clamp_size c cmd))).
      msg r ! i = msg (put_counted m header k (cmd @ rest) (clamp_size c cmd)) ! i"
    and "unat k + unat c \<le> 16" and "length header = 16" and "cec_buf r" and "length cmd < 256"
    and "k' = unat k" and "c' = unat c"
  shows "counted_bytes (if ucast (len r - k) > c then c else ucast (len r - k),
      drop k' (msg r)) = take c' cmd"
    and "\<forall>i < k'. msg r ! i = header ! i"
proof -
  have n: "unat (clamp_size c cmd) = min (length cmd) (unat c)"
    using assms(6) by (simp add: unat_clamp_size)
  have le: "unat k + unat (clamp_size c cmd) \<le> 16" using n assms(3) by simp
  note fr = counted_frame [OF assms(1,2) le clamp_size_src assms(4,5)]
  have "unat (clamp_size c cmd) \<le> unat c" using n by simp
  note sz = received_size [OF fr(1) this le]
  show "counted_bytes (if ucast (len r - k) > c then c else ucast (len r - k),
      drop k' (msg r)) = take c' cmd"
    unfolding sz(1) using fr(3) sz(2) n assms(7,8) by (simp add: counted_bytes_def min_def)
  show "\<forall>i < k'. msg r ! i = header ! i" using fr(2) assms(7) by simp
qed

interpretation vendor_command: cec_tight_codec
  "\<lambda>cmd m. cec_msg_vendor_command m (word_of_nat (length cmd)) (cmd @ rest)"
  CEC_MSG_VENDOR_COMMAND False "\<lambda>m. counted_bytes (cec_ops_vendor_command m)"
  "take 14" "\<lambda>cmd. length cmd < 256" for rest
proof (rule cec_tight_codecI)
  show "cec_tight_builder (\<lambda>m. cec_msg_vendor_command m (word_of_nat (length cmd)) (cmd @ rest))
      CEC_MSG_VENDOR_COMMAND False" for cmd
    by (rule counted_tight_builder [OF vendor_counted(1)])
      (auto simp: unat_clamp_size clamp_size_le cec_buf_def)
next
  fix cmd m r
  let ?sent = "cec_msg_vendor_command m (word_of_nat (length cmd)) (cmd @ rest)"
  assume h: "length cmd < 256" "cec_buf m" "cec_buf r" "len r = len ?sent"
    "\<forall>i < unat (len ?sent). msg r ! i = msg ?sent ! i"
  show "counted_bytes (cec_ops_vendor_command r) = take 14 cmd"
    unfolding cec_ops_vendor_command_def Let_def
    by (rule counted_bytes_received(1) [where m = m and rest = rest
          and header = "(msg m)[1 := CEC_MSG_VENDOR_COMMAND]"])
      (use h in \<open>simp_all add: vendor_counted cec_buf_def\<close>)
qed

interpretation vendor_remote_button_down: cec_tight_codec
  "\<lambda>cmd m. cec_msg_vendor_remote_button_down m (word_of_nat (length cmd)) (cmd @ rest)"
  CEC_MSG_VENDOR_REMOTE_BUTTON_DOWN False "\<lambda>m. counted_bytes (cec_ops_vendor_remote_button_down m)"
  "take 14" "\<lambda>cmd. length cmd < 256" for rest
proof (rule cec_tight_codecI)
  show "cec_tight_builder
      (\<lambda>m. cec_msg_vendor_remote_button_down m (word_of_nat (length cmd)) (cmd @ rest))
      CEC_MSG_VENDOR_REMOTE_BUTTON_DOWN False" for cmd
    by (rule counted_tight_builder [OF vendor_counted(2)])
      (auto simp: unat_clamp_size clamp_size_le cec_buf_def)
next
  fix cmd m r
  let ?sent = "cec_msg_vendor_remote_button_down m (word_of_nat (length cmd)) (cmd @ rest)"
  assume h: "length cmd < 256" "cec_buf m" "cec_buf r" "len r = len ?sent"
    "\<forall>i < unat (len ?sent). msg r ! i = msg ?sent ! i"
  show "counted_bytes (cec_ops_vendor_remote_button_down r) = take 14 cmd"
    unfolding cec_ops_vendor_remote_button_down_def Let_def
    by (rule counted_bytes_received(1) [where m = m and rest = rest
          and header = "(msg m)[1 := CEC_MSG_VENDOR_REMOTE_BUTTON_DOWN]"])
      (use h in \<open>simp_all add: vendor_counted cec_buf_def\<close>)
qed

interpretation vendor_command_with_id: cec_tight_codec
  "\<lambda>(vendor_id, cmd) m.
     cec_msg_vendor_command_with_id m vendor_id (word_of_nat (length cmd)) (cmd @ rest)"
  CEC_MSG_VENDOR_COMMAND_WITH_ID False
  "\<lambda>m. case cec_ops_vendor_command_with_id m of (i, sz, p) \<Rightarrow> (i, counted_bytes (sz, p))"
  "\<lambda>(vendor_id, cmd). (vendor_id, take 11 cmd)"
  "\<lambda>(vendor_id, cmd). vendor_id < 2 ^ 24 \<and> length cmd < 256" for rest
proof (rule cec_tight_codecI)
  fix a show "cec_tight_builder (case a of (vendor_id, cmd) \<Rightarrow>
      \<lambda>m. cec_msg_vendor_command_with_id m vendor_id (word_of_nat (length cmd)) (cmd @ rest))
      CEC_MSG_VENDOR_COMMAND_WITH_ID False"
  proof (cases a)
    case (Pair i cmd)
    show ?thesis unfolding Pair prod.case
      by (rule counted_tight_builder [OF vendor_counted(3)])
        (auto simp: unat_clamp_size clamp_size_le cec_buf_def)
  qed
next
  fix a m r
  assume h: "case a of (vendor_id, cmd) \<Rightarrow> vendor_id < 2 ^ 24 \<and> length cmd < 256"
    "cec_buf m" "cec_buf r"
    "len r = len ((case a of (vendor_id, cmd) \<Rightarrow> \<lambda>m. cec_msg_vendor_command_with_id m vendor_id
        (word_of_nat (length cmd)) (cmd @ rest)) m)"
    "\<forall>i < unat (len ((case a of (vendor_id, cmd) \<Rightarrow> \<lambda>m. cec_msg_vendor_command_with_id m vendor_id
        (word_of_nat (length cmd)) (cmd @ rest)) m)).
      msg r ! i = msg ((case a of (vendor_id, cmd) \<Rightarrow> \<lambda>m. cec_msg_vendor_command_with_id m vendor_id
        (word_of_nat (length cmd)) (cmd @ rest)) m) ! i"
  obtain i cmd where a: "a = (i, cmd)" by (cases a)
  let ?header = "(msg m)[1 := CEC_MSG_VENDOR_COMMAND_WITH_ID, 2 := byte2 i, 3 := byte1 i,
    4 := byte0 i]"
  have prems: "len r = len (put_counted m ?header 5 (cmd @ rest) (clamp_size 11 cmd))"
    "\<forall>i < unat (len (put_counted m ?header 5 (cmd @ rest) (clamp_size 11 cmd))).
      msg r ! i = msg (put_counted m ?header 5 (cmd @ rest) (clamp_size 11 cmd)) ! i"
    using h(4,5) by (simp_all only: a prod.case vendor_counted)
  note rc = counted_bytes_received [OF prems, where k' = 5 and c' = 11]
  have "counted_bytes (if ucast (len r - 5) > (11 :: u8) then 11 else ucast (len r - 5),
      drop 5 (msg r)) = take 11 cmd"
    by (rule rc(1)) (use h in \<open>simp_all add: a cec_buf_def\<close>)
  moreover have "\<forall>j < 5. msg r ! j = ?header ! j"
    by (rule rc(2)) (use h in \<open>simp_all add: a cec_buf_def\<close>)
  ultimately show "(case cec_ops_vendor_command_with_id r of (i, sz, p) \<Rightarrow> (i, counted_bytes (sz, p))) =
      (case a of (vendor_id, cmd) \<Rightarrow> (vendor_id, take 11 cmd))"
    using h(1-3) by (simp add: a cec_ops_vendor_command_with_id_def Let_def cec_buf_def
        all_less_numeral)
qed

subsection \<open>Features\<close>

text \<open>The loop stops at the first byte without the extension bit, or at its limit.\<close>

lemma skip_ext_step:
  "p < limit \<Longrightarrow> buf ! p AND CEC_OP_FEAT_EXT \<noteq> 0 \<Longrightarrow> skip_ext buf p limit = skip_ext buf (p + 1) limit"
  by (subst skip_ext.simps) simp

lemma skip_ext_stay:
  "\<not> (p < limit \<and> buf ! p AND CEC_OP_FEAT_EXT \<noteq> 0) \<Longrightarrow> skip_ext buf p limit = p"
  by (subst skip_ext.simps) (rule if_not_P)

lemma skip_ext_limit: "limit \<le> p \<Longrightarrow> skip_ext buf p limit = p"
  by (simp add: skip_ext_stay)

lemma skip_ext_clear: "buf ! p AND CEC_OP_FEAT_EXT = 0 \<Longrightarrow> skip_ext buf p limit = p"
  by (simp add: skip_ext_stay)

lemma skip_ext_bounds:
  "p \<le> limit \<Longrightarrow> p \<le> skip_ext buf p limit \<and> skip_ext buf p limit \<le> limit"
proof (induction buf p limit rule: skip_ext.induct)
  case (1 buf p limit)
  consider "p < limit" "buf ! p AND CEC_OP_FEAT_EXT \<noteq> 0" | "limit \<le> p"
    | "buf ! p AND CEC_OP_FEAT_EXT = 0"
    by linarith
  then show ?case
    using 1 by cases (auto simp: skip_ext_step skip_ext_limit skip_ext_clear)
qed

lemma skip_ext_passed:
  "p \<le> i \<Longrightarrow> i < skip_ext buf p limit \<Longrightarrow> buf ! i AND CEC_OP_FEAT_EXT \<noteq> 0"
proof (induction buf p limit rule: skip_ext.induct)
  case (1 buf p limit)
  show ?case
  proof (cases "p < limit \<and> buf ! p AND CEC_OP_FEAT_EXT \<noteq> 0")
    case True
    with 1 show ?thesis by (cases "i = p") (auto simp: skip_ext_step)
  next
    case False
    then have "skip_ext buf p limit = p" by (rule skip_ext_stay)
    with "1.prems" show ?thesis by simp
  qed
qed

lemma skip_ext_stops:
  "skip_ext buf p limit < limit \<Longrightarrow> buf ! skip_ext buf p limit AND CEC_OP_FEAT_EXT = 0"
proof (induction buf p limit rule: skip_ext.induct)
  case (1 buf p limit)
  show ?case
  proof (cases "p < limit \<and> buf ! p AND CEC_OP_FEAT_EXT \<noteq> 0")
    case True
    with 1 show ?thesis by (auto simp: skip_ext_step)
  next
    case False
    then have "skip_ext buf p limit = p" by (rule skip_ext_stay)
    with False "1.prems" show ?thesis by simp
  qed
qed

text \<open>
  What the reader returns.  The second loop starts on a byte without the extension bit,
  so it never moves and the final test can only fail for the first list.
\<close>

lemma report_features_found:
  assumes "i < 15" and "4 \<le> i" and "msg m ! i AND CEC_OP_FEAT_EXT = 0"
    and "\<forall>j. 4 \<le> j \<longrightarrow> j < i \<longrightarrow> msg m ! j AND CEC_OP_FEAT_EXT \<noteq> 0"
  shows "cec_ops_report_features m = (msg m ! 2, msg m ! 3, Some 4, Some (i + 1))"
proof -
  let ?p = "skip_ext (msg m) 4 14"
  have b: "4 \<le> ?p" "?p \<le> 14" using skip_ext_bounds [of 4 14 "msg m"] by simp_all
  have "?p \<le> i" using skip_ext_passed [of 4 i "msg m" 14] assms(2,3) by (meson not_le)
  moreover have "i \<le> ?p"
    using skip_ext_stops [of "msg m" 4 14] assms(1,4) b by (cases "?p < 14") (auto simp: not_less)
  ultimately have "?p = i" by simp
  then show ?thesis
    using assms(3) by (simp add: cec_ops_report_features_def Let_def skip_ext_clear)
qed

lemma report_features_none:
  assumes "\<forall>j. 4 \<le> j \<longrightarrow> j < 15 \<longrightarrow> msg m ! j AND CEC_OP_FEAT_EXT \<noteq> 0"
  shows "cec_ops_report_features m = (msg m ! 2, msg m ! 3, None, None)"
proof -
  let ?p = "skip_ext (msg m) 4 14"
  have "4 \<le> ?p" "?p \<le> 14" using skip_ext_bounds [of 4 14 "msg m"] by simp_all
  then have "msg m ! ?p AND CEC_OP_FEAT_EXT \<noteq> 0" using assms by simp
  then show ?thesis by (simp add: cec_ops_report_features_def Let_def)
qed

text \<open>The bytes the returned pointers denote, as the builder's single-byte operands.\<close>

definition features_view ::
  "cec_msg \<Rightarrow> u8 \<times> u8 \<times> nat option \<times> nat option \<Rightarrow> u8 \<times> u8 \<times> u8 option \<times> u8 option" where
  "features_view m = (\<lambda>(version, types, rc, dev).
     (version, types, map_option (nth (msg m)) rc, map_option (nth (msg m)) dev))"

interpretation report_features: cec_tight_codec
  "\<lambda>(version, types, rc, dev) m. cec_msg_report_features m version types rc dev"
  CEC_MSG_REPORT_FEATURES True "\<lambda>m. features_view m (cec_ops_report_features m)"
  "\<lambda>(version, types, rc, dev). (version, types, Some rc, Some dev)"
  "\<lambda>(version, types, rc, dev). rc AND CEC_OP_FEAT_EXT = 0"
  by unfold_locales (auto simp: wire_simps report_features_found [where i = 4] features_view_def)

section \<open>Steps\<close>

text \<open>One rule for every builder of the group, at all arguments.\<close>

inductive system_step :: "u8 \<Rightarrow> bool \<Rightarrow> cec_msg \<Rightarrow> cec_msg \<Rightarrow> bool" where
  cec_version: "system_step CEC_MSG_CEC_VERSION False m (cec_msg_cec_version m cec_version)"
| get_cec_version: "system_step CEC_MSG_GET_CEC_VERSION False m (cec_msg_get_cec_version m rep)"
| report_physical_addr: "system_step CEC_MSG_REPORT_PHYSICAL_ADDR True m
     (cec_msg_report_physical_addr m phys_addr prim_devtype)"
| give_physical_addr: "system_step CEC_MSG_GIVE_PHYSICAL_ADDR False m (cec_msg_give_physical_addr
     m rep)"
| get_menu_language: "system_step CEC_MSG_GET_MENU_LANGUAGE False m (cec_msg_get_menu_language m
     rep)"
| give_features: "system_step CEC_MSG_GIVE_FEATURES False m (cec_msg_give_features m rep)"
| deck_control: "system_step CEC_MSG_DECK_CONTROL False m (cec_msg_deck_control m
     deck_control_mode)"
| deck_status: "system_step CEC_MSG_DECK_STATUS False m (cec_msg_deck_status m deck_info)"
| give_deck_status: "system_step CEC_MSG_GIVE_DECK_STATUS False m (cec_msg_give_deck_status m rep
     status_req)"
| play: "system_step CEC_MSG_PLAY False m (cec_msg_play m play_mode)"
| device_vendor_id: "system_step CEC_MSG_DEVICE_VENDOR_ID True m (cec_msg_device_vendor_id m
     vendor_id)"
| give_device_vendor_id: "system_step CEC_MSG_GIVE_DEVICE_VENDOR_ID False m
     (cec_msg_give_device_vendor_id m rep)"
| vendor_remote_button_up: "system_step CEC_MSG_VENDOR_REMOTE_BUTTON_UP False m
     (cec_msg_vendor_remote_button_up m)"
| report_power_status: "system_step CEC_MSG_REPORT_POWER_STATUS False m
     (cec_msg_report_power_status m pwr_state)"
| give_device_power_status: "system_step CEC_MSG_GIVE_DEVICE_POWER_STATUS False m
     (cec_msg_give_device_power_status m rep)"
| set_menu_language: "system_step CEC_MSG_SET_MENU_LANGUAGE True m (cec_msg_set_menu_language m (a
     # b # c # rest))"
| report_features: "system_step CEC_MSG_REPORT_FEATURES True m (cec_msg_report_features m v t rc
     dev)"
| vendor_command: "system_step CEC_MSG_VENDOR_COMMAND False m (cec_msg_vendor_command m
     (word_of_nat (length cmd)) (cmd @ rest))"
| vendor_command_with_id: "system_step CEC_MSG_VENDOR_COMMAND_WITH_ID False m
     (cec_msg_vendor_command_with_id m i (word_of_nat (length cmd)) (cmd @ rest))"
| vendor_remote_button_down: "system_step CEC_MSG_VENDOR_REMOTE_BUTTON_DOWN False m
     (cec_msg_vendor_remote_button_down m (word_of_nat (length cmd)) (cmd @ rest))"

lemmas system_sent =
  cec_version.sent.build_sent
  get_cec_version.asked.build_sent
  report_physical_addr.sent.build_sent [where a = "(phys_addr, prim_devtype)" for phys_addr
      prim_devtype, unfolded prod.case]
  give_physical_addr.asked.build_sent
  get_menu_language.asked.build_sent
  give_features.asked.build_sent
  deck_control.sent.build_sent
  deck_status.sent.build_sent
  give_deck_status.sent.build_sent
  play.sent.build_sent
  device_vendor_id.sent.build_sent
  give_device_vendor_id.asked.build_sent
  vendor_remote_button_up.build_sent
  report_power_status.sent.build_sent
  give_device_power_status.asked.build_sent
  set_menu_language.sent.build_sent [where a = "(a, b, c)" for a b c, unfolded prod.case]
  report_features.sent.build_sent [where a = "(a, b, c, d)" for a b c d, unfolded prod.case]
  vendor_command.sent.build_sent
  vendor_command_with_id.sent.build_sent [where a = "(a, b)" for a b, unfolded prod.case]
  vendor_remote_button_down.sent.build_sent

lemma system_step_sent: "system_step opc bcast m m' \<Longrightarrow> cec_buf m \<Longrightarrow> cec_sent opc bcast m m'"
  by (induction rule: system_step.induct) (auto intro: system_sent)

lemma system_step_opcode: "system_step opc bcast m m' \<Longrightarrow> opc \<in> set cec_opcodes"
  by (induction rule: system_step.induct) (simp_all add: cec_opcodes_def)

lemma system_step_bcast: "system_step opc bcast m m' \<Longrightarrow> bcast \<longleftrightarrow> opc \<in> set cec_broadcast_opcodes"
  by (induction rule: system_step.induct) (simp_all add: cec_broadcast_opcodes_def)

section \<open>Properties\<close>

text \<open>C19: What the features reader returns is decided by the first byte from offset 4 on without
  the extension bit: when there is one before offset 15, the first list starts at 4 and the
  second right after that byte; when all eleven bytes carry the bit, both are refused.  The
  second list is never checked for its end, and the length of the message plays no part.\<close>

theorem report_features_result:
  "cec_ops_report_features m =
     (case find (\<lambda>i. msg m ! i AND CEC_OP_FEAT_EXT = 0) [4..<15] of
        None \<Rightarrow> (msg m ! 2, msg m ! 3, None, None)
      | Some i \<Rightarrow> (msg m ! 2, msg m ! 3, Some 4, Some (i + 1)))"
proof (cases "find (\<lambda>i. msg m ! i AND CEC_OP_FEAT_EXT = 0) [4..<15]")
  case None
  then have "\<forall>j. 4 \<le> j \<longrightarrow> j < 15 \<longrightarrow> msg m ! j AND CEC_OP_FEAT_EXT \<noteq> 0"
    unfolding find_upt_None by simp
  then have "cec_ops_report_features m = (msg m ! 2, msg m ! 3, None, None)"
    by (rule report_features_none)
  then show ?thesis by (simp only: None option.case)
next
  case (Some i)
  have "cec_ops_report_features m = (msg m ! 2, msg m ! 3, Some 4, Some (i + 1))"
    by (rule report_features_found) (use find_upt_Some [OF Some] in simp_all)
  then show ?thesis by (simp only: Some option.case)
qed

text \<open>A vendor command with at most 255 payload bytes is delivered as its first fourteen, one
  with a vendor identification below two to the 24 as that identification and its first
  eleven.\<close>

theorem vendor_commands_delivered:
  assumes "length cmd < 256" and "vendor_id < 2 ^ 24" and "cec_buf m" and "cec_buf r"
  shows "counted_bytes (cec_ops_vendor_command (cec_receive (cec_frame
        (cec_msg_vendor_command m (word_of_nat (length cmd)) cmd)) r)) = take 14 cmd \<and>
    (case cec_ops_vendor_command_with_id (cec_receive (cec_frame
        (cec_msg_vendor_command_with_id m vendor_id (word_of_nat (length cmd)) cmd)) r) of
      (i, sz, p) \<Rightarrow> (i, counted_bytes (sz, p))) = (vendor_id, take 11 cmd)"
  using assms vendor_command.parse_receive [of cmd m r "[]"]
    vendor_command_with_id.parse_receive [of "(vendor_id, cmd)" m r "[]"]
  by simp

lemma vendor_commands_delivered_witness:
  "counted_bytes (cec_ops_vendor_command (cec_receive (cec_frame
        (cec_msg_vendor_command cec_zero (word_of_nat (length [1, 2, 3 :: u8])) [1, 2, 3])) cec_zero)) =
      take 14 [1, 2, 3] \<and>
    (case cec_ops_vendor_command_with_id (cec_receive (cec_frame
        (cec_msg_vendor_command_with_id cec_zero 0x080046 (word_of_nat (length [1, 2, 3 :: u8]))
          [1, 2, 3])) cec_zero) of
      (i, sz, p) \<Rightarrow> (i, counted_bytes (sz, p))) = (0x080046, take 11 [1, 2, 3])"
  by (rule vendor_commands_delivered) simp_all

end
