(* ===== verification/Cec_Tuner.thy ===== *)
theory Cec_Tuner
  imports Cec_Record
begin

text \<open>
  Tuner Control messages.  \<^verbatim>\<open>struct cec_op_tuner_device_info\<close> holds a union of a digital
  service identification and an analogue one; as for the record source, the union is its
  storage of four halfwords and the members are parts of it.
\<close>

section \<open>Tuner state\<close>

record cec_op_tuner_device_info =
  td_rec_flag :: u8
  td_tuner_display_info :: u8
  td_is_analog :: u8
  td_w0 :: u16
  td_w1 :: u16
  td_w2 :: u16
  td_w3 :: u16

definition td_digital :: "cec_op_tuner_device_info \<Rightarrow> cec_op_digital_service_id" where
  "td_digital t = \<lparr>service_id_method = lo8 (td_w0 t), dig_bcast_system = hi8 (td_w0 t),
     ds_w0 = td_w1 t, ds_w1 = td_w2 t, ds_w2 = td_w3 t\<rparr>"

definition td_set_digital ::
  "cec_op_digital_service_id \<Rightarrow> cec_op_tuner_device_info \<Rightarrow> cec_op_tuner_device_info" where
  "td_set_digital d t = t\<lparr>td_w0 := be16 (dig_bcast_system d) (service_id_method d),
     td_w1 := ds_w0 d, td_w2 := ds_w1 d, td_w3 := ds_w2 d\<rparr>"

abbreviation (input) "td_ana_bcast_type t \<equiv> lo8 (td_w0 t)"
abbreviation (input) "td_ana_freq t \<equiv> td_w1 t"
abbreviation (input) "td_bcast_system t \<equiv> lo8 (td_w2 t)"

lemma td_digital_set [simp]: "td_digital (td_set_digital d t) = d"
  by (cases d) (simp add: td_digital_def td_set_digital_def)

lemma td_set_digital_others [simp]:
  "td_rec_flag (td_set_digital d t) = td_rec_flag t"
  "td_tuner_display_info (td_set_digital d t) = td_tuner_display_info t"
  "td_is_analog (td_set_digital d t) = td_is_analog t"
  by (simp_all add: td_set_digital_def)

section \<open>Messages\<close>

definition cec_msg_tuner_device_status_analog ::
  "cec_msg \<Rightarrow> u8 \<Rightarrow> u8 \<Rightarrow> u8 \<Rightarrow> u16 \<Rightarrow>
   u8 \<Rightarrow> cec_msg" where
  "cec_msg_tuner_device_status_analog m rec_flag tuner_display_info ana_bcast_type ana_freq
     bcast_system =
     m\<lparr>len := 7,
       msg := (msg m)[1 := CEC_MSG_TUNER_DEVICE_STATUS,
         2 := pack8 7 rec_flag tuner_display_info, 3 := ana_bcast_type, 4 := hi8 ana_freq,
         5 := lo8 ana_freq, 6 := bcast_system]\<rparr>"

definition cec_msg_tuner_device_status_digital ::
  "cec_msg \<Rightarrow> u8 \<Rightarrow> u8 \<Rightarrow> cec_op_digital_service_id \<Rightarrow> cec_msg" where
  "cec_msg_tuner_device_status_digital m rec_flag tuner_display_info digital =
     (let m = m\<lparr>len := 10,
                msg := (msg m)[1 := CEC_MSG_TUNER_DEVICE_STATUS,
                  2 := pack8 7 rec_flag tuner_display_info]\<rparr> in
      m\<lparr>msg := cec_set_digital_service_id (msg m) 3 digital\<rparr>)"

definition cec_msg_tuner_device_status ::
  "cec_msg \<Rightarrow> cec_op_tuner_device_info \<Rightarrow> cec_msg" where
  "cec_msg_tuner_device_status m tuner_dev_info =
     (if td_is_analog tuner_dev_info \<noteq> 0 then
        cec_msg_tuner_device_status_analog m (td_rec_flag tuner_dev_info)
          (td_tuner_display_info tuner_dev_info) (td_ana_bcast_type tuner_dev_info)
          (td_ana_freq tuner_dev_info) (td_bcast_system tuner_dev_info)
      else
        cec_msg_tuner_device_status_digital m (td_rec_flag tuner_dev_info)
          (td_tuner_display_info tuner_dev_info) (td_digital tuner_dev_info))"

definition cec_ops_tuner_device_status ::
  "cec_msg \<Rightarrow> cec_op_tuner_device_info \<Rightarrow> cec_op_tuner_device_info" where
  "cec_ops_tuner_device_status m tuner_dev_info =
     (let t = tuner_dev_info\<lparr>td_is_analog := if len m < 10 then 1 else 0,
                             td_rec_flag := drop_bit 7 (msg m ! 2),
                             td_tuner_display_info := msg m ! 2 AND 0x7f\<rparr> in
      if td_is_analog t \<noteq> 0 then
        t\<lparr>td_w0 := set_lo8 (msg m ! 3) (td_w0 t),
          td_w1 := be16 (msg m ! 4) (msg m ! 5),
          td_w2 := set_lo8 (msg m ! 6) (td_w2 t)\<rparr>
      else td_set_digital (cec_get_digital_service_id (msg m) 3 (td_digital t)) t)"


definition cec_msg_give_tuner_device_status ::
  "cec_msg \<Rightarrow> c_int \<Rightarrow> u8 \<Rightarrow> cec_msg" where
  "cec_msg_give_tuner_device_status m rep status_req =
     m\<lparr>len := 3,
       msg := (msg m)[1 := CEC_MSG_GIVE_TUNER_DEVICE_STATUS, 2 := status_req],
       reply := if rep \<noteq> 0 \<and> status_req \<noteq> CEC_OP_STATUS_REQ_OFF
         then CEC_MSG_TUNER_DEVICE_STATUS else 0\<rparr>"

definition cec_ops_give_tuner_device_status :: "cec_msg \<Rightarrow> u8" where
  "cec_ops_give_tuner_device_status m = msg m ! 2"

definition cec_msg_select_analogue_service ::
  "cec_msg \<Rightarrow> u8 \<Rightarrow> u16 \<Rightarrow> u8 \<Rightarrow> cec_msg" where
  "cec_msg_select_analogue_service m ana_bcast_type ana_freq bcast_system =
     m\<lparr>len := 6,
       msg := (msg m)[1 := CEC_MSG_SELECT_ANALOGUE_SERVICE, 2 := ana_bcast_type,
         3 := hi8 ana_freq, 4 := lo8 ana_freq, 5 := bcast_system]\<rparr>"

definition cec_ops_select_analogue_service ::
  "cec_msg \<Rightarrow> u8 \<times> u16 \<times> u8" where
  "cec_ops_select_analogue_service m =
     (msg m ! 2, be16 (msg m ! 3) (msg m ! 4), msg m ! 5)"

definition cec_msg_select_digital_service ::
  "cec_msg \<Rightarrow> cec_op_digital_service_id \<Rightarrow> cec_msg" where
  "cec_msg_select_digital_service m digital =
     (let m = m\<lparr>len := 9, msg := (msg m)[1 := CEC_MSG_SELECT_DIGITAL_SERVICE]\<rparr> in
      m\<lparr>msg := cec_set_digital_service_id (msg m) 2 digital\<rparr>)"

definition cec_ops_select_digital_service ::
  "cec_msg \<Rightarrow> cec_op_digital_service_id \<Rightarrow> cec_op_digital_service_id" where
  "cec_ops_select_digital_service m digital = cec_get_digital_service_id (msg m) 2 digital"


definition cec_msg_tuner_step_decrement :: "cec_msg \<Rightarrow> cec_msg" where
  "cec_msg_tuner_step_decrement m =
     m\<lparr>len := 2,
       msg := (msg m)[1 := CEC_MSG_TUNER_STEP_DECREMENT]\<rparr>"

definition cec_msg_tuner_step_increment :: "cec_msg \<Rightarrow> cec_msg" where
  "cec_msg_tuner_step_increment m =
     m\<lparr>len := 2,
       msg := (msg m)[1 := CEC_MSG_TUNER_STEP_INCREMENT]\<rparr>"

lemmas tuner_defs [wire_simps] =
  cec_msg_tuner_device_status_analog_def cec_msg_tuner_device_status_digital_def
  cec_msg_give_tuner_device_status_def cec_ops_give_tuner_device_status_def
  cec_msg_select_analogue_service_def cec_ops_select_analogue_service_def
  cec_msg_select_digital_service_def cec_msg_tuner_step_decrement_def
  cec_msg_tuner_step_increment_def

section \<open>What a tuner state means\<close>

datatype tuned_to = Tuned_analog u8 u16 u8 | Tuned_digital service_id

definition td_view :: "cec_op_tuner_device_info \<Rightarrow> u8 \<times> u8 \<times> tuned_to" where
  "td_view t = (td_rec_flag t, td_tuner_display_info t,
     if td_is_analog t \<noteq> 0
     then Tuned_analog (td_ana_bcast_type t) (td_ana_freq t) (td_bcast_system t)
     else Tuned_digital (ds_view (td_digital t)))"

definition td_ok :: "cec_op_tuner_device_info \<Rightarrow> bool" where
  "td_ok t \<longleftrightarrow> td_rec_flag t < 2 \<and> td_tuner_display_info t < 128 \<and>
     (td_is_analog t = 0 \<longrightarrow> ds_ok (td_digital t))"

section \<open>Contracts\<close>

interpretation select_analogue_service: cec_tight_codec
  "\<lambda>(ana_bcast_type, ana_freq, bcast_system) m. cec_msg_select_analogue_service m
    ana_bcast_type ana_freq bcast_system"
  CEC_MSG_SELECT_ANALOGUE_SERVICE False cec_ops_select_analogue_service "\<lambda>x. x" "\<lambda>_. True"
  by unfold_locales (auto simp: wire_simps)

interpretation tuner_step_decrement: cec_tight_builder
  "\<lambda>m. cec_msg_tuner_step_decrement m" CEC_MSG_TUNER_STEP_DECREMENT False
  by unfold_locales (auto simp: wire_simps)

interpretation tuner_step_increment: cec_tight_builder
  "\<lambda>m. cec_msg_tuner_step_increment m" CEC_MSG_TUNER_STEP_INCREMENT False
  by unfold_locales (auto simp: wire_simps)

interpretation give_tuner_device_status: cec_tight_codec
  "\<lambda>status_req m. cec_msg_give_tuner_device_status m rep status_req"
  CEC_MSG_GIVE_TUNER_DEVICE_STATUS False cec_ops_give_tuner_device_status "\<lambda>x. x" "\<lambda>_. True" for rep
  by unfold_locales (auto simp: wire_simps)

interpretation select_digital_service: cec_tight_codec
  "\<lambda>d m. cec_msg_select_digital_service m d" CEC_MSG_SELECT_DIGITAL_SERVICE False
  "\<lambda>m. ds_view (cec_ops_select_digital_service m d0)" ds_view ds_ok for d0
proof unfold_locales
  fix d m r
  assume h: "ds_ok d" "cec_buf m" "cec_buf r" "len r = len (cec_msg_select_digital_service m d)"
    "\<forall>i < unat (len (cec_msg_select_digital_service m d)).
      msg r ! i = msg (cec_msg_select_digital_service m d) ! i"
  show "ds_view (cec_ops_select_digital_service r d0) = ds_view d"
    unfolding cec_ops_select_digital_service_def
    by (rule get_set_digital_frame
        [where p = 2 and buf = "(msg m)[1 := CEC_MSG_SELECT_DIGITAL_SERVICE]"])
      (use h in \<open>simp_all add: cec_msg_select_digital_service_def cec_buf_def\<close>)
qed (auto simp: wire_simps)

interpretation tuner_device_status: cec_tight_codec
  "\<lambda>t m. cec_msg_tuner_device_status m t" CEC_MSG_TUNER_DEVICE_STATUS False
  "\<lambda>m. td_view (cec_ops_tuner_device_status m t0)" td_view td_ok for t0
proof unfold_locales
  fix t m r
  assume h: "td_ok t" "cec_buf m" "cec_buf r" "len r = len (cec_msg_tuner_device_status m t)"
    "\<forall>i < unat (len (cec_msg_tuner_device_status m t)).
      msg r ! i = msg (cec_msg_tuner_device_status m t) ! i"
  show "td_view (cec_ops_tuner_device_status r t0) = td_view t"
  proof (cases "td_is_analog t = 0")
    case False
    with h show ?thesis
      by (simp add: cec_msg_tuner_device_status_def cec_ops_tuner_device_status_def td_view_def
          td_ok_def wire_simps)
  next
    case True
    let ?header = "(msg m)[1 := CEC_MSG_TUNER_DEVICE_STATUS,
        2 := pack8 7 (td_rec_flag t) (td_tuner_display_info t)]"
    have "\<forall>i < 3 + 7. msg r ! i = cec_set_digital_service_id ?header 3 (td_digital t) ! i"
      using h True by (simp add: cec_msg_tuner_device_status_def
          cec_msg_tuner_device_status_digital_def)
    note got = get_set_digital_frame [OF this]
    have "ds_view (cec_get_digital_service_id (msg r) 3 d0) = ds_view (td_digital t)" for d0
      by (rule got(1)) (use h True in \<open>simp_all add: td_ok_def cec_buf_def\<close>)
    moreover have "\<forall>i < 3. msg r ! i = ?header ! i"
      by (rule got(2)) (use h True in \<open>simp_all add: td_ok_def cec_buf_def\<close>)
    then have "msg r ! 2 = pack8 7 (td_rec_flag t) (td_tuner_display_info t)"
      using h(2) by (simp add: cec_buf_def)
    moreover have "len r = 10"
      using h(4) True
      by (simp add: cec_msg_tuner_device_status_def cec_msg_tuner_device_status_digital_def)
    ultimately show ?thesis
      using h(1) True
      by (simp add: cec_ops_tuner_device_status_def td_view_def td_ok_def Let_def)
  qed
qed (auto simp: cec_msg_tuner_device_status_def wire_simps)

text \<open>A status query that turns reporting off expects no answer.\<close>

lemma give_tuner_device_status_reply:
  "reply (cec_msg_give_tuner_device_status m rep status_req) =
     (if rep \<noteq> 0 \<and> status_req \<noteq> CEC_OP_STATUS_REQ_OFF then CEC_MSG_TUNER_DEVICE_STATUS else 0)"
  by (simp add: cec_msg_give_tuner_device_status_def)

section \<open>Steps\<close>

text \<open>One rule for every builder of the group, at all arguments.\<close>

inductive tuner_step :: "u8 \<Rightarrow> bool \<Rightarrow> cec_msg \<Rightarrow> cec_msg \<Rightarrow> bool" where
  select_analogue_service: "tuner_step CEC_MSG_SELECT_ANALOGUE_SERVICE False m
     (cec_msg_select_analogue_service m ana_bcast_type ana_freq bcast_system)"
| tuner_step_decrement: "tuner_step CEC_MSG_TUNER_STEP_DECREMENT False m
     (cec_msg_tuner_step_decrement m)"
| tuner_step_increment: "tuner_step CEC_MSG_TUNER_STEP_INCREMENT False m
     (cec_msg_tuner_step_increment m)"
| give_tuner_device_status: "tuner_step CEC_MSG_GIVE_TUNER_DEVICE_STATUS False m
     (cec_msg_give_tuner_device_status m rep status_req)"
| select_digital_service: "tuner_step CEC_MSG_SELECT_DIGITAL_SERVICE False m
     (cec_msg_select_digital_service m d)"
| tuner_device_status: "tuner_step CEC_MSG_TUNER_DEVICE_STATUS False m
     (cec_msg_tuner_device_status m t)"

lemmas tuner_sent =
  select_analogue_service.sent.build_sent [where a = "(ana_bcast_type, ana_freq, bcast_system)"
      for ana_bcast_type ana_freq bcast_system, unfolded prod.case]
  tuner_step_decrement.build_sent
  tuner_step_increment.build_sent
  give_tuner_device_status.sent.build_sent
  select_digital_service.sent.build_sent
  tuner_device_status.sent.build_sent

lemma tuner_step_sent: "tuner_step opc bcast m m' \<Longrightarrow> cec_buf m \<Longrightarrow> cec_sent opc bcast m m'"
  by (induction rule: tuner_step.induct) (auto intro: tuner_sent)

lemma tuner_step_opcode: "tuner_step opc bcast m m' \<Longrightarrow> opc \<in> set cec_opcodes"
  by (induction rule: tuner_step.induct) (simp_all add: cec_opcodes_def)

lemma tuner_step_bcast: "tuner_step opc bcast m m' \<Longrightarrow> bcast \<longleftrightarrow> opc \<in> set cec_broadcast_opcodes"
  by (induction rule: tuner_step.induct) (simp_all add: cec_broadcast_opcodes_def)

section \<open>Properties\<close>

text \<open>A tuner status is delivered whichever side of the union it holds: the receiver tells
  analogue from digital by the length of the frame alone.\<close>

theorem tuner_status_delivered:
  assumes "td_ok t" and "cec_buf m" and "cec_buf r"
  shows "td_view (cec_ops_tuner_device_status (cec_receive (cec_frame
      (cec_msg_tuner_device_status m t)) r) t0) = td_view t"
  using assms by (rule tuner_device_status.parse_receive)

lemma tuner_status_delivered_witness:
  "td_view (cec_ops_tuner_device_status (cec_receive (cec_frame
      (cec_msg_tuner_device_status cec_zero \<lparr>td_rec_flag = 1, td_tuner_display_info = 2, td_is_analog = 0,
         td_w0 = 0x0200, td_w1 = 1, td_w2 = 300, td_w3 = 4\<rparr>)) cec_zero)
      \<lparr>td_rec_flag = 0, td_tuner_display_info = 0, td_is_analog = 1,
         td_w0 = 9, td_w1 = 9, td_w2 = 9, td_w3 = 9\<rparr>) =
   td_view \<lparr>td_rec_flag = 1, td_tuner_display_info = 2, td_is_analog = 0,
         td_w0 = 0x0200, td_w1 = 1, td_w2 = 300, td_w3 = 4\<rparr>"
  by (rule tuner_status_delivered)
    (simp_all add: td_ok_def td_digital_def ds_ok_def ds_fits_def lo8_def hi8_def)

end
