(* ===== verification/Cec_Menu.thy ===== *)
theory Cec_Menu
  imports Cec_Buffers Cec_Opcodes
begin

text \<open>
  OSD strings and names, device menu control and remote control pass-through.  The
  optional operand of a user control is a union of one-byte members with the channel
  identifier; its storage is three halfwords.
\<close>

section \<open>On screen display\<close>

definition cec_msg_set_osd_string :: "cec_msg \<Rightarrow> u8 \<Rightarrow> u8 list \<Rightarrow> cec_msg" where
  "cec_msg_set_osd_string m disp_ctl osd =
     (let n = strlen_u32 osd; n = (if n > 13 then 13 else n) in
      m\<lparr>len := 3 + n,
        msg := memcpy ((msg m)[1 := CEC_MSG_SET_OSD_STRING, 2 := disp_ctl]) 3 osd (unat n)\<rparr>)"

definition cec_ops_set_osd_string :: "cec_msg \<Rightarrow> u8 list \<Rightarrow> u8 \<times> u8 list" where
  "cec_ops_set_osd_string m osd =
     (let n = (if len m > 3 then len m - 3 else 0);
          disp_ctl = msg m ! 2;
          n = (if n > 13 then 13 else n);
          osd = memcpy osd 0 (drop 3 (msg m)) (unat n)
      in (disp_ctl, osd[unat n := 0]))"

definition cec_msg_set_osd_name :: "cec_msg \<Rightarrow> u8 list \<Rightarrow> cec_msg" where
  "cec_msg_set_osd_name m name =
     (let n = strlen_u32 name; n = (if n > 14 then 14 else n) in
      m\<lparr>len := 2 + n,
        msg := memcpy ((msg m)[1 := CEC_MSG_SET_OSD_NAME]) 2 name (unat n)\<rparr>)"

definition cec_ops_set_osd_name :: "cec_msg \<Rightarrow> u8 list \<Rightarrow> u8 list" where
  "cec_ops_set_osd_name m name =
     (let n = (if len m > 2 then len m - 2 else 0); n = (if n > 14 then 14 else n);
          name = memcpy name 0 (drop 2 (msg m)) (unat n)
      in name[unat n := 0])"


definition cec_msg_give_osd_name :: "cec_msg \<Rightarrow> c_int \<Rightarrow> cec_msg" where
  "cec_msg_give_osd_name m rep =
     m\<lparr>len := 2,
       msg := (msg m)[1 := CEC_MSG_GIVE_OSD_NAME],
       reply := if rep \<noteq> 0 then CEC_MSG_SET_OSD_NAME else 0\<rparr>"

section \<open>Device menu\<close>

definition cec_msg_menu_status :: "cec_msg \<Rightarrow> u8 \<Rightarrow> cec_msg" where
  "cec_msg_menu_status m menu_state =
     m\<lparr>len := 3,
       msg := (msg m)[1 := CEC_MSG_MENU_STATUS, 2 := menu_state]\<rparr>"

definition cec_ops_menu_status :: "cec_msg \<Rightarrow> u8" where
  "cec_ops_menu_status m = msg m ! 2"

definition cec_msg_menu_request ::
  "cec_msg \<Rightarrow> c_int \<Rightarrow> u8 \<Rightarrow> cec_msg" where
  "cec_msg_menu_request m rep menu_req =
     m\<lparr>len := 3,
       msg := (msg m)[1 := CEC_MSG_MENU_REQUEST, 2 := menu_req],
       reply := if rep \<noteq> 0 then CEC_MSG_MENU_STATUS else 0\<rparr>"

definition cec_ops_menu_request :: "cec_msg \<Rightarrow> u8" where
  "cec_ops_menu_request m = msg m ! 2"

section \<open>Remote control\<close>

record cec_op_ui_command =
  ui_cmd :: u8
  has_opt_arg :: u8
  ui_w0 :: u16
  ui_w1 :: u16
  ui_w2 :: u16

abbreviation (input) "ui_play_mode u \<equiv> lo8 (ui_w0 u)"
abbreviation (input) "ui_channel_number_fmt u \<equiv> lo8 (ui_w0 u)"
abbreviation (input) "ui_major u \<equiv> ui_w1 u"
abbreviation (input) "ui_minor u \<equiv> ui_w2 u"

text \<open>The case labels with a one-byte operand.\<close>

definition ui_byte_operand :: "u8 \<Rightarrow> bool" where
  "ui_byte_operand c \<longleftrightarrow>
     c = CEC_OP_UI_CMD_SELECT_BROADCAST_TYPE \<or> c = CEC_OP_UI_CMD_SELECT_SOUND_PRESENTATION \<or>
     c = CEC_OP_UI_CMD_PLAY_FUNCTION \<or> c = CEC_OP_UI_CMD_SELECT_MEDIA_FUNCTION \<or>
     c = CEC_OP_UI_CMD_SELECT_AV_INPUT_FUNCTION \<or> c = CEC_OP_UI_CMD_SELECT_AUDIO_INPUT_FUNCTION"

definition cec_msg_user_control_pressed :: "cec_msg \<Rightarrow> cec_op_ui_command \<Rightarrow> cec_msg" where
  "cec_msg_user_control_pressed m u =
     (let m = m\<lparr>len := 3,
                msg := (msg m)[1 := CEC_MSG_USER_CONTROL_PRESSED, 2 := ui_cmd u]\<rparr> in
      if has_opt_arg u = 0 then m
      else if ui_byte_operand (ui_cmd u) then
        m\<lparr>len := len m + 1, msg := (msg m)[3 := ui_play_mode u]\<rparr>
      else if ui_cmd u = CEC_OP_UI_CMD_TUNE_FUNCTION then
        m\<lparr>len := len m + 4,
          msg := (msg m)[3 := pack8 2 (ui_channel_number_fmt u) (hi8 (ui_major u)),
            4 := lo8 (ui_major u), 5 := hi8 (ui_minor u), 6 := lo8 (ui_minor u)]\<rparr>
      else m)"

definition cec_ops_user_control_pressed ::
  "cec_msg \<Rightarrow> cec_op_ui_command \<Rightarrow> cec_op_ui_command" where
  "cec_ops_user_control_pressed m u =
     (let u = u\<lparr>ui_cmd := msg m ! 2, has_opt_arg := 0\<rparr> in
      if len m = 3 then u
      else if ui_byte_operand (ui_cmd u) then
        u\<lparr>ui_w0 := set_lo8 (msg m ! 3) (ui_w0 u), has_opt_arg := 1\<rparr>
      else if ui_cmd u = CEC_OP_UI_CMD_TUNE_FUNCTION then
        (if len m < 7 then u
         else u\<lparr>has_opt_arg := 1,
                ui_w0 := set_lo8 (drop_bit 2 (msg m ! 3)) (ui_w0 u),
                ui_w1 := push_bit 6 (ucast (msg m ! 3 AND 3)) OR ucast (msg m ! 4),
                ui_w2 := be16 (msg m ! 5) (msg m ! 6)\<rparr>)
      else u)"


definition cec_msg_user_control_released :: "cec_msg \<Rightarrow> cec_msg" where
  "cec_msg_user_control_released m =
     m\<lparr>len := 2,
       msg := (msg m)[1 := CEC_MSG_USER_CONTROL_RELEASED]\<rparr>"

lemmas menu_defs [wire_simps] =
  cec_msg_give_osd_name_def cec_msg_menu_status_def cec_ops_menu_status_def
  cec_msg_menu_request_def cec_ops_menu_request_def cec_msg_user_control_released_def

section \<open>Contracts\<close>

interpretation give_osd_name: cec_request
  "\<lambda>rep m. cec_msg_give_osd_name m rep"
  CEC_MSG_GIVE_OSD_NAME False CEC_MSG_SET_OSD_NAME
  by unfold_locales (auto simp: wire_simps)

interpretation menu_status: cec_tight_codec
  "\<lambda>menu_state m. cec_msg_menu_status m menu_state"
  CEC_MSG_MENU_STATUS False cec_ops_menu_status "\<lambda>x. x" "\<lambda>_. True"
  by unfold_locales (auto simp: wire_simps)

interpretation menu_request: cec_tight_codec
  "\<lambda>menu_req m. cec_msg_menu_request m rep menu_req"
  CEC_MSG_MENU_REQUEST False cec_ops_menu_request "\<lambda>x. x" "\<lambda>_. True" for rep
  by unfold_locales (auto simp: wire_simps)

interpretation user_control_released: cec_tight_builder
  "\<lambda>m. cec_msg_user_control_released m" CEC_MSG_USER_CONTROL_RELEASED False
  by unfold_locales (auto simp: wire_simps)

subsection \<open>Strings\<close>

lemma osd_counted:
  "cec_msg_set_osd_string m c s =
     put_counted m ((msg m)[1 := CEC_MSG_SET_OSD_STRING, 2 := c]) 3 s (text_count 13 s)"
  "cec_msg_set_osd_name m s =
     put_counted m ((msg m)[1 := CEC_MSG_SET_OSD_NAME]) 2 s (text_count 14 s)"
  by (simp_all add: cec_msg_set_osd_string_def cec_msg_set_osd_name_def put_counted_def
      text_count_def Let_def)

lemma osd_received:
  "cec_ops_set_osd_string m buf =
     (msg m ! 2, (memcpy buf 0 (drop (unat (3 :: u32)) (msg m)) (unat (text_received 3 13 m)))
       [unat (text_received 3 13 m) := 0])"
  "cec_ops_set_osd_name m buf =
     (memcpy buf 0 (drop (unat (2 :: u32)) (msg m)) (unat (text_received 2 14 m)))
       [unat (text_received 2 14 m) := 0]"
  by (simp_all add: cec_ops_set_osd_string_def cec_ops_set_osd_name_def text_received_def Let_def)

interpretation set_osd_name: cec_tight_codec
  "\<lambda>s m. cec_msg_set_osd_name m s" CEC_MSG_SET_OSD_NAME False
  "\<lambda>m. c_string (cec_ops_set_osd_name m (vec 15 b))"
  "\<lambda>s. take 14 (c_string s)" "\<lambda>s. length (c_string s) < 2 ^ 32" for b
proof (rule cec_tight_codecI)
  show "cec_tight_builder (\<lambda>m. cec_msg_set_osd_name m s) CEC_MSG_SET_OSD_NAME False" for s
    by (rule counted_tight_builder [OF osd_counted(2)])
      (use text_count_le [of 14 s] in \<open>auto simp: text_count_src cec_buf_def\<close>)
next
  fix s m r
  assume "length (c_string s) < 2 ^ 32" "cec_buf m" "cec_buf r"
    "len r = len (cec_msg_set_osd_name m s)"
    "\<forall>i < unat (len (cec_msg_set_osd_name m s)). msg r ! i = msg (cec_msg_set_osd_name m s) ! i"
  then show "c_string (cec_ops_set_osd_name r (vec 15 b)) = take 14 (c_string s)"
    using text_roundtrip [where k = 2 and c = 14 and buf = "vec 15 b"]
    by (auto simp: osd_counted osd_received cec_buf_def)
qed

interpretation set_osd_string: cec_tight_codec
  "\<lambda>(c, s) m. cec_msg_set_osd_string m c s" CEC_MSG_SET_OSD_STRING False
  "\<lambda>m. apsnd c_string (cec_ops_set_osd_string m (vec 14 b))"
  "\<lambda>(c, s). (c, take 13 (c_string s))" "\<lambda>(c, s). length (c_string s) < 2 ^ 32" for b
proof (rule cec_tight_codecI)
  fix a show "cec_tight_builder (case a of (c, s) \<Rightarrow> \<lambda>m. cec_msg_set_osd_string m c s)
      CEC_MSG_SET_OSD_STRING False"
  proof (cases a)
    case (Pair c s)
    show ?thesis unfolding Pair prod.case
      by (rule counted_tight_builder [OF osd_counted(1)])
        (use text_count_le [of 13 s] in \<open>auto simp: text_count_src cec_buf_def\<close>)
  qed
next
  fix a m r
  assume h: "case a of (c, s) \<Rightarrow> length (c_string s) < 2 ^ 32" "cec_buf m" "cec_buf r"
    "len r = len ((case a of (c, s) \<Rightarrow> \<lambda>m. cec_msg_set_osd_string m c s) m)"
    "\<forall>i < unat (len ((case a of (c, s) \<Rightarrow> \<lambda>m. cec_msg_set_osd_string m c s) m)).
      msg r ! i = msg ((case a of (c, s) \<Rightarrow> \<lambda>m. cec_msg_set_osd_string m c s) m) ! i"
  obtain c s where a: "a = (c, s)" by (cases a)
  let ?header = "(msg m)[1 := CEC_MSG_SET_OSD_STRING, 2 := c]"
  have sent: "len r = len (put_counted m ?header 3 s (text_count 13 s))"
    "\<forall>i < unat (len (put_counted m ?header 3 s (text_count 13 s))).
      msg r ! i = msg (put_counted m ?header 3 s (text_count 13 s)) ! i"
    using h(4,5) by (simp_all only: a prod.case osd_counted)
  have "c_string ((memcpy (vec 14 b) 0 (drop (unat (3 :: u32)) (msg r))
      (unat (text_received 3 13 r))) [unat (text_received 3 13 r) := 0]) = take 13 (c_string s)"
    using text_roundtrip [OF sent, where buf = "vec 14 b"] h by (simp add: a cec_buf_def)
  moreover have "\<forall>i < unat (3 :: u32). msg r ! i = ?header ! i"
    by (rule counted_frame(2) [OF sent])
      (use h text_count_le [of 13 s] in \<open>simp_all add: a text_count_src cec_buf_def\<close>)
  ultimately show "apsnd c_string (cec_ops_set_osd_string r (vec 14 b)) =
      (case a of (c, s) \<Rightarrow> (c, take 13 (c_string s)))"
    using h by (simp add: a osd_received cec_buf_def all_less_numeral)
qed

subsection \<open>User controls\<close>

datatype ui_operand =
  Ui_plain
| Ui_byte u8
| Ui_channel u8 u16 u16

definition ui_view :: "cec_op_ui_command \<Rightarrow> u8 \<times> ui_operand" where
  "ui_view u = (ui_cmd u,
     if has_opt_arg u = 0 then Ui_plain
     else if ui_byte_operand (ui_cmd u) then Ui_byte (ui_play_mode u)
     else if ui_cmd u = CEC_OP_UI_CMD_TUNE_FUNCTION then
       Ui_channel (ui_channel_number_fmt u) (ui_major u) (ui_minor u)
     else Ui_plain)"

text \<open>Six bits of number format and ten of major number; the reader keeps eight.\<close>

definition ui_fits :: "cec_op_ui_command \<Rightarrow> bool" where
  "ui_fits u \<longleftrightarrow> (has_opt_arg u \<noteq> 0 \<and> ui_cmd u = CEC_OP_UI_CMD_TUNE_FUNCTION \<longrightarrow>
     ui_channel_number_fmt u < 64 \<and> ui_major u < 1024)"

definition ui_ok :: "cec_op_ui_command \<Rightarrow> bool" where
  "ui_ok u \<longleftrightarrow> ui_fits u \<and>
     (has_opt_arg u \<noteq> 0 \<and> ui_cmd u = CEC_OP_UI_CMD_TUNE_FUNCTION \<longrightarrow> ui_major u < 256)"

lemma tune_not_byte [simp]: "\<not> ui_byte_operand CEC_OP_UI_CMD_TUNE_FUNCTION"
  by (simp add: ui_byte_operand_def)

interpretation user_control_pressed: cec_tight_codec
  "\<lambda>u m. cec_msg_user_control_pressed m u" CEC_MSG_USER_CONTROL_PRESSED False
  "\<lambda>m. ui_view (cec_ops_user_control_pressed m u0)" ui_view ui_ok for u0
proof unfold_locales
  fix u m r
  assume h: "ui_ok u" "cec_buf m" "cec_buf r" "len r = len (cec_msg_user_control_pressed m u)"
    "\<forall>i < unat (len (cec_msg_user_control_pressed m u)).
      msg r ! i = msg (cec_msg_user_control_pressed m u) ! i"
  consider "has_opt_arg u = 0" | "has_opt_arg u \<noteq> 0" "ui_byte_operand (ui_cmd u)"
    | "has_opt_arg u \<noteq> 0" "ui_cmd u = CEC_OP_UI_CMD_TUNE_FUNCTION"
    | "has_opt_arg u \<noteq> 0" "\<not> ui_byte_operand (ui_cmd u)" "ui_cmd u \<noteq> CEC_OP_UI_CMD_TUNE_FUNCTION"
    by blast
  then show "ui_view (cec_ops_user_control_pressed r u0) = ui_view u"
    using h hi8_eq_0_iff [of "ui_major u"]
    by cases (auto simp: cec_msg_user_control_pressed_def cec_ops_user_control_pressed_def
        ui_view_def ui_ok_def ui_fits_def ucast_lo8 wire_simps)
qed (auto simp: cec_msg_user_control_pressed_def Let_def wire_simps split: if_splits)

section \<open>Steps\<close>

text \<open>One rule for every builder of the group, at all arguments.\<close>

inductive menu_step :: "u8 \<Rightarrow> bool \<Rightarrow> cec_msg \<Rightarrow> cec_msg \<Rightarrow> bool" where
  give_osd_name: "menu_step CEC_MSG_GIVE_OSD_NAME False m (cec_msg_give_osd_name m rep)"
| menu_status: "menu_step CEC_MSG_MENU_STATUS False m (cec_msg_menu_status m menu_state)"
| menu_request: "menu_step CEC_MSG_MENU_REQUEST False m (cec_msg_menu_request m rep menu_req)"
| user_control_released: "menu_step CEC_MSG_USER_CONTROL_RELEASED False m
     (cec_msg_user_control_released m)"
| set_osd_string: "menu_step CEC_MSG_SET_OSD_STRING False m (cec_msg_set_osd_string m c s)"
| set_osd_name: "menu_step CEC_MSG_SET_OSD_NAME False m (cec_msg_set_osd_name m s)"
| user_control_pressed: "menu_step CEC_MSG_USER_CONTROL_PRESSED False m
     (cec_msg_user_control_pressed m u)"

lemmas menu_sent =
  give_osd_name.asked.build_sent
  menu_status.sent.build_sent
  menu_request.sent.build_sent
  user_control_released.build_sent
  set_osd_string.sent.build_sent [where a = "(a, b)" for a b, unfolded prod.case]
  set_osd_name.sent.build_sent
  user_control_pressed.sent.build_sent

lemma menu_step_sent: "menu_step opc bcast m m' \<Longrightarrow> cec_buf m \<Longrightarrow> cec_sent opc bcast m m'"
  by (induction rule: menu_step.induct) (auto intro: menu_sent)

lemma menu_step_opcode: "menu_step opc bcast m m' \<Longrightarrow> opc \<in> set cec_opcodes"
  by (induction rule: menu_step.induct) (simp_all add: cec_opcodes_def)

lemma menu_step_bcast: "menu_step opc bcast m m' \<Longrightarrow> bcast \<longleftrightarrow> opc \<in> set cec_broadcast_opcodes"
  by (induction rule: menu_step.induct) (simp_all add: cec_broadcast_opcodes_def)

section \<open>Properties\<close>

text \<open>An OSD string is delivered as its display control and its first thirteen characters, an
  OSD name as its first fourteen, each terminated in the receiver's array.\<close>

theorem osd_text_delivered:
  assumes "length (c_string s) < 2 ^ 32" and "cec_buf m" and "cec_buf r"
    and "length buf = 14" and "length buf' = 15"
  shows "apsnd c_string (cec_ops_set_osd_string (cec_receive (cec_frame
      (cec_msg_set_osd_string m c s)) r) buf) = (c, take 13 (c_string s)) \<and>
    c_string (cec_ops_set_osd_name (cec_receive (cec_frame
      (cec_msg_set_osd_name m s)) r) buf') = take 14 (c_string s)"
proof -
  have v: "vec 14 (nth buf) = buf" "vec 15 (nth buf') = buf'"
    by (rule vec_nth [OF assms(4)], rule vec_nth [OF assms(5)])
  show ?thesis
    using set_osd_string.parse_receive [of "(c, s)" m r "nth buf"]
      set_osd_name.parse_receive [OF assms(1-3), of "nth buf'"] assms(1-3)
    by (simp only: v prod.case)
qed

lemma osd_text_delivered_witness:
  "apsnd c_string (cec_ops_set_osd_string (cec_receive (cec_frame
      (cec_msg_set_osd_string cec_zero 0x40 [0x48, 0x69, 0])) cec_zero) (replicate 14 1)) =
     (0x40, take 13 (c_string [0x48, 0x69, 0])) \<and>
   c_string (cec_ops_set_osd_name (cec_receive (cec_frame
      (cec_msg_set_osd_name cec_zero [0x48, 0x69, 0])) cec_zero) (replicate 15 1)) =
     take 14 (c_string [0x48, 0x69, 0])"
  by (rule osd_text_delivered) (simp_all add: c_string_def)

lemma pressed_channel_read:
  assumes "has_opt_arg u \<noteq> 0" and "ui_cmd u = CEC_OP_UI_CMD_TUNE_FUNCTION" and "ui_fits u"
    and "cec_buf m" and "len r = len (cec_msg_user_control_pressed m u)"
    and "\<forall>i < unat (len (cec_msg_user_control_pressed m u)).
      msg r ! i = msg (cec_msg_user_control_pressed m u) ! i"
  shows "ui_view (cec_ops_user_control_pressed r u0) =
    (ui_cmd u, Ui_channel (ui_channel_number_fmt u)
      (push_bit 6 (ucast (hi8 (ui_major u))) OR ucast (lo8 (ui_major u))) (ui_minor u))"
  using assms
  by (auto simp: cec_msg_user_control_pressed_def cec_ops_user_control_pressed_def ui_view_def
      ui_fits_def wire_simps)

text \<open>C18: The frame of a pressed user control arrives with its command and operand, whatever the
  receiver's message object and command structure held before, when there is no operand, when the
  operand is one byte, and when it is a channel with a major number below 256; a larger major
  number never arrives.  A channel is taken to fit the wire format: a number format of six bits
  and a major number of ten.\<close>

theorem user_control_delivered:
  assumes "has_opt_arg u \<noteq> 0 \<and> ui_cmd u = CEC_OP_UI_CMD_TUNE_FUNCTION \<longrightarrow>
      ui_channel_number_fmt u < 64 \<and> ui_major u < 1024"
    and "cec_buf m" and "cec_buf r"
  shows "ui_view (cec_ops_user_control_pressed
      (cec_receive (cec_frame (cec_msg_user_control_pressed m u)) r) u0) = ui_view u
    \<longleftrightarrow> \<not> (has_opt_arg u \<noteq> 0 \<and> ui_cmd u = CEC_OP_UI_CMD_TUNE_FUNCTION \<and> ui_major u \<ge> 256)"
proof (cases "ui_ok u")
  case True
  then show ?thesis
    using user_control_pressed.parse_receive [OF True assms(2,3), of u0] by (auto simp: ui_ok_def)
next
  case False
  have fits: "ui_fits u" using assms(1) by (simp add: ui_fits_def)
  with False have c: "has_opt_arg u \<noteq> 0" "ui_cmd u = CEC_OP_UI_CMD_TUNE_FUNCTION" "256 \<le> ui_major u"
    by (auto simp: ui_ok_def)
  have wf: "cec_wf (cec_msg_user_control_pressed m u)"
    using assms(2) by (rule user_control_pressed.send_wf)
  note rf = cec_frame_receive [OF wf assms(3)]
  have "ui_major u < 1024" using assms(1) c by simp
  then show ?thesis
    using pressed_channel_read [OF c(1,2) fits assms(2) cec_frame_eq_nth [OF rf(1,3) wf], of u0]
      folded_major [of "ui_major u"] c
    by (simp add: ui_view_def)
qed

lemma user_control_delivered_witness:
  "ui_view (cec_ops_user_control_pressed (cec_receive (cec_frame
       (cec_msg_user_control_pressed cec_zero
         \<lparr>ui_cmd = 0x67, has_opt_arg = 1, ui_w0 = 1, ui_w1 = 256, ui_w2 = 3\<rparr>)) cec_zero)
       \<lparr>ui_cmd = 0, has_opt_arg = 0, ui_w0 = 0, ui_w1 = 0, ui_w2 = 0\<rparr>) =
     ui_view \<lparr>ui_cmd = 0x67, has_opt_arg = 1, ui_w0 = 1, ui_w1 = 256, ui_w2 = 3\<rparr>
   \<longleftrightarrow> \<not> (has_opt_arg \<lparr>ui_cmd = 0x67, has_opt_arg = 1, ui_w0 = 1, ui_w1 = 256, ui_w2 = 3\<rparr> \<noteq> 0 \<and>
        ui_cmd \<lparr>ui_cmd = 0x67, has_opt_arg = 1, ui_w0 = 1, ui_w1 = 256, ui_w2 = 3\<rparr> =
          CEC_OP_UI_CMD_TUNE_FUNCTION \<and>
        ui_major \<lparr>ui_cmd = 0x67, has_opt_arg = 1, ui_w0 = 1, ui_w1 = 256, ui_w2 = 3\<rparr> \<ge> 256)"
  by (rule user_control_delivered) (simp_all add: lo8_def)

end
