(* ===== verification/Cec_General.thy ===== *)
theory Cec_General
  imports Cec_Core Cec_Opcodes
begin

text \<open>
  General Protocol messages: aborts, and the in-place answer to a message a device does
  not support.
\<close>

definition cec_msg_feature_abort ::
  "cec_msg \<Rightarrow> u8 \<Rightarrow> u8 \<Rightarrow> cec_msg" where
  "cec_msg_feature_abort m abort_msg reason =
     m\<lparr>len := 4,
       msg := (msg m)[1 := CEC_MSG_FEATURE_ABORT, 2 := abort_msg, 3 := reason]\<rparr>"

definition cec_ops_feature_abort :: "cec_msg \<Rightarrow> u8 \<times> u8" where
  "cec_ops_feature_abort m =
     (msg m ! 2, msg m ! 3)"

text \<open>
  The message is its own \<^verbatim>\<open>orig\<close>: \<^verbatim>\<open>cec_msg_set_reply_to\<close> reads the address byte before it
  writes it, and the opcode is copied before it is overwritten.
\<close>

definition cec_msg_reply_feature_abort :: "cec_msg \<Rightarrow> u8 \<Rightarrow> cec_msg" where
  "cec_msg_reply_feature_abort m reason =
     (let m = cec_msg_set_reply_to m m;
          m = m\<lparr>len := 4\<rparr>;
          m = m\<lparr>msg := (msg m)[2 := msg m ! 1]\<rparr>
      in m\<lparr>msg := (msg m)[3 := reason, 1 := CEC_MSG_FEATURE_ABORT]\<rparr>)"


definition cec_msg_abort :: "cec_msg \<Rightarrow> cec_msg" where
  "cec_msg_abort m =
     m\<lparr>len := 2,
       msg := (msg m)[1 := CEC_MSG_ABORT]\<rparr>"

lemmas general_defs [wire_simps] =
  cec_msg_feature_abort_def cec_ops_feature_abort_def cec_msg_abort_def

section \<open>Contracts\<close>

interpretation feature_abort: cec_tight_codec
  "\<lambda>(abort_msg, reason) m. cec_msg_feature_abort m abort_msg reason"
  CEC_MSG_FEATURE_ABORT False cec_ops_feature_abort "\<lambda>x. x" "\<lambda>_. True"
  by unfold_locales (auto simp: wire_simps)

interpretation abort: cec_tight_builder "\<lambda>m. cec_msg_abort m" CEC_MSG_ABORT False
  by unfold_locales (auto simp: wire_simps)

section \<open>Answering with an abort\<close>

text \<open>The nibbles of the address byte, swapped.\<close>

lemma swap_nibbles:
  "drop_bit 4 (pack8 4 (b AND 0xf) (drop_bit 4 b)) = (b AND 0xf :: u8)"
  "pack8 4 (b AND 0xf) (drop_bit 4 b) AND 0xf = drop_bit 4 (b :: u8)"
  by simp_all

lemma set_reply_to_addr:
  assumes "cec_buf m"
  shows "cec_msg_initiator (cec_msg_set_reply_to m orig) = cec_msg_destination orig"
    and "cec_msg_destination (cec_msg_set_reply_to m orig) = cec_msg_initiator orig"
  using assms
  by (simp_all add: cec_msg_set_reply_to_def cec_msg_initiator_def cec_msg_destination_def cec_buf_def)

lemma reply_feature_abort_as_abort:
  assumes "cec_buf m"
  shows "cec_msg_reply_feature_abort m reason =
    cec_msg_feature_abort (cec_msg_set_reply_to m m) (msg m ! 1) reason"
  using assms
  by (simp add: cec_msg_reply_feature_abort_def cec_msg_feature_abort_def cec_msg_set_reply_to_def
      cec_buf_def Let_def list_update_swap)

section \<open>Steps\<close>

text \<open>One rule for every builder of the group, at all arguments.\<close>

inductive general_step :: "u8 \<Rightarrow> bool \<Rightarrow> cec_msg \<Rightarrow> cec_msg \<Rightarrow> bool" where
  feature_abort: "general_step CEC_MSG_FEATURE_ABORT False m (cec_msg_feature_abort m abort_msg
     reason)"
| abort: "general_step CEC_MSG_ABORT False m (cec_msg_abort m)"

lemmas general_sent =
  feature_abort.sent.build_sent [where a = "(abort_msg, reason)" for abort_msg reason, unfolded
      prod.case]
  abort.build_sent

lemma general_step_sent: "general_step opc bcast m m' \<Longrightarrow> cec_buf m \<Longrightarrow> cec_sent opc bcast m m'"
  by (induction rule: general_step.induct) (auto intro: general_sent)

lemma general_step_opcode: "general_step opc bcast m m' \<Longrightarrow> opc \<in> set cec_opcodes"
  by (induction rule: general_step.induct) (simp_all add: cec_opcodes_def)

lemma general_step_bcast: "general_step opc bcast m m' \<Longrightarrow> bcast \<longleftrightarrow> opc \<in> set cec_broadcast_opcodes"
  by (induction rule: general_step.induct) (simp_all add: cec_broadcast_opcodes_def)

section \<open>Properties\<close>

text \<open>Answering a message with Feature Abort in place sends it back: initiator and
  destination change places, the frame is an abort that names the opcode the message had and
  the given reason, the reply, timeout and flags fields are cleared and nothing else of the
  object changes.\<close>

theorem feature_abort_reply:
  assumes "cec_buf m"
  shows "cec_msg_initiator (cec_msg_reply_feature_abort m reason) = cec_msg_destination m \<and>
    cec_msg_destination (cec_msg_reply_feature_abort m reason) = cec_msg_initiator m \<and>
    cec_frame (cec_msg_reply_feature_abort m reason) =
      [pack8 4 (cec_msg_destination m) (cec_msg_initiator m), CEC_MSG_FEATURE_ABORT, msg m ! 1, reason] \<and>
    cec_ops_feature_abort (cec_msg_reply_feature_abort m reason) = (msg m ! 1, reason) \<and>
    cec_msg_reply_feature_abort m reason =
      m\<lparr>len := 4, reply := 0, timeout := 0, flags := 0,
        msg := msg (cec_msg_reply_feature_abort m reason)\<rparr>"
proof -
  let ?a = "cec_msg_set_reply_to m m"
  have b: "cec_buf ?a" using assms by (simp add: cec_msg_set_reply_to_def cec_buf_def)
  have e: "cec_msg_reply_feature_abort m reason = cec_msg_feature_abort ?a (msg m ! 1) reason"
    by (rule reply_feature_abort_as_abort [OF assms])
  have "take 4 (msg (cec_msg_feature_abort ?a (msg m ! 1) reason)) =
      [pack8 4 (cec_msg_destination m) (cec_msg_initiator m), CEC_MSG_FEATURE_ABORT, msg m ! 1, reason]"
    using assms
    by (intro nth_equalityI)
      (auto simp: cec_msg_feature_abort_def cec_msg_set_reply_to_def cec_buf_def less_Suc_eq
        nth_list_update numeral_eq_Suc)
  then have "cec_frame (cec_msg_feature_abort ?a (msg m ! 1) reason) =
      [pack8 4 (cec_msg_destination m) (cec_msg_initiator m), CEC_MSG_FEATURE_ABORT, msg m ! 1, reason]"
    by (simp add: cec_frame_def cec_msg_feature_abort_def)
  then show ?thesis
    unfolding e
    using feature_abort.sent.initiator_of_build [where a = "(msg m ! 1, reason)", OF b]
      feature_abort.sent.destination_of_build [where a = "(msg m ! 1, reason)", OF b]
      feature_abort.parse_send [where a = "(msg m ! 1, reason)", OF _ b] set_reply_to_addr [OF assms]
    by (simp add: cec_msg_feature_abort_def cec_msg_set_reply_to_def)
qed

lemma feature_abort_reply_witness:
  "cec_msg_initiator (cec_msg_reply_feature_abort (cec_msg_abort (cec_msg_init cec_zero 4 1)) 4) =
     cec_msg_destination (cec_msg_abort (cec_msg_init cec_zero 4 1))"
  by (rule conjunct1 [OF feature_abort_reply]) (simp add: cec_msg_abort_def cec_msg_init_def cec_buf_def cec_zero_def)

end
