(* ===== verification/Cec_Audio.thy ===== *)
theory Cec_Audio
  imports Cec_Buffers Cec_Opcodes
begin

text \<open>
  System Audio Control, Audio Rate Control, Audio Return Channel and the dynamic
  latency messages.  The descriptor loops are folds over their index range.
\<close>

section \<open>System Audio Control\<close>

definition cec_msg_report_audio_status ::
  "cec_msg \<Rightarrow> u8 \<Rightarrow> u8 \<Rightarrow> cec_msg" where
  "cec_msg_report_audio_status m aud_mute_status aud_vol_status =
     m\<lparr>len := 3,
       msg := (msg m)[1 := CEC_MSG_REPORT_AUDIO_STATUS,
         2 := pack8 7 aud_mute_status (aud_vol_status AND 0x7f)]\<rparr>"

definition cec_ops_report_audio_status :: "cec_msg \<Rightarrow> u8 \<times> u8" where
  "cec_ops_report_audio_status m =
     (drop_bit 7 (msg m ! 2), (msg m ! 2) AND 0x7f)"

definition cec_msg_give_audio_status :: "cec_msg \<Rightarrow> c_int \<Rightarrow> cec_msg" where
  "cec_msg_give_audio_status m rep =
     m\<lparr>len := 2,
       msg := (msg m)[1 := CEC_MSG_GIVE_AUDIO_STATUS],
       reply := if rep \<noteq> 0 then CEC_MSG_REPORT_AUDIO_STATUS else 0\<rparr>"

definition cec_msg_set_system_audio_mode ::
  "cec_msg \<Rightarrow> u8 \<Rightarrow> cec_msg" where
  "cec_msg_set_system_audio_mode m sys_aud_status =
     m\<lparr>len := 3,
       msg := (msg m)[1 := CEC_MSG_SET_SYSTEM_AUDIO_MODE, 2 := sys_aud_status]\<rparr>"

definition cec_ops_set_system_audio_mode :: "cec_msg \<Rightarrow> u8" where
  "cec_ops_set_system_audio_mode m = msg m ! 2"

definition cec_msg_system_audio_mode_request :: "cec_msg \<Rightarrow> c_int \<Rightarrow> u16 \<Rightarrow> cec_msg" where
  "cec_msg_system_audio_mode_request m rep phys_addr =
     m\<lparr>len := if phys_addr = 0xffff then 2 else 4,
       msg := (msg m)[1 := CEC_MSG_SYSTEM_AUDIO_MODE_REQUEST, 2 := hi8 phys_addr,
         3 := lo8 phys_addr],
       reply := if rep \<noteq> 0 then CEC_MSG_SET_SYSTEM_AUDIO_MODE else 0\<rparr>"

definition cec_ops_system_audio_mode_request :: "cec_msg \<Rightarrow> u16" where
  "cec_ops_system_audio_mode_request m =
     (if len m < 4 then 0xffff else be16 (msg m ! 2) (msg m ! 3))"


definition cec_msg_system_audio_mode_status ::
  "cec_msg \<Rightarrow> u8 \<Rightarrow> cec_msg" where
  "cec_msg_system_audio_mode_status m sys_aud_status =
     m\<lparr>len := 3,
       msg := (msg m)[1 := CEC_MSG_SYSTEM_AUDIO_MODE_STATUS, 2 := sys_aud_status]\<rparr>"

definition cec_ops_system_audio_mode_status :: "cec_msg \<Rightarrow> u8" where
  "cec_ops_system_audio_mode_status m = msg m ! 2"

definition cec_msg_give_system_audio_mode_status ::
  "cec_msg \<Rightarrow> c_int \<Rightarrow> cec_msg" where
  "cec_msg_give_system_audio_mode_status m rep =
     m\<lparr>len := 2,
       msg := (msg m)[1 := CEC_MSG_GIVE_SYSTEM_AUDIO_MODE_STATUS],
       reply := if rep \<noteq> 0 then CEC_MSG_SYSTEM_AUDIO_MODE_STATUS else 0\<rparr>"

subsection \<open>Audio descriptors\<close>

definition cec_msg_report_short_audio_descriptor ::
  "cec_msg \<Rightarrow> u8 \<Rightarrow> u32 list \<Rightarrow> cec_msg" where
  "cec_msg_report_short_audio_descriptor m num_descriptors descriptors =
     (let n = (if num_descriptors > 4 then 4 else num_descriptors);
          m = m\<lparr>len := 2 + ucast n * 3,
                msg := (msg m)[1 := CEC_MSG_REPORT_SHORT_AUDIO_DESCRIPTOR]\<rparr>
      in m\<lparr>msg := fold
            (\<lambda>i buf. buf[2 + i * 3 := ucast (drop_bit 16 (descriptors ! i) AND 0xff),
                         3 + i * 3 := byte1 (descriptors ! i),
                         4 + i * 3 := byte0 (descriptors ! i)])
            [0..<unat n] (msg m)\<rparr>)"

definition cec_ops_report_short_audio_descriptor ::
  "cec_msg \<Rightarrow> u32 list \<Rightarrow> u8 \<times> u32 list" where
  "cec_ops_report_short_audio_descriptor m descriptors =
     (let n = ucast ((len m - 2) div 3); n = (if n > 4 then 4 else n)
      in (n, fold
            (\<lambda>i ds. ds[i := be24 (msg m ! (2 + i * 3)) (msg m ! (3 + i * 3)) (msg m ! (4 + i * 3))])
            [0..<unat n] descriptors))"

definition cec_msg_request_short_audio_descriptor ::
  "cec_msg \<Rightarrow> c_int \<Rightarrow> u8 \<Rightarrow> u8 list \<Rightarrow> u8 list \<Rightarrow> cec_msg" where
  "cec_msg_request_short_audio_descriptor m rep num_descriptors audio_format_id audio_format_code =
     (let n = (if num_descriptors > 4 then 4 else num_descriptors);
          m = m\<lparr>len := 2 + ucast n,
                msg := (msg m)[1 := CEC_MSG_REQUEST_SHORT_AUDIO_DESCRIPTOR],
                reply := if rep \<noteq> 0 then CEC_MSG_REPORT_SHORT_AUDIO_DESCRIPTOR else 0\<rparr>
      in m\<lparr>msg := fold
            (\<lambda>i buf. buf[2 + i := pack8 6 (audio_format_id ! i) (audio_format_code ! i AND 0x3f)])
            [0..<unat n] (msg m)\<rparr>)"

definition cec_ops_request_short_audio_descriptor ::
  "cec_msg \<Rightarrow> u8 list \<Rightarrow> u8 list \<Rightarrow> u8 \<times> u8 list \<times> u8 list" where
  "cec_ops_request_short_audio_descriptor m audio_format_id audio_format_code =
     (let n = ucast (len m - 2); n = (if n > 4 then 4 else n);
          (ids, codes) = fold
            (\<lambda>i (ids, codes). (ids[i := drop_bit 6 (msg m ! (2 + i))],
                               codes[i := msg m ! (2 + i) AND 0x3f]))
            [0..<unat n] (audio_format_id, audio_format_code)
      in (n, ids, codes))"


section \<open>Audio Rate Control and Audio Return Channel\<close>

definition cec_msg_set_audio_rate :: "cec_msg \<Rightarrow> u8 \<Rightarrow> cec_msg" where
  "cec_msg_set_audio_rate m audio_rate =
     m\<lparr>len := 3,
       msg := (msg m)[1 := CEC_MSG_SET_AUDIO_RATE, 2 := audio_rate]\<rparr>"

definition cec_ops_set_audio_rate :: "cec_msg \<Rightarrow> u8" where
  "cec_ops_set_audio_rate m = msg m ! 2"

definition cec_msg_report_arc_initiated :: "cec_msg \<Rightarrow> cec_msg" where
  "cec_msg_report_arc_initiated m =
     m\<lparr>len := 2,
       msg := (msg m)[1 := CEC_MSG_REPORT_ARC_INITIATED]\<rparr>"

definition cec_msg_initiate_arc :: "cec_msg \<Rightarrow> c_int \<Rightarrow> cec_msg" where
  "cec_msg_initiate_arc m rep =
     m\<lparr>len := 2,
       msg := (msg m)[1 := CEC_MSG_INITIATE_ARC],
       reply := if rep \<noteq> 0 then CEC_MSG_REPORT_ARC_INITIATED else 0\<rparr>"

definition cec_msg_request_arc_initiation ::
  "cec_msg \<Rightarrow> c_int \<Rightarrow> cec_msg" where
  "cec_msg_request_arc_initiation m rep =
     m\<lparr>len := 2,
       msg := (msg m)[1 := CEC_MSG_REQUEST_ARC_INITIATION],
       reply := if rep \<noteq> 0 then CEC_MSG_INITIATE_ARC else 0\<rparr>"

definition cec_msg_report_arc_terminated :: "cec_msg \<Rightarrow> cec_msg" where
  "cec_msg_report_arc_terminated m =
     m\<lparr>len := 2,
       msg := (msg m)[1 := CEC_MSG_REPORT_ARC_TERMINATED]\<rparr>"

definition cec_msg_terminate_arc :: "cec_msg \<Rightarrow> c_int \<Rightarrow> cec_msg" where
  "cec_msg_terminate_arc m rep =
     m\<lparr>len := 2,
       msg := (msg m)[1 := CEC_MSG_TERMINATE_ARC],
       reply := if rep \<noteq> 0 then CEC_MSG_REPORT_ARC_TERMINATED else 0\<rparr>"

definition cec_msg_request_arc_termination ::
  "cec_msg \<Rightarrow> c_int \<Rightarrow> cec_msg" where
  "cec_msg_request_arc_termination m rep =
     m\<lparr>len := 2,
       msg := (msg m)[1 := CEC_MSG_REQUEST_ARC_TERMINATION],
       reply := if rep \<noteq> 0 then CEC_MSG_TERMINATE_ARC else 0\<rparr>"

section \<open>Dynamic Audio Lipsync\<close>

text \<open>\<^verbatim>\<open>msg->msg[msg->len++] = audio_out_delay\<close> stores at the length it then increments.\<close>

definition cec_msg_report_current_latency ::
  "cec_msg \<Rightarrow> u16 \<Rightarrow> u8 \<Rightarrow> u8 \<Rightarrow> u8 \<Rightarrow> u8 \<Rightarrow> cec_msg" where
  "cec_msg_report_current_latency m phys_addr video_latency low_latency_mode
     audio_out_compensated audio_out_delay =
     (let m = m\<lparr>len := 6,
                msg := (msg m)[0 := msg m ! 0 OR 0xf, 1 := CEC_MSG_REPORT_CURRENT_LATENCY,
                  2 := hi8 phys_addr, 3 := lo8 phys_addr, 4 := video_latency,
                  5 := pack8 2 low_latency_mode audio_out_compensated]\<rparr>
      in if audio_out_compensated = 3
         then m\<lparr>msg := (msg m)[unat (len m) := audio_out_delay], len := len m + 1\<rparr>
         else m)"

definition cec_ops_report_current_latency :: "cec_msg \<Rightarrow> u16 \<times> u8 \<times> u8 \<times> u8 \<times> u8" where
  "cec_ops_report_current_latency m =
     (let phys_addr = be16 (msg m ! 2) (msg m ! 3);
          video_latency = msg m ! 4;
          low_latency_mode = drop_bit 2 (msg m ! 5) AND 1;
          audio_out_compensated = msg m ! 5 AND 3;
          audio_out_delay = (if audio_out_compensated = 3 \<and> len m \<ge> 7 then msg m ! 6 else 1)
      in (phys_addr, video_latency, low_latency_mode, audio_out_compensated, audio_out_delay))"


definition cec_msg_request_current_latency ::
  "cec_msg \<Rightarrow> c_int \<Rightarrow> u16 \<Rightarrow> cec_msg" where
  "cec_msg_request_current_latency m rep phys_addr =
     m\<lparr>len := 4,
       msg := (msg m)[0 := msg m ! 0 OR 0xf, 1 := CEC_MSG_REQUEST_CURRENT_LATENCY,
         2 := hi8 phys_addr, 3 := lo8 phys_addr],
       reply := if rep \<noteq> 0 then CEC_MSG_REPORT_CURRENT_LATENCY else 0\<rparr>"

definition cec_ops_request_current_latency :: "cec_msg \<Rightarrow> u16" where
  "cec_ops_request_current_latency m = be16 (msg m ! 2) (msg m ! 3)"

lemmas audio_defs [wire_simps] =
  cec_msg_report_audio_status_def cec_ops_report_audio_status_def cec_msg_give_audio_status_def
  cec_msg_set_system_audio_mode_def cec_ops_set_system_audio_mode_def
  cec_msg_system_audio_mode_request_def cec_ops_system_audio_mode_request_def
  cec_msg_system_audio_mode_status_def cec_ops_system_audio_mode_status_def
  cec_msg_give_system_audio_mode_status_def cec_msg_set_audio_rate_def
  cec_ops_set_audio_rate_def cec_msg_report_arc_initiated_def cec_msg_initiate_arc_def
  cec_msg_request_arc_initiation_def cec_msg_report_arc_terminated_def cec_msg_terminate_arc_def
  cec_msg_request_arc_termination_def cec_msg_report_current_latency_def
  cec_ops_report_current_latency_def cec_msg_request_current_latency_def
  cec_ops_request_current_latency_def

section \<open>Contracts\<close>

interpretation report_audio_status: cec_tight_codec
  "\<lambda>(aud_mute_status, aud_vol_status) m. cec_msg_report_audio_status m aud_mute_status
    aud_vol_status"
  CEC_MSG_REPORT_AUDIO_STATUS False cec_ops_report_audio_status "\<lambda>x. x" "\<lambda>(aud_mute_status, aud_vol_status). aud_mute_status < 2 \<and> aud_vol_status < 128"
  by unfold_locales (auto simp: wire_simps)

interpretation give_audio_status: cec_request
  "\<lambda>rep m. cec_msg_give_audio_status m rep"
  CEC_MSG_GIVE_AUDIO_STATUS False CEC_MSG_REPORT_AUDIO_STATUS
  by unfold_locales (auto simp: wire_simps)

interpretation set_system_audio_mode: cec_tight_codec
  "\<lambda>sys_aud_status m. cec_msg_set_system_audio_mode m sys_aud_status"
  CEC_MSG_SET_SYSTEM_AUDIO_MODE False cec_ops_set_system_audio_mode "\<lambda>x. x" "\<lambda>_. True"
  by unfold_locales (auto simp: wire_simps)

interpretation system_audio_mode_status: cec_tight_codec
  "\<lambda>sys_aud_status m. cec_msg_system_audio_mode_status m sys_aud_status"
  CEC_MSG_SYSTEM_AUDIO_MODE_STATUS False cec_ops_system_audio_mode_status "\<lambda>x. x" "\<lambda>_. True"
  by unfold_locales (auto simp: wire_simps)

interpretation give_system_audio_mode_status: cec_request
  "\<lambda>rep m. cec_msg_give_system_audio_mode_status m rep"
  CEC_MSG_GIVE_SYSTEM_AUDIO_MODE_STATUS False CEC_MSG_SYSTEM_AUDIO_MODE_STATUS
  by unfold_locales (auto simp: wire_simps)

interpretation set_audio_rate: cec_tight_codec
  "\<lambda>audio_rate m. cec_msg_set_audio_rate m audio_rate"
  CEC_MSG_SET_AUDIO_RATE False cec_ops_set_audio_rate "\<lambda>x. x" "\<lambda>_. True"
  by unfold_locales (auto simp: wire_simps)

interpretation report_arc_initiated: cec_tight_builder
  "\<lambda>m. cec_msg_report_arc_initiated m" CEC_MSG_REPORT_ARC_INITIATED False
  by unfold_locales (auto simp: wire_simps)

interpretation initiate_arc: cec_request
  "\<lambda>rep m. cec_msg_initiate_arc m rep"
  CEC_MSG_INITIATE_ARC False CEC_MSG_REPORT_ARC_INITIATED
  by unfold_locales (auto simp: wire_simps)

interpretation request_arc_initiation: cec_request
  "\<lambda>rep m. cec_msg_request_arc_initiation m rep"
  CEC_MSG_REQUEST_ARC_INITIATION False CEC_MSG_INITIATE_ARC
  by unfold_locales (auto simp: wire_simps)

interpretation report_arc_terminated: cec_tight_builder
  "\<lambda>m. cec_msg_report_arc_terminated m" CEC_MSG_REPORT_ARC_TERMINATED False
  by unfold_locales (auto simp: wire_simps)

interpretation terminate_arc: cec_request
  "\<lambda>rep m. cec_msg_terminate_arc m rep"
  CEC_MSG_TERMINATE_ARC False CEC_MSG_REPORT_ARC_TERMINATED
  by unfold_locales (auto simp: wire_simps)

interpretation request_arc_termination: cec_request
  "\<lambda>rep m. cec_msg_request_arc_termination m rep"
  CEC_MSG_REQUEST_ARC_TERMINATION False CEC_MSG_TERMINATE_ARC
  by unfold_locales (auto simp: wire_simps)

interpretation request_current_latency: cec_tight_codec
  "\<lambda>phys_addr m. cec_msg_request_current_latency m rep phys_addr"
  CEC_MSG_REQUEST_CURRENT_LATENCY True cec_ops_request_current_latency "\<lambda>x. x" "\<lambda>_. True" for rep
  by unfold_locales (auto simp: wire_simps)

text \<open>
  The request without an address still stores two bytes behind the frame, so it is a
  codec, not a tight one.
\<close>

interpretation system_audio_mode_request: cec_codec
  "\<lambda>phys_addr m. cec_msg_system_audio_mode_request m rep phys_addr"
  CEC_MSG_SYSTEM_AUDIO_MODE_REQUEST False cec_ops_system_audio_mode_request "\<lambda>x. x" "\<lambda>_. True"
  for rep
  by unfold_locales (auto simp: wire_simps split: if_splits)

text \<open>Without compensation by a delay the reader answers one, whatever was given.\<close>

interpretation report_current_latency: cec_tight_codec
  "\<lambda>(pa, video, low, comp, delay) m. cec_msg_report_current_latency m pa video low comp delay"
  CEC_MSG_REPORT_CURRENT_LATENCY True cec_ops_report_current_latency
  "\<lambda>(pa, video, low, comp, delay). (pa, video, low, comp, if comp = 3 then delay else 1)"
  "\<lambda>(pa, video, low, comp, delay). low < 2 \<and> comp < 4"
  by unfold_locales
    (auto simp: wire_simps Let_def order_less_trans [of _ 2 64] split: if_splits)

subsection \<open>Descriptor lists\<close>

text \<open>The clamped count takes five values; each loop is unrolled at each of them.\<close>

lemma clamp4_cases:
  fixes n :: u8
  obtains "(if n > 4 then 4 else n) = 0" | "(if n > 4 then 4 else n) = 1"
    | "(if n > 4 then 4 else n) = 2" | "(if n > 4 then 4 else n) = 3" | "(if n > 4 then 4 else n) = 4"
proof -
  have "n > 4 \<or> n = 0 \<or> n = 1 \<or> n = 2 \<or> n = 3 \<or> n = 4" by unat_arith
  then show thesis using that by auto
qed

lemma clamp4_many:
  "4 \<le> k \<Longrightarrow> k < 256 \<Longrightarrow>
   (if (word_of_nat k :: u8) > 4 then 4 else word_of_nat k) = (4 :: u8)"
  by (auto simp: word_less_nat_alt word_unat_eq_iff unsigned_of_nat take_bit_nat_eq_self)

lemma clamp4_sent:
  assumes "(if n > 4 then 4 else n) = (4 :: u8)"
  shows "cec_msg_report_short_audio_descriptor m n ds = cec_msg_report_short_audio_descriptor m 4 ds"
    and "cec_msg_request_short_audio_descriptor m rep n ids codes =
      cec_msg_request_short_audio_descriptor m rep 4 ids codes"
  by (simp_all only: cec_msg_report_short_audio_descriptor_def
      cec_msg_request_short_audio_descriptor_def assms) simp_all

lemma list4_cases:
  obtains "xs = []" | a where "xs = [a]" | a b where "xs = [a, b]" | a b c where "xs = [a, b, c]"
    | a b c d ys where "xs = a # b # c # d # ys"
  by (metis neq_Nil_conv)

lemma byte2_and [simp]: "ucast (drop_bit 16 x AND 0xff) = byte2 x"
  unfolding byte2_def mask_numerals by (rule bit_word_eqI) (auto simp: bit_simps)

lemma report_short_builder:
  "cec_tight_builder (\<lambda>m. cec_msg_report_short_audio_descriptor m n ds)
     CEC_MSG_REPORT_SHORT_AUDIO_DESCRIPTOR False"
  by (rule clamp4_cases [of n]; unfold_locales)
    (simp_all add: cec_msg_report_short_audio_descriptor_def wire_simps Let_def upt_rec)

lemma request_short_builder:
  "cec_tight_builder (\<lambda>m. cec_msg_request_short_audio_descriptor m rep n ids codes)
     CEC_MSG_REQUEST_SHORT_AUDIO_DESCRIPTOR False"
  by (rule clamp4_cases [of n]; unfold_locales)
    (simp_all add: cec_msg_request_short_audio_descriptor_def wire_simps Let_def upt_rec)

interpretation report_short_audio_descriptor: cec_tight_codec
  "\<lambda>ds m. cec_msg_report_short_audio_descriptor m (word_of_nat (length ds)) (ds @ rest)"
  CEC_MSG_REPORT_SHORT_AUDIO_DESCRIPTOR False
  "\<lambda>m. (\<lambda>(n, out). take (unat n) out) (cec_ops_report_short_audio_descriptor m (vec 4 b))"
  "take 4" "\<lambda>ds. length ds < 256 \<and> (\<forall>d \<in> set ds. d < 2 ^ 24)" for rest b
proof (rule cec_tight_codecI)
  show "cec_tight_builder
      (\<lambda>m. cec_msg_report_short_audio_descriptor m (word_of_nat (length ds)) (ds @ rest))
      CEC_MSG_REPORT_SHORT_AUDIO_DESCRIPTOR False" for ds
    by (rule report_short_builder)
next
  fix ds m r
  let ?sent = "cec_msg_report_short_audio_descriptor m (word_of_nat (length ds)) (ds @ rest)"
  assume h: "length ds < 256 \<and> (\<forall>d \<in> set ds. d < 2 ^ 24)" "cec_buf m" "cec_buf r"
    "len r = len ?sent" "\<forall>i < unat (len ?sent). msg r ! i = msg ?sent ! i"
  show "(\<lambda>(n, out). take (unat n) out) (cec_ops_report_short_audio_descriptor r (vec 4 b)) = take 4 ds"
  proof (rule list4_cases [of ds])
    fix a b c d es assume ds: "ds = a # b # c # d # es"
    have "?sent = cec_msg_report_short_audio_descriptor m 4 (ds @ rest)"
      using h(1) by (intro clamp4_sent(1) clamp4_many) (simp_all add: ds)
    note h' = h [unfolded this]
    show ?thesis
      using h' by (auto simp: cec_msg_report_short_audio_descriptor_def
          cec_ops_report_short_audio_descriptor_def wire_simps upt_rec ds
          simp flip: numeral_2_eq_2)
  qed (use h in \<open>auto simp: cec_msg_report_short_audio_descriptor_def
        cec_ops_report_short_audio_descriptor_def wire_simps upt_rec
        simp flip: numeral_2_eq_2\<close>)
qed

interpretation request_short_audio_descriptor: cec_tight_codec
  "\<lambda>fs m. cec_msg_request_short_audio_descriptor m rep (word_of_nat (length fs))
     (map fst fs @ rest1) (map snd fs @ rest2)"
  CEC_MSG_REQUEST_SHORT_AUDIO_DESCRIPTOR False
  "\<lambda>m. (\<lambda>(n, ids, codes). take (unat n) (zip ids codes))
     (cec_ops_request_short_audio_descriptor m (vec 4 b1) (vec 4 b2))"
  "take 4" "\<lambda>fs. length fs < 256 \<and> (\<forall>(i, c) \<in> set fs. i < 4 \<and> c < 64)" for rep rest1 rest2 b1 b2
proof (rule cec_tight_codecI)
  show "cec_tight_builder (\<lambda>m. cec_msg_request_short_audio_descriptor m rep
      (word_of_nat (length fs)) (map fst fs @ rest1) (map snd fs @ rest2))
      CEC_MSG_REQUEST_SHORT_AUDIO_DESCRIPTOR False" for fs
    by (rule request_short_builder)
next
  fix fs m r
  let ?sent = "cec_msg_request_short_audio_descriptor m rep (word_of_nat (length fs))
      (map fst fs @ rest1) (map snd fs @ rest2)"
  assume h: "length fs < 256 \<and> (\<forall>(i, c) \<in> set fs. i < 4 \<and> c < 64)" "cec_buf m" "cec_buf r"
    "len r = len ?sent" "\<forall>i < unat (len ?sent). msg r ! i = msg ?sent ! i"
  show "(\<lambda>(n, ids, codes). take (unat n) (zip ids codes))
      (cec_ops_request_short_audio_descriptor r (vec 4 b1) (vec 4 b2)) = take 4 fs"
  proof (rule list4_cases [of fs])
    fix a b c d es assume fs: "fs = a # b # c # d # es"
    have "?sent = cec_msg_request_short_audio_descriptor m rep 4
        (map fst fs @ rest1) (map snd fs @ rest2)"
      using h(1) by (intro clamp4_sent(2) clamp4_many) (simp_all add: fs)
    note h' = h [unfolded this]
    show ?thesis
      using h' by (auto simp: cec_msg_request_short_audio_descriptor_def
          cec_ops_request_short_audio_descriptor_def wire_simps upt_rec fs
          simp flip: numeral_2_eq_2)
  qed (use h in \<open>auto simp: cec_msg_request_short_audio_descriptor_def
        cec_ops_request_short_audio_descriptor_def wire_simps upt_rec
        simp flip: numeral_2_eq_2\<close>)
qed

lemmas report_short_sent =
  cec_builder.build_sent [OF cec_tight_builder.axioms(1) [OF report_short_builder]]

lemmas request_short_sent =
  cec_builder.build_sent [OF cec_tight_builder.axioms(1) [OF request_short_builder]]

section \<open>Steps\<close>

text \<open>One rule for every builder of the group, at all arguments.\<close>

inductive audio_step :: "u8 \<Rightarrow> bool \<Rightarrow> cec_msg \<Rightarrow> cec_msg \<Rightarrow> bool" where
  report_audio_status: "audio_step CEC_MSG_REPORT_AUDIO_STATUS False m
     (cec_msg_report_audio_status m aud_mute_status aud_vol_status)"
| give_audio_status: "audio_step CEC_MSG_GIVE_AUDIO_STATUS False m (cec_msg_give_audio_status m
     rep)"
| set_system_audio_mode: "audio_step CEC_MSG_SET_SYSTEM_AUDIO_MODE False m
     (cec_msg_set_system_audio_mode m sys_aud_status)"
| system_audio_mode_status: "audio_step CEC_MSG_SYSTEM_AUDIO_MODE_STATUS False m
     (cec_msg_system_audio_mode_status m sys_aud_status)"
| give_system_audio_mode_status: "audio_step CEC_MSG_GIVE_SYSTEM_AUDIO_MODE_STATUS False m
     (cec_msg_give_system_audio_mode_status m rep)"
| set_audio_rate: "audio_step CEC_MSG_SET_AUDIO_RATE False m (cec_msg_set_audio_rate m
     audio_rate)"
| report_arc_initiated: "audio_step CEC_MSG_REPORT_ARC_INITIATED False m
     (cec_msg_report_arc_initiated m)"
| initiate_arc: "audio_step CEC_MSG_INITIATE_ARC False m (cec_msg_initiate_arc m rep)"
| request_arc_initiation: "audio_step CEC_MSG_REQUEST_ARC_INITIATION False m
     (cec_msg_request_arc_initiation m rep)"
| report_arc_terminated: "audio_step CEC_MSG_REPORT_ARC_TERMINATED False m
     (cec_msg_report_arc_terminated m)"
| terminate_arc: "audio_step CEC_MSG_TERMINATE_ARC False m (cec_msg_terminate_arc m rep)"
| request_arc_termination: "audio_step CEC_MSG_REQUEST_ARC_TERMINATION False m
     (cec_msg_request_arc_termination m rep)"
| request_current_latency: "audio_step CEC_MSG_REQUEST_CURRENT_LATENCY True m
     (cec_msg_request_current_latency m rep phys_addr)"
| system_audio_mode_request: "audio_step CEC_MSG_SYSTEM_AUDIO_MODE_REQUEST False m
     (cec_msg_system_audio_mode_request m rep pa)"
| report_short_audio_descriptor: "audio_step CEC_MSG_REPORT_SHORT_AUDIO_DESCRIPTOR False m
     (cec_msg_report_short_audio_descriptor m n ds)"
| request_short_audio_descriptor: "audio_step CEC_MSG_REQUEST_SHORT_AUDIO_DESCRIPTOR False m
     (cec_msg_request_short_audio_descriptor m rep n ids codes)"
| report_current_latency: "audio_step CEC_MSG_REPORT_CURRENT_LATENCY True m
     (cec_msg_report_current_latency m pa v low oc delay)"

lemmas audio_sent =
  report_audio_status.sent.build_sent [where a = "(aud_mute_status, aud_vol_status)" for
      aud_mute_status aud_vol_status, unfolded prod.case]
  give_audio_status.asked.build_sent
  set_system_audio_mode.sent.build_sent
  system_audio_mode_status.sent.build_sent
  give_system_audio_mode_status.asked.build_sent
  set_audio_rate.sent.build_sent
  report_arc_initiated.build_sent
  initiate_arc.asked.build_sent
  request_arc_initiation.asked.build_sent
  report_arc_terminated.build_sent
  terminate_arc.asked.build_sent
  request_arc_termination.asked.build_sent
  request_current_latency.sent.build_sent
  system_audio_mode_request.sent.build_sent
  report_short_sent
  request_short_sent
  report_current_latency.sent.build_sent [where a = "(a, b, c, d, e)" for a b c d e, unfolded
      prod.case]

lemma audio_step_sent: "audio_step opc bcast m m' \<Longrightarrow> cec_buf m \<Longrightarrow> cec_sent opc bcast m m'"
  by (induction rule: audio_step.induct) (auto intro: audio_sent)

lemma audio_step_opcode: "audio_step opc bcast m m' \<Longrightarrow> opc \<in> set cec_opcodes"
  by (induction rule: audio_step.induct) (simp_all add: cec_opcodes_def)

lemma audio_step_bcast: "audio_step opc bcast m m' \<Longrightarrow> bcast \<longleftrightarrow> opc \<in> set cec_broadcast_opcodes"
  by (induction rule: audio_step.induct) (simp_all add: cec_broadcast_opcodes_def)

section \<open>Properties\<close>

text \<open>Short audio descriptors below two to the 24, and format identifications below 4 with
  codes below 64, are delivered in order, at most four of either.\<close>

theorem audio_descriptors_delivered:
  assumes "length ds < 256" and "\<forall>d \<in> set ds. d < 2 ^ 24"
    and "length fs < 256" and "\<forall>(i, c) \<in> set fs. i < 4 \<and> c < 64"
    and "cec_buf m" and "cec_buf r"
    and "length buf = 4" and "length ids = 4" and "length codes = 4"
  shows "(\<lambda>(n, out). take (unat n) out) (cec_ops_report_short_audio_descriptor
      (cec_receive (cec_frame (cec_msg_report_short_audio_descriptor m
        (word_of_nat (length ds)) ds)) r) buf) = take 4 ds \<and>
    (\<lambda>(n, out1, out2). take (unat n) (zip out1 out2)) (cec_ops_request_short_audio_descriptor
      (cec_receive (cec_frame (cec_msg_request_short_audio_descriptor m rep
        (word_of_nat (length fs)) (map fst fs) (map snd fs))) r) ids codes) = take 4 fs"
proof -
  have v: "vec 4 (nth buf) = buf" "vec 4 (nth ids) = ids" "vec 4 (nth codes) = codes"
    by (rule vec_nth [OF assms(7)], rule vec_nth [OF assms(8)], rule vec_nth [OF assms(9)])
  note d = report_short_audio_descriptor.parse_receive [where a = ds and m = m and r = r
      and b = "nth buf" and rest = "[]"]
  note f = request_short_audio_descriptor.parse_receive [where a = fs and m = m and r = r
      and ?b1.0 = "nth ids" and ?b2.0 = "nth codes" and rep = rep and ?rest1.0 = "[]" and ?rest2.0 = "[]"]
  show ?thesis using d f assms(1-6) by (simp only: v append_Nil2)
qed

lemma audio_descriptors_delivered_witness:
  "(\<lambda>(n, out). take (unat n) out) (cec_ops_report_short_audio_descriptor
      (cec_receive (cec_frame (cec_msg_report_short_audio_descriptor cec_zero
        (word_of_nat (length [0x097f07, 0x151f5e :: u32])) [0x097f07, 0x151f5e])) cec_zero)
        [0, 0, 0, 0]) = take 4 [0x097f07, 0x151f5e] \<and>
    (\<lambda>(n, out1, out2). take (unat n) (zip out1 out2)) (cec_ops_request_short_audio_descriptor
      (cec_receive (cec_frame (cec_msg_request_short_audio_descriptor cec_zero 1
        (word_of_nat (length [(0 :: u8, 2 :: u8), (1, 4)])) (map fst [(0 :: u8, 2 :: u8), (1, 4)])
        (map snd [(0 :: u8, 2 :: u8), (1, 4)]))) cec_zero)
        [0, 0, 0, 0] [0, 0, 0, 0]) = take 4 [(0, 2), (1, 4)]"
  by (rule audio_descriptors_delivered) simp_all

text \<open>The physical address of a system audio mode request travels by the length of the frame:
  the invalid address is sent as no operand at all and read back as the invalid address, and
  every other address is carried in two bytes.\<close>

theorem system_audio_mode_request_delivered:
  assumes "cec_buf m" and "cec_buf r"
  shows "cec_ops_system_audio_mode_request (cec_receive (cec_frame
      (cec_msg_system_audio_mode_request m rep pa)) r) = pa \<and>
    length (cec_frame (cec_msg_system_audio_mode_request m rep pa)) =
      (if pa = CEC_PHYS_ADDR_INVALID then 2 else 4)"
  using system_audio_mode_request.parse_receive [where a = pa and m = m and r = r and rep = rep] assms
    length_cec_frame [OF system_audio_mode_request.send_wf [where a = pa and m = m and rep = rep]]
  by (simp add: cec_msg_system_audio_mode_request_def)

lemma system_audio_mode_request_delivered_witness:
  "cec_ops_system_audio_mode_request (cec_receive (cec_frame
      (cec_msg_system_audio_mode_request cec_zero 1 0xffff)) cec_zero) = 0xffff \<and>
    length (cec_frame (cec_msg_system_audio_mode_request cec_zero 1 0xffff)) =
      (if (0xffff :: u16) = CEC_PHYS_ADDR_INVALID then 2 else 4)"
  by (rule system_audio_mode_request_delivered) simp_all

text \<open>A latency report is delivered with its delay when the compensation is partial; any other
  compensation drops the delay and the reader answers one.\<close>

theorem current_latency_delivered:
  assumes "low < 2" and "oc < 4" and "cec_buf m" and "cec_buf r"
  shows "cec_ops_report_current_latency (cec_receive (cec_frame
      (cec_msg_report_current_latency m pa video low oc delay)) r) =
    (pa, video, low, oc, if oc = 3 then delay else 1)"
  using assms report_current_latency.parse_receive [of "(pa, video, low, oc, delay)" m r] by simp

lemma current_latency_delivered_witness:
  "cec_ops_report_current_latency (cec_receive (cec_frame
      (cec_msg_report_current_latency cec_zero 0x1000 20 1 3 40)) cec_zero) =
    (0x1000, 20, 1, 3, if (3 :: u8) = 3 then 40 else 1)"
  by (rule current_latency_delivered) simp_all

end
