(* ===== verification/Cec_Cdc.thy ===== *)
theory Cec_Cdc
  imports Cec_Core Cec_Opcodes
begin

text \<open>
  Capability Discovery and Control: broadcast messages under one opcode, told apart by a
  second opcode in byte 4.  Bytes 2 and 3 hold the sender's physical address, which the
  builders leave to the CEC framework; every reader returns it first.
\<close>

section \<open>HDMI Ethernet Channel\<close>

definition cec_msg_cdc_hec_inquire_state ::
  "cec_msg \<Rightarrow> u16 \<Rightarrow> u16 \<Rightarrow> cec_msg" where
  "cec_msg_cdc_hec_inquire_state m phys_addr1 phys_addr2 =
     m\<lparr>len := 9,
       msg := (msg m)[0 := msg m ! 0 OR 0xf, 1 := CEC_MSG_CDC_MESSAGE,
         4 := CEC_MSG_CDC_HEC_INQUIRE_STATE, 5 := hi8 phys_addr1, 6 := lo8 phys_addr1,
         7 := hi8 phys_addr2, 8 := lo8 phys_addr2]\<rparr>"

definition cec_ops_cdc_hec_inquire_state ::
  "cec_msg \<Rightarrow> u16 \<times> u16 \<times> u16" where
  "cec_ops_cdc_hec_inquire_state m =
     (be16 (msg m ! 2) (msg m ! 3), be16 (msg m ! 5) (msg m ! 6), be16 (msg m ! 7) (msg m ! 8))"

text \<open>\<^verbatim>\<open>(hec_func_state << 6) | (host_func_state << 4) | (enc_func_state << 2) | cdc_errcode\<close>\<close>

definition state_byte :: "u8 \<Rightarrow> u8 \<Rightarrow> u8 \<Rightarrow> u8 \<Rightarrow> u8" where
  "state_byte hec host enc err =
     push_bit 6 hec OR push_bit 4 host OR push_bit 2 enc OR err"

definition cec_msg_cdc_hec_report_state ::
  "cec_msg \<Rightarrow> u16 \<Rightarrow> u8 \<Rightarrow> u8 \<Rightarrow> u8 \<Rightarrow> u8 \<Rightarrow> u8 \<Rightarrow> u16 \<Rightarrow> cec_msg" where
  "cec_msg_cdc_hec_report_state m target_phys_addr hec_func_state host_func_state
     enc_func_state cdc_errcode has_field hec_field =
     (let m = m\<lparr>len := if has_field \<noteq> 0 then 10 else 8,
                msg := (msg m)[0 := msg m ! 0 OR 0xf, 1 := CEC_MSG_CDC_MESSAGE,
                  4 := CEC_MSG_CDC_HEC_REPORT_STATE,
                  5 := hi8 target_phys_addr, 6 := lo8 target_phys_addr,
                  7 := state_byte hec_func_state host_func_state enc_func_state cdc_errcode]\<rparr>
      in if has_field \<noteq> 0 then m\<lparr>msg := (msg m)[8 := hi8 hec_field, 9 := lo8 hec_field]\<rparr> else m)"

definition cec_ops_cdc_hec_report_state ::
  "cec_msg \<Rightarrow> u16 \<times> u16 \<times> u8 \<times> u8 \<times> u8 \<times> u8 \<times> u8 \<times> u16" where
  "cec_ops_cdc_hec_report_state m =
     (let phys_addr = be16 (msg m ! 2) (msg m ! 3);
          target_phys_addr = be16 (msg m ! 5) (msg m ! 6);
          hec_func_state = drop_bit 6 (msg m ! 7);
          host_func_state = drop_bit 4 (msg m ! 7) AND 3;
          enc_func_state = drop_bit 4 (msg m ! 7) AND 3;
          cdc_errcode = msg m ! 7 AND 3;
          has_field = (if len m \<ge> 10 then 1 else 0);
          hec_field = (if has_field \<noteq> (0 :: u8) then be16 (msg m ! 8) (msg m ! 9) else 0)
      in (phys_addr, target_phys_addr, hec_func_state, host_func_state, enc_func_state,
          cdc_errcode, has_field, hec_field))"

text \<open>\<^verbatim>\<open>msg->msg[msg->len++] = b\<close>\<close>

definition append_byte :: "u8 \<Rightarrow> cec_msg \<Rightarrow> cec_msg" where
  "append_byte b m = m\<lparr>msg := (msg m)[unat (len m) := b], len := len m + 1\<rparr>"

definition cec_msg_cdc_hec_set_state ::
  "cec_msg \<Rightarrow> u16 \<Rightarrow> u16 \<Rightarrow> u8 \<Rightarrow> u16 \<Rightarrow> u16 \<Rightarrow> u16 \<Rightarrow> cec_msg" where
  "cec_msg_cdc_hec_set_state m phys_addr1 phys_addr2 hec_set_state phys_addr3 phys_addr4
     phys_addr5 =
     (let m = m\<lparr>len := 10,
                msg := (msg m)[0 := msg m ! 0 OR 0xf, 1 := CEC_MSG_CDC_MESSAGE,
                  4 := CEC_MSG_CDC_HEC_INQUIRE_STATE,
                  5 := hi8 phys_addr1, 6 := lo8 phys_addr1,
                  7 := hi8 phys_addr2, 8 := lo8 phys_addr2, 9 := hec_set_state]\<rparr> in
      if phys_addr3 \<noteq> CEC_PHYS_ADDR_INVALID then
        let m = append_byte (lo8 phys_addr3) (append_byte (hi8 phys_addr3) m) in
        if phys_addr4 \<noteq> CEC_PHYS_ADDR_INVALID then
          let m = append_byte (lo8 phys_addr4) (append_byte (hi8 phys_addr4) m) in
          if phys_addr5 \<noteq> CEC_PHYS_ADDR_INVALID then
            append_byte (lo8 phys_addr5) (append_byte (hi8 phys_addr5) m)
          else m
        else m
      else m)"

definition cec_ops_cdc_hec_set_state ::
  "cec_msg \<Rightarrow> u16 \<times> u16 \<times> u16 \<times> u8 \<times> u16 \<times> u16 \<times> u16" where
  "cec_ops_cdc_hec_set_state m =
     (be16 (msg m ! 2) (msg m ! 3), be16 (msg m ! 5) (msg m ! 6), be16 (msg m ! 7) (msg m ! 8),
      msg m ! 9,
      if len m \<ge> 12 then be16 (msg m ! 10) (msg m ! 11) else CEC_PHYS_ADDR_INVALID,
      if len m \<ge> 14 then be16 (msg m ! 12) (msg m ! 13) else CEC_PHYS_ADDR_INVALID,
      if len m \<ge> 16 then be16 (msg m ! 14) (msg m ! 15) else CEC_PHYS_ADDR_INVALID)"


definition cec_msg_cdc_hec_set_state_adjacent ::
  "cec_msg \<Rightarrow> u16 \<Rightarrow> u8 \<Rightarrow> cec_msg" where
  "cec_msg_cdc_hec_set_state_adjacent m phys_addr1 hec_set_state =
     m\<lparr>len := 8,
       msg := (msg m)[0 := msg m ! 0 OR 0xf, 1 := CEC_MSG_CDC_MESSAGE,
         4 := CEC_MSG_CDC_HEC_SET_STATE_ADJACENT, 5 := hi8 phys_addr1, 6 := lo8 phys_addr1,
         7 := hec_set_state]\<rparr>"

definition cec_ops_cdc_hec_set_state_adjacent ::
  "cec_msg \<Rightarrow> u16 \<times> u16 \<times> u8" where
  "cec_ops_cdc_hec_set_state_adjacent m =
     (be16 (msg m ! 2) (msg m ! 3), be16 (msg m ! 5) (msg m ! 6), msg m ! 7)"

definition cec_msg_cdc_hec_request_deactivation ::
  "cec_msg \<Rightarrow> u16 \<Rightarrow> u16 \<Rightarrow> u16 \<Rightarrow> cec_msg" where
  "cec_msg_cdc_hec_request_deactivation m phys_addr1 phys_addr2 phys_addr3 =
     m\<lparr>len := 11,
       msg := (msg m)[0 := msg m ! 0 OR 0xf, 1 := CEC_MSG_CDC_MESSAGE,
         4 := CEC_MSG_CDC_HEC_REQUEST_DEACTIVATION, 5 := hi8 phys_addr1, 6 := lo8 phys_addr1,
         7 := hi8 phys_addr2, 8 := lo8 phys_addr2, 9 := hi8 phys_addr3, 10 := lo8 phys_addr3]\<rparr>"

definition cec_ops_cdc_hec_request_deactivation ::
  "cec_msg \<Rightarrow> u16 \<times> u16 \<times> u16 \<times> u16" where
  "cec_ops_cdc_hec_request_deactivation m =
     (be16 (msg m ! 2) (msg m ! 3), be16 (msg m ! 5) (msg m ! 6), be16 (msg m ! 7) (msg m ! 8),
      be16 (msg m ! 9) (msg m ! 10))"

definition cec_msg_cdc_hec_notify_alive :: "cec_msg \<Rightarrow> cec_msg" where
  "cec_msg_cdc_hec_notify_alive m =
     m\<lparr>len := 5,
       msg := (msg m)[0 := msg m ! 0 OR 0xf, 1 := CEC_MSG_CDC_MESSAGE,
         4 := CEC_MSG_CDC_HEC_NOTIFY_ALIVE]\<rparr>"

definition cec_ops_cdc_hec_notify_alive :: "cec_msg \<Rightarrow> u16" where
  "cec_ops_cdc_hec_notify_alive m = be16 (msg m ! 2) (msg m ! 3)"

definition cec_msg_cdc_hec_discover :: "cec_msg \<Rightarrow> cec_msg" where
  "cec_msg_cdc_hec_discover m =
     m\<lparr>len := 5,
       msg := (msg m)[0 := msg m ! 0 OR 0xf, 1 := CEC_MSG_CDC_MESSAGE,
         4 := CEC_MSG_CDC_HEC_DISCOVER]\<rparr>"

definition cec_ops_cdc_hec_discover :: "cec_msg \<Rightarrow> u16" where
  "cec_ops_cdc_hec_discover m = be16 (msg m ! 2) (msg m ! 3)"

section \<open>Hot plug detection\<close>

definition cec_msg_cdc_hpd_set_state ::
  "cec_msg \<Rightarrow> u8 \<Rightarrow> u8 \<Rightarrow> cec_msg" where
  "cec_msg_cdc_hpd_set_state m input_port hpd_state =
     m\<lparr>len := 6,
       msg := (msg m)[0 := msg m ! 0 OR 0xf, 1 := CEC_MSG_CDC_MESSAGE,
         4 := CEC_MSG_CDC_HPD_SET_STATE, 5 := pack8 4 input_port hpd_state]\<rparr>"

definition cec_ops_cdc_hpd_set_state ::
  "cec_msg \<Rightarrow> u16 \<times> u8 \<times> u8" where
  "cec_ops_cdc_hpd_set_state m =
     (be16 (msg m ! 2) (msg m ! 3), drop_bit 4 (msg m ! 5), (msg m ! 5) AND 0xf)"

definition cec_msg_cdc_hpd_report_state ::
  "cec_msg \<Rightarrow> u8 \<Rightarrow> u8 \<Rightarrow> cec_msg" where
  "cec_msg_cdc_hpd_report_state m hpd_state hpd_error =
     m\<lparr>len := 6,
       msg := (msg m)[0 := msg m ! 0 OR 0xf, 1 := CEC_MSG_CDC_MESSAGE,
         4 := CEC_MSG_CDC_HPD_REPORT_STATE, 5 := pack8 4 hpd_state hpd_error]\<rparr>"

definition cec_ops_cdc_hpd_report_state ::
  "cec_msg \<Rightarrow> u16 \<times> u8 \<times> u8" where
  "cec_ops_cdc_hpd_report_state m =
     (be16 (msg m ! 2) (msg m ! 3), drop_bit 4 (msg m ! 5), (msg m ! 5) AND 0xf)"

lemmas cdc_defs [wire_simps] =
  cec_msg_cdc_hec_inquire_state_def cec_ops_cdc_hec_inquire_state_def
  cec_msg_cdc_hec_report_state_def cec_ops_cdc_hec_report_state_def
  cec_msg_cdc_hec_set_state_adjacent_def cec_ops_cdc_hec_set_state_adjacent_def
  cec_msg_cdc_hec_request_deactivation_def cec_ops_cdc_hec_request_deactivation_def
  cec_msg_cdc_hec_notify_alive_def cec_ops_cdc_hec_notify_alive_def cec_msg_cdc_hec_discover_def
  cec_ops_cdc_hec_discover_def cec_msg_cdc_hpd_set_state_def cec_ops_cdc_hpd_set_state_def
  cec_msg_cdc_hpd_report_state_def cec_ops_cdc_hpd_report_state_def

section \<open>The contract of a CDC message\<close>

text \<open>
  A CDC message goes to everybody, its builder leaves bytes 2 and 3 to the framework,
  and its reader returns them with the operands whatever the framework put there.
\<close>

locale cec_cdc =
  fixes send :: "'a \<Rightarrow> cec_msg \<Rightarrow> cec_msg" and cdc_opc :: u8
    and parse :: "cec_msg \<Rightarrow> u16 \<times> 'b" and view :: "'a \<Rightarrow> 'b" and ok :: "'a \<Rightarrow> bool"
  assumes cdc_builder: "cec_tight_builder (send a) CEC_MSG_CDC_MESSAGE True"
    and cdc_opcode: "cec_buf m \<Longrightarrow> 5 \<le> len (send a m) \<and> msg (send a m) ! 4 = cdc_opc"
    and cdc_addr: "cec_buf m \<Longrightarrow> msg (send a m) ! 2 = msg m ! 2 \<and> msg (send a m) ! 3 = msg m ! 3"
    and cdc_parse: "ok a \<Longrightarrow> cec_buf m \<Longrightarrow> cec_buf r \<Longrightarrow> len r = len (send a m) \<Longrightarrow>
      \<forall>i < unat (len (send a m)). i \<noteq> 2 \<longrightarrow> i \<noteq> 3 \<longrightarrow> msg r ! i = msg (send a m) ! i \<Longrightarrow>
      parse r = (be16 (msg r ! 2) (msg r ! 3), view a)"
begin

text \<open>What the framework does to an outgoing CDC message.\<close>

lemma parse_filled:
  assumes "ok a" and "cec_buf m"
  shows "parse ((send a m)\<lparr>msg := (msg (send a m))[2 := hi8 pa, 3 := lo8 pa]\<rparr>) = (pa, view a)"
proof -
  have "length (msg (send a m)) = 16"
    using cec_builder.build_buf [OF cec_tight_builder.axioms(1) [OF cdc_builder] assms(2)]
    by (simp add: cec_buf_def)
  then show ?thesis
    using cdc_parse [OF assms, of "(send a m)\<lparr>msg := (msg (send a m))[2 := hi8 pa, 3 := lo8 pa]\<rparr>"]
    by (simp add: cec_buf_def)
qed

lemma parse_addr_received:
  assumes "ok a" and "cec_buf m" and "cec_buf r"
    and "len r = len (send a m)" and "\<forall>i < unat (len (send a m)). msg r ! i = msg (send a m) ! i"
  shows "snd (parse r) = view a"
  using cdc_parse [OF assms(1-4)] assms(5) by simp

end

sublocale cec_cdc \<subseteq> codec: cec_tight_codec send CEC_MSG_CDC_MESSAGE True "\<lambda>m. snd (parse m)" view ok
  by (rule cec_tight_codecI [OF cdc_builder parse_addr_received])

section \<open>Contracts\<close>

text \<open>The second field of a byte below two others.\<close>

lemma state_byte_fields:
  assumes "a < 4" and "b < 4" and "c < 4" and "d < 4"
  shows "drop_bit 6 (state_byte a b c d) = a"
    and "drop_bit 4 (state_byte a b c d) AND 3 = b"
    and "drop_bit 2 (state_byte a b c d) AND 3 = c"
    and "state_byte a b c d AND 3 = d"
proof -
  have nb: "k < 2" if "x < 4" "bit x k" for x :: u8 and k
    using less_not_bit [of x 2 k] that by (cases "k < 2") (simp_all add: not_less)
  note n = nb [OF assms(1)] nb [OF assms(2)] nb [OF assms(3)] nb [OF assms(4)]
  show "drop_bit 6 (state_byte a b c d) = a"
    unfolding state_byte_def
    by (rule bit_word_eqI) (auto simp: bit_simps dest: bit_less n)
  show "drop_bit 4 (state_byte a b c d) AND 3 = b"
    unfolding state_byte_def mask_numerals
    by (rule bit_word_eqI) (auto simp: bit_simps dest: bit_less n)
  show "drop_bit 2 (state_byte a b c d) AND 3 = c"
    unfolding state_byte_def mask_numerals
    by (rule bit_word_eqI) (auto simp: bit_simps dest: bit_less n)
  show "state_byte a b c d AND 3 = d"
    unfolding state_byte_def mask_numerals
    by (rule bit_word_eqI) (auto simp: bit_simps dest: bit_less n)
qed

interpretation hec_inquire_state: cec_cdc
  "\<lambda>(pa1, pa2) m. cec_msg_cdc_hec_inquire_state m pa1 pa2" CEC_MSG_CDC_HEC_INQUIRE_STATE
  cec_ops_cdc_hec_inquire_state "\<lambda>x. x" "\<lambda>_. True"
  by unfold_locales (auto simp: wire_simps)

text \<open>
  The reader extracts the host state twice: the state of the external connection that
  was sent is not what it returns.
\<close>

interpretation hec_report_state: cec_cdc
  "\<lambda>(target, hec, host, enc, err, has, field) m.
     cec_msg_cdc_hec_report_state m target hec host enc err has field"
  CEC_MSG_CDC_HEC_REPORT_STATE cec_ops_cdc_hec_report_state
  "\<lambda>(target, hec, host, enc, err, has, field).
     (target, hec, host, host, err, if has \<noteq> 0 then 1 else 0, if has \<noteq> 0 then field else 0)"
  "\<lambda>(target, hec, host, enc, err, has, field). hec < 4 \<and> host < 4 \<and> enc < 4 \<and> err < 4"
  by unfold_locales (auto simp: wire_simps Let_def state_byte_fields split: if_splits)

text \<open>The four lengths of a Set State message.\<close>

lemma hec_set_state_forms:
  fixes m pa1 pa2 s
  defines "base \<equiv> (msg m)[0 := msg m ! 0 OR 0xf, 1 := CEC_MSG_CDC_MESSAGE,
    4 := CEC_MSG_CDC_HEC_INQUIRE_STATE, 5 := hi8 pa1, 6 := lo8 pa1, 7 := hi8 pa2, 8 := lo8 pa2, 9 := s]"
  shows "cec_msg_cdc_hec_set_state m pa1 pa2 s CEC_PHYS_ADDR_INVALID pa4 pa5 =
      m\<lparr>len := 10, msg := base\<rparr>"
    and "pa3 \<noteq> CEC_PHYS_ADDR_INVALID \<Longrightarrow>
      cec_msg_cdc_hec_set_state m pa1 pa2 s pa3 CEC_PHYS_ADDR_INVALID pa5 =
      m\<lparr>len := 12, msg := base[10 := hi8 pa3, 11 := lo8 pa3]\<rparr>"
    and "pa3 \<noteq> CEC_PHYS_ADDR_INVALID \<Longrightarrow> pa4 \<noteq> CEC_PHYS_ADDR_INVALID \<Longrightarrow>
      cec_msg_cdc_hec_set_state m pa1 pa2 s pa3 pa4 CEC_PHYS_ADDR_INVALID =
      m\<lparr>len := 14, msg := base[10 := hi8 pa3, 11 := lo8 pa3, 12 := hi8 pa4, 13 := lo8 pa4]\<rparr>"
    and "pa3 \<noteq> CEC_PHYS_ADDR_INVALID \<Longrightarrow> pa4 \<noteq> CEC_PHYS_ADDR_INVALID \<Longrightarrow>
      pa5 \<noteq> CEC_PHYS_ADDR_INVALID \<Longrightarrow>
      cec_msg_cdc_hec_set_state m pa1 pa2 s pa3 pa4 pa5 =
      m\<lparr>len := 16, msg := base[10 := hi8 pa3, 11 := lo8 pa3, 12 := hi8 pa4, 13 := lo8 pa4,
        14 := hi8 pa5, 15 := lo8 pa5]\<rparr>"
  by (simp_all add: cec_msg_cdc_hec_set_state_def append_byte_def base_def)

lemma hec_set_state_cases:
  fixes pa3 pa4 pa5 :: u16
  obtains "pa3 = CEC_PHYS_ADDR_INVALID"
    | "pa3 \<noteq> CEC_PHYS_ADDR_INVALID" "pa4 = CEC_PHYS_ADDR_INVALID"
    | "pa3 \<noteq> CEC_PHYS_ADDR_INVALID" "pa4 \<noteq> CEC_PHYS_ADDR_INVALID" "pa5 = CEC_PHYS_ADDR_INVALID"
    | "pa3 \<noteq> CEC_PHYS_ADDR_INVALID" "pa4 \<noteq> CEC_PHYS_ADDR_INVALID" "pa5 \<noteq> CEC_PHYS_ADDR_INVALID"
  by blast

lemma hec_set_state_laws:
  fixes pa1 pa2 s pa3 pa4 pa5
  assumes "cec_buf m"
  defines "out \<equiv> cec_msg_cdc_hec_set_state m pa1 pa2 s pa3 pa4 pa5"
  shows "cec_buf out" and "10 \<le> len out" and "len out \<le> 16"
    and "msg out ! 0 = msg m ! 0 OR 0xf" and "msg out ! Suc 0 = CEC_MSG_CDC_MESSAGE"
    and "msg out ! 2 = msg m ! 2" and "msg out ! 3 = msg m ! 3"
    and "msg out ! 4 = CEC_MSG_CDC_HEC_INQUIRE_STATE" and "cec_meta out = cec_meta m"
    and "unat (len out) \<le> i \<Longrightarrow> i < 16 \<Longrightarrow> msg out ! i = msg m ! i"
  unfolding out_def
  by (rule hec_set_state_cases [where ?pa3.0 = pa3 and ?pa4.0 = pa4 and ?pa5.0 = pa5];
      use assms(1) in \<open>simp add: hec_set_state_forms cec_buf_def cec_meta_def\<close>)+

lemma hec_set_state_read:
  assumes "cec_buf m" and "cec_buf r"
    and "len r = len (cec_msg_cdc_hec_set_state m pa1 pa2 s pa3 pa4 pa5)"
    and "\<forall>i < unat (len (cec_msg_cdc_hec_set_state m pa1 pa2 s pa3 pa4 pa5)). i \<noteq> 2 \<longrightarrow> i \<noteq> 3 \<longrightarrow>
      msg r ! i = msg (cec_msg_cdc_hec_set_state m pa1 pa2 s pa3 pa4 pa5) ! i"
  shows "cec_ops_cdc_hec_set_state r =
    (be16 (msg r ! 2) (msg r ! 3), pa1, pa2, s, pa3,
     if pa3 \<noteq> CEC_PHYS_ADDR_INVALID then pa4 else CEC_PHYS_ADDR_INVALID,
     if pa3 \<noteq> CEC_PHYS_ADDR_INVALID \<and> pa4 \<noteq> CEC_PHYS_ADDR_INVALID then pa5
     else CEC_PHYS_ADDR_INVALID)"
  by (rule hec_set_state_cases [where ?pa3.0 = pa3 and ?pa4.0 = pa4 and ?pa5.0 = pa5];
      use assms in \<open>simp add: hec_set_state_forms cec_ops_cdc_hec_set_state_def cec_buf_def
        all_less_numeral\<close>)

interpretation hec_set_state: cec_cdc
  "\<lambda>(pa1, pa2, state, pa3, pa4, pa5) m.
     cec_msg_cdc_hec_set_state m pa1 pa2 state pa3 pa4 pa5"
  CEC_MSG_CDC_HEC_INQUIRE_STATE cec_ops_cdc_hec_set_state
  "\<lambda>(pa1, pa2, state, pa3, pa4, pa5).
     (pa1, pa2, state, pa3,
      if pa3 \<noteq> CEC_PHYS_ADDR_INVALID then pa4 else CEC_PHYS_ADDR_INVALID,
      if pa3 \<noteq> CEC_PHYS_ADDR_INVALID \<and> pa4 \<noteq> CEC_PHYS_ADDR_INVALID then pa5
      else CEC_PHYS_ADDR_INVALID)"
  "\<lambda>_. True"
  by unfold_locales
    (auto simp: hec_set_state_laws hec_set_state_read intro: order_trans [OF _ hec_set_state_laws(2)])

interpretation hec_set_state_adjacent: cec_cdc
  "\<lambda>(pa1, state) m. cec_msg_cdc_hec_set_state_adjacent m pa1 state"
  CEC_MSG_CDC_HEC_SET_STATE_ADJACENT cec_ops_cdc_hec_set_state_adjacent "\<lambda>x. x" "\<lambda>_. True"
  by unfold_locales (auto simp: wire_simps)

interpretation hec_request_deactivation: cec_cdc
  "\<lambda>(pa1, pa2, pa3) m. cec_msg_cdc_hec_request_deactivation m pa1 pa2 pa3"
  CEC_MSG_CDC_HEC_REQUEST_DEACTIVATION cec_ops_cdc_hec_request_deactivation "\<lambda>x. x" "\<lambda>_. True"
  by unfold_locales (auto simp: wire_simps)

interpretation hec_notify_alive: cec_cdc
  "\<lambda>(_ :: unit) m. cec_msg_cdc_hec_notify_alive m" CEC_MSG_CDC_HEC_NOTIFY_ALIVE
  "\<lambda>m. (cec_ops_cdc_hec_notify_alive m, ())" "\<lambda>x. x" "\<lambda>_. True"
  by unfold_locales (auto simp: wire_simps)

interpretation hec_discover: cec_cdc
  "\<lambda>(_ :: unit) m. cec_msg_cdc_hec_discover m" CEC_MSG_CDC_HEC_DISCOVER
  "\<lambda>m. (cec_ops_cdc_hec_discover m, ())" "\<lambda>x. x" "\<lambda>_. True"
  by unfold_locales (auto simp: wire_simps)

interpretation hpd_set_state: cec_cdc
  "\<lambda>(port, state) m. cec_msg_cdc_hpd_set_state m port state" CEC_MSG_CDC_HPD_SET_STATE
  cec_ops_cdc_hpd_set_state "\<lambda>x. x" "\<lambda>(port, state). port < 16 \<and> state < 16"
  by unfold_locales (auto simp: wire_simps)

interpretation hpd_report_state: cec_cdc
  "\<lambda>(state, err) m. cec_msg_cdc_hpd_report_state m state err" CEC_MSG_CDC_HPD_REPORT_STATE
  cec_ops_cdc_hpd_report_state "\<lambda>x. x" "\<lambda>(state, err). state < 16 \<and> err < 16"
  by unfold_locales (auto simp: wire_simps)

section \<open>Steps\<close>

text \<open>One rule for every builder of the group, at all arguments.\<close>

inductive cdc_step :: "u8 \<Rightarrow> bool \<Rightarrow> cec_msg \<Rightarrow> cec_msg \<Rightarrow> bool" where
  cdc_hec_inquire_state: "cdc_step CEC_MSG_CDC_MESSAGE True m (cec_msg_cdc_hec_inquire_state m pa1
     pa2)"
| cdc_hec_report_state: "cdc_step CEC_MSG_CDC_MESSAGE True m (cec_msg_cdc_hec_report_state m
     target hec host enc err has fld)"
| cdc_hec_set_state: "cdc_step CEC_MSG_CDC_MESSAGE True m (cec_msg_cdc_hec_set_state m pa1 pa2 s
     pa3 pa4 pa5)"
| cdc_hec_set_state_adjacent: "cdc_step CEC_MSG_CDC_MESSAGE True m
     (cec_msg_cdc_hec_set_state_adjacent m pa1 s)"
| cdc_hec_request_deactivation: "cdc_step CEC_MSG_CDC_MESSAGE True m
     (cec_msg_cdc_hec_request_deactivation m pa1 pa2 pa3)"
| cdc_hec_notify_alive: "cdc_step CEC_MSG_CDC_MESSAGE True m (cec_msg_cdc_hec_notify_alive m)"
| cdc_hec_discover: "cdc_step CEC_MSG_CDC_MESSAGE True m (cec_msg_cdc_hec_discover m)"
| cdc_hpd_set_state: "cdc_step CEC_MSG_CDC_MESSAGE True m (cec_msg_cdc_hpd_set_state m p s)"
| cdc_hpd_report_state: "cdc_step CEC_MSG_CDC_MESSAGE True m (cec_msg_cdc_hpd_report_state m s e)"

lemmas cdc_sent =
  hec_inquire_state.codec.sent.build_sent [where a = "(a, b)" for a b, unfolded prod.case]
  hec_report_state.codec.sent.build_sent [where a = "(a, b, c, d, e, f, g)" for a b c d e f g,
      unfolded prod.case]
  hec_set_state.codec.sent.build_sent [where a = "(a, b, c, d, e, f)" for a b c d e f, unfolded
      prod.case]
  hec_set_state_adjacent.codec.sent.build_sent [where a = "(a, b)" for a b, unfolded prod.case]
  hec_request_deactivation.codec.sent.build_sent [where a = "(a, b, c)" for a b c, unfolded
      prod.case]
  hec_notify_alive.codec.sent.build_sent
  hec_discover.codec.sent.build_sent
  hpd_set_state.codec.sent.build_sent [where a = "(a, b)" for a b, unfolded prod.case]
  hpd_report_state.codec.sent.build_sent [where a = "(a, b)" for a b, unfolded prod.case]

lemma cdc_step_sent: "cdc_step opc bcast m m' \<Longrightarrow> cec_buf m \<Longrightarrow> cec_sent opc bcast m m'"
  by (induction rule: cdc_step.induct) (auto intro: cdc_sent)

lemma cdc_step_opcode: "cdc_step opc bcast m m' \<Longrightarrow> opc \<in> set cec_opcodes"
  by (induction rule: cdc_step.induct) (simp_all add: cec_opcodes_def)

lemma cdc_step_bcast: "cdc_step opc bcast m m' \<Longrightarrow> bcast \<longleftrightarrow> opc \<in> set cec_broadcast_opcodes"
  by (induction rule: cdc_step.induct) (simp_all add: cec_broadcast_opcodes_def)

section \<open>Properties\<close>

text \<open>Once the framework has filled in the sender's physical address, a HEC state report is
  read back with every state but one: in place of the external connection state that was
  sent the reader returns the host state, which it extracts twice.\<close>

theorem hec_report_state_read:
  assumes "hec < 4" and "host < 4" and "enc < 4" and "err < 4" and "cec_buf m"
  shows "cec_ops_cdc_hec_report_state
      ((cec_msg_cdc_hec_report_state m target hec host enc err has field)\<lparr>msg :=
        (msg (cec_msg_cdc_hec_report_state m target hec host enc err has field))
          [2 := hi8 pa, 3 := lo8 pa]\<rparr>) =
    (pa, target, hec, host, host, err, if has \<noteq> 0 then 1 else 0, if has \<noteq> 0 then field else 0)"
  using assms hec_report_state.parse_filled [of "(target, hec, host, enc, err, has, field)" m pa]
  by simp

lemma hec_report_state_read_witness:
  "cec_ops_cdc_hec_report_state
      ((cec_msg_cdc_hec_report_state cec_zero 0x1000 1 2 0 0 1 0x0200)\<lparr>msg :=
        (msg (cec_msg_cdc_hec_report_state cec_zero 0x1000 1 2 0 0 1 0x0200))
          [2 := hi8 0x2000, 3 := lo8 0x2000]\<rparr>) =
    (0x2000, 0x1000, 1, 2, 2, 0, if (1 :: u8) \<noteq> 0 then 1 else 0, if (1 :: u8) \<noteq> 0 then 0x0200 else 0)"
  by (rule hec_report_state_read) simp_all

text \<open>C38: A HEC Set State message carries its addresses up to the first invalid one and is read
  back that way, but the second-level opcode it is sent with is that of Inquire State, so a
  receiver that dispatches on the opcode takes it for an inquiry about its first two
  addresses.\<close>

theorem hec_set_state_sent_as_inquiry:
  assumes "cec_buf m" and "cec_buf r"
  shows "let r' = cec_receive (cec_frame (cec_msg_cdc_hec_set_state m pa1 pa2 state pa3 pa4 pa5)) r in
    msg r' ! 4 = CEC_MSG_CDC_HEC_INQUIRE_STATE \<and>
    snd (cec_ops_cdc_hec_set_state r') =
      (pa1, pa2, state, pa3, if pa3 \<noteq> CEC_PHYS_ADDR_INVALID then pa4 else CEC_PHYS_ADDR_INVALID,
       if pa3 \<noteq> CEC_PHYS_ADDR_INVALID \<and> pa4 \<noteq> CEC_PHYS_ADDR_INVALID then pa5
       else CEC_PHYS_ADDR_INVALID) \<and>
    snd (cec_ops_cdc_hec_inquire_state r') = (pa1, pa2)"
proof -
  let ?s = "cec_msg_cdc_hec_set_state m pa1 pa2 state pa3 pa4 pa5"
  define r' where "r' = cec_receive (cec_frame ?s) r"
  have w: "cec_wf ?s"
    using hec_set_state.codec.send_wf [of m "(pa1, pa2, state, pa3, pa4, pa5)"] assms(1) by simp
  note fr = cec_frame_receive [OF w assms(2)]
  note same = cec_frame_eq_nth [OF fr(1,3) w]
  have "10 \<le> unat (len ?s)"
    using hec_set_state_laws(2) [OF assms(1)] by (simp add: word_le_nat_alt)
  then have bytes: "msg r' ! i = msg ?s ! i" if "i < 10" for i
    using same(2) that unfolding r'_def by simp
  have "snd (cec_ops_cdc_hec_set_state r') = snd (cec_ops_cdc_hec_set_state ?s)"
    using hec_set_state.codec.parse_receive
        [where a = "(pa1, pa2, state, pa3, pa4, pa5)" and m = m and r = r]
      hec_set_state.codec.parse_send
        [where a = "(pa1, pa2, state, pa3, pa4, pa5)" and m = m] assms
    by (simp add: r'_def)
  moreover have "msg ?s ! 5 = hi8 pa1" "msg ?s ! 6 = lo8 pa1" "msg ?s ! 7 = hi8 pa2" "msg ?s ! 8 = lo8 pa2"
    by (rule hec_set_state_cases [where ?pa3.0 = pa3 and ?pa4.0 = pa4 and ?pa5.0 = pa5];
        use assms(1) in \<open>simp add: hec_set_state_forms cec_buf_def\<close>)+
  ultimately show ?thesis
    unfolding Let_def r'_def [symmetric]
    using bytes [of 4] bytes [of 5] bytes [of 6] bytes [of 7] bytes [of 8]
      hec_set_state_laws(8) [OF assms(1)]
      hec_set_state.codec.parse_send
        [where a = "(pa1, pa2, state, pa3, pa4, pa5)" and m = m] assms(1)
    by (simp add: cec_ops_cdc_hec_inquire_state_def)
qed

lemma hec_set_state_sent_as_inquiry_witness:
  "let r' = cec_receive (cec_frame (cec_msg_cdc_hec_set_state cec_zero 0x1000 0x2000 1
        0x3000 0xffff 0xffff)) cec_zero in
    msg r' ! 4 = CEC_MSG_CDC_HEC_INQUIRE_STATE \<and>
    snd (cec_ops_cdc_hec_set_state r') =
      (0x1000, 0x2000, 1, 0x3000,
       if (0x3000 :: u16) \<noteq> CEC_PHYS_ADDR_INVALID then 0xffff else CEC_PHYS_ADDR_INVALID,
       if (0x3000 :: u16) \<noteq> CEC_PHYS_ADDR_INVALID \<and> (0xffff :: u16) \<noteq> CEC_PHYS_ADDR_INVALID
       then 0xffff else CEC_PHYS_ADDR_INVALID) \<and>
    snd (cec_ops_cdc_hec_inquire_state r') = (0x1000, 0x2000)"
  by (rule hec_set_state_sent_as_inquiry) simp_all

end
