(* ===== verification/Cec_Protocol.thy ===== *)
theory Cec_Protocol
  imports Cec_Routing Cec_Record Cec_Timer Cec_System Cec_Tuner Cec_Menu Cec_General
    Cec_Audio Cec_Cdc
begin

text \<open>
  The life of a message object: it is initialised, filled in by any of the builders,
  turned around into a reply, answered with an abort in place, or overwritten by a
  received frame.  The step relation ranges over all builders of the header; the
  invariant is proved by rule induction from the contracts of the groups.
\<close>

section \<open>One message is built\<close>

inductive cec_step :: "u8 \<Rightarrow> bool \<Rightarrow> cec_msg \<Rightarrow> cec_msg \<Rightarrow> bool" where
  routing: "routing_step opc bcast m m' \<Longrightarrow> cec_step opc bcast m m'"
| recording: "record_step opc bcast m m' \<Longrightarrow> cec_step opc bcast m m'"
| timer: "timer_step opc bcast m m' \<Longrightarrow> cec_step opc bcast m m'"
| system: "system_step opc bcast m m' \<Longrightarrow> cec_step opc bcast m m'"
| tuner: "tuner_step opc bcast m m' \<Longrightarrow> cec_step opc bcast m m'"
| menu: "menu_step opc bcast m m' \<Longrightarrow> cec_step opc bcast m m'"
| general: "general_step opc bcast m m' \<Longrightarrow> cec_step opc bcast m m'"
| audio: "audio_step opc bcast m m' \<Longrightarrow> cec_step opc bcast m m'"
| cdc: "cdc_step opc bcast m m' \<Longrightarrow> cec_step opc bcast m m'"

lemmas group_sent = routing_step_sent record_step_sent timer_step_sent system_step_sent
  tuner_step_sent menu_step_sent general_step_sent audio_step_sent cdc_step_sent

lemmas group_opcode = routing_step_opcode record_step_opcode timer_step_opcode
  system_step_opcode tuner_step_opcode menu_step_opcode general_step_opcode
  audio_step_opcode cdc_step_opcode

lemmas group_bcast = routing_step_bcast record_step_bcast timer_step_bcast
  system_step_bcast tuner_step_bcast menu_step_bcast general_step_bcast
  audio_step_bcast cdc_step_bcast

lemma step_sent: "cec_step opc bcast m m' \<Longrightarrow> cec_buf m \<Longrightarrow> cec_sent opc bcast m m'"
  by (induction rule: cec_step.induct) (auto dest: group_sent)

lemma step_opcode: "cec_step opc bcast m m' \<Longrightarrow> opc \<in> set cec_opcodes"
  by (induction rule: cec_step.induct) (auto dest: group_opcode)

lemma step_bcast: "cec_step opc bcast m m' \<Longrightarrow> bcast \<longleftrightarrow> opc \<in> set cec_broadcast_opcodes"
  by (induction rule: cec_step.induct) (auto dest: group_bcast)

section \<open>Calls of a builder\<close>

text \<open>
  A call writes a message, and then its opcode is the first argument; or it is a call of
  \<^verbatim>\<open>cec_msg_record_on\<close> with a source type that its switch does not list, which writes none.
\<close>

inductive cec_call :: "u8 option \<Rightarrow> cec_msg \<Rightarrow> cec_msg \<Rightarrow> bool" where
  writes: "cec_step opc bcast m m' \<Longrightarrow> cec_call (Some opc) m m'"
| unknown_source: "rs_type s = 0 \<or> 5 < rs_type s \<Longrightarrow> cec_call None m (cec_msg_record_on m rep s)"

inductive_cases writing_callE: "cec_call (Some opc) m m'"
inductive_cases silent_callE: "cec_call None m m'"

text \<open>So there is a rule for that builder at every source type.\<close>

lemma call_record_on:
  "cec_call (if 1 \<le> rs_type s \<and> rs_type s \<le> 5 then Some CEC_MSG_RECORD_ON else None)
     m (cec_msg_record_on m rep s)"
proof (cases "1 \<le> rs_type s \<and> rs_type s \<le> 5")
  case True
  then show ?thesis
    by (simp add: cec_call.writes [OF cec_step.recording [OF record_step.record_on]])
next
  case False
  have "rs_type s = 0 \<or> 5 < rs_type s" using False by unat_arith
  then have "cec_call None m (cec_msg_record_on m rep s)" by (rule cec_call.unknown_source)
  with False show ?thesis by (simp only: if_False)
qed

lemma writing_call:
  assumes "cec_call (Some opc) m m'" and "cec_buf m"
  shows "cec_sent opc (opc \<in> set cec_broadcast_opcodes) m m'" and "opc \<in> set cec_opcodes"
  using assms by (auto elim!: writing_callE dest: step_sent step_bcast step_opcode)

lemma silent_call:
  assumes "cec_call None m m'"
  obtains x where "m' = m\<lparr>reply := x\<rparr>"
  using assms by (auto elim!: silent_callE simp: record_on_unknown_type)

section \<open>Reachable messages\<close>

text \<open>
  The first argument says whose bytes the object holds: \<open>None\<close> when it was initialised,
  built or aborted here, \<open>Some bs\<close> when it was last overwritten by the received frame \<open>bs\<close>,
  which another device may have filled with anything.
\<close>

inductive cec_reach :: "u8 list option \<Rightarrow> cec_msg \<Rightarrow> bool" where
  init: "cec_reach None (cec_msg_init m i d)"
| build: "cec_reach src m \<Longrightarrow> cec_call (Some opc) m m' \<Longrightarrow> cec_reach None m'"
| build_none: "cec_reach src m \<Longrightarrow> cec_call None m m' \<Longrightarrow> cec_reach src m'"
| reply_to: "cec_reach src m \<Longrightarrow> cec_reach src (cec_msg_set_reply_to m orig)"
| reply_abort: "cec_reach src m \<Longrightarrow> cec_reach None (cec_msg_reply_feature_abort m reason)"
| receive: "cec_reach src r \<Longrightarrow> 1 \<le> length bs \<Longrightarrow> length bs \<le> CEC_MAX_MSG_SIZE \<Longrightarrow>
    cec_reach (Some bs) (cec_receive bs r)"

text \<open>A poll, or a message with an opcode of the table.\<close>

definition cec_known :: "cec_msg \<Rightarrow> bool" where
  "cec_known m \<longleftrightarrow> cec_wf m \<and> (len m = 1 \<or> cec_msg_opcode m \<in> uint ` set cec_opcodes)"

definition cec_holds :: "u8 list option \<Rightarrow> cec_msg \<Rightarrow> bool" where
  "cec_holds src m \<longleftrightarrow> (case src of None \<Rightarrow> cec_known m
     | Some bs \<Rightarrow> cec_wf m \<and> tl (cec_frame m) = tl bs \<and> length (cec_frame m) = length bs)"

lemma holds_wf: "cec_holds src m \<Longrightarrow> cec_wf m"
  by (simp add: cec_holds_def cec_known_def split: option.splits)

lemma known_sent:
  assumes "cec_sent opc bcast m m'" and "opc \<in> set cec_opcodes"
  shows "cec_known m'"
  using assms by (auto simp: cec_known_def cec_sent_def)

lemma holds_reply: "cec_holds src m \<Longrightarrow> cec_holds src (m\<lparr>reply := x\<rparr>)"
  by (simp add: cec_holds_def cec_known_def split: option.splits)

lemma tl_take_update: "tl (take n (xs[0 := x])) = tl (take n xs)"
  by (cases xs; cases n) simp_all

lemma holds_reply_to: "cec_holds src m \<Longrightarrow> cec_holds src (cec_msg_set_reply_to m orig)"
  by (auto simp: cec_holds_def cec_known_def cec_wf_def cec_buf_def cec_msg_set_reply_to_def
      cec_msg_opcode_def cec_frame_def tl_take_update split: option.splits if_splits)

lemma known_reply_abort: "cec_wf m \<Longrightarrow> cec_known (cec_msg_reply_feature_abort m reason)"
  by (simp add: cec_known_def cec_wf_def cec_buf_def cec_msg_reply_feature_abort_def
      cec_msg_set_reply_to_def cec_msg_opcode_def Let_def cec_opcodes_def)

lemma holds_receive:
  assumes "cec_buf r" and "1 \<le> length bs" and "length bs \<le> CEC_MAX_MSG_SIZE"
  shows "cec_holds (Some bs) (cec_receive bs r)"
proof -
  have l: "unat (word_of_nat (length bs) :: u32) = length bs" using assms(3) by (simp add: unat_of_nat)
  then have "1 \<le> (word_of_nat (length bs) :: u32)" "(word_of_nat (length bs) :: u32) \<le> 16"
    using assms(2,3) by (simp_all add: word_le_nat_alt)
  with l assms show ?thesis
    by (simp add: cec_holds_def cec_receive_def cec_wf_def cec_buf_def cec_frame_def)
qed

lemma reach_holds: "cec_reach src m \<Longrightarrow> cec_holds src m"
proof (induction rule: cec_reach.induct)
  case (init m i d)
  show ?case by (simp add: cec_holds_def cec_known_def) (simp add: cec_msg_init_def)
next
  case (build src m opc m')
  have "cec_buf m" using build.IH by (intro cec_wf_buf holds_wf)
  with build show ?case
    by (auto simp: cec_holds_def dest: writing_call intro: known_sent)
next
  case (build_none src m m')
  then show ?case by (auto elim: silent_call intro: holds_reply)
next
  case (receive src r bs)
  then show ?case by (intro holds_receive cec_wf_buf holds_wf)
next
  case (reply_abort src m reason)
  then show ?case by (simp add: cec_holds_def [of None] known_reply_abort holds_wf)
qed (simp add: holds_reply_to)

section \<open>Requests and their answers\<close>

lemma sent_opcode: "cec_sent opc bcast m m' \<Longrightarrow> cec_msg_opcode m' = uint opc"
  by (simp add: cec_sent_def)

lemmas group_built_opcode =
  routing_sent [THEN sent_opcode] record_sent [THEN sent_opcode] timer_sent [THEN sent_opcode]
  system_sent [THEN sent_opcode] tuner_sent [THEN sent_opcode] menu_sent [THEN sent_opcode]
  general_sent [THEN sent_opcode] audio_sent [THEN sent_opcode] cdc_sent [THEN sent_opcode]

lemma short_opcode:
  "cec_buf n \<Longrightarrow> cec_msg_opcode (n\<lparr>len := 2, msg := (msg n)[Suc 0 := x]\<rparr>) = uint x"
  by (simp add: cec_msg_opcode_def cec_buf_def)

lemmas request_defs =
  cec_msg_request_active_source_def cec_msg_routing_change_def cec_msg_record_off_def
  cec_msg_record_on_def cec_msg_record_tv_screen_def cec_msg_clear_analogue_timer_def
  cec_msg_clear_digital_timer_def cec_msg_clear_ext_timer_def cec_msg_set_analogue_timer_def
  cec_msg_set_digital_timer_def cec_msg_set_ext_timer_def cec_msg_get_cec_version_def
  cec_msg_give_physical_addr_def cec_msg_get_menu_language_def cec_msg_give_features_def
  cec_msg_give_device_vendor_id_def cec_msg_give_osd_name_def cec_msg_menu_request_def
  cec_msg_give_device_power_status_def cec_msg_give_audio_status_def
  cec_msg_give_system_audio_mode_status_def cec_msg_system_audio_mode_request_def
  cec_msg_request_short_audio_descriptor_def cec_msg_initiate_arc_def
  cec_msg_request_arc_initiation_def cec_msg_terminate_arc_def
  cec_msg_request_arc_termination_def cec_msg_request_current_latency_def
  cec_msg_give_deck_status_def cec_msg_give_tuner_device_status_def

section \<open>Properties\<close>

text \<open>C1: Every message object that initialisation, calls of the builders with any
  arguments (arrays that hold as much as their counts say), reply addressing, in-place aborts and received frames of one to sixteen arbitrary
  bytes can produce is well formed: a sixteen-byte payload, between one and sixteen bytes on
  the wire.  Unless its bytes are those of a received frame it is a poll or carries an opcode of
  the header's table; if they are, it has the length of that frame and, the address byte
  apart, exactly its bytes, whatever opcode the other device put there.\<close>

theorem reachable_messages_known:
  assumes "cec_reach src m"
  shows "length (msg m) = 16 \<and> 1 \<le> len m \<and> len m \<le> 16 \<and>
    (case src of
       None \<Rightarrow> len m = 1 \<or> cec_msg_opcode m \<in> uint ` set cec_opcodes
     | Some bs \<Rightarrow> unat (len m) = length bs \<and> tl (take (unat (len m)) (msg m)) = tl bs)"
proof -
  note h = reach_holds [OF assms]
  with length_cec_frame [OF holds_wf [OF h]] holds_wf [OF h] show ?thesis
    by (auto simp: cec_holds_def cec_known_def cec_wf_def cec_buf_def cec_frame_def
        split: option.splits)
qed

lemma reachable_messages_known_witness:
  "length (msg (cec_msg_abort (cec_msg_init cec_zero 4 0))) = 16 \<and>
   1 \<le> len (cec_msg_abort (cec_msg_init cec_zero 4 0)) \<and>
   len (cec_msg_abort (cec_msg_init cec_zero 4 0)) \<le> 16 \<and>
   (case (None :: u8 list option) of
      None \<Rightarrow> len (cec_msg_abort (cec_msg_init cec_zero 4 0)) = 1 \<or>
        cec_msg_opcode (cec_msg_abort (cec_msg_init cec_zero 4 0)) \<in> uint ` set cec_opcodes
    | Some bs \<Rightarrow> unat (len (cec_msg_abort (cec_msg_init cec_zero 4 0))) = length bs \<and>
        tl (take (unat (len (cec_msg_abort (cec_msg_init cec_zero 4 0))))
          (msg (cec_msg_abort (cec_msg_init cec_zero 4 0)))) = tl bs)"
  by (rule reachable_messages_known)
    (rule cec_reach.build [OF cec_reach.init
        cec_call.writes [OF cec_step.general [OF general_step.abort]]])

text \<open>C2: A call of a builder, with any arguments (arrays that hold as much as their counts say), on
  an object with a sixteen-byte payload
  keeps the initiator and everything that is not the frame or the expected reply.  It sets the
  opcode, and either keeps the destination or makes the message a broadcast; which of the two
  depends on the opcode alone.  The one exception is \<^verbatim>\<open>cec_msg_record_on\<close> with a source type
  outside one to five: it writes no message, and the frame, old opcode and length included,
  stays what it was.\<close>

theorem build_step_effect:
  assumes "cec_call written m m'" and "cec_buf m"
  shows "cec_msg_initiator m' = cec_msg_initiator m \<and> cec_meta m' = cec_meta m \<and>
    (case written of
       Some opc \<Rightarrow> cec_msg_opcode m' = uint opc \<and>
         (if opc \<in> set cec_broadcast_opcodes then cec_msg_is_broadcast m'
          else cec_msg_destination m' = cec_msg_destination m)
     | None \<Rightarrow> len m' = len m \<and> msg m' = msg m)"
proof (cases written)
  case None
  with assms(1) obtain x where "m' = m\<lparr>reply := x\<rparr>" by (auto elim: silent_call)
  with None show ?thesis by (simp add: cec_meta_def)
next
  case (Some opc)
  with writing_call [of opc m m'] assms show ?thesis by (simp add: cec_sent_def)
qed

lemma build_step_effect_witness:
  "cec_msg_initiator (cec_msg_active_source (cec_msg_init cec_zero 4 0) 0x1000) =
     cec_msg_initiator (cec_msg_init cec_zero 4 0) \<and>
   cec_meta (cec_msg_active_source (cec_msg_init cec_zero 4 0) 0x1000) =
     cec_meta (cec_msg_init cec_zero 4 0) \<and>
   (case Some CEC_MSG_ACTIVE_SOURCE of
      Some opc \<Rightarrow>
        cec_msg_opcode (cec_msg_active_source (cec_msg_init cec_zero 4 0) 0x1000) = uint opc \<and>
        (if opc \<in> set cec_broadcast_opcodes
         then cec_msg_is_broadcast (cec_msg_active_source (cec_msg_init cec_zero 4 0) 0x1000)
         else cec_msg_destination (cec_msg_active_source (cec_msg_init cec_zero 4 0) 0x1000) =
           cec_msg_destination (cec_msg_init cec_zero 4 0))
    | None \<Rightarrow>
        len (cec_msg_active_source (cec_msg_init cec_zero 4 0) 0x1000) =
          len (cec_msg_init cec_zero 4 0) \<and>
        msg (cec_msg_active_source (cec_msg_init cec_zero 4 0) 0x1000) =
          msg (cec_msg_init cec_zero 4 0))"
  by (rule build_step_effect
      [OF cec_call.writes [OF cec_step.routing [OF routing_step.active_source]]])
    (rule cec_wf_buf [OF cec_wf_init])

text \<open>What the expected-reply field of a request holds: the answer's opcode, or zero.\<close>

definition expects_answer :: "c_int \<Rightarrow> cec_msg \<Rightarrow> cec_msg \<Rightarrow> bool" where
  "expects_answer rep request answer \<longleftrightarrow>
     uint (reply request) = (if rep \<noteq> 0 then cec_msg_opcode answer else 0)"

text \<open>
  Three of the requests are broadcasts.  The comment on the field (\<^verbatim>\<open>linux/cec.h\<close>) says that a
  transmission of a broadcast with a nonzero field is refused, so there the field never
  leads to waiting.
\<close>

lemma broadcast_requests_expect_replies:
  assumes "rep \<noteq> 0" and "cec_buf m"
  shows "m' \<in> {cec_msg_request_active_source m rep, cec_msg_routing_change m rep pa pb,
      cec_msg_request_current_latency m rep pa} \<Longrightarrow> cec_msg_is_broadcast m' \<and> reply m' \<noteq> 0"
  using assms by (auto simp: request_defs cec_msg_is_broadcast_def cec_buf_def Let_def)

text \<open>C12: Each of the thirty builders that take a reply argument puts into the expected-reply
  field the opcode that the builder of its answer puts on the wire when that argument is nonzero,
  and zero when it is zero; the two that ask for a status report (of a deck, of a tuner) put
  zero there also when they switch the reports off, whatever the argument.  The answer is built
  in any object with a sixteen-byte payload.\<close>

theorem requests_expect_their_answers:
  assumes "cec_buf n"
  shows
   "expects_answer rep (cec_msg_request_active_source m rep) (cec_msg_active_source n pa) \<and>
    expects_answer rep (cec_msg_routing_change m rep pa pb) (cec_msg_routing_information n pc) \<and>
    expects_answer rep (cec_msg_record_off m rep) (cec_msg_record_status n st) \<and>
    expects_answer rep (cec_msg_record_on m rep src) (cec_msg_record_status n st) \<and>
    expects_answer rep (cec_msg_record_tv_screen m rep) (cec_msg_record_on_own n) \<and>
    expects_answer rep (cec_msg_clear_analogue_timer m rep d mo sh sm dh dm sq t f bs)
      (cec_msg_timer_cleared_status n st) \<and>
    expects_answer rep (cec_msg_clear_digital_timer m rep d mo sh sm dh dm sq svc)
      (cec_msg_timer_cleared_status n st) \<and>
    expects_answer rep (cec_msg_clear_ext_timer m rep d mo sh sm dh dm sq es pl pa)
      (cec_msg_timer_cleared_status n st) \<and>
    expects_answer rep (cec_msg_set_analogue_timer m rep d mo sh sm dh dm sq t f bs)
      (cec_msg_timer_status n w mi pin e hr mn) \<and>
    expects_answer rep (cec_msg_set_digital_timer m rep d mo sh sm dh dm sq svc)
      (cec_msg_timer_status n w mi pin e hr mn) \<and>
    expects_answer rep (cec_msg_set_ext_timer m rep d mo sh sm dh dm sq es pl pa)
      (cec_msg_timer_status n w mi pin e hr mn) \<and>
    expects_answer rep (cec_msg_get_cec_version m rep) (cec_msg_cec_version n v) \<and>
    expects_answer rep (cec_msg_give_physical_addr m rep)
      (cec_msg_report_physical_addr n pa pd) \<and>
    expects_answer rep (cec_msg_get_menu_language m rep)
      (cec_msg_set_menu_language n (a # b # c # lang)) \<and>
    expects_answer rep (cec_msg_give_features m rep) (cec_msg_report_features n v ty rc dv) \<and>
    expects_answer rep (cec_msg_give_device_vendor_id m rep) (cec_msg_device_vendor_id n vid) \<and>
    expects_answer rep (cec_msg_give_osd_name m rep) (cec_msg_set_osd_name n name) \<and>
    expects_answer rep (cec_msg_menu_request m rep mr) (cec_msg_menu_status n ms) \<and>
    expects_answer (if sr = CEC_OP_STATUS_REQ_OFF then 0 else rep)
      (cec_msg_give_deck_status m rep sr) (cec_msg_deck_status n di) \<and>
    expects_answer (if sr = CEC_OP_STATUS_REQ_OFF then 0 else rep)
      (cec_msg_give_tuner_device_status m rep sr) (cec_msg_tuner_device_status n td) \<and>
    expects_answer rep (cec_msg_give_device_power_status m rep)
      (cec_msg_report_power_status n ps) \<and>
    expects_answer rep (cec_msg_give_audio_status m rep)
      (cec_msg_report_audio_status n mu vol) \<and>
    expects_answer rep (cec_msg_give_system_audio_mode_status m rep)
      (cec_msg_system_audio_mode_status n st) \<and>
    expects_answer rep (cec_msg_system_audio_mode_request m rep pa)
      (cec_msg_set_system_audio_mode n st) \<and>
    expects_answer rep (cec_msg_request_short_audio_descriptor m rep k ids codes)
      (cec_msg_report_short_audio_descriptor n k ds) \<and>
    expects_answer rep (cec_msg_initiate_arc m rep) (cec_msg_report_arc_initiated n) \<and>
    expects_answer rep (cec_msg_request_arc_initiation m rep) (cec_msg_initiate_arc n rep') \<and>
    expects_answer rep (cec_msg_terminate_arc m rep) (cec_msg_report_arc_terminated n) \<and>
    expects_answer rep (cec_msg_request_arc_termination m rep) (cec_msg_terminate_arc n rep') \<and>
    expects_answer rep (cec_msg_request_current_latency m rep pa)
      (cec_msg_report_current_latency n pa vl ll oc dl)"
  by (intro conjI) (use assms in \<open>simp_all add: expects_answer_def request_defs Let_def
        group_built_opcode short_opcode\<close>)

lemma requests_expect_their_answers_witness:
  "expects_answer 1 (cec_msg_request_active_source cec_zero 1) (cec_msg_active_source cec_zero 0x1000)"
  by (rule conjunct1 [OF requests_expect_their_answers
        [where rep = 1 and m = cec_zero and n = cec_zero and pa = "0x1000"]]) simp

end
