(* ===== verification/Cec_Address.thy ===== *)
theory Cec_Address
  imports Cec_Core Cec_Opcodes
begin

text \<open>
  Logical addresses of \<^verbatim>\<open>linux/cec.h\<close>: the sixteen addresses, the masks of the device
  classes, the tests on an adapter's address mask, and the tests that identify the
  special devices from \<^verbatim>\<open>struct cec_log_addrs\<close>.
\<close>

section \<open>Addresses and masks\<close>

abbreviation (input) CEC_LOG_ADDR_TV :: nat where "CEC_LOG_ADDR_TV \<equiv> 0"
abbreviation (input) CEC_LOG_ADDR_RECORD_1 :: nat where "CEC_LOG_ADDR_RECORD_1 \<equiv> 1"
abbreviation (input) CEC_LOG_ADDR_RECORD_2 :: nat where "CEC_LOG_ADDR_RECORD_2 \<equiv> 2"
abbreviation (input) CEC_LOG_ADDR_TUNER_1 :: nat where "CEC_LOG_ADDR_TUNER_1 \<equiv> 3"
abbreviation (input) CEC_LOG_ADDR_PLAYBACK_1 :: nat where "CEC_LOG_ADDR_PLAYBACK_1 \<equiv> 4"
abbreviation (input) CEC_LOG_ADDR_AUDIOSYSTEM :: nat where "CEC_LOG_ADDR_AUDIOSYSTEM \<equiv> 5"
abbreviation (input) CEC_LOG_ADDR_TUNER_2 :: nat where "CEC_LOG_ADDR_TUNER_2 \<equiv> 6"
abbreviation (input) CEC_LOG_ADDR_TUNER_3 :: nat where "CEC_LOG_ADDR_TUNER_3 \<equiv> 7"
abbreviation (input) CEC_LOG_ADDR_PLAYBACK_2 :: nat where "CEC_LOG_ADDR_PLAYBACK_2 \<equiv> 8"
abbreviation (input) CEC_LOG_ADDR_RECORD_3 :: nat where "CEC_LOG_ADDR_RECORD_3 \<equiv> 9"
abbreviation (input) CEC_LOG_ADDR_TUNER_4 :: nat where "CEC_LOG_ADDR_TUNER_4 \<equiv> 10"
abbreviation (input) CEC_LOG_ADDR_PLAYBACK_3 :: nat where "CEC_LOG_ADDR_PLAYBACK_3 \<equiv> 11"
abbreviation (input) CEC_LOG_ADDR_BACKUP_1 :: nat where "CEC_LOG_ADDR_BACKUP_1 \<equiv> 12"
abbreviation (input) CEC_LOG_ADDR_BACKUP_2 :: nat where "CEC_LOG_ADDR_BACKUP_2 \<equiv> 13"
abbreviation (input) CEC_LOG_ADDR_SPECIFIC :: nat where "CEC_LOG_ADDR_SPECIFIC \<equiv> 14"
abbreviation (input) CEC_LOG_ADDR_UNREGISTERED :: nat where "CEC_LOG_ADDR_UNREGISTERED \<equiv> 15"

definition CEC_LOG_ADDR_MASK_TV :: u16 where
  "CEC_LOG_ADDR_MASK_TV = push_bit CEC_LOG_ADDR_TV 1"

definition CEC_LOG_ADDR_MASK_RECORD :: u16 where
  "CEC_LOG_ADDR_MASK_RECORD = push_bit CEC_LOG_ADDR_RECORD_1 1 OR
     push_bit CEC_LOG_ADDR_RECORD_2 1 OR push_bit CEC_LOG_ADDR_RECORD_3 1"

definition CEC_LOG_ADDR_MASK_TUNER :: u16 where
  "CEC_LOG_ADDR_MASK_TUNER = push_bit CEC_LOG_ADDR_TUNER_1 1 OR push_bit CEC_LOG_ADDR_TUNER_2 1 OR
     push_bit CEC_LOG_ADDR_TUNER_3 1 OR push_bit CEC_LOG_ADDR_TUNER_4 1"

definition CEC_LOG_ADDR_MASK_PLAYBACK :: u16 where
  "CEC_LOG_ADDR_MASK_PLAYBACK = push_bit CEC_LOG_ADDR_PLAYBACK_1 1 OR
     push_bit CEC_LOG_ADDR_PLAYBACK_2 1 OR push_bit CEC_LOG_ADDR_PLAYBACK_3 1"

definition CEC_LOG_ADDR_MASK_AUDIOSYSTEM :: u16 where
  "CEC_LOG_ADDR_MASK_AUDIOSYSTEM = push_bit CEC_LOG_ADDR_AUDIOSYSTEM 1"

definition CEC_LOG_ADDR_MASK_BACKUP :: u16 where
  "CEC_LOG_ADDR_MASK_BACKUP = push_bit CEC_LOG_ADDR_BACKUP_1 1 OR push_bit CEC_LOG_ADDR_BACKUP_2 1"

definition CEC_LOG_ADDR_MASK_SPECIFIC :: u16 where
  "CEC_LOG_ADDR_MASK_SPECIFIC = push_bit CEC_LOG_ADDR_SPECIFIC 1"

definition CEC_LOG_ADDR_MASK_UNREGISTERED :: u16 where
  "CEC_LOG_ADDR_MASK_UNREGISTERED = push_bit CEC_LOG_ADDR_UNREGISTERED 1"

lemmas log_addr_masks =
  CEC_LOG_ADDR_MASK_TV_def CEC_LOG_ADDR_MASK_RECORD_def CEC_LOG_ADDR_MASK_TUNER_def
  CEC_LOG_ADDR_MASK_PLAYBACK_def CEC_LOG_ADDR_MASK_AUDIOSYSTEM_def CEC_LOG_ADDR_MASK_BACKUP_def
  CEC_LOG_ADDR_MASK_SPECIFIC_def CEC_LOG_ADDR_MASK_UNREGISTERED_def

section \<open>Tests on an address mask\<close>

text \<open>The C functions return the selected bits as an \<^verbatim>\<open>int\<close>, to be tested for zero.\<close>

definition cec_has_tv :: "u16 \<Rightarrow> c_int" where
  "cec_has_tv log_addr_mask = uint (log_addr_mask AND CEC_LOG_ADDR_MASK_TV)"

definition cec_has_record :: "u16 \<Rightarrow> c_int" where
  "cec_has_record log_addr_mask = uint (log_addr_mask AND CEC_LOG_ADDR_MASK_RECORD)"

definition cec_has_tuner :: "u16 \<Rightarrow> c_int" where
  "cec_has_tuner log_addr_mask = uint (log_addr_mask AND CEC_LOG_ADDR_MASK_TUNER)"

definition cec_has_playback :: "u16 \<Rightarrow> c_int" where
  "cec_has_playback log_addr_mask = uint (log_addr_mask AND CEC_LOG_ADDR_MASK_PLAYBACK)"

definition cec_has_audiosystem :: "u16 \<Rightarrow> c_int" where
  "cec_has_audiosystem log_addr_mask = uint (log_addr_mask AND CEC_LOG_ADDR_MASK_AUDIOSYSTEM)"

definition cec_has_backup :: "u16 \<Rightarrow> c_int" where
  "cec_has_backup log_addr_mask = uint (log_addr_mask AND CEC_LOG_ADDR_MASK_BACKUP)"

definition cec_has_specific :: "u16 \<Rightarrow> c_int" where
  "cec_has_specific log_addr_mask = uint (log_addr_mask AND CEC_LOG_ADDR_MASK_SPECIFIC)"

definition cec_is_unregistered :: "u16 \<Rightarrow> c_int" where
  "cec_is_unregistered log_addr_mask = uint (log_addr_mask AND CEC_LOG_ADDR_MASK_UNREGISTERED)"

definition cec_is_unconfigured :: "u16 \<Rightarrow> bool" where
  "cec_is_unconfigured log_addr_mask \<longleftrightarrow> log_addr_mask = 0"

text \<open>The classes the masks stand for, and the class of each address.\<close>

datatype device_class =
  Tv | Recorder | Tuner | Playback | Audiosystem | Backup | Specific | Unregistered

fun device_class_of :: "nat \<Rightarrow> device_class" where
  "device_class_of a =
     (if a = 0 then Tv
      else if a \<in> {1, 2, 9} then Recorder
      else if a \<in> {3, 6, 7, 10} then Tuner
      else if a \<in> {4, 8, 11} then Playback
      else if a = 5 then Audiosystem
      else if a \<in> {12, 13} then Backup
      else if a = 14 then Specific
      else Unregistered)"

fun has_class :: "device_class \<Rightarrow> u16 \<Rightarrow> c_int" where
  "has_class Tv = cec_has_tv"
| "has_class Recorder = cec_has_record"
| "has_class Tuner = cec_has_tuner"
| "has_class Playback = cec_has_playback"
| "has_class Audiosystem = cec_has_audiosystem"
| "has_class Backup = cec_has_backup"
| "has_class Specific = cec_has_specific"
| "has_class Unregistered = cec_is_unregistered"

lemmas has_class_defs =
  cec_has_tv_def cec_has_record_def cec_has_tuner_def cec_has_playback_def
  cec_has_audiosystem_def cec_has_backup_def cec_has_specific_def cec_is_unregistered_def

definition class_mask :: "device_class \<Rightarrow> u16" where
  "class_mask c = (case c of
     Tv \<Rightarrow> CEC_LOG_ADDR_MASK_TV | Recorder \<Rightarrow> CEC_LOG_ADDR_MASK_RECORD
   | Tuner \<Rightarrow> CEC_LOG_ADDR_MASK_TUNER | Playback \<Rightarrow> CEC_LOG_ADDR_MASK_PLAYBACK
   | Audiosystem \<Rightarrow> CEC_LOG_ADDR_MASK_AUDIOSYSTEM | Backup \<Rightarrow> CEC_LOG_ADDR_MASK_BACKUP
   | Specific \<Rightarrow> CEC_LOG_ADDR_MASK_SPECIFIC | Unregistered \<Rightarrow> CEC_LOG_ADDR_MASK_UNREGISTERED)"

lemma has_class_mask: "has_class c addrs = uint (addrs AND class_mask c)"
  by (cases c) (simp_all add: class_mask_def has_class_defs)

lemma below_16:
  "a < 16 \<Longrightarrow> a \<in> {0, 1, 2, 3, 4, 5, 6, 7, 8, 9, 10, 11, 12, 13, 14, 15 :: nat}"
  by (simp; presburger)

lemma bit_class_mask: "a < 16 \<Longrightarrow> bit (class_mask c) a \<longleftrightarrow> device_class_of a = c"
  by (drule below_16; cases c) (auto simp: class_mask_def log_addr_masks bit_simps)

lemma word_nonzero_bit: "(w :: u16) \<noteq> 0 \<longleftrightarrow> (\<exists>a < 16. bit w a)"
  by (auto simp: bit_eq_iff dest: bit_less)

lemma has_class_iff:
  "has_class c addrs \<noteq> 0 \<longleftrightarrow> (\<exists>a < 16. bit addrs a \<and> device_class_of a = c)"
proof -
  have "has_class c addrs \<noteq> 0 \<longleftrightarrow> addrs AND class_mask c \<noteq> 0"
    by (simp add: has_class_mask unsigned_eq_0_iff)
  also have "\<dots> \<longleftrightarrow> (\<exists>a < 16. bit addrs a \<and> device_class_of a = c)"
    unfolding word_nonzero_bit by (auto simp: bit_and_iff bit_class_mask simp del: device_class_of.simps)
  finally show ?thesis .
qed

section \<open>Special devices\<close>

abbreviation (input) CEC_LOG_ADDRS_FL_CDC_ONLY :: u32 where
  "CEC_LOG_ADDRS_FL_CDC_ONLY \<equiv> push_bit 2 1"

record cec_log_addrs =
  las_log_addr :: "u8 list"
  las_log_addr_mask :: u16
  las_cec_version :: u8
  las_num_log_addrs :: u8
  las_vendor_id :: u32
  las_flags :: u32
  las_osd_name :: "u8 list"
  las_primary_device_type :: "u8 list"
  las_log_addr_type :: "u8 list"
  las_all_device_types :: "u8 list"
  las_features :: "u8 list list"

definition cec_is_2nd_tv :: "cec_log_addrs \<Rightarrow> bool" where
  "cec_is_2nd_tv las \<longleftrightarrow> las_num_log_addrs las \<noteq> 0 \<and>
     las_log_addr las ! 0 \<ge> of_nat CEC_LOG_ADDR_SPECIFIC \<and>
     las_primary_device_type las ! 0 = CEC_OP_PRIM_DEVTYPE_TV"

definition cec_is_processor :: "cec_log_addrs \<Rightarrow> bool" where
  "cec_is_processor las \<longleftrightarrow> las_num_log_addrs las \<noteq> 0 \<and>
     las_log_addr las ! 0 \<ge> of_nat CEC_LOG_ADDR_BACKUP_1 \<and>
     las_primary_device_type las ! 0 = CEC_OP_PRIM_DEVTYPE_PROCESSOR"

definition cec_is_switch :: "cec_log_addrs \<Rightarrow> bool" where
  "cec_is_switch las \<longleftrightarrow> las_num_log_addrs las = 1 \<and>
     las_log_addr las ! 0 = of_nat CEC_LOG_ADDR_UNREGISTERED \<and>
     las_primary_device_type las ! 0 = CEC_OP_PRIM_DEVTYPE_SWITCH \<and>
     las_flags las AND CEC_LOG_ADDRS_FL_CDC_ONLY = 0"

definition cec_is_cdc_only :: "cec_log_addrs \<Rightarrow> bool" where
  "cec_is_cdc_only las \<longleftrightarrow> las_num_log_addrs las = 1 \<and>
     las_log_addr las ! 0 = of_nat CEC_LOG_ADDR_UNREGISTERED \<and>
     las_primary_device_type las ! 0 = CEC_OP_PRIM_DEVTYPE_SWITCH \<and>
     las_flags las AND CEC_LOG_ADDRS_FL_CDC_ONLY \<noteq> 0"

lemmas special_device_defs =
  cec_is_2nd_tv_def cec_is_processor_def cec_is_switch_def cec_is_cdc_only_def

text \<open>What makes a device special, as the comments in the header put it.\<close>

datatype special = Second_tv | Processor | Switch | Cdc_only

definition special_of :: "cec_log_addrs \<Rightarrow> special option" where
  "special_of las =
     (let a = unat (las_log_addr las ! 0); t = las_primary_device_type las ! 0 in
      if las_num_log_addrs las = 0 then None
      else if t = CEC_OP_PRIM_DEVTYPE_TV \<and> 14 \<le> a then Some Second_tv
      else if t = CEC_OP_PRIM_DEVTYPE_PROCESSOR \<and> 12 \<le> a then Some Processor
      else if t = CEC_OP_PRIM_DEVTYPE_SWITCH \<and> a = 15 \<and> las_num_log_addrs las = 1
      then Some (if bit (las_flags las) 2 then Cdc_only else Switch)
      else None)"

fun is_special :: "special \<Rightarrow> cec_log_addrs \<Rightarrow> bool" where
  "is_special Second_tv = cec_is_2nd_tv"
| "is_special Processor = cec_is_processor"
| "is_special Switch = cec_is_switch"
| "is_special Cdc_only = cec_is_cdc_only"

lemma flag_bit: "(w :: u32) AND push_bit n 1 \<noteq> 0 \<longleftrightarrow> bit w n"
  by (simp add: bit_iff_and_push_bit_not_eq_0)

lemma is_special_iff: "is_special s las \<longleftrightarrow> special_of las = Some s"
  using flag_bit [of "las_flags las" 2]
  by (cases s) (auto simp: special_device_defs special_of_def Let_def word_le_nat_alt
      word_unat_eq_iff)

section \<open>Properties\<close>

text \<open>The eight tests on an address mask partition the sixteen logical addresses: a test is
  nonzero exactly when the mask holds an address of its class, and the mask is unconfigured
  exactly when every test is zero.\<close>

theorem address_classes:
  "(has_class c addrs \<noteq> 0 \<longleftrightarrow> (\<exists>a < 16. bit addrs a \<and> device_class_of a = c)) \<and>
   (cec_is_unconfigured addrs \<longleftrightarrow>
     cec_has_tv addrs = 0 \<and> cec_has_record addrs = 0 \<and> cec_has_tuner addrs = 0 \<and>
     cec_has_playback addrs = 0 \<and> cec_has_audiosystem addrs = 0 \<and> cec_has_backup addrs = 0 \<and>
     cec_has_specific addrs = 0 \<and> cec_is_unregistered addrs = 0)"
proof
  have "cec_is_unconfigured addrs \<longleftrightarrow> (\<forall>c. has_class c addrs = 0)"
    using word_nonzero_bit [of addrs] has_class_iff by (auto simp: cec_is_unconfigured_def)
  also have "\<dots> \<longleftrightarrow>
     cec_has_tv addrs = 0 \<and> cec_has_record addrs = 0 \<and> cec_has_tuner addrs = 0 \<and>
     cec_has_playback addrs = 0 \<and> cec_has_audiosystem addrs = 0 \<and> cec_has_backup addrs = 0 \<and>
     cec_has_specific addrs = 0 \<and> cec_is_unregistered addrs = 0"
    by (metis device_class.exhaust has_class.simps)
  finally show "cec_is_unconfigured addrs \<longleftrightarrow>
     cec_has_tv addrs = 0 \<and> cec_has_record addrs = 0 \<and> cec_has_tuner addrs = 0 \<and>
     cec_has_playback addrs = 0 \<and> cec_has_audiosystem addrs = 0 \<and> cec_has_backup addrs = 0 \<and>
     cec_has_specific addrs = 0 \<and> cec_is_unregistered addrs = 0" .
qed (rule has_class_iff)

text \<open>The tests for the special devices decide what the comments above them describe, from the
  first logical address, its primary device type, the number of addresses and the CDC-only
  flag, and a device is at most one of the four.\<close>

lemma special_devices:
  "(cec_is_2nd_tv las \<longleftrightarrow> special_of las = Some Second_tv) \<and>
   (cec_is_processor las \<longleftrightarrow> special_of las = Some Processor) \<and>
   (cec_is_switch las \<longleftrightarrow> special_of las = Some Switch) \<and>
   (cec_is_cdc_only las \<longleftrightarrow> special_of las = Some Cdc_only)"
  using is_special_iff [of Second_tv las] is_special_iff [of Processor las]
    is_special_iff [of Switch las] is_special_iff [of Cdc_only las]
  by simp

end
