(* ===== verification/Queue_Base.thy ===== *)
theory Queue_Base
  imports Main
begin

text \<open>
  What the six list and queue kinds of \<^verbatim>\<open>sys/queue.h\<close> share: the addresses their macros
  store, paths through next pointers, the loops that walk them, and the interfaces
  \<^verbatim>\<open>linked_list\<close> and \<^verbatim>\<open>linked_queue\<close> with the refinement of operation sequences to plain
  lists, proved once from the contracts.  Elements and heads are identified by numbers;
  \<^verbatim>\<open>None\<close> is the null pointer, and an operation that would dereference it has no result.
\<close>

type_synonym elm = nat
type_synonym head = nat

text \<open>
  Where a pointer to a pointer can point: \<^verbatim>\<open>&(head)->first\<close> or \<^verbatim>\<open>&(elm)->field.next\<close>.
\<close>

datatype slot = Head_slot head | Next_slot elm

section \<open>Paths\<close>

fun seg :: "(elm \<Rightarrow> elm option) \<Rightarrow> elm option \<Rightarrow> elm list \<Rightarrow> elm option \<Rightarrow> bool" where
  "seg nx p [] q \<longleftrightarrow> p = q"
| "seg nx p (x # xs) q \<longleftrightarrow> p = Some x \<and> seg nx (nx x) xs q"

abbreviation chain :: "(elm \<Rightarrow> elm option) \<Rightarrow> elm option \<Rightarrow> elm list \<Rightarrow> bool" where
  "chain nx p xs \<equiv> seg nx p xs None"

definition hd_opt :: "'a list \<Rightarrow> 'a option" where
  "hd_opt xs = (case xs of [] \<Rightarrow> None | x # _ \<Rightarrow> Some x)"

lemma hd_opt_simps [simp]: "hd_opt [] = None" "hd_opt (x # xs) = Some x"
  by (simp_all add: hd_opt_def)

lemma seg_append [simp]: "seg nx p (xs @ ys) q \<longleftrightarrow> (\<exists>r. seg nx p xs r \<and> seg nx r ys q)"
  by (induction xs arbitrary: p) auto

lemma seg_upd [simp]: "x \<notin> set xs \<Longrightarrow> seg (nx(x := v)) p xs q = seg nx p xs q"
  by (induction xs arbitrary: p) auto

lemma seg_cong: "\<forall>x \<in> set xs. nx' x = nx x \<Longrightarrow> seg nx' p xs q = seg nx p xs q"
  by (induction xs arbitrary: p) auto

lemma chain_hd: "chain nx p xs \<Longrightarrow> p = hd_opt xs"
  by (cases xs) auto

lemma chain_unique: "chain nx p xs \<Longrightarrow> chain nx p ys \<Longrightarrow> xs = ys"
proof (induction xs arbitrary: p ys)
  case (Cons x xs)
  then show ?case by (cases ys) auto
qed (auto elim: seg.elims)

lemma chain_start: "chain nx (Some x) xs \<Longrightarrow> \<exists>ys. xs = x # ys \<and> chain nx (nx x) ys"
  by (cases xs) auto

lemma chain_distinct: "chain nx p xs \<Longrightarrow> distinct xs"
proof (induction xs arbitrary: p)
  case (Cons x xs)
  have "x \<notin> set xs"
  proof
    assume "x \<in> set xs"
    then obtain as bs where xs: "xs = as @ x # bs" by (meson split_list)
    with Cons.prems have "chain nx (nx x) bs" and "chain nx (nx x) xs" by auto
    then have "bs = xs" by (rule chain_unique)
    with xs show False by simp
  qed
  with Cons show ?case by auto
qed simp

lemma chain_next: "chain nx p (xs @ x # ys) \<Longrightarrow> nx x = hd_opt ys"
  by (auto dest: chain_hd)

text \<open>What the pointer updates of the macros do to a chain.\<close>

lemma chain_insert_after:
  assumes "chain nx p (xs @ x # ys)" and "e \<notin> set (xs @ x # ys)"
  shows "chain (nx(e := nx x, x := Some e)) p (xs @ x # e # ys)"
  using assms chain_distinct [OF assms(1)] by auto

lemma chain_insert_tail:
  assumes "chain nx p (xs @ [b])" and "e \<notin> set (xs @ [b])"
  shows "chain (nx(e := None, b := Some e)) p (xs @ [b, e])"
  using assms chain_distinct [OF assms(1)] by auto

lemma chain_remove_after:
  assumes "chain nx p (xs @ b # x # ys)"
  shows "chain (nx(b := nx x)) p (xs @ b # ys)"
  using assms chain_distinct [OF assms(1)] by auto

lemma rev_cases2:
  obtains "xs = []" | as b where "xs = as @ [b]"
  by (cases xs rule: rev_cases) auto

text \<open>The slot that holds the pointer to what comes after \<open>xs\<close>.\<close>

definition slot_after :: "head \<Rightarrow> elm list \<Rightarrow> slot" where
  "slot_after h xs = (if xs = [] then Head_slot h else Next_slot (last xs))"

lemma slot_after_simps [simp]:
  "slot_after h [] = Head_slot h" "slot_after h (xs @ [x]) = Next_slot x"
  by (simp_all add: slot_after_def)

text \<open>Backward pointers: each element holds the address of the pointer to it.\<close>

fun backlinked :: "(elm \<Rightarrow> slot) \<Rightarrow> slot \<Rightarrow> elm list \<Rightarrow> bool" where
  "backlinked pv sl [] \<longleftrightarrow> True"
| "backlinked pv sl (x # xs) \<longleftrightarrow> pv x = sl \<and> backlinked pv (Next_slot x) xs"

lemma backlinked_append [simp]:
  "backlinked pv sl (xs @ ys) \<longleftrightarrow> backlinked pv sl xs \<and> backlinked pv (if xs = [] then sl else Next_slot (last xs)) ys"
  by (induction xs arbitrary: sl) auto

lemma backlinked_upd [simp]: "x \<notin> set xs \<Longrightarrow> backlinked (pv(x := v)) sl xs = backlinked pv sl xs"
  by (induction xs arbitrary: sl) auto

lemma backlinked_cong: "\<forall>x \<in> set xs. pv' x = pv x \<Longrightarrow> backlinked pv' sl xs = backlinked pv sl xs"
  by (induction xs arbitrary: sl) auto

section \<open>Loops\<close>

text \<open>
  \<^verbatim>\<open>while (curelm->next != elm) curelm = curelm->next\<close>; there is no result when the walk
  runs into the null pointer.
\<close>

partial_function (option) find_prev :: "(elm \<Rightarrow> elm option) \<Rightarrow> elm \<Rightarrow> elm \<Rightarrow> elm option" where
  "find_prev nx e curelm =
     (if nx curelm \<noteq> Some e
      then (case nx curelm of None \<Rightarrow> None | Some c \<Rightarrow> find_prev nx e c)
      else Some curelm)"

text \<open>\<^verbatim>\<open>for (var = first; var; var = var->next)\<close>, and the elements it visits.\<close>

partial_function (option) foreach :: "(elm \<Rightarrow> elm option) \<Rightarrow> elm option \<Rightarrow> elm list option" where
  "foreach nx var =
     (case var of None \<Rightarrow> Some []
      | Some x \<Rightarrow> Option.bind (foreach nx (nx x)) (\<lambda>xs. Some (x # xs)))"

lemma foreach_chain: "chain nx p xs \<Longrightarrow> foreach nx p = Some xs"
proof (induction xs arbitrary: p)
  case Nil then show ?case by (subst foreach.simps) simp
next
  case (Cons x xs) then show ?case by (subst foreach.simps) simp
qed

lemma find_prev_found:
  "seg nx (Some c) (xs @ [b]) (Some e) \<Longrightarrow> e \<notin> set xs \<union> {b} \<Longrightarrow> find_prev nx e c = Some b"
proof (induction xs arbitrary: c)
  case Nil then show ?case by (subst find_prev.simps) auto
next
  case (Cons x xs)
  then have "nx c = Some (hd (xs @ [b]))" "seg nx (nx c) (xs @ [b]) (Some e)"
    by (cases xs; auto)+
  moreover have "hd (xs @ [b]) \<noteq> e" using Cons.prems(2) by (cases xs) auto
  ultimately show ?case
    using Cons.IH [of "hd (xs @ [b])"] Cons.prems(2) by (subst find_prev.simps) auto
qed

lemma find_prev_absent: "chain nx (Some c) xs \<Longrightarrow> e \<notin> set xs \<Longrightarrow> find_prev nx e c = None"
proof (induction xs arbitrary: c)
  case (Cons x xs)
  show ?case
  proof (cases xs)
    case Nil with Cons.prems show ?thesis by (subst find_prev.simps) auto
  next
    case (Cons y ys)
    with Cons.prems Cons.IH [of y] show ?thesis by (subst find_prev.simps) auto
  qed
qed simp

section \<open>The abstract lists\<close>

fun list_insert_after :: "elm \<Rightarrow> elm \<Rightarrow> elm list \<Rightarrow> elm list" where
  "list_insert_after x e [] = []"
| "list_insert_after x e (y # ys) = (if y = x then y # e # ys else y # list_insert_after x e ys)"

lemma list_insert_after_split:
  "x \<notin> set xs \<Longrightarrow> list_insert_after x e (xs @ x # ys) = xs @ x # e # ys"
  by (induction xs) auto

datatype list_op = Insert_head elm | Insert_after elm elm | Remove elm

fun list_step :: "list_op \<Rightarrow> elm list \<Rightarrow> elm list option" where
  "list_step (Insert_head e) xs = (if e \<in> set xs then None else Some (e # xs))"
| "list_step (Insert_after x e) xs =
     (if x \<in> set xs \<and> e \<notin> set xs then Some (list_insert_after x e xs) else None)"
| "list_step (Remove x) xs = (if x \<in> set xs then Some (remove1 x xs) else None)"

datatype queue_op = List_op list_op | Insert_tail elm

fun queue_step :: "queue_op \<Rightarrow> elm list \<Rightarrow> elm list option" where
  "queue_step (List_op f) xs = list_step f xs"
| "queue_step (Insert_tail e) xs = (if e \<in> set xs then None else Some (xs @ [e]))"

text \<open>The same operations on a store, by the functions that implement them.\<close>

fun store_step :: "(elm \<Rightarrow> 's \<Rightarrow> 's) \<Rightarrow> (elm \<Rightarrow> elm \<Rightarrow> 's \<Rightarrow> 's) \<Rightarrow> (elm \<Rightarrow> 's \<Rightarrow> 's option) \<Rightarrow>
  list_op \<Rightarrow> 's \<Rightarrow> 's option" where
  "store_step insh insa rem (Insert_head e) s = Some (insh e s)"
| "store_step insh insa rem (Insert_after x e) s = Some (insa x e s)"
| "store_step insh insa rem (Remove x) s = rem x s"

fun store_queue_step :: "(elm \<Rightarrow> 's \<Rightarrow> 's) \<Rightarrow> (elm \<Rightarrow> elm \<Rightarrow> 's \<Rightarrow> 's) \<Rightarrow> (elm \<Rightarrow> 's \<Rightarrow> 's option) \<Rightarrow>
  (elm \<Rightarrow> 's \<Rightarrow> 's) \<Rightarrow> queue_op \<Rightarrow> 's \<Rightarrow> 's option" where
  "store_queue_step insh insa rem inst (List_op f) s = store_step insh insa rem f s"
| "store_queue_step insh insa rem inst (Insert_tail e) s = Some (inst e s)"

fun run :: "('o \<Rightarrow> 's \<Rightarrow> 's option) \<Rightarrow> 'o list \<Rightarrow> 's \<Rightarrow> 's option" where
  "run f [] s = Some s"
| "run f (x # xs) s = Option.bind (f x s) (run f xs)"

text \<open>Simulation of single steps carries over to runs.\<close>

lemma run_simulates:
  assumes step: "\<And>x s xs ys. R s xs \<Longrightarrow> f x xs = Some ys \<Longrightarrow> \<exists>s'. g x s = Some s' \<and> R s' ys"
    and "R s xs" and "run f ops xs = Some ys"
  shows "\<exists>s'. run g ops s = Some s' \<and> R s' ys"
  using assms(2,3)
proof (induction ops arbitrary: s xs)
  case (Cons x ops)
  then obtain zs where zs: "f x xs = Some zs" "run f ops zs = Some ys"
    by (auto simp: bind_eq_Some_conv)
  from step [OF Cons.prems(1) zs(1)] obtain t where "g x s = Some t" "R t zs" by blast
  with Cons.IH [OF _ zs(2)] show ?case by auto
qed simp

section \<open>The interfaces\<close>

text \<open>
  \<open>holds s h xs\<close>: in store \<open>s\<close> the head \<open>h\<close> heads the elements \<open>xs\<close>.  Every operation has
  a frame law: a list under another head that shares no element is not disturbed.
\<close>

locale linked_list =
  fixes holds :: "'s \<Rightarrow> head \<Rightarrow> elm list \<Rightarrow> bool"
    and init :: "head \<Rightarrow> 's \<Rightarrow> 's"
    and first :: "head \<Rightarrow> 's \<Rightarrow> elm option"
    and nxt :: "head \<Rightarrow> elm \<Rightarrow> 's \<Rightarrow> elm option"
    and insert_head :: "head \<Rightarrow> elm \<Rightarrow> 's \<Rightarrow> 's"
    and insert_after :: "head \<Rightarrow> elm \<Rightarrow> elm \<Rightarrow> 's \<Rightarrow> 's"
    and remove :: "head \<Rightarrow> elm \<Rightarrow> 's \<Rightarrow> 's option"
  assumes holds_chain: "holds s h xs \<Longrightarrow> chain (\<lambda>x. nxt h x s) (first h s) xs"
    and init_holds: "holds (init h s) h []"
    and init_frame: "holds s g zs \<Longrightarrow> g \<noteq> h \<Longrightarrow> holds (init h s) g zs"
    and insert_head_holds: "holds s h xs \<Longrightarrow> e \<notin> set xs \<Longrightarrow> holds (insert_head h e s) h (e # xs)"
    and insert_head_frame: "holds s h xs \<Longrightarrow> e \<notin> set xs \<Longrightarrow> holds s g zs \<Longrightarrow> g \<noteq> h \<Longrightarrow>
      set zs \<inter> (insert e (set xs)) = {} \<Longrightarrow> holds (insert_head h e s) g zs"
    and insert_after_holds: "holds s h (xs @ x # ys) \<Longrightarrow> e \<notin> set (xs @ x # ys) \<Longrightarrow>
      holds (insert_after h x e s) h (xs @ x # e # ys)"
    and insert_after_frame: "holds s h (xs @ x # ys) \<Longrightarrow> e \<notin> set (xs @ x # ys) \<Longrightarrow>
      holds s g zs \<Longrightarrow> g \<noteq> h \<Longrightarrow> set zs \<inter> insert e (set (xs @ x # ys)) = {} \<Longrightarrow>
      holds (insert_after h x e s) g zs"
    and remove_holds: "holds s h (xs @ x # ys) \<Longrightarrow>
      \<exists>s'. remove h x s = Some s' \<and> holds s' h (xs @ ys)"
    and remove_frame: "holds s h (xs @ x # ys) \<Longrightarrow> remove h x s = Some s' \<Longrightarrow>
      holds s g zs \<Longrightarrow> g \<noteq> h \<Longrightarrow> set zs \<inter> set (xs @ x # ys) = {} \<Longrightarrow> holds s' g zs"
begin

lemma contents_distinct: "holds s h xs \<Longrightarrow> distinct xs"
  by (drule holds_chain) (rule chain_distinct)

lemma contents_unique: "holds s h xs \<Longrightarrow> holds s h ys \<Longrightarrow> xs = ys"
  by (blast dest: holds_chain intro: chain_unique)

lemma first_element: "holds s h xs \<Longrightarrow> first h s = hd_opt xs"
  by (drule holds_chain) (rule chain_hd)

lemma next_element: "holds s h (xs @ x # ys) \<Longrightarrow> nxt h x s = hd_opt ys"
  by (drule holds_chain) (rule chain_next)

text \<open>The forward loop visits the contents.\<close>

lemma foreach_contents: "holds s h xs \<Longrightarrow> foreach (\<lambda>x. nxt h x s) (first h s) = Some xs"
  by (drule holds_chain) (rule foreach_chain)

lemma push_all:
  "holds s h xs \<Longrightarrow> distinct (rev es @ xs) \<Longrightarrow> holds (fold (insert_head h) es s) h (rev es @ xs)"
  by (induction es arbitrary: s xs) (auto simp: insert_head_holds)

lemma step_simulates:
  assumes "holds s h xs" and "list_step f xs = Some ys"
  shows "\<exists>s'. store_step (insert_head h) (insert_after h) (remove h) f s = Some s' \<and> holds s' h ys"
proof (cases f)
  case (Insert_head e)
  with assms show ?thesis by (auto simp: insert_head_holds split: if_splits)
next
  case (Insert_after x e)
  with assms obtain as bs where "xs = as @ x # bs" "x \<notin> set as" "e \<notin> set xs"
    by (auto split: if_splits dest: split_list_first)
  with Insert_after assms show ?thesis
    by (auto simp: list_insert_after_split insert_after_holds)
next
  case (Remove x)
  with assms obtain as bs where xs: "xs = as @ x # bs" "x \<notin> set as"
    by (auto split: if_splits dest: split_list_first)
  with Remove assms remove_holds [of s h as x bs] show ?thesis
    by (auto simp: remove1_append)
qed

lemma run_refines:
  "holds s h xs \<Longrightarrow> run list_step ops xs = Some ys \<Longrightarrow>
   \<exists>s'. run (store_step (insert_head h) (insert_after h) (remove h)) ops s = Some s' \<and> holds s' h ys"
  by (rule run_simulates [where R = "\<lambda>s. holds s h"]) (rule step_simulates)

text \<open>Moving an element from one list to another.\<close>

lemma move_head:
  assumes "holds s h (xs @ x # ys)" and "holds s g zs" and "g \<noteq> h"
    and "set zs \<inter> set (xs @ x # ys) = {}"
  shows "\<exists>s'. remove h x s = Some s' \<and> holds (insert_head g x s') h (xs @ ys) \<and>
    holds (insert_head g x s') g (x # zs)"
proof -
  obtain s' where s': "remove h x s = Some s'" "holds s' h (xs @ ys)"
    using remove_holds [OF assms(1)] by blast
  have g: "holds s' g zs" by (rule remove_frame [OF assms(1) s'(1) assms(2-4)])
  have "x \<notin> set zs" using assms(4) by auto
  moreover have "x \<notin> set (xs @ ys)" using contents_distinct [OF assms(1)] by auto
  ultimately show ?thesis
    using s' g assms(3,4) insert_head_holds [OF g, of x] insert_head_frame [OF g _ s'(2), of x]
    by auto
qed

end

text \<open>A list that also grows at its end: the first in is the first out.\<close>

locale linked_queue = linked_list +
  fixes insert_tail :: "head \<Rightarrow> elm \<Rightarrow> 's \<Rightarrow> 's"
  assumes insert_tail_holds: "holds s h xs \<Longrightarrow> e \<notin> set xs \<Longrightarrow>
      holds (insert_tail h e s) h (xs @ [e])"
    and insert_tail_frame: "holds s h xs \<Longrightarrow> e \<notin> set xs \<Longrightarrow> holds s g zs \<Longrightarrow> g \<noteq> h \<Longrightarrow>
      set zs \<inter> insert e (set xs) = {} \<Longrightarrow> holds (insert_tail h e s) g zs"
begin

lemma append_all:
  "holds s h xs \<Longrightarrow> distinct (xs @ es) \<Longrightarrow> holds (fold (insert_tail h) es s) h (xs @ es)"
proof (induction es arbitrary: s xs)
  case (Cons e es)
  then show ?case using Cons.IH [of "insert_tail h e s" "xs @ [e]"] by (auto simp: insert_tail_holds)
qed simp

lemma queue_step_simulates:
  "holds s h xs \<Longrightarrow> queue_step f xs = Some ys \<Longrightarrow>
   \<exists>s'. store_queue_step (insert_head h) (insert_after h) (remove h) (insert_tail h) f s = Some s' \<and>
     holds s' h ys"
  by (cases f) (auto simp: insert_tail_holds step_simulates split: if_splits)

lemma queue_run_refines:
  "holds s h xs \<Longrightarrow> run queue_step ops xs = Some ys \<Longrightarrow>
   \<exists>s'. run (store_queue_step (insert_head h) (insert_after h) (remove h) (insert_tail h)) ops s =
     Some s' \<and> holds s' h ys"
  by (rule run_simulates [where R = "\<lambda>s. holds s h"]) (rule queue_step_simulates)

end

text \<open>A list whose elements know the pointer to them.\<close>

locale linked_before = linked_list +
  fixes insert_before :: "elm \<Rightarrow> elm \<Rightarrow> 's \<Rightarrow> 's"
  assumes insert_before_holds: "holds s h (xs @ x # ys) \<Longrightarrow> e \<notin> set (xs @ x # ys) \<Longrightarrow>
      holds (insert_before x e s) h (xs @ e # x # ys)"
    and insert_before_frame: "holds s h (xs @ x # ys) \<Longrightarrow> e \<notin> set (xs @ x # ys) \<Longrightarrow>
      holds s g zs \<Longrightarrow> g \<noteq> h \<Longrightarrow> set zs \<inter> insert e (set (xs @ x # ys)) = {} \<Longrightarrow>
      holds (insert_before x e s) g zs"
begin

text \<open>Inserting before an element and removing again restores the contents.\<close>

lemma insert_before_remove:
  assumes "holds s h (xs @ x # ys)" and "e \<notin> set (xs @ x # ys)"
  shows "\<exists>s'. remove h e (insert_before x e s) = Some s' \<and> holds s' h (xs @ x # ys)"
  using remove_holds [OF insert_before_holds [OF assms]] .

text \<open>Before one element is after the one that precedes it.\<close>

lemma insert_before_after:
  assumes "holds s h (xs @ w # x # ys)" and "e \<notin> set (xs @ w # x # ys)"
    and "holds (insert_before x e s) h us" and "holds (insert_after h w e s) h vs"
  shows "us = vs"
proof -
  have "holds s h ((xs @ [w]) @ x # ys)" "e \<notin> set ((xs @ [w]) @ x # ys)"
    using assms(1,2) by simp_all
  from insert_before_holds [OF this] insert_after_holds [OF assms(1,2)] assms(3,4)
  show ?thesis by (metis append.assoc append_Cons append_Nil contents_unique)
qed

end

end
