(* ===== verification/Queue_Slist.thy ===== *)
theory Queue_Slist
  imports Queue_Base "HOL-Library.Monad_Syntax"
begin

text \<open>
  Singly linked lists (\<^verbatim>\<open>SLIST_*\<close> of \<^verbatim>\<open>sys/queue.h\<close>): the store, the macros, and the
  interpretation of \<^verbatim>\<open>linked_list\<close>.
\<close>

section \<open>Store and macros\<close>

record slist_store =
  slh_first :: "head \<Rightarrow> elm option"
  sle_next :: "elm \<Rightarrow> elm option"

definition SLIST_INIT :: "head \<Rightarrow> slist_store \<Rightarrow> slist_store" where
  "SLIST_INIT head s = s\<lparr>slh_first := (slh_first s)(head := None)\<rparr>"

definition SLIST_INSERT_AFTER :: "elm \<Rightarrow> elm \<Rightarrow> slist_store \<Rightarrow> slist_store" where
  "SLIST_INSERT_AFTER slistelm elm s =
     (let s = s\<lparr>sle_next := (sle_next s)(elm := sle_next s slistelm)\<rparr>
      in s\<lparr>sle_next := (sle_next s)(slistelm := Some elm)\<rparr>)"

definition SLIST_INSERT_HEAD :: "head \<Rightarrow> elm \<Rightarrow> slist_store \<Rightarrow> slist_store" where
  "SLIST_INSERT_HEAD head elm s =
     (let s = s\<lparr>sle_next := (sle_next s)(elm := slh_first s head)\<rparr>
      in s\<lparr>slh_first := (slh_first s)(head := Some elm)\<rparr>)"

definition SLIST_REMOVE_HEAD :: "head \<Rightarrow> slist_store \<Rightarrow> slist_store option" where
  "SLIST_REMOVE_HEAD head s =
     do { f \<leftarrow> slh_first s head;
          Some (s\<lparr>slh_first := (slh_first s)(head := sle_next s f)\<rparr>) }"

definition SLIST_REMOVE :: "head \<Rightarrow> elm \<Rightarrow> slist_store \<Rightarrow> slist_store option" where
  "SLIST_REMOVE head elm s =
     (if slh_first s head = Some elm then SLIST_REMOVE_HEAD head s
      else do { f \<leftarrow> slh_first s head;
                curelm \<leftarrow> find_prev (sle_next s) elm f;
                n \<leftarrow> sle_next s curelm;
                Some (s\<lparr>sle_next := (sle_next s)(curelm := sle_next s n)\<rparr>) })"

definition SLIST_FOREACH :: "head \<Rightarrow> slist_store \<Rightarrow> elm list option" where
  "SLIST_FOREACH head s = foreach (sle_next s) (slh_first s head)"

definition SLIST_EMPTY :: "head \<Rightarrow> slist_store \<Rightarrow> bool" where
  "SLIST_EMPTY head s \<longleftrightarrow> slh_first s head = None"

definition SLIST_FIRST :: "head \<Rightarrow> slist_store \<Rightarrow> elm option" where
  "SLIST_FIRST head s = slh_first s head"

definition SLIST_NEXT :: "elm \<Rightarrow> slist_store \<Rightarrow> elm option" where
  "SLIST_NEXT elm s = sle_next s elm"

lemmas slist_defs = SLIST_INIT_def SLIST_INSERT_AFTER_def SLIST_INSERT_HEAD_def
  SLIST_REMOVE_HEAD_def SLIST_REMOVE_def SLIST_FIRST_def SLIST_NEXT_def

section \<open>Contents\<close>

definition slist_holds :: "slist_store \<Rightarrow> head \<Rightarrow> elm list \<Rightarrow> bool" where
  "slist_holds s h xs \<longleftrightarrow> chain (sle_next s) (slh_first s h) xs"

lemma slist_remove:
  assumes "slist_holds s h (xs @ x # ys)"
  shows "\<exists>s'. SLIST_REMOVE h x s = Some s' \<and> slist_holds s' h (xs @ ys) \<and>
    (\<forall>e. e \<notin> set (xs @ x # ys) \<longrightarrow> sle_next s' e = sle_next s e) \<and>
    (\<forall>g. g \<noteq> h \<longrightarrow> slh_first s' g = slh_first s g)"
proof (rule rev_cases2 [of xs])
  assume "xs = []"
  with assms show ?thesis by (auto simp: slist_holds_def slist_defs)
next
  fix as b assume xs: "xs = as @ [b]"
  have c: "chain (sle_next s) (slh_first s h) (as @ b # x # ys)"
    using assms by (simp add: slist_holds_def xs)
  note d = chain_distinct [OF c]
  obtain f where f: "slh_first s h = Some f" "f \<noteq> x" "seg (sle_next s) (Some f) (as @ [b]) (Some x)"
    using c d by (cases as) auto
  have "find_prev (sle_next s) x f = Some b"
    by (rule find_prev_found [OF f(3)]) (use d in auto)
  moreover have "sle_next s b = Some x" using c by auto
  ultimately have "SLIST_REMOVE h x s = Some (s\<lparr>sle_next := (sle_next s)(b := sle_next s x)\<rparr>)"
    using f by (simp add: SLIST_REMOVE_def)
  then show ?thesis
    using chain_remove_after [OF c] by (auto simp: slist_holds_def xs)
qed

lemma slist_remove_frame:
  assumes "slist_holds s h (xs @ x # ys)" and "SLIST_REMOVE h x s = Some s'"
    and "slist_holds s g zs" and "g \<noteq> h" and "set zs \<inter> set (xs @ x # ys) = {}"
  shows "slist_holds s' g zs"
proof -
  have "seg (sle_next s') p zs q = seg (sle_next s) p zs q" for p q
    by (rule seg_cong) (use slist_remove [OF assms(1)] assms(2,5) in auto)
  then show ?thesis
    using slist_remove [OF assms(1)] assms(2-4) by (auto simp: slist_holds_def)
qed

interpretation slist: linked_list slist_holds SLIST_INIT SLIST_FIRST "\<lambda>h. SLIST_NEXT"
  SLIST_INSERT_HEAD "\<lambda>h. SLIST_INSERT_AFTER" SLIST_REMOVE
proof
  show "\<exists>s'. SLIST_REMOVE h x s = Some s' \<and> slist_holds s' h (xs @ ys)"
    if "slist_holds s h (xs @ x # ys)" for s h xs x ys
    using slist_remove [OF that] by blast
  show "slist_holds (SLIST_INSERT_AFTER x e s) h (xs @ x # e # ys)"
    if "slist_holds s h (xs @ x # ys)" "e \<notin> set (xs @ x # ys)" for s h xs x ys e
    using chain_insert_after [of "sle_next s" "slh_first s h" xs x ys e] that
    by (auto simp: slist_holds_def slist_defs Let_def)
  show "slist_holds s' g zs"
    if "slist_holds s h (xs @ x # ys)" "SLIST_REMOVE h x s = Some s'" "slist_holds s g zs"
      "g \<noteq> h" "set zs \<inter> set (xs @ x # ys) = {}" for s h xs x ys s' g zs
    by (rule slist_remove_frame [OF that])
qed (auto simp: slist_holds_def slist_defs Let_def)

section \<open>Properties\<close>

text \<open>Any sequence of head insertions, insertions after an element and removals that makes
  sense on the list of contents runs on the linked store without dereferencing a null
  pointer, and the store then holds the resulting list, which the forward loop visits.\<close>

theorem slist_refines_lists:
  assumes "slist_holds s h xs" and "run list_step ops xs = Some ys"
  shows "\<exists>s'. run (store_step (SLIST_INSERT_HEAD h) SLIST_INSERT_AFTER (SLIST_REMOVE h)) ops s = Some s' \<and>
    slist_holds s' h ys \<and> SLIST_FOREACH h s' = Some ys \<and> (SLIST_EMPTY h s' \<longleftrightarrow> ys = [])"
proof -
  obtain s' where s': "run (store_step (SLIST_INSERT_HEAD h) SLIST_INSERT_AFTER (SLIST_REMOVE h)) ops s = Some s'"
    "slist_holds s' h ys"
    using slist.run_refines [OF assms] by blast
  moreover have "SLIST_FOREACH h s' = Some ys"
    using slist.foreach_contents [OF s'(2)] by (simp add: SLIST_FOREACH_def SLIST_NEXT_def SLIST_FIRST_def)
  moreover have "SLIST_EMPTY h s' \<longleftrightarrow> ys = []"
    using slist.first_element [OF s'(2)] by (cases ys) (simp_all add: SLIST_EMPTY_def SLIST_FIRST_def)
  ultimately show ?thesis by blast
qed

lemma slist_refines_lists_witness:
  "\<exists>s'. run (store_step (SLIST_INSERT_HEAD 0) SLIST_INSERT_AFTER (SLIST_REMOVE 0))
      [Insert_head 1, Insert_head 2, Insert_after 2 3, Remove 2]
      \<lparr>slh_first = \<lambda>_. None, sle_next = \<lambda>_. None\<rparr> = Some s' \<and>
    slist_holds s' 0 [3, 1] \<and> SLIST_FOREACH 0 s' = Some [3, 1] \<and> (SLIST_EMPTY 0 s' \<longleftrightarrow> [3, 1] = ([] :: nat list))"
  by (rule slist_refines_lists [where xs = "[]"]) (simp_all add: slist_holds_def)

text \<open>Removing an element that is not in the list has no result: the search runs off the end
  and dereferences the null pointer.\<close>

theorem slist_remove_absent:
  assumes "slist_holds s h xs" and "e \<notin> set xs"
  shows "SLIST_REMOVE h e s = None"
proof (cases xs)
  case Nil
  with assms show ?thesis by (simp add: slist_holds_def SLIST_REMOVE_def)
next
  case (Cons x ys)
  with assms find_prev_absent [of "sle_next s" x xs e] show ?thesis
    by (auto simp: slist_holds_def SLIST_REMOVE_def)
qed

lemma slist_remove_absent_witness:
  "SLIST_REMOVE 0 7 \<lparr>slh_first = \<lambda>_. Some 1, sle_next = \<lambda>_. None\<rparr> = None"
  by (rule slist_remove_absent [where xs = "[1]"]) (simp_all add: slist_holds_def)

end
