(* ===== verification/Queue_List.thy ===== *)
theory Queue_List
  imports Queue_Base
begin

text \<open>
  Lists (\<^verbatim>\<open>LIST_*\<close> of \<^verbatim>\<open>sys/queue.h\<close>): an element holds its successor and the address of
  the pointer to itself, so it is removed without its head and without a search.
\<close>

section \<open>Store and macros\<close>

record list_store =
  lh_first :: "head \<Rightarrow> elm option"
  le_next :: "elm \<Rightarrow> elm option"
  le_prev :: "elm \<Rightarrow> slot"

text \<open>\<^verbatim>\<open>*p = v\<close> through the address of a pointer.\<close>

definition list_put :: "slot \<Rightarrow> elm option \<Rightarrow> list_store \<Rightarrow> list_store" where
  "list_put p v s = (case p of
     Head_slot h \<Rightarrow> s\<lparr>lh_first := (lh_first s)(h := v)\<rparr>
   | Next_slot e \<Rightarrow> s\<lparr>le_next := (le_next s)(e := v)\<rparr>)"

definition LIST_INIT :: "head \<Rightarrow> list_store \<Rightarrow> list_store" where
  "LIST_INIT head s = s\<lparr>lh_first := (lh_first s)(head := None)\<rparr>"

definition LIST_INSERT_AFTER :: "elm \<Rightarrow> elm \<Rightarrow> list_store \<Rightarrow> list_store" where
  "LIST_INSERT_AFTER listelm elm s =
     (let s = s\<lparr>le_next := (le_next s)(elm := le_next s listelm)\<rparr>;
          s = (case le_next s elm of
                 None \<Rightarrow> s
               | Some _ \<Rightarrow> (case le_next s listelm of
                   None \<Rightarrow> s
                 | Some n \<Rightarrow> s\<lparr>le_prev := (le_prev s)(n := Next_slot elm)\<rparr>));
          s = s\<lparr>le_next := (le_next s)(listelm := Some elm)\<rparr>
      in s\<lparr>le_prev := (le_prev s)(elm := Next_slot listelm)\<rparr>)"

definition LIST_INSERT_BEFORE :: "elm \<Rightarrow> elm \<Rightarrow> list_store \<Rightarrow> list_store" where
  "LIST_INSERT_BEFORE listelm elm s =
     (let s = s\<lparr>le_prev := (le_prev s)(elm := le_prev s listelm)\<rparr>;
          s = s\<lparr>le_next := (le_next s)(elm := Some listelm)\<rparr>;
          s = list_put (le_prev s listelm) (Some elm) s
      in s\<lparr>le_prev := (le_prev s)(listelm := Next_slot elm)\<rparr>)"

definition LIST_INSERT_HEAD :: "head \<Rightarrow> elm \<Rightarrow> list_store \<Rightarrow> list_store" where
  "LIST_INSERT_HEAD head elm s =
     (let s = s\<lparr>le_next := (le_next s)(elm := lh_first s head)\<rparr>;
          s = (case lh_first s head of
                 None \<Rightarrow> s
               | Some f \<Rightarrow> s\<lparr>le_prev := (le_prev s)(f := Next_slot elm)\<rparr>);
          s = s\<lparr>lh_first := (lh_first s)(head := Some elm)\<rparr>
      in s\<lparr>le_prev := (le_prev s)(elm := Head_slot head)\<rparr>)"

definition LIST_REMOVE :: "elm \<Rightarrow> list_store \<Rightarrow> list_store" where
  "LIST_REMOVE elm s =
     (let s = (case le_next s elm of
                 None \<Rightarrow> s
               | Some n \<Rightarrow> s\<lparr>le_prev := (le_prev s)(n := le_prev s elm)\<rparr>)
      in list_put (le_prev s elm) (le_next s elm) s)"

definition LIST_FOREACH :: "head \<Rightarrow> list_store \<Rightarrow> elm list option" where
  "LIST_FOREACH head s = foreach (le_next s) (lh_first s head)"

definition LIST_EMPTY :: "head \<Rightarrow> list_store \<Rightarrow> bool" where
  "LIST_EMPTY head s \<longleftrightarrow> lh_first s head = None"

definition LIST_FIRST :: "head \<Rightarrow> list_store \<Rightarrow> elm option" where
  "LIST_FIRST head s = lh_first s head"

definition LIST_NEXT :: "elm \<Rightarrow> list_store \<Rightarrow> elm option" where
  "LIST_NEXT elm s = le_next s elm"

lemmas list_defs = LIST_INIT_def LIST_INSERT_AFTER_def LIST_INSERT_BEFORE_def LIST_INSERT_HEAD_def
  LIST_REMOVE_def LIST_FIRST_def LIST_NEXT_def list_put_def Let_def

section \<open>Contents\<close>

definition list_holds :: "list_store \<Rightarrow> head \<Rightarrow> elm list \<Rightarrow> bool" where
  "list_holds s h xs \<longleftrightarrow>
     chain (le_next s) (lh_first s h) xs \<and> backlinked (le_prev s) (Head_slot h) xs"

text \<open>What an operation does not touch still heads the same elements.\<close>

lemma list_holds_frame:
  assumes "list_holds s g zs" and "lh_first s' g = lh_first s g"
    and "\<forall>z \<in> set zs. le_next s' z = le_next s z \<and> le_prev s' z = le_prev s z"
  shows "list_holds s' g zs"
  using assms seg_cong [of zs "le_next s'" "le_next s"] backlinked_cong [of zs "le_prev s'" "le_prev s"]
  by (simp add: list_holds_def)

lemma list_insert_head:
  assumes "list_holds s h xs" and "e \<notin> set xs"
  shows "list_holds (LIST_INSERT_HEAD h e s) h (e # xs)"
  using assms chain_distinct [of "le_next s" "lh_first s h" xs]
  by (cases xs) (auto simp: list_holds_def list_defs)

lemma list_insert_after:
  assumes "list_holds s h (xs @ x # ys)" and "e \<notin> set (xs @ x # ys)"
  shows "list_holds (LIST_INSERT_AFTER x e s) h (xs @ x # e # ys)"
  using assms chain_distinct [of "le_next s" "lh_first s h" "xs @ x # ys"]
  by (cases ys) (auto simp: list_holds_def list_defs)

lemma list_insert_before:
  assumes "list_holds s h (xs @ x # ys)" and "e \<notin> set (xs @ x # ys)"
  shows "list_holds (LIST_INSERT_BEFORE x e s) h (xs @ e # x # ys)"
  using assms chain_distinct [of "le_next s" "lh_first s h" "xs @ x # ys"]
  by (cases xs rule: rev_cases) (auto simp: list_holds_def list_defs)

lemma list_remove:
  assumes "list_holds s h (xs @ x # ys)"
  shows "list_holds (LIST_REMOVE x s) h (xs @ ys)"
  using assms chain_distinct [of "le_next s" "lh_first s h" "xs @ x # ys"]
  by (cases xs rule: rev_cases; cases ys) (auto simp: list_holds_def list_defs)

text \<open>The pointers an operation at \<open>x\<close> follows stay within the list of \<open>x\<close>.\<close>

lemma list_holds_neighbours:
  assumes "list_holds s h (xs @ x # ys)"
  shows "le_next s x = hd_opt ys" and "le_prev s x = slot_after h xs"
  using assms by (auto simp: list_holds_def slot_after_def dest: chain_hd)

interpretation list: linked_before list_holds LIST_INIT LIST_FIRST "\<lambda>h. LIST_NEXT"
  LIST_INSERT_HEAD "\<lambda>h. LIST_INSERT_AFTER" "\<lambda>h x s. Some (LIST_REMOVE x s)" LIST_INSERT_BEFORE
proof
  show "chain (\<lambda>x. LIST_NEXT x s) (LIST_FIRST h s) xs" if "list_holds s h xs" for s h xs
    using that by (simp add: list_holds_def list_defs)
  show "list_holds (LIST_INSERT_HEAD h e s) g zs"
    if "list_holds s h xs" "e \<notin> set xs" "list_holds s g zs" "g \<noteq> h" "set zs \<inter> insert e (set xs) = {}"
    for s h xs e g zs
    by (rule list_holds_frame [OF that(3)])
      (use that in \<open>cases xs; auto simp: list_holds_def list_defs\<close>)+
  show "list_holds (LIST_INSERT_AFTER x e s) g zs"
    if "list_holds s h (xs @ x # ys)" "e \<notin> set (xs @ x # ys)" "list_holds s g zs" "g \<noteq> h"
      "set zs \<inter> insert e (set (xs @ x # ys)) = {}" for s h xs x ys e g zs
    by (rule list_holds_frame [OF that(3)])
      (use that list_holds_neighbours [OF that(1)] in \<open>cases ys; auto simp: list_defs\<close>)+
  show "list_holds (LIST_INSERT_BEFORE x e s) g zs"
    if "list_holds s h (xs @ x # ys)" "e \<notin> set (xs @ x # ys)" "list_holds s g zs" "g \<noteq> h"
      "set zs \<inter> insert e (set (xs @ x # ys)) = {}" for s h xs x ys e g zs
    by (rule list_holds_frame [OF that(3)])
      (use that list_holds_neighbours [OF that(1)] in
        \<open>cases xs rule: rev_cases; auto simp: list_defs\<close>)+
  show "list_holds s' g zs"
    if "list_holds s h (xs @ x # ys)" "Some (LIST_REMOVE x s) = Some s'" "list_holds s g zs" "g \<noteq> h"
      "set zs \<inter> set (xs @ x # ys) = {}" for s h xs x ys s' g zs
    by (rule list_holds_frame [OF that(3)])
      (use that list_holds_neighbours [OF that(1)] in
        \<open>cases xs rule: rev_cases; cases ys; auto simp: list_defs\<close>)+
qed (simp_all add: list_insert_head list_insert_after list_insert_before list_remove,
    auto simp: list_holds_def list_defs)

section \<open>Properties\<close>

text \<open>C15: A doubly linked list refines a plain list under insertion at the head and after an
  element and removal by element alone; the forward loop visits the contents, and every
  element's back pointer addresses the pointer that leads to it.\<close>

theorem list_refines_lists:
  assumes "list_holds s h xs" and "run list_step ops xs = Some ys"
  shows "\<exists>s'. run (store_step (LIST_INSERT_HEAD h) LIST_INSERT_AFTER (\<lambda>x s. Some (LIST_REMOVE x s))) ops s =
      Some s' \<and>
    LIST_FOREACH h s' = Some ys \<and> (LIST_EMPTY h s' \<longleftrightarrow> ys = []) \<and> backlinked (le_prev s') (Head_slot h) ys"
proof -
  obtain s' where s': "run (store_step (LIST_INSERT_HEAD h) LIST_INSERT_AFTER
      (\<lambda>x s. Some (LIST_REMOVE x s))) ops s = Some s'" "list_holds s' h ys"
    using list.run_refines [OF assms] by blast
  moreover have "LIST_FOREACH h s' = Some ys"
    using list.foreach_contents [OF s'(2)] by (simp add: LIST_FOREACH_def LIST_NEXT_def LIST_FIRST_def)
  moreover have "LIST_EMPTY h s' \<longleftrightarrow> ys = []"
    using list.first_element [OF s'(2)] by (cases ys) (simp_all add: LIST_EMPTY_def LIST_FIRST_def)
  ultimately show ?thesis by (auto simp: list_holds_def)
qed

lemma list_refines_lists_witness:
  "\<exists>s'. run (store_step (LIST_INSERT_HEAD 0) LIST_INSERT_AFTER (\<lambda>x s. Some (LIST_REMOVE x s)))
      [Insert_head 1, Insert_head 2, Insert_after 2 3, Remove 2]
      \<lparr>lh_first = \<lambda>_. None, le_next = \<lambda>_. None, le_prev = \<lambda>_. Head_slot 9\<rparr> = Some s' \<and>
    LIST_FOREACH 0 s' = Some [3, 1] \<and> (LIST_EMPTY 0 s' \<longleftrightarrow> [3, 1] = ([] :: nat list)) \<and>
    backlinked (le_prev s') (Head_slot 0) [3, 1]"
  by (rule list_refines_lists [where xs = "[]"]) (simp_all add: list_holds_def)

text \<open>Inserting before an element, which the macro does without the head, puts the new element
  there, leaves every other list alone, and removing it restores the contents.\<close>

theorem list_insert_before_effect:
  assumes "list_holds s h (xs @ x # ys)" and "e \<notin> set (xs @ x # ys)"
    and "list_holds s g zs" and "g \<noteq> h" and "set zs \<inter> insert e (set (xs @ x # ys)) = {}"
  shows "list_holds (LIST_INSERT_BEFORE x e s) h (xs @ e # x # ys) \<and>
    list_holds (LIST_INSERT_BEFORE x e s) g zs \<and>
    list_holds (LIST_REMOVE e (LIST_INSERT_BEFORE x e s)) h (xs @ x # ys)"
  using list.insert_before_holds [OF assms(1,2)] list.insert_before_frame [OF assms]
    list.insert_before_remove [OF assms(1,2)] by simp

lemma list_insert_before_effect_witness:
  "let s = LIST_INSERT_HEAD 0 1 \<lparr>lh_first = \<lambda>_. None, le_next = \<lambda>_. None, le_prev = \<lambda>_. Head_slot 9\<rparr> in
    list_holds (LIST_INSERT_BEFORE 1 2 s) 0 ([] @ 2 # 1 # []) \<and>
    list_holds (LIST_INSERT_BEFORE 1 2 s) 5 [] \<and>
    list_holds (LIST_REMOVE 2 (LIST_INSERT_BEFORE 1 2 s)) 0 ([] @ 1 # [])"
  unfolding Let_def
  by (rule list_insert_before_effect) (simp_all add: list_holds_def list_defs)

end
