(* ===== verification/Queue_Stailq.thy ===== *)
theory Queue_Stailq
  imports Queue_Base "HOL-Library.Monad_Syntax"
begin

text \<open>
  Singly linked tail queues (\<^verbatim>\<open>STAILQ_*\<close> of \<^verbatim>\<open>sys/queue.h\<close>): a singly linked list whose head
  also holds the address of the last next pointer.
\<close>

section \<open>Store and macros\<close>

record stailq_store =
  stqh_first :: "head \<Rightarrow> elm option"
  stqh_last :: "head \<Rightarrow> slot"
  stqe_next :: "elm \<Rightarrow> elm option"

text \<open>\<^verbatim>\<open>*p = v\<close> through the address of a pointer.\<close>

definition stailq_put :: "slot \<Rightarrow> elm option \<Rightarrow> stailq_store \<Rightarrow> stailq_store" where
  "stailq_put p v s = (case p of
     Head_slot h \<Rightarrow> s\<lparr>stqh_first := (stqh_first s)(h := v)\<rparr>
   | Next_slot e \<Rightarrow> s\<lparr>stqe_next := (stqe_next s)(e := v)\<rparr>)"

definition STAILQ_INIT :: "head \<Rightarrow> stailq_store \<Rightarrow> stailq_store" where
  "STAILQ_INIT head s =
     (let s = s\<lparr>stqh_first := (stqh_first s)(head := None)\<rparr>
      in s\<lparr>stqh_last := (stqh_last s)(head := Head_slot head)\<rparr>)"

definition STAILQ_INSERT_HEAD :: "head \<Rightarrow> elm \<Rightarrow> stailq_store \<Rightarrow> stailq_store" where
  "STAILQ_INSERT_HEAD head elm s =
     (let s = s\<lparr>stqe_next := (stqe_next s)(elm := stqh_first s head)\<rparr>;
          s = (if stqe_next s elm = None
               then s\<lparr>stqh_last := (stqh_last s)(head := Next_slot elm)\<rparr> else s)
      in s\<lparr>stqh_first := (stqh_first s)(head := Some elm)\<rparr>)"

definition STAILQ_INSERT_TAIL :: "head \<Rightarrow> elm \<Rightarrow> stailq_store \<Rightarrow> stailq_store" where
  "STAILQ_INSERT_TAIL head elm s =
     (let s = s\<lparr>stqe_next := (stqe_next s)(elm := None)\<rparr>;
          s = stailq_put (stqh_last s head) (Some elm) s
      in s\<lparr>stqh_last := (stqh_last s)(head := Next_slot elm)\<rparr>)"

definition STAILQ_INSERT_AFTER :: "head \<Rightarrow> elm \<Rightarrow> elm \<Rightarrow> stailq_store \<Rightarrow> stailq_store" where
  "STAILQ_INSERT_AFTER head listelm elm s =
     (let s = s\<lparr>stqe_next := (stqe_next s)(elm := stqe_next s listelm)\<rparr>;
          s = (if stqe_next s elm = None
               then s\<lparr>stqh_last := (stqh_last s)(head := Next_slot elm)\<rparr> else s)
      in s\<lparr>stqe_next := (stqe_next s)(listelm := Some elm)\<rparr>)"

definition STAILQ_REMOVE_HEAD :: "head \<Rightarrow> stailq_store \<Rightarrow> stailq_store option" where
  "STAILQ_REMOVE_HEAD head s =
     do { f \<leftarrow> stqh_first s head;
          let s = s\<lparr>stqh_first := (stqh_first s)(head := stqe_next s f)\<rparr>;
          Some (if stqh_first s head = None
                then s\<lparr>stqh_last := (stqh_last s)(head := Head_slot head)\<rparr> else s) }"

definition STAILQ_REMOVE :: "head \<Rightarrow> elm \<Rightarrow> stailq_store \<Rightarrow> stailq_store option" where
  "STAILQ_REMOVE head elm s =
     (if stqh_first s head = Some elm then STAILQ_REMOVE_HEAD head s
      else do { f \<leftarrow> stqh_first s head;
                curelm \<leftarrow> find_prev (stqe_next s) elm f;
                n \<leftarrow> stqe_next s curelm;
                let s = s\<lparr>stqe_next := (stqe_next s)(curelm := stqe_next s n)\<rparr>;
                Some (if stqe_next s curelm = None
                      then s\<lparr>stqh_last := (stqh_last s)(head := Next_slot curelm)\<rparr> else s) })"

definition STAILQ_FOREACH :: "head \<Rightarrow> stailq_store \<Rightarrow> elm list option" where
  "STAILQ_FOREACH head s = foreach (stqe_next s) (stqh_first s head)"

definition STAILQ_EMPTY :: "head \<Rightarrow> stailq_store \<Rightarrow> bool" where
  "STAILQ_EMPTY head s \<longleftrightarrow> stqh_first s head = None"

definition STAILQ_FIRST :: "head \<Rightarrow> stailq_store \<Rightarrow> elm option" where
  "STAILQ_FIRST head s = stqh_first s head"

definition STAILQ_NEXT :: "elm \<Rightarrow> stailq_store \<Rightarrow> elm option" where
  "STAILQ_NEXT elm s = stqe_next s elm"

definition STAILQ_CONCAT :: "head \<Rightarrow> head \<Rightarrow> stailq_store \<Rightarrow> stailq_store" where
  "STAILQ_CONCAT head1 head2 s =
     (if \<not> STAILQ_EMPTY head2 s then
        let s = stailq_put (stqh_last s head1) (stqh_first s head2) s;
            s = s\<lparr>stqh_last := (stqh_last s)(head1 := stqh_last s head2)\<rparr>
        in STAILQ_INIT head2 s
      else s)"

lemmas stailq_defs = STAILQ_INIT_def STAILQ_INSERT_HEAD_def STAILQ_INSERT_TAIL_def STAILQ_INSERT_AFTER_def
  STAILQ_REMOVE_HEAD_def STAILQ_FIRST_def STAILQ_NEXT_def stailq_put_def Let_def

section \<open>Contents\<close>

definition stailq_holds :: "stailq_store \<Rightarrow> head \<Rightarrow> elm list \<Rightarrow> bool" where
  "stailq_holds s h xs \<longleftrightarrow>
     chain (stqe_next s) (stqh_first s h) xs \<and> stqh_last s h = slot_after h xs"

lemma stailq_holds_frame:
  assumes "stailq_holds s g zs" and "stqh_first s' g = stqh_first s g"
    and "stqh_last s' g = stqh_last s g" and "\<forall>z \<in> set zs. stqe_next s' z = stqe_next s z"
  shows "stailq_holds s' g zs"
  using assms seg_cong [of zs "stqe_next s'" "stqe_next s"] by (simp add: stailq_holds_def)

lemma stailq_insert_head:
  assumes "stailq_holds s h xs" and "e \<notin> set xs"
  shows "stailq_holds (STAILQ_INSERT_HEAD h e s) h (e # xs)"
  using assms by (cases xs) (auto simp: stailq_holds_def stailq_defs slot_after_def)

lemma stailq_insert_tail:
  assumes "stailq_holds s h xs" and "e \<notin> set xs"
  shows "stailq_holds (STAILQ_INSERT_TAIL h e s) h (xs @ [e])"
  using assms chain_distinct [of "stqe_next s" "stqh_first s h" xs]
  by (cases xs rule: rev_cases) (auto simp: stailq_holds_def stailq_defs slot_after_def)

lemma stailq_insert_after:
  assumes "stailq_holds s h (xs @ x # ys)" and "e \<notin> set (xs @ x # ys)"
  shows "stailq_holds (STAILQ_INSERT_AFTER h x e s) h (xs @ x # e # ys)"
  using assms chain_distinct [of "stqe_next s" "stqh_first s h" "xs @ x # ys"]
  by (cases ys) (auto simp: stailq_holds_def stailq_defs slot_after_def)

lemma stailq_remove:
  assumes "stailq_holds s h (xs @ x # ys)"
  shows "\<exists>s'. STAILQ_REMOVE h x s = Some s' \<and> stailq_holds s' h (xs @ ys) \<and>
    (\<forall>e. e \<notin> set (xs @ x # ys) \<longrightarrow> stqe_next s' e = stqe_next s e) \<and>
    (\<forall>g. g \<noteq> h \<longrightarrow> stqh_first s' g = stqh_first s g \<and> stqh_last s' g = stqh_last s g)"
proof (rule rev_cases2 [of xs])
  assume "xs = []"
  with assms show ?thesis
    by (cases ys) (auto simp: stailq_holds_def stailq_defs STAILQ_REMOVE_def slot_after_def)
next
  fix as b assume xs: "xs = as @ [b]"
  have c: "chain (stqe_next s) (stqh_first s h) (as @ b # x # ys)"
    using assms by (simp add: stailq_holds_def xs)
  note d = chain_distinct [OF c]
  obtain f where f: "stqh_first s h = Some f" "f \<noteq> x" "seg (stqe_next s) (Some f) (as @ [b]) (Some x)"
    using c d by (cases as) auto
  have "find_prev (stqe_next s) x f = Some b"
    by (rule find_prev_found [OF f(3)]) (use d in auto)
  moreover have "stqe_next s b = Some x" "stqe_next s x = hd_opt ys" using c by (auto dest: chain_hd)
  ultimately show ?thesis
    using f assms chain_remove_after [OF c]
    by (cases ys) (auto simp: STAILQ_REMOVE_def stailq_holds_def xs slot_after_def)
qed

interpretation stailq: linked_queue stailq_holds STAILQ_INIT STAILQ_FIRST "\<lambda>h. STAILQ_NEXT"
  STAILQ_INSERT_HEAD STAILQ_INSERT_AFTER STAILQ_REMOVE STAILQ_INSERT_TAIL
proof
  show "chain (\<lambda>x. STAILQ_NEXT x s) (STAILQ_FIRST h s) xs" if "stailq_holds s h xs" for s h xs
    using that by (simp add: stailq_holds_def stailq_defs)
  show "stailq_holds (STAILQ_INSERT_HEAD h e s) g zs"
    if "stailq_holds s h xs" "e \<notin> set xs" "stailq_holds s g zs" "g \<noteq> h" "set zs \<inter> insert e (set xs) = {}"
    for s h xs e g zs
    by (rule stailq_holds_frame [OF that(3)]) (use that in \<open>auto simp: stailq_defs\<close>)
  show "stailq_holds (STAILQ_INSERT_AFTER h x e s) g zs"
    if "stailq_holds s h (xs @ x # ys)" "e \<notin> set (xs @ x # ys)" "stailq_holds s g zs" "g \<noteq> h"
      "set zs \<inter> insert e (set (xs @ x # ys)) = {}" for s h xs x ys e g zs
    by (rule stailq_holds_frame [OF that(3)]) (use that in \<open>auto simp: stailq_defs\<close>)
  show "stailq_holds (STAILQ_INSERT_TAIL h e s) g zs"
    if "stailq_holds s h xs" "e \<notin> set xs" "stailq_holds s g zs" "g \<noteq> h" "set zs \<inter> insert e (set xs) = {}"
    for s h xs e g zs
    by (rule stailq_holds_frame [OF that(3)])
      (use that in \<open>cases xs rule: rev_cases; auto simp: stailq_holds_def stailq_defs\<close>)+
  show "\<exists>s'. STAILQ_REMOVE h x s = Some s' \<and> stailq_holds s' h (xs @ ys)"
    if "stailq_holds s h (xs @ x # ys)" for s h xs x ys
    using stailq_remove [OF that] by blast
  show "stailq_holds s' g zs"
    if "stailq_holds s h (xs @ x # ys)" "STAILQ_REMOVE h x s = Some s'" "stailq_holds s g zs" "g \<noteq> h"
      "set zs \<inter> set (xs @ x # ys) = {}" for s h xs x ys s' g zs
    by (rule stailq_holds_frame [OF that(3)]) (use that stailq_remove [OF that(1)] in auto)
qed (simp_all add: stailq_insert_head stailq_insert_after stailq_insert_tail,
    auto simp: stailq_holds_def stailq_defs)

section \<open>Properties\<close>

text \<open>Singly linked tail queues refine plain lists under insertion at the head, at the tail and after an
  element, and removal: the operations find no null pointer, the forward loop visits the
  contents in order, and the head's tail pointer addresses the pointer after the last
  element.\<close>

theorem stailq_refines_queues:
  assumes "stailq_holds s h xs" and "run queue_step ops xs = Some ys"
  shows "\<exists>s'. run (store_queue_step (STAILQ_INSERT_HEAD h) (STAILQ_INSERT_AFTER h) (STAILQ_REMOVE h)
      (STAILQ_INSERT_TAIL h)) ops s = Some s' \<and>
    STAILQ_FOREACH h s' = Some ys \<and> (STAILQ_EMPTY h s' \<longleftrightarrow> ys = []) \<and> stqh_last s' h = slot_after h ys"
proof -
  obtain s' where s': "run (store_queue_step (STAILQ_INSERT_HEAD h) (STAILQ_INSERT_AFTER h) (STAILQ_REMOVE h)
      (STAILQ_INSERT_TAIL h)) ops s = Some s'" "stailq_holds s' h ys"
    using stailq.queue_run_refines [OF assms] by blast
  moreover have "STAILQ_FOREACH h s' = Some ys"
    using stailq.foreach_contents [OF s'(2)] by (simp add: STAILQ_FOREACH_def STAILQ_NEXT_def STAILQ_FIRST_def)
  moreover have "STAILQ_EMPTY h s' \<longleftrightarrow> ys = []"
    using stailq.first_element [OF s'(2)] by (cases ys) (simp_all add: STAILQ_EMPTY_def STAILQ_FIRST_def)
  ultimately show ?thesis by (auto simp: stailq_holds_def)
qed

lemma stailq_refines_queues_witness:
  "\<exists>s'. run (store_queue_step (STAILQ_INSERT_HEAD 0) (STAILQ_INSERT_AFTER 0) (STAILQ_REMOVE 0)
      (STAILQ_INSERT_TAIL 0))
      [Insert_tail 1, List_op (Insert_head 2), Insert_tail 3, List_op (Remove 2)]
      \<lparr>stqh_first = \<lambda>_. None, stqh_last = Head_slot, stqe_next = \<lambda>_. None\<rparr> = Some s' \<and>
    STAILQ_FOREACH 0 s' = Some [1, 3] \<and> (STAILQ_EMPTY 0 s' \<longleftrightarrow> [1, 3] = ([] :: nat list)) \<and>
    stqh_last s' 0 = slot_after 0 [1, 3]"
  by (rule stailq_refines_queues [where xs = "[]"]) (simp_all add: stailq_holds_def)

text \<open>Concatenation moves all elements of the second queue behind those of the first in
  constant time and leaves the second queue empty and usable.\<close>

theorem stailq_concat_effect:
  assumes "stailq_holds s h xs" and "stailq_holds s g ys" and "g \<noteq> h" and "set xs \<inter> set ys = {}"
  shows "stailq_holds (STAILQ_CONCAT h g s) h (xs @ ys) \<and> stailq_holds (STAILQ_CONCAT h g s) g []"
proof (cases ys)
  case Nil
  with assms show ?thesis by (auto simp: STAILQ_CONCAT_def STAILQ_EMPTY_def stailq_holds_def)
next
  case (Cons y zs)
  have "distinct xs" using assms(1) by (auto simp: stailq_holds_def dest: chain_distinct)
  with Cons assms show ?thesis
    by (cases xs rule: rev_cases)
      (auto simp: STAILQ_CONCAT_def STAILQ_EMPTY_def stailq_holds_def stailq_defs slot_after_def)
qed

lemma stailq_concat_effect_witness:
  "let s = STAILQ_INSERT_TAIL 1 8 (STAILQ_INSERT_TAIL 0 7
      \<lparr>stqh_first = \<lambda>_. None, stqh_last = Head_slot, stqe_next = \<lambda>_. None\<rparr>) in
    stailq_holds (STAILQ_CONCAT 0 1 s) 0 ([7] @ [8]) \<and> stailq_holds (STAILQ_CONCAT 0 1 s) 1 []"
  unfolding Let_def
  by (rule stailq_concat_effect) (simp_all add: stailq_holds_def stailq_defs slot_after_def)

end
