(* ===== verification/Queue_Simpleq.thy ===== *)
theory Queue_Simpleq
  imports Queue_Base "HOL-Library.Monad_Syntax"
begin

text \<open>
  Simple queues (\<^verbatim>\<open>SIMPLEQ_*\<close> of \<^verbatim>\<open>sys/queue.h\<close>): a singly linked list whose head
  also holds the address of the last next pointer.
\<close>

section \<open>Store and macros\<close>

record simpleq_store =
  sqh_first :: "head \<Rightarrow> elm option"
  sqh_last :: "head \<Rightarrow> slot"
  sqe_next :: "elm \<Rightarrow> elm option"

text \<open>\<^verbatim>\<open>*p = v\<close> through the address of a pointer.\<close>

definition simpleq_put :: "slot \<Rightarrow> elm option \<Rightarrow> simpleq_store \<Rightarrow> simpleq_store" where
  "simpleq_put p v s = (case p of
     Head_slot h \<Rightarrow> s\<lparr>sqh_first := (sqh_first s)(h := v)\<rparr>
   | Next_slot e \<Rightarrow> s\<lparr>sqe_next := (sqe_next s)(e := v)\<rparr>)"

definition SIMPLEQ_INIT :: "head \<Rightarrow> simpleq_store \<Rightarrow> simpleq_store" where
  "SIMPLEQ_INIT head s =
     (let s = s\<lparr>sqh_first := (sqh_first s)(head := None)\<rparr>
      in s\<lparr>sqh_last := (sqh_last s)(head := Head_slot head)\<rparr>)"

definition SIMPLEQ_INSERT_HEAD :: "head \<Rightarrow> elm \<Rightarrow> simpleq_store \<Rightarrow> simpleq_store" where
  "SIMPLEQ_INSERT_HEAD head elm s =
     (let s = s\<lparr>sqe_next := (sqe_next s)(elm := sqh_first s head)\<rparr>;
          s = (if sqe_next s elm = None
               then s\<lparr>sqh_last := (sqh_last s)(head := Next_slot elm)\<rparr> else s)
      in s\<lparr>sqh_first := (sqh_first s)(head := Some elm)\<rparr>)"

definition SIMPLEQ_INSERT_TAIL :: "head \<Rightarrow> elm \<Rightarrow> simpleq_store \<Rightarrow> simpleq_store" where
  "SIMPLEQ_INSERT_TAIL head elm s =
     (let s = s\<lparr>sqe_next := (sqe_next s)(elm := None)\<rparr>;
          s = simpleq_put (sqh_last s head) (Some elm) s
      in s\<lparr>sqh_last := (sqh_last s)(head := Next_slot elm)\<rparr>)"

definition SIMPLEQ_INSERT_AFTER :: "head \<Rightarrow> elm \<Rightarrow> elm \<Rightarrow> simpleq_store \<Rightarrow> simpleq_store" where
  "SIMPLEQ_INSERT_AFTER head listelm elm s =
     (let s = s\<lparr>sqe_next := (sqe_next s)(elm := sqe_next s listelm)\<rparr>;
          s = (if sqe_next s elm = None
               then s\<lparr>sqh_last := (sqh_last s)(head := Next_slot elm)\<rparr> else s)
      in s\<lparr>sqe_next := (sqe_next s)(listelm := Some elm)\<rparr>)"

definition SIMPLEQ_REMOVE_HEAD :: "head \<Rightarrow> simpleq_store \<Rightarrow> simpleq_store option" where
  "SIMPLEQ_REMOVE_HEAD head s =
     do { f \<leftarrow> sqh_first s head;
          let s = s\<lparr>sqh_first := (sqh_first s)(head := sqe_next s f)\<rparr>;
          Some (if sqh_first s head = None
                then s\<lparr>sqh_last := (sqh_last s)(head := Head_slot head)\<rparr> else s) }"

definition SIMPLEQ_REMOVE :: "head \<Rightarrow> elm \<Rightarrow> simpleq_store \<Rightarrow> simpleq_store option" where
  "SIMPLEQ_REMOVE head elm s =
     (if sqh_first s head = Some elm then SIMPLEQ_REMOVE_HEAD head s
      else do { f \<leftarrow> sqh_first s head;
                curelm \<leftarrow> find_prev (sqe_next s) elm f;
                n \<leftarrow> sqe_next s curelm;
                let s = s\<lparr>sqe_next := (sqe_next s)(curelm := sqe_next s n)\<rparr>;
                Some (if sqe_next s curelm = None
                      then s\<lparr>sqh_last := (sqh_last s)(head := Next_slot curelm)\<rparr> else s) })"

definition SIMPLEQ_FOREACH :: "head \<Rightarrow> simpleq_store \<Rightarrow> elm list option" where
  "SIMPLEQ_FOREACH head s = foreach (sqe_next s) (sqh_first s head)"

definition SIMPLEQ_EMPTY :: "head \<Rightarrow> simpleq_store \<Rightarrow> bool" where
  "SIMPLEQ_EMPTY head s \<longleftrightarrow> sqh_first s head = None"

definition SIMPLEQ_FIRST :: "head \<Rightarrow> simpleq_store \<Rightarrow> elm option" where
  "SIMPLEQ_FIRST head s = sqh_first s head"

definition SIMPLEQ_NEXT :: "elm \<Rightarrow> simpleq_store \<Rightarrow> elm option" where
  "SIMPLEQ_NEXT elm s = sqe_next s elm"

lemmas simpleq_defs = SIMPLEQ_INIT_def SIMPLEQ_INSERT_HEAD_def SIMPLEQ_INSERT_TAIL_def SIMPLEQ_INSERT_AFTER_def
  SIMPLEQ_REMOVE_HEAD_def SIMPLEQ_FIRST_def SIMPLEQ_NEXT_def simpleq_put_def Let_def

section \<open>Contents\<close>

definition simpleq_holds :: "simpleq_store \<Rightarrow> head \<Rightarrow> elm list \<Rightarrow> bool" where
  "simpleq_holds s h xs \<longleftrightarrow>
     chain (sqe_next s) (sqh_first s h) xs \<and> sqh_last s h = slot_after h xs"

lemma simpleq_holds_frame:
  assumes "simpleq_holds s g zs" and "sqh_first s' g = sqh_first s g"
    and "sqh_last s' g = sqh_last s g" and "\<forall>z \<in> set zs. sqe_next s' z = sqe_next s z"
  shows "simpleq_holds s' g zs"
  using assms seg_cong [of zs "sqe_next s'" "sqe_next s"] by (simp add: simpleq_holds_def)

lemma simpleq_insert_head:
  assumes "simpleq_holds s h xs" and "e \<notin> set xs"
  shows "simpleq_holds (SIMPLEQ_INSERT_HEAD h e s) h (e # xs)"
  using assms by (cases xs) (auto simp: simpleq_holds_def simpleq_defs slot_after_def)

lemma simpleq_insert_tail:
  assumes "simpleq_holds s h xs" and "e \<notin> set xs"
  shows "simpleq_holds (SIMPLEQ_INSERT_TAIL h e s) h (xs @ [e])"
  using assms chain_distinct [of "sqe_next s" "sqh_first s h" xs]
  by (cases xs rule: rev_cases) (auto simp: simpleq_holds_def simpleq_defs slot_after_def)

lemma simpleq_insert_after:
  assumes "simpleq_holds s h (xs @ x # ys)" and "e \<notin> set (xs @ x # ys)"
  shows "simpleq_holds (SIMPLEQ_INSERT_AFTER h x e s) h (xs @ x # e # ys)"
  using assms chain_distinct [of "sqe_next s" "sqh_first s h" "xs @ x # ys"]
  by (cases ys) (auto simp: simpleq_holds_def simpleq_defs slot_after_def)

lemma simpleq_remove:
  assumes "simpleq_holds s h (xs @ x # ys)"
  shows "\<exists>s'. SIMPLEQ_REMOVE h x s = Some s' \<and> simpleq_holds s' h (xs @ ys) \<and>
    (\<forall>e. e \<notin> set (xs @ x # ys) \<longrightarrow> sqe_next s' e = sqe_next s e) \<and>
    (\<forall>g. g \<noteq> h \<longrightarrow> sqh_first s' g = sqh_first s g \<and> sqh_last s' g = sqh_last s g)"
proof (rule rev_cases2 [of xs])
  assume "xs = []"
  with assms show ?thesis
    by (cases ys) (auto simp: simpleq_holds_def simpleq_defs SIMPLEQ_REMOVE_def slot_after_def)
next
  fix as b assume xs: "xs = as @ [b]"
  have c: "chain (sqe_next s) (sqh_first s h) (as @ b # x # ys)"
    using assms by (simp add: simpleq_holds_def xs)
  note d = chain_distinct [OF c]
  obtain f where f: "sqh_first s h = Some f" "f \<noteq> x" "seg (sqe_next s) (Some f) (as @ [b]) (Some x)"
    using c d by (cases as) auto
  have "find_prev (sqe_next s) x f = Some b"
    by (rule find_prev_found [OF f(3)]) (use d in auto)
  moreover have "sqe_next s b = Some x" "sqe_next s x = hd_opt ys" using c by (auto dest: chain_hd)
  ultimately show ?thesis
    using f assms chain_remove_after [OF c]
    by (cases ys) (auto simp: SIMPLEQ_REMOVE_def simpleq_holds_def xs slot_after_def)
qed

interpretation simpleq: linked_queue simpleq_holds SIMPLEQ_INIT SIMPLEQ_FIRST "\<lambda>h. SIMPLEQ_NEXT"
  SIMPLEQ_INSERT_HEAD SIMPLEQ_INSERT_AFTER SIMPLEQ_REMOVE SIMPLEQ_INSERT_TAIL
proof
  show "chain (\<lambda>x. SIMPLEQ_NEXT x s) (SIMPLEQ_FIRST h s) xs" if "simpleq_holds s h xs" for s h xs
    using that by (simp add: simpleq_holds_def simpleq_defs)
  show "simpleq_holds (SIMPLEQ_INSERT_HEAD h e s) g zs"
    if "simpleq_holds s h xs" "e \<notin> set xs" "simpleq_holds s g zs" "g \<noteq> h" "set zs \<inter> insert e (set xs) = {}"
    for s h xs e g zs
    by (rule simpleq_holds_frame [OF that(3)]) (use that in \<open>auto simp: simpleq_defs\<close>)
  show "simpleq_holds (SIMPLEQ_INSERT_AFTER h x e s) g zs"
    if "simpleq_holds s h (xs @ x # ys)" "e \<notin> set (xs @ x # ys)" "simpleq_holds s g zs" "g \<noteq> h"
      "set zs \<inter> insert e (set (xs @ x # ys)) = {}" for s h xs x ys e g zs
    by (rule simpleq_holds_frame [OF that(3)]) (use that in \<open>auto simp: simpleq_defs\<close>)
  show "simpleq_holds (SIMPLEQ_INSERT_TAIL h e s) g zs"
    if "simpleq_holds s h xs" "e \<notin> set xs" "simpleq_holds s g zs" "g \<noteq> h" "set zs \<inter> insert e (set xs) = {}"
    for s h xs e g zs
    by (rule simpleq_holds_frame [OF that(3)])
      (use that in \<open>cases xs rule: rev_cases; auto simp: simpleq_holds_def simpleq_defs\<close>)+
  show "\<exists>s'. SIMPLEQ_REMOVE h x s = Some s' \<and> simpleq_holds s' h (xs @ ys)"
    if "simpleq_holds s h (xs @ x # ys)" for s h xs x ys
    using simpleq_remove [OF that] by blast
  show "simpleq_holds s' g zs"
    if "simpleq_holds s h (xs @ x # ys)" "SIMPLEQ_REMOVE h x s = Some s'" "simpleq_holds s g zs" "g \<noteq> h"
      "set zs \<inter> set (xs @ x # ys) = {}" for s h xs x ys s' g zs
    by (rule simpleq_holds_frame [OF that(3)]) (use that simpleq_remove [OF that(1)] in auto)
qed (simp_all add: simpleq_insert_head simpleq_insert_after simpleq_insert_tail,
    auto simp: simpleq_holds_def simpleq_defs)

section \<open>Properties\<close>

text \<open>Simple queues refine plain lists under insertion at the head, at the tail and after an
  element, and removal: the operations find no null pointer, the forward loop visits the
  contents in order, and the head's tail pointer addresses the pointer after the last
  element.\<close>

theorem simpleq_refines_queues:
  assumes "simpleq_holds s h xs" and "run queue_step ops xs = Some ys"
  shows "\<exists>s'. run (store_queue_step (SIMPLEQ_INSERT_HEAD h) (SIMPLEQ_INSERT_AFTER h) (SIMPLEQ_REMOVE h)
      (SIMPLEQ_INSERT_TAIL h)) ops s = Some s' \<and>
    SIMPLEQ_FOREACH h s' = Some ys \<and> (SIMPLEQ_EMPTY h s' \<longleftrightarrow> ys = []) \<and> sqh_last s' h = slot_after h ys"
proof -
  obtain s' where s': "run (store_queue_step (SIMPLEQ_INSERT_HEAD h) (SIMPLEQ_INSERT_AFTER h) (SIMPLEQ_REMOVE h)
      (SIMPLEQ_INSERT_TAIL h)) ops s = Some s'" "simpleq_holds s' h ys"
    using simpleq.queue_run_refines [OF assms] by blast
  moreover have "SIMPLEQ_FOREACH h s' = Some ys"
    using simpleq.foreach_contents [OF s'(2)] by (simp add: SIMPLEQ_FOREACH_def SIMPLEQ_NEXT_def SIMPLEQ_FIRST_def)
  moreover have "SIMPLEQ_EMPTY h s' \<longleftrightarrow> ys = []"
    using simpleq.first_element [OF s'(2)] by (cases ys) (simp_all add: SIMPLEQ_EMPTY_def SIMPLEQ_FIRST_def)
  ultimately show ?thesis by (auto simp: simpleq_holds_def)
qed

lemma simpleq_refines_queues_witness:
  "\<exists>s'. run (store_queue_step (SIMPLEQ_INSERT_HEAD 0) (SIMPLEQ_INSERT_AFTER 0) (SIMPLEQ_REMOVE 0)
      (SIMPLEQ_INSERT_TAIL 0))
      [Insert_tail 1, List_op (Insert_head 2), Insert_tail 3, List_op (Remove 2)]
      \<lparr>sqh_first = \<lambda>_. None, sqh_last = Head_slot, sqe_next = \<lambda>_. None\<rparr> = Some s' \<and>
    SIMPLEQ_FOREACH 0 s' = Some [1, 3] \<and> (SIMPLEQ_EMPTY 0 s' \<longleftrightarrow> [1, 3] = ([] :: nat list)) \<and>
    sqh_last s' 0 = slot_after 0 [1, 3]"
  by (rule simpleq_refines_queues [where xs = "[]"]) (simp_all add: simpleq_holds_def)

end
