(* ===== verification/Queue_Tailq.thy ===== *)
theory Queue_Tailq
  imports Queue_Base
begin

text \<open>
  Tail queues (\<^verbatim>\<open>TAILQ_*\<close> of \<^verbatim>\<open>sys/queue.h\<close>): doubly linked, with the address of the last
  next pointer in the head.  The head and the link of an element have the same layout
  (a pointer, then an address of a pointer), and walking backwards reads one as the
  other: \<open>slot_last\<close> is that second member, whichever of the two the address is in.
\<close>

section \<open>Store and macros\<close>

record tailq_store =
  tqh_first :: "head \<Rightarrow> elm option"
  tqh_last :: "head \<Rightarrow> slot"
  tqe_next :: "elm \<Rightarrow> elm option"
  tqe_prev :: "elm \<Rightarrow> slot"

text \<open>\<^verbatim>\<open>*p = v\<close>, \<^verbatim>\<open>*p\<close> and \<^verbatim>\<open>((struct headname *)p)->tqh_last\<close>.\<close>

definition tailq_put :: "slot \<Rightarrow> elm option \<Rightarrow> tailq_store \<Rightarrow> tailq_store" where
  "tailq_put p v s = (case p of
     Head_slot h \<Rightarrow> s\<lparr>tqh_first := (tqh_first s)(h := v)\<rparr>
   | Next_slot e \<Rightarrow> s\<lparr>tqe_next := (tqe_next s)(e := v)\<rparr>)"

definition slot_value :: "tailq_store \<Rightarrow> slot \<Rightarrow> elm option" where
  "slot_value s p = (case p of Head_slot h \<Rightarrow> tqh_first s h | Next_slot e \<Rightarrow> tqe_next s e)"

definition slot_last :: "tailq_store \<Rightarrow> slot \<Rightarrow> slot" where
  "slot_last s p = (case p of Head_slot h \<Rightarrow> tqh_last s h | Next_slot e \<Rightarrow> tqe_prev s e)"

definition TAILQ_INIT :: "head \<Rightarrow> tailq_store \<Rightarrow> tailq_store" where
  "TAILQ_INIT head s =
     (let s = s\<lparr>tqh_first := (tqh_first s)(head := None)\<rparr>
      in s\<lparr>tqh_last := (tqh_last s)(head := Head_slot head)\<rparr>)"

definition TAILQ_INSERT_HEAD :: "head \<Rightarrow> elm \<Rightarrow> tailq_store \<Rightarrow> tailq_store" where
  "TAILQ_INSERT_HEAD head elm s =
     (let s = s\<lparr>tqe_next := (tqe_next s)(elm := tqh_first s head)\<rparr>;
          s = (case tqh_first s head of
                 Some f \<Rightarrow> s\<lparr>tqe_prev := (tqe_prev s)(f := Next_slot elm)\<rparr>
               | None \<Rightarrow> s\<lparr>tqh_last := (tqh_last s)(head := Next_slot elm)\<rparr>);
          s = s\<lparr>tqh_first := (tqh_first s)(head := Some elm)\<rparr>
      in s\<lparr>tqe_prev := (tqe_prev s)(elm := Head_slot head)\<rparr>)"

definition TAILQ_INSERT_TAIL :: "head \<Rightarrow> elm \<Rightarrow> tailq_store \<Rightarrow> tailq_store" where
  "TAILQ_INSERT_TAIL head elm s =
     (let s = s\<lparr>tqe_next := (tqe_next s)(elm := None)\<rparr>;
          s = s\<lparr>tqe_prev := (tqe_prev s)(elm := tqh_last s head)\<rparr>;
          s = tailq_put (tqh_last s head) (Some elm) s
      in s\<lparr>tqh_last := (tqh_last s)(head := Next_slot elm)\<rparr>)"

definition TAILQ_INSERT_AFTER :: "head \<Rightarrow> elm \<Rightarrow> elm \<Rightarrow> tailq_store \<Rightarrow> tailq_store" where
  "TAILQ_INSERT_AFTER head listelm elm s =
     (let s = s\<lparr>tqe_next := (tqe_next s)(elm := tqe_next s listelm)\<rparr>;
          s = (case tqe_next s elm of
                 Some n \<Rightarrow> s\<lparr>tqe_prev := (tqe_prev s)(n := Next_slot elm)\<rparr>
               | None \<Rightarrow> s\<lparr>tqh_last := (tqh_last s)(head := Next_slot elm)\<rparr>);
          s = s\<lparr>tqe_next := (tqe_next s)(listelm := Some elm)\<rparr>
      in s\<lparr>tqe_prev := (tqe_prev s)(elm := Next_slot listelm)\<rparr>)"

definition TAILQ_INSERT_BEFORE :: "elm \<Rightarrow> elm \<Rightarrow> tailq_store \<Rightarrow> tailq_store" where
  "TAILQ_INSERT_BEFORE listelm elm s =
     (let s = s\<lparr>tqe_prev := (tqe_prev s)(elm := tqe_prev s listelm)\<rparr>;
          s = s\<lparr>tqe_next := (tqe_next s)(elm := Some listelm)\<rparr>;
          s = tailq_put (tqe_prev s listelm) (Some elm) s
      in s\<lparr>tqe_prev := (tqe_prev s)(listelm := Next_slot elm)\<rparr>)"

definition TAILQ_REMOVE :: "head \<Rightarrow> elm \<Rightarrow> tailq_store \<Rightarrow> tailq_store" where
  "TAILQ_REMOVE head elm s =
     (let s = (case tqe_next s elm of
                 Some n \<Rightarrow> s\<lparr>tqe_prev := (tqe_prev s)(n := tqe_prev s elm)\<rparr>
               | None \<Rightarrow> s\<lparr>tqh_last := (tqh_last s)(head := tqe_prev s elm)\<rparr>)
      in tailq_put (tqe_prev s elm) (tqe_next s elm) s)"

definition TAILQ_FOREACH :: "head \<Rightarrow> tailq_store \<Rightarrow> elm list option" where
  "TAILQ_FOREACH head s = foreach (tqe_next s) (tqh_first s head)"

definition TAILQ_EMPTY :: "head \<Rightarrow> tailq_store \<Rightarrow> bool" where
  "TAILQ_EMPTY head s \<longleftrightarrow> tqh_first s head = None"

definition TAILQ_FIRST :: "head \<Rightarrow> tailq_store \<Rightarrow> elm option" where
  "TAILQ_FIRST head s = tqh_first s head"

definition TAILQ_NEXT :: "elm \<Rightarrow> tailq_store \<Rightarrow> elm option" where
  "TAILQ_NEXT elm s = tqe_next s elm"

definition TAILQ_LAST :: "head \<Rightarrow> tailq_store \<Rightarrow> elm option" where
  "TAILQ_LAST head s = slot_value s (slot_last s (tqh_last s head))"

definition TAILQ_PREV :: "elm \<Rightarrow> tailq_store \<Rightarrow> elm option" where
  "TAILQ_PREV elm s = slot_value s (slot_last s (tqe_prev s elm))"

definition TAILQ_FOREACH_REVERSE :: "head \<Rightarrow> tailq_store \<Rightarrow> elm list option" where
  "TAILQ_FOREACH_REVERSE head s =
     foreach (\<lambda>var. slot_value s (slot_last s (tqe_prev s var)))
       (slot_value s (slot_last s (tqh_last s head)))"

definition TAILQ_CONCAT :: "head \<Rightarrow> head \<Rightarrow> tailq_store \<Rightarrow> tailq_store" where
  "TAILQ_CONCAT head1 head2 s =
     (if \<not> TAILQ_EMPTY head2 s then
        let s = tailq_put (tqh_last s head1) (tqh_first s head2) s;
            s = (case tqh_first s head2 of
                   Some f \<Rightarrow> s\<lparr>tqe_prev := (tqe_prev s)(f := tqh_last s head1)\<rparr>
                 | None \<Rightarrow> s);
            s = s\<lparr>tqh_last := (tqh_last s)(head1 := tqh_last s head2)\<rparr>
        in TAILQ_INIT head2 s
      else s)"

lemmas tailq_defs = TAILQ_INIT_def TAILQ_INSERT_HEAD_def TAILQ_INSERT_TAIL_def
  TAILQ_INSERT_AFTER_def TAILQ_INSERT_BEFORE_def TAILQ_REMOVE_def TAILQ_FIRST_def
  TAILQ_NEXT_def tailq_put_def Let_def

section \<open>Contents\<close>

definition tailq_holds :: "tailq_store \<Rightarrow> head \<Rightarrow> elm list \<Rightarrow> bool" where
  "tailq_holds s h xs \<longleftrightarrow> chain (tqe_next s) (tqh_first s h) xs \<and>
     tqh_last s h = slot_after h xs \<and> backlinked (tqe_prev s) (Head_slot h) xs"

lemma tailq_holds_frame:
  assumes "tailq_holds s g zs" and "tqh_first s' g = tqh_first s g" and "tqh_last s' g = tqh_last s g"
    and "\<forall>z \<in> set zs. tqe_next s' z = tqe_next s z \<and> tqe_prev s' z = tqe_prev s z"
  shows "tailq_holds s' g zs"
  using assms seg_cong [of zs "tqe_next s'" "tqe_next s"] backlinked_cong [of zs "tqe_prev s'" "tqe_prev s"]
  by (simp add: tailq_holds_def)

lemma tailq_insert_head:
  assumes "tailq_holds s h xs" and "e \<notin> set xs"
  shows "tailq_holds (TAILQ_INSERT_HEAD h e s) h (e # xs)"
  using assms chain_distinct [of "tqe_next s" "tqh_first s h" xs]
  by (cases xs) (auto simp: tailq_holds_def tailq_defs slot_after_def)

lemma tailq_insert_tail:
  assumes "tailq_holds s h xs" and "e \<notin> set xs"
  shows "tailq_holds (TAILQ_INSERT_TAIL h e s) h (xs @ [e])"
  using assms chain_distinct [of "tqe_next s" "tqh_first s h" xs]
  by (cases xs rule: rev_cases) (auto simp: tailq_holds_def tailq_defs slot_after_def)

lemma tailq_insert_after:
  assumes "tailq_holds s h (xs @ x # ys)" and "e \<notin> set (xs @ x # ys)"
  shows "tailq_holds (TAILQ_INSERT_AFTER h x e s) h (xs @ x # e # ys)"
  using assms chain_distinct [of "tqe_next s" "tqh_first s h" "xs @ x # ys"]
  by (cases ys) (auto simp: tailq_holds_def tailq_defs slot_after_def)

lemma tailq_insert_before:
  assumes "tailq_holds s h (xs @ x # ys)" and "e \<notin> set (xs @ x # ys)"
  shows "tailq_holds (TAILQ_INSERT_BEFORE x e s) h (xs @ e # x # ys)"
  using assms chain_distinct [of "tqe_next s" "tqh_first s h" "xs @ x # ys"]
  by (cases xs rule: rev_cases) (auto simp: tailq_holds_def tailq_defs slot_after_def)

lemma tailq_remove:
  assumes "tailq_holds s h (xs @ x # ys)"
  shows "tailq_holds (TAILQ_REMOVE h x s) h (xs @ ys)"
  using assms chain_distinct [of "tqe_next s" "tqh_first s h" "xs @ x # ys"]
  by (cases xs rule: rev_cases; cases ys) (auto simp: tailq_holds_def tailq_defs slot_after_def)

lemma tailq_holds_neighbours:
  assumes "tailq_holds s h (xs @ x # ys)"
  shows "tqe_next s x = hd_opt ys" and "tqe_prev s x = slot_after h xs"
  using assms by (auto simp: tailq_holds_def slot_after_def dest: chain_hd)

interpretation tailq: linked_queue tailq_holds TAILQ_INIT TAILQ_FIRST "\<lambda>h. TAILQ_NEXT"
  TAILQ_INSERT_HEAD TAILQ_INSERT_AFTER "\<lambda>h x s. Some (TAILQ_REMOVE h x s)" TAILQ_INSERT_TAIL
proof
  show "chain (\<lambda>x. TAILQ_NEXT x s) (TAILQ_FIRST h s) xs" if "tailq_holds s h xs" for s h xs
    using that by (simp add: tailq_holds_def tailq_defs)
  show "tailq_holds (TAILQ_INSERT_HEAD h e s) g zs"
    if "tailq_holds s h xs" "e \<notin> set xs" "tailq_holds s g zs" "g \<noteq> h" "set zs \<inter> insert e (set xs) = {}"
    for s h xs e g zs
    by (rule tailq_holds_frame [OF that(3)])
      (use that in \<open>cases xs; auto simp: tailq_holds_def tailq_defs\<close>)+
  show "tailq_holds (TAILQ_INSERT_TAIL h e s) g zs"
    if "tailq_holds s h xs" "e \<notin> set xs" "tailq_holds s g zs" "g \<noteq> h" "set zs \<inter> insert e (set xs) = {}"
    for s h xs e g zs
    by (rule tailq_holds_frame [OF that(3)])
      (use that in \<open>cases xs rule: rev_cases; auto simp: tailq_holds_def tailq_defs\<close>)+
  show "tailq_holds (TAILQ_INSERT_AFTER h x e s) g zs"
    if "tailq_holds s h (xs @ x # ys)" "e \<notin> set (xs @ x # ys)" "tailq_holds s g zs" "g \<noteq> h"
      "set zs \<inter> insert e (set (xs @ x # ys)) = {}" for s h xs x ys e g zs
    by (rule tailq_holds_frame [OF that(3)])
      (use that tailq_holds_neighbours [OF that(1)] in \<open>cases ys; auto simp: tailq_defs\<close>)+
  show "tailq_holds s' g zs"
    if "tailq_holds s h (xs @ x # ys)" "Some (TAILQ_REMOVE h x s) = Some s'" "tailq_holds s g zs" "g \<noteq> h"
      "set zs \<inter> set (xs @ x # ys) = {}" for s h xs x ys s' g zs
    by (rule tailq_holds_frame [OF that(3)])
      (use that tailq_holds_neighbours [OF that(1)] in
        \<open>cases xs rule: rev_cases; cases ys; auto simp: tailq_defs\<close>)+
qed (simp_all add: tailq_insert_head tailq_insert_after tailq_insert_tail tailq_remove,
    auto simp: tailq_holds_def tailq_defs)

interpretation tailq_b: linked_before tailq_holds TAILQ_INIT TAILQ_FIRST "\<lambda>h. TAILQ_NEXT"
  TAILQ_INSERT_HEAD TAILQ_INSERT_AFTER "\<lambda>h x s. Some (TAILQ_REMOVE h x s)" TAILQ_INSERT_BEFORE
proof
  show "tailq_holds (TAILQ_INSERT_BEFORE x e s) g zs"
    if "tailq_holds s h (xs @ x # ys)" "e \<notin> set (xs @ x # ys)" "tailq_holds s g zs" "g \<noteq> h"
      "set zs \<inter> insert e (set (xs @ x # ys)) = {}" for s h xs x ys e g zs
    by (rule tailq_holds_frame [OF that(3)])
      (use that tailq_holds_neighbours [OF that(1)] in
        \<open>cases xs rule: rev_cases; auto simp: tailq_defs\<close>)+
qed (rule tailq_insert_before)

section \<open>Walking backwards\<close>

lemma slot_value_after:
  "tailq_holds s h (xs @ ys) \<Longrightarrow> slot_value s (slot_after h xs) = hd_opt ys"
  by (cases xs rule: rev_cases) (auto simp: tailq_holds_def slot_value_def dest: chain_hd)

lemma slot_last_after:
  "tailq_holds s h (xs @ x # ys) \<Longrightarrow> slot_last s (slot_after h (xs @ [x])) = slot_after h xs"
  by (auto simp: slot_last_def dest: tailq_holds_neighbours(2))

text \<open>From the slot behind a prefix, two steps lead to the last element of the prefix.\<close>

lemma back_step:
  assumes "tailq_holds s h (xs @ ys)"
  shows "slot_value s (slot_last s (slot_after h xs)) = (if xs = [] then None else Some (last xs))"
proof (rule rev_cases2 [of xs])
  assume e: "xs = []"
  have "slot_last s (Head_slot h) = slot_after h ys"
    using assms e by (simp add: slot_last_def tailq_holds_def)
  moreover have "slot_value s (slot_after h ys) = None"
    using slot_value_after [of s h ys "[]"] assms e by simp
  ultimately show ?thesis by (simp add: e)
next
  fix as b assume x: "xs = as @ [b]"
  have "tailq_holds s h (as @ b # ys)" using assms by (simp add: x)
  from slot_last_after [OF this] slot_value_after [OF this] show ?thesis by (simp add: x)
qed

lemma foreach_back:
  "tailq_holds s h (xs @ ys) \<Longrightarrow>
   foreach (\<lambda>v. slot_value s (slot_last s (tqe_prev s v))) (if xs = [] then None else Some (last xs)) =
     Some (rev xs)"
proof (induction xs arbitrary: ys rule: rev_induct)
  case Nil then show ?case by (subst foreach.simps) simp
next
  case (snoc x xs)
  then have h: "tailq_holds s h (xs @ x # ys)" by simp
  have "slot_value s (slot_last s (tqe_prev s x)) = (if xs = [] then None else Some (last xs))"
    using back_step [OF h] tailq_holds_neighbours(2) [OF h] by simp
  with snoc.IH [OF h] show ?case by (subst foreach.simps) simp
qed

section \<open>Properties\<close>

text \<open>C4: Tail queues refine plain lists under insertion at the head, at the tail and after an
  element, and removal: the forward loop visits the contents in order, the backward loop in
  reverse, and the last element is the one the tail address leads to.\<close>

theorem tailq_refines_queues:
  assumes "tailq_holds s h xs" and "run queue_step ops xs = Some ys"
  shows "\<exists>s'. run (store_queue_step (TAILQ_INSERT_HEAD h) (TAILQ_INSERT_AFTER h)
      (\<lambda>x s. Some (TAILQ_REMOVE h x s)) (TAILQ_INSERT_TAIL h)) ops s = Some s' \<and>
    TAILQ_FOREACH h s' = Some ys \<and> TAILQ_FOREACH_REVERSE h s' = Some (rev ys) \<and>
    TAILQ_LAST h s' = (if ys = [] then None else Some (last ys)) \<and> (TAILQ_EMPTY h s' \<longleftrightarrow> ys = [])"
proof -
  obtain s' where s': "run (store_queue_step (TAILQ_INSERT_HEAD h) (TAILQ_INSERT_AFTER h)
      (\<lambda>x s. Some (TAILQ_REMOVE h x s)) (TAILQ_INSERT_TAIL h)) ops s = Some s'" "tailq_holds s' h ys"
    using tailq.queue_run_refines [OF assms] by blast
  have l: "slot_value s' (slot_last s' (tqh_last s' h)) = (if ys = [] then None else Some (last ys))"
    using back_step [of s' h ys "[]"] s'(2) by (simp add: tailq_holds_def)
  have "TAILQ_FOREACH h s' = Some ys"
    using tailq.foreach_contents [OF s'(2)] by (simp add: TAILQ_FOREACH_def TAILQ_NEXT_def TAILQ_FIRST_def)
  moreover have "TAILQ_FOREACH_REVERSE h s' = Some (rev ys)"
    using foreach_back [of s' h ys "[]"] s'(2) by (simp add: TAILQ_FOREACH_REVERSE_def l)
  moreover have "TAILQ_EMPTY h s' \<longleftrightarrow> ys = []"
    using tailq.first_element [OF s'(2)] by (cases ys) (simp_all add: TAILQ_EMPTY_def TAILQ_FIRST_def)
  ultimately show ?thesis using s'(1) l by (auto simp: TAILQ_LAST_def)
qed

lemma tailq_refines_queues_witness:
  "\<exists>s'. run (store_queue_step (TAILQ_INSERT_HEAD 0) (TAILQ_INSERT_AFTER 0)
      (\<lambda>x s. Some (TAILQ_REMOVE 0 x s)) (TAILQ_INSERT_TAIL 0))
      [Insert_tail 1, List_op (Insert_head 2), Insert_tail 3, List_op (Remove 2)]
      \<lparr>tqh_first = \<lambda>_. None, tqh_last = Head_slot, tqe_next = \<lambda>_. None, tqe_prev = \<lambda>_. Head_slot 9\<rparr> =
      Some s' \<and>
    TAILQ_FOREACH 0 s' = Some [1, 3] \<and> TAILQ_FOREACH_REVERSE 0 s' = Some (rev [1, 3]) \<and>
    TAILQ_LAST 0 s' = (if [1, 3] = ([] :: nat list) then None else Some (last [1, 3])) \<and>
    (TAILQ_EMPTY 0 s' \<longleftrightarrow> [1, 3] = ([] :: nat list))"
  by (rule tailq_refines_queues [where xs = "[]"]) (simp_all add: tailq_holds_def)

text \<open>Between neighbours next and previous are inverse: an element's previous is the element
  before it, the first has none, and inserting before an element changes exactly that.\<close>

theorem tailq_prev_next:
  assumes "tailq_holds s h (xs @ x # ys)"
  shows "TAILQ_PREV x s = (if xs = [] then None else Some (last xs)) \<and> TAILQ_NEXT x s = hd_opt ys \<and>
    (e \<notin> set (xs @ x # ys) \<longrightarrow> TAILQ_PREV x (TAILQ_INSERT_BEFORE x e s) = Some e \<and>
      TAILQ_PREV e (TAILQ_INSERT_BEFORE x e s) = TAILQ_PREV x s)"
proof -
  have p: "TAILQ_PREV y t = (if as = [] then None else Some (last as))"
    if "tailq_holds t h (as @ y # bs)" for t as y bs
    using back_step [OF that] tailq_holds_neighbours(2) [OF that] by (simp add: TAILQ_PREV_def)
  show ?thesis
  proof (intro conjI impI)
    assume e: "e \<notin> set (xs @ x # ys)"
    note i = tailq_b.insert_before_holds [OF assms e]
    show "TAILQ_PREV x (TAILQ_INSERT_BEFORE x e s) = Some e"
      using p [of _ "xs @ [e]" x ys] i by simp
    show "TAILQ_PREV e (TAILQ_INSERT_BEFORE x e s) = TAILQ_PREV x s"
      using p [OF i] p [OF assms] by simp
  qed (use p [OF assms] tailq.next_element [OF assms] in simp_all)
qed

lemma tailq_prev_next_witness:
  "let s = TAILQ_INSERT_TAIL 0 8 (TAILQ_INSERT_HEAD 0 7
      \<lparr>tqh_first = \<lambda>_. None, tqh_last = Head_slot, tqe_next = \<lambda>_. None, tqe_prev = \<lambda>_. Head_slot 9\<rparr>) in
    TAILQ_PREV 8 s = (if [7] = ([] :: nat list) then None else Some (last [7])) \<and>
    TAILQ_NEXT 8 s = hd_opt [] \<and>
    (9 \<notin> set ([7] @ [8 :: nat]) \<longrightarrow> TAILQ_PREV 8 (TAILQ_INSERT_BEFORE 8 9 s) = Some 9 \<and>
      TAILQ_PREV 9 (TAILQ_INSERT_BEFORE 8 9 s) = TAILQ_PREV 8 s)"
  unfolding Let_def
  by (rule tailq_prev_next [where h = 0]) (simp add: tailq_holds_def tailq_defs slot_after_def)

text \<open>Concatenation moves all elements of the second queue behind those of the first and
  leaves the second queue empty; both queues keep their backward pointers.\<close>

theorem tailq_concat_effect:
  assumes "tailq_holds s h xs" and "tailq_holds s g ys" and "g \<noteq> h" and "set xs \<inter> set ys = {}"
  shows "tailq_holds (TAILQ_CONCAT h g s) h (xs @ ys) \<and> tailq_holds (TAILQ_CONCAT h g s) g []"
proof (cases ys)
  case Nil
  with assms show ?thesis by (auto simp: TAILQ_CONCAT_def TAILQ_EMPTY_def tailq_holds_def)
next
  case (Cons y zs)
  have "distinct xs" "distinct ys" using assms(1,2) by (auto simp: tailq_holds_def dest: chain_distinct)
  with Cons assms show ?thesis
    by (cases xs rule: rev_cases)
      (auto simp: TAILQ_CONCAT_def TAILQ_EMPTY_def tailq_holds_def tailq_defs slot_after_def)
qed

lemma tailq_concat_effect_witness:
  "let s = TAILQ_INSERT_TAIL 1 8 (TAILQ_INSERT_TAIL 0 7
      \<lparr>tqh_first = \<lambda>_. None, tqh_last = Head_slot, tqe_next = \<lambda>_. None, tqe_prev = \<lambda>_. Head_slot 9\<rparr>) in
    tailq_holds (TAILQ_CONCAT 0 1 s) 0 ([7] @ [8]) \<and> tailq_holds (TAILQ_CONCAT 0 1 s) 1 []"
  unfolding Let_def
  by (rule tailq_concat_effect) (simp_all add: tailq_holds_def tailq_defs slot_after_def)

end
