(* ===== verification/Queue_Circleq.thy ===== *)
theory Queue_Circleq
  imports Queue_Base "HOL-Library.Monad_Syntax"
begin

text \<open>
  Circular queues (\<^verbatim>\<open>CIRCLEQ_*\<close> of \<^verbatim>\<open>sys/queue.h\<close>): the head is a node of the ring, in place
  of the null pointer.  The macros tell the head by comparing addresses; writing the link
  of a node that turns out to be another head would be writing into foreign memory and
  has no result here.
\<close>

section \<open>Store and macros\<close>

text \<open>A link points to an element or is \<^verbatim>\<open>(void *)head\<close>.\<close>

datatype node = Elm_node elm | Head_node head

record circleq_store =
  cqh_first :: "head \<Rightarrow> node"
  cqh_last :: "head \<Rightarrow> node"
  cqe_next :: "elm \<Rightarrow> node"
  cqe_prev :: "elm \<Rightarrow> node"

text \<open>\<^verbatim>\<open>p->field.cqe_next = v\<close> and \<^verbatim>\<open>p->field.cqe_prev = v\<close>.\<close>

definition circleq_set_next :: "node \<Rightarrow> node \<Rightarrow> circleq_store \<Rightarrow> circleq_store option" where
  "circleq_set_next p v s = (case p of
     Elm_node e \<Rightarrow> Some (s\<lparr>cqe_next := (cqe_next s)(e := v)\<rparr>) | Head_node _ \<Rightarrow> None)"

definition circleq_set_prev :: "node \<Rightarrow> node \<Rightarrow> circleq_store \<Rightarrow> circleq_store option" where
  "circleq_set_prev p v s = (case p of
     Elm_node e \<Rightarrow> Some (s\<lparr>cqe_prev := (cqe_prev s)(e := v)\<rparr>) | Head_node _ \<Rightarrow> None)"

definition CIRCLEQ_INIT :: "head \<Rightarrow> circleq_store \<Rightarrow> circleq_store" where
  "CIRCLEQ_INIT head s =
     (let s = s\<lparr>cqh_first := (cqh_first s)(head := Head_node head)\<rparr>
      in s\<lparr>cqh_last := (cqh_last s)(head := Head_node head)\<rparr>)"

definition CIRCLEQ_INSERT_AFTER :: "head \<Rightarrow> elm \<Rightarrow> elm \<Rightarrow> circleq_store \<Rightarrow> circleq_store option" where
  "CIRCLEQ_INSERT_AFTER head listelm elm s =
     do { let s = s\<lparr>cqe_next := (cqe_next s)(elm := cqe_next s listelm)\<rparr>;
          let s = s\<lparr>cqe_prev := (cqe_prev s)(elm := Elm_node listelm)\<rparr>;
          s \<leftarrow> (if cqe_next s listelm = Head_node head
               then Some (s\<lparr>cqh_last := (cqh_last s)(head := Elm_node elm)\<rparr>)
               else circleq_set_prev (cqe_next s listelm) (Elm_node elm) s);
          Some (s\<lparr>cqe_next := (cqe_next s)(listelm := Elm_node elm)\<rparr>) }"

definition CIRCLEQ_INSERT_BEFORE :: "head \<Rightarrow> elm \<Rightarrow> elm \<Rightarrow> circleq_store \<Rightarrow> circleq_store option" where
  "CIRCLEQ_INSERT_BEFORE head listelm elm s =
     do { let s = s\<lparr>cqe_next := (cqe_next s)(elm := Elm_node listelm)\<rparr>;
          let s = s\<lparr>cqe_prev := (cqe_prev s)(elm := cqe_prev s listelm)\<rparr>;
          s \<leftarrow> (if cqe_prev s listelm = Head_node head
               then Some (s\<lparr>cqh_first := (cqh_first s)(head := Elm_node elm)\<rparr>)
               else circleq_set_next (cqe_prev s listelm) (Elm_node elm) s);
          Some (s\<lparr>cqe_prev := (cqe_prev s)(listelm := Elm_node elm)\<rparr>) }"

definition CIRCLEQ_INSERT_HEAD :: "head \<Rightarrow> elm \<Rightarrow> circleq_store \<Rightarrow> circleq_store option" where
  "CIRCLEQ_INSERT_HEAD head elm s =
     do { let s = s\<lparr>cqe_next := (cqe_next s)(elm := cqh_first s head)\<rparr>;
          let s = s\<lparr>cqe_prev := (cqe_prev s)(elm := Head_node head)\<rparr>;
          s \<leftarrow> (if cqh_last s head = Head_node head
               then Some (s\<lparr>cqh_last := (cqh_last s)(head := Elm_node elm)\<rparr>)
               else circleq_set_prev (cqh_first s head) (Elm_node elm) s);
          Some (s\<lparr>cqh_first := (cqh_first s)(head := Elm_node elm)\<rparr>) }"

definition CIRCLEQ_INSERT_TAIL :: "head \<Rightarrow> elm \<Rightarrow> circleq_store \<Rightarrow> circleq_store option" where
  "CIRCLEQ_INSERT_TAIL head elm s =
     do { let s = s\<lparr>cqe_next := (cqe_next s)(elm := Head_node head)\<rparr>;
          let s = s\<lparr>cqe_prev := (cqe_prev s)(elm := cqh_last s head)\<rparr>;
          s \<leftarrow> (if cqh_first s head = Head_node head
               then Some (s\<lparr>cqh_first := (cqh_first s)(head := Elm_node elm)\<rparr>)
               else circleq_set_next (cqh_last s head) (Elm_node elm) s);
          Some (s\<lparr>cqh_last := (cqh_last s)(head := Elm_node elm)\<rparr>) }"

definition CIRCLEQ_REMOVE :: "head \<Rightarrow> elm \<Rightarrow> circleq_store \<Rightarrow> circleq_store option" where
  "CIRCLEQ_REMOVE head elm s =
     do { s \<leftarrow> (if cqe_next s elm = Head_node head
               then Some (s\<lparr>cqh_last := (cqh_last s)(head := cqe_prev s elm)\<rparr>)
               else circleq_set_prev (cqe_next s elm) (cqe_prev s elm) s);
          (if cqe_prev s elm = Head_node head
           then Some (s\<lparr>cqh_first := (cqh_first s)(head := cqe_next s elm)\<rparr>)
           else circleq_set_next (cqe_prev s elm) (cqe_next s elm) s) }"

text \<open>\<^verbatim>\<open>for (var = first; var != head; var = var->next)\<close>; a foreign head is no element.\<close>

partial_function (option) circle :: "(elm \<Rightarrow> node) \<Rightarrow> head \<Rightarrow> node \<Rightarrow> elm list option" where
  "circle nx head var =
     (if var = Head_node head then Some []
      else case var of Head_node _ \<Rightarrow> None
           | Elm_node x \<Rightarrow> Option.bind (circle nx head (nx x)) (\<lambda>xs. Some (x # xs)))"

definition CIRCLEQ_FOREACH :: "head \<Rightarrow> circleq_store \<Rightarrow> elm list option" where
  "CIRCLEQ_FOREACH head s = circle (cqe_next s) head (cqh_first s head)"

definition CIRCLEQ_FOREACH_REVERSE :: "head \<Rightarrow> circleq_store \<Rightarrow> elm list option" where
  "CIRCLEQ_FOREACH_REVERSE head s = circle (cqe_prev s) head (cqh_last s head)"

definition CIRCLEQ_EMPTY :: "head \<Rightarrow> circleq_store \<Rightarrow> bool" where
  "CIRCLEQ_EMPTY head s \<longleftrightarrow> cqh_first s head = Head_node head"

definition CIRCLEQ_LOOP_NEXT :: "head \<Rightarrow> elm \<Rightarrow> circleq_store \<Rightarrow> node" where
  "CIRCLEQ_LOOP_NEXT head elm s =
     (if cqe_next s elm = Head_node head then cqh_first s head else cqe_next s elm)"

definition CIRCLEQ_LOOP_PREV :: "head \<Rightarrow> elm \<Rightarrow> circleq_store \<Rightarrow> node" where
  "CIRCLEQ_LOOP_PREV head elm s =
     (if cqe_prev s elm = Head_node head then cqh_last s head else cqe_prev s elm)"

lemmas circleq_defs = CIRCLEQ_INIT_def CIRCLEQ_INSERT_AFTER_def CIRCLEQ_INSERT_BEFORE_def
  CIRCLEQ_INSERT_HEAD_def CIRCLEQ_INSERT_TAIL_def CIRCLEQ_REMOVE_def circleq_set_next_def
  circleq_set_prev_def Let_def

section \<open>Rings\<close>

fun ring :: "(elm \<Rightarrow> node) \<Rightarrow> node \<Rightarrow> elm list \<Rightarrow> node \<Rightarrow> bool" where
  "ring nx p [] q \<longleftrightarrow> p = q"
| "ring nx p (x # xs) q \<longleftrightarrow> p = Elm_node x \<and> ring nx (nx x) xs q"

lemma ring_append [simp]: "ring nx p (xs @ ys) q \<longleftrightarrow> (\<exists>r. ring nx p xs r \<and> ring nx r ys q)"
  by (induction xs arbitrary: p) auto

lemma ring_upd [simp]: "x \<notin> set xs \<Longrightarrow> ring (nx(x := v)) p xs q = ring nx p xs q"
  by (induction xs arbitrary: p) auto

lemma circle_ring: "ring nx p xs (Head_node h) \<Longrightarrow> circle nx h p = Some xs"
proof (induction xs arbitrary: p)
  case Nil then show ?case by (subst circle.simps) simp
next
  case (Cons x xs) then show ?case by (subst circle.simps) simp
qed

definition circleq_holds :: "circleq_store \<Rightarrow> head \<Rightarrow> elm list \<Rightarrow> bool" where
  "circleq_holds s h xs \<longleftrightarrow> distinct xs \<and>
     ring (cqe_next s) (cqh_first s h) xs (Head_node h) \<and>
     ring (cqe_prev s) (cqh_last s h) (rev xs) (Head_node h)"

lemma ring_start: "ring nx p xs q \<Longrightarrow> p = (if xs = [] then q else Elm_node (hd xs))"
  by (cases xs) auto

lemma circleq_ends:
  assumes "circleq_holds s h xs"
  shows "cqh_first s h = (if xs = [] then Head_node h else Elm_node (hd xs))"
    and "cqh_last s h = (if xs = [] then Head_node h else Elm_node (last xs))"
  using assms ring_start [of "cqe_next s" "cqh_first s h" xs "Head_node h"]
    ring_start [of "cqe_prev s" "cqh_last s h" "rev xs" "Head_node h"]
  by (auto simp: circleq_holds_def hd_rev)

lemma circleq_init: "circleq_holds (CIRCLEQ_INIT h s) h []"
  by (simp add: circleq_holds_def circleq_defs)

lemma circleq_insert_head:
  assumes "circleq_holds s h xs" and "e \<notin> set xs"
  shows "\<exists>s'. CIRCLEQ_INSERT_HEAD h e s = Some s' \<and> circleq_holds s' h (e # xs)"
  using assms circleq_ends [OF assms(1)]
  by (cases xs) (auto simp: circleq_holds_def circleq_defs)

lemma circleq_insert_tail:
  assumes "circleq_holds s h xs" and "e \<notin> set xs"
  shows "\<exists>s'. CIRCLEQ_INSERT_TAIL h e s = Some s' \<and> circleq_holds s' h (xs @ [e])"
  using assms circleq_ends [OF assms(1)]
  by (cases xs rule: rev_cases) (auto simp: circleq_holds_def circleq_defs)

lemma circleq_insert_after:
  assumes "circleq_holds s h (xs @ x # ys)" and "e \<notin> set (xs @ x # ys)"
  shows "\<exists>s'. CIRCLEQ_INSERT_AFTER h x e s = Some s' \<and> circleq_holds s' h (xs @ x # e # ys)"
  using assms
  by (cases ys) (auto simp: circleq_holds_def circleq_defs)

lemma circleq_insert_before:
  assumes "circleq_holds s h (xs @ x # ys)" and "e \<notin> set (xs @ x # ys)"
  shows "\<exists>s'. CIRCLEQ_INSERT_BEFORE h x e s = Some s' \<and> circleq_holds s' h (xs @ e # x # ys)"
  using assms
  by (cases xs rule: rev_cases) (auto simp: circleq_holds_def circleq_defs)

lemma circleq_remove:
  assumes "circleq_holds s h (xs @ x # ys)"
  shows "\<exists>s'. CIRCLEQ_REMOVE h x s = Some s' \<and> circleq_holds s' h (xs @ ys)"
  using assms
  by (cases xs rule: rev_cases; cases ys) (auto simp: circleq_holds_def circleq_defs)

section \<open>Operations in sequence\<close>

datatype circleq_op = Queue_op queue_op | Insert_before elm elm

text \<open>Before an element is the place of the element itself.\<close>

fun list_insert_before :: "elm \<Rightarrow> elm \<Rightarrow> elm list \<Rightarrow> elm list" where
  "list_insert_before x e [] = []"
| "list_insert_before x e (y # ys) = (if y = x then e # y # ys else y # list_insert_before x e ys)"

lemma list_insert_before_split:
  "x \<notin> set xs \<Longrightarrow> list_insert_before x e (xs @ x # ys) = xs @ e # x # ys"
  by (induction xs) auto

fun circleq_step :: "circleq_op \<Rightarrow> elm list \<Rightarrow> elm list option" where
  "circleq_step (Queue_op f) xs = queue_step f xs"
| "circleq_step (Insert_before x e) xs =
     (if x \<in> set xs \<and> e \<notin> set xs then Some (list_insert_before x e xs) else None)"

fun circleq_store_step :: "head \<Rightarrow> circleq_op \<Rightarrow> circleq_store \<Rightarrow> circleq_store option" where
  "circleq_store_step h (Queue_op (List_op (Insert_head e))) s = CIRCLEQ_INSERT_HEAD h e s"
| "circleq_store_step h (Queue_op (List_op (Insert_after x e))) s = CIRCLEQ_INSERT_AFTER h x e s"
| "circleq_store_step h (Queue_op (List_op (Remove x))) s = CIRCLEQ_REMOVE h x s"
| "circleq_store_step h (Queue_op (Insert_tail e)) s = CIRCLEQ_INSERT_TAIL h e s"
| "circleq_store_step h (Insert_before x e) s = CIRCLEQ_INSERT_BEFORE h x e s"

lemma circleq_step_simulates:
  assumes h: "circleq_holds s h xs" and "circleq_step f xs = Some ys"
  shows "\<exists>s'. circleq_store_step h f s = Some s' \<and> circleq_holds s' h ys"
proof -
  have split: "\<exists>as bs. xs = as @ x # bs \<and> x \<notin> set as" if "x \<in> set xs" for x
    using that by (meson split_list_first)
  from assms show ?thesis
  proof (induction h f s rule: circleq_store_step.induct)
    case (1 h e s)
    then show ?case by (auto simp: circleq_insert_head split: if_splits)
  next
    case (2 h x e s)
    with split [of x] show ?case
      by (auto simp: list_insert_after_split circleq_insert_after split: if_splits)
  next
    case (3 h x s)
    with split [of x] circleq_remove show ?case by (fastforce simp: remove1_append split: if_splits)
  next
    case (4 h e s)
    then show ?case by (auto simp: circleq_insert_tail split: if_splits)
  next
    case (5 h x e s)
    with split [of x] show ?case
      by (auto simp: list_insert_before_split circleq_insert_before split: if_splits)
  qed
qed

section \<open>Properties\<close>

text \<open>C31: Circular queues refine plain lists under insertion at either end and on either side of an
  element, and removal, without ever writing into a head that is not theirs; the two loops
  visit the contents in both directions, and the looping neighbours of an element wrap
  around at the ends.\<close>

theorem circleq_refines_lists:
  assumes "circleq_holds s h xs" and "run circleq_step ops xs = Some ys"
  shows "\<exists>s'. run (circleq_store_step h) ops s = Some s' \<and>
    CIRCLEQ_FOREACH h s' = Some ys \<and> CIRCLEQ_FOREACH_REVERSE h s' = Some (rev ys) \<and>
    (CIRCLEQ_EMPTY h s' \<longleftrightarrow> ys = []) \<and>
    (\<forall>as x bs. ys = as @ x # bs \<longrightarrow>
      CIRCLEQ_LOOP_NEXT h x s' = Elm_node (hd (bs @ ys)) \<and>
      CIRCLEQ_LOOP_PREV h x s' = Elm_node (last (ys @ as)))"
proof -
  have "\<exists>s'. run (circleq_store_step h) ops s = Some s' \<and> circleq_holds s' h ys"
    by (rule run_simulates [where R = "\<lambda>s. circleq_holds s h"]) (use circleq_step_simulates assms in auto)
  then obtain s' where s': "run (circleq_store_step h) ops s = Some s'" "circleq_holds s' h ys"
    by blast
  have "CIRCLEQ_FOREACH h s' = Some ys" "CIRCLEQ_FOREACH_REVERSE h s' = Some (rev ys)"
    using s'(2) by (simp_all add: CIRCLEQ_FOREACH_def CIRCLEQ_FOREACH_REVERSE_def
        circleq_holds_def circle_ring)
  moreover have "CIRCLEQ_EMPTY h s' \<longleftrightarrow> ys = []"
    using s'(2) by (cases ys) (auto simp: CIRCLEQ_EMPTY_def circleq_holds_def)
  moreover have "CIRCLEQ_LOOP_NEXT h x s' = Elm_node (hd (bs @ ys))"
    if "ys = as @ x # bs" for as x bs
    using s'(2) that by (cases as; cases bs) (auto simp: circleq_holds_def CIRCLEQ_LOOP_NEXT_def)
  moreover have "CIRCLEQ_LOOP_PREV h x s' = Elm_node (last (ys @ as))"
    if "ys = as @ x # bs" for as x bs
    using s'(2) that
    by (cases as rule: rev_cases; cases bs rule: rev_cases)
      (auto simp: circleq_holds_def CIRCLEQ_LOOP_PREV_def)
  ultimately show ?thesis using s'(1) by blast
qed

lemma circleq_refines_lists_witness:
  "\<exists>s'. run (circleq_store_step 0)
      [Queue_op (Insert_tail 1), Insert_before 1 2, Queue_op (Insert_tail 3), Queue_op (List_op (Remove 1))]
      \<lparr>cqh_first = Head_node, cqh_last = Head_node, cqe_next = \<lambda>_. Head_node 9, cqe_prev = \<lambda>_. Head_node 9\<rparr> =
      Some s' \<and>
    CIRCLEQ_FOREACH 0 s' = Some [2, 3] \<and> CIRCLEQ_FOREACH_REVERSE 0 s' = Some (rev [2, 3]) \<and>
    (CIRCLEQ_EMPTY 0 s' \<longleftrightarrow> [2, 3] = ([] :: nat list)) \<and>
    (\<forall>as x bs. [2, 3] = as @ x # bs \<longrightarrow>
      CIRCLEQ_LOOP_NEXT 0 x s' = Elm_node (hd (bs @ [2, 3])) \<and>
      CIRCLEQ_LOOP_PREV 0 x s' = Elm_node (last ([2, 3] @ as)))"
  by (rule circleq_refines_lists [where xs = "[]"]) (simp_all add: circleq_holds_def)

end
