(* ===== verification/Byte_Swap.thy ===== *)
theory Byte_Swap
  imports Prelude
begin

text \<open>
  Byte and halfword swapping (\<^verbatim>\<open>linux/swab.h\<close>): the constant forms, the inline functions
  in the configuration without architecture overrides, the pointer and in-place variants
  over a store, and what they do to the bytes of a value.
\<close>

section \<open>Constant forms\<close>

definition constant_swab16 :: "u16 \<Rightarrow> u16" where
  "constant_swab16 x = push_bit 8 (x AND 0x00ff) OR drop_bit 8 (x AND 0xff00)"

definition constant_swab32 :: "u32 \<Rightarrow> u32" where
  "constant_swab32 x =
     push_bit 24 (x AND 0x000000ff) OR push_bit 8 (x AND 0x0000ff00) OR
     drop_bit 8 (x AND 0x00ff0000) OR drop_bit 24 (x AND 0xff000000)"

definition constant_swab64 :: "u64 \<Rightarrow> u64" where
  "constant_swab64 x =
     push_bit 56 (x AND 0x00000000000000ff) OR push_bit 40 (x AND 0x000000000000ff00) OR
     push_bit 24 (x AND 0x0000000000ff0000) OR push_bit 8 (x AND 0x00000000ff000000) OR
     drop_bit 8 (x AND 0x000000ff00000000) OR drop_bit 24 (x AND 0x0000ff0000000000) OR
     drop_bit 40 (x AND 0x00ff000000000000) OR drop_bit 56 (x AND 0xff00000000000000)"

definition constant_swahw32 :: "u32 \<Rightarrow> u32" where
  "constant_swahw32 x = push_bit 16 (x AND 0x0000ffff) OR drop_bit 16 (x AND 0xffff0000)"

definition constant_swahb32 :: "u32 \<Rightarrow> u32" where
  "constant_swahb32 x = push_bit 8 (x AND 0x00ff00ff) OR drop_bit 8 (x AND 0xff00ff00)"

section \<open>Inline functions\<close>

definition fswab16 :: "u16 \<Rightarrow> u16" where
  "fswab16 val = constant_swab16 val"

definition fswab32 :: "u32 \<Rightarrow> u32" where
  "fswab32 val = constant_swab32 val"

text \<open>
  Two of the three compile-time alternatives; the flag is \<^verbatim>\<open>defined(__SWAB_64_THRU_32__)\<close>.
\<close>

definition fswab64 :: "bool \<Rightarrow> u64 \<Rightarrow> u64" where
  "fswab64 thru_32 val =
     (if thru_32 then
        let h = ucast (drop_bit 32 val) :: u32;
            l = ucast (val AND (push_bit 32 1 - 1)) :: u32
        in push_bit 32 (ucast (fswab32 l)) OR ucast (fswab32 h)
      else constant_swab64 val)"

definition fswahw32 :: "u32 \<Rightarrow> u32" where
  "fswahw32 val = constant_swahw32 val"

definition fswahb32 :: "u32 \<Rightarrow> u32" where
  "fswahb32 val = constant_swahb32 val"

text \<open>
  The interface macros choose the constant form for a compile-time constant and the
  function otherwise.
\<close>

definition swab16 :: "bool \<Rightarrow> u16 \<Rightarrow> u16" where
  "swab16 is_constant x = (if is_constant then constant_swab16 x else fswab16 x)"

definition swab32 :: "bool \<Rightarrow> u32 \<Rightarrow> u32" where
  "swab32 is_constant x = (if is_constant then constant_swab32 x else fswab32 x)"

definition swab64 :: "bool \<Rightarrow> bool \<Rightarrow> u64 \<Rightarrow> u64" where
  "swab64 thru_32 is_constant x = (if is_constant then constant_swab64 x else fswab64 thru_32 x)"

text \<open>
  The swap of an \<^verbatim>\<open>unsigned long\<close> where \<^verbatim>\<open>__BITS_PER_LONG\<close> is 64, as it is on this target.
\<close>

definition swab :: "bool \<Rightarrow> u64 \<Rightarrow> u64" where
  "swab thru_32 y = swab64 thru_32 False y"

definition swahw32 :: "bool \<Rightarrow> u32 \<Rightarrow> u32" where
  "swahw32 is_constant x = (if is_constant then constant_swahw32 x else fswahw32 x)"

definition swahb32 :: "bool \<Rightarrow> u32 \<Rightarrow> u32" where
  "swahb32 is_constant x = (if is_constant then constant_swahb32 x else fswahb32 x)"

text \<open>From a pointer, and in place: the value lives in a store indexed by addresses.\<close>

definition swab16p :: "('p \<Rightarrow> u16) \<Rightarrow> 'p \<Rightarrow> u16" where
  "swab16p s p = swab16 False (s p)"

definition swab32p :: "('p \<Rightarrow> u32) \<Rightarrow> 'p \<Rightarrow> u32" where
  "swab32p s p = swab32 False (s p)"

definition swab64p :: "bool \<Rightarrow> ('p \<Rightarrow> u64) \<Rightarrow> 'p \<Rightarrow> u64" where
  "swab64p thru_32 s p = swab64 thru_32 False (s p)"

definition swahw32p :: "('p \<Rightarrow> u32) \<Rightarrow> 'p \<Rightarrow> u32" where
  "swahw32p s p = swahw32 False (s p)"

definition swahb32p :: "('p \<Rightarrow> u32) \<Rightarrow> 'p \<Rightarrow> u32" where
  "swahb32p s p = swahb32 False (s p)"

definition swab16s :: "'p \<Rightarrow> ('p \<Rightarrow> u16) \<Rightarrow> ('p \<Rightarrow> u16)" where
  "swab16s p s = s(p := swab16p s p)"

definition swab32s :: "'p \<Rightarrow> ('p \<Rightarrow> u32) \<Rightarrow> ('p \<Rightarrow> u32)" where
  "swab32s p s = s(p := swab32p s p)"

definition swab64s :: "bool \<Rightarrow> 'p \<Rightarrow> ('p \<Rightarrow> u64) \<Rightarrow> ('p \<Rightarrow> u64)" where
  "swab64s thru_32 p s = s(p := swab64p thru_32 s p)"

definition swahw32s :: "'p \<Rightarrow> ('p \<Rightarrow> u32) \<Rightarrow> ('p \<Rightarrow> u32)" where
  "swahw32s p s = s(p := swahw32p s p)"

definition swahb32s :: "'p \<Rightarrow> ('p \<Rightarrow> u32) \<Rightarrow> ('p \<Rightarrow> u32)" where
  "swahb32s p s = s(p := swahb32p s p)"

section \<open>The C library's swaps\<close>

text \<open>
  \<^verbatim>\<open>bits/byteswap.h\<close>: the branch without the compiler builtins, which is the constant form.
  \<^verbatim>\<open>netinet/in.h\<close> makes these the conversions to and from network byte order on a little-endian
  machine.
\<close>

definition bswap_16 :: "u16 \<Rightarrow> u16" where
  "bswap_16 x = drop_bit 8 x AND 0xff OR push_bit 8 (x AND 0xff)"

definition bswap_32 :: "u32 \<Rightarrow> u32" where
  "bswap_32 x =
     drop_bit 24 (x AND 0xff000000) OR drop_bit 8 (x AND 0x00ff0000) OR
     push_bit 8 (x AND 0x0000ff00) OR push_bit 24 (x AND 0x000000ff)"

definition bswap_64 :: "u64 \<Rightarrow> u64" where
  "bswap_64 x =
     drop_bit 56 (x AND 0xff00000000000000) OR drop_bit 40 (x AND 0x00ff000000000000) OR
     drop_bit 24 (x AND 0x0000ff0000000000) OR drop_bit 8 (x AND 0x000000ff00000000) OR
     push_bit 8 (x AND 0x00000000ff000000) OR push_bit 24 (x AND 0x0000000000ff0000) OR
     push_bit 40 (x AND 0x000000000000ff00) OR push_bit 56 (x AND 0x00000000000000ff)"

section \<open>Bits\<close>

text \<open>A position is a byte and an offset in it.\<close>

lemma position_cases:
  assumes "i < 8 * n"
  obtains k j where "k < n" "j < 8" "i = 8 * k + (j :: nat)"
  using that [of "i div 8" "i mod 8"] assms by (simp add: less_mult_imp_div_less mult.commute)

lemma below_4: "k < 4 \<Longrightarrow> k = 0 \<or> k = 1 \<or> k = 2 \<or> k = (3 :: nat)"
  by presburger

lemma below_8: "k < 8 \<Longrightarrow> k = 0 \<or> k = 1 \<or> k = 2 \<or> k = 3 \<or> k = 4 \<or> k = 5 \<or> k = 6 \<or> k = (7 :: nat)"
  by presburger

text \<open>
  Byte \<open>b\<close> of a value shifted up by \<open>a\<close> bytes is byte \<open>b + a\<close> of the result, and likewise
  down; the masks are stated in bytes.
\<close>

definition bytes_up :: "nat \<Rightarrow> nat \<Rightarrow> 'a::len word \<Rightarrow> 'a word" where
  "bytes_up a b x = push_bit (8 * a) (x AND push_bit (8 * b) (mask 8))"

definition bytes_down :: "nat \<Rightarrow> nat \<Rightarrow> 'a::len word \<Rightarrow> 'a word" where
  "bytes_down a b x = drop_bit (8 * a) (x AND push_bit (8 * b) (mask 8))"

lemma bit_bytes_up:
  assumes "j < 8" and "8 * k + j < LENGTH('a)"
  shows "bit (bytes_up a b x :: 'a::len word) (8 * k + j) \<longleftrightarrow> k = b + a \<and> bit x (8 * b + j)"
proof -
  have "bit (bytes_up a b x) (8 * k + j) \<longleftrightarrow> 8 * a \<le> 8 * k + j \<and> 8 * b \<le> 8 * k + j - 8 * a \<and>
      8 * k + j - 8 * a < 8 * b + 8 \<and> bit x (8 * k + j - 8 * a)"
    using assms(2) by (auto simp: bytes_up_def bit_simps dest: bit_imp_le_length)
  also have "\<dots> \<longleftrightarrow> k = b + a \<and> bit x (8 * b + j)"
  proof (cases "k = b + a")
    case False
    then have "\<not> (8 * a \<le> 8 * k + j \<and> 8 * b \<le> 8 * k + j - 8 * a \<and> 8 * k + j - 8 * a < 8 * b + 8)"
      using assms(1) by linarith
    with False show ?thesis by blast
  qed (use assms(1) in simp)
  finally show ?thesis .
qed

lemma bit_bytes_down:
  assumes "j < 8"
  shows "bit (bytes_down a b x :: 'a::len word) (8 * k + j) \<longleftrightarrow> k + a = b \<and> bit x (8 * b + j)"
proof -
  have "bit (bytes_down a b x) (8 * k + j) \<longleftrightarrow> 8 * b \<le> 8 * a + (8 * k + j) \<and>
      8 * a + (8 * k + j) < 8 * b + 8 \<and> bit x (8 * a + (8 * k + j))"
    by (auto simp: bytes_down_def bit_simps dest: bit_imp_le_length)
  also have "\<dots> \<longleftrightarrow> k + a = b \<and> bit x (8 * b + j)"
  proof (cases "k + a = b")
    case True
    then have e: "8 * a + (8 * k + j) = 8 * b + j" by simp
    show ?thesis unfolding e using True assms by simp
  next
    case False
    then have "\<not> (8 * b \<le> 8 * a + (8 * k + j) \<and> 8 * a + (8 * k + j) < 8 * b + 8)"
      using assms by linarith
    with False show ?thesis by blast
  qed
  finally show ?thesis .
qed

lemma swab_bytes:
  "constant_swab16 x = bytes_up 1 0 x OR bytes_down 1 1 x"
  "constant_swab32 y = bytes_up 3 0 y OR bytes_up 1 1 y OR bytes_down 1 2 y OR bytes_down 3 3 y"
  "constant_swab64 z = bytes_up 7 0 z OR bytes_up 5 1 z OR bytes_up 3 2 z OR bytes_up 1 3 z OR
    bytes_down 1 4 z OR bytes_down 3 5 z OR bytes_down 5 6 z OR bytes_down 7 7 z"
  by (simp_all add: constant_swab16_def constant_swab32_def constant_swab64_def bytes_up_def
      bytes_down_def mask_eq_exp_minus_1)

lemma swah_bytes:
  "constant_swahw32 y = bytes_up 2 0 y OR bytes_up 2 1 y OR bytes_down 2 2 y OR bytes_down 2 3 y"
  "constant_swahb32 y = bytes_up 1 0 y OR bytes_up 1 2 y OR bytes_down 1 1 y OR bytes_down 1 3 y"
proof -
  have m: "(0xffff :: u32) = 0xff OR 0xff00" "(0xffff0000 :: u32) = 0xff0000 OR 0xff000000"
    "(0xff00ff :: u32) = 0xff OR 0xff0000" "(0xff00ff00 :: u32) = 0xff00 OR 0xff000000"
    by simp_all
  show "constant_swahw32 y = bytes_up 2 0 y OR bytes_up 2 1 y OR bytes_down 2 2 y OR bytes_down 2 3 y"
    unfolding constant_swahw32_def m(1,2) bit.conj_disj_distrib push_bit_or drop_bit_or
    by (simp add: bytes_up_def bytes_down_def mask_eq_exp_minus_1 or.assoc)
  show "constant_swahb32 y = bytes_up 1 0 y OR bytes_up 1 2 y OR bytes_down 1 1 y OR bytes_down 1 3 y"
    unfolding constant_swahb32_def m(3,4) bit.conj_disj_distrib push_bit_or drop_bit_or
    by (simp add: bytes_up_def bytes_down_def mask_eq_exp_minus_1 ac_simps)
qed

lemma bit_swab16: "k < 2 \<Longrightarrow> j < 8 \<Longrightarrow> bit (constant_swab16 x) (8 * k + j) = bit x (8 * (1 - k) + j)"
  unfolding swab_bytes bit_or_iff
  by (simp add: bit_bytes_up bit_bytes_down) (auto simp: less_2_cases_iff)

lemma bit_swab32: "k < 4 \<Longrightarrow> j < 8 \<Longrightarrow> bit (constant_swab32 x) (8 * k + j) = bit x (8 * (3 - k) + j)"
  unfolding swab_bytes bit_or_iff
  by (simp add: bit_bytes_up bit_bytes_down) (drule below_4, elim disjE, simp_all)

lemma bit_swab64: "k < 8 \<Longrightarrow> j < 8 \<Longrightarrow> bit (constant_swab64 x) (8 * k + j) = bit x (8 * (7 - k) + j)"
  unfolding swab_bytes bit_or_iff
  by (simp add: bit_bytes_up bit_bytes_down) (drule below_8, elim disjE, simp_all)

lemma bit_swahw32: "k < 4 \<Longrightarrow> j < 8 \<Longrightarrow> bit (constant_swahw32 x) (8 * k + j) = bit x (8 * ((k + 2) mod 4) + j)"
  unfolding swah_bytes bit_or_iff
  by (simp add: bit_bytes_up bit_bytes_down) (drule below_4, elim disjE, simp_all)

lemma bit_swahb32: "k < 4 \<Longrightarrow> j < 8 \<Longrightarrow>
    bit (constant_swahb32 x) (8 * k + j) = bit x (8 * (if even k then k + 1 else k - 1) + j)"
  unfolding swah_bytes bit_or_iff
  by (simp add: bit_bytes_up bit_bytes_down) (drule below_4, elim disjE, simp_all)

section \<open>Bytes of a value\<close>

definition word_bytes :: "nat \<Rightarrow> 'a::len word \<Rightarrow> u8 list" where
  "word_bytes n x = map (\<lambda>k. ucast (drop_bit (8 * k) x)) [0..<n]"

lemma length_word_bytes [simp]: "length (word_bytes n x) = n"
  by (simp add: word_bytes_def)

lemma bit_word_bytes: "k < n \<Longrightarrow> bit (word_bytes n x ! k) j \<longleftrightarrow> j < 8 \<and> bit x (8 * k + j)"
  by (auto simp: word_bytes_def bit_simps dest: bit_u8_less)

text \<open>Two values whose bytes are permuted alike are compared byte by byte, bit by bit.\<close>

lemma word_bytes_permuted:
  assumes "length bs = n"
    and "\<And>k. k < n \<Longrightarrow> f k < n \<and> bs ! k = word_bytes n y ! f k"
    and "\<And>k j. k < n \<Longrightarrow> j < 8 \<Longrightarrow> bit x (8 * k + j) = bit y (8 * f k + j)"
  shows "word_bytes n x = bs"
proof (rule nth_equalityI)
  fix k assume "k < length (word_bytes n x)"
  then have k: "k < n" by simp
  show "word_bytes n x ! k = bs ! k"
    using assms(2) [OF k] assms(3) [OF k]
    by (intro bit_eqI) (auto simp: bit_word_bytes [OF k] bit_word_bytes)
qed (use assms(1) in simp)

lemma word_bytes_inject:
  fixes x y :: "'a::len word"
  assumes "LENGTH('a) = 8 * n" and "word_bytes n x = word_bytes n y"
  shows "x = y"
proof (rule bit_word_eqI)
  fix i assume "i < LENGTH('a)"
  then obtain k j where "k < n" "j < 8" "i = 8 * k + j"
    using assms(1) position_cases [of i n] by metis
  then show "bit x i \<longleftrightarrow> bit y i"
    using assms(2) bit_word_bytes [of k n x j] bit_word_bytes [of k n y j] by simp
qed

text \<open>Swapping through 32-bit halves agrees with the constant form.\<close>

lemma swab64_halves: "fswab64 t z = constant_swab64 z"
proof (cases t)
  case True
  have "(4294967295 :: u64) = mask 32"
    by (simp add: mask_eq_exp_minus_1)
  have m: "(ucast (z AND 4294967295) :: u32) = ucast z"
    unfolding \<open>4294967295 = mask 32\<close> by (auto simp: bit_simps intro!: bit_word_eqI)
  show ?thesis
  proof (rule bit_word_eqI)
    fix i assume "i < LENGTH(64)"
    then obtain k j where kj: "k < 8" "j < 8" "i = 8 * k + j"
      using position_cases [of i 8] by auto
    show "bit (fswab64 t z) i \<longleftrightarrow> bit (constant_swab64 z) i"
    proof (cases "k < 4")
      case True
      then have "32 + (8 * (3 - k) + j) = 8 * (7 - k) + j" and l: "8 * (3 - k) + j < 32"
        using kj by linarith+
      then have e: "bit z (8 * (7 - k) + j) = bit z (32 + (8 * (3 - k) + j))" by (simp only:)
      show ?thesis
        unfolding kj(3) bit_swab64 [OF kj(1,2)] e
        using \<open>t\<close> True kj l by (simp add: fswab64_def Let_def fswab32_def bit_simps bit_swab32)
    next
      case False
      define k' where "k' = k - 4"
      have k': "k = k' + 4" "k' < 4"
        using False kj(1) by (simp_all add: k'_def)
      have l: "8 * (3 - k') + j < 32"
        using k' kj by linarith
      have "7 - k = 3 - k'"
        using k'(1) by simp
      then have e: "bit z (8 * (7 - k) + j) = bit z (8 * (3 - k') + j)" by (simp only:)
      show ?thesis
        unfolding kj(3) bit_swab64 [OF kj(1,2)] e
        using \<open>t\<close> k' kj l bit_swab32 [of k' j "ucast z"]
        by (auto simp: fswab64_def Let_def fswab32_def bit_simps m dest: bit_u32_less)
    qed
  qed
qed (simp add: fswab64_def)

lemmas swab_defs = swab16_def fswab16_def swab32_def fswab32_def swab64_def swab64_halves
  swahw32_def fswahw32_def swahb32_def fswahb32_def
lemmas swab_store_defs = swab16s_def swab16p_def swab32s_def swab32p_def swab64s_def swab64p_def
  swahw32s_def swahw32p_def swahb32s_def swahb32p_def

lemma swab_reverses:
  "word_bytes 2 (swab16 c x) = rev (word_bytes 2 x)"
  "word_bytes 4 (swab32 c y) = rev (word_bytes 4 y)"
  "word_bytes 8 (swab64 t c z) = rev (word_bytes 8 z)"
proof -
  show "word_bytes 2 (swab16 c x) = rev (word_bytes 2 x)"
    by (rule word_bytes_permuted [where f = "\<lambda>k. 1 - k" and y = x])
      (auto simp: rev_nth swab_defs bit_swab16)
  show "word_bytes 4 (swab32 c y) = rev (word_bytes 4 y)"
    by (rule word_bytes_permuted [where f = "\<lambda>k. 3 - k" and y = y])
      (auto simp: rev_nth swab_defs bit_swab32)
  show "word_bytes 8 (swab64 t c z) = rev (word_bytes 8 z)"
    by (rule word_bytes_permuted [where f = "\<lambda>k. 7 - k" and y = z])
      (auto simp: rev_nth swab_defs bit_swab64)
qed

lemma swah_permutes:
  "word_bytes 4 (swahw32 c y) = rotate 2 (word_bytes 4 y)"
  "word_bytes 4 (swahb32 c y) = map (\<lambda>k. word_bytes 4 y ! (if even k then k + 1 else k - 1)) [0..<4]"
proof -
  show "word_bytes 4 (swahw32 c y) = rotate 2 (word_bytes 4 y)"
    by (rule word_bytes_permuted [where f = "\<lambda>k. (k + 2) mod 4" and y = y])
      (simp_all add: nth_rotate swab_defs bit_swahw32 [simplified] add.commute [of 2])
  show "word_bytes 4 (swahb32 c y) =
      map (\<lambda>k. word_bytes 4 y ! (if even k then k + 1 else k - 1)) [0..<4]"
    by (rule word_bytes_permuted [where f = "\<lambda>k. if even k then k + 1 else k - 1" and y = y])
      (auto simp: swab_defs bit_swahb32 dest: below_4)
qed

text \<open>The C library's forms are the same functions.\<close>

lemma bswap_eq: "bswap_16 = swab16 c" "bswap_32 = swab32 c" "bswap_64 = swab64 t c"
proof -
  have "drop_bit 8 (w AND 0xff00) = drop_bit 8 w AND 0xff" for w :: u16
    by simp
  then show "bswap_16 = swab16 c"
    by (simp add: fun_eq_iff bswap_16_def swab_defs constant_swab16_def or.commute)
  show "bswap_32 = swab32 c" "bswap_64 = swab64 t c"
    by (simp_all add: fun_eq_iff bswap_32_def bswap_64_def swab_defs constant_swab32_def
        constant_swab64_def ac_simps)
qed

text \<open>Every swap is its own inverse.\<close>

lemma swab_twice [simp]:
  "swab16 c (swab16 d x) = x" "swab32 c (swab32 d y) = y" "swab64 t c (swab64 t' d z) = z"
  by (rule word_bytes_inject [where n = 2] word_bytes_inject [where n = 4]
      word_bytes_inject [where n = 8]; simp add: swab_reverses)+

lemma upt_4: "[0..<4] = [0, 1, 2, 3 :: nat]"
  by (simp add: upt_rec)

lemma swah_twice [simp]: "swahw32 c (swahw32 d y) = y" "swahb32 c (swahb32 d y) = y"
proof -
  have "word_bytes 4 (swahw32 c (swahw32 d y)) = word_bytes 4 y"
    by (simp add: swah_permutes rotate_rotate rotate_id)
  then show "swahw32 c (swahw32 d y) = y"
    by (rule word_bytes_inject [rotated]) simp
  have "word_bytes 4 (swahb32 c (swahb32 d y)) = map (nth (word_bytes 4 y)) [0..<4]"
    unfolding swah_permutes by (simp add: upt_4)
  also have "\<dots> = word_bytes 4 y"
    using map_nth [of "word_bytes 4 y"] by simp
  finally show "swahb32 c (swahb32 d y) = y"
    by (rule word_bytes_inject [rotated]) simp
qed

text \<open>Every swap permutes the bytes of its argument and nothing else.  The 16, 32 and 64 bit
  byte swaps reverse them, whether folded as a constant or called, and the 64-bit one does the
  same when it is composed from two 32-bit swaps (\<^verbatim>\<open>__SWAB_64_THRU_32__\<close>); the halfword swap
  rotates by two bytes; the high/low swap exchanges the bytes of each halfword.
  The C library's swaps are the same functions.\<close>

theorem swabs_permute_bytes:
  "word_bytes 2 (swab16 c x) = rev (word_bytes 2 x) \<and>
   word_bytes 4 (swab32 c y) = rev (word_bytes 4 y) \<and>
   word_bytes 8 (swab64 t c z) = rev (word_bytes 8 z) \<and>
   word_bytes 8 (swab t z) = rev (word_bytes 8 z) \<and>
   word_bytes 4 (swahw32 c y) = rotate 2 (word_bytes 4 y) \<and>
   word_bytes 4 (swahb32 c y) =
     map (\<lambda>k. word_bytes 4 y ! (if even k then k + 1 else k - 1)) [0..<4] \<and>
   bswap_16 x = swab16 c x \<and> bswap_32 y = swab32 c y \<and> bswap_64 z = swab64 t c z"
  by (simp add: swab_reverses swah_permutes swab_def bswap_eq(1,2) [of c] bswap_eq(3) [of t c])

text \<open>Swapping a value in place writes only the addressed value, leaves its bytes permuted as
  the interface macro has them, and swapping the same place twice restores the store.\<close>

lemma swabs_in_place:
  "swab16s p s = s(p := swab16 c (s p)) \<and> swab16s p (swab16s p s) = s \<and>
   swab32s p s' = s'(p := swab32 c (s' p)) \<and> swab32s p (swab32s p s') = s' \<and>
   swab64s t p s'' = s''(p := swab64 t' c (s'' p)) \<and> swab64s t p (swab64s t' p s'') = s'' \<and>
   swahw32s p s' = s'(p := swahw32 c (s' p)) \<and> swahw32s p (swahw32s p s') = s' \<and>
   swahb32s p s' = s'(p := swahb32 c (s' p)) \<and> swahb32s p (swahb32s p s') = s'"
proof -
  have "swab16 False = swab16 c" "swab32 False = swab32 c" "swab64 t False = swab64 t' c"
    "swab64 t' False = swab64 t' c" "swahw32 False = swahw32 c" "swahb32 False = swahb32 c"
    by (simp_all add: fun_eq_iff swab_defs)
  then show ?thesis by (simp add: swab_store_defs)
qed

end
