(* ===== verification/Bsearch.thy ===== *)
theory Bsearch
  imports Prelude
begin

text \<open>
  The inline binary search of the C library (\<^verbatim>\<open>bits/stdlib-bsearch.h\<close>).  Indices and addresses
  are 64-bit words (\<^verbatim>\<open>size_t\<close> and pointers of this target), so that the midpoint and the element
  address are computed as the machine computes them; the loop is a partial function, so that not
  returning is the outer \<open>None\<close>; \<^verbatim>\<open>NULL\<close> is address 0.  The comparison function is the caller's.
\<close>

type_synonym address = u64

definition null :: address where
  "null = 0"

section \<open>The loop\<close>

partial_function (option) bsearch_loop ::
    "('k \<Rightarrow> address \<Rightarrow> int) \<Rightarrow> 'k \<Rightarrow> address \<Rightarrow> u64 \<Rightarrow> u64 \<Rightarrow> u64 \<Rightarrow> address option" where
  "bsearch_loop compar key base sz l u =
     (if l < u then
        let idx = (l + u) div 2;
            p = base + idx * sz;
            comparison = compar key p
        in if comparison < 0 then bsearch_loop compar key base sz l idx
           else if comparison > 0 then bsearch_loop compar key base sz (idx + 1) u
           else Some p
      else Some null)"

definition bsearch :: "'k \<Rightarrow> address \<Rightarrow> u64 \<Rightarrow> u64 \<Rightarrow> ('k \<Rightarrow> address \<Rightarrow> int) \<Rightarrow> address option" where
  "bsearch key base nmemb sz compar = bsearch_loop compar key base sz 0 nmemb"

section \<open>Arrays\<close>

text \<open>The address of an element, and an array that lies in the address space above \<open>null\<close>.\<close>

definition element :: "address \<Rightarrow> u64 \<Rightarrow> nat \<Rightarrow> address" where
  "element base sz i = base + of_nat i * sz"

definition array_fits :: "address \<Rightarrow> u64 \<Rightarrow> u64 \<Rightarrow> bool" where
  "array_fits base nmemb sz \<longleftrightarrow>
     0 < base \<and> unat nmemb \<le> 2 ^ 63 \<and> unat base + unat nmemb * unat sz \<le> 2 ^ 64"

text \<open>
  The elements are ordered as the comparison sees them: those below the key come first, then
  those that match, then those above it.
\<close>

definition ordered_for :: "('k \<Rightarrow> address \<Rightarrow> int) \<Rightarrow> 'k \<Rightarrow> address \<Rightarrow> u64 \<Rightarrow> u64 \<Rightarrow> bool" where
  "ordered_for compar key base nmemb sz \<longleftrightarrow>
     sorted_wrt (\<ge>) (map (\<lambda>i. sgn (compar key (element base sz i))) [0..<unat nmemb])"

lemma ordered_forD:
  assumes "ordered_for compar key base nmemb sz" and "i \<le> j" and "j < unat nmemb"
  shows "compar key (element base sz i) < 0 \<Longrightarrow> compar key (element base sz j) < 0"
    and "0 < compar key (element base sz j) \<Longrightarrow> 0 < compar key (element base sz i)"
proof -
  have "sgn (compar key (element base sz j)) \<le> sgn (compar key (element base sz i))"
    using assms by (cases "i = j") (simp_all add: ordered_for_def sorted_wrt_iff_nth_less)
  then show "compar key (element base sz i) < 0 \<Longrightarrow> compar key (element base sz j) < 0"
    and "0 < compar key (element base sz j) \<Longrightarrow> 0 < compar key (element base sz i)"
    by (auto simp: sgn_if split: if_splits)
qed

lemma element_nonnull:
  assumes "array_fits base nmemb sz" and "i < unat nmemb"
  shows "element base sz i \<noteq> null"
proof (cases "sz = 0")
  case True
  then show ?thesis
    using assms(1) by (auto simp: element_def null_def array_fits_def)
next
  case False
  have "0 < unat sz"
    using False by (simp add: unat_gt_0)
  then have "i * unat sz < unat nmemb * unat sz"
    using assms(2) by simp
  moreover have "unat base + unat nmemb * unat sz \<le> 2 ^ 64" and "0 < unat base"
    using assms(1) by (auto simp: array_fits_def unat_gt_0)
  ultimately have b: "unat base + i * unat sz < 2 ^ 64" by linarith
  have "element base sz i = of_nat (unat base + i * unat sz)"
    by (simp add: element_def)
  then have "unat (element base sz i) = unat base + i * unat sz"
    using b by (intro of_nat_inverse) simp_all
  with \<open>0 < unat base\<close> show ?thesis
    by (auto simp: null_def)
qed

text \<open>The midpoint does not wrap.\<close>

lemma midpoint:
  assumes "l < u" and "unat u \<le> 2 ^ 63"
  shows "unat ((l + u) div 2) = (unat l + unat u) div 2"
    and "unat l \<le> unat ((l + u :: u64) div 2)" and "unat ((l + u) div 2) < unat u"
    and "unat ((l + u) div 2 + 1) = Suc (unat ((l + u) div 2))"
proof -
  have lu: "unat l < unat u"
    using assms(1) by (simp add: word_less_nat_alt)
  have "unat (l + u) = unat l + unat u"
    using lu assms(2) by (intro unat_add_lem [THEN iffD1]) simp
  then show m: "unat ((l + u) div 2) = (unat l + unat u) div 2"
    by (simp add: unat_div)
  then show "unat l \<le> unat ((l + u) div 2)" and h: "unat ((l + u) div 2) < unat u"
    using lu by simp_all
  have "unat ((l + u) div 2) + unat (1 :: u64) < 2 ^ LENGTH(64)"
    using h assms(2) by simp
  then show "unat ((l + u) div 2 + 1) = Suc (unat ((l + u) div 2))"
    using unat_add_lem [of "(l + u) div 2" 1] by simp
qed

section \<open>What the search returns\<close>

text \<open>
  The loop invariant: everything below \<open>l\<close> is below the key, everything from \<open>u\<close> on is above it.
\<close>

lemma bsearch_loop_spec:
  fixes l u :: u64 and compar :: "'k \<Rightarrow> address \<Rightarrow> int"
    and key :: 'k and base :: address and sz :: u64
  defines "c \<equiv> \<lambda>i. compar key (element base sz i)"
  assumes "ordered_for compar key base nmemb sz" and "array_fits base nmemb sz"
    and "unat l \<le> unat u" and "unat u \<le> unat nmemb"
    and "\<And>i. i < unat l \<Longrightarrow> 0 < c i" and "\<And>i. unat u \<le> i \<Longrightarrow> i < unat nmemb \<Longrightarrow> c i < 0"
  shows "\<exists>p. bsearch_loop compar key base sz l u = Some p \<and>
     (if \<exists>i < unat nmemb. c i = 0 then \<exists>i < unat nmemb. p = element base sz i \<and> c i = 0
      else p = null)"
  using assms(4-)
proof (induction "unat u - unat l" arbitrary: l u rule: less_induct)
  case less
  let ?idx = "(l + u) div 2"
  show ?case
  proof (cases "l < u")
    case False
    then have "unat u \<le> unat l"
      by (simp add: word_less_nat_alt)
    then have "c i \<noteq> 0" if "i < unat nmemb" for i
      using less.prems(3) [of i] less.prems(4) [of i] that by (cases "i < unat l") auto
    then show ?thesis
      using False by (auto simp: bsearch_loop.simps)
  next
    case True
    have "unat u \<le> 2 ^ 63"
      using less.prems(2) assms(3) by (simp add: array_fits_def)
    note mid = midpoint [OF True this]
    have p: "base + ?idx * sz = element base sz (unat ?idx)"
      by (simp add: element_def)
    have n: "unat ?idx < unat nmemb"
      using mid(3) less.prems(2) by linarith
    have ord: "c i < 0 \<Longrightarrow> c j < 0" "0 < c j \<Longrightarrow> 0 < c i" if "i \<le> j" "j < unat nmemb" for i j
      using ordered_forD [OF assms(2) that] by (simp_all add: c_def)
    consider "c (unat ?idx) < 0" | "0 < c (unat ?idx)" | "c (unat ?idx) = 0" by linarith
    then show ?thesis
    proof cases
      case 1
      have "bsearch_loop compar key base sz l u = bsearch_loop compar key base sz l ?idx"
        using True 1 p by (subst bsearch_loop.simps) (simp add: c_def Let_def)
      then show ?thesis
        using less.hyps [of ?idx l] less.prems mid ord(1) [OF _ _ 1] n by auto
    next
      case 2
      have "bsearch_loop compar key base sz l u = bsearch_loop compar key base sz (?idx + 1) u"
        using True 2 p by (subst bsearch_loop.simps) (simp add: c_def Let_def)
      moreover have "0 < c i" if "i < unat (?idx + 1)" for i
        using ord(2) [of i, OF _ n 2] that mid(4) by simp
      ultimately show ?thesis
        using less.hyps [of u "?idx + 1"] less.prems mid by auto
    next
      case 3
      have "bsearch_loop compar key base sz l u = Some (element base sz (unat ?idx))"
        using True 3 p by (subst bsearch_loop.simps) (simp add: c_def Let_def)
      then show ?thesis
        using 3 n by auto
    qed
  qed
qed

text \<open>C22: on an array that lies in the address space, has at most \<^verbatim>\<open>2^63\<close> elements and is ordered
  as the comparison sees it, the search returns: the address of an element that compares equal to
  the key when there is one, and \<^verbatim>\<open>NULL\<close> exactly when there is none.\<close>

theorem bsearch_finds:
  assumes "array_fits base nmemb sz" and "ordered_for compar key base nmemb sz"
  shows "\<exists>p. bsearch key base nmemb sz compar = Some p \<and>
     (p = null \<longleftrightarrow> (\<forall>i < unat nmemb. compar key (element base sz i) \<noteq> 0)) \<and>
     (p \<noteq> null \<longrightarrow> (\<exists>i < unat nmemb. p = element base sz i \<and> compar key p = 0))"
proof -
  obtain p where p: "bsearch key base nmemb sz compar = Some p"
    "if \<exists>i < unat nmemb. compar key (element base sz i) = 0
     then \<exists>i < unat nmemb. p = element base sz i \<and> compar key (element base sz i) = 0
     else p = null"
    using bsearch_loop_spec [OF assms(2,1), of 0 nmemb] by (auto simp: bsearch_def)
  then show ?thesis
    using element_nonnull [OF assms(1)] by (auto split: if_splits)
qed

theorem bsearch_finds_witness:
  "\<exists>p. bsearch (7 :: int) 4096 5 4 (\<lambda>k a. k - int (unat a) + 4101) = Some p \<and>
     (p = null \<longleftrightarrow> (\<forall>i < unat (5 :: u64). (7 :: int) - int (unat (element 4096 4 i)) + 4101 \<noteq> 0)) \<and>
     (p \<noteq> null \<longrightarrow> (\<exists>i < unat (5 :: u64). p = element 4096 4 i \<and> (7 :: int) - int (unat p) + 4101 = 0))"
  by (rule bsearch_finds [where compar = "\<lambda>k a. k - int (unat a) + 4101"])
    (simp_all add: array_fits_def ordered_for_def element_def upt_rec)

end
