(* ===== verification/Byte_Memory.thy ===== *)
theory Byte_Memory
  imports Byte_Swap
begin

text \<open>
  A memory of bytes indexed by address, with the loads, stores and block operations the header
  functions perform on it.  Pointers are natural numbers, since an address inside one object does
  not wrap; the target is little-endian, so that \<^verbatim>\<open>htons\<close> and its relatives swap.
\<close>

section \<open>Memory\<close>

type_synonym memory = "nat \<Rightarrow> u8"

text \<open>Little-endian loads and stores, and the conversions to network order.\<close>

definition load16 :: "memory \<Rightarrow> nat \<Rightarrow> u16" where
  "load16 m p = be16 (m (Suc p)) (m p)"

definition store16 :: "nat \<Rightarrow> u16 \<Rightarrow> memory \<Rightarrow> memory" where
  "store16 p v m = m(p := lo8 v, Suc p := hi8 v)"

definition store32 :: "nat \<Rightarrow> u32 \<Rightarrow> memory \<Rightarrow> memory" where
  "store32 p v m = store16 (p + 2) (ucast (drop_bit 16 v)) (store16 p (ucast v) m)"

definition ntohs :: "u16 \<Rightarrow> u16" where
  "ntohs x = bswap_16 x"

definition htons :: "u16 \<Rightarrow> u16" where
  "htons x = bswap_16 x"

definition htonl :: "u32 \<Rightarrow> u32" where
  "htonl x = bswap_32 x"

definition memcpy :: "nat \<Rightarrow> nat \<Rightarrow> nat \<Rightarrow> memory \<Rightarrow> memory" where
  "memcpy dst src n m = (\<lambda>a. if dst \<le> a \<and> a < dst + n then m (src + (a - dst)) else m a)"

definition memset :: "nat \<Rightarrow> u8 \<Rightarrow> nat \<Rightarrow> memory \<Rightarrow> memory" where
  "memset p v n m = (\<lambda>a. if p \<le> a \<and> a < p + n then v else m a)"

section \<open>Network byte order\<close>

lemma bswap_16_be16: "bswap_16 (be16 a b) = be16 b a"
  unfolding bswap_16_def be16_def mask_numerals
  by (rule bit_word_eqI) (auto simp: bit_simps dest: bit_less)

lemma ntohs_load16: "ntohs (load16 m p) = be16 (m p) (m (Suc p))"
  by (simp add: ntohs_def load16_def bswap_16_be16)

lemma store16_htons: "store16 p (htons v) m = m(p := hi8 v, Suc p := lo8 v)"
  using bswap_16_be16 [of "hi8 v" "lo8 v"] by (simp add: htons_def store16_def)

section \<open>Byte sequences in memory\<close>

definition read_bytes :: "memory \<Rightarrow> nat \<Rightarrow> nat \<Rightarrow> u8 list" where
  "read_bytes m p n = map (\<lambda>i. m (p + i)) [0..<n]"

definition write_bytes :: "nat \<Rightarrow> u8 list \<Rightarrow> memory \<Rightarrow> memory" where
  "write_bytes p bs m = (\<lambda>a. if p \<le> a \<and> a < p + length bs then bs ! (a - p) else m a)"

definition stored :: "memory \<Rightarrow> nat \<Rightarrow> u8 list \<Rightarrow> bool" where
  "stored m p bs \<longleftrightarrow> (\<forall>i < length bs. m (p + i) = bs ! i)"

lemma length_read_bytes [simp]: "length (read_bytes m p n) = n"
  by (simp add: read_bytes_def)

lemma nth_read_bytes [simp]: "i < n \<Longrightarrow> read_bytes m p n ! i = m (p + i)"
  by (simp add: read_bytes_def)

lemma stored_Nil [simp]: "stored m p []"
  by (simp add: stored_def)

lemma stored_Cons [simp]: "stored m p (b # bs) \<longleftrightarrow> m p = b \<and> stored m (Suc p) bs"
  by (auto simp: stored_def All_less_Suc2)

lemma stored_append [simp]:
  "stored m p (bs @ cs) \<longleftrightarrow> stored m p bs \<and> stored m (p + length bs) cs"
  by (induction bs arbitrary: p) auto

lemma stored_read: "stored m p bs \<longleftrightarrow> read_bytes m p (length bs) = bs"
  by (auto simp: stored_def list_eq_iff_nth_eq)

lemma stored_write [simp]: "stored (write_bytes p bs m) p bs"
  by (simp add: stored_def write_bytes_def)

lemma write_bytes_Nil [simp]: "write_bytes p [] m = m"
  by (auto simp: write_bytes_def fun_eq_iff)

lemma write_bytes_append:
  "q = p + length bs \<Longrightarrow> write_bytes q cs (write_bytes p bs m) = write_bytes p (bs @ cs) m"
  by (auto simp: write_bytes_def fun_eq_iff nth_append)

lemma read_bytes_write:
  "(\<And>i. i < n \<Longrightarrow> \<not> (p \<le> q + i \<and> q + i < p + length bs)) \<Longrightarrow>
   read_bytes (write_bytes p bs m) q n = read_bytes m q n"
  by (auto simp: read_bytes_def write_bytes_def)

lemma read_bytes_same:
  "\<forall>a \<in> used. m a = m' a \<Longrightarrow> {p ..< p + n} \<subseteq> used \<Longrightarrow> read_bytes m p n = read_bytes m' p n"
  by (simp add: read_bytes_def subset_iff)

lemma read_bytes_extend:
  "read_bytes (write_bytes (p + k) bs m) p (k + length bs) = read_bytes m p k @ bs"
  by (auto simp: list_eq_iff_nth_eq nth_append write_bytes_def)

lemma memcpy_write: "memcpy dst src n m = write_bytes dst (read_bytes m src n) m"
  by (auto simp: memcpy_def write_bytes_def fun_eq_iff)

lemma memset_write: "memset p v n m = write_bytes p (replicate n v) m"
  by (auto simp: memset_def write_bytes_def fun_eq_iff)

lemma write_bytes_Cons: "write_bytes p (b # bs) m = (write_bytes (Suc p) bs m)(p := b)"
  by (auto simp: write_bytes_def fun_eq_iff nth_Cons')

section \<open>Wider accesses\<close>

definition load32 :: "memory \<Rightarrow> nat \<Rightarrow> u32" where
  "load32 m p = push_bit 16 (ucast (load16 m (p + 2))) OR ucast (load16 m p)"

definition load64 :: "memory \<Rightarrow> nat \<Rightarrow> u64" where
  "load64 m p = push_bit 32 (ucast (load32 m (p + 4))) OR ucast (load32 m p)"

definition store64 :: "nat \<Rightarrow> u64 \<Rightarrow> memory \<Rightarrow> memory" where
  "store64 p v m = store32 (p + 4) (ucast (drop_bit 32 v)) (store32 p (ucast v) m)"

lemma load16_store16 [simp]: "load16 (store16 p v m) p = v"
  by (simp add: load16_def store16_def)

lemma load32_halves: "load32 m p = v \<longleftrightarrow> load16 m p = ucast v \<and> load16 m (p + 2) = ucast (drop_bit 16 v)"
proof
  assume "load32 m p = v"
  then show "load16 m p = ucast v \<and> load16 m (p + 2) = ucast (drop_bit 16 v)"
    by (auto simp: load32_def bit_simps dest: bit_less intro!: bit_word_eqI)
next
  assume "load16 m p = ucast v \<and> load16 m (p + 2) = ucast (drop_bit 16 v)"
  then show "load32 m p = v"
    by (auto simp: load32_def bit_simps dest: bit_less intro!: bit_word_eqI)
qed

lemma load16_other [simp]: "q + 1 < p \<or> p + 1 < q \<Longrightarrow> load16 (store16 p v m) q = load16 m q"
  by (auto simp: load16_def store16_def)

lemma load32_store32 [simp]: "load32 (store32 p v m) p = v"
  by (simp add: load32_halves store32_def)

text \<open>A word is stored with its low byte first.\<close>

lemma store32_bytes: "store32 p v m = write_bytes p (word_bytes 4 v) m"
proof -
  have "word_bytes 4 v = [lo8 (ucast v), hi8 (ucast v), lo8 (ucast (drop_bit 16 v)), hi8 (ucast (drop_bit 16 v))]"
    unfolding word_bytes_def upt_4 lo8_def hi8_def mask_numerals
    by (auto intro!: bit_word_eqI simp: bit_simps)
  then show ?thesis
    by (simp add: store32_def store16_def write_bytes_Cons fun_upd_twist)
qed

lemma word_bytes_8:
  "word_bytes 8 v = word_bytes 4 (ucast v :: u32) @ word_bytes 4 (ucast (drop_bit 32 v) :: u32)" for v :: u64
proof (rule nth_equalityI)
  fix i assume "i < length (word_bytes 8 v)"
  then have i: "i < 8" by simp
  show "word_bytes 8 v ! i = (word_bytes 4 (ucast v :: u32) @ word_bytes 4 (ucast (drop_bit 32 v) :: u32)) ! i"
  proof (rule bit_word_eqI)
    fix n assume "n < LENGTH(8)"
    then have n: "n < 8" by simp
    show "bit (word_bytes 8 v ! i) n =
        bit ((word_bytes 4 (ucast v :: u32) @ word_bytes 4 (ucast (drop_bit 32 v) :: u32)) ! i) n"
    proof (cases "i < 4")
      case False
      then obtain j where j: "i = 4 + j" by (metis le_Suc_ex not_less)
      then have "32 + (8 * j + n) = 8 * (4 + j) + n" "8 * j + n < 32" using i n by simp_all
      then show ?thesis using i n unfolding j by (simp add: nth_append bit_word_bytes bit_simps add.assoc)
    qed (use n in \<open>simp add: nth_append bit_word_bytes bit_simps\<close>)
  qed
qed simp

lemma store64_bytes: "store64 p v m = write_bytes p (word_bytes 8 v) m"
  by (simp add: store64_def store32_bytes write_bytes_append word_bytes_8)

section \<open>Bytes of words, and parts of stored bytes\<close>

lemma word_bytes_2: "word_bytes 2 c = [ucast c, ucast (drop_bit 8 c)]"
  using upt_rec [of 0 2] upt_rec [of 1 2] by (simp add: word_bytes_def)

lemma word_bytes_4:
  "word_bytes 4 c = [ucast c, ucast (drop_bit 8 c), ucast (drop_bit 16 c), ucast (drop_bit 24 c)]"
  unfolding word_bytes_def upt_4 by simp

lemma join_4_bytes:
  "push_bit 24 (ucast (ucast (drop_bit 24 c) :: u8)) OR push_bit 16 (ucast (ucast (drop_bit 16 c) :: u8)) OR
   push_bit 8 (ucast (ucast (drop_bit 8 c) :: u8)) OR ucast (ucast c :: u8) = c" (is "?l = ?r") for c :: u32
proof (rule bit_word_eqI)
  fix n assume "n < LENGTH(32)"
  then consider "n < 8" | "8 \<le> n" "n < 16" | "16 \<le> n" "n < 24" | "24 \<le> n" "n < 32" by fastforce
  then show "bit ?l n = bit ?r n"
    by cases (auto simp: bit_simps less_diff_conv2)
qed

lemma stored_last: "stored m p bs \<Longrightarrow> bs \<noteq> [] \<Longrightarrow> m (p + length bs - 1) = last bs"
  by (cases bs rule: rev_cases) auto

lemma read_stored: "stored m q (bs @ cs) \<Longrightarrow> read_bytes m q (length bs) = bs"
  by (simp flip: stored_read)

lemma read_bytes_split: "read_bytes m p (k + n) = read_bytes m p k @ read_bytes m (p + k) n"
  by (auto simp: list_eq_iff_nth_eq nth_append)

end
