(* ===== verification/Tipc_Tlv.thy ===== *)
theory Tipc_Tlv
  imports Byte_Memory
begin

text \<open>
  Type-length-value items and configuration messages of \<^verbatim>\<open>linux/tipc_config.h\<close>: a memory of
  bytes indexed by address, the descriptor fields read and written in network byte order, and
  the cursor over a list of items.  Pointers are natural numbers, since an address inside one
  object does not wrap; lengths and spaces keep the widths the functions give them, with the
  conversions to \<^verbatim>\<open>__u16\<close> written out.
\<close>

section \<open>Items\<close>

text \<open>\<^verbatim>\<open>struct tlv_desc\<close> is two halfwords: the length at offset 0, the type at offset 2.\<close>

definition TLV_ALIGN :: "'a::len word \<Rightarrow> 'a word" where
  "TLV_ALIGN datalen = (datalen + (4 - 1)) AND NOT (4 - 1)"

definition TLV_LENGTH :: "u64 \<Rightarrow> u64" where
  "TLV_LENGTH datalen = 4 + datalen"

definition TLV_SPACE :: "u64 \<Rightarrow> u64" where
  "TLV_SPACE datalen = TLV_ALIGN (TLV_LENGTH datalen)"

definition TLV_DATA :: "nat \<Rightarrow> nat" where
  "TLV_DATA tlv = tlv + unat (TLV_LENGTH 0)"

definition tlv_len :: "memory \<Rightarrow> nat \<Rightarrow> u16" where
  "tlv_len m tlv = load16 m tlv"

definition tlv_type :: "memory \<Rightarrow> nat \<Rightarrow> u16" where
  "tlv_type m tlv = load16 m (tlv + 2)"

definition TLV_OK :: "memory \<Rightarrow> nat \<Rightarrow> u16 \<Rightarrow> bool" where
  "TLV_OK m tlv space \<longleftrightarrow> TLV_SPACE 0 \<le> ucast space \<and> ntohs (tlv_len m tlv) \<le> space"

definition TLV_CHECK :: "memory \<Rightarrow> nat \<Rightarrow> u16 \<Rightarrow> u16 \<Rightarrow> bool" where
  "TLV_CHECK m tlv space exp_type \<longleftrightarrow> TLV_OK m tlv space \<and> ntohs (tlv_type m tlv) = exp_type"

definition TLV_GET_LEN :: "memory \<Rightarrow> nat \<Rightarrow> int" where
  "TLV_GET_LEN m tlv = uint (ntohs (tlv_len m tlv))"

definition TLV_SET_LEN :: "nat \<Rightarrow> u16 \<Rightarrow> memory \<Rightarrow> memory" where
  "TLV_SET_LEN tlv len m = store16 tlv (htons len) m"

definition TLV_CHECK_TYPE :: "memory \<Rightarrow> nat \<Rightarrow> u16 \<Rightarrow> bool" where
  "TLV_CHECK_TYPE m tlv typ \<longleftrightarrow> ntohs (tlv_type m tlv) = typ"

definition TLV_SET_TYPE :: "nat \<Rightarrow> u16 \<Rightarrow> memory \<Rightarrow> memory" where
  "TLV_SET_TYPE tlv typ m = store16 (tlv + 2) (htons typ) m"

text \<open>
  The data pointer may be \<^verbatim>\<open>NULL\<close> (\<open>None\<close>).  The length is an \<^verbatim>\<open>int\<close> (its 32 bits here) that
  \<^verbatim>\<open>htons\<close> narrows to 16 bits.
\<close>

definition TLV_SET :: "nat \<Rightarrow> u16 \<Rightarrow> nat option \<Rightarrow> u16 \<Rightarrow> memory \<Rightarrow> memory \<times> u32" where
  "TLV_SET tlv typ data len m =
     (let tlv_len = ucast (TLV_LENGTH (ucast len)) :: u32;
          m = store16 (tlv + 2) (htons typ) m;
          m = store16 tlv (htons (ucast tlv_len)) m;
          m = (case data of
                 Some src \<Rightarrow>
                   if len \<noteq> 0 then
                     memset (TLV_DATA tlv + unat len) 0
                         (unat (TLV_SPACE (ucast len) - ucast tlv_len))
                       (memcpy (TLV_DATA tlv) src (unat len) m)
                   else m
               | None \<Rightarrow> m)
      in (m, ucast (TLV_SPACE (ucast len))))"

section \<open>Lists of items\<close>

record tlv_list_desc =
  tlv_ptr :: nat
  tlv_space :: u32

definition TLV_LIST_INIT :: "nat \<Rightarrow> u32 \<Rightarrow> tlv_list_desc" where
  "TLV_LIST_INIT data space = \<lparr> tlv_ptr = data, tlv_space = space \<rparr>"

definition TLV_LIST_EMPTY :: "tlv_list_desc \<Rightarrow> bool" where
  "TLV_LIST_EMPTY l \<longleftrightarrow> tlv_space l = 0"

text \<open>The space is narrowed to \<^verbatim>\<open>__u16\<close> at the call.\<close>

definition TLV_LIST_CHECK :: "memory \<Rightarrow> tlv_list_desc \<Rightarrow> u16 \<Rightarrow> bool" where
  "TLV_LIST_CHECK m l exp_type \<longleftrightarrow> TLV_CHECK m (tlv_ptr l) (ucast (tlv_space l)) exp_type"

definition TLV_LIST_DATA :: "tlv_list_desc \<Rightarrow> nat" where
  "TLV_LIST_DATA l = TLV_DATA (tlv_ptr l)"

text \<open>The aligned length is computed as an \<^verbatim>\<open>int\<close> and narrowed to \<^verbatim>\<open>__u16\<close>.\<close>

definition TLV_LIST_STEP :: "memory \<Rightarrow> tlv_list_desc \<Rightarrow> tlv_list_desc" where
  "TLV_LIST_STEP m l =
     (let space = ucast (TLV_ALIGN (ucast (ntohs (tlv_len m (tlv_ptr l))) :: u32)) :: u16
      in \<lparr> tlv_ptr = tlv_ptr l + unat space, tlv_space = tlv_space l - ucast space \<rparr>)"

section \<open>Configuration messages\<close>

text \<open>
  \<^verbatim>\<open>struct tipc_cfg_msg_hdr\<close>: length at 0 (32 bits), type at 4, flags at 6, eight reserved bytes.
\<close>

definition TCM_ALIGN :: "u64 \<Rightarrow> u64" where
  "TCM_ALIGN datalen = (datalen + 3) AND NOT 3"

definition TCM_LENGTH :: "u64 \<Rightarrow> u64" where
  "TCM_LENGTH datalen = 16 + datalen"

definition TCM_SPACE :: "u64 \<Rightarrow> u64" where
  "TCM_SPACE datalen = TCM_ALIGN (TCM_LENGTH datalen)"

definition TCM_DATA :: "nat \<Rightarrow> nat" where
  "TCM_DATA tcm_hdr = tcm_hdr + unat (TCM_LENGTH 0)"

definition TCM_SET :: "nat \<Rightarrow> u16 \<Rightarrow> u16 \<Rightarrow> nat option \<Rightarrow> u16 \<Rightarrow> memory \<Rightarrow> memory \<times> u32" where
  "TCM_SET msg cmd flags data data_len m =
     (let msg_len = ucast (TCM_LENGTH (ucast data_len)) :: u32;
          m = store32 msg (htonl msg_len) m;
          m = store16 (msg + 4) (htons cmd) m;
          m = store16 (msg + 6) (htons flags) m;
          m = (case data of
                 Some src \<Rightarrow>
                   if data_len \<noteq> 0 then
                     memset (TCM_DATA msg + unat data_len) 0
                         (unat (TCM_SPACE (ucast data_len) - ucast msg_len))
                       (memcpy (TCM_DATA msg) src (unat data_len) m)
                   else m
               | None \<Rightarrow> m)
      in (m, ucast (TCM_SPACE (ucast data_len))))"

section \<open>Header fields\<close>

lemma header_fields:
  "ntohs (tlv_len m tlv) = be16 (m tlv) (m (tlv + 1))"
  "ntohs (tlv_type m tlv) = be16 (m (tlv + 2)) (m (tlv + 3))"
  by (simp_all add: tlv_len_def tlv_type_def ntohs_load16 numeral_3_eq_3)

lemma TLV_DATA: "TLV_DATA tlv = tlv + 4"
  by (simp add: TLV_DATA_def TLV_LENGTH_def)

section \<open>The format of an item\<close>

text \<open>Length and type in network order, the value, and zeros up to a multiple of four.\<close>

definition encode_tlv :: "u16 \<Rightarrow> u8 list \<Rightarrow> u8 list" where
  "encode_tlv typ bs =
     (let len = of_nat (length bs + 4) in
      [hi8 len, lo8 len, hi8 typ, lo8 typ] @ bs @
      replicate (round_up 4 (length bs + 4) - (length bs + 4)) 0)"

lemma length_encode_tlv: "length (encode_tlv typ bs) = round_up 4 (length bs + 4)"
  using round_up(2) [of 4 "length bs + 4"] by (simp add: encode_tlv_def Let_def)

lemma stored_tlv:
  assumes "stored m p (encode_tlv typ bs)"
  shows "ntohs (tlv_len m p) = of_nat (length bs + 4)" and "ntohs (tlv_type m p) = typ"
    and "read_bytes m (TLV_DATA p) (length bs) = bs"
proof -
  have "p + 2 = Suc (Suc p)" "p + 3 = Suc (Suc (Suc p))" "p + 4 = Suc (Suc (Suc (Suc p)))" by simp_all
  then show "ntohs (tlv_len m p) = of_nat (length bs + 4)" "ntohs (tlv_type m p) = typ"
    "read_bytes m (TLV_DATA p) (length bs) = bs"
    using assms by (simp_all only: encode_tlv_def Let_def header_fields TLV_DATA stored_Cons
        stored_append append.simps be16_hi8_lo8 Suc_eq_plus1 [symmetric] flip: stored_read)
qed

lemma unat_TLV_ALIGN:
  fixes x :: "'a::len word"
  assumes "unat x + 3 < 2 ^ LENGTH('a)" and "2 < LENGTH('a)"
  shows "unat (TLV_ALIGN x) = round_up 4 (unat x)"
  using unat_round_up [of x 2] assms by (simp add: TLV_ALIGN_def)

text \<open>
  A header of \<open>c\<close> bytes before a value of 16-bit length: the total, its \<^verbatim>\<open>int\<close> and \<^verbatim>\<open>__u16\<close>
  forms, and the padding.
\<close>

lemma unat_total: "c < 2 ^ 16 \<Longrightarrow> unat (of_nat c + ucast (len :: u16) :: u64) = unat len + c"
proof -
  assume "c < 2 ^ 16"
  moreover from this have "unat (of_nat c :: u64) = c"
    by (intro of_nat_inverse) simp_all
  moreover have "unat len < 65536" using unsigned_less [of len] by simp
  ultimately show ?thesis
    by (subst unat_add_lem [THEN iffD1]) (simp_all add: unat_ucast_up)
qed

lemma unat_total_aligned:
  "c < 2 ^ 16 \<Longrightarrow> unat (TLV_ALIGN (of_nat c + ucast (len :: u16) :: u64)) = round_up 4 (unat len + c)"
  using unat_total [of c len] unsigned_less [of len, where 'a = nat] by (simp add: unat_TLV_ALIGN)

lemma unat_total_int:
  assumes "c < 2 ^ 16"
  shows "unat (ucast (of_nat c + ucast (len :: u16) :: u64) :: u32) = unat len + c"
proof -
  have "unat len < 65536" using unsigned_less [of len] by simp
  then show ?thesis
    using unat_total [OF assms, of len] assms by (simp add: unsigned_ucast_eq take_bit_nat_eq_self)
qed

lemma total_int:
  "c < 2 ^ 16 \<Longrightarrow> (ucast (of_nat c + ucast (len :: u16) :: u64) :: u32) = of_nat (unat len + c)"
  by (metis unat_total_int of_nat_unat ucast_id)

lemma total_padding:
  assumes "c < 2 ^ 16"
  shows "unat (TLV_ALIGN (of_nat c + ucast (len :: u16)) -
      ucast (ucast (of_nat c + ucast len :: u64) :: u32) :: u64) =
    round_up 4 (unat len + c) - (unat len + c)"
proof -
  have u: "unat (ucast (ucast (of_nat c + ucast len :: u64) :: u32) :: u64) = unat len + c"
    using assms by (simp add: unat_ucast_up unat_total_int)
  then have "(ucast (ucast (of_nat c + ucast len :: u64) :: u32) :: u64) \<le>
      TLV_ALIGN (of_nat c + ucast len)"
    using assms round_up(2) [of 4 "unat len + c"] by (simp add: word_le_nat_alt unat_total_aligned)
  then show ?thesis
    using assms by (simp add: unat_sub u unat_total_aligned)
qed

lemma total_space:
  assumes "c < 2 ^ 16"
  shows "(ucast (TLV_ALIGN (of_nat c + ucast (len :: u16) :: u64)) :: u32) =
    of_nat (round_up 4 (unat len + c))"
  using assms by (simp add: word_unat_eq_iff unsigned_ucast_eq unat_total_aligned unsigned_of_nat
      del: of_nat_add)

section \<open>What setting an item writes\<close>

lemma TLV_total: "TLV_LENGTH x = of_nat 4 + x" "TLV_SPACE x = TLV_ALIGN (of_nat 4 + x)"
  by (simp_all add: TLV_LENGTH_def TLV_SPACE_def)

lemma below_2_16: "(4 :: nat) < 2 ^ 16" "(16 :: nat) < 2 ^ 16"
  by simp_all

lemmas total_4 = total_padding [OF below_2_16(1)] total_space [OF below_2_16(1)]
lemmas total_16 = total_padding [OF below_2_16(2)] total_space [OF below_2_16(2)]

lemma ucast_of_nat16: "(ucast (of_nat n :: u32) :: u16) = of_nat n"
  by (simp add: word_unat_eq_iff unsigned_ucast_eq unsigned_of_nat)

lemma header_write:
  "store16 tlv (htons len) (store16 (tlv + 2) (htons typ) m) =
   write_bytes tlv [hi8 len, lo8 len, hi8 typ, lo8 typ] m"
  by (auto simp: store16_htons write_bytes_Cons)

lemma TLV_SET_writes:
  assumes "\<And>i. i < unat len \<Longrightarrow> src + i < tlv \<or> tlv + 4 \<le> src + i"
  shows "TLV_SET tlv typ (Some src) len m =
    (write_bytes tlv (encode_tlv typ (read_bytes m src (unat len))) m,
     of_nat (round_up 4 (unat len + 4)))"
proof -
  let ?h = "[hi8 (of_nat (unat len + 4)), lo8 (of_nat (unat len + 4)), hi8 typ, lo8 typ]"
  let ?bs = "read_bytes m src (unat len)"
  have "read_bytes (write_bytes tlv ?h m) src (unat len) = ?bs"
    using assms by (intro read_bytes_write) fastforce
  moreover have "len = 0 \<Longrightarrow> encode_tlv typ ?bs = ?h"
    by (simp add: encode_tlv_def read_bytes_def round_up_def)
  moreover have "write_bytes (tlv + 4 + unat len) cs (write_bytes (tlv + 4) ?bs (write_bytes tlv ?h m)) =
      write_bytes tlv (?h @ ?bs @ cs) m" for cs
    by (simp add: write_bytes_append)
  ultimately show ?thesis
    unfolding TLV_SET_def Let_def option.case TLV_total total_4
    unfolding total_int [OF below_2_16(1)] ucast_of_nat16 header_write memset_write memcpy_write
      TLV_DATA
    by (simp add: encode_tlv_def Let_def)
qed

section \<open>Checking and walking\<close>

lemma TLV_OK_iff: "TLV_OK m tlv space \<longleftrightarrow> 4 \<le> unat space \<and> unat (ntohs (tlv_len m tlv)) \<le> unat space"
proof -
  have "unat (TLV_SPACE 0) = 4"
    by (simp add: TLV_SPACE_def TLV_LENGTH_def TLV_ALIGN_def)
  then show ?thesis
    by (simp add: TLV_OK_def word_le_nat_alt unat_ucast_up)
qed

lemma stored_tlv_check:
  assumes "stored m p (encode_tlv typ bs)" and "length bs + 4 < 2 ^ 16"
  shows "TLV_CHECK m p space exp_type \<longleftrightarrow> length bs + 4 \<le> unat space \<and> exp_type = typ"
    and "TLV_GET_LEN m p = int (length bs) + 4" and "TLV_CHECK_TYPE m p typ"
proof -
  have "unat (ntohs (tlv_len m p)) = length bs + 4"
    using stored_tlv(1) [OF assms(1)] unat_of_nat16 [OF assms(2)] by simp
  then show "TLV_CHECK m p space exp_type \<longleftrightarrow> length bs + 4 \<le> unat space \<and> exp_type = typ"
    and "TLV_GET_LEN m p = int (length bs) + 4" and "TLV_CHECK_TYPE m p typ"
    using stored_tlv(2) [OF assms(1)]
    by (auto simp: TLV_CHECK_def TLV_OK_iff TLV_GET_LEN_def TLV_CHECK_TYPE_def uint_nat)
qed

lemma stored_tlv_step:
  assumes "stored m (tlv_ptr l) (encode_tlv typ bs)" and "length (encode_tlv typ bs) < 2 ^ 16"
  shows "TLV_LIST_STEP m l = \<lparr> tlv_ptr = tlv_ptr l + length (encode_tlv typ bs),
    tlv_space = tlv_space l - of_nat (length (encode_tlv typ bs)) \<rparr>"
proof -
  let ?n = "length (encode_tlv typ bs)"
  have b: "length bs + 4 < 2 ^ 16"
    using assms(2) round_up(2) [of 4 "length bs + 4"] by (simp add: length_encode_tlv)
  have "unat (ntohs (tlv_len m (tlv_ptr l))) = length bs + 4"
    using stored_tlv(1) [OF assms(1)] unat_of_nat16 [OF b] by simp
  then have "unat (TLV_ALIGN (ucast (ntohs (tlv_len m (tlv_ptr l))) :: u32)) = ?n"
    using b by (simp add: unat_TLV_ALIGN unat_ucast_up length_encode_tlv)
  then have "unat (ucast (TLV_ALIGN (ucast (ntohs (tlv_len m (tlv_ptr l))) :: u32)) :: u16) = ?n"
    using assms(2) by (simp add: unsigned_ucast_eq take_bit_nat_eq_self)
  moreover from this have "ucast (ucast (TLV_ALIGN (ucast (ntohs (tlv_len m (tlv_ptr l))) :: u32)) :: u16) =
      (of_nat ?n :: u32)"
    by (metis of_nat_unat)
  ultimately show ?thesis
    by (simp add: TLV_LIST_STEP_def Let_def)
qed

text \<open>Items one after another.\<close>

definition encode_tlvs :: "(u16 \<times> u8 list) list \<Rightarrow> u8 list" where
  "encode_tlvs xs = concat (map (\<lambda>(typ, bs). encode_tlv typ bs) xs)"

lemma encode_tlvs_simps [simp]:
  "encode_tlvs [] = []" "encode_tlvs ((typ, bs) # xs) = encode_tlv typ bs @ encode_tlvs xs"
  "encode_tlvs (xs @ ys) = encode_tlvs xs @ encode_tlvs ys"
  by (simp_all add: encode_tlvs_def)

lemma encode_tlvs_split:
  assumes "k < length xs" and "xs ! k = (typ, bs)"
  shows "encode_tlvs xs =
    encode_tlvs (take k xs) @ encode_tlv typ bs @ encode_tlvs (drop (Suc k) xs)"
  using assms id_take_nth_drop [OF assms(1)] by (metis encode_tlvs_simps(2,3))

lemma encode_tlvs_empty [simp]: "encode_tlvs xs = [] \<longleftrightarrow> xs = []"
proof (cases xs)
  case (Cons x ys)
  moreover have "encode_tlv (fst x) (snd x) \<noteq> []" by (simp add: encode_tlv_def Let_def)
  ultimately show ?thesis by (cases x) simp
qed simp

lemma tlv_list_cursor:
  assumes "stored m p (encode_tlvs xs)" and "length (encode_tlvs xs) < 2 ^ 16" and "k \<le> length xs"
  shows "(TLV_LIST_STEP m ^^ k) (TLV_LIST_INIT p (of_nat (length (encode_tlvs xs)))) =
    \<lparr> tlv_ptr = p + length (encode_tlvs (take k xs)),
      tlv_space = of_nat (length (encode_tlvs (drop k xs))) \<rparr>"
  using assms(3)
proof (induction k)
  case 0
  then show ?case by (simp add: TLV_LIST_INIT_def)
next
  case (Suc k)
  obtain t bs where x: "xs ! k = (t, bs)" by (cases "xs ! k")
  have k: "k < length xs" using Suc.prems by simp
  note split = encode_tlvs_split [OF k x]
  have d: "encode_tlvs (drop k xs) = encode_tlv t bs @ encode_tlvs (drop (Suc k) xs)"
    using Cons_nth_drop_Suc [OF k] x by (metis encode_tlvs_simps(2))
  have t: "encode_tlvs (take (Suc k) xs) = encode_tlvs (take k xs) @ encode_tlv t bs"
    using k x by (simp add: take_Suc_conv_app_nth)
  have "stored m (p + length (encode_tlvs (take k xs))) (encode_tlv t bs)"
    using assms(1) unfolding split by simp
  moreover have "length (encode_tlv t bs) < 2 ^ 16"
    using assms(2) unfolding split by simp
  ultimately show ?case
    using Suc.IH k by (simp add: stored_tlv_step d t)
qed

section \<open>Building a list of items\<close>

text \<open>
  A message is filled by setting one item after another, each at the space the previous call
  returned.
\<close>

type_synonym tlv_source = "u16 \<times> nat \<times> u16"

fun put_tlvs :: "nat \<Rightarrow> tlv_source list \<Rightarrow> memory \<Rightarrow> memory" where
  "put_tlvs p [] m = m"
| "put_tlvs p ((ty, src, len) # items) m =
     (case TLV_SET p ty (Some src) len m of (m', n) \<Rightarrow> put_tlvs (p + unat n) items m')"

definition items_in :: "memory \<Rightarrow> tlv_source list \<Rightarrow> (u16 \<times> u8 list) list" where
  "items_in m = map (\<lambda>(ty, src, len). (ty, read_bytes m src (unat len)))"

definition spaces :: "tlv_source list \<Rightarrow> nat" where
  "spaces items = (\<Sum>(ty, src, len) \<leftarrow> items. round_up 4 (unat len + 4))"

text \<open>The values do not lie in the area the items are written to.\<close>

definition apart :: "nat \<Rightarrow> nat \<Rightarrow> tlv_source list \<Rightarrow> bool" where
  "apart p n items \<longleftrightarrow>
     list_all (\<lambda>(ty, src, len). src + unat len \<le> p \<or> p + n \<le> src) items"

lemma spaces_simps [simp]:
  "spaces [] = 0" "spaces ((ty, src, len) # items) = round_up 4 (unat len + 4) + spaces items"
  by (simp_all add: spaces_def)

lemma length_items [simp]: "length (encode_tlvs (items_in m items)) = spaces items"
  by (induction items) (auto simp: items_in_def length_encode_tlv)

lemma items_in_write:
  assumes "apart p n items" and "length bs \<le> n"
  shows "items_in (write_bytes p bs m) items = items_in m items"
  using assms by (induction items) (fastforce simp: apart_def items_in_def intro!: read_bytes_write)+

lemma apart_later: "apart p (a + b) items \<Longrightarrow> apart (p + a) b items"
  by (auto simp: apart_def list_all_iff)

lemma unat_space: "unat (of_nat (round_up 4 (unat (len :: u16) + 4)) :: u32) = round_up 4 (unat len + 4)"
proof -
  have "unat len < 65536" using unsigned_less [of len] by simp
  then show ?thesis
    using round_up(3) [of 4 "unat len + 4"] by (intro unat_of_nat32) simp
qed

lemma put_tlvs_writes:
  assumes "apart p (spaces items) items"
  shows "put_tlvs p items m = write_bytes p (encode_tlvs (items_in m items)) m"
  using assms
proof (induction p items m rule: put_tlvs.induct)
  case (2 p ty src len items m)
  let ?bs = "read_bytes m src (unat len)"
  let ?m' = "write_bytes p (encode_tlv ty ?bs) m"
  have n: "4 \<le> round_up 4 (unat len + 4)" using round_up(2) [of 4 "unat len + 4"] by simp
  have s: "TLV_SET p ty (Some src) len m = (?m', of_nat (round_up 4 (unat len + 4)))"
    using 2(2) n by (intro TLV_SET_writes) (auto simp: apart_def)
  have "apart (p + round_up 4 (unat len + 4)) (spaces items) items"
    using 2(2) by (intro apart_later) (simp add: apart_def)
  moreover have "items_in ?m' items = items_in m items"
    using 2(2) by (intro items_in_write [of _ "spaces ((ty, src, len) # items)"])
      (simp_all add: apart_def length_encode_tlv)
  ultimately have "put_tlvs (p + round_up 4 (unat len + 4)) items ?m' =
      write_bytes (p + round_up 4 (unat len + 4)) (encode_tlvs (items_in m items)) ?m'"
    using 2(1) [OF s [symmetric]] by (simp add: unat_space)
  then show ?case
    by (simp add: s unat_space write_bytes_append length_encode_tlv items_in_def)
qed (simp add: items_in_def)

section \<open>Properties\<close>

text \<open>C20: setting an item from data whose length with the four bytes of header is below 65536, and
  that does not begin before and reach into the item, nor begin inside its header, writes exactly
  its encoding (length and type in network order, the value, zeros up to a multiple of four) and
  returns the encoding's length; the item then passes the check for its own type and for no other,
  in every space that holds its length, and the length and the value read back.\<close>

theorem tlv_set_stores_item:
  assumes "unat len + 4 < 2 ^ 16" and "src + unat len \<le> tlv \<or> tlv + 4 \<le> src"
  shows "case TLV_SET tlv ty (Some src) len m of (m', n) \<Rightarrow>
    m' = write_bytes tlv (encode_tlv ty (read_bytes m src (unat len))) m \<and>
    unat n = length (encode_tlv ty (read_bytes m src (unat len))) \<and>
    (TLV_CHECK m' tlv space exp_type \<longleftrightarrow> unat len + 4 \<le> unat space \<and> exp_type = ty) \<and>
    TLV_GET_LEN m' tlv = int (unat len) + 4 \<and> TLV_CHECK_TYPE m' tlv ty \<and>
    read_bytes m' (TLV_DATA tlv) (unat len) = read_bytes m src (unat len)"
proof -
  let ?bs = "read_bytes m src (unat len)"
  have s: "TLV_SET tlv ty (Some src) len m =
      (write_bytes tlv (encode_tlv ty ?bs) m, of_nat (round_up 4 (unat len + 4)))"
    using assms(2) by (intro TLV_SET_writes) auto
  note st = stored_write [of tlv "encode_tlv ty ?bs" m]
  show ?thesis
    using assms(1) stored_tlv_check [OF st] stored_tlv(3) [OF st]
    by (simp add: s unat_space length_encode_tlv)
qed

theorem tlv_set_stores_item_witness:
  "case TLV_SET 16 0x1234 (Some 100) 3 (\<lambda>a. of_nat a) of (m', n) \<Rightarrow>
    m' = write_bytes 16 (encode_tlv 0x1234 (read_bytes (\<lambda>a. of_nat a) 100 (unat (3 :: u16)))) (\<lambda>a. of_nat a) \<and>
    unat n = length (encode_tlv 0x1234 (read_bytes (\<lambda>a. of_nat a) 100 (unat (3 :: u16)))) \<and>
    (TLV_CHECK m' 16 8 0x1234 \<longleftrightarrow> unat (3 :: u16) + 4 \<le> unat (8 :: u16) \<and> (0x1234 :: u16) = 0x1234) \<and>
    TLV_GET_LEN m' 16 = int (unat (3 :: u16)) + 4 \<and> TLV_CHECK_TYPE m' 16 0x1234 \<and>
    read_bytes m' (TLV_DATA 16) (unat (3 :: u16)) = read_bytes (\<lambda>a. of_nat a) 100 (unat (3 :: u16))"
  by (rule tlv_set_stores_item) simp_all

text \<open>C21: a message of items set one after another is walked back by the list cursor.  For less
  than \<^verbatim>\<open>2^16\<close> bytes, after \<^verbatim>\<open>k\<close> steps the list is empty exactly when \<^verbatim>\<open>k\<close> items were set, and
  before that the cursor is on item \<^verbatim>\<open>k\<close>: the check accepts its type and no other, the length is
  the item's, and the data are the value it was set from.\<close>

theorem tlv_list_walk:
  assumes "apart p (spaces items) items" and "spaces items < 2 ^ 16" and "k \<le> length items"
  shows "let m' = put_tlvs p items m;
             l = (TLV_LIST_STEP m' ^^ k) (TLV_LIST_INIT p (of_nat (spaces items)))
         in (TLV_LIST_EMPTY l \<longleftrightarrow> k = length items) \<and>
            (k < length items \<longrightarrow> (case items ! k of (ty, src, len) \<Rightarrow>
               (TLV_LIST_CHECK m' l exp_type \<longleftrightarrow> exp_type = ty) \<and>
               TLV_GET_LEN m' (tlv_ptr l) = int (unat len) + 4 \<and>
               read_bytes m' (TLV_LIST_DATA l) (unat len) = read_bytes m src (unat len)))"
proof -
  let ?xs = "items_in m items"
  let ?m' = "put_tlvs p items m"
  let ?l = "(TLV_LIST_STEP ?m' ^^ k) (TLV_LIST_INIT p (of_nat (spaces items)))"
  have l: "length ?xs = length items" by (simp add: items_in_def)
  have st: "stored ?m' p (encode_tlvs ?xs)"
    using put_tlvs_writes [OF assms(1)] by simp
  have c: "?l = \<lparr> tlv_ptr = p + length (encode_tlvs (take k ?xs)),
      tlv_space = of_nat (length (encode_tlvs (drop k ?xs))) \<rparr>"
    using tlv_list_cursor [OF st, of k] assms(2,3) l by simp
  have "length (encode_tlvs (drop k ?xs)) \<le> length (encode_tlvs (take k ?xs @ drop k ?xs))"
    unfolding encode_tlvs_simps by simp
  then have sp: "length (encode_tlvs (drop k ?xs)) < 2 ^ 16"
    using assms(2) by simp
  have "TLV_LIST_EMPTY ?l \<longleftrightarrow> k = length items"
    using unat_of_nat32 [of "length (encode_tlvs (drop k ?xs))"] sp assms(3) l
    by (auto simp: c TLV_LIST_EMPTY_def unat_eq_zero [symmetric] simp del: unat_eq_zero)
  moreover have "(TLV_LIST_CHECK ?m' ?l exp_type \<longleftrightarrow> exp_type = ty) \<and>
      TLV_GET_LEN ?m' (tlv_ptr ?l) = int (unat len) + 4 \<and>
      read_bytes ?m' (TLV_LIST_DATA ?l) (unat len) = read_bytes m src (unat len)"
    if k: "k < length items" and i: "items ! k = (ty, src, len)" for ty src len
  proof -
    let ?bs = "read_bytes m src (unat len)"
    have x: "?xs ! k = (ty, ?bs)" using k i by (simp add: items_in_def)
    have kx: "k < length ?xs" using k l by simp
    have d: "encode_tlvs (drop k ?xs) = encode_tlv ty ?bs @ encode_tlvs (drop (Suc k) ?xs)"
      using Cons_nth_drop_Suc [OF kx] x by (metis encode_tlvs_simps(2))
    then have ge: "unat len + 4 \<le> length (encode_tlvs (drop k ?xs))"
      using round_up(2) [of 4 "unat len + 4"] by (simp add: length_encode_tlv)
    have s: "stored ?m' (tlv_ptr ?l) (encode_tlv ty ?bs)"
      using st unfolding encode_tlvs_split [OF kx x] c by simp
    have "unat (ucast (tlv_space ?l) :: u16) = length (encode_tlvs (drop k ?xs))"
      using sp by (simp add: c unsigned_ucast_eq unsigned_of_nat take_bit_nat_eq_self)
    then show ?thesis
      using stored_tlv_check [OF s] stored_tlv(3) [OF s] ge sp
      by (simp add: TLV_LIST_CHECK_def TLV_LIST_DATA_def)
  qed
  ultimately show ?thesis
    by (auto simp: Let_def split: prod.split)
qed

theorem tlv_list_walk_witness:
  "let m' = put_tlvs 16 [(1, 100, 3), (2, 200, 4), (3, 300, 0)] (\<lambda>a. of_nat a);
       l = (TLV_LIST_STEP m' ^^ 1) (TLV_LIST_INIT 16 (of_nat (spaces [(1, 100, 3), (2, 200, 4), (3, 300, 0)])))
   in (TLV_LIST_EMPTY l \<longleftrightarrow> 1 = length [(1, 100, 3), (2, 200, 4), (3, 300, 0) :: tlv_source]) \<and>
      (1 < length [(1, 100, 3), (2, 200, 4), (3, 300, 0) :: tlv_source] \<longrightarrow>
       (case [(1, 100, 3), (2, 200, 4), (3, 300, 0) :: tlv_source] ! 1 of (ty, src, len) \<Rightarrow>
         (TLV_LIST_CHECK m' l 2 \<longleftrightarrow> 2 = ty) \<and>
         TLV_GET_LEN m' (tlv_ptr l) = int (unat len) + 4 \<and>
         read_bytes m' (TLV_LIST_DATA l) (unat len) = read_bytes (\<lambda>a. of_nat a) src (unat len)))"
  by (rule tlv_list_walk) (simp_all add: apart_def round_up_def)

text \<open>the cursor does not check the length it steps by.  A descriptor whose length is zero
  passes the check in any space of four bytes, and the step leaves the cursor where it is; a
  descriptor whose length is the remaining space, but no multiple of four, passes the check, and
  the step takes the cursor past the end and leaves a space of almost \<^verbatim>\<open>2^32\<close> bytes.\<close>

theorem tlv_list_step_unchecked:
  assumes "ntohs (tlv_len m (tlv_ptr l)) = n" and "tlv_space l = ucast space" and "4 \<le> unat space"
  shows "(n = 0 \<longrightarrow> TLV_LIST_CHECK m l (ntohs (tlv_type m (tlv_ptr l))) \<and> TLV_LIST_STEP m l = l) \<and>
    (n = space \<and> \<not> 4 dvd unat n \<and> unat n < 2 ^ 16 - 4 \<longrightarrow>
       TLV_LIST_CHECK m l (ntohs (tlv_type m (tlv_ptr l))) \<and>
       tlv_ptr (TLV_LIST_STEP m l) = tlv_ptr l + round_up 4 (unat n) \<and>
       2 ^ 32 - 4 < unat (tlv_space (TLV_LIST_STEP m l)))"
proof (intro conjI impI)
  have sp: "ucast (tlv_space l) = space"
    by (rule bit_word_eqI) (auto simp: assms(2) bit_simps)
  show "TLV_LIST_CHECK m l (ntohs (tlv_type m (tlv_ptr l)))" if "n = 0"
    using assms(3) that sp by (simp add: TLV_LIST_CHECK_def TLV_CHECK_def TLV_OK_iff assms(1))
  show "TLV_LIST_STEP m l = l" if "n = 0"
    using that by (simp add: TLV_LIST_STEP_def assms(1) TLV_ALIGN_def)
  assume h: "n = space \<and> \<not> 4 dvd unat n \<and> unat n < 2 ^ 16 - 4"
  show "TLV_LIST_CHECK m l (ntohs (tlv_type m (tlv_ptr l)))"
    using assms(3) h sp by (simp add: TLV_LIST_CHECK_def TLV_CHECK_def TLV_OK_iff assms(1))
  let ?r = "round_up 4 (unat n)"
  have r: "unat n < ?r" "?r < unat n + 4" "?r < 2 ^ 16"
    using h round_up [of 4 "unat n"] by (auto simp: le_less)
  have "unat (ucast n :: u32) = unat n" by (rule unat_ucast_up) simp
  then have "unat (TLV_ALIGN (ucast n :: u32)) = ?r"
    using h unat_TLV_ALIGN [of "ucast n :: u32"] by auto
  then have a: "unat (ucast (TLV_ALIGN (ucast n :: u32)) :: u16) = ?r"
    using r(3) by (simp add: unsigned_ucast_eq take_bit_nat_eq_self)
  then show "tlv_ptr (TLV_LIST_STEP m l) = tlv_ptr l + ?r"
    by (simp add: TLV_LIST_STEP_def Let_def assms(1))
  have s: "tlv_space (TLV_LIST_STEP m l) = ucast n - ucast (ucast (TLV_ALIGN (ucast n :: u32)) :: u16)"
    using h by (simp add: TLV_LIST_STEP_def Let_def assms(1,2))
  have "unat (tlv_space (TLV_LIST_STEP m l)) = unat n + 2 ^ 32 - ?r"
    unfolding s using r a by (simp add: unat_sub_if' unat_ucast_up)
  then show "2 ^ 32 - 4 < unat (tlv_space (TLV_LIST_STEP m l))"
    using r(1,2) by simp
qed

theorem tlv_list_step_unchecked_witness:
  "(5 :: u16) = 5 \<and> (let m = (\<lambda>a. 0)(1 := 5); l = TLV_LIST_INIT 0 5 in
     TLV_LIST_CHECK m l (ntohs (tlv_type m (tlv_ptr l))) \<and>
     tlv_ptr (TLV_LIST_STEP m l) = tlv_ptr l + round_up 4 (unat (5 :: u16)) \<and>
     2 ^ 32 - 4 < unat (tlv_space (TLV_LIST_STEP m l)))"
  using tlv_list_step_unchecked [of "(\<lambda>a. 0)(1 := 5)" "TLV_LIST_INIT 0 5" 5 5]
  by (simp add: TLV_LIST_INIT_def header_fields be16_def Let_def)

section \<open>What setting a configuration message writes\<close>

lemma htonl_halves:
  "ucast (htonl v) = htons (ucast (drop_bit 16 v))" "ucast (drop_bit 16 (htonl v)) = htons (ucast v)"
proof -
  have h: "htonl = constant_swab32" "htons = constant_swab16"
    using bswap_eq [of True] by (simp_all add: fun_eq_iff htonl_def htons_def swab_defs)
  have b: "8 * k + j < 32" if "k < 4" "j < 8" for k j :: nat
    using that by linarith
  have "bit (ucast (htonl v) :: u16) i = bit (htons (ucast (drop_bit 16 v))) i \<and>
      bit (ucast (drop_bit 16 (htonl v)) :: u16) i = bit (htons (ucast v)) i" if "i < 16" for i
  proof -
    obtain k j where "k < 2" "j < 8" "i = 8 * k + j"
      using position_cases [of i 2] \<open>i < 16\<close> by auto
    then show ?thesis
      using bit_swab32 [of k j v] bit_swab32 [of "k + 2" j v] bit_swab16 [of k j "ucast v"]
        bit_swab16 [of k j "ucast (drop_bit 16 v)"] b [of "3 - k" j]
      by (auto simp: h bit_simps less_2_cases_iff)
  qed
  then show "ucast (htonl v) = htons (ucast (drop_bit 16 v))"
    "ucast (drop_bit 16 (htonl v)) = htons (ucast v)"
    by (auto intro!: bit_word_eqI)
qed

text \<open>The length, the command and the flags in network order; the eight reserved bytes keep their
  contents; the value follows them, padded with zeros up to a multiple of four.\<close>

definition encode_tcm :: "u32 \<Rightarrow> u16 \<Rightarrow> u16 \<Rightarrow> u8 list" where
  "encode_tcm len cmd flags =
     [hi8 (ucast (drop_bit 16 len)), lo8 (ucast (drop_bit 16 len)), hi8 (ucast len), lo8 (ucast len),
      hi8 cmd, lo8 cmd, hi8 flags, lo8 flags]"

lemma tcm_header_write:
  "store16 (msg + 6) (htons flags) (store16 (msg + 4) (htons cmd) (store32 msg (htonl len) m)) =
   write_bytes msg (encode_tcm len cmd flags) m"
proof -
  have "msg + 2 = Suc (Suc msg)" "msg + 4 = Suc (Suc (Suc (Suc msg)))"
    "msg + 6 = Suc (Suc (Suc (Suc (Suc (Suc msg)))))" by simp_all
  then show ?thesis
    unfolding store32_def htonl_halves store16_htons encode_tcm_def
    by (simp add: write_bytes_Cons fun_eq_iff)
qed

lemma TCM_total: "TCM_LENGTH x = of_nat 16 + x" "TCM_SPACE x = TLV_ALIGN (of_nat 16 + x)"
  "TCM_DATA msg = msg + 16"
  by (simp_all add: TCM_LENGTH_def TCM_SPACE_def TCM_ALIGN_def TLV_ALIGN_def TCM_DATA_def)

lemma TCM_SET_writes:
  assumes "\<And>i. i < unat len \<Longrightarrow> src + i < msg \<or> msg + 8 \<le> src + i"
  shows "TCM_SET msg cmd flags (Some src) len m =
    (write_bytes (msg + 16) (read_bytes m src (unat len) @
         replicate (round_up 4 (unat len + 16) - (unat len + 16)) 0)
       (write_bytes msg (encode_tcm (of_nat (unat len + 16)) cmd flags) m),
     of_nat (round_up 4 (unat len + 16)))"
proof -
  let ?h = "encode_tcm (of_nat (unat len + 16)) cmd flags"
  let ?bs = "read_bytes m src (unat len)"
  have "read_bytes (write_bytes msg ?h m) src (unat len) = ?bs"
    using assms by (intro read_bytes_write) (fastforce simp: encode_tcm_def)
  moreover have "len = 0 \<Longrightarrow> ?bs = [] \<and> round_up 4 16 = 16"
    by (simp add: read_bytes_def round_up_def)
  moreover have "write_bytes (msg + 16 + unat len) cs (write_bytes (msg + 16) ?bs m') =
      write_bytes (msg + 16) (?bs @ cs) m'" for cs m'
    by (simp add: write_bytes_append)
  ultimately show ?thesis
    unfolding TCM_SET_def Let_def option.case TCM_total total_16
    unfolding total_int [OF below_2_16(2)] tcm_header_write memset_write memcpy_write
    by simp
qed

end
