(* ===== verification/Virtio_Ring.thy ===== *)
theory Virtio_Ring
  imports Prelude
begin

text \<open>
  The split virtqueue of \<^verbatim>\<open>linux/virtio_ring.h\<close>: where the descriptor table and the two rings lie
  in the memory handed to \<^verbatim>\<open>vring_init\<close>, how much of it they take, and the test that suppresses
  notifications.  Addresses and \<^verbatim>\<open>size_t\<close> are 64 bits, \<^verbatim>\<open>unsigned int\<close> 32.
\<close>

section \<open>Layout\<close>

record vring =
  num :: u32
  desc :: u64
  avail :: u64
  used :: u64

text \<open>
  Sizes of \<^verbatim>\<open>struct vring_desc\<close> (16), of \<^verbatim>\<open>__virtio16\<close> (2) and of \<^verbatim>\<open>struct vring_used_elem\<close> (8);
  the rings start four bytes into \<^verbatim>\<open>struct vring_avail\<close> and \<^verbatim>\<open>struct vring_used\<close>.
\<close>

definition avail_ring :: "vring \<Rightarrow> u64 \<Rightarrow> u64" where
  "avail_ring vr i = avail vr + 4 + 2 * i"

definition used_ring :: "vring \<Rightarrow> u64 \<Rightarrow> u64" where
  "used_ring vr i = used vr + 4 + 8 * i"

definition vring_used_event :: "vring \<Rightarrow> u64" where
  "vring_used_event vr = avail_ring vr (ucast (num vr))"

definition vring_avail_event :: "vring \<Rightarrow> u64" where
  "vring_avail_event vr = used_ring vr (ucast (num vr))"

definition vring_init :: "u32 \<Rightarrow> u64 \<Rightarrow> u64 \<Rightarrow> vring" where
  "vring_init n p align =
     (let av = p + ucast n * 16;
          ring_end = av + 4 + 2 * ucast n
      in \<lparr> num = n, desc = p, avail = av,
           used = (ring_end + 2 + align - 1) AND NOT (align - 1) \<rparr>)"

text \<open>\<^verbatim>\<open>3 + num\<close> is computed as an \<^verbatim>\<open>unsigned int\<close>, and so is the result narrowed.\<close>

definition vring_size :: "u32 \<Rightarrow> u64 \<Rightarrow> u32" where
  "vring_size n align =
     ucast (((16 * ucast n + 2 * ucast (3 + n) + align - 1) AND NOT (align - 1))
       + 2 * 3 + 8 * ucast n :: u64)"

section \<open>Notifications\<close>

definition vring_need_event :: "u16 \<Rightarrow> u16 \<Rightarrow> u16 \<Rightarrow> bool" where
  "vring_need_event event_idx new_idx old \<longleftrightarrow> new_idx - event_idx - 1 < new_idx - old"

text \<open>C34: a notification is due exactly when the index the other side waits for is one of those
  published by the step from the old to the new index, counting modulo \<^verbatim>\<open>2^16\<close>.\<close>

theorem need_event_iff_passed:
  "vring_need_event event_idx new_idx old \<longleftrightarrow>
   (\<exists>k < unat (new_idx - old). event_idx = old + of_nat k)"
proof -
  define d where "d = new_idx - old"
  define x where "x = event_idx - old"
  have e: "new_idx - event_idx - 1 = d - x - 1"
    by (simp add: d_def x_def)
  have "vring_need_event event_idx new_idx old \<longleftrightarrow> d - x - 1 < d"
    unfolding vring_need_event_def e by (simp only: d_def)
  also have "\<dots> \<longleftrightarrow> x < d"
    by unat_arith
  also have "\<dots> \<longleftrightarrow> (\<exists>k < unat d. x = of_nat k)"
  proof
    assume "x < d"
    then show "\<exists>k < unat d. x = of_nat k"
      by (intro exI [of _ "unat x"]) (simp add: word_less_nat_alt)
  next
    assume "\<exists>k < unat d. x = of_nat k"
    then obtain k where k: "k < unat d" "of_nat k = x" by blast
    then have "unat x = k"
      using unsigned_less [of d, where 'a = nat] by (intro of_nat_inverse) simp_all
    then show "x < d"
      using k(1) by (simp add: word_less_nat_alt)
  qed
  also have "\<dots> \<longleftrightarrow> (\<exists>k < unat d. event_idx = old + of_nat k)"
    by (auto simp: x_def algebra_simps)
  finally show ?thesis by (simp add: d_def)
qed

section \<open>Where the rings lie\<close>

text \<open>The end of the available ring, and the used ring at the next aligned address.\<close>

lemma ring_end:
  "p + ucast (n :: u32) * 16 + 4 + 2 * ucast n + 2 = (of_nat (unat p + (18 * unat n + 6)) :: u64)"
  by (simp add: algebra_simps)

lemma aligned_used:
  assumes "k + 2 ^ a \<le> 2 ^ 64" and "a < 64"
  shows "unat ((of_nat k + 2 ^ a - 1) AND NOT (2 ^ a - 1) :: u64) = round_up (2 ^ a) k"
proof -
  have u: "unat (of_nat k :: u64) = k"
    using assms(1) zero_less_power [of "2 :: nat" a] by (intro unat_of_nat64) linarith
  have "k + 2 ^ a - 1 < 2 ^ LENGTH(64)"
    using assms(1) zero_less_power [of "2 :: nat" a] by simp
  then show ?thesis
    using unat_round_up [of "of_nat k :: u64" a] assms(2) by (simp add: u add_diff_eq)
qed

lemma unat_vring_size:
  assumes "unat n \<le> 2 ^ 15" and "a < 32"
  shows "unat (vring_size n (2 ^ a)) = round_up (2 ^ a) (18 * unat n + 6) + 6 + 8 * unat n"
proof -
  have a: "(2 :: nat) ^ a \<le> 2 ^ 31"
    using assms(2) by (intro power_increasing) simp_all
  have "unat (3 + n) = 3 + unat n"
    using assms(1) by (subst unat_add_lem [THEN iffD1]) simp_all
  then have "unat (ucast (3 + n) :: u64) = 3 + unat n"
    by (simp add: unat_ucast_up)
  then have "(ucast (3 + n) :: u64) = 3 + ucast n"
    by (metis of_nat_unat of_nat_add of_nat_numeral ucast_id)
  then have s: "16 * ucast n + 2 * ucast (3 + n) = (of_nat (18 * unat n + 6) :: u64)"
    by simp
  let ?u = "(of_nat (18 * unat n + 6) + 2 ^ a - 1) AND NOT (2 ^ a - 1) :: u64"
  have u: "unat ?u = round_up (2 ^ a) (18 * unat n + 6)"
    using assms a by (intro aligned_used) simp_all
  have b: "round_up (2 ^ a) (18 * unat n + 6) + 6 + 8 * unat n < 2 ^ 32"
    using round_up(3) [of "2 ^ a" "18 * unat n + 6"] assms(1) a by simp
  have "?u + 2 * 3 + 8 * ucast n = of_nat (round_up (2 ^ a) (18 * unat n + 6) + 6 + 8 * unat n)"
    unfolding u [symmetric] by simp
  then have "unat (?u + 2 * 3 + 8 * ucast n) = round_up (2 ^ a) (18 * unat n + 6) + 6 + 8 * unat n"
    using unat_of_nat64 [OF less_trans [OF b]] by simp
  then show ?thesis
    unfolding vring_size_def s using b by (simp add: unsigned_ucast_eq take_bit_nat_eq_self)
qed

text \<open>C33: a ring of at most 32768 descriptors, initialised at an address below or at \<^verbatim>\<open>2^63\<close> that is a
  multiple of the alignment, a power of two below \<^verbatim>\<open>2^32\<close>, lies as the virtqueue layout has it: the descriptors fill the memory up to the available ring; the used event index, the last
  element of the available ring, ends at or below the used ring, which starts at the first aligned
  address from there; and the available event index, the last element of the used ring, ends
  exactly \<^verbatim>\<open>vring_size\<close> bytes, a 32-bit number, from the start.\<close>

theorem vring_layout:
  assumes "unat n \<le> 2 ^ 15" and "a < 32" and "2 ^ a dvd unat p" and "unat p \<le> 2 ^ 63"
  shows "let vr = vring_init n p (2 ^ a); event_end = unat (vring_used_event vr) + 2 in
     desc vr = p \<and> unat (avail vr) = unat p + 16 * unat n \<and>
     event_end = unat (avail vr) + 4 + 2 * unat n + 2 \<and>
     unat (used vr) = round_up (2 ^ a) event_end \<and>
     unat (vring_avail_event vr) + 2 = unat p + unat (vring_size n (2 ^ a))"
proof -
  let ?vr = "vring_init n p (2 ^ a)"
  let ?k = "18 * unat n + 6"
  have a: "(2 :: nat) ^ a \<le> 2 ^ 31"
    using assms(2) by (intro power_increasing) simp_all
  have av: "avail ?vr = of_nat (unat p + 16 * unat n)"
    by (simp add: vring_init_def Let_def)
  have ue: "vring_used_event ?vr = of_nat (unat p + 18 * unat n + 4)"
    by (simp add: vring_used_event_def avail_ring_def vring_init_def Let_def algebra_simps)
  have "unat (used ?vr) = round_up (2 ^ a) (unat p + ?k)"
    using assms a unfolding vring_init_def Let_def vring.simps ring_end
    by (intro aligned_used) simp_all
  moreover have r: "round_up (2 ^ a) (unat p + ?k) = unat p + round_up (2 ^ a) ?k"
    using assms(3) by (intro round_up_offset) simp_all
  ultimately have us: "unat (used ?vr) = unat p + round_up (2 ^ a) ?k" by simp
  have ae: "vring_avail_event ?vr = of_nat (unat (used ?vr) + 4 + 8 * unat n)"
    by (simp add: vring_avail_event_def used_ring_def vring_init_def Let_def)
  have b: "round_up (2 ^ a) ?k + 4 + 8 * unat n < 2 ^ 32"
    using round_up(3) [of "2 ^ a" ?k] assms(1) a by simp
  have "unat (vring_avail_event ?vr) = unat p + round_up (2 ^ a) ?k + 4 + 8 * unat n"
    using assms(4) b unfolding ae us by (intro unat_of_nat64) simp
  moreover have "unat (avail ?vr) = unat p + 16 * unat n"
    using assms unfolding av by (intro unat_of_nat64) simp
  moreover have "unat (vring_used_event ?vr) = unat p + 18 * unat n + 4"
    using assms unfolding ue by (intro unat_of_nat64) simp
  moreover have "desc ?vr = p" by (simp add: vring_init_def Let_def)
  ultimately show ?thesis
    using us r unat_vring_size [OF assms(1,2)] by (simp add: Let_def ac_simps)
qed

theorem vring_layout_witness:
  "let vr = vring_init 256 0x10000 (2 ^ 12); event_end = unat (vring_used_event vr) + 2 in
     desc vr = 0x10000 \<and> unat (avail vr) = unat (0x10000 :: u64) + 16 * unat (256 :: u32) \<and>
     event_end = unat (avail vr) + 4 + 2 * unat (256 :: u32) + 2 \<and>
     unat (used vr) = round_up (2 ^ 12) event_end \<and>
     unat (vring_avail_event vr) + 2 = unat (0x10000 :: u64) + unat (vring_size 256 (2 ^ 12))"
  by (rule vring_layout) simp_all

end
