(* ===== verification/Item_Walk.thy ===== *)
theory Item_Walk
  imports Prelude
begin

text \<open>
  Walks over items laid out one after another in memory, each of which says how long it is: the
  loop the headers' \<^verbatim>\<open>..._OK\<close> and \<^verbatim>\<open>..._NEXT\<close> macros are written for, and the contracts
  under which it stays inside the buffer, ends, and visits exactly the items that were laid out.
\<close>

section \<open>Items laid out one after another\<close>

fun items_at :: "(nat \<Rightarrow> 'i \<Rightarrow> bool) \<Rightarrow> ('i \<Rightarrow> nat) \<Rightarrow> nat \<Rightarrow> 'i list \<Rightarrow> bool" where
  "items_at at sz p [] \<longleftrightarrow> True"
| "items_at at sz p (x # xs) \<longleftrightarrow> at p x \<and> items_at at sz (p + sz x) xs"

fun starts :: "('i \<Rightarrow> nat) \<Rightarrow> nat \<Rightarrow> 'i list \<Rightarrow> nat list" where
  "starts sz p [] = []"
| "starts sz p (x # xs) = p # starts sz (p + sz x) xs"

lemma length_starts [simp]: "length (starts sz p xs) = length xs"
  by (induction xs arbitrary: p) auto

lemma nth_starts:
  "k < length xs \<Longrightarrow> starts sz p xs ! k = p + (\<Sum>x \<leftarrow> take k xs. sz x)"
  by (induction xs arbitrary: p k) (auto simp: nth_Cons' take_Cons')

lemma items_at_nth:
  "items_at at sz p xs \<Longrightarrow> k < length xs \<Longrightarrow> at (starts sz p xs ! k) (xs ! k)"
  by (induction xs arbitrary: p k) (auto simp: nth_Cons')

text \<open>A cursor that moves by the size the item itself states.\<close>

locale item_cursor =
  fixes advance :: "'m \<Rightarrow> nat \<Rightarrow> nat"
    and item_at :: "'m \<Rightarrow> nat \<Rightarrow> 'i \<Rightarrow> bool"
    and sz :: "'i \<Rightarrow> nat"
  assumes advance_item: "item_at m p x \<Longrightarrow> advance m p = p + sz x"
begin

lemma cursor_after:
  "items_at (item_at m) sz p xs \<Longrightarrow> k \<le> length xs \<Longrightarrow>
   (advance m ^^ k) p = p + (\<Sum>x \<leftarrow> take k xs. sz x)"
proof (induction xs arbitrary: p k)
  case (Cons x xs)
  show ?case
  proof (cases k)
    case (Suc j)
    have "(advance m ^^ Suc j) p = (advance m ^^ j) (advance m p)"
      by (simp add: funpow_swap1)
    then show ?thesis
      using Cons.prems Cons.IH [of "p + sz x" j] advance_item [of m p x] Suc by simp
  qed simp
qed simp

lemma cursor_on_item:
  assumes "items_at (item_at m) sz p xs" and "k < length xs"
  shows "item_at m ((advance m ^^ k) p) (xs ! k)"
  using items_at_nth [OF assms] nth_starts [OF assms(2), of sz p] cursor_after [OF assms(1), of k]
    assms(2) by simp

end

section \<open>The loop with a check before every item\<close>

text \<open>
  \<^verbatim>\<open>for (; OK(p, r); p = NEXT(p, r)) visit(p)\<close>; not returning is \<open>None\<close>.
\<close>

partial_function (option) visit_all ::
    "(nat \<Rightarrow> 'r \<Rightarrow> bool) \<Rightarrow> (nat \<Rightarrow> 'r \<Rightarrow> nat \<times> 'r) \<Rightarrow> nat \<Rightarrow> 'r \<Rightarrow> nat list option" where
  "visit_all ok nxt p r =
     (if ok p r
      then Option.bind (visit_all ok nxt (fst (nxt p r)) (snd (nxt p r))) (\<lambda>ps. Some (p # ps))
      else Some [])"

text \<open>
  A check that guarantees an item to be nonempty and to lie in the room left, and a step by at
  least the item: nothing is assumed of the contents of the memory.
\<close>

locale checked_walk =
  fixes ok :: "'m \<Rightarrow> nat \<Rightarrow> 'r \<Rightarrow> bool"
    and nxt :: "'m \<Rightarrow> nat \<Rightarrow> 'r \<Rightarrow> nat \<times> 'r"
    and room :: "'r \<Rightarrow> int"
    and span :: "'m \<Rightarrow> nat \<Rightarrow> nat"
  assumes ok_span: "ok m p r \<Longrightarrow> 0 < span m p \<and> int (span m p) \<le> room r"
    and nxt_span: "ok m p r \<Longrightarrow> \<exists>a \<ge> span m p. fst (nxt m p r) = p + a \<and> room (snd (nxt m p r)) = room r - int a"
begin

lemma visit_stop: "room r \<le> 0 \<Longrightarrow> visit_all (ok m) (nxt m) p r = Some []"
  using ok_span [of m p r] by (subst visit_all.simps) auto

lemma visit_inside:
  "\<exists>ps. visit_all (ok m) (nxt m) p r = Some ps \<and>
     (\<forall>q \<in> set ps. p \<le> q \<and> int (q + span m q) \<le> int p + room r) \<and>
     sorted_wrt (\<lambda>a b. a + span m a \<le> b) ps"
proof (induction "nat (room r)" arbitrary: p r rule: less_induct)
  case less
  show ?case
  proof (cases "ok m p r")
    case True
    let ?q = "fst (nxt m p r)" and ?r = "snd (nxt m p r)"
    obtain a where a: "span m p \<le> a" "?q = p + a" "room ?r = room r - int a"
      using nxt_span [OF True] by blast
    note s = ok_span [OF True]
    have "nat (room ?r) < nat (room r)" using a s by linarith
    then obtain ps where ps: "visit_all (ok m) (nxt m) ?q ?r = Some ps"
      "\<forall>q \<in> set ps. ?q \<le> q \<and> int (q + span m q) \<le> int ?q + room ?r"
      "sorted_wrt (\<lambda>a b. a + span m a \<le> b) ps"
      using less by blast
    have "visit_all (ok m) (nxt m) p r = Some (p # ps)"
      using True ps(1) by (subst visit_all.simps) simp
    moreover have "\<forall>q \<in> set ps. p + span m p \<le> q \<and> int (q + span m q) \<le> int p + room r"
      using ps(2) a by fastforce
    ultimately show ?thesis
      using ps(3) s by (intro exI [of _ "p # ps"]) auto
  next
    case False
    then show ?thesis by (subst visit_all.simps) simp
  qed
qed

end

text \<open>On memory that does hold items of the format, all of them are visited, in order.\<close>

locale message_walk = checked_walk ok nxt room span
  for ok :: "'m \<Rightarrow> nat \<Rightarrow> 'r \<Rightarrow> bool" and nxt room span +
  fixes item_at :: "'m \<Rightarrow> nat \<Rightarrow> 'i \<Rightarrow> bool"
    and sz :: "'i \<Rightarrow> nat"
  assumes item_ok: "item_at m p x \<Longrightarrow> int (sz x) \<le> room r \<Longrightarrow> ok m p r"
    and item_nxt: "item_at m p x \<Longrightarrow> int (sz x) \<le> room r \<Longrightarrow>
      fst (nxt m p r) = p + sz x \<and> room (snd (nxt m p r)) = room r - int (sz x)"
begin

lemma visit_items:
  "items_at (item_at m) sz p xs \<Longrightarrow> room r = int (\<Sum>x \<leftarrow> xs. sz x) \<Longrightarrow>
   visit_all (ok m) (nxt m) p r = Some (starts sz p xs)"
proof (induction xs arbitrary: p r)
  case Nil
  then show ?case by (simp add: visit_stop)
next
  case (Cons x xs)
  have s: "int (sz x) \<le> room r" and i: "item_at m p x"
    using Cons.prems by simp_all
  have "visit_all (ok m) (nxt m) (fst (nxt m p r)) (snd (nxt m p r)) = Some (starts sz (p + sz x) xs)"
    using Cons.prems item_nxt [OF i s] Cons.IH [of "p + sz x" "snd (nxt m p r)"] by simp
  then show ?case
    using item_ok [OF i s] by (subst visit_all.simps) simp
qed

end

text \<open>The loop up to an end address that the items fill exactly.\<close>

lemma visit_to_end:
  assumes "items_at at sz p xs" and "\<And>q x. at q x \<Longrightarrow> 0 < sz x \<and> step q = sz x"
  shows "visit_all (\<lambda>q e. q < e) (\<lambda>q e. (q + step q, e)) p (p + (\<Sum>x \<leftarrow> xs. sz x)) = Some (starts sz p xs)"
  using assms(1)
proof (induction xs arbitrary: p)
  case Nil
  then show ?case by (subst visit_all.simps) simp
next
  case (Cons x xs)
  then show ?case
    using assms(2) [of p x] Cons.IH [of "p + sz x"]
    by (subst visit_all.simps) (simp add: add.assoc)
qed

text \<open>
  A loop whose step may leave the cursor where it is does not return: the first claim of the
  walk above fails without the lower bound on the step.
\<close>

lemma visit_stuck:
  assumes "ok p r" and "nxt p r = (p, r)"
  shows "visit_all ok nxt p r = None"
proof (rule ccontr)
  assume "visit_all ok nxt p r \<noteq> None"
  then obtain ps where "visit_all ok nxt p r = Some ps" by blast
  moreover have "visit_all ok nxt p r = Some ps \<Longrightarrow> \<exists>qs. visit_all ok nxt p r = Some qs \<and> ps = p # qs" for ps
    using assms by (subst (asm) visit_all.simps) (auto simp: bind_eq_Some_conv)
  ultimately show False
    by (metis not_Cons_self2 option.inject)
qed

end
