(* ===== verification/Netlink.thy ===== *)
theory Netlink
  imports Byte_Memory Item_Walk
begin

text \<open>
  Messages and attributes of \<^verbatim>\<open>linux/netlink.h\<close>, \<^verbatim>\<open>linux/rtnetlink.h\<close> and
  \<^verbatim>\<open>linux/netfilter/nfnetlink_compat.h\<close>: alignment, lengths, the check made before a message
  or attribute is looked at and the step to the next one.  The remaining length is the
  caller's \<^verbatim>\<open>int\<close>, kept as its 32 bits: compared signed where the macro casts, unsigned where
  the usual conversions make it so, and reduced modulo \<^verbatim>\<open>2^32\<close>.
\<close>

section \<open>Messages\<close>

text \<open>\<^verbatim>\<open>struct nlmsghdr\<close>: length at 0, type at 4, flags at 6, sequence at 8, port at 12.\<close>

definition nlmsg_len :: "memory \<Rightarrow> nat \<Rightarrow> u32" where
  "nlmsg_len m nlh = load32 m nlh"

definition nlmsg_type :: "memory \<Rightarrow> nat \<Rightarrow> u16" where
  "nlmsg_type m nlh = load16 m (nlh + 4)"

definition NLMSG_ALIGN :: "'a::len word \<Rightarrow> 'a word" where
  "NLMSG_ALIGN len = (len + 4 - 1) AND NOT (4 - 1)"

definition NLMSG_HDRLEN :: u32 where
  "NLMSG_HDRLEN = ucast (NLMSG_ALIGN (16 :: u64))"

definition NLMSG_LENGTH :: "u32 \<Rightarrow> u32" where
  "NLMSG_LENGTH len = len + NLMSG_HDRLEN"

definition NLMSG_SPACE :: "u32 \<Rightarrow> u32" where
  "NLMSG_SPACE len = NLMSG_ALIGN (NLMSG_LENGTH len)"

definition NLMSG_DATA :: "nat \<Rightarrow> nat" where
  "NLMSG_DATA nlh = nlh + unat NLMSG_HDRLEN"

definition NLMSG_NEXT :: "memory \<Rightarrow> nat \<Rightarrow> u32 \<Rightarrow> nat \<times> u32" where
  "NLMSG_NEXT m nlh len =
     (nlh + unat (NLMSG_ALIGN (nlmsg_len m nlh)), len - NLMSG_ALIGN (nlmsg_len m nlh))"

definition NLMSG_OK :: "memory \<Rightarrow> nat \<Rightarrow> u32 \<Rightarrow> bool" where
  "NLMSG_OK m nlh len \<longleftrightarrow> 16 \<le>s len \<and> 16 \<le> nlmsg_len m nlh \<and> nlmsg_len m nlh \<le> len"

definition NLMSG_PAYLOAD :: "memory \<Rightarrow> nat \<Rightarrow> u32 \<Rightarrow> u32" where
  "NLMSG_PAYLOAD m nlh len = nlmsg_len m nlh - NLMSG_SPACE len"

definition NLA_ALIGN :: "'a::len word \<Rightarrow> 'a word" where
  "NLA_ALIGN len = (len + 4 - 1) AND NOT (4 - 1)"

definition NLA_HDRLEN :: u32 where
  "NLA_HDRLEN = ucast (NLA_ALIGN (4 :: u64))"

section \<open>Route attributes\<close>

text \<open>\<^verbatim>\<open>struct rtattr\<close>: length at 0, type at 2.\<close>

definition rta_len :: "memory \<Rightarrow> nat \<Rightarrow> u16" where
  "rta_len m rta = load16 m rta"

definition rta_type :: "memory \<Rightarrow> nat \<Rightarrow> u16" where
  "rta_type m rta = load16 m (rta + 2)"

definition RTA_ALIGN :: "'a::len word \<Rightarrow> 'a word" where
  "RTA_ALIGN len = (len + 4 - 1) AND NOT (4 - 1)"

definition RTA_OK :: "memory \<Rightarrow> nat \<Rightarrow> u32 \<Rightarrow> bool" where
  "RTA_OK m rta len \<longleftrightarrow> 4 \<le>s len \<and> 4 \<le> rta_len m rta \<and> ucast (rta_len m rta) \<le>s len"

definition RTA_NEXT :: "memory \<Rightarrow> nat \<Rightarrow> u32 \<Rightarrow> nat \<times> u32" where
  "RTA_NEXT m rta attrlen =
     (rta + unat (RTA_ALIGN (ucast (rta_len m rta)) :: u32),
      attrlen - RTA_ALIGN (ucast (rta_len m rta)))"

definition RTA_LENGTH :: "u64 \<Rightarrow> u64" where
  "RTA_LENGTH len = RTA_ALIGN 4 + len"

definition RTA_SPACE :: "u64 \<Rightarrow> u64" where
  "RTA_SPACE len = RTA_ALIGN (RTA_LENGTH len)"

definition RTA_DATA :: "nat \<Rightarrow> nat" where
  "RTA_DATA rta = rta + unat (RTA_LENGTH 0)"

definition RTA_PAYLOAD :: "memory \<Rightarrow> nat \<Rightarrow> u64" where
  "RTA_PAYLOAD m rta = ucast (rta_len m rta) - RTA_LENGTH 0"

text \<open>
  The attributes of a message follow a family header of fixed size: \<^verbatim>\<open>struct rtmsg\<close> (12),
  \<^verbatim>\<open>struct tcmsg\<close> (20), \<^verbatim>\<open>struct tcamsg\<close> (4).
\<close>

definition RTM_RTA :: "nat \<Rightarrow> nat" where
  "RTM_RTA r = r + unat (NLMSG_ALIGN 12 :: u64)"

definition RTM_PAYLOAD :: "memory \<Rightarrow> nat \<Rightarrow> u32" where
  "RTM_PAYLOAD m n = NLMSG_PAYLOAD m n 12"

definition TCA_RTA :: "nat \<Rightarrow> nat" where
  "TCA_RTA r = r + unat (NLMSG_ALIGN 20 :: u64)"

definition TCA_PAYLOAD :: "memory \<Rightarrow> nat \<Rightarrow> u32" where
  "TCA_PAYLOAD m n = NLMSG_PAYLOAD m n 20"

definition TA_RTA :: "nat \<Rightarrow> nat" where
  "TA_RTA r = r + unat (NLMSG_ALIGN 4 :: u64)"

definition TA_PAYLOAD :: "memory \<Rightarrow> nat \<Rightarrow> u32" where
  "TA_PAYLOAD m n = NLMSG_PAYLOAD m n 4"

section \<open>Next hops\<close>

text \<open>\<^verbatim>\<open>struct rtnexthop\<close> is eight bytes, its length at 0.\<close>

definition rtnh_len :: "memory \<Rightarrow> nat \<Rightarrow> u16" where
  "rtnh_len m rtnh = load16 m rtnh"

definition RTNH_ALIGN :: "'a::len word \<Rightarrow> 'a word" where
  "RTNH_ALIGN len = (len + 4 - 1) AND NOT (4 - 1)"

definition RTNH_OK :: "memory \<Rightarrow> nat \<Rightarrow> u32 \<Rightarrow> bool" where
  "RTNH_OK m rtnh len \<longleftrightarrow> 8 \<le> rtnh_len m rtnh \<and> ucast (rtnh_len m rtnh) \<le>s len"

definition RTNH_NEXT :: "memory \<Rightarrow> nat \<Rightarrow> nat" where
  "RTNH_NEXT m rtnh = rtnh + unat (RTNH_ALIGN (ucast (rtnh_len m rtnh)) :: u32)"

definition RTNH_LENGTH :: "u64 \<Rightarrow> u64" where
  "RTNH_LENGTH len = RTNH_ALIGN 8 + len"

definition RTNH_SPACE :: "u64 \<Rightarrow> u64" where
  "RTNH_SPACE len = RTNH_ALIGN (RTNH_LENGTH len)"

definition RTNH_DATA :: "nat \<Rightarrow> nat" where
  "RTNH_DATA rtnh = rtnh + unat (RTNH_LENGTH 0)"

section \<open>Netfilter attributes\<close>

definition nfa_len :: "memory \<Rightarrow> nat \<Rightarrow> u16" where
  "nfa_len m nfa = load16 m nfa"

definition nfa_type :: "memory \<Rightarrow> nat \<Rightarrow> u16" where
  "nfa_type m nfa = load16 m (nfa + 2)"

definition NFA_TYPE :: "memory \<Rightarrow> nat \<Rightarrow> u16" where
  "NFA_TYPE m attr = nfa_type m attr AND 0x7fff"

definition NFA_ALIGN :: "'a::len word \<Rightarrow> 'a word" where
  "NFA_ALIGN len = (len + 4 - 1) AND NOT (4 - 1)"

definition NFA_OK :: "memory \<Rightarrow> nat \<Rightarrow> u32 \<Rightarrow> bool" where
  "NFA_OK m nfa len \<longleftrightarrow> 0 <s len \<and> 4 \<le> nfa_len m nfa \<and> ucast (nfa_len m nfa) \<le>s len"

definition NFA_NEXT :: "memory \<Rightarrow> nat \<Rightarrow> u32 \<Rightarrow> nat \<times> u32" where
  "NFA_NEXT m nfa attrlen =
     (nfa + unat (NFA_ALIGN (ucast (nfa_len m nfa)) :: u32),
      attrlen - NFA_ALIGN (ucast (nfa_len m nfa)))"

definition NFA_LENGTH :: "u64 \<Rightarrow> u64" where
  "NFA_LENGTH len = NFA_ALIGN 4 + len"

definition NFA_SPACE :: "u64 \<Rightarrow> u64" where
  "NFA_SPACE len = NFA_ALIGN (NFA_LENGTH len)"

definition NFA_DATA :: "nat \<Rightarrow> nat" where
  "NFA_DATA nfa = nfa + unat (NFA_LENGTH 0)"

definition NFA_PAYLOAD :: "memory \<Rightarrow> nat \<Rightarrow> u64" where
  "NFA_PAYLOAD m nfa = ucast (nfa_len m nfa) - NFA_LENGTH 0"

text \<open>\<^verbatim>\<open>struct nfgenmsg\<close> is four bytes.\<close>

definition NFM_NFA :: "nat \<Rightarrow> nat" where
  "NFM_NFA n = n + unat (NLMSG_ALIGN 4 :: u64)"

definition NFM_PAYLOAD :: "memory \<Rightarrow> nat \<Rightarrow> u32" where
  "NFM_PAYLOAD m n = NLMSG_PAYLOAD m n 4"

section \<open>Lengths and remaining room\<close>

lemmas align_defs = NLMSG_ALIGN_def NLA_ALIGN_def RTA_ALIGN_def RTNH_ALIGN_def NFA_ALIGN_def

lemma unat_align4:
  fixes x :: "'a::len word"
  assumes "unat x + 3 < 2 ^ LENGTH('a)" and "2 < LENGTH('a)"
  shows "unat ((x + 4 - 1) AND NOT (4 - 1)) = round_up 4 (unat x)"
  using unat_round_up [of x 2] assms by (simp add: add.commute)

lemma ucast_align4: "unat ((ucast (x :: u16) + 4 - 1) AND NOT (4 - 1) :: u32) = round_up 4 (unat x)"
proof -
  have "unat (ucast x :: u32) = unat x" by (rule unat_ucast_up) simp
  moreover have "unat x < 65536" using unsigned_less [of x] by simp
  ultimately show ?thesis using unat_align4 [of "ucast x :: u32"] by simp
qed

lemma sint_of_int32:
  "- 2147483648 \<le> i \<Longrightarrow> i < 2147483648 \<Longrightarrow> sint (word_of_int i :: u32) = i"
  by (simp add: signed_of_int signed_take_bit_int_eq_self)

lemma sint_minus:
  fixes r w :: u32
  assumes "- 2147483648 \<le> sint r - int (unat w)" and "sint r - int (unat w) < 2147483648"
  shows "sint (r - w) = sint r - int (unat w)"
proof -
  have "r - w = word_of_int (sint r - int (unat w))" by simp
  then show ?thesis
    using sint_of_int32 [OF assms] by (simp only:)
qed

lemma sint_range32: "- 2147483648 \<le> sint (r :: u32)" "sint (r :: u32) < 2147483648"
  using sint_greater_eq [of r] sint_lt [of r] by simp_all

lemma uint_of_int32: "0 \<le> i \<Longrightarrow> i < 4294967296 \<Longrightarrow> uint (word_of_int i :: u32) = i"
  by (simp add: unsigned_of_int take_bit_int_eq_self)

lemma sint_small:
  assumes "unat (w :: u32) < 2147483648"
  shows "sint w = int (unat w)"
proof -
  have "int (unat w) < 2147483648" using assms by linarith
  then have "sint (word_of_int (int (unat w)) :: u32) = int (unat w)"
    using of_nat_0_le_iff [of "unat w"] by (intro sint_of_int32) linarith+
  then show ?thesis by simp
qed

lemma unat_nonneg: "0 \<le> sint (w :: u32) \<Longrightarrow> int (unat w) = sint w"
  using uint_of_int32 [of "sint w"] sint_range32 [of w] by simp

lemma sint_ucast16: "sint (ucast (x :: u16) :: u32) = int (unat x)"
proof -
  have "unat (ucast x :: u32) = unat x" by (rule unat_ucast_up) simp
  moreover have "unat x < 65536" using unsigned_less [of x] by simp
  ultimately show ?thesis using sint_small [of "ucast x"] by simp
qed

section \<open>Walking messages and attributes\<close>

text \<open>A length of at least the header, aligned up, is a step of at least the length.\<close>

lemma aligned_step:
  fixes r w :: u32
  assumes "0 < l" and "int l \<le> sint r" and "unat w = round_up 4 l"
  shows "\<exists>a \<ge> l. p + unat w = p + a \<and> sint (r - w) = sint r - int a"
proof (intro exI [of _ "unat w"] conjI)
  have a: "l \<le> unat w" "unat w < l + 4" using round_up(2,3) [of 4 l] assms(3) by simp_all
  then show "l \<le> unat w" by simp
  show "sint (r - w) = sint r - int (unat w)"
    using a assms(1,2) sint_range32 [of r] by (intro sint_minus) linarith+
qed simp

lemma NLMSG_OK_len:
  assumes "NLMSG_OK m p r"
  shows "16 \<le> unat (nlmsg_len m p)" and "int (unat (nlmsg_len m p)) \<le> sint r"
    and "unat (NLMSG_ALIGN (nlmsg_len m p)) = round_up 4 (unat (nlmsg_len m p))"
proof -
  have r: "16 \<le> sint r" and "16 \<le> nlmsg_len m p" and le: "nlmsg_len m p \<le> r"
    using assms by (simp_all add: NLMSG_OK_def word_sle_eq)
  then show "16 \<le> unat (nlmsg_len m p)" by (simp add: word_le_nat_alt)
  show l: "int (unat (nlmsg_len m p)) \<le> sint r"
    using le r unat_nonneg [of r] by (simp only: word_le_nat_alt) linarith
  then have "unat (nlmsg_len m p) < 2147483648"
    using sint_range32 [of r] by linarith
  then show "unat (NLMSG_ALIGN (nlmsg_len m p)) = round_up 4 (unat (nlmsg_len m p))"
    by (simp only: NLMSG_ALIGN_def) (rule unat_align4; simp)
qed

type_synonym nl_message = "u16 \<times> u8 list"

definition nlmsg_at :: "memory \<Rightarrow> nat \<Rightarrow> nl_message \<Rightarrow> bool" where
  "nlmsg_at m p x \<longleftrightarrow> (case x of (ty, bs) \<Rightarrow>
     unat (nlmsg_len m p) = 16 + length bs \<and> length bs < 2147483632 \<and> nlmsg_type m p = ty \<and>
     stored m (NLMSG_DATA p) bs)"

definition nlmsg_space :: "nl_message \<Rightarrow> nat" where
  "nlmsg_space x = round_up 4 (16 + length (snd x))"

interpretation nlmsg: message_walk NLMSG_OK NLMSG_NEXT sint "\<lambda>m p. unat (nlmsg_len m p)"
  nlmsg_at nlmsg_space
proof unfold_locales
  fix m p r assume ok: "NLMSG_OK m p r"
  show "0 < unat (nlmsg_len m p) \<and> int (unat (nlmsg_len m p)) \<le> sint r"
    using NLMSG_OK_len [OF ok] by linarith
  show "\<exists>a \<ge> unat (nlmsg_len m p). fst (NLMSG_NEXT m p r) = p + a \<and>
      sint (snd (NLMSG_NEXT m p r)) = sint r - int a"
    using aligned_step [OF _ NLMSG_OK_len(2,3) [OF ok], of p] NLMSG_OK_len(1) [OF ok]
    by (simp add: NLMSG_NEXT_def)
next
  fix m p x and r :: u32
  assume x: "nlmsg_at m p x" and s: "int (nlmsg_space x) \<le> sint r"
  obtain ty bs where xb: "x = (ty, bs)" by (cases x)
  have l: "unat (nlmsg_len m p) = 16 + length bs" using x by (simp add: nlmsg_at_def xb)
  have le: "16 + length bs \<le> nlmsg_space x"
    using round_up(2) [of 4 "16 + length bs"] by (simp add: nlmsg_space_def xb)
  then have "0 \<le> sint r" using s by linarith
  then have "unat (nlmsg_len m p) \<le> unat r"
    using l le s unat_nonneg [of r] by linarith
  then show ok: "NLMSG_OK m p r"
    using l le s by (simp add: NLMSG_OK_def word_sle_eq word_le_nat_alt)
  have a: "unat (NLMSG_ALIGN (nlmsg_len m p)) = nlmsg_space x"
    using NLMSG_OK_len(3) [OF ok] by (simp add: l nlmsg_space_def xb)
  have "sint (r - NLMSG_ALIGN (nlmsg_len m p)) = sint r - int (nlmsg_space x)"
    using s sint_range32 [of r] by (subst sint_minus) (simp_all add: a del: int_nat_eq)
  then show "fst (NLMSG_NEXT m p r) = p + nlmsg_space x \<and>
      sint (snd (NLMSG_NEXT m p r)) = sint r - int (nlmsg_space x)"
    by (simp add: NLMSG_NEXT_def a)
qed

text \<open>Attributes: the length is 16 bits, so only the remaining room bounds it.\<close>

type_synonym nl_attribute = "u16 \<times> u8 list"

definition attr_space :: "nl_attribute \<Rightarrow> nat" where
  "attr_space x = round_up 4 (4 + length (snd x))"

definition attr_at :: "(memory \<Rightarrow> nat \<Rightarrow> u16) \<Rightarrow> (memory \<Rightarrow> nat \<Rightarrow> u16) \<Rightarrow> memory \<Rightarrow> nat \<Rightarrow> nl_attribute \<Rightarrow> bool" where
  "attr_at len_at type_at m p x \<longleftrightarrow> (case x of (ty, bs) \<Rightarrow>
     unat (len_at m p) = 4 + length bs \<and> type_at m p = ty \<and> stored m (p + 4) bs)"

lemma attr_room:
  assumes "attr_at len_at type_at m p x" and "int (attr_space x) \<le> sint (r :: u32)"
  shows "4 \<le> unat (len_at m p)" and "int (unat (len_at m p)) \<le> sint r" and "4 \<le> sint r"
    and "round_up 4 (unat (len_at m p)) = attr_space x"
proof -
  obtain ty bs where x: "x = (ty, bs)" by (cases x)
  have l: "unat (len_at m p) = 4 + length bs" using assms(1) by (simp add: attr_at_def x)
  then show "round_up 4 (unat (len_at m p)) = attr_space x" by (simp add: attr_space_def x)
  have "4 + length bs \<le> attr_space x"
    using round_up(2) [of 4 "4 + length bs"] by (simp add: attr_space_def x)
  then show "4 \<le> unat (len_at m p)" "int (unat (len_at m p)) \<le> sint r" "4 \<le> sint r"
    using l assms(2) by linarith+
qed

lemma attr_nxt:
  assumes "unat w = attr_space x" and "int (attr_space x) \<le> sint (r :: u32)"
  shows "sint (r - w) = sint r - int (attr_space x)"
  using assms sint_range32 [of r] by (subst sint_minus) (simp_all del: int_nat_eq)

interpretation rta: message_walk RTA_OK RTA_NEXT sint "\<lambda>m p. unat (rta_len m p)"
  "attr_at rta_len rta_type" attr_space
proof unfold_locales
  fix m p r assume "RTA_OK m p r"
  then have ok: "4 \<le> unat (rta_len m p)" "int (unat (rta_len m p)) \<le> sint r"
    by (simp_all add: RTA_OK_def word_sle_eq word_le_nat_alt sint_ucast16)
  then show "0 < unat (rta_len m p) \<and> int (unat (rta_len m p)) \<le> sint r" by linarith
  show "\<exists>a \<ge> unat (rta_len m p). fst (RTA_NEXT m p r) = p + a \<and>
      sint (snd (RTA_NEXT m p r)) = sint r - int a"
    using aligned_step [OF _ ok(2), of "RTA_ALIGN (ucast (rta_len m p))" p] ok(1)
    by (simp add: RTA_NEXT_def RTA_ALIGN_def ucast_align4 [simplified])
next
  fix m p x and r :: u32
  assume a: "attr_at rta_len rta_type m p x" "int (attr_space x) \<le> sint r"
  note s = attr_room [OF a]
  then show "RTA_OK m p r"
    by (simp add: RTA_OK_def word_sle_eq word_le_nat_alt sint_ucast16)
  have w: "unat (RTA_ALIGN (ucast (rta_len m p)) :: u32) = attr_space x"
    by (simp only: RTA_ALIGN_def ucast_align4 s(4))
  show "fst (RTA_NEXT m p r) = p + attr_space x \<and>
      sint (snd (RTA_NEXT m p r)) = sint r - int (attr_space x)"
    using attr_nxt [OF w a(2)] by (simp add: RTA_NEXT_def w)
qed

interpretation nfa: message_walk NFA_OK NFA_NEXT sint "\<lambda>m p. unat (nfa_len m p)"
  "attr_at nfa_len nfa_type" attr_space
proof unfold_locales
  fix m p r assume "NFA_OK m p r"
  then have ok: "4 \<le> unat (nfa_len m p)" "int (unat (nfa_len m p)) \<le> sint r"
    by (simp_all add: NFA_OK_def word_sle_eq word_le_nat_alt sint_ucast16)
  then show "0 < unat (nfa_len m p) \<and> int (unat (nfa_len m p)) \<le> sint r" by linarith
  show "\<exists>a \<ge> unat (nfa_len m p). fst (NFA_NEXT m p r) = p + a \<and>
      sint (snd (NFA_NEXT m p r)) = sint r - int a"
    using aligned_step [OF _ ok(2), of "NFA_ALIGN (ucast (nfa_len m p))" p] ok(1)
    by (simp add: NFA_NEXT_def NFA_ALIGN_def ucast_align4 [simplified])
next
  fix m p x and r :: u32
  assume a: "attr_at nfa_len nfa_type m p x" "int (attr_space x) \<le> sint r"
  note s = attr_room [OF a]
  then show "NFA_OK m p r"
    by (simp add: NFA_OK_def word_sless_alt word_sle_eq word_le_nat_alt sint_ucast16)
  have w: "unat (NFA_ALIGN (ucast (nfa_len m p)) :: u32) = attr_space x"
    by (simp only: NFA_ALIGN_def ucast_align4 s(4))
  show "fst (NFA_NEXT m p r) = p + attr_space x \<and>
      sint (snd (NFA_NEXT m p r)) = sint r - int (attr_space x)"
    using attr_nxt [OF w a(2)] by (simp add: NFA_NEXT_def w)
qed

text \<open>Next hops have no remaining length in their step.\<close>

definition nexthop_at :: "memory \<Rightarrow> nat \<Rightarrow> u8 list \<Rightarrow> bool" where
  "nexthop_at m p bs \<longleftrightarrow> unat (rtnh_len m p) = 8 + length bs \<and> stored m (RTNH_DATA p) bs"

interpretation rtnh: item_cursor RTNH_NEXT nexthop_at "\<lambda>bs. round_up 4 (8 + length bs)"
  by unfold_locales (simp add: RTNH_NEXT_def RTNH_ALIGN_def ucast_align4 [simplified] nexthop_at_def)

section \<open>Properties\<close>

text \<open>C3: whatever the buffer holds, the loop over messages, route attributes or netfilter
  attributes returns, and every message or attribute it visits lies inside the length it was
  given and does not overlap the next one visited.\<close>

theorem netlink_walks_stay_inside:
  "(\<exists>ps. visit_all (NLMSG_OK m) (NLMSG_NEXT m) p len = Some ps \<and>
      (\<forall>q \<in> set ps. p \<le> q \<and> int (q + unat (nlmsg_len m q)) \<le> int p + sint len) \<and>
      sorted_wrt (\<lambda>a b. a + unat (nlmsg_len m a) \<le> b) ps) \<and>
   (\<exists>ps. visit_all (RTA_OK m) (RTA_NEXT m) p len = Some ps \<and>
      (\<forall>q \<in> set ps. p \<le> q \<and> int (q + unat (rta_len m q)) \<le> int p + sint len) \<and>
      sorted_wrt (\<lambda>a b. a + unat (rta_len m a) \<le> b) ps) \<and>
   (\<exists>ps. visit_all (NFA_OK m) (NFA_NEXT m) p len = Some ps \<and>
      (\<forall>q \<in> set ps. p \<le> q \<and> int (q + unat (nfa_len m q)) \<le> int p + sint len) \<and>
      sorted_wrt (\<lambda>a b. a + unat (nfa_len m a) \<le> b) ps)"
  using nlmsg.visit_inside [of m p len] rta.visit_inside [of m p len] nfa.visit_inside [of m p len]
  by (intro conjI)

text \<open>C9: every message and every attribute that was laid out is reached.  The loop over a buffer
  filled with messages visits the start of each, in order; and in a message whose payload is a
  route header and attributes, the loop over the attributes, entered at \<^verbatim>\<open>RTM_RTA\<close> of the payload
  with \<^verbatim>\<open>RTM_PAYLOAD\<close> bytes, visits the start of each attribute, where its type and its value are.\<close>

theorem netlink_items_visited:
  assumes "items_at (nlmsg_at m) nlmsg_space p msgs"
    and "sint len = int (\<Sum>x \<leftarrow> msgs. nlmsg_space x)"
    and "items_at (attr_at rta_len rta_type m) attr_space (RTM_RTA (NLMSG_DATA q)) attrs"
    and "unat (nlmsg_len m q) = 28 + (\<Sum>x \<leftarrow> attrs. attr_space x)"
    and "unat (nlmsg_len m q) < 2 ^ 31" and "k < length attrs"
  shows "visit_all (NLMSG_OK m) (NLMSG_NEXT m) p len = Some (starts nlmsg_space p msgs) \<and>
    visit_all (RTA_OK m) (RTA_NEXT m) (RTM_RTA (NLMSG_DATA q)) (RTM_PAYLOAD m q) =
      Some (starts attr_space (RTM_RTA (NLMSG_DATA q)) attrs) \<and>
    (let a = starts attr_space (RTM_RTA (NLMSG_DATA q)) attrs ! k in
      rta_type m a = fst (attrs ! k) \<and>
      unat (RTA_PAYLOAD m a) = length (snd (attrs ! k)) \<and> stored m (RTA_DATA a) (snd (attrs ! k)))"
proof -
  have "unat (RTM_PAYLOAD m q) = unat (nlmsg_len m q) - 28"
    using assms(4) unfolding RTM_PAYLOAD_def NLMSG_PAYLOAD_def
    by (subst unat_sub) (simp_all add: NLMSG_SPACE_def NLMSG_LENGTH_def NLMSG_HDRLEN_def
        NLMSG_ALIGN_def word_le_nat_alt)
  then have s: "sint (RTM_PAYLOAD m q) = int (\<Sum>x \<leftarrow> attrs. attr_space x)"
    using assms(4,5) by (subst sint_small) simp_all
  let ?a = "starts attr_space (RTM_RTA (NLMSG_DATA q)) attrs ! k"
  have at: "attr_at rta_len rta_type m ?a (attrs ! k)"
    using items_at_nth [OF assms(3,6)] .
  obtain ty bs where x: "attrs ! k = (ty, bs)" by (cases "attrs ! k")
  have l: "unat (rta_len m ?a) = 4 + length bs" using at by (simp add: attr_at_def x)
  have u: "unat (ucast (rta_len m ?a) :: u64) = 4 + length bs"
    by (simp add: unat_ucast_up l)
  then have "unat (RTA_PAYLOAD m ?a) = length bs"
    unfolding RTA_PAYLOAD_def
    by (subst unat_sub) (simp_all add: RTA_LENGTH_def RTA_ALIGN_def word_le_nat_alt)
  moreover have "RTA_DATA ?a = ?a + 4"
    by (simp add: RTA_DATA_def RTA_LENGTH_def RTA_ALIGN_def)
  ultimately show ?thesis
    using nlmsg.visit_items [OF assms(1,2)] rta.visit_items [OF assms(3) s] at
    by (simp add: Let_def x attr_at_def)
qed

text \<open>A route message of one attribute, laid out at address 0.\<close>

definition sample_route :: "u8 list" where
  "sample_route = [36, 0, 0, 0, 24, 0, 0, 0, 1, 0, 0, 0, 9, 0, 0, 0,
     2, 24, 0, 0, 254, 3, 0, 1, 0, 0, 0, 0, 8, 0, 1, 0, 10, 0, 2, 15]"

definition sample_attrs :: "nl_attribute list" where
  "sample_attrs = [(1, [10, 0, 2, 15])]"

definition sample_memory :: memory where
  "sample_memory = write_bytes 0 sample_route (\<lambda>a. 0)"

lemma sample_byte: "sample_memory k = (if k < 36 then sample_route ! k else 0)"
  by (simp add: sample_memory_def write_bytes_def sample_route_def)

lemma sample_fields:
  "unat (nlmsg_len sample_memory 0) = 36" "nlmsg_type sample_memory 0 = 24"
  "RTM_RTA 16 = 28" "unat (rta_len sample_memory 28) = 8" "rta_type sample_memory 28 = 1"
  "NLMSG_DATA 0 = 16"
  by (simp_all add: nlmsg_len_def nlmsg_type_def rta_len_def rta_type_def load32_def load16_def
      be16_def sample_byte sample_route_def RTM_RTA_def NLMSG_DATA_def NLMSG_HDRLEN_def NLMSG_ALIGN_def)

lemma netlink_items_visited_witness:
  "visit_all (NLMSG_OK sample_memory) (NLMSG_NEXT sample_memory) 0 36 =
     Some (starts nlmsg_space 0 [(24, drop 16 sample_route)]) \<and>
   visit_all (RTA_OK sample_memory) (RTA_NEXT sample_memory) (RTM_RTA (NLMSG_DATA 0))
       (RTM_PAYLOAD sample_memory 0) =
     Some (starts attr_space (RTM_RTA (NLMSG_DATA 0)) sample_attrs) \<and>
   (let a = starts attr_space (RTM_RTA (NLMSG_DATA 0)) sample_attrs ! 0 in
     rta_type sample_memory a = fst (sample_attrs ! 0) \<and>
     unat (RTA_PAYLOAD sample_memory a) = length (snd (sample_attrs ! 0)) \<and>
     stored sample_memory (RTA_DATA a) (snd (sample_attrs ! 0)))"
  by (rule netlink_items_visited)
    (simp_all add: sample_fields nlmsg_at_def nlmsg_space_def attr_at_def attr_space_def
      round_up_def sample_attrs_def, simp_all add: sample_route_def sample_byte)

lemma netlink_walks_stay_inside_witness:
  "\<exists>ps. visit_all (NLMSG_OK (\<lambda>a. 255)) (NLMSG_NEXT (\<lambda>a. 255)) 0 64 = Some ps \<and>
     sorted_wrt (\<lambda>a b. a + unat (nlmsg_len (\<lambda>a. 255) a) \<le> b) ps"
  using netlink_walks_stay_inside [of "\<lambda>a. 255" 0 64] by blast

end
