(* ===== verification/Control_Msg.thy ===== *)
theory Control_Msg
  imports Byte_Memory Item_Walk
begin

text \<open>
  Ancillary data of \<^verbatim>\<open>bits/socket.h\<close>: the macros that lay out control messages and
  \<^verbatim>\<open>__cmsg_nxthdr\<close>, which walks them.  Pointers are 64-bit words here, since the walk adds a length
  read from the buffer to a pointer before it checks anything; \<^verbatim>\<open>NULL\<close> is 0.
\<close>

record msghdr =
  msg_control :: u64
  msg_controllen :: u64

text \<open>\<^verbatim>\<open>struct cmsghdr\<close>: a \<^verbatim>\<open>size_t\<close> length at 0, level at 8, type at 12, data from 16.\<close>

definition cmsg_len :: "memory \<Rightarrow> u64 \<Rightarrow> u64" where
  "cmsg_len m cmsg = load64 m (unat cmsg)"

definition CMSG_DATA :: "u64 \<Rightarrow> u64" where
  "CMSG_DATA cmsg = cmsg + 16"

definition CMSG_FIRSTHDR :: "msghdr \<Rightarrow> u64" where
  "CMSG_FIRSTHDR mhdr = (if msg_controllen mhdr \<ge> 16 then msg_control mhdr else 0)"

definition CMSG_ALIGN :: "u64 \<Rightarrow> u64" where
  "CMSG_ALIGN len = (len + 8 - 1) AND NOT (8 - 1)"

definition CMSG_SPACE :: "u64 \<Rightarrow> u64" where
  "CMSG_SPACE len = CMSG_ALIGN len + CMSG_ALIGN 16"

definition CMSG_LEN :: "u64 \<Rightarrow> u64" where
  "CMSG_LEN len = CMSG_ALIGN 16 + len"

definition cmsg_nxthdr :: "memory \<Rightarrow> msghdr \<Rightarrow> u64 \<Rightarrow> u64" where
  "cmsg_nxthdr m mhdr cmsg =
     (if cmsg_len m cmsg < 16 then 0
      else
        let cmsg = cmsg + CMSG_ALIGN (cmsg_len m cmsg);
            data_end = msg_control mhdr + msg_controllen mhdr
        in if cmsg + 16 > data_end \<or> cmsg + CMSG_ALIGN (cmsg_len m cmsg) > data_end then 0
           else cmsg)"

section \<open>Lengths\<close>

lemma unat_CMSG_ALIGN: "unat x + 7 < 2 ^ 64 \<Longrightarrow> unat (CMSG_ALIGN x) = round_up 8 (unat x)"
  using unat_round_up [of x 3] by (simp add: CMSG_ALIGN_def add.commute [of 7])

text \<open>The space a message takes is its aligned length.\<close>

lemma CMSG_SPACE_LEN:
  assumes "unat n < 2 ^ 63"
  shows "CMSG_SPACE n = CMSG_ALIGN (CMSG_LEN n)"
proof -
  have "unat (CMSG_LEN n) = 16 + unat n"
    using assms unfolding CMSG_LEN_def CMSG_ALIGN_def
    by (subst unat_add_lem [THEN iffD1]) simp_all
  then have "unat (CMSG_ALIGN (CMSG_LEN n)) = 16 + round_up 8 (unat n)"
    using assms by (simp add: unat_CMSG_ALIGN round_up_offset)
  moreover have "unat (CMSG_ALIGN n) = round_up 8 (unat n)" "unat (CMSG_ALIGN 16) = 16"
    using assms by (simp_all add: unat_CMSG_ALIGN) (simp add: round_up_def)
  then have "unat (CMSG_SPACE n) = round_up 8 (unat n) + 16"
    using assms round_up(3) [of 8 "unat n"] unfolding CMSG_SPACE_def
    by (subst unat_add_lem [THEN iffD1]) simp_all
  ultimately show ?thesis by (simp add: word_unat_eq_iff)
qed

section \<open>Walking the messages of a buffer\<close>

type_synonym control_message = "u32 \<times> u32 \<times> u8 list"

definition cmsg_at :: "memory \<Rightarrow> nat \<Rightarrow> control_message \<Rightarrow> bool" where
  "cmsg_at m p x \<longleftrightarrow> (case x of (level, ty, bs) \<Rightarrow>
     unat (load64 m p) = 16 + length bs \<and> load32 m (p + 8) = level \<and> load32 m (p + 12) = ty \<and>
     stored m (p + 16) bs)"

definition cmsg_space :: "control_message \<Rightarrow> nat" where
  "cmsg_space x = round_up 8 (16 + length (snd (snd x)))"

lemma cmsg_space_ge: "16 \<le> cmsg_space x"
  using round_up(2) [of 8 "16 + length (snd (snd x))"] by (simp add: cmsg_space_def)

text \<open>\<^verbatim>\<open>for (c = CMSG_FIRSTHDR(h); c != NULL; c = CMSG_NXTHDR(h, c))\<close>\<close>

definition cmsg_loop :: "memory \<Rightarrow> msghdr \<Rightarrow> u64 \<Rightarrow> nat list option" where
  "cmsg_loop m mhdr p = visit_all (\<lambda>p r. p \<noteq> 0)
     (\<lambda>p r. (unat (cmsg_nxthdr m mhdr (of_nat p)), r)) (unat p) ()"

lemma cmsg_at_len:
  assumes "cmsg_at m (unat p) x" and "cmsg_space x + 16 < 2 ^ 64"
  shows "16 \<le> cmsg_len m p" and "unat (CMSG_ALIGN (cmsg_len m p)) = cmsg_space x"
proof -
  obtain level ty bs where x: "x = (level, ty, bs)" by (cases x)
  have l: "unat (cmsg_len m p) = 16 + length bs"
    using assms(1) by (simp add: cmsg_at_def cmsg_len_def x)
  then show "16 \<le> cmsg_len m p" by (simp add: word_le_nat_alt)
  have "16 + length bs \<le> cmsg_space x"
    using round_up(2) [of 8 "16 + length bs"] by (simp add: cmsg_space_def x)
  then show "unat (CMSG_ALIGN (cmsg_len m p)) = cmsg_space x"
    using assms(2) by (subst unat_CMSG_ALIGN) (simp_all add: l cmsg_space_def x)
qed

lemma cmsg_nxthdr_item:
  assumes "cmsg_at m (unat p) x" and "unat p + cmsg_space x \<le> e" and "e + 16 < 2 ^ 64"
    and "unat (msg_control mhdr + msg_controllen mhdr) = e"
    and "unat p + cmsg_space x = e \<or>
      (\<exists>y. cmsg_at m (unat p + cmsg_space x) y \<and> unat p + cmsg_space x + cmsg_space y \<le> e)"
  shows "unat (cmsg_nxthdr m mhdr p) =
    (if unat p + cmsg_space x = e then 0 else unat p + cmsg_space x)"
proof -
  let ?q = "p + CMSG_ALIGN (cmsg_len m p)"
  note l = cmsg_at_len [OF assms(1)]
  have q: "unat ?q = unat p + cmsg_space x"
    using l assms(2,3) by (subst unat_add_lem [THEN iffD1]) simp_all
  have h: "unat (?q + 16) = unat ?q + 16"
    using q assms(2,3) by (subst unat_add_lem [THEN iffD1]) simp_all
  show ?thesis
  proof (cases "unat p + cmsg_space x = e")
    case True
    then have "?q + 16 > msg_control mhdr + msg_controllen mhdr"
      using h q assms(4) by (simp add: word_less_nat_alt)
    then show ?thesis
      using True l assms(2,3) by (simp add: cmsg_nxthdr_def Let_def)
  next
    case False
    then obtain y where y: "cmsg_at m (unat ?q) y" "unat ?q + cmsg_space y \<le> e"
      using assms(5) q by auto
    have a: "unat (?q + CMSG_ALIGN (cmsg_len m ?q)) = unat ?q + cmsg_space y"
      using cmsg_at_len [OF y(1)] y(2) assms(3) by (subst unat_add_lem [THEN iffD1]) simp_all
    have "\<not> ?q + 16 > msg_control mhdr + msg_controllen mhdr"
      "\<not> ?q + CMSG_ALIGN (cmsg_len m ?q) > msg_control mhdr + msg_controllen mhdr"
      using h a y(2) cmsg_space_ge [of y] assms(4) by (simp_all add: word_less_nat_alt)
    moreover have "\<not> cmsg_len m p < 16"
      using l(1) assms(2,3) by (simp add: not_less)
    ultimately have "cmsg_nxthdr m mhdr p = ?q"
      by (simp only: cmsg_nxthdr_def Let_def if_False disj_not1 simp_thms)
    then show ?thesis using q False by simp
  qed
qed

lemma cmsg_loop_items:
  assumes "items_at (cmsg_at m) cmsg_space (unat p) (x # xs)" and "0 < unat p"
    and "unat p + (\<Sum>x \<leftarrow> x # xs. cmsg_space x) = e" and "e + 16 < 2 ^ 64"
    and "unat (msg_control mhdr + msg_controllen mhdr) = e"
  shows "cmsg_loop m mhdr p = Some (starts cmsg_space (unat p) (x # xs))"
  using assms
proof (induction xs arbitrary: p x)
  case Nil
  have "cmsg_nxthdr m mhdr p = 0"
    using cmsg_nxthdr_item [of m p x e mhdr] Nil by (simp add: unat_eq_0)
  then show ?case
    using Nil.prems(2) unfolding cmsg_loop_def
    by (subst visit_all.simps, subst visit_all.simps) simp
next
  case (Cons y ys)
  let ?q = "cmsg_nxthdr m mhdr p"
  have y: "cmsg_at m (unat p + cmsg_space x) y \<and> unat p + cmsg_space x + cmsg_space y \<le> e"
    using Cons.prems by simp
  have "unat ?q = (if unat p + cmsg_space x = e then 0 else unat p + cmsg_space x)"
  proof (rule cmsg_nxthdr_item)
    show "unat p + cmsg_space x = e \<or>
        (\<exists>y. cmsg_at m (unat p + cmsg_space x) y \<and> unat p + cmsg_space x + cmsg_space y \<le> e)"
      using y by blast
  qed (use Cons.prems in simp_all)
  then have q: "unat ?q = unat p + cmsg_space x"
    using y cmsg_space_ge [of y] by simp
  have "cmsg_loop m mhdr ?q = Some (starts cmsg_space (unat ?q) (y # ys))"
    using Cons.prems q by (intro Cons.IH) simp_all
  then show ?case
    using Cons.prems(2) q unfolding cmsg_loop_def
    by (subst visit_all.simps) simp
qed

section \<open>Properties\<close>

lemma filled_control_visited:
  assumes "items_at (cmsg_at m) cmsg_space (unat (msg_control mhdr)) xs"
    and "unat (msg_controllen mhdr) = (\<Sum>x \<leftarrow> xs. cmsg_space x)" and "0 < unat (msg_control mhdr)"
    and "unat (msg_control mhdr) + unat (msg_controllen mhdr) + 16 < 2 ^ 64"
  shows "cmsg_loop m mhdr (CMSG_FIRSTHDR mhdr) =
    Some (starts cmsg_space (unat (msg_control mhdr)) xs)"
proof (cases xs)
  case Nil
  then have "CMSG_FIRSTHDR mhdr = 0"
    using assms(2) by (simp add: CMSG_FIRSTHDR_def word_le_nat_alt)
  then show ?thesis
    using Nil by (simp add: cmsg_loop_def visit_all.simps)
next
  case (Cons y ys)
  have "16 \<le> unat (msg_controllen mhdr)"
    using assms(2) cmsg_space_ge [of y] Cons by simp
  then have f: "CMSG_FIRSTHDR mhdr = msg_control mhdr"
    by (simp add: CMSG_FIRSTHDR_def word_le_nat_alt)
  have "unat (msg_control mhdr + msg_controllen mhdr) = unat (msg_control mhdr) + unat (msg_controllen mhdr)"
    using assms(4) by (subst unat_add_lem [THEN iffD1]) simp_all
  then show ?thesis
    using assms Cons unfolding f Cons by (intro cmsg_loop_items) simp_all
qed

text \<open>C25: a control buffer filled with messages, each taking the space of its data, not at the null
  address and with room for one more header before the end of the address space, is walked
  message by message: the loop from the first header visits the start of each, in order, and ends
  with \<^verbatim>\<open>NULL\<close> at the end of the buffer.  A buffer shorter than the sixteen bytes of a header,
  whatever it holds, has no first header, and the loop visits nothing; any longer one has its
  first header at its start.  A message whose length is short of a header is followed by none.\<close>

theorem control_messages_visited:
  assumes "items_at (cmsg_at m) cmsg_space (unat (msg_control mhdr)) xs"
    and "unat (msg_controllen mhdr) = (\<Sum>x \<leftarrow> xs. cmsg_space x)" and "0 < unat (msg_control mhdr)"
    and "unat (msg_control mhdr) + unat (msg_controllen mhdr) + 16 < 2 ^ 64"
  shows "cmsg_loop m mhdr (CMSG_FIRSTHDR mhdr) =
    Some (starts cmsg_space (unat (msg_control mhdr)) xs) \<and>
   CMSG_FIRSTHDR h = (if unat (msg_controllen h) < 16 then 0 else msg_control h) \<and>
   (unat (msg_controllen h) < 16 \<longrightarrow> cmsg_loop m' h (CMSG_FIRSTHDR h) = Some []) \<and>
   (unat (cmsg_len m' p) < 16 \<longrightarrow> cmsg_nxthdr m' h p = 0)"
proof -
  have first: "CMSG_FIRSTHDR h = (if unat (msg_controllen h) < 16 then 0 else msg_control h)"
    by (simp add: CMSG_FIRSTHDR_def word_le_nat_alt)
  have "cmsg_loop m' h 0 = Some []" by (simp add: cmsg_loop_def visit_all.simps)
  moreover have "unat (cmsg_len m' p) < 16 \<longrightarrow> cmsg_nxthdr m' h p = 0"
    by (simp add: cmsg_nxthdr_def word_less_nat_alt)
  ultimately show ?thesis using first filled_control_visited [OF assms] by simp
qed

text \<open>C26: the length is aligned before it is compared with anything, and the alignment wraps: a
  header whose length is one of the seven largest \<^verbatim>\<open>size_t\<close> values is followed by itself, and a
  loop over the control messages that reaches it does not return.\<close>

theorem control_message_follows_itself:
  assumes "unat (cmsg_len m p) > 2 ^ 64 - 8" and "p \<noteq> 0"
    and "unat p + 16 \<le> unat (msg_control mhdr + msg_controllen mhdr)"
  shows "cmsg_nxthdr m mhdr p = p \<and> cmsg_loop m mhdr p = None"
proof
  let ?l = "unat (cmsg_len m p)"
  have "unat (cmsg_len m p + 7) = (?l + 7) mod 2 ^ 64"
    by (simp add: unat_word_ariths(1))
  also have "\<dots> = ?l + 7 - 2 ^ 64"
    using assms(1) unsigned_less [of "cmsg_len m p", where 'a = nat] by (simp add: mod_if)
  finally have "unat (cmsg_len m p + 7) < 7"
    using unsigned_less [of "cmsg_len m p", where 'a = nat] by simp
  then have a: "CMSG_ALIGN (cmsg_len m p) = 0"
    using unat_and_not_mask [of "cmsg_len m p + 7" 3]
    by (simp add: CMSG_ALIGN_def mask_eq_exp_minus_1 add.commute unat_eq_0)
  have "unat (p + 16) = unat p + 16"
    using assms(3) unsigned_less [of "msg_control mhdr + msg_controllen mhdr", where 'a = nat]
    by (subst unat_add_lem [THEN iffD1]) simp_all
  then have "\<not> p + 16 > msg_control mhdr + msg_controllen mhdr"
    "\<not> p > msg_control mhdr + msg_controllen mhdr" "\<not> cmsg_len m p < 16"
    using assms by (simp_all add: word_less_nat_alt)
  then show n: "cmsg_nxthdr m mhdr p = p"
    by (simp add: cmsg_nxthdr_def a Let_def)
  show "cmsg_loop m mhdr p = None"
    unfolding cmsg_loop_def using assms(2) n by (intro visit_stuck) (simp_all add: unat_eq_0)
qed

text \<open>One message of four data bytes at address 64.\<close>

definition rights_bytes :: "u8 list" where
  "rights_bytes = [20, 0, 0, 0, 0, 0, 0, 0, 1, 0, 0, 0, 1, 0, 0, 0, 5, 0, 0, 0]"

definition rights_memory :: memory where
  "rights_memory = write_bytes 64 rights_bytes (\<lambda>a. 0)"

lemma rights_byte:
  "rights_memory k = (if 64 \<le> k \<and> k < 84 then rights_bytes ! (k - 64) else 0)"
  by (simp add: rights_memory_def write_bytes_def rights_bytes_def)

lemma control_messages_visited_witness:
  "cmsg_loop rights_memory \<lparr>msg_control = 64, msg_controllen = 24\<rparr>
     (CMSG_FIRSTHDR \<lparr>msg_control = 64, msg_controllen = 24\<rparr>) =
   Some (starts cmsg_space (unat (msg_control \<lparr>msg_control = 64, msg_controllen = 24\<rparr>))
     [(1, 1, [5, 0, 0, 0])]) \<and>
   CMSG_FIRSTHDR \<lparr>msg_control = 64, msg_controllen = 15\<rparr> = 0"
proof -
  have "items_at (cmsg_at rights_memory) cmsg_space
      (unat (msg_control \<lparr>msg_control = 64, msg_controllen = 24\<rparr>)) [(1, 1, [5, 0, 0, 0])]"
    by (simp add: cmsg_at_def cmsg_space_def round_up_def load64_def load32_def load16_def be16_def
        rights_byte rights_bytes_def)
  from control_messages_visited [OF this, of "\<lparr>msg_control = 64, msg_controllen = 15\<rparr>"]
  show ?thesis by (simp add: cmsg_space_def round_up_def)
qed

lemma control_message_follows_itself_witness:
  "cmsg_nxthdr (\<lambda>a. 255) \<lparr>msg_control = 64, msg_controllen = 64\<rparr> 64 = 64 \<and>
   cmsg_loop (\<lambda>a. 255) \<lparr>msg_control = 64, msg_controllen = 64\<rparr> 64 = None"
  by (rule control_message_follows_itself)
    (simp_all add: cmsg_len_def load64_def load32_def load16_def be16_def)

end
