(* ===== verification/Bit_Field.thy ===== *)
theory Bit_Field
  imports Prelude
begin

text \<open>
  Bit fields packed into a wider integer: the two expressions \<^verbatim>\<open>(x >> o) & ~(~0 << s)\<close> and
  \<^verbatim>\<open>x & ~(~(~0 << s) << o) | (v & ~(~0 << s)) << o\<close> that the headers use to read and write one,
  and the contract of such a pair of accessors.
\<close>

section \<open>Reading and writing a field\<close>

definition low_ones :: "nat \<Rightarrow> u64" where
  "low_ones s = NOT (push_bit s (NOT 0))"

definition read_field :: "nat \<Rightarrow> nat \<Rightarrow> u64 \<Rightarrow> u64" where
  "read_field off s x = drop_bit off x AND low_ones s"

definition write_field :: "nat \<Rightarrow> nat \<Rightarrow> u64 \<Rightarrow> u64 \<Rightarrow> u64" where
  "write_field off s v x = x AND NOT (push_bit off (low_ones s)) OR push_bit off (v AND low_ones s)"

lemma low_ones: "low_ones s = mask s"
  by (rule bit_word_eqI) (auto simp: low_ones_def bit_simps)

lemma bit_read_field: "bit (read_field off s x) n \<longleftrightarrow> n < s \<and> bit x (off + n)"
  by (auto simp: read_field_def low_ones bit_simps dest: bit_u64_less)

lemma bit_write_field:
  "n < 64 \<Longrightarrow> bit (write_field off s v x) n \<longleftrightarrow>
    (if off \<le> n \<and> n < off + s then bit v (n - off) else bit x n)"
  by (auto simp: write_field_def low_ones bit_simps dest: bit_u64_less)

lemma read_write_field: "off + s \<le> 64 \<Longrightarrow> read_field off s (write_field off s v x) = v AND mask s"
  by (rule bit_word_eqI) (auto simp: bit_read_field bit_write_field bit_simps)

lemma write_read_field: "write_field off s (read_field off s x) x = x"
  by (rule bit_word_eqI) (auto simp: bit_read_field bit_write_field)

lemma write_write_field: "write_field off s u (write_field off s v x) = write_field off s u x"
  by (rule bit_word_eqI) (auto simp: bit_write_field)

lemma read_write_apart:
  assumes "off + s \<le> off' \<or> off' + s' \<le> off" and "off' + s' \<le> 64"
  shows "read_field off' s' (write_field off s v x) = read_field off' s' x"
  using assms by (intro bit_word_eqI) (auto simp: bit_read_field bit_write_field)

lemma write_write_apart:
  assumes "off + s \<le> off' \<or> off' + s' \<le> off"
  shows "write_field off s u (write_field off' s' v x) = write_field off' s' v (write_field off s u x)"
  using assms by (intro bit_word_eqI) (auto simp: bit_write_field)

section \<open>The contract of a field's accessors\<close>

locale bit_field =
  fixes get :: "'s \<Rightarrow> u64"
    and put :: "u64 \<Rightarrow> 's \<Rightarrow> 's"
    and width :: nat
  assumes get_put: "get (put v s) = v AND mask width"
    and put_get: "put (get s) s = s"
    and put_put: "put u (put v s) = put u s"
begin

lemma get_masked: "get s AND mask width = get s"
  using get_put [of "get s" s] by (simp add: put_get)

lemma get_less: "width < 64 \<Longrightarrow> get s < 2 ^ width"
  using and_mask_less [of width "get s"] by (simp add: get_masked)

lemma get_put_small: "v < 2 ^ width \<Longrightarrow> width < 64 \<Longrightarrow> get (put v s) = v"
  by (simp add: get_put take_bit_less flip: take_bit_eq_mask)

text \<open>Only the low bits of the value written matter.\<close>

lemma put_masked: "put (v AND mask width) s = put v s"
  using put_get [of "put v s"] put_put [of "v AND mask width" v s] by (simp add: get_put)

lemma put_same: "get s = v \<Longrightarrow> put v s = s"
  by (auto simp: put_get)

end

text \<open>Two fields that can be written in either order, each unseen by the other.\<close>

locale apart_fields = f: bit_field get put width + g: bit_field get' put' width'
  for get :: "'s \<Rightarrow> u64" and put width and get' :: "'s \<Rightarrow> u64" and put' width' +
  assumes get_put': "get (put' v s) = get s"
    and put_commute: "put u (put' v s) = put' v (put u s)"
begin

lemma get'_put: "get' (put u s) = get' s"
  using get_put' f.put_get g.put_get put_commute g.get_put
  by (metis g.get_masked)

text \<open>What a copy of both fields carries over.\<close>

lemma copy_both: "get (put u (put' v s)) = u AND mask width" "get' (put u (put' v s)) = v AND mask width'"
  by (simp_all add: f.get_put get'_put g.get_put)

end

text \<open>The two expressions satisfy the contract inside any word of a state.\<close>

lemma bit_field_word:
  assumes "off + s \<le> 64"
    and "\<And>x st. look (store x st) = x" "\<And>st. store (look st) st = st"
    and "\<And>x y st. store x (store y st) = store x st"
  shows "bit_field (\<lambda>st. read_field off s (look st)) (\<lambda>v st. store (write_field off s v (look st)) st) s"
  by unfold_locales (simp_all add: assms read_write_field write_read_field write_write_field)

end
