(* ===== verification/Bcache.thy ===== *)
theory Bcache
  imports Bit_Field Item_Walk
begin

text \<open>
  Keys, pointers and superblock flags of \<^verbatim>\<open>linux/bcache.h\<close>.  A \<^verbatim>\<open>struct bkey\<close> is a run of
  64-bit words, \<^verbatim>\<open>high\<close>, \<^verbatim>\<open>low\<close> and as many pointers as \<^verbatim>\<open>high\<close> says, so the state is a memory of
  such words and a key is the index of its first one.  The accessors the macro \<^verbatim>\<open>BITMASK\<close>
  generates are written out one by one over the two expressions of \<open>Bit_Field\<close>.
\<close>

type_synonym words = "nat \<Rightarrow> u64"

section \<open>Fields of the high word\<close>

definition KEY_PTRS :: "words \<Rightarrow> nat \<Rightarrow> u64" where
  "KEY_PTRS m k = read_field 60 3 (m k)"

definition SET_KEY_PTRS :: "nat \<Rightarrow> u64 \<Rightarrow> words \<Rightarrow> words" where
  "SET_KEY_PTRS k v m = m(k := write_field 60 3 v (m k))"

definition HEADER_SIZE :: "words \<Rightarrow> nat \<Rightarrow> u64" where
  "HEADER_SIZE m k = read_field 58 2 (m k)"

definition SET_HEADER_SIZE :: "nat \<Rightarrow> u64 \<Rightarrow> words \<Rightarrow> words" where
  "SET_HEADER_SIZE k v m = m(k := write_field 58 2 v (m k))"

definition KEY_CSUM :: "words \<Rightarrow> nat \<Rightarrow> u64" where
  "KEY_CSUM m k = read_field 56 2 (m k)"

definition SET_KEY_CSUM :: "nat \<Rightarrow> u64 \<Rightarrow> words \<Rightarrow> words" where
  "SET_KEY_CSUM k v m = m(k := write_field 56 2 v (m k))"

definition KEY_PINNED :: "words \<Rightarrow> nat \<Rightarrow> u64" where
  "KEY_PINNED m k = read_field 55 1 (m k)"

definition SET_KEY_PINNED :: "nat \<Rightarrow> u64 \<Rightarrow> words \<Rightarrow> words" where
  "SET_KEY_PINNED k v m = m(k := write_field 55 1 v (m k))"

definition KEY_DIRTY :: "words \<Rightarrow> nat \<Rightarrow> u64" where
  "KEY_DIRTY m k = read_field 36 1 (m k)"

definition SET_KEY_DIRTY :: "nat \<Rightarrow> u64 \<Rightarrow> words \<Rightarrow> words" where
  "SET_KEY_DIRTY k v m = m(k := write_field 36 1 v (m k))"

definition KEY_SIZE :: "words \<Rightarrow> nat \<Rightarrow> u64" where
  "KEY_SIZE m k = read_field 20 16 (m k)"

definition SET_KEY_SIZE :: "nat \<Rightarrow> u64 \<Rightarrow> words \<Rightarrow> words" where
  "SET_KEY_SIZE k v m = m(k := write_field 20 16 v (m k))"

definition KEY_INODE :: "words \<Rightarrow> nat \<Rightarrow> u64" where
  "KEY_INODE m k = read_field 0 20 (m k)"

definition SET_KEY_INODE :: "nat \<Rightarrow> u64 \<Rightarrow> words \<Rightarrow> words" where
  "SET_KEY_INODE k v m = m(k := write_field 0 20 v (m k))"

definition KEY_OFFSET :: "words \<Rightarrow> nat \<Rightarrow> u64" where
  "KEY_OFFSET m k = m (k + 1)"

definition SET_KEY_OFFSET :: "nat \<Rightarrow> u64 \<Rightarrow> words \<Rightarrow> words" where
  "SET_KEY_OFFSET k v m = m(k + 1 := v)"

section \<open>Keys as values\<close>

text \<open>\<^verbatim>\<open>KEY\<close> builds a key without pointers; it masks neither the size nor the inode.\<close>

definition KEY :: "u64 \<Rightarrow> u64 \<Rightarrow> u64 \<Rightarrow> u64 \<times> u64" where
  "KEY inode offset sz = (push_bit 63 1 OR push_bit 20 sz OR inode, offset)"

definition ZERO_KEY :: "u64 \<times> u64" where
  "ZERO_KEY = KEY 0 0 0"

definition MAX_KEY_INODE :: u64 where
  "MAX_KEY_INODE = NOT (push_bit 20 (NOT 0))"

definition MAX_KEY_OFFSET :: u64 where
  "MAX_KEY_OFFSET = drop_bit 1 (NOT 0)"

definition MAX_KEY :: "u64 \<times> u64" where
  "MAX_KEY = KEY MAX_KEY_INODE MAX_KEY_OFFSET 0"

definition KEY_START :: "words \<Rightarrow> nat \<Rightarrow> u64" where
  "KEY_START m k = KEY_OFFSET m k - KEY_SIZE m k"

definition START_KEY :: "words \<Rightarrow> nat \<Rightarrow> u64 \<times> u64" where
  "START_KEY m k = KEY (KEY_INODE m k) (KEY_START m k) 0"

text \<open>Assigning a key structure writes its two words.\<close>

definition put_key :: "nat \<Rightarrow> u64 \<times> u64 \<Rightarrow> words \<Rightarrow> words" where
  "put_key k key m = m(k := fst key, k + 1 := snd key)"

section \<open>Pointers\<close>

definition PTR_DEV :: "words \<Rightarrow> nat \<Rightarrow> nat \<Rightarrow> u64" where
  "PTR_DEV m k i = read_field 51 12 (m (k + 2 + i))"

definition SET_PTR_DEV :: "nat \<Rightarrow> nat \<Rightarrow> u64 \<Rightarrow> words \<Rightarrow> words" where
  "SET_PTR_DEV k i v m = m(k + 2 + i := write_field 51 12 v (m (k + 2 + i)))"

definition PTR_OFFSET :: "words \<Rightarrow> nat \<Rightarrow> nat \<Rightarrow> u64" where
  "PTR_OFFSET m k i = read_field 8 43 (m (k + 2 + i))"

definition SET_PTR_OFFSET :: "nat \<Rightarrow> nat \<Rightarrow> u64 \<Rightarrow> words \<Rightarrow> words" where
  "SET_PTR_OFFSET k i v m = m(k + 2 + i := write_field 8 43 v (m (k + 2 + i)))"

definition PTR_GEN :: "words \<Rightarrow> nat \<Rightarrow> nat \<Rightarrow> u64" where
  "PTR_GEN m k i = read_field 0 8 (m (k + 2 + i))"

definition SET_PTR_GEN :: "nat \<Rightarrow> nat \<Rightarrow> u64 \<Rightarrow> words \<Rightarrow> words" where
  "SET_PTR_GEN k i v m = m(k + 2 + i := write_field 0 8 v (m (k + 2 + i)))"

definition PTR_CHECK_DEV :: u32 where
  "PTR_CHECK_DEV = push_bit 12 1 - 1"

definition MAKE_PTR :: "u64 \<Rightarrow> u64 \<Rightarrow> u64 \<Rightarrow> u64" where
  "MAKE_PTR gen offset dev = push_bit 51 dev OR push_bit 8 offset OR gen"

section \<open>Sizes, copies and steps\<close>

definition bkey_u64s :: "words \<Rightarrow> nat \<Rightarrow> u64" where
  "bkey_u64s m k = 16 div 8 + KEY_PTRS m k"

definition bkey_bytes :: "words \<Rightarrow> nat \<Rightarrow> u64" where
  "bkey_bytes m k = bkey_u64s m k * 8"

text \<open>\<^verbatim>\<open>memcpy\<close> of whole words between keys that do not overlap.\<close>

definition bkey_copy :: "nat \<Rightarrow> nat \<Rightarrow> words \<Rightarrow> words" where
  "bkey_copy dest src m =
     (\<lambda>a. if dest \<le> a \<and> a < dest + unat (bkey_bytes m src div 8) then m (src + (a - dest)) else m a)"

definition bkey_copy_key :: "nat \<Rightarrow> nat \<Rightarrow> words \<Rightarrow> words" where
  "bkey_copy_key dest src m =
     (let m = SET_KEY_INODE dest (KEY_INODE m src) m
      in SET_KEY_OFFSET dest (KEY_OFFSET m src) m)"

definition bkey_next :: "words \<Rightarrow> nat \<Rightarrow> nat" where
  "bkey_next m k = k + unat (bkey_u64s m k)"

definition bkey_idx :: "nat \<Rightarrow> u32 \<Rightarrow> nat" where
  "bkey_idx k nr_keys = k + unat nr_keys"

section \<open>Superblock\<close>

text \<open>The members the operations use.\<close>

record cache_sb =
  sb_version :: u64
  sb_set_magic :: u64
  sb_flags :: u64

definition SB_IS_BDEV :: "cache_sb \<Rightarrow> bool" where
  "SB_IS_BDEV sb \<longleftrightarrow> sb_version sb = 1 \<or> sb_version sb = 4 \<or> sb_version sb = 6"

definition CACHE_SYNC :: "cache_sb \<Rightarrow> u64" where
  "CACHE_SYNC k = read_field 0 1 (sb_flags k)"

definition SET_CACHE_SYNC :: "u64 \<Rightarrow> cache_sb \<Rightarrow> cache_sb" where
  "SET_CACHE_SYNC v k = k\<lparr>sb_flags := write_field 0 1 v (sb_flags k)\<rparr>"

definition CACHE_DISCARD :: "cache_sb \<Rightarrow> u64" where
  "CACHE_DISCARD k = read_field 1 1 (sb_flags k)"

definition SET_CACHE_DISCARD :: "u64 \<Rightarrow> cache_sb \<Rightarrow> cache_sb" where
  "SET_CACHE_DISCARD v k = k\<lparr>sb_flags := write_field 1 1 v (sb_flags k)\<rparr>"

definition CACHE_REPLACEMENT :: "cache_sb \<Rightarrow> u64" where
  "CACHE_REPLACEMENT k = read_field 2 3 (sb_flags k)"

definition SET_CACHE_REPLACEMENT :: "u64 \<Rightarrow> cache_sb \<Rightarrow> cache_sb" where
  "SET_CACHE_REPLACEMENT v k = k\<lparr>sb_flags := write_field 2 3 v (sb_flags k)\<rparr>"

definition BDEV_CACHE_MODE :: "cache_sb \<Rightarrow> u64" where
  "BDEV_CACHE_MODE k = read_field 0 4 (sb_flags k)"

definition SET_BDEV_CACHE_MODE :: "u64 \<Rightarrow> cache_sb \<Rightarrow> cache_sb" where
  "SET_BDEV_CACHE_MODE v k = k\<lparr>sb_flags := write_field 0 4 v (sb_flags k)\<rparr>"

definition BDEV_STATE :: "cache_sb \<Rightarrow> u64" where
  "BDEV_STATE k = read_field 61 2 (sb_flags k)"

definition SET_BDEV_STATE :: "u64 \<Rightarrow> cache_sb \<Rightarrow> cache_sb" where
  "SET_BDEV_STATE v k = k\<lparr>sb_flags := write_field 61 2 v (sb_flags k)\<rparr>"

text \<open>
  The flags of a \<^verbatim>\<open>struct uuid_entry\<close> are 32 bits: widened by the expressions, narrowed by the
  assignments.
\<close>

definition UUID_FLASH_ONLY :: "u32 \<Rightarrow> u64" where
  "UUID_FLASH_ONLY flags = read_field 0 1 (ucast flags)"

definition SET_UUID_FLASH_ONLY :: "u64 \<Rightarrow> u32 \<Rightarrow> u32" where
  "SET_UUID_FLASH_ONLY v flags = ucast (write_field 0 1 v (ucast flags))"

definition jset_magic :: "cache_sb \<Rightarrow> u64" where
  "jset_magic sb = sb_set_magic sb XOR 0x245235c1a3625032"

definition pset_magic :: "cache_sb \<Rightarrow> u64" where
  "pset_magic sb = sb_set_magic sb XOR 0x6750e15f87337f91"

definition bset_magic :: "cache_sb \<Rightarrow> u64" where
  "bset_magic sb = sb_set_magic sb XOR 0x90135c78b99e07f5"

section \<open>The accessors meet the contract of a field\<close>

interpretation key_ptrs: bit_field "\<lambda>m. KEY_PTRS m k" "SET_KEY_PTRS k" 3 for k
  by unfold_locales (simp_all add: KEY_PTRS_def SET_KEY_PTRS_def read_write_field write_read_field write_write_field)

interpretation header_size: bit_field "\<lambda>m. HEADER_SIZE m k" "SET_HEADER_SIZE k" 2 for k
  by unfold_locales (simp_all add: HEADER_SIZE_def SET_HEADER_SIZE_def read_write_field write_read_field write_write_field)

interpretation key_csum: bit_field "\<lambda>m. KEY_CSUM m k" "SET_KEY_CSUM k" 2 for k
  by unfold_locales (simp_all add: KEY_CSUM_def SET_KEY_CSUM_def read_write_field write_read_field write_write_field)

interpretation key_pinned: bit_field "\<lambda>m. KEY_PINNED m k" "SET_KEY_PINNED k" 1 for k
  by unfold_locales (simp_all add: KEY_PINNED_def SET_KEY_PINNED_def read_write_field write_read_field write_write_field)

interpretation key_dirty: bit_field "\<lambda>m. KEY_DIRTY m k" "SET_KEY_DIRTY k" 1 for k
  by unfold_locales (simp_all add: KEY_DIRTY_def SET_KEY_DIRTY_def read_write_field write_read_field write_write_field)

interpretation key_size: bit_field "\<lambda>m. KEY_SIZE m k" "SET_KEY_SIZE k" 16 for k
  by unfold_locales (simp_all add: KEY_SIZE_def SET_KEY_SIZE_def read_write_field write_read_field write_write_field)

interpretation key_inode: bit_field "\<lambda>m. KEY_INODE m k" "SET_KEY_INODE k" 20 for k
  by unfold_locales (simp_all add: KEY_INODE_def SET_KEY_INODE_def read_write_field write_read_field write_write_field)

interpretation ptr_dev: bit_field "\<lambda>m. PTR_DEV m k i" "SET_PTR_DEV k i" 12 for k i
  by unfold_locales (simp_all add: PTR_DEV_def SET_PTR_DEV_def read_write_field write_read_field write_write_field)

interpretation ptr_offset: bit_field "\<lambda>m. PTR_OFFSET m k i" "SET_PTR_OFFSET k i" 43 for k i
  by unfold_locales (simp_all add: PTR_OFFSET_def SET_PTR_OFFSET_def read_write_field write_read_field write_write_field)

interpretation ptr_gen: bit_field "\<lambda>m. PTR_GEN m k i" "SET_PTR_GEN k i" 8 for k i
  by unfold_locales (simp_all add: PTR_GEN_def SET_PTR_GEN_def read_write_field write_read_field write_write_field)

interpretation cache_sync: bit_field CACHE_SYNC SET_CACHE_SYNC 1
  by unfold_locales (simp_all add: CACHE_SYNC_def SET_CACHE_SYNC_def read_write_field write_read_field write_write_field)

interpretation cache_discard: bit_field CACHE_DISCARD SET_CACHE_DISCARD 1
  by unfold_locales (simp_all add: CACHE_DISCARD_def SET_CACHE_DISCARD_def read_write_field write_read_field write_write_field)

interpretation cache_replacement: bit_field CACHE_REPLACEMENT SET_CACHE_REPLACEMENT 3
  by unfold_locales (simp_all add: CACHE_REPLACEMENT_def SET_CACHE_REPLACEMENT_def read_write_field write_read_field write_write_field)

interpretation bdev_cache_mode: bit_field BDEV_CACHE_MODE SET_BDEV_CACHE_MODE 4
  by unfold_locales (simp_all add: BDEV_CACHE_MODE_def SET_BDEV_CACHE_MODE_def read_write_field write_read_field write_write_field)

interpretation bdev_state: bit_field BDEV_STATE SET_BDEV_STATE 2
  by unfold_locales (simp_all add: BDEV_STATE_def SET_BDEV_STATE_def read_write_field write_read_field write_write_field)

interpretation uuid_flash_only: bit_field UUID_FLASH_ONLY SET_UUID_FLASH_ONLY 1
proof unfold_locales
  have w: "ucast (ucast (write_field 0 1 v (ucast s)) :: u32) = write_field 0 1 v (ucast s)"
    for v and s :: u32
    by (rule bit_word_eqI) (auto simp: bit_simps bit_write_field dest: bit_u32_less)
  have n: "ucast (ucast s :: u64) = s" for s :: u32
    by (rule bit_word_eqI) (auto simp: bit_simps)
  fix u v s
  show "UUID_FLASH_ONLY (SET_UUID_FLASH_ONLY v s) = v AND mask 1"
    unfolding UUID_FLASH_ONLY_def SET_UUID_FLASH_ONLY_def w by (simp add: read_write_field)
  show "SET_UUID_FLASH_ONLY (UUID_FLASH_ONLY s) s = s"
    by (simp add: UUID_FLASH_ONLY_def SET_UUID_FLASH_ONLY_def write_read_field n)
  show "SET_UUID_FLASH_ONLY u (SET_UUID_FLASH_ONLY v s) = SET_UUID_FLASH_ONLY u s"
    unfolding SET_UUID_FLASH_ONLY_def w by (simp add: write_write_field)
qed

text \<open>The two fields a copy of a key's position carries over.\<close>

interpretation inode_offset: apart_fields "\<lambda>m. KEY_INODE m k" "SET_KEY_INODE k" 20
  "\<lambda>m. KEY_SIZE m k" "SET_KEY_SIZE k" 16 for k
  by unfold_locales
    (simp_all add: KEY_INODE_def SET_KEY_INODE_def KEY_SIZE_def SET_KEY_SIZE_def read_write_apart
      write_write_apart [of 0 20 20 16])

section \<open>A key as the header describes it\<close>

text \<open>The fields by name, with where they lie.\<close>

datatype key_field = Ptrs | Header | Csum | Pinned | Dirty | Size | Inode

fun key_get :: "key_field \<Rightarrow> words \<Rightarrow> nat \<Rightarrow> u64" where
  "key_get Ptrs = KEY_PTRS"
| "key_get Header = HEADER_SIZE"
| "key_get Csum = KEY_CSUM"
| "key_get Pinned = KEY_PINNED"
| "key_get Dirty = KEY_DIRTY"
| "key_get Size = KEY_SIZE"
| "key_get Inode = KEY_INODE"

fun key_put :: "key_field \<Rightarrow> nat \<Rightarrow> u64 \<Rightarrow> words \<Rightarrow> words" where
  "key_put Ptrs = SET_KEY_PTRS"
| "key_put Header = SET_HEADER_SIZE"
| "key_put Csum = SET_KEY_CSUM"
| "key_put Pinned = SET_KEY_PINNED"
| "key_put Dirty = SET_KEY_DIRTY"
| "key_put Size = SET_KEY_SIZE"
| "key_put Inode = SET_KEY_INODE"

fun key_place :: "key_field \<Rightarrow> nat \<times> nat" where
  "key_place Ptrs = (60, 3)"
| "key_place Header = (58, 2)"
| "key_place Csum = (56, 2)"
| "key_place Pinned = (55, 1)"
| "key_place Dirty = (36, 1)"
| "key_place Size = (20, 16)"
| "key_place Inode = (0, 20)"

lemma key_get: "key_get f m k = read_field (fst (key_place f)) (snd (key_place f)) (m k)"
  by (cases f) (simp_all add: KEY_PTRS_def HEADER_SIZE_def KEY_CSUM_def KEY_PINNED_def KEY_DIRTY_def
      KEY_SIZE_def KEY_INODE_def)

lemma key_put:
  "key_put f k v m = m(k := write_field (fst (key_place f)) (snd (key_place f)) v (m k))"
  by (cases f) (simp_all add: SET_KEY_PTRS_def SET_HEADER_SIZE_def SET_KEY_CSUM_def
      SET_KEY_PINNED_def SET_KEY_DIRTY_def SET_KEY_SIZE_def SET_KEY_INODE_def)

lemma key_places_apart:
  "f \<noteq> g \<Longrightarrow> fst (key_place f) + snd (key_place f) \<le> fst (key_place g) \<or>
     fst (key_place g) + snd (key_place g) \<le> fst (key_place f)"
  "fst (key_place f) + snd (key_place f) \<le> 63"
  by (cases f; cases g; simp)+

text \<open>C13: the fields of a key's high word are independent.  Writing one stores the low bits of the
  value in it, bit by bit at the field's place, and changes no other bit of the word, so no other field
  and none of the bits that belong to no field, and no other word; and writes to different fields
  can be made in either order.\<close>

theorem key_fields_independent:
  "key_get g (key_put f k v m) k =
     (if f = g then v AND mask (snd (key_place f)) else key_get g m k) \<and>
   (bit (key_put f k v m k) n \<longleftrightarrow>
      (if fst (key_place f) \<le> n \<and> n < fst (key_place f) + snd (key_place f)
       then bit v (n - fst (key_place f)) else bit (m k) n)) \<and>
   (a \<noteq> k \<longrightarrow> key_put f k v m a = m a) \<and>
   (f \<noteq> g \<longrightarrow> key_put f k v (key_put g k u m) = key_put g k u (key_put f k v m))"
proof (intro conjI impI)
  show "key_get g (key_put f k v m) k =
      (if f = g then v AND mask (snd (key_place f)) else key_get g m k)"
    using key_places_apart(1) [of f g] key_places_apart(2) [of g]
    by (auto simp: key_get key_put read_write_field read_write_apart)
  show "bit (key_put f k v m k) n \<longleftrightarrow>
      (if fst (key_place f) \<le> n \<and> n < fst (key_place f) + snd (key_place f)
       then bit v (n - fst (key_place f)) else bit (m k) n)"
  proof (cases "n < 64")
    case False
    then have "\<not> bit w n" for w :: u64 by (auto dest: bit_u64_less)
    with False show ?thesis using key_places_apart(2) [of f] by simp
  qed (simp add: key_put bit_write_field)
  show "key_put f k v (key_put g k u m) = key_put g k u (key_put f k v m)" if "f \<noteq> g"
    using write_write_apart [OF key_places_apart(1) [OF that], of v u "m k"] by (simp add: key_put)
qed (simp add: key_put)

section \<open>Sets of keys\<close>

type_synonym key_value = "u64 \<times> u64 \<times> u64 list"

definition bkey_at :: "words \<Rightarrow> nat \<Rightarrow> key_value \<Rightarrow> bool" where
  "bkey_at m k x \<longleftrightarrow> (case x of (high, low, ptrs) \<Rightarrow>
     m k = high \<and> m (k + 1) = low \<and> (\<forall>i < length ptrs. m (k + 2 + i) = ptrs ! i) \<and>
     unat (read_field 60 3 high) = length ptrs)"

definition key_u64s :: "key_value \<Rightarrow> nat" where
  "key_u64s x = 2 + length (snd (snd x))"

lemma unat_bkey_u64s:
  assumes "bkey_at m k x"
  shows "unat (bkey_u64s m k) = key_u64s x" and "unat (bkey_bytes m k div 8) = key_u64s x"
proof -
  obtain high low ptrs where x: "x = (high, low, ptrs)" by (cases x)
  have p: "unat (KEY_PTRS m k) = length ptrs"
    using assms by (simp add: bkey_at_def KEY_PTRS_def x)
  have "KEY_PTRS m k < 2 ^ 3" by (rule key_ptrs.get_less) simp
  then have b: "unat (KEY_PTRS m k) < 8" by (simp add: word_less_nat_alt)
  show u: "unat (bkey_u64s m k) = key_u64s x"
    unfolding bkey_u64s_def using b p
    by (subst unat_add_lem [THEN iffD1]) (simp_all add: key_u64s_def x)
  then have "unat (bkey_bytes m k) = key_u64s x * 8"
    unfolding bkey_bytes_def using b p
    by (subst unat_mult_lem [THEN iffD1]) (simp_all add: key_u64s_def x)
  then show "unat (bkey_bytes m k div 8) = key_u64s x"
    by (simp add: unat_div)
qed

interpretation bkeys: item_cursor bkey_next bkey_at key_u64s
  by unfold_locales (simp add: bkey_next_def unat_bkey_u64s)

text \<open>the keys of a set are walked key by key: after \<^verbatim>\<open>k\<close> steps of \<^verbatim>\<open>bkey_next\<close> from its start
  the cursor is on key \<^verbatim>\<open>k\<close>, whose pointer count, offset, inode, size and pointers are the ones
  stored, and after as many steps as there are keys it is at the index given by the set's length.\<close>

theorem bkey_set_walk:
  assumes "items_at (bkey_at m) key_u64s start xs" and "k < length xs"
    and "unat keys = (\<Sum>x \<leftarrow> xs. key_u64s x)"
  shows "(bkey_next m ^^ length xs) start = bkey_idx start keys \<and>
    (let c = (bkey_next m ^^ k) start; (high, low, ptrs) = xs ! k in
      unat (KEY_PTRS m c) = length ptrs \<and> KEY_OFFSET m c = low \<and>
      KEY_INODE m c = high AND mask 20 \<and> KEY_SIZE m c = drop_bit 20 high AND mask 16 \<and>
      (\<forall>i < length ptrs. PTR_OFFSET m c i = drop_bit 8 (ptrs ! i) AND mask 43))"
proof
  show "(bkey_next m ^^ length xs) start = bkey_idx start keys"
    using bkeys.cursor_after [OF assms(1), of "length xs"] assms(3) by (simp add: bkey_idx_def)
  have "bkey_at m ((bkey_next m ^^ k) start) (xs ! k)"
    by (rule bkeys.cursor_on_item [OF assms(1,2)])
  then show "let c = (bkey_next m ^^ k) start; (high, low, ptrs) = xs ! k in
      unat (KEY_PTRS m c) = length ptrs \<and> KEY_OFFSET m c = low \<and>
      KEY_INODE m c = high AND mask 20 \<and> KEY_SIZE m c = drop_bit 20 high AND mask 16 \<and>
      (\<forall>i < length ptrs. PTR_OFFSET m c i = drop_bit 8 (ptrs ! i) AND mask 43)"
    by (auto simp: Let_def bkey_at_def KEY_PTRS_def KEY_OFFSET_def KEY_INODE_def KEY_SIZE_def
        PTR_OFFSET_def read_field_def low_ones split: prod.split)
qed

text \<open>Two keys, the first with one pointer.\<close>

definition sample_words :: words where
  "sample_words a = (if a = 0 then 0x1000000000200005 else if a = 1 then 7 else if a = 2 then 0x900 else
     if a = 3 then 5 else 8)"

definition sample_keys :: "key_value list" where
  "sample_keys = [(0x1000000000200005, 7, [0x900]), (5, 8, [])]"

lemma bkey_set_walk_witness:
  "(bkey_next sample_words ^^ length sample_keys) 0 = bkey_idx 0 5 \<and>
   (let c = (bkey_next sample_words ^^ 1) 0; (high, low, ptrs) = sample_keys ! 1 in
      unat (KEY_PTRS sample_words c) = length ptrs \<and> KEY_OFFSET sample_words c = low \<and>
      KEY_INODE sample_words c = high AND mask 20 \<and>
      KEY_SIZE sample_words c = drop_bit 20 high AND mask 16 \<and>
      (\<forall>i < length ptrs. PTR_OFFSET sample_words c i = drop_bit 8 (ptrs ! i) AND mask 43))"
  by (rule bkey_set_walk)
    (simp_all add: sample_keys_def sample_words_def bkey_at_def key_u64s_def read_field_def low_ones mask_eq_exp_minus_1)

section \<open>Building and copying keys\<close>

lemma bit_key_high:
  assumes "inode < 2 ^ 20" and "sz < 2 ^ 16"
  shows "bit (fst (KEY inode offset sz)) n \<longleftrightarrow>
    n = 63 \<or> (20 \<le> n \<and> n < 36 \<and> bit sz (n - 20)) \<or> (n < 20 \<and> bit inode n)"
proof -
  define top :: u64 where "top = push_bit 63 1"
  have top: "bit top n \<longleftrightarrow> n = 63"
    unfolding top_def by (auto simp only: bit_push_bit_iff bit_1_iff) simp_all
  have i: "bit inode k \<Longrightarrow> k < 20" and s: "bit sz k \<Longrightarrow> k < 16" for k
    using less_not_bit [OF assms(1), of k] less_not_bit [OF assms(2), of k] by (auto simp: not_less [symmetric])
  have s': "bit sz (n - 20) \<Longrightarrow> n < 36" using s [of "n - 20"] by linarith
  show ?thesis
    unfolding KEY_def top_def [symmetric] using i s'
    by (auto simp: bit_or_iff top bit_push_bit_iff)
qed

lemma key_high:
  assumes "inode < 2 ^ 20" and "sz < 2 ^ 16"
  shows "read_field 0 20 (fst (KEY inode offset sz)) = inode"
    and "read_field 20 16 (fst (KEY inode offset sz)) = sz"
    and "read_field 60 3 (fst (KEY inode offset sz)) = 0"
proof -
  have i: "bit inode k \<Longrightarrow> k < 20" and s: "bit sz k \<Longrightarrow> k < 16" for k
    using less_not_bit [OF assms(1), of k] less_not_bit [OF assms(2), of k] by (auto simp: not_less [symmetric])
  note b = bit_read_field bit_key_high [OF assms]
  show "read_field 0 20 (fst (KEY inode offset sz)) = inode"
    by (rule bit_word_eqI) (auto simp: b dest: i)
  show "read_field 20 16 (fst (KEY inode offset sz)) = sz"
    by (rule bit_word_eqI) (auto simp: b dest: s)
  show "read_field 60 3 (fst (KEY inode offset sz)) = 0"
    by (rule bit_word_eqI) (auto simp: b)
qed

text \<open>A key built with \<^verbatim>\<open>KEY\<close> from an inode of 20 bits and a size of 16 bits reads back as it was
  built, without pointers; the key of its start has the same inode, size zero and the offset less
  the size; \<^verbatim>\<open>bkey_copy\<close> reproduces a key and all its pointers; and \<^verbatim>\<open>bkey_copy_key\<close> carries over
  inode and offset only.\<close>

theorem bkey_build_and_copy:
  assumes "inode < 2 ^ 20" and "sz < 2 ^ 16" and "bkey_at m src x"
    and "dest + key_u64s x \<le> src \<or> src + key_u64s x \<le> dest"
  shows "(let m' = put_key k (KEY inode offset sz) m in
      KEY_INODE m' k = inode \<and> KEY_SIZE m' k = sz \<and> KEY_OFFSET m' k = offset \<and> KEY_PTRS m' k = 0 \<and>
      START_KEY m' k = KEY inode (offset - sz) 0) \<and>
    bkey_at (bkey_copy dest src m) dest x \<and>
    (let m' = bkey_copy_key dest src m in
      KEY_INODE m' dest = KEY_INODE m src \<and> KEY_OFFSET m' dest = KEY_OFFSET m src \<and>
      KEY_SIZE m' dest = KEY_SIZE m dest \<and> KEY_PTRS m' dest = KEY_PTRS m dest)"
proof (intro conjI)
  show "let m' = put_key k (KEY inode offset sz) m in
      KEY_INODE m' k = inode \<and> KEY_SIZE m' k = sz \<and> KEY_OFFSET m' k = offset \<and> KEY_PTRS m' k = 0 \<and>
      START_KEY m' k = KEY inode (offset - sz) 0"
    using key_high [OF assms(1,2), of offset]
    by (simp add: Let_def put_key_def KEY_INODE_def KEY_SIZE_def KEY_OFFSET_def KEY_PTRS_def
        START_KEY_def KEY_START_def) (simp add: KEY_def)
  show "bkey_at (bkey_copy dest src m) dest x"
    using assms(3) unat_bkey_u64s(2) [OF assms(3)]
    by (auto simp: bkey_at_def bkey_copy_def key_u64s_def)
  have "KEY_OFFSET m src = m (src + 1)" by (simp add: KEY_OFFSET_def)
  then show "let m' = bkey_copy_key dest src m in
      KEY_INODE m' dest = KEY_INODE m src \<and> KEY_OFFSET m' dest = KEY_OFFSET m src \<and>
      KEY_SIZE m' dest = KEY_SIZE m dest \<and> KEY_PTRS m' dest = KEY_PTRS m dest"
    using assms(4) key_inode.get_masked [of m src]
    by (auto simp: Let_def bkey_copy_key_def key_u64s_def SET_KEY_INODE_def SET_KEY_OFFSET_def
        KEY_INODE_def KEY_OFFSET_def KEY_SIZE_def KEY_PTRS_def read_write_field read_write_apart)
qed

lemma bkey_build_and_copy_witness:
  "(let m' = put_key 8 (KEY 5 100 40) sample_words in
      KEY_INODE m' 8 = 5 \<and> KEY_SIZE m' 8 = 40 \<and> KEY_OFFSET m' 8 = 100 \<and> KEY_PTRS m' 8 = 0 \<and>
      START_KEY m' 8 = KEY 5 (100 - 40) 0) \<and>
    bkey_at (bkey_copy 9 0 sample_words) 9 (sample_keys ! 0) \<and>
    (let m' = bkey_copy_key 9 0 sample_words in
      KEY_INODE m' 9 = KEY_INODE sample_words 0 \<and> KEY_OFFSET m' 9 = KEY_OFFSET sample_words 0 \<and>
      KEY_SIZE m' 9 = KEY_SIZE sample_words 9 \<and> KEY_PTRS m' 9 = KEY_PTRS sample_words 9)"
  by (rule bkey_build_and_copy)
    (simp_all add: sample_keys_def sample_words_def bkey_at_def key_u64s_def read_field_def low_ones mask_eq_exp_minus_1)

lemma key_fields_independent_witness:
  "key_get Size (key_put Dirty 8 1 (\<lambda>a. 0)) 8 = key_get Size (\<lambda>a. 0) 8 \<and>
   \<not> bit (key_put Dirty 8 1 (\<lambda>a. 0) 8) 50 \<and> key_put Dirty 8 1 (\<lambda>a. 0) 9 = 0 \<and>
   key_put Dirty 8 1 (key_put Size 8 5 (\<lambda>a. 0)) = key_put Size 8 5 (key_put Dirty 8 1 (\<lambda>a. 0))"
  using key_fields_independent [of Size Dirty 8 1 "\<lambda>a. 0" 50 9 5] by simp

end
