(* ===== verification/Rule_Blob.thy ===== *)
theory Rule_Blob
  imports Byte_Memory Item_Walk
begin

text \<open>
  Rule tables of the packet filters (\<^verbatim>\<open>linux/netfilter/x_tables.h\<close>, the IPv4, IPv6 and ARP tables
  on top of it, and \<^verbatim>\<open>linux/netfilter_bridge/ebtables.h\<close>): entries one after another in a blob,
  each with its matches, watchers and target, and the macros that call a function on every one of
  them.  The function called is a parameter; it may change the memory and a state of its own, and
  returns 0 to continue.  A C \<^verbatim>\<open>int\<close> is its 32-bit pattern.
\<close>

section \<open>Structures\<close>

text \<open>An entry type, with the offsets of the members the macros use on this target.\<close>

record entry_type =
  type_size :: u32
  target_at :: nat
  next_at :: nat

definition ipt_entry :: entry_type where
  "ipt_entry = \<lparr>type_size = 112, target_at = 88, next_at = 90\<rparr>"

definition ip6t_entry :: entry_type where
  "ip6t_entry = \<lparr>type_size = 168, target_at = 140, next_at = 142\<rparr>"

definition arpt_entry :: entry_type where
  "arpt_entry = \<lparr>type_size = 192, target_at = 164, next_at = 166\<rparr>"

definition target_offset :: "entry_type \<Rightarrow> memory \<Rightarrow> nat \<Rightarrow> u16" where
  "target_offset t m e = load16 m (e + target_at t)"

definition next_offset :: "entry_type \<Rightarrow> memory \<Rightarrow> nat \<Rightarrow> u16" where
  "next_offset t m e = load16 m (e + next_at t)"

definition xt_match_size :: "memory \<Rightarrow> nat \<Rightarrow> u16" where
  "xt_match_size m p = load16 m p"

definition XT_ALIGN :: "u64 \<Rightarrow> u64" where
  "XT_ALIGN s = (s + (8 - 1)) AND NOT (8 - 1)"

definition ipt_get_target :: "memory \<Rightarrow> nat \<Rightarrow> nat" where
  "ipt_get_target m e = e + unat (target_offset ipt_entry m e)"

definition ip6t_get_target :: "memory \<Rightarrow> nat \<Rightarrow> nat" where
  "ip6t_get_target m e = e + unat (target_offset ip6t_entry m e)"

definition arpt_get_target :: "memory \<Rightarrow> nat \<Rightarrow> nat" where
  "arpt_get_target m e = e + unat (target_offset arpt_entry m e)"

text \<open>The bridge tables: \<^verbatim>\<open>struct ebt_entry\<close> is 112 bytes, a match or watcher header 40,
  \<^verbatim>\<open>struct ebt_entries\<close> 48.\<close>

definition ebt_bitmask :: "memory \<Rightarrow> nat \<Rightarrow> u32" where
  "ebt_bitmask m e = load32 m e"

definition watchers_offset :: "memory \<Rightarrow> nat \<Rightarrow> u32" where
  "watchers_offset m e = load32 m (e + 100)"

definition ebt_target_offset :: "memory \<Rightarrow> nat \<Rightarrow> u32" where
  "ebt_target_offset m e = load32 m (e + 104)"

definition ebt_next_offset :: "memory \<Rightarrow> nat \<Rightarrow> u32" where
  "ebt_next_offset m e = load32 m (e + 108)"

definition ebt_match_size :: "memory \<Rightarrow> nat \<Rightarrow> u32" where
  "ebt_match_size m p = load32 m (p + 32)"

definition ebt_watcher_size :: "memory \<Rightarrow> nat \<Rightarrow> u32" where
  "ebt_watcher_size m p = load32 m (p + 32)"

definition ebt_get_target :: "memory \<Rightarrow> nat \<Rightarrow> nat" where
  "ebt_get_target m e = e + unat (ebt_target_offset m e)"

section \<open>Iteration\<close>

text \<open>
  The loop the macros share: while the 32-bit offset is below the limit, call the function on the
  item there, stop on a nonzero result, and step by what the item states.  It returns the result,
  the offset at which it stopped and the state; not returning is \<open>None\<close>.
\<close>

partial_function (option) iterate_loop ::
    "('s \<Rightarrow> u32) \<Rightarrow> ('s \<Rightarrow> nat \<Rightarrow> u32) \<Rightarrow> (nat \<Rightarrow> 's \<Rightarrow> u32 \<times> 's) \<Rightarrow> nat \<Rightarrow> u32 \<Rightarrow> 's \<Rightarrow> (u32 \<times> u32 \<times> 's) option" where
  "iterate_loop limit step fn base i s =
     (if i < limit s
      then (let p = base + unat i; (ret, s') = fn p s
            in if ret \<noteq> 0 then Some (ret, i, s')
               else iterate_loop limit step fn base (i + step s' p) s')
      else Some (0, i, s))"

type_synonym 'w rule_fn = "nat \<Rightarrow> memory \<times> 'w \<Rightarrow> u32 \<times> memory \<times> 'w"

definition XT_MATCH_ITERATE :: "entry_type \<Rightarrow> nat \<Rightarrow> 'w rule_fn \<Rightarrow> memory \<times> 'w \<Rightarrow> (u32 \<times> memory \<times> 'w) option" where
  "XT_MATCH_ITERATE t e fn s =
     map_option (\<lambda>(ret, i, s). (ret, s))
       (iterate_loop (\<lambda>s. ucast (target_offset t (fst s) e)) (\<lambda>s p. ucast (xt_match_size (fst s) p))
          fn e (type_size t) s)"

text \<open>The second counter, of entries, is kept beside the state.\<close>

definition XT_ENTRY_ITERATE_CONTINUE ::
    "entry_type \<Rightarrow> nat \<Rightarrow> u32 \<Rightarrow> u32 \<Rightarrow> 'w rule_fn \<Rightarrow> memory \<times> 'w \<Rightarrow> (u32 \<times> memory \<times> 'w) option" where
  "XT_ENTRY_ITERATE_CONTINUE t entries sz n fn s =
     map_option (\<lambda>(ret, i, k, s). (ret, s))
       (iterate_loop (\<lambda>s. sz) (\<lambda>(k, s) p. ucast (next_offset t (fst s) p))
          (\<lambda>p (k, s). if k < n then (0, k + 1, s) else (let (ret, s') = fn p s in (ret, k + 1, s')))
          entries 0 (0 :: u32, s))"

definition XT_ENTRY_ITERATE :: "entry_type \<Rightarrow> nat \<Rightarrow> u32 \<Rightarrow> 'w rule_fn \<Rightarrow> memory \<times> 'w \<Rightarrow> (u32 \<times> memory \<times> 'w) option" where
  "XT_ENTRY_ITERATE t entries sz fn s = XT_ENTRY_ITERATE_CONTINUE t entries sz 0 fn s"

definition IPT_MATCH_ITERATE :: "nat \<Rightarrow> 'w rule_fn \<Rightarrow> memory \<times> 'w \<Rightarrow> (u32 \<times> memory \<times> 'w) option" where
  "IPT_MATCH_ITERATE e fn s = XT_MATCH_ITERATE ipt_entry e fn s"

definition IPT_ENTRY_ITERATE :: "nat \<Rightarrow> u32 \<Rightarrow> 'w rule_fn \<Rightarrow> memory \<times> 'w \<Rightarrow> (u32 \<times> memory \<times> 'w) option" where
  "IPT_ENTRY_ITERATE entries sz fn s = XT_ENTRY_ITERATE ipt_entry entries sz fn s"

definition IP6T_MATCH_ITERATE :: "nat \<Rightarrow> 'w rule_fn \<Rightarrow> memory \<times> 'w \<Rightarrow> (u32 \<times> memory \<times> 'w) option" where
  "IP6T_MATCH_ITERATE e fn s = XT_MATCH_ITERATE ip6t_entry e fn s"

definition IP6T_ENTRY_ITERATE :: "nat \<Rightarrow> u32 \<Rightarrow> 'w rule_fn \<Rightarrow> memory \<times> 'w \<Rightarrow> (u32 \<times> memory \<times> 'w) option" where
  "IP6T_ENTRY_ITERATE entries sz fn s = XT_ENTRY_ITERATE ip6t_entry entries sz fn s"

definition ARPT_ENTRY_ITERATE :: "nat \<Rightarrow> u32 \<Rightarrow> 'w rule_fn \<Rightarrow> memory \<times> 'w \<Rightarrow> (u32 \<times> memory \<times> 'w) option" where
  "ARPT_ENTRY_ITERATE entries sz fn s = XT_ENTRY_ITERATE arpt_entry entries sz fn s"

text \<open>The loop headers for a body that leaves the rules alone: the places it is run at.\<close>

definition xt_entry_foreach :: "entry_type \<Rightarrow> memory \<Rightarrow> nat \<Rightarrow> nat \<Rightarrow> nat list option" where
  "xt_entry_foreach t m ehead esize =
     visit_all (\<lambda>pos e. pos < e) (\<lambda>pos e. (pos + unat (next_offset t m pos), e)) ehead (ehead + esize)"

definition xt_ematch_foreach :: "entry_type \<Rightarrow> memory \<Rightarrow> nat \<Rightarrow> nat list option" where
  "xt_ematch_foreach t m entry =
     visit_all (\<lambda>pos e. pos < e) (\<lambda>pos e. (pos + unat (xt_match_size m pos), e))
       (entry + unat (type_size t)) (entry + unat (target_offset t m entry))"

text \<open>The bridge macros check afterwards that the items ended where they had to.\<close>

definition EINVAL :: u32 where
  "EINVAL = 22"

definition check_end :: "('s \<Rightarrow> u32) \<Rightarrow> u32 \<times> u32 \<times> 's \<Rightarrow> u32 \<times> 's" where
  "check_end limit = (\<lambda>(ret, i, s). if ret = 0 then (if i \<noteq> limit s then (- EINVAL, s) else (ret, s)) else (ret, s))"

definition EBT_MATCH_ITERATE :: "nat \<Rightarrow> 'w rule_fn \<Rightarrow> memory \<times> 'w \<Rightarrow> (u32 \<times> memory \<times> 'w) option" where
  "EBT_MATCH_ITERATE e fn s =
     map_option (check_end (\<lambda>s. watchers_offset (fst s) e))
       (iterate_loop (\<lambda>s. watchers_offset (fst s) e) (\<lambda>s p. ebt_match_size (fst s) p + 40) fn e 112 s)"

definition EBT_WATCHER_ITERATE :: "nat \<Rightarrow> 'w rule_fn \<Rightarrow> memory \<times> 'w \<Rightarrow> (u32 \<times> memory \<times> 'w) option" where
  "EBT_WATCHER_ITERATE e fn s =
     map_option (check_end (\<lambda>s. ebt_target_offset (fst s) e))
       (iterate_loop (\<lambda>s. ebt_target_offset (fst s) e) (\<lambda>s p. ebt_watcher_size (fst s) p + 40) fn e
          (watchers_offset (fst s) e) s)"

definition EBT_ENTRY_ITERATE :: "nat \<Rightarrow> u32 \<Rightarrow> 'w rule_fn \<Rightarrow> memory \<times> 'w \<Rightarrow> (u32 \<times> memory \<times> 'w) option" where
  "EBT_ENTRY_ITERATE entries sz fn s =
     map_option (check_end (\<lambda>s. sz))
       (iterate_loop (\<lambda>s. sz)
          (\<lambda>s p. if ebt_bitmask (fst s) p \<noteq> 0 then ebt_next_offset (fst s) p else 48) fn entries 0 s)"

section \<open>Chains of items\<close>

text \<open>What a macro should compute: call the function on each place, stop on a nonzero result.\<close>

fun run_until :: "(nat \<Rightarrow> 's \<Rightarrow> u32 \<times> 's) \<Rightarrow> nat list \<Rightarrow> 's \<Rightarrow> u32 \<times> 's" where
  "run_until fn [] s = (0, s)"
| "run_until fn (p # ps) s = (let (ret, s') = fn p s in if ret \<noteq> 0 then (ret, s') else run_until fn ps s')"

text \<open>
  The contract of a chain: the step the loop takes from an item is its size.  The function called
  is one that leaves the memory, and so the rules, alone.
\<close>

locale rule_chain =
  fixes step :: "memory \<Rightarrow> nat \<Rightarrow> u32"
    and item_at :: "memory \<Rightarrow> nat \<Rightarrow> 'i \<Rightarrow> bool"
    and sz :: "'i \<Rightarrow> nat"
  assumes step_item: "item_at m p x \<Longrightarrow> unat (step m p) = sz x"
begin

lemma iterate_chain:
  assumes "items_at (item_at (mem s)) sz (base + unat i) xs"
    and "\<forall>k < length xs. unat i + (\<Sum>x \<leftarrow> take k xs. sz x) < unat (limit (mem s))"
    and "unat (limit (mem s)) \<le> unat i + (\<Sum>x \<leftarrow> xs. sz x)"
    and "unat i + (\<Sum>x \<leftarrow> xs. sz x) < 2 ^ 32"
    and keeps: "\<And>p s. mem (snd (fn p s)) = mem s"
  shows "\<exists>j. iterate_loop (\<lambda>s. limit (mem s)) (\<lambda>s. step (mem s)) fn base i s =
      Some (case run_until fn (starts sz (base + unat i) xs) s of (ret, s') \<Rightarrow> (ret, j, s')) \<and>
    (fst (run_until fn (starts sz (base + unat i) xs) s) = 0 \<longrightarrow>
       unat j = unat i + (\<Sum>x \<leftarrow> xs. sz x))"
  using assms(1-4)
proof (induction xs arbitrary: i s)
  case Nil
  then show ?case by (subst iterate_loop.simps) (auto simp: word_less_nat_alt)
next
  case (Cons x xs)
  have i: "i < limit (mem s)"
    using Cons.prems(2) by (force simp: word_less_nat_alt)
  obtain ret s' where f: "fn (base + unat i) s = (ret, s')" by fastforce
  have m: "mem s' = mem s" using keeps [of "base + unat i" s] f by simp
  show ?case
  proof (cases "ret = 0")
    case True
    define j where "j = i + step (mem s') (base + unat i)"
    have st: "unat (step (mem s') (base + unat i)) = sz x"
      using Cons.prems(1) step_item m by simp
    have j: "unat j = unat i + sz x"
      unfolding j_def using st Cons.prems(4) by (subst unat_add_lem [THEN iffD1]) simp_all
    have bj: "base + unat j = base + unat i + sz x" by (simp add: j)
    have "\<exists>k. iterate_loop (\<lambda>s. limit (mem s)) (\<lambda>s. step (mem s)) fn base j s' =
        Some (case run_until fn (starts sz (base + unat j) xs) s' of (ret, s') \<Rightarrow> (ret, k, s')) \<and>
      (fst (run_until fn (starts sz (base + unat j) xs) s') = 0 \<longrightarrow>
         unat k = unat j + (\<Sum>x \<leftarrow> xs. sz x))"
    proof (rule Cons.IH)
      show "items_at (item_at (mem s')) sz (base + unat j) xs"
        using Cons.prems(1) by (simp add: bj m)
      show "\<forall>k < length xs. unat j + (\<Sum>x \<leftarrow> take k xs. sz x) < unat (limit (mem s'))"
      proof (intro allI impI)
        fix k assume "k < length xs"
        then show "unat j + (\<Sum>x \<leftarrow> take k xs. sz x) < unat (limit (mem s'))"
          using Cons.prems(2) [rule_format, of "Suc k"] by (simp add: j m)
      qed
    qed (use Cons.prems(3,4) in \<open>simp_all add: j m\<close>)
    then obtain k where k: "iterate_loop (\<lambda>s. limit (mem s)) (\<lambda>s. step (mem s)) fn base j s' =
        Some (case run_until fn (starts sz (base + unat j) xs) s' of (ret, s') \<Rightarrow> (ret, k, s'))"
      "fst (run_until fn (starts sz (base + unat j) xs) s') = 0 \<longrightarrow> unat k = unat j + (\<Sum>x \<leftarrow> xs. sz x)"
      by blast
    have "iterate_loop (\<lambda>s. limit (mem s)) (\<lambda>s. step (mem s)) fn base i s =
        iterate_loop (\<lambda>s. limit (mem s)) (\<lambda>s. step (mem s)) fn base j s'"
      using i f True unfolding j_def by (subst iterate_loop.simps) (simp add: Let_def)
    moreover have "run_until fn (starts sz (base + unat i) (x # xs)) s =
        run_until fn (starts sz (base + unat j) xs) s'"
      using f True by (simp add: Let_def bj)
    ultimately show ?thesis
      using k by (intro exI [of _ k]) (simp add: j)
  next
    case False
    then show ?thesis
      using i f by (subst iterate_loop.simps) (simp add: Let_def)
  qed
qed

text \<open>With the check of the bridge macros behind the loop.\<close>

lemma checked_chain:
  assumes items: "items_at (item_at m) sz (base + unat i) xs"
    and covers: "\<forall>k < length xs. unat i + (\<Sum>x \<leftarrow> take k xs. sz x) < unat (limit m)"
      "unat (limit m) \<le> unat i + (\<Sum>x \<leftarrow> xs. sz x)" "unat i + (\<Sum>x \<leftarrow> xs. sz x) < 2 ^ 32"
    and keeps: "\<And>p s. fst (snd (fn p s)) = fst s"
  shows "map_option (check_end (\<lambda>s. limit (fst s)))
      (iterate_loop (\<lambda>s. limit (fst s)) (\<lambda>s. step (fst s)) fn base i (m, w)) =
    Some (case run_until fn (starts sz (base + unat i) xs) (m, w) of (ret, s) \<Rightarrow>
      (if ret = 0 \<and> unat i + (\<Sum>x \<leftarrow> xs. sz x) \<noteq> unat (limit m) then - EINVAL else ret, s))"
proof -
  have keep_run: "fst (snd (run_until fn ps s)) = fst s" for ps s
  proof (induction ps arbitrary: s)
    case (Cons p ps)
    then show ?case using keeps [of p s] by (cases "fn p s") (simp add: Let_def)
  qed simp
  obtain j where j: "iterate_loop (\<lambda>s. limit (fst s)) (\<lambda>s. step (fst s)) fn base i (m, w) =
      Some (case run_until fn (starts sz (base + unat i) xs) (m, w) of (ret, s') \<Rightarrow> (ret, j, s'))"
    "fst (run_until fn (starts sz (base + unat i) xs) (m, w)) = 0 \<longrightarrow>
       unat j = unat i + (\<Sum>x \<leftarrow> xs. sz x)"
    using iterate_chain [of fst "(m, w)" base i xs limit fn] items covers keeps by auto
  obtain ret m' w' where r: "run_until fn (starts sz (base + unat i) xs) (m, w) = (ret, m', w')"
    by (metis prod.exhaust)
  have "m' = m" using keep_run [of "starts sz (base + unat i) xs" "(m, w)"] r by simp
  then show ?thesis using j r by (auto simp: check_end_def word_unat_eq_iff)
qed

end

text \<open>An item of size zero: the loop does not return unless the function stops it.\<close>

lemma iterate_loop_moves:
  assumes "iterate_loop limit step fn base i s = Some y"
  shows "\<not> (i < limit s \<and> fn (base + unat i) s = (0, s) \<and> step s (base + unat i) = 0)"
  using assms
  by (rule iterate_loop.raw_induct [rotated]) (auto simp: Let_def split: if_splits)

lemma iterate_stuck:
  assumes "i < limit s" and "fn (base + unat i) s = (0, s)" and "step s (base + unat i) = 0"
  shows "iterate_loop limit step fn base i s = None"
  using iterate_loop_moves [of limit step fn base i s] assms by (cases "iterate_loop limit step fn base i s") auto

section \<open>The tables' items\<close>

text \<open>Items are given by their bytes, of which the size member is one part.\<close>

definition xt_match_at :: "memory \<Rightarrow> nat \<Rightarrow> u8 list \<Rightarrow> bool" where
  "xt_match_at m p bs \<longleftrightarrow> stored m p bs \<and> unat (xt_match_size m p) = length bs \<and> bs \<noteq> []"

definition xt_entry_at :: "entry_type \<Rightarrow> memory \<Rightarrow> nat \<Rightarrow> u8 list \<Rightarrow> bool" where
  "xt_entry_at t m p bs \<longleftrightarrow> stored m p bs \<and> unat (next_offset t m p) = length bs \<and> bs \<noteq> []"

definition ebt_match_at :: "memory \<Rightarrow> nat \<Rightarrow> u8 list \<Rightarrow> bool" where
  "ebt_match_at m p bs \<longleftrightarrow> stored m p bs \<and> unat (ebt_match_size m p) + 40 = length bs \<and> length bs < 2 ^ 32"

definition ebt_entry_at :: "memory \<Rightarrow> nat \<Rightarrow> u8 list \<Rightarrow> bool" where
  "ebt_entry_at m p bs \<longleftrightarrow> stored m p bs \<and> bs \<noteq> [] \<and>
     length bs = (if ebt_bitmask m p \<noteq> 0 then unat (ebt_next_offset m p) else 48)"

lemma unat_ucast_16_32: "unat (ucast (x :: u16) :: u32) = unat x"
  by (rule unat_ucast_up) simp

lemma ebt_step: "unat (ebt_match_size m p) + 40 < 2 ^ 32 \<Longrightarrow>
    unat (ebt_match_size m p + 40) = unat (ebt_match_size m p) + 40"
  by (subst unat_add_lem [THEN iffD1]) simp_all

lemma ebt_watcher_size: "ebt_watcher_size m p = ebt_match_size m p"
  by (simp add: ebt_watcher_size_def ebt_match_size_def)

interpretation xt_matches: rule_chain "\<lambda>m p. ucast (xt_match_size m p)" xt_match_at length
  by unfold_locales (simp add: xt_match_at_def unat_ucast_16_32)

interpretation xt_entries: rule_chain "\<lambda>m p. ucast (next_offset t m p)" "xt_entry_at t" length for t
  by unfold_locales (simp add: xt_entry_at_def unat_ucast_16_32)

interpretation ebt_matches: rule_chain "\<lambda>m p. ebt_match_size m p + 40" ebt_match_at length
  by unfold_locales (use ebt_step in \<open>auto simp: ebt_match_at_def\<close>)

interpretation ebt_watchers: rule_chain "\<lambda>m p. ebt_watcher_size m p + 40" ebt_match_at length
  by unfold_locales (use ebt_step in \<open>auto simp: ebt_match_at_def ebt_watcher_size\<close>)

interpretation ebt_chain: rule_chain
  "\<lambda>m p. if ebt_bitmask m p \<noteq> 0 then ebt_next_offset m p else 48" ebt_entry_at length
  by unfold_locales (auto simp: ebt_entry_at_def)

lemma items_nonempty_below:
  assumes "items_at at length p xs" and "\<And>q x. at q x \<Longrightarrow> x \<noteq> []"
    and "k < length xs"
  shows "(\<Sum>x \<leftarrow> take k xs. length x) < (\<Sum>x \<leftarrow> xs. length x)"
proof -
  have "xs ! k \<noteq> []" using items_at_nth [OF assms(1,3)] assms(2) by blast
  moreover have "xs = take k xs @ xs ! k # drop (Suc k) xs" by (rule id_take_nth_drop [OF assms(3)])
  then have "(\<Sum>x \<leftarrow> xs. length x) =
      (\<Sum>x \<leftarrow> take k xs. length x) + length (xs ! k) + (\<Sum>x \<leftarrow> drop (Suc k) xs. length x)"
    by (metis (no_types, lifting) add.assoc list.simps(9) map_append sum_list.Cons sum_list_append)
  ultimately show ?thesis by simp
qed

lemma items_nonempty_count:
  assumes "items_at at length p xs" and "\<And>q x. at q x \<Longrightarrow> x \<noteq> []"
  shows "length xs \<le> (\<Sum>x \<leftarrow> xs. length x)"
  using assms(1)
proof (induction xs arbitrary: p)
  case (Cons x xs)
  then have "x \<noteq> []" using assms(2) by auto
  then have "Suc 0 \<le> length x" by (cases x) auto
  then show ?case using Cons.IH [of "p + length x"] Cons.prems by simp
qed simp

lemma run_until_skip:
  assumes "unat (k :: u32) + length ps < 2 ^ 32"
  shows "(case run_until (\<lambda>p (k, s). if k < n then (0, k + 1, s)
        else (let (ret, s') = fn p s in (ret, k + 1, s'))) ps (k, s) of (ret, c, s') \<Rightarrow> (ret, s')) =
    run_until fn (drop (unat n - unat k) ps) s"
  using assms
proof (induction ps arbitrary: k s)
  case (Cons p ps)
  have k: "unat (k + 1 :: u32) = unat k + 1"
    using Cons.prems by (subst unat_add_lem [THEN iffD1]) simp_all
  show ?case
  proof (cases "k < n")
    case True
    then have "unat n - unat k = Suc (unat n - unat (k + 1))"
      using k by (simp add: word_less_nat_alt)
    then show ?thesis using True Cons.IH [of "k + 1" s] Cons.prems k by simp
  next
    case False
    obtain ret s' where f: "fn p s = (ret, s')" by fastforce
    have z: "unat n - unat k = 0" "unat n - unat (k + 1) = 0"
      using False k by (simp_all add: word_less_nat_alt)
    show ?thesis
      using False f z Cons.IH [of "k + 1" s'] Cons.prems k by (simp add: Let_def)
  qed
qed simp

text \<open>C16: on a well-formed rule blob the macros call the function on exactly the entries, in order,
  from entry \<^verbatim>\<open>n\<close> on, and on exactly the matches of an entry, until it returns nonzero; its result
  is theirs.  The two loop headers run their body at the same places.\<close>

theorem rules_visited:
  assumes "items_at (xt_entry_at t m) length entries es" and "unat sz = (\<Sum>x \<leftarrow> es. length x)"
    and "items_at (xt_match_at m) length (e + unat (type_size t)) ms"
    and "unat (target_offset t m e) = unat (type_size t) + (\<Sum>x \<leftarrow> ms. length x)"
    and keeps: "\<And>p s. fst (snd (fn p s)) = fst s"
  shows "XT_ENTRY_ITERATE_CONTINUE t entries sz n fn (m, w) =
      Some (run_until fn (drop (unat n) (starts length entries es)) (m, w)) \<and>
    XT_MATCH_ITERATE t e fn (m, w) =
      Some (run_until fn (starts length (e + unat (type_size t)) ms) (m, w)) \<and>
    xt_entry_foreach t m entries (unat sz) = Some (starts length entries es) \<and>
    xt_ematch_foreach t m e = Some (starts length (e + unat (type_size t)) ms)"
proof (intro conjI)
  have ne: "x \<noteq> []" if "xt_entry_at t m q x" for q x using that by (simp add: xt_entry_at_def)
  have nm: "x \<noteq> []" if "xt_match_at m q x" for q x using that by (simp add: xt_match_at_def)
  let ?fn = "\<lambda>p (k, s). if k < n then (0, k + 1, s) else (let (ret, s') = fn p s in (ret, k + 1, s'))"
  have keeps': "fst (snd (snd (?fn p s))) = fst (snd s)" for p s
    using keeps [of p "snd s"] by (cases s; cases "fn p (snd s)") auto
  have total: "(\<Sum>x \<leftarrow> es. length x) < 2 ^ 32"
    using assms(2) unsigned_less [of sz, where 'a = nat] by simp
  have count: "length es \<le> (\<Sum>x \<leftarrow> es. length x)"
    using items_nonempty_count [OF assms(1)] ne by blast
  define g where "g = ?fn"
  have step: "(\<lambda>(k :: u32, s) p. ucast (next_offset t (fst s) p) :: u32) =
      (\<lambda>s p. ucast (next_offset t (fst (snd s)) p))" for s :: "u32 \<times> memory \<times> 'w"
    by (auto simp: fun_eq_iff)
  obtain j where "iterate_loop (\<lambda>s. sz) (\<lambda>s p. ucast (next_offset t (fst (snd s)) p)) g entries 0 (0, m, w) =
      Some (case run_until g (starts length (entries + unat (0 :: u32)) es) (0, m, w) of (ret, s') \<Rightarrow> (ret, j, s'))"
    using xt_entries.iterate_chain [of t "fst \<circ> snd" "(0, m, w)" entries 0 es "\<lambda>s. sz" g]
      assms(1,2) total items_nonempty_below [OF assms(1) ne] keeps' unfolding g_def by auto
  moreover have "(case run_until g (starts length entries es) (0, m, w) of (ret, c, s') \<Rightarrow> (ret, s')) =
      run_until fn (drop (unat n) (starts length entries es)) (m, w)"
    using run_until_skip [of 0 "starts length entries es" n fn "(m, w)"]
      count total unfolding g_def by simp
  ultimately show "XT_ENTRY_ITERATE_CONTINUE t entries sz n fn (m, w) =
      Some (run_until fn (drop (unat n) (starts length entries es)) (m, w))"
    unfolding XT_ENTRY_ITERATE_CONTINUE_def g_def [symmetric] step
    by (auto split: prod.splits)
  have tm: "unat (type_size t) + (\<Sum>x \<leftarrow> ms. length x) < 2 ^ 32"
    using assms(4) unsigned_less [of "target_offset t m e", where 'a = nat] by simp
  obtain j where "iterate_loop (\<lambda>s. ucast (target_offset t (fst s) e)) (\<lambda>s p. ucast (xt_match_size (fst s) p)) fn e
        (type_size t) (m, w) =
      Some (case run_until fn (starts length (e + unat (type_size t)) ms) (m, w) of (ret, s') \<Rightarrow> (ret, j, s'))"
    using xt_matches.iterate_chain [of fst "(m, w)" e "type_size t" ms "\<lambda>m. ucast (target_offset t m e)" fn]
      assms(3,4) tm items_nonempty_below [OF assms(3) nm] keeps by (auto simp: unat_ucast_16_32)
  then show "XT_MATCH_ITERATE t e fn (m, w) =
      Some (run_until fn (starts length (e + unat (type_size t)) ms) (m, w))"
    by (simp add: XT_MATCH_ITERATE_def case_prod_unfold)
  show "xt_entry_foreach t m entries (unat sz) = Some (starts length entries es)"
    unfolding xt_entry_foreach_def assms(2)
    using assms(1) by (rule visit_to_end) (auto simp: xt_entry_at_def)
  show "xt_ematch_foreach t m e = Some (starts length (e + unat (type_size t)) ms)"
    unfolding xt_ematch_foreach_def assms(4) add.assoc [symmetric]
    using assms(3) by (rule visit_to_end) (auto simp: xt_match_at_def)
qed

text \<open>Two entries, the first with one match, and a function that notes where it is called.\<close>

definition sample_rules :: memory where
  "sample_rules a = (if a = 88 then 144 else if a = 90 then 184 else if a = 112 then 32
     else if a = 272 then 112 else if a = 274 then 152 else 0)"

definition note_place :: "nat list rule_fn" where
  "note_place p s = (0, fst s, snd s @ [p])"

definition sample_blob :: "u8 list list" where
  "sample_blob = [read_bytes sample_rules 0 184, read_bytes sample_rules 184 152]"

definition sample_matches :: "u8 list list" where
  "sample_matches = [read_bytes sample_rules 112 32]"

lemma rules_visited_witness:
  "XT_ENTRY_ITERATE_CONTINUE ipt_entry 0 336 1 note_place (sample_rules, []) =
      Some (run_until note_place (drop (unat (1 :: u32)) (starts length 0 sample_blob)) (sample_rules, [])) \<and>
    XT_MATCH_ITERATE ipt_entry 0 note_place (sample_rules, []) =
      Some (run_until note_place (starts length (0 + unat (type_size ipt_entry)) sample_matches) (sample_rules, [])) \<and>
    xt_entry_foreach ipt_entry sample_rules 0 (unat (336 :: u32)) = Some (starts length 0 sample_blob) \<and>
    xt_ematch_foreach ipt_entry sample_rules 0 = Some (starts length (0 + unat (type_size ipt_entry)) sample_matches)"
proof (rule rules_visited)
  have l: "load16 sample_rules 90 = 184" "load16 sample_rules 274 = 152" "load16 sample_rules 88 = 144"
    "load16 sample_rules 112 = 32"
    by (simp_all add: load16_def sample_rules_def be16_def)
  have ne: "read_bytes m p n \<noteq> []" if "0 < n" for m p n
    using that length_read_bytes [of m p n] by (metis length_0_conv less_numeral_extra(3))
  show "items_at (xt_entry_at ipt_entry sample_rules) length 0 sample_blob"
    using l by (simp add: sample_blob_def xt_entry_at_def next_offset_def ipt_entry_def stored_read ne)
  show "items_at (xt_match_at sample_rules) length (0 + unat (type_size ipt_entry)) sample_matches"
    using l by (simp add: sample_matches_def xt_match_at_def xt_match_size_def ipt_entry_def stored_read ne)
  show "unat (target_offset ipt_entry sample_rules 0) =
      unat (type_size ipt_entry) + (\<Sum>x \<leftarrow> sample_matches. length x)"
    using l by (simp add: sample_matches_def target_offset_def ipt_entry_def)
  show "unat (336 :: u32) = (\<Sum>x \<leftarrow> sample_blob. length x)"
    by (simp add: sample_blob_def)
qed (simp add: note_place_def)

section \<open>The check of the bridge tables\<close>

text \<open>Items from an offset on that cover the room up to a limit, the last of them possibly going past
  it, at offsets that do not wrap.\<close>

definition covers :: "nat \<Rightarrow> u8 list list \<Rightarrow> nat \<Rightarrow> bool" where
  "covers start xs limit \<longleftrightarrow>
     (\<forall>k < length xs. start + (\<Sum>x \<leftarrow> take k xs. length x) < limit) \<and>
     limit \<le> start + (\<Sum>x \<leftarrow> xs. length x) \<and> start + (\<Sum>x \<leftarrow> xs. length x) < 2 ^ 32"

text \<open>C32: over items at offsets that do not wrap and that cover the room up to the limit (matches from the end of the entry's header
  to its watchers, watchers from there to its target, entries over a whole table), the last of them
  possibly going past it, the bridge macros call the function on each until it returns nonzero,
  which is then the result; when it never does, the result is 0 if the items end exactly at the limit
  and \<^verbatim>\<open>-EINVAL\<close> if not.  The function called is one that leaves memory as it is.\<close>

theorem ebt_iterations_check_end:
  assumes "items_at (ebt_match_at m) length (e + 112) ms"
    and "covers 112 ms (unat (watchers_offset m e))"
    and "items_at (ebt_match_at m) length (e + unat (watchers_offset m e)) ws"
    and "covers (unat (watchers_offset m e)) ws (unat (ebt_target_offset m e))"
    and "items_at (ebt_entry_at m) length entries es" and "covers 0 es (unat sz)"
    and keeps: "\<And>p s. fst (snd (fn p s)) = fst s"
  shows "EBT_MATCH_ITERATE e fn (m, w) =
      Some (case run_until fn (starts length (e + 112) ms) (m, w) of (ret, s) \<Rightarrow>
        (if ret = 0 \<and> 112 + (\<Sum>x \<leftarrow> ms. length x) \<noteq> unat (watchers_offset m e) then - EINVAL else ret, s)) \<and>
    EBT_WATCHER_ITERATE e fn (m, w) =
      Some (case run_until fn (starts length (e + unat (watchers_offset m e)) ws) (m, w) of (ret, s) \<Rightarrow>
        (if ret = 0 \<and> unat (watchers_offset m e) + (\<Sum>x \<leftarrow> ws. length x) \<noteq> unat (ebt_target_offset m e)
         then - EINVAL else ret, s)) \<and>
    EBT_ENTRY_ITERATE entries sz fn (m, w) =
      Some (case run_until fn (starts length entries es) (m, w) of (ret, s) \<Rightarrow>
        (if ret = 0 \<and> (\<Sum>x \<leftarrow> es. length x) \<noteq> unat sz then - EINVAL else ret, s))"
proof (intro conjI)
  show "EBT_MATCH_ITERATE e fn (m, w) =
      Some (case run_until fn (starts length (e + 112) ms) (m, w) of (ret, s) \<Rightarrow>
        (if ret = 0 \<and> 112 + (\<Sum>x \<leftarrow> ms. length x) \<noteq> unat (watchers_offset m e) then - EINVAL else ret, s))"
    using ebt_matches.checked_chain [of m e 112 ms "\<lambda>m. watchers_offset m e" fn w] assms(1,2) keeps
    by (simp add: EBT_MATCH_ITERATE_def covers_def)
  show "EBT_WATCHER_ITERATE e fn (m, w) =
      Some (case run_until fn (starts length (e + unat (watchers_offset m e)) ws) (m, w) of (ret, s) \<Rightarrow>
        (if ret = 0 \<and> unat (watchers_offset m e) + (\<Sum>x \<leftarrow> ws. length x) \<noteq> unat (ebt_target_offset m e)
         then - EINVAL else ret, s))"
    using ebt_watchers.checked_chain [of m e "watchers_offset m e" ws "\<lambda>m. ebt_target_offset m e" fn w]
      assms(3,4) keeps by (simp add: EBT_WATCHER_ITERATE_def covers_def)
  show "EBT_ENTRY_ITERATE entries sz fn (m, w) =
      Some (case run_until fn (starts length entries es) (m, w) of (ret, s) \<Rightarrow>
        (if ret = 0 \<and> (\<Sum>x \<leftarrow> es. length x) \<noteq> unat sz then - EINVAL else ret, s))"
    using ebt_chain.checked_chain [of m entries 0 es "\<lambda>m. sz" fn w] assms(5,6) keeps
    by (simp add: EBT_ENTRY_ITERATE_def covers_def)
qed

text \<open>A bridge entry with one match of 40 bytes that a limit of 150 cuts short, and a watcher that
  ends exactly at the target.\<close>

definition short_rules :: memory where
  "short_rules a = (if a = 0 then 1 else if a = 100 then 150 else if a = 104 then 190
     else if a = 108 then 200 else 0)"

lemma ebt_iterations_check_end_witness:
  "EBT_MATCH_ITERATE 0 note_place (short_rules, []) = Some (- EINVAL, short_rules, [112]) \<and>
    EBT_WATCHER_ITERATE 0 note_place (short_rules, []) = Some (0, short_rules, [150]) \<and>
    EBT_ENTRY_ITERATE 0 200 note_place (short_rules, []) = Some (0, short_rules, [0])"
proof -
  have l: "load32 short_rules 0 = 1" "load32 short_rules 100 = 150" "load32 short_rules 104 = 190"
    "load32 short_rules 108 = 200" "load32 short_rules 144 = 0" "load32 short_rules 182 = 0"
    by (simp_all add: load32_def load16_def short_rules_def be16_def)
  have ne: "read_bytes m p n \<noteq> []" if "0 < n" for m p n
    using that length_read_bytes [of m p n] by (metis length_0_conv less_numeral_extra(3))
  note d = l ebt_match_at_def ebt_match_size_def ebt_entry_at_def ebt_bitmask_def ebt_next_offset_def
    watchers_offset_def ebt_target_offset_def stored_read covers_def ne
  have "items_at (ebt_match_at short_rules) length (0 + 112) [read_bytes short_rules 112 40]"
    and "covers 112 [read_bytes short_rules 112 40] (unat (watchers_offset short_rules 0))"
    and "items_at (ebt_match_at short_rules) length (0 + unat (watchers_offset short_rules 0))
      [read_bytes short_rules 150 40]"
    and "covers (unat (watchers_offset short_rules 0)) [read_bytes short_rules 150 40]
      (unat (ebt_target_offset short_rules 0))"
    and "items_at (ebt_entry_at short_rules) length 0 [read_bytes short_rules 0 200]"
    and "covers 0 [read_bytes short_rules 0 200] (unat (200 :: u32))"
    by (simp_all add: d)
  from ebt_iterations_check_end [OF this, of note_place "[]"] show ?thesis
    by (simp add: note_place_def d)
qed

text \<open>a match of size zero in front of the target, or of size \<^verbatim>\<open>2 ^ 32 - 40\<close> in a bridge entry,
  keeps the macros on it: they do not return when the function returns 0 there.\<close>

theorem zero_step_matches_loop:
  assumes "fn (e + unat (type_size t)) s = (0, s)"
    and "xt_match_size (fst s) (e + unat (type_size t)) = 0"
    and "type_size t < ucast (target_offset t (fst s) e)"
    and "fn (e + 112) s = (0, s)" and "ebt_match_size (fst s) (e + 112) = - 40"
    and "112 < watchers_offset (fst s) e"
  shows "XT_MATCH_ITERATE t e fn s = None \<and> EBT_MATCH_ITERATE e fn s = None"
  using assms by (simp add: XT_MATCH_ITERATE_def EBT_MATCH_ITERATE_def iterate_stuck)

definition stuck_rules :: memory where
  "stuck_rules a = (if a = 88 then 144 else if a = 100 then 200 else if a = 144 then 0xd8 else
     if a \<in> {145, 146, 147} then 0xff else 0)"

definition skip_rule :: "unit rule_fn" where
  "skip_rule p s = (0, s)"

lemma zero_step_matches_loop_witness:
  "XT_MATCH_ITERATE ipt_entry 0 skip_rule (stuck_rules, ()) = None \<and>
   EBT_MATCH_ITERATE 0 skip_rule (stuck_rules, ()) = None"
  by (rule zero_step_matches_loop)
    (simp_all add: skip_rule_def ipt_entry_def xt_match_size_def target_offset_def ebt_match_size_def
      watchers_offset_def load32_def load16_def be16_def stuck_rules_def)

end
