(* ===== verification/Packed_Code.thy ===== *)
theory Packed_Code
  imports Prelude
begin

text \<open>
  The contract of the macros and functions that pack several numbers into one integer and read
  them back, and the facts that follow from it.
\<close>

locale packed_code =
  fixes pack :: "'a \<Rightarrow> 'w"
    and unpack :: "'w \<Rightarrow> 'a"
    and fits :: "'a \<Rightarrow> bool"
  assumes unpack_pack: "fits x \<Longrightarrow> unpack (pack x) = x"
begin

lemma pack_inject: "fits x \<Longrightarrow> fits y \<Longrightarrow> pack x = pack y \<longleftrightarrow> x = y"
  using unpack_pack by metis

lemma inj_pack: "inj_on pack {x. fits x}"
  by (rule inj_on_inverseI [of _ unpack]) (simp add: unpack_pack)

lemma unpack_unique: "fits x \<Longrightarrow> pack x = w \<Longrightarrow> unpack w = x"
  using unpack_pack by blast

end

text \<open>Codes that use every value of the integer.\<close>

locale full_code = packed_code pack unpack fits
  for pack :: "'a \<Rightarrow> 'w" and unpack fits +
  assumes pack_unpack: "pack (unpack w) = w"
    and fits_unpack: "fits (unpack w)"
begin

lemma bij_pack: "bij_betw pack {x. fits x} UNIV"
  unfolding bij_betw_def
  using inj_pack pack_unpack fits_unpack by (metis (mono_tags, lifting) UNIV_eq_I image_eqI mem_Collect_eq)

lemma code_iff: "fits x \<and> pack x = w \<longleftrightarrow> unpack w = x"
  using unpack_pack pack_unpack fits_unpack by blast

lemma all_codes: "(\<forall>w. P w) \<longleftrightarrow> (\<forall>x. fits x \<longrightarrow> P (pack x))"
  using pack_unpack fits_unpack by metis

end

text \<open>Masks as the headers write them.\<close>

lemma shifted_one_minus_1: "push_bit n 1 - 1 = (mask n :: 'a::len word)"
  by (simp add: mask_eq_exp_minus_1 push_bit_eq_mult)

lemma not_bit_small:
  fixes b :: "'a::len word"
  assumes "b < 2 ^ n" and "n < LENGTH('a)"
  shows "bit b k \<Longrightarrow> k < n"
  using less_not_bit [OF assms, of k] by (meson not_less)

lemma less_2p_bits:
  fixes b :: "'a::len word"
  assumes "\<And>k. n \<le> k \<Longrightarrow> \<not> bit b k" and "n < LENGTH('a)"
  shows "b < 2 ^ n"
proof -
  have "take_bit n b = b"
    using assms(1) by (intro bit_word_eqI) (auto simp: bit_take_bit_iff, meson not_le)
  then show ?thesis
    using assms(2) by (metis and_mask_less take_bit_eq_mask)
qed

end
