(* ===== verification/Tipc_Address.thy ===== *)
theory Tipc_Address
  imports Packed_Code
begin

text \<open>
  TIPC network addresses of \<^verbatim>\<open>linux/tipc.h\<close>: zone, cluster and node packed into 32 bits.  The masks
  are \<^verbatim>\<open>unsigned long\<close> constants, so the readers compute in 64 bits.
\<close>

definition TIPC_NODE_BITS :: nat where "TIPC_NODE_BITS = 12"

definition TIPC_CLUSTER_BITS :: nat where "TIPC_CLUSTER_BITS = 12"

definition TIPC_ZONE_BITS :: nat where "TIPC_ZONE_BITS = 8"

definition TIPC_NODE_OFFSET :: nat where "TIPC_NODE_OFFSET = 0"

definition TIPC_CLUSTER_OFFSET :: nat where "TIPC_CLUSTER_OFFSET = TIPC_NODE_BITS"

definition TIPC_ZONE_OFFSET :: nat where "TIPC_ZONE_OFFSET = TIPC_CLUSTER_OFFSET + TIPC_CLUSTER_BITS"

definition TIPC_NODE_SIZE :: u64 where "TIPC_NODE_SIZE = push_bit TIPC_NODE_BITS 1 - 1"

definition TIPC_CLUSTER_SIZE :: u64 where "TIPC_CLUSTER_SIZE = push_bit TIPC_CLUSTER_BITS 1 - 1"

definition TIPC_ZONE_SIZE :: u64 where "TIPC_ZONE_SIZE = push_bit TIPC_ZONE_BITS 1 - 1"

definition TIPC_NODE_MASK :: u64 where "TIPC_NODE_MASK = push_bit TIPC_NODE_OFFSET TIPC_NODE_SIZE"

definition TIPC_CLUSTER_MASK :: u64 where "TIPC_CLUSTER_MASK = push_bit TIPC_CLUSTER_OFFSET TIPC_CLUSTER_SIZE"

definition TIPC_ZONE_MASK :: u64 where "TIPC_ZONE_MASK = push_bit TIPC_ZONE_OFFSET TIPC_ZONE_SIZE"

definition TIPC_ZONE_CLUSTER_MASK :: u64 where "TIPC_ZONE_CLUSTER_MASK = TIPC_ZONE_MASK OR TIPC_CLUSTER_MASK"

text \<open>The packing masks nothing.\<close>

definition tipc_addr :: "u32 \<Rightarrow> u32 \<Rightarrow> u32 \<Rightarrow> u32" where
  "tipc_addr zone cluster node =
     push_bit TIPC_ZONE_OFFSET zone OR push_bit TIPC_CLUSTER_OFFSET cluster OR node"

definition tipc_zone :: "u32 \<Rightarrow> u32" where
  "tipc_zone addr = drop_bit TIPC_ZONE_OFFSET addr"

definition tipc_cluster :: "u32 \<Rightarrow> u32" where
  "tipc_cluster addr = ucast (drop_bit TIPC_CLUSTER_OFFSET (ucast addr AND TIPC_CLUSTER_MASK))"

definition tipc_node :: "u32 \<Rightarrow> u32" where
  "tipc_node addr = ucast (ucast addr AND TIPC_NODE_MASK)"

lemma tipc_masks_as_fields:
  "TIPC_NODE_MASK = mask 12" "TIPC_CLUSTER_MASK = push_bit 12 (mask 12)"
  "TIPC_ZONE_MASK = push_bit 24 (mask 8)"
  unfolding TIPC_NODE_MASK_def TIPC_CLUSTER_MASK_def TIPC_ZONE_MASK_def TIPC_NODE_SIZE_def
    TIPC_CLUSTER_SIZE_def TIPC_ZONE_SIZE_def TIPC_NODE_OFFSET_def TIPC_CLUSTER_OFFSET_def
    TIPC_ZONE_OFFSET_def TIPC_NODE_BITS_def TIPC_CLUSTER_BITS_def TIPC_ZONE_BITS_def shifted_one_minus_1
  by simp_all

lemmas tipc_consts = TIPC_NODE_BITS_def TIPC_CLUSTER_BITS_def TIPC_NODE_OFFSET_def
  TIPC_CLUSTER_OFFSET_def TIPC_ZONE_OFFSET_def TIPC_ZONE_CLUSTER_MASK_def tipc_masks_as_fields

lemma bit_tipc_readers:
  "bit (tipc_zone a) n \<longleftrightarrow> bit a (24 + n)"
  "bit (tipc_cluster a) n \<longleftrightarrow> n < 12 \<and> bit a (12 + n)"
  "bit (tipc_node a) n \<longleftrightarrow> n < 12 \<and> bit a n"
  by (auto simp: tipc_zone_def tipc_cluster_def tipc_node_def tipc_consts bit_simps dest: bit_u32_less)

lemma bit_tipc_addr:
  "bit (tipc_addr z c n) k \<longleftrightarrow>
    k < 32 \<and> (24 \<le> k \<and> bit z (k - 24) \<or> 12 \<le> k \<and> bit c (k - 12) \<or> bit n k)"
  by (auto simp: tipc_addr_def tipc_consts bit_simps dest: bit_u32_less)

text \<open>Zone, cluster and node of a packed address, for any arguments: the node and cluster run over
  into the parts above them.\<close>

lemma tipc_readers_overrun:
  "tipc_node (tipc_addr z c n) = n AND mask 12"
  "tipc_cluster (tipc_addr z c n) = (c OR drop_bit 12 n) AND mask 12"
  "tipc_zone (tipc_addr z c n) = (z OR drop_bit 12 c OR drop_bit 24 n) AND mask 8"
  by (rule bit_word_eqI; auto simp: bit_tipc_readers bit_tipc_addr bit_simps dest: bit_u32_less)+

definition tipc_fits :: "u32 \<times> u32 \<times> u32 \<Rightarrow> bool" where
  "tipc_fits = (\<lambda>(z, c, n). z < 2 ^ 8 \<and> c < 2 ^ 12 \<and> n < 2 ^ 12)"

interpretation tipc: full_code "\<lambda>(z, c, n). tipc_addr z c n" "\<lambda>a. (tipc_zone a, tipc_cluster a, tipc_node a)" tipc_fits
proof unfold_locales
  fix x assume "tipc_fits x"
  then obtain z c n where x: "x = (z, c, n)" and f: "z < 2 ^ 8" "c < 2 ^ 12" "n < 2 ^ 12"
    by (auto simp: tipc_fits_def)
  note b = not_bit_small [OF f(1)] not_bit_small [OF f(2)] not_bit_small [OF f(3)]
  have "tipc_zone (tipc_addr z c n) = z" "tipc_cluster (tipc_addr z c n) = c" "tipc_node (tipc_addr z c n) = n"
    by (rule bit_word_eqI; use b in \<open>fastforce simp: bit_tipc_readers bit_tipc_addr\<close>)+
  then show "(\<lambda>a. (tipc_zone a, tipc_cluster a, tipc_node a)) ((\<lambda>(z, c, n). tipc_addr z c n) x) = x"
    by (simp add: x)
next
  fix a
  have "bit (tipc_addr (tipc_zone a) (tipc_cluster a) (tipc_node a)) k = bit a k" if "k < 32" for k
    using that unfolding bit_tipc_readers bit_tipc_addr
    by (cases "k < 12"; cases "k < 24") (auto simp: not_less)
  then show "(\<lambda>(z, c, n). tipc_addr z c n) (tipc_zone a, tipc_cluster a, tipc_node a) = a"
    by (auto intro: bit_word_eqI)
  have "\<not> bit a (24 + k)" if "8 \<le> k" for k
    using that bit_u32_less [of a "24 + k"] by auto
  then have "tipc_zone a < 2 ^ 8"
    by (intro less_2p_bits) (simp_all add: bit_tipc_readers)
  moreover have "tipc_cluster a < 2 ^ 12" "tipc_node a < 2 ^ 12"
    by (rule less_2p_bits; simp add: bit_tipc_readers)+
  ultimately show "tipc_fits (tipc_zone a, tipc_cluster a, tipc_node a)"
    by (simp add: tipc_fits_def)
qed

text \<open>The masks cut out the same parts.\<close>

lemma tipc_masks:
  "ucast a AND TIPC_ZONE_MASK = push_bit 24 (ucast (tipc_zone a))"
  "ucast a AND TIPC_ZONE_CLUSTER_MASK = ucast (tipc_addr (tipc_zone a) (tipc_cluster a) 0)"
  by (rule bit_word_eqI; auto simp: bit_tipc_readers bit_tipc_addr tipc_consts bit_simps dest: bit_u32_less)+

text \<open>Addresses and triples of an 8-bit zone, a 12-bit cluster and a 12-bit node correspond one
  to one; of larger arguments, which the packing does not mask, the node and the cluster spill into
  the parts above them.\<close>

theorem tipc_addresses:
  "(z < 2 ^ 8 \<and> c < 2 ^ 12 \<and> n < 2 ^ 12 \<and> tipc_addr z c n = a) =
     (tipc_zone a = z \<and> tipc_cluster a = c \<and> tipc_node a = n) \<and>
   tipc_node (tipc_addr z' c' n') = n' AND mask 12 \<and>
   tipc_cluster (tipc_addr z' c' n') = (c' OR drop_bit 12 n') AND mask 12 \<and>
   tipc_zone (tipc_addr z' c' n') = (z' OR drop_bit 12 c' OR drop_bit 24 n') AND mask 8"
  using tipc.code_iff [of "(z, c, n)" a] by (auto simp: tipc_fits_def tipc_readers_overrun)

end
