(* ===== verification/Device_Number.thy ===== *)
theory Device_Number
  imports Packed_Code
begin

text \<open>
  Device numbers: the 64-bit encoding of \<^verbatim>\<open>bits/sysmacros.h\<close>, the old 16-bit one of
  \<^verbatim>\<open>linux/kdev_t.h\<close>, and the I/O priority of \<^verbatim>\<open>linux/ioprio.h\<close>, packed the same way.
\<close>

section \<open>The 64-bit encoding\<close>

definition gnu_dev_major :: "u64 \<Rightarrow> u32" where
  "gnu_dev_major dev =
     (let major = ucast (drop_bit 8 (dev AND 0x00000000000fff00)) :: u32
      in ucast (ucast major OR drop_bit 32 (dev AND 0xfffff00000000000) :: u64))"

definition gnu_dev_minor :: "u64 \<Rightarrow> u32" where
  "gnu_dev_minor dev =
     (let minor = ucast (drop_bit 0 (dev AND 0x00000000000000ff)) :: u32
      in ucast (ucast minor OR drop_bit 12 (dev AND 0x00000ffffff00000) :: u64))"

definition gnu_dev_makedev :: "u32 \<Rightarrow> u32 \<Rightarrow> u64" where
  "gnu_dev_makedev major minor =
     (let dev = push_bit 8 (ucast (major AND 0x00000fff));
          dev = dev OR push_bit 32 (ucast (major AND 0xfffff000));
          dev = dev OR push_bit 0 (ucast (minor AND 0x000000ff))
      in dev OR push_bit 12 (ucast (minor AND 0xffffff00)))"

text \<open>The masks as shifted runs of ones.\<close>

lemma dev_masks:
  "(0x00000000000fff00 :: u64) = push_bit 8 (mask 12)" "(0xfffff00000000000 :: u64) = push_bit 44 (mask 20)"
  "(0x00000000000000ff :: u64) = mask 8" "(0x00000ffffff00000 :: u64) = push_bit 20 (mask 24)"
  "(0x00000fff :: u32) = mask 12" "(0xfffff000 :: u32) = push_bit 12 (mask 20)"
  "(0x000000ff :: u32) = mask 8" "(0xffffff00 :: u32) = push_bit 8 (mask 24)"
  by (simp_all add: mask_eq_exp_minus_1 push_bit_eq_mult)

lemma bit_gnu_dev_major:
  "bit (gnu_dev_major d) n \<longleftrightarrow> n < 12 \<and> bit d (8 + n) \<or> 12 \<le> n \<and> n < 32 \<and> bit d (32 + n)"
  unfolding gnu_dev_major_def dev_masks by (auto simp: bit_simps Let_def)

lemma bit_gnu_dev_minor:
  "bit (gnu_dev_minor d) n \<longleftrightarrow> n < 8 \<and> bit d n \<or> 8 \<le> n \<and> n < 32 \<and> bit d (12 + n)"
  unfolding gnu_dev_minor_def dev_masks by (auto simp: bit_simps Let_def)

lemma bit_gnu_dev_makedev:
  "bit (gnu_dev_makedev a b) n \<longleftrightarrow> n < 64 \<and>
    (if n < 8 then bit b n else if n < 20 then bit a (n - 8)
     else if n < 44 then bit b (n - 12) else bit a (n - 32))"
proof -
  consider "n < 8" | "8 \<le> n" "n < 20" | "20 \<le> n" "n < 44" | "44 \<le> n" "n < 64" | "64 \<le> n" by linarith
  then show ?thesis
    unfolding gnu_dev_makedev_def dev_masks
    by cases (auto simp: bit_simps Let_def)
qed

interpretation dev64: full_code "\<lambda>(a, b). gnu_dev_makedev a b" "\<lambda>d. (gnu_dev_major d, gnu_dev_minor d)" "\<lambda>x. True"
proof unfold_locales
  fix x :: "u32 \<times> u32"
  obtain a b where x: "x = (a, b)" by (cases x)
  have "gnu_dev_major (gnu_dev_makedev a b) = a"
  proof (rule bit_word_eqI)
    fix n assume "n < LENGTH(32)"
    then show "bit (gnu_dev_major (gnu_dev_makedev a b)) n = bit a n"
      by (cases "n < 12") (simp_all add: bit_gnu_dev_major bit_gnu_dev_makedev)
  qed
  moreover have "gnu_dev_minor (gnu_dev_makedev a b) = b"
  proof (rule bit_word_eqI)
    fix n assume "n < LENGTH(32)"
    then show "bit (gnu_dev_minor (gnu_dev_makedev a b)) n = bit b n"
      by (cases "n < 8") (simp_all add: bit_gnu_dev_minor bit_gnu_dev_makedev)
  qed
  ultimately show "(\<lambda>d. (gnu_dev_major d, gnu_dev_minor d)) ((\<lambda>(a, b). gnu_dev_makedev a b) x) = x"
    by (simp add: x)
next
  fix d
  have "gnu_dev_makedev (gnu_dev_major d) (gnu_dev_minor d) = d"
  proof (rule bit_word_eqI)
    fix n assume "n < LENGTH(64)"
    then consider "n < 8" | "8 \<le> n" "n < 20" | "20 \<le> n" "n < 44" | "44 \<le> n" "n < 64" by fastforce
    then show "bit (gnu_dev_makedev (gnu_dev_major d) (gnu_dev_minor d)) n = bit d n"
      by cases (auto simp: bit_gnu_dev_makedev bit_gnu_dev_major bit_gnu_dev_minor)
  qed
  then show "(\<lambda>(a, b). gnu_dev_makedev a b) (gnu_dev_major d, gnu_dev_minor d) = d"
    by simp
qed simp

section \<open>The 16-bit encoding and the I/O priority\<close>

definition MAJOR :: "u32 \<Rightarrow> u32" where
  "MAJOR dev = drop_bit 8 dev"

definition MINOR :: "u32 \<Rightarrow> u32" where
  "MINOR dev = dev AND 0xff"

definition MKDEV :: "u32 \<Rightarrow> u32 \<Rightarrow> u32" where
  "MKDEV ma mi = push_bit 8 ma OR mi"

definition IOPRIO_PRIO_CLASS :: "u32 \<Rightarrow> u32" where
  "IOPRIO_PRIO_CLASS ioprio = drop_bit 13 ioprio AND 0x07"

definition IOPRIO_PRIO_MASK :: u64 where
  "IOPRIO_PRIO_MASK = push_bit 13 1 - 1"

definition IOPRIO_PRIO_DATA :: "u32 \<Rightarrow> u64" where
  "IOPRIO_PRIO_DATA ioprio = ucast ioprio AND IOPRIO_PRIO_MASK"

definition IOPRIO_PRIO_VALUE :: "u32 \<Rightarrow> u32 \<Rightarrow> u64" where
  "IOPRIO_PRIO_VALUE cls dat = ucast (push_bit 13 (cls AND 0x07)) OR (ucast dat AND IOPRIO_PRIO_MASK)"

interpretation kdev: full_code "\<lambda>(a, b). MKDEV a b" "\<lambda>d. (MAJOR d, MINOR d)" "\<lambda>(a, b). a < 2 ^ 24 \<and> b < 2 ^ 8"
proof unfold_locales
  have m: "(0xff :: u32) = mask 8" by (simp add: mask_eq_exp_minus_1)
  have b: "bit (MKDEV a b) n \<longleftrightarrow> 8 \<le> n \<and> n < 32 \<and> bit a (n - 8) \<or> bit b n" for a b n
    by (auto simp: MKDEV_def bit_simps)
  have r: "bit (MAJOR d) n \<longleftrightarrow> bit d (8 + n)" "bit (MINOR d) n \<longleftrightarrow> n < 8 \<and> bit d n" for d n
    unfolding MAJOR_def MINOR_def m by (auto simp: bit_simps)
  fix x :: "u32 \<times> u32" assume "case x of (a, b) \<Rightarrow> a < 2 ^ 24 \<and> b < 2 ^ 8"
  then obtain a c where x: "x = (a, c)" and f: "a < 2 ^ 24" "c < 2 ^ 8" by auto
  note ne = not_bit_small [OF f(1)] not_bit_small [OF f(2)]
  have "MAJOR (MKDEV a c) = a" "MINOR (MKDEV a c) = c"
    by (rule bit_word_eqI; use ne in \<open>fastforce simp: b r\<close>)+
  then show "(\<lambda>d. (MAJOR d, MINOR d)) ((\<lambda>(a, b). MKDEV a b) x) = x" by (simp add: x)
next
  have m: "(0xff :: u32) = mask 8" by (simp add: mask_eq_exp_minus_1)
  fix d
  show "(\<lambda>(a, b). MKDEV a b) (MAJOR d, MINOR d) = d"
    unfolding MAJOR_def MINOR_def m by (auto intro!: bit_word_eqI simp: MKDEV_def bit_simps)
  have "MAJOR d < 2 ^ 24"
    by (rule less_2p_bits) (use bit_u32_less [of d] in \<open>fastforce simp: MAJOR_def bit_simps\<close>)+
  moreover have "MINOR d < 2 ^ 8"
    unfolding MINOR_def m by (rule less_2p_bits) (simp_all add: bit_simps)
  ultimately show "case (MAJOR d, MINOR d) of (a, b) \<Rightarrow> a < 2 ^ 24 \<and> b < 2 ^ 8"
    by simp
qed

lemma ioprio_roundtrip:
  "IOPRIO_PRIO_CLASS (ucast (IOPRIO_PRIO_VALUE cls dat)) = cls AND 0x07"
  "IOPRIO_PRIO_DATA (ucast (IOPRIO_PRIO_VALUE cls dat)) = ucast dat AND mask 13"
proof -
  have m: "(0x07 :: u32) = mask 3" by (simp add: mask_eq_exp_minus_1)
  show "IOPRIO_PRIO_CLASS (ucast (IOPRIO_PRIO_VALUE cls dat)) = cls AND 0x07"
    unfolding IOPRIO_PRIO_CLASS_def IOPRIO_PRIO_VALUE_def IOPRIO_PRIO_MASK_def m shifted_one_minus_1
    by (rule bit_word_eqI) (auto simp: bit_simps)
  show "IOPRIO_PRIO_DATA (ucast (IOPRIO_PRIO_VALUE cls dat)) = ucast dat AND mask 13"
    unfolding IOPRIO_PRIO_DATA_def IOPRIO_PRIO_VALUE_def IOPRIO_PRIO_MASK_def m shifted_one_minus_1
    by (rule bit_word_eqI) (auto simp: bit_simps)
qed

text \<open>every 64-bit device number is the encoding of exactly one pair of 32-bit major and minor
  numbers; on numbers of eight bits it agrees with the old encoding.\<close>

theorem device_numbers:
  "(gnu_dev_makedev a b = d) = (gnu_dev_major d = a \<and> gnu_dev_minor d = b) \<and>
   (a AND mask 8 = a \<and> b AND mask 8 = b \<longrightarrow> gnu_dev_makedev a b = ucast (MKDEV a b))"
proof (intro conjI impI)
  show "(gnu_dev_makedev a b = d) = (gnu_dev_major d = a \<and> gnu_dev_minor d = b)"
    using dev64.code_iff [of "(a, b)" d] by auto
  assume s: "a AND mask 8 = a \<and> b AND mask 8 = b"
  have sa: "bit a n \<Longrightarrow> n < 8" and sb: "bit b n \<Longrightarrow> n < 8" for n
    using s bit_and_iff [of a "mask 8" n] bit_and_iff [of b "mask 8" n] by (auto simp: bit_mask_iff)
  show "gnu_dev_makedev a b = ucast (MKDEV a b)"
  proof (rule bit_word_eqI)
    fix n assume "n < LENGTH(64)"
    then consider "n < 8" | "8 \<le> n" "n < 20" | "20 \<le> n" "n < 64" by fastforce
    then show "bit (gnu_dev_makedev a b) n = bit (ucast (MKDEV a b) :: u64) n"
      using sa [of "n - 8"] sa [of "n - 32"] sb [of n] sb [of "n - 12"]
      by cases (auto simp: bit_gnu_dev_makedev MKDEV_def bit_simps)
  qed
qed

end
