(* ===== verification/Wait_Status.thy ===== *)
theory Wait_Status
  imports Prelude
begin

text \<open>
  The status a waiting process receives, \<^verbatim>\<open>bits/waitstatus.h\<close>: how a child ended, was stopped or
  went on, packed into an \<^verbatim>\<open>int\<close> and told apart by its low bits.
\<close>

definition WEXITSTATUS :: "u32 \<Rightarrow> u32" where
  "WEXITSTATUS status = drop_bit 8 (status AND 0xff00)"

definition WTERMSIG :: "u32 \<Rightarrow> u32" where
  "WTERMSIG status = status AND 0x7f"

definition WSTOPSIG :: "u32 \<Rightarrow> u32" where
  "WSTOPSIG status = WEXITSTATUS status"

definition WIFEXITED :: "u32 \<Rightarrow> bool" where
  "WIFEXITED status \<longleftrightarrow> WTERMSIG status = 0"

text \<open>The sum is cut to a \<^verbatim>\<open>signed char\<close> before the shift.\<close>

definition WIFSIGNALED :: "u32 \<Rightarrow> bool" where
  "WIFSIGNALED status \<longleftrightarrow> sint (ucast ((status AND 0x7f) + 1) :: u8) div 2 > 0"

definition WIFSTOPPED :: "u32 \<Rightarrow> bool" where
  "WIFSTOPPED status \<longleftrightarrow> status AND 0xff = 0x7f"

definition W_CONTINUED :: u32 where
  "W_CONTINUED = 0xffff"

definition WCOREFLAG :: u32 where
  "WCOREFLAG = 0x80"

definition WIFCONTINUED :: "u32 \<Rightarrow> bool" where
  "WIFCONTINUED status \<longleftrightarrow> status = W_CONTINUED"

definition WCOREDUMP :: "u32 \<Rightarrow> bool" where
  "WCOREDUMP status \<longleftrightarrow> status AND WCOREFLAG \<noteq> 0"

definition W_EXITCODE :: "u32 \<Rightarrow> u32 \<Rightarrow> u32" where
  "W_EXITCODE ret sig = push_bit 8 ret OR sig"

definition W_STOPCODE :: "u32 \<Rightarrow> u32" where
  "W_STOPCODE sig = push_bit 8 sig OR 0x7f"

section \<open>The four outcomes\<close>

lemma wait_masks: "(0xff00 :: u32) = push_bit 8 (mask 8)" "(0x7f :: u32) = mask 7" "(0xff :: u32) = mask 8"
  "(0x80 :: u32) = push_bit 7 1"
  by (simp_all add: mask_eq_exp_minus_1 push_bit_eq_mult)

lemma WTERMSIG_less: "WTERMSIG s < 128"
  unfolding WTERMSIG_def wait_masks using and_mask_less [of 7 s] by simp

lemma signaled_iff: "WIFSIGNALED s \<longleftrightarrow> WTERMSIG s \<noteq> 0 \<and> WTERMSIG s \<noteq> 0x7f"
proof -
  let ?t = "WTERMSIG s"
  have t: "unat ?t < 128" using WTERMSIG_less [of s] by (simp add: word_less_nat_alt)
  have "unat (?t + 1) = unat ?t + 1"
    using t by (subst unat_add_lem [THEN iffD1]) simp_all
  then have u: "unat (ucast (?t + 1) :: u8) = unat ?t + 1"
    using t by (simp add: unsigned_ucast_eq take_bit_nat_eq_self)
  have i: "0 < sint (ucast (?t + 1) :: u8) div 2 \<longleftrightarrow> 0 < unat ?t \<and> unat ?t < 127"
  proof (cases "unat ?t = 127")
    case True
    then have "(ucast (?t + 1) :: u8) = 128" using u by (simp add: word_unat_eq_iff)
    then show ?thesis using True by simp
  next
    case False
    have "signed_take_bit 7 (int (k + 1)) = int (k + 1)" if "k < 127" for k
      using that by (intro signed_take_bit_int_eq_self) simp_all
    from this [of "unat ?t"] have "signed_take_bit 7 (int (unat ?t + 1)) = int (unat ?t + 1)"
      using t False by linarith
    then have "sint (ucast (?t + 1) :: u8) = int (unat ?t) + 1"
      unfolding sint_uint uint_nat u by (simp only: len_num1 len_num0 len_bit0) simp
    then show ?thesis using t False by presburger
  qed
  have "WIFSIGNALED s \<longleftrightarrow> sint (ucast (?t + 1) :: u8) div 2 > 0"
    by (simp add: WIFSIGNALED_def WTERMSIG_def)
  also have "\<dots> \<longleftrightarrow> 0 < unat ?t \<and> unat ?t < 127"
    by (rule i)
  also have "\<dots> \<longleftrightarrow> ?t \<noteq> 0 \<and> ?t \<noteq> 0x7f"
    using t by (auto simp: word_unat_eq_iff)
  finally show ?thesis .
qed

text \<open>The parts as remainders and quotients.\<close>

lemma unat_WTERMSIG: "unat (WTERMSIG s) = unat s mod 128"
  unfolding WTERMSIG_def wait_masks unat_and_mask by simp

lemma unat_WEXITSTATUS: "unat (WEXITSTATUS s) = unat s div 256 mod 256"
proof -
  have "WEXITSTATUS s = drop_bit 8 s AND mask 8"
    unfolding WEXITSTATUS_def wait_masks by (rule bit_word_eqI) (auto simp: bit_simps)
  then have "unat (WEXITSTATUS s) = unat (drop_bit 8 s) mod 2 ^ 8" by (simp only: unat_and_mask)
  also have "unat (drop_bit 8 s) = unat s div 256"
    using unsigned_less [of s, where 'a = nat]
    unfolding unsigned_drop_bit_eq by (simp add: drop_bit_eq_div take_bit_nat_eq_self)
  finally show ?thesis by simp
qed

lemma stopped_mod: "WIFSTOPPED s \<longleftrightarrow> unat s mod 256 = 127"
proof -
  have "unat (s AND mask 8) = unat s mod 256" using unat_and_mask [of s 8] by simp
  then show ?thesis unfolding WIFSTOPPED_def wait_masks(3) by (auto simp: word_unat_eq_iff mask_eq_exp_minus_1)
qed

lemma core_mod: "WCOREDUMP s \<longleftrightarrow> unat s div 128 mod 2 = 1"
proof -
  have "WCOREDUMP s \<longleftrightarrow> bit s 7"
    unfolding WCOREDUMP_def WCOREFLAG_def by (simp add: and_exp_eq_0_iff_not_bit [of s 7, simplified])
  also have "\<dots> \<longleftrightarrow> bit (unat s) 7" by (simp add: bit_unsigned_iff)
  also have "\<dots> \<longleftrightarrow> unat s div 128 mod 2 = 1" by (simp add: bit_iff_odd odd_iff_mod_2_eq_one)
  finally show ?thesis .
qed

lemma unat_codes:
  assumes "ret < 2 ^ 8" and "sig < 2 ^ 8"
  shows "unat (W_EXITCODE ret sig) = unat ret * 256 + unat sig"
    and "unat (W_STOPCODE sig) = unat sig * 256 + 127"
proof -
  have b: "unat ret < 256" "unat sig < 256"
    using assms by (simp_all add: word_less_nat_alt)
  have d: "push_bit 8 x OR y = push_bit 8 x + y" if "y < 2 ^ 8" for x y :: u32
    using less_not_bit [OF that] by (intro disjunctive_add_eq_or [symmetric] bit_word_eqI) (auto simp: bit_simps)
  have m: "unat (push_bit 8 x + y) = unat x * 256 + unat y" if "unat x < 256" "unat y < 256" for x y :: u32
  proof -
    have "unat (push_bit 8 x) = unat x * 256"
      using that(1) unfolding unsigned_push_bit_eq by (simp add: push_bit_eq_mult take_bit_nat_eq_self)
    then show ?thesis using that by (subst unat_add_lem [THEN iffD1]) simp_all
  qed
  show "unat (W_EXITCODE ret sig) = unat ret * 256 + unat sig"
    using d [OF assms(2), of ret] m [OF b] by (simp add: W_EXITCODE_def)
  show "unat (W_STOPCODE sig) = unat sig * 256 + 127"
    using d [of "0x7f" sig] m [OF b(2), of "0x7f"] by (simp add: W_STOPCODE_def)
qed

text \<open>No status has two of the four outcomes, and one has none of them only when its low byte
  is \<^verbatim>\<open>0xff\<close> without being the status of a continued child.  The statuses the macros build have
  the outcome they are built for, with the code and the signal given.\<close>

theorem wait_outcomes:
  "length (filter (\<lambda>P. P s) [WIFEXITED, WIFSIGNALED, WIFSTOPPED, WIFCONTINUED]) =
     (if unat s mod 256 = 255 \<and> s \<noteq> W_CONTINUED then 0 else 1) \<and>
   (ret < 2 ^ 8 \<and> sig < 2 ^ 7 \<longrightarrow>
      WIFEXITED (W_EXITCODE ret 0) \<and> WEXITSTATUS (W_EXITCODE ret 0) = ret \<and>
      WTERMSIG (W_EXITCODE ret sig) = sig \<and>
      WTERMSIG (W_EXITCODE ret (sig OR WCOREFLAG)) = sig \<and> WCOREDUMP (W_EXITCODE ret (sig OR WCOREFLAG)) \<and>
      \<not> WCOREDUMP (W_EXITCODE ret sig) \<and>
      (WIFSIGNALED (W_EXITCODE ret sig) \<longleftrightarrow> sig \<noteq> 0 \<and> sig \<noteq> 0x7f) \<and>
      WIFSTOPPED (W_STOPCODE sig) \<and> WSTOPSIG (W_STOPCODE sig) = sig)"
proof (intro conjI impI)
  have sg: "WIFSIGNALED s \<longleftrightarrow> unat s mod 128 \<noteq> 0 \<and> unat s mod 128 \<noteq> 127" for s
    by (simp add: signaled_iff word_unat_eq_iff unat_WTERMSIG)
  have ex: "WIFEXITED s \<longleftrightarrow> unat s mod 128 = 0" for s
    by (simp add: WIFEXITED_def word_unat_eq_iff unat_WTERMSIG)
  have co: "WIFCONTINUED s \<longleftrightarrow> unat s = 65535"
    by (simp add: WIFCONTINUED_def W_CONTINUED_def word_unat_eq_iff)
  have w: "s = W_CONTINUED \<longleftrightarrow> unat s = 65535"
    by (simp add: W_CONTINUED_def word_unat_eq_iff)
  define m8 m7 where "m8 = unat s mod 256" and "m7 = unat s mod 128"
  have "m7 = m8 mod 128" and "m8 < 256" unfolding m8_def m7_def by (simp_all add: mod_mod_cancel)
  then have "m8 = 127 \<or> m8 = 255 \<longleftrightarrow> m7 = 127"
    by (cases "m8 < 128") (auto simp: le_mod_geq)
  moreover have "unat s = 65535 \<Longrightarrow> m8 = 255" by (simp add: m8_def)
  ultimately show "length (filter (\<lambda>P. P s) [WIFEXITED, WIFSIGNALED, WIFSTOPPED, WIFCONTINUED]) =
     (if unat s mod 256 = 255 \<and> s \<noteq> W_CONTINUED then 0 else 1)"
    unfolding list.simps filter.simps sg ex co w stopped_mod m8_def [symmetric] m7_def [symmetric]
    by (cases "m7 = 0"; cases "m7 = 127"; cases "unat s = 65535"; auto)
  assume a: "ret < 2 ^ 8 \<and> sig < 2 ^ 7"
  then have r: "ret < 2 ^ 8" and s7: "sig < 2 ^ 7" and s8: "sig < 2 ^ 8"
    by (auto simp: word_less_nat_alt)
  have n: "unat ret < 256" "unat sig < 128" using r s7 by (simp_all add: word_less_nat_alt)
  have core: "sig OR WCOREFLAG = sig + 128"
    unfolding WCOREFLAG_def wait_masks
    by (subst disjunctive_add_eq_or [symmetric])
      (use less_not_bit [OF s7, of 7] in \<open>simp_all add: and_exp_eq_0_iff_not_bit [of sig 7, simplified]\<close>)
  have uc: "unat (sig OR WCOREFLAG) = unat sig + 128"
    unfolding core using n by (subst unat_add_lem [THEN iffD1]) simp_all
  then have c8: "sig OR WCOREFLAG < 2 ^ 8" using n by (simp add: word_less_nat_alt)
  note u = unat_codes [OF r s8] unat_codes(1) [OF r c8] unat_codes(1) [OF r, of 0] uc
  have mm: "(k * 256 + j) mod 128 = j mod 128" for j k :: nat
    using mod_mult_self1 [of j "k * 2" 128] by (simp add: algebra_simps)
  have dd: "(k * 256 + j) div 128 = k * 2 + j div 128" for j k :: nat
    using div_mult_self1 [of 128 j "k * 2"] by (simp add: algebra_simps)
  show "WIFEXITED (W_EXITCODE ret 0)" using u by (simp add: ex)
  show "WEXITSTATUS (W_EXITCODE ret 0) = ret" using u n by (simp add: word_unat_eq_iff unat_WEXITSTATUS)
  show "WTERMSIG (W_EXITCODE ret sig) = sig"
    using u n mm [of "unat ret" "unat sig"] mm [of "unat ret" "unat sig + 128"]
    unfolding word_unat_eq_iff unat_WTERMSIG by simp
  show "WTERMSIG (W_EXITCODE ret (sig OR WCOREFLAG)) = sig"
    using u n mm [of "unat ret" "unat sig"] mm [of "unat ret" "unat sig + 128"]
    unfolding word_unat_eq_iff unat_WTERMSIG by simp
  show "WCOREDUMP (W_EXITCODE ret (sig OR WCOREFLAG))" 
    using u n dd [of "unat ret" "unat sig"] dd [of "unat ret" "unat sig + 128"] unfolding core_mod by simp
  show "\<not> WCOREDUMP (W_EXITCODE ret sig)" 
    using u n dd [of "unat ret" "unat sig"] dd [of "unat ret" "unat sig + 128"] unfolding core_mod by simp
  show "WIFSIGNALED (W_EXITCODE ret sig) \<longleftrightarrow> sig \<noteq> 0 \<and> sig \<noteq> 0x7f"
    using u(1) n mm [of "unat ret" "unat sig"] unfolding sg word_unat_eq_iff by simp
  show "WIFSTOPPED (W_STOPCODE sig)" using u n by (simp add: stopped_mod)
  show "WSTOPSIG (W_STOPCODE sig) = sig"
    using u n by (simp add: WSTOPSIG_def word_unat_eq_iff unat_WEXITSTATUS)
qed

lemma wait_outcomes_witness:
  "WIFEXITED (W_EXITCODE 3 0) \<and> WEXITSTATUS (W_EXITCODE 3 0) = 3 \<and> WTERMSIG (W_EXITCODE 3 15) = 15 \<and>
   WCOREDUMP (W_EXITCODE 3 (15 OR WCOREFLAG)) \<and> WSTOPSIG (W_STOPCODE 15) = 15"
  using wait_outcomes [of 0 3 15] by simp

end
