(* ===== verification/Ioctl_Number.thy ===== *)
theory Ioctl_Number
  imports Packed_Code
begin

text \<open>
  Request numbers of \<^verbatim>\<open>asm-generic/ioctl.h\<close>: direction, type, number and argument size packed into
  32 bits, the builders of the four directions and the decoding macros.
\<close>

definition IOC_NRBITS :: nat where "IOC_NRBITS = 8"

definition IOC_TYPEBITS :: nat where "IOC_TYPEBITS = 8"

definition IOC_SIZEBITS :: nat where "IOC_SIZEBITS = 14"

definition IOC_DIRBITS :: nat where "IOC_DIRBITS = 2"

definition IOC_NRMASK :: u32 where "IOC_NRMASK = push_bit IOC_NRBITS 1 - 1"

definition IOC_TYPEMASK :: u32 where "IOC_TYPEMASK = push_bit IOC_TYPEBITS 1 - 1"

definition IOC_SIZEMASK :: u32 where "IOC_SIZEMASK = push_bit IOC_SIZEBITS 1 - 1"

definition IOC_DIRMASK :: u32 where "IOC_DIRMASK = push_bit IOC_DIRBITS 1 - 1"

definition IOC_NRSHIFT :: nat where "IOC_NRSHIFT = 0"

definition IOC_TYPESHIFT :: nat where "IOC_TYPESHIFT = IOC_NRSHIFT + IOC_NRBITS"

definition IOC_SIZESHIFT :: nat where "IOC_SIZESHIFT = IOC_TYPESHIFT + IOC_TYPEBITS"

definition IOC_DIRSHIFT :: nat where "IOC_DIRSHIFT = IOC_SIZESHIFT + IOC_SIZEBITS"

definition IOC_NONE :: u32 where "IOC_NONE = 0"

definition IOC_WRITE :: u32 where "IOC_WRITE = 1"

definition IOC_READ :: u32 where "IOC_READ = 2"

definition IOC :: "u32 \<Rightarrow> u32 \<Rightarrow> u32 \<Rightarrow> u32 \<Rightarrow> u32" where
  "IOC dir ty nr sz =
     push_bit IOC_DIRSHIFT dir OR push_bit IOC_TYPESHIFT ty OR push_bit IOC_NRSHIFT nr OR
     push_bit IOC_SIZESHIFT sz"

text \<open>The size of the argument type is an argument here.\<close>

definition IO :: "u32 \<Rightarrow> u32 \<Rightarrow> u32" where
  "IO ty nr = IOC IOC_NONE ty nr 0"

definition IOR :: "u32 \<Rightarrow> u32 \<Rightarrow> u32 \<Rightarrow> u32" where
  "IOR ty nr sz = IOC IOC_READ ty nr sz"

definition IOW :: "u32 \<Rightarrow> u32 \<Rightarrow> u32 \<Rightarrow> u32" where
  "IOW ty nr sz = IOC IOC_WRITE ty nr sz"

definition IOWR :: "u32 \<Rightarrow> u32 \<Rightarrow> u32 \<Rightarrow> u32" where
  "IOWR ty nr sz = IOC (IOC_READ OR IOC_WRITE) ty nr sz"

definition IOC_DIR :: "u32 \<Rightarrow> u32" where
  "IOC_DIR nr = drop_bit IOC_DIRSHIFT nr AND IOC_DIRMASK"

definition IOC_TYPE :: "u32 \<Rightarrow> u32" where
  "IOC_TYPE nr = drop_bit IOC_TYPESHIFT nr AND IOC_TYPEMASK"

definition IOC_NR :: "u32 \<Rightarrow> u32" where
  "IOC_NR nr = drop_bit IOC_NRSHIFT nr AND IOC_NRMASK"

definition IOC_SIZE :: "u32 \<Rightarrow> u32" where
  "IOC_SIZE nr = drop_bit IOC_SIZESHIFT nr AND IOC_SIZEMASK"

definition IOC_IN :: u32 where "IOC_IN = push_bit IOC_DIRSHIFT IOC_WRITE"

definition IOC_OUT :: u32 where "IOC_OUT = push_bit IOC_DIRSHIFT IOC_READ"

definition IOC_INOUT :: u32 where "IOC_INOUT = push_bit IOC_DIRSHIFT (IOC_WRITE OR IOC_READ)"

definition IOCSIZE_MASK :: u32 where "IOCSIZE_MASK = push_bit IOC_SIZESHIFT IOC_SIZEMASK"

definition IOCSIZE_SHIFT :: nat where "IOCSIZE_SHIFT = IOC_SIZESHIFT"

lemmas ioc_consts = IOC_NRBITS_def IOC_TYPEBITS_def IOC_SIZEBITS_def IOC_DIRBITS_def IOC_NRMASK_def
  IOC_TYPEMASK_def IOC_SIZEMASK_def IOC_DIRMASK_def IOC_NRSHIFT_def IOC_TYPESHIFT_def IOC_SIZESHIFT_def
  IOC_DIRSHIFT_def shifted_one_minus_1

section \<open>Encoding and decoding\<close>

lemma bit_ioc_readers:
  "bit (IOC_DIR w) n \<longleftrightarrow> n < 2 \<and> bit w (30 + n)"
  "bit (IOC_TYPE w) n \<longleftrightarrow> n < 8 \<and> bit w (8 + n)"
  "bit (IOC_NR w) n \<longleftrightarrow> n < 8 \<and> bit w n"
  "bit (IOC_SIZE w) n \<longleftrightarrow> n < 14 \<and> bit w (16 + n)"
  unfolding IOC_DIR_def IOC_TYPE_def IOC_NR_def IOC_SIZE_def ioc_consts
  by (auto simp: bit_simps dest: bit_u32_less)

definition ioc_fits :: "u32 \<times> u32 \<times> u32 \<times> u32 \<Rightarrow> bool" where
  "ioc_fits = (\<lambda>(dir, ty, nr, sz). dir < 2 ^ 2 \<and> ty < 2 ^ 8 \<and> nr < 2 ^ 8 \<and> sz < 2 ^ 14)"

lemma bit_IOC:
  assumes "ioc_fits (dir, ty, nr, sz)"
  shows "bit (IOC dir ty nr sz) n \<longleftrightarrow> n < 32 \<and>
    (if n < 8 then bit nr n else if n < 16 then bit ty (n - 8) else if n < 30 then bit sz (n - 16)
     else bit dir (n - 30))"
proof -
  have f: "ty < 2 ^ 8" "nr < 2 ^ 8" "sz < 2 ^ 14" using assms by (simp_all add: ioc_fits_def)
  have e: "bit (IOC dir ty nr sz) n \<longleftrightarrow> n < 32 \<and>
      (30 \<le> n \<and> bit dir (n - 30) \<or> 8 \<le> n \<and> bit ty (n - 8) \<or> bit nr n \<or> 16 \<le> n \<and> bit sz (n - 16))"
    unfolding IOC_def ioc_consts by (auto simp: bit_simps dest: bit_u32_less)
  consider "n < 8" | "8 \<le> n" "n < 16" | "16 \<le> n" "n < 30" | "30 \<le> n" by linarith
  then show ?thesis
    using not_bit_small [OF f(1), of "n - 8"] not_bit_small [OF f(2), of n] not_bit_small [OF f(3), of "n - 16"]
    unfolding e by cases auto
qed

interpretation ioc: full_code "\<lambda>(dir, ty, nr, sz). IOC dir ty nr sz"
  "\<lambda>w. (IOC_DIR w, IOC_TYPE w, IOC_NR w, IOC_SIZE w)" ioc_fits
proof unfold_locales
  fix x assume x: "ioc_fits x"
  obtain dir ty nr sz where e: "x = (dir, ty, nr, sz)" by (cases x)
  have f: "dir < 2 ^ 2" "ty < 2 ^ 8" "nr < 2 ^ 8" "sz < 2 ^ 14" using x by (simp_all add: e ioc_fits_def)
  note b = bit_ioc_readers bit_IOC [OF x [unfolded e]]
  have "IOC_DIR (IOC dir ty nr sz) = dir"
    by (rule bit_word_eqI) (use not_bit_small [OF f(1)] in \<open>fastforce simp: b\<close>)
  moreover have "IOC_TYPE (IOC dir ty nr sz) = ty"
    by (rule bit_word_eqI) (use not_bit_small [OF f(2)] in \<open>fastforce simp: b\<close>)
  moreover have "IOC_NR (IOC dir ty nr sz) = nr"
    by (rule bit_word_eqI) (use not_bit_small [OF f(3)] in \<open>fastforce simp: b\<close>)
  moreover have "IOC_SIZE (IOC dir ty nr sz) = sz"
    by (rule bit_word_eqI) (use not_bit_small [OF f(4)] in \<open>fastforce simp: b\<close>)
  ultimately show "(\<lambda>w. (IOC_DIR w, IOC_TYPE w, IOC_NR w, IOC_SIZE w)) ((\<lambda>(dir, ty, nr, sz). IOC dir ty nr sz) x) = x"
    by (simp add: e)
next
  fix w
  have "IOC_DIR w < 2 ^ 2" "IOC_TYPE w < 2 ^ 8" "IOC_NR w < 2 ^ 8" "IOC_SIZE w < 2 ^ 14"
    by (rule less_2p_bits; simp add: bit_ioc_readers)+
  then show f: "ioc_fits (IOC_DIR w, IOC_TYPE w, IOC_NR w, IOC_SIZE w)"
    by (simp add: ioc_fits_def)
  have "IOC (IOC_DIR w) (IOC_TYPE w) (IOC_NR w) (IOC_SIZE w) = w"
    by (rule bit_word_eqI) (auto simp: bit_IOC [OF f] bit_ioc_readers)
  then show "(\<lambda>(dir, ty, nr, sz). IOC dir ty nr sz) (IOC_DIR w, IOC_TYPE w, IOC_NR w, IOC_SIZE w) = w"
    by simp
qed

text \<open>Every request number is the code of exactly one direction, type, number and argument
  size; the direction bits of the four builders tell them apart, and the masks for the sound
  drivers cut out direction and size.\<close>

theorem ioctl_numbers:
  "(dir < 2 ^ 2 \<and> ty < 2 ^ 8 \<and> nr < 2 ^ 8 \<and> sz < 2 ^ 14 \<and> IOC dir ty nr sz = w) =
     (IOC_DIR w = dir \<and> IOC_TYPE w = ty \<and> IOC_NR w = nr \<and> IOC_SIZE w = sz) \<and>
   (ty < 2 ^ 8 \<and> nr < 2 ^ 8 \<and> sz < 2 ^ 14 \<longrightarrow>
      map IOC_DIR [IO ty nr, IOW ty nr sz, IOR ty nr sz, IOWR ty nr sz] = [0, 1, 2, 3] \<and>
      map IOC_SIZE [IO ty nr, IOW ty nr sz, IOR ty nr sz, IOWR ty nr sz] = [0, sz, sz, sz]) \<and>
   (w AND IOC_INOUT = push_bit 30 (IOC_DIR w) \<and> drop_bit IOCSIZE_SHIFT (w AND IOCSIZE_MASK) = IOC_SIZE w)"
proof (intro conjI impI)
  show "(dir < 2 ^ 2 \<and> ty < 2 ^ 8 \<and> nr < 2 ^ 8 \<and> sz < 2 ^ 14 \<and> IOC dir ty nr sz = w) =
     (IOC_DIR w = dir \<and> IOC_TYPE w = ty \<and> IOC_NR w = nr \<and> IOC_SIZE w = sz)"
    using ioc.code_iff [of "(dir, ty, nr, sz)" w] by (simp add: ioc_fits_def)
  assume a: "ty < 2 ^ 8 \<and> nr < 2 ^ 8 \<and> sz < 2 ^ 14"
  have d: "ioc_fits (d, ty, nr, s) \<Longrightarrow> IOC_DIR (IOC d ty nr s) = d"
    "ioc_fits (d, ty, nr, s) \<Longrightarrow> IOC_SIZE (IOC d ty nr s) = s" for d s
    using ioc.unpack_pack [of "(d, ty, nr, s)"] by simp_all
  show "map IOC_DIR [IO ty nr, IOW ty nr sz, IOR ty nr sz, IOWR ty nr sz] = [0, 1, 2, 3]"
    and "map IOC_SIZE [IO ty nr, IOW ty nr sz, IOR ty nr sz, IOWR ty nr sz] = [0, sz, sz, sz]"
    using a by (simp_all add: IO_def IOW_def IOR_def IOWR_def IOC_NONE_def IOC_WRITE_def IOC_READ_def d ioc_fits_def)
next
  have io: "IOC_INOUT = push_bit 30 (mask 2)"
    by (simp add: IOC_INOUT_def IOC_WRITE_def IOC_READ_def ioc_consts mask_eq_exp_minus_1)
  show "w AND IOC_INOUT = push_bit 30 (IOC_DIR w)"
    unfolding io by (auto intro!: bit_word_eqI simp: bit_ioc_readers bit_and_iff bit_push_bit_iff bit_mask_iff)
  show "drop_bit IOCSIZE_SHIFT (w AND IOCSIZE_MASK) = IOC_SIZE w"
    unfolding IOCSIZE_SHIFT_def IOCSIZE_MASK_def ioc_consts
    by (rule bit_word_eqI) (auto simp: bit_ioc_readers bit_simps)
qed

lemma ioctl_numbers_witness:
  "map IOC_DIR [IO 0x6e 1, IOW 0x6e 1 24, IOR 0x6e 1 24, IOWR 0x6e 1 24] = [0, 1, 2, 3]"
  using ioctl_numbers [of 1 "0x6e" 1 24 0] by simp

end
