(* ===== verification/Elf_Info.thy ===== *)
theory Elf_Info
  imports Packed_Code
begin

text \<open>
  The packed members of \<^verbatim>\<open>elf.h\<close>: relocation information, symbol binding and type, and move
  records.  The macros add the parts; a type without overflow is no larger than its mask.
\<close>

definition ELF32_ST_BIND :: "u32 \<Rightarrow> u32" where
  "ELF32_ST_BIND val = drop_bit 4 (ucast (ucast val :: u8))"

definition ELF32_ST_TYPE :: "u32 \<Rightarrow> u32" where
  "ELF32_ST_TYPE val = val AND 0xf"

definition ELF32_ST_INFO :: "u32 \<Rightarrow> u32 \<Rightarrow> u32" where
  "ELF32_ST_INFO bind ty = push_bit 4 bind + (ty AND 0xf)"

definition ELF64_ST_BIND :: "u32 \<Rightarrow> u32" where
  "ELF64_ST_BIND val = ELF32_ST_BIND val"

definition ELF64_ST_TYPE :: "u32 \<Rightarrow> u32" where
  "ELF64_ST_TYPE val = ELF32_ST_TYPE val"

definition ELF64_ST_INFO :: "u32 \<Rightarrow> u32 \<Rightarrow> u32" where
  "ELF64_ST_INFO bind ty = ELF32_ST_INFO bind ty"

definition ELF32_ST_VISIBILITY :: "u32 \<Rightarrow> u32" where
  "ELF32_ST_VISIBILITY other = other AND 0x03"

definition ELF64_ST_VISIBILITY :: "u32 \<Rightarrow> u32" where
  "ELF64_ST_VISIBILITY other = ELF32_ST_VISIBILITY other"

definition ELF32_R_SYM :: "u32 \<Rightarrow> u32" where
  "ELF32_R_SYM val = drop_bit 8 val"

definition ELF32_R_TYPE :: "u32 \<Rightarrow> u32" where
  "ELF32_R_TYPE val = val AND 0xff"

definition ELF32_R_INFO :: "u32 \<Rightarrow> u32 \<Rightarrow> u32" where
  "ELF32_R_INFO s ty = push_bit 8 s + (ty AND 0xff)"

definition ELF64_R_SYM :: "u64 \<Rightarrow> u64" where
  "ELF64_R_SYM i = drop_bit 32 i"

definition ELF64_R_TYPE :: "u64 \<Rightarrow> u64" where
  "ELF64_R_TYPE i = i AND 0xffffffff"

text \<open>The type is not masked in the 64-bit form.\<close>

definition ELF64_R_INFO :: "u64 \<Rightarrow> u64 \<Rightarrow> u64" where
  "ELF64_R_INFO s ty = push_bit 32 s + ty"

definition ELF32_M_SYM :: "u32 \<Rightarrow> u32" where
  "ELF32_M_SYM info = drop_bit 8 info"

definition ELF32_M_SIZE :: "u32 \<Rightarrow> u8" where
  "ELF32_M_SIZE info = ucast info"

definition ELF32_M_INFO :: "u32 \<Rightarrow> u32 \<Rightarrow> u32" where
  "ELF32_M_INFO s sz = push_bit 8 s + ucast (ucast sz :: u8)"

definition ELF64_M_SYM :: "u32 \<Rightarrow> u32" where
  "ELF64_M_SYM info = ELF32_M_SYM info"

definition ELF64_M_SIZE :: "u32 \<Rightarrow> u8" where
  "ELF64_M_SIZE info = ELF32_M_SIZE info"

definition ELF64_M_INFO :: "u32 \<Rightarrow> u32 \<Rightarrow> u32" where
  "ELF64_M_INFO s sz = ELF32_M_INFO s sz"

section \<open>Sums of disjoint parts\<close>

lemma push_add_or:
  fixes x y :: "'a::len word"
  assumes "y < 2 ^ n" and "n < LENGTH('a)"
  shows "push_bit n x + y = push_bit n x OR y"
  using less_not_bit [OF assms] by (intro disjunctive_add_eq_or bit_word_eqI) (auto simp: bit_simps)

lemma bit_push_add:
  fixes x y :: "'a::len word"
  assumes "y < 2 ^ n" and "n < LENGTH('a)"
  shows "bit (push_bit n x + y) k \<longleftrightarrow> k < LENGTH('a) \<and> (if k < n then bit y k else bit x (k - n))"
  using not_bit_small [OF assms, of k] bit_imp_le_length [of y k]
  by (auto simp: push_add_or [OF assms] bit_simps)

lemma elf_masks: "(0xf :: u32) = mask 4" "(0xff :: u32) = mask 8" "(0x03 :: u32) = mask 2"
  "(0xffffffff :: u64) = mask 32"
  by (simp_all add: mask_eq_exp_minus_1)

interpretation r32: full_code "\<lambda>(s, t). ELF32_R_INFO s t" "\<lambda>i. (ELF32_R_SYM i, ELF32_R_TYPE i)"
  "\<lambda>(s, t). s < 2 ^ 24 \<and> t < 2 ^ 8"
proof unfold_locales
  have m: "x AND mask 8 < 2 ^ 8" for x :: u32 using and_mask_less [of 8 x] by simp
  have b: "bit (ELF32_R_INFO s t) k \<longleftrightarrow> k < 32 \<and> (if k < 8 then bit t k else bit s (k - 8))" for s t k
    unfolding ELF32_R_INFO_def elf_masks using bit_push_add [OF m, of s t k] by (auto simp: bit_simps)
  have r: "bit (ELF32_R_SYM i) k \<longleftrightarrow> bit i (8 + k)" "bit (ELF32_R_TYPE i) k \<longleftrightarrow> k < 8 \<and> bit i k" for i k
    unfolding ELF32_R_SYM_def ELF32_R_TYPE_def elf_masks by (auto simp: bit_simps)
  fix x :: "u32 \<times> u32" assume "case x of (s, t) \<Rightarrow> s < 2 ^ 24 \<and> t < 2 ^ 8"
  then obtain s t where x: "x = (s, t)" and f: "s < 2 ^ 24" "t < 2 ^ 8" by auto
  have "ELF32_R_SYM (ELF32_R_INFO s t) = s" "ELF32_R_TYPE (ELF32_R_INFO s t) = t"
    by (rule bit_word_eqI; use not_bit_small [OF f(1)] not_bit_small [OF f(2)] in \<open>fastforce simp: b r\<close>)+
  then show "(\<lambda>i. (ELF32_R_SYM i, ELF32_R_TYPE i)) ((\<lambda>(s, t). ELF32_R_INFO s t) x) = x" by (simp add: x)
next
  fix i
  have m: "x AND mask 8 < 2 ^ 8" for x :: u32 using and_mask_less [of 8 x] by simp
  have "ELF32_R_INFO (ELF32_R_SYM i) (ELF32_R_TYPE i) = i"
    unfolding ELF32_R_INFO_def ELF32_R_SYM_def ELF32_R_TYPE_def elf_masks
    by (rule bit_word_eqI) (auto simp: bit_push_add [OF m] bit_simps)
  then show "(\<lambda>(s, t). ELF32_R_INFO s t) (ELF32_R_SYM i, ELF32_R_TYPE i) = i" by simp
  have "ELF32_R_SYM i < 2 ^ 24"
    by (rule less_2p_bits) (use bit_u32_less [of i] in \<open>fastforce simp: ELF32_R_SYM_def bit_simps\<close>)+
  then show "case (ELF32_R_SYM i, ELF32_R_TYPE i) of (s, t) \<Rightarrow> s < 2 ^ 24 \<and> t < 2 ^ 8"
    using m [of i] by (simp add: ELF32_R_TYPE_def elf_masks)
qed

interpretation r64: full_code "\<lambda>(s, t). ELF64_R_INFO s t" "\<lambda>i. (ELF64_R_SYM i, ELF64_R_TYPE i)"
  "\<lambda>(s, t). s < 2 ^ 32 \<and> t < 2 ^ 32"
proof unfold_locales
  fix x :: "u64 \<times> u64" assume "case x of (s, t) \<Rightarrow> s < 2 ^ 32 \<and> t < 2 ^ 32"
  then obtain s t where x: "x = (s, t)" and f: "s < 2 ^ 32" "t < 2 ^ 32" by auto
  have b: "bit (ELF64_R_INFO s t) k \<longleftrightarrow> k < 64 \<and> (if k < 32 then bit t k else bit s (k - 32))" for k
    unfolding ELF64_R_INFO_def using bit_push_add [OF f(2), of s k] by simp
  have r: "bit (ELF64_R_SYM i) k \<longleftrightarrow> bit i (32 + k)" "bit (ELF64_R_TYPE i) k \<longleftrightarrow> k < 32 \<and> bit i k" for i k
    unfolding ELF64_R_SYM_def ELF64_R_TYPE_def elf_masks by (auto simp: bit_simps)
  have "ELF64_R_SYM (ELF64_R_INFO s t) = s" "ELF64_R_TYPE (ELF64_R_INFO s t) = t"
    by (rule bit_word_eqI; use not_bit_small [OF f(1)] not_bit_small [OF f(2)] in \<open>fastforce simp: b r\<close>)+
  then show "(\<lambda>i. (ELF64_R_SYM i, ELF64_R_TYPE i)) ((\<lambda>(s, t). ELF64_R_INFO s t) x) = x" by (simp add: x)
next
  fix i
  have m: "x AND mask 32 < 2 ^ 32" for x :: u64 using and_mask_less [of 32 x] by simp
  have "ELF64_R_INFO (ELF64_R_SYM i) (ELF64_R_TYPE i) = i"
    unfolding ELF64_R_INFO_def ELF64_R_SYM_def ELF64_R_TYPE_def elf_masks
    by (rule bit_word_eqI) (auto simp: bit_push_add [OF m] bit_simps)
  then show "(\<lambda>(s, t). ELF64_R_INFO s t) (ELF64_R_SYM i, ELF64_R_TYPE i) = i" by simp
  have "ELF64_R_SYM i < 2 ^ 32"
    by (rule less_2p_bits) (use bit_u64_less [of i] in \<open>fastforce simp: ELF64_R_SYM_def bit_simps\<close>)+
  then show "case (ELF64_R_SYM i, ELF64_R_TYPE i) of (s, t) \<Rightarrow> s < 2 ^ 32 \<and> t < 2 ^ 32"
    using m [of i] by (simp add: ELF64_R_TYPE_def elf_masks)
qed

lemma st_info:
  assumes "b < 2 ^ 4"
  shows "ELF32_ST_BIND (ELF32_ST_INFO b t) = b" and "ELF32_ST_TYPE (ELF32_ST_INFO b t) = t AND 0xf"
proof -
  have m: "t AND mask 4 < 2 ^ 4" using and_mask_less [of 4 t] by simp
  note i = bit_push_add [OF m, of b]
  show "ELF32_ST_BIND (ELF32_ST_INFO b t) = b"
    unfolding ELF32_ST_BIND_def ELF32_ST_INFO_def elf_masks
    by (rule bit_word_eqI) (use not_bit_small [OF assms] in \<open>fastforce simp: bit_simps i\<close>)
  show "ELF32_ST_TYPE (ELF32_ST_INFO b t) = t AND 0xf"
    unfolding ELF32_ST_TYPE_def ELF32_ST_INFO_def elf_masks
    by (rule bit_word_eqI) (auto simp: bit_simps i)
qed

lemma m_info:
  assumes "s < 2 ^ 24"
  shows "ELF32_M_SYM (ELF32_M_INFO s z) = s" and "ELF32_M_SIZE (ELF32_M_INFO s z) = ucast z"
proof -
  have m: "(ucast (ucast z :: u8) :: u32) < 2 ^ 8"
    by (rule less_2p_bits) (auto simp: bit_simps dest: bit_u8_less)
  note i = bit_push_add [OF m, of s]
  show "ELF32_M_SYM (ELF32_M_INFO s z) = s"
    unfolding ELF32_M_SYM_def ELF32_M_INFO_def
    by (rule bit_word_eqI) (use not_bit_small [OF assms] in \<open>fastforce simp: bit_simps i\<close>)
  show "ELF32_M_SIZE (ELF32_M_INFO s z) = ucast z"
    unfolding ELF32_M_SIZE_def ELF32_M_INFO_def
    by (rule bit_word_eqI) (auto simp: bit_simps i)
qed

text \<open>relocation information and its symbol and type correspond one to one, in the 32-bit form
  for symbols of 24 bits and types of 8, in the 64-bit form for 32 bits each; the 32-bit form cuts a
  larger type to its low byte, while in the 64-bit form its upper half is added to the symbol.
  Symbol information and move records read back as they were built.\<close>

theorem elf_information:
  "(s < 2 ^ 24 \<and> t < 2 ^ 8 \<and> ELF32_R_INFO s t = i) = (ELF32_R_SYM i = s \<and> ELF32_R_TYPE i = t) \<and>
   (s' < 2 ^ 32 \<and> t' < 2 ^ 32 \<and> ELF64_R_INFO s' t' = i') = (ELF64_R_SYM i' = s' \<and> ELF64_R_TYPE i' = t') \<and>
   ELF32_R_INFO s t = ELF32_R_INFO s (t AND 0xff) \<and>
   ELF64_R_INFO s' t' = ELF64_R_INFO (s' + drop_bit 32 t') (t' AND 0xffffffff) \<and>
   (b < 2 ^ 4 \<and> ty < 2 ^ 4 \<longrightarrow>
      ELF64_ST_BIND (ELF64_ST_INFO b ty) = b \<and> ELF64_ST_TYPE (ELF64_ST_INFO b ty) = ty) \<and>
   (s < 2 ^ 24 \<longrightarrow> ELF64_M_SYM (ELF64_M_INFO s z) = s \<and> ELF64_M_SIZE (ELF64_M_INFO s z) = ucast z)"
proof (intro conjI impI)
  show "(s < 2 ^ 24 \<and> t < 2 ^ 8 \<and> ELF32_R_INFO s t = i) = (ELF32_R_SYM i = s \<and> ELF32_R_TYPE i = t)"
    using r32.code_iff [of "(s, t)" i] by simp
  show "(s' < 2 ^ 32 \<and> t' < 2 ^ 32 \<and> ELF64_R_INFO s' t' = i') = (ELF64_R_SYM i' = s' \<and> ELF64_R_TYPE i' = t')"
    using r64.code_iff [of "(s', t')" i'] by simp
  show "ELF32_R_INFO s t = ELF32_R_INFO s (t AND 0xff)"
    by (simp add: ELF32_R_INFO_def and.assoc)
  have t: "push_bit 32 (drop_bit 32 t') + (t' AND mask 32) = t'"
    using bits_ident [of 32 t'] by (simp only: take_bit_eq_mask)
  have "ELF64_R_INFO (s' + drop_bit 32 t') (t' AND mask 32) =
      push_bit 32 s' + (push_bit 32 (drop_bit 32 t') + (t' AND mask 32))"
    unfolding ELF64_R_INFO_def push_bit_add by (rule add.assoc)
  then show "ELF64_R_INFO s' t' = ELF64_R_INFO (s' + drop_bit 32 t') (t' AND 0xffffffff)"
    unfolding t elf_masks by (simp only: ELF64_R_INFO_def)
  assume a: "b < 2 ^ 4 \<and> ty < 2 ^ 4"
  then show "ELF64_ST_BIND (ELF64_ST_INFO b ty) = b"
    by (simp add: ELF64_ST_BIND_def ELF64_ST_INFO_def st_info)
  have "ty AND 0xf = ty"
    using a take_bit_less [of ty 4] by (simp add: take_bit_eq_mask elf_masks)
  then show "ELF64_ST_TYPE (ELF64_ST_INFO b ty) = ty"
    using a by (simp add: ELF64_ST_TYPE_def ELF64_ST_INFO_def st_info)
next
  assume "s < 2 ^ 24"
  then show "ELF64_M_SYM (ELF64_M_INFO s z) = s" and "ELF64_M_SIZE (ELF64_M_INFO s z) = ucast z"
    by (simp_all add: ELF64_M_SYM_def ELF64_M_INFO_def ELF64_M_SIZE_def m_info)
qed

end
