(* ===== verification/Bit_Set.thy ===== *)
theory Bit_Set
  imports Prelude
begin

text \<open>
  Sets of small numbers kept as bits of an array of words: the contract of their operations, and
  the arithmetic of finding a bit.  The clients are the processor sets, the descriptor sets and the
  chunk and message filters.
\<close>

section \<open>Bits of an array\<close>

definition array_bit :: "'a::len word list \<Rightarrow> nat \<Rightarrow> bool" where
  "array_bit xs i \<longleftrightarrow> bit (xs ! (i div LENGTH('a))) (i mod LENGTH('a))"

lemma div_in_array: "i div LENGTH('a::len) < n \<longleftrightarrow> i < n * LENGTH('a)"
  by (simp add: div_less_iff_less_mult)

lemma test_bit_mask:
  "(w AND push_bit k 1 \<noteq> 0) \<longleftrightarrow> bit (w :: 'a::len word) k"
  by (simp add: and_exp_eq_0_iff_not_bit)

lemma same_place:
  "0 < n \<Longrightarrow> i div n = j div n \<and> i mod n = j mod n \<longleftrightarrow> i = (j :: nat)"
  by (metis div_mult_mod_eq)

lemma array_bit_set:
  fixes xs :: "'a::len word list"
  assumes "i < length xs * LENGTH('a)"
  shows "array_bit (xs[i div LENGTH('a) := xs ! (i div LENGTH('a)) OR push_bit (i mod LENGTH('a)) 1]) j \<longleftrightarrow>
    j = i \<or> array_bit xs j"
  using assms same_place [of "LENGTH('a)" i j]
  by (auto simp: array_bit_def nth_list_update div_in_array bit_simps)

lemma array_bit_clear:
  fixes xs :: "'a::len word list"
  assumes "i < length xs * LENGTH('a)"
  shows "array_bit (xs[i div LENGTH('a) := xs ! (i div LENGTH('a)) AND NOT (push_bit (i mod LENGTH('a)) 1)]) j \<longleftrightarrow>
    j \<noteq> i \<and> array_bit xs j"
  using assms same_place [of "LENGTH('a)" i j]
  by (auto simp: array_bit_def nth_list_update div_in_array bit_simps)

lemma array_bit_test:
  fixes xs :: "'a::len word list"
  shows "(xs ! (i div LENGTH('a)) AND push_bit (i mod LENGTH('a)) 1 \<noteq> 0) \<longleftrightarrow> array_bit xs i"
  by (simp only: array_bit_def test_bit_mask)

lemma array_bit_replicate:
  "i < n * LENGTH('a::len) \<Longrightarrow> array_bit (replicate n (w :: 'a word)) i \<longleftrightarrow> bit w (i mod LENGTH('a))"
  by (simp add: array_bit_def div_in_array)

lemma array_eq_iff:
  fixes xs ys :: "'a::len word list"
  assumes "length xs = length ys"
  shows "xs = ys \<longleftrightarrow> (\<forall>i < length xs * LENGTH('a). array_bit xs i = array_bit ys i)"
proof
  assume r: "\<forall>i < length xs * LENGTH('a). array_bit xs i = array_bit ys i"
  show "xs = ys"
  proof (rule nth_equalityI [OF assms], rule bit_word_eqI)
    fix k n assume k: "k < length xs" and n: "n < LENGTH('a)"
    let ?i = "k * LENGTH('a) + n"
    have "?i < Suc k * LENGTH('a)" using n by simp
    also have "\<dots> \<le> length xs * LENGTH('a)" using k by (intro mult_le_mono1) simp
    finally have "array_bit xs ?i = array_bit ys ?i" using r by blast
    then show "bit (xs ! k) n = bit (ys ! k) n" using n by (simp add: array_bit_def)
  qed
qed simp

section \<open>The contract of a bounded set\<close>

definition elems :: "nat \<Rightarrow> ('s \<Rightarrow> nat \<Rightarrow> bool) \<Rightarrow> 's \<Rightarrow> nat set" where
  "elems cap isin s = {i. i < cap \<and> isin s i}"

locale bounded_set =
  fixes cap :: nat
    and invar :: "'s \<Rightarrow> bool"
    and isin :: "'s \<Rightarrow> nat \<Rightarrow> bool"
    and ins :: "nat \<Rightarrow> 's \<Rightarrow> 's"
    and del :: "nat \<Rightarrow> 's \<Rightarrow> 's"
  assumes isin_ins: "invar s \<Longrightarrow> i < cap \<Longrightarrow> j < cap \<Longrightarrow> isin (ins i s) j \<longleftrightarrow> j = i \<or> isin s j"
    and isin_del: "invar s \<Longrightarrow> i < cap \<Longrightarrow> j < cap \<Longrightarrow> isin (del i s) j \<longleftrightarrow> j \<noteq> i \<and> isin s j"
    and invar_ins: "invar s \<Longrightarrow> i < cap \<Longrightarrow> invar (ins i s)"
    and invar_del: "invar s \<Longrightarrow> i < cap \<Longrightarrow> invar (del i s)"
begin

lemma elems_ins: "invar s \<Longrightarrow> i < cap \<Longrightarrow> elems cap isin (ins i s) = insert i (elems cap isin s)"
  by (auto simp: elems_def isin_ins)

lemma elems_del: "invar s \<Longrightarrow> i < cap \<Longrightarrow> elems cap isin (del i s) = elems cap isin s - {i}"
  by (auto simp: elems_def isin_del)

lemma ins_all:
  "invar s \<Longrightarrow> \<forall>i \<in> set xs. i < cap \<Longrightarrow>
   invar (fold ins xs s) \<and> elems cap isin (fold ins xs s) = set xs \<union> elems cap isin s"
  by (induction xs arbitrary: s) (auto simp: elems_ins invar_ins)

lemma del_all:
  "invar s \<Longrightarrow> \<forall>i \<in> set xs. i < cap \<Longrightarrow>
   invar (fold del xs s) \<and> elems cap isin (fold del xs s) = elems cap isin s - set xs"
  by (induction xs arbitrary: s) (auto simp: elems_del invar_del)

end

text \<open>With a test for equality that sees nothing but the elements.\<close>

locale extensional_set = bounded_set +
  assumes same_elems: "invar s \<Longrightarrow> invar t \<Longrightarrow> elems cap isin s = elems cap isin t \<Longrightarrow> s = t"
begin

lemma ins_twice: "invar s \<Longrightarrow> i < cap \<Longrightarrow> ins i (ins i s) = ins i s"
  by (rule same_elems) (simp_all add: invar_ins elems_ins)

lemma ins_commute: "invar s \<Longrightarrow> i < cap \<Longrightarrow> j < cap \<Longrightarrow> ins i (ins j s) = ins j (ins i s)"
  by (rule same_elems) (auto simp: invar_ins elems_ins)

lemma del_ins: "invar s \<Longrightarrow> i < cap \<Longrightarrow> \<not> isin s i \<Longrightarrow> del i (ins i s) = s"
  by (rule same_elems) (simp_all add: invar_ins invar_del elems_ins elems_del, simp add: elems_def)

end

end
