(* ===== verification/Cpu_Set.thy ===== *)
theory Cpu_Set
  imports Bit_Set
begin

text \<open>
  Sets of processors (\<^verbatim>\<open>bits/cpu-set.h\<close>, \<^verbatim>\<open>sched.h\<close>): an array of 64-bit words, whose size in bytes the
  \<^verbatim>\<open>_S\<close> forms take as an argument.  The loops are those of the portable forms of the macros.
\<close>

type_synonym cpu_set = "u64 list"

definition CPUELT :: "u64 \<Rightarrow> nat" where
  "CPUELT cpu = unat (cpu div 64)"

definition CPUMASK :: "u64 \<Rightarrow> u64" where
  "CPUMASK cpu = push_bit (unat (cpu mod 64)) 1"

function cpu_zero_loop :: "nat \<Rightarrow> nat \<Rightarrow> cpu_set \<Rightarrow> cpu_set" where
  "cpu_zero_loop i imax s = (if i < imax then cpu_zero_loop (i + 1) imax (s[i := 0]) else s)"
  by pat_completeness auto
termination by (relation "measure (\<lambda>(i, imax, s). imax - i)") auto

definition CPU_ZERO_S :: "u64 \<Rightarrow> cpu_set \<Rightarrow> cpu_set" where
  "CPU_ZERO_S setsize s = cpu_zero_loop 0 (unat (setsize div 8)) s"

definition CPU_SET_S :: "u64 \<Rightarrow> u64 \<Rightarrow> cpu_set \<Rightarrow> cpu_set" where
  "CPU_SET_S cpu setsize s =
     (if cpu div 8 < setsize then s[CPUELT cpu := s ! CPUELT cpu OR CPUMASK cpu] else s)"

definition CPU_CLR_S :: "u64 \<Rightarrow> u64 \<Rightarrow> cpu_set \<Rightarrow> cpu_set" where
  "CPU_CLR_S cpu setsize s =
     (if cpu div 8 < setsize then s[CPUELT cpu := s ! CPUELT cpu AND NOT (CPUMASK cpu)] else s)"

definition CPU_ISSET_S :: "u64 \<Rightarrow> u64 \<Rightarrow> cpu_set \<Rightarrow> bool" where
  "CPU_ISSET_S cpu setsize s =
     (if cpu div 8 < setsize then s ! CPUELT cpu AND CPUMASK cpu \<noteq> 0 else False)"

function cpu_equal_loop :: "nat \<Rightarrow> nat \<Rightarrow> cpu_set \<Rightarrow> cpu_set \<Rightarrow> nat" where
  "cpu_equal_loop i imax s t =
     (if i < imax then (if s ! i \<noteq> t ! i then i else cpu_equal_loop (i + 1) imax s t) else i)"
  by pat_completeness auto
termination by (relation "measure (\<lambda>(i, imax, s, t). imax - i)") auto

definition CPU_EQUAL_S :: "u64 \<Rightarrow> cpu_set \<Rightarrow> cpu_set \<Rightarrow> bool" where
  "CPU_EQUAL_S setsize s t \<longleftrightarrow>
     cpu_equal_loop 0 (unat (setsize div 8)) s t = unat (setsize div 8)"

function cpu_op_loop :: "(u64 \<Rightarrow> u64 \<Rightarrow> u64) \<Rightarrow> nat \<Rightarrow> nat \<Rightarrow> cpu_set \<Rightarrow> cpu_set \<Rightarrow> cpu_set \<Rightarrow> cpu_set" where
  "cpu_op_loop f i imax dest s t =
     (if i < imax then cpu_op_loop f (i + 1) imax (dest[i := f (s ! i) (t ! i)]) s t else dest)"
  by pat_completeness auto
termination by (relation "measure (\<lambda>(f, i, imax, dest, s, t). imax - i)") auto

definition CPU_OP_S :: "u64 \<Rightarrow> cpu_set \<Rightarrow> cpu_set \<Rightarrow> cpu_set \<Rightarrow> (u64 \<Rightarrow> u64 \<Rightarrow> u64) \<Rightarrow> cpu_set" where
  "CPU_OP_S setsize dest s t f = cpu_op_loop f 0 (unat (setsize div 8)) dest s t"

definition CPU_ALLOC_SIZE :: "u64 \<Rightarrow> u64" where
  "CPU_ALLOC_SIZE count = ((count + 64 - 1) div 64) * 8"

definition CPU_SET :: "u64 \<Rightarrow> cpu_set \<Rightarrow> cpu_set" where
  "CPU_SET cpu s = CPU_SET_S cpu 128 s"

definition CPU_CLR :: "u64 \<Rightarrow> cpu_set \<Rightarrow> cpu_set" where
  "CPU_CLR cpu s = CPU_CLR_S cpu 128 s"

definition CPU_ISSET :: "u64 \<Rightarrow> cpu_set \<Rightarrow> bool" where
  "CPU_ISSET cpu s \<longleftrightarrow> CPU_ISSET_S cpu 128 s"

definition CPU_ZERO :: "cpu_set \<Rightarrow> cpu_set" where
  "CPU_ZERO s = CPU_ZERO_S 128 s"

definition CPU_EQUAL :: "cpu_set \<Rightarrow> cpu_set \<Rightarrow> bool" where
  "CPU_EQUAL s t \<longleftrightarrow> CPU_EQUAL_S 128 s t"

definition CPU_AND :: "cpu_set \<Rightarrow> cpu_set \<Rightarrow> cpu_set \<Rightarrow> cpu_set" where
  "CPU_AND dest s t = CPU_OP_S 128 dest s t (AND)"

definition CPU_OR :: "cpu_set \<Rightarrow> cpu_set \<Rightarrow> cpu_set \<Rightarrow> cpu_set" where
  "CPU_OR dest s t = CPU_OP_S 128 dest s t (OR)"

definition CPU_XOR :: "cpu_set \<Rightarrow> cpu_set \<Rightarrow> cpu_set \<Rightarrow> cpu_set" where
  "CPU_XOR dest s t = CPU_OP_S 128 dest s t (XOR)"

definition CPU_AND_S :: "u64 \<Rightarrow> cpu_set \<Rightarrow> cpu_set \<Rightarrow> cpu_set \<Rightarrow> cpu_set" where
  "CPU_AND_S setsize dest s t = CPU_OP_S setsize dest s t (AND)"

definition CPU_OR_S :: "u64 \<Rightarrow> cpu_set \<Rightarrow> cpu_set \<Rightarrow> cpu_set \<Rightarrow> cpu_set" where
  "CPU_OR_S setsize dest s t = CPU_OP_S setsize dest s t (OR)"

definition CPU_XOR_S :: "u64 \<Rightarrow> cpu_set \<Rightarrow> cpu_set \<Rightarrow> cpu_set \<Rightarrow> cpu_set" where
  "CPU_XOR_S setsize dest s t = CPU_OP_S setsize dest s t (XOR)"

declare cpu_zero_loop.simps [simp del] cpu_equal_loop.simps [simp del] cpu_op_loop.simps [simp del]

section \<open>The loops\<close>

lemma cpu_zero_loop:
  "imax \<le> length s \<Longrightarrow>
   length (cpu_zero_loop i imax s) = length s \<and>
   (\<forall>k < length s. cpu_zero_loop i imax s ! k = (if i \<le> k \<and> k < imax then 0 else s ! k))"
proof (induction i imax s rule: cpu_zero_loop.induct)
  case (1 i imax s)
  show ?case
  proof (cases "i < imax")
    case True
    have u: "cpu_zero_loop i imax s = cpu_zero_loop (i + 1) imax (s[i := 0])"
      using True by (subst cpu_zero_loop.simps) simp
    show ?thesis
      using 1(1) [OF True] 1(2) True unfolding u by (auto simp: nth_list_update not_less_eq_eq le_less_Suc_eq)
  next
    case False
    then show ?thesis by (subst (1 2) cpu_zero_loop.simps) auto
  qed
qed

lemma cpu_equal_loop:
  "i \<le> imax \<Longrightarrow> cpu_equal_loop i imax s t = imax \<longleftrightarrow> (\<forall>k. i \<le> k \<and> k < imax \<longrightarrow> s ! k = t ! k)"
proof (induction i imax s t rule: cpu_equal_loop.induct)
  case (1 i imax s t)
  show ?case
  proof (cases "i < imax")
    case True
    have "(\<forall>k. i \<le> k \<and> k < imax \<longrightarrow> s ! k = t ! k) \<longleftrightarrow>
        s ! i = t ! i \<and> (\<forall>k. i + 1 \<le> k \<and> k < imax \<longrightarrow> s ! k = t ! k)"
      using True by (auto simp: le_Suc_eq) (metis Suc_leI le_neq_implies_less)
    then show ?thesis using True 1 by (subst cpu_equal_loop.simps) auto
  next
    case False
    then show ?thesis using 1 by (subst cpu_equal_loop.simps) auto
  qed
qed

lemma cpu_op_loop:
  "imax \<le> length dest \<Longrightarrow>
   length (cpu_op_loop f i imax dest s t) = length dest \<and>
   (\<forall>k < length dest. cpu_op_loop f i imax dest s t ! k =
      (if i \<le> k \<and> k < imax then f (s ! k) (t ! k) else dest ! k))"
proof (induction f i imax dest s t rule: cpu_op_loop.induct)
  case (1 f i imax dest s t)
  show ?case
  proof (cases "i < imax")
    case True
    have u: "cpu_op_loop f i imax dest s t = cpu_op_loop f (i + 1) imax (dest[i := f (s ! i) (t ! i)]) s t"
      using True by (subst cpu_op_loop.simps) simp
    show ?thesis
      using 1(1) [OF True] 1(2) True unfolding u by (auto simp: nth_list_update not_less_eq_eq le_less_Suc_eq)
  next
    case False
    then show ?thesis by (subst (1 2) cpu_op_loop.simps) auto
  qed
qed

section \<open>Refinement of sets\<close>

text \<open>The 1024 processors of the static type; a set is well formed when it has its sixteen words.\<close>

definition cpu_elems :: "cpu_set \<Rightarrow> nat set" where
  "cpu_elems s = elems 1024 (\<lambda>s i. CPU_ISSET (of_nat i) s) s"

lemma place_of_nat:
  assumes "i < 2 ^ 64"
  shows "CPUELT (of_nat i) = i div 64" and "CPUMASK (of_nat i) = push_bit (i mod 64) 1"
    and "unat (of_nat i div 8 :: u64) = i div 8"
proof -
  have u: "unat (of_nat i :: u64) = i" using assms by (simp add: unat_of_nat64)
  show "CPUELT (of_nat i) = i div 64" by (simp add: CPUELT_def unat_div u)
  show "CPUMASK (of_nat i) = push_bit (i mod 64) 1" by (simp add: CPUMASK_def unat_mod u)
  show "unat (of_nat i div 8 :: u64) = i div 8" by (simp add: unat_div u)
qed

text \<open>The operations on the bits of an array at least as long as the stated size.\<close>

lemma cpu_ops_array:
  assumes "i < 2 ^ 64" and "unat setsize \<le> length s * 8"
  shows "CPU_ISSET_S (of_nat i) setsize s \<longleftrightarrow> i < unat setsize * 8 \<and> array_bit s i"
    and "array_bit (CPU_SET_S (of_nat i) setsize s) j \<longleftrightarrow> j = i \<and> i < unat setsize * 8 \<or> array_bit s j"
    and "array_bit (CPU_CLR_S (of_nat i) setsize s) j \<longleftrightarrow> \<not> (j = i \<and> i < unat setsize * 8) \<and> array_bit s j"
proof -
  have c: "of_nat i div 8 < setsize \<longleftrightarrow> i < unat setsize * 8"
    by (simp add: word_less_nat_alt place_of_nat(3) [OF assms(1)] div_less_iff_less_mult)
  note p = place_of_nat(1,2) [OF assms(1)]
  have l: "i < unat setsize * 8 \<Longrightarrow> i < length s * LENGTH(64)" using assms(2) by simp
  show "CPU_ISSET_S (of_nat i) setsize s \<longleftrightarrow> i < unat setsize * 8 \<and> array_bit s i"
    using array_bit_test [of s i] unfolding CPU_ISSET_S_def c p by simp
  show "array_bit (CPU_SET_S (of_nat i) setsize s) j \<longleftrightarrow> j = i \<and> i < unat setsize * 8 \<or> array_bit s j"
    using array_bit_set [OF l, of j] unfolding CPU_SET_S_def c p by auto
  show "array_bit (CPU_CLR_S (of_nat i) setsize s) j \<longleftrightarrow> \<not> (j = i \<and> i < unat setsize * 8) \<and> array_bit s j"
    using array_bit_clear [OF l, of j] unfolding CPU_CLR_S_def c p by auto
qed

lemma length_cpu_ops [simp]:
  "length (CPU_SET_S c z s) = length s" "length (CPU_CLR_S c z s) = length s"
  "length s = 16 \<Longrightarrow> length (CPU_ZERO s) = 16" "length d = 16 \<Longrightarrow> length (CPU_OP_S 128 d s t f) = 16"
  using cpu_zero_loop [of 16 s 0] cpu_op_loop [of 16 d f 0 s t]
  by (simp_all add: CPU_SET_S_def CPU_CLR_S_def CPU_ZERO_def CPU_ZERO_S_def CPU_OP_S_def)

interpretation cpus: extensional_set 1024 "\<lambda>s. length s = 16" "\<lambda>s i. CPU_ISSET (of_nat i) s"
  "\<lambda>i. CPU_SET (of_nat i)" "\<lambda>i. CPU_CLR (of_nat i)"
proof unfold_locales
  fix s t :: cpu_set and i j :: nat
  note a = cpu_ops_array [where setsize = 128]
  assume s: "length s = 16"
  show "length (CPU_SET (of_nat i) s) = 16" "length (CPU_CLR (of_nat i) s) = 16"
    using s by (simp_all add: CPU_SET_def CPU_CLR_def)
  {
    assume i: "i < 1024" and j: "j < 1024"
    show "CPU_ISSET (of_nat j) (CPU_SET (of_nat i) s) \<longleftrightarrow> j = i \<or> CPU_ISSET (of_nat j) s"
      and "CPU_ISSET (of_nat j) (CPU_CLR (of_nat i) s) \<longleftrightarrow> j \<noteq> i \<and> CPU_ISSET (of_nat j) s"
      using i j s by (auto simp: CPU_ISSET_def CPU_SET_def CPU_CLR_def a)
  }
  assume t: "length t = 16"
    and e: "elems 1024 (\<lambda>s i. CPU_ISSET (of_nat i) s) s = elems 1024 (\<lambda>s i. CPU_ISSET (of_nat i) s) t"
  have "array_bit s k = array_bit t k" if "k < 1024" for k
    using e [THEN eqset_imp_iff, of k] that s t by (simp add: elems_def CPU_ISSET_def a)
  then show "s = t" using array_eq_iff [of s t] s t by simp
qed

subsection \<open>A set inside a larger array\<close>

text \<open>
  The properties are about arrays that may go on behind the sixteen words, so that a word written
  or read out of range would be seen.
\<close>

lemma cpu_isset: "16 \<le> length s \<Longrightarrow> i < 1024 \<Longrightarrow> CPU_ISSET (of_nat i) s \<longleftrightarrow> bit (s ! (i div 64)) (i mod 64)"
  by (simp add: CPU_ISSET_def cpu_ops_array array_bit_def)

lemma cpu_elems_iff: "16 \<le> length s \<Longrightarrow> i \<in> cpu_elems s \<longleftrightarrow> i < 1024 \<and> bit (s ! (i div 64)) (i mod 64)"
  by (auto simp: cpu_elems_def elems_def cpu_isset)

lemma cpu_far:
  assumes "i < 2 ^ 64" and "\<not> i < 1024"
  shows "CPU_SET (of_nat i) s = s" and "CPU_CLR (of_nat i) s = s" and "\<not> CPU_ISSET (of_nat i) s"
  using assms by (auto simp: CPU_SET_def CPU_SET_S_def CPU_CLR_def CPU_CLR_S_def CPU_ISSET_def CPU_ISSET_S_def
      word_less_nat_alt place_of_nat(3) div_less_iff_less_mult)

lemma drop_update: "k < n \<Longrightarrow> drop n (xs[k := x]) = drop n xs"
  by (simp add: drop_update_cancel)

lemma cpu_add_remove:
  assumes "16 \<le> length s" and "i < 2 ^ 64"
  shows "cpu_elems (CPU_SET (of_nat i) s) = (if i < 1024 then insert i (cpu_elems s) else cpu_elems s)"
    and "cpu_elems (CPU_CLR (of_nat i) s) = cpu_elems s - {i}"
    and "drop 16 (CPU_SET (of_nat i) s) = drop 16 s" and "drop 16 (CPU_CLR (of_nat i) s) = drop 16 s"
proof -
  note a = cpu_ops_array [where setsize = 128]
  have e: "j \<in> cpu_elems u \<longleftrightarrow> j < 1024 \<and> array_bit u j" if "16 \<le> length u" for j u
    using that by (auto simp: cpu_elems_iff array_bit_def)
  have l: "16 \<le> length (CPU_SET (of_nat i) s)" "16 \<le> length (CPU_CLR (of_nat i) s)"
    using assms(1) by (simp_all add: CPU_SET_def CPU_CLR_def)
  show "cpu_elems (CPU_SET (of_nat i) s) = (if i < 1024 then insert i (cpu_elems s) else cpu_elems s)"
  proof (cases "i < 1024")
    case True
    then show ?thesis using assms by (auto simp: e [OF l(1)] e CPU_SET_def a)
  qed (simp add: cpu_far [OF assms(2)])
  show "cpu_elems (CPU_CLR (of_nat i) s) = cpu_elems s - {i}"
  proof (cases "i < 1024")
    case True
    then show ?thesis using assms by (auto simp: e [OF l(2)] e CPU_CLR_def a)
  qed (auto simp: cpu_far [OF assms(2)] cpu_elems_def elems_def)
  have "i < 1024 \<Longrightarrow> CPUELT (of_nat i) < 16" by (simp add: place_of_nat [OF assms(2)])
  then have "drop 16 (CPU_SET (of_nat i) s) = drop 16 s \<and> drop 16 (CPU_CLR (of_nat i) s) = drop 16 s"
    using cpu_far [OF assms(2)]
    by (cases "i < 1024") (auto simp: CPU_SET_def CPU_SET_S_def CPU_CLR_def CPU_CLR_S_def drop_update)
  then show "drop 16 (CPU_SET (of_nat i) s) = drop 16 s" and "drop 16 (CPU_CLR (of_nat i) s) = drop 16 s"
    by simp_all
qed

lemma cpu_whole:
  assumes "16 \<le> length s"
  shows "cpu_elems (CPU_ZERO s) = {}" and "drop 16 (CPU_ZERO s) = drop 16 s"
    and "k < 16 \<Longrightarrow> CPU_OP_S 128 s t u f ! k = f (t ! k) (u ! k)"
    and "length (CPU_OP_S 128 s t u f) = length s" and "drop 16 (CPU_OP_S 128 s t u f) = drop 16 s"
proof -
  have z: "length (CPU_ZERO s) = length s"
    "\<forall>k < length s. CPU_ZERO s ! k = (if k < 16 then 0 else s ! k)"
    using cpu_zero_loop [of 16 s 0] assms by (simp_all add: CPU_ZERO_def CPU_ZERO_S_def)
  moreover have "x div 64 < 16" if "x < 1024" for x :: nat using that by linarith
  ultimately show "cpu_elems (CPU_ZERO s) = {}" "drop 16 (CPU_ZERO s) = drop 16 s"
    using assms by (auto simp: cpu_elems_iff intro: nth_equalityI)
  have o: "length (CPU_OP_S 128 s t u f) = length s"
    "\<forall>k < length s. CPU_OP_S 128 s t u f ! k = (if k < 16 then f (t ! k) (u ! k) else s ! k)"
    using cpu_op_loop [of 16 s f 0 t u] assms by (simp_all add: CPU_OP_S_def)
  then show "k < 16 \<Longrightarrow> CPU_OP_S 128 s t u f ! k = f (t ! k) (u ! k)"
    "length (CPU_OP_S 128 s t u f) = length s" "drop 16 (CPU_OP_S 128 s t u f) = drop 16 s"
    using assms by (auto intro: nth_equalityI)
qed

lemma cpu_equal_elems:
  assumes "16 \<le> length s" and "16 \<le> length t"
  shows "CPU_EQUAL s t \<longleftrightarrow> cpu_elems s = cpu_elems t"
proof -
  have "(\<forall>k < 16. s ! k = t ! k) \<longleftrightarrow> cpu_elems s = cpu_elems t"
  proof
    assume "\<forall>k < 16. s ! k = t ! k"
    then show "cpu_elems s = cpu_elems t" using assms by (auto simp: cpu_elems_iff)
  next
    assume e: "cpu_elems s = cpu_elems t"
    have "s ! k = t ! k" if "k < 16" for k
    proof (rule bit_word_eqI)
      fix n assume n: "n < LENGTH(64)"
      have "k * 64 + n < 1024" using that n by simp
      then show "bit (s ! k) n \<longleftrightarrow> bit (t ! k) n"
        using e [THEN eqset_imp_iff, of "k * 64 + n"] n assms by (simp add: cpu_elems_iff)
    qed
    then show "\<forall>k < 16. s ! k = t ! k" by blast
  qed
  then show ?thesis
    using cpu_equal_loop [of 0 16 s t] by (simp add: CPU_EQUAL_def CPU_EQUAL_S_def)
qed

text \<open>C11: a processor set is the first sixteen words of an array, holds processors below 1024, and its
  macros are the set operations: adding or removing a processor beyond that changes nothing and none
  is found there, clearing gives the empty set, the bitwise combinations are intersection, union
  and symmetric difference, and two sets are equal exactly when they have the same elements.  No
  macro changes a word of the array behind the sixteen, nor do their results depend on it.\<close>

theorem cpu_set_refines_sets:
  assumes "16 \<le> length s" and "16 \<le> length t" and "16 \<le> length d" and "i < 2 ^ 64"
  shows "cpu_elems (CPU_ZERO s) = {} \<and>
    cpu_elems (CPU_SET (of_nat i) s) = (if i < 1024 then insert i (cpu_elems s) else cpu_elems s) \<and>
    cpu_elems (CPU_CLR (of_nat i) s) = cpu_elems s - {i} \<and>
    (CPU_ISSET (of_nat i) s \<longleftrightarrow> i \<in> cpu_elems s) \<and>
    cpu_elems (CPU_AND d s t) = cpu_elems s \<inter> cpu_elems t \<and>
    cpu_elems (CPU_OR d s t) = cpu_elems s \<union> cpu_elems t \<and>
    cpu_elems (CPU_XOR d s t) = (cpu_elems s - cpu_elems t) \<union> (cpu_elems t - cpu_elems s) \<and>
    (CPU_EQUAL s t \<longleftrightarrow> cpu_elems s = cpu_elems t) \<and>
    drop 16 (CPU_ZERO s) = drop 16 s \<and>
    drop 16 (CPU_SET (of_nat i) s) = drop 16 s \<and> drop 16 (CPU_CLR (of_nat i) s) = drop 16 s \<and>
    drop 16 (CPU_AND d s t) = drop 16 d \<and> drop 16 (CPU_OR d s t) = drop 16 d \<and>
    drop 16 (CPU_XOR d s t) = drop 16 d"
proof (intro conjI)
  show "CPU_ISSET (of_nat i) s \<longleftrightarrow> i \<in> cpu_elems s"
    using cpu_far(3) [OF assms(4)] by (auto simp: cpu_elems_def elems_def)
  have ops: "i \<in> cpu_elems (CPU_OP_S 128 d s t f) \<longleftrightarrow> i < 1024 \<and> bit (f (s ! (i div 64)) (t ! (i div 64))) (i mod 64)" for f i
    using assms(3) by (simp add: cpu_elems_iff cpu_whole less_mult_imp_div_less cong: conj_cong)
  note el = cpu_elems_iff [OF assms(1)] cpu_elems_iff [OF assms(2)]
  show "cpu_elems (CPU_AND d s t) = cpu_elems s \<inter> cpu_elems t"
    by (auto simp: CPU_AND_def ops el bit_and_iff)
  show "cpu_elems (CPU_OR d s t) = cpu_elems s \<union> cpu_elems t"
    by (auto simp: CPU_OR_def ops el bit_or_iff)
  show "cpu_elems (CPU_XOR d s t) = (cpu_elems s - cpu_elems t) \<union> (cpu_elems t - cpu_elems s)"
    by (auto simp: CPU_XOR_def ops el bit_xor_iff)
qed (use assms in \<open>simp_all add: cpu_add_remove cpu_whole cpu_equal_elems CPU_AND_def CPU_OR_def CPU_XOR_def\<close>)

lemma cpu_set_refines_sets_witness:
  "let s = replicate 17 7; t = replicate 18 4; d = replicate 17 0; i = 1030 in
    cpu_elems (CPU_ZERO s) = {} \<and>
    cpu_elems (CPU_SET (of_nat i) s) = (if i < 1024 then insert i (cpu_elems s) else cpu_elems s) \<and>
    cpu_elems (CPU_CLR (of_nat i) s) = cpu_elems s - {i} \<and>
    (CPU_ISSET (of_nat i) s \<longleftrightarrow> i \<in> cpu_elems s) \<and>
    cpu_elems (CPU_AND d s t) = cpu_elems s \<inter> cpu_elems t \<and>
    cpu_elems (CPU_OR d s t) = cpu_elems s \<union> cpu_elems t \<and>
    cpu_elems (CPU_XOR d s t) = (cpu_elems s - cpu_elems t) \<union> (cpu_elems t - cpu_elems s) \<and>
    (CPU_EQUAL s t \<longleftrightarrow> cpu_elems s = cpu_elems t) \<and>
    drop 16 (CPU_ZERO s) = drop 16 s \<and>
    drop 16 (CPU_SET (of_nat i) s) = drop 16 s \<and> drop 16 (CPU_CLR (of_nat i) s) = drop 16 s \<and>
    drop 16 (CPU_AND d s t) = drop 16 d \<and> drop 16 (CPU_OR d s t) = drop 16 d \<and>
    drop 16 (CPU_XOR d s t) = drop 16 d"
  unfolding Let_def by (rule cpu_set_refines_sets) simp_all

text \<open>The size computed for a dynamic set holds every processor asked for, and less than one word
  more.\<close>

lemma cpu_alloc_size:
  assumes "unat count + 63 < 2 ^ 64"
  shows "unat count \<le> unat (CPU_ALLOC_SIZE count) * 8 \<and> unat (CPU_ALLOC_SIZE count) * 8 < unat count + 64"
proof -
  have "unat (count + 64 - 1) = unat count + 63"
  proof -
    have "count + 64 - 1 = count + 63" by simp
    then show ?thesis using assms by (simp only:) (subst unat_add_lem [THEN iffD1], simp_all)
  qed
  then have d: "unat ((count + 64 - 1) div 64) = (unat count + 63) div 64"
    by (simp only: unat_div) simp
  have "(unat count + 63) div 64 * 8 < 2 ^ 64" using assms by simp
  then have "unat (CPU_ALLOC_SIZE count) = (unat count + 63) div 64 * 8"
    unfolding CPU_ALLOC_SIZE_def using d by (subst unat_mult_lem [THEN iffD1]) simp_all
  then show ?thesis by presburger
qed

end
