(* ===== verification/Descriptor_Set.thy ===== *)
theory Descriptor_Set
  imports Bit_Set
begin

text \<open>
  Descriptor sets (\<^verbatim>\<open>bits/select.h\<close>, \<^verbatim>\<open>sys/select.h\<close>): sixteen 64-bit words.  The macros do not
  check the descriptor; an access outside the array has no defined result and is \<open>None\<close> here.  A
  descriptor is a nonnegative \<^verbatim>\<open>int\<close>.
\<close>

type_synonym fd_set = "u64 list"

definition FD_ELT :: "nat \<Rightarrow> nat" where
  "FD_ELT d = d div 64"

definition FD_MASK :: "nat \<Rightarrow> u64" where
  "FD_MASK d = push_bit (d mod 64) 1"

function fd_zero_loop :: "nat \<Rightarrow> fd_set \<Rightarrow> fd_set" where
  "fd_zero_loop i arr = (if i < 16 then fd_zero_loop (i + 1) (arr[i := 0]) else arr)"
  by pat_completeness auto
termination by (relation "measure (\<lambda>(i, arr). 16 - i)") auto

definition FD_ZERO :: "fd_set \<Rightarrow> fd_set" where
  "FD_ZERO s = fd_zero_loop 0 s"

definition FD_SET :: "nat \<Rightarrow> fd_set \<Rightarrow> fd_set option" where
  "FD_SET d s = (if FD_ELT d < length s then Some (s[FD_ELT d := s ! FD_ELT d OR FD_MASK d]) else None)"

definition FD_CLR :: "nat \<Rightarrow> fd_set \<Rightarrow> fd_set option" where
  "FD_CLR d s = (if FD_ELT d < length s then Some (s[FD_ELT d := s ! FD_ELT d AND NOT (FD_MASK d)]) else None)"

definition FD_ISSET :: "nat \<Rightarrow> fd_set \<Rightarrow> bool option" where
  "FD_ISSET d s = (if FD_ELT d < length s then Some (s ! FD_ELT d AND FD_MASK d \<noteq> 0) else None)"

declare fd_zero_loop.simps [simp del]

lemma fd_zero_loop: "length s = 16 \<Longrightarrow> fd_zero_loop 0 s = replicate 16 0"
  by (simp add: fd_zero_loop.simps list_eq_iff_nth_eq nth_list_update less_Suc_eq numeral_eq_Suc)

lemma fd_defined: "FD_ELT d < length s \<longleftrightarrow> d < length s * 64"
  by (simp add: FD_ELT_def div_less_iff_less_mult)

lemma fd_some: "d < length s * 64 \<Longrightarrow> \<exists>t u. FD_SET d s = Some t \<and> FD_CLR d s = Some u"
  by (simp add: FD_SET_def FD_CLR_def fd_defined)

lemma fd_bits:
  "FD_ISSET d s = (if d < length s * 64 then Some (array_bit s d) else None)"
  "FD_SET d s = Some t \<Longrightarrow> length t = length s \<and> array_bit t e = (e = d \<or> array_bit s e)"
  "FD_CLR d s = Some t \<Longrightarrow> length t = length s \<and> array_bit t e = (e \<noteq> d \<and> array_bit s e)"
  using array_bit_test [of s d] array_bit_set [of d s e] array_bit_clear [of d s e]
  by (auto simp: FD_ISSET_def FD_SET_def FD_CLR_def fd_defined FD_ELT_def FD_MASK_def split: if_splits)

definition fd_elems :: "fd_set \<Rightarrow> nat set" where
  "fd_elems s = elems 1024 (\<lambda>s d. FD_ISSET d s = Some True) s"

interpretation fds: extensional_set 1024 "\<lambda>s. length s = 16" "\<lambda>s d. FD_ISSET d s = Some True"
  "\<lambda>d s. the (FD_SET d s)" "\<lambda>d s. the (FD_CLR d s)"
proof unfold_locales
  fix s t :: fd_set and i j :: nat
  assume s: "length s = 16"
  {
    assume i: "i < 1024"
    obtain u v where u: "FD_SET i s = Some u" and v: "FD_CLR i s = Some v"
      using fd_some [of i s] i s by auto
    note b = fd_bits(2) [OF u] fd_bits(3) [OF v]
    show "length (the (FD_SET i s)) = 16" "length (the (FD_CLR i s)) = 16"
      using b s u v by simp_all
    assume "j < 1024"
    then show "FD_ISSET j (the (FD_SET i s)) = Some True \<longleftrightarrow> j = i \<or> FD_ISSET j s = Some True"
      and "FD_ISSET j (the (FD_CLR i s)) = Some True \<longleftrightarrow> j \<noteq> i \<and> FD_ISSET j s = Some True"
      using b [of j] s u v by (simp_all add: fd_bits(1))
  }
  assume t: "length t = 16"
    and e: "elems 1024 (\<lambda>s d. FD_ISSET d s = Some True) s = elems 1024 (\<lambda>s d. FD_ISSET d s = Some True) t"
  have "array_bit s k = array_bit t k" if "k < 1024" for k
    using e [THEN eqset_imp_iff, of k] that s t by (simp add: elems_def fd_bits(1))
  then show "s = t" using array_eq_iff [of s t] s t by simp
qed

text \<open>for descriptors below 1024 the macros are the operations of a set of descriptors; for any
  other descriptor they reach outside the array.\<close>

theorem fd_set_refines_sets:
  assumes "length s = 16"
  shows "fd_elems (FD_ZERO s) = {} \<and>
    (if d < 1024 then
       (\<exists>t u. FD_SET d s = Some t \<and> fd_elems t = insert d (fd_elems s) \<and>
          FD_CLR d s = Some u \<and> fd_elems u = fd_elems s - {d} \<and>
          length t = 16 \<and> length u = 16) \<and>
       FD_ISSET d s = Some (d \<in> fd_elems s)
     else FD_SET d s = None \<and> FD_CLR d s = None \<and> FD_ISSET d s = None)"
proof (rule conjI)
  show "fd_elems (FD_ZERO s) = {}"
    using assms by (auto simp: FD_ZERO_def fd_zero_loop fd_elems_def elems_def fd_bits(1) array_bit_replicate)
  show "if d < 1024 then
       (\<exists>t u. FD_SET d s = Some t \<and> fd_elems t = insert d (fd_elems s) \<and>
          FD_CLR d s = Some u \<and> fd_elems u = fd_elems s - {d} \<and>
          length t = 16 \<and> length u = 16) \<and>
       FD_ISSET d s = Some (d \<in> fd_elems s)
     else FD_SET d s = None \<and> FD_CLR d s = None \<and> FD_ISSET d s = None"
  proof (cases "d < 1024")
    case True
    then obtain t u where t: "FD_SET d s = Some t" and u: "FD_CLR d s = Some u"
      using fd_some [of d s] assms by auto
    have "FD_ISSET d s = Some (d \<in> fd_elems s)"
      using True assms by (simp add: fd_elems_def elems_def fd_bits(1))
    then show ?thesis
      using True t u fds.elems_ins [OF assms True] fds.elems_del [OF assms True]
        fds.invar_ins [OF assms True] fds.invar_del [OF assms True] by (auto simp: fd_elems_def)
  next
    case False
    then show ?thesis
      using assms fd_defined [of d s] by (simp add: FD_SET_def FD_CLR_def FD_ISSET_def)
  qed
qed

lemma fd_set_refines_sets_witness:
  "fd_elems (FD_ZERO (replicate 16 5)) = {} \<and>
    (if 1030 < (1024 :: nat) then
       (\<exists>t u. FD_SET 1030 (replicate 16 5) = Some t \<and> fd_elems t = insert 1030 (fd_elems (replicate 16 5)) \<and>
          FD_CLR 1030 (replicate 16 5) = Some u \<and> fd_elems u = fd_elems (replicate 16 5) - {1030} \<and>
          length t = 16 \<and> length u = 16) \<and>
       FD_ISSET 1030 (replicate 16 5) = Some (1030 \<in> fd_elems (replicate 16 5))
     else FD_SET 1030 (replicate 16 5) = None \<and> FD_CLR 1030 (replicate 16 5) = None \<and>
       FD_ISSET 1030 (replicate 16 5) = None)"
  by (rule fd_set_refines_sets) simp

end
