(* ===== verification/Filter_Map.thy ===== *)
theory Filter_Map
  imports Bit_Set
begin

text \<open>
  Bit maps of packet filters: the chunk map of \<^verbatim>\<open>linux/netfilter/xt_sctp.h\<close> over chunk types, and the
  ICMPv6 filter of \<^verbatim>\<open>netinet/icmp6.h\<close>, whose set bits block a message type.  Types are one byte.
\<close>

section \<open>Chunk maps\<close>

text \<open>The member is declared with \<^verbatim>\<open>256 / sizeof (__u32)\<close>, which is 64 words.\<close>

type_synonym chunkmap = "u32 list"

definition chunkmap_words :: nat where
  "chunkmap_words = 256 div 4"

definition SCTP_CHUNKMAP_SET :: "u8 \<Rightarrow> chunkmap \<Rightarrow> chunkmap" where
  "SCTP_CHUNKMAP_SET ty cm = cm[unat ty div 32 := cm ! (unat ty div 32) OR push_bit (unat ty mod 32) 1]"

definition SCTP_CHUNKMAP_CLEAR :: "u8 \<Rightarrow> chunkmap \<Rightarrow> chunkmap" where
  "SCTP_CHUNKMAP_CLEAR ty cm = cm[unat ty div 32 := cm ! (unat ty div 32) AND NOT (push_bit (unat ty mod 32) 1)]"

definition SCTP_CHUNKMAP_IS_SET :: "chunkmap \<Rightarrow> u8 \<Rightarrow> bool" where
  "SCTP_CHUNKMAP_IS_SET cm ty \<longleftrightarrow> cm ! (unat ty div 32) AND push_bit (unat ty mod 32) 1 \<noteq> 0"

definition SCTP_CHUNKMAP_RESET :: "chunkmap \<Rightarrow> chunkmap" where
  "SCTP_CHUNKMAP_RESET cm = replicate (length cm) 0"

definition SCTP_CHUNKMAP_SET_ALL :: "chunkmap \<Rightarrow> chunkmap" where
  "SCTP_CHUNKMAP_SET_ALL cm = replicate (length cm) (NOT 0)"

definition SCTP_CHUNKMAP_COPY :: "chunkmap \<Rightarrow> chunkmap \<Rightarrow> chunkmap" where
  "SCTP_CHUNKMAP_COPY destmap srcmap = take (length srcmap) srcmap @ drop (length srcmap) destmap"

text \<open>The loops over the first \<open>n\<close> words, from word \<open>i\<close>.\<close>

function sctp_chunkmap_is_clear :: "chunkmap \<Rightarrow> nat \<Rightarrow> nat \<Rightarrow> bool" where
  "sctp_chunkmap_is_clear cm n i =
     (if i < n then (if cm ! i \<noteq> 0 then False else sctp_chunkmap_is_clear cm n (i + 1)) else True)"
  by pat_completeness auto
termination by (relation "measure (\<lambda>(cm, n, i). n - i)") auto

function sctp_chunkmap_is_all_set :: "chunkmap \<Rightarrow> nat \<Rightarrow> nat \<Rightarrow> bool" where
  "sctp_chunkmap_is_all_set cm n i =
     (if i < n then (if cm ! i \<noteq> NOT 0 then False else sctp_chunkmap_is_all_set cm n (i + 1)) else True)"
  by pat_completeness auto
termination by (relation "measure (\<lambda>(cm, n, i). n - i)") auto

definition SCTP_CHUNKMAP_IS_CLEAR :: "chunkmap \<Rightarrow> bool" where
  "SCTP_CHUNKMAP_IS_CLEAR cm = sctp_chunkmap_is_clear cm (length cm) 0"

definition SCTP_CHUNKMAP_IS_ALL_SET :: "chunkmap \<Rightarrow> bool" where
  "SCTP_CHUNKMAP_IS_ALL_SET cm = sctp_chunkmap_is_all_set cm (length cm) 0"

declare sctp_chunkmap_is_clear.simps [simp del] sctp_chunkmap_is_all_set.simps [simp del]

lemma is_clear_iff: "sctp_chunkmap_is_clear cm n i \<longleftrightarrow> (\<forall>k. i \<le> k \<and> k < n \<longrightarrow> cm ! k = 0)"
proof (induction cm n i rule: sctp_chunkmap_is_clear.induct)
  case (1 cm n i)
  then show ?case
    by (subst sctp_chunkmap_is_clear.simps) (auto, metis Suc_leI le_neq_implies_less)
qed

lemma is_all_set_iff: "sctp_chunkmap_is_all_set cm n i \<longleftrightarrow> (\<forall>k. i \<le> k \<and> k < n \<longrightarrow> cm ! k = NOT 0)"
proof (induction cm n i rule: sctp_chunkmap_is_all_set.induct)
  case (1 cm n i)
  then show ?case
    by (subst sctp_chunkmap_is_all_set.simps) (auto, metis Suc_leI le_neq_implies_less)
qed

lemma whole_map_tests:
  "SCTP_CHUNKMAP_IS_CLEAR cm \<longleftrightarrow> cm = replicate (length cm) 0"
  "SCTP_CHUNKMAP_IS_ALL_SET cm \<longleftrightarrow> cm = replicate (length cm) (NOT 0)"
  by (simp_all add: SCTP_CHUNKMAP_IS_CLEAR_def SCTP_CHUNKMAP_IS_ALL_SET_def is_clear_iff
      is_all_set_iff list_eq_iff_nth_eq)

definition chunk_elems :: "chunkmap \<Rightarrow> nat set" where
  "chunk_elems cm = elems 256 (\<lambda>m i. SCTP_CHUNKMAP_IS_SET m (of_nat i)) cm"

lemma chunk_bits:
  assumes "length cm = chunkmap_words" and "i < 256"
  shows "SCTP_CHUNKMAP_IS_SET cm (of_nat i) \<longleftrightarrow> array_bit cm i"
    and "array_bit (SCTP_CHUNKMAP_SET (of_nat i) cm) j \<longleftrightarrow> j = i \<or> array_bit cm j"
    and "array_bit (SCTP_CHUNKMAP_CLEAR (of_nat i) cm) j \<longleftrightarrow> j \<noteq> i \<and> array_bit cm j"
proof -
  have u: "unat (of_nat i :: u8) = i" using assms(2) by (rule unat_of_nat8)
  have l: "i < length cm * LENGTH(32)" using assms by (simp add: chunkmap_words_def)
  show "SCTP_CHUNKMAP_IS_SET cm (of_nat i) \<longleftrightarrow> array_bit cm i"
    using array_bit_test [of cm i] unfolding SCTP_CHUNKMAP_IS_SET_def u by simp
  show "array_bit (SCTP_CHUNKMAP_SET (of_nat i) cm) j \<longleftrightarrow> j = i \<or> array_bit cm j"
    using array_bit_set [OF l, of j] unfolding SCTP_CHUNKMAP_SET_def u by simp
  show "array_bit (SCTP_CHUNKMAP_CLEAR (of_nat i) cm) j \<longleftrightarrow> j \<noteq> i \<and> array_bit cm j"
    using array_bit_clear [OF l, of j] unfolding SCTP_CHUNKMAP_CLEAR_def u by simp
qed

lemma length_chunk_ops [simp]:
  "length (SCTP_CHUNKMAP_SET ty cm) = length cm" "length (SCTP_CHUNKMAP_CLEAR ty cm) = length cm"
  "length (SCTP_CHUNKMAP_RESET cm) = length cm" "length (SCTP_CHUNKMAP_SET_ALL cm) = length cm"
  by (simp_all add: SCTP_CHUNKMAP_SET_def SCTP_CHUNKMAP_CLEAR_def SCTP_CHUNKMAP_RESET_def SCTP_CHUNKMAP_SET_ALL_def)

interpretation chunks: bounded_set 256 "\<lambda>cm. length cm = chunkmap_words"
  "\<lambda>cm i. SCTP_CHUNKMAP_IS_SET cm (of_nat i)" "\<lambda>i. SCTP_CHUNKMAP_SET (of_nat i)" "\<lambda>i. SCTP_CHUNKMAP_CLEAR (of_nat i)"
  by unfold_locales (simp_all add: chunk_bits)

text \<open>C27: setting, clearing and testing a chunk type are the operations of a set of types, and change
  no word behind the eight that hold the types; clearing or filling a whole map gives the empty and
  the full set.  The two tests of a whole map hold exactly when every word is zero, or every word is
  all ones, and then the set is empty, or full.  But the map has 64 words where the types need eight:
  setting all 256 types one by one does not make the map one that is tested as full.\<close>

theorem chunkmap_refines_sets:
  assumes "length cm = chunkmap_words" and "length src = chunkmap_words"
  shows "chunk_elems (SCTP_CHUNKMAP_SET ty cm) = insert (unat ty) (chunk_elems cm) \<and>
    chunk_elems (SCTP_CHUNKMAP_CLEAR ty cm) = chunk_elems cm - {unat ty} \<and>
    (SCTP_CHUNKMAP_IS_SET cm ty \<longleftrightarrow> unat ty \<in> chunk_elems cm) \<and>
    chunk_elems (SCTP_CHUNKMAP_RESET cm) = {} \<and> SCTP_CHUNKMAP_IS_CLEAR (SCTP_CHUNKMAP_RESET cm) \<and>
    chunk_elems (SCTP_CHUNKMAP_SET_ALL cm) = {..< 256} \<and> SCTP_CHUNKMAP_IS_ALL_SET (SCTP_CHUNKMAP_SET_ALL cm) \<and>
    SCTP_CHUNKMAP_COPY cm src = src \<and>
    (SCTP_CHUNKMAP_IS_CLEAR cm \<longleftrightarrow> cm = replicate chunkmap_words 0) \<and>
    (SCTP_CHUNKMAP_IS_ALL_SET cm \<longleftrightarrow> cm = replicate chunkmap_words (NOT 0)) \<and>
    (SCTP_CHUNKMAP_IS_CLEAR cm \<longrightarrow> chunk_elems cm = {}) \<and>
    (SCTP_CHUNKMAP_IS_ALL_SET cm \<longrightarrow> chunk_elems cm = {..< 256}) \<and>
    drop 8 (SCTP_CHUNKMAP_SET ty cm) = drop 8 cm \<and> drop 8 (SCTP_CHUNKMAP_CLEAR ty cm) = drop 8 cm \<and>
    (let full = fold (\<lambda>i. SCTP_CHUNKMAP_SET (of_nat i)) [0..<256] (SCTP_CHUNKMAP_RESET cm)
     in chunk_elems full = {..< 256} \<and> \<not> SCTP_CHUNKMAP_IS_ALL_SET full)"
proof (intro conjI impI)
  have ty: "unat ty < 256" "of_nat (unat ty) = ty"
    using unsigned_less [of ty, where 'a = nat] by simp_all
  have mem: "i \<in> chunk_elems m \<longleftrightarrow> i < 256 \<and> array_bit m i" if "length m = chunkmap_words" for i m
    using that by (auto simp: chunk_elems_def elems_def chunk_bits)
  show "chunk_elems (SCTP_CHUNKMAP_SET ty cm) = insert (unat ty) (chunk_elems cm)"
    using chunks.elems_ins [OF assms(1) ty(1)] by (simp add: chunk_elems_def ty(2))
  show "chunk_elems (SCTP_CHUNKMAP_CLEAR ty cm) = chunk_elems cm - {unat ty}"
    using chunks.elems_del [OF assms(1) ty(1)] by (simp add: chunk_elems_def ty(2))
  show "SCTP_CHUNKMAP_IS_SET cm ty \<longleftrightarrow> unat ty \<in> chunk_elems cm"
    using ty by (simp add: chunk_elems_def elems_def)
  have reset: "\<not> array_bit (SCTP_CHUNKMAP_RESET cm) i" if "i < 256" for i
    using that assms by (simp add: SCTP_CHUNKMAP_RESET_def array_bit_replicate chunkmap_words_def)
  then show e: "chunk_elems (SCTP_CHUNKMAP_RESET cm) = {}" by (auto simp: mem assms)
  show "SCTP_CHUNKMAP_IS_CLEAR (SCTP_CHUNKMAP_RESET cm)"
    by (simp add: SCTP_CHUNKMAP_IS_CLEAR_def is_clear_iff) (simp add: SCTP_CHUNKMAP_RESET_def)
  have "array_bit (SCTP_CHUNKMAP_SET_ALL cm) i" if "i < 256" for i
    using that assms unfolding SCTP_CHUNKMAP_SET_ALL_def
    by (subst array_bit_replicate) (simp_all add: chunkmap_words_def bit_not_iff)
  then show all: "chunk_elems (SCTP_CHUNKMAP_SET_ALL cm) = {..< 256}" by (auto simp: mem assms)
  show "SCTP_CHUNKMAP_IS_ALL_SET (SCTP_CHUNKMAP_SET_ALL cm)"
    by (simp add: SCTP_CHUNKMAP_IS_ALL_SET_def is_all_set_iff) (simp add: SCTP_CHUNKMAP_SET_ALL_def)
  show "SCTP_CHUNKMAP_COPY cm src = src" using assms by (simp add: SCTP_CHUNKMAP_COPY_def)
  show clear: "SCTP_CHUNKMAP_IS_CLEAR cm \<longleftrightarrow> cm = replicate chunkmap_words 0"
    and full: "SCTP_CHUNKMAP_IS_ALL_SET cm \<longleftrightarrow> cm = replicate chunkmap_words (NOT 0)"
    using assms(1) by (simp_all add: whole_map_tests)
  show "chunk_elems cm = {}" if "SCTP_CHUNKMAP_IS_CLEAR cm"
    using that e assms(1) unfolding clear by (simp add: SCTP_CHUNKMAP_RESET_def)
  show "chunk_elems cm = {..< 256}" if "SCTP_CHUNKMAP_IS_ALL_SET cm"
    using that all assms(1) unfolding full by (simp add: SCTP_CHUNKMAP_SET_ALL_def)
  have "unat ty div 32 < 8" using ty(1) by linarith
  then show "drop 8 (SCTP_CHUNKMAP_SET ty cm) = drop 8 cm" "drop 8 (SCTP_CHUNKMAP_CLEAR ty cm) = drop 8 cm"
    by (simp_all add: SCTP_CHUNKMAP_SET_def SCTP_CHUNKMAP_CLEAR_def drop_update_cancel)
  let ?set = "\<lambda>i. SCTP_CHUNKMAP_SET (of_nat i)"
  let ?full = "fold ?set [0..<256] (SCTP_CHUNKMAP_RESET cm)"
  have high: "xs ! 8 = 0 \<Longrightarrow> fold ?set is xs ! 8 = 0 \<and> length (fold ?set is xs) = length xs" for "is" and xs :: chunkmap
  proof (induction "is" arbitrary: xs)
    case (Cons i "is")
    have "unat (of_nat i :: u8) div 32 \<noteq> 8" using unsigned_less [of "of_nat i :: u8", where 'a = nat] by simp
    then have "SCTP_CHUNKMAP_SET (of_nat i) xs ! 8 = 0"
      using Cons.prems by (simp add: SCTP_CHUNKMAP_SET_def)
    then show ?case using Cons.IH [of "SCTP_CHUNKMAP_SET (of_nat i) xs"] by simp
  qed simp
  have "SCTP_CHUNKMAP_RESET cm ! 8 = 0" using assms by (simp add: SCTP_CHUNKMAP_RESET_def chunkmap_words_def)
  note h = high [OF this, of "[0..<256]"]
  then have "?full ! 8 \<noteq> NOT 0" "8 < length ?full" using assms by (simp_all add: chunkmap_words_def)
  then have "\<not> SCTP_CHUNKMAP_IS_ALL_SET ?full"
    unfolding SCTP_CHUNKMAP_IS_ALL_SET_def is_all_set_iff by blast
  moreover have "chunk_elems ?full = {..< 256}"
    using chunks.ins_all [of "SCTP_CHUNKMAP_RESET cm" "[0..<256]"] assms e
    by (auto simp: chunk_elems_def)
  ultimately show "let full = ?full in chunk_elems full = {..< 256} \<and> \<not> SCTP_CHUNKMAP_IS_ALL_SET full"
    by (simp add: Let_def)
qed

definition sample_map :: chunkmap where
  "sample_map = replicate 64 9"

lemma chunkmap_refines_sets_witness:
  "chunk_elems (SCTP_CHUNKMAP_SET 40 sample_map) = insert (unat (40 :: u8)) (chunk_elems sample_map) \<and>
    chunk_elems (SCTP_CHUNKMAP_CLEAR 40 sample_map) = chunk_elems sample_map - {unat (40 :: u8)} \<and>
    (SCTP_CHUNKMAP_IS_SET sample_map 40 \<longleftrightarrow> unat (40 :: u8) \<in> chunk_elems sample_map) \<and>
    chunk_elems (SCTP_CHUNKMAP_RESET sample_map) = {} \<and> SCTP_CHUNKMAP_IS_CLEAR (SCTP_CHUNKMAP_RESET sample_map) \<and>
    chunk_elems (SCTP_CHUNKMAP_SET_ALL sample_map) = {..< 256} \<and>
    SCTP_CHUNKMAP_IS_ALL_SET (SCTP_CHUNKMAP_SET_ALL sample_map) \<and>
    SCTP_CHUNKMAP_COPY sample_map sample_map = sample_map \<and>
    (let full = fold (\<lambda>i. SCTP_CHUNKMAP_SET (of_nat i)) [0..<256] (SCTP_CHUNKMAP_RESET sample_map)
     in chunk_elems full = {..< 256} \<and> \<not> SCTP_CHUNKMAP_IS_ALL_SET full)"
proof -
  have "length sample_map = chunkmap_words"
    by (simp add: sample_map_def chunkmap_words_def)
  from chunkmap_refines_sets [OF this this, of 40] show ?thesis by blast
qed

section \<open>The ICMPv6 filter\<close>

type_synonym icmp6_filter = "u32 list"

definition ICMP6_FILTER_WILLPASS :: "u8 \<Rightarrow> icmp6_filter \<Rightarrow> bool" where
  "ICMP6_FILTER_WILLPASS ty f \<longleftrightarrow> f ! unat (drop_bit 5 ty) AND push_bit (unat (ty AND 31)) 1 = 0"

definition ICMP6_FILTER_WILLBLOCK :: "u8 \<Rightarrow> icmp6_filter \<Rightarrow> bool" where
  "ICMP6_FILTER_WILLBLOCK ty f \<longleftrightarrow> f ! unat (drop_bit 5 ty) AND push_bit (unat (ty AND 31)) 1 \<noteq> 0"

definition ICMP6_FILTER_SETPASS :: "u8 \<Rightarrow> icmp6_filter \<Rightarrow> icmp6_filter" where
  "ICMP6_FILTER_SETPASS ty f =
     f[unat (drop_bit 5 ty) := f ! unat (drop_bit 5 ty) AND NOT (push_bit (unat (ty AND 31)) 1)]"

definition ICMP6_FILTER_SETBLOCK :: "u8 \<Rightarrow> icmp6_filter \<Rightarrow> icmp6_filter" where
  "ICMP6_FILTER_SETBLOCK ty f =
     f[unat (drop_bit 5 ty) := f ! unat (drop_bit 5 ty) OR push_bit (unat (ty AND 31)) 1]"

definition ICMP6_FILTER_SETPASSALL :: "icmp6_filter \<Rightarrow> icmp6_filter" where
  "ICMP6_FILTER_SETPASSALL f = replicate 8 0"

definition ICMP6_FILTER_SETBLOCKALL :: "icmp6_filter \<Rightarrow> icmp6_filter" where
  "ICMP6_FILTER_SETBLOCKALL f = replicate 8 0xffffffff"

lemma icmp6_place:
  "unat (drop_bit 5 ty) = unat (ty :: u8) div 32" "unat (ty AND 31) = unat ty mod 32"
proof -
  show "unat (drop_bit 5 ty) = unat ty div 32"
    using unsigned_less [of ty, where 'a = nat]
    unfolding unsigned_drop_bit_eq by (simp add: drop_bit_eq_div take_bit_nat_eq_self)
  have "(31 :: u8) = mask 5" by (simp add: mask_eq_exp_minus_1)
  then show "unat (ty AND 31) = unat ty mod 32"
    using unat_and_mask [of ty 5] by simp
qed

definition blocked :: "icmp6_filter \<Rightarrow> nat set" where
  "blocked f = elems 256 (\<lambda>f i. ICMP6_FILTER_WILLBLOCK (of_nat i) f) f"

lemma icmp6_bits:
  assumes "length f = 8" and "i < 256"
  shows "ICMP6_FILTER_WILLBLOCK (of_nat i) f \<longleftrightarrow> array_bit f i"
    and "ICMP6_FILTER_WILLPASS (of_nat i) f \<longleftrightarrow> \<not> array_bit f i"
    and "array_bit (ICMP6_FILTER_SETBLOCK (of_nat i) f) j \<longleftrightarrow> j = i \<or> array_bit f j"
    and "array_bit (ICMP6_FILTER_SETPASS (of_nat i) f) j \<longleftrightarrow> j \<noteq> i \<and> array_bit f j"
proof -
  note u = icmp6_place [of "of_nat i"] unat_of_nat8 [OF assms(2)]
  have l: "i < length f * LENGTH(32)" using assms by simp
  show "ICMP6_FILTER_WILLBLOCK (of_nat i) f \<longleftrightarrow> array_bit f i"
    and "ICMP6_FILTER_WILLPASS (of_nat i) f \<longleftrightarrow> \<not> array_bit f i"
    using array_bit_test [of f i] unfolding ICMP6_FILTER_WILLBLOCK_def ICMP6_FILTER_WILLPASS_def u by auto
  show "array_bit (ICMP6_FILTER_SETBLOCK (of_nat i) f) j \<longleftrightarrow> j = i \<or> array_bit f j"
    using array_bit_set [OF l, of j] unfolding ICMP6_FILTER_SETBLOCK_def u by simp
  show "array_bit (ICMP6_FILTER_SETPASS (of_nat i) f) j \<longleftrightarrow> j \<noteq> i \<and> array_bit f j"
    using array_bit_clear [OF l, of j] unfolding ICMP6_FILTER_SETPASS_def u by simp
qed

lemma length_icmp6 [simp]:
  "length (ICMP6_FILTER_SETBLOCK ty f) = length f" "length (ICMP6_FILTER_SETPASS ty f) = length f"
  by (simp_all add: ICMP6_FILTER_SETBLOCK_def ICMP6_FILTER_SETPASS_def)

interpretation icmp6: extensional_set 256 "\<lambda>f. length f = 8"
  "\<lambda>f i. ICMP6_FILTER_WILLBLOCK (of_nat i) f" "\<lambda>i. ICMP6_FILTER_SETBLOCK (of_nat i)" "\<lambda>i. ICMP6_FILTER_SETPASS (of_nat i)"
proof unfold_locales
  fix s t :: icmp6_filter
  assume s: "length s = 8" and t: "length t = 8"
    and e: "elems 256 (\<lambda>f i. ICMP6_FILTER_WILLBLOCK (of_nat i) f) s = elems 256 (\<lambda>f i. ICMP6_FILTER_WILLBLOCK (of_nat i) f) t"
  have "array_bit s k = array_bit t k" if "k < 256" for k
    using e [THEN eqset_imp_iff, of k] that s t by (simp add: elems_def icmp6_bits)
  then show "s = t" using array_eq_iff [of s t] s t by simp
qed (simp_all add: icmp6_bits)

lemma icmp6_all:
  "blocked (ICMP6_FILTER_SETPASSALL f) = {}" "blocked (ICMP6_FILTER_SETBLOCKALL f) = {..< 256}"
proof -
  have f: "(0xffffffff :: u32) = mask 32" by (simp add: mask_eq_exp_minus_1)
  show "blocked (ICMP6_FILTER_SETPASSALL f) = {}"
    by (auto simp: blocked_def elems_def icmp6_bits ICMP6_FILTER_SETPASSALL_def array_bit_replicate)
  have "array_bit (replicate 8 (mask 32 :: u32)) i" if "i < 256" for i
    using that by (subst array_bit_replicate) (simp_all add: bit_mask_iff)
  then show "blocked (ICMP6_FILTER_SETBLOCKALL f) = {..< 256}"
    unfolding ICMP6_FILTER_SETBLOCKALL_def f
    by (auto simp: blocked_def elems_def icmp6_bits)
qed

end
