(* ===== verification/Byte_Order.thy ===== *)
theory Byte_Order
  imports Byte_Swap
begin

text \<open>
  Conversions between the host's byte order and the orders of files and wires, in the two
  headers a machine chooses from: \<^verbatim>\<open>linux/byteorder/little_endian.h\<close> and \<^verbatim>\<open>big_endian.h\<close>.  A name is
  prefixed by the header it comes from.  The flags say which form of the swap the call takes.
\<close>

section \<open>On a little-endian host\<close>

definition little_constant_htonl :: "u32 \<Rightarrow> u32" where
  "little_constant_htonl x = constant_swab32 x"

definition little_constant_ntohl :: "u32 \<Rightarrow> u32" where
  "little_constant_ntohl x = constant_swab32 x"

definition little_constant_htons :: "u16 \<Rightarrow> u16" where
  "little_constant_htons x = constant_swab16 x"

definition little_constant_ntohs :: "u16 \<Rightarrow> u16" where
  "little_constant_ntohs x = constant_swab16 x"

definition little_constant_cpu_to_le64 :: "u64 \<Rightarrow> u64" where
  "little_constant_cpu_to_le64 x = x"

definition little_constant_le64_to_cpu :: "u64 \<Rightarrow> u64" where
  "little_constant_le64_to_cpu x = x"

definition little_constant_cpu_to_le32 :: "u32 \<Rightarrow> u32" where
  "little_constant_cpu_to_le32 x = x"

definition little_constant_le32_to_cpu :: "u32 \<Rightarrow> u32" where
  "little_constant_le32_to_cpu x = x"

definition little_constant_cpu_to_le16 :: "u16 \<Rightarrow> u16" where
  "little_constant_cpu_to_le16 x = x"

definition little_constant_le16_to_cpu :: "u16 \<Rightarrow> u16" where
  "little_constant_le16_to_cpu x = x"

definition little_constant_cpu_to_be64 :: "u64 \<Rightarrow> u64" where
  "little_constant_cpu_to_be64 x = constant_swab64 x"

definition little_constant_be64_to_cpu :: "u64 \<Rightarrow> u64" where
  "little_constant_be64_to_cpu x = constant_swab64 x"

definition little_constant_cpu_to_be32 :: "u32 \<Rightarrow> u32" where
  "little_constant_cpu_to_be32 x = constant_swab32 x"

definition little_constant_be32_to_cpu :: "u32 \<Rightarrow> u32" where
  "little_constant_be32_to_cpu x = constant_swab32 x"

definition little_constant_cpu_to_be16 :: "u16 \<Rightarrow> u16" where
  "little_constant_cpu_to_be16 x = constant_swab16 x"

definition little_constant_be16_to_cpu :: "u16 \<Rightarrow> u16" where
  "little_constant_be16_to_cpu x = constant_swab16 x"

definition little_cpu_to_le64 :: "u64 \<Rightarrow> u64" where
  "little_cpu_to_le64 x = x"

definition little_le64_to_cpu :: "u64 \<Rightarrow> u64" where
  "little_le64_to_cpu x = x"

definition little_cpu_to_le32 :: "u32 \<Rightarrow> u32" where
  "little_cpu_to_le32 x = x"

definition little_le32_to_cpu :: "u32 \<Rightarrow> u32" where
  "little_le32_to_cpu x = x"

definition little_cpu_to_le16 :: "u16 \<Rightarrow> u16" where
  "little_cpu_to_le16 x = x"

definition little_le16_to_cpu :: "u16 \<Rightarrow> u16" where
  "little_le16_to_cpu x = x"

definition little_cpu_to_be64 :: "bool \<Rightarrow> bool \<Rightarrow> u64 \<Rightarrow> u64" where
  "little_cpu_to_be64 thru_32 is_constant x = swab64 thru_32 is_constant x"

definition little_be64_to_cpu :: "bool \<Rightarrow> bool \<Rightarrow> u64 \<Rightarrow> u64" where
  "little_be64_to_cpu thru_32 is_constant x = swab64 thru_32 is_constant x"

definition little_cpu_to_be32 :: "bool \<Rightarrow> u32 \<Rightarrow> u32" where
  "little_cpu_to_be32 is_constant x = swab32 is_constant x"

definition little_be32_to_cpu :: "bool \<Rightarrow> u32 \<Rightarrow> u32" where
  "little_be32_to_cpu is_constant x = swab32 is_constant x"

definition little_cpu_to_be16 :: "bool \<Rightarrow> u16 \<Rightarrow> u16" where
  "little_cpu_to_be16 is_constant x = swab16 is_constant x"

definition little_be16_to_cpu :: "bool \<Rightarrow> u16 \<Rightarrow> u16" where
  "little_be16_to_cpu is_constant x = swab16 is_constant x"

definition little_cpu_to_le64p :: "('p \<Rightarrow> u64) \<Rightarrow> 'p \<Rightarrow> u64" where
  "little_cpu_to_le64p s p = s p"

definition little_le64_to_cpup :: "('p \<Rightarrow> u64) \<Rightarrow> 'p \<Rightarrow> u64" where
  "little_le64_to_cpup s p = s p"

definition little_cpu_to_le32p :: "('p \<Rightarrow> u32) \<Rightarrow> 'p \<Rightarrow> u32" where
  "little_cpu_to_le32p s p = s p"

definition little_le32_to_cpup :: "('p \<Rightarrow> u32) \<Rightarrow> 'p \<Rightarrow> u32" where
  "little_le32_to_cpup s p = s p"

definition little_cpu_to_le16p :: "('p \<Rightarrow> u16) \<Rightarrow> 'p \<Rightarrow> u16" where
  "little_cpu_to_le16p s p = s p"

definition little_le16_to_cpup :: "('p \<Rightarrow> u16) \<Rightarrow> 'p \<Rightarrow> u16" where
  "little_le16_to_cpup s p = s p"

definition little_cpu_to_be64p :: "bool \<Rightarrow> ('p \<Rightarrow> u64) \<Rightarrow> 'p \<Rightarrow> u64" where
  "little_cpu_to_be64p thru_32 s p = swab64p thru_32 s p"

definition little_be64_to_cpup :: "bool \<Rightarrow> ('p \<Rightarrow> u64) \<Rightarrow> 'p \<Rightarrow> u64" where
  "little_be64_to_cpup thru_32 s p = swab64p thru_32 s p"

definition little_cpu_to_be32p :: "('p \<Rightarrow> u32) \<Rightarrow> 'p \<Rightarrow> u32" where
  "little_cpu_to_be32p s p = swab32p s p"

definition little_be32_to_cpup :: "('p \<Rightarrow> u32) \<Rightarrow> 'p \<Rightarrow> u32" where
  "little_be32_to_cpup s p = swab32p s p"

definition little_cpu_to_be16p :: "('p \<Rightarrow> u16) \<Rightarrow> 'p \<Rightarrow> u16" where
  "little_cpu_to_be16p s p = swab16p s p"

definition little_be16_to_cpup :: "('p \<Rightarrow> u16) \<Rightarrow> 'p \<Rightarrow> u16" where
  "little_be16_to_cpup s p = swab16p s p"

definition little_cpu_to_le64s :: "'p \<Rightarrow> ('p \<Rightarrow> u64) \<Rightarrow> ('p \<Rightarrow> u64)" where
  "little_cpu_to_le64s p s = s"

definition little_le64_to_cpus :: "'p \<Rightarrow> ('p \<Rightarrow> u64) \<Rightarrow> ('p \<Rightarrow> u64)" where
  "little_le64_to_cpus p s = s"

definition little_cpu_to_le32s :: "'p \<Rightarrow> ('p \<Rightarrow> u32) \<Rightarrow> ('p \<Rightarrow> u32)" where
  "little_cpu_to_le32s p s = s"

definition little_le32_to_cpus :: "'p \<Rightarrow> ('p \<Rightarrow> u32) \<Rightarrow> ('p \<Rightarrow> u32)" where
  "little_le32_to_cpus p s = s"

definition little_cpu_to_le16s :: "'p \<Rightarrow> ('p \<Rightarrow> u16) \<Rightarrow> ('p \<Rightarrow> u16)" where
  "little_cpu_to_le16s p s = s"

definition little_le16_to_cpus :: "'p \<Rightarrow> ('p \<Rightarrow> u16) \<Rightarrow> ('p \<Rightarrow> u16)" where
  "little_le16_to_cpus p s = s"

definition little_cpu_to_be64s :: "bool \<Rightarrow> 'p \<Rightarrow> ('p \<Rightarrow> u64) \<Rightarrow> ('p \<Rightarrow> u64)" where
  "little_cpu_to_be64s thru_32 p s = swab64s thru_32 p s"

definition little_be64_to_cpus :: "bool \<Rightarrow> 'p \<Rightarrow> ('p \<Rightarrow> u64) \<Rightarrow> ('p \<Rightarrow> u64)" where
  "little_be64_to_cpus thru_32 p s = swab64s thru_32 p s"

definition little_cpu_to_be32s :: "'p \<Rightarrow> ('p \<Rightarrow> u32) \<Rightarrow> ('p \<Rightarrow> u32)" where
  "little_cpu_to_be32s p s = swab32s p s"

definition little_be32_to_cpus :: "'p \<Rightarrow> ('p \<Rightarrow> u32) \<Rightarrow> ('p \<Rightarrow> u32)" where
  "little_be32_to_cpus p s = swab32s p s"

definition little_cpu_to_be16s :: "'p \<Rightarrow> ('p \<Rightarrow> u16) \<Rightarrow> ('p \<Rightarrow> u16)" where
  "little_cpu_to_be16s p s = swab16s p s"

definition little_be16_to_cpus :: "'p \<Rightarrow> ('p \<Rightarrow> u16) \<Rightarrow> ('p \<Rightarrow> u16)" where
  "little_be16_to_cpus p s = swab16s p s"

section \<open>On a big-endian host\<close>

definition big_constant_htonl :: "u32 \<Rightarrow> u32" where
  "big_constant_htonl x = x"

definition big_constant_ntohl :: "u32 \<Rightarrow> u32" where
  "big_constant_ntohl x = x"

definition big_constant_htons :: "u16 \<Rightarrow> u16" where
  "big_constant_htons x = x"

definition big_constant_ntohs :: "u16 \<Rightarrow> u16" where
  "big_constant_ntohs x = x"

definition big_constant_cpu_to_le64 :: "u64 \<Rightarrow> u64" where
  "big_constant_cpu_to_le64 x = constant_swab64 x"

definition big_constant_le64_to_cpu :: "u64 \<Rightarrow> u64" where
  "big_constant_le64_to_cpu x = constant_swab64 x"

definition big_constant_cpu_to_le32 :: "u32 \<Rightarrow> u32" where
  "big_constant_cpu_to_le32 x = constant_swab32 x"

definition big_constant_le32_to_cpu :: "u32 \<Rightarrow> u32" where
  "big_constant_le32_to_cpu x = constant_swab32 x"

definition big_constant_cpu_to_le16 :: "u16 \<Rightarrow> u16" where
  "big_constant_cpu_to_le16 x = constant_swab16 x"

definition big_constant_le16_to_cpu :: "u16 \<Rightarrow> u16" where
  "big_constant_le16_to_cpu x = constant_swab16 x"

definition big_constant_cpu_to_be64 :: "u64 \<Rightarrow> u64" where
  "big_constant_cpu_to_be64 x = x"

definition big_constant_be64_to_cpu :: "u64 \<Rightarrow> u64" where
  "big_constant_be64_to_cpu x = x"

definition big_constant_cpu_to_be32 :: "u32 \<Rightarrow> u32" where
  "big_constant_cpu_to_be32 x = x"

definition big_constant_be32_to_cpu :: "u32 \<Rightarrow> u32" where
  "big_constant_be32_to_cpu x = x"

definition big_constant_cpu_to_be16 :: "u16 \<Rightarrow> u16" where
  "big_constant_cpu_to_be16 x = x"

definition big_constant_be16_to_cpu :: "u16 \<Rightarrow> u16" where
  "big_constant_be16_to_cpu x = x"

definition big_cpu_to_le64 :: "bool \<Rightarrow> bool \<Rightarrow> u64 \<Rightarrow> u64" where
  "big_cpu_to_le64 thru_32 is_constant x = swab64 thru_32 is_constant x"

definition big_le64_to_cpu :: "bool \<Rightarrow> bool \<Rightarrow> u64 \<Rightarrow> u64" where
  "big_le64_to_cpu thru_32 is_constant x = swab64 thru_32 is_constant x"

definition big_cpu_to_le32 :: "bool \<Rightarrow> u32 \<Rightarrow> u32" where
  "big_cpu_to_le32 is_constant x = swab32 is_constant x"

definition big_le32_to_cpu :: "bool \<Rightarrow> u32 \<Rightarrow> u32" where
  "big_le32_to_cpu is_constant x = swab32 is_constant x"

definition big_cpu_to_le16 :: "bool \<Rightarrow> u16 \<Rightarrow> u16" where
  "big_cpu_to_le16 is_constant x = swab16 is_constant x"

definition big_le16_to_cpu :: "bool \<Rightarrow> u16 \<Rightarrow> u16" where
  "big_le16_to_cpu is_constant x = swab16 is_constant x"

definition big_cpu_to_be64 :: "u64 \<Rightarrow> u64" where
  "big_cpu_to_be64 x = x"

definition big_be64_to_cpu :: "u64 \<Rightarrow> u64" where
  "big_be64_to_cpu x = x"

definition big_cpu_to_be32 :: "u32 \<Rightarrow> u32" where
  "big_cpu_to_be32 x = x"

definition big_be32_to_cpu :: "u32 \<Rightarrow> u32" where
  "big_be32_to_cpu x = x"

definition big_cpu_to_be16 :: "u16 \<Rightarrow> u16" where
  "big_cpu_to_be16 x = x"

definition big_be16_to_cpu :: "u16 \<Rightarrow> u16" where
  "big_be16_to_cpu x = x"

definition big_cpu_to_le64p :: "bool \<Rightarrow> ('p \<Rightarrow> u64) \<Rightarrow> 'p \<Rightarrow> u64" where
  "big_cpu_to_le64p thru_32 s p = swab64p thru_32 s p"

definition big_le64_to_cpup :: "bool \<Rightarrow> ('p \<Rightarrow> u64) \<Rightarrow> 'p \<Rightarrow> u64" where
  "big_le64_to_cpup thru_32 s p = swab64p thru_32 s p"

definition big_cpu_to_le32p :: "('p \<Rightarrow> u32) \<Rightarrow> 'p \<Rightarrow> u32" where
  "big_cpu_to_le32p s p = swab32p s p"

definition big_le32_to_cpup :: "('p \<Rightarrow> u32) \<Rightarrow> 'p \<Rightarrow> u32" where
  "big_le32_to_cpup s p = swab32p s p"

definition big_cpu_to_le16p :: "('p \<Rightarrow> u16) \<Rightarrow> 'p \<Rightarrow> u16" where
  "big_cpu_to_le16p s p = swab16p s p"

definition big_le16_to_cpup :: "('p \<Rightarrow> u16) \<Rightarrow> 'p \<Rightarrow> u16" where
  "big_le16_to_cpup s p = swab16p s p"

definition big_cpu_to_be64p :: "('p \<Rightarrow> u64) \<Rightarrow> 'p \<Rightarrow> u64" where
  "big_cpu_to_be64p s p = s p"

definition big_be64_to_cpup :: "('p \<Rightarrow> u64) \<Rightarrow> 'p \<Rightarrow> u64" where
  "big_be64_to_cpup s p = s p"

definition big_cpu_to_be32p :: "('p \<Rightarrow> u32) \<Rightarrow> 'p \<Rightarrow> u32" where
  "big_cpu_to_be32p s p = s p"

definition big_be32_to_cpup :: "('p \<Rightarrow> u32) \<Rightarrow> 'p \<Rightarrow> u32" where
  "big_be32_to_cpup s p = s p"

definition big_cpu_to_be16p :: "('p \<Rightarrow> u16) \<Rightarrow> 'p \<Rightarrow> u16" where
  "big_cpu_to_be16p s p = s p"

definition big_be16_to_cpup :: "('p \<Rightarrow> u16) \<Rightarrow> 'p \<Rightarrow> u16" where
  "big_be16_to_cpup s p = s p"

definition big_cpu_to_le64s :: "bool \<Rightarrow> 'p \<Rightarrow> ('p \<Rightarrow> u64) \<Rightarrow> ('p \<Rightarrow> u64)" where
  "big_cpu_to_le64s thru_32 p s = swab64s thru_32 p s"

definition big_le64_to_cpus :: "bool \<Rightarrow> 'p \<Rightarrow> ('p \<Rightarrow> u64) \<Rightarrow> ('p \<Rightarrow> u64)" where
  "big_le64_to_cpus thru_32 p s = swab64s thru_32 p s"

definition big_cpu_to_le32s :: "'p \<Rightarrow> ('p \<Rightarrow> u32) \<Rightarrow> ('p \<Rightarrow> u32)" where
  "big_cpu_to_le32s p s = swab32s p s"

definition big_le32_to_cpus :: "'p \<Rightarrow> ('p \<Rightarrow> u32) \<Rightarrow> ('p \<Rightarrow> u32)" where
  "big_le32_to_cpus p s = swab32s p s"

definition big_cpu_to_le16s :: "'p \<Rightarrow> ('p \<Rightarrow> u16) \<Rightarrow> ('p \<Rightarrow> u16)" where
  "big_cpu_to_le16s p s = swab16s p s"

definition big_le16_to_cpus :: "'p \<Rightarrow> ('p \<Rightarrow> u16) \<Rightarrow> ('p \<Rightarrow> u16)" where
  "big_le16_to_cpus p s = swab16s p s"

definition big_cpu_to_be64s :: "'p \<Rightarrow> ('p \<Rightarrow> u64) \<Rightarrow> ('p \<Rightarrow> u64)" where
  "big_cpu_to_be64s p s = s"

definition big_be64_to_cpus :: "'p \<Rightarrow> ('p \<Rightarrow> u64) \<Rightarrow> ('p \<Rightarrow> u64)" where
  "big_be64_to_cpus p s = s"

definition big_cpu_to_be32s :: "'p \<Rightarrow> ('p \<Rightarrow> u32) \<Rightarrow> ('p \<Rightarrow> u32)" where
  "big_cpu_to_be32s p s = s"

definition big_be32_to_cpus :: "'p \<Rightarrow> ('p \<Rightarrow> u32) \<Rightarrow> ('p \<Rightarrow> u32)" where
  "big_be32_to_cpus p s = s"

definition big_cpu_to_be16s :: "'p \<Rightarrow> ('p \<Rightarrow> u16) \<Rightarrow> ('p \<Rightarrow> u16)" where
  "big_cpu_to_be16s p s = s"

definition big_be16_to_cpus :: "'p \<Rightarrow> ('p \<Rightarrow> u16) \<Rightarrow> ('p \<Rightarrow> u16)" where
  "big_be16_to_cpus p s = s"

section \<open>What is stored\<close>

text \<open>The bytes of a value in memory, from the lowest address up, on the two hosts.\<close>

definition stored_little :: "nat \<Rightarrow> 'a::len word \<Rightarrow> u8 list" where
  "stored_little n x = word_bytes n x"

definition stored_big :: "nat \<Rightarrow> 'a::len word \<Rightarrow> u8 list" where
  "stored_big n x = rev (word_bytes n x)"

lemmas little_order_defs =
  little_constant_htonl_def little_constant_ntohl_def little_constant_htons_def little_constant_ntohs_def
  little_constant_cpu_to_le64_def little_constant_le64_to_cpu_def little_constant_cpu_to_le32_def little_constant_le32_to_cpu_def
  little_constant_cpu_to_le16_def little_constant_le16_to_cpu_def little_constant_cpu_to_be64_def little_constant_be64_to_cpu_def
  little_constant_cpu_to_be32_def little_constant_be32_to_cpu_def little_constant_cpu_to_be16_def little_constant_be16_to_cpu_def
  little_cpu_to_le64_def little_le64_to_cpu_def little_cpu_to_le32_def little_le32_to_cpu_def
  little_cpu_to_le16_def little_le16_to_cpu_def little_cpu_to_be64_def little_be64_to_cpu_def
  little_cpu_to_be32_def little_be32_to_cpu_def little_cpu_to_be16_def little_be16_to_cpu_def
  little_cpu_to_le64p_def little_le64_to_cpup_def little_cpu_to_le32p_def little_le32_to_cpup_def
  little_cpu_to_le16p_def little_le16_to_cpup_def little_cpu_to_be64p_def little_be64_to_cpup_def
  little_cpu_to_be32p_def little_be32_to_cpup_def little_cpu_to_be16p_def little_be16_to_cpup_def
  little_cpu_to_le64s_def little_le64_to_cpus_def little_cpu_to_le32s_def little_le32_to_cpus_def
  little_cpu_to_le16s_def little_le16_to_cpus_def little_cpu_to_be64s_def little_be64_to_cpus_def
  little_cpu_to_be32s_def little_be32_to_cpus_def little_cpu_to_be16s_def little_be16_to_cpus_def

lemmas big_order_defs =
  big_constant_htonl_def big_constant_ntohl_def big_constant_htons_def big_constant_ntohs_def
  big_constant_cpu_to_le64_def big_constant_le64_to_cpu_def big_constant_cpu_to_le32_def big_constant_le32_to_cpu_def
  big_constant_cpu_to_le16_def big_constant_le16_to_cpu_def big_constant_cpu_to_be64_def big_constant_be64_to_cpu_def
  big_constant_cpu_to_be32_def big_constant_be32_to_cpu_def big_constant_cpu_to_be16_def big_constant_be16_to_cpu_def
  big_cpu_to_le64_def big_le64_to_cpu_def big_cpu_to_le32_def big_le32_to_cpu_def
  big_cpu_to_le16_def big_le16_to_cpu_def big_cpu_to_be64_def big_be64_to_cpu_def
  big_cpu_to_be32_def big_be32_to_cpu_def big_cpu_to_be16_def big_be16_to_cpu_def
  big_cpu_to_le64p_def big_le64_to_cpup_def big_cpu_to_le32p_def big_le32_to_cpup_def
  big_cpu_to_le16p_def big_le16_to_cpup_def big_cpu_to_be64p_def big_be64_to_cpup_def
  big_cpu_to_be32p_def big_be32_to_cpup_def big_cpu_to_be16p_def big_be16_to_cpup_def
  big_cpu_to_le64s_def big_le64_to_cpus_def big_cpu_to_le32s_def big_le32_to_cpus_def
  big_cpu_to_le16s_def big_le16_to_cpus_def big_cpu_to_be64s_def big_be64_to_cpus_def
  big_cpu_to_be32s_def big_be32_to_cpus_def big_cpu_to_be16s_def big_be16_to_cpus_def

text \<open>
  The contract of a format: what the host stores of a converted value are the format's bytes, and
  the two directions undo each other.
\<close>

locale wire_format =
  fixes to_wire :: "'w \<Rightarrow> 'w"
    and from_wire :: "'w \<Rightarrow> 'w"
    and stored_here :: "'w \<Rightarrow> u8 list"
    and format :: "'w \<Rightarrow> u8 list"
  assumes stores_format: "stored_here (to_wire x) = format x"
    and from_to: "from_wire (to_wire x) = x"
    and to_from: "to_wire (from_wire x) = x"
begin

lemma read_format: "from_wire v = x \<longleftrightarrow> to_wire x = v"
  using from_to to_from by blast

lemma stored_as: "stored_here v = format (from_wire v)"
  using stores_format [of "from_wire v"] by (simp add: to_from)

lemma read_iff_stored:
  assumes "\<And>a b. stored_here a = stored_here b \<Longrightarrow> a = b"
  shows "from_wire v = x \<longleftrightarrow> stored_here v = format x"
  using assms stores_format [of x] unfolding read_format by metis

lemma bij_to_wire: "bij to_wire"
  by (rule bijI') (metis from_to, metis to_from)

end

interpretation little_le16: wire_format "little_cpu_to_le16" "little_le16_to_cpu"
  "stored_little 2" "stored_little 2"
  by unfold_locales
    (simp_all add: little_cpu_to_le16_def little_le16_to_cpu_def stored_little_def stored_big_def)

interpretation little_le32: wire_format "little_cpu_to_le32" "little_le32_to_cpu"
  "stored_little 4" "stored_little 4"
  by unfold_locales
    (simp_all add: little_cpu_to_le32_def little_le32_to_cpu_def stored_little_def stored_big_def)

interpretation little_le64: wire_format "little_cpu_to_le64" "little_le64_to_cpu"
  "stored_little 8" "stored_little 8"
  by unfold_locales
    (simp_all add: little_cpu_to_le64_def little_le64_to_cpu_def stored_little_def stored_big_def)

interpretation little_be16: wire_format "little_cpu_to_be16 c" "little_be16_to_cpu d"
  "stored_little 2" "stored_big 2" for c d
  by unfold_locales
    (simp_all add: little_cpu_to_be16_def little_be16_to_cpu_def stored_little_def stored_big_def swab_reverses)

interpretation little_be32: wire_format "little_cpu_to_be32 c" "little_be32_to_cpu d"
  "stored_little 4" "stored_big 4" for c d
  by unfold_locales
    (simp_all add: little_cpu_to_be32_def little_be32_to_cpu_def stored_little_def stored_big_def swab_reverses)

interpretation little_be64: wire_format "little_cpu_to_be64 t c" "little_be64_to_cpu t' d"
  "stored_little 8" "stored_big 8" for t c t' d
  by unfold_locales
    (simp_all add: little_cpu_to_be64_def little_be64_to_cpu_def stored_little_def stored_big_def swab_reverses)

interpretation big_le16: wire_format "big_cpu_to_le16 c" "big_le16_to_cpu d"
  "stored_big 2" "stored_little 2" for c d
  by unfold_locales
    (simp_all add: big_cpu_to_le16_def big_le16_to_cpu_def stored_little_def stored_big_def swab_reverses)

interpretation big_le32: wire_format "big_cpu_to_le32 c" "big_le32_to_cpu d"
  "stored_big 4" "stored_little 4" for c d
  by unfold_locales
    (simp_all add: big_cpu_to_le32_def big_le32_to_cpu_def stored_little_def stored_big_def swab_reverses)

interpretation big_le64: wire_format "big_cpu_to_le64 t c" "big_le64_to_cpu t' d"
  "stored_big 8" "stored_little 8" for t c t' d
  by unfold_locales
    (simp_all add: big_cpu_to_le64_def big_le64_to_cpu_def stored_little_def stored_big_def swab_reverses)

interpretation big_be16: wire_format "big_cpu_to_be16" "big_be16_to_cpu"
  "stored_big 2" "stored_big 2"
  by unfold_locales
    (simp_all add: big_cpu_to_be16_def big_be16_to_cpu_def stored_little_def stored_big_def)

interpretation big_be32: wire_format "big_cpu_to_be32" "big_be32_to_cpu"
  "stored_big 4" "stored_big 4"
  by unfold_locales
    (simp_all add: big_cpu_to_be32_def big_be32_to_cpu_def stored_little_def stored_big_def)

interpretation big_be64: wire_format "big_cpu_to_be64" "big_be64_to_cpu"
  "stored_big 8" "stored_big 8"
  by unfold_locales
    (simp_all add: big_cpu_to_be64_def big_be64_to_cpu_def stored_little_def stored_big_def)

lemma stored_inject:
  "stored_little 2 (a :: u16) = stored_little 2 a' \<Longrightarrow> a = a'"
  "stored_big 2 (a :: u16) = stored_big 2 a' \<Longrightarrow> a = a'"
  "stored_little 4 (b :: u32) = stored_little 4 b' \<Longrightarrow> b = b'"
  "stored_big 4 (b :: u32) = stored_big 4 b' \<Longrightarrow> b = b'"
  "stored_little 8 (c :: u64) = stored_little 8 c' \<Longrightarrow> c = c'"
  "stored_big 8 (c :: u64) = stored_big 8 c' \<Longrightarrow> c = c'"
  unfolding stored_little_def stored_big_def rev_is_rev_conv
  by (erule word_bytes_inject [rotated], simp)+

lemmas format_written =
  little_le16.stores_format big_le16.stores_format little_be16.stores_format big_be16.stores_format
  little_le32.stores_format big_le32.stores_format little_be32.stores_format big_be32.stores_format
  little_le64.stores_format big_le64.stores_format little_be64.stores_format big_be64.stores_format

lemmas format_read =
  little_le16.read_iff_stored [OF stored_inject(1)] big_le16.read_iff_stored [OF stored_inject(2)]
  little_be16.read_iff_stored [OF stored_inject(1)] big_be16.read_iff_stored [OF stored_inject(2)]
  little_le32.read_iff_stored [OF stored_inject(3)] big_le32.read_iff_stored [OF stored_inject(4)]
  little_be32.read_iff_stored [OF stored_inject(3)] big_be32.read_iff_stored [OF stored_inject(4)]
  little_le64.read_iff_stored [OF stored_inject(5)] big_le64.read_iff_stored [OF stored_inject(6)]
  little_be64.read_iff_stored [OF stored_inject(5)] big_be64.read_iff_stored [OF stored_inject(6)]

text \<open>C28: a value converted to one of the six formats is stored as the same bytes by either host:
  least significant first for the \<^verbatim>\<open>le\<close> formats, most significant first for the \<^verbatim>\<open>be\<close> ones.  Converting
  a stored word back gives a value exactly when the bytes stored are those of the value in the format,
  so what either host wrote either host reads back.\<close>

theorem wire_formats_host_independent:
  "stored_little 2 (little_cpu_to_le16 x) = word_bytes 2 x \<and>
   stored_little 2 (little_cpu_to_be16 c x) = rev (word_bytes 2 x) \<and>
   stored_big 2 (big_cpu_to_le16 c x) = word_bytes 2 x \<and>
   stored_big 2 (big_cpu_to_be16 x) = rev (word_bytes 2 x) \<and>
   stored_little 4 (little_cpu_to_le32 y) = word_bytes 4 y \<and>
   stored_little 4 (little_cpu_to_be32 c y) = rev (word_bytes 4 y) \<and>
   stored_big 4 (big_cpu_to_le32 c y) = word_bytes 4 y \<and>
   stored_big 4 (big_cpu_to_be32 y) = rev (word_bytes 4 y) \<and>
   stored_little 8 (little_cpu_to_le64 z) = word_bytes 8 z \<and>
   stored_little 8 (little_cpu_to_be64 t c z) = rev (word_bytes 8 z) \<and>
   stored_big 8 (big_cpu_to_le64 t c z) = word_bytes 8 z \<and>
   stored_big 8 (big_cpu_to_be64 z) = rev (word_bytes 8 z) \<and>
   (little_le16_to_cpu v = x \<longleftrightarrow> stored_little 2 v = word_bytes 2 x) \<and>
   (little_be16_to_cpu d v = x \<longleftrightarrow> stored_little 2 v = rev (word_bytes 2 x)) \<and>
   (big_le16_to_cpu d v = x \<longleftrightarrow> stored_big 2 v = word_bytes 2 x) \<and>
   (big_be16_to_cpu v = x \<longleftrightarrow> stored_big 2 v = rev (word_bytes 2 x)) \<and>
   (little_le32_to_cpu v' = y \<longleftrightarrow> stored_little 4 v' = word_bytes 4 y) \<and>
   (little_be32_to_cpu d v' = y \<longleftrightarrow> stored_little 4 v' = rev (word_bytes 4 y)) \<and>
   (big_le32_to_cpu d v' = y \<longleftrightarrow> stored_big 4 v' = word_bytes 4 y) \<and>
   (big_be32_to_cpu v' = y \<longleftrightarrow> stored_big 4 v' = rev (word_bytes 4 y)) \<and>
   (little_le64_to_cpu v'' = z \<longleftrightarrow> stored_little 8 v'' = word_bytes 8 z) \<and>
   (little_be64_to_cpu t d v'' = z \<longleftrightarrow> stored_little 8 v'' = rev (word_bytes 8 z)) \<and>
   (big_le64_to_cpu t d v'' = z \<longleftrightarrow> stored_big 8 v'' = word_bytes 8 z) \<and>
   (big_be64_to_cpu v'' = z \<longleftrightarrow> stored_big 8 v'' = rev (word_bytes 8 z))"
  by (intro conjI; simp only: format_read format_written; simp add: stored_little_def stored_big_def)

lemma wire_formats_host_independent_witness:
  "big_le32_to_cpu True 0x04030201 = 0x01020304 \<and> little_be32_to_cpu True 0x04030201 = 0x01020304"
proof -
  have "stored_big 4 (0x04030201 :: u32) = word_bytes 4 (0x01020304 :: u32)"
    "stored_little 4 (0x04030201 :: u32) = rev (word_bytes 4 (0x01020304 :: u32))"
    by (simp_all add: stored_little_def stored_big_def word_bytes_def upt_4)
  then show ?thesis
    using wire_formats_host_independent [where y = "0x01020304" and d = True and v' = "0x04030201"]
    by blast
qed

text \<open>The pointer and in-place forms, and the constant ones, are the same conversions.\<close>

lemma order_variants:
  "little_cpu_to_be32p s p = little_cpu_to_be32 c (s p)" "little_be32_to_cpus p s = s(p := little_be32_to_cpu c (s p))"
  "big_cpu_to_le32p s p = big_cpu_to_le32 c (s p)" "big_le32_to_cpus p s = s(p := big_le32_to_cpu c (s p))"
  "little_cpu_to_le32s p s = s(p := little_cpu_to_le32 (s p))" "big_cpu_to_be32s p s = s(p := big_cpu_to_be32 (s p))"
  "little_constant_htonl y = little_cpu_to_be32 c y" "big_constant_ntohl y = big_be32_to_cpu y"
  by (simp_all add: little_order_defs big_order_defs swab_defs swab_store_defs)

end
