(* ===== verification/Time_Value.thy ===== *)
theory Time_Value
  imports Main "HOL-Library.Monad_Syntax"
begin

text \<open>
  Time values of \<^verbatim>\<open>sys/time.h\<close>: seconds and microseconds, both signed 64-bit numbers.  A signed
  operation whose result does not fit has no defined behaviour, so the arithmetic is checked and
  the macros return \<open>None\<close> there.  The structures live in a store, because the result may be one of
  the operands and the macros write its members one after the other.
\<close>

section \<open>Checked arithmetic\<close>

definition long :: "int \<Rightarrow> int option" where
  "long x = (if - 9223372036854775808 \<le> x \<and> x < 9223372036854775808 then Some x else None)"

lemma long_Some [simp]: "- 9223372036854775808 \<le> x \<Longrightarrow> x < 9223372036854775808 \<Longrightarrow> long x = Some x"
  by (simp add: long_def)

lemma long_eq_Some: "long x = Some y \<longleftrightarrow> x = y \<and> - 9223372036854775808 \<le> x \<and> x < 9223372036854775808"
  by (auto simp: long_def)

section \<open>Structures and macros\<close>

record timeval =
  tv_sec :: int
  tv_usec :: int

record timespec =
  ts_sec :: int
  ts_nsec :: int

type_synonym times = "nat \<Rightarrow> timeval"

text \<open>Writing one member.\<close>

definition set_sec :: "nat \<Rightarrow> int \<Rightarrow> times \<Rightarrow> times" where
  "set_sec p v m = m(p := (m p)\<lparr>tv_sec := v\<rparr>)"

definition set_usec :: "nat \<Rightarrow> int \<Rightarrow> times \<Rightarrow> times" where
  "set_usec p v m = m(p := (m p)\<lparr>tv_usec := v\<rparr>)"

definition timerisset :: "times \<Rightarrow> nat \<Rightarrow> bool" where
  "timerisset m tvp \<longleftrightarrow> tv_sec (m tvp) \<noteq> 0 \<or> tv_usec (m tvp) \<noteq> 0"

definition timerclear :: "nat \<Rightarrow> times \<Rightarrow> times" where
  "timerclear tvp m = set_sec tvp 0 (set_usec tvp 0 m)"

definition timercmp :: "times \<Rightarrow> nat \<Rightarrow> nat \<Rightarrow> (int \<Rightarrow> int \<Rightarrow> bool) \<Rightarrow> bool" where
  "timercmp m a b CMP =
     (if tv_sec (m a) = tv_sec (m b) then CMP (tv_usec (m a)) (tv_usec (m b))
      else CMP (tv_sec (m a)) (tv_sec (m b)))"

definition timeradd :: "nat \<Rightarrow> nat \<Rightarrow> nat \<Rightarrow> times \<Rightarrow> times option" where
  "timeradd a b result m = do {
     s \<leftarrow> long (tv_sec (m a) + tv_sec (m b));
     m \<leftarrow> Some (set_sec result s m);
     u \<leftarrow> long (tv_usec (m a) + tv_usec (m b));
     m \<leftarrow> Some (set_usec result u m);
     if tv_usec (m result) \<ge> 1000000
     then do {
       s \<leftarrow> long (tv_sec (m result) + 1);
       m \<leftarrow> Some (set_sec result s m);
       u \<leftarrow> long (tv_usec (m result) - 1000000);
       Some (set_usec result u m)
     } else Some m
   }"

definition timersub :: "nat \<Rightarrow> nat \<Rightarrow> nat \<Rightarrow> times \<Rightarrow> times option" where
  "timersub a b result m = do {
     s \<leftarrow> long (tv_sec (m a) - tv_sec (m b));
     m \<leftarrow> Some (set_sec result s m);
     u \<leftarrow> long (tv_usec (m a) - tv_usec (m b));
     m \<leftarrow> Some (set_usec result u m);
     if tv_usec (m result) < 0
     then do {
       s \<leftarrow> long (tv_sec (m result) - 1);
       m \<leftarrow> Some (set_sec result s m);
       u \<leftarrow> long (tv_usec (m result) + 1000000);
       Some (set_usec result u m)
     } else Some m
   }"

definition TIMEVAL_TO_TIMESPEC :: "timeval \<Rightarrow> timespec option" where
  "TIMEVAL_TO_TIMESPEC tv = do {
     n \<leftarrow> long (tv_usec tv * 1000);
     Some \<lparr>ts_sec = tv_sec tv, ts_nsec = n\<rparr>
   }"

text \<open>C's division cuts towards zero.\<close>

definition TIMESPEC_TO_TIMEVAL :: "timespec \<Rightarrow> timeval" where
  "TIMESPEC_TO_TIMEVAL ts =
     \<lparr>tv_sec = ts_sec ts,
      tv_usec = (if 0 \<le> ts_nsec ts then ts_nsec ts div 1000 else - (- ts_nsec ts div 1000))\<rparr>"

section \<open>Points on the time line\<close>

definition micros :: "timeval \<Rightarrow> int" where
  "micros t = tv_sec t * 1000000 + tv_usec t"

definition normal :: "timeval \<Rightarrow> bool" where
  "normal t \<longleftrightarrow> 0 \<le> tv_usec t \<and> tv_usec t < 1000000 \<and>
     - 9223372036854775808 \<le> tv_sec t \<and> tv_sec t < 9223372036854775808"

lemma normal_parts:
  assumes "normal t"
  shows "micros t div 1000000 = tv_sec t" and "micros t mod 1000000 = tv_usec t"
  using assms by (simp_all add: normal_def micros_def)

lemma normal_unique: "normal s \<Longrightarrow> normal t \<Longrightarrow> micros s = micros t \<Longrightarrow> s = t"
  using normal_parts [of s] normal_parts [of t] by (cases s; cases t) simp

lemma set_get [simp]:
  "tv_sec (set_sec p v m q) = (if q = p then v else tv_sec (m q))"
  "tv_usec (set_sec p v m q) = tv_usec (m q)"
  "tv_sec (set_usec p v m q) = tv_sec (m q)"
  "tv_usec (set_usec p v m q) = (if q = p then v else tv_usec (m q))"
  by (simp_all add: set_sec_def set_usec_def)

lemma set_other: "q \<noteq> p \<Longrightarrow> set_sec p v m q = m q" "q \<noteq> p \<Longrightarrow> set_usec p v m q = m q"
  by (simp_all add: set_sec_def set_usec_def)

text \<open>On normalised times whose seconds do not overflow, the sum and the difference are defined,
  normalised and the sum and difference of the two points in time, no other time changes, and all of
  this also holds when the result is stored over an operand.  Subtracting what was added gives back
  the time.\<close>

theorem time_arithmetic:
  assumes "normal (m a)" and "normal (m b)"
    and "- 9223372036854775808 \<le> tv_sec (m a) + tv_sec (m b)" and "tv_sec (m a) + tv_sec (m b) < 9223372036854775807"
    and "- 9223372036854775808 < tv_sec (m a) - tv_sec (m b)" and "tv_sec (m a) - tv_sec (m b) < 9223372036854775808"
  shows "(\<exists>m'. timeradd a b r m = Some m' \<and> normal (m' r) \<and>
      micros (m' r) = micros (m a) + micros (m b) \<and> (\<forall>q. q \<noteq> r \<longrightarrow> m' q = m q)) \<and>
    (\<exists>m'. timersub a b r m = Some m' \<and> normal (m' r) \<and>
      micros (m' r) = micros (m a) - micros (m b) \<and> (\<forall>q. q \<noteq> r \<longrightarrow> m' q = m q))"
  using assms
  by (auto simp: timeradd_def timersub_def normal_def micros_def set_other)

text \<open>Comparing normalised times compares the points in time for every one of the six
  comparison operators, the two the note above the macro excludes among them; a cleared time is
  the only normalised one at zero.\<close>

theorem timercmp_orders_times:
  assumes "normal (m a)" and "normal (m b)"
  shows "timercmp m a b (<) = (micros (m a) < micros (m b)) \<and>
    timercmp m a b (>) = (micros (m a) > micros (m b)) \<and>
    timercmp m a b (=) = (micros (m a) = micros (m b)) \<and>
    timercmp m a b (\<noteq>) = (micros (m a) \<noteq> micros (m b)) \<and>
    timercmp m a b (\<le>) = (micros (m a) \<le> micros (m b)) \<and>
    timercmp m a b (\<ge>) = (micros (m a) \<ge> micros (m b)) \<and>
    (\<not> timerisset m a \<longleftrightarrow> micros (m a) = 0) \<and> \<not> timerisset (timerclear a m) a"
proof -
  have "micros (m a) = 0 \<longleftrightarrow> tv_sec (m a) = 0 \<and> tv_usec (m a) = 0"
  proof
    assume z: "micros (m a) = 0"
    then show "tv_sec (m a) = 0 \<and> tv_usec (m a) = 0"
      using normal_parts [OF assms(1)] unfolding z by simp
  qed (simp add: micros_def)
  then have "\<not> timerisset m a \<longleftrightarrow> micros (m a) = 0" by (simp add: timerisset_def)
  moreover have "\<not> timerisset (timerclear a m) a" by (simp add: timerisset_def timerclear_def)
  ultimately show ?thesis
    using assms by (auto simp: timercmp_def normal_def micros_def)
qed

definition sample_times :: times where
  "sample_times p = (if p = 0 then \<lparr>tv_sec = 5, tv_usec = 600000\<rparr> else \<lparr>tv_sec = 3, tv_usec = 700000\<rparr>)"

lemma time_arithmetic_witness:
  "(\<exists>m'. timeradd 0 1 0 sample_times = Some m' \<and> normal (m' 0) \<and>
      micros (m' 0) = micros (sample_times 0) + micros (sample_times 1) \<and> (\<forall>q. q \<noteq> 0 \<longrightarrow> m' q = sample_times q)) \<and>
    (\<exists>m'. timersub 0 1 0 sample_times = Some m' \<and> normal (m' 0) \<and>
      micros (m' 0) = micros (sample_times 0) - micros (sample_times 1) \<and> (\<forall>q. q \<noteq> 0 \<longrightarrow> m' q = sample_times q))"
  by (rule time_arithmetic) (simp_all add: sample_times_def normal_def)

lemma timercmp_orders_times_witness:
  "timercmp sample_times 0 1 (<) = (micros (sample_times 0) < micros (sample_times 1)) \<and>
    timercmp sample_times 0 1 (>) = (micros (sample_times 0) > micros (sample_times 1)) \<and>
    timercmp sample_times 0 1 (=) = (micros (sample_times 0) = micros (sample_times 1)) \<and>
    timercmp sample_times 0 1 (\<noteq>) = (micros (sample_times 0) \<noteq> micros (sample_times 1)) \<and>
    timercmp sample_times 0 1 (\<le>) = (micros (sample_times 0) \<le> micros (sample_times 1)) \<and>
    timercmp sample_times 0 1 (\<ge>) = (micros (sample_times 0) \<ge> micros (sample_times 1)) \<and>
    (\<not> timerisset sample_times 0 \<longleftrightarrow> micros (sample_times 0) = 0) \<and>
    \<not> timerisset (timerclear 0 sample_times) 0"
  by (rule timercmp_orders_times) (simp_all add: sample_times_def normal_def)

lemma timespec_roundtrip:
  "normal tv \<Longrightarrow> map_option TIMESPEC_TO_TIMEVAL (TIMEVAL_TO_TIMESPEC tv) = Some tv"
  by (simp add: normal_def TIMEVAL_TO_TIMESPEC_def TIMESPEC_TO_TIMEVAL_def)

end
