(* ===== verification/Obstack.thy ===== *)
theory Obstack
  imports Byte_Memory
begin

text \<open>
  Object stacks of \<^verbatim>\<open>obstack.h\<close>, in the form the GNU compiler takes: an object grows at the end of the
  current chunk, is finished when complete, and everything from an object on is freed at once.
  Getting a new chunk and freeing into an older one are functions of the C library's \<^verbatim>\<open>obstack.c\<close>,
  which is not in the repository; they are arguments here.  Addresses are natural numbers, lengths
  nonnegative \<^verbatim>\<open>int\<close>s.
\<close>

record obstack =
  chunk_size :: nat
  chunk :: nat
  object_base :: nat
  next_free :: nat
  chunk_limit :: nat
  alignment_mask :: u64
  maybe_empty_object :: bool

type_synonym ob_state = "obstack \<times> memory"

type_synonym newchunk_fn = "nat \<Rightarrow> ob_state \<Rightarrow> ob_state"

section \<open>Operations\<close>

text \<open>A pointer is as wide as an integer, so the base of the alignment is the null pointer.\<close>

definition BPTR_ALIGN :: "nat \<Rightarrow> nat \<Rightarrow> u64 \<Rightarrow> nat" where
  "BPTR_ALIGN b p a = b + unat ((of_nat p - of_nat b + a) AND NOT a)"

definition PTR_ALIGN :: "nat \<Rightarrow> nat \<Rightarrow> u64 \<Rightarrow> nat" where
  "PTR_ALIGN b p a = BPTR_ALIGN 0 p a"

definition obstack_base :: "obstack \<Rightarrow> nat" where
  "obstack_base h = object_base h"

definition obstack_chunk_size :: "obstack \<Rightarrow> nat" where
  "obstack_chunk_size h = chunk_size h"

definition obstack_next_free :: "obstack \<Rightarrow> nat" where
  "obstack_next_free h = next_free h"

definition obstack_alignment_mask :: "obstack \<Rightarrow> u64" where
  "obstack_alignment_mask h = alignment_mask h"

definition obstack_1grow_fast :: "u8 \<Rightarrow> ob_state \<Rightarrow> ob_state" where
  "obstack_1grow_fast achar = (\<lambda>(h, m). (h\<lparr>next_free := next_free h + 1\<rparr>, m(next_free h := achar)))"

definition obstack_blank_fast :: "nat \<Rightarrow> ob_state \<Rightarrow> ob_state" where
  "obstack_blank_fast n = (\<lambda>(h, m). (h\<lparr>next_free := next_free h + n\<rparr>, m))"

definition obstack_object_size :: "obstack \<Rightarrow> u32" where
  "obstack_object_size h = of_int (int (next_free h) - int (object_base h))"

definition obstack_room :: "obstack \<Rightarrow> u32" where
  "obstack_room h = of_int (int (chunk_limit h) - int (next_free h))"

definition obstack_make_room :: "newchunk_fn \<Rightarrow> nat \<Rightarrow> ob_state \<Rightarrow> ob_state" where
  "obstack_make_room newchunk len s =
     (if int (chunk_limit (fst s)) - int (next_free (fst s)) < int len then newchunk len s else s)"

text \<open>The previous chunk's address is the second member of the chunk, the contents the third.\<close>

definition obstack_empty_p :: "ob_state \<Rightarrow> bool" where
  "obstack_empty_p = (\<lambda>(h, m). load64 m (chunk h + 8) = 0 \<and>
     next_free h = PTR_ALIGN (chunk h) (chunk h + 16) (alignment_mask h))"

definition obstack_grow :: "newchunk_fn \<Rightarrow> nat \<Rightarrow> nat \<Rightarrow> ob_state \<Rightarrow> ob_state" where
  "obstack_grow newchunk where' len s =
     (let s = (if next_free (fst s) + len > chunk_limit (fst s) then newchunk len s else s)
      in case s of (h, m) \<Rightarrow> (h\<lparr>next_free := next_free h + len\<rparr>, memcpy (next_free h) where' len m))"

definition obstack_grow0 :: "newchunk_fn \<Rightarrow> nat \<Rightarrow> nat \<Rightarrow> ob_state \<Rightarrow> ob_state" where
  "obstack_grow0 newchunk where' len s =
     (let s = (if next_free (fst s) + len + 1 > chunk_limit (fst s) then newchunk (len + 1) s else s);
          (h, m) = s;
          m = memcpy (next_free h) where' len m;
          h = h\<lparr>next_free := next_free h + len\<rparr>
      in (h\<lparr>next_free := next_free h + 1\<rparr>, m(next_free h := 0)))"

definition obstack_1grow :: "newchunk_fn \<Rightarrow> u8 \<Rightarrow> ob_state \<Rightarrow> ob_state" where
  "obstack_1grow newchunk datum s =
     (let s = (if next_free (fst s) + 1 > chunk_limit (fst s) then newchunk 1 s else s)
      in obstack_1grow_fast datum s)"

definition obstack_ptr_grow_fast :: "u64 \<Rightarrow> ob_state \<Rightarrow> ob_state" where
  "obstack_ptr_grow_fast aptr = (\<lambda>(h, m). (h\<lparr>next_free := next_free h + 8\<rparr>, store64 (next_free h) aptr m))"

definition obstack_int_grow_fast :: "u32 \<Rightarrow> ob_state \<Rightarrow> ob_state" where
  "obstack_int_grow_fast aint = (\<lambda>(h, m). (h\<lparr>next_free := next_free h + 4\<rparr>, store32 (next_free h) aint m))"

definition obstack_ptr_grow :: "newchunk_fn \<Rightarrow> u64 \<Rightarrow> ob_state \<Rightarrow> ob_state" where
  "obstack_ptr_grow newchunk datum s =
     (let s = (if next_free (fst s) + 8 > chunk_limit (fst s) then newchunk 8 s else s)
      in obstack_ptr_grow_fast datum s)"

definition obstack_int_grow :: "newchunk_fn \<Rightarrow> u32 \<Rightarrow> ob_state \<Rightarrow> ob_state" where
  "obstack_int_grow newchunk datum s =
     (let s = (if next_free (fst s) + 4 > chunk_limit (fst s) then newchunk 4 s else s)
      in obstack_int_grow_fast datum s)"

definition obstack_blank :: "newchunk_fn \<Rightarrow> nat \<Rightarrow> ob_state \<Rightarrow> ob_state" where
  "obstack_blank newchunk len s =
     (let s = (if int (chunk_limit (fst s)) - int (next_free (fst s)) < int len then newchunk len s else s)
      in obstack_blank_fast len s)"

definition obstack_finish :: "ob_state \<Rightarrow> nat \<times> ob_state" where
  "obstack_finish = (\<lambda>(h, m).
     let val = object_base h;
         h = (if next_free h = val then h\<lparr>maybe_empty_object := True\<rparr> else h);
         h = h\<lparr>next_free := PTR_ALIGN (object_base h) (next_free h) (alignment_mask h)\<rparr>;
         h = (if int (next_free h) - int (chunk h) > int (chunk_limit h) - int (chunk h)
              then h\<lparr>next_free := chunk_limit h\<rparr> else h);
         h = h\<lparr>object_base := next_free h\<rparr>
     in (val, h, m))"

definition obstack_alloc :: "newchunk_fn \<Rightarrow> nat \<Rightarrow> ob_state \<Rightarrow> nat \<times> ob_state" where
  "obstack_alloc newchunk len s = obstack_finish (obstack_blank newchunk len s)"

definition obstack_copy :: "newchunk_fn \<Rightarrow> nat \<Rightarrow> nat \<Rightarrow> ob_state \<Rightarrow> nat \<times> ob_state" where
  "obstack_copy newchunk where' len s = obstack_finish (obstack_grow newchunk where' len s)"

definition obstack_copy0 :: "newchunk_fn \<Rightarrow> nat \<Rightarrow> nat \<Rightarrow> ob_state \<Rightarrow> nat \<times> ob_state" where
  "obstack_copy0 newchunk where' len s = obstack_finish (obstack_grow0 newchunk where' len s)"

definition obstack_free :: "(nat \<Rightarrow> ob_state \<Rightarrow> ob_state) \<Rightarrow> nat \<Rightarrow> ob_state \<Rightarrow> ob_state" where
  "obstack_free free_older obj s =
     (if obj > chunk (fst s) \<and> obj < chunk_limit (fst s)
      then ((fst s)\<lparr>object_base := obj, next_free := obj\<rparr>, snd s)
      else free_older obj s)"

section \<open>The object being built\<close>

definition obstack_ok :: "obstack \<Rightarrow> bool" where
  "obstack_ok h \<longleftrightarrow> chunk h < object_base h \<and> object_base h \<le> next_free h \<and> next_free h \<le> chunk_limit h \<and>
     chunk_limit h + 4294967296 \<le> 18446744073709551616 \<and> (\<exists>k < 32. alignment_mask h = mask k)"

definition current :: "ob_state \<Rightarrow> u8 list" where
  "current s = read_bytes (snd s) (object_base (fst s)) (next_free (fst s) - object_base (fst s))"

text \<open>
  What the library promises of a new chunk, for objects short of two gigabytes: the object has moved
  with its bytes to where there is room for as many more as asked for, and memory in use elsewhere
  is not touched.
\<close>

definition newchunk_ok :: "nat set \<Rightarrow> newchunk_fn \<Rightarrow> bool" where
  "newchunk_ok used newchunk \<longleftrightarrow> (\<forall>len s. obstack_ok (fst s) \<and> length (current s) + len < 2147483648 \<longrightarrow>
     (let s' = newchunk len s in
        obstack_ok (fst s') \<and> next_free (fst s') + len \<le> chunk_limit (fst s') \<and>
        alignment_mask (fst s') = alignment_mask (fst s) \<and> current s' = current s \<and>
        (\<forall>a \<in> used. snd s' a = snd s a) \<and> {chunk (fst s') ..< chunk_limit (fst s')} \<inter> used = {}))"

definition ensure :: "newchunk_fn \<Rightarrow> nat \<Rightarrow> ob_state \<Rightarrow> ob_state" where
  "ensure newchunk len s = (if next_free (fst s) + len > chunk_limit (fst s) then newchunk len s else s)"

definition append_bytes :: "u8 list \<Rightarrow> ob_state \<Rightarrow> ob_state" where
  "append_bytes bs s =
     ((fst s)\<lparr>next_free := next_free (fst s) + length bs\<rparr>, write_bytes (next_free (fst s)) bs (snd s))"

definition outside :: "nat set \<Rightarrow> ob_state \<Rightarrow> bool" where
  "outside used s \<longleftrightarrow> {chunk (fst s) ..< chunk_limit (fst s)} \<inter> used = {}"

lemma ensure_ok:
  assumes "newchunk_ok used newchunk" and "obstack_ok (fst s)" and "outside used s"
    and "length (current s) + len < 2147483648" and s': "s' = ensure newchunk len s"
  shows "obstack_ok (fst s')" and "next_free (fst s') + len \<le> chunk_limit (fst s')"
    and "current s' = current s" and "\<forall>a \<in> used. snd s' a = snd s a" and "outside used s'"
    and "alignment_mask (fst s') = alignment_mask (fst s)"
  using assms(1) [unfolded newchunk_ok_def, rule_format, of s len] assms(2-4)
  unfolding s' ensure_def outside_def by (auto simp: Let_def not_less)

lemma append_ok:
  assumes "obstack_ok (fst s)" and "next_free (fst s) + length bs \<le> chunk_limit (fst s)"
  shows "obstack_ok (fst (append_bytes bs s))" and "current (append_bytes bs s) = current s @ bs"
    and "\<forall>a. \<not> (next_free (fst s) \<le> a \<and> a < chunk_limit (fst s)) \<longrightarrow> snd (append_bytes bs s) a = snd s a"
proof -
  show "obstack_ok (fst (append_bytes bs s))"
    using assms by (auto simp: append_bytes_def obstack_ok_def)
  let ?n = "next_free (fst s)" and ?b = "object_base (fst s)"
  have b: "?b \<le> ?n" using assms(1) by (simp add: obstack_ok_def)
  then show "current (append_bytes bs s) = current s @ bs"
    using read_bytes_extend [of ?b "?n - ?b" bs "snd s"] by (simp add: current_def append_bytes_def)
  show "\<forall>a. \<not> (?n \<le> a \<and> a < chunk_limit (fst s)) \<longrightarrow> snd (append_bytes bs s) a = snd s a"
    using assms(2) by (auto simp: append_bytes_def write_bytes_def)
qed

lemma grow_append:
  assumes "newchunk_ok used newchunk" and "obstack_ok (fst s)" and "outside used s"
    and "length (current s) + len < 2147483648" and "{src ..< src + len} \<subseteq> used"
  shows "obstack_grow newchunk src len s = append_bytes (read_bytes (snd s) src len) (ensure newchunk len s)"
proof -
  have "read_bytes (snd (ensure newchunk len s)) src len = read_bytes (snd s) src len"
    using ensure_ok(4) [OF assms(1-4) refl] assms(5) by (rule read_bytes_same)
  then show ?thesis
    by (auto simp: obstack_grow_def append_bytes_def ensure_def [symmetric] memcpy_write split: prod.split)
qed

lemma grow0_append:
  assumes "newchunk_ok used newchunk" and "obstack_ok (fst s)" and "outside used s"
    and "length (current s) + (len + 1) < 2147483648" and "{src ..< src + len} \<subseteq> used"
  shows "obstack_grow0 newchunk src len s =
    append_bytes (read_bytes (snd s) src len @ [0]) (ensure newchunk (len + 1) s)"
proof -
  have "read_bytes (snd (ensure newchunk (len + 1) s)) src len = read_bytes (snd s) src len"
    using ensure_ok(4) [OF assms(1-4) refl] assms(5) by (rule read_bytes_same)
  moreover have "(write_bytes p bs m)(p + length bs := 0) = write_bytes p (bs @ [0]) m" for p bs and m :: memory
    using write_bytes_append [of "p + length bs" p bs "[0]" m] by (simp add: write_bytes_Cons)
  then have "(write_bytes p (read_bytes m src len) m')(p + len := 0) = write_bytes p (read_bytes m src len @ [0]) m'" for p and m m' :: memory
    by (metis length_read_bytes)
  moreover have "obstack_grow0 newchunk src len s = (case ensure newchunk (len + 1) s of (h, m) \<Rightarrow>
      (h\<lparr>next_free := next_free h + len + 1\<rparr>, (memcpy (next_free h) src len m)(next_free h + len := 0)))"
    by (simp add: obstack_grow0_def ensure_def Let_def add.assoc split: prod.split)
  ultimately show ?thesis
    by (cases "ensure newchunk (len + 1) s") (simp add: append_bytes_def memcpy_write)
qed

lemma one_append: "obstack_1grow newchunk c s = append_bytes [c] (ensure newchunk 1 s)"
  by (cases "ensure newchunk 1 s")
    (simp add: obstack_1grow_def obstack_1grow_fast_def ensure_def append_bytes_def write_bytes_Cons split: if_splits)

lemma int_append: "obstack_int_grow newchunk v s = append_bytes (word_bytes 4 v) (ensure newchunk 4 s)"
  by (cases "ensure newchunk 4 s")
    (simp add: obstack_int_grow_def obstack_int_grow_fast_def ensure_def append_bytes_def store32_bytes split: if_splits)

lemma ptr_append: "obstack_ptr_grow newchunk v s = append_bytes (word_bytes 8 v) (ensure newchunk 8 s)"
  by (cases "ensure newchunk 8 s")
    (simp add: obstack_ptr_grow_def obstack_ptr_grow_fast_def ensure_def append_bytes_def store64_bytes split: if_splits)

text \<open>The two ways the macros test for room agree.\<close>

lemma make_room_ensure: "obstack_make_room newchunk len s = ensure newchunk len s"
  by (auto simp: obstack_make_room_def ensure_def)

section \<open>Growing an object\<close>

datatype growth = Grow nat nat | Grow0 nat nat | One u8 | GrowPtr u64 | GrowInt u32 | Blank nat | Room nat

fun grow_op :: "newchunk_fn \<Rightarrow> growth \<Rightarrow> ob_state \<Rightarrow> ob_state" where
  "grow_op newchunk (Grow src len) = obstack_grow newchunk src len"
| "grow_op newchunk (Grow0 src len) = obstack_grow0 newchunk src len"
| "grow_op newchunk (One c) = obstack_1grow newchunk c"
| "grow_op newchunk (GrowPtr v) = obstack_ptr_grow newchunk v"
| "grow_op newchunk (GrowInt v) = obstack_int_grow newchunk v"
| "grow_op newchunk (Blank len) = obstack_blank newchunk len"
| "grow_op newchunk (Room len) = obstack_make_room newchunk len"

text \<open>
  What a step adds: bytes, and for a blank step as many of which nothing is said.
\<close>

fun grow_bytes :: "memory \<Rightarrow> growth \<Rightarrow> u8 option list" where
  "grow_bytes m (Grow src len) = map Some (read_bytes m src len)"
| "grow_bytes m (Grow0 src len) = map Some (read_bytes m src len @ [0])"
| "grow_bytes m (One c) = [Some c]"
| "grow_bytes m (GrowPtr v) = map Some (word_bytes 8 v)"
| "grow_bytes m (GrowInt v) = map Some (word_bytes 4 v)"
| "grow_bytes m (Blank len) = replicate len None"
| "grow_bytes m (Room len) = []"

definition agrees :: "u8 option list \<Rightarrow> u8 list \<Rightarrow> bool" where
  "agrees ps bs \<longleftrightarrow> list_all2 (\<lambda>p b. p = None \<or> p = Some b) ps bs"

lemma agrees_append: "agrees ps bs \<Longrightarrow> agrees qs cs \<Longrightarrow> agrees (ps @ qs) (bs @ cs)"
  by (simp add: agrees_def list_all2_appendI)

lemma agrees_Some: "agrees (map Some bs) bs"
  by (simp add: agrees_def list_all2_map1 list.rel_refl)

lemma agrees_length: "agrees ps bs \<Longrightarrow> length bs = length ps"
  by (simp add: agrees_def list_all2_lengthD)

fun grow_source :: "growth \<Rightarrow> nat set" where
  "grow_source (Grow src len) = {src ..< src + len}"
| "grow_source (Grow0 src len) = {src ..< src + len}"
| "grow_source g = {}"

fun grow_size :: "growth \<Rightarrow> nat" where
  "grow_size (Grow src len) = len"
| "grow_size (Grow0 src len) = len + 1"
| "grow_size (One c) = 1"
| "grow_size (GrowPtr v) = 8"
| "grow_size (GrowInt v) = 4"
| "grow_size (Blank len) = len"
| "grow_size (Room len) = len"

lemma grow_bytes_size: "length (grow_bytes m g) \<le> grow_size g"
  by (cases g) simp_all

lemma append_Nil [simp]: "append_bytes [] s = s"
  by (simp add: append_bytes_def)

lemma blank_append:
  "obstack_blank newchunk len s =
     append_bytes (read_bytes (snd (ensure newchunk len s)) (next_free (fst (ensure newchunk len s))) len)
       (ensure newchunk len s)"
proof -
  have "write_bytes p (read_bytes m p len) m = m" for p and m :: memory
    by (auto simp: write_bytes_def read_bytes_def fun_eq_iff)
  moreover have "obstack_blank newchunk len s = obstack_blank_fast len (ensure newchunk len s)"
    by (auto simp: obstack_blank_def ensure_def Let_def)
  ultimately show ?thesis
    by (cases "ensure newchunk len s") (simp add: obstack_blank_fast_def append_bytes_def)
qed

lemma grow_op_append:
  assumes "newchunk_ok used newchunk" and "obstack_ok (fst s)" and "outside used s"
    and "length (current s) + grow_size g < 2147483648" and "grow_source g \<subseteq> used"
  obtains bs where "grow_op newchunk g s = append_bytes bs (ensure newchunk (grow_size g) s)"
    and "agrees (grow_bytes (snd s) g) bs"
proof (cases g)
  case (Blank len)
  have "agrees (replicate len None) bs" if "length bs = len" for bs
    using that by (simp add: agrees_def list_all2_conv_all_nth)
  then show ?thesis using that blank_append [of newchunk len s] Blank by simp
next
  case (Grow0 src len)
  then show ?thesis
    using that agrees_Some [of "read_bytes (snd s) src len @ [0]"] grow0_append [OF assms(1-3)] assms(4,5)
    by simp
next
  case (Grow src len)
  then show ?thesis using that agrees_Some grow_append [OF assms(1-3)] assms(4,5) by simp
next
  case (One c)
  then show ?thesis using that agrees_Some [of "[c]"] by (simp add: one_append)
qed (use that agrees_Some in \<open>simp_all add: int_append ptr_append make_room_ensure agrees_def\<close>)

lemma grow_step:
  assumes "newchunk_ok used newchunk" and "obstack_ok (fst s)" and "outside used s"
    and "length (current s) + grow_size g < 2147483648" and "grow_source g \<subseteq> used"
  defines "s' \<equiv> grow_op newchunk g s"
  shows "obstack_ok (fst s')" and "outside used s'" and "\<forall>a \<in> used. snd s' a = snd s a"
    and "\<exists>bs. current s' = current s @ bs \<and> agrees (grow_bytes (snd s) g) bs"
proof -
  define n where "n = grow_size g"
  obtain bs where eq: "s' = append_bytes bs (ensure newchunk n s)" and bs: "agrees (grow_bytes (snd s) g) bs"
    using grow_op_append [OF assms(1-5)] unfolding s'_def n_def by blast
  have n: "length bs \<le> n" using agrees_length [OF bs] grow_bytes_size [of "snd s" g] by (simp add: n_def)
  note e = ensure_ok [OF assms(1-4) refl, folded n_def]
  have room: "next_free (fst (ensure newchunk n s)) + length bs \<le> chunk_limit (fst (ensure newchunk n s))"
    using e(2) n by simp
  note a = append_ok [OF e(1) room]
  show "obstack_ok (fst s')" using a(1) by (simp add: eq)
  show "outside used s'" using e(5) by (simp add: eq outside_def append_bytes_def)
  show "\<exists>bs. current s' = current s @ bs \<and> agrees (grow_bytes (snd s) g) bs"
    using a(2) e(3) bs by (auto simp: eq)
  have c: "chunk (fst (ensure newchunk n s)) \<le> next_free (fst (ensure newchunk n s))"
    using e(1) by (simp add: obstack_ok_def)
  have "snd s' b = snd (ensure newchunk n s) b" if "b \<in> used" for b
  proof -
    have "\<not> (next_free (fst (ensure newchunk n s)) \<le> b \<and> b < chunk_limit (fst (ensure newchunk n s)))"
      using e(5) [unfolded outside_def disjoint_iff, rule_format, of b] that c by auto
    then show ?thesis using a(3) unfolding eq by blast
  qed
  then show "\<forall>a \<in> used. snd s' a = snd s a" using e(4) by simp
qed

lemma grow_bytes_used:
  "\<forall>a \<in> used. m a = m' a \<Longrightarrow> grow_source g \<subseteq> used \<Longrightarrow> grow_bytes m g = grow_bytes m' g"
  by (cases g) (simp_all add: read_bytes_same)

text \<open>C6: growing an object short of two gigabytes, in whatever steps (copied data, one byte, a pointer,
  an integer, blank bytes, or only making room) and with a new chunk at any of them, appends the
  bytes of each step to it, for a blank step so many bytes of any value, and leaves memory in use
  elsewhere as it was.  The data copied from lies in that memory, so outside the current chunk and
  the chunks the library gives.\<close>

theorem growing_appends:
  assumes "newchunk_ok used newchunk" and "obstack_ok (fst s)" and "outside used s"
    and "\<forall>g \<in> set gs. grow_source g \<subseteq> used" and "length (current s) + (\<Sum>g \<leftarrow> gs. grow_size g) < 2147483648"
  shows "(\<exists>bs. current (fold (grow_op newchunk) gs s) = current s @ bs \<and>
      agrees (concat (map (grow_bytes (snd s)) gs)) bs) \<and>
    obstack_ok (fst (fold (grow_op newchunk) gs s)) \<and>
    (\<forall>a \<in> used. snd (fold (grow_op newchunk) gs s) a = snd s a)"
  using assms(2-5)
proof (induction gs arbitrary: s)
  case (Cons g gs)
  have g: "grow_source g \<subseteq> used" "length (current s) + grow_size g < 2147483648"
    using Cons.prems(3,4) by simp_all
  note st = grow_step [OF assms(1) Cons.prems(1,2) g(2,1)]
  let ?s = "grow_op newchunk g s"
  have c: "concat (map (grow_bytes (snd ?s)) gs) = concat (map (grow_bytes (snd s)) gs)"
    using Cons.prems(3) st(3) by (intro arg_cong [where f = concat] map_cong refl grow_bytes_used) auto
  obtain bs where bs: "current ?s = current s @ bs" "agrees (grow_bytes (snd s) g) bs"
    using st(4) by blast
  have "length (current ?s) + (\<Sum>g \<leftarrow> gs. grow_size g) < 2147483648"
    using Cons.prems(4) bs agrees_length [OF bs(2)] grow_bytes_size [of "snd s" g] by simp
  then obtain cs where cs: "current (fold (grow_op newchunk) gs ?s) = current ?s @ cs"
      "agrees (concat (map (grow_bytes (snd s)) gs)) cs"
    and rest: "obstack_ok (fst (fold (grow_op newchunk) gs ?s))"
      "\<forall>a \<in> used. snd (fold (grow_op newchunk) gs ?s) a = snd ?s a"
    using Cons.IH [of ?s] Cons.prems(3) st(1,2) unfolding c by auto
  have "current (fold (grow_op newchunk) (g # gs) s) = current s @ (bs @ cs)"
    using cs(1) bs(1) by simp
  moreover have "agrees (concat (map (grow_bytes (snd s)) (g # gs))) (bs @ cs)"
    using agrees_append [OF bs(2) cs(2)] by simp
  ultimately show ?case using rest st(3) by auto
qed (simp add: agrees_def)

section \<open>Finished objects\<close>

lemma align_mask:
  assumes "p + 2 ^ k < 2 ^ 64" and "k < 32"
  shows "PTR_ALIGN b p (mask k) = round_up (2 ^ k) p"
proof -
  have "unat (of_nat p :: u64) = p" using assms(1) by (intro unat_of_nat64) simp
  then show ?thesis
    using unat_round_up [of "of_nat p :: u64" k] assms
    by (simp add: PTR_ALIGN_def BPTR_ALIGN_def mask_eq_exp_minus_1)
qed

text \<open>Finishing returns the object's address and starts the next one at the next aligned address, or
  at the chunk's end when that is beyond it.\<close>

lemma finish_parts:
  assumes "obstack_ok h" and "alignment_mask h = mask k" and "k < 32"
  defines "q \<equiv> min (chunk_limit h) (round_up (2 ^ k) (next_free h))"
  shows "obstack_finish (h, m) =
      (object_base h, h\<lparr>next_free := q, object_base := q, maybe_empty_object := maybe_empty_object h \<or> next_free h = object_base h\<rparr>, m)"
    and "next_free h \<le> q" and "q \<le> chunk_limit h"
proof -
  have k: "(2 :: nat) ^ k < 4294967296"
    using assms(3) power_strict_increasing [of k 32 "2 :: nat"] by simp
  have a: "PTR_ALIGN b p (mask k) = round_up (2 ^ k) p" if "p \<le> chunk_limit h" for b p
    using assms(1,3) k that by (intro align_mask) (auto simp: obstack_ok_def)
  have "next_free h \<le> round_up (2 ^ k) (next_free h)" by (rule round_up(2)) simp
  then show "next_free h \<le> q" "q \<le> chunk_limit h" using assms(1) by (auto simp: q_def obstack_ok_def)
  have "chunk h \<le> chunk_limit h" "next_free h \<le> chunk_limit h" "object_base h \<le> chunk_limit h"
    using assms(1) by (auto simp: obstack_ok_def)
  then show "obstack_finish (h, m) =
      (object_base h, h\<lparr>next_free := q, object_base := q, maybe_empty_object := maybe_empty_object h \<or> next_free h = object_base h\<rparr>, m)"
    using assms(2) by (auto simp: obstack_finish_def Let_def a q_def min_def)
qed

text \<open>Copying several objects one after another, noting where each is.\<close>

fun copy_all :: "newchunk_fn \<Rightarrow> (nat \<times> nat) list \<Rightarrow> ob_state \<Rightarrow> nat list \<times> ob_state" where
  "copy_all newchunk [] s = ([], s)"
| "copy_all newchunk ((src, len) # xs) s =
     (let (p, s) = obstack_copy newchunk src len s; (ps, s) = copy_all newchunk xs s in (p # ps, s))"

lemma copy_in_chunk:
  assumes "obstack_ok h" and "object_base h = next_free h" and "alignment_mask h = mask k" and "k < 32"
    and "next_free h + len \<le> chunk_limit h"
  shows "\<exists>h'. obstack_copy newchunk src len (h, m) = (object_base h, h', write_bytes (object_base h) (read_bytes m src len) m) \<and>
    obstack_ok h' \<and> object_base h' = next_free h' \<and> alignment_mask h' = mask k \<and>
    chunk h' = chunk h \<and> chunk_limit h' = chunk_limit h \<and>
    object_base h + len \<le> object_base h' \<and> object_base h' < object_base h + len + 2 ^ k \<and>
    (2 ^ k dvd object_base h' \<or> object_base h' = chunk_limit h)"
proof -
  let ?h = "h\<lparr>next_free := next_free h + len\<rparr>" and ?m = "write_bytes (object_base h) (read_bytes m src len) m"
  have g: "obstack_grow newchunk src len (h, m) = (?h, ?m)"
    using assms(2,5) by (simp add: obstack_grow_def memcpy_write)
  have ok: "obstack_ok ?h" using assms(1,5) by (auto simp: obstack_ok_def)
  note f = finish_parts(1) [OF ok _ assms(4), of ?m] finish_parts(2,3) [OF ok _ assms(4)]
  have "round_up (2 ^ k) (next_free h + len) < next_free h + len + 2 ^ k" by (rule round_up(3)) simp
  moreover have "2 ^ k dvd round_up (2 ^ k) (next_free h + len)" by (rule round_up(1)) simp
  ultimately show ?thesis
    using f assms ok unfolding obstack_copy_def g by (auto simp: obstack_ok_def min_def)
qed

lemma copy_all_in_chunk:
  assumes "obstack_ok h" and "object_base h = next_free h" and "alignment_mask h = mask k" and "k < 32"
    and "next_free h + (\<Sum>x \<leftarrow> xs. snd x + 2 ^ k) \<le> chunk_limit h"
    and "\<forall>x \<in> set xs. fst x + snd x \<le> next_free h \<or> chunk_limit h \<le> fst x"
  shows "\<exists>ps h' m'. copy_all newchunk xs (h, m) = (ps, h', m') \<and> length ps = length xs \<and>
    obstack_ok h' \<and> chunk h' = chunk h \<and> chunk_limit h' = chunk_limit h \<and> object_base h' = next_free h' \<and>
    next_free h \<le> next_free h' \<and>
    (\<forall>a. a < next_free h \<or> chunk_limit h \<le> a \<longrightarrow> m' a = m a) \<and>
    (\<forall>a. (\<forall>i < length xs. a \<notin> {ps ! i ..< ps ! i + snd (xs ! i)}) \<longrightarrow> m' a = m a) \<and>
    (xs \<noteq> [] \<longrightarrow> hd ps = object_base h) \<and>
    (\<forall>i < length xs. next_free h \<le> ps ! i \<and> ps ! i + snd (xs ! i) \<le> next_free h' \<and>
       read_bytes m' (ps ! i) (snd (xs ! i)) = read_bytes m (fst (xs ! i)) (snd (xs ! i)) \<and>
       (2 ^ k dvd next_free h \<longrightarrow> 2 ^ k dvd ps ! i) \<and>
       (\<forall>j < i. ps ! j + snd (xs ! j) \<le> ps ! i))"
  using assms
proof (induction xs arbitrary: h m)
  case Nil
  then show ?case by simp
next
  case (Cons x xs)
  obtain src len where x: "x = (src, len)" by (cases x)
  have room: "next_free h + len \<le> chunk_limit h"
    and rest: "next_free h + (len + 2 ^ k) + (\<Sum>x \<leftarrow> xs. snd x + 2 ^ k) \<le> chunk_limit h"
    using Cons.prems(5) by (simp_all add: x)
  let ?b = "object_base h" and ?m = "write_bytes (object_base h) (read_bytes m src len) m"
  obtain h1 where h1: "obstack_copy newchunk src len (h, m) = (?b, h1, ?m)"
    and ok1: "obstack_ok h1" "object_base h1 = next_free h1" "alignment_mask h1 = mask k"
    and same: "chunk h1 = chunk h" "chunk_limit h1 = chunk_limit h"
    and b1: "?b + len \<le> object_base h1" "object_base h1 < ?b + len + 2 ^ k"
    and al: "2 ^ k dvd object_base h1 \<or> object_base h1 = chunk_limit h"
    using copy_in_chunk [OF Cons.prems(1-4) room, where newchunk = newchunk and src = src and m = m] by blast
  have base: "?b = next_free h" by (rule Cons.prems(2))
  have nf: "next_free h \<le> next_free h1" "next_free h1 \<le> next_free h + (len + 2 ^ k)"
    using b1 ok1(2) base by simp_all
  have "\<exists>ps h' m'. copy_all newchunk xs (h1, ?m) = (ps, h', m') \<and> length ps = length xs \<and>
    obstack_ok h' \<and> chunk h' = chunk h1 \<and> chunk_limit h' = chunk_limit h1 \<and> object_base h' = next_free h' \<and>
    next_free h1 \<le> next_free h' \<and>
    (\<forall>a. a < next_free h1 \<or> chunk_limit h1 \<le> a \<longrightarrow> m' a = ?m a) \<and>
    (\<forall>a. (\<forall>i < length xs. a \<notin> {ps ! i ..< ps ! i + snd (xs ! i)}) \<longrightarrow> m' a = ?m a) \<and>
    (xs \<noteq> [] \<longrightarrow> hd ps = object_base h1) \<and>
    (\<forall>i < length xs. next_free h1 \<le> ps ! i \<and> ps ! i + snd (xs ! i) \<le> next_free h' \<and>
       read_bytes m' (ps ! i) (snd (xs ! i)) = read_bytes ?m (fst (xs ! i)) (snd (xs ! i)) \<and>
       (2 ^ k dvd next_free h1 \<longrightarrow> 2 ^ k dvd ps ! i) \<and>
       (\<forall>j < i. ps ! j + snd (xs ! j) \<le> ps ! i))"
  proof (rule Cons.IH [OF ok1 Cons.prems(4)])
    show "next_free h1 + (\<Sum>x \<leftarrow> xs. snd x + 2 ^ k) \<le> chunk_limit h1"
      using rest nf(2) same by simp
    show "\<forall>x \<in> set xs. fst x + snd x \<le> next_free h1 \<or> chunk_limit h1 \<le> fst x"
      using Cons.prems(6) nf(1) same by (auto intro: order_trans)
  qed
  then obtain ps h' m' where r: "copy_all newchunk xs (h1, ?m) = (ps, h', m')" "length ps = length xs"
    "obstack_ok h'" "chunk h' = chunk h1" "chunk_limit h' = chunk_limit h1" "object_base h' = next_free h'"
    "next_free h1 \<le> next_free h'"
    and keep: "\<forall>a. a < next_free h1 \<or> chunk_limit h1 \<le> a \<longrightarrow> m' a = ?m a"
    and apart: "\<forall>a. (\<forall>i < length xs. a \<notin> {ps ! i ..< ps ! i + snd (xs ! i)}) \<longrightarrow> m' a = ?m a"
    and each: "\<forall>i < length xs. next_free h1 \<le> ps ! i \<and> ps ! i + snd (xs ! i) \<le> next_free h' \<and>
       read_bytes m' (ps ! i) (snd (xs ! i)) = read_bytes ?m (fst (xs ! i)) (snd (xs ! i)) \<and>
       (2 ^ k dvd next_free h1 \<longrightarrow> 2 ^ k dvd ps ! i) \<and> (\<forall>j < i. ps ! j + snd (xs ! j) \<le> ps ! i)"
    by blast
  have src: "read_bytes ?m a n = read_bytes m a n" if "a + n \<le> next_free h \<or> chunk_limit h \<le> a" for a n
    using that room base by (intro read_bytes_write) auto
  have first: "read_bytes m' ?b len = read_bytes m src len"
  proof -
    have "read_bytes m' ?b len = read_bytes ?m ?b len"
      using keep b1(1) ok1(2) by (intro read_bytes_same [where used = "{..< next_free h1}"]) auto
    also have "\<dots> = read_bytes m src len"
      using stored_read [of ?m ?b "read_bytes m src len"] by simp
    finally show ?thesis .
  qed
  have aligned: "2 ^ k dvd next_free h1" if "xs \<noteq> []"
  proof -
    have "0 < (\<Sum>x \<leftarrow> xs. snd x + 2 ^ k)" using that by (cases xs) auto
    then have "next_free h1 < chunk_limit h" using nf(2) rest by linarith
    then show ?thesis using al ok1(2) by simp
  qed
  have "copy_all newchunk (x # xs) (h, m) = (?b # ps, h', m')"
    by (simp add: x h1 r(1))
  moreover have "\<forall>a. a < next_free h \<or> chunk_limit h \<le> a \<longrightarrow> m' a = m a"
    using keep nf(1) same room base by (auto simp: write_bytes_def)
  moreover have "\<forall>a. (\<forall>i < length (x # xs).
      a \<notin> {(?b # ps) ! i ..< (?b # ps) ! i + snd ((x # xs) ! i)}) \<longrightarrow> m' a = m a"
  proof (intro allI impI)
    fix a assume out: "\<forall>i < length (x # xs). a \<notin> {(?b # ps) ! i ..< (?b # ps) ! i + snd ((x # xs) ! i)}"
    have "\<forall>i < length xs. a \<notin> {ps ! i ..< ps ! i + snd (xs ! i)}"
      using out [rule_format, of "Suc i" for i] by simp
    then have "m' a = ?m a" using apart by blast
    also have "\<dots> = m a" using out [rule_format, of 0] by (auto simp: x write_bytes_def)
    finally show "m' a = m a" .
  qed
  moreover have "\<forall>i < length (x # xs). next_free h \<le> (?b # ps) ! i \<and> (?b # ps) ! i + snd ((x # xs) ! i) \<le> next_free h' \<and>
       read_bytes m' ((?b # ps) ! i) (snd ((x # xs) ! i)) = read_bytes m (fst ((x # xs) ! i)) (snd ((x # xs) ! i)) \<and>
       (2 ^ k dvd next_free h \<longrightarrow> 2 ^ k dvd (?b # ps) ! i) \<and>
       (\<forall>j < i. (?b # ps) ! j + snd ((x # xs) ! j) \<le> (?b # ps) ! i)"
  proof (intro allI impI)
    fix i assume "i < length (x # xs)"
    show "next_free h \<le> (?b # ps) ! i \<and> (?b # ps) ! i + snd ((x # xs) ! i) \<le> next_free h' \<and>
       read_bytes m' ((?b # ps) ! i) (snd ((x # xs) ! i)) = read_bytes m (fst ((x # xs) ! i)) (snd ((x # xs) ! i)) \<and>
       (2 ^ k dvd next_free h \<longrightarrow> 2 ^ k dvd (?b # ps) ! i) \<and>
       (\<forall>j < i. (?b # ps) ! j + snd ((x # xs) ! j) \<le> (?b # ps) ! i)"
    proof (cases i)
      case 0
      then show ?thesis using first b1(1) ok1(2) r(7) base by (simp add: x)
    next
      case (Suc n)
      then have n: "n < length xs" and ne: "xs \<noteq> []" using \<open>i < length (x # xs)\<close> by auto
      have "xs ! n \<in> set xs" using n by simp
      then have "read_bytes ?m (fst (xs ! n)) (snd (xs ! n)) = read_bytes m (fst (xs ! n)) (snd (xs ! n))"
        using Cons.prems(6) by (intro src) auto
      moreover have "(?b # ps) ! j + snd ((x # xs) ! j) \<le> ps ! n" if "j < i" for j
        using that each n b1(1) ok1(2) Suc by (cases j) (auto simp: x intro: order_trans)
      ultimately show ?thesis
        using each n nf(1) aligned [OF ne] Suc by (auto intro: order_trans)
    qed
  qed
  ultimately show ?case
    using r same nf(1) by (intro exI [of _ "?b # ps"] exI [of _ h'] exI [of _ m']) simp
qed

text \<open>C10: copying objects into a chunk with room for them gives each an address of its own: they lie
  one after another inside the chunk, aligned, each with the bytes copied, and outside exactly
  these bytes no memory changes.  Freeing the first of them takes the stack back to where it
  began.  The stack is at an aligned place with no object being built, there is at least one object
  to copy, the data copied from lies outside the free part of the chunk, and the room needed counts
  a whole unit of alignment for each object.\<close>

theorem objects_stay_apart:
  assumes "obstack_ok h" and "object_base h = next_free h" and "alignment_mask h = mask k" and "k < 32"
    and "2 ^ k dvd next_free h"
    and "next_free h + (\<Sum>x \<leftarrow> xs. snd x + 2 ^ k) \<le> chunk_limit h"
    and "\<forall>x \<in> set xs. fst x + snd x \<le> next_free h \<or> chunk_limit h \<le> fst x" and "xs \<noteq> []"
  shows "\<exists>ps h' m'. copy_all newchunk xs (h, m) = (ps, h', m') \<and> length ps = length xs \<and>
    (\<forall>i < length xs. next_free h \<le> ps ! i \<and> ps ! i + snd (xs ! i) \<le> chunk_limit h \<and> 2 ^ k dvd ps ! i \<and>
       read_bytes m' (ps ! i) (snd (xs ! i)) = read_bytes m (fst (xs ! i)) (snd (xs ! i)) \<and>
       (\<forall>j < i. ps ! j + snd (xs ! j) \<le> ps ! i)) \<and>
    (\<forall>a. (\<forall>i < length xs. a \<notin> {ps ! i ..< ps ! i + snd (xs ! i)}) \<longrightarrow> m' a = m a) \<and>
    chunk h' = chunk h \<and> chunk_limit h' = chunk_limit h \<and>
    object_base (fst (obstack_free free_older (hd ps) (h', m'))) = object_base h \<and>
    next_free (fst (obstack_free free_older (hd ps) (h', m'))) = next_free h"
proof -
  obtain ps h' m' where c: "copy_all newchunk xs (h, m) = (ps, h', m')" "length ps = length xs"
    "obstack_ok h'" "chunk h' = chunk h" "chunk_limit h' = chunk_limit h" "object_base h' = next_free h'"
    "\<forall>a. (\<forall>i < length xs. a \<notin> {ps ! i ..< ps ! i + snd (xs ! i)}) \<longrightarrow> m' a = m a" "hd ps = object_base h"
    "\<forall>i < length xs. next_free h \<le> ps ! i \<and> ps ! i + snd (xs ! i) \<le> next_free h' \<and>
       read_bytes m' (ps ! i) (snd (xs ! i)) = read_bytes m (fst (xs ! i)) (snd (xs ! i)) \<and>
       (2 ^ k dvd next_free h \<longrightarrow> 2 ^ k dvd ps ! i) \<and>
       (\<forall>j < i. ps ! j + snd (xs ! j) \<le> ps ! i)"
    using copy_all_in_chunk [OF assms(1-4,6,7), where newchunk = newchunk and m = m] assms(8) by blast
  have "0 < (\<Sum>x \<leftarrow> xs. snd x + 2 ^ k)" using assms(8) by (cases xs) auto
  then have "next_free h < chunk_limit h" using assms(6) by linarith
  moreover have "chunk h < object_base h" using assms(1) by (simp add: obstack_ok_def)
  ultimately have "obstack_free free_older (hd ps) (h', m') = (h'\<lparr>object_base := object_base h, next_free := object_base h\<rparr>, m')"
    using c assms(2) by (simp add: obstack_free_def)
  moreover have "next_free h' \<le> chunk_limit h" using c by (auto simp: obstack_ok_def)
  ultimately show ?thesis
    using c assms(2,5) by (intro exI [of _ ps] exI [of _ h'] exI [of _ m']) (auto intro: order_trans)
qed

section \<open>Instances\<close>

text \<open>A library that has one new chunk to give, at address 100000: it moves the object there.\<close>

definition far_chunk :: newchunk_fn where
  "far_chunk len s = ((fst s)\<lparr>chunk := 100000, object_base := 100016,
     next_free := 100016 + (next_free (fst s) - object_base (fst s)),
     chunk_limit := 100016 + (next_free (fst s) - object_base (fst s)) + len\<rparr>,
     write_bytes 100016 (current s) (snd s))"

definition sample_stack :: obstack where
  "sample_stack = \<lparr>chunk_size = 64, chunk = 1000, object_base = 1016, next_free = 1016, chunk_limit = 1080,
     alignment_mask = 7, maybe_empty_object = False\<rparr>"

lemma sample_stack_ok: "obstack_ok sample_stack" "alignment_mask sample_stack = mask 3"
  by (auto simp: obstack_ok_def sample_stack_def mask_eq_exp_minus_1 intro: exI [of _ 3])

lemma far_chunk_ok: "newchunk_ok {..< 100000} far_chunk"
proof -
  have "current (far_chunk len s) = current s" for len s
    using stored_read [of "write_bytes 100016 (current s) (snd s)" 100016 "current s"]
    by (simp add: far_chunk_def current_def)
  moreover have "obstack_ok (fst (far_chunk len s))"
    if "obstack_ok (fst s)" and "length (current s) + len < 2147483648" for len s
  proof -
    define d where "d = next_free (fst s) - object_base (fst s)"
    have "d + len < 2147483648" using that(2) by (simp add: current_def d_def)
    moreover have "\<exists>k < 32. alignment_mask (fst s) = mask k" using that(1) by (simp add: obstack_ok_def)
    ultimately show ?thesis unfolding far_chunk_def d_def [symmetric] by (simp add: obstack_ok_def)
  qed
  ultimately show ?thesis
    by (auto simp: newchunk_ok_def Let_def) (auto simp: far_chunk_def write_bytes_def)
qed

definition sample_bytes :: memory where
  "sample_bytes a = of_nat a"

definition sample_sources :: "(nat \<times> nat) list" where
  "sample_sources = [(16, 5), (200, 3)]"

definition sample_steps :: "growth list" where
  "sample_steps = [One 5, Grow 16 60, Blank 6, GrowInt 9, Grow0 20 40]"

lemma growing_appends_witness:
  "(\<exists>bs. current (fold (grow_op far_chunk) sample_steps (sample_stack, sample_bytes)) =
        current (sample_stack, sample_bytes) @ bs \<and>
      agrees (concat (map (grow_bytes (snd (sample_stack, sample_bytes))) sample_steps)) bs) \<and>
    obstack_ok (fst (fold (grow_op far_chunk) sample_steps (sample_stack, sample_bytes)))"
proof -
  have "(\<exists>bs. current (fold (grow_op far_chunk) sample_steps (sample_stack, sample_bytes)) =
        current (sample_stack, sample_bytes) @ bs \<and>
      agrees (concat (map (grow_bytes (snd (sample_stack, sample_bytes))) sample_steps)) bs) \<and>
    obstack_ok (fst (fold (grow_op far_chunk) sample_steps (sample_stack, sample_bytes))) \<and>
    (\<forall>a \<in> {16 ..< 76}. snd (fold (grow_op far_chunk) sample_steps (sample_stack, sample_bytes)) a =
      snd (sample_stack, sample_bytes) a)"
  proof (rule growing_appends)
    show "newchunk_ok {16 ..< 76} far_chunk"
      unfolding newchunk_ok_def Let_def
    proof (intro allI impI)
      fix len and s :: ob_state
      assume "obstack_ok (fst s) \<and> length (current s) + len < 2147483648"
      then show "obstack_ok (fst (far_chunk len s)) \<and> next_free (fst (far_chunk len s)) + len \<le> chunk_limit (fst (far_chunk len s)) \<and>
          alignment_mask (fst (far_chunk len s)) = alignment_mask (fst s) \<and> current (far_chunk len s) = current s \<and>
          (\<forall>a \<in> {16 ..< 76}. snd (far_chunk len s) a = snd s a) \<and>
          {chunk (fst (far_chunk len s)) ..< chunk_limit (fst (far_chunk len s))} \<inter> {16 ..< 76} = {}"
        using far_chunk_ok [unfolded newchunk_ok_def, rule_format, of s len]
        by (auto simp: Let_def)
    qed
    show "obstack_ok (fst (sample_stack, sample_bytes))" by (simp add: sample_stack_ok)
  qed (simp_all add: outside_def current_def sample_steps_def sample_stack_def)
  then show ?thesis by blast
qed

lemma objects_stay_apart_witness:
  "\<exists>ps h' m'. copy_all far_chunk sample_sources (sample_stack, sample_bytes) = (ps, h', m') \<and>
    length ps = length sample_sources \<and>
    (\<forall>i < length sample_sources. next_free sample_stack \<le> ps ! i \<and>
       ps ! i + snd (sample_sources ! i) \<le> chunk_limit sample_stack \<and> 2 ^ 3 dvd ps ! i \<and>
       read_bytes m' (ps ! i) (snd (sample_sources ! i)) =
         read_bytes sample_bytes (fst (sample_sources ! i)) (snd (sample_sources ! i)) \<and>
       (\<forall>j < i. ps ! j + snd (sample_sources ! j) \<le> ps ! i)) \<and>
    (\<forall>a. (\<forall>i < length sample_sources. a \<notin> {ps ! i ..< ps ! i + snd (sample_sources ! i)}) \<longrightarrow>
       m' a = sample_bytes a) \<and>
    chunk h' = chunk sample_stack \<and> chunk_limit h' = chunk_limit sample_stack \<and>
    object_base (fst (obstack_free (\<lambda>obj s. s) (hd ps) (h', m'))) = object_base sample_stack \<and>
    next_free (fst (obstack_free (\<lambda>obj s. s) (hd ps) (h', m'))) = next_free sample_stack"
  by (rule objects_stay_apart [where k = 3])
    (use sample_stack_ok in \<open>simp_all add: sample_sources_def\<close>, simp_all add: sample_stack_def)

end
