(* ===== verification/Ultrasound.thy ===== *)
theory Ultrasound
  imports Byte_Memory
begin

text \<open>
  Events for the Gravis Ultrasound, \<^verbatim>\<open>linux/ultrasound.h\<close>: one command for one voice with two 16-bit
  parameters, sent through the sequencer buffer as a private event of eight bytes.
\<close>

definition SEQ_PRIVATE :: u8 where "SEQ_PRIVATE = 0xfe"

definition u_GUS_NUMVOICES :: u8 where "u_GUS_NUMVOICES = 0x00"

definition u_GUS_VOICESAMPLE :: u8 where "u_GUS_VOICESAMPLE = 0x01"

definition u_GUS_VOICEON :: u8 where "u_GUS_VOICEON = 0x02"

definition u_GUS_VOICEOFF :: u8 where "u_GUS_VOICEOFF = 0x03"

definition u_GUS_VOICEMODE :: u8 where "u_GUS_VOICEMODE = 0x04"

definition u_GUS_VOICEBALA :: u8 where "u_GUS_VOICEBALA = 0x05"

definition u_GUS_VOICEFREQ :: u8 where "u_GUS_VOICEFREQ = 0x06"

definition u_GUS_VOICEVOL :: u8 where "u_GUS_VOICEVOL = 0x07"

definition u_GUS_RAMPRANGE :: u8 where "u_GUS_RAMPRANGE = 0x08"

definition u_GUS_RAMPRATE :: u8 where "u_GUS_RAMPRATE = 0x09"

definition u_GUS_RAMPMODE :: u8 where "u_GUS_RAMPMODE = 0x0a"

definition u_GUS_RAMPON :: u8 where "u_GUS_RAMPON = 0x0b"

definition u_GUS_RAMPOFF :: u8 where "u_GUS_RAMPOFF = 0x0c"

definition u_GUS_VOICEFADE :: u8 where "u_GUS_VOICEFADE = 0x0d"

definition u_GUS_VOLUME_SCALE :: u8 where "u_GUS_VOLUME_SCALE = 0x0e"

definition u_GUS_VOICEVOL2 :: u8 where "u_GUS_VOICEVOL2 = 0x0f"

definition u_GUS_VOICE_POS :: u8 where "u_GUS_VOICE_POS = 0x10"

text \<open>A parameter is stored as an \<^verbatim>\<open>unsigned short\<close>, low byte first.\<close>

definition GUS_CMD :: "u8 \<Rightarrow> u8 \<Rightarrow> u8 \<Rightarrow> u32 \<Rightarrow> u32 \<Rightarrow> u8 list" where
  "GUS_CMD chn voice cmd p1 p2 =
     [SEQ_PRIVATE, chn, cmd, voice, lo8 (ucast p1), hi8 (ucast p1), lo8 (ucast p2), hi8 (ucast p2)]"

definition GUS_NUMVOICES :: "u8 \<Rightarrow> u32 \<Rightarrow> u8 list" where
  "GUS_NUMVOICES chn p1 = GUS_CMD chn 0 u_GUS_NUMVOICES p1 0"

definition GUS_VOICESAMPLE :: "u8 \<Rightarrow> u8 \<Rightarrow> u32 \<Rightarrow> u8 list" where
  "GUS_VOICESAMPLE chn voice p1 = GUS_CMD chn voice u_GUS_VOICESAMPLE p1 0"

definition GUS_VOICEON :: "u8 \<Rightarrow> u8 \<Rightarrow> u32 \<Rightarrow> u8 list" where
  "GUS_VOICEON chn voice p1 = GUS_CMD chn voice u_GUS_VOICEON p1 0"

definition GUS_VOICEOFF :: "u8 \<Rightarrow> u8 \<Rightarrow> u8 list" where
  "GUS_VOICEOFF chn voice = GUS_CMD chn voice u_GUS_VOICEOFF 0 0"

definition GUS_VOICEFADE :: "u8 \<Rightarrow> u8 \<Rightarrow> u8 list" where
  "GUS_VOICEFADE chn voice = GUS_CMD chn voice u_GUS_VOICEFADE 0 0"

definition GUS_VOICEMODE :: "u8 \<Rightarrow> u8 \<Rightarrow> u32 \<Rightarrow> u8 list" where
  "GUS_VOICEMODE chn voice p1 = GUS_CMD chn voice u_GUS_VOICEMODE p1 0"

definition GUS_VOICEBALA :: "u8 \<Rightarrow> u8 \<Rightarrow> u32 \<Rightarrow> u8 list" where
  "GUS_VOICEBALA chn voice p1 = GUS_CMD chn voice u_GUS_VOICEBALA p1 0"

definition GUS_VOICEFREQ :: "u8 \<Rightarrow> u8 \<Rightarrow> u32 \<Rightarrow> u8 list" where
  "GUS_VOICEFREQ chn voice p = GUS_CMD chn voice u_GUS_VOICEFREQ (p AND 0xffff) (drop_bit 16 p AND 0xffff)"

definition GUS_VOICEVOL :: "u8 \<Rightarrow> u8 \<Rightarrow> u32 \<Rightarrow> u8 list" where
  "GUS_VOICEVOL chn voice p1 = GUS_CMD chn voice u_GUS_VOICEVOL p1 0"

definition GUS_VOICEVOL2 :: "u8 \<Rightarrow> u8 \<Rightarrow> u32 \<Rightarrow> u8 list" where
  "GUS_VOICEVOL2 chn voice p1 = GUS_CMD chn voice u_GUS_VOICEVOL2 p1 0"

definition GUS_RAMPRANGE :: "u8 \<Rightarrow> u8 \<Rightarrow> u32 \<Rightarrow> u32 \<Rightarrow> u8 list" where
  "GUS_RAMPRANGE chn voice low high = GUS_CMD chn voice u_GUS_RAMPRANGE low high"

definition GUS_RAMPRATE :: "u8 \<Rightarrow> u8 \<Rightarrow> u32 \<Rightarrow> u32 \<Rightarrow> u8 list" where
  "GUS_RAMPRATE chn voice p1 p2 = GUS_CMD chn voice u_GUS_RAMPRATE p1 p2"

definition GUS_RAMPMODE :: "u8 \<Rightarrow> u8 \<Rightarrow> u32 \<Rightarrow> u8 list" where
  "GUS_RAMPMODE chn voice p1 = GUS_CMD chn voice u_GUS_RAMPMODE p1 0"

definition GUS_RAMPON :: "u8 \<Rightarrow> u8 \<Rightarrow> u32 \<Rightarrow> u8 list" where
  "GUS_RAMPON chn voice p1 = GUS_CMD chn voice u_GUS_RAMPON p1 0"

definition GUS_RAMPOFF :: "u8 \<Rightarrow> u8 \<Rightarrow> u8 list" where
  "GUS_RAMPOFF chn voice = GUS_CMD chn voice u_GUS_RAMPOFF 0 0"

definition GUS_VOLUME_SCALE :: "u8 \<Rightarrow> u8 \<Rightarrow> u32 \<Rightarrow> u32 \<Rightarrow> u8 list" where
  "GUS_VOLUME_SCALE chn voice p1 p2 = GUS_CMD chn voice u_GUS_VOLUME_SCALE p1 p2"

definition GUS_VOICE_POS :: "u8 \<Rightarrow> u8 \<Rightarrow> u32 \<Rightarrow> u8 list" where
  "GUS_VOICE_POS chn voice p = GUS_CMD chn voice u_GUS_VOICE_POS (p AND 0xffff) (drop_bit 16 p AND 0xffff)"

text \<open>What the driver reads: the two parameters, and a frequency or a position as one number of both.\<close>

definition gus_param :: "u8 list \<Rightarrow> nat \<Rightarrow> u32" where
  "gus_param e i = ucast (be16 (e ! (5 + 2 * i)) (e ! (4 + 2 * i)))"

lemma gus_params:
  "gus_param (GUS_CMD chn voice cmd p1 p2) 0 = p1 AND 0xffff" "gus_param (GUS_CMD chn voice cmd p1 p2) 1 = p2 AND 0xffff"
proof -
  have m: "(0xffff :: u32) = mask 16" by (simp add: mask_eq_exp_minus_1)
  show "gus_param (GUS_CMD chn voice cmd p1 p2) 0 = p1 AND 0xffff"
    "gus_param (GUS_CMD chn voice cmd p1 p2) 1 = p2 AND 0xffff"
    unfolding m by (simp_all add: gus_param_def GUS_CMD_def) (rule bit_word_eqI; auto simp: bit_simps)+
qed

lemma gus_long_parameter:
  "push_bit 16 (gus_param (GUS_VOICEFREQ chn voice p) 1) OR gus_param (GUS_VOICEFREQ chn voice p) 0 = p"
  "push_bit 16 (gus_param (GUS_VOICE_POS chn voice p) 1) OR gus_param (GUS_VOICE_POS chn voice p) 0 = p"
proof -
  have m: "(0xffff :: u32) = mask 16" by (simp add: mask_eq_exp_minus_1)
  show "push_bit 16 (gus_param (GUS_VOICEFREQ chn voice p) 1) OR gus_param (GUS_VOICEFREQ chn voice p) 0 = p"
    "push_bit 16 (gus_param (GUS_VOICE_POS chn voice p) 1) OR gus_param (GUS_VOICE_POS chn voice p) 0 = p"
    unfolding GUS_VOICEFREQ_def GUS_VOICE_POS_def gus_params m
    by (rule bit_word_eqI; auto simp: bit_simps simp del: push_bit_and)+
qed

end
