(* ===== verification/Sequencer.thy ===== *)
theory Sequencer
  imports Ultrasound "HOL-Library.Signed_Division"
begin

text \<open>
  The sequencer macros of \<^verbatim>\<open>linux/soundcard.h\<close>: music events are formatted into a buffer, which a
  function the program provides sends to the device when it is full.  The function is an argument,
  with the sample in the header's comment as the model's own instance.  What \<^verbatim>\<open>write\<close> answers is an
  argument too: it may take everything, only a part, or fail.  The events of \<^verbatim>\<open>linux/ultrasound.h\<close> go through the same buffer.
\<close>

section \<open>Event codes\<close>

definition SEQ_MIDIPUTC :: u8 where "SEQ_MIDIPUTC = 5"

definition SEQ_CONTROLLER :: u8 where "SEQ_CONTROLLER = 10"

definition SEQ_VOLMODE :: u8 where "SEQ_VOLMODE = 12"

definition SEQ_EXTENDED :: u8 where "SEQ_EXTENDED = 0xff"

definition EV_SEQ_LOCAL :: u8 where "EV_SEQ_LOCAL = 0x80"

definition EV_TIMING :: u8 where "EV_TIMING = 0x81"

definition EV_CHN_COMMON :: u8 where "EV_CHN_COMMON = 0x92"

definition EV_CHN_VOICE :: u8 where "EV_CHN_VOICE = 0x93"

definition EV_SYSEX :: u8 where "EV_SYSEX = 0x94"

definition MIDI_NOTEOFF :: u8 where "MIDI_NOTEOFF = 0x80"

definition MIDI_NOTEON :: u8 where "MIDI_NOTEON = 0x90"

definition MIDI_KEY_PRESSURE :: u8 where "MIDI_KEY_PRESSURE = 0xA0"

definition MIDI_CTL_CHANGE :: u8 where "MIDI_CTL_CHANGE = 0xB0"

definition MIDI_PGM_CHANGE :: u8 where "MIDI_PGM_CHANGE = 0xC0"

definition MIDI_CHN_PRESSURE :: u8 where "MIDI_CHN_PRESSURE = 0xD0"

definition MIDI_PITCH_BEND :: u8 where "MIDI_PITCH_BEND = 0xE0"

definition TMR_WAIT_REL :: u8 where "TMR_WAIT_REL = 1"

definition TMR_WAIT_ABS :: u8 where "TMR_WAIT_ABS = 2"

definition TMR_STOP :: u8 where "TMR_STOP = 3"

definition TMR_START :: u8 where "TMR_START = 4"

definition TMR_CONTINUE :: u8 where "TMR_CONTINUE = 5"

definition TMR_TEMPO :: u8 where "TMR_TEMPO = 6"

definition TMR_ECHO :: u8 where "TMR_ECHO = 8"

definition TMR_SPP :: u8 where "TMR_SPP = 10"

definition TMR_TIMESIG :: u8 where "TMR_TIMESIG = 11"

definition LOCL_STARTAUDIO :: u8 where "LOCL_STARTAUDIO = 1"

definition CTL_MAIN_VOLUME :: u8 where "CTL_MAIN_VOLUME = 0x07"

definition CTL_PAN :: u8 where "CTL_PAN = 0x0a"

definition CTL_EXPRESSION :: u8 where "CTL_EXPRESSION = 0x0b"

definition CTRL_PITCH_BENDER :: u8 where "CTRL_PITCH_BENDER = 255"

definition CTRL_PITCH_BENDER_RANGE :: u8 where "CTRL_PITCH_BENDER_RANGE = 254"

section \<open>The buffer\<close>

text \<open>
  The state of the device is the log of the writes: the bytes offered and the result, the number
  of bytes taken or \<open>-1\<close>.  A writer answers from the log and the bytes offered now.
\<close>

type_synonym write_log = "(u8 list \<times> int) list"
type_synonym writer = "write_log \<Rightarrow> u8 list \<Rightarrow> int"

record seq_state =
  seqbuf :: "u8 list"
  seqbufptr :: nat
  writes :: write_log

definition offered :: "write_log \<Rightarrow> u8 list" where
  "offered ws = concat (map fst ws)"

definition taken :: "write_log \<Rightarrow> u8 list" where
  "taken ws = concat (map (\<lambda>(bs, n). take (nat n) bs) ws)"

definition seq_write :: "writer \<Rightarrow> u8 list \<Rightarrow> seq_state \<Rightarrow> int \<times> seq_state" where
  "seq_write wr bs s = (let n = wr (writes s) bs in (n, s\<lparr>writes := writes s @ [(bs, n)]\<rparr>))"

text \<open>The buffer length of \<^verbatim>\<open>SEQ_DEFINEBUF\<close> is that of the array.\<close>

definition SEQ_DEFINEBUF :: "nat \<Rightarrow> seq_state" where
  "SEQ_DEFINEBUF len = \<lparr>seqbuf = replicate len 0, seqbufptr = 0, writes = []\<rparr>"

text \<open>
  The sample function.  A failed write ends the program: the value is \<open>None\<close>.  After any other
  write, also one that took only a part, the whole buffer counts as sent.
\<close>

definition sample_dump :: "writer \<Rightarrow> seq_state \<Rightarrow> seq_state option" where
  "sample_dump wr s =
     (if seqbufptr s \<noteq> 0
      then (let (n, s') = seq_write wr (take (seqbufptr s) (seqbuf s)) s
            in if n = - 1 then None else Some (s'\<lparr>seqbufptr := 0\<rparr>))
      else Some (s\<lparr>seqbufptr := 0\<rparr>))"

type_synonym dump_fn = "seq_state \<Rightarrow> seq_state option"

definition SEQ_NEEDBUF :: "dump_fn \<Rightarrow> nat \<Rightarrow> seq_state \<Rightarrow> seq_state option" where
  "SEQ_NEEDBUF seqbuf_dump len s =
     (if seqbufptr s + len > length (seqbuf s) then seqbuf_dump s else Some s)"

definition SEQ_ADVBUF :: "nat \<Rightarrow> seq_state \<Rightarrow> seq_state" where
  "SEQ_ADVBUF len s = s\<lparr>seqbufptr := seqbufptr s + len\<rparr>"

definition seq_put :: "nat \<Rightarrow> u8 \<Rightarrow> seq_state \<Rightarrow> seq_state" where
  "seq_put i v s = s\<lparr>seqbuf := (seqbuf s)[seqbufptr s + i := v]\<rparr>"

text \<open>What every event macro does: make room, write the bytes in order, advance.\<close>

definition seq_event :: "dump_fn \<Rightarrow> u8 list \<Rightarrow> seq_state \<Rightarrow> seq_state option" where
  "seq_event seqbuf_dump bs s =
     map_option (\<lambda>t. SEQ_ADVBUF (length bs) (fold (\<lambda>(i, v). seq_put i v) (enumerate 0 bs) t))
       (SEQ_NEEDBUF seqbuf_dump (length bs) s)"

section \<open>Events\<close>

definition SEQ_VOLUME_MODE :: "u8 \<Rightarrow> u8 \<Rightarrow> u8 list" where
  "SEQ_VOLUME_MODE dev mode = [SEQ_EXTENDED, SEQ_VOLMODE, dev, mode, 0, 0, 0, 0]"

definition CHN_VOICE :: "u8 \<Rightarrow> u8 \<Rightarrow> u8 \<Rightarrow> u8 \<Rightarrow> u8 \<Rightarrow> u8 list" where
  "CHN_VOICE dev event chn note parm = [EV_CHN_VOICE, dev, event, chn, note, parm, 0, 0]"

definition SEQ_START_NOTE :: "u8 \<Rightarrow> u8 \<Rightarrow> u8 \<Rightarrow> u8 \<Rightarrow> u8 list" where
  "SEQ_START_NOTE dev chn note vol = CHN_VOICE dev MIDI_NOTEON chn note vol"

definition SEQ_STOP_NOTE :: "u8 \<Rightarrow> u8 \<Rightarrow> u8 \<Rightarrow> u8 \<Rightarrow> u8 list" where
  "SEQ_STOP_NOTE dev chn note vol = CHN_VOICE dev MIDI_NOTEOFF chn note vol"

definition SEQ_KEY_PRESSURE :: "u8 \<Rightarrow> u8 \<Rightarrow> u8 \<Rightarrow> u8 \<Rightarrow> u8 list" where
  "SEQ_KEY_PRESSURE dev chn note pressure = CHN_VOICE dev MIDI_KEY_PRESSURE chn note pressure"

definition CHN_COMMON :: "u8 \<Rightarrow> u8 \<Rightarrow> u8 \<Rightarrow> u8 \<Rightarrow> u8 \<Rightarrow> u16 \<Rightarrow> u8 list" where
  "CHN_COMMON dev event chn p1 p2 w14 = [EV_CHN_COMMON, dev, event, chn, p1, p2, lo8 w14, hi8 w14]"

text \<open>At most six bytes of the message, padded to six.\<close>

definition SEQ_SYSEX :: "u8 \<Rightarrow> u8 list \<Rightarrow> nat \<Rightarrow> u8 list" where
  "SEQ_SYSEX dev bufp len =
     (let ll = (if len > 6 then 6 else len)
      in [EV_SYSEX, dev] @ map (\<lambda>ii. bufp ! ii) [0..<ll] @ map (\<lambda>ii. 0xff) [ll..<6])"

definition SEQ_CHN_PRESSURE :: "u8 \<Rightarrow> u8 \<Rightarrow> u8 \<Rightarrow> u8 list" where
  "SEQ_CHN_PRESSURE dev chn pressure = CHN_COMMON dev MIDI_CHN_PRESSURE chn pressure 0 0"

definition SEQ_PGM_CHANGE :: "u8 \<Rightarrow> u8 \<Rightarrow> u8 \<Rightarrow> u8 list" where
  "SEQ_PGM_CHANGE dev chn patch = CHN_COMMON dev MIDI_PGM_CHANGE chn patch 0 0"

definition SEQ_SET_PATCH :: "u8 \<Rightarrow> u8 \<Rightarrow> u8 \<Rightarrow> u8 list" where
  "SEQ_SET_PATCH = SEQ_PGM_CHANGE"

definition SEQ_CONTROL :: "u8 \<Rightarrow> u8 \<Rightarrow> u8 \<Rightarrow> u16 \<Rightarrow> u8 list" where
  "SEQ_CONTROL dev chn controller val = CHN_COMMON dev MIDI_CTL_CHANGE chn controller 0 val"

definition SEQ_BENDER :: "u8 \<Rightarrow> u8 \<Rightarrow> u16 \<Rightarrow> u8 list" where
  "SEQ_BENDER dev chn val = CHN_COMMON dev MIDI_PITCH_BEND chn 0 0 val"

definition SEQ_V2_X_CONTROL :: "u8 \<Rightarrow> u8 \<Rightarrow> u8 \<Rightarrow> u32 \<Rightarrow> u8 list" where
  "SEQ_V2_X_CONTROL dev voice controller val =
     [SEQ_EXTENDED, SEQ_CONTROLLER, dev, voice, controller, ucast (val AND 0xff),
      ucast (drop_bit 8 val AND 0xff), 0]"

definition SEQ_PITCHBEND :: "u8 \<Rightarrow> u8 \<Rightarrow> u32 \<Rightarrow> u8 list" where
  "SEQ_PITCHBEND dev voice val = SEQ_V2_X_CONTROL dev voice CTRL_PITCH_BENDER val"

definition SEQ_BENDER_RANGE :: "u8 \<Rightarrow> u8 \<Rightarrow> u32 \<Rightarrow> u8 list" where
  "SEQ_BENDER_RANGE dev voice val = SEQ_V2_X_CONTROL dev voice CTRL_PITCH_BENDER_RANGE val"

text \<open>These compute with an \<^verbatim>\<open>int\<close>, which is cut to 14 bits' storage, a \<^verbatim>\<open>short\<close>, at the end.\<close>

definition SEQ_EXPRESSION :: "u8 \<Rightarrow> u8 \<Rightarrow> int \<Rightarrow> u8 list" where
  "SEQ_EXPRESSION dev voice val = SEQ_CONTROL dev voice CTL_EXPRESSION (of_int (val * 128))"

definition SEQ_MAIN_VOLUME :: "u8 \<Rightarrow> u8 \<Rightarrow> int \<Rightarrow> u8 list" where
  "SEQ_MAIN_VOLUME dev voice val = SEQ_CONTROL dev voice CTL_MAIN_VOLUME (of_int ((val * 16383) sdiv 100))"

definition SEQ_PANNING :: "u8 \<Rightarrow> u8 \<Rightarrow> int \<Rightarrow> u8 list" where
  "SEQ_PANNING dev voice pos = SEQ_CONTROL dev voice CTL_PAN (of_int ((pos + 128) sdiv 2))"

definition TIMER_EVENT :: "u8 \<Rightarrow> u32 \<Rightarrow> u8 list" where
  "TIMER_EVENT ev parm = [EV_TIMING, ev, 0, 0] @ word_bytes 4 parm"

definition SEQ_START_TIMER :: "u8 list" where
  "SEQ_START_TIMER = TIMER_EVENT TMR_START 0"

definition SEQ_STOP_TIMER :: "u8 list" where
  "SEQ_STOP_TIMER = TIMER_EVENT TMR_STOP 0"

definition SEQ_CONTINUE_TIMER :: "u8 list" where
  "SEQ_CONTINUE_TIMER = TIMER_EVENT TMR_CONTINUE 0"

definition SEQ_WAIT_TIME :: "u32 \<Rightarrow> u8 list" where
  "SEQ_WAIT_TIME ticks = TIMER_EVENT TMR_WAIT_ABS ticks"

definition SEQ_DELTA_TIME :: "u32 \<Rightarrow> u8 list" where
  "SEQ_DELTA_TIME ticks = TIMER_EVENT TMR_WAIT_REL ticks"

definition SEQ_ECHO_BACK :: "u32 \<Rightarrow> u8 list" where
  "SEQ_ECHO_BACK key = TIMER_EVENT TMR_ECHO key"

definition SEQ_SET_TEMPO :: "u32 \<Rightarrow> u8 list" where
  "SEQ_SET_TEMPO val = TIMER_EVENT TMR_TEMPO val"

definition SEQ_SONGPOS :: "u32 \<Rightarrow> u8 list" where
  "SEQ_SONGPOS pos = TIMER_EVENT TMR_SPP pos"

definition SEQ_TIME_SIGNATURE :: "u32 \<Rightarrow> u8 list" where
  "SEQ_TIME_SIGNATURE sig = TIMER_EVENT TMR_TIMESIG sig"

definition LOCAL_EVENT :: "u8 \<Rightarrow> u32 \<Rightarrow> u8 list" where
  "LOCAL_EVENT ev parm = [EV_SEQ_LOCAL, ev, 0, 0] @ word_bytes 4 parm"

definition SEQ_PLAYAUDIO :: "u32 \<Rightarrow> u8 list" where
  "SEQ_PLAYAUDIO devmask = LOCAL_EVENT LOCL_STARTAUDIO devmask"

definition SEQ_MIDIOUT :: "u8 \<Rightarrow> u8 \<Rightarrow> u8 list" where
  "SEQ_MIDIOUT dev byte = [SEQ_MIDIPUTC, byte, dev, 0]"

text \<open>
  Patches are written past the buffer, after what is in it.  The statement form reports a failed
  write and goes on, the expression form has the result of the write as its value.
\<close>

definition SEQ_WRPATCH :: "dump_fn \<Rightarrow> writer \<Rightarrow> u8 list \<Rightarrow> seq_state \<Rightarrow> seq_state option" where
  "SEQ_WRPATCH seqbuf_dump wr patchx s =
     map_option (\<lambda>t. snd (seq_write wr patchx t)) (if seqbufptr s \<noteq> 0 then seqbuf_dump s else Some s)"

definition SEQ_WRPATCH2 :: "dump_fn \<Rightarrow> writer \<Rightarrow> u8 list \<Rightarrow> seq_state \<Rightarrow> (int \<times> seq_state) option" where
  "SEQ_WRPATCH2 seqbuf_dump wr patchx s = map_option (seq_write wr patchx) (seqbuf_dump s)"

section \<open>The contract of the dump function\<close>

text \<open>All bytes handed on so far, those still in the buffer included.\<close>

definition stream :: "seq_state \<Rightarrow> u8 list" where
  "stream s = offered (writes s) @ take (seqbufptr s) (seqbuf s)"

definition seq_ok :: "seq_state \<Rightarrow> bool" where
  "seq_ok s \<longleftrightarrow> seqbufptr s \<le> length (seqbuf s)"

text \<open>A device has everything it was offered when every write took all its bytes, and only then.\<close>

definition all_taken :: "write_log \<Rightarrow> bool" where
  "all_taken ws \<longleftrightarrow> (\<forall>(bs, n) \<in> set ws. length bs \<le> nat n)"

lemma length_taken: "length (taken ws) \<le> length (offered ws)"
  by (induction ws) (auto simp: taken_def offered_def intro: add_mono)

lemma taken_eq_offered: "taken ws = offered ws \<longleftrightarrow> all_taken ws"
proof (induction ws)
  case (Cons w ws)
  obtain bs n where w: "w = (bs, n)" by (cases w)
  have c: "taken (w # ws) = take (nat n) bs @ taken ws" "offered (w # ws) = bs @ offered ws"
    "all_taken (w # ws) \<longleftrightarrow> length bs \<le> nat n \<and> all_taken ws"
    by (simp_all add: w taken_def offered_def all_taken_def)
  show ?case
  proof (cases "length bs \<le> nat n")
    case False
    then have "length (taken (w # ws)) < length (offered (w # ws))"
      using length_taken [of ws] by (simp add: c)
    with False c(3) show ?thesis by auto
  qed (use Cons in \<open>simp add: c\<close>)
qed (simp add: taken_def offered_def all_taken_def)

lemma fold_put:
  "fold (\<lambda>(i, v). seq_put i v) (enumerate n bs) s =
    s\<lparr>seqbuf := take (seqbufptr s + n) (seqbuf s) @ take (length (seqbuf s) - (seqbufptr s + n)) bs @
      drop (seqbufptr s + n + length bs) (seqbuf s)\<rparr>"
  if "seqbufptr s + n \<le> length (seqbuf s)" "seqbufptr s + n + length bs \<le> length (seqbuf s)"
  using that
proof (induction bs arbitrary: n s)
  case (Cons b bs)
  have "fold (\<lambda>(i, v). seq_put i v) (enumerate n (b # bs)) s =
      fold (\<lambda>(i, v). seq_put i v) (enumerate (Suc n) bs) (seq_put n b s)"
    by simp
  also have "\<dots> = (seq_put n b s)\<lparr>seqbuf := take (seqbufptr s + Suc n) ((seqbuf s)[seqbufptr s + n := b]) @
      take (length (seqbuf s) - (seqbufptr s + Suc n)) bs @
      drop (seqbufptr s + Suc n + length bs) ((seqbuf s)[seqbufptr s + n := b])\<rparr>"
    using Cons.prems by (subst Cons.IH) (simp_all add: seq_put_def)
  also have "\<dots> = s\<lparr>seqbuf := take (seqbufptr s + n) (seqbuf s) @ take (length (seqbuf s) - (seqbufptr s + n)) (b # bs) @
      drop (seqbufptr s + n + length (b # bs)) (seqbuf s)\<rparr>"
  proof -
    have "take (seqbufptr s + Suc n) ((seqbuf s)[seqbufptr s + n := b]) = take (seqbufptr s + n) (seqbuf s) @ [b]"
      using Cons.prems by (simp add: take_Suc_conv_app_nth)
    moreover have "length (seqbuf s) - (seqbufptr s + n) = Suc (length (seqbuf s) - (seqbufptr s + Suc n))"
      using Cons.prems by simp
    ultimately show ?thesis
      using Cons.prems by (simp add: seq_put_def)
  qed
  finally show ?case .
qed simp

locale buffer_dump =
  fixes dump :: dump_fn
  assumes dump_ptr: "dump s = Some t \<Longrightarrow> seqbufptr t = 0"
    and dump_length: "dump s = Some t \<Longrightarrow> length (seqbuf t) = length (seqbuf s)"
    and dump_offers: "dump s = Some t \<Longrightarrow> seq_ok s \<Longrightarrow> offered (writes t) = stream s"
begin

lemma dump_ok: "dump s = Some t \<Longrightarrow> seq_ok t"
  by (simp add: seq_ok_def dump_ptr)

lemma dump_stream: "dump s = Some t \<Longrightarrow> seq_ok s \<Longrightarrow> stream t = stream s"
  by (simp add: stream_def [of t] dump_ptr dump_offers)

lemma event_appends:
  assumes "seq_event dump bs s = Some u" and "seq_ok s" and "length bs \<le> length (seqbuf s)"
  shows "stream u = stream s @ bs" and "seq_ok u" and "length (seqbuf u) = length (seqbuf s)"
proof -
  obtain t where n: "SEQ_NEEDBUF dump (length bs) s = Some t"
    and u: "u = SEQ_ADVBUF (length bs) (fold (\<lambda>(i, v). seq_put i v) (enumerate 0 bs) t)"
    using assms(1) by (auto simp: seq_event_def)
  have t: "seq_ok t" "stream t = stream s" "length (seqbuf t) = length (seqbuf s)"
    "seqbufptr t + length bs \<le> length (seqbuf t)"
    using assms(2,3) n dump_ok [of s t] dump_stream [of s t] dump_length [of s t] dump_ptr [of s t]
    by (auto simp: SEQ_NEEDBUF_def split: if_splits)
  have e: "u = SEQ_ADVBUF (length bs)
      (t\<lparr>seqbuf := take (seqbufptr t) (seqbuf t) @ bs @ drop (seqbufptr t + length bs) (seqbuf t)\<rparr>)"
    using t fold_put [of t 0 bs] by (simp add: u seq_ok_def)
  show "stream u = stream s @ bs"
    using t by (simp add: e stream_def SEQ_ADVBUF_def)
  show "seq_ok u" "length (seqbuf u) = length (seqbuf s)"
    using t by (simp_all add: e seq_ok_def SEQ_ADVBUF_def)
qed

end

lemma sample_dump_cases:
  assumes "sample_dump wr s = Some t"
  obtains "seqbufptr s = 0" and "t = s"
  | n where "seqbufptr s \<noteq> 0" and "n = wr (writes s) (take (seqbufptr s) (seqbuf s))" and "n \<noteq> - 1"
    and "t = s\<lparr>writes := writes s @ [(take (seqbufptr s) (seqbuf s), n)], seqbufptr := 0\<rparr>"
  using assms by (auto simp: sample_dump_def seq_write_def Let_def split: if_splits)

lemma sample_dump_None:
  "sample_dump wr s = None \<longleftrightarrow>
     seqbufptr s \<noteq> 0 \<and> wr (writes s) (take (seqbufptr s) (seqbuf s)) = - 1"
  by (simp add: sample_dump_def seq_write_def Let_def)

interpretation sample: buffer_dump "sample_dump wr" for wr
  by unfold_locales (auto elim!: sample_dump_cases simp: stream_def offered_def)

section \<open>Runs of a program\<close>

text \<open>The events the macros send.\<close>

inductive is_event :: "u8 list \<Rightarrow> bool" where
  voice: "is_event (CHN_VOICE dev event chn note parm)"
| common: "is_event (CHN_COMMON dev event chn p1 p2 w14)"
| sysex: "is_event (SEQ_SYSEX dev bufp len)"
| volume_mode: "is_event (SEQ_VOLUME_MODE dev mode)"
| extended: "is_event (SEQ_V2_X_CONTROL dev voice controller val)"
| timer: "is_event (TIMER_EVENT ev parm)"
| local_event: "is_event (LOCAL_EVENT ev parm)"
| midi: "is_event (SEQ_MIDIOUT dev byte)"
| gus: "is_event (GUS_CMD chn voice cmd p1' p2')"

lemma macros_are_events:
  "is_event (SEQ_START_NOTE dev chn note vol)" "is_event (SEQ_STOP_NOTE dev chn note vol)"
  "is_event (SEQ_KEY_PRESSURE dev chn note pressure)" "is_event (SEQ_CHN_PRESSURE dev chn pressure)"
  "is_event (SEQ_PGM_CHANGE dev chn patch)" "is_event (SEQ_SET_PATCH dev chn patch)"
  "is_event (SEQ_CONTROL dev chn controller w14)" "is_event (SEQ_BENDER dev chn w14)"
  "is_event (SEQ_PITCHBEND dev chn val)" "is_event (SEQ_BENDER_RANGE dev chn val)"
  "is_event (SEQ_EXPRESSION dev chn i)" "is_event (SEQ_MAIN_VOLUME dev chn i)" "is_event (SEQ_PANNING dev chn i)"
  "is_event SEQ_START_TIMER" "is_event SEQ_STOP_TIMER" "is_event SEQ_CONTINUE_TIMER"
  "is_event (SEQ_WAIT_TIME ticks)" "is_event (SEQ_DELTA_TIME ticks)" "is_event (SEQ_ECHO_BACK key)"
  "is_event (SEQ_SET_TEMPO val)" "is_event (SEQ_SONGPOS key)" "is_event (SEQ_TIME_SIGNATURE key)"
  "is_event (SEQ_PLAYAUDIO key)"
  "is_event (GUS_NUMVOICES chn p)" "is_event (GUS_VOICEON chn voice p)" "is_event (GUS_VOICEOFF chn voice)"
  "is_event (GUS_VOICEFREQ chn voice p)" "is_event (GUS_RAMPRANGE chn voice p p')" "is_event (GUS_VOICE_POS chn voice p)"
  by (simp_all add: SEQ_START_NOTE_def SEQ_STOP_NOTE_def SEQ_KEY_PRESSURE_def SEQ_CHN_PRESSURE_def
      SEQ_PGM_CHANGE_def SEQ_SET_PATCH_def SEQ_CONTROL_def SEQ_BENDER_def SEQ_PITCHBEND_def SEQ_BENDER_RANGE_def
      SEQ_EXPRESSION_def SEQ_MAIN_VOLUME_def SEQ_PANNING_def SEQ_START_TIMER_def SEQ_STOP_TIMER_def
      SEQ_CONTINUE_TIMER_def SEQ_WAIT_TIME_def SEQ_DELTA_TIME_def SEQ_ECHO_BACK_def SEQ_SET_TEMPO_def
      SEQ_SONGPOS_def SEQ_TIME_SIGNATURE_def SEQ_PLAYAUDIO_def GUS_NUMVOICES_def GUS_VOICEON_def GUS_VOICEOFF_def
      GUS_VOICEFREQ_def GUS_RAMPRANGE_def GUS_VOICE_POS_def is_event.intros)

text \<open>The first byte defines the size: eight bytes from 128 on, else four.\<close>

definition event_size :: "u8 \<Rightarrow> nat" where
  "event_size b = (if 128 \<le> b then 8 else 4)"

lemma event_shape: "is_event e \<Longrightarrow> e \<noteq> [] \<and> length e = event_size (hd e)"
  by (cases rule: is_event.cases)
    (auto simp: event_size_def CHN_VOICE_def CHN_COMMON_def SEQ_SYSEX_def SEQ_VOLUME_MODE_def
      SEQ_V2_X_CONTROL_def TIMER_EVENT_def LOCAL_EVENT_def SEQ_MIDIOUT_def EV_CHN_VOICE_def EV_CHN_COMMON_def
      EV_SYSEX_def SEQ_EXTENDED_def EV_TIMING_def EV_SEQ_LOCAL_def SEQ_MIDIPUTC_def GUS_CMD_def SEQ_PRIVATE_def Let_def
      word_le_nat_alt)

text \<open>C39: every event the macros can send is a record of the size its first byte states, four bytes
  for the plain MIDI output and eight for all the others, whatever the arguments.\<close>

theorem sequencer_events_well_formed:
  assumes "is_event e"
  shows "e \<noteq> [] \<and> length e = event_size (hd e) \<and> (length e = 4 \<longleftrightarrow> hd e = SEQ_MIDIPUTC)"
  using assms
  by (cases rule: is_event.cases)
    (auto simp: event_size_def CHN_VOICE_def CHN_COMMON_def SEQ_SYSEX_def SEQ_VOLUME_MODE_def
      SEQ_V2_X_CONTROL_def TIMER_EVENT_def LOCAL_EVENT_def SEQ_MIDIOUT_def EV_CHN_VOICE_def EV_CHN_COMMON_def
      EV_SYSEX_def SEQ_EXTENDED_def EV_TIMING_def EV_SEQ_LOCAL_def SEQ_MIDIPUTC_def GUS_CMD_def SEQ_PRIVATE_def Let_def
      word_le_nat_alt)

lemma sequencer_events_well_formed_witness:
  "SEQ_SYSEX 1 [0xf0, 0x7e, 0xf7] 3 \<noteq> [] \<and>
   length (SEQ_SYSEX 1 [0xf0, 0x7e, 0xf7] 3) = event_size (hd (SEQ_SYSEX 1 [0xf0, 0x7e, 0xf7] 3)) \<and>
   (length (SEQ_SYSEX 1 [0xf0, 0x7e, 0xf7] 3) = 4 \<longleftrightarrow> hd (SEQ_SYSEX 1 [0xf0, 0x7e, 0xf7] 3) = SEQ_MIDIPUTC)"
  by (rule sequencer_events_well_formed) (rule is_event.sysex)

function split_stream :: "u8 list \<Rightarrow> u8 list list option" where
  "split_stream [] = Some []"
| "split_stream (b # bs) =
     (if length (b # bs) < event_size b then None
      else map_option (Cons (take (event_size b) (b # bs))) (split_stream (drop (event_size b) (b # bs))))"
  by pat_completeness auto
termination by (relation "measure length") (auto simp: event_size_def split: if_splits)

lemma split_events: "\<forall>e \<in> set es. is_event e \<Longrightarrow> split_stream (concat es) = Some es"
proof (induction es)
  case (Cons e es)
  then obtain b bs where e: "e = b # bs" and l: "length e = event_size b"
    using event_shape [of e] by (cases e) auto
  then have "split_stream (concat (e # es)) = map_option (Cons e) (split_stream (concat es))"
    by (simp add: take_append drop_append flip: l)
  then show ?case using Cons by simp
qed simp

text \<open>A program sends events and empties the buffer when it likes, until a write fails.\<close>

inductive seq_run :: "dump_fn \<Rightarrow> seq_state \<Rightarrow> u8 list list \<Rightarrow> seq_state \<Rightarrow> bool" for dump where
  start: "seq_run dump s [] s"
| event: "seq_run dump s es t \<Longrightarrow> is_event e \<Longrightarrow> seq_event dump e t = Some u \<Longrightarrow>
    seq_run dump s (es @ [e]) u"
| flush: "seq_run dump s es t \<Longrightarrow> dump t = Some u \<Longrightarrow> seq_run dump s es u"

lemma run_events: "seq_run dump s es t \<Longrightarrow> \<forall>e \<in> set es. is_event e"
  by (induction rule: seq_run.induct) auto

lemma run_stream:
  "seq_run (sample_dump wr) s es t \<Longrightarrow> seq_ok s \<Longrightarrow> 8 \<le> length (seqbuf s) \<Longrightarrow>
   seq_ok t \<and> length (seqbuf t) = length (seqbuf s) \<and> stream t = stream s @ concat es"
proof (induction rule: seq_run.induct)
  case (event s es t e u)
  have "length e \<le> 8" using event_shape [OF event(2)] by (simp add: event_size_def split: if_splits)
  then show ?case using event sample.event_appends [of wr e t u] by simp
next
  case (flush s es t u)
  then show ?case
    using sample.dump_ok [of wr t u] sample.dump_stream [of wr t u] sample.dump_length [of wr t u]
    by simp
qed simp

text \<open>C5: however a program mixes events and flushes, whatever the writes of the sample dump function
  answer, and if the buffer holds at least the eight bytes of the longest event: the buffer is
  never overrun, and the bytes offered to the device followed by those in the buffer are exactly
  the events sent, none doubled or reordered.  Sending an event ends the program exactly when the
  buffer has to be emptied first and that write fails.  Once the buffer is flushed the device has
  all the events' bytes if and only if no write took only a part of what it was offered (the
  sample does not offer the rest again), and then a reader that goes by the documented sizes gets
  back exactly the events that were sent.\<close>

theorem sequencer_delivers_events:
  assumes "seq_run (sample_dump wr) (SEQ_DEFINEBUF len) es s" and "8 \<le> len"
  shows "seqbufptr s \<le> length (seqbuf s) \<and> length (seqbuf s) = len \<and>
    offered (writes s) @ take (seqbufptr s) (seqbuf s) = concat es \<and>
    (seq_event (sample_dump wr) e s = None \<longleftrightarrow> seqbufptr s + length e > len \<and> seqbufptr s \<noteq> 0 \<and>
      wr (writes s) (take (seqbufptr s) (seqbuf s)) = - 1) \<and>
    (sample_dump wr s = Some t \<longrightarrow>
      (taken (writes t) = concat es \<longleftrightarrow> (\<forall>(bs, n) \<in> set (writes t). length bs \<le> nat n)) \<and>
      (taken (writes t) = concat es \<longrightarrow> split_stream (taken (writes t)) = Some es))"
proof -
  have i: "seq_ok (SEQ_DEFINEBUF len)" "8 \<le> length (seqbuf (SEQ_DEFINEBUF len))" "stream (SEQ_DEFINEBUF len) = []"
    "length (seqbuf (SEQ_DEFINEBUF len)) = len"
    using assms(2) by (simp_all add: SEQ_DEFINEBUF_def seq_ok_def stream_def offered_def)
  have r: "seq_ok s" "length (seqbuf s) = len" "stream s = concat es"
    using run_stream [OF assms(1) i(1,2)] unfolding i(3,4) by simp_all
  moreover have "split_stream (concat es) = Some es"
    by (rule split_events) (rule run_events [OF assms(1)])
  moreover have "seq_event (sample_dump wr) e s = None \<longleftrightarrow>
      seqbufptr s + length e > len \<and> seqbufptr s \<noteq> 0 \<and>
      wr (writes s) (take (seqbufptr s) (seqbuf s)) = - 1"
    by (auto simp: seq_event_def SEQ_NEEDBUF_def r(2) sample_dump_None)
  ultimately show ?thesis
    using sample.dump_offers [of wr s t] taken_eq_offered [of "writes t"]
    by (auto simp: seq_ok_def stream_def all_taken_def)
qed

text \<open>Two events in a buffer for one: the second has the first written.\<close>

lemma put_whole_buffer:
  "seqbufptr s = 0 \<Longrightarrow> length bs = length (seqbuf s) \<Longrightarrow>
   SEQ_ADVBUF (length bs) (fold (\<lambda>(i, v). seq_put i v) (enumerate 0 bs) s) =
     s\<lparr>seqbuf := bs, seqbufptr := length bs\<rparr>"
  using fold_put [of s 0 bs] by (simp add: SEQ_ADVBUF_def)

lemma two_events_run:
  assumes l: "length a = 8" "length b = 8" and e: "is_event a" "is_event b"
  shows "seq_run (sample_dump (\<lambda>_ bs. int (length bs))) (SEQ_DEFINEBUF 8) [a, b]
     \<lparr>seqbuf = b, seqbufptr = 8, writes = [(a, 8)]\<rparr>"
proof -
  let ?dump = "sample_dump (\<lambda>_ bs. int (length bs))"
  let ?s = "\<lparr>seqbuf = a, seqbufptr = 8, writes = []\<rparr>"
  have "seq_event ?dump a (SEQ_DEFINEBUF 8) = Some ?s"
    using put_whole_buffer [of "SEQ_DEFINEBUF 8" a] l(1)
    by (simp add: seq_event_def SEQ_NEEDBUF_def SEQ_DEFINEBUF_def)
  then have "seq_run ?dump (SEQ_DEFINEBUF 8) ([] @ [a]) ?s"
    by (rule seq_run.event [OF seq_run.start e(1)])
  moreover have "seq_event ?dump b ?s = Some \<lparr>seqbuf = b, seqbufptr = 8, writes = [(a, 8)]\<rparr>"
    using put_whole_buffer [of "\<lparr>seqbuf = a, seqbufptr = 0, writes = [(a, 8)]\<rparr>" b] l
    by (simp add: seq_event_def SEQ_NEEDBUF_def sample_dump_def seq_write_def)
  ultimately have "seq_run ?dump (SEQ_DEFINEBUF 8) (([] @ [a]) @ [b])
      \<lparr>seqbuf = b, seqbufptr = 8, writes = [(a, 8)]\<rparr>"
    by (rule seq_run.event [OF _ e(2)])
  then show ?thesis by simp
qed

lemma sequencer_delivers_events_witness:
  "let s = \<lparr>seqbuf = SEQ_WAIT_TIME 96, seqbufptr = 8, writes = [(SEQ_START_NOTE 0 1 60 64, 8)]\<rparr>;
       ws = [(SEQ_START_NOTE 0 1 60 64, 8), (SEQ_WAIT_TIME 96, 8)]
   in seqbufptr s \<le> length (seqbuf s) \<and> length (seqbuf s) = 8 \<and>
    offered (writes s) @ take (seqbufptr s) (seqbuf s) =
      concat [SEQ_START_NOTE 0 1 60 64, SEQ_WAIT_TIME 96] \<and>
    split_stream (taken ws) = Some [SEQ_START_NOTE 0 1 60 64, SEQ_WAIT_TIME 96]"
proof -
  let ?a = "SEQ_START_NOTE 0 1 60 64" and ?b = "SEQ_WAIT_TIME 96" and ?wr = "\<lambda>_ bs. int (length bs)"
  have l: "length ?a = 8" "length ?b = 8"
    by (simp_all add: SEQ_START_NOTE_def CHN_VOICE_def SEQ_WAIT_TIME_def TIMER_EVENT_def)
  have "sample_dump ?wr \<lparr>seqbuf = ?b, seqbufptr = 8, writes = [(?a, 8)]\<rparr> =
    Some \<lparr>seqbuf = ?b, seqbufptr = 0, writes = [(?a, 8), (?b, 8)]\<rparr>"
    using l by (simp add: sample_dump_def seq_write_def)
  with sequencer_delivers_events [OF two_events_run [OF l macros_are_events(1,17)], where t =
      "\<lparr>seqbuf = ?b, seqbufptr = 0, writes = [(?a, 8), (?b, 8)]\<rparr>"] l
  show ?thesis by (simp add: Let_def)
qed

text \<open>A write that takes only a part is followed by no other for the rest.\<close>

lemma short_write_loses:
  "sample_dump (\<lambda>_ bs. 1) \<lparr>seqbuf = [1, 2], seqbufptr = 2, writes = []\<rparr> =
     Some \<lparr>seqbuf = [1, 2], seqbufptr = 0, writes = [([1, 2], 1)]\<rparr> \<and>
   taken [([1, 2], 1)] = [1]"
  by (simp add: sample_dump_def seq_write_def taken_def)

text \<open>A patch goes to the device after everything sent before it.\<close>

lemma patch_after_events:
  assumes "seq_ok s"
  shows "SEQ_WRPATCH (sample_dump wr) wr patch s = Some t \<Longrightarrow> offered (writes t) = stream s @ patch"
    and "SEQ_WRPATCH2 (sample_dump wr) wr patch s = Some (n, u) \<Longrightarrow> offered (writes u) = stream s @ patch"
  using sample.dump_offers [OF _ assms, of wr]
  by (auto simp: SEQ_WRPATCH_def SEQ_WRPATCH2_def seq_write_def stream_def offered_def Let_def
      split: if_splits)

end
