(* ===== verification/Usb_Descriptor.thy ===== *)
theory Usb_Descriptor
  imports Byte_Memory Byte_Order Packed_Code
begin

text \<open>
  Descriptors a USB device sends.  The endpoint tests of \<^verbatim>\<open>linux/usb/ch9.h\<close>, over the members of the
  endpoint descriptors, and the accessors of \<^verbatim>\<open>linux/usb/audio.h\<close> for units whose descriptors have
  variable parts, over the memory that holds the descriptor.  An \<^verbatim>\<open>int\<close> result is its 32 bits, a
  pointer is an address, and the null pointer is 0.
\<close>

section \<open>Endpoints\<close>

record usb_endpoint_descriptor =
  bEndpointAddress :: u8
  bmAttributes :: u8
  wMaxPacketSize :: u16

definition USB_DIR_OUT :: u8 where "USB_DIR_OUT = 0"

definition USB_DIR_IN :: u8 where "USB_DIR_IN = 0x80"

definition USB_ENDPOINT_NUMBER_MASK :: u8 where "USB_ENDPOINT_NUMBER_MASK = 0x0f"

definition USB_ENDPOINT_DIR_MASK :: u8 where "USB_ENDPOINT_DIR_MASK = 0x80"

definition USB_ENDPOINT_XFERTYPE_MASK :: u8 where "USB_ENDPOINT_XFERTYPE_MASK = 0x03"

definition USB_ENDPOINT_XFER_CONTROL :: u8 where "USB_ENDPOINT_XFER_CONTROL = 0"

definition USB_ENDPOINT_XFER_ISOC :: u8 where "USB_ENDPOINT_XFER_ISOC = 1"

definition USB_ENDPOINT_XFER_BULK :: u8 where "USB_ENDPOINT_XFER_BULK = 2"

definition USB_ENDPOINT_XFER_INT :: u8 where "USB_ENDPOINT_XFER_INT = 3"

definition USB_ENDPOINT_MAXP_MASK :: u32 where "USB_ENDPOINT_MAXP_MASK = 0x07ff"

definition USB_EP_MAXP_MULT_SHIFT :: nat where "USB_EP_MAXP_MULT_SHIFT = 11"

definition USB_EP_MAXP_MULT_MASK :: u32 where
  "USB_EP_MAXP_MULT_MASK = push_bit USB_EP_MAXP_MULT_SHIFT 3"

definition USB_EP_MAXP_MULT :: "u32 \<Rightarrow> u32" where
  "USB_EP_MAXP_MULT m = drop_bit USB_EP_MAXP_MULT_SHIFT (m AND USB_EP_MAXP_MULT_MASK)"

definition USB_ENDPOINT_INTRTYPE :: u8 where "USB_ENDPOINT_INTRTYPE = 0x30"

definition usb_endpoint_num :: "usb_endpoint_descriptor \<Rightarrow> u8" where
  "usb_endpoint_num epd = bEndpointAddress epd AND USB_ENDPOINT_NUMBER_MASK"

definition usb_endpoint_type :: "usb_endpoint_descriptor \<Rightarrow> u8" where
  "usb_endpoint_type epd = bmAttributes epd AND USB_ENDPOINT_XFERTYPE_MASK"

definition usb_endpoint_dir_in :: "usb_endpoint_descriptor \<Rightarrow> bool" where
  "usb_endpoint_dir_in epd \<longleftrightarrow> bEndpointAddress epd AND USB_ENDPOINT_DIR_MASK = USB_DIR_IN"

definition usb_endpoint_dir_out :: "usb_endpoint_descriptor \<Rightarrow> bool" where
  "usb_endpoint_dir_out epd \<longleftrightarrow> bEndpointAddress epd AND USB_ENDPOINT_DIR_MASK = USB_DIR_OUT"

definition usb_endpoint_xfer_bulk :: "usb_endpoint_descriptor \<Rightarrow> bool" where
  "usb_endpoint_xfer_bulk epd \<longleftrightarrow> bmAttributes epd AND USB_ENDPOINT_XFERTYPE_MASK = USB_ENDPOINT_XFER_BULK"

definition usb_endpoint_xfer_control :: "usb_endpoint_descriptor \<Rightarrow> bool" where
  "usb_endpoint_xfer_control epd \<longleftrightarrow> bmAttributes epd AND USB_ENDPOINT_XFERTYPE_MASK = USB_ENDPOINT_XFER_CONTROL"

definition usb_endpoint_xfer_int :: "usb_endpoint_descriptor \<Rightarrow> bool" where
  "usb_endpoint_xfer_int epd \<longleftrightarrow> bmAttributes epd AND USB_ENDPOINT_XFERTYPE_MASK = USB_ENDPOINT_XFER_INT"

definition usb_endpoint_xfer_isoc :: "usb_endpoint_descriptor \<Rightarrow> bool" where
  "usb_endpoint_xfer_isoc epd \<longleftrightarrow> bmAttributes epd AND USB_ENDPOINT_XFERTYPE_MASK = USB_ENDPOINT_XFER_ISOC"

definition usb_endpoint_is_bulk_in :: "usb_endpoint_descriptor \<Rightarrow> bool" where
  "usb_endpoint_is_bulk_in epd \<longleftrightarrow> usb_endpoint_xfer_bulk epd \<and> usb_endpoint_dir_in epd"

definition usb_endpoint_is_bulk_out :: "usb_endpoint_descriptor \<Rightarrow> bool" where
  "usb_endpoint_is_bulk_out epd \<longleftrightarrow> usb_endpoint_xfer_bulk epd \<and> usb_endpoint_dir_out epd"

definition usb_endpoint_is_int_in :: "usb_endpoint_descriptor \<Rightarrow> bool" where
  "usb_endpoint_is_int_in epd \<longleftrightarrow> usb_endpoint_xfer_int epd \<and> usb_endpoint_dir_in epd"

definition usb_endpoint_is_int_out :: "usb_endpoint_descriptor \<Rightarrow> bool" where
  "usb_endpoint_is_int_out epd \<longleftrightarrow> usb_endpoint_xfer_int epd \<and> usb_endpoint_dir_out epd"

definition usb_endpoint_is_isoc_in :: "usb_endpoint_descriptor \<Rightarrow> bool" where
  "usb_endpoint_is_isoc_in epd \<longleftrightarrow> usb_endpoint_xfer_isoc epd \<and> usb_endpoint_dir_in epd"

definition usb_endpoint_is_isoc_out :: "usb_endpoint_descriptor \<Rightarrow> bool" where
  "usb_endpoint_is_isoc_out epd \<longleftrightarrow> usb_endpoint_xfer_isoc epd \<and> usb_endpoint_dir_out epd"

definition usb_endpoint_maxp :: "usb_endpoint_descriptor \<Rightarrow> u32" where
  "usb_endpoint_maxp epd = ucast (little_le16_to_cpu (wMaxPacketSize epd)) AND USB_ENDPOINT_MAXP_MASK"

definition usb_endpoint_maxp_mult :: "usb_endpoint_descriptor \<Rightarrow> u32" where
  "usb_endpoint_maxp_mult epd =
     (let maxp = ucast (little_le16_to_cpu (wMaxPacketSize epd)) in USB_EP_MAXP_MULT maxp + 1)"

definition usb_endpoint_interrupt_type :: "usb_endpoint_descriptor \<Rightarrow> u8" where
  "usb_endpoint_interrupt_type epd = bmAttributes epd AND USB_ENDPOINT_INTRTYPE"

text \<open>The companion descriptor's attributes; no descriptor stands for the null pointer.\<close>

definition usb_ss_max_streams :: "u8 option \<Rightarrow> u32" where
  "usb_ss_max_streams companion =
     (case companion of
        None \<Rightarrow> 0
      | Some attributes \<Rightarrow>
          let max_streams = ucast (attributes AND 0x1f) :: u32
          in if max_streams = 0 then 0 else push_bit (unat max_streams) 1)"

definition USB_SS_MULT :: "u8 \<Rightarrow> u8" where
  "USB_SS_MULT p = 1 + (p AND 3)"

definition USB_SS_SSP_ISOC_COMP :: "u8 \<Rightarrow> u8" where
  "USB_SS_SSP_ISOC_COMP p = p AND push_bit 7 1"

lemmas endpoint_masks =
  USB_DIR_OUT_def USB_DIR_IN_def USB_ENDPOINT_NUMBER_MASK_def USB_ENDPOINT_DIR_MASK_def
  USB_ENDPOINT_XFERTYPE_MASK_def USB_ENDPOINT_XFER_CONTROL_def USB_ENDPOINT_XFER_ISOC_def
  USB_ENDPOINT_XFER_BULK_def USB_ENDPOINT_XFER_INT_def

lemmas endpoint_tests =
  usb_endpoint_num_def usb_endpoint_type_def usb_endpoint_dir_in_def usb_endpoint_dir_out_def
  usb_endpoint_xfer_bulk_def usb_endpoint_xfer_control_def usb_endpoint_xfer_int_def
  usb_endpoint_xfer_isoc_def

section \<open>Audio units\<close>

definition UAC_VERSION_1 :: int where "UAC_VERSION_1 = 0x00"

definition UAC_VERSION_2 :: int where "UAC_VERSION_2 = 0x20"

definition UAC_VERSION_3 :: int where "UAC_VERSION_3 = 0x30"

text \<open>
  Mixer units: the number of input pins at 4 and their sources from 5, then fields whose place
  depends on that number.
\<close>

definition mixer_bNrInPins :: "memory \<Rightarrow> nat \<Rightarrow> nat" where
  "mixer_bNrInPins m desc = unat (m (desc + 4))"

definition mixer_baSourceID :: "nat \<Rightarrow> nat" where
  "mixer_baSourceID desc = desc + 5"

definition uac_mixer_unit_bNrChannels :: "memory \<Rightarrow> nat \<Rightarrow> u8" where
  "uac_mixer_unit_bNrChannels m desc = m (mixer_baSourceID desc + mixer_bNrInPins m desc)"

definition uac_mixer_unit_wChannelConfig :: "memory \<Rightarrow> nat \<Rightarrow> int \<Rightarrow> u32" where
  "uac_mixer_unit_wChannelConfig m desc protocol =
     (let ba = mixer_baSourceID desc + mixer_bNrInPins m desc
      in if protocol = UAC_VERSION_1
         then push_bit 8 (ucast (m (ba + 2))) OR ucast (m (ba + 1))
         else push_bit 24 (ucast (m (ba + 4))) OR push_bit 16 (ucast (m (ba + 3))) OR
              push_bit 8 (ucast (m (ba + 2))) OR ucast (m (ba + 1)))"

definition uac_mixer_unit_iChannelNames :: "memory \<Rightarrow> nat \<Rightarrow> int \<Rightarrow> u8" where
  "uac_mixer_unit_iChannelNames m desc protocol =
     (let ba = mixer_baSourceID desc + mixer_bNrInPins m desc
      in if protocol = UAC_VERSION_1 then m (ba + 3) else m (ba + 5))"

definition uac_mixer_unit_bmControls :: "memory \<Rightarrow> nat \<Rightarrow> int \<Rightarrow> nat" where
  "uac_mixer_unit_bmControls m desc protocol =
     (let ba = mixer_baSourceID desc + mixer_bNrInPins m desc
      in if protocol = UAC_VERSION_1 then ba + 4
         else if protocol = UAC_VERSION_2 then ba + 6
         else if protocol = UAC_VERSION_3 then ba + 2
         else 0)"

definition uac3_mixer_unit_wClusterDescrID :: "memory \<Rightarrow> nat \<Rightarrow> u16" where
  "uac3_mixer_unit_wClusterDescrID m desc =
     (let ba = mixer_baSourceID desc + mixer_bNrInPins m desc
      in push_bit 8 (ucast (m (ba + 1))) OR ucast (m ba))"

definition uac_mixer_unit_iMixer :: "memory \<Rightarrow> nat \<Rightarrow> u8" where
  "uac_mixer_unit_iMixer m desc = m (desc + unat (m desc) - 1)"

definition uac_selector_unit_iSelector :: "memory \<Rightarrow> nat \<Rightarrow> u8" where
  "uac_selector_unit_iSelector m desc = m (desc + unat (m desc) - 1)"

definition uac_feature_unit_iFeature :: "memory \<Rightarrow> nat \<Rightarrow> u8" where
  "uac_feature_unit_iFeature m desc = m (desc + unat (m desc) - 1)"

text \<open>Processing and extension units: the number of pins at 6, the sources from 7.\<close>

definition processing_bNrInPins :: "memory \<Rightarrow> nat \<Rightarrow> nat" where
  "processing_bNrInPins m desc = unat (m (desc + 6))"

definition processing_baSourceID :: "nat \<Rightarrow> nat" where
  "processing_baSourceID desc = desc + 7"

definition uac_processing_unit_bNrChannels :: "memory \<Rightarrow> nat \<Rightarrow> u8" where
  "uac_processing_unit_bNrChannels m desc = m (processing_baSourceID desc + processing_bNrInPins m desc)"

definition uac_processing_unit_wChannelConfig :: "memory \<Rightarrow> nat \<Rightarrow> int \<Rightarrow> u32" where
  "uac_processing_unit_wChannelConfig m desc protocol =
     (let ba = processing_baSourceID desc + processing_bNrInPins m desc
      in if protocol = UAC_VERSION_1
         then push_bit 8 (ucast (m (ba + 2))) OR ucast (m (ba + 1))
         else push_bit 24 (ucast (m (ba + 4))) OR push_bit 16 (ucast (m (ba + 3))) OR
              push_bit 8 (ucast (m (ba + 2))) OR ucast (m (ba + 1)))"

definition uac_processing_unit_iChannelNames :: "memory \<Rightarrow> nat \<Rightarrow> int \<Rightarrow> u8" where
  "uac_processing_unit_iChannelNames m desc protocol =
     (let ba = processing_baSourceID desc + processing_bNrInPins m desc
      in if protocol = UAC_VERSION_1 then m (ba + 3) else m (ba + 5))"

definition uac_processing_unit_bControlSize :: "memory \<Rightarrow> nat \<Rightarrow> int \<Rightarrow> u8" where
  "uac_processing_unit_bControlSize m desc protocol =
     (if protocol = UAC_VERSION_1 then m (processing_baSourceID desc + processing_bNrInPins m desc + 4)
      else if protocol = UAC_VERSION_2 then 2
      else if protocol = UAC_VERSION_3 then 4
      else 1)"

definition uac_processing_unit_bmControls :: "memory \<Rightarrow> nat \<Rightarrow> int \<Rightarrow> nat" where
  "uac_processing_unit_bmControls m desc protocol =
     (let ba = processing_baSourceID desc + processing_bNrInPins m desc
      in if protocol = UAC_VERSION_1 then ba + 5
         else if protocol = UAC_VERSION_2 then ba + 6
         else if protocol = UAC_VERSION_3 then ba + 2
         else 0)"

definition uac_processing_unit_iProcessing :: "memory \<Rightarrow> nat \<Rightarrow> int \<Rightarrow> u8" where
  "uac_processing_unit_iProcessing m desc protocol =
     (let control_size = uac_processing_unit_bControlSize m desc protocol
      in if protocol = UAC_VERSION_3 then 0
         else m (uac_processing_unit_bmControls m desc protocol + unat control_size))"

definition uac_processing_unit_specific :: "memory \<Rightarrow> nat \<Rightarrow> int \<Rightarrow> nat" where
  "uac_processing_unit_specific m desc protocol =
     (let control_size = uac_processing_unit_bControlSize m desc protocol
      in if protocol = UAC_VERSION_3
         then uac_processing_unit_bmControls m desc protocol + unat control_size
         else uac_processing_unit_bmControls m desc protocol + unat control_size + 1)"

definition uac_extension_unit_bControlSize :: "memory \<Rightarrow> nat \<Rightarrow> int \<Rightarrow> u8" where
  "uac_extension_unit_bControlSize m desc protocol =
     (if protocol = UAC_VERSION_1 then m (processing_baSourceID desc + processing_bNrInPins m desc + 4)
      else if protocol = UAC_VERSION_2 then 1
      else if protocol = UAC_VERSION_3 then 4
      else 1)"

definition uac_extension_unit_iExtension :: "memory \<Rightarrow> nat \<Rightarrow> int \<Rightarrow> u8" where
  "uac_extension_unit_iExtension m desc protocol =
     (let control_size = uac_extension_unit_bControlSize m desc protocol
      in if protocol = UAC_VERSION_3 then 0
         else m (uac_processing_unit_bmControls m desc protocol + unat control_size))"

definition UAC_DT_AC_HEADER_SIZE :: "nat \<Rightarrow> nat" where
  "UAC_DT_AC_HEADER_SIZE n = 8 + n"

definition UAC_DT_FEATURE_UNIT_SIZE :: "nat \<Rightarrow> nat" where
  "UAC_DT_FEATURE_UNIT_SIZE ch = 7 + (ch + 1) * 2"

definition UAC_FORMAT_TYPE_I_DISCRETE_DESC_SIZE :: "nat \<Rightarrow> nat" where
  "UAC_FORMAT_TYPE_I_DISCRETE_DESC_SIZE n = 8 + n * 3"

section \<open>Endpoint tests\<close>

lemma below_4_cases: "y < 4 \<Longrightarrow> y = 0 \<or> y = 1 \<or> y = 2 \<or> y = 3" for y :: u8
  by unat_arith

lemma and_one_bit: "x AND push_bit n 1 = (if bit x n then push_bit n 1 else 0)" for x :: "'a::len word"
  by (rule bit_word_eqI) (auto simp: bit_simps)

lemma top_bit: "x AND 0x80 = (if bit x 7 then 0x80 else 0)" for x :: u8
  using and_one_bit [of x 7] by simp

lemma ucast_8_32_0: "ucast x = (0 :: u32) \<longleftrightarrow> x = 0" for x :: u8
  using unat_ucast_up [of x, where 'b = 32] by (auto simp flip: unat_eq_0)

text \<open>
  An endpoint has one direction and one transfer type, and the combined tests are what their names
  say.
\<close>

lemma usb_endpoints:
  "usb_endpoint_dir_in epd \<longleftrightarrow> \<not> usb_endpoint_dir_out epd"
  "usb_endpoint_xfer_control epd \<longleftrightarrow> usb_endpoint_type epd = USB_ENDPOINT_XFER_CONTROL"
  "usb_endpoint_xfer_isoc epd \<longleftrightarrow> usb_endpoint_type epd = USB_ENDPOINT_XFER_ISOC"
  "usb_endpoint_xfer_bulk epd \<longleftrightarrow> usb_endpoint_type epd = USB_ENDPOINT_XFER_BULK"
  "usb_endpoint_xfer_int epd \<longleftrightarrow> usb_endpoint_type epd = USB_ENDPOINT_XFER_INT"
  "usb_endpoint_type epd \<in> {USB_ENDPOINT_XFER_CONTROL, USB_ENDPOINT_XFER_ISOC, USB_ENDPOINT_XFER_BULK, USB_ENDPOINT_XFER_INT}"
  "usb_endpoint_num epd < 16"
  using below_4_cases [of "bmAttributes epd AND 3"]
  by (auto simp: endpoint_tests endpoint_masks top_bit)

text \<open>
  The packet size and the number of transactions share a halfword: bits 10 to 0 and, less one, bits
  12 to 11.
\<close>

lemma usb_endpoint_maxp_fields:
  assumes "size' < 2 ^ 11" and "extra < 4"
    and "wMaxPacketSize epd = push_bit 11 extra OR size'"
  shows "usb_endpoint_maxp epd = ucast size'" and "usb_endpoint_maxp_mult epd = ucast extra + 1"
proof -
  have m: "(0x7ff :: u32) = mask 11" "push_bit 11 3 = (push_bit 11 (mask 2) :: u32)"
    by (simp_all add: mask_eq_exp_minus_1)
  have s: "bit size' k \<Longrightarrow> k < 11" for k by (rule not_bit_small [OF assms(1)]) simp_all
  have e: "bit extra k \<Longrightarrow> k < 2" for k by (rule not_bit_small) (use assms(2) in simp_all)
  show "usb_endpoint_maxp epd = ucast size'"
    unfolding usb_endpoint_maxp_def USB_ENDPOINT_MAXP_MASK_def m little_le16_to_cpu_def assms(3)
    by (rule bit_word_eqI) (auto simp: bit_simps dest: s)
  have "drop_bit 11 (ucast (push_bit 11 extra OR size') AND push_bit 11 (mask 2)) = (ucast extra :: u32)"
    by (rule bit_word_eqI) (auto simp: bit_simps dest: s e)
  then show "usb_endpoint_maxp_mult epd = ucast extra + 1"
    unfolding usb_endpoint_maxp_mult_def USB_EP_MAXP_MULT_def USB_EP_MAXP_MULT_MASK_def
      USB_EP_MAXP_MULT_SHIFT_def m little_le16_to_cpu_def assms(3) Let_def by simp
qed

text \<open>
  Up to \<^verbatim>\<open>2^30\<close> streams are announced as a positive number; the largest exponent the field can hold
  shifts into the sign.
\<close>

lemma usb_ss_max_streams_range:
  "usb_ss_max_streams None = 0"
  "a AND 0x1f = 0 \<Longrightarrow> usb_ss_max_streams (Some a) = 0"
  "a AND 0x1f \<noteq> 0 \<Longrightarrow> usb_ss_max_streams (Some a) = 2 ^ unat (a AND 0x1f)"
  "sint (usb_ss_max_streams (Some 0x1f)) = - (2 ^ 31)"
  by (simp_all add: usb_ss_max_streams_def Let_def push_bit_eq_mult unat_ucast_up ucast_8_32_0)

section \<open>Units in memory\<close>

text \<open>
  A unit as the three versions of the class lay it out: a header, the pins, how the output channels
  are described, the controls, and the index of its name.  Version 3 has a cluster identifier in
  place of the channel description.
\<close>

record audio_unit =
  pins :: "u8 list"
  channels :: u8
  config :: u32
  channel_names :: u8
  controls :: "u8 list"
  unit_name :: u8

definition cluster_bytes :: "int \<Rightarrow> audio_unit \<Rightarrow> u8 list" where
  "cluster_bytes protocol u =
     (if protocol = UAC_VERSION_1 then channels u # word_bytes 2 (config u) @ [channel_names u]
      else if protocol = UAC_VERSION_2 then channels u # word_bytes 4 (config u) @ [channel_names u]
      else word_bytes 2 (config u))"

definition mixer_bytes :: "int \<Rightarrow> audio_unit \<Rightarrow> u8 list" where
  "mixer_bytes protocol u =
     (let body = [0x24, 4, 1, of_nat (length (pins u))] @ pins u @ cluster_bytes protocol u @
            controls u @ [unit_name u]
      in of_nat (length body + 1) # body)"

definition processing_bytes :: "int \<Rightarrow> audio_unit \<Rightarrow> u8 list \<Rightarrow> u8 list" where
  "processing_bytes protocol u specific =
     (let body = [0x24, 7, 1, 0, 0, of_nat (length (pins u))] @ pins u @ cluster_bytes protocol u @
            (if protocol = UAC_VERSION_1 then [of_nat (length (controls u))] else []) @ controls u @
            (if protocol = UAC_VERSION_3 then [] else [unit_name u]) @ specific
      in of_nat (length body + 1) # body)"

lemma join_2_bytes:
  "push_bit 8 (ucast (ucast (drop_bit 8 c) :: u8)) OR ucast (ucast c :: u8) = c AND mask 16" (is "?l = ?r") for c :: u32
proof (rule bit_word_eqI)
  fix n assume "n < LENGTH(32)"
  then show "bit ?l n = bit ?r n"
    by (cases "n < 8") (auto simp: bit_simps not_less less_diff_conv2)
qed

lemma join_2_bytes_16:
  "push_bit 8 (ucast (ucast (drop_bit 8 c) :: u8)) OR ucast (ucast c :: u8) = (ucast c :: u16)" (is "?l = ?r") for c :: u32
proof (rule bit_word_eqI)
  fix n assume "n < LENGTH(16)"
  then show "bit ?l n = bit ?r n"
    by (cases "n < 8") (auto simp: bit_simps not_less less_diff_conv2)
qed

lemma uac_versions [simp]: "UAC_VERSION_1 \<noteq> UAC_VERSION_2" "UAC_VERSION_1 \<noteq> UAC_VERSION_3" "UAC_VERSION_2 \<noteq> UAC_VERSION_3"
  "UAC_VERSION_2 \<noteq> UAC_VERSION_1" "UAC_VERSION_3 \<noteq> UAC_VERSION_1" "UAC_VERSION_3 \<noteq> UAC_VERSION_2"
  by (simp_all add: UAC_VERSION_1_def UAC_VERSION_2_def UAC_VERSION_3_def)

lemmas unit_layout = mixer_bytes_def processing_bytes_def cluster_bytes_def word_bytes_2 word_bytes_4
  mixer_bNrInPins_def mixer_baSourceID_def processing_bNrInPins_def processing_baSourceID_def

lemmas mixer_accessors = uac_mixer_unit_bNrChannels_def uac_mixer_unit_wChannelConfig_def
  uac_mixer_unit_iChannelNames_def uac_mixer_unit_bmControls_def uac3_mixer_unit_wClusterDescrID_def
  uac_mixer_unit_iMixer_def

lemma length_cluster_bytes:
  "length (cluster_bytes protocol u) =
    (if protocol = UAC_VERSION_1 then 4 else if protocol = UAC_VERSION_2 then 6 else 2)"
  by (simp add: cluster_bytes_def)

text \<open>What lies behind the pins, of either kind of unit.\<close>

lemma cluster_read:
  assumes "stored m ba (cluster_bytes protocol u @ rest)"
  shows "protocol = UAC_VERSION_1 \<Longrightarrow> m ba = channels u \<and>
      push_bit 8 (ucast (m (ba + 2))) OR ucast (m (ba + 1)) = config u AND mask 16 \<and>
      m (ba + 3) = channel_names u \<and> stored m (ba + 4) rest"
    and "protocol = UAC_VERSION_2 \<Longrightarrow> m ba = channels u \<and>
      push_bit 24 (ucast (m (ba + 4))) OR push_bit 16 (ucast (m (ba + 3))) OR
        push_bit 8 (ucast (m (ba + 2))) OR ucast (m (ba + 1)) = config u \<and>
      m (ba + 5) = channel_names u \<and> stored m (ba + 6) rest"
    and "protocol = UAC_VERSION_3 \<Longrightarrow>
      push_bit 8 (ucast (m (ba + 1))) OR ucast (m ba) = (ucast (config u) :: u16) \<and> stored m (ba + 2) rest"
proof -
  have b: "m (ba + i) = (cluster_bytes protocol u @ rest) ! i" if "i < length (cluster_bytes protocol u)" for i
    using assms that unfolding stored_def by simp
  have r: "stored m (ba + (if protocol = UAC_VERSION_1 then 4 else if protocol = UAC_VERSION_2 then 6 else 2)) rest"
    using assms by (simp add: length_cluster_bytes)
  note bs = b [of 0] b [of 1] b [of 2] b [of 3] b [of 4] b [of 5]
  show "m ba = channels u \<and> push_bit 8 (ucast (m (ba + 2))) OR ucast (m (ba + 1)) = config u AND mask 16 \<and>
      m (ba + 3) = channel_names u \<and> stored m (ba + 4) rest" if "protocol = UAC_VERSION_1"
    using bs r that by (simp add: cluster_bytes_def word_bytes_2 join_2_bytes)
  show "m ba = channels u \<and> push_bit 24 (ucast (m (ba + 4))) OR push_bit 16 (ucast (m (ba + 3))) OR
        push_bit 8 (ucast (m (ba + 2))) OR ucast (m (ba + 1)) = config u \<and>
      m (ba + 5) = channel_names u \<and> stored m (ba + 6) rest" if "protocol = UAC_VERSION_2"
    using bs r that by (simp add: cluster_bytes_def word_bytes_4 join_4_bytes)
  show "push_bit 8 (ucast (m (ba + 1))) OR ucast (m ba) = (ucast (config u) :: u16) \<and> stored m (ba + 2) rest"
    if "protocol = UAC_VERSION_3"
    using bs r that by (simp add: cluster_bytes_def word_bytes_2 join_2_bytes_16)
qed

text \<open>Of a mixer unit laid out in memory, whatever its number of pins, every accessor returns
  the part it names, in each of the three versions of the class: the channel description (two bytes
  of configuration in version 1, four in version 2, a cluster identifier in version 3), the place
  of the controls, and the name from the end of the descriptor.\<close>

lemma mixer_unit_read:
  assumes "stored m p (mixer_bytes protocol u)" and "length (mixer_bytes protocol u) < 256"
  shows "(protocol = UAC_VERSION_1 \<or> protocol = UAC_VERSION_2 \<longrightarrow>
       uac_mixer_unit_bNrChannels m p = channels u \<and>
       uac_mixer_unit_wChannelConfig m p protocol =
         (if protocol = UAC_VERSION_1 then config u AND mask 16 else config u) \<and>
       uac_mixer_unit_iChannelNames m p protocol = channel_names u) \<and>
     (protocol = UAC_VERSION_3 \<longrightarrow> uac3_mixer_unit_wClusterDescrID m p = ucast (config u)) \<and>
     (protocol \<in> {UAC_VERSION_1, UAC_VERSION_2, UAC_VERSION_3} \<longrightarrow>
       read_bytes m (uac_mixer_unit_bmControls m p protocol) (length (controls u)) = controls u) \<and>
     uac_mixer_unit_iMixer m p = unit_name u"
proof -
  have n: "unat (of_nat (length (pins u)) :: u8) = length (pins u)"
    using assms(2) by (simp add: unat_of_nat8 mixer_bytes_def Let_def)
  have "m p = of_nat (length (mixer_bytes protocol u))"
    using assms(1) by (simp add: mixer_bytes_def Let_def)
  then have len: "unat (m p) = length (mixer_bytes protocol u)"
    using assms(2) by (simp add: unat_of_nat8)
  have pins: "unat (m (p + 4)) = length (pins u)"
    using assms(1) n by (simp add: mixer_bytes_def Let_def eval_nat_numeral)
  have "stored m (p + 5 + length (pins u)) (cluster_bytes protocol u @ controls u @ [unit_name u])"
    using assms(1) by (simp add: mixer_bytes_def Let_def eval_nat_numeral)
  note tail = this cluster_read [OF this]
  have "m (p + length (mixer_bytes protocol u) - 1) = unit_name u"
    using stored_last [OF assms(1)] by (simp add: mixer_bytes_def Let_def)
  then show ?thesis
    using tail(2-)
    by (auto simp: mixer_accessors mixer_bNrInPins_def mixer_baSourceID_def Let_def pins len add.assoc simp del: stored_append
        dest!: read_stored)
qed

lemmas processing_accessors = uac_processing_unit_bNrChannels_def uac_processing_unit_wChannelConfig_def
  uac_processing_unit_iChannelNames_def uac_processing_unit_bControlSize_def
  uac_processing_unit_bmControls_def uac_processing_unit_iProcessing_def
  uac_processing_unit_specific_def uac_extension_unit_bControlSize_def uac_extension_unit_iExtension_def
  processing_bNrInPins_def processing_baSourceID_def

lemma stored_controls:
  assumes "stored m q (bs @ x # cs)"
  shows "read_bytes m q (length bs) = bs" and "m (q + length bs) = x"
    and "read_bytes m (Suc (q + length bs)) (length cs) = cs"
  using assms by (simp_all flip: stored_read)

text \<open>A processing or extension unit with any number of pins, laid out by any of the three
  versions of the class, is read back by the accessors, each of which finds its part behind parts of
  variable length: the channels, the control bits with their size (stored in version 1, fixed by
  the other versions, and in version 2 smaller for extension units), the name and what follows it.
  Version 3 has no name, and the accessor gives 0.\<close>

theorem processing_unit_read:
  assumes "stored m p (processing_bytes protocol u specific)"
    and "length (processing_bytes protocol u specific) < 256"
    and "protocol \<in> {UAC_VERSION_1, UAC_VERSION_2, UAC_VERSION_3}"
    and "protocol = UAC_VERSION_3 \<longrightarrow> length (controls u) = 4"
  shows "(protocol \<noteq> UAC_VERSION_3 \<longrightarrow>
       uac_processing_unit_bNrChannels m p = channels u \<and>
       uac_processing_unit_wChannelConfig m p protocol =
         (if protocol = UAC_VERSION_1 then config u AND mask 16 else config u) \<and>
       uac_processing_unit_iChannelNames m p protocol = channel_names u) \<and>
     read_bytes m (uac_processing_unit_bmControls m p protocol) (length (controls u)) = controls u \<and>
     ((protocol = UAC_VERSION_2 \<longrightarrow> length (controls u) = 2) \<longrightarrow>
       unat (uac_processing_unit_bControlSize m p protocol) = length (controls u) \<and>
       uac_processing_unit_iProcessing m p protocol = (if protocol = UAC_VERSION_3 then 0 else unit_name u) \<and>
       read_bytes m (uac_processing_unit_specific m p protocol) (length specific) = specific) \<and>
     ((protocol = UAC_VERSION_2 \<longrightarrow> length (controls u) = 1) \<longrightarrow>
       unat (uac_extension_unit_bControlSize m p protocol) = length (controls u) \<and>
       uac_extension_unit_iExtension m p protocol = (if protocol = UAC_VERSION_3 then 0 else unit_name u))"
proof -
  have n: "unat (of_nat (length (pins u)) :: u8) = length (pins u)"
    "protocol = UAC_VERSION_1 \<Longrightarrow> unat (of_nat (length (controls u)) :: u8) = length (controls u)"
    using assms(2) by (simp_all add: unat_of_nat8 processing_bytes_def Let_def)
  have pins: "unat (m (p + 6)) = length (pins u)"
    using assms(1) n(1) by (simp add: processing_bytes_def Let_def eval_nat_numeral)
  let ?ba = "p + 7 + length (pins u)"
  have tail: "stored m ?ba (cluster_bytes protocol u @
      (if protocol = UAC_VERSION_1 then [of_nat (length (controls u))] else []) @ controls u @
      (if protocol = UAC_VERSION_3 then [] else [unit_name u]) @ specific)"
    using assms(1) by (simp add: processing_bytes_def Let_def eval_nat_numeral)
  note parts = cluster_read [OF tail]
  consider "protocol = UAC_VERSION_1" | "protocol = UAC_VERSION_2" | "protocol = UAC_VERSION_3"
    using assms(3) by blast
  then show ?thesis
  proof cases
    case 1
    have c: "stored m (?ba + 5) (controls u @ unit_name u # specific)" "m (?ba + 4) = of_nat (length (controls u))"
      using parts(1) 1 by (simp_all add: eval_nat_numeral)
    show ?thesis
      using parts(1) 1 n(2) stored_controls [OF c(1)] c(2)
      by (simp add: processing_accessors Let_def pins del: stored_append)
  next
    case 2
    have c: "stored m (?ba + 6) (controls u @ unit_name u # specific)"
      using parts(2) 2 by simp
    show ?thesis
      using parts(2) 2 stored_controls [OF c]
      by (auto simp: processing_accessors Let_def pins simp del: stored_append)
  next
    case 3
    have c: "read_bytes m (?ba + 2) (length (controls u)) = controls u"
      "read_bytes m (?ba + 6) (length specific) = specific"
      using parts(3) 3 assms(4) unfolding stored_read [symmetric] by simp_all
    show ?thesis
      using 3 c assms(4) by (simp add: processing_accessors Let_def pins)
  qed
qed

text \<open>An unknown version is read through the null pointer the accessor of the controls returns.\<close>

lemma unknown_version_reads_null:
  assumes "protocol \<notin> {UAC_VERSION_1, UAC_VERSION_2, UAC_VERSION_3}"
  shows "uac_mixer_unit_bmControls m p protocol = 0" and "uac_processing_unit_bmControls m p protocol = 0"
    and "uac_processing_unit_iProcessing m p protocol = m 1"
    and "uac_extension_unit_iExtension m p protocol = m 1"
  using assms by (simp_all add: processing_accessors mixer_accessors)

definition sample_unit :: audio_unit where
  "sample_unit = \<lparr>pins = [3, 4], channels = 2, config = 0x33, channel_names = 0, controls = [1, 0, 7], unit_name = 5\<rparr>"

definition sample_unit_memory :: memory where
  "sample_unit_memory = write_bytes 0 (processing_bytes UAC_VERSION_1 sample_unit [8, 9]) (\<lambda>a. 0)"

lemma processing_unit_read_witness:
  "uac_processing_unit_bNrChannels sample_unit_memory 0 = 2 \<and>
   unat (uac_processing_unit_bControlSize sample_unit_memory 0 UAC_VERSION_1) = 3 \<and>
   read_bytes sample_unit_memory (uac_processing_unit_bmControls sample_unit_memory 0 UAC_VERSION_1) 3 = [1, 0, 7] \<and>
   uac_processing_unit_iProcessing sample_unit_memory 0 UAC_VERSION_1 = 5 \<and>
   read_bytes sample_unit_memory (uac_processing_unit_specific sample_unit_memory 0 UAC_VERSION_1) 2 = [8, 9]"
proof -
  have "stored sample_unit_memory 0 (processing_bytes UAC_VERSION_1 sample_unit [8, 9])"
    by (simp add: sample_unit_memory_def)
  from processing_unit_read [OF this] show ?thesis
    by (simp add: sample_unit_def processing_bytes_def cluster_bytes_def Let_def numeral_2_eq_2 numeral_3_eq_3)
qed

end
