(* ===== verification/Inet_Address.thy ===== *)
theory Inet_Address
  imports Byte_Memory Packed_Code
begin

text \<open>
  Internet addresses.  The class tests of \<^verbatim>\<open>netinet/in.h\<close> and of \<^verbatim>\<open>linux/in.h\<close> take a 32-bit address
  in host order; the second header widens it to \<^verbatim>\<open>long int\<close>, so its tests compute in 64 bits.  The
  tests of IPv6 addresses read the sixteen bytes of the address from memory, four at a time where
  the macro does, and compare them with constants converted to network order.  The map of groups to
  Ethernet addresses is that of \<^verbatim>\<open>netinet/if_ether.h\<close>.
\<close>

section \<open>Classes\<close>

definition IN_CLASSA :: "u32 \<Rightarrow> bool" where "IN_CLASSA a \<longleftrightarrow> a AND 0x80000000 = 0"

definition IN_CLASSA_NET :: u32 where "IN_CLASSA_NET = 0xff000000"

definition IN_CLASSA_NSHIFT :: nat where "IN_CLASSA_NSHIFT = 24"

definition IN_CLASSA_HOST :: u32 where "IN_CLASSA_HOST = 0xffffffff AND NOT IN_CLASSA_NET"

definition IN_CLASSA_MAX :: u32 where "IN_CLASSA_MAX = 128"

definition IN_CLASSB :: "u32 \<Rightarrow> bool" where "IN_CLASSB a \<longleftrightarrow> a AND 0xc0000000 = 0x80000000"

definition IN_CLASSB_NET :: u32 where "IN_CLASSB_NET = 0xffff0000"

definition IN_CLASSB_NSHIFT :: nat where "IN_CLASSB_NSHIFT = 16"

definition IN_CLASSB_HOST :: u32 where "IN_CLASSB_HOST = 0xffffffff AND NOT IN_CLASSB_NET"

definition IN_CLASSB_MAX :: u32 where "IN_CLASSB_MAX = 65536"

definition IN_CLASSC :: "u32 \<Rightarrow> bool" where "IN_CLASSC a \<longleftrightarrow> a AND 0xe0000000 = 0xc0000000"

definition IN_CLASSC_NET :: u32 where "IN_CLASSC_NET = 0xffffff00"

definition IN_CLASSC_NSHIFT :: nat where "IN_CLASSC_NSHIFT = 8"

definition IN_CLASSC_HOST :: u32 where "IN_CLASSC_HOST = 0xffffffff AND NOT IN_CLASSC_NET"

definition IN_CLASSD :: "u32 \<Rightarrow> bool" where "IN_CLASSD a \<longleftrightarrow> a AND 0xf0000000 = 0xe0000000"

definition IN_MULTICAST :: "u32 \<Rightarrow> bool" where "IN_MULTICAST a \<longleftrightarrow> IN_CLASSD a"

definition IN_EXPERIMENTAL :: "u32 \<Rightarrow> bool" where "IN_EXPERIMENTAL a \<longleftrightarrow> a AND 0xe0000000 = 0xe0000000"

definition IN_BADCLASS :: "u32 \<Rightarrow> bool" where "IN_BADCLASS a \<longleftrightarrow> a AND 0xf0000000 = 0xf0000000"

definition INADDR_ANY :: u32 where "INADDR_ANY = 0"

definition INADDR_BROADCAST :: u32 where "INADDR_BROADCAST = 0xffffffff"

definition INADDR_LOOPBACK :: u32 where "INADDR_LOOPBACK = 0x7f000001"

definition IN_LOOPBACKNET :: u32 where "IN_LOOPBACKNET = 127"

definition INADDR_UNSPEC_GROUP :: u32 where "INADDR_UNSPEC_GROUP = 0xe0000000"

definition INADDR_MAX_LOCAL_GROUP :: u32 where "INADDR_MAX_LOCAL_GROUP = 0xe00000ff"

text \<open>The kernel's header.\<close>

definition linux_IN_CLASSA :: "u32 \<Rightarrow> bool" where
  "linux_IN_CLASSA a \<longleftrightarrow> (ucast a :: u64) AND 0x80000000 = 0"

definition linux_IN_CLASSB :: "u32 \<Rightarrow> bool" where
  "linux_IN_CLASSB a \<longleftrightarrow> (ucast a :: u64) AND 0xc0000000 = 0x80000000"

definition linux_IN_CLASSC :: "u32 \<Rightarrow> bool" where
  "linux_IN_CLASSC a \<longleftrightarrow> (ucast a :: u64) AND 0xe0000000 = 0xc0000000"

definition linux_IN_CLASSD :: "u32 \<Rightarrow> bool" where
  "linux_IN_CLASSD a \<longleftrightarrow> (ucast a :: u64) AND 0xf0000000 = 0xe0000000"

definition linux_IN_CLASSE :: "u32 \<Rightarrow> bool" where
  "linux_IN_CLASSE a \<longleftrightarrow> (ucast a :: u64) AND 0xf0000000 = 0xf0000000"

definition linux_IN_MULTICAST :: "u32 \<Rightarrow> bool" where
  "linux_IN_MULTICAST a \<longleftrightarrow> linux_IN_CLASSD a"

definition linux_IN_BADCLASS :: "u32 \<Rightarrow> bool" where
  "linux_IN_BADCLASS a \<longleftrightarrow> (ucast a :: u64) = 0xffffffff"

definition linux_IN_EXPERIMENTAL :: "u32 \<Rightarrow> bool" where
  "linux_IN_EXPERIMENTAL a \<longleftrightarrow> linux_IN_BADCLASS a"

definition linux_IN_LOOPBACK :: "u32 \<Rightarrow> bool" where
  "linux_IN_LOOPBACK a \<longleftrightarrow> (ucast a :: u64) AND 0xff000000 = 0x7f000000"

section \<open>IPv6 addresses\<close>

text \<open>The members \<^verbatim>\<open>__u6_addr32\<close> and \<^verbatim>\<open>__u6_addr8\<close> of the union.\<close>

definition addr32 :: "memory \<Rightarrow> nat \<Rightarrow> nat \<Rightarrow> u32" where
  "addr32 m a i = load32 m (a + 4 * i)"

definition ntohl :: "u32 \<Rightarrow> u32" where
  "ntohl x = bswap_32 x"

definition IN6_IS_ADDR_UNSPECIFIED :: "memory \<Rightarrow> nat \<Rightarrow> bool" where
  "IN6_IS_ADDR_UNSPECIFIED m a \<longleftrightarrow>
     addr32 m a 0 = 0 \<and> addr32 m a 1 = 0 \<and> addr32 m a 2 = 0 \<and> addr32 m a 3 = 0"

definition IN6_IS_ADDR_LOOPBACK :: "memory \<Rightarrow> nat \<Rightarrow> bool" where
  "IN6_IS_ADDR_LOOPBACK m a \<longleftrightarrow>
     addr32 m a 0 = 0 \<and> addr32 m a 1 = 0 \<and> addr32 m a 2 = 0 \<and> addr32 m a 3 = htonl 1"

definition IN6_IS_ADDR_LINKLOCAL :: "memory \<Rightarrow> nat \<Rightarrow> bool" where
  "IN6_IS_ADDR_LINKLOCAL m a \<longleftrightarrow> addr32 m a 0 AND htonl 0xffc00000 = htonl 0xfe800000"

definition IN6_IS_ADDR_SITELOCAL :: "memory \<Rightarrow> nat \<Rightarrow> bool" where
  "IN6_IS_ADDR_SITELOCAL m a \<longleftrightarrow> addr32 m a 0 AND htonl 0xffc00000 = htonl 0xfec00000"

definition IN6_IS_ADDR_V4MAPPED :: "memory \<Rightarrow> nat \<Rightarrow> bool" where
  "IN6_IS_ADDR_V4MAPPED m a \<longleftrightarrow>
     addr32 m a 0 = 0 \<and> addr32 m a 1 = 0 \<and> addr32 m a 2 = htonl 0xffff"

definition IN6_IS_ADDR_V4COMPAT :: "memory \<Rightarrow> nat \<Rightarrow> bool" where
  "IN6_IS_ADDR_V4COMPAT m a \<longleftrightarrow>
     addr32 m a 0 = 0 \<and> addr32 m a 1 = 0 \<and> addr32 m a 2 = 0 \<and> ntohl (addr32 m a 3) > 1"

definition IN6_ARE_ADDR_EQUAL :: "memory \<Rightarrow> nat \<Rightarrow> nat \<Rightarrow> bool" where
  "IN6_ARE_ADDR_EQUAL m a b \<longleftrightarrow>
     addr32 m a 0 = addr32 m b 0 \<and> addr32 m a 1 = addr32 m b 1 \<and>
     addr32 m a 2 = addr32 m b 2 \<and> addr32 m a 3 = addr32 m b 3"

definition IN6_IS_ADDR_MULTICAST :: "memory \<Rightarrow> nat \<Rightarrow> bool" where
  "IN6_IS_ADDR_MULTICAST m a \<longleftrightarrow> m a = 0xff"

definition IN6_IS_ADDR_MC_NODELOCAL :: "memory \<Rightarrow> nat \<Rightarrow> bool" where
  "IN6_IS_ADDR_MC_NODELOCAL m a \<longleftrightarrow> IN6_IS_ADDR_MULTICAST m a \<and> m (a + 1) AND 0xf = 0x1"

definition IN6_IS_ADDR_MC_LINKLOCAL :: "memory \<Rightarrow> nat \<Rightarrow> bool" where
  "IN6_IS_ADDR_MC_LINKLOCAL m a \<longleftrightarrow> IN6_IS_ADDR_MULTICAST m a \<and> m (a + 1) AND 0xf = 0x2"

definition IN6_IS_ADDR_MC_SITELOCAL :: "memory \<Rightarrow> nat \<Rightarrow> bool" where
  "IN6_IS_ADDR_MC_SITELOCAL m a \<longleftrightarrow> IN6_IS_ADDR_MULTICAST m a \<and> m (a + 1) AND 0xf = 0x5"

definition IN6_IS_ADDR_MC_ORGLOCAL :: "memory \<Rightarrow> nat \<Rightarrow> bool" where
  "IN6_IS_ADDR_MC_ORGLOCAL m a \<longleftrightarrow> IN6_IS_ADDR_MULTICAST m a \<and> m (a + 1) AND 0xf = 0x8"

definition IN6_IS_ADDR_MC_GLOBAL :: "memory \<Rightarrow> nat \<Rightarrow> bool" where
  "IN6_IS_ADDR_MC_GLOBAL m a \<longleftrightarrow> IN6_IS_ADDR_MULTICAST m a \<and> m (a + 1) AND 0xf = 0xe"

section \<open>Groups on Ethernet\<close>

definition ETHER_MAP_IP_MULTICAST :: "nat \<Rightarrow> nat \<Rightarrow> memory \<Rightarrow> memory" where
  "ETHER_MAP_IP_MULTICAST ipaddr enaddr m =
     (let m = m(enaddr := 0x01);
          m = m(enaddr + 1 := 0x00);
          m = m(enaddr + 2 := 0x5e);
          m = m(enaddr + 3 := m (ipaddr + 1) AND 0x7f);
          m = m(enaddr + 4 := m (ipaddr + 2));
          m = m(enaddr + 5 := m (ipaddr + 3))
      in m)"

section \<open>The classes of an address\<close>

lemma top_bits:
  fixes a :: u32
  shows "a AND 0x80000000 = push_bit 31 (drop_bit 31 a)" "a AND 0xc0000000 = push_bit 30 (drop_bit 30 a)"
    "a AND 0xe0000000 = push_bit 29 (drop_bit 29 a)" "a AND 0xf0000000 = push_bit 28 (drop_bit 28 a)"
    "a AND 0xff000000 = push_bit 24 (drop_bit 24 a)"
proof -
  have m: "(0x80000000 :: u32) = NOT (mask 31)" "(0xc0000000 :: u32) = NOT (mask 30)"
    "(0xe0000000 :: u32) = NOT (mask 29)" "(0xf0000000 :: u32) = NOT (mask 28)"
    "(0xff000000 :: u32) = NOT (mask 24)"
    by (simp_all add: mask_eq_exp_minus_1)
  show "a AND 0x80000000 = push_bit 31 (drop_bit 31 a)" "a AND 0xc0000000 = push_bit 30 (drop_bit 30 a)"
    "a AND 0xe0000000 = push_bit 29 (drop_bit 29 a)" "a AND 0xf0000000 = push_bit 28 (drop_bit 28 a)"
    "a AND 0xff000000 = push_bit 24 (drop_bit 24 a)"
    unfolding m by (rule and_not_mask)+
qed

lemma unat_top_bits:
  fixes a :: u32
  shows "unat (a AND 0x80000000) = unat a div 2 ^ 31 * 2 ^ 31"
    "unat (a AND 0xc0000000) = unat a div 2 ^ 30 * 2 ^ 30"
    "unat (a AND 0xe0000000) = unat a div 2 ^ 29 * 2 ^ 29"
    "unat (a AND 0xf0000000) = unat a div 2 ^ 28 * 2 ^ 28"
    "unat (a AND 0xff000000) = unat a div 2 ^ 24 * 2 ^ 24"
  unfolding top_bits and_not_mask [symmetric] by (rule unat_and_not_mask)+

text \<open>An address belongs to the class of the range it lies in.\<close>

lemma class_ranges:
  "IN_CLASSA a \<longleftrightarrow> a < 0x80000000"
  "IN_CLASSB a \<longleftrightarrow> 0x80000000 \<le> a \<and> a < 0xc0000000"
  "IN_CLASSC a \<longleftrightarrow> 0xc0000000 \<le> a \<and> a < 0xe0000000"
  "IN_CLASSD a \<longleftrightarrow> 0xe0000000 \<le> a \<and> a < 0xf0000000"
  "IN_EXPERIMENTAL a \<longleftrightarrow> 0xe0000000 \<le> a"
  "IN_BADCLASS a \<longleftrightarrow> 0xf0000000 \<le> a"
proof -
  have n: "unat a < 4294967296" using unsigned_less [of a] by simp
  have d: "x div 2147483648 = 0 \<longleftrightarrow> x < 2147483648" "x div 1073741824 = 2 \<longleftrightarrow> 2147483648 \<le> x \<and> x < 3221225472"
    "x div 536870912 = 6 \<longleftrightarrow> 3221225472 \<le> x \<and> x < 3758096384"
    "x div 268435456 = 14 \<longleftrightarrow> 3758096384 \<le> x \<and> x < 4026531840" for x :: nat by linarith+
  have e: "x < 4294967296 \<Longrightarrow> x div 536870912 = 7 \<longleftrightarrow> 3758096384 \<le> x"
    "x < 4294967296 \<Longrightarrow> x div 268435456 = 15 \<longleftrightarrow> 4026531840 \<le> x" for x :: nat by linarith+
  show "IN_CLASSA a \<longleftrightarrow> a < 0x80000000"
    "IN_CLASSB a \<longleftrightarrow> 0x80000000 \<le> a \<and> a < 0xc0000000"
    "IN_CLASSC a \<longleftrightarrow> 0xc0000000 \<le> a \<and> a < 0xe0000000"
    "IN_CLASSD a \<longleftrightarrow> 0xe0000000 \<le> a \<and> a < 0xf0000000"
    "IN_EXPERIMENTAL a \<longleftrightarrow> 0xe0000000 \<le> a"
    "IN_BADCLASS a \<longleftrightarrow> 0xf0000000 \<le> a"
    unfolding IN_CLASSA_def IN_CLASSB_def IN_CLASSC_def IN_CLASSD_def IN_EXPERIMENTAL_def IN_BADCLASS_def
      word_unat_eq_iff word_less_nat_alt word_le_nat_alt unat_top_bits
    using d [of "unat a"] e [OF n] by simp_all
qed

lemma widened_test: "(ucast a :: u64) AND ucast k = ucast c \<longleftrightarrow> a AND k = c" for a k c :: u32
proof -
  have "(ucast (a AND k) :: u64) = ucast c \<longleftrightarrow> a AND k = c"
    using unat_ucast_up [where 'b = 64, of "a AND k"] unat_ucast_up [where 'b = 64, of c]
    by (auto simp: word_unat_eq_iff)
  then show ?thesis by (simp only: unsigned_and_eq)
qed

text \<open>The kernel's header classifies in the same way, except for what it calls bad or experimental.\<close>

lemma linux_classes:
  "linux_IN_CLASSA a = IN_CLASSA a" "linux_IN_CLASSB a = IN_CLASSB a" "linux_IN_CLASSC a = IN_CLASSC a"
  "linux_IN_CLASSD a = IN_CLASSD a" "linux_IN_CLASSE a = IN_BADCLASS a"
  "linux_IN_LOOPBACK a \<longleftrightarrow> drop_bit IN_CLASSA_NSHIFT a = IN_LOOPBACKNET"
  "linux_IN_BADCLASS a \<longleftrightarrow> a = INADDR_BROADCAST"
proof -
  show "linux_IN_CLASSA a = IN_CLASSA a" "linux_IN_CLASSB a = IN_CLASSB a" "linux_IN_CLASSC a = IN_CLASSC a"
    "linux_IN_CLASSD a = IN_CLASSD a" "linux_IN_CLASSE a = IN_BADCLASS a"
    using widened_test [of a "0x80000000" 0] widened_test [of a "0xc0000000" "0x80000000"]
      widened_test [of a "0xe0000000" "0xc0000000"] widened_test [of a "0xf0000000" "0xe0000000"]
      widened_test [of a "0xf0000000" "0xf0000000"]
    by (simp_all add: linux_IN_CLASSA_def linux_IN_CLASSB_def linux_IN_CLASSC_def linux_IN_CLASSD_def
        linux_IN_CLASSE_def IN_CLASSA_def IN_CLASSB_def IN_CLASSC_def IN_CLASSD_def IN_BADCLASS_def)
  have "a AND 0xff000000 = 0x7f000000 \<longleftrightarrow> drop_bit 24 a = 0x7f"
    unfolding word_unat_eq_iff unat_top_bits by (simp add: drop_bit_eq_div unat_div)
  then show "linux_IN_LOOPBACK a \<longleftrightarrow> drop_bit IN_CLASSA_NSHIFT a = IN_LOOPBACKNET"
    using widened_test [of a "0xff000000" "0x7f000000"]
    by (simp add: linux_IN_LOOPBACK_def IN_CLASSA_NSHIFT_def IN_LOOPBACKNET_def)
  show "linux_IN_BADCLASS a \<longleftrightarrow> a = INADDR_BROADCAST"
    using unat_ucast_up [of a, where 'b = 64]
    by (auto simp: linux_IN_BADCLASS_def INADDR_BROADCAST_def word_unat_eq_iff)
qed

text \<open>Network and host part put together again give the address.\<close>

lemma class_parts:
  "(a AND IN_CLASSA_NET) OR (a AND IN_CLASSA_HOST) = a" "(a AND IN_CLASSB_NET) OR (a AND IN_CLASSB_HOST) = a"
  "(a AND IN_CLASSC_NET) OR (a AND IN_CLASSC_HOST) = a"
  "IN_CLASSA a \<Longrightarrow> drop_bit IN_CLASSA_NSHIFT (a AND IN_CLASSA_NET) < IN_CLASSA_MAX"
proof -
  have all: "(0xffffffff :: u32) = NOT 0" by simp
  have "(a AND n) OR (a AND (0xffffffff AND NOT n)) = a" for n :: u32
    unfolding all by (rule bit_word_eqI) (auto simp: bit_simps)
  then show "(a AND IN_CLASSA_NET) OR (a AND IN_CLASSA_HOST) = a"
    "(a AND IN_CLASSB_NET) OR (a AND IN_CLASSB_HOST) = a" "(a AND IN_CLASSC_NET) OR (a AND IN_CLASSC_HOST) = a"
    by (simp_all add: IN_CLASSA_HOST_def IN_CLASSB_HOST_def IN_CLASSC_HOST_def)
  assume "IN_CLASSA a"
  then have "unat a < 2147483648" by (simp add: class_ranges word_less_nat_alt)
  then show "drop_bit IN_CLASSA_NSHIFT (a AND IN_CLASSA_NET) < IN_CLASSA_MAX"
    by (simp add: IN_CLASSA_NSHIFT_def IN_CLASSA_NET_def IN_CLASSA_MAX_def word_less_nat_alt
        drop_bit_eq_div unat_div unat_top_bits)
qed

text \<open>Every IPv4 address is of exactly one of the five classes, which are ranges, and both
  headers agree on them; but they do not agree on what is experimental: the library's test also
  holds for every multicast address, and the kernel's for the broadcast address only.\<close>

theorem inet_classes:
  "length (filter (\<lambda>P. P a) [IN_CLASSA, IN_CLASSB, IN_CLASSC, IN_MULTICAST, IN_BADCLASS]) = 1 \<and>
   map (\<lambda>P. P a) [linux_IN_CLASSA, linux_IN_CLASSB, linux_IN_CLASSC, linux_IN_MULTICAST, linux_IN_CLASSE] =
   map (\<lambda>P. P a) [IN_CLASSA, IN_CLASSB, IN_CLASSC, IN_MULTICAST, IN_BADCLASS] \<and>
   (IN_EXPERIMENTAL a \<longleftrightarrow> IN_MULTICAST a \<or> IN_BADCLASS a) \<and>
   (linux_IN_EXPERIMENTAL a \<longleftrightarrow> a = INADDR_BROADCAST)"
proof (intro conjI)
  show "length (filter (\<lambda>P. P a) [IN_CLASSA, IN_CLASSB, IN_CLASSC, IN_MULTICAST, IN_BADCLASS]) = 1"
    by (simp add: IN_MULTICAST_def class_ranges word_less_nat_alt word_le_nat_alt)
qed (auto simp: linux_IN_MULTICAST_def linux_IN_EXPERIMENTAL_def IN_MULTICAST_def linux_classes class_ranges word_less_nat_alt
    word_le_nat_alt)

section \<open>IPv6 addresses as bytes\<close>

lemma load32_join:
  "load32 m p = push_bit 24 (ucast (m (Suc (p + 2)))) OR push_bit 16 (ucast (m (p + 2))) OR
    push_bit 8 (ucast (m (Suc p))) OR ucast (m p)" (is "_ = ?r")
proof (rule bit_word_eqI)
  fix n assume "n < LENGTH(32)"
  then consider "n < 8" | "8 \<le> n" "n < 16" | "16 \<le> n" "n < 24" | "24 \<le> n" "n < 32" by fastforce
  then show "bit (load32 m p) n = bit ?r n"
    by cases (auto simp: load32_def load16_def be16_def bit_simps dest: bit_u8_less)
qed

lemma not_bit_u8: "8 \<le> k \<Longrightarrow> \<not> bit (w :: u8) (k + n)"
  using bit_u8_less [of w "k + n"] by auto

lemma load32_bytes: "word_bytes 4 (load32 m p) = read_bytes m p 4"
proof (rule nth_equalityI)
  fix k assume "k < length (word_bytes 4 (load32 m p))"
  then have k: "k = 0 \<or> k = 1 \<or> k = 2 \<or> k = 3" by auto
  show "word_bytes 4 (load32 m p) ! k = read_bytes m p 4 ! k"
    using k by (intro bit_word_eqI) (auto simp: bit_word_bytes load32_join bit_simps numeral_3_eq_3 not_bit_u8)
qed simp

lemma addr32_eq: "addr32 m a i = x \<longleftrightarrow> read_bytes m (a + 4 * i) 4 = word_bytes 4 x"
  using word_bytes_inject [where n = 4 and x = "addr32 m a i" and y = x] by (auto simp: addr32_def load32_bytes)

lemma network_bytes: "word_bytes 4 (htonl x) = rev (word_bytes 4 x)"
  by (simp add: htonl_def bswap_eq(2) [of True] swab_reverses)

lemma address_bytes:
  "read_bytes m a 16 = read_bytes m a 4 @ read_bytes m (a + 4) 4 @ read_bytes m (a + 8) 4 @ read_bytes m (a + 12) 4"
  using read_bytes_split [of m a 4 12] read_bytes_split [of m "a + 4" 4 8] read_bytes_split [of m "a + 8" 4 4]
  by (simp add: add.assoc)

lemma list_4_eq: "read_bytes m p 4 = [w, x, y, z] \<longleftrightarrow> m p = w \<and> m (p + 1) = x \<and> m (p + 2) = y \<and> m (p + 3) = z"
  by (simp add: read_bytes_def upt_4)

lemma network_constants:
  "word_bytes 4 (0 :: u32) = [0, 0, 0, 0]" "word_bytes 4 (htonl 1) = [0, 0, 0, 1]"
  "word_bytes 4 (htonl 0xffff) = [0, 0, 0xff, 0xff]"
  unfolding network_bytes by (simp_all add: word_bytes_4)

lemma prefix_test: "addr32 m a 0 AND htonl 0xffc00000 = htonl v \<longleftrightarrow>
    [m a, m (a + 1) AND 0xc0, 0, 0] = rev (word_bytes 4 v)" for v :: u32
proof -
  have "word_bytes 4 (addr32 m a 0) = [m a, m (a + 1), m (a + 2), m (a + 3)]"
    using addr32_eq [of m a 0 "addr32 m a 0"] by (simp add: read_bytes_def upt_4)
  moreover have "htonl 0xffc00000 = 0xc0ff"
    by (simp add: htonl_def bswap_32_def)
  moreover have "x AND 0xc0ff = x" for x :: u8
  proof -
    have "(0xc0ff :: u8) = - 1" by simp
    then show ?thesis by (simp only: bit.conj_one_right)
  qed
  ultimately have "word_bytes 4 (addr32 m a 0 AND htonl 0xffc00000) = [m a, m (a + 1) AND 0xc0, 0, 0]"
    by (simp add: word_bytes_4 drop_bit_and unsigned_and_eq)
  then show ?thesis
    using word_bytes_inject [where n = 4 and x = "addr32 m a 0 AND htonl 0xffc00000" and y = "htonl v"]
    by (auto simp: network_bytes)
qed

lemma first_twelve:
  "read_bytes m a 12 = read_bytes m a 4 @ read_bytes m (a + 4) 4 @ read_bytes m (a + 8) 4"
  using read_bytes_split [of m a 4 8] read_bytes_split [of m "a + 4" 4 4] by (simp add: add.assoc)

lemma above_one_bytes: "ntohl x > 1 \<longleftrightarrow> word_bytes 4 x \<notin> {[0, 0, 0, 0], [0, 0, 0, 1]}" for x
proof -
  have "ntohl x > 1 \<longleftrightarrow> ntohl x \<noteq> 0 \<and> ntohl x \<noteq> 1"
    by unat_arith
  also have "\<dots> \<longleftrightarrow> word_bytes 4 (ntohl x) \<notin> {word_bytes 4 (0 :: u32), word_bytes 4 (1 :: u32)}"
    using word_bytes_inject [where n = 4 and x = "ntohl x" and y = 0]
      word_bytes_inject [where n = 4 and x = "ntohl x" and y = 1] by auto
  also have "word_bytes 4 (ntohl x) = rev (word_bytes 4 x)"
    using network_bytes [of x] by (simp add: ntohl_def htonl_def)
  finally show ?thesis
    by (auto simp: word_bytes_4)
qed

lemma zero_runs:
  "replicate 16 (0 :: u8) = [0, 0, 0, 0] @ [0, 0, 0, 0] @ [0, 0, 0, 0] @ [0, 0, 0, 0]"
  "replicate 15 (0 :: u8) @ [1] = [0, 0, 0, 0] @ [0, 0, 0, 0] @ [0, 0, 0, 0] @ [0, 0, 0, 1]"
  "replicate 12 (0 :: u8) = [0, 0, 0, 0] @ [0, 0, 0, 0] @ [0, 0, 0, 0]"
  "replicate 10 (0 :: u8) @ [0xff, 0xff] = [0, 0, 0, 0] @ [0, 0, 0, 0] @ [0, 0, 0xff, 0xff]"
  by (simp_all add: eval_nat_numeral)

text \<open>The IPv6 tests, which compare words with constants in network order, say of the sixteen
  bytes what the address formats say: the unspecified and loopback addresses, the prefixes fe80::/10
  and fec0::/10, the ten zeros and two ones of a mapped IPv4 address, the twelve zeros of a
  compatible one with more than the last bit set; and two addresses are equal when their bytes are.\<close>

theorem inet6_tests:
  "(IN6_IS_ADDR_UNSPECIFIED m a \<longleftrightarrow> read_bytes m a 16 = replicate 16 0) \<and>
   (IN6_IS_ADDR_LOOPBACK m a \<longleftrightarrow> read_bytes m a 16 = replicate 15 0 @ [1]) \<and>
   (IN6_IS_ADDR_LINKLOCAL m a \<longleftrightarrow> m a = 0xfe \<and> m (a + 1) AND 0xc0 = 0x80) \<and>
   (IN6_IS_ADDR_SITELOCAL m a \<longleftrightarrow> m a = 0xfe \<and> m (a + 1) AND 0xc0 = 0xc0) \<and>
   (IN6_IS_ADDR_V4MAPPED m a \<longleftrightarrow> read_bytes m a 12 = replicate 10 0 @ [0xff, 0xff]) \<and>
   (IN6_IS_ADDR_V4COMPAT m a \<longleftrightarrow> read_bytes m a 12 = replicate 12 0 \<and>
      read_bytes m (a + 12) 4 \<notin> {[0, 0, 0, 0], [0, 0, 0, 1]}) \<and>
   (IN6_ARE_ADDR_EQUAL m a b \<longleftrightarrow> read_bytes m a 16 = read_bytes m b 16)"
proof -
  have low: "(65152 :: u8) = 0x80" "(65216 :: u8) = 0xc0" by simp_all
  show "?thesis"
  proof (intro conjI)
    show "IN6_IS_ADDR_LINKLOCAL m a \<longleftrightarrow> m a = 0xfe \<and> m (a + 1) AND 0xc0 = 0x80"
      "IN6_IS_ADDR_SITELOCAL m a \<longleftrightarrow> m a = 0xfe \<and> m (a + 1) AND 0xc0 = 0xc0"
      by (simp_all add: IN6_IS_ADDR_LINKLOCAL_def IN6_IS_ADDR_SITELOCAL_def prefix_test word_bytes_4) (simp_all only: low)
    show "IN6_IS_ADDR_UNSPECIFIED m a \<longleftrightarrow> read_bytes m a 16 = replicate 16 0"
      "IN6_IS_ADDR_LOOPBACK m a \<longleftrightarrow> read_bytes m a 16 = replicate 15 0 @ [1]"
      "IN6_IS_ADDR_V4MAPPED m a \<longleftrightarrow> read_bytes m a 12 = replicate 10 0 @ [0xff, 0xff]"
      by (simp_all add: IN6_IS_ADDR_UNSPECIFIED_def IN6_IS_ADDR_LOOPBACK_def IN6_IS_ADDR_V4MAPPED_def
          addr32_eq network_constants address_bytes first_twelve zero_runs del: append.simps)
    show "IN6_IS_ADDR_V4COMPAT m a \<longleftrightarrow> read_bytes m a 12 = replicate 12 0 \<and>
        read_bytes m (a + 12) 4 \<notin> {[0, 0, 0, 0], [0, 0, 0, 1]}"
      using addr32_eq [of m a 3 "addr32 m a 3"]
      by (simp add: IN6_IS_ADDR_V4COMPAT_def above_one_bytes) (simp add: addr32_eq network_constants first_twelve zero_runs del: append.simps)
    show "IN6_ARE_ADDR_EQUAL m a b \<longleftrightarrow> read_bytes m a 16 = read_bytes m b 16"
      unfolding IN6_ARE_ADDR_EQUAL_def address_bytes addr32_eq
      using addr32_eq [of m b _ "addr32 m b _"] by (auto simp: addr32_def load32_bytes)
  qed
qed

section \<open>Groups on Ethernet\<close>

text \<open>
  The low 23 bits of the group end up behind the fixed prefix; nothing else is written.
\<close>

lemma ether_map_bytes:
  assumes "enaddr + 6 \<le> ipaddr \<or> ipaddr + 4 \<le> enaddr"
  shows "read_bytes (ETHER_MAP_IP_MULTICAST ipaddr enaddr m) enaddr 6 =
      [0x01, 0x00, 0x5e, m (ipaddr + 1) AND 0x7f, m (ipaddr + 2), m (ipaddr + 3)]"
    and "a < enaddr \<or> enaddr + 6 \<le> a \<Longrightarrow> ETHER_MAP_IP_MULTICAST ipaddr enaddr m a = m a"
proof -
  have six: "[0..<6] = [0, 1, 2, 3, 4, 5]"
    by (simp add: upt_rec eval_nat_numeral)
  show "read_bytes (ETHER_MAP_IP_MULTICAST ipaddr enaddr m) enaddr 6 =
      [0x01, 0x00, 0x5e, m (ipaddr + 1) AND 0x7f, m (ipaddr + 2), m (ipaddr + 3)]"
    using assms by (elim disjE) (simp_all add: ETHER_MAP_IP_MULTICAST_def Let_def read_bytes_def six)
  show "a < enaddr \<or> enaddr + 6 \<le> a \<Longrightarrow> ETHER_MAP_IP_MULTICAST ipaddr enaddr m a = m a"
    by (auto simp: ETHER_MAP_IP_MULTICAST_def Let_def)
qed

lemma ether_map_groups:
  assumes "enaddr + 6 \<le> ipaddr \<or> ipaddr + 4 \<le> enaddr" and "enaddr + 6 \<le> ipaddr' \<or> ipaddr' + 4 \<le> enaddr"
  shows "read_bytes (ETHER_MAP_IP_MULTICAST ipaddr enaddr m) enaddr 6 =
      read_bytes (ETHER_MAP_IP_MULTICAST ipaddr' enaddr m) enaddr 6 \<longleftrightarrow>
    m (ipaddr + 1) AND 0x7f = m (ipaddr' + 1) AND 0x7f \<and> m (ipaddr + 2) = m (ipaddr' + 2) \<and>
    m (ipaddr + 3) = m (ipaddr' + 3)"
  by (simp add: ether_map_bytes [OF assms(1)] ether_map_bytes [OF assms(2)])

end
