(* ===== verification/Phonet.thy ===== *)
theory Phonet
  imports Packed_Code
begin

text \<open>
  Phonet addresses of \<^verbatim>\<open>linux/phonet.h\<close>.  An object is a device in the upper six bits of a byte and a
  port of ten bits, the upper two of which share that byte; a socket address keeps the two bytes
  apart.
\<close>

record sockaddr_pn =
  spn_obj :: u8
  spn_dev :: u8
  spn_resource :: u8

text \<open>\<^verbatim>\<open>addr << 8\<close> is computed as an \<^verbatim>\<open>int\<close> and the result stored in 16 bits.\<close>

definition pn_object :: "u8 \<Rightarrow> u16 \<Rightarrow> u16" where
  "pn_object addr port = push_bit 8 (ucast addr) OR (port AND 0x3ff)"

definition pn_obj :: "u16 \<Rightarrow> u8" where
  "pn_obj handle = ucast (handle AND 0xff)"

definition pn_dev :: "u16 \<Rightarrow> u8" where
  "pn_dev handle = ucast (drop_bit 8 handle)"

definition pn_port :: "u16 \<Rightarrow> u16" where
  "pn_port handle = handle AND 0x3ff"

definition pn_addr :: "u16 \<Rightarrow> u8" where
  "pn_addr handle = ucast (drop_bit 8 handle AND 0xfc)"

definition pn_sockaddr_set_addr :: "u8 \<Rightarrow> sockaddr_pn \<Rightarrow> sockaddr_pn" where
  "pn_sockaddr_set_addr addr spn =
     (let spn = spn\<lparr>spn_dev := spn_dev spn AND 0x03\<rparr>
      in spn\<lparr>spn_dev := spn_dev spn OR (addr AND 0xfc)\<rparr>)"

definition pn_sockaddr_set_port :: "u16 \<Rightarrow> sockaddr_pn \<Rightarrow> sockaddr_pn" where
  "pn_sockaddr_set_port port spn =
     (let spn = spn\<lparr>spn_dev := spn_dev spn AND 0xfc\<rparr>;
          spn = spn\<lparr>spn_dev := spn_dev spn OR ucast (drop_bit 8 port AND 0x03)\<rparr>
      in spn\<lparr>spn_obj := ucast (port AND 0xff)\<rparr>)"

definition pn_sockaddr_set_object :: "u16 \<Rightarrow> sockaddr_pn \<Rightarrow> sockaddr_pn" where
  "pn_sockaddr_set_object handle spn =
     (let spn = spn\<lparr>spn_dev := pn_dev handle\<rparr> in spn\<lparr>spn_obj := pn_obj handle\<rparr>)"

definition pn_sockaddr_set_resource :: "u8 \<Rightarrow> sockaddr_pn \<Rightarrow> sockaddr_pn" where
  "pn_sockaddr_set_resource resource spn = spn\<lparr>spn_resource := resource\<rparr>"

definition pn_sockaddr_get_addr :: "sockaddr_pn \<Rightarrow> u8" where
  "pn_sockaddr_get_addr spn = spn_dev spn AND 0xfc"

definition pn_sockaddr_get_port :: "sockaddr_pn \<Rightarrow> u16" where
  "pn_sockaddr_get_port spn = push_bit 8 (ucast (spn_dev spn AND 0x03)) OR ucast (spn_obj spn)"

definition pn_sockaddr_get_object :: "sockaddr_pn \<Rightarrow> u16" where
  "pn_sockaddr_get_object spn = pn_object (spn_dev spn) (ucast (spn_obj spn))"

definition pn_sockaddr_get_resource :: "sockaddr_pn \<Rightarrow> u8" where
  "pn_sockaddr_get_resource spn = spn_resource spn"

section \<open>Bits\<close>

lemma pn_masks:
  "(0x3ff :: u16) = mask 10" "(0xff :: u16) = mask 8" "(0xfc :: u8) = push_bit 2 (mask 6)"
  "(0xfc :: u16) = push_bit 2 (mask 6)" "(0x03 :: u8) = mask 2" "(0x03 :: u16) = mask 2"
  by (simp_all add: mask_eq_exp_minus_1)

lemma bit_pn_readers:
  "bit (pn_obj h) n \<longleftrightarrow> n < 8 \<and> bit h n"
  "bit (pn_dev h) n \<longleftrightarrow> n < 8 \<and> bit h (8 + n)"
  "bit (pn_port h) n \<longleftrightarrow> n < 10 \<and> bit h n"
  "bit (pn_addr h) n \<longleftrightarrow> 2 \<le> n \<and> n < 8 \<and> bit h (8 + n)"
  unfolding pn_obj_def pn_dev_def pn_port_def pn_addr_def pn_masks
  by (auto simp: bit_simps dest: bit_u16_less)

lemma bit_pn_object:
  "bit (pn_object a p) n \<longleftrightarrow> n < 16 \<and> (8 \<le> n \<and> bit a (n - 8) \<or> n < 10 \<and> bit p n)"
  unfolding pn_object_def pn_masks by (auto simp: bit_simps dest: bit_u8_less bit_u16_less)

lemma bit_pn_sockaddr:
  "bit (spn_dev (pn_sockaddr_set_addr a s)) n \<longleftrightarrow> (if n < 2 then bit (spn_dev s) n else bit a n)"
  "bit (spn_dev (pn_sockaddr_set_port p s)) n \<longleftrightarrow> (if n < 2 then bit p (8 + n) else bit (spn_dev s) n)"
  "bit (spn_obj (pn_sockaddr_set_port p s)) n \<longleftrightarrow> n < 8 \<and> bit p n"
  "bit (pn_sockaddr_get_addr s) n \<longleftrightarrow> 2 \<le> n \<and> bit (spn_dev s) n"
  "bit (pn_sockaddr_get_port s) n \<longleftrightarrow> n < 10 \<and> (if n < 8 then bit (spn_obj s) n else bit (spn_dev s) (n - 8))"
  unfolding pn_sockaddr_set_addr_def pn_sockaddr_set_port_def pn_sockaddr_get_addr_def
    pn_sockaddr_get_port_def pn_masks Let_def
  by (auto simp: bit_simps dest: bit_u8_less)

lemma bit_high_6: "bit (a AND 0xfc) n \<longleftrightarrow> 2 \<le> n \<and> bit a n" for a :: u8
  unfolding pn_masks by (auto simp: bit_simps dest: bit_u8_less)

lemma bit_pn_sockaddr_object:
  "bit (pn_sockaddr_get_object s) n \<longleftrightarrow> n < 16 \<and> (if n < 8 then bit (spn_obj s) n else bit (spn_dev s) (n - 8))"
  by (auto simp: pn_sockaddr_get_object_def bit_pn_object bit_simps dest: bit_u8_less)

lemma bit_low_10: "bit (p AND mask 10) n \<longleftrightarrow> n < 10 \<and> bit p n" for p :: u16
  by (auto simp: bit_simps)

lemma sockaddr_eqI:
  "spn_obj s = spn_obj t \<Longrightarrow> spn_dev s = spn_dev t \<Longrightarrow> spn_resource s = spn_resource t \<Longrightarrow> s = (t :: sockaddr_pn)"
  by (cases s; cases t) simp

lemma spn_set_others [simp]:
  "spn_resource (pn_sockaddr_set_addr a s) = spn_resource s"
  "spn_resource (pn_sockaddr_set_port p s) = spn_resource s"
  "spn_obj (pn_sockaddr_set_addr a s) = spn_obj s"
  by (simp_all add: pn_sockaddr_set_addr_def pn_sockaddr_set_port_def Let_def)

section \<open>Objects and their parts\<close>

definition pn_fits :: "u8 \<times> u16 \<Rightarrow> bool" where
  "pn_fits x = (fst x AND 0x03 = 0 \<and> snd x < 2 ^ 10)"

lemma device_low_bits: "a AND 0x03 = 0 \<longleftrightarrow> (\<forall>k < 2. \<not> bit a k)" for a :: u8
proof -
  have "bit (a AND 0x03) n \<longleftrightarrow> n < 2 \<and> bit a n" for n
    unfolding pn_masks by (auto simp: bit_simps dest: bit_u8_less)
  then show ?thesis unfolding bit_eq_iff by (fastforce dest: bit_u8_less)
qed

interpretation pn: full_code "\<lambda>(a, p). pn_object a p" "\<lambda>h. (pn_addr h, pn_port h)" pn_fits
proof
  fix x :: "u8 \<times> u16" and h
  assume "pn_fits x"
  then obtain a p where x: "x = (a, p)" "\<not> bit a 0" "\<not> bit a 1" "p < 2 ^ 10"
    by (cases x) (auto simp: pn_fits_def device_low_bits)
  have p: "bit p n \<Longrightarrow> n < 10" for n by (rule not_bit_small [OF x(4)]) simp_all
  have a: "bit a n \<Longrightarrow> 2 \<le> n" for n using x(2,3) less_2_cases [of n] by (force simp: not_le [symmetric])
  have a': "n < 10 \<Longrightarrow> \<not> bit a (n - 8)" for n using a [of "n - 8"] by linarith
  have "pn_addr (pn_object a p) = a" "pn_port (pn_object a p) = p"
    by (auto intro!: bit_word_eqI simp: bit_pn_readers bit_pn_object not_less a' dest: p a)
  then show "(\<lambda>h. (pn_addr h, pn_port h)) ((\<lambda>(a, p). pn_object a p) x) = x"
    by (simp add: x)
next
  fix h
  show "(\<lambda>(a, p). pn_object a p) (pn_addr h, pn_port h) = h"
    by (auto intro!: bit_word_eqI simp: bit_pn_readers bit_pn_object not_less)
  show "pn_fits (pn_addr h, pn_port h)"
    by (auto simp: pn_fits_def device_low_bits bit_pn_readers intro!: less_2p_bits [where n = 10, simplified])
qed

text \<open>Sixteen-bit objects and pairs of a device address with clear low bits and a ten-bit port
  correspond one to one; a socket address given a device and a port, in either order, holds both,
  and its object is theirs; and given an object it holds that object's device and port.\<close>

theorem phonet_addresses:
  "(a AND 0x03 = 0 \<and> p < 2 ^ 10 \<and> pn_object a p = h) = (pn_addr h = a \<and> pn_port h = p) \<and>
   pn_sockaddr_set_port p (pn_sockaddr_set_addr a s) = pn_sockaddr_set_addr a (pn_sockaddr_set_port p s) \<and>
   (let t = pn_sockaddr_set_port p (pn_sockaddr_set_addr a s)
    in pn_sockaddr_get_addr t = a AND 0xfc \<and> pn_sockaddr_get_port t = p AND mask 10 \<and>
      pn_sockaddr_get_object t = pn_object (a AND 0xfc) p \<and> pn_sockaddr_get_resource t = spn_resource s) \<and>
   (let t = pn_sockaddr_set_object h s
    in pn_sockaddr_get_object t = h \<and> pn_sockaddr_get_addr t = pn_addr h \<and> pn_sockaddr_get_port t = pn_port h)"
proof (intro conjI)
  show "(a AND 0x03 = 0 \<and> p < 2 ^ 10 \<and> pn_object a p = h) = (pn_addr h = a \<and> pn_port h = p)"
    using pn.code_iff [of "(a, p)" h] by (simp add: pn_fits_def)
  show "pn_sockaddr_set_port p (pn_sockaddr_set_addr a s) = pn_sockaddr_set_addr a (pn_sockaddr_set_port p s)"
    by (rule sockaddr_eqI; (rule bit_word_eqI)?; simp add: bit_pn_sockaddr)
  show "let t = pn_sockaddr_set_port p (pn_sockaddr_set_addr a s)
    in pn_sockaddr_get_addr t = a AND 0xfc \<and> pn_sockaddr_get_port t = p AND mask 10 \<and>
      pn_sockaddr_get_object t = pn_object (a AND 0xfc) p \<and> pn_sockaddr_get_resource t = spn_resource s"
    unfolding Let_def
    by (intro conjI; (rule bit_word_eqI)?)
      (auto simp: bit_pn_sockaddr bit_pn_sockaddr_object bit_pn_object bit_high_6 bit_low_10
        pn_sockaddr_get_resource_def)
  show "let t = pn_sockaddr_set_object h s
    in pn_sockaddr_get_object t = h \<and> pn_sockaddr_get_addr t = pn_addr h \<and> pn_sockaddr_get_port t = pn_port h"
    unfolding Let_def
    by (intro conjI; rule bit_word_eqI)
      (auto simp: bit_pn_sockaddr bit_pn_sockaddr_object bit_pn_readers pn_sockaddr_set_object_def Let_def not_less)
qed

end
