(* ===== verification/Nilfs.thy ===== *)
theory Nilfs
  imports Byte_Order Bit_Set
begin

text \<open>
  The inline functions of the NILFS2 headers \<^verbatim>\<open>linux/nilfs2_ondisk.h\<close> and \<^verbatim>\<open>linux/nilfs2_api.h\<close>: flag
  words of checkpoints, segment usages and their updates, the record length of directory entries,
  and the places of the super blocks.  Flags on disk are little-endian and the shifted one is an
  \<^verbatim>\<open>unsigned long\<close>, so they are combined in 64 bits.
\<close>

section \<open>Checkpoints\<close>

record nilfs_checkpoint =
  cp_flags :: u32
  cp_checkpoints_count :: u32
  cp_ssl_next :: u64
  cp_ssl_prev :: u64
  cp_cno :: u64
  cp_create :: u64
  cp_nblk_inc :: u64
  cp_inodes_count :: u64
  cp_blocks_count :: u64

definition NILFS_CHECKPOINT_SNAPSHOT :: nat where "NILFS_CHECKPOINT_SNAPSHOT = 0"

definition NILFS_CHECKPOINT_INVALID :: nat where "NILFS_CHECKPOINT_INVALID = 1"

definition NILFS_CHECKPOINT_SKETCH :: nat where "NILFS_CHECKPOINT_SKETCH = 2"

definition NILFS_CHECKPOINT_MINOR :: nat where "NILFS_CHECKPOINT_MINOR = 3"

text \<open>The three functions the macro \<^verbatim>\<open>NILFS_CHECKPOINT_FNS\<close> makes for a flag.\<close>

definition checkpoint_set :: "nat \<Rightarrow> nilfs_checkpoint \<Rightarrow> nilfs_checkpoint" where
  "checkpoint_set flag cp =
     cp\<lparr>cp_flags := little_cpu_to_le32
          (ucast (ucast (little_le32_to_cpu (cp_flags cp)) OR push_bit flag 1 :: u64))\<rparr>"

definition checkpoint_clear :: "nat \<Rightarrow> nilfs_checkpoint \<Rightarrow> nilfs_checkpoint" where
  "checkpoint_clear flag cp =
     cp\<lparr>cp_flags := little_cpu_to_le32
          (ucast (ucast (little_le32_to_cpu (cp_flags cp)) AND NOT (push_bit flag 1) :: u64))\<rparr>"

definition checkpoint_test :: "nat \<Rightarrow> nilfs_checkpoint \<Rightarrow> bool" where
  "checkpoint_test flag cp \<longleftrightarrow>
     (ucast (little_le32_to_cpu (cp_flags cp)) AND push_bit flag 1 :: u64) \<noteq> 0"

definition nilfs_checkpoint_set_snapshot where
  "nilfs_checkpoint_set_snapshot = checkpoint_set NILFS_CHECKPOINT_SNAPSHOT"

definition nilfs_checkpoint_clear_snapshot where
  "nilfs_checkpoint_clear_snapshot = checkpoint_clear NILFS_CHECKPOINT_SNAPSHOT"

definition nilfs_checkpoint_snapshot where
  "nilfs_checkpoint_snapshot = checkpoint_test NILFS_CHECKPOINT_SNAPSHOT"

definition nilfs_checkpoint_set_invalid where
  "nilfs_checkpoint_set_invalid = checkpoint_set NILFS_CHECKPOINT_INVALID"

definition nilfs_checkpoint_clear_invalid where
  "nilfs_checkpoint_clear_invalid = checkpoint_clear NILFS_CHECKPOINT_INVALID"

definition nilfs_checkpoint_invalid where
  "nilfs_checkpoint_invalid = checkpoint_test NILFS_CHECKPOINT_INVALID"

definition nilfs_checkpoint_set_minor where
  "nilfs_checkpoint_set_minor = checkpoint_set NILFS_CHECKPOINT_MINOR"

definition nilfs_checkpoint_clear_minor where
  "nilfs_checkpoint_clear_minor = checkpoint_clear NILFS_CHECKPOINT_MINOR"

definition nilfs_checkpoint_minor where
  "nilfs_checkpoint_minor = checkpoint_test NILFS_CHECKPOINT_MINOR"

section \<open>Segment usage\<close>

record nilfs_segment_usage =
  su_lastmod :: u64
  su_nblocks :: u32
  su_flags :: u32

definition NILFS_SEGMENT_USAGE_ACTIVE :: nat where "NILFS_SEGMENT_USAGE_ACTIVE = 0"

definition NILFS_SEGMENT_USAGE_DIRTY :: nat where "NILFS_SEGMENT_USAGE_DIRTY = 1"

definition NILFS_SEGMENT_USAGE_ERROR :: nat where "NILFS_SEGMENT_USAGE_ERROR = 2"

definition segment_usage_set :: "nat \<Rightarrow> nilfs_segment_usage \<Rightarrow> nilfs_segment_usage" where
  "segment_usage_set flag su =
     su\<lparr>su_flags := little_cpu_to_le32
          (ucast (ucast (little_le32_to_cpu (su_flags su)) OR push_bit flag 1 :: u64))\<rparr>"

definition segment_usage_clear :: "nat \<Rightarrow> nilfs_segment_usage \<Rightarrow> nilfs_segment_usage" where
  "segment_usage_clear flag su =
     su\<lparr>su_flags := little_cpu_to_le32
          (ucast (ucast (little_le32_to_cpu (su_flags su)) AND NOT (push_bit flag 1) :: u64))\<rparr>"

definition segment_usage_test :: "nat \<Rightarrow> nilfs_segment_usage \<Rightarrow> bool" where
  "segment_usage_test flag su \<longleftrightarrow>
     (ucast (little_le32_to_cpu (su_flags su)) AND push_bit flag 1 :: u64) \<noteq> 0"

definition nilfs_segment_usage_set_active where
  "nilfs_segment_usage_set_active = segment_usage_set NILFS_SEGMENT_USAGE_ACTIVE"

definition nilfs_segment_usage_clear_active where
  "nilfs_segment_usage_clear_active = segment_usage_clear NILFS_SEGMENT_USAGE_ACTIVE"

definition nilfs_segment_usage_active where
  "nilfs_segment_usage_active = segment_usage_test NILFS_SEGMENT_USAGE_ACTIVE"

definition nilfs_segment_usage_set_dirty where
  "nilfs_segment_usage_set_dirty = segment_usage_set NILFS_SEGMENT_USAGE_DIRTY"

definition nilfs_segment_usage_clear_dirty where
  "nilfs_segment_usage_clear_dirty = segment_usage_clear NILFS_SEGMENT_USAGE_DIRTY"

definition nilfs_segment_usage_dirty where
  "nilfs_segment_usage_dirty = segment_usage_test NILFS_SEGMENT_USAGE_DIRTY"

definition nilfs_segment_usage_set_error where
  "nilfs_segment_usage_set_error = segment_usage_set NILFS_SEGMENT_USAGE_ERROR"

definition nilfs_segment_usage_clear_error where
  "nilfs_segment_usage_clear_error = segment_usage_clear NILFS_SEGMENT_USAGE_ERROR"

definition nilfs_segment_usage_error where
  "nilfs_segment_usage_error = segment_usage_test NILFS_SEGMENT_USAGE_ERROR"

definition nilfs_segment_usage_set_clean :: "nilfs_segment_usage \<Rightarrow> nilfs_segment_usage" where
  "nilfs_segment_usage_set_clean su =
     (let su = su\<lparr>su_lastmod := little_cpu_to_le64 0\<rparr>;
          su = su\<lparr>su_nblocks := little_cpu_to_le32 0\<rparr>
      in su\<lparr>su_flags := little_cpu_to_le32 0\<rparr>)"

definition nilfs_segment_usage_clean :: "nilfs_segment_usage \<Rightarrow> bool" where
  "nilfs_segment_usage_clean su \<longleftrightarrow> little_le32_to_cpu (su_flags su) = 0"

section \<open>The same in the interface to user space\<close>

definition NILFS_CPINFO_SNAPSHOT :: nat where "NILFS_CPINFO_SNAPSHOT = 0"

definition NILFS_CPINFO_INVALID :: nat where "NILFS_CPINFO_INVALID = 1"

definition NILFS_CPINFO_MINOR :: nat where "NILFS_CPINFO_MINOR = 3"

record nilfs_cpinfo =
  ci_flags :: u32
  ci_pad :: u32
  ci_cno :: u64
  ci_create :: u64
  ci_nblk_inc :: u64
  ci_inodes_count :: u64
  ci_blocks_count :: u64
  ci_next :: u64

definition cpinfo_test :: "nat \<Rightarrow> nilfs_cpinfo \<Rightarrow> bool" where
  "cpinfo_test flag ci \<longleftrightarrow> (ucast (ci_flags ci) AND push_bit flag 1 :: u64) \<noteq> 0"

definition nilfs_cpinfo_snapshot where "nilfs_cpinfo_snapshot = cpinfo_test NILFS_CPINFO_SNAPSHOT"

definition nilfs_cpinfo_invalid where "nilfs_cpinfo_invalid = cpinfo_test NILFS_CPINFO_INVALID"

definition nilfs_cpinfo_minor where "nilfs_cpinfo_minor = cpinfo_test NILFS_CPINFO_MINOR"

record nilfs_suinfo =
  sui_lastmod :: u64
  sui_nblocks :: u32
  sui_flags :: u32

definition NILFS_SUINFO_ACTIVE :: nat where "NILFS_SUINFO_ACTIVE = 0"

definition NILFS_SUINFO_DIRTY :: nat where "NILFS_SUINFO_DIRTY = 1"

definition NILFS_SUINFO_ERROR :: nat where "NILFS_SUINFO_ERROR = 2"

text \<open>The masked word itself is returned, as an \<^verbatim>\<open>int\<close>.\<close>

definition suinfo_test :: "nat \<Rightarrow> nilfs_suinfo \<Rightarrow> u32" where
  "suinfo_test flag si = ucast (ucast (sui_flags si) AND push_bit flag 1 :: u64)"

definition nilfs_suinfo_active where "nilfs_suinfo_active = suinfo_test NILFS_SUINFO_ACTIVE"

definition nilfs_suinfo_dirty where "nilfs_suinfo_dirty = suinfo_test NILFS_SUINFO_DIRTY"

definition nilfs_suinfo_error where "nilfs_suinfo_error = suinfo_test NILFS_SUINFO_ERROR"

definition nilfs_suinfo_clean :: "nilfs_suinfo \<Rightarrow> bool" where
  "nilfs_suinfo_clean si \<longleftrightarrow> sui_flags si = 0"

record nilfs_suinfo_update =
  sup_segnum :: u64
  sup_flags :: u32
  sup_reserved :: u32
  sup_sui :: nilfs_suinfo

definition NILFS_SUINFO_UPDATE_LASTMOD :: nat where "NILFS_SUINFO_UPDATE_LASTMOD = 0"

definition NILFS_SUINFO_UPDATE_NBLOCKS :: nat where "NILFS_SUINFO_UPDATE_NBLOCKS = 1"

definition NILFS_SUINFO_UPDATE_FLAGS :: nat where "NILFS_SUINFO_UPDATE_FLAGS = 2"

definition suinfo_update_set :: "nat \<Rightarrow> nilfs_suinfo_update \<Rightarrow> nilfs_suinfo_update" where
  "suinfo_update_set flag upd =
     upd\<lparr>sup_flags := ucast (ucast (sup_flags upd) OR push_bit flag 1 :: u64)\<rparr>"

definition suinfo_update_clear :: "nat \<Rightarrow> nilfs_suinfo_update \<Rightarrow> nilfs_suinfo_update" where
  "suinfo_update_clear flag upd =
     upd\<lparr>sup_flags := ucast (ucast (sup_flags upd) AND NOT (push_bit flag 1) :: u64)\<rparr>"

definition suinfo_update_test :: "nat \<Rightarrow> nilfs_suinfo_update \<Rightarrow> bool" where
  "suinfo_update_test flag upd \<longleftrightarrow> (ucast (sup_flags upd) AND push_bit flag 1 :: u64) \<noteq> 0"

definition nilfs_suinfo_update_set_lastmod where
  "nilfs_suinfo_update_set_lastmod = suinfo_update_set NILFS_SUINFO_UPDATE_LASTMOD"

definition nilfs_suinfo_update_clear_lastmod where
  "nilfs_suinfo_update_clear_lastmod = suinfo_update_clear NILFS_SUINFO_UPDATE_LASTMOD"

definition nilfs_suinfo_update_lastmod where
  "nilfs_suinfo_update_lastmod = suinfo_update_test NILFS_SUINFO_UPDATE_LASTMOD"

definition nilfs_suinfo_update_set_nblocks where
  "nilfs_suinfo_update_set_nblocks = suinfo_update_set NILFS_SUINFO_UPDATE_NBLOCKS"

definition nilfs_suinfo_update_clear_nblocks where
  "nilfs_suinfo_update_clear_nblocks = suinfo_update_clear NILFS_SUINFO_UPDATE_NBLOCKS"

definition nilfs_suinfo_update_nblocks where
  "nilfs_suinfo_update_nblocks = suinfo_update_test NILFS_SUINFO_UPDATE_NBLOCKS"

definition nilfs_suinfo_update_set_flags where
  "nilfs_suinfo_update_set_flags = suinfo_update_set NILFS_SUINFO_UPDATE_FLAGS"

definition nilfs_suinfo_update_clear_flags where
  "nilfs_suinfo_update_clear_flags = suinfo_update_clear NILFS_SUINFO_UPDATE_FLAGS"

definition nilfs_suinfo_update_flags where
  "nilfs_suinfo_update_flags = suinfo_update_test NILFS_SUINFO_UPDATE_FLAGS"

section \<open>Sizes and places\<close>

text \<open>The inode of the DAT file is at 16 of the super root.\<close>

definition NILFS_SR_MDT_OFFSET :: "u64 \<Rightarrow> u64 \<Rightarrow> u64" where
  "NILFS_SR_MDT_OFFSET inode_size i = 16 + inode_size * i"

definition NILFS_SR_DAT_OFFSET :: "u64 \<Rightarrow> u64" where
  "NILFS_SR_DAT_OFFSET inode_size = NILFS_SR_MDT_OFFSET inode_size 0"

definition NILFS_SR_CPFILE_OFFSET :: "u64 \<Rightarrow> u64" where
  "NILFS_SR_CPFILE_OFFSET inode_size = NILFS_SR_MDT_OFFSET inode_size 1"

definition NILFS_SR_SUFILE_OFFSET :: "u64 \<Rightarrow> u64" where
  "NILFS_SR_SUFILE_OFFSET inode_size = NILFS_SR_MDT_OFFSET inode_size 2"

definition NILFS_SR_BYTES :: "u64 \<Rightarrow> u64" where
  "NILFS_SR_BYTES inode_size = NILFS_SR_MDT_OFFSET inode_size 3"

definition NILFS_SB_OFFSET_BYTES :: nat where "NILFS_SB_OFFSET_BYTES = 1024"

definition NILFS_SB2_OFFSET_BYTES :: "u64 \<Rightarrow> u64" where
  "NILFS_SB2_OFFSET_BYTES devsize = push_bit 12 (drop_bit 12 devsize - 1)"

definition NILFS_DAT_INO :: nat where "NILFS_DAT_INO = 3"

definition NILFS_SUFILE_INO :: nat where "NILFS_SUFILE_INO = 5"

definition NILFS_ROOT_METADATA_FILE :: "nat \<Rightarrow> bool" where
  "NILFS_ROOT_METADATA_FILE ino \<longleftrightarrow> ino \<ge> NILFS_DAT_INO \<and> ino \<le> NILFS_SUFILE_INO"

definition NILFS_DIR_PAD :: u32 where "NILFS_DIR_PAD = 8"

definition NILFS_DIR_ROUND :: u32 where "NILFS_DIR_ROUND = NILFS_DIR_PAD - 1"

definition NILFS_DIR_REC_LEN :: "u8 \<Rightarrow> u32" where
  "NILFS_DIR_REC_LEN name_len = (ucast name_len + 12 + NILFS_DIR_ROUND) AND NOT NILFS_DIR_ROUND"

definition NILFS_MAX_REC_LEN :: u32 where "NILFS_MAX_REC_LEN = push_bit 16 1 - 1"

definition NILFS_CPFILE_FIRST_CHECKPOINT_OFFSET :: nat where
  "NILFS_CPFILE_FIRST_CHECKPOINT_OFFSET = (32 + 192 - 1) div 192"

definition NILFS_SUFILE_FIRST_SEGMENT_USAGE_OFFSET :: nat where
  "NILFS_SUFILE_FIRST_SEGMENT_USAGE_OFFSET = (24 + 16 - 1) div 16"

section \<open>Flag words are sets of flags\<close>

lemma flag_word:
  "bit (ucast (ucast w OR push_bit f 1 :: u64) :: u32) k \<longleftrightarrow> k < 32 \<and> (k = f \<or> bit w k)"
  "bit (ucast (ucast w AND NOT (push_bit f 1) :: u64) :: u32) k \<longleftrightarrow> k \<noteq> f \<and> bit w k" for w :: u32
  by (auto simp: bit_simps dest: bit_u32_less)

lemma flag_test: "f < 32 \<Longrightarrow> (ucast w AND push_bit f 1 :: u64) \<noteq> 0 \<longleftrightarrow> bit w f" for w :: u32
  unfolding test_bit_mask by (simp add: bit_simps)

lemmas flag_bits = flag_test flag_test [unfolded push_bit_of_1] flag_word flag_word [unfolded push_bit_of_1]

lemmas flag_defs = checkpoint_set_def checkpoint_clear_def checkpoint_test_def segment_usage_set_def
  segment_usage_clear_def segment_usage_test_def suinfo_update_set_def suinfo_update_clear_def
  suinfo_update_test_def little_cpu_to_le32_def little_le32_to_cpu_def

interpretation checkpoint_flags: extensional_set 32 "\<lambda>cp. cp\<lparr>cp_flags := 0\<rparr> = rest"
    "\<lambda>cp f. checkpoint_test f cp" checkpoint_set checkpoint_clear for rest
proof
  fix s t :: nilfs_checkpoint
  assume e: "s\<lparr>cp_flags := 0\<rparr> = rest" "t\<lparr>cp_flags := 0\<rparr> = rest"
    and f: "elems 32 (\<lambda>cp f. checkpoint_test f cp) s = elems 32 (\<lambda>cp f. checkpoint_test f cp) t"
  have "bit (cp_flags s) k = bit (cp_flags t) k" if "k < 32" for k
    using f [THEN eqset_imp_iff, of k] that by (simp add: elems_def flag_defs flag_bits)
  then have "cp_flags s = cp_flags t" by (auto intro: bit_word_eqI)
  moreover have "s\<lparr>cp_flags := 0\<rparr> = t\<lparr>cp_flags := 0\<rparr>" using e by simp
  ultimately show "s = t" by (cases s; cases t) simp
qed (auto simp: flag_defs flag_bits)

interpretation segment_usage_flags: extensional_set 32 "\<lambda>su. su\<lparr>su_flags := 0\<rparr> = rest"
    "\<lambda>su f. segment_usage_test f su" segment_usage_set segment_usage_clear for rest
proof
  fix s t :: nilfs_segment_usage
  assume e: "s\<lparr>su_flags := 0\<rparr> = rest" "t\<lparr>su_flags := 0\<rparr> = rest"
    and f: "elems 32 (\<lambda>su f. segment_usage_test f su) s = elems 32 (\<lambda>su f. segment_usage_test f su) t"
  have "bit (su_flags s) k = bit (su_flags t) k" if "k < 32" for k
    using f [THEN eqset_imp_iff, of k] that by (simp add: elems_def flag_defs flag_bits)
  then have "su_flags s = su_flags t" by (auto intro: bit_word_eqI)
  moreover have "s\<lparr>su_flags := 0\<rparr> = t\<lparr>su_flags := 0\<rparr>" using e by simp
  ultimately show "s = t" by (cases s; cases t) simp
qed (auto simp: flag_defs flag_bits)

interpretation suinfo_update_flags: bounded_set 32 "\<lambda>upd. upd\<lparr>sup_flags := 0\<rparr> = rest"
    "\<lambda>upd f. suinfo_update_test f upd" suinfo_update_set suinfo_update_clear for rest
  by unfold_locales (auto simp: flag_defs flag_bits)

text \<open>The flags of a segment usage as a set; a clean segment has none.\<close>

definition usage_flags :: "nilfs_segment_usage \<Rightarrow> nat set" where
  "usage_flags = elems 32 (\<lambda>su f. segment_usage_test f su)"

definition checkpoint_flags :: "nilfs_checkpoint \<Rightarrow> nat set" where
  "checkpoint_flags = elems 32 (\<lambda>cp f. checkpoint_test f cp)"

lemma usage_flags: "usage_flags su = {f. bit (su_flags su) f}"
proof (rule set_eqI)
  fix f
  show "f \<in> usage_flags su \<longleftrightarrow> f \<in> {f. bit (su_flags su) f}"
    using bit_u32_less [of "su_flags su" f]
    by (cases "f < 32") (auto simp: usage_flags_def elems_def flag_defs flag_bits)
qed

lemma usage_flags_empty: "usage_flags su = {} \<longleftrightarrow> su_flags su = 0"
  using bit_u32_less [of "su_flags su"] by (auto simp: usage_flags bit_eq_iff)

text \<open>The flag functions of the file system are set operations on flag words and touch nothing
  else: setting and clearing add and remove exactly the flag they are named for in checkpoints and
  in segment usages, whose members besides the flags stay; a segment usage is clean when its flags
  are the empty set, making it clean empties them and the counters, and then any flag makes it not
  clean.\<close>

theorem nilfs_flag_words:
  "checkpoint_flags (nilfs_checkpoint_set_snapshot cp) = insert NILFS_CHECKPOINT_SNAPSHOT (checkpoint_flags cp) \<and>
   checkpoint_flags (nilfs_checkpoint_clear_snapshot cp) = checkpoint_flags cp - {NILFS_CHECKPOINT_SNAPSHOT} \<and>
   checkpoint_flags (nilfs_checkpoint_set_invalid cp) = insert NILFS_CHECKPOINT_INVALID (checkpoint_flags cp) \<and>
   checkpoint_flags (nilfs_checkpoint_clear_invalid cp) = checkpoint_flags cp - {NILFS_CHECKPOINT_INVALID} \<and>
   checkpoint_flags (nilfs_checkpoint_set_minor cp) = insert NILFS_CHECKPOINT_MINOR (checkpoint_flags cp) \<and>
   checkpoint_flags (nilfs_checkpoint_clear_minor cp) = checkpoint_flags cp - {NILFS_CHECKPOINT_MINOR} \<and>
   nilfs_checkpoint_set_minor cp = cp\<lparr>cp_flags := cp_flags (nilfs_checkpoint_set_minor cp)\<rparr> \<and>
   nilfs_checkpoint_minor cp = (NILFS_CHECKPOINT_MINOR \<in> checkpoint_flags cp) \<and>
   usage_flags (nilfs_segment_usage_set_dirty su) = insert NILFS_SEGMENT_USAGE_DIRTY (usage_flags su) \<and>
   usage_flags (nilfs_segment_usage_clear_dirty su) = usage_flags su - {NILFS_SEGMENT_USAGE_DIRTY} \<and>
   usage_flags (nilfs_segment_usage_set_error su) = insert NILFS_SEGMENT_USAGE_ERROR (usage_flags su) \<and>
   nilfs_segment_usage_error su = (NILFS_SEGMENT_USAGE_ERROR \<in> usage_flags su) \<and>
   nilfs_segment_usage_clean su = (usage_flags su = {}) \<and>
   nilfs_segment_usage_set_clean su = \<lparr>su_lastmod = 0, su_nblocks = 0, su_flags = 0\<rparr> \<and>
   \<not> nilfs_segment_usage_clean (nilfs_segment_usage_set_active su)"
proof -
  note c = checkpoint_flags.elems_ins [where rest = "cp\<lparr>cp_flags := 0\<rparr>" and s = cp]
    checkpoint_flags.elems_del [where rest = "cp\<lparr>cp_flags := 0\<rparr>" and s = cp]
  note u = segment_usage_flags.elems_ins [where rest = "su\<lparr>su_flags := 0\<rparr>" and s = su]
    segment_usage_flags.elems_del [where rest = "su\<lparr>su_flags := 0\<rparr>" and s = su]
  have clean: "nilfs_segment_usage_clean s = (usage_flags s = {})" for s
    by (simp add: nilfs_segment_usage_clean_def usage_flags_empty little_le32_to_cpu_def)
  show ?thesis
    by (simp add: c u clean checkpoint_flags_def usage_flags_def
        nilfs_checkpoint_set_snapshot_def nilfs_checkpoint_clear_snapshot_def nilfs_checkpoint_set_invalid_def
        nilfs_checkpoint_clear_invalid_def nilfs_checkpoint_set_minor_def nilfs_checkpoint_clear_minor_def
        nilfs_checkpoint_minor_def nilfs_segment_usage_set_dirty_def nilfs_segment_usage_clear_dirty_def
        nilfs_segment_usage_set_error_def nilfs_segment_usage_error_def nilfs_segment_usage_set_active_def
        NILFS_CHECKPOINT_SNAPSHOT_def NILFS_CHECKPOINT_INVALID_def NILFS_CHECKPOINT_MINOR_def
        NILFS_SEGMENT_USAGE_DIRTY_def NILFS_SEGMENT_USAGE_ERROR_def NILFS_SEGMENT_USAGE_ACTIVE_def)
      (simp add: elems_def nilfs_segment_usage_set_clean_def little_cpu_to_le32_def little_cpu_to_le64_def
        checkpoint_set_def)
qed

text \<open>The readers of user space's copies see the same bits.\<close>

lemma nilfs_user_flags:
  "f < 32 \<Longrightarrow> cpinfo_test f ci \<longleftrightarrow> bit (ci_flags ci) f" "f < 32 \<Longrightarrow> suinfo_test f si \<noteq> 0 \<longleftrightarrow> bit (sui_flags si) f"
  "nilfs_suinfo_clean si \<longleftrightarrow> (\<forall>f < 32. suinfo_test f si = 0)"
proof -
  have s: "suinfo_test f si = sui_flags si AND push_bit f 1" if "f < 32" for f
    using that by (intro bit_word_eqI) (auto simp: suinfo_test_def bit_simps)
  show t: "f < 32 \<Longrightarrow> suinfo_test f si \<noteq> 0 \<longleftrightarrow> bit (sui_flags si) f" for f
    unfolding s by (rule test_bit_mask)
  show "f < 32 \<Longrightarrow> cpinfo_test f ci \<longleftrightarrow> bit (ci_flags ci) f"
    unfolding cpinfo_test_def by (rule flag_test)
  show "nilfs_suinfo_clean si \<longleftrightarrow> (\<forall>f < 32. suinfo_test f si = 0)"
    using t unfolding nilfs_suinfo_clean_def bit_eq_iff [of "sui_flags si" 0] by auto
qed

section \<open>Records and super blocks\<close>

text \<open>
  The second super block takes the last whole block of 4096 bytes of a device, provided there is
  one: of a smaller device the place wraps to the end of the number range.
\<close>

lemma block_below:
  "1 \<le> q \<Longrightarrow> q = n div 4096 \<Longrightarrow>
    (q - 1) * 4096 + 4096 \<le> n \<and> n < (q - 1) * 4096 + 2 * 4096" for n q :: nat
  by (cases q) auto

lemma nilfs_second_super_block:
  "4096 \<le> devsize \<Longrightarrow>
    unat (NILFS_SB2_OFFSET_BYTES devsize) + 4096 \<le> unat devsize \<and>
    unat devsize < unat (NILFS_SB2_OFFSET_BYTES devsize) + 2 * 4096 \<and> 4096 dvd unat (NILFS_SB2_OFFSET_BYTES devsize)"
  "devsize < 4096 \<Longrightarrow> NILFS_SB2_OFFSET_BYTES devsize = - 4096"
proof -
  have d: "unat (drop_bit 12 devsize) = unat devsize div 4096"
    by (simp add: drop_bit_eq_div unat_div)
  have shift: "unat (push_bit 12 x) = n * 4096" if "unat x = n" "n * 4096 < 2 ^ 64" for x :: u64 and n
    using that by (simp add: push_bit_eq_mult unat_word_ariths(2) mult.commute)
  {
    assume "4096 \<le> devsize"
    then have "4096 \<le> unat devsize" by (simp add: word_le_nat_alt)
    then have one: "1 \<le> unat devsize div 4096" by linarith
    then have m: "unat (drop_bit 12 devsize - 1) = unat devsize div 4096 - 1"
      using d by (subst unat_sub) (simp_all add: word_le_nat_alt)
    have "(unat devsize div 4096 - 1) * 4096 < 2 ^ 64"
      using unsigned_less [of devsize, where 'a = nat] by simp
    then have "unat (NILFS_SB2_OFFSET_BYTES devsize) = (unat devsize div 4096 - 1) * 4096"
      unfolding NILFS_SB2_OFFSET_BYTES_def using shift [OF m] by simp
    then show "unat (NILFS_SB2_OFFSET_BYTES devsize) + 4096 \<le> unat devsize \<and>
        unat devsize < unat (NILFS_SB2_OFFSET_BYTES devsize) + 2 * 4096 \<and> 4096 dvd unat (NILFS_SB2_OFFSET_BYTES devsize)"
      using one block_below [of "unat devsize div 4096" "unat devsize"] by simp
  next
    assume "devsize < 4096"
    then have "unat (drop_bit 12 devsize) = 0" using d by (simp add: word_less_nat_alt)
    then have "drop_bit 12 devsize = 0" by (simp add: unat_eq_0)
    then show "NILFS_SB2_OFFSET_BYTES devsize = - 4096"
      by (simp add: NILFS_SB2_OFFSET_BYTES_def push_bit_eq_mult)
  }
qed

lemma nilfs_record_length:
  "unat (NILFS_DIR_REC_LEN n) = round_up 8 (unat n + 12)" "8 dvd unat (NILFS_DIR_REC_LEN n)"
  "unat n + 12 \<le> unat (NILFS_DIR_REC_LEN n)" "NILFS_DIR_REC_LEN n \<le> NILFS_MAX_REC_LEN"
proof -
  have n: "unat (ucast n :: u32) = unat n" "unat n < 256"
    by (simp_all add: unat_ucast_up unat_less_256)
  then have s: "unat (ucast n + 12 :: u32) = unat n + 12"
    using unat_add_lem [of "ucast n :: u32" 12] by simp
  then show l: "unat (NILFS_DIR_REC_LEN n) = round_up 8 (unat n + 12)"
    using unat_round_up [of "ucast n + 12 :: u32" 3] n(2)
    by (simp add: NILFS_DIR_REC_LEN_def NILFS_DIR_ROUND_def NILFS_DIR_PAD_def)
  show "8 dvd unat (NILFS_DIR_REC_LEN n)" "unat n + 12 \<le> unat (NILFS_DIR_REC_LEN n)"
    unfolding l by (simp_all add: round_up)
  show "NILFS_DIR_REC_LEN n \<le> NILFS_MAX_REC_LEN"
    using round_up(3) [of 8 "unat n + 12"] n(2) by (simp add: word_le_nat_alt l NILFS_MAX_REC_LEN_def)
qed

end
