(* ===== verification/Sve_Layout.thy ===== *)
theory Sve_Layout
  imports Prelude
begin

text \<open>
  The layout of the scalable vector registers in signal frames and in the ptrace register set:
  the macros of \<^verbatim>\<open>asm/sve_context.h\<close> and the ones of \<^verbatim>\<open>asm/sigcontext.h\<close> and \<^verbatim>\<open>asm/ptrace.h\<close> over
  them.  Sizes are computed in 32 bits, from a vector length in quadwords that the macros cast to
  \<^verbatim>\<open>__u32\<close>; offsets from a structure start are 64-bit, since they begin with a \<^verbatim>\<open>sizeof\<close>.
\<close>

section \<open>Vector lengths and register sizes\<close>

definition SVE_VQ_BYTES :: u32 where "SVE_VQ_BYTES = 16"

definition SVE_VQ_MIN :: u32 where "SVE_VQ_MIN = 1"

definition SVE_VQ_MAX :: u32 where "SVE_VQ_MAX = 512"

definition SVE_VL_MIN :: u32 where "SVE_VL_MIN = SVE_VQ_MIN * SVE_VQ_BYTES"

definition SVE_VL_MAX :: u32 where "SVE_VL_MAX = SVE_VQ_MAX * SVE_VQ_BYTES"

definition SVE_NUM_ZREGS :: u32 where "SVE_NUM_ZREGS = 32"

definition SVE_NUM_PREGS :: u32 where "SVE_NUM_PREGS = 16"

definition sve_vl_valid :: "u32 \<Rightarrow> bool" where
  "sve_vl_valid vl \<longleftrightarrow> vl mod SVE_VQ_BYTES = 0 \<and> SVE_VL_MIN \<le> vl \<and> vl \<le> SVE_VL_MAX"

definition sve_vq_from_vl :: "u32 \<Rightarrow> u32" where "sve_vq_from_vl vl = vl div SVE_VQ_BYTES"

definition sve_vl_from_vq :: "u32 \<Rightarrow> u32" where "sve_vl_from_vq vq = vq * SVE_VQ_BYTES"

definition SVE_ZREG_SIZE :: "u32 \<Rightarrow> u32" where "SVE_ZREG_SIZE vq = vq * SVE_VQ_BYTES"

definition SVE_PREG_SIZE :: "u32 \<Rightarrow> u32" where "SVE_PREG_SIZE vq = vq * (SVE_VQ_BYTES div 8)"

definition SVE_FFR_SIZE :: "u32 \<Rightarrow> u32" where "SVE_FFR_SIZE vq = SVE_PREG_SIZE vq"

section \<open>Offsets in the register block\<close>

definition SVE_ZREGS_OFFSET :: u32 where "SVE_ZREGS_OFFSET = 0"

definition SVE_ZREG_OFFSET :: "u32 \<Rightarrow> u32 \<Rightarrow> u32" where
  "SVE_ZREG_OFFSET vq n = SVE_ZREGS_OFFSET + SVE_ZREG_SIZE vq * n"

definition SVE_ZREGS_SIZE :: "u32 \<Rightarrow> u32" where
  "SVE_ZREGS_SIZE vq = SVE_ZREG_OFFSET vq SVE_NUM_ZREGS - SVE_ZREGS_OFFSET"

definition SVE_PREGS_OFFSET :: "u32 \<Rightarrow> u32" where
  "SVE_PREGS_OFFSET vq = SVE_ZREGS_OFFSET + SVE_ZREGS_SIZE vq"

definition SVE_PREG_OFFSET :: "u32 \<Rightarrow> u32 \<Rightarrow> u32" where
  "SVE_PREG_OFFSET vq n = SVE_PREGS_OFFSET vq + SVE_PREG_SIZE vq * n"

definition SVE_PREGS_SIZE :: "u32 \<Rightarrow> u32" where
  "SVE_PREGS_SIZE vq = SVE_PREG_OFFSET vq SVE_NUM_PREGS - SVE_PREGS_OFFSET vq"

definition SVE_FFR_OFFSET :: "u32 \<Rightarrow> u32" where
  "SVE_FFR_OFFSET vq = SVE_PREGS_OFFSET vq + SVE_PREGS_SIZE vq"

section \<open>Signal frames\<close>

text \<open>The sizes of the structures in front of the registers.\<close>

definition sizeof_sve_context :: u64 where "sizeof_sve_context = 16"

definition sizeof_user_sve_header :: u64 where "sizeof_user_sve_header = 16"

definition sizeof_user_fpsimd_state :: u64 where "sizeof_user_fpsimd_state = 528"

text \<open>Rounding up to a quadword, as the macros write it out.\<close>

definition quad_up :: "u64 \<Rightarrow> u64" where
  "quad_up x = (x + (ucast SVE_VQ_BYTES - 1)) div ucast SVE_VQ_BYTES * ucast SVE_VQ_BYTES"

definition SVE_SIG_REGS_OFFSET :: u64 where "SVE_SIG_REGS_OFFSET = quad_up sizeof_sve_context"

definition SVE_SIG_ZREG_SIZE where "SVE_SIG_ZREG_SIZE = SVE_ZREG_SIZE"

definition SVE_SIG_PREG_SIZE where "SVE_SIG_PREG_SIZE = SVE_PREG_SIZE"

definition SVE_SIG_FFR_SIZE where "SVE_SIG_FFR_SIZE = SVE_FFR_SIZE"

definition SVE_SIG_ZREGS_OFFSET :: u64 where
  "SVE_SIG_ZREGS_OFFSET = SVE_SIG_REGS_OFFSET + ucast SVE_ZREGS_OFFSET"

definition SVE_SIG_ZREG_OFFSET :: "u32 \<Rightarrow> u32 \<Rightarrow> u64" where
  "SVE_SIG_ZREG_OFFSET vq n = SVE_SIG_REGS_OFFSET + ucast (SVE_ZREG_OFFSET vq n)"

definition SVE_SIG_ZREGS_SIZE where "SVE_SIG_ZREGS_SIZE = SVE_ZREGS_SIZE"

definition SVE_SIG_PREGS_OFFSET :: "u32 \<Rightarrow> u64" where
  "SVE_SIG_PREGS_OFFSET vq = SVE_SIG_REGS_OFFSET + ucast (SVE_PREGS_OFFSET vq)"

definition SVE_SIG_PREG_OFFSET :: "u32 \<Rightarrow> u32 \<Rightarrow> u64" where
  "SVE_SIG_PREG_OFFSET vq n = SVE_SIG_REGS_OFFSET + ucast (SVE_PREG_OFFSET vq n)"

definition SVE_SIG_PREGS_SIZE where "SVE_SIG_PREGS_SIZE = SVE_PREGS_SIZE"

definition SVE_SIG_FFR_OFFSET :: "u32 \<Rightarrow> u64" where
  "SVE_SIG_FFR_OFFSET vq = SVE_SIG_REGS_OFFSET + ucast (SVE_FFR_OFFSET vq)"

definition SVE_SIG_REGS_SIZE :: "u32 \<Rightarrow> u32" where
  "SVE_SIG_REGS_SIZE vq = SVE_FFR_OFFSET vq + SVE_FFR_SIZE vq"

definition SVE_SIG_CONTEXT_SIZE :: "u32 \<Rightarrow> u64" where
  "SVE_SIG_CONTEXT_SIZE vq = SVE_SIG_REGS_OFFSET + ucast (SVE_SIG_REGS_SIZE vq)"

section \<open>The ptrace register set\<close>

definition SVE_PT_REGS_MASK :: u32 where "SVE_PT_REGS_MASK = push_bit 0 1"

definition SVE_PT_REGS_FPSIMD :: u32 where "SVE_PT_REGS_FPSIMD = 0"

definition SVE_PT_REGS_SVE :: u32 where "SVE_PT_REGS_SVE = SVE_PT_REGS_MASK"

definition SVE_PT_REGS_OFFSET :: u64 where "SVE_PT_REGS_OFFSET = quad_up sizeof_user_sve_header"

definition SVE_PT_FPSIMD_OFFSET :: u64 where "SVE_PT_FPSIMD_OFFSET = SVE_PT_REGS_OFFSET"

definition SVE_PT_FPSIMD_SIZE :: "u32 \<Rightarrow> u32 \<Rightarrow> u64" where
  "SVE_PT_FPSIMD_SIZE vq flags = sizeof_user_fpsimd_state"

definition SVE_PT_SVE_ZREG_SIZE where "SVE_PT_SVE_ZREG_SIZE = SVE_ZREG_SIZE"

definition SVE_PT_SVE_PREG_SIZE where "SVE_PT_SVE_PREG_SIZE = SVE_PREG_SIZE"

definition SVE_PT_SVE_FFR_SIZE where "SVE_PT_SVE_FFR_SIZE = SVE_FFR_SIZE"

definition SVE_PT_SVE_FPSR_SIZE :: u64 where "SVE_PT_SVE_FPSR_SIZE = 4"

definition SVE_PT_SVE_FPCR_SIZE :: u64 where "SVE_PT_SVE_FPCR_SIZE = 4"

definition SVE_PT_SVE_OFFSET :: u64 where "SVE_PT_SVE_OFFSET = SVE_PT_REGS_OFFSET"

definition SVE_PT_SVE_ZREGS_OFFSET :: u64 where
  "SVE_PT_SVE_ZREGS_OFFSET = SVE_PT_REGS_OFFSET + ucast SVE_ZREGS_OFFSET"

definition SVE_PT_SVE_ZREG_OFFSET :: "u32 \<Rightarrow> u32 \<Rightarrow> u64" where
  "SVE_PT_SVE_ZREG_OFFSET vq n = SVE_PT_REGS_OFFSET + ucast (SVE_ZREG_OFFSET vq n)"

definition SVE_PT_SVE_ZREGS_SIZE :: "u32 \<Rightarrow> u64" where
  "SVE_PT_SVE_ZREGS_SIZE vq = SVE_PT_SVE_ZREG_OFFSET vq SVE_NUM_ZREGS - SVE_PT_SVE_ZREGS_OFFSET"

definition SVE_PT_SVE_PREGS_OFFSET :: "u32 \<Rightarrow> u64" where
  "SVE_PT_SVE_PREGS_OFFSET vq = SVE_PT_REGS_OFFSET + ucast (SVE_PREGS_OFFSET vq)"

definition SVE_PT_SVE_PREG_OFFSET :: "u32 \<Rightarrow> u32 \<Rightarrow> u64" where
  "SVE_PT_SVE_PREG_OFFSET vq n = SVE_PT_REGS_OFFSET + ucast (SVE_PREG_OFFSET vq n)"

definition SVE_PT_SVE_PREGS_SIZE :: "u32 \<Rightarrow> u64" where
  "SVE_PT_SVE_PREGS_SIZE vq = SVE_PT_SVE_PREG_OFFSET vq SVE_NUM_PREGS - SVE_PT_SVE_PREGS_OFFSET vq"

definition SVE_PT_SVE_FFR_OFFSET :: "u32 \<Rightarrow> u64" where
  "SVE_PT_SVE_FFR_OFFSET vq = SVE_PT_REGS_OFFSET + ucast (SVE_FFR_OFFSET vq)"

definition SVE_PT_SVE_FPSR_OFFSET :: "u32 \<Rightarrow> u64" where
  "SVE_PT_SVE_FPSR_OFFSET vq = quad_up (SVE_PT_SVE_FFR_OFFSET vq + ucast (SVE_PT_SVE_FFR_SIZE vq))"

definition SVE_PT_SVE_FPCR_OFFSET :: "u32 \<Rightarrow> u64" where
  "SVE_PT_SVE_FPCR_OFFSET vq = SVE_PT_SVE_FPSR_OFFSET vq + SVE_PT_SVE_FPSR_SIZE"

definition SVE_PT_SVE_SIZE :: "u32 \<Rightarrow> u32 \<Rightarrow> u64" where
  "SVE_PT_SVE_SIZE vq flags =
     quad_up (SVE_PT_SVE_FPCR_OFFSET vq + SVE_PT_SVE_FPCR_SIZE - SVE_PT_SVE_OFFSET)"

definition SVE_PT_SIZE :: "u32 \<Rightarrow> u32 \<Rightarrow> u64" where
  "SVE_PT_SIZE vq flags =
     (if flags AND SVE_PT_REGS_MASK = SVE_PT_REGS_SVE
      then SVE_PT_SVE_OFFSET + SVE_PT_SVE_SIZE vq flags
      else SVE_PT_FPSIMD_OFFSET + SVE_PT_FPSIMD_SIZE vq flags)"

section \<open>Blocks laid end to end\<close>

text \<open>Regions, as pairs of an offset and a size, that fill a range without gaps or overlaps.\<close>

fun tiles :: "nat \<Rightarrow> nat \<Rightarrow> (nat \<times> nat) list \<Rightarrow> bool" where
  "tiles a b [] \<longleftrightarrow> a = b"
| "tiles a b ((off, n) # rs) \<longleftrightarrow> off = a \<and> tiles (a + n) b rs"

lemma tiles_append: "tiles a b rs \<Longrightarrow> tiles b c ss \<Longrightarrow> tiles a c (rs @ ss)"
  by (induction a b rs rule: tiles.induct) auto

lemma tiles_le: "tiles a b rs \<Longrightarrow> a \<le> b"
  by (induction a b rs rule: tiles.induct) auto

lemma tiles_array:
  "(\<And>i. i < n \<Longrightarrow> off i = a + s * i) \<Longrightarrow> b = a + s * n \<Longrightarrow> tiles a b (map (\<lambda>i. (off i, s)) [0..<n])"
proof (induction n arbitrary: b)
  case (Suc n)
  then have "tiles a (a + s * n) (map (\<lambda>i. (off i, s)) [0..<n])" by simp
  then show ?case
    using Suc.prems by (auto intro!: tiles_append simp: add.assoc)
qed simp

lemma tiles_above: "tiles a b rs \<Longrightarrow> i < length rs \<Longrightarrow> a \<le> fst (rs ! i)"
proof (induction a b rs arbitrary: i rule: tiles.induct)
  case (2 a b off n rs)
  then show ?case by (cases i) (auto intro: le_trans [OF le_add1])
qed simp

text \<open>Each byte of the range belongs to exactly one of the regions.\<close>

definition holds_byte :: "nat \<Rightarrow> nat \<times> nat \<Rightarrow> bool" where
  "holds_byte x r \<longleftrightarrow> fst r \<le> x \<and> x < fst r + snd r"

lemma tiles_cover:
  "tiles a b rs \<Longrightarrow> a \<le> x \<Longrightarrow> x < b \<Longrightarrow> \<exists>!i. i < length rs \<and> holds_byte x (rs ! i)"
proof (induction a b rs rule: tiles.induct)
  case (2 a b off n rs)
  show ?case
  proof (cases "x < a + n")
    case True
    have "\<not> holds_byte x (rs ! i)" if "i < length rs" for i
      using tiles_above [of "a + n" b rs i] 2(2) that True by (auto simp: holds_byte_def)
    then show ?thesis
      using 2(2,3) True
      by (intro ex1I [of _ 0]) (auto simp: nth_Cons holds_byte_def less_Suc_eq_0_disj split: nat.splits)
  next
    case False
    then have "\<not> holds_byte x (off, n)" "\<exists>!i. i < length rs \<and> holds_byte x (rs ! i)"
      using 2 by (auto simp: holds_byte_def not_less)
    then show ?thesis
      by (auto simp: nth_Cons Ex1_def less_Suc_eq_0_disj split: nat.splits)
  qed
qed simp

section \<open>The layout\<close>

text \<open>Offsets and sizes for a length of \<open>q\<close> quadwords.\<close>

lemma preg_bytes: "SVE_VQ_BYTES div 8 = 2"
  by code_simp

lemma sve_block:
  "SVE_ZREG_SIZE (of_nat q) = of_nat (16 * q)"
  "SVE_PREG_SIZE (of_nat q) = of_nat (2 * q)"
  "SVE_FFR_SIZE (of_nat q) = of_nat (2 * q)"
  "SVE_ZREG_OFFSET (of_nat q) (of_nat n) = of_nat (16 * (q * n))"
  "SVE_PREG_OFFSET (of_nat q) (of_nat n) = of_nat (512 * q + 2 * (q * n))"
  "SVE_FFR_OFFSET (of_nat q) = of_nat (544 * q)"
  "SVE_SIG_REGS_SIZE (of_nat q) = of_nat (546 * q)"
  by (simp_all add: SVE_ZREG_SIZE_def SVE_PREG_SIZE_def SVE_FFR_SIZE_def SVE_ZREG_OFFSET_def
      SVE_PREG_OFFSET_def SVE_FFR_OFFSET_def SVE_SIG_REGS_SIZE_def SVE_PREGS_OFFSET_def
      SVE_ZREGS_SIZE_def SVE_PREGS_SIZE_def SVE_ZREGS_OFFSET_def SVE_NUM_ZREGS_def SVE_NUM_PREGS_def
      preg_bytes algebra_simps)
    (simp_all add: SVE_VQ_BYTES_def)

lemma quad_up:
  assumes "unat x + 15 < 2 ^ 64"
  shows "unat (quad_up x) = round_up 16 (unat x)"
proof -
  have "unat (x + 15) = unat x + 15"
    using assms by (simp add: unat_word_ariths(1))
  moreover have "(unat x + 15) div 16 * 16 < 2 ^ 64"
    using assms div_times_less_eq_dividend [of "unat x + 15" 16] by linarith
  ultimately show ?thesis
    by (simp add: quad_up_def round_up_def SVE_VQ_BYTES_def unat_word_ariths(2) unat_div)
qed

lemma sve_regs_offset: "SVE_SIG_REGS_OFFSET = 16" "SVE_PT_REGS_OFFSET = 16"
  by (simp_all add: SVE_SIG_REGS_OFFSET_def SVE_PT_REGS_OFFSET_def quad_up_def sizeof_sve_context_def
      sizeof_user_sve_header_def SVE_VQ_BYTES_def)

lemma unat_after_header:
  "m < 2 ^ 31 \<Longrightarrow> unat (16 + ucast (of_nat m :: u32) :: u64) = 16 + m"
  by (simp add: unat_word_ariths(1) unat_ucast_up unat_of_nat32)

text \<open>
  The registers in order: thirty-two of a full vector, sixteen of an eighth of that, and the first
  fault register, each as the offset and the size the macros give.
\<close>

definition sve_regions :: "(u32 \<Rightarrow> u32 \<Rightarrow> u64) \<Rightarrow> (u32 \<Rightarrow> u32 \<Rightarrow> u64) \<Rightarrow> (u32 \<Rightarrow> u64) \<Rightarrow> u32 \<Rightarrow> (nat \<times> nat) list"
  where
  "sve_regions zreg preg ffr vq =
     map (\<lambda>i. (unat (zreg vq (of_nat i)), unat (SVE_ZREG_SIZE vq))) [0..<unat SVE_NUM_ZREGS] @
     map (\<lambda>i. (unat (preg vq (of_nat i)), unat (SVE_PREG_SIZE vq))) [0..<unat SVE_NUM_PREGS] @
     [(unat (ffr vq), unat (SVE_FFR_SIZE vq))]"

lemma unat_numeral_u32: "unat (32 :: u32) = 32" "unat (16 :: u32) = 16"
  by simp_all

lemma sve_regions_tile:
  assumes "q \<le> 512"
    and "\<And>n. zreg (of_nat q) n = 16 + ucast (SVE_ZREG_OFFSET (of_nat q) n)"
    and "\<And>n. preg (of_nat q) n = 16 + ucast (SVE_PREG_OFFSET (of_nat q) n)"
    and "ffr (of_nat q) = 16 + ucast (SVE_FFR_OFFSET (of_nat q))"
  shows "tiles 16 (16 + 546 * q) (sve_regions zreg preg ffr (of_nat q))"
proof -
  have small: "q * i < 2 ^ 15 \<and> i * q < 2 ^ 15" if "i < 32" for i
    using mult_le_mono [of q 512 i 31] that assms(1) by (simp add: mult.commute)
  have "tiles 16 (16 + 512 * q)
      (map (\<lambda>i. (unat (zreg (of_nat q) (of_nat i)), unat (SVE_ZREG_SIZE (of_nat q)))) [0..<32])"
  proof (rule tiles_array)
    fix i :: nat assume "i < 32"
    then show "unat (zreg (of_nat q) (of_nat i)) = 16 + unat (SVE_ZREG_SIZE (of_nat q)) * i"
      using small [of i] assms(1) unfolding assms(2) sve_block
      by (subst unat_after_header) (simp_all add: unat_of_nat32 del: of_nat_mult)
  qed (use assms(1) in \<open>simp add: sve_block unat_of_nat32 del: of_nat_mult\<close>)
  moreover have "tiles (16 + 512 * q) (16 + 544 * q)
      (map (\<lambda>i. (unat (preg (of_nat q) (of_nat i)), unat (SVE_PREG_SIZE (of_nat q)))) [0..<16])"
  proof (rule tiles_array)
    fix i :: nat assume "i < 16"
    then show "unat (preg (of_nat q) (of_nat i)) = 16 + 512 * q + unat (SVE_PREG_SIZE (of_nat q)) * i"
      using small [of i] assms(1) unfolding assms(3) sve_block
      by (subst unat_after_header) (simp_all add: unat_of_nat32 del: of_nat_mult)
  qed (use assms(1) in \<open>simp add: sve_block unat_of_nat32 del: of_nat_mult\<close>)
  moreover have "tiles (16 + 544 * q) (16 + 546 * q) [(unat (ffr (of_nat q)), unat (SVE_FFR_SIZE (of_nat q)))]"
    using assms(1) unfolding assms(4) sve_block
    by (subst unat_after_header) (simp_all add: unat_of_nat32 del: of_nat_mult)
  ultimately show ?thesis
    unfolding sve_regions_def SVE_NUM_ZREGS_def SVE_NUM_PREGS_def unat_numeral_u32
    by (intro tiles_append)
qed

lemma sve_vl_cases:
  assumes "sve_vl_valid vl"
  obtains q where "1 \<le> q" and "q \<le> 512" and "sve_vq_from_vl vl = of_nat q" and "vl = of_nat (16 * q)"
proof
  let ?q = "unat vl div 16"
  have "unat (vl mod 16) = 0"
    using assms unfolding sve_vl_valid_def SVE_VQ_BYTES_def by simp
  then have "unat vl mod 16 = 0" by (simp add: unat_mod)
  then have m: "unat vl = 16 * ?q" by presburger
  then show "vl = of_nat (16 * ?q)" by (subst m [symmetric]) simp
  have "16 \<le> unat vl" "unat vl \<le> 8192"
    using assms by (simp_all add: sve_vl_valid_def SVE_VL_MIN_def SVE_VL_MAX_def SVE_VQ_MIN_def
        SVE_VQ_MAX_def SVE_VQ_BYTES_def word_le_nat_alt)
  then show q: "1 \<le> ?q" "?q \<le> 512" by linarith+
  have "unat (vl div 16) = ?q" by (simp add: unat_div)
  then show "sve_vq_from_vl vl = of_nat ?q"
    unfolding sve_vq_from_vl_def SVE_VQ_BYTES_def using q
    by (simp add: word_unat_eq_iff unat_of_nat32)
qed

lemma round_up_next: "16 dvd p \<Longrightarrow> round_up 16 (p + 8) = p + 16"
  using round_up_offset [of 16 p 8] by (simp add: round_up_def [of 16 8])

lemma sve_status_words:
  assumes "q \<le> 512"
  shows "unat (SVE_PT_SVE_FPSR_OFFSET (of_nat q)) = round_up 16 (16 + 546 * q)"
    and "unat (SVE_PT_SVE_FPCR_OFFSET (of_nat q)) = round_up 16 (16 + 546 * q) + 4"
    and "unat (SVE_PT_SVE_SIZE (of_nat q) flags) = round_up 16 (16 + 546 * q)"
proof -
  have "unat (SVE_PT_SVE_FFR_OFFSET (of_nat q)) = 16 + 544 * q"
    unfolding SVE_PT_SVE_FFR_OFFSET_def sve_regs_offset sve_block
    using assms by (subst unat_after_header) simp_all
  moreover have "unat (ucast (SVE_PT_SVE_FFR_SIZE (of_nat q)) :: u64) = 2 * q"
    unfolding SVE_PT_SVE_FFR_SIZE_def sve_block
    using assms by (simp add: unat_ucast_up unat_of_nat32 del: of_nat_mult)
  ultimately have "unat (SVE_PT_SVE_FFR_OFFSET (of_nat q) + ucast (SVE_PT_SVE_FFR_SIZE (of_nat q))) =
      16 + 546 * q"
    using assms by (simp add: unat_word_ariths(1))
  then show r: "unat (SVE_PT_SVE_FPSR_OFFSET (of_nat q)) = round_up 16 (16 + 546 * q)"
    unfolding SVE_PT_SVE_FPSR_OFFSET_def using assms by (simp add: quad_up)
  have b: "round_up 16 (16 + 546 * q) < 16 + 546 * q + 16" by (rule round_up) simp
  then show c: "unat (SVE_PT_SVE_FPCR_OFFSET (of_nat q)) = round_up 16 (16 + 546 * q) + 4"
    using assms by (simp add: SVE_PT_SVE_FPCR_OFFSET_def SVE_PT_SVE_FPSR_SIZE_def unat_word_ariths(1) r)
  obtain k where k: "round_up 16 (16 + 546 * q) = 16 + 16 * k"
    using round_up_offset [of 16 16 "546 * q"] round_up(1) [of 16 "546 * q"] by auto
  have "unat (SVE_PT_SVE_FPCR_OFFSET (of_nat q) + 4 :: u64) = 24 + 16 * k"
    using b(1) assms k by (simp add: unat_word_ariths(1) c)
  then have "unat (SVE_PT_SVE_FPCR_OFFSET (of_nat q) + 4 - 16 :: u64) = 16 * k + 8"
    by (subst unat_sub) (simp_all add: word_le_nat_alt)
  then show "unat (SVE_PT_SVE_SIZE (of_nat q) flags) = round_up 16 (16 + 546 * q)"
    using b assms round_up_next [of "16 * k"] unfolding k
    by (simp add: SVE_PT_SVE_SIZE_def SVE_PT_SVE_FPCR_SIZE_def SVE_PT_SVE_OFFSET_def sve_regs_offset
        quad_up)
qed

text \<open>C36: for every vector length the test accepts, the offsets and sizes of the registers, in a
  signal frame and in the ptrace set, lay them out end to end from the end of the leading structure
  to the size the macros give, the two status words follow at the next quadword, and the length is
  that of a vector register again.  Nothing overlaps, no register lies outside, and the 32-bit
  products never wrap.\<close>

theorem sve_registers_tile:
  assumes "sve_vl_valid vl" and "vq = sve_vq_from_vl vl"
  shows "tiles (unat SVE_SIG_REGS_OFFSET) (unat (SVE_SIG_CONTEXT_SIZE vq))
      (sve_regions SVE_SIG_ZREG_OFFSET SVE_SIG_PREG_OFFSET SVE_SIG_FFR_OFFSET vq) \<and>
    (\<exists>e. tiles (unat SVE_PT_SVE_OFFSET) e
      (sve_regions SVE_PT_SVE_ZREG_OFFSET SVE_PT_SVE_PREG_OFFSET SVE_PT_SVE_FFR_OFFSET vq) \<and>
      unat (SVE_PT_SVE_FPSR_OFFSET vq) = round_up 16 e \<and>
      tiles (round_up 16 e) (round_up 16 e + 8)
        [(unat (SVE_PT_SVE_FPSR_OFFSET vq), 4), (unat (SVE_PT_SVE_FPCR_OFFSET vq), 4)] \<and>
      unat (SVE_PT_SIZE vq SVE_PT_REGS_SVE) = round_up 16 (round_up 16 e + 8)) \<and>
    SVE_ZREG_SIZE vq = vl \<and> sve_vl_from_vq vq = vl"
proof -
  obtain q where q: "q \<le> 512" "vq = of_nat q" "vl = of_nat (16 * q)"
    using assms sve_vl_cases by blast
  have sig: "tiles 16 (16 + 546 * q) (sve_regions SVE_SIG_ZREG_OFFSET SVE_SIG_PREG_OFFSET SVE_SIG_FFR_OFFSET vq)"
    unfolding q(2) by (rule sve_regions_tile)
      (use q(1) in \<open>simp_all add: SVE_SIG_ZREG_OFFSET_def SVE_SIG_PREG_OFFSET_def SVE_SIG_FFR_OFFSET_def sve_regs_offset\<close>)
  have size: "unat (SVE_SIG_CONTEXT_SIZE vq) = 16 + 546 * q"
    unfolding SVE_SIG_CONTEXT_SIZE_def sve_regs_offset q(2) sve_block
    using q(1) by (subst unat_after_header) simp_all
  have pt: "tiles 16 (16 + 546 * q)
      (sve_regions SVE_PT_SVE_ZREG_OFFSET SVE_PT_SVE_PREG_OFFSET SVE_PT_SVE_FFR_OFFSET vq)"
    unfolding q(2) by (rule sve_regions_tile)
      (use q(1) in \<open>simp_all add: SVE_PT_SVE_ZREG_OFFSET_def SVE_PT_SVE_PREG_OFFSET_def
        SVE_PT_SVE_FFR_OFFSET_def sve_regs_offset\<close>)
  have total: "unat (SVE_PT_SIZE vq SVE_PT_REGS_SVE) = round_up 16 (round_up 16 (16 + 546 * q) + 8)"
    using q(1) sve_status_words(3) [OF q(1)] round_up(3) [of 16 "16 + 546 * q"]
      round_up_next [OF round_up(1)]
    by (simp add: SVE_PT_SIZE_def SVE_PT_REGS_SVE_def SVE_PT_REGS_MASK_def SVE_PT_SVE_OFFSET_def
        sve_regs_offset q(2) unat_word_ariths(1))
  show ?thesis
    using sig size pt total sve_status_words(1,2) [OF q(1)]
    by (auto simp: sve_regs_offset SVE_PT_SVE_OFFSET_def q(2,3) sve_block SVE_ZREG_SIZE_def
        sve_vl_from_vq_def SVE_VQ_BYTES_def intro!: exI [of _ "16 + 546 * q"])
qed

lemma sve_registers_tile_witness:
  "\<exists>e. tiles 16 e (sve_regions SVE_SIG_ZREG_OFFSET SVE_SIG_PREG_OFFSET SVE_SIG_FFR_OFFSET 4) \<and>
    unat (SVE_SIG_CONTEXT_SIZE 4) = e"
proof -
  have "sve_vl_valid 64" "4 = sve_vq_from_vl 64" by code_simp+
  from sve_registers_tile [OF this] show ?thesis by (auto simp: sve_regs_offset)
qed

end
