(* ===== verification/Argz.thy ===== *)
theory Argz
  imports Byte_Memory Item_Walk
begin

text \<open>
  The inline functions of \<^verbatim>\<open>argz.h\<close>: stepping through a vector of strings that are stored one after
  the other, each with its terminating zero.  A pointer that may be null is an option; the outer
  option of a result is the case in which the search for a terminator does not return.
\<close>

section \<open>The step\<close>

text \<open>\<^verbatim>\<open>strchr (p, '\0')\<close> of the C library: the terminator of the string at \<^verbatim>\<open>p\<close>.\<close>

partial_function (option) strchr_nul :: "memory \<Rightarrow> nat \<Rightarrow> nat option" where
  "strchr_nul m p = (if m p = 0 then Some p else strchr_nul m (Suc p))"

text \<open>\<^verbatim>\<open>__argz_next\<close> and its public name.\<close>

definition u_argz_next :: "memory \<Rightarrow> nat \<Rightarrow> nat \<Rightarrow> nat option \<Rightarrow> nat option option" where
  "u_argz_next m argz argz_len entry =
     (case entry of
        Some e \<Rightarrow>
          map_option (\<lambda>e. if argz + argz_len \<le> e then None else Some e)
            (if e < argz + argz_len then map_option Suc (strchr_nul m e) else Some e)
      | None \<Rightarrow> Some (if 0 < argz_len then Some argz else None))"

definition argz_next :: "memory \<Rightarrow> nat \<Rightarrow> nat \<Rightarrow> nat option \<Rightarrow> nat option option" where
  "argz_next m argz argz_len entry = u_argz_next m argz argz_len entry"

text \<open>
  The two loops the header gives for going through a vector, \<^verbatim>\<open>while ((entry = argz_next (...)))\<close> from
  a null entry and \<^verbatim>\<open>for (entry = argz; entry; entry = argz_next (...))\<close>, each as the entries its body
  sees.
\<close>

partial_function (option) argz_while :: "memory \<Rightarrow> nat \<Rightarrow> nat \<Rightarrow> nat option \<Rightarrow> nat list option" where
  "argz_while m argz argz_len entry =
     (case argz_next m argz argz_len entry of
        None \<Rightarrow> None
      | Some None \<Rightarrow> Some []
      | Some (Some e) \<Rightarrow> Option.bind (argz_while m argz argz_len (Some e)) (\<lambda>es. Some (e # es)))"

partial_function (option) argz_for :: "memory \<Rightarrow> nat \<Rightarrow> nat \<Rightarrow> nat option \<Rightarrow> nat list option" where
  "argz_for m argz argz_len entry =
     (if entry = None then Some []
      else Option.bind (argz_next m argz argz_len entry)
        (\<lambda>n. Option.bind (argz_for m argz argz_len n) (\<lambda>es. Some (the entry # es))))"

section \<open>Vectors of strings\<close>

definition terminated :: "u8 list \<Rightarrow> u8 list" where
  "terminated s = s @ [0]"

lemma terminated_Cons: "terminated (c # s) = c # terminated s"
  by (simp add: terminated_def)

definition string_at :: "memory \<Rightarrow> nat \<Rightarrow> u8 list \<Rightarrow> bool" where
  "string_at m p s \<longleftrightarrow> 0 \<notin> set s \<and> stored m p (terminated s)"

definition string_room :: "u8 list \<Rightarrow> nat" where
  "string_room s = Suc (length s)"

lemma strchr_nul_string: "string_at m p s \<Longrightarrow> strchr_nul m p = Some (p + length s)"
proof (induction s arbitrary: p)
  case Nil
  then show ?case by (subst strchr_nul.simps) (simp add: string_at_def terminated_def)
next
  case (Cons c s)
  then have "m p \<noteq> 0" "string_at m (Suc p) s" by (auto simp: string_at_def terminated_def)
  then show ?case using Cons.IH by (subst strchr_nul.simps) simp
qed

text \<open>Any bytes that end with a zero are strings in a row.\<close>

lemma split_at_zeros:
  "bs = [] \<or> last bs = 0 \<Longrightarrow> \<exists>ss. (\<forall>s \<in> set ss. 0 \<notin> set s) \<and> bs = concat (map terminated ss)"
proof (induction bs)
  case Nil
  then show ?case by (intro exI [of _ "[]"]) simp
next
  case (Cons b bs)
  then have "bs = [] \<or> last bs = 0" by (cases bs) auto
  then obtain ss where ss: "\<forall>s \<in> set ss. 0 \<notin> set s" "bs = concat (map terminated ss)"
    using Cons.IH by blast
  show ?case
  proof (cases "b = 0")
    case True
    then show ?thesis using ss by (intro exI [of _ "[] # ss"]) (simp add: terminated_def [of "[]"])
  next
    case False
    then have "bs \<noteq> []" using Cons.prems by auto
    then obtain s rest where "ss = s # rest" using ss(2) by (cases ss) auto
    then show ?thesis
      using ss False by (intro exI [of _ "(b # s) # rest"]) (auto simp: terminated_Cons)
  qed
qed

lemma strings_at:
  "stored m p (concat (map terminated ss)) \<Longrightarrow> \<forall>s \<in> set ss. 0 \<notin> set s \<Longrightarrow>
    items_at (string_at m) string_room p ss"
  by (induction ss arbitrary: p) (simp_all add: string_at_def terminated_def string_room_def)

lemma strings_room: "length (concat (map terminated ss)) = (\<Sum>s \<leftarrow> ss. string_room s)"
  by (induction ss) (simp_all add: terminated_def string_room_def)

lemma argz_next_string:
  assumes "string_at m e s" and "e + string_room s \<le> argz + argz_len"
  shows "argz_next m argz argz_len (Some e) =
    Some (if e + string_room s = argz + argz_len then None else Some (e + string_room s))"
  using assms strchr_nul_string [OF assms(1)]
  by (simp add: argz_next_def u_argz_next_def string_room_def)

lemma argz_for_strings:
  "items_at (string_at m) string_room e ss \<Longrightarrow> argz + argz_len = e + (\<Sum>s \<leftarrow> ss. string_room s) \<Longrightarrow>
    argz_for m argz argz_len (if ss = [] then None else Some e) = Some (starts string_room e ss)"
proof (induction ss arbitrary: e)
  case Nil
  then show ?case by (subst argz_for.simps) simp
next
  case (Cons s ss)
  have "argz_next m argz argz_len (Some e) =
      Some (if ss = [] then None else Some (e + string_room s))"
    using Cons.prems argz_next_string [of m e s argz argz_len]
    by (cases ss) (auto simp: string_room_def)
  then show ?case
    using Cons by (subst argz_for.simps) simp
qed

text \<open>The other loop sees what comes after the entry it starts from.\<close>

lemma argz_while_for:
  assumes "argz_next m argz argz_len entry = Some n" and "argz_for m argz argz_len n = Some es"
  shows "argz_while m argz argz_len entry = Some es"
  using assms
proof (induction es arbitrary: entry n)
  case Nil
  then have "n = None"
    by (subst (asm) argz_for.simps) (auto simp: bind_eq_Some_conv split: if_splits)
  with Nil show ?case by (subst argz_while.simps) simp
next
  case (Cons e es)
  from Cons.prems(2) obtain n' where n: "n = Some e" "argz_next m argz argz_len n = Some n'"
      "argz_for m argz argz_len n' = Some es"
    by (subst (asm) argz_for.simps) (auto simp: bind_eq_Some_conv split: if_splits)
  then show ?case
    using Cons.IH [of n n'] Cons.prems(1) by (subst argz_while.simps) simp
qed

text \<open>C35: a vector whose bytes end with a zero is a row of strings, and both loops of the header
  return, visit the start of every string once and in order, and nothing else.  An empty vector,
  whose pointer is null, gives none.\<close>

theorem argz_visits_strings:
  assumes "argz_len = 0 \<or> m (argz + argz_len - 1) = 0"
  shows "\<exists>ss. (\<forall>s \<in> set ss. 0 \<notin> set s) \<and>
    read_bytes m argz argz_len = concat (map terminated ss) \<and>
    argz_while m argz argz_len None = Some (starts string_room argz ss) \<and>
    argz_for m argz argz_len (if argz_len = 0 then None else Some argz) = Some (starts string_room argz ss)"
proof -
  let ?bs = "read_bytes m argz argz_len"
  have "?bs = [] \<or> last ?bs = 0"
    using assms by (cases argz_len) (simp_all add: read_bytes_def)
  then obtain ss where ss: "\<forall>s \<in> set ss. 0 \<notin> set s" "?bs = concat (map terminated ss)"
    using split_at_zeros by blast
  then have room: "argz_len = (\<Sum>s \<leftarrow> ss. string_room s)"
    using strings_room [of ss] by (metis length_read_bytes)
  then have e: "argz_len = 0 \<longleftrightarrow> ss = []" by (cases ss) (auto simp: string_room_def)
  have "items_at (string_at m) string_room argz ss"
    using ss by (intro strings_at) (simp_all add: stored_read flip: ss(2))
  from argz_for_strings [OF this, of argz argz_len] room e
  have f: "argz_for m argz argz_len (if argz_len = 0 then None else Some argz) =
      Some (starts string_room argz ss)" by simp
  moreover have "argz_next m argz argz_len None = Some (if argz_len = 0 then None else Some argz)"
    by (simp add: argz_next_def u_argz_next_def)
  ultimately show ?thesis
    using ss argz_while_for by blast
qed

lemma argz_visits_strings_witness:
  "\<exists>ss. read_bytes ((\<lambda>_. 0)(1 := 0x61, 3 := 0x62)) 1 4 = concat (map terminated ss) \<and>
    argz_while ((\<lambda>_. 0)(1 := 0x61, 3 := 0x62)) 1 4 None = Some (starts string_room 1 ss)"
proof -
  have "(4 :: nat) = 0 \<or> ((\<lambda>_. 0)(1 := 0x61, 3 := 0x62) :: memory) (1 + 4 - 1) = 0" by simp
  from argz_visits_strings [of 4 "(\<lambda>_. 0)(1 := 0x61, 3 := 0x62)" 1, OF this] show ?thesis by blast
qed

end
