(* ===== verification/Name_Message.thy ===== *)
theory Name_Message
  imports Byte_Memory
begin

text \<open>
  Reading and writing fields of name server messages, \<^verbatim>\<open>arpa/nameser.h\<close>: the macros \<^verbatim>\<open>NS_GET16\<close>,
  \<^verbatim>\<open>NS_GET32\<close>, \<^verbatim>\<open>NS_PUT16\<close> and \<^verbatim>\<open>NS_PUT32\<close>, which advance a cursor, and the accessors of parsed
  messages and records.  The state of a macro is the memory with the cursor.
\<close>

section \<open>Fields in network order\<close>

definition NS_INT32SZ :: nat where "NS_INT32SZ = 4"

definition NS_INT16SZ :: nat where "NS_INT16SZ = 2"

definition NS_RRFIXEDSZ :: nat where "NS_RRFIXEDSZ = 10"

definition NS_GET16 :: "memory \<Rightarrow> nat \<Rightarrow> u16 \<times> nat" where
  "NS_GET16 m cp = (push_bit 8 (ucast (m cp)) OR ucast (m (cp + 1)), cp + NS_INT16SZ)"

definition NS_GET32 :: "memory \<Rightarrow> nat \<Rightarrow> u32 \<times> nat" where
  "NS_GET32 m cp =
     (push_bit 24 (ucast (m cp)) OR push_bit 16 (ucast (m (cp + 1))) OR
        push_bit 8 (ucast (m (cp + 2))) OR ucast (m (cp + 3)),
      cp + NS_INT32SZ)"

text \<open>The value is converted to the width of the field first; a \<^verbatim>\<open>*t_cp\<close> keeps the low byte.\<close>

definition NS_PUT16 :: "u64 \<Rightarrow> memory \<times> nat \<Rightarrow> memory \<times> nat" where
  "NS_PUT16 s = (\<lambda>(m, cp).
     let t_s = ucast s :: u16
     in (m(cp := ucast (drop_bit 8 t_s), cp + 1 := ucast t_s), cp + NS_INT16SZ))"

definition NS_PUT32 :: "u64 \<Rightarrow> memory \<times> nat \<Rightarrow> memory \<times> nat" where
  "NS_PUT32 l = (\<lambda>(m, cp).
     let t_l = ucast l :: u32
     in (m(cp := ucast (drop_bit 24 t_l), cp + 1 := ucast (drop_bit 16 t_l),
           cp + 2 := ucast (drop_bit 8 t_l), cp + 3 := ucast t_l), cp + NS_INT32SZ))"

section \<open>Parsed messages and records\<close>

record ns_msg =
  ns_msg_msg :: nat
  ns_msg_eom :: nat
  ns_msg_ident :: u16
  ns_msg_flags :: u16
  ns_msg_counts :: "u16 list"

definition ns_msg_id :: "ns_msg \<Rightarrow> u16" where "ns_msg_id handle = ns_msg_ident handle"

definition ns_msg_base :: "ns_msg \<Rightarrow> nat" where "ns_msg_base handle = ns_msg_msg handle"

definition ns_msg_end :: "ns_msg \<Rightarrow> nat" where "ns_msg_end handle = ns_msg_eom handle"

definition ns_msg_size :: "ns_msg \<Rightarrow> int" where
  "ns_msg_size handle = int (ns_msg_eom handle) - int (ns_msg_msg handle)"

definition ns_msg_count :: "ns_msg \<Rightarrow> nat \<Rightarrow> u16 option" where
  "ns_msg_count handle sect =
     (if sect < length (ns_msg_counts handle) then Some (ns_msg_counts handle ! sect) else None)"

record ns_rr =
  ns_name :: "u8 list"
  ns_type :: u16
  ns_class :: u16
  ns_ttl :: u32
  ns_rdlength :: u16
  ns_rdata :: nat

text \<open>The name is the array up to its terminator; the name of the root is empty and shown as a dot.\<close>

definition ns_rr_name :: "ns_rr \<Rightarrow> u8 list" where
  "ns_rr_name rr = (if ns_name rr ! 0 \<noteq> 0 then takeWhile (\<lambda>c. c \<noteq> 0) (ns_name rr) else [0x2e])"

definition ns_rr_type :: "ns_rr \<Rightarrow> u16" where "ns_rr_type rr = ns_type rr"

definition ns_rr_class :: "ns_rr \<Rightarrow> u16" where "ns_rr_class rr = ns_class rr"

definition ns_rr_ttl :: "ns_rr \<Rightarrow> u32" where "ns_rr_ttl rr = ns_ttl rr"

definition ns_rr_rdlen :: "ns_rr \<Rightarrow> u16" where "ns_rr_rdlen rr = ns_rdlength rr"

definition ns_rr_rdata :: "ns_rr \<Rightarrow> nat" where "ns_rr_rdata rr = ns_rdata rr"

lemma ns_rr_name_shown: "ns_name rr \<noteq> [] \<Longrightarrow> ns_rr_name rr \<noteq> [] \<and> 0 \<notin> set (ns_rr_name rr)"
  by (cases "ns_name rr") (auto simp: ns_rr_name_def dest: set_takeWhileD)

section \<open>What is written is read back\<close>

text \<open>A message part is a sequence of fields; each is written at the cursor the last one left.\<close>

datatype ns_field = F16 u16 | F32 u32

fun field_bytes :: "ns_field \<Rightarrow> u8 list" where
  "field_bytes (F16 v) = [hi8 v, lo8 v]"
| "field_bytes (F32 v) = rev (word_bytes 4 v)"

fun put_field :: "ns_field \<Rightarrow> memory \<times> nat \<Rightarrow> memory \<times> nat" where
  "put_field (F16 v) = NS_PUT16 (ucast v)"
| "put_field (F32 v) = NS_PUT32 (ucast v)"

fun get_field :: "memory \<Rightarrow> ns_field \<Rightarrow> nat \<Rightarrow> ns_field \<times> nat" where
  "get_field m (F16 _) cp = (let (v, cp') = NS_GET16 m cp in (F16 v, cp'))"
| "get_field m (F32 _) cp = (let (v, cp') = NS_GET32 m cp in (F32 v, cp'))"

text \<open>The readers for the widths of the given fields, from a cursor on.\<close>

fun get_fields :: "memory \<Rightarrow> ns_field list \<Rightarrow> nat \<Rightarrow> ns_field list \<times> nat" where
  "get_fields m [] cp = ([], cp)"
| "get_fields m (f # fs) cp =
     (let (g, cp') = get_field m f cp; (gs, e) = get_fields m fs cp' in (g # gs, e))"

lemma narrow:
  "(ucast (ucast v :: u64) :: u16) = v" "(ucast (ucast w :: u64) :: u32) = w"
  "(ucast (v AND 0xff) :: u8) = ucast v" for v :: u16 and w :: u32
  unfolding mask_numerals by (rule bit_word_eqI; auto simp: bit_simps)+

lemma after_bytes: "cp + 3 = Suc (Suc (Suc cp))" "cp + 4 = Suc (Suc (Suc (Suc cp)))"
  by simp_all

lemma put_field_writes:
  "put_field f (m, cp) = (write_bytes cp (field_bytes f) m, cp + length (field_bytes f))"
proof (cases f)
  case (F16 v)
  then show ?thesis
    by (simp add: NS_PUT16_def NS_INT16SZ_def hi8_def lo8_def write_bytes_Cons narrow fun_upd_twist)
next
  case (F32 v)
  then show ?thesis
    by (simp add: NS_PUT32_def NS_INT32SZ_def word_bytes_4 write_bytes_Cons narrow Let_def
        after_bytes fun_upd_twist)
qed

lemma get_field_stored:
  "stored m cp (field_bytes f) \<Longrightarrow> get_field m f cp = (f, cp + length (field_bytes f))"
proof (cases f)
  case (F16 v)
  moreover assume "stored m cp (field_bytes f)"
  ultimately show ?thesis
    using be16_hi8_lo8 [of v] by (simp add: NS_GET16_def NS_INT16SZ_def be16_def)
next
  case (F32 v)
  moreover assume "stored m cp (field_bytes f)"
  ultimately show ?thesis
    using join_4_bytes [of v]
    by (simp add: NS_GET32_def NS_INT32SZ_def word_bytes_4 after_bytes)
qed

text \<open>The readers need the width only, so any fields of the same shape will do.\<close>

definition same_shape :: "ns_field \<Rightarrow> ns_field \<Rightarrow> bool" where
  "same_shape f g \<longleftrightarrow> (\<exists>u v. f = F16 u \<and> g = F16 v) \<or> (\<exists>u v. f = F32 u \<and> g = F32 v)"

lemma get_same_shape: "same_shape f g \<Longrightarrow> get_field m f cp = get_field m g cp"
  by (auto simp: same_shape_def)

lemma get_fields_stored:
  "list_all2 same_shape gs fs \<Longrightarrow> stored m cp (concat (map field_bytes fs)) \<Longrightarrow>
    get_fields m gs cp = (fs, cp + length (concat (map field_bytes fs)))"
proof (induction gs fs arbitrary: cp rule: list_all2_induct)
  case (Cons g gs f fs)
  then show ?case
    using get_same_shape [of g f m cp] get_field_stored [of m cp f] by (simp add: add.assoc)
qed simp

lemma put_fields_write:
  "fold put_field fs (m, cp) =
    (write_bytes cp (concat (map field_bytes fs)) m, cp + length (concat (map field_bytes fs)))"
proof (induction fs arbitrary: m cp)
  case (Cons f fs)
  then show ?case by (simp add: put_field_writes write_bytes_append add.assoc)
qed simp

text \<open>Fields written one after the other, of any number and widths, lie in memory in network
  order, and readers of the same widths return them and end where the writers did; no byte outside
  is written.\<close>

theorem name_fields_roundtrip:
  assumes "fold put_field fs (m, cp) = (m', e)" and "list_all2 same_shape gs fs"
  shows "get_fields m' gs cp = (fs, e) \<and>
    read_bytes m' cp (e - cp) = concat (map field_bytes fs) \<and>
    (\<forall>a. a < cp \<or> e \<le> a \<longrightarrow> m' a = m a)"
proof (intro conjI allI impI)
  let ?bs = "concat (map field_bytes fs)"
  have w: "m' = write_bytes cp ?bs m" "e = cp + length ?bs"
    using assms(1) unfolding put_fields_write by simp_all
  have st: "stored m' cp ?bs" unfolding w(1) by (rule stored_write)
  show "get_fields m' gs cp = (fs, e)"
    unfolding w(2) by (rule get_fields_stored [OF assms(2) st])
  show "read_bytes m' cp (e - cp) = ?bs"
    using st unfolding w(2) stored_read by simp
  fix a assume "a < cp \<or> e \<le> a"
  then show "m' a = m a" unfolding w write_bytes_def by auto
qed

lemma name_fields_roundtrip_witness:
  "\<exists>m' e. fold put_field [F16 0x1234, F32 7] ((\<lambda>_. 0), 3) = (m', e) \<and>
    get_fields m' [F16 0, F32 0] 3 = ([F16 0x1234, F32 7], e)"
proof -
  obtain m' e where w: "fold put_field [F16 0x1234, F32 7] ((\<lambda>_. 0), 3) = (m', e)" by fastforce
  have "list_all2 same_shape [F16 0, F32 0] [F16 0x1234, F32 7]" by (simp add: same_shape_def)
  from name_fields_roundtrip [OF w this] w show ?thesis by blast
qed

end
