(* ===== verification/Four_Cc.thy ===== *)
theory Four_Cc
  imports Packed_Code
begin

text \<open>
  Format codes of four characters, as \<^verbatim>\<open>linux/videodev2.h\<close> and \<^verbatim>\<open>drm/drm_fourcc.h\<close> build them: the
  macros \<^verbatim>\<open>v4l2_fourcc\<close>, \<^verbatim>\<open>v4l2_fourcc_be\<close> and \<^verbatim>\<open>fourcc_code\<close>, and how a code is read back.
\<close>

abbreviation ch :: "char \<Rightarrow> u32" where "ch \<equiv> of_char"

definition v4l2_fourcc :: "u32 \<Rightarrow> u32 \<Rightarrow> u32 \<Rightarrow> u32 \<Rightarrow> u32" where
  "v4l2_fourcc a b c d = a OR push_bit 8 b OR push_bit 16 c OR push_bit 24 d"

definition v4l2_fourcc_be :: "u32 \<Rightarrow> u32 \<Rightarrow> u32 \<Rightarrow> u32 \<Rightarrow> u32" where
  "v4l2_fourcc_be a b c d = v4l2_fourcc a b c d OR push_bit 31 1"

definition fourcc_code :: "u32 \<Rightarrow> u32 \<Rightarrow> u32 \<Rightarrow> u32 \<Rightarrow> u32" where
  "fourcc_code a b c d = a OR push_bit 8 b OR push_bit 16 c OR push_bit 24 d"

definition DRM_FORMAT_BIG_ENDIAN :: u32 where "DRM_FORMAT_BIG_ENDIAN = push_bit 31 1"

definition DRM_FORMAT_INVALID :: u32 where "DRM_FORMAT_INVALID = 0"

section \<open>Characters\<close>

definition digits :: "char \<Rightarrow> bool list" where
  "digits c = [digit0 c, digit1 c, digit2 c, digit3 c, digit4 c, digit5 c, digit6 c, digit7 c]"

lemma ch_bits: "bit (ch c) n \<longleftrightarrow> n < 8 \<and> digits c ! n"
  unfolding of_char_def digits_def bit_horner_sum_bit_word_iff
  by (auto simp del: horner_sum_simps)

lemma ch_high: "8 \<le> k \<Longrightarrow> \<not> bit (ch c) k"
  by (simp add: ch_bits)

text \<open>
  The text of a code: whether the byte order flag is set, and the four characters, each of the
  seven bits from a multiple of eight on.
\<close>

definition char_at :: "u32 \<Rightarrow> nat \<Rightarrow> char" where
  "char_at w k = Char (bit w k) (bit w (k + 1)) (bit w (k + 2)) (bit w (k + 3))
     (bit w (k + 4)) (bit w (k + 5)) (bit w (k + 6)) False"

definition code_text :: "u32 \<Rightarrow> bool \<times> string" where
  "code_text w = (bit w 31, [char_at w 0, char_at w 8, char_at w 16, char_at w 24])"

definition text_code :: "bool \<times> string \<Rightarrow> u32" where
  "text_code t = (if fst t then v4l2_fourcc_be else v4l2_fourcc)
     (ch (snd t ! 0)) (ch (snd t ! 1)) (ch (snd t ! 2)) (ch (snd t ! 3))"

lemma text_code_simps:
  "text_code (False, [a, b, c, d]) = v4l2_fourcc (ch a) (ch b) (ch c) (ch d)"
  "text_code (True, [a, b, c, d]) = v4l2_fourcc_be (ch a) (ch b) (ch c) (ch d)"
  by (simp_all add: text_code_def)

definition four_ascii :: "bool \<times> string \<Rightarrow> bool" where
  "four_ascii t \<longleftrightarrow> length (snd t) = 4 \<and> list_all (\<lambda>c. \<not> digit7 c) (snd t)"

lemma fourcc_bits:
  assumes "i < 4" and "k < 8"
  shows "bit (v4l2_fourcc (ch a) (ch b) (ch c) (ch d)) (8 * i + k) \<longleftrightarrow> digits ([a, b, c, d] ! i) ! k"
proof -
  consider "i = 0" | "i = 1" | "i = 2" | "i = 3" using assms(1) by linarith
  then show ?thesis
    using assms(2) by cases (simp_all add: v4l2_fourcc_def bit_simps ch_bits)
qed

lemma fourcc_be_bits:
  assumes "i < 4" and "k < 7"
  shows "bit (v4l2_fourcc_be (ch a) (ch b) (ch c) (ch d)) (8 * i + k) \<longleftrightarrow> digits ([a, b, c, d] ! i) ! k"
proof -
  have "\<not> 31 \<le> 8 * i + k" using assms by presburger
  then show ?thesis
    using fourcc_bits [OF assms(1), of k a b c d] assms(2)
    by (simp add: v4l2_fourcc_be_def bit_or_iff bit_push_bit_iff del: push_bit_of_1)
qed

lemma char_digits: "\<not> digit7 c \<Longrightarrow>
    Char (digits c ! 0) (digits c ! 1) (digits c ! 2) (digits c ! 3) (digits c ! 4) (digits c ! 5)
      (digits c ! 6) False = c"
  by (cases c) (simp add: digits_def)

lemma char_at_code:
  assumes "i < 4" and "\<not> digit7 ([a, b, c, d] ! i)"
  shows "char_at (v4l2_fourcc (ch a) (ch b) (ch c) (ch d)) (8 * i) = [a, b, c, d] ! i"
    and "char_at (v4l2_fourcc_be (ch a) (ch b) (ch c) (ch d)) (8 * i) = [a, b, c, d] ! i"
  using fourcc_bits [OF assms(1), of 0 a b c d] fourcc_bits [OF assms(1), of 1 a b c d]
    fourcc_bits [OF assms(1), of _ a b c d] fourcc_be_bits [OF assms(1), of 0 a b c d]
    fourcc_be_bits [OF assms(1), of 1 a b c d] fourcc_be_bits [OF assms(1), of _ a b c d]
    char_digits [OF assms(2)]
    fourcc_bits [OF assms(1), of 2 a b c d] fourcc_be_bits [OF assms(1), of 2 a b c d]
  by (simp_all add: char_at_def)

interpretation code: packed_code text_code code_text four_ascii
proof
  fix t assume t: "four_ascii t"
  then obtain a b c d where s: "snd t = [a, b, c, d]"
    by (auto simp: four_ascii_def length_Suc_conv eval_nat_numeral)
  have "\<not> bit (v4l2_fourcc (ch a) (ch b) (ch c) (ch d)) 31"
    using fourcc_bits [of 3 7 a b c d] t s by (simp add: four_ascii_def digits_def)
  then show "code_text (text_code t) = t"
    using t s char_at_code [of 0 a b c d] char_at_code [of 1 a b c d] char_at_code [of 2 a b c d]
      char_at_code [of 3 a b c d]
    by (cases t) (auto simp: code_text_def text_code_def four_ascii_def v4l2_fourcc_be_def bit_simps)
qed

text \<open>A table of codes whose texts are different has different codes.\<close>

lemma distinct_codes:
  "list_all four_ascii ts \<Longrightarrow> distinct ts \<Longrightarrow> distinct (map text_code ts)"
  by (auto simp: distinct_map list_all_iff intro: inj_on_subset [OF code.inj_pack])

text \<open>Sorting into drawers first makes the comparison of a long table short.\<close>

lemma distinct_drawers:
  assumes "list_all (\<lambda>x. f x \<in> set ks) xs" and "list_all (\<lambda>k. distinct (filter (\<lambda>x. f x = k) xs)) ks"
  shows "distinct xs"
proof -
  have "distinct xs" if "\<And>k. distinct (filter (\<lambda>x. f x = k) xs)"
    using that
  proof (induction xs)
    case (Cons x xs)
    have "distinct (filter (\<lambda>y. f y = k) xs)" for k
      using Cons.prems [of k] by (cases "f x = k") simp_all
    moreover have "x \<notin> set xs" using Cons.prems [of "f x"] by simp
    ultimately show ?case using Cons.IH by simp
  qed simp
  moreover have "distinct (filter (\<lambda>x. f x = k) xs)" for k
  proof (cases "k \<in> set ks")
    case False
    then have "filter (\<lambda>x. f x = k) xs = []"
      using assms(1) by (auto simp: list_all_iff filter_empty_conv)
    then show ?thesis by simp
  qed (use assms(2) in \<open>simp add: list_all_iff\<close>)
  ultimately show ?thesis by blast
qed

lemma map_code_text: "list_all four_ascii ts \<Longrightarrow> map code_text (map text_code ts) = ts"
  by (induction ts) (simp_all add: code.unpack_pack)

lemma fourcc_code_v4l2: "fourcc_code a b c d = v4l2_fourcc a b c d"
  by (simp add: fourcc_code_def v4l2_fourcc_def)

end
