(* ===== verification/V4l2_Formats.thy ===== *)
theory V4l2_Formats
  imports Four_Cc
begin

text \<open>
  The pixel, software radio, touch and metadata format codes of \<^verbatim>\<open>linux/videodev2.h\<close>, in its order.
\<close>

definition V4L2_PIX_FMT_RGB332 :: u32 where
  "V4L2_PIX_FMT_RGB332 = v4l2_fourcc (ch CHR ''R'') (ch CHR ''G'') (ch CHR ''B'') (ch CHR ''1'')"

definition V4L2_PIX_FMT_RGB444 :: u32 where
  "V4L2_PIX_FMT_RGB444 = v4l2_fourcc (ch CHR ''R'') (ch CHR ''4'') (ch CHR ''4'') (ch CHR ''4'')"

definition V4L2_PIX_FMT_ARGB444 :: u32 where
  "V4L2_PIX_FMT_ARGB444 = v4l2_fourcc (ch CHR ''A'') (ch CHR ''R'') (ch CHR ''1'') (ch CHR ''2'')"

definition V4L2_PIX_FMT_XRGB444 :: u32 where
  "V4L2_PIX_FMT_XRGB444 = v4l2_fourcc (ch CHR ''X'') (ch CHR ''R'') (ch CHR ''1'') (ch CHR ''2'')"

definition V4L2_PIX_FMT_RGBA444 :: u32 where
  "V4L2_PIX_FMT_RGBA444 = v4l2_fourcc (ch CHR ''R'') (ch CHR ''A'') (ch CHR ''1'') (ch CHR ''2'')"

definition V4L2_PIX_FMT_RGBX444 :: u32 where
  "V4L2_PIX_FMT_RGBX444 = v4l2_fourcc (ch CHR ''R'') (ch CHR ''X'') (ch CHR ''1'') (ch CHR ''2'')"

definition V4L2_PIX_FMT_ABGR444 :: u32 where
  "V4L2_PIX_FMT_ABGR444 = v4l2_fourcc (ch CHR ''A'') (ch CHR ''B'') (ch CHR ''1'') (ch CHR ''2'')"

definition V4L2_PIX_FMT_XBGR444 :: u32 where
  "V4L2_PIX_FMT_XBGR444 = v4l2_fourcc (ch CHR ''X'') (ch CHR ''B'') (ch CHR ''1'') (ch CHR ''2'')"

definition V4L2_PIX_FMT_BGRA444 :: u32 where
  "V4L2_PIX_FMT_BGRA444 = v4l2_fourcc (ch CHR ''G'') (ch CHR ''A'') (ch CHR ''1'') (ch CHR ''2'')"

definition V4L2_PIX_FMT_BGRX444 :: u32 where
  "V4L2_PIX_FMT_BGRX444 = v4l2_fourcc (ch CHR ''B'') (ch CHR ''X'') (ch CHR ''1'') (ch CHR ''2'')"

definition V4L2_PIX_FMT_RGB555 :: u32 where
  "V4L2_PIX_FMT_RGB555 = v4l2_fourcc (ch CHR ''R'') (ch CHR ''G'') (ch CHR ''B'') (ch CHR ''O'')"

definition V4L2_PIX_FMT_ARGB555 :: u32 where
  "V4L2_PIX_FMT_ARGB555 = v4l2_fourcc (ch CHR ''A'') (ch CHR ''R'') (ch CHR ''1'') (ch CHR ''5'')"

definition V4L2_PIX_FMT_XRGB555 :: u32 where
  "V4L2_PIX_FMT_XRGB555 = v4l2_fourcc (ch CHR ''X'') (ch CHR ''R'') (ch CHR ''1'') (ch CHR ''5'')"

definition V4L2_PIX_FMT_RGBA555 :: u32 where
  "V4L2_PIX_FMT_RGBA555 = v4l2_fourcc (ch CHR ''R'') (ch CHR ''A'') (ch CHR ''1'') (ch CHR ''5'')"

definition V4L2_PIX_FMT_RGBX555 :: u32 where
  "V4L2_PIX_FMT_RGBX555 = v4l2_fourcc (ch CHR ''R'') (ch CHR ''X'') (ch CHR ''1'') (ch CHR ''5'')"

definition V4L2_PIX_FMT_ABGR555 :: u32 where
  "V4L2_PIX_FMT_ABGR555 = v4l2_fourcc (ch CHR ''A'') (ch CHR ''B'') (ch CHR ''1'') (ch CHR ''5'')"

definition V4L2_PIX_FMT_XBGR555 :: u32 where
  "V4L2_PIX_FMT_XBGR555 = v4l2_fourcc (ch CHR ''X'') (ch CHR ''B'') (ch CHR ''1'') (ch CHR ''5'')"

definition V4L2_PIX_FMT_BGRA555 :: u32 where
  "V4L2_PIX_FMT_BGRA555 = v4l2_fourcc (ch CHR ''B'') (ch CHR ''A'') (ch CHR ''1'') (ch CHR ''5'')"

definition V4L2_PIX_FMT_BGRX555 :: u32 where
  "V4L2_PIX_FMT_BGRX555 = v4l2_fourcc (ch CHR ''B'') (ch CHR ''X'') (ch CHR ''1'') (ch CHR ''5'')"

definition V4L2_PIX_FMT_RGB565 :: u32 where
  "V4L2_PIX_FMT_RGB565 = v4l2_fourcc (ch CHR ''R'') (ch CHR ''G'') (ch CHR ''B'') (ch CHR ''P'')"

definition V4L2_PIX_FMT_RGB555X :: u32 where
  "V4L2_PIX_FMT_RGB555X = v4l2_fourcc (ch CHR ''R'') (ch CHR ''G'') (ch CHR ''B'') (ch CHR ''Q'')"

definition V4L2_PIX_FMT_ARGB555X :: u32 where
  "V4L2_PIX_FMT_ARGB555X = v4l2_fourcc_be (ch CHR ''A'') (ch CHR ''R'') (ch CHR ''1'') (ch CHR ''5'')"

definition V4L2_PIX_FMT_XRGB555X :: u32 where
  "V4L2_PIX_FMT_XRGB555X = v4l2_fourcc_be (ch CHR ''X'') (ch CHR ''R'') (ch CHR ''1'') (ch CHR ''5'')"

definition V4L2_PIX_FMT_RGB565X :: u32 where
  "V4L2_PIX_FMT_RGB565X = v4l2_fourcc (ch CHR ''R'') (ch CHR ''G'') (ch CHR ''B'') (ch CHR ''R'')"

definition V4L2_PIX_FMT_BGR666 :: u32 where
  "V4L2_PIX_FMT_BGR666 = v4l2_fourcc (ch CHR ''B'') (ch CHR ''G'') (ch CHR ''R'') (ch CHR ''H'')"

definition V4L2_PIX_FMT_BGR24 :: u32 where
  "V4L2_PIX_FMT_BGR24 = v4l2_fourcc (ch CHR ''B'') (ch CHR ''G'') (ch CHR ''R'') (ch CHR ''3'')"

definition V4L2_PIX_FMT_RGB24 :: u32 where
  "V4L2_PIX_FMT_RGB24 = v4l2_fourcc (ch CHR ''R'') (ch CHR ''G'') (ch CHR ''B'') (ch CHR ''3'')"

definition V4L2_PIX_FMT_BGR32 :: u32 where
  "V4L2_PIX_FMT_BGR32 = v4l2_fourcc (ch CHR ''B'') (ch CHR ''G'') (ch CHR ''R'') (ch CHR ''4'')"

definition V4L2_PIX_FMT_ABGR32 :: u32 where
  "V4L2_PIX_FMT_ABGR32 = v4l2_fourcc (ch CHR ''A'') (ch CHR ''R'') (ch CHR ''2'') (ch CHR ''4'')"

definition V4L2_PIX_FMT_XBGR32 :: u32 where
  "V4L2_PIX_FMT_XBGR32 = v4l2_fourcc (ch CHR ''X'') (ch CHR ''R'') (ch CHR ''2'') (ch CHR ''4'')"

definition V4L2_PIX_FMT_BGRA32 :: u32 where
  "V4L2_PIX_FMT_BGRA32 = v4l2_fourcc (ch CHR ''R'') (ch CHR ''A'') (ch CHR ''2'') (ch CHR ''4'')"

definition V4L2_PIX_FMT_BGRX32 :: u32 where
  "V4L2_PIX_FMT_BGRX32 = v4l2_fourcc (ch CHR ''R'') (ch CHR ''X'') (ch CHR ''2'') (ch CHR ''4'')"

definition V4L2_PIX_FMT_RGB32 :: u32 where
  "V4L2_PIX_FMT_RGB32 = v4l2_fourcc (ch CHR ''R'') (ch CHR ''G'') (ch CHR ''B'') (ch CHR ''4'')"

definition V4L2_PIX_FMT_RGBA32 :: u32 where
  "V4L2_PIX_FMT_RGBA32 = v4l2_fourcc (ch CHR ''A'') (ch CHR ''B'') (ch CHR ''2'') (ch CHR ''4'')"

definition V4L2_PIX_FMT_RGBX32 :: u32 where
  "V4L2_PIX_FMT_RGBX32 = v4l2_fourcc (ch CHR ''X'') (ch CHR ''B'') (ch CHR ''2'') (ch CHR ''4'')"

definition V4L2_PIX_FMT_ARGB32 :: u32 where
  "V4L2_PIX_FMT_ARGB32 = v4l2_fourcc (ch CHR ''B'') (ch CHR ''A'') (ch CHR ''2'') (ch CHR ''4'')"

definition V4L2_PIX_FMT_XRGB32 :: u32 where
  "V4L2_PIX_FMT_XRGB32 = v4l2_fourcc (ch CHR ''B'') (ch CHR ''X'') (ch CHR ''2'') (ch CHR ''4'')"

definition V4L2_PIX_FMT_GREY :: u32 where
  "V4L2_PIX_FMT_GREY = v4l2_fourcc (ch CHR ''G'') (ch CHR ''R'') (ch CHR ''E'') (ch CHR ''Y'')"

definition V4L2_PIX_FMT_Y4 :: u32 where
  "V4L2_PIX_FMT_Y4 = v4l2_fourcc (ch CHR ''Y'') (ch CHR ''0'') (ch CHR ''4'') (ch CHR '' '')"

definition V4L2_PIX_FMT_Y6 :: u32 where
  "V4L2_PIX_FMT_Y6 = v4l2_fourcc (ch CHR ''Y'') (ch CHR ''0'') (ch CHR ''6'') (ch CHR '' '')"

definition V4L2_PIX_FMT_Y10 :: u32 where
  "V4L2_PIX_FMT_Y10 = v4l2_fourcc (ch CHR ''Y'') (ch CHR ''1'') (ch CHR ''0'') (ch CHR '' '')"

definition V4L2_PIX_FMT_Y12 :: u32 where
  "V4L2_PIX_FMT_Y12 = v4l2_fourcc (ch CHR ''Y'') (ch CHR ''1'') (ch CHR ''2'') (ch CHR '' '')"

definition V4L2_PIX_FMT_Y14 :: u32 where
  "V4L2_PIX_FMT_Y14 = v4l2_fourcc (ch CHR ''Y'') (ch CHR ''1'') (ch CHR ''4'') (ch CHR '' '')"

definition V4L2_PIX_FMT_Y16 :: u32 where
  "V4L2_PIX_FMT_Y16 = v4l2_fourcc (ch CHR ''Y'') (ch CHR ''1'') (ch CHR ''6'') (ch CHR '' '')"

definition V4L2_PIX_FMT_Y16_BE :: u32 where
  "V4L2_PIX_FMT_Y16_BE = v4l2_fourcc_be (ch CHR ''Y'') (ch CHR ''1'') (ch CHR ''6'') (ch CHR '' '')"

definition V4L2_PIX_FMT_Y10BPACK :: u32 where
  "V4L2_PIX_FMT_Y10BPACK = v4l2_fourcc (ch CHR ''Y'') (ch CHR ''1'') (ch CHR ''0'') (ch CHR ''B'')"

definition V4L2_PIX_FMT_Y10P :: u32 where
  "V4L2_PIX_FMT_Y10P = v4l2_fourcc (ch CHR ''Y'') (ch CHR ''1'') (ch CHR ''0'') (ch CHR ''P'')"

definition V4L2_PIX_FMT_PAL8 :: u32 where
  "V4L2_PIX_FMT_PAL8 = v4l2_fourcc (ch CHR ''P'') (ch CHR ''A'') (ch CHR ''L'') (ch CHR ''8'')"

definition V4L2_PIX_FMT_UV8 :: u32 where
  "V4L2_PIX_FMT_UV8 = v4l2_fourcc (ch CHR ''U'') (ch CHR ''V'') (ch CHR ''8'') (ch CHR '' '')"

definition V4L2_PIX_FMT_YUYV :: u32 where
  "V4L2_PIX_FMT_YUYV = v4l2_fourcc (ch CHR ''Y'') (ch CHR ''U'') (ch CHR ''Y'') (ch CHR ''V'')"

definition V4L2_PIX_FMT_YYUV :: u32 where
  "V4L2_PIX_FMT_YYUV = v4l2_fourcc (ch CHR ''Y'') (ch CHR ''Y'') (ch CHR ''U'') (ch CHR ''V'')"

definition V4L2_PIX_FMT_YVYU :: u32 where
  "V4L2_PIX_FMT_YVYU = v4l2_fourcc (ch CHR ''Y'') (ch CHR ''V'') (ch CHR ''Y'') (ch CHR ''U'')"

definition V4L2_PIX_FMT_UYVY :: u32 where
  "V4L2_PIX_FMT_UYVY = v4l2_fourcc (ch CHR ''U'') (ch CHR ''Y'') (ch CHR ''V'') (ch CHR ''Y'')"

definition V4L2_PIX_FMT_VYUY :: u32 where
  "V4L2_PIX_FMT_VYUY = v4l2_fourcc (ch CHR ''V'') (ch CHR ''Y'') (ch CHR ''U'') (ch CHR ''Y'')"

definition V4L2_PIX_FMT_Y41P :: u32 where
  "V4L2_PIX_FMT_Y41P = v4l2_fourcc (ch CHR ''Y'') (ch CHR ''4'') (ch CHR ''1'') (ch CHR ''P'')"

definition V4L2_PIX_FMT_YUV444 :: u32 where
  "V4L2_PIX_FMT_YUV444 = v4l2_fourcc (ch CHR ''Y'') (ch CHR ''4'') (ch CHR ''4'') (ch CHR ''4'')"

definition V4L2_PIX_FMT_YUV555 :: u32 where
  "V4L2_PIX_FMT_YUV555 = v4l2_fourcc (ch CHR ''Y'') (ch CHR ''U'') (ch CHR ''V'') (ch CHR ''O'')"

definition V4L2_PIX_FMT_YUV565 :: u32 where
  "V4L2_PIX_FMT_YUV565 = v4l2_fourcc (ch CHR ''Y'') (ch CHR ''U'') (ch CHR ''V'') (ch CHR ''P'')"

definition V4L2_PIX_FMT_YUV24 :: u32 where
  "V4L2_PIX_FMT_YUV24 = v4l2_fourcc (ch CHR ''Y'') (ch CHR ''U'') (ch CHR ''V'') (ch CHR ''3'')"

definition V4L2_PIX_FMT_YUV32 :: u32 where
  "V4L2_PIX_FMT_YUV32 = v4l2_fourcc (ch CHR ''Y'') (ch CHR ''U'') (ch CHR ''V'') (ch CHR ''4'')"

definition V4L2_PIX_FMT_AYUV32 :: u32 where
  "V4L2_PIX_FMT_AYUV32 = v4l2_fourcc (ch CHR ''A'') (ch CHR ''Y'') (ch CHR ''U'') (ch CHR ''V'')"

definition V4L2_PIX_FMT_XYUV32 :: u32 where
  "V4L2_PIX_FMT_XYUV32 = v4l2_fourcc (ch CHR ''X'') (ch CHR ''Y'') (ch CHR ''U'') (ch CHR ''V'')"

definition V4L2_PIX_FMT_VUYA32 :: u32 where
  "V4L2_PIX_FMT_VUYA32 = v4l2_fourcc (ch CHR ''V'') (ch CHR ''U'') (ch CHR ''Y'') (ch CHR ''A'')"

definition V4L2_PIX_FMT_VUYX32 :: u32 where
  "V4L2_PIX_FMT_VUYX32 = v4l2_fourcc (ch CHR ''V'') (ch CHR ''U'') (ch CHR ''Y'') (ch CHR ''X'')"

definition V4L2_PIX_FMT_M420 :: u32 where
  "V4L2_PIX_FMT_M420 = v4l2_fourcc (ch CHR ''M'') (ch CHR ''4'') (ch CHR ''2'') (ch CHR ''0'')"

definition V4L2_PIX_FMT_NV12 :: u32 where
  "V4L2_PIX_FMT_NV12 = v4l2_fourcc (ch CHR ''N'') (ch CHR ''V'') (ch CHR ''1'') (ch CHR ''2'')"

definition V4L2_PIX_FMT_NV21 :: u32 where
  "V4L2_PIX_FMT_NV21 = v4l2_fourcc (ch CHR ''N'') (ch CHR ''V'') (ch CHR ''2'') (ch CHR ''1'')"

definition V4L2_PIX_FMT_NV16 :: u32 where
  "V4L2_PIX_FMT_NV16 = v4l2_fourcc (ch CHR ''N'') (ch CHR ''V'') (ch CHR ''1'') (ch CHR ''6'')"

definition V4L2_PIX_FMT_NV61 :: u32 where
  "V4L2_PIX_FMT_NV61 = v4l2_fourcc (ch CHR ''N'') (ch CHR ''V'') (ch CHR ''6'') (ch CHR ''1'')"

definition V4L2_PIX_FMT_NV24 :: u32 where
  "V4L2_PIX_FMT_NV24 = v4l2_fourcc (ch CHR ''N'') (ch CHR ''V'') (ch CHR ''2'') (ch CHR ''4'')"

definition V4L2_PIX_FMT_NV42 :: u32 where
  "V4L2_PIX_FMT_NV42 = v4l2_fourcc (ch CHR ''N'') (ch CHR ''V'') (ch CHR ''4'') (ch CHR ''2'')"

definition V4L2_PIX_FMT_HM12 :: u32 where
  "V4L2_PIX_FMT_HM12 = v4l2_fourcc (ch CHR ''H'') (ch CHR ''M'') (ch CHR ''1'') (ch CHR ''2'')"

definition V4L2_PIX_FMT_NV12M :: u32 where
  "V4L2_PIX_FMT_NV12M = v4l2_fourcc (ch CHR ''N'') (ch CHR ''M'') (ch CHR ''1'') (ch CHR ''2'')"

definition V4L2_PIX_FMT_NV21M :: u32 where
  "V4L2_PIX_FMT_NV21M = v4l2_fourcc (ch CHR ''N'') (ch CHR ''M'') (ch CHR ''2'') (ch CHR ''1'')"

definition V4L2_PIX_FMT_NV16M :: u32 where
  "V4L2_PIX_FMT_NV16M = v4l2_fourcc (ch CHR ''N'') (ch CHR ''M'') (ch CHR ''1'') (ch CHR ''6'')"

definition V4L2_PIX_FMT_NV61M :: u32 where
  "V4L2_PIX_FMT_NV61M = v4l2_fourcc (ch CHR ''N'') (ch CHR ''M'') (ch CHR ''6'') (ch CHR ''1'')"

definition V4L2_PIX_FMT_NV12MT :: u32 where
  "V4L2_PIX_FMT_NV12MT = v4l2_fourcc (ch CHR ''T'') (ch CHR ''M'') (ch CHR ''1'') (ch CHR ''2'')"

definition V4L2_PIX_FMT_NV12MT_16X16 :: u32 where
  "V4L2_PIX_FMT_NV12MT_16X16 = v4l2_fourcc (ch CHR ''V'') (ch CHR ''M'') (ch CHR ''1'') (ch CHR ''2'')"

definition V4L2_PIX_FMT_YUV410 :: u32 where
  "V4L2_PIX_FMT_YUV410 = v4l2_fourcc (ch CHR ''Y'') (ch CHR ''U'') (ch CHR ''V'') (ch CHR ''9'')"

definition V4L2_PIX_FMT_YVU410 :: u32 where
  "V4L2_PIX_FMT_YVU410 = v4l2_fourcc (ch CHR ''Y'') (ch CHR ''V'') (ch CHR ''U'') (ch CHR ''9'')"

definition V4L2_PIX_FMT_YUV411P :: u32 where
  "V4L2_PIX_FMT_YUV411P = v4l2_fourcc (ch CHR ''4'') (ch CHR ''1'') (ch CHR ''1'') (ch CHR ''P'')"

definition V4L2_PIX_FMT_YUV420 :: u32 where
  "V4L2_PIX_FMT_YUV420 = v4l2_fourcc (ch CHR ''Y'') (ch CHR ''U'') (ch CHR ''1'') (ch CHR ''2'')"

definition V4L2_PIX_FMT_YVU420 :: u32 where
  "V4L2_PIX_FMT_YVU420 = v4l2_fourcc (ch CHR ''Y'') (ch CHR ''V'') (ch CHR ''1'') (ch CHR ''2'')"

definition V4L2_PIX_FMT_YUV422P :: u32 where
  "V4L2_PIX_FMT_YUV422P = v4l2_fourcc (ch CHR ''4'') (ch CHR ''2'') (ch CHR ''2'') (ch CHR ''P'')"

definition V4L2_PIX_FMT_YUV420M :: u32 where
  "V4L2_PIX_FMT_YUV420M = v4l2_fourcc (ch CHR ''Y'') (ch CHR ''M'') (ch CHR ''1'') (ch CHR ''2'')"

definition V4L2_PIX_FMT_YVU420M :: u32 where
  "V4L2_PIX_FMT_YVU420M = v4l2_fourcc (ch CHR ''Y'') (ch CHR ''M'') (ch CHR ''2'') (ch CHR ''1'')"

definition V4L2_PIX_FMT_YUV422M :: u32 where
  "V4L2_PIX_FMT_YUV422M = v4l2_fourcc (ch CHR ''Y'') (ch CHR ''M'') (ch CHR ''1'') (ch CHR ''6'')"

definition V4L2_PIX_FMT_YVU422M :: u32 where
  "V4L2_PIX_FMT_YVU422M = v4l2_fourcc (ch CHR ''Y'') (ch CHR ''M'') (ch CHR ''6'') (ch CHR ''1'')"

definition V4L2_PIX_FMT_YUV444M :: u32 where
  "V4L2_PIX_FMT_YUV444M = v4l2_fourcc (ch CHR ''Y'') (ch CHR ''M'') (ch CHR ''2'') (ch CHR ''4'')"

definition V4L2_PIX_FMT_YVU444M :: u32 where
  "V4L2_PIX_FMT_YVU444M = v4l2_fourcc (ch CHR ''Y'') (ch CHR ''M'') (ch CHR ''4'') (ch CHR ''2'')"

definition V4L2_PIX_FMT_SBGGR8 :: u32 where
  "V4L2_PIX_FMT_SBGGR8 = v4l2_fourcc (ch CHR ''B'') (ch CHR ''A'') (ch CHR ''8'') (ch CHR ''1'')"

definition V4L2_PIX_FMT_SGBRG8 :: u32 where
  "V4L2_PIX_FMT_SGBRG8 = v4l2_fourcc (ch CHR ''G'') (ch CHR ''B'') (ch CHR ''R'') (ch CHR ''G'')"

definition V4L2_PIX_FMT_SGRBG8 :: u32 where
  "V4L2_PIX_FMT_SGRBG8 = v4l2_fourcc (ch CHR ''G'') (ch CHR ''R'') (ch CHR ''B'') (ch CHR ''G'')"

definition V4L2_PIX_FMT_SRGGB8 :: u32 where
  "V4L2_PIX_FMT_SRGGB8 = v4l2_fourcc (ch CHR ''R'') (ch CHR ''G'') (ch CHR ''G'') (ch CHR ''B'')"

definition V4L2_PIX_FMT_SBGGR10 :: u32 where
  "V4L2_PIX_FMT_SBGGR10 = v4l2_fourcc (ch CHR ''B'') (ch CHR ''G'') (ch CHR ''1'') (ch CHR ''0'')"

definition V4L2_PIX_FMT_SGBRG10 :: u32 where
  "V4L2_PIX_FMT_SGBRG10 = v4l2_fourcc (ch CHR ''G'') (ch CHR ''B'') (ch CHR ''1'') (ch CHR ''0'')"

definition V4L2_PIX_FMT_SGRBG10 :: u32 where
  "V4L2_PIX_FMT_SGRBG10 = v4l2_fourcc (ch CHR ''B'') (ch CHR ''A'') (ch CHR ''1'') (ch CHR ''0'')"

definition V4L2_PIX_FMT_SRGGB10 :: u32 where
  "V4L2_PIX_FMT_SRGGB10 = v4l2_fourcc (ch CHR ''R'') (ch CHR ''G'') (ch CHR ''1'') (ch CHR ''0'')"

definition V4L2_PIX_FMT_SBGGR10P :: u32 where
  "V4L2_PIX_FMT_SBGGR10P = v4l2_fourcc (ch CHR ''p'') (ch CHR ''B'') (ch CHR ''A'') (ch CHR ''A'')"

definition V4L2_PIX_FMT_SGBRG10P :: u32 where
  "V4L2_PIX_FMT_SGBRG10P = v4l2_fourcc (ch CHR ''p'') (ch CHR ''G'') (ch CHR ''A'') (ch CHR ''A'')"

definition V4L2_PIX_FMT_SGRBG10P :: u32 where
  "V4L2_PIX_FMT_SGRBG10P = v4l2_fourcc (ch CHR ''p'') (ch CHR ''g'') (ch CHR ''A'') (ch CHR ''A'')"

definition V4L2_PIX_FMT_SRGGB10P :: u32 where
  "V4L2_PIX_FMT_SRGGB10P = v4l2_fourcc (ch CHR ''p'') (ch CHR ''R'') (ch CHR ''A'') (ch CHR ''A'')"

definition V4L2_PIX_FMT_SBGGR10ALAW8 :: u32 where
  "V4L2_PIX_FMT_SBGGR10ALAW8 = v4l2_fourcc (ch CHR ''a'') (ch CHR ''B'') (ch CHR ''A'') (ch CHR ''8'')"

definition V4L2_PIX_FMT_SGBRG10ALAW8 :: u32 where
  "V4L2_PIX_FMT_SGBRG10ALAW8 = v4l2_fourcc (ch CHR ''a'') (ch CHR ''G'') (ch CHR ''A'') (ch CHR ''8'')"

definition V4L2_PIX_FMT_SGRBG10ALAW8 :: u32 where
  "V4L2_PIX_FMT_SGRBG10ALAW8 = v4l2_fourcc (ch CHR ''a'') (ch CHR ''g'') (ch CHR ''A'') (ch CHR ''8'')"

definition V4L2_PIX_FMT_SRGGB10ALAW8 :: u32 where
  "V4L2_PIX_FMT_SRGGB10ALAW8 = v4l2_fourcc (ch CHR ''a'') (ch CHR ''R'') (ch CHR ''A'') (ch CHR ''8'')"

definition V4L2_PIX_FMT_SBGGR10DPCM8 :: u32 where
  "V4L2_PIX_FMT_SBGGR10DPCM8 = v4l2_fourcc (ch CHR ''b'') (ch CHR ''B'') (ch CHR ''A'') (ch CHR ''8'')"

definition V4L2_PIX_FMT_SGBRG10DPCM8 :: u32 where
  "V4L2_PIX_FMT_SGBRG10DPCM8 = v4l2_fourcc (ch CHR ''b'') (ch CHR ''G'') (ch CHR ''A'') (ch CHR ''8'')"

definition V4L2_PIX_FMT_SGRBG10DPCM8 :: u32 where
  "V4L2_PIX_FMT_SGRBG10DPCM8 = v4l2_fourcc (ch CHR ''B'') (ch CHR ''D'') (ch CHR ''1'') (ch CHR ''0'')"

definition V4L2_PIX_FMT_SRGGB10DPCM8 :: u32 where
  "V4L2_PIX_FMT_SRGGB10DPCM8 = v4l2_fourcc (ch CHR ''b'') (ch CHR ''R'') (ch CHR ''A'') (ch CHR ''8'')"

definition V4L2_PIX_FMT_SBGGR12 :: u32 where
  "V4L2_PIX_FMT_SBGGR12 = v4l2_fourcc (ch CHR ''B'') (ch CHR ''G'') (ch CHR ''1'') (ch CHR ''2'')"

definition V4L2_PIX_FMT_SGBRG12 :: u32 where
  "V4L2_PIX_FMT_SGBRG12 = v4l2_fourcc (ch CHR ''G'') (ch CHR ''B'') (ch CHR ''1'') (ch CHR ''2'')"

definition V4L2_PIX_FMT_SGRBG12 :: u32 where
  "V4L2_PIX_FMT_SGRBG12 = v4l2_fourcc (ch CHR ''B'') (ch CHR ''A'') (ch CHR ''1'') (ch CHR ''2'')"

definition V4L2_PIX_FMT_SRGGB12 :: u32 where
  "V4L2_PIX_FMT_SRGGB12 = v4l2_fourcc (ch CHR ''R'') (ch CHR ''G'') (ch CHR ''1'') (ch CHR ''2'')"

definition V4L2_PIX_FMT_SBGGR12P :: u32 where
  "V4L2_PIX_FMT_SBGGR12P = v4l2_fourcc (ch CHR ''p'') (ch CHR ''B'') (ch CHR ''C'') (ch CHR ''C'')"

definition V4L2_PIX_FMT_SGBRG12P :: u32 where
  "V4L2_PIX_FMT_SGBRG12P = v4l2_fourcc (ch CHR ''p'') (ch CHR ''G'') (ch CHR ''C'') (ch CHR ''C'')"

definition V4L2_PIX_FMT_SGRBG12P :: u32 where
  "V4L2_PIX_FMT_SGRBG12P = v4l2_fourcc (ch CHR ''p'') (ch CHR ''g'') (ch CHR ''C'') (ch CHR ''C'')"

definition V4L2_PIX_FMT_SRGGB12P :: u32 where
  "V4L2_PIX_FMT_SRGGB12P = v4l2_fourcc (ch CHR ''p'') (ch CHR ''R'') (ch CHR ''C'') (ch CHR ''C'')"

definition V4L2_PIX_FMT_SBGGR14 :: u32 where
  "V4L2_PIX_FMT_SBGGR14 = v4l2_fourcc (ch CHR ''B'') (ch CHR ''G'') (ch CHR ''1'') (ch CHR ''4'')"

definition V4L2_PIX_FMT_SGBRG14 :: u32 where
  "V4L2_PIX_FMT_SGBRG14 = v4l2_fourcc (ch CHR ''G'') (ch CHR ''B'') (ch CHR ''1'') (ch CHR ''4'')"

definition V4L2_PIX_FMT_SGRBG14 :: u32 where
  "V4L2_PIX_FMT_SGRBG14 = v4l2_fourcc (ch CHR ''G'') (ch CHR ''R'') (ch CHR ''1'') (ch CHR ''4'')"

definition V4L2_PIX_FMT_SRGGB14 :: u32 where
  "V4L2_PIX_FMT_SRGGB14 = v4l2_fourcc (ch CHR ''R'') (ch CHR ''G'') (ch CHR ''1'') (ch CHR ''4'')"

definition V4L2_PIX_FMT_SBGGR14P :: u32 where
  "V4L2_PIX_FMT_SBGGR14P = v4l2_fourcc (ch CHR ''p'') (ch CHR ''B'') (ch CHR ''E'') (ch CHR ''E'')"

definition V4L2_PIX_FMT_SGBRG14P :: u32 where
  "V4L2_PIX_FMT_SGBRG14P = v4l2_fourcc (ch CHR ''p'') (ch CHR ''G'') (ch CHR ''E'') (ch CHR ''E'')"

definition V4L2_PIX_FMT_SGRBG14P :: u32 where
  "V4L2_PIX_FMT_SGRBG14P = v4l2_fourcc (ch CHR ''p'') (ch CHR ''g'') (ch CHR ''E'') (ch CHR ''E'')"

definition V4L2_PIX_FMT_SRGGB14P :: u32 where
  "V4L2_PIX_FMT_SRGGB14P = v4l2_fourcc (ch CHR ''p'') (ch CHR ''R'') (ch CHR ''E'') (ch CHR ''E'')"

definition V4L2_PIX_FMT_SBGGR16 :: u32 where
  "V4L2_PIX_FMT_SBGGR16 = v4l2_fourcc (ch CHR ''B'') (ch CHR ''Y'') (ch CHR ''R'') (ch CHR ''2'')"

definition V4L2_PIX_FMT_SGBRG16 :: u32 where
  "V4L2_PIX_FMT_SGBRG16 = v4l2_fourcc (ch CHR ''G'') (ch CHR ''B'') (ch CHR ''1'') (ch CHR ''6'')"

definition V4L2_PIX_FMT_SGRBG16 :: u32 where
  "V4L2_PIX_FMT_SGRBG16 = v4l2_fourcc (ch CHR ''G'') (ch CHR ''R'') (ch CHR ''1'') (ch CHR ''6'')"

definition V4L2_PIX_FMT_SRGGB16 :: u32 where
  "V4L2_PIX_FMT_SRGGB16 = v4l2_fourcc (ch CHR ''R'') (ch CHR ''G'') (ch CHR ''1'') (ch CHR ''6'')"

definition V4L2_PIX_FMT_HSV24 :: u32 where
  "V4L2_PIX_FMT_HSV24 = v4l2_fourcc (ch CHR ''H'') (ch CHR ''S'') (ch CHR ''V'') (ch CHR ''3'')"

definition V4L2_PIX_FMT_HSV32 :: u32 where
  "V4L2_PIX_FMT_HSV32 = v4l2_fourcc (ch CHR ''H'') (ch CHR ''S'') (ch CHR ''V'') (ch CHR ''4'')"

definition V4L2_PIX_FMT_MJPEG :: u32 where
  "V4L2_PIX_FMT_MJPEG = v4l2_fourcc (ch CHR ''M'') (ch CHR ''J'') (ch CHR ''P'') (ch CHR ''G'')"

definition V4L2_PIX_FMT_JPEG :: u32 where
  "V4L2_PIX_FMT_JPEG = v4l2_fourcc (ch CHR ''J'') (ch CHR ''P'') (ch CHR ''E'') (ch CHR ''G'')"

definition V4L2_PIX_FMT_DV :: u32 where
  "V4L2_PIX_FMT_DV = v4l2_fourcc (ch CHR ''d'') (ch CHR ''v'') (ch CHR ''s'') (ch CHR ''d'')"

definition V4L2_PIX_FMT_MPEG :: u32 where
  "V4L2_PIX_FMT_MPEG = v4l2_fourcc (ch CHR ''M'') (ch CHR ''P'') (ch CHR ''E'') (ch CHR ''G'')"

definition V4L2_PIX_FMT_H264 :: u32 where
  "V4L2_PIX_FMT_H264 = v4l2_fourcc (ch CHR ''H'') (ch CHR ''2'') (ch CHR ''6'') (ch CHR ''4'')"

definition V4L2_PIX_FMT_H264_NO_SC :: u32 where
  "V4L2_PIX_FMT_H264_NO_SC = v4l2_fourcc (ch CHR ''A'') (ch CHR ''V'') (ch CHR ''C'') (ch CHR ''1'')"

definition V4L2_PIX_FMT_H264_MVC :: u32 where
  "V4L2_PIX_FMT_H264_MVC = v4l2_fourcc (ch CHR ''M'') (ch CHR ''2'') (ch CHR ''6'') (ch CHR ''4'')"

definition V4L2_PIX_FMT_H263 :: u32 where
  "V4L2_PIX_FMT_H263 = v4l2_fourcc (ch CHR ''H'') (ch CHR ''2'') (ch CHR ''6'') (ch CHR ''3'')"

definition V4L2_PIX_FMT_MPEG1 :: u32 where
  "V4L2_PIX_FMT_MPEG1 = v4l2_fourcc (ch CHR ''M'') (ch CHR ''P'') (ch CHR ''G'') (ch CHR ''1'')"

definition V4L2_PIX_FMT_MPEG2 :: u32 where
  "V4L2_PIX_FMT_MPEG2 = v4l2_fourcc (ch CHR ''M'') (ch CHR ''P'') (ch CHR ''G'') (ch CHR ''2'')"

definition V4L2_PIX_FMT_MPEG2_SLICE :: u32 where
  "V4L2_PIX_FMT_MPEG2_SLICE = v4l2_fourcc (ch CHR ''M'') (ch CHR ''G'') (ch CHR ''2'') (ch CHR ''S'')"

definition V4L2_PIX_FMT_MPEG4 :: u32 where
  "V4L2_PIX_FMT_MPEG4 = v4l2_fourcc (ch CHR ''M'') (ch CHR ''P'') (ch CHR ''G'') (ch CHR ''4'')"

definition V4L2_PIX_FMT_XVID :: u32 where
  "V4L2_PIX_FMT_XVID = v4l2_fourcc (ch CHR ''X'') (ch CHR ''V'') (ch CHR ''I'') (ch CHR ''D'')"

definition V4L2_PIX_FMT_VC1_ANNEX_G :: u32 where
  "V4L2_PIX_FMT_VC1_ANNEX_G = v4l2_fourcc (ch CHR ''V'') (ch CHR ''C'') (ch CHR ''1'') (ch CHR ''G'')"

definition V4L2_PIX_FMT_VC1_ANNEX_L :: u32 where
  "V4L2_PIX_FMT_VC1_ANNEX_L = v4l2_fourcc (ch CHR ''V'') (ch CHR ''C'') (ch CHR ''1'') (ch CHR ''L'')"

definition V4L2_PIX_FMT_VP8 :: u32 where
  "V4L2_PIX_FMT_VP8 = v4l2_fourcc (ch CHR ''V'') (ch CHR ''P'') (ch CHR ''8'') (ch CHR ''0'')"

definition V4L2_PIX_FMT_VP8_FRAME :: u32 where
  "V4L2_PIX_FMT_VP8_FRAME = v4l2_fourcc (ch CHR ''V'') (ch CHR ''P'') (ch CHR ''8'') (ch CHR ''F'')"

definition V4L2_PIX_FMT_VP9 :: u32 where
  "V4L2_PIX_FMT_VP9 = v4l2_fourcc (ch CHR ''V'') (ch CHR ''P'') (ch CHR ''9'') (ch CHR ''0'')"

definition V4L2_PIX_FMT_HEVC :: u32 where
  "V4L2_PIX_FMT_HEVC = v4l2_fourcc (ch CHR ''H'') (ch CHR ''E'') (ch CHR ''V'') (ch CHR ''C'')"

definition V4L2_PIX_FMT_FWHT :: u32 where
  "V4L2_PIX_FMT_FWHT = v4l2_fourcc (ch CHR ''F'') (ch CHR ''W'') (ch CHR ''H'') (ch CHR ''T'')"

definition V4L2_PIX_FMT_FWHT_STATELESS :: u32 where
  "V4L2_PIX_FMT_FWHT_STATELESS = v4l2_fourcc (ch CHR ''S'') (ch CHR ''F'') (ch CHR ''W'') (ch CHR ''H'')"

definition V4L2_PIX_FMT_H264_SLICE :: u32 where
  "V4L2_PIX_FMT_H264_SLICE = v4l2_fourcc (ch CHR ''S'') (ch CHR ''2'') (ch CHR ''6'') (ch CHR ''4'')"

definition V4L2_PIX_FMT_CPIA1 :: u32 where
  "V4L2_PIX_FMT_CPIA1 = v4l2_fourcc (ch CHR ''C'') (ch CHR ''P'') (ch CHR ''I'') (ch CHR ''A'')"

definition V4L2_PIX_FMT_WNVA :: u32 where
  "V4L2_PIX_FMT_WNVA = v4l2_fourcc (ch CHR ''W'') (ch CHR ''N'') (ch CHR ''V'') (ch CHR ''A'')"

definition V4L2_PIX_FMT_SN9C10X :: u32 where
  "V4L2_PIX_FMT_SN9C10X = v4l2_fourcc (ch CHR ''S'') (ch CHR ''9'') (ch CHR ''1'') (ch CHR ''0'')"

definition V4L2_PIX_FMT_SN9C20X_I420 :: u32 where
  "V4L2_PIX_FMT_SN9C20X_I420 = v4l2_fourcc (ch CHR ''S'') (ch CHR ''9'') (ch CHR ''2'') (ch CHR ''0'')"

definition V4L2_PIX_FMT_PWC1 :: u32 where
  "V4L2_PIX_FMT_PWC1 = v4l2_fourcc (ch CHR ''P'') (ch CHR ''W'') (ch CHR ''C'') (ch CHR ''1'')"

definition V4L2_PIX_FMT_PWC2 :: u32 where
  "V4L2_PIX_FMT_PWC2 = v4l2_fourcc (ch CHR ''P'') (ch CHR ''W'') (ch CHR ''C'') (ch CHR ''2'')"

definition V4L2_PIX_FMT_ET61X251 :: u32 where
  "V4L2_PIX_FMT_ET61X251 = v4l2_fourcc (ch CHR ''E'') (ch CHR ''6'') (ch CHR ''2'') (ch CHR ''5'')"

definition V4L2_PIX_FMT_SPCA501 :: u32 where
  "V4L2_PIX_FMT_SPCA501 = v4l2_fourcc (ch CHR ''S'') (ch CHR ''5'') (ch CHR ''0'') (ch CHR ''1'')"

definition V4L2_PIX_FMT_SPCA505 :: u32 where
  "V4L2_PIX_FMT_SPCA505 = v4l2_fourcc (ch CHR ''S'') (ch CHR ''5'') (ch CHR ''0'') (ch CHR ''5'')"

definition V4L2_PIX_FMT_SPCA508 :: u32 where
  "V4L2_PIX_FMT_SPCA508 = v4l2_fourcc (ch CHR ''S'') (ch CHR ''5'') (ch CHR ''0'') (ch CHR ''8'')"

definition V4L2_PIX_FMT_SPCA561 :: u32 where
  "V4L2_PIX_FMT_SPCA561 = v4l2_fourcc (ch CHR ''S'') (ch CHR ''5'') (ch CHR ''6'') (ch CHR ''1'')"

definition V4L2_PIX_FMT_PAC207 :: u32 where
  "V4L2_PIX_FMT_PAC207 = v4l2_fourcc (ch CHR ''P'') (ch CHR ''2'') (ch CHR ''0'') (ch CHR ''7'')"

definition V4L2_PIX_FMT_MR97310A :: u32 where
  "V4L2_PIX_FMT_MR97310A = v4l2_fourcc (ch CHR ''M'') (ch CHR ''3'') (ch CHR ''1'') (ch CHR ''0'')"

definition V4L2_PIX_FMT_JL2005BCD :: u32 where
  "V4L2_PIX_FMT_JL2005BCD = v4l2_fourcc (ch CHR ''J'') (ch CHR ''L'') (ch CHR ''2'') (ch CHR ''0'')"

definition V4L2_PIX_FMT_SN9C2028 :: u32 where
  "V4L2_PIX_FMT_SN9C2028 = v4l2_fourcc (ch CHR ''S'') (ch CHR ''O'') (ch CHR ''N'') (ch CHR ''X'')"

definition V4L2_PIX_FMT_SQ905C :: u32 where
  "V4L2_PIX_FMT_SQ905C = v4l2_fourcc (ch CHR ''9'') (ch CHR ''0'') (ch CHR ''5'') (ch CHR ''C'')"

definition V4L2_PIX_FMT_PJPG :: u32 where
  "V4L2_PIX_FMT_PJPG = v4l2_fourcc (ch CHR ''P'') (ch CHR ''J'') (ch CHR ''P'') (ch CHR ''G'')"

definition V4L2_PIX_FMT_OV511 :: u32 where
  "V4L2_PIX_FMT_OV511 = v4l2_fourcc (ch CHR ''O'') (ch CHR ''5'') (ch CHR ''1'') (ch CHR ''1'')"

definition V4L2_PIX_FMT_OV518 :: u32 where
  "V4L2_PIX_FMT_OV518 = v4l2_fourcc (ch CHR ''O'') (ch CHR ''5'') (ch CHR ''1'') (ch CHR ''8'')"

definition V4L2_PIX_FMT_STV0680 :: u32 where
  "V4L2_PIX_FMT_STV0680 = v4l2_fourcc (ch CHR ''S'') (ch CHR ''6'') (ch CHR ''8'') (ch CHR ''0'')"

definition V4L2_PIX_FMT_TM6000 :: u32 where
  "V4L2_PIX_FMT_TM6000 = v4l2_fourcc (ch CHR ''T'') (ch CHR ''M'') (ch CHR ''6'') (ch CHR ''0'')"

definition V4L2_PIX_FMT_CIT_YYVYUY :: u32 where
  "V4L2_PIX_FMT_CIT_YYVYUY = v4l2_fourcc (ch CHR ''C'') (ch CHR ''I'') (ch CHR ''T'') (ch CHR ''V'')"

definition V4L2_PIX_FMT_KONICA420 :: u32 where
  "V4L2_PIX_FMT_KONICA420 = v4l2_fourcc (ch CHR ''K'') (ch CHR ''O'') (ch CHR ''N'') (ch CHR ''I'')"

definition V4L2_PIX_FMT_JPGL :: u32 where
  "V4L2_PIX_FMT_JPGL = v4l2_fourcc (ch CHR ''J'') (ch CHR ''P'') (ch CHR ''G'') (ch CHR ''L'')"

definition V4L2_PIX_FMT_SE401 :: u32 where
  "V4L2_PIX_FMT_SE401 = v4l2_fourcc (ch CHR ''S'') (ch CHR ''4'') (ch CHR ''0'') (ch CHR ''1'')"

definition V4L2_PIX_FMT_S5C_UYVY_JPG :: u32 where
  "V4L2_PIX_FMT_S5C_UYVY_JPG = v4l2_fourcc (ch CHR ''S'') (ch CHR ''5'') (ch CHR ''C'') (ch CHR ''I'')"

definition V4L2_PIX_FMT_Y8I :: u32 where
  "V4L2_PIX_FMT_Y8I = v4l2_fourcc (ch CHR ''Y'') (ch CHR ''8'') (ch CHR ''I'') (ch CHR '' '')"

definition V4L2_PIX_FMT_Y12I :: u32 where
  "V4L2_PIX_FMT_Y12I = v4l2_fourcc (ch CHR ''Y'') (ch CHR ''1'') (ch CHR ''2'') (ch CHR ''I'')"

definition V4L2_PIX_FMT_Z16 :: u32 where
  "V4L2_PIX_FMT_Z16 = v4l2_fourcc (ch CHR ''Z'') (ch CHR ''1'') (ch CHR ''6'') (ch CHR '' '')"

definition V4L2_PIX_FMT_MT21C :: u32 where
  "V4L2_PIX_FMT_MT21C = v4l2_fourcc (ch CHR ''M'') (ch CHR ''T'') (ch CHR ''2'') (ch CHR ''1'')"

definition V4L2_PIX_FMT_INZI :: u32 where
  "V4L2_PIX_FMT_INZI = v4l2_fourcc (ch CHR ''I'') (ch CHR ''N'') (ch CHR ''Z'') (ch CHR ''I'')"

definition V4L2_PIX_FMT_SUNXI_TILED_NV12 :: u32 where
  "V4L2_PIX_FMT_SUNXI_TILED_NV12 = v4l2_fourcc (ch CHR ''S'') (ch CHR ''T'') (ch CHR ''1'') (ch CHR ''2'')"

definition V4L2_PIX_FMT_CNF4 :: u32 where
  "V4L2_PIX_FMT_CNF4 = v4l2_fourcc (ch CHR ''C'') (ch CHR ''N'') (ch CHR ''F'') (ch CHR ''4'')"

definition V4L2_PIX_FMT_HI240 :: u32 where
  "V4L2_PIX_FMT_HI240 = v4l2_fourcc (ch CHR ''H'') (ch CHR ''I'') (ch CHR ''2'') (ch CHR ''4'')"

definition V4L2_PIX_FMT_IPU3_SBGGR10 :: u32 where
  "V4L2_PIX_FMT_IPU3_SBGGR10 = v4l2_fourcc (ch CHR ''i'') (ch CHR ''p'') (ch CHR ''3'') (ch CHR ''b'')"

definition V4L2_PIX_FMT_IPU3_SGBRG10 :: u32 where
  "V4L2_PIX_FMT_IPU3_SGBRG10 = v4l2_fourcc (ch CHR ''i'') (ch CHR ''p'') (ch CHR ''3'') (ch CHR ''g'')"

definition V4L2_PIX_FMT_IPU3_SGRBG10 :: u32 where
  "V4L2_PIX_FMT_IPU3_SGRBG10 = v4l2_fourcc (ch CHR ''i'') (ch CHR ''p'') (ch CHR ''3'') (ch CHR ''G'')"

definition V4L2_PIX_FMT_IPU3_SRGGB10 :: u32 where
  "V4L2_PIX_FMT_IPU3_SRGGB10 = v4l2_fourcc (ch CHR ''i'') (ch CHR ''p'') (ch CHR ''3'') (ch CHR ''r'')"

definition V4L2_SDR_FMT_CU8 :: u32 where
  "V4L2_SDR_FMT_CU8 = v4l2_fourcc (ch CHR ''C'') (ch CHR ''U'') (ch CHR ''0'') (ch CHR ''8'')"

definition V4L2_SDR_FMT_CU16LE :: u32 where
  "V4L2_SDR_FMT_CU16LE = v4l2_fourcc (ch CHR ''C'') (ch CHR ''U'') (ch CHR ''1'') (ch CHR ''6'')"

definition V4L2_SDR_FMT_CS8 :: u32 where
  "V4L2_SDR_FMT_CS8 = v4l2_fourcc (ch CHR ''C'') (ch CHR ''S'') (ch CHR ''0'') (ch CHR ''8'')"

definition V4L2_SDR_FMT_CS14LE :: u32 where
  "V4L2_SDR_FMT_CS14LE = v4l2_fourcc (ch CHR ''C'') (ch CHR ''S'') (ch CHR ''1'') (ch CHR ''4'')"

definition V4L2_SDR_FMT_RU12LE :: u32 where
  "V4L2_SDR_FMT_RU12LE = v4l2_fourcc (ch CHR ''R'') (ch CHR ''U'') (ch CHR ''1'') (ch CHR ''2'')"

definition V4L2_SDR_FMT_PCU16BE :: u32 where
  "V4L2_SDR_FMT_PCU16BE = v4l2_fourcc (ch CHR ''P'') (ch CHR ''C'') (ch CHR ''1'') (ch CHR ''6'')"

definition V4L2_SDR_FMT_PCU18BE :: u32 where
  "V4L2_SDR_FMT_PCU18BE = v4l2_fourcc (ch CHR ''P'') (ch CHR ''C'') (ch CHR ''1'') (ch CHR ''8'')"

definition V4L2_SDR_FMT_PCU20BE :: u32 where
  "V4L2_SDR_FMT_PCU20BE = v4l2_fourcc (ch CHR ''P'') (ch CHR ''C'') (ch CHR ''2'') (ch CHR ''0'')"

definition V4L2_TCH_FMT_DELTA_TD16 :: u32 where
  "V4L2_TCH_FMT_DELTA_TD16 = v4l2_fourcc (ch CHR ''T'') (ch CHR ''D'') (ch CHR ''1'') (ch CHR ''6'')"

definition V4L2_TCH_FMT_DELTA_TD08 :: u32 where
  "V4L2_TCH_FMT_DELTA_TD08 = v4l2_fourcc (ch CHR ''T'') (ch CHR ''D'') (ch CHR ''0'') (ch CHR ''8'')"

definition V4L2_TCH_FMT_TU16 :: u32 where
  "V4L2_TCH_FMT_TU16 = v4l2_fourcc (ch CHR ''T'') (ch CHR ''U'') (ch CHR ''1'') (ch CHR ''6'')"

definition V4L2_TCH_FMT_TU08 :: u32 where
  "V4L2_TCH_FMT_TU08 = v4l2_fourcc (ch CHR ''T'') (ch CHR ''U'') (ch CHR ''0'') (ch CHR ''8'')"

definition V4L2_META_FMT_VSP1_HGO :: u32 where
  "V4L2_META_FMT_VSP1_HGO = v4l2_fourcc (ch CHR ''V'') (ch CHR ''S'') (ch CHR ''P'') (ch CHR ''H'')"

definition V4L2_META_FMT_VSP1_HGT :: u32 where
  "V4L2_META_FMT_VSP1_HGT = v4l2_fourcc (ch CHR ''V'') (ch CHR ''S'') (ch CHR ''P'') (ch CHR ''T'')"

definition V4L2_META_FMT_UVC :: u32 where
  "V4L2_META_FMT_UVC = v4l2_fourcc (ch CHR ''U'') (ch CHR ''V'') (ch CHR ''C'') (ch CHR ''H'')"

definition V4L2_META_FMT_D4XX :: u32 where
  "V4L2_META_FMT_D4XX = v4l2_fourcc (ch CHR ''D'') (ch CHR ''4'') (ch CHR ''X'') (ch CHR ''X'')"

definition V4L2_META_FMT_VIVID :: u32 where
  "V4L2_META_FMT_VIVID = v4l2_fourcc (ch CHR ''V'') (ch CHR ''I'') (ch CHR ''V'') (ch CHR ''D'')"

definition V4L2_META_FMT_RK_ISP1_PARAMS :: u32 where
  "V4L2_META_FMT_RK_ISP1_PARAMS = v4l2_fourcc (ch CHR ''R'') (ch CHR ''K'') (ch CHR ''1'') (ch CHR ''P'')"

definition V4L2_META_FMT_RK_ISP1_STAT_3A :: u32 where
  "V4L2_META_FMT_RK_ISP1_STAT_3A = v4l2_fourcc (ch CHR ''R'') (ch CHR ''K'') (ch CHR ''1'') (ch CHR ''S'')"

section \<open>The table\<close>

definition v4l2_formats :: "u32 list" where
  "v4l2_formats = [
    V4L2_PIX_FMT_RGB332, V4L2_PIX_FMT_RGB444, V4L2_PIX_FMT_ARGB444, V4L2_PIX_FMT_XRGB444,
     V4L2_PIX_FMT_RGBA444, V4L2_PIX_FMT_RGBX444, V4L2_PIX_FMT_ABGR444, V4L2_PIX_FMT_XBGR444,
     V4L2_PIX_FMT_BGRA444, V4L2_PIX_FMT_BGRX444, V4L2_PIX_FMT_RGB555, V4L2_PIX_FMT_ARGB555,
     V4L2_PIX_FMT_XRGB555, V4L2_PIX_FMT_RGBA555, V4L2_PIX_FMT_RGBX555, V4L2_PIX_FMT_ABGR555,
     V4L2_PIX_FMT_XBGR555, V4L2_PIX_FMT_BGRA555, V4L2_PIX_FMT_BGRX555, V4L2_PIX_FMT_RGB565,
     V4L2_PIX_FMT_RGB555X, V4L2_PIX_FMT_ARGB555X, V4L2_PIX_FMT_XRGB555X, V4L2_PIX_FMT_RGB565X,
     V4L2_PIX_FMT_BGR666, V4L2_PIX_FMT_BGR24, V4L2_PIX_FMT_RGB24, V4L2_PIX_FMT_BGR32,
     V4L2_PIX_FMT_ABGR32, V4L2_PIX_FMT_XBGR32, V4L2_PIX_FMT_BGRA32, V4L2_PIX_FMT_BGRX32,
     V4L2_PIX_FMT_RGB32, V4L2_PIX_FMT_RGBA32, V4L2_PIX_FMT_RGBX32, V4L2_PIX_FMT_ARGB32,
     V4L2_PIX_FMT_XRGB32, V4L2_PIX_FMT_GREY, V4L2_PIX_FMT_Y4, V4L2_PIX_FMT_Y6, V4L2_PIX_FMT_Y10,
     V4L2_PIX_FMT_Y12, V4L2_PIX_FMT_Y14, V4L2_PIX_FMT_Y16, V4L2_PIX_FMT_Y16_BE,
     V4L2_PIX_FMT_Y10BPACK, V4L2_PIX_FMT_Y10P, V4L2_PIX_FMT_PAL8, V4L2_PIX_FMT_UV8,
     V4L2_PIX_FMT_YUYV, V4L2_PIX_FMT_YYUV, V4L2_PIX_FMT_YVYU, V4L2_PIX_FMT_UYVY, V4L2_PIX_FMT_VYUY,
     V4L2_PIX_FMT_Y41P, V4L2_PIX_FMT_YUV444, V4L2_PIX_FMT_YUV555, V4L2_PIX_FMT_YUV565,
     V4L2_PIX_FMT_YUV24, V4L2_PIX_FMT_YUV32, V4L2_PIX_FMT_AYUV32, V4L2_PIX_FMT_XYUV32,
     V4L2_PIX_FMT_VUYA32, V4L2_PIX_FMT_VUYX32, V4L2_PIX_FMT_M420, V4L2_PIX_FMT_NV12,
     V4L2_PIX_FMT_NV21, V4L2_PIX_FMT_NV16, V4L2_PIX_FMT_NV61, V4L2_PIX_FMT_NV24, V4L2_PIX_FMT_NV42,
     V4L2_PIX_FMT_HM12, V4L2_PIX_FMT_NV12M, V4L2_PIX_FMT_NV21M, V4L2_PIX_FMT_NV16M,
     V4L2_PIX_FMT_NV61M, V4L2_PIX_FMT_NV12MT, V4L2_PIX_FMT_NV12MT_16X16, V4L2_PIX_FMT_YUV410,
     V4L2_PIX_FMT_YVU410, V4L2_PIX_FMT_YUV411P, V4L2_PIX_FMT_YUV420, V4L2_PIX_FMT_YVU420,
     V4L2_PIX_FMT_YUV422P, V4L2_PIX_FMT_YUV420M, V4L2_PIX_FMT_YVU420M, V4L2_PIX_FMT_YUV422M,
     V4L2_PIX_FMT_YVU422M, V4L2_PIX_FMT_YUV444M, V4L2_PIX_FMT_YVU444M, V4L2_PIX_FMT_SBGGR8,
     V4L2_PIX_FMT_SGBRG8, V4L2_PIX_FMT_SGRBG8, V4L2_PIX_FMT_SRGGB8, V4L2_PIX_FMT_SBGGR10,
     V4L2_PIX_FMT_SGBRG10, V4L2_PIX_FMT_SGRBG10, V4L2_PIX_FMT_SRGGB10, V4L2_PIX_FMT_SBGGR10P,
     V4L2_PIX_FMT_SGBRG10P, V4L2_PIX_FMT_SGRBG10P, V4L2_PIX_FMT_SRGGB10P,
     V4L2_PIX_FMT_SBGGR10ALAW8, V4L2_PIX_FMT_SGBRG10ALAW8, V4L2_PIX_FMT_SGRBG10ALAW8,
     V4L2_PIX_FMT_SRGGB10ALAW8, V4L2_PIX_FMT_SBGGR10DPCM8, V4L2_PIX_FMT_SGBRG10DPCM8,
     V4L2_PIX_FMT_SGRBG10DPCM8, V4L2_PIX_FMT_SRGGB10DPCM8, V4L2_PIX_FMT_SBGGR12,
     V4L2_PIX_FMT_SGBRG12, V4L2_PIX_FMT_SGRBG12, V4L2_PIX_FMT_SRGGB12, V4L2_PIX_FMT_SBGGR12P,
     V4L2_PIX_FMT_SGBRG12P, V4L2_PIX_FMT_SGRBG12P, V4L2_PIX_FMT_SRGGB12P, V4L2_PIX_FMT_SBGGR14,
     V4L2_PIX_FMT_SGBRG14, V4L2_PIX_FMT_SGRBG14, V4L2_PIX_FMT_SRGGB14, V4L2_PIX_FMT_SBGGR14P,
     V4L2_PIX_FMT_SGBRG14P, V4L2_PIX_FMT_SGRBG14P, V4L2_PIX_FMT_SRGGB14P, V4L2_PIX_FMT_SBGGR16,
     V4L2_PIX_FMT_SGBRG16, V4L2_PIX_FMT_SGRBG16, V4L2_PIX_FMT_SRGGB16, V4L2_PIX_FMT_HSV24,
     V4L2_PIX_FMT_HSV32, V4L2_PIX_FMT_MJPEG, V4L2_PIX_FMT_JPEG, V4L2_PIX_FMT_DV, V4L2_PIX_FMT_MPEG,
     V4L2_PIX_FMT_H264, V4L2_PIX_FMT_H264_NO_SC, V4L2_PIX_FMT_H264_MVC, V4L2_PIX_FMT_H263,
     V4L2_PIX_FMT_MPEG1, V4L2_PIX_FMT_MPEG2, V4L2_PIX_FMT_MPEG2_SLICE, V4L2_PIX_FMT_MPEG4,
     V4L2_PIX_FMT_XVID, V4L2_PIX_FMT_VC1_ANNEX_G, V4L2_PIX_FMT_VC1_ANNEX_L, V4L2_PIX_FMT_VP8,
     V4L2_PIX_FMT_VP8_FRAME, V4L2_PIX_FMT_VP9, V4L2_PIX_FMT_HEVC, V4L2_PIX_FMT_FWHT,
     V4L2_PIX_FMT_FWHT_STATELESS, V4L2_PIX_FMT_H264_SLICE, V4L2_PIX_FMT_CPIA1, V4L2_PIX_FMT_WNVA,
     V4L2_PIX_FMT_SN9C10X, V4L2_PIX_FMT_SN9C20X_I420, V4L2_PIX_FMT_PWC1, V4L2_PIX_FMT_PWC2,
     V4L2_PIX_FMT_ET61X251, V4L2_PIX_FMT_SPCA501, V4L2_PIX_FMT_SPCA505, V4L2_PIX_FMT_SPCA508,
     V4L2_PIX_FMT_SPCA561, V4L2_PIX_FMT_PAC207, V4L2_PIX_FMT_MR97310A, V4L2_PIX_FMT_JL2005BCD,
     V4L2_PIX_FMT_SN9C2028, V4L2_PIX_FMT_SQ905C, V4L2_PIX_FMT_PJPG, V4L2_PIX_FMT_OV511,
     V4L2_PIX_FMT_OV518, V4L2_PIX_FMT_STV0680, V4L2_PIX_FMT_TM6000, V4L2_PIX_FMT_CIT_YYVYUY,
     V4L2_PIX_FMT_KONICA420, V4L2_PIX_FMT_JPGL, V4L2_PIX_FMT_SE401, V4L2_PIX_FMT_S5C_UYVY_JPG,
     V4L2_PIX_FMT_Y8I, V4L2_PIX_FMT_Y12I, V4L2_PIX_FMT_Z16, V4L2_PIX_FMT_MT21C, V4L2_PIX_FMT_INZI,
     V4L2_PIX_FMT_SUNXI_TILED_NV12, V4L2_PIX_FMT_CNF4, V4L2_PIX_FMT_HI240,
     V4L2_PIX_FMT_IPU3_SBGGR10, V4L2_PIX_FMT_IPU3_SGBRG10, V4L2_PIX_FMT_IPU3_SGRBG10,
     V4L2_PIX_FMT_IPU3_SRGGB10, V4L2_SDR_FMT_CU8, V4L2_SDR_FMT_CU16LE, V4L2_SDR_FMT_CS8,
     V4L2_SDR_FMT_CS14LE, V4L2_SDR_FMT_RU12LE, V4L2_SDR_FMT_PCU16BE, V4L2_SDR_FMT_PCU18BE,
     V4L2_SDR_FMT_PCU20BE, V4L2_TCH_FMT_DELTA_TD16, V4L2_TCH_FMT_DELTA_TD08, V4L2_TCH_FMT_TU16,
     V4L2_TCH_FMT_TU08, V4L2_META_FMT_VSP1_HGO, V4L2_META_FMT_VSP1_HGT, V4L2_META_FMT_UVC,
     V4L2_META_FMT_D4XX, V4L2_META_FMT_VIVID, V4L2_META_FMT_RK_ISP1_PARAMS,
     V4L2_META_FMT_RK_ISP1_STAT_3A]"

definition v4l2_texts :: "(bool \<times> string) list" where
  "v4l2_texts = [
     (False, ''RGB1''), (False, ''R444''), (False, ''AR12''), (False, ''XR12''), (False, ''RA12''),
     (False, ''RX12''), (False, ''AB12''), (False, ''XB12''), (False, ''GA12''), (False, ''BX12''),
     (False, ''RGBO''), (False, ''AR15''), (False, ''XR15''), (False, ''RA15''), (False, ''RX15''),
     (False, ''AB15''), (False, ''XB15''), (False, ''BA15''), (False, ''BX15''), (False, ''RGBP''),
     (False, ''RGBQ''), (True, ''AR15''), (True, ''XR15''), (False, ''RGBR''), (False, ''BGRH''),
     (False, ''BGR3''), (False, ''RGB3''), (False, ''BGR4''), (False, ''AR24''), (False, ''XR24''),
     (False, ''RA24''), (False, ''RX24''), (False, ''RGB4''), (False, ''AB24''), (False, ''XB24''),
     (False, ''BA24''), (False, ''BX24''), (False, ''GREY''), (False, ''Y04 ''), (False, ''Y06 ''),
     (False, ''Y10 ''), (False, ''Y12 ''), (False, ''Y14 ''), (False, ''Y16 ''), (True, ''Y16 ''),
     (False, ''Y10B''), (False, ''Y10P''), (False, ''PAL8''), (False, ''UV8 ''), (False, ''YUYV''),
     (False, ''YYUV''), (False, ''YVYU''), (False, ''UYVY''), (False, ''VYUY''), (False, ''Y41P''),
     (False, ''Y444''), (False, ''YUVO''), (False, ''YUVP''), (False, ''YUV3''), (False, ''YUV4''),
     (False, ''AYUV''), (False, ''XYUV''), (False, ''VUYA''), (False, ''VUYX''), (False, ''M420''),
     (False, ''NV12''), (False, ''NV21''), (False, ''NV16''), (False, ''NV61''), (False, ''NV24''),
     (False, ''NV42''), (False, ''HM12''), (False, ''NM12''), (False, ''NM21''), (False, ''NM16''),
     (False, ''NM61''), (False, ''TM12''), (False, ''VM12''), (False, ''YUV9''), (False, ''YVU9''),
     (False, ''411P''), (False, ''YU12''), (False, ''YV12''), (False, ''422P''), (False, ''YM12''),
     (False, ''YM21''), (False, ''YM16''), (False, ''YM61''), (False, ''YM24''), (False, ''YM42''),
     (False, ''BA81''), (False, ''GBRG''), (False, ''GRBG''), (False, ''RGGB''), (False, ''BG10''),
     (False, ''GB10''), (False, ''BA10''), (False, ''RG10''), (False, ''pBAA''), (False, ''pGAA''),
     (False, ''pgAA''), (False, ''pRAA''), (False, ''aBA8''), (False, ''aGA8''), (False, ''agA8''),
     (False, ''aRA8''), (False, ''bBA8''), (False, ''bGA8''), (False, ''BD10''), (False, ''bRA8''),
     (False, ''BG12''), (False, ''GB12''), (False, ''BA12''), (False, ''RG12''), (False, ''pBCC''),
     (False, ''pGCC''), (False, ''pgCC''), (False, ''pRCC''), (False, ''BG14''), (False, ''GB14''),
     (False, ''GR14''), (False, ''RG14''), (False, ''pBEE''), (False, ''pGEE''), (False, ''pgEE''),
     (False, ''pREE''), (False, ''BYR2''), (False, ''GB16''), (False, ''GR16''), (False, ''RG16''),
     (False, ''HSV3''), (False, ''HSV4''), (False, ''MJPG''), (False, ''JPEG''), (False, ''dvsd''),
     (False, ''MPEG''), (False, ''H264''), (False, ''AVC1''), (False, ''M264''), (False, ''H263''),
     (False, ''MPG1''), (False, ''MPG2''), (False, ''MG2S''), (False, ''MPG4''), (False, ''XVID''),
     (False, ''VC1G''), (False, ''VC1L''), (False, ''VP80''), (False, ''VP8F''), (False, ''VP90''),
     (False, ''HEVC''), (False, ''FWHT''), (False, ''SFWH''), (False, ''S264''), (False, ''CPIA''),
     (False, ''WNVA''), (False, ''S910''), (False, ''S920''), (False, ''PWC1''), (False, ''PWC2''),
     (False, ''E625''), (False, ''S501''), (False, ''S505''), (False, ''S508''), (False, ''S561''),
     (False, ''P207''), (False, ''M310''), (False, ''JL20''), (False, ''SONX''), (False, ''905C''),
     (False, ''PJPG''), (False, ''O511''), (False, ''O518''), (False, ''S680''), (False, ''TM60''),
     (False, ''CITV''), (False, ''KONI''), (False, ''JPGL''), (False, ''S401''), (False, ''S5CI''),
     (False, ''Y8I ''), (False, ''Y12I''), (False, ''Z16 ''), (False, ''MT21''), (False, ''INZI''),
     (False, ''ST12''), (False, ''CNF4''), (False, ''HI24''), (False, ''ip3b''), (False, ''ip3g''),
     (False, ''ip3G''), (False, ''ip3r''), (False, ''CU08''), (False, ''CU16''), (False, ''CS08''),
     (False, ''CS14''), (False, ''RU12''), (False, ''PC16''), (False, ''PC18''), (False, ''PC20''),
     (False, ''TD16''), (False, ''TD08''), (False, ''TU16''), (False, ''TU08''), (False, ''VSPH''),
     (False, ''VSPT''), (False, ''UVCH''), (False, ''D4XX''), (False, ''VIVD''), (False, ''RK1P''),
     (False, ''RK1S'')]"

lemmas v4l2_format_defs =
  V4L2_PIX_FMT_RGB332_def V4L2_PIX_FMT_RGB444_def V4L2_PIX_FMT_ARGB444_def V4L2_PIX_FMT_XRGB444_def
  V4L2_PIX_FMT_RGBA444_def V4L2_PIX_FMT_RGBX444_def V4L2_PIX_FMT_ABGR444_def
  V4L2_PIX_FMT_XBGR444_def V4L2_PIX_FMT_BGRA444_def V4L2_PIX_FMT_BGRX444_def V4L2_PIX_FMT_RGB555_def
  V4L2_PIX_FMT_ARGB555_def V4L2_PIX_FMT_XRGB555_def V4L2_PIX_FMT_RGBA555_def
  V4L2_PIX_FMT_RGBX555_def V4L2_PIX_FMT_ABGR555_def V4L2_PIX_FMT_XBGR555_def
  V4L2_PIX_FMT_BGRA555_def V4L2_PIX_FMT_BGRX555_def V4L2_PIX_FMT_RGB565_def V4L2_PIX_FMT_RGB555X_def
  V4L2_PIX_FMT_ARGB555X_def V4L2_PIX_FMT_XRGB555X_def V4L2_PIX_FMT_RGB565X_def
  V4L2_PIX_FMT_BGR666_def V4L2_PIX_FMT_BGR24_def V4L2_PIX_FMT_RGB24_def V4L2_PIX_FMT_BGR32_def
  V4L2_PIX_FMT_ABGR32_def V4L2_PIX_FMT_XBGR32_def V4L2_PIX_FMT_BGRA32_def V4L2_PIX_FMT_BGRX32_def
  V4L2_PIX_FMT_RGB32_def V4L2_PIX_FMT_RGBA32_def V4L2_PIX_FMT_RGBX32_def V4L2_PIX_FMT_ARGB32_def
  V4L2_PIX_FMT_XRGB32_def V4L2_PIX_FMT_GREY_def V4L2_PIX_FMT_Y4_def V4L2_PIX_FMT_Y6_def
  V4L2_PIX_FMT_Y10_def V4L2_PIX_FMT_Y12_def V4L2_PIX_FMT_Y14_def V4L2_PIX_FMT_Y16_def
  V4L2_PIX_FMT_Y16_BE_def V4L2_PIX_FMT_Y10BPACK_def V4L2_PIX_FMT_Y10P_def V4L2_PIX_FMT_PAL8_def
  V4L2_PIX_FMT_UV8_def V4L2_PIX_FMT_YUYV_def V4L2_PIX_FMT_YYUV_def V4L2_PIX_FMT_YVYU_def
  V4L2_PIX_FMT_UYVY_def V4L2_PIX_FMT_VYUY_def V4L2_PIX_FMT_Y41P_def V4L2_PIX_FMT_YUV444_def
  V4L2_PIX_FMT_YUV555_def V4L2_PIX_FMT_YUV565_def V4L2_PIX_FMT_YUV24_def V4L2_PIX_FMT_YUV32_def
  V4L2_PIX_FMT_AYUV32_def V4L2_PIX_FMT_XYUV32_def V4L2_PIX_FMT_VUYA32_def V4L2_PIX_FMT_VUYX32_def
  V4L2_PIX_FMT_M420_def V4L2_PIX_FMT_NV12_def V4L2_PIX_FMT_NV21_def V4L2_PIX_FMT_NV16_def
  V4L2_PIX_FMT_NV61_def V4L2_PIX_FMT_NV24_def V4L2_PIX_FMT_NV42_def V4L2_PIX_FMT_HM12_def
  V4L2_PIX_FMT_NV12M_def V4L2_PIX_FMT_NV21M_def V4L2_PIX_FMT_NV16M_def V4L2_PIX_FMT_NV61M_def
  V4L2_PIX_FMT_NV12MT_def V4L2_PIX_FMT_NV12MT_16X16_def V4L2_PIX_FMT_YUV410_def
  V4L2_PIX_FMT_YVU410_def V4L2_PIX_FMT_YUV411P_def V4L2_PIX_FMT_YUV420_def V4L2_PIX_FMT_YVU420_def
  V4L2_PIX_FMT_YUV422P_def V4L2_PIX_FMT_YUV420M_def V4L2_PIX_FMT_YVU420M_def
  V4L2_PIX_FMT_YUV422M_def V4L2_PIX_FMT_YVU422M_def V4L2_PIX_FMT_YUV444M_def
  V4L2_PIX_FMT_YVU444M_def V4L2_PIX_FMT_SBGGR8_def V4L2_PIX_FMT_SGBRG8_def V4L2_PIX_FMT_SGRBG8_def
  V4L2_PIX_FMT_SRGGB8_def V4L2_PIX_FMT_SBGGR10_def V4L2_PIX_FMT_SGBRG10_def V4L2_PIX_FMT_SGRBG10_def
  V4L2_PIX_FMT_SRGGB10_def V4L2_PIX_FMT_SBGGR10P_def V4L2_PIX_FMT_SGBRG10P_def
  V4L2_PIX_FMT_SGRBG10P_def V4L2_PIX_FMT_SRGGB10P_def V4L2_PIX_FMT_SBGGR10ALAW8_def
  V4L2_PIX_FMT_SGBRG10ALAW8_def V4L2_PIX_FMT_SGRBG10ALAW8_def V4L2_PIX_FMT_SRGGB10ALAW8_def
  V4L2_PIX_FMT_SBGGR10DPCM8_def V4L2_PIX_FMT_SGBRG10DPCM8_def V4L2_PIX_FMT_SGRBG10DPCM8_def
  V4L2_PIX_FMT_SRGGB10DPCM8_def V4L2_PIX_FMT_SBGGR12_def V4L2_PIX_FMT_SGBRG12_def
  V4L2_PIX_FMT_SGRBG12_def V4L2_PIX_FMT_SRGGB12_def V4L2_PIX_FMT_SBGGR12P_def
  V4L2_PIX_FMT_SGBRG12P_def V4L2_PIX_FMT_SGRBG12P_def V4L2_PIX_FMT_SRGGB12P_def
  V4L2_PIX_FMT_SBGGR14_def V4L2_PIX_FMT_SGBRG14_def V4L2_PIX_FMT_SGRBG14_def
  V4L2_PIX_FMT_SRGGB14_def V4L2_PIX_FMT_SBGGR14P_def V4L2_PIX_FMT_SGBRG14P_def
  V4L2_PIX_FMT_SGRBG14P_def V4L2_PIX_FMT_SRGGB14P_def V4L2_PIX_FMT_SBGGR16_def
  V4L2_PIX_FMT_SGBRG16_def V4L2_PIX_FMT_SGRBG16_def V4L2_PIX_FMT_SRGGB16_def V4L2_PIX_FMT_HSV24_def
  V4L2_PIX_FMT_HSV32_def V4L2_PIX_FMT_MJPEG_def V4L2_PIX_FMT_JPEG_def V4L2_PIX_FMT_DV_def
  V4L2_PIX_FMT_MPEG_def V4L2_PIX_FMT_H264_def V4L2_PIX_FMT_H264_NO_SC_def V4L2_PIX_FMT_H264_MVC_def
  V4L2_PIX_FMT_H263_def V4L2_PIX_FMT_MPEG1_def V4L2_PIX_FMT_MPEG2_def V4L2_PIX_FMT_MPEG2_SLICE_def
  V4L2_PIX_FMT_MPEG4_def V4L2_PIX_FMT_XVID_def V4L2_PIX_FMT_VC1_ANNEX_G_def
  V4L2_PIX_FMT_VC1_ANNEX_L_def V4L2_PIX_FMT_VP8_def V4L2_PIX_FMT_VP8_FRAME_def V4L2_PIX_FMT_VP9_def
  V4L2_PIX_FMT_HEVC_def V4L2_PIX_FMT_FWHT_def V4L2_PIX_FMT_FWHT_STATELESS_def
  V4L2_PIX_FMT_H264_SLICE_def V4L2_PIX_FMT_CPIA1_def V4L2_PIX_FMT_WNVA_def V4L2_PIX_FMT_SN9C10X_def
  V4L2_PIX_FMT_SN9C20X_I420_def V4L2_PIX_FMT_PWC1_def V4L2_PIX_FMT_PWC2_def
  V4L2_PIX_FMT_ET61X251_def V4L2_PIX_FMT_SPCA501_def V4L2_PIX_FMT_SPCA505_def
  V4L2_PIX_FMT_SPCA508_def V4L2_PIX_FMT_SPCA561_def V4L2_PIX_FMT_PAC207_def
  V4L2_PIX_FMT_MR97310A_def V4L2_PIX_FMT_JL2005BCD_def V4L2_PIX_FMT_SN9C2028_def
  V4L2_PIX_FMT_SQ905C_def V4L2_PIX_FMT_PJPG_def V4L2_PIX_FMT_OV511_def V4L2_PIX_FMT_OV518_def
  V4L2_PIX_FMT_STV0680_def V4L2_PIX_FMT_TM6000_def V4L2_PIX_FMT_CIT_YYVYUY_def
  V4L2_PIX_FMT_KONICA420_def V4L2_PIX_FMT_JPGL_def V4L2_PIX_FMT_SE401_def
  V4L2_PIX_FMT_S5C_UYVY_JPG_def V4L2_PIX_FMT_Y8I_def V4L2_PIX_FMT_Y12I_def V4L2_PIX_FMT_Z16_def
  V4L2_PIX_FMT_MT21C_def V4L2_PIX_FMT_INZI_def V4L2_PIX_FMT_SUNXI_TILED_NV12_def
  V4L2_PIX_FMT_CNF4_def V4L2_PIX_FMT_HI240_def V4L2_PIX_FMT_IPU3_SBGGR10_def
  V4L2_PIX_FMT_IPU3_SGBRG10_def V4L2_PIX_FMT_IPU3_SGRBG10_def V4L2_PIX_FMT_IPU3_SRGGB10_def
  V4L2_SDR_FMT_CU8_def V4L2_SDR_FMT_CU16LE_def V4L2_SDR_FMT_CS8_def V4L2_SDR_FMT_CS14LE_def
  V4L2_SDR_FMT_RU12LE_def V4L2_SDR_FMT_PCU16BE_def V4L2_SDR_FMT_PCU18BE_def V4L2_SDR_FMT_PCU20BE_def
  V4L2_TCH_FMT_DELTA_TD16_def V4L2_TCH_FMT_DELTA_TD08_def V4L2_TCH_FMT_TU16_def
  V4L2_TCH_FMT_TU08_def V4L2_META_FMT_VSP1_HGO_def V4L2_META_FMT_VSP1_HGT_def V4L2_META_FMT_UVC_def
  V4L2_META_FMT_D4XX_def V4L2_META_FMT_VIVID_def V4L2_META_FMT_RK_ISP1_PARAMS_def
  V4L2_META_FMT_RK_ISP1_STAT_3A_def

lemma v4l2_texts_ascii: "list_all four_ascii v4l2_texts"
  unfolding v4l2_texts_def by code_simp

definition first_characters :: string where
  "first_characters = ''49AB'' @ ''CDEFGHI'' @ ''JKMNO'' @ ''PRS'' @ ''TUVWX'' @ ''YZ'' @ ''abdip''"

text \<open>Formats that begin with one of a few characters differ.\<close>

lemma v4l2_drawers_a:
  "list_all (\<lambda>c. distinct (filter (\<lambda>t. snd t ! 0 = c) v4l2_texts)) ''49AB''"
  unfolding v4l2_texts_def by code_simp

lemma v4l2_drawers_b:
  "list_all (\<lambda>c. distinct (filter (\<lambda>t. snd t ! 0 = c) v4l2_texts)) ''CDEFGHI''"
  unfolding v4l2_texts_def by code_simp

lemma v4l2_drawers_c:
  "list_all (\<lambda>c. distinct (filter (\<lambda>t. snd t ! 0 = c) v4l2_texts)) ''JKMNO''"
  unfolding v4l2_texts_def by code_simp

lemma v4l2_drawers_d:
  "list_all (\<lambda>c. distinct (filter (\<lambda>t. snd t ! 0 = c) v4l2_texts)) ''PRS''"
  unfolding v4l2_texts_def by code_simp

lemma v4l2_drawers_e:
  "list_all (\<lambda>c. distinct (filter (\<lambda>t. snd t ! 0 = c) v4l2_texts)) ''TUVWX''"
  unfolding v4l2_texts_def by code_simp

lemma v4l2_drawers_f:
  "list_all (\<lambda>c. distinct (filter (\<lambda>t. snd t ! 0 = c) v4l2_texts)) ''YZ''"
  unfolding v4l2_texts_def by code_simp

lemma v4l2_drawers_g:
  "list_all (\<lambda>c. distinct (filter (\<lambda>t. snd t ! 0 = c) v4l2_texts)) ''abdip''"
  unfolding v4l2_texts_def by code_simp

lemma v4l2_texts_distinct: "distinct v4l2_texts"
proof (rule distinct_drawers)
  show "list_all (\<lambda>t. snd t ! 0 \<in> set first_characters) v4l2_texts"
    unfolding v4l2_texts_def first_characters_def by code_simp
  show "list_all (\<lambda>c. distinct (filter (\<lambda>t. snd t ! 0 = c) v4l2_texts)) first_characters"
    unfolding first_characters_def list_all_append
    by (intro conjI v4l2_drawers_a v4l2_drawers_b v4l2_drawers_c v4l2_drawers_d v4l2_drawers_e v4l2_drawers_f v4l2_drawers_g)
qed

lemma v4l2_formats_texts: "v4l2_formats = map text_code v4l2_texts"
  unfolding v4l2_formats_def v4l2_texts_def v4l2_format_defs
  by (simp only: list.map text_code_simps)

text \<open>The two hundred and eleven format codes are pairwise different, and each is read back as its
  four characters and the byte order flag.\<close>

theorem v4l2_codes_distinct:
  "distinct v4l2_formats \<and> map code_text v4l2_formats = v4l2_texts \<and> length v4l2_formats = 211"
proof (intro conjI)
  show "distinct v4l2_formats"
    unfolding v4l2_formats_texts by (rule distinct_codes [OF v4l2_texts_ascii v4l2_texts_distinct])
  show "map code_text v4l2_formats = v4l2_texts"
    unfolding v4l2_formats_texts by (rule map_code_text [OF v4l2_texts_ascii])
  show "length v4l2_formats = 211"
    unfolding v4l2_formats_def by simp
qed

end
