(* ===== verification/Drm_Formats.thy ===== *)
theory Drm_Formats
  imports Four_Cc
begin

text \<open>
  The framebuffer format codes of \<^verbatim>\<open>drm/drm_fourcc.h\<close>, in its order.
\<close>

definition DRM_FORMAT_C8 :: u32 where
  "DRM_FORMAT_C8 = fourcc_code (ch CHR ''C'') (ch CHR ''8'') (ch CHR '' '') (ch CHR '' '')"

definition DRM_FORMAT_R8 :: u32 where
  "DRM_FORMAT_R8 = fourcc_code (ch CHR ''R'') (ch CHR ''8'') (ch CHR '' '') (ch CHR '' '')"

definition DRM_FORMAT_R16 :: u32 where
  "DRM_FORMAT_R16 = fourcc_code (ch CHR ''R'') (ch CHR ''1'') (ch CHR ''6'') (ch CHR '' '')"

definition DRM_FORMAT_RG88 :: u32 where
  "DRM_FORMAT_RG88 = fourcc_code (ch CHR ''R'') (ch CHR ''G'') (ch CHR ''8'') (ch CHR ''8'')"

definition DRM_FORMAT_GR88 :: u32 where
  "DRM_FORMAT_GR88 = fourcc_code (ch CHR ''G'') (ch CHR ''R'') (ch CHR ''8'') (ch CHR ''8'')"

definition DRM_FORMAT_RG1616 :: u32 where
  "DRM_FORMAT_RG1616 = fourcc_code (ch CHR ''R'') (ch CHR ''G'') (ch CHR ''3'') (ch CHR ''2'')"

definition DRM_FORMAT_GR1616 :: u32 where
  "DRM_FORMAT_GR1616 = fourcc_code (ch CHR ''G'') (ch CHR ''R'') (ch CHR ''3'') (ch CHR ''2'')"

definition DRM_FORMAT_RGB332 :: u32 where
  "DRM_FORMAT_RGB332 = fourcc_code (ch CHR ''R'') (ch CHR ''G'') (ch CHR ''B'') (ch CHR ''8'')"

definition DRM_FORMAT_BGR233 :: u32 where
  "DRM_FORMAT_BGR233 = fourcc_code (ch CHR ''B'') (ch CHR ''G'') (ch CHR ''R'') (ch CHR ''8'')"

definition DRM_FORMAT_XRGB4444 :: u32 where
  "DRM_FORMAT_XRGB4444 = fourcc_code (ch CHR ''X'') (ch CHR ''R'') (ch CHR ''1'') (ch CHR ''2'')"

definition DRM_FORMAT_XBGR4444 :: u32 where
  "DRM_FORMAT_XBGR4444 = fourcc_code (ch CHR ''X'') (ch CHR ''B'') (ch CHR ''1'') (ch CHR ''2'')"

definition DRM_FORMAT_RGBX4444 :: u32 where
  "DRM_FORMAT_RGBX4444 = fourcc_code (ch CHR ''R'') (ch CHR ''X'') (ch CHR ''1'') (ch CHR ''2'')"

definition DRM_FORMAT_BGRX4444 :: u32 where
  "DRM_FORMAT_BGRX4444 = fourcc_code (ch CHR ''B'') (ch CHR ''X'') (ch CHR ''1'') (ch CHR ''2'')"

definition DRM_FORMAT_ARGB4444 :: u32 where
  "DRM_FORMAT_ARGB4444 = fourcc_code (ch CHR ''A'') (ch CHR ''R'') (ch CHR ''1'') (ch CHR ''2'')"

definition DRM_FORMAT_ABGR4444 :: u32 where
  "DRM_FORMAT_ABGR4444 = fourcc_code (ch CHR ''A'') (ch CHR ''B'') (ch CHR ''1'') (ch CHR ''2'')"

definition DRM_FORMAT_RGBA4444 :: u32 where
  "DRM_FORMAT_RGBA4444 = fourcc_code (ch CHR ''R'') (ch CHR ''A'') (ch CHR ''1'') (ch CHR ''2'')"

definition DRM_FORMAT_BGRA4444 :: u32 where
  "DRM_FORMAT_BGRA4444 = fourcc_code (ch CHR ''B'') (ch CHR ''A'') (ch CHR ''1'') (ch CHR ''2'')"

definition DRM_FORMAT_XRGB1555 :: u32 where
  "DRM_FORMAT_XRGB1555 = fourcc_code (ch CHR ''X'') (ch CHR ''R'') (ch CHR ''1'') (ch CHR ''5'')"

definition DRM_FORMAT_XBGR1555 :: u32 where
  "DRM_FORMAT_XBGR1555 = fourcc_code (ch CHR ''X'') (ch CHR ''B'') (ch CHR ''1'') (ch CHR ''5'')"

definition DRM_FORMAT_RGBX5551 :: u32 where
  "DRM_FORMAT_RGBX5551 = fourcc_code (ch CHR ''R'') (ch CHR ''X'') (ch CHR ''1'') (ch CHR ''5'')"

definition DRM_FORMAT_BGRX5551 :: u32 where
  "DRM_FORMAT_BGRX5551 = fourcc_code (ch CHR ''B'') (ch CHR ''X'') (ch CHR ''1'') (ch CHR ''5'')"

definition DRM_FORMAT_ARGB1555 :: u32 where
  "DRM_FORMAT_ARGB1555 = fourcc_code (ch CHR ''A'') (ch CHR ''R'') (ch CHR ''1'') (ch CHR ''5'')"

definition DRM_FORMAT_ABGR1555 :: u32 where
  "DRM_FORMAT_ABGR1555 = fourcc_code (ch CHR ''A'') (ch CHR ''B'') (ch CHR ''1'') (ch CHR ''5'')"

definition DRM_FORMAT_RGBA5551 :: u32 where
  "DRM_FORMAT_RGBA5551 = fourcc_code (ch CHR ''R'') (ch CHR ''A'') (ch CHR ''1'') (ch CHR ''5'')"

definition DRM_FORMAT_BGRA5551 :: u32 where
  "DRM_FORMAT_BGRA5551 = fourcc_code (ch CHR ''B'') (ch CHR ''A'') (ch CHR ''1'') (ch CHR ''5'')"

definition DRM_FORMAT_RGB565 :: u32 where
  "DRM_FORMAT_RGB565 = fourcc_code (ch CHR ''R'') (ch CHR ''G'') (ch CHR ''1'') (ch CHR ''6'')"

definition DRM_FORMAT_BGR565 :: u32 where
  "DRM_FORMAT_BGR565 = fourcc_code (ch CHR ''B'') (ch CHR ''G'') (ch CHR ''1'') (ch CHR ''6'')"

definition DRM_FORMAT_RGB888 :: u32 where
  "DRM_FORMAT_RGB888 = fourcc_code (ch CHR ''R'') (ch CHR ''G'') (ch CHR ''2'') (ch CHR ''4'')"

definition DRM_FORMAT_BGR888 :: u32 where
  "DRM_FORMAT_BGR888 = fourcc_code (ch CHR ''B'') (ch CHR ''G'') (ch CHR ''2'') (ch CHR ''4'')"

definition DRM_FORMAT_XRGB8888 :: u32 where
  "DRM_FORMAT_XRGB8888 = fourcc_code (ch CHR ''X'') (ch CHR ''R'') (ch CHR ''2'') (ch CHR ''4'')"

definition DRM_FORMAT_XBGR8888 :: u32 where
  "DRM_FORMAT_XBGR8888 = fourcc_code (ch CHR ''X'') (ch CHR ''B'') (ch CHR ''2'') (ch CHR ''4'')"

definition DRM_FORMAT_RGBX8888 :: u32 where
  "DRM_FORMAT_RGBX8888 = fourcc_code (ch CHR ''R'') (ch CHR ''X'') (ch CHR ''2'') (ch CHR ''4'')"

definition DRM_FORMAT_BGRX8888 :: u32 where
  "DRM_FORMAT_BGRX8888 = fourcc_code (ch CHR ''B'') (ch CHR ''X'') (ch CHR ''2'') (ch CHR ''4'')"

definition DRM_FORMAT_ARGB8888 :: u32 where
  "DRM_FORMAT_ARGB8888 = fourcc_code (ch CHR ''A'') (ch CHR ''R'') (ch CHR ''2'') (ch CHR ''4'')"

definition DRM_FORMAT_ABGR8888 :: u32 where
  "DRM_FORMAT_ABGR8888 = fourcc_code (ch CHR ''A'') (ch CHR ''B'') (ch CHR ''2'') (ch CHR ''4'')"

definition DRM_FORMAT_RGBA8888 :: u32 where
  "DRM_FORMAT_RGBA8888 = fourcc_code (ch CHR ''R'') (ch CHR ''A'') (ch CHR ''2'') (ch CHR ''4'')"

definition DRM_FORMAT_BGRA8888 :: u32 where
  "DRM_FORMAT_BGRA8888 = fourcc_code (ch CHR ''B'') (ch CHR ''A'') (ch CHR ''2'') (ch CHR ''4'')"

definition DRM_FORMAT_XRGB2101010 :: u32 where
  "DRM_FORMAT_XRGB2101010 = fourcc_code (ch CHR ''X'') (ch CHR ''R'') (ch CHR ''3'') (ch CHR ''0'')"

definition DRM_FORMAT_XBGR2101010 :: u32 where
  "DRM_FORMAT_XBGR2101010 = fourcc_code (ch CHR ''X'') (ch CHR ''B'') (ch CHR ''3'') (ch CHR ''0'')"

definition DRM_FORMAT_RGBX1010102 :: u32 where
  "DRM_FORMAT_RGBX1010102 = fourcc_code (ch CHR ''R'') (ch CHR ''X'') (ch CHR ''3'') (ch CHR ''0'')"

definition DRM_FORMAT_BGRX1010102 :: u32 where
  "DRM_FORMAT_BGRX1010102 = fourcc_code (ch CHR ''B'') (ch CHR ''X'') (ch CHR ''3'') (ch CHR ''0'')"

definition DRM_FORMAT_ARGB2101010 :: u32 where
  "DRM_FORMAT_ARGB2101010 = fourcc_code (ch CHR ''A'') (ch CHR ''R'') (ch CHR ''3'') (ch CHR ''0'')"

definition DRM_FORMAT_ABGR2101010 :: u32 where
  "DRM_FORMAT_ABGR2101010 = fourcc_code (ch CHR ''A'') (ch CHR ''B'') (ch CHR ''3'') (ch CHR ''0'')"

definition DRM_FORMAT_RGBA1010102 :: u32 where
  "DRM_FORMAT_RGBA1010102 = fourcc_code (ch CHR ''R'') (ch CHR ''A'') (ch CHR ''3'') (ch CHR ''0'')"

definition DRM_FORMAT_BGRA1010102 :: u32 where
  "DRM_FORMAT_BGRA1010102 = fourcc_code (ch CHR ''B'') (ch CHR ''A'') (ch CHR ''3'') (ch CHR ''0'')"

definition DRM_FORMAT_XRGB16161616 :: u32 where
  "DRM_FORMAT_XRGB16161616 = fourcc_code (ch CHR ''X'') (ch CHR ''R'') (ch CHR ''4'') (ch CHR ''8'')"

definition DRM_FORMAT_XBGR16161616 :: u32 where
  "DRM_FORMAT_XBGR16161616 = fourcc_code (ch CHR ''X'') (ch CHR ''B'') (ch CHR ''4'') (ch CHR ''8'')"

definition DRM_FORMAT_ARGB16161616 :: u32 where
  "DRM_FORMAT_ARGB16161616 = fourcc_code (ch CHR ''A'') (ch CHR ''R'') (ch CHR ''4'') (ch CHR ''8'')"

definition DRM_FORMAT_ABGR16161616 :: u32 where
  "DRM_FORMAT_ABGR16161616 = fourcc_code (ch CHR ''A'') (ch CHR ''B'') (ch CHR ''4'') (ch CHR ''8'')"

definition DRM_FORMAT_XRGB16161616F :: u32 where
  "DRM_FORMAT_XRGB16161616F = fourcc_code (ch CHR ''X'') (ch CHR ''R'') (ch CHR ''4'') (ch CHR ''H'')"

definition DRM_FORMAT_XBGR16161616F :: u32 where
  "DRM_FORMAT_XBGR16161616F = fourcc_code (ch CHR ''X'') (ch CHR ''B'') (ch CHR ''4'') (ch CHR ''H'')"

definition DRM_FORMAT_ARGB16161616F :: u32 where
  "DRM_FORMAT_ARGB16161616F = fourcc_code (ch CHR ''A'') (ch CHR ''R'') (ch CHR ''4'') (ch CHR ''H'')"

definition DRM_FORMAT_ABGR16161616F :: u32 where
  "DRM_FORMAT_ABGR16161616F = fourcc_code (ch CHR ''A'') (ch CHR ''B'') (ch CHR ''4'') (ch CHR ''H'')"

definition DRM_FORMAT_AXBXGXRX106106106106 :: u32 where
  "DRM_FORMAT_AXBXGXRX106106106106 = fourcc_code (ch CHR ''A'') (ch CHR ''B'') (ch CHR ''1'') (ch CHR ''0'')"

definition DRM_FORMAT_YUYV :: u32 where
  "DRM_FORMAT_YUYV = fourcc_code (ch CHR ''Y'') (ch CHR ''U'') (ch CHR ''Y'') (ch CHR ''V'')"

definition DRM_FORMAT_YVYU :: u32 where
  "DRM_FORMAT_YVYU = fourcc_code (ch CHR ''Y'') (ch CHR ''V'') (ch CHR ''Y'') (ch CHR ''U'')"

definition DRM_FORMAT_UYVY :: u32 where
  "DRM_FORMAT_UYVY = fourcc_code (ch CHR ''U'') (ch CHR ''Y'') (ch CHR ''V'') (ch CHR ''Y'')"

definition DRM_FORMAT_VYUY :: u32 where
  "DRM_FORMAT_VYUY = fourcc_code (ch CHR ''V'') (ch CHR ''Y'') (ch CHR ''U'') (ch CHR ''Y'')"

definition DRM_FORMAT_AYUV :: u32 where
  "DRM_FORMAT_AYUV = fourcc_code (ch CHR ''A'') (ch CHR ''Y'') (ch CHR ''U'') (ch CHR ''V'')"

definition DRM_FORMAT_XYUV8888 :: u32 where
  "DRM_FORMAT_XYUV8888 = fourcc_code (ch CHR ''X'') (ch CHR ''Y'') (ch CHR ''U'') (ch CHR ''V'')"

definition DRM_FORMAT_VUY888 :: u32 where
  "DRM_FORMAT_VUY888 = fourcc_code (ch CHR ''V'') (ch CHR ''U'') (ch CHR ''2'') (ch CHR ''4'')"

definition DRM_FORMAT_VUY101010 :: u32 where
  "DRM_FORMAT_VUY101010 = fourcc_code (ch CHR ''V'') (ch CHR ''U'') (ch CHR ''3'') (ch CHR ''0'')"

definition DRM_FORMAT_Y210 :: u32 where
  "DRM_FORMAT_Y210 = fourcc_code (ch CHR ''Y'') (ch CHR ''2'') (ch CHR ''1'') (ch CHR ''0'')"

definition DRM_FORMAT_Y212 :: u32 where
  "DRM_FORMAT_Y212 = fourcc_code (ch CHR ''Y'') (ch CHR ''2'') (ch CHR ''1'') (ch CHR ''2'')"

definition DRM_FORMAT_Y216 :: u32 where
  "DRM_FORMAT_Y216 = fourcc_code (ch CHR ''Y'') (ch CHR ''2'') (ch CHR ''1'') (ch CHR ''6'')"

definition DRM_FORMAT_Y410 :: u32 where
  "DRM_FORMAT_Y410 = fourcc_code (ch CHR ''Y'') (ch CHR ''4'') (ch CHR ''1'') (ch CHR ''0'')"

definition DRM_FORMAT_Y412 :: u32 where
  "DRM_FORMAT_Y412 = fourcc_code (ch CHR ''Y'') (ch CHR ''4'') (ch CHR ''1'') (ch CHR ''2'')"

definition DRM_FORMAT_Y416 :: u32 where
  "DRM_FORMAT_Y416 = fourcc_code (ch CHR ''Y'') (ch CHR ''4'') (ch CHR ''1'') (ch CHR ''6'')"

definition DRM_FORMAT_XVYU2101010 :: u32 where
  "DRM_FORMAT_XVYU2101010 = fourcc_code (ch CHR ''X'') (ch CHR ''V'') (ch CHR ''3'') (ch CHR ''0'')"

definition DRM_FORMAT_XVYU12_16161616 :: u32 where
  "DRM_FORMAT_XVYU12_16161616 = fourcc_code (ch CHR ''X'') (ch CHR ''V'') (ch CHR ''3'') (ch CHR ''6'')"

definition DRM_FORMAT_XVYU16161616 :: u32 where
  "DRM_FORMAT_XVYU16161616 = fourcc_code (ch CHR ''X'') (ch CHR ''V'') (ch CHR ''4'') (ch CHR ''8'')"

definition DRM_FORMAT_Y0L0 :: u32 where
  "DRM_FORMAT_Y0L0 = fourcc_code (ch CHR ''Y'') (ch CHR ''0'') (ch CHR ''L'') (ch CHR ''0'')"

definition DRM_FORMAT_X0L0 :: u32 where
  "DRM_FORMAT_X0L0 = fourcc_code (ch CHR ''X'') (ch CHR ''0'') (ch CHR ''L'') (ch CHR ''0'')"

definition DRM_FORMAT_Y0L2 :: u32 where
  "DRM_FORMAT_Y0L2 = fourcc_code (ch CHR ''Y'') (ch CHR ''0'') (ch CHR ''L'') (ch CHR ''2'')"

definition DRM_FORMAT_X0L2 :: u32 where
  "DRM_FORMAT_X0L2 = fourcc_code (ch CHR ''X'') (ch CHR ''0'') (ch CHR ''L'') (ch CHR ''2'')"

definition DRM_FORMAT_YUV420_8BIT :: u32 where
  "DRM_FORMAT_YUV420_8BIT = fourcc_code (ch CHR ''Y'') (ch CHR ''U'') (ch CHR ''0'') (ch CHR ''8'')"

definition DRM_FORMAT_YUV420_10BIT :: u32 where
  "DRM_FORMAT_YUV420_10BIT = fourcc_code (ch CHR ''Y'') (ch CHR ''U'') (ch CHR ''1'') (ch CHR ''0'')"

definition DRM_FORMAT_XRGB8888_A8 :: u32 where
  "DRM_FORMAT_XRGB8888_A8 = fourcc_code (ch CHR ''X'') (ch CHR ''R'') (ch CHR ''A'') (ch CHR ''8'')"

definition DRM_FORMAT_XBGR8888_A8 :: u32 where
  "DRM_FORMAT_XBGR8888_A8 = fourcc_code (ch CHR ''X'') (ch CHR ''B'') (ch CHR ''A'') (ch CHR ''8'')"

definition DRM_FORMAT_RGBX8888_A8 :: u32 where
  "DRM_FORMAT_RGBX8888_A8 = fourcc_code (ch CHR ''R'') (ch CHR ''X'') (ch CHR ''A'') (ch CHR ''8'')"

definition DRM_FORMAT_BGRX8888_A8 :: u32 where
  "DRM_FORMAT_BGRX8888_A8 = fourcc_code (ch CHR ''B'') (ch CHR ''X'') (ch CHR ''A'') (ch CHR ''8'')"

definition DRM_FORMAT_RGB888_A8 :: u32 where
  "DRM_FORMAT_RGB888_A8 = fourcc_code (ch CHR ''R'') (ch CHR ''8'') (ch CHR ''A'') (ch CHR ''8'')"

definition DRM_FORMAT_BGR888_A8 :: u32 where
  "DRM_FORMAT_BGR888_A8 = fourcc_code (ch CHR ''B'') (ch CHR ''8'') (ch CHR ''A'') (ch CHR ''8'')"

definition DRM_FORMAT_RGB565_A8 :: u32 where
  "DRM_FORMAT_RGB565_A8 = fourcc_code (ch CHR ''R'') (ch CHR ''5'') (ch CHR ''A'') (ch CHR ''8'')"

definition DRM_FORMAT_BGR565_A8 :: u32 where
  "DRM_FORMAT_BGR565_A8 = fourcc_code (ch CHR ''B'') (ch CHR ''5'') (ch CHR ''A'') (ch CHR ''8'')"

definition DRM_FORMAT_NV12 :: u32 where
  "DRM_FORMAT_NV12 = fourcc_code (ch CHR ''N'') (ch CHR ''V'') (ch CHR ''1'') (ch CHR ''2'')"

definition DRM_FORMAT_NV21 :: u32 where
  "DRM_FORMAT_NV21 = fourcc_code (ch CHR ''N'') (ch CHR ''V'') (ch CHR ''2'') (ch CHR ''1'')"

definition DRM_FORMAT_NV16 :: u32 where
  "DRM_FORMAT_NV16 = fourcc_code (ch CHR ''N'') (ch CHR ''V'') (ch CHR ''1'') (ch CHR ''6'')"

definition DRM_FORMAT_NV61 :: u32 where
  "DRM_FORMAT_NV61 = fourcc_code (ch CHR ''N'') (ch CHR ''V'') (ch CHR ''6'') (ch CHR ''1'')"

definition DRM_FORMAT_NV24 :: u32 where
  "DRM_FORMAT_NV24 = fourcc_code (ch CHR ''N'') (ch CHR ''V'') (ch CHR ''2'') (ch CHR ''4'')"

definition DRM_FORMAT_NV42 :: u32 where
  "DRM_FORMAT_NV42 = fourcc_code (ch CHR ''N'') (ch CHR ''V'') (ch CHR ''4'') (ch CHR ''2'')"

definition DRM_FORMAT_NV15 :: u32 where
  "DRM_FORMAT_NV15 = fourcc_code (ch CHR ''N'') (ch CHR ''V'') (ch CHR ''1'') (ch CHR ''5'')"

definition DRM_FORMAT_P210 :: u32 where
  "DRM_FORMAT_P210 = fourcc_code (ch CHR ''P'') (ch CHR ''2'') (ch CHR ''1'') (ch CHR ''0'')"

definition DRM_FORMAT_P010 :: u32 where
  "DRM_FORMAT_P010 = fourcc_code (ch CHR ''P'') (ch CHR ''0'') (ch CHR ''1'') (ch CHR ''0'')"

definition DRM_FORMAT_P012 :: u32 where
  "DRM_FORMAT_P012 = fourcc_code (ch CHR ''P'') (ch CHR ''0'') (ch CHR ''1'') (ch CHR ''2'')"

definition DRM_FORMAT_P016 :: u32 where
  "DRM_FORMAT_P016 = fourcc_code (ch CHR ''P'') (ch CHR ''0'') (ch CHR ''1'') (ch CHR ''6'')"

definition DRM_FORMAT_P030 :: u32 where
  "DRM_FORMAT_P030 = fourcc_code (ch CHR ''P'') (ch CHR ''0'') (ch CHR ''3'') (ch CHR ''0'')"

definition DRM_FORMAT_Q410 :: u32 where
  "DRM_FORMAT_Q410 = fourcc_code (ch CHR ''Q'') (ch CHR ''4'') (ch CHR ''1'') (ch CHR ''0'')"

definition DRM_FORMAT_Q401 :: u32 where
  "DRM_FORMAT_Q401 = fourcc_code (ch CHR ''Q'') (ch CHR ''4'') (ch CHR ''0'') (ch CHR ''1'')"

definition DRM_FORMAT_YUV410 :: u32 where
  "DRM_FORMAT_YUV410 = fourcc_code (ch CHR ''Y'') (ch CHR ''U'') (ch CHR ''V'') (ch CHR ''9'')"

definition DRM_FORMAT_YVU410 :: u32 where
  "DRM_FORMAT_YVU410 = fourcc_code (ch CHR ''Y'') (ch CHR ''V'') (ch CHR ''U'') (ch CHR ''9'')"

definition DRM_FORMAT_YUV411 :: u32 where
  "DRM_FORMAT_YUV411 = fourcc_code (ch CHR ''Y'') (ch CHR ''U'') (ch CHR ''1'') (ch CHR ''1'')"

definition DRM_FORMAT_YVU411 :: u32 where
  "DRM_FORMAT_YVU411 = fourcc_code (ch CHR ''Y'') (ch CHR ''V'') (ch CHR ''1'') (ch CHR ''1'')"

definition DRM_FORMAT_YUV420 :: u32 where
  "DRM_FORMAT_YUV420 = fourcc_code (ch CHR ''Y'') (ch CHR ''U'') (ch CHR ''1'') (ch CHR ''2'')"

definition DRM_FORMAT_YVU420 :: u32 where
  "DRM_FORMAT_YVU420 = fourcc_code (ch CHR ''Y'') (ch CHR ''V'') (ch CHR ''1'') (ch CHR ''2'')"

definition DRM_FORMAT_YUV422 :: u32 where
  "DRM_FORMAT_YUV422 = fourcc_code (ch CHR ''Y'') (ch CHR ''U'') (ch CHR ''1'') (ch CHR ''6'')"

definition DRM_FORMAT_YVU422 :: u32 where
  "DRM_FORMAT_YVU422 = fourcc_code (ch CHR ''Y'') (ch CHR ''V'') (ch CHR ''1'') (ch CHR ''6'')"

definition DRM_FORMAT_YUV444 :: u32 where
  "DRM_FORMAT_YUV444 = fourcc_code (ch CHR ''Y'') (ch CHR ''U'') (ch CHR ''2'') (ch CHR ''4'')"

definition DRM_FORMAT_YVU444 :: u32 where
  "DRM_FORMAT_YVU444 = fourcc_code (ch CHR ''Y'') (ch CHR ''V'') (ch CHR ''2'') (ch CHR ''4'')"

section \<open>The table\<close>

definition drm_formats :: "u32 list" where
  "drm_formats = [
    DRM_FORMAT_C8, DRM_FORMAT_R8, DRM_FORMAT_R16, DRM_FORMAT_RG88, DRM_FORMAT_GR88,
     DRM_FORMAT_RG1616, DRM_FORMAT_GR1616, DRM_FORMAT_RGB332, DRM_FORMAT_BGR233,
     DRM_FORMAT_XRGB4444, DRM_FORMAT_XBGR4444, DRM_FORMAT_RGBX4444, DRM_FORMAT_BGRX4444,
     DRM_FORMAT_ARGB4444, DRM_FORMAT_ABGR4444, DRM_FORMAT_RGBA4444, DRM_FORMAT_BGRA4444,
     DRM_FORMAT_XRGB1555, DRM_FORMAT_XBGR1555, DRM_FORMAT_RGBX5551, DRM_FORMAT_BGRX5551,
     DRM_FORMAT_ARGB1555, DRM_FORMAT_ABGR1555, DRM_FORMAT_RGBA5551, DRM_FORMAT_BGRA5551,
     DRM_FORMAT_RGB565, DRM_FORMAT_BGR565, DRM_FORMAT_RGB888, DRM_FORMAT_BGR888,
     DRM_FORMAT_XRGB8888, DRM_FORMAT_XBGR8888, DRM_FORMAT_RGBX8888, DRM_FORMAT_BGRX8888,
     DRM_FORMAT_ARGB8888, DRM_FORMAT_ABGR8888, DRM_FORMAT_RGBA8888, DRM_FORMAT_BGRA8888,
     DRM_FORMAT_XRGB2101010, DRM_FORMAT_XBGR2101010, DRM_FORMAT_RGBX1010102,
     DRM_FORMAT_BGRX1010102, DRM_FORMAT_ARGB2101010, DRM_FORMAT_ABGR2101010,
     DRM_FORMAT_RGBA1010102, DRM_FORMAT_BGRA1010102, DRM_FORMAT_XRGB16161616,
     DRM_FORMAT_XBGR16161616, DRM_FORMAT_ARGB16161616, DRM_FORMAT_ABGR16161616,
     DRM_FORMAT_XRGB16161616F, DRM_FORMAT_XBGR16161616F, DRM_FORMAT_ARGB16161616F,
     DRM_FORMAT_ABGR16161616F, DRM_FORMAT_AXBXGXRX106106106106, DRM_FORMAT_YUYV, DRM_FORMAT_YVYU,
     DRM_FORMAT_UYVY, DRM_FORMAT_VYUY, DRM_FORMAT_AYUV, DRM_FORMAT_XYUV8888, DRM_FORMAT_VUY888,
     DRM_FORMAT_VUY101010, DRM_FORMAT_Y210, DRM_FORMAT_Y212, DRM_FORMAT_Y216, DRM_FORMAT_Y410,
     DRM_FORMAT_Y412, DRM_FORMAT_Y416, DRM_FORMAT_XVYU2101010, DRM_FORMAT_XVYU12_16161616,
     DRM_FORMAT_XVYU16161616, DRM_FORMAT_Y0L0, DRM_FORMAT_X0L0, DRM_FORMAT_Y0L2, DRM_FORMAT_X0L2,
     DRM_FORMAT_YUV420_8BIT, DRM_FORMAT_YUV420_10BIT, DRM_FORMAT_XRGB8888_A8,
     DRM_FORMAT_XBGR8888_A8, DRM_FORMAT_RGBX8888_A8, DRM_FORMAT_BGRX8888_A8, DRM_FORMAT_RGB888_A8,
     DRM_FORMAT_BGR888_A8, DRM_FORMAT_RGB565_A8, DRM_FORMAT_BGR565_A8, DRM_FORMAT_NV12,
     DRM_FORMAT_NV21, DRM_FORMAT_NV16, DRM_FORMAT_NV61, DRM_FORMAT_NV24, DRM_FORMAT_NV42,
     DRM_FORMAT_NV15, DRM_FORMAT_P210, DRM_FORMAT_P010, DRM_FORMAT_P012, DRM_FORMAT_P016,
     DRM_FORMAT_P030, DRM_FORMAT_Q410, DRM_FORMAT_Q401, DRM_FORMAT_YUV410, DRM_FORMAT_YVU410,
     DRM_FORMAT_YUV411, DRM_FORMAT_YVU411, DRM_FORMAT_YUV420, DRM_FORMAT_YVU420, DRM_FORMAT_YUV422,
     DRM_FORMAT_YVU422, DRM_FORMAT_YUV444, DRM_FORMAT_YVU444]"

definition drm_texts :: "(bool \<times> string) list" where
  "drm_texts = [
     (False, ''C8  ''), (False, ''R8  ''), (False, ''R16 ''), (False, ''RG88''), (False, ''GR88''),
     (False, ''RG32''), (False, ''GR32''), (False, ''RGB8''), (False, ''BGR8''), (False, ''XR12''),
     (False, ''XB12''), (False, ''RX12''), (False, ''BX12''), (False, ''AR12''), (False, ''AB12''),
     (False, ''RA12''), (False, ''BA12''), (False, ''XR15''), (False, ''XB15''), (False, ''RX15''),
     (False, ''BX15''), (False, ''AR15''), (False, ''AB15''), (False, ''RA15''), (False, ''BA15''),
     (False, ''RG16''), (False, ''BG16''), (False, ''RG24''), (False, ''BG24''), (False, ''XR24''),
     (False, ''XB24''), (False, ''RX24''), (False, ''BX24''), (False, ''AR24''), (False, ''AB24''),
     (False, ''RA24''), (False, ''BA24''), (False, ''XR30''), (False, ''XB30''), (False, ''RX30''),
     (False, ''BX30''), (False, ''AR30''), (False, ''AB30''), (False, ''RA30''), (False, ''BA30''),
     (False, ''XR48''), (False, ''XB48''), (False, ''AR48''), (False, ''AB48''), (False, ''XR4H''),
     (False, ''XB4H''), (False, ''AR4H''), (False, ''AB4H''), (False, ''AB10''), (False, ''YUYV''),
     (False, ''YVYU''), (False, ''UYVY''), (False, ''VYUY''), (False, ''AYUV''), (False, ''XYUV''),
     (False, ''VU24''), (False, ''VU30''), (False, ''Y210''), (False, ''Y212''), (False, ''Y216''),
     (False, ''Y410''), (False, ''Y412''), (False, ''Y416''), (False, ''XV30''), (False, ''XV36''),
     (False, ''XV48''), (False, ''Y0L0''), (False, ''X0L0''), (False, ''Y0L2''), (False, ''X0L2''),
     (False, ''YU08''), (False, ''YU10''), (False, ''XRA8''), (False, ''XBA8''), (False, ''RXA8''),
     (False, ''BXA8''), (False, ''R8A8''), (False, ''B8A8''), (False, ''R5A8''), (False, ''B5A8''),
     (False, ''NV12''), (False, ''NV21''), (False, ''NV16''), (False, ''NV61''), (False, ''NV24''),
     (False, ''NV42''), (False, ''NV15''), (False, ''P210''), (False, ''P010''), (False, ''P012''),
     (False, ''P016''), (False, ''P030''), (False, ''Q410''), (False, ''Q401''), (False, ''YUV9''),
     (False, ''YVU9''), (False, ''YU11''), (False, ''YV11''), (False, ''YU12''), (False, ''YV12''),
     (False, ''YU16''), (False, ''YV16''), (False, ''YU24''), (False, ''YV24'')]"

lemmas drm_format_defs =
  DRM_FORMAT_C8_def DRM_FORMAT_R8_def DRM_FORMAT_R16_def DRM_FORMAT_RG88_def DRM_FORMAT_GR88_def
  DRM_FORMAT_RG1616_def DRM_FORMAT_GR1616_def DRM_FORMAT_RGB332_def DRM_FORMAT_BGR233_def
  DRM_FORMAT_XRGB4444_def DRM_FORMAT_XBGR4444_def DRM_FORMAT_RGBX4444_def DRM_FORMAT_BGRX4444_def
  DRM_FORMAT_ARGB4444_def DRM_FORMAT_ABGR4444_def DRM_FORMAT_RGBA4444_def DRM_FORMAT_BGRA4444_def
  DRM_FORMAT_XRGB1555_def DRM_FORMAT_XBGR1555_def DRM_FORMAT_RGBX5551_def DRM_FORMAT_BGRX5551_def
  DRM_FORMAT_ARGB1555_def DRM_FORMAT_ABGR1555_def DRM_FORMAT_RGBA5551_def DRM_FORMAT_BGRA5551_def
  DRM_FORMAT_RGB565_def DRM_FORMAT_BGR565_def DRM_FORMAT_RGB888_def DRM_FORMAT_BGR888_def
  DRM_FORMAT_XRGB8888_def DRM_FORMAT_XBGR8888_def DRM_FORMAT_RGBX8888_def DRM_FORMAT_BGRX8888_def
  DRM_FORMAT_ARGB8888_def DRM_FORMAT_ABGR8888_def DRM_FORMAT_RGBA8888_def DRM_FORMAT_BGRA8888_def
  DRM_FORMAT_XRGB2101010_def DRM_FORMAT_XBGR2101010_def DRM_FORMAT_RGBX1010102_def
  DRM_FORMAT_BGRX1010102_def DRM_FORMAT_ARGB2101010_def DRM_FORMAT_ABGR2101010_def
  DRM_FORMAT_RGBA1010102_def DRM_FORMAT_BGRA1010102_def DRM_FORMAT_XRGB16161616_def
  DRM_FORMAT_XBGR16161616_def DRM_FORMAT_ARGB16161616_def DRM_FORMAT_ABGR16161616_def
  DRM_FORMAT_XRGB16161616F_def DRM_FORMAT_XBGR16161616F_def DRM_FORMAT_ARGB16161616F_def
  DRM_FORMAT_ABGR16161616F_def DRM_FORMAT_AXBXGXRX106106106106_def DRM_FORMAT_YUYV_def
  DRM_FORMAT_YVYU_def DRM_FORMAT_UYVY_def DRM_FORMAT_VYUY_def DRM_FORMAT_AYUV_def
  DRM_FORMAT_XYUV8888_def DRM_FORMAT_VUY888_def DRM_FORMAT_VUY101010_def DRM_FORMAT_Y210_def
  DRM_FORMAT_Y212_def DRM_FORMAT_Y216_def DRM_FORMAT_Y410_def DRM_FORMAT_Y412_def
  DRM_FORMAT_Y416_def DRM_FORMAT_XVYU2101010_def DRM_FORMAT_XVYU12_16161616_def
  DRM_FORMAT_XVYU16161616_def DRM_FORMAT_Y0L0_def DRM_FORMAT_X0L0_def DRM_FORMAT_Y0L2_def
  DRM_FORMAT_X0L2_def DRM_FORMAT_YUV420_8BIT_def DRM_FORMAT_YUV420_10BIT_def
  DRM_FORMAT_XRGB8888_A8_def DRM_FORMAT_XBGR8888_A8_def DRM_FORMAT_RGBX8888_A8_def
  DRM_FORMAT_BGRX8888_A8_def DRM_FORMAT_RGB888_A8_def DRM_FORMAT_BGR888_A8_def
  DRM_FORMAT_RGB565_A8_def DRM_FORMAT_BGR565_A8_def DRM_FORMAT_NV12_def DRM_FORMAT_NV21_def
  DRM_FORMAT_NV16_def DRM_FORMAT_NV61_def DRM_FORMAT_NV24_def DRM_FORMAT_NV42_def
  DRM_FORMAT_NV15_def DRM_FORMAT_P210_def DRM_FORMAT_P010_def DRM_FORMAT_P012_def
  DRM_FORMAT_P016_def DRM_FORMAT_P030_def DRM_FORMAT_Q410_def DRM_FORMAT_Q401_def
  DRM_FORMAT_YUV410_def DRM_FORMAT_YVU410_def DRM_FORMAT_YUV411_def DRM_FORMAT_YVU411_def
  DRM_FORMAT_YUV420_def DRM_FORMAT_YVU420_def DRM_FORMAT_YUV422_def DRM_FORMAT_YVU422_def
  DRM_FORMAT_YUV444_def DRM_FORMAT_YVU444_def

lemma drm_texts_ascii: "list_all four_ascii drm_texts"
  unfolding drm_texts_def by code_simp

lemma drm_texts_distinct: "distinct drm_texts"
  unfolding drm_texts_def by code_simp

lemma drm_formats_texts: "drm_formats = map text_code drm_texts"
  unfolding drm_formats_def drm_texts_def drm_format_defs fourcc_code_v4l2
  by (simp only: list.map text_code_simps)

text \<open>
  The codes are pairwise different, none is the invalid code, and none has the byte order flag set,
  so a format and its big-endian variant cannot be taken for two little-endian ones.
\<close>

theorem drm_codes_distinct:
  "distinct drm_formats \<and> map code_text drm_formats = drm_texts \<and> DRM_FORMAT_INVALID \<notin> set drm_formats \<and>
    list_all (\<lambda>f. \<not> bit f 31) drm_formats"
proof -
  have t: "map code_text drm_formats = drm_texts"
    unfolding drm_formats_texts by (rule map_code_text [OF drm_texts_ascii])
  have flags: "list_all (\<lambda>t. \<not> fst t \<and> snd t ! 0 \<noteq> CHR 0x00) drm_texts"
    unfolding drm_texts_def by code_simp
  have "list_all (\<lambda>f. \<not> fst (code_text f) \<and> snd (code_text f) ! 0 \<noteq> CHR 0x00) drm_formats"
    using flags unfolding t [symmetric] by (simp add: list.pred_map comp_def)
  then have "list_all (\<lambda>f. \<not> bit f 31 \<and> f \<noteq> 0) drm_formats"
    by (rule list.pred_mono_strong) (auto simp: code_text_def char_at_def)
  then show ?thesis
    using t distinct_codes [OF drm_texts_ascii drm_texts_distinct]
    by (auto simp: drm_formats_texts list_all_iff DRM_FORMAT_INVALID_def)
qed

end
