(* ===== verification/Drm_Modifier.thy ===== *)
theory Drm_Modifier
  imports Four_Cc Bit_Field
begin

text \<open>
  Framebuffer modifiers of \<^verbatim>\<open>drm/drm_fourcc.h\<close>: a vendor number over a value of 56 bits, and the
  parameters that the vendors' macros pack into the value.  The macro \<^verbatim>\<open>fourcc_mod_code\<close> pastes the
  vendor's name; here it takes the vendor's number.
\<close>

section \<open>Vendors and values\<close>

definition DRM_FORMAT_MOD_VENDOR_NONE :: u64 where "DRM_FORMAT_MOD_VENDOR_NONE = 0"

definition DRM_FORMAT_MOD_VENDOR_INTEL :: u64 where "DRM_FORMAT_MOD_VENDOR_INTEL = 0x01"

definition DRM_FORMAT_MOD_VENDOR_AMD :: u64 where "DRM_FORMAT_MOD_VENDOR_AMD = 0x02"

definition DRM_FORMAT_MOD_VENDOR_NVIDIA :: u64 where "DRM_FORMAT_MOD_VENDOR_NVIDIA = 0x03"

definition DRM_FORMAT_MOD_VENDOR_SAMSUNG :: u64 where "DRM_FORMAT_MOD_VENDOR_SAMSUNG = 0x04"

definition DRM_FORMAT_MOD_VENDOR_QCOM :: u64 where "DRM_FORMAT_MOD_VENDOR_QCOM = 0x05"

definition DRM_FORMAT_MOD_VENDOR_VIVANTE :: u64 where "DRM_FORMAT_MOD_VENDOR_VIVANTE = 0x06"

definition DRM_FORMAT_MOD_VENDOR_BROADCOM :: u64 where "DRM_FORMAT_MOD_VENDOR_BROADCOM = 0x07"

definition DRM_FORMAT_MOD_VENDOR_ARM :: u64 where "DRM_FORMAT_MOD_VENDOR_ARM = 0x08"

definition DRM_FORMAT_MOD_VENDOR_ALLWINNER :: u64 where "DRM_FORMAT_MOD_VENDOR_ALLWINNER = 0x09"

definition DRM_FORMAT_MOD_VENDOR_AMLOGIC :: u64 where "DRM_FORMAT_MOD_VENDOR_AMLOGIC = 0x0a"

definition DRM_FORMAT_RESERVED :: u64 where "DRM_FORMAT_RESERVED = push_bit 56 1 - 1"

definition fourcc_mod_code :: "u64 \<Rightarrow> u64 \<Rightarrow> u64" where
  "fourcc_mod_code vendor val = push_bit 56 vendor OR (val AND 0x00ffffffffffffff)"

section \<open>Modifiers without parameters\<close>

definition DRM_FORMAT_MOD_INVALID :: u64 where
  "DRM_FORMAT_MOD_INVALID = fourcc_mod_code DRM_FORMAT_MOD_VENDOR_NONE DRM_FORMAT_RESERVED"

definition DRM_FORMAT_MOD_LINEAR :: u64 where
  "DRM_FORMAT_MOD_LINEAR = fourcc_mod_code DRM_FORMAT_MOD_VENDOR_NONE 0"

definition I915_FORMAT_MOD_X_TILED :: u64 where
  "I915_FORMAT_MOD_X_TILED = fourcc_mod_code DRM_FORMAT_MOD_VENDOR_INTEL 1"

definition I915_FORMAT_MOD_Y_TILED :: u64 where
  "I915_FORMAT_MOD_Y_TILED = fourcc_mod_code DRM_FORMAT_MOD_VENDOR_INTEL 2"

definition I915_FORMAT_MOD_Yf_TILED :: u64 where
  "I915_FORMAT_MOD_Yf_TILED = fourcc_mod_code DRM_FORMAT_MOD_VENDOR_INTEL 3"

definition I915_FORMAT_MOD_Y_TILED_CCS :: u64 where
  "I915_FORMAT_MOD_Y_TILED_CCS = fourcc_mod_code DRM_FORMAT_MOD_VENDOR_INTEL 4"

definition I915_FORMAT_MOD_Yf_TILED_CCS :: u64 where
  "I915_FORMAT_MOD_Yf_TILED_CCS = fourcc_mod_code DRM_FORMAT_MOD_VENDOR_INTEL 5"

definition I915_FORMAT_MOD_Y_TILED_GEN12_RC_CCS :: u64 where
  "I915_FORMAT_MOD_Y_TILED_GEN12_RC_CCS = fourcc_mod_code DRM_FORMAT_MOD_VENDOR_INTEL 6"

definition I915_FORMAT_MOD_Y_TILED_GEN12_MC_CCS :: u64 where
  "I915_FORMAT_MOD_Y_TILED_GEN12_MC_CCS = fourcc_mod_code DRM_FORMAT_MOD_VENDOR_INTEL 7"

definition I915_FORMAT_MOD_Y_TILED_GEN12_RC_CCS_CC :: u64 where
  "I915_FORMAT_MOD_Y_TILED_GEN12_RC_CCS_CC = fourcc_mod_code DRM_FORMAT_MOD_VENDOR_INTEL 8"

definition DRM_FORMAT_MOD_SAMSUNG_64_32_TILE :: u64 where
  "DRM_FORMAT_MOD_SAMSUNG_64_32_TILE = fourcc_mod_code DRM_FORMAT_MOD_VENDOR_SAMSUNG 1"

definition DRM_FORMAT_MOD_SAMSUNG_16_16_TILE :: u64 where
  "DRM_FORMAT_MOD_SAMSUNG_16_16_TILE = fourcc_mod_code DRM_FORMAT_MOD_VENDOR_SAMSUNG 2"

definition DRM_FORMAT_MOD_QCOM_COMPRESSED :: u64 where
  "DRM_FORMAT_MOD_QCOM_COMPRESSED = fourcc_mod_code DRM_FORMAT_MOD_VENDOR_QCOM 1"

definition DRM_FORMAT_MOD_VIVANTE_TILED :: u64 where
  "DRM_FORMAT_MOD_VIVANTE_TILED = fourcc_mod_code DRM_FORMAT_MOD_VENDOR_VIVANTE 1"

definition DRM_FORMAT_MOD_VIVANTE_SUPER_TILED :: u64 where
  "DRM_FORMAT_MOD_VIVANTE_SUPER_TILED = fourcc_mod_code DRM_FORMAT_MOD_VENDOR_VIVANTE 2"

definition DRM_FORMAT_MOD_VIVANTE_SPLIT_TILED :: u64 where
  "DRM_FORMAT_MOD_VIVANTE_SPLIT_TILED = fourcc_mod_code DRM_FORMAT_MOD_VENDOR_VIVANTE 3"

definition DRM_FORMAT_MOD_VIVANTE_SPLIT_SUPER_TILED :: u64 where
  "DRM_FORMAT_MOD_VIVANTE_SPLIT_SUPER_TILED = fourcc_mod_code DRM_FORMAT_MOD_VENDOR_VIVANTE 4"

definition DRM_FORMAT_MOD_NVIDIA_TEGRA_TILED :: u64 where
  "DRM_FORMAT_MOD_NVIDIA_TEGRA_TILED = fourcc_mod_code DRM_FORMAT_MOD_VENDOR_NVIDIA 1"

definition DRM_FORMAT_MOD_BROADCOM_VC4_T_TILED :: u64 where
  "DRM_FORMAT_MOD_BROADCOM_VC4_T_TILED = fourcc_mod_code DRM_FORMAT_MOD_VENDOR_BROADCOM 1"

definition DRM_FORMAT_MOD_BROADCOM_UIF :: u64 where
  "DRM_FORMAT_MOD_BROADCOM_UIF = fourcc_mod_code DRM_FORMAT_MOD_VENDOR_BROADCOM 6"

definition DRM_FORMAT_MOD_ALLWINNER_TILED :: u64 where
  "DRM_FORMAT_MOD_ALLWINNER_TILED = fourcc_mod_code DRM_FORMAT_MOD_VENDOR_ALLWINNER 1"

definition AMD_FMT_MOD :: u64 where
  "AMD_FMT_MOD = fourcc_mod_code DRM_FORMAT_MOD_VENDOR_AMD 0"

definition DRM_FORMAT_MOD_GENERIC_16_16_TILE :: u64 where
  "DRM_FORMAT_MOD_GENERIC_16_16_TILE = DRM_FORMAT_MOD_SAMSUNG_16_16_TILE"

definition DRM_FORMAT_MOD_NONE :: u64 where "DRM_FORMAT_MOD_NONE = 0"

section \<open>NVIDIA block linear layouts\<close>

definition DRM_FORMAT_MOD_NVIDIA_BLOCK_LINEAR_2D ::
    "u64 \<Rightarrow> u64 \<Rightarrow> u64 \<Rightarrow> u64 \<Rightarrow> u64 \<Rightarrow> u64" where
  "DRM_FORMAT_MOD_NVIDIA_BLOCK_LINEAR_2D c s g k h =
     fourcc_mod_code DRM_FORMAT_MOD_VENDOR_NVIDIA
       (0x10 OR (h AND 0xf) OR push_bit 12 (k AND 0xff) OR push_bit 20 (g AND 0x3) OR
        push_bit 22 (s AND 0x1) OR push_bit 23 (c AND 0x7))"

definition drm_fourcc_canonicalize_nvidia_format_mod :: "u64 \<Rightarrow> u64" where
  "drm_fourcc_canonicalize_nvidia_format_mod modifier =
     (if \<not> modifier AND 0x10 \<noteq> 0 \<or> modifier AND push_bit 12 0xff \<noteq> 0 then modifier
      else modifier OR push_bit 12 0xfe)"

definition DRM_FORMAT_MOD_NVIDIA_16BX2_BLOCK :: "u64 \<Rightarrow> u64" where
  "DRM_FORMAT_MOD_NVIDIA_16BX2_BLOCK v = DRM_FORMAT_MOD_NVIDIA_BLOCK_LINEAR_2D 0 0 0 0 v"

definition DRM_FORMAT_MOD_NVIDIA_16BX2_BLOCK_ONE_GOB :: u64 where
  "DRM_FORMAT_MOD_NVIDIA_16BX2_BLOCK_ONE_GOB = DRM_FORMAT_MOD_NVIDIA_16BX2_BLOCK 0"

definition DRM_FORMAT_MOD_NVIDIA_16BX2_BLOCK_TWO_GOB :: u64 where
  "DRM_FORMAT_MOD_NVIDIA_16BX2_BLOCK_TWO_GOB = DRM_FORMAT_MOD_NVIDIA_16BX2_BLOCK 1"

definition DRM_FORMAT_MOD_NVIDIA_16BX2_BLOCK_FOUR_GOB :: u64 where
  "DRM_FORMAT_MOD_NVIDIA_16BX2_BLOCK_FOUR_GOB = DRM_FORMAT_MOD_NVIDIA_16BX2_BLOCK 2"

definition DRM_FORMAT_MOD_NVIDIA_16BX2_BLOCK_EIGHT_GOB :: u64 where
  "DRM_FORMAT_MOD_NVIDIA_16BX2_BLOCK_EIGHT_GOB = DRM_FORMAT_MOD_NVIDIA_16BX2_BLOCK 3"

definition DRM_FORMAT_MOD_NVIDIA_16BX2_BLOCK_SIXTEEN_GOB :: u64 where
  "DRM_FORMAT_MOD_NVIDIA_16BX2_BLOCK_SIXTEEN_GOB = DRM_FORMAT_MOD_NVIDIA_16BX2_BLOCK 4"

definition DRM_FORMAT_MOD_NVIDIA_16BX2_BLOCK_THIRTYTWO_GOB :: u64 where
  "DRM_FORMAT_MOD_NVIDIA_16BX2_BLOCK_THIRTYTWO_GOB = DRM_FORMAT_MOD_NVIDIA_16BX2_BLOCK 5"

section \<open>Broadcom column layouts\<close>

definition fourcc_mod_broadcom_param_shift :: nat where "fourcc_mod_broadcom_param_shift = 8"

definition fourcc_mod_broadcom_param_bits :: nat where "fourcc_mod_broadcom_param_bits = 48"

definition fourcc_mod_broadcom_code :: "u64 \<Rightarrow> u64 \<Rightarrow> u64" where
  "fourcc_mod_broadcom_code val params =
     fourcc_mod_code DRM_FORMAT_MOD_VENDOR_BROADCOM
       (push_bit fourcc_mod_broadcom_param_shift params OR val)"

text \<open>The parameter is cast to \<^verbatim>\<open>int\<close>.\<close>

definition fourcc_mod_broadcom_param :: "u64 \<Rightarrow> int" where
  "fourcc_mod_broadcom_param m =
     sint (ucast (drop_bit fourcc_mod_broadcom_param_shift m AND
       (push_bit fourcc_mod_broadcom_param_bits 1 - 1)) :: u32)"

definition fourcc_mod_broadcom_mod :: "u64 \<Rightarrow> u64" where
  "fourcc_mod_broadcom_mod m =
     m AND NOT (push_bit fourcc_mod_broadcom_param_shift (push_bit fourcc_mod_broadcom_param_bits 1 - 1))"

definition DRM_FORMAT_MOD_BROADCOM_SAND32_COL_HEIGHT :: "u64 \<Rightarrow> u64" where
  "DRM_FORMAT_MOD_BROADCOM_SAND32_COL_HEIGHT v = fourcc_mod_broadcom_code 2 v"

definition DRM_FORMAT_MOD_BROADCOM_SAND64_COL_HEIGHT :: "u64 \<Rightarrow> u64" where
  "DRM_FORMAT_MOD_BROADCOM_SAND64_COL_HEIGHT v = fourcc_mod_broadcom_code 3 v"

definition DRM_FORMAT_MOD_BROADCOM_SAND128_COL_HEIGHT :: "u64 \<Rightarrow> u64" where
  "DRM_FORMAT_MOD_BROADCOM_SAND128_COL_HEIGHT v = fourcc_mod_broadcom_code 4 v"

definition DRM_FORMAT_MOD_BROADCOM_SAND256_COL_HEIGHT :: "u64 \<Rightarrow> u64" where
  "DRM_FORMAT_MOD_BROADCOM_SAND256_COL_HEIGHT v = fourcc_mod_broadcom_code 5 v"

definition DRM_FORMAT_MOD_BROADCOM_SAND32 :: u64 where
  "DRM_FORMAT_MOD_BROADCOM_SAND32 = DRM_FORMAT_MOD_BROADCOM_SAND32_COL_HEIGHT 0"

definition DRM_FORMAT_MOD_BROADCOM_SAND64 :: u64 where
  "DRM_FORMAT_MOD_BROADCOM_SAND64 = DRM_FORMAT_MOD_BROADCOM_SAND64_COL_HEIGHT 0"

definition DRM_FORMAT_MOD_BROADCOM_SAND128 :: u64 where
  "DRM_FORMAT_MOD_BROADCOM_SAND128 = DRM_FORMAT_MOD_BROADCOM_SAND128_COL_HEIGHT 0"

definition DRM_FORMAT_MOD_BROADCOM_SAND256 :: u64 where
  "DRM_FORMAT_MOD_BROADCOM_SAND256 = DRM_FORMAT_MOD_BROADCOM_SAND256_COL_HEIGHT 0"

section \<open>Arm and Amlogic compression\<close>

definition DRM_FORMAT_MOD_ARM_TYPE_AFBC :: u64 where "DRM_FORMAT_MOD_ARM_TYPE_AFBC = 0x00"

definition DRM_FORMAT_MOD_ARM_TYPE_MISC :: u64 where "DRM_FORMAT_MOD_ARM_TYPE_MISC = 0x01"

definition DRM_FORMAT_MOD_ARM_TYPE_AFRC :: u64 where "DRM_FORMAT_MOD_ARM_TYPE_AFRC = 0x02"

definition DRM_FORMAT_MOD_ARM_CODE :: "u64 \<Rightarrow> u64 \<Rightarrow> u64" where
  "DRM_FORMAT_MOD_ARM_CODE type val =
     fourcc_mod_code DRM_FORMAT_MOD_VENDOR_ARM (push_bit 52 type OR (val AND 0x000fffffffffffff))"

definition DRM_FORMAT_MOD_ARM_AFBC :: "u64 \<Rightarrow> u64" where
  "DRM_FORMAT_MOD_ARM_AFBC afbc_mode = DRM_FORMAT_MOD_ARM_CODE DRM_FORMAT_MOD_ARM_TYPE_AFBC afbc_mode"

definition DRM_FORMAT_MOD_ARM_AFRC :: "u64 \<Rightarrow> u64" where
  "DRM_FORMAT_MOD_ARM_AFRC afrc_mode = DRM_FORMAT_MOD_ARM_CODE DRM_FORMAT_MOD_ARM_TYPE_AFRC afrc_mode"

definition DRM_FORMAT_MOD_ARM_16X16_BLOCK_U_INTERLEAVED :: u64 where
  "DRM_FORMAT_MOD_ARM_16X16_BLOCK_U_INTERLEAVED = DRM_FORMAT_MOD_ARM_CODE DRM_FORMAT_MOD_ARM_TYPE_MISC 1"

definition AFRC_FORMAT_MOD_CU_SIZE_MASK :: u64 where "AFRC_FORMAT_MOD_CU_SIZE_MASK = 0xf"

definition AFRC_FORMAT_MOD_CU_SIZE_P0 :: "u64 \<Rightarrow> u64" where
  "AFRC_FORMAT_MOD_CU_SIZE_P0 afrc_cu_size = afrc_cu_size"

definition AFRC_FORMAT_MOD_CU_SIZE_P12 :: "u64 \<Rightarrow> u64" where
  "AFRC_FORMAT_MOD_CU_SIZE_P12 afrc_cu_size = push_bit 4 afrc_cu_size"

definition fourcc_mod_amlogic_layout_mask :: u64 where "fourcc_mod_amlogic_layout_mask = 0xff"

definition fourcc_mod_amlogic_options_shift :: nat where "fourcc_mod_amlogic_options_shift = 8"

definition fourcc_mod_amlogic_options_mask :: u64 where "fourcc_mod_amlogic_options_mask = 0xff"

definition DRM_FORMAT_MOD_AMLOGIC_FBC :: "u64 \<Rightarrow> u64 \<Rightarrow> u64" where
  "DRM_FORMAT_MOD_AMLOGIC_FBC layout options =
     fourcc_mod_code DRM_FORMAT_MOD_VENDOR_AMLOGIC
       ((layout AND fourcc_mod_amlogic_layout_mask) OR
        push_bit fourcc_mod_amlogic_options_shift (options AND fourcc_mod_amlogic_options_mask))"

section \<open>AMD parameters\<close>

text \<open>The names the macros paste between \<^verbatim>\<open>AMD_FMT_MOD_\<close> and \<^verbatim>\<open>_SHIFT\<close> or \<^verbatim>\<open>_MASK\<close>.\<close>

datatype amd_field = TILE_VERSION | TILE | DCC | DCC_RETILE | DCC_PIPE_ALIGN | DCC_INDEPENDENT_64B |
  DCC_INDEPENDENT_128B | DCC_MAX_COMPRESSED_BLOCK | DCC_CONSTANT_ENCODE | PIPE_XOR_BITS |
  BANK_XOR_BITS | PACKERS | RB | PIPE

fun AMD_FMT_MOD_SHIFT :: "amd_field \<Rightarrow> nat" where
  "AMD_FMT_MOD_SHIFT TILE_VERSION = 0"
| "AMD_FMT_MOD_SHIFT TILE = 8"
| "AMD_FMT_MOD_SHIFT DCC = 13"
| "AMD_FMT_MOD_SHIFT DCC_RETILE = 14"
| "AMD_FMT_MOD_SHIFT DCC_PIPE_ALIGN = 15"
| "AMD_FMT_MOD_SHIFT DCC_INDEPENDENT_64B = 16"
| "AMD_FMT_MOD_SHIFT DCC_INDEPENDENT_128B = 17"
| "AMD_FMT_MOD_SHIFT DCC_MAX_COMPRESSED_BLOCK = 18"
| "AMD_FMT_MOD_SHIFT DCC_CONSTANT_ENCODE = 20"
| "AMD_FMT_MOD_SHIFT PIPE_XOR_BITS = 21"
| "AMD_FMT_MOD_SHIFT BANK_XOR_BITS = 24"
| "AMD_FMT_MOD_SHIFT PACKERS = 27"
| "AMD_FMT_MOD_SHIFT RB = 30"
| "AMD_FMT_MOD_SHIFT PIPE = 33"

fun AMD_FMT_MOD_MASK :: "amd_field \<Rightarrow> u64" where
  "AMD_FMT_MOD_MASK TILE_VERSION = 0xFF"
| "AMD_FMT_MOD_MASK TILE = 0x1F"
| "AMD_FMT_MOD_MASK DCC = 0x1"
| "AMD_FMT_MOD_MASK DCC_RETILE = 0x1"
| "AMD_FMT_MOD_MASK DCC_PIPE_ALIGN = 0x1"
| "AMD_FMT_MOD_MASK DCC_INDEPENDENT_64B = 0x1"
| "AMD_FMT_MOD_MASK DCC_INDEPENDENT_128B = 0x1"
| "AMD_FMT_MOD_MASK DCC_MAX_COMPRESSED_BLOCK = 0x3"
| "AMD_FMT_MOD_MASK DCC_CONSTANT_ENCODE = 0x1"
| "AMD_FMT_MOD_MASK PIPE_XOR_BITS = 0x7"
| "AMD_FMT_MOD_MASK BANK_XOR_BITS = 0x7"
| "AMD_FMT_MOD_MASK PACKERS = 0x7"
| "AMD_FMT_MOD_MASK RB = 0x7"
| "AMD_FMT_MOD_MASK PIPE = 0x7"

definition IS_AMD_FMT_MOD :: "u64 \<Rightarrow> bool" where
  "IS_AMD_FMT_MOD val \<longleftrightarrow> drop_bit 56 val = DRM_FORMAT_MOD_VENDOR_AMD"

definition AMD_FMT_MOD_SET :: "amd_field \<Rightarrow> u64 \<Rightarrow> u64" where
  "AMD_FMT_MOD_SET field val = push_bit (AMD_FMT_MOD_SHIFT field) val"

definition AMD_FMT_MOD_GET :: "amd_field \<Rightarrow> u64 \<Rightarrow> u64" where
  "AMD_FMT_MOD_GET field val = drop_bit (AMD_FMT_MOD_SHIFT field) val AND AMD_FMT_MOD_MASK field"

definition AMD_FMT_MOD_CLEAR :: "amd_field \<Rightarrow> u64" where
  "AMD_FMT_MOD_CLEAR field = NOT (push_bit (AMD_FMT_MOD_SHIFT field) (AMD_FMT_MOD_MASK field))"

section \<open>Modifiers as pairs of vendor and value\<close>

lemma value_mask: "0x00ffffffffffffff = (mask 56 :: u64)"
  by (simp add: mask_eq_exp_minus_1)

lemma bit_mod_code:
  "v < 2 ^ 8 \<Longrightarrow> bit (fourcc_mod_code v x) n \<longleftrightarrow> (if n < 56 then bit x n else bit v (n - 56) \<and> n < 64)"
  unfolding fourcc_mod_code_def value_mask
  by (auto simp: bit_simps dest: not_bit_small bit_u64_less)

interpretation modifier: full_code "\<lambda>(v, x). fourcc_mod_code v x" "\<lambda>m. (drop_bit 56 m, m AND mask 56)"
  "\<lambda>(v, x). v < 2 ^ 8 \<and> x < 2 ^ 56"
proof unfold_locales
  fix p :: "u64 \<times> u64" assume "case p of (v, x) \<Rightarrow> v < 2 ^ 8 \<and> x < 2 ^ 56"
  then obtain v x where p: "p = (v, x)" "v < 2 ^ 8" "x < 2 ^ 56" by auto
  have "drop_bit 56 (fourcc_mod_code v x) = v"
    using not_bit_small [OF p(2)] by (intro bit_word_eqI) (auto simp: bit_mod_code [OF p(2)] bit_simps)
  moreover have "fourcc_mod_code v x AND mask 56 = x"
    using not_bit_small [OF p(3)] by (intro bit_word_eqI) (auto simp: bit_mod_code [OF p(2)] bit_simps)
  ultimately show "(case case p of (v, x) \<Rightarrow> fourcc_mod_code v x of m \<Rightarrow> (drop_bit 56 m, m AND mask 56)) = p"
    by (simp add: p(1))
next
  fix m :: u64
  have v: "drop_bit 56 m < 2 ^ 8"
    by (rule less_2p_bits) (auto simp: bit_simps dest: bit_u64_less)
  moreover have "m AND mask 56 < 2 ^ 56" by (rule and_mask_less) simp
  ultimately show "case (drop_bit 56 m, m AND mask 56) of (v, x) \<Rightarrow> v < 2 ^ 8 \<and> x < 2 ^ 56" by simp
  have "fourcc_mod_code (drop_bit 56 m) (m AND mask 56) = m"
    by (rule bit_word_eqI) (auto simp: bit_mod_code [OF v] bit_simps)
  then show "(case (drop_bit 56 m, m AND mask 56) of (v, x) \<Rightarrow> fourcc_mod_code v x) = m" by simp
qed

section \<open>AMD parameters are independent\<close>

fun amd_width :: "amd_field \<Rightarrow> nat" where
  "amd_width TILE_VERSION = 8"
| "amd_width TILE = 5"
| "amd_width DCC_MAX_COMPRESSED_BLOCK = 2"
| "amd_width PIPE_XOR_BITS = 3"
| "amd_width BANK_XOR_BITS = 3"
| "amd_width PACKERS = 3"
| "amd_width RB = 3"
| "amd_width PIPE = 3"
| "amd_width _ = 1"

lemma amd_mask: "AMD_FMT_MOD_MASK f = mask (amd_width f)"
  by (cases f) (simp_all add: mask_eq_exp_minus_1)

lemma amd_get: "AMD_FMT_MOD_GET f = read_field (AMD_FMT_MOD_SHIFT f) (amd_width f)"
  by (simp add: fun_eq_iff AMD_FMT_MOD_GET_def read_field_def amd_mask low_ones)

lemma amd_put:
  assumes "v AND AMD_FMT_MOD_MASK f = v"
  shows "(w AND AMD_FMT_MOD_CLEAR f) OR AMD_FMT_MOD_SET f v =
    write_field (AMD_FMT_MOD_SHIFT f) (amd_width f) v w"
  using assms
  by (simp add: AMD_FMT_MOD_CLEAR_def AMD_FMT_MOD_SET_def write_field_def amd_mask low_ones)

lemma amd_apart:
  "f \<noteq> g \<Longrightarrow> AMD_FMT_MOD_SHIFT f + amd_width f \<le> AMD_FMT_MOD_SHIFT g \<or>
    AMD_FMT_MOD_SHIFT g + amd_width g \<le> AMD_FMT_MOD_SHIFT f"
  by (cases f; cases g) simp_all

lemma amd_below: "AMD_FMT_MOD_SHIFT f + amd_width f \<le> 36"
  by (cases f) simp_all

lemma amd_get_put:
  assumes "v AND AMD_FMT_MOD_MASK f = v"
  shows "AMD_FMT_MOD_GET g ((w AND AMD_FMT_MOD_CLEAR f) OR AMD_FMT_MOD_SET f v) =
    (if g = f then v else AMD_FMT_MOD_GET g w)"
proof (cases "g = f")
  case True
  then show ?thesis
    using assms amd_below [of f] unfolding amd_put [OF assms] amd_get by (simp add: read_write_field amd_mask)
next
  case False
  then show ?thesis
    using amd_apart [of f g] amd_below [of g] unfolding amd_put [OF assms] amd_get
    by (simp add: read_write_apart)
qed

lemma amd_put_high:
  assumes "v AND AMD_FMT_MOD_MASK f = v"
  shows "drop_bit 36 ((w AND AMD_FMT_MOD_CLEAR f) OR AMD_FMT_MOD_SET f v) = drop_bit 36 w"
proof (rule bit_word_eqI)
  fix n
  show "bit (drop_bit 36 ((w AND AMD_FMT_MOD_CLEAR f) OR AMD_FMT_MOD_SET f v)) n = bit (drop_bit 36 w) n"
    using amd_below [of f] unfolding amd_put [OF assms]
    by (cases "36 + n < 64") (auto simp: bit_drop_bit_eq bit_write_field dest: bit_u64_less)
qed

lemma drop_higher: "drop_bit k a = drop_bit k b \<Longrightarrow> drop_bit (j + k) a = drop_bit (j + k) b" for a b :: u64
  by (simp flip: drop_bit_drop_bit)

text \<open>C29: clearing a parameter of an AMD modifier and setting it to a value that fits changes that
  parameter to the value and no other, so the parameters read from a modifier behave as a function
  that is updated; the vendor and the reserved bits stay.\<close>

theorem amd_parameters_independent:
  assumes "v AND AMD_FMT_MOD_MASK f = v" and "w' = (w AND AMD_FMT_MOD_CLEAR f) OR AMD_FMT_MOD_SET f v"
  shows "(\<lambda>g. AMD_FMT_MOD_GET g w') = (\<lambda>g. AMD_FMT_MOD_GET g w)(f := v) \<and>
    IS_AMD_FMT_MOD w' = IS_AMD_FMT_MOD w \<and> drop_bit 36 w' = drop_bit 36 w"
proof -
  have "drop_bit 56 w' = drop_bit 56 w"
    using drop_higher [OF amd_put_high [OF assms(1), of w], of 20] by (simp add: assms(2))
  then show ?thesis
    using amd_get_put [OF assms(1)] amd_put_high [OF assms(1)]
    by (auto simp: assms(2) IS_AMD_FMT_MOD_def fun_eq_iff)
qed

lemma amd_parameters_independent_witness:
  "AMD_FMT_MOD_GET TILE ((AMD_FMT_MOD AND AMD_FMT_MOD_CLEAR TILE) OR AMD_FMT_MOD_SET TILE 27) = 27"
proof -
  have "(27 :: u64) AND AMD_FMT_MOD_MASK TILE = 27" by simp
  from amd_parameters_independent [OF this refl, of AMD_FMT_MOD] show ?thesis by (metis fun_upd_same)
qed

text \<open>
  The macro that sets does not mask: a value one bit too wide for its parameter is read back without
  that bit, which shows in the parameter above.
\<close>

lemma amd_set_spills:
  "AMD_FMT_MOD_GET TILE (AMD_FMT_MOD_SET TILE 0x20) = 0" "AMD_FMT_MOD_GET DCC (AMD_FMT_MOD_SET TILE 0x20) = 1"
  by (simp_all add: AMD_FMT_MOD_GET_def AMD_FMT_MOD_SET_def push_bit_eq_mult)

section \<open>NVIDIA page kinds\<close>

definition page_kind :: "u64 \<Rightarrow> u64" where
  "page_kind m = drop_bit 12 m AND 0xff"

lemma block_linear_flag: "m AND 0x10 \<noteq> 0 \<longleftrightarrow> bit m 4" for m :: u64
  using and_exp_eq_0_iff_not_bit [of m 4] by simp

lemma page_kind_0: "m AND push_bit 12 0xff = 0 \<longleftrightarrow> page_kind m = 0"
proof
  have "page_kind m = drop_bit 12 (m AND push_bit 12 0xff)"
    unfolding page_kind_def mask_numerals
    by (rule bit_word_eqI) (auto simp: bit_simps dest: bit_u64_less)
  then show "m AND push_bit 12 0xff = 0 \<Longrightarrow> page_kind m = 0" by simp
  have "m AND push_bit 12 0xff = push_bit 12 (page_kind m)"
    unfolding page_kind_def mask_numerals by (rule bit_word_eqI) (auto simp: bit_simps)
  then show "page_kind m = 0 \<Longrightarrow> m AND push_bit 12 0xff = 0" by simp
qed

lemma canonicalize:
  "drm_fourcc_canonicalize_nvidia_format_mod m =
    (if bit m 4 \<and> page_kind m = 0 then m OR push_bit 12 0xfe else m)"
  unfolding drm_fourcc_canonicalize_nvidia_format_mod_def block_linear_flag page_kind_0 by simp

text \<open>The numbers in the layout, bit by bit.\<close>

lemma number_bits:
  "bit (0xfe :: u64) n \<longleftrightarrow> 1 \<le> n \<and> n < 8" "bit (0x10 :: u64) n \<longleftrightarrow> n = 4"
  "bit (0xff :: u64) n \<longleftrightarrow> n < 8" "bit (0xf :: u64) n \<longleftrightarrow> n < 4" "bit (7 :: u64) n \<longleftrightarrow> n < 3"
  "bit (3 :: u64) n \<longleftrightarrow> n < 2"
proof -
  have "0xfe = push_bit 1 (mask 7 :: u64)" "0x10 = push_bit 4 (mask 1 :: u64)"
    "0xff = (mask 8 :: u64)" "0xf = (mask 4 :: u64)" "7 = (mask 3 :: u64)" "3 = (mask 2 :: u64)"
    by (simp_all add: mask_eq_exp_minus_1 push_bit_eq_mult)
  then show "bit (0xfe :: u64) n \<longleftrightarrow> 1 \<le> n \<and> n < 8" "bit (0x10 :: u64) n \<longleftrightarrow> n = 4"
    "bit (0xff :: u64) n \<longleftrightarrow> n < 8" "bit (0xf :: u64) n \<longleftrightarrow> n < 4" "bit (7 :: u64) n \<longleftrightarrow> n < 3"
    "bit (3 :: u64) n \<longleftrightarrow> n < 2"
    by (auto simp only: bit_push_bit_iff bit_mask_iff possible_bit_word) auto
qed

lemma page_kind_canonical:
  "page_kind (m OR push_bit 12 0xfe) = page_kind m OR 0xfe"
  unfolding page_kind_def
  by (rule bit_word_eqI) (auto simp: bit_simps number_bits simp del: bit_numeral_word_iff)

lemma page_kind_parts:
  "page_kind (a OR b) = page_kind a OR page_kind b" "20 \<le> n \<Longrightarrow> page_kind (push_bit n a) = 0"
  "page_kind (a AND 0xf) = 0" "page_kind (push_bit 12 (a AND 0xff)) = a AND 0xff"
  "page_kind (fourcc_mod_code v a) = page_kind a"
  unfolding page_kind_def fourcc_mod_code_def value_mask
  by (rule bit_word_eqI; auto simp: bit_simps number_bits simp del: bit_numeral_word_iff)+

lemma block_linear_kind:
  "DRM_FORMAT_MOD_NVIDIA_BLOCK_LINEAR_2D c s g k h =
    DRM_FORMAT_MOD_NVIDIA_BLOCK_LINEAR_2D c s g 0 h OR push_bit 12 (k AND 0xff)"
proof -
  have "push_bit 12 (k AND 0xff) AND mask 56 = push_bit 12 (k AND 0xff)"
    by (rule bit_word_eqI) (auto simp: bit_simps number_bits simp del: bit_numeral_word_iff push_bit_and)
  then have "fourcc_mod_code v (x OR push_bit 12 (k AND 0xff) OR y) =
      fourcc_mod_code v (x OR y) OR push_bit 12 (k AND 0xff)" for v x y
    unfolding fourcc_mod_code_def value_mask
    by (simp add: bit.conj_disj_distrib2 or.assoc or.left_commute or.commute)
  from this [of _ "0x10 OR (h AND 0xf)" "push_bit 20 (g AND 0x3) OR push_bit 22 (s AND 0x1) OR push_bit 23 (c AND 0x7)"]
  show ?thesis
    by (simp add: DRM_FORMAT_MOD_NVIDIA_BLOCK_LINEAR_2D_def or.assoc)
qed

lemma page_kind_block_linear:
  "page_kind (DRM_FORMAT_MOD_NVIDIA_BLOCK_LINEAR_2D c s g k h) = k AND 0xff"
proof -
  have "page_kind (DRM_FORMAT_MOD_NVIDIA_BLOCK_LINEAR_2D c s g 0 h) = page_kind 0x10"
    unfolding DRM_FORMAT_MOD_NVIDIA_BLOCK_LINEAR_2D_def page_kind_parts by (simp add: page_kind_parts del: push_bit_and)
  then show ?thesis
    unfolding block_linear_kind [of c s g k] page_kind_parts by (simp add: page_kind_def)
qed

lemma block_linear_bit: "bit (DRM_FORMAT_MOD_NVIDIA_BLOCK_LINEAR_2D c s g k h) 4"
proof -
  have "bit (fourcc_mod_code v (0x10 OR x)) 4" for v x
    unfolding fourcc_mod_code_def value_mask
    by (auto simp: bit_simps number_bits simp del: bit_numeral_word_iff)
  then show ?thesis
    unfolding DRM_FORMAT_MOD_NVIDIA_BLOCK_LINEAR_2D_def by (simp add: or.assoc)
qed

text \<open>Canonicalization gives a block linear layout of the unusable page kind zero the generic page
  kind and keeps every other parameter; it changes no other modifier, never leaves a page kind of
  zero in a block linear one, and doing it again changes nothing.\<close>

theorem nvidia_canonical:
  "drm_fourcc_canonicalize_nvidia_format_mod (DRM_FORMAT_MOD_NVIDIA_BLOCK_LINEAR_2D c s g k h) =
    DRM_FORMAT_MOD_NVIDIA_BLOCK_LINEAR_2D c s g (if k AND 0xff = 0 then 0xfe else k) h \<and>
   drm_fourcc_canonicalize_nvidia_format_mod (drm_fourcc_canonicalize_nvidia_format_mod m) =
    drm_fourcc_canonicalize_nvidia_format_mod m \<and>
   (drm_fourcc_canonicalize_nvidia_format_mod m \<noteq> m \<longleftrightarrow> bit m 4 \<and> page_kind m = 0) \<and>
   \<not> (bit m 4 \<and> page_kind (drm_fourcc_canonicalize_nvidia_format_mod m) = 0) \<and>
   drop_bit 20 (drm_fourcc_canonicalize_nvidia_format_mod m) = drop_bit 20 m"
proof (intro conjI)
  let ?c = drm_fourcc_canonicalize_nvidia_format_mod
  have fe: "page_kind (m OR push_bit 12 0xfe) \<noteq> 0"
    unfolding page_kind_canonical by (simp add: or_eq_0_iff)
  show "?c (DRM_FORMAT_MOD_NVIDIA_BLOCK_LINEAR_2D c s g k h) =
      DRM_FORMAT_MOD_NVIDIA_BLOCK_LINEAR_2D c s g (if k AND 0xff = 0 then 0xfe else k) h"
  proof (cases "k AND 0xff = 0")
    case True
    have "DRM_FORMAT_MOD_NVIDIA_BLOCK_LINEAR_2D c s g k h = DRM_FORMAT_MOD_NVIDIA_BLOCK_LINEAR_2D c s g 0 h"
      using block_linear_kind [of c s g k h] unfolding True by simp
    moreover have "DRM_FORMAT_MOD_NVIDIA_BLOCK_LINEAR_2D c s g 0xfe h =
        DRM_FORMAT_MOD_NVIDIA_BLOCK_LINEAR_2D c s g 0 h OR push_bit 12 0xfe"
      using block_linear_kind [of c s g "0xfe" h] by simp
    ultimately show ?thesis
      using True block_linear_bit unfolding canonicalize page_kind_block_linear by simp
  next
    case False
    then show ?thesis
      unfolding canonicalize page_kind_block_linear by simp
  qed
  show "?c (?c m) = ?c m"
    using fe by (simp add: canonicalize)
  show "?c m \<noteq> m \<longleftrightarrow> bit m 4 \<and> page_kind m = 0"
    using fe by (auto simp: canonicalize)
  show "\<not> (bit m 4 \<and> page_kind (?c m) = 0)"
    using fe by (simp add: canonicalize)
  show "drop_bit 20 (?c m) = drop_bit 20 m"
    unfolding canonicalize by (simp add: drop_bit_push_bit)
qed

section \<open>Column heights and other parameters\<close>

lemma broadcom_code:
  assumes "val < 2 ^ 8" and "params < 2 ^ 48"
  shows "fourcc_mod_broadcom_mod (fourcc_mod_broadcom_code val params) =
      fourcc_mod_code DRM_FORMAT_MOD_VENDOR_BROADCOM val"
    and "fourcc_mod_broadcom_param (fourcc_mod_broadcom_code val params) = sint (ucast params :: u32)"
proof -
  have v: "DRM_FORMAT_MOD_VENDOR_BROADCOM < 2 ^ 8" by (simp add: DRM_FORMAT_MOD_VENDOR_BROADCOM_def)
  note small = less_not_bit [OF assms(1)] less_not_bit [OF assms(2)]
  show "fourcc_mod_broadcom_mod (fourcc_mod_broadcom_code val params) =
      fourcc_mod_code DRM_FORMAT_MOD_VENDOR_BROADCOM val"
    unfolding fourcc_mod_broadcom_mod_def fourcc_mod_broadcom_code_def fourcc_mod_broadcom_param_shift_def
      fourcc_mod_broadcom_param_bits_def shifted_one_minus_1
    by (rule bit_word_eqI) (auto simp: bit_simps bit_mod_code [OF v] small)
  have "drop_bit 8 (fourcc_mod_broadcom_code val params) AND mask 48 = params"
    unfolding fourcc_mod_broadcom_code_def fourcc_mod_broadcom_param_shift_def
    by (rule bit_word_eqI) (auto simp: bit_simps bit_mod_code [OF v] small)
  then show "fourcc_mod_broadcom_param (fourcc_mod_broadcom_code val params) = sint (ucast params :: u32)"
    unfolding fourcc_mod_broadcom_param_def fourcc_mod_broadcom_param_shift_def
      fourcc_mod_broadcom_param_bits_def shifted_one_minus_1 by simp
qed

text \<open>
  A column height up to the range of \<^verbatim>\<open>int\<close> is read back, and the modifier without it is the one of
  the width; a greater height fits into the modifier but not into the result of the reader.
\<close>

lemma sand_column_height:
  assumes "v < 2 ^ 31"
  shows "fourcc_mod_broadcom_param (DRM_FORMAT_MOD_BROADCOM_SAND128_COL_HEIGHT v) = uint v"
    and "fourcc_mod_broadcom_mod (DRM_FORMAT_MOD_BROADCOM_SAND128_COL_HEIGHT v) = DRM_FORMAT_MOD_BROADCOM_SAND128"
    and "fourcc_mod_broadcom_mod (DRM_FORMAT_MOD_BROADCOM_SAND32_COL_HEIGHT v) = DRM_FORMAT_MOD_BROADCOM_SAND32"
    and "fourcc_mod_broadcom_mod (DRM_FORMAT_MOD_BROADCOM_SAND64_COL_HEIGHT v) = DRM_FORMAT_MOD_BROADCOM_SAND64"
    and "fourcc_mod_broadcom_mod (DRM_FORMAT_MOD_BROADCOM_SAND256_COL_HEIGHT v) = DRM_FORMAT_MOD_BROADCOM_SAND256"
proof -
  have "v < 2 ^ 48" using assms by (simp add: word_less_nat_alt)
  note code = broadcom_code [OF _ this]
  have no_params: "fourcc_mod_broadcom_code val 0 = fourcc_mod_code DRM_FORMAT_MOD_VENDOR_BROADCOM val" for val
    by (simp add: fourcc_mod_broadcom_code_def)
  have "uint v < 2 ^ 31" using assms by (simp add: word_less_def)
  then show "fourcc_mod_broadcom_param (DRM_FORMAT_MOD_BROADCOM_SAND128_COL_HEIGHT v) = uint v"
    unfolding DRM_FORMAT_MOD_BROADCOM_SAND128_COL_HEIGHT_def
    by (simp add: code sint_uint unsigned_ucast_eq signed_take_bit_int_eq_self_iff take_bit_int_eq_self order_trans [OF _ uint_ge_0])
  show "fourcc_mod_broadcom_mod (DRM_FORMAT_MOD_BROADCOM_SAND128_COL_HEIGHT v) = DRM_FORMAT_MOD_BROADCOM_SAND128"
    "fourcc_mod_broadcom_mod (DRM_FORMAT_MOD_BROADCOM_SAND32_COL_HEIGHT v) = DRM_FORMAT_MOD_BROADCOM_SAND32"
    "fourcc_mod_broadcom_mod (DRM_FORMAT_MOD_BROADCOM_SAND64_COL_HEIGHT v) = DRM_FORMAT_MOD_BROADCOM_SAND64"
    "fourcc_mod_broadcom_mod (DRM_FORMAT_MOD_BROADCOM_SAND256_COL_HEIGHT v) = DRM_FORMAT_MOD_BROADCOM_SAND256"
    by (simp_all add: DRM_FORMAT_MOD_BROADCOM_SAND128_COL_HEIGHT_def DRM_FORMAT_MOD_BROADCOM_SAND32_COL_HEIGHT_def
        DRM_FORMAT_MOD_BROADCOM_SAND64_COL_HEIGHT_def DRM_FORMAT_MOD_BROADCOM_SAND256_COL_HEIGHT_def
        DRM_FORMAT_MOD_BROADCOM_SAND32_def DRM_FORMAT_MOD_BROADCOM_SAND64_def DRM_FORMAT_MOD_BROADCOM_SAND128_def
        DRM_FORMAT_MOD_BROADCOM_SAND256_def code no_params)
qed

lemma sand_height_truncated:
  "fourcc_mod_broadcom_param (DRM_FORMAT_MOD_BROADCOM_SAND128_COL_HEIGHT (2 ^ 31)) = - (2 ^ 31)"
  by code_simp

end
