(* ===== verification/Video_Dev.thy ===== *)
theory Video_Dev
  imports Packed_Code Time_Value
begin

text \<open>
  The macros and the inline function of \<^verbatim>\<open>linux/videodev2.h\<close> that classify and convert: field orders,
  buffer types, default colour spaces, television standards, frame sizes of digital timings,
  control identifiers and time stamps.  The enumerations are data types with the header's
  enumerators; buffer types, which are compared by order, are numbers.
\<close>

section \<open>Field orders\<close>

datatype v4l2_field =
  V4L2_FIELD_ANY | V4L2_FIELD_NONE | V4L2_FIELD_TOP | V4L2_FIELD_BOTTOM | V4L2_FIELD_INTERLACED |
  V4L2_FIELD_SEQ_TB | V4L2_FIELD_SEQ_BT | V4L2_FIELD_ALTERNATE | V4L2_FIELD_INTERLACED_TB |
  V4L2_FIELD_INTERLACED_BT

definition V4L2_FIELD_HAS_TOP :: "v4l2_field \<Rightarrow> bool" where
  "V4L2_FIELD_HAS_TOP field \<longleftrightarrow>
     field = V4L2_FIELD_TOP \<or>
     field = V4L2_FIELD_INTERLACED \<or>
     field = V4L2_FIELD_INTERLACED_TB \<or>
     field = V4L2_FIELD_INTERLACED_BT \<or>
     field = V4L2_FIELD_SEQ_TB \<or>
     field = V4L2_FIELD_SEQ_BT"

definition V4L2_FIELD_HAS_BOTTOM :: "v4l2_field \<Rightarrow> bool" where
  "V4L2_FIELD_HAS_BOTTOM field \<longleftrightarrow>
     field = V4L2_FIELD_BOTTOM \<or>
     field = V4L2_FIELD_INTERLACED \<or>
     field = V4L2_FIELD_INTERLACED_TB \<or>
     field = V4L2_FIELD_INTERLACED_BT \<or>
     field = V4L2_FIELD_SEQ_TB \<or>
     field = V4L2_FIELD_SEQ_BT"

definition V4L2_FIELD_HAS_BOTH :: "v4l2_field \<Rightarrow> bool" where
  "V4L2_FIELD_HAS_BOTH field \<longleftrightarrow>
     field = V4L2_FIELD_INTERLACED \<or>
     field = V4L2_FIELD_INTERLACED_TB \<or>
     field = V4L2_FIELD_INTERLACED_BT \<or>
     field = V4L2_FIELD_SEQ_TB \<or>
     field = V4L2_FIELD_SEQ_BT"

definition V4L2_FIELD_HAS_T_OR_B :: "v4l2_field \<Rightarrow> bool" where
  "V4L2_FIELD_HAS_T_OR_B field \<longleftrightarrow>
     field = V4L2_FIELD_BOTTOM \<or>
     field = V4L2_FIELD_TOP \<or>
     field = V4L2_FIELD_ALTERNATE"

definition V4L2_FIELD_IS_INTERLACED :: "v4l2_field \<Rightarrow> bool" where
  "V4L2_FIELD_IS_INTERLACED field \<longleftrightarrow>
     field = V4L2_FIELD_INTERLACED \<or>
     field = V4L2_FIELD_INTERLACED_TB \<or>
     field = V4L2_FIELD_INTERLACED_BT"

definition V4L2_FIELD_IS_SEQUENTIAL :: "v4l2_field \<Rightarrow> bool" where
  "V4L2_FIELD_IS_SEQUENTIAL field \<longleftrightarrow>
     field = V4L2_FIELD_SEQ_TB \<or>
     field = V4L2_FIELD_SEQ_BT"

section \<open>Buffer types\<close>

definition V4L2_BUF_TYPE_VIDEO_CAPTURE :: u32 where "V4L2_BUF_TYPE_VIDEO_CAPTURE = 1"

definition V4L2_BUF_TYPE_VIDEO_OUTPUT :: u32 where "V4L2_BUF_TYPE_VIDEO_OUTPUT = 2"

definition V4L2_BUF_TYPE_VIDEO_OVERLAY :: u32 where "V4L2_BUF_TYPE_VIDEO_OVERLAY = 3"

definition V4L2_BUF_TYPE_VBI_CAPTURE :: u32 where "V4L2_BUF_TYPE_VBI_CAPTURE = 4"

definition V4L2_BUF_TYPE_VBI_OUTPUT :: u32 where "V4L2_BUF_TYPE_VBI_OUTPUT = 5"

definition V4L2_BUF_TYPE_SLICED_VBI_CAPTURE :: u32 where "V4L2_BUF_TYPE_SLICED_VBI_CAPTURE = 6"

definition V4L2_BUF_TYPE_SLICED_VBI_OUTPUT :: u32 where "V4L2_BUF_TYPE_SLICED_VBI_OUTPUT = 7"

definition V4L2_BUF_TYPE_VIDEO_OUTPUT_OVERLAY :: u32 where "V4L2_BUF_TYPE_VIDEO_OUTPUT_OVERLAY = 8"

definition V4L2_BUF_TYPE_VIDEO_CAPTURE_MPLANE :: u32 where "V4L2_BUF_TYPE_VIDEO_CAPTURE_MPLANE = 9"

definition V4L2_BUF_TYPE_VIDEO_OUTPUT_MPLANE :: u32 where "V4L2_BUF_TYPE_VIDEO_OUTPUT_MPLANE = 10"

definition V4L2_BUF_TYPE_SDR_CAPTURE :: u32 where "V4L2_BUF_TYPE_SDR_CAPTURE = 11"

definition V4L2_BUF_TYPE_SDR_OUTPUT :: u32 where "V4L2_BUF_TYPE_SDR_OUTPUT = 12"

definition V4L2_BUF_TYPE_META_CAPTURE :: u32 where "V4L2_BUF_TYPE_META_CAPTURE = 13"

definition V4L2_BUF_TYPE_META_OUTPUT :: u32 where "V4L2_BUF_TYPE_META_OUTPUT = 14"

definition V4L2_BUF_TYPE_PRIVATE :: u32 where "V4L2_BUF_TYPE_PRIVATE = 0x80"

definition V4L2_TYPE_IS_VALID :: "u32 \<Rightarrow> bool" where
  "V4L2_TYPE_IS_VALID type \<longleftrightarrow> V4L2_BUF_TYPE_VIDEO_CAPTURE \<le> type \<and> type \<le> V4L2_BUF_TYPE_META_OUTPUT"

definition V4L2_TYPE_IS_MULTIPLANAR :: "u32 \<Rightarrow> bool" where
  "V4L2_TYPE_IS_MULTIPLANAR type \<longleftrightarrow>
     type = V4L2_BUF_TYPE_VIDEO_CAPTURE_MPLANE \<or>
     type = V4L2_BUF_TYPE_VIDEO_OUTPUT_MPLANE"

definition V4L2_TYPE_IS_OUTPUT :: "u32 \<Rightarrow> bool" where
  "V4L2_TYPE_IS_OUTPUT type \<longleftrightarrow>
     type = V4L2_BUF_TYPE_VIDEO_OUTPUT \<or>
     type = V4L2_BUF_TYPE_VIDEO_OUTPUT_MPLANE \<or>
     type = V4L2_BUF_TYPE_VIDEO_OUTPUT_OVERLAY \<or>
     type = V4L2_BUF_TYPE_VBI_OUTPUT \<or>
     type = V4L2_BUF_TYPE_SLICED_VBI_OUTPUT \<or>
     type = V4L2_BUF_TYPE_SDR_OUTPUT \<or>
     type = V4L2_BUF_TYPE_META_OUTPUT"

definition V4L2_TYPE_IS_CAPTURE :: "u32 \<Rightarrow> bool" where
  "V4L2_TYPE_IS_CAPTURE type \<longleftrightarrow> V4L2_TYPE_IS_VALID type \<and> \<not> V4L2_TYPE_IS_OUTPUT type"

section \<open>Colour spaces and their defaults\<close>

datatype v4l2_colorspace =
  V4L2_COLORSPACE_DEFAULT | V4L2_COLORSPACE_SMPTE170M | V4L2_COLORSPACE_SMPTE240M |
  V4L2_COLORSPACE_REC709 | V4L2_COLORSPACE_BT878 | V4L2_COLORSPACE_470_SYSTEM_M |
  V4L2_COLORSPACE_470_SYSTEM_BG | V4L2_COLORSPACE_JPEG | V4L2_COLORSPACE_SRGB |
  V4L2_COLORSPACE_OPRGB | V4L2_COLORSPACE_BT2020 | V4L2_COLORSPACE_RAW | V4L2_COLORSPACE_DCI_P3

datatype v4l2_xfer_func =
  V4L2_XFER_FUNC_DEFAULT | V4L2_XFER_FUNC_709 | V4L2_XFER_FUNC_SRGB | V4L2_XFER_FUNC_OPRGB |
  V4L2_XFER_FUNC_SMPTE240M | V4L2_XFER_FUNC_NONE | V4L2_XFER_FUNC_DCI_P3 | V4L2_XFER_FUNC_SMPTE2084

datatype v4l2_ycbcr_encoding =
  V4L2_YCBCR_ENC_DEFAULT | V4L2_YCBCR_ENC_601 | V4L2_YCBCR_ENC_709 | V4L2_YCBCR_ENC_XV601 |
  V4L2_YCBCR_ENC_XV709 | V4L2_YCBCR_ENC_SYCC | V4L2_YCBCR_ENC_BT2020 |
  V4L2_YCBCR_ENC_BT2020_CONST_LUM | V4L2_YCBCR_ENC_SMPTE240M

datatype v4l2_quantization =
  V4L2_QUANTIZATION_DEFAULT | V4L2_QUANTIZATION_FULL_RANGE | V4L2_QUANTIZATION_LIM_RANGE

definition V4L2_MAP_COLORSPACE_DEFAULT :: "bool \<Rightarrow> bool \<Rightarrow> v4l2_colorspace" where
  "V4L2_MAP_COLORSPACE_DEFAULT is_sdtv is_hdtv =
     (if is_sdtv then V4L2_COLORSPACE_SMPTE170M
      else if is_hdtv then V4L2_COLORSPACE_REC709 else V4L2_COLORSPACE_SRGB)"

definition V4L2_MAP_XFER_FUNC_DEFAULT :: "v4l2_colorspace \<Rightarrow> v4l2_xfer_func" where
  "V4L2_MAP_XFER_FUNC_DEFAULT colsp =
     (if colsp = V4L2_COLORSPACE_OPRGB then V4L2_XFER_FUNC_OPRGB
      else if colsp = V4L2_COLORSPACE_SMPTE240M then V4L2_XFER_FUNC_SMPTE240M
      else if colsp = V4L2_COLORSPACE_DCI_P3 then V4L2_XFER_FUNC_DCI_P3
      else if colsp = V4L2_COLORSPACE_RAW then V4L2_XFER_FUNC_NONE
      else if colsp = V4L2_COLORSPACE_SRGB \<or> colsp = V4L2_COLORSPACE_JPEG then V4L2_XFER_FUNC_SRGB
      else V4L2_XFER_FUNC_709)"

definition V4L2_MAP_YCBCR_ENC_DEFAULT :: "v4l2_colorspace \<Rightarrow> v4l2_ycbcr_encoding" where
  "V4L2_MAP_YCBCR_ENC_DEFAULT colsp =
     (if colsp = V4L2_COLORSPACE_REC709 \<or> colsp = V4L2_COLORSPACE_DCI_P3 then V4L2_YCBCR_ENC_709
      else if colsp = V4L2_COLORSPACE_BT2020 then V4L2_YCBCR_ENC_BT2020
      else if colsp = V4L2_COLORSPACE_SMPTE240M then V4L2_YCBCR_ENC_SMPTE240M
      else V4L2_YCBCR_ENC_601)"

definition V4L2_MAP_QUANTIZATION_DEFAULT ::
    "bool \<Rightarrow> v4l2_colorspace \<Rightarrow> v4l2_ycbcr_encoding \<Rightarrow> v4l2_quantization" where
  "V4L2_MAP_QUANTIZATION_DEFAULT is_rgb_or_hsv colsp ycbcr_enc =
     (if is_rgb_or_hsv \<or> colsp = V4L2_COLORSPACE_JPEG
      then V4L2_QUANTIZATION_FULL_RANGE else V4L2_QUANTIZATION_LIM_RANGE)"

section \<open>Television standards\<close>

definition V4L2_STD_PAL_B :: u64 where "V4L2_STD_PAL_B = 0x00000001"

definition V4L2_STD_PAL_B1 :: u64 where "V4L2_STD_PAL_B1 = 0x00000002"

definition V4L2_STD_PAL_G :: u64 where "V4L2_STD_PAL_G = 0x00000004"

definition V4L2_STD_PAL_H :: u64 where "V4L2_STD_PAL_H = 0x00000008"

definition V4L2_STD_PAL_I :: u64 where "V4L2_STD_PAL_I = 0x00000010"

definition V4L2_STD_PAL_D :: u64 where "V4L2_STD_PAL_D = 0x00000020"

definition V4L2_STD_PAL_D1 :: u64 where "V4L2_STD_PAL_D1 = 0x00000040"

definition V4L2_STD_PAL_K :: u64 where "V4L2_STD_PAL_K = 0x00000080"

definition V4L2_STD_PAL_M :: u64 where "V4L2_STD_PAL_M = 0x00000100"

definition V4L2_STD_PAL_N :: u64 where "V4L2_STD_PAL_N = 0x00000200"

definition V4L2_STD_PAL_Nc :: u64 where "V4L2_STD_PAL_Nc = 0x00000400"

definition V4L2_STD_PAL_60 :: u64 where "V4L2_STD_PAL_60 = 0x00000800"

definition V4L2_STD_NTSC_M :: u64 where "V4L2_STD_NTSC_M = 0x00001000"

definition V4L2_STD_NTSC_M_JP :: u64 where "V4L2_STD_NTSC_M_JP = 0x00002000"

definition V4L2_STD_NTSC_443 :: u64 where "V4L2_STD_NTSC_443 = 0x00004000"

definition V4L2_STD_NTSC_M_KR :: u64 where "V4L2_STD_NTSC_M_KR = 0x00008000"

definition V4L2_STD_SECAM_B :: u64 where "V4L2_STD_SECAM_B = 0x00010000"

definition V4L2_STD_SECAM_D :: u64 where "V4L2_STD_SECAM_D = 0x00020000"

definition V4L2_STD_SECAM_G :: u64 where "V4L2_STD_SECAM_G = 0x00040000"

definition V4L2_STD_SECAM_H :: u64 where "V4L2_STD_SECAM_H = 0x00080000"

definition V4L2_STD_SECAM_K :: u64 where "V4L2_STD_SECAM_K = 0x00100000"

definition V4L2_STD_SECAM_K1 :: u64 where "V4L2_STD_SECAM_K1 = 0x00200000"

definition V4L2_STD_SECAM_L :: u64 where "V4L2_STD_SECAM_L = 0x00400000"

definition V4L2_STD_SECAM_LC :: u64 where "V4L2_STD_SECAM_LC = 0x00800000"

definition V4L2_STD_ATSC_8_VSB :: u64 where "V4L2_STD_ATSC_8_VSB = 0x01000000"

definition V4L2_STD_ATSC_16_VSB :: u64 where "V4L2_STD_ATSC_16_VSB = 0x02000000"

definition V4L2_STD_NTSC :: u64 where
  "V4L2_STD_NTSC =
     V4L2_STD_NTSC_M OR V4L2_STD_NTSC_M_JP OR V4L2_STD_NTSC_M_KR"

definition V4L2_STD_SECAM_DK :: u64 where
  "V4L2_STD_SECAM_DK =
     V4L2_STD_SECAM_D OR V4L2_STD_SECAM_K OR V4L2_STD_SECAM_K1"

definition V4L2_STD_SECAM :: u64 where
  "V4L2_STD_SECAM =
     V4L2_STD_SECAM_B OR V4L2_STD_SECAM_G OR V4L2_STD_SECAM_H OR V4L2_STD_SECAM_DK OR V4L2_STD_SECAM_L OR V4L2_STD_SECAM_LC"

definition V4L2_STD_PAL_BG :: u64 where
  "V4L2_STD_PAL_BG =
     V4L2_STD_PAL_B OR V4L2_STD_PAL_B1 OR V4L2_STD_PAL_G"

definition V4L2_STD_PAL_DK :: u64 where
  "V4L2_STD_PAL_DK =
     V4L2_STD_PAL_D OR V4L2_STD_PAL_D1 OR V4L2_STD_PAL_K"

definition V4L2_STD_PAL :: u64 where
  "V4L2_STD_PAL =
     V4L2_STD_PAL_BG OR V4L2_STD_PAL_DK OR V4L2_STD_PAL_H OR V4L2_STD_PAL_I"

definition V4L2_STD_B :: u64 where
  "V4L2_STD_B =
     V4L2_STD_PAL_B OR V4L2_STD_PAL_B1 OR V4L2_STD_SECAM_B"

definition V4L2_STD_G :: u64 where
  "V4L2_STD_G =
     V4L2_STD_PAL_G OR V4L2_STD_SECAM_G"

definition V4L2_STD_H :: u64 where
  "V4L2_STD_H =
     V4L2_STD_PAL_H OR V4L2_STD_SECAM_H"

definition V4L2_STD_L :: u64 where
  "V4L2_STD_L =
     V4L2_STD_SECAM_L OR V4L2_STD_SECAM_LC"

definition V4L2_STD_GH :: u64 where
  "V4L2_STD_GH =
     V4L2_STD_G OR V4L2_STD_H"

definition V4L2_STD_DK :: u64 where
  "V4L2_STD_DK =
     V4L2_STD_PAL_DK OR V4L2_STD_SECAM_DK"

definition V4L2_STD_BG :: u64 where
  "V4L2_STD_BG =
     V4L2_STD_B OR V4L2_STD_G"

definition V4L2_STD_MN :: u64 where
  "V4L2_STD_MN =
     V4L2_STD_PAL_M OR V4L2_STD_PAL_N OR V4L2_STD_PAL_Nc OR V4L2_STD_NTSC"

definition V4L2_STD_MTS :: u64 where
  "V4L2_STD_MTS =
     V4L2_STD_NTSC_M OR V4L2_STD_PAL_M OR V4L2_STD_PAL_N OR V4L2_STD_PAL_Nc"

definition V4L2_STD_525_60 :: u64 where
  "V4L2_STD_525_60 =
     V4L2_STD_PAL_M OR V4L2_STD_PAL_60 OR V4L2_STD_NTSC OR V4L2_STD_NTSC_443"

definition V4L2_STD_625_50 :: u64 where
  "V4L2_STD_625_50 =
     V4L2_STD_PAL OR V4L2_STD_PAL_N OR V4L2_STD_PAL_Nc OR V4L2_STD_SECAM"

definition V4L2_STD_ATSC :: u64 where
  "V4L2_STD_ATSC =
     V4L2_STD_ATSC_8_VSB OR V4L2_STD_ATSC_16_VSB"

definition V4L2_STD_UNKNOWN :: u64 where "V4L2_STD_UNKNOWN = 0"

definition V4L2_STD_ALL :: u64 where
  "V4L2_STD_ALL =
     V4L2_STD_525_60 OR V4L2_STD_625_50"

section \<open>Timings, controls and time stamps\<close>

record v4l2_bt_timings =
  bt_width :: u32
  bt_height :: u32
  bt_interlaced :: u32
  bt_polarities :: u32
  bt_pixelclock :: u64
  bt_hfrontporch :: u32
  bt_hsync :: u32
  bt_hbackporch :: u32
  bt_vfrontporch :: u32
  bt_vsync :: u32
  bt_vbackporch :: u32
  bt_il_vfrontporch :: u32
  bt_il_vsync :: u32
  bt_il_vbackporch :: u32

definition V4L2_DV_BT_BLANKING_WIDTH :: "v4l2_bt_timings \<Rightarrow> u32" where
  "V4L2_DV_BT_BLANKING_WIDTH bt = bt_hfrontporch bt + bt_hsync bt + bt_hbackporch bt"

definition V4L2_DV_BT_FRAME_WIDTH :: "v4l2_bt_timings \<Rightarrow> u32" where
  "V4L2_DV_BT_FRAME_WIDTH bt = bt_width bt + V4L2_DV_BT_BLANKING_WIDTH bt"

definition V4L2_DV_BT_BLANKING_HEIGHT :: "v4l2_bt_timings \<Rightarrow> u32" where
  "V4L2_DV_BT_BLANKING_HEIGHT bt =
     bt_vfrontporch bt + bt_vsync bt + bt_vbackporch bt +
     (if bt_interlaced bt \<noteq> 0 then bt_il_vfrontporch bt + bt_il_vsync bt + bt_il_vbackporch bt else 0)"

definition V4L2_DV_BT_FRAME_HEIGHT :: "v4l2_bt_timings \<Rightarrow> u32" where
  "V4L2_DV_BT_FRAME_HEIGHT bt = bt_height bt + V4L2_DV_BT_BLANKING_HEIGHT bt"

definition V4L2_CTRL_ID2CLASS :: "u32 \<Rightarrow> u64" where
  "V4L2_CTRL_ID2CLASS ctrl = ucast ctrl AND 0x0fff0000"

definition V4L2_CTRL_ID2WHICH :: "u32 \<Rightarrow> u64" where
  "V4L2_CTRL_ID2WHICH ctrl = ucast ctrl AND 0x0fff0000"

definition V4L2_CTRL_DRIVER_PRIV :: "u32 \<Rightarrow> bool" where
  "V4L2_CTRL_DRIVER_PRIV ctrl \<longleftrightarrow> 0x1000 \<le> ctrl AND 0xffff"

text \<open>\<^verbatim>\<open>tv_sec\<close> and \<^verbatim>\<open>tv_usec\<close> are \<^verbatim>\<open>long\<close>; the product of the latter must not overflow, and is \<open>None\<close> then.\<close>

definition v4l2_timeval_to_ns :: "timeval \<Rightarrow> u64 option" where
  "v4l2_timeval_to_ns tv =
     map_option (\<lambda>usec. of_int (tv_sec tv) * 1000000000 + of_int usec) (long (tv_usec tv * 1000))"

section \<open>Fields and buffer types are classified consistently\<close>

text \<open>
  A frame with both fields is one with a top and a bottom field; it is interlaced or sequential and
  not both.  Buffers with a single field have a top or a bottom field, except with alternating fields,
  where the buffer does not say which.
\<close>

lemma v4l2_fields:
  "V4L2_FIELD_HAS_BOTH f \<longleftrightarrow> V4L2_FIELD_HAS_TOP f \<and> V4L2_FIELD_HAS_BOTTOM f"
  "V4L2_FIELD_HAS_BOTH f \<longleftrightarrow> V4L2_FIELD_IS_INTERLACED f \<noteq> V4L2_FIELD_IS_SEQUENTIAL f"
  "\<not> (V4L2_FIELD_HAS_T_OR_B f \<and> V4L2_FIELD_HAS_BOTH f)"
  "V4L2_FIELD_HAS_T_OR_B f \<longleftrightarrow>
    (V4L2_FIELD_HAS_TOP f \<noteq> V4L2_FIELD_HAS_BOTTOM f) \<or> f = V4L2_FIELD_ALTERNATE"
  by (cases f; simp add: V4L2_FIELD_HAS_TOP_def V4L2_FIELD_HAS_BOTTOM_def V4L2_FIELD_HAS_BOTH_def
      V4L2_FIELD_HAS_T_OR_B_def V4L2_FIELD_IS_INTERLACED_def V4L2_FIELD_IS_SEQUENTIAL_def)+

lemmas v4l2_type_defs =
  V4L2_BUF_TYPE_VIDEO_CAPTURE_def V4L2_BUF_TYPE_VIDEO_OUTPUT_def V4L2_BUF_TYPE_VIDEO_OVERLAY_def
  V4L2_BUF_TYPE_VBI_CAPTURE_def V4L2_BUF_TYPE_VBI_OUTPUT_def V4L2_BUF_TYPE_SLICED_VBI_CAPTURE_def
  V4L2_BUF_TYPE_SLICED_VBI_OUTPUT_def V4L2_BUF_TYPE_VIDEO_OUTPUT_OVERLAY_def
  V4L2_BUF_TYPE_VIDEO_CAPTURE_MPLANE_def V4L2_BUF_TYPE_VIDEO_OUTPUT_MPLANE_def
  V4L2_BUF_TYPE_SDR_CAPTURE_def V4L2_BUF_TYPE_SDR_OUTPUT_def V4L2_BUF_TYPE_META_CAPTURE_def
  V4L2_BUF_TYPE_META_OUTPUT_def

lemma v4l2_types:
  "V4L2_TYPE_IS_VALID t \<longleftrightarrow> V4L2_TYPE_IS_OUTPUT t \<noteq> V4L2_TYPE_IS_CAPTURE t"
  "V4L2_TYPE_IS_CAPTURE t \<longleftrightarrow>
    t \<in> {V4L2_BUF_TYPE_VIDEO_CAPTURE, V4L2_BUF_TYPE_VIDEO_OVERLAY, V4L2_BUF_TYPE_VBI_CAPTURE,
      V4L2_BUF_TYPE_SLICED_VBI_CAPTURE, V4L2_BUF_TYPE_VIDEO_CAPTURE_MPLANE, V4L2_BUF_TYPE_SDR_CAPTURE,
      V4L2_BUF_TYPE_META_CAPTURE}"
  "V4L2_TYPE_IS_MULTIPLANAR t \<Longrightarrow> V4L2_TYPE_IS_VALID t"
proof -
  have out: "V4L2_TYPE_IS_OUTPUT t \<Longrightarrow> V4L2_TYPE_IS_VALID t"
    by (auto simp: V4L2_TYPE_IS_OUTPUT_def V4L2_TYPE_IS_VALID_def v4l2_type_defs)
  then show "V4L2_TYPE_IS_VALID t \<longleftrightarrow> V4L2_TYPE_IS_OUTPUT t \<noteq> V4L2_TYPE_IS_CAPTURE t"
    by (auto simp: V4L2_TYPE_IS_CAPTURE_def)
  show "V4L2_TYPE_IS_MULTIPLANAR t \<Longrightarrow> V4L2_TYPE_IS_VALID t"
    by (auto simp: V4L2_TYPE_IS_MULTIPLANAR_def V4L2_TYPE_IS_VALID_def v4l2_type_defs)
  have "V4L2_TYPE_IS_VALID t \<Longrightarrow> t \<in> set (map of_nat [1..<15])"
  proof -
    assume "V4L2_TYPE_IS_VALID t"
    then have "1 \<le> unat t" "unat t < 15"
      by (simp_all add: V4L2_TYPE_IS_VALID_def v4l2_type_defs word_le_nat_alt)
    then show ?thesis by (auto intro!: image_eqI [of _ _ "unat t"])
  qed
  then show "V4L2_TYPE_IS_CAPTURE t \<longleftrightarrow>
    t \<in> {V4L2_BUF_TYPE_VIDEO_CAPTURE, V4L2_BUF_TYPE_VIDEO_OVERLAY, V4L2_BUF_TYPE_VBI_CAPTURE,
      V4L2_BUF_TYPE_SLICED_VBI_CAPTURE, V4L2_BUF_TYPE_VIDEO_CAPTURE_MPLANE, V4L2_BUF_TYPE_SDR_CAPTURE,
      V4L2_BUF_TYPE_META_CAPTURE}"
    by (auto simp: V4L2_TYPE_IS_CAPTURE_def V4L2_TYPE_IS_OUTPUT_def V4L2_TYPE_IS_VALID_def v4l2_type_defs
        upt_rec [of _ 15])
qed

section \<open>Defaults\<close>

text \<open>
  The defaults are never the placeholder for a default again, and agree with the tables in the
  comments of the header.
\<close>

lemma v4l2_defaults:
  "V4L2_MAP_COLORSPACE_DEFAULT sdtv hdtv \<noteq> V4L2_COLORSPACE_DEFAULT"
  "V4L2_MAP_XFER_FUNC_DEFAULT c \<noteq> V4L2_XFER_FUNC_DEFAULT"
  "V4L2_MAP_YCBCR_ENC_DEFAULT c \<noteq> V4L2_YCBCR_ENC_DEFAULT"
  "V4L2_MAP_QUANTIZATION_DEFAULT rgb c e \<noteq> V4L2_QUANTIZATION_DEFAULT"
  by (simp_all add: V4L2_MAP_COLORSPACE_DEFAULT_def V4L2_MAP_XFER_FUNC_DEFAULT_def
      V4L2_MAP_YCBCR_ENC_DEFAULT_def V4L2_MAP_QUANTIZATION_DEFAULT_def)

lemma jpeg_shorthand:
  "V4L2_MAP_XFER_FUNC_DEFAULT V4L2_COLORSPACE_JPEG = V4L2_MAP_XFER_FUNC_DEFAULT V4L2_COLORSPACE_SRGB"
  "V4L2_MAP_YCBCR_ENC_DEFAULT V4L2_COLORSPACE_JPEG = V4L2_YCBCR_ENC_601"
  "V4L2_MAP_QUANTIZATION_DEFAULT rgb V4L2_COLORSPACE_JPEG e = V4L2_QUANTIZATION_FULL_RANGE"
  by (simp_all add: V4L2_MAP_XFER_FUNC_DEFAULT_def V4L2_MAP_YCBCR_ENC_DEFAULT_def
      V4L2_MAP_QUANTIZATION_DEFAULT_def)

section \<open>Standards\<close>

text \<open>Each analog standard belongs to exactly one of the two line rates, all of them together are
  the set of all analog standards, and the digital ones are in neither.\<close>

theorem v4l2_line_rates:
  "V4L2_STD_525_60 AND V4L2_STD_625_50 = 0 \<and> V4L2_STD_525_60 OR V4L2_STD_625_50 = V4L2_STD_ALL \<and>
    V4L2_STD_ALL = mask 24 \<and> V4L2_STD_ATSC = push_bit 24 (mask 2) \<and>
    V4L2_STD_PAL OR V4L2_STD_SECAM = V4L2_STD_625_50 AND NOT (V4L2_STD_PAL_N OR V4L2_STD_PAL_Nc)"
  by code_simp

section \<open>Frames and time stamps\<close>

lemma frame_height:
  "V4L2_DV_BT_FRAME_HEIGHT bt =
    bt_height bt + bt_vfrontporch bt + bt_vsync bt + bt_vbackporch bt +
    (if bt_interlaced bt = 0 then 0 else bt_il_vfrontporch bt + bt_il_vsync bt + bt_il_vbackporch bt)"
  by (simp add: V4L2_DV_BT_FRAME_HEIGHT_def V4L2_DV_BT_BLANKING_HEIGHT_def)

text \<open>
  A normal time stamp from 1970 on converts to its nanoseconds, up to about 584 years, and later times
  convert to greater values.
\<close>

lemma timeval_to_ns:
  assumes "0 \<le> tv_sec t" and "0 \<le> tv_usec t" and "tv_usec t < 1000000" and "tv_sec t < 18446744073"
  shows "map_option uint (v4l2_timeval_to_ns t) = Some ((tv_sec t * 1000000 + tv_usec t) * 1000)"
proof -
  let ?n = "tv_sec t * 1000000000 + tv_usec t * 1000"
  have "uint (of_int n :: u64) = n" if "0 \<le> n" "n < 2 ^ 64" for n
    using that by (simp add: uint_word_of_int_eq take_bit_int_eq_self)
  from this [of ?n] have "uint (of_int (tv_sec t) * 1000000000 + of_int (tv_usec t) * 1000 :: u64) = ?n"
    using assms by simp
  then show ?thesis
    using assms by (simp add: v4l2_timeval_to_ns_def)
qed

text \<open>The classes of controls, and the part of a class that drivers may use.\<close>

lemma ctrl_id_parts:
  assumes "cls < 2 ^ 12" and "n < 2 ^ 16"
  shows "V4L2_CTRL_ID2CLASS (push_bit 16 cls OR n) = ucast (push_bit 16 cls)"
    and "V4L2_CTRL_ID2WHICH (push_bit 16 cls OR n) = ucast (push_bit 16 cls)"
    and "V4L2_CTRL_DRIVER_PRIV (push_bit 16 cls OR n) \<longleftrightarrow> 0x1000 \<le> n"
proof -
  note small = less_not_bit [OF assms(1)] less_not_bit [OF assms(2)]
  have class_mask: "0x0fff0000 = push_bit 16 (mask 12 :: u64)"
    by (simp add: mask_eq_exp_minus_1 push_bit_eq_mult)
  have "ucast (push_bit 16 cls OR n) AND 0x0fff0000 = (ucast (push_bit 16 cls) :: u64)"
    unfolding class_mask by (rule bit_word_eqI) (auto simp: bit_simps small intro: not_bit_small [OF assms(1), simplified])
  then show "V4L2_CTRL_ID2CLASS (push_bit 16 cls OR n) = ucast (push_bit 16 cls)"
    "V4L2_CTRL_ID2WHICH (push_bit 16 cls OR n) = ucast (push_bit 16 cls)"
    by (simp_all only: V4L2_CTRL_ID2CLASS_def V4L2_CTRL_ID2WHICH_def)
  have number_mask: "0xffff = (mask 16 :: u32)" by (simp add: mask_eq_exp_minus_1)
  have "(push_bit 16 cls OR n) AND 0xffff = n"
    unfolding number_mask by (rule bit_word_eqI) (auto simp: bit_simps small intro: not_bit_small [OF assms(2), simplified])
  then show "V4L2_CTRL_DRIVER_PRIV (push_bit 16 cls OR n) \<longleftrightarrow> 0x1000 \<le> n"
    by (simp only: V4L2_CTRL_DRIVER_PRIV_def)
qed

end
