(* ===== verification/Tagged_Words.thy ===== *)
theory Tagged_Words
  imports Packed_Code Bit_Field
begin

text \<open>
  Words with a tag or several parts, of ten headers: pulse and space samples of \<^verbatim>\<open>linux/lirc.h\<close>,
  the entry header of \<^verbatim>\<open>linux/target_core_user.h\<close>, remote handles of \<^verbatim>\<open>linux/kcov.h\<close>, addresses of
  \<^verbatim>\<open>linux/mdio.h\<close>, event counts of \<^verbatim>\<open>linux/raid/md_p.h\<close>, speeds and ring cookies of
  \<^verbatim>\<open>linux/ethtool.h\<close>, block group flags of \<^verbatim>\<open>linux/btrfs_tree.h\<close>, traffic control handles of
  \<^verbatim>\<open>linux/pkt_sched.h\<close> and \<^verbatim>\<open>linux/pkt_cls.h\<close>, and event codes of \<^verbatim>\<open>linux/iio/events.h\<close>.
\<close>

section \<open>Infrared samples\<close>

definition LIRC_MODE2_SPACE :: u32 where "LIRC_MODE2_SPACE = 0x00000000"

definition LIRC_MODE2_PULSE :: u32 where "LIRC_MODE2_PULSE = 0x01000000"

definition LIRC_MODE2_FREQUENCY :: u32 where "LIRC_MODE2_FREQUENCY = 0x02000000"

definition LIRC_MODE2_TIMEOUT :: u32 where "LIRC_MODE2_TIMEOUT = 0x03000000"

definition LIRC_VALUE_MASK :: u32 where "LIRC_VALUE_MASK = 0x00FFFFFF"

definition LIRC_MODE2_MASK :: u32 where "LIRC_MODE2_MASK = 0xFF000000"

definition LIRC_SPACE :: "u32 \<Rightarrow> u32" where "LIRC_SPACE val = (val AND LIRC_VALUE_MASK) OR LIRC_MODE2_SPACE"

definition LIRC_PULSE :: "u32 \<Rightarrow> u32" where "LIRC_PULSE val = (val AND LIRC_VALUE_MASK) OR LIRC_MODE2_PULSE"

definition LIRC_FREQUENCY :: "u32 \<Rightarrow> u32" where
  "LIRC_FREQUENCY val = (val AND LIRC_VALUE_MASK) OR LIRC_MODE2_FREQUENCY"

definition LIRC_TIMEOUT :: "u32 \<Rightarrow> u32" where
  "LIRC_TIMEOUT val = (val AND LIRC_VALUE_MASK) OR LIRC_MODE2_TIMEOUT"

definition LIRC_VALUE :: "u32 \<Rightarrow> u32" where "LIRC_VALUE val = val AND LIRC_VALUE_MASK"

definition LIRC_MODE2 :: "u32 \<Rightarrow> u32" where "LIRC_MODE2 val = val AND LIRC_MODE2_MASK"

definition LIRC_IS_SPACE :: "u32 \<Rightarrow> bool" where "LIRC_IS_SPACE val \<longleftrightarrow> LIRC_MODE2 val = LIRC_MODE2_SPACE"

definition LIRC_IS_PULSE :: "u32 \<Rightarrow> bool" where "LIRC_IS_PULSE val \<longleftrightarrow> LIRC_MODE2 val = LIRC_MODE2_PULSE"

definition LIRC_IS_FREQUENCY :: "u32 \<Rightarrow> bool" where
  "LIRC_IS_FREQUENCY val \<longleftrightarrow> LIRC_MODE2 val = LIRC_MODE2_FREQUENCY"

definition LIRC_IS_TIMEOUT :: "u32 \<Rightarrow> bool" where
  "LIRC_IS_TIMEOUT val \<longleftrightarrow> LIRC_MODE2 val = LIRC_MODE2_TIMEOUT"

definition LIRC_MODE2SEND :: "u32 \<Rightarrow> u32" where "LIRC_MODE2SEND x = x"

definition LIRC_SEND2MODE :: "u32 \<Rightarrow> u32" where "LIRC_SEND2MODE x = x"

definition LIRC_MODE2REC :: "u32 \<Rightarrow> u32" where "LIRC_MODE2REC x = push_bit 16 x"

definition LIRC_REC2MODE :: "u32 \<Rightarrow> u32" where "LIRC_REC2MODE x = drop_bit 16 x"

definition LIRC_CAN_SEND_MASK :: u32 where "LIRC_CAN_SEND_MASK = 0x0000003f"

definition LIRC_CAN_REC_MASK :: u32 where "LIRC_CAN_REC_MASK = LIRC_MODE2REC LIRC_CAN_SEND_MASK"

definition LIRC_CAN_SEND :: "u32 \<Rightarrow> u32" where "LIRC_CAN_SEND x = x AND LIRC_CAN_SEND_MASK"

definition LIRC_CAN_REC :: "u32 \<Rightarrow> u32" where "LIRC_CAN_REC x = x AND LIRC_CAN_REC_MASK"

section \<open>Command entries of user space targets\<close>

definition TCMU_OP_MASK :: u32 where "TCMU_OP_MASK = 0x7"

definition tcmu_hdr_get_op :: "u32 \<Rightarrow> u32" where "tcmu_hdr_get_op len_op = len_op AND TCMU_OP_MASK"

definition tcmu_hdr_set_op :: "u32 \<Rightarrow> u32 \<Rightarrow> u32" where
  "tcmu_hdr_set_op opcode len_op = (len_op AND NOT TCMU_OP_MASK) OR (opcode AND TCMU_OP_MASK)"

definition tcmu_hdr_get_len :: "u32 \<Rightarrow> u32" where "tcmu_hdr_get_len len_op = len_op AND NOT TCMU_OP_MASK"

definition tcmu_hdr_set_len :: "u32 \<Rightarrow> u32 \<Rightarrow> u32" where
  "tcmu_hdr_set_len n len_op = (len_op AND TCMU_OP_MASK) OR n"

section \<open>Coverage handles, bus addresses, event counts\<close>

definition KCOV_CMP_CONST :: u64 where "KCOV_CMP_CONST = push_bit 0 1"

definition KCOV_CMP_SIZE :: "u64 \<Rightarrow> u64" where "KCOV_CMP_SIZE n = push_bit 1 n"

definition KCOV_CMP_MASK :: u64 where "KCOV_CMP_MASK = KCOV_CMP_SIZE 3"

definition KCOV_SUBSYSTEM_COMMON :: u64 where "KCOV_SUBSYSTEM_COMMON = push_bit 56 0x00"

definition KCOV_SUBSYSTEM_USB :: u64 where "KCOV_SUBSYSTEM_USB = push_bit 56 0x01"

definition KCOV_SUBSYSTEM_MASK :: u64 where "KCOV_SUBSYSTEM_MASK = push_bit 56 0xff"

definition KCOV_INSTANCE_MASK :: u64 where "KCOV_INSTANCE_MASK = 0xffffffff"

definition kcov_remote_handle :: "u64 \<Rightarrow> u64 \<Rightarrow> u64" where
  "kcov_remote_handle subsys inst =
     (if subsys AND NOT KCOV_SUBSYSTEM_MASK \<noteq> 0 \<or> inst AND NOT KCOV_INSTANCE_MASK \<noteq> 0 then 0
      else subsys OR inst)"

definition MDIO_PHY_ID_C45 :: u16 where "MDIO_PHY_ID_C45 = 0x8000"

definition MDIO_PHY_ID_PRTAD :: u16 where "MDIO_PHY_ID_PRTAD = 0x03e0"

definition MDIO_PHY_ID_DEVAD :: u16 where "MDIO_PHY_ID_DEVAD = 0x001f"

definition MDIO_PHY_ID_C45_MASK :: u16 where
  "MDIO_PHY_ID_C45_MASK = MDIO_PHY_ID_C45 OR MDIO_PHY_ID_PRTAD OR MDIO_PHY_ID_DEVAD"

text \<open>The arguments are \<^verbatim>\<open>int\<close>, the result is cut to 16 bits.\<close>

definition mdio_phy_id_c45 :: "u32 \<Rightarrow> u32 \<Rightarrow> u16" where
  "mdio_phy_id_c45 prtad devad = ucast (ucast MDIO_PHY_ID_C45 OR push_bit 5 prtad OR devad)"

definition MD_RESERVED_BYTES :: u64 where "MD_RESERVED_BYTES = 64 * 1024"

definition MD_RESERVED_SECTORS :: u64 where "MD_RESERVED_SECTORS = MD_RESERVED_BYTES div 512"

definition MD_NEW_SIZE_SECTORS :: "u64 \<Rightarrow> u64" where
  "MD_NEW_SIZE_SECTORS x = (x AND NOT (MD_RESERVED_SECTORS - 1)) - MD_RESERVED_SECTORS"

definition MD_SB_BYTES :: u64 where "MD_SB_BYTES = 4096"

definition MD_SB_SECTORS :: u64 where "MD_SB_SECTORS = MD_SB_BYTES div 512"

record mdp_super =
  events_hi :: u32
  events_lo :: u32

definition md_event :: "mdp_super \<Rightarrow> u64" where
  "md_event sb = (let ev = ucast (events_hi sb) in push_bit 32 ev OR ucast (events_lo sb))"

section \<open>Block groups\<close>

definition BTRFS_BLOCK_GROUP_DATA :: u64 where "BTRFS_BLOCK_GROUP_DATA = push_bit 0 1"

definition BTRFS_BLOCK_GROUP_SYSTEM :: u64 where "BTRFS_BLOCK_GROUP_SYSTEM = push_bit 1 1"

definition BTRFS_BLOCK_GROUP_METADATA :: u64 where "BTRFS_BLOCK_GROUP_METADATA = push_bit 2 1"

definition BTRFS_BLOCK_GROUP_RAID0 :: u64 where "BTRFS_BLOCK_GROUP_RAID0 = push_bit 3 1"

definition BTRFS_BLOCK_GROUP_RAID1 :: u64 where "BTRFS_BLOCK_GROUP_RAID1 = push_bit 4 1"

definition BTRFS_BLOCK_GROUP_DUP :: u64 where "BTRFS_BLOCK_GROUP_DUP = push_bit 5 1"

definition BTRFS_BLOCK_GROUP_RAID10 :: u64 where "BTRFS_BLOCK_GROUP_RAID10 = push_bit 6 1"

definition BTRFS_BLOCK_GROUP_RAID5 :: u64 where "BTRFS_BLOCK_GROUP_RAID5 = push_bit 7 1"

definition BTRFS_BLOCK_GROUP_RAID6 :: u64 where "BTRFS_BLOCK_GROUP_RAID6 = push_bit 8 1"

definition BTRFS_BLOCK_GROUP_RAID1C3 :: u64 where "BTRFS_BLOCK_GROUP_RAID1C3 = push_bit 9 1"

definition BTRFS_BLOCK_GROUP_RAID1C4 :: u64 where "BTRFS_BLOCK_GROUP_RAID1C4 = push_bit 10 1"

definition BTRFS_AVAIL_ALLOC_BIT_SINGLE :: u64 where "BTRFS_AVAIL_ALLOC_BIT_SINGLE = push_bit 48 1"

definition BTRFS_SPACE_INFO_GLOBAL_RSV :: u64 where "BTRFS_SPACE_INFO_GLOBAL_RSV = push_bit 49 1"

definition BTRFS_BLOCK_GROUP_RESERVED :: u64 where
  "BTRFS_BLOCK_GROUP_RESERVED =
     BTRFS_AVAIL_ALLOC_BIT_SINGLE OR BTRFS_SPACE_INFO_GLOBAL_RSV"

definition BTRFS_BLOCK_GROUP_TYPE_MASK :: u64 where
  "BTRFS_BLOCK_GROUP_TYPE_MASK =
     BTRFS_BLOCK_GROUP_DATA OR BTRFS_BLOCK_GROUP_SYSTEM OR BTRFS_BLOCK_GROUP_METADATA"

definition BTRFS_BLOCK_GROUP_PROFILE_MASK :: u64 where
  "BTRFS_BLOCK_GROUP_PROFILE_MASK =
     BTRFS_BLOCK_GROUP_RAID0 OR BTRFS_BLOCK_GROUP_RAID1 OR BTRFS_BLOCK_GROUP_RAID1C3 OR
     BTRFS_BLOCK_GROUP_RAID1C4 OR BTRFS_BLOCK_GROUP_RAID5 OR BTRFS_BLOCK_GROUP_RAID6 OR
     BTRFS_BLOCK_GROUP_DUP OR BTRFS_BLOCK_GROUP_RAID10"

definition BTRFS_BLOCK_GROUP_RAID56_MASK :: u64 where
  "BTRFS_BLOCK_GROUP_RAID56_MASK =
     BTRFS_BLOCK_GROUP_RAID5 OR BTRFS_BLOCK_GROUP_RAID6"

definition BTRFS_BLOCK_GROUP_RAID1_MASK :: u64 where
  "BTRFS_BLOCK_GROUP_RAID1_MASK =
     BTRFS_BLOCK_GROUP_RAID1 OR BTRFS_BLOCK_GROUP_RAID1C3 OR BTRFS_BLOCK_GROUP_RAID1C4"

definition BTRFS_EXTENDED_PROFILE_MASK :: u64 where
  "BTRFS_EXTENDED_PROFILE_MASK =
     BTRFS_BLOCK_GROUP_PROFILE_MASK OR BTRFS_AVAIL_ALLOC_BIT_SINGLE"

definition chunk_to_extended :: "u64 \<Rightarrow> u64" where
  "chunk_to_extended flags =
     (if flags AND BTRFS_BLOCK_GROUP_PROFILE_MASK = 0 then flags OR BTRFS_AVAIL_ALLOC_BIT_SINGLE else flags)"

definition extended_to_chunk :: "u64 \<Rightarrow> u64" where
  "extended_to_chunk flags = flags AND NOT BTRFS_AVAIL_ALLOC_BIT_SINGLE"

definition BTRFS_QGROUP_LEVEL_SHIFT :: nat where "BTRFS_QGROUP_LEVEL_SHIFT = 48"

definition btrfs_qgroup_level :: "u64 \<Rightarrow> u16" where
  "btrfs_qgroup_level qgroupid = ucast (drop_bit BTRFS_QGROUP_LEVEL_SHIFT qgroupid)"

section \<open>Network interfaces\<close>

record ethtool_cmd =
  ec_cmd :: u32
  ec_supported :: u32
  ec_advertising :: u32
  ec_speed :: u16
  ec_duplex :: u8
  ec_port :: u8
  ec_phy_address :: u8
  ec_transceiver :: u8
  ec_autoneg :: u8
  ec_mdio_support :: u8
  ec_maxtxpkt :: u32
  ec_maxrxpkt :: u32
  ec_speed_hi :: u16
  ec_eth_tp_mdix :: u8
  ec_eth_tp_mdix_ctrl :: u8
  ec_lp_advertising :: u32

definition ethtool_cmd_speed_set :: "u32 \<Rightarrow> ethtool_cmd \<Rightarrow> ethtool_cmd" where
  "ethtool_cmd_speed_set speed ep =
     ep\<lparr>ec_speed := ucast (speed AND 0xFFFF), ec_speed_hi := ucast (drop_bit 16 speed)\<rparr>"

definition ethtool_cmd_speed :: "ethtool_cmd \<Rightarrow> u32" where
  "ethtool_cmd_speed ep = push_bit 16 (ucast (ec_speed_hi ep)) OR ucast (ec_speed ep)"

definition SPEED_UNKNOWN :: int where "SPEED_UNKNOWN = - 1"

definition ethtool_validate_speed :: "u32 \<Rightarrow> bool" where
  "ethtool_validate_speed speed \<longleftrightarrow> speed \<le> 2147483647 \<or> speed = word_of_int SPEED_UNKNOWN"

definition DUPLEX_HALF :: u8 where "DUPLEX_HALF = 0x00"

definition DUPLEX_FULL :: u8 where "DUPLEX_FULL = 0x01"

definition DUPLEX_UNKNOWN :: u8 where "DUPLEX_UNKNOWN = 0xff"

definition ethtool_validate_duplex :: "u8 \<Rightarrow> bool" where
  "ethtool_validate_duplex duplex \<longleftrightarrow>
     (if duplex = DUPLEX_HALF \<or> duplex = DUPLEX_FULL \<or> duplex = DUPLEX_UNKNOWN then True else False)"

definition ETHTOOL_RX_FLOW_SPEC_RING :: u64 where "ETHTOOL_RX_FLOW_SPEC_RING = 0x00000000FFFFFFFF"

definition ETHTOOL_RX_FLOW_SPEC_RING_VF :: u64 where "ETHTOOL_RX_FLOW_SPEC_RING_VF = 0x000000FF00000000"

definition ETHTOOL_RX_FLOW_SPEC_RING_VF_OFF :: nat where "ETHTOOL_RX_FLOW_SPEC_RING_VF_OFF = 32"

definition ethtool_get_flow_spec_ring :: "u64 \<Rightarrow> u64" where
  "ethtool_get_flow_spec_ring ring_cookie = ETHTOOL_RX_FLOW_SPEC_RING AND ring_cookie"

definition ethtool_get_flow_spec_ring_vf :: "u64 \<Rightarrow> u64" where
  "ethtool_get_flow_spec_ring_vf ring_cookie =
     drop_bit ETHTOOL_RX_FLOW_SPEC_RING_VF_OFF (ETHTOOL_RX_FLOW_SPEC_RING_VF AND ring_cookie)"

section \<open>Traffic control\<close>

definition TC_H_MAJ_MASK :: u32 where "TC_H_MAJ_MASK = 0xFFFF0000"

definition TC_H_MIN_MASK :: u32 where "TC_H_MIN_MASK = 0x0000FFFF"

definition TC_H_MAJ :: "u32 \<Rightarrow> u32" where "TC_H_MAJ h = h AND TC_H_MAJ_MASK"

definition TC_H_MIN :: "u32 \<Rightarrow> u32" where "TC_H_MIN h = h AND TC_H_MIN_MASK"

definition TC_H_MAKE :: "u32 \<Rightarrow> u32 \<Rightarrow> u32" where
  "TC_H_MAKE major minor = (major AND TC_H_MAJ_MASK) OR (minor AND TC_H_MIN_MASK)"

definition TC_U32_HTID :: "u32 \<Rightarrow> u32" where "TC_U32_HTID h = h AND 0xFFF00000"

definition TC_U32_USERHTID :: "u32 \<Rightarrow> u32" where "TC_U32_USERHTID h = drop_bit 20 (TC_U32_HTID h)"

definition TC_U32_HASH :: "u32 \<Rightarrow> u32" where "TC_U32_HASH h = drop_bit 12 h AND 0xFF"

definition TC_U32_NODE :: "u32 \<Rightarrow> u32" where "TC_U32_NODE h = h AND 0xFFF"

definition TC_U32_KEY :: "u32 \<Rightarrow> u32" where "TC_U32_KEY h = h AND 0xFFFFF"

definition TC_ACT_EXT_SHIFT :: nat where "TC_ACT_EXT_SHIFT = 28"

definition TC_ACT_EXT :: "u32 \<Rightarrow> u32" where "TC_ACT_EXT local = push_bit TC_ACT_EXT_SHIFT local"

definition TC_ACT_EXT_VAL_MASK :: u32 where "TC_ACT_EXT_VAL_MASK = push_bit TC_ACT_EXT_SHIFT 1 - 1"

definition TC_ACT_EXT_OPCODE :: "u32 \<Rightarrow> u32" where
  "TC_ACT_EXT_OPCODE combined = combined AND NOT TC_ACT_EXT_VAL_MASK"

definition TC_ACT_EXT_CMP :: "u32 \<Rightarrow> u32 \<Rightarrow> bool" where
  "TC_ACT_EXT_CMP combined opcode \<longleftrightarrow> TC_ACT_EXT_OPCODE combined = opcode"

definition TC_ACT_JUMP :: u32 where "TC_ACT_JUMP = TC_ACT_EXT 1"

definition TC_ACT_GOTO_CHAIN :: u32 where "TC_ACT_GOTO_CHAIN = TC_ACT_EXT 2"

definition TC_ACT_EXT_OPCODE_MAX :: u32 where "TC_ACT_EXT_OPCODE_MAX = TC_ACT_GOTO_CHAIN"

definition TCF_EM_REL_END :: u16 where "TCF_EM_REL_END = 0"

definition TCF_EM_REL_AND :: u16 where "TCF_EM_REL_AND = push_bit 0 1"

definition TCF_EM_REL_OR :: u16 where "TCF_EM_REL_OR = push_bit 1 1"

definition TCF_EM_INVERT :: u16 where "TCF_EM_INVERT = push_bit 2 1"

definition TCF_EM_SIMPLE :: u16 where "TCF_EM_SIMPLE = push_bit 3 1"

definition TCF_EM_REL_MASK :: u16 where "TCF_EM_REL_MASK = 3"

definition TCF_EM_REL_VALID :: "u16 \<Rightarrow> bool" where
  "TCF_EM_REL_VALID v \<longleftrightarrow> v AND TCF_EM_REL_MASK \<noteq> TCF_EM_REL_MASK"

section \<open>Sensor events\<close>

definition IIO_EVENT_CODE_EXTRACT_TYPE :: "u64 \<Rightarrow> u64" where
  "IIO_EVENT_CODE_EXTRACT_TYPE code = drop_bit 56 code AND 0xFF"

definition IIO_EVENT_CODE_EXTRACT_DIR :: "u64 \<Rightarrow> u64" where
  "IIO_EVENT_CODE_EXTRACT_DIR code = drop_bit 48 code AND 0x7F"

definition IIO_EVENT_CODE_EXTRACT_CHAN_TYPE :: "u64 \<Rightarrow> u64" where
  "IIO_EVENT_CODE_EXTRACT_CHAN_TYPE code = drop_bit 32 code AND 0xFF"

text \<open>Channel numbers are cast to \<^verbatim>\<open>__s16\<close>; the words here are read with \<open>sint\<close>.\<close>

definition IIO_EVENT_CODE_EXTRACT_CHAN :: "u64 \<Rightarrow> u16" where
  "IIO_EVENT_CODE_EXTRACT_CHAN code = ucast (code AND 0xFFFF)"

definition IIO_EVENT_CODE_EXTRACT_CHAN2 :: "u64 \<Rightarrow> u16" where
  "IIO_EVENT_CODE_EXTRACT_CHAN2 code = ucast (drop_bit 16 code AND 0xFFFF)"

definition IIO_EVENT_CODE_EXTRACT_MODIFIER :: "u64 \<Rightarrow> u64" where
  "IIO_EVENT_CODE_EXTRACT_MODIFIER code = drop_bit 40 code AND 0xFF"

definition IIO_EVENT_CODE_EXTRACT_DIFF :: "u64 \<Rightarrow> u64" where
  "IIO_EVENT_CODE_EXTRACT_DIFF code = drop_bit 55 code AND 0x1"

section \<open>What is put in is what comes out\<close>

lemma part_masks:
  "(0x00FFFFFF :: u32) = mask 24" "(0xFF000000 :: u32) = push_bit 24 (mask 8)"
  "(0xFFFF0000 :: u32) = push_bit 16 (mask 16)" "(0x0000FFFF :: u32) = mask 16"
  "(0xFFF00000 :: u32) = push_bit 20 (mask 12)" "(0xFFFFF :: u32) = mask 20" "(0xFFF :: u32) = mask 12"
  "(0xFF :: u32) = mask 8" "(0x7 :: u32) = mask 3"
  "(0xff :: u64) = mask 8" "(0x7F :: u64) = mask 7" "(0xFFFF :: u64) = mask 16"
  "(0xffffffff :: u64) = mask 32" "(0x000000FF00000000 :: u64) = push_bit 32 (mask 8)"
  by (simp_all add: mask_eq_exp_minus_1 push_bit_eq_mult)

lemmas sample_defs =
  LIRC_SPACE_def LIRC_PULSE_def LIRC_FREQUENCY_def LIRC_TIMEOUT_def LIRC_VALUE_def LIRC_MODE2_def
  LIRC_IS_SPACE_def LIRC_IS_PULSE_def LIRC_IS_FREQUENCY_def LIRC_IS_TIMEOUT_def LIRC_VALUE_MASK_def
  LIRC_MODE2_MASK_def LIRC_MODE2_SPACE_def LIRC_MODE2_PULSE_def LIRC_MODE2_FREQUENCY_def
  LIRC_MODE2_TIMEOUT_def

text \<open>A sample's kind and its duration, the latter cut to 24 bits.\<close>

lemma masked_small:
  fixes v k :: u32
  shows "(v AND 0x00FFFFFF OR push_bit 24 k) AND 0x00FFFFFF = v AND 0x00FFFFFF"
    "(v AND 0x00FFFFFF OR push_bit 24 k) AND 0xFF000000 = push_bit 24 k"
  unfolding part_masks by (rule bit_word_eqI; auto simp: bit_simps)+

lemma sample_tags:
  "(0x01000000 :: u32) = push_bit 24 1" "(0x02000000 :: u32) = push_bit 24 2"
  "(0x03000000 :: u32) = push_bit 24 3" "(0 :: u32) = push_bit 24 0"
  by (simp_all add: push_bit_eq_mult)

lemma sample_value:
  "LIRC_VALUE (LIRC_SPACE v) = v AND LIRC_VALUE_MASK" "LIRC_VALUE (LIRC_PULSE v) = v AND LIRC_VALUE_MASK"
  "LIRC_VALUE (LIRC_FREQUENCY v) = v AND LIRC_VALUE_MASK"
  "LIRC_VALUE (LIRC_TIMEOUT v) = v AND LIRC_VALUE_MASK"
  unfolding sample_defs
  using masked_small(1) [of v 0] masked_small(1) [of v 1] masked_small(1) [of v 2] masked_small(1) [of v 3]
  by (simp_all add: push_bit_eq_mult)

lemma sample_mode:
  "LIRC_MODE2 (LIRC_SPACE v) = LIRC_MODE2_SPACE" "LIRC_MODE2 (LIRC_PULSE v) = LIRC_MODE2_PULSE"
  "LIRC_MODE2 (LIRC_FREQUENCY v) = LIRC_MODE2_FREQUENCY"
  "LIRC_MODE2 (LIRC_TIMEOUT v) = LIRC_MODE2_TIMEOUT"
  unfolding sample_defs
  using masked_small(2) [of v 0] masked_small(2) [of v 1] masked_small(2) [of v 2] masked_small(2) [of v 3]
  by (simp_all add: push_bit_eq_mult)

lemma sample_kinds:
  "LIRC_IS_SPACE (LIRC_SPACE v) \<and> \<not> LIRC_IS_PULSE (LIRC_SPACE v) \<and>
   \<not> LIRC_IS_FREQUENCY (LIRC_SPACE v) \<and> \<not> LIRC_IS_TIMEOUT (LIRC_SPACE v)"
  "LIRC_IS_PULSE (LIRC_PULSE v) \<and> \<not> LIRC_IS_SPACE (LIRC_PULSE v) \<and>
   \<not> LIRC_IS_FREQUENCY (LIRC_PULSE v) \<and> \<not> LIRC_IS_TIMEOUT (LIRC_PULSE v)"
  "LIRC_IS_FREQUENCY (LIRC_FREQUENCY v) \<and> \<not> LIRC_IS_TIMEOUT (LIRC_FREQUENCY v)"
  "LIRC_IS_TIMEOUT (LIRC_TIMEOUT v)"
  unfolding LIRC_IS_SPACE_def LIRC_IS_PULSE_def LIRC_IS_FREQUENCY_def LIRC_IS_TIMEOUT_def sample_mode
  unfolding LIRC_MODE2_SPACE_def LIRC_MODE2_PULSE_def LIRC_MODE2_FREQUENCY_def LIRC_MODE2_TIMEOUT_def
  by simp_all

lemma sample_rebuilt: "LIRC_VALUE w OR LIRC_MODE2 w = w"
  unfolding sample_defs part_masks by (rule bit_word_eqI) (auto simp: bit_simps)

text \<open>Whether a device can receive a mode is the bit its sending counterpart has, sixteen higher.\<close>

lemma sending_modes: "LIRC_CAN_SEND_MASK = mask 6"
  by (simp add: LIRC_CAN_SEND_MASK_def mask_eq_exp_minus_1)

lemma mode_receive: "LIRC_REC2MODE (LIRC_CAN_REC (LIRC_MODE2REC x)) = LIRC_CAN_SEND x"
  unfolding LIRC_REC2MODE_def LIRC_CAN_REC_def LIRC_MODE2REC_def LIRC_CAN_REC_MASK_def LIRC_CAN_SEND_def
    sending_modes
  by (rule bit_word_eqI) (auto simp: bit_simps simp del: push_bit_and)

text \<open>Command entry headers: the operation is always read back, the length when it is a multiple of
  eight, and a length that is not spoils the operation.\<close>

lemma tcmu_op: "tcmu_hdr_get_op (tcmu_hdr_set_op opcode h) = opcode AND TCMU_OP_MASK"
  "tcmu_hdr_get_len (tcmu_hdr_set_op opcode h) = tcmu_hdr_get_len h"
  unfolding tcmu_hdr_get_op_def tcmu_hdr_set_op_def tcmu_hdr_get_len_def TCMU_OP_MASK_def part_masks
  by (rule bit_word_eqI; auto simp: bit_simps)+

lemma tcmu_len: "tcmu_hdr_get_len (tcmu_hdr_set_len n h) = n AND NOT TCMU_OP_MASK"
  "tcmu_hdr_get_op (tcmu_hdr_set_len n h) = tcmu_hdr_get_op h OR n AND TCMU_OP_MASK"
  unfolding tcmu_hdr_get_op_def tcmu_hdr_set_len_def tcmu_hdr_get_len_def TCMU_OP_MASK_def part_masks
  by (rule bit_word_eqI; auto simp: bit_simps)+

lemma tcmu_len_aligned:
  assumes "n AND TCMU_OP_MASK = 0"
  shows "tcmu_hdr_get_len (tcmu_hdr_set_len n h) = n" "tcmu_hdr_get_op (tcmu_hdr_set_len n h) = tcmu_hdr_get_op h"
proof -
  have "(n AND TCMU_OP_MASK) OR (n AND NOT TCMU_OP_MASK) = n"
    by (simp flip: bit.conj_disj_distrib)
  then have "n AND NOT TCMU_OP_MASK = n"
    by (simp add: assms)
  then show "tcmu_hdr_get_len (tcmu_hdr_set_len n h) = n"
    "tcmu_hdr_get_op (tcmu_hdr_set_len n h) = tcmu_hdr_get_op h"
    by (simp_all add: tcmu_len assms)
qed

text \<open>A handle keeps both its parts, or is zero.\<close>

lemma kcov_parts:
  assumes "subsys AND NOT KCOV_SUBSYSTEM_MASK = 0" and "inst AND NOT KCOV_INSTANCE_MASK = 0"
  shows "kcov_remote_handle subsys inst AND KCOV_SUBSYSTEM_MASK = subsys"
    "kcov_remote_handle subsys inst AND KCOV_INSTANCE_MASK = inst"
proof -
  have inside: "bit m n" if "x AND NOT m = 0" and "bit x n" for x m :: u64 and n
    using arg_cong [OF that(1), of "\<lambda>w. bit w n"] that(2)
    by (auto simp: bit_simps dest: bit_imp_le_length)
  note s = inside [OF assms(1)] and i = inside [OF assms(2)]
  have parts: "bit KCOV_SUBSYSTEM_MASK n \<longleftrightarrow> 56 \<le> n \<and> n < 64" "bit KCOV_INSTANCE_MASK n \<longleftrightarrow> n < 32" for n
    unfolding KCOV_SUBSYSTEM_MASK_def KCOV_INSTANCE_MASK_def part_masks by (auto simp: bit_simps)
  have "kcov_remote_handle subsys inst = subsys OR inst"
    using assms by (simp add: kcov_remote_handle_def)
  note joined = this
  show "kcov_remote_handle subsys inst AND KCOV_SUBSYSTEM_MASK = subsys"
    "kcov_remote_handle subsys inst AND KCOV_INSTANCE_MASK = inst"
    unfolding joined by (rule bit_word_eqI; auto simp: bit_simps parts dest: s i)+
qed

lemma kcov_refused:
  "subsys AND NOT KCOV_SUBSYSTEM_MASK \<noteq> 0 \<or> inst AND NOT KCOV_INSTANCE_MASK \<noteq> 0 \<Longrightarrow> kcov_remote_handle subsys inst = 0"
  by (simp add: kcov_remote_handle_def)

lemma events_both: "md_event sb = md_event sb' \<longleftrightarrow> events_hi sb = events_hi sb' \<and> events_lo sb = events_lo sb'"
proof -
  have "(ucast (drop_bit 32 (md_event r)) :: u32) = events_hi r" "(ucast (md_event r) :: u32) = events_lo r" for r
    unfolding md_event_def Let_def
    by (rule bit_word_eqI; auto simp: bit_simps dest: bit_imp_le_length)+
  then show ?thesis
    by (metis md_event_def)
qed

lemma speed_mask: "(0xFFFF :: u32) = mask 16"
  by (simp add: mask_eq_exp_minus_1)

interpretation speed: packed_code "\<lambda>n. ethtool_cmd_speed_set n ep" ethtool_cmd_speed "\<lambda>_. True"
  by unfold_locales
    (rule bit_word_eqI, auto simp: ethtool_cmd_speed_def ethtool_cmd_speed_set_def speed_mask bit_simps
      dest: bit_imp_le_length simp del: push_bit_and)

lemma speed_valid: "ethtool_validate_speed n \<longleftrightarrow> - 1 \<le> sint n"
proof -
  have "uint n = sint n mod 4294967296" "- 2147483648 \<le> sint n" "sint n < 2147483648"
    using uint_sint [of n] sint_ge [of n] sint_lt [of n] by (simp_all add: take_bit_eq_mod)
  then have "uint n = (if sint n < 0 then sint n + 4294967296 else sint n)"
    using mod_add_self2 [of "sint n" 4294967296] mod_pos_pos_trivial [of "sint n + 4294967296" 4294967296]
    by (auto simp: mod_pos_pos_trivial)
  moreover have "ethtool_validate_speed n \<longleftrightarrow> uint n \<le> 2147483647 \<or> uint n = 4294967295"
    by (simp add: ethtool_validate_speed_def SPEED_UNKNOWN_def word_le_def word_uint_eq_iff
        unsigned_minus_1_eq_mask mask_eq_exp_minus_1)
  ultimately show ?thesis
    using sint_ge [of n] sint_lt [of n] by auto
qed

lemma handle_parts: "TC_H_MAKE (TC_H_MAJ h) (TC_H_MIN h) = h"
  "TC_H_MAJ (TC_H_MAKE a b) = TC_H_MAJ a" "TC_H_MIN (TC_H_MAKE a b) = TC_H_MIN b"
  unfolding TC_H_MAKE_def TC_H_MAJ_def TC_H_MIN_def TC_H_MAJ_MASK_def TC_H_MIN_MASK_def part_masks
  by (rule bit_word_eqI; auto simp: bit_simps)+

lemma filter_handle_parts:
  "push_bit 20 (TC_U32_USERHTID h) OR push_bit 12 (TC_U32_HASH h) OR TC_U32_NODE h = h"
  "push_bit 12 (TC_U32_HASH h) OR TC_U32_NODE h = TC_U32_KEY h"
proof -
  have cut: "n - 12 < 8 \<longleftrightarrow> n < 20" if "12 \<le> n" for n :: nat
    using that by linarith
  have over: "20 + (n - 20) = (if n < 20 then 20 else n)" for n :: nat
    by simp
  show "push_bit 20 (TC_U32_USERHTID h) OR push_bit 12 (TC_U32_HASH h) OR TC_U32_NODE h = h"
    "push_bit 12 (TC_U32_HASH h) OR TC_U32_NODE h = TC_U32_KEY h"
    unfolding TC_U32_USERHTID_def TC_U32_HTID_def TC_U32_HASH_def TC_U32_NODE_def TC_U32_KEY_def part_masks
    by (rule bit_word_eqI; auto simp: bit_simps cut over not_less simp del: push_bit_and split: if_splits)+
qed

text \<open>The extended format marks a group without a profile; taking the mark away gives the chunk
  format back, and a group of the extended format always has a profile bit.\<close>

lemma profile_bits: "bit BTRFS_BLOCK_GROUP_PROFILE_MASK n \<longleftrightarrow> 3 \<le> n \<and> n < 11"
proof -
  have "BTRFS_BLOCK_GROUP_PROFILE_MASK = push_bit 3 (mask 8)"
    by (simp add: BTRFS_BLOCK_GROUP_PROFILE_MASK_def BTRFS_BLOCK_GROUP_RAID0_def BTRFS_BLOCK_GROUP_RAID1_def
        BTRFS_BLOCK_GROUP_RAID1C3_def BTRFS_BLOCK_GROUP_RAID1C4_def BTRFS_BLOCK_GROUP_RAID5_def
        BTRFS_BLOCK_GROUP_RAID6_def BTRFS_BLOCK_GROUP_DUP_def BTRFS_BLOCK_GROUP_RAID10_def
        push_bit_eq_mult mask_eq_exp_minus_1)
  show ?thesis
    unfolding \<open>BTRFS_BLOCK_GROUP_PROFILE_MASK = _\<close> by (auto simp: bit_simps)
qed

lemma single_bit: "bit BTRFS_AVAIL_ALLOC_BIT_SINGLE n \<longleftrightarrow> n = 48"
  unfolding BTRFS_AVAIL_ALLOC_BIT_SINGLE_def bit_push_bit_iff by (auto simp: bit_1_iff)

lemma extended_chunk: "\<not> bit flags 48 \<Longrightarrow> extended_to_chunk (chunk_to_extended flags) = flags"
  unfolding extended_to_chunk_def chunk_to_extended_def
  by (rule bit_word_eqI) (auto simp: bit_simps single_bit)

lemma extended_profile: "chunk_to_extended flags AND BTRFS_EXTENDED_PROFILE_MASK \<noteq> 0"
proof (cases "flags AND BTRFS_BLOCK_GROUP_PROFILE_MASK = 0")
  case True
  then have "bit (chunk_to_extended flags AND BTRFS_EXTENDED_PROFILE_MASK) 48"
    by (simp add: chunk_to_extended_def BTRFS_EXTENDED_PROFILE_MASK_def single_bit bit_or_iff bit_and_iff)
  then show ?thesis
    by (metis bit_0_eq bot_apply bot_bool_def)
next
  case False
  then show ?thesis
    by (simp add: chunk_to_extended_def BTRFS_EXTENDED_PROFILE_MASK_def bit.conj_disj_distrib or_eq_0_iff)
qed

lemma extended_again: "chunk_to_extended (chunk_to_extended flags) = chunk_to_extended flags"
  by (simp add: chunk_to_extended_def or.assoc)

section \<open>Event codes\<close>

text \<open>The seven parts of an event code cover it: two codes with the same parts are the same.\<close>

lemmas event_part_defs =
  IIO_EVENT_CODE_EXTRACT_TYPE_def IIO_EVENT_CODE_EXTRACT_DIR_def IIO_EVENT_CODE_EXTRACT_DIFF_def
  IIO_EVENT_CODE_EXTRACT_MODIFIER_def IIO_EVENT_CODE_EXTRACT_CHAN_TYPE_def
  IIO_EVENT_CODE_EXTRACT_CHAN2_def IIO_EVENT_CODE_EXTRACT_CHAN_def

lemma event_code_parts:
  "push_bit 56 (IIO_EVENT_CODE_EXTRACT_TYPE c) OR push_bit 55 (IIO_EVENT_CODE_EXTRACT_DIFF c) OR
   push_bit 48 (IIO_EVENT_CODE_EXTRACT_DIR c) OR push_bit 40 (IIO_EVENT_CODE_EXTRACT_MODIFIER c) OR
   push_bit 32 (IIO_EVENT_CODE_EXTRACT_CHAN_TYPE c) OR push_bit 16 (ucast (IIO_EVENT_CODE_EXTRACT_CHAN2 c)) OR
   ucast (IIO_EVENT_CODE_EXTRACT_CHAN c) = c"
proof (rule bit_word_eqI)
  fix n assume "n < LENGTH(64)"
  then consider "n < 16" | "16 \<le> n \<and> n < 32" | "32 \<le> n \<and> n < 40" | "40 \<le> n \<and> n < 48" | "48 \<le> n \<and> n < 55"
    | "n = 55" | "56 \<le> n \<and> n < 64"
    by fastforce
  then show "bit (push_bit 56 (IIO_EVENT_CODE_EXTRACT_TYPE c) OR push_bit 55 (IIO_EVENT_CODE_EXTRACT_DIFF c) OR
   push_bit 48 (IIO_EVENT_CODE_EXTRACT_DIR c) OR push_bit 40 (IIO_EVENT_CODE_EXTRACT_MODIFIER c) OR
   push_bit 32 (IIO_EVENT_CODE_EXTRACT_CHAN_TYPE c) OR push_bit 16 (ucast (IIO_EVENT_CODE_EXTRACT_CHAN2 c)) OR
   ucast (IIO_EVENT_CODE_EXTRACT_CHAN c)) n = bit c n"
    by cases (auto simp: event_part_defs part_masks bit_simps bit_1_iff simp del: push_bit_and)
qed

text \<open>A bus address keeps a port and a device number below 32, and is marked as clause 45.\<close>

lemma mdio_parts:
  assumes p: "prtad < 2 ^ 5" and d: "devad < 2 ^ 5"
  shows "drop_bit 5 (mdio_phy_id_c45 prtad devad AND MDIO_PHY_ID_PRTAD) = ucast prtad"
    "mdio_phy_id_c45 prtad devad AND MDIO_PHY_ID_DEVAD = ucast devad"
    "mdio_phy_id_c45 prtad devad AND NOT MDIO_PHY_ID_C45_MASK = 0"
proof -
  have names: "MDIO_PHY_ID_PRTAD = push_bit 5 (mask 5)" "MDIO_PHY_ID_DEVAD = mask 5"
    by (simp_all add: MDIO_PHY_ID_PRTAD_def MDIO_PHY_ID_DEVAD_def push_bit_eq_mult mask_eq_exp_minus_1)
  have "MDIO_PHY_ID_C45 = push_bit 15 1"
    by (simp add: MDIO_PHY_ID_C45_def push_bit_eq_mult)
  have one: "bit MDIO_PHY_ID_C45 n \<longleftrightarrow> n = 15" for n
    unfolding \<open>MDIO_PHY_ID_C45 = _\<close> bit_push_bit_iff by (auto simp: bit_1_iff)
  note small = not_bit_small [OF p, simplified] not_bit_small [OF d, simplified]
  show "drop_bit 5 (mdio_phy_id_c45 prtad devad AND MDIO_PHY_ID_PRTAD) = ucast prtad"
    "mdio_phy_id_c45 prtad devad AND MDIO_PHY_ID_DEVAD = ucast devad"
    "mdio_phy_id_c45 prtad devad AND NOT MDIO_PHY_ID_C45_MASK = 0"
    unfolding mdio_phy_id_c45_def MDIO_PHY_ID_C45_MASK_def names
    by (rule bit_word_eqI; auto simp: bit_simps one simp del: push_bit_and dest: small)+
qed

section \<open>Where a member's super block is, extended actions\<close>

text \<open>The super block starts on a boundary of 128 sectors, at least 128 and less than 256 sectors before
  the end of any device that has 128 sectors.\<close>

lemma md_super_place:
  assumes "128 \<le> x"
  shows "unat (MD_NEW_SIZE_SECTORS x) = unat x div 128 * 128 - 128" "128 dvd unat (MD_NEW_SIZE_SECTORS x)"
    "unat (MD_NEW_SIZE_SECTORS x) + 128 \<le> unat x" "unat x < unat (MD_NEW_SIZE_SECTORS x) + 256"
proof -
  have m: "MD_RESERVED_SECTORS = 128" "(128 :: u64) - 1 = mask 7"
    by (simp_all add: MD_RESERVED_SECTORS_def MD_RESERVED_BYTES_def mask_eq_exp_minus_1)
  have r: "unat (x AND NOT (mask 7)) = unat x div 128 * 128"
    using unat_and_not_mask [of x 7] by simp
  have big: "128 \<le> unat x"
    using assms by (simp add: word_le_nat_alt)
  then have "unat (128 :: u64) \<le> unat (x AND NOT (mask 7))"
    unfolding r by simp
  then have "unat (MD_NEW_SIZE_SECTORS x) = unat (x AND NOT (mask 7)) - 128"
    unfolding MD_NEW_SIZE_SECTORS_def m by (simp add: unat_sub word_le_nat_alt)
  then show e: "unat (MD_NEW_SIZE_SECTORS x) = unat x div 128 * 128 - 128"
    by (simp add: r)
  show "128 dvd unat (MD_NEW_SIZE_SECTORS x)" "unat (MD_NEW_SIZE_SECTORS x) + 128 \<le> unat x"
    "unat x < unat (MD_NEW_SIZE_SECTORS x) + 256"
    unfolding e using big by (simp, linarith+)
qed

text \<open>A combined action shows its opcode whatever value it carries below it.\<close>

lemma extended_action:
  assumes "val AND NOT TC_ACT_EXT_VAL_MASK = 0"
  shows "TC_ACT_EXT_CMP (TC_ACT_EXT n OR val) (TC_ACT_EXT n)"
proof -
  have m: "TC_ACT_EXT_VAL_MASK = mask 28"
    by (simp add: TC_ACT_EXT_VAL_MASK_def TC_ACT_EXT_SHIFT_def mask_eq_exp_minus_1 push_bit_eq_mult)
  have "(push_bit 28 n OR val) AND NOT (mask 28) = push_bit 28 n OR val AND NOT (mask 28)"
    by (rule bit_word_eqI) (auto simp: bit_simps)
  then show ?thesis
    using assms unfolding TC_ACT_EXT_CMP_def TC_ACT_EXT_OPCODE_def TC_ACT_EXT_def TC_ACT_EXT_SHIFT_def m by simp
qed

text \<open>Of the four relations to the next match, only both bits together are refused.\<close>

lemma relation_valid:
  "TCF_EM_REL_VALID (r OR f AND NOT TCF_EM_REL_MASK) \<longleftrightarrow> TCF_EM_REL_VALID r"
  "TCF_EM_REL_VALID TCF_EM_REL_END" "TCF_EM_REL_VALID TCF_EM_REL_AND" "TCF_EM_REL_VALID TCF_EM_REL_OR"
  "\<not> TCF_EM_REL_VALID (TCF_EM_REL_AND OR TCF_EM_REL_OR)"
proof -
  have "(r OR f AND NOT (3 :: u16)) AND 3 = r AND 3"
    by (rule bit_word_eqI) (auto simp: bit_simps)
  then show "TCF_EM_REL_VALID (r OR f AND NOT TCF_EM_REL_MASK) \<longleftrightarrow> TCF_EM_REL_VALID r"
    by (simp add: TCF_EM_REL_VALID_def TCF_EM_REL_MASK_def)
qed (simp_all add: TCF_EM_REL_VALID_def TCF_EM_REL_MASK_def TCF_EM_REL_END_def TCF_EM_REL_AND_def TCF_EM_REL_OR_def)

end
