(* ===== verification/Event_Walk.thy ===== *)
theory Event_Walk
  imports Byte_Memory Byte_Order Item_Walk
begin

text \<open>
  Two more walks over records that state their length: file system events as \<^verbatim>\<open>read\<close> returns them,
  with \<^verbatim>\<open>FAN_EVENT_OK\<close> and \<^verbatim>\<open>FAN_EVENT_NEXT\<close> of \<^verbatim>\<open>linux/fanotify.h\<close>, and descriptor lists of Fibre Channel
  link services, with \<^verbatim>\<open>fc_tlv_next_desc\<close> of \<^verbatim>\<open>scsi/fc/fc_els.h\<close>.
\<close>

section \<open>File system events\<close>

text \<open>
  \<^verbatim>\<open>struct fanotify_event_metadata\<close>: a 32-bit length at 0, the version at 4, the length of the
  metadata at 6, the mask at 8, the descriptor at 16 and the process at 20.  The length left is the
  \<^verbatim>\<open>ssize_t\<close> that \<^verbatim>\<open>read\<close> returned.
\<close>

definition event_len :: "memory \<Rightarrow> nat \<Rightarrow> u32" where "event_len m meta = load32 m meta"

definition event_mask :: "memory \<Rightarrow> nat \<Rightarrow> u64" where "event_mask m meta = load64 m (meta + 8)"

definition event_fd :: "memory \<Rightarrow> nat \<Rightarrow> u32" where "event_fd m meta = load32 m (meta + 16)"

definition FAN_EVENT_METADATA_LEN :: u64 where "FAN_EVENT_METADATA_LEN = 24"

definition FAN_EVENT_NEXT :: "memory \<Rightarrow> nat \<Rightarrow> u64 \<Rightarrow> nat \<times> u64" where
  "FAN_EVENT_NEXT m meta len = (meta + unat (event_len m meta), len - ucast (event_len m meta))"

definition FAN_EVENT_OK :: "memory \<Rightarrow> nat \<Rightarrow> u64 \<Rightarrow> bool" where
  "FAN_EVENT_OK m meta len \<longleftrightarrow>
     FAN_EVENT_METADATA_LEN \<le>s len \<and> FAN_EVENT_METADATA_LEN \<le>s ucast (event_len m meta) \<and>
     ucast (event_len m meta) \<le>s len"

text \<open>An event: its mask, its descriptor, and the information records behind the metadata.\<close>

type_synonym event = "u64 \<times> u32 \<times> u8 list"

definition event_at :: "memory \<Rightarrow> nat \<Rightarrow> event \<Rightarrow> bool" where
  "event_at m p x \<longleftrightarrow> (case x of (mk, fd, bs) \<Rightarrow>
     unat (event_len m p) = 24 + length bs \<and> event_mask m p = mk \<and> event_fd m p = fd \<and> stored m (p + 24) bs)"

definition event_space :: "event \<Rightarrow> nat" where
  "event_space x = 24 + length (snd (snd x))"

lemma sint_length: "sint (ucast (x :: u32) :: u64) = int (unat x)"
proof -
  have "0 \<le> uint x" "uint x < 4294967296"
    using unsigned_less [of x] by simp_all
  then have "signed_take_bit 63 (uint x) = uint x"
    by (intro signed_take_bit_int_eq_self) (rule order_trans [of _ 0], simp_all)
  then have "sint (word_of_int (uint x) :: u64) = uint x"
    unfolding signed_of_int by simp
  then show ?thesis
    unfolding ucast_eq by simp
qed

lemma sint_left:
  assumes "int l \<le> sint (r :: u64)" and "unat w = l"
  shows "sint (r - w) = sint r - int l"
proof -
  have "r - w = word_of_int (sint r - int l)"
    using assms(2) by auto
  moreover have "sint (word_of_int (sint r - int l) :: u64) = sint r - int l"
    unfolding signed_of_int
    using assms(1) sint_lt [of r] sint_greater_eq [of r] by (simp add: signed_take_bit_int_eq_self)
  ultimately show ?thesis by (simp only:)
qed

lemma event_ok:
  "FAN_EVENT_OK m p r \<longleftrightarrow> 24 \<le> unat (event_len m p) \<and> int (unat (event_len m p)) \<le> sint r"
proof -
  have "sint (24 :: u64) = 24" by simp
  then show ?thesis
    unfolding FAN_EVENT_OK_def FAN_EVENT_METADATA_LEN_def word_sle_eq sint_length by presburger
qed

lemma event_next:
  "int (unat (event_len m p)) \<le> sint r \<Longrightarrow>
   sint (snd (FAN_EVENT_NEXT m p r)) = sint r - int (unat (event_len m p))"
  unfolding FAN_EVENT_NEXT_def snd_conv by (rule sint_left) (simp_all add: unat_ucast_up)

interpretation events: message_walk FAN_EVENT_OK FAN_EVENT_NEXT sint "\<lambda>m p. unat (event_len m p)"
  event_at event_space
proof unfold_locales
  fix m p and r :: u64 assume "FAN_EVENT_OK m p r"
  then have ok: "24 \<le> unat (event_len m p)" "int (unat (event_len m p)) \<le> sint r"
    by (simp_all add: event_ok)
  then show "0 < unat (event_len m p) \<and> int (unat (event_len m p)) \<le> sint r" by simp
  show "\<exists>a\<ge>unat (event_len m p). fst (FAN_EVENT_NEXT m p r) = p + a \<and>
      sint (snd (FAN_EVENT_NEXT m p r)) = sint r - int a"
    using event_next [OF ok(2)] by (intro exI [of _ "unat (event_len m p)"]) (simp add: FAN_EVENT_NEXT_def)
next
  fix m p x and r :: u64 assume x: "event_at m p x" and s: "int (event_space x) \<le> sint r"
  have l: "unat (event_len m p) = event_space x"
    using x by (auto simp: event_at_def event_space_def)
  then show "FAN_EVENT_OK m p r"
    using s by (simp add: event_ok event_space_def)
  show "fst (FAN_EVENT_NEXT m p r) = p + event_space x \<and>
      sint (snd (FAN_EVENT_NEXT m p r)) = sint r - int (event_space x)"
    using event_next [of m p r] s l by (simp add: FAN_EVENT_NEXT_def)
qed

section \<open>Descriptor lists\<close>

text \<open>\<^verbatim>\<open>struct fc_tlv_desc\<close>: tag and length of the value, both 32-bit big-endian, then the value.\<close>

definition desc_tag :: "memory \<Rightarrow> nat \<Rightarrow> u32" where "desc_tag m tlv = load32 m tlv"

definition desc_len :: "memory \<Rightarrow> nat \<Rightarrow> u32" where "desc_len m tlv = load32 m (tlv + 4)"

definition FC_TLV_DESC_HDR_SZ :: u64 where "FC_TLV_DESC_HDR_SZ = 8"

definition FC_TLV_DESC_LENGTH_FROM_SZ :: "u64 \<Rightarrow> u64" where
  "FC_TLV_DESC_LENGTH_FROM_SZ sz = sz - FC_TLV_DESC_HDR_SZ"

definition FC_TLV_DESC_SZ_FROM_LENGTH :: "memory \<Rightarrow> nat \<Rightarrow> u64" where
  "FC_TLV_DESC_SZ_FROM_LENGTH m tlv = ucast (little_be32_to_cpu False (desc_len m tlv)) + FC_TLV_DESC_HDR_SZ"

definition fc_tlv_next_desc :: "memory \<Rightarrow> nat \<Rightarrow> nat" where
  "fc_tlv_next_desc m desc = desc + unat (FC_TLV_DESC_SZ_FROM_LENGTH m desc)"

text \<open>A descriptor whose length field was filled from the size of its structure.\<close>

type_synonym descriptor = "u32 \<times> u8 list"

definition desc_space :: "descriptor \<Rightarrow> nat" where "desc_space x = 8 + length (snd x)"

definition desc_at :: "memory \<Rightarrow> nat \<Rightarrow> descriptor \<Rightarrow> bool" where
  "desc_at m p x \<longleftrightarrow> (case x of (tag, bs) \<Rightarrow>
     length bs < 2 ^ 32 \<and> desc_tag m p = little_cpu_to_be32 False tag \<and>
     desc_len m p = little_cpu_to_be32 False (ucast (FC_TLV_DESC_LENGTH_FROM_SZ (of_nat (desc_space x)))) \<and>
     stored m (p + 8) bs)"

lemma desc_size:
  assumes "desc_at m p x"
  shows "unat (FC_TLV_DESC_SZ_FROM_LENGTH m p) = desc_space x"
proof -
  obtain tag bs where x: "x = (tag, bs)" by (cases x)
  have narrow: "(ucast (of_nat n :: u64) :: u32) = of_nat n" for n
    by (rule bit_word_eqI) (auto simp: bit_simps)
  have b: "length bs < 4294967296"
    using assms by (simp add: desc_at_def x)
  have "FC_TLV_DESC_LENGTH_FROM_SZ (of_nat (desc_space x)) = of_nat (length bs)"
    by (simp add: FC_TLV_DESC_LENGTH_FROM_SZ_def FC_TLV_DESC_HDR_SZ_def desc_space_def x)
  then have "little_be32_to_cpu False (desc_len m p) = of_nat (length bs)"
    using assms narrow [of "length bs"] by (simp add: desc_at_def x little_be32.from_to)
  then have "unat (ucast (little_be32_to_cpu False (desc_len m p)) :: u64) = length bs"
    using b by (simp add: unat_ucast_up unsigned_of_nat take_bit_nat_eq_self)
  then show ?thesis
    using b unfolding FC_TLV_DESC_SZ_FROM_LENGTH_def FC_TLV_DESC_HDR_SZ_def
    by (subst unat_add_lem [THEN iffD1]) (simp_all add: desc_space_def x)
qed

interpretation descriptors: item_cursor fc_tlv_next_desc desc_at desc_space
  by unfold_locales (simp add: fc_tlv_next_desc_def desc_size)

text \<open>Whatever the list holds, a step moves forward past the tag and the length.\<close>

lemma desc_progress: "desc + 8 \<le> fc_tlv_next_desc m desc"
proof -
  have "unat (ucast (x :: u32) :: u64) + 8 < 2 ^ 64" for x
    using unsigned_less [of x, where 'a = nat] by (simp add: unat_ucast_up)
  then have "unat (FC_TLV_DESC_SZ_FROM_LENGTH m desc) = unat (little_be32_to_cpu False (desc_len m desc)) + 8"
    unfolding FC_TLV_DESC_SZ_FROM_LENGTH_def FC_TLV_DESC_HDR_SZ_def
    by (subst unat_add_lem [THEN iffD1]) (simp_all add: unat_ucast_up)
  then show ?thesis
    by (simp add: fc_tlv_next_desc_def)
qed

section \<open>Properties\<close>

text \<open>Whatever a read returned, the loop over events returns, and every event it visits lies inside
  the bytes read and before the next one.\<close>

theorem events_stay_inside:
  "\<exists>ps. visit_all (FAN_EVENT_OK m) (FAN_EVENT_NEXT m) p len = Some ps \<and>
     (\<forall>q \<in> set ps. p \<le> q \<and> int (q + unat (event_len m q)) \<le> int p + sint len) \<and>
     sorted_wrt (\<lambda>a b. a + unat (event_len m a) \<le> b) ps"
  by (rule events.visit_inside)

text \<open>C30: a buffer of events is visited event by event, in order, and at each stop the mask and the
  descriptor are those of the event that was put there; steps along a descriptor list reach
  each descriptor in turn, where its tag is.\<close>

theorem events_visited:
  assumes "items_at (event_at m) event_space p xs" and "sint len = int (\<Sum>x \<leftarrow> xs. event_space x)"
    and "items_at (desc_at m) desc_space q ds" and "j < length ds"
  shows "visit_all (FAN_EVENT_OK m) (FAN_EVENT_NEXT m) p len = Some (starts event_space p xs) \<and>
    map (\<lambda>e. (event_mask m e, event_fd m e)) (starts event_space p xs) = map (\<lambda>(mk, fd, bs). (mk, fd)) xs \<and>
    (fc_tlv_next_desc m ^^ j) q = q + (\<Sum>x \<leftarrow> take j ds. desc_space x) \<and>
    little_be32_to_cpu False (desc_tag m ((fc_tlv_next_desc m ^^ j) q)) = fst (ds ! j)"
proof (intro conjI)
  show "map (\<lambda>e. (event_mask m e, event_fd m e)) (starts event_space p xs) = map (\<lambda>(mk, fd, bs). (mk, fd)) xs"
  proof (rule nth_equalityI)
    fix k assume "k < length (map (\<lambda>e. (event_mask m e, event_fd m e)) (starts event_space p xs))"
    then have k: "k < length xs" by simp
    obtain mk fd bs where "xs ! k = (mk, fd, bs)" by (cases "xs ! k")
    then show "map (\<lambda>e. (event_mask m e, event_fd m e)) (starts event_space p xs) ! k =
        map (\<lambda>(mk, fd, bs). (mk, fd)) xs ! k"
      using items_at_nth [OF assms(1) k] k by (simp add: event_at_def)
  qed simp
  show "little_be32_to_cpu False (desc_tag m ((fc_tlv_next_desc m ^^ j) q)) = fst (ds ! j)"
    using descriptors.cursor_on_item [OF assms(3,4)]
    by (auto simp: desc_at_def little_be32.from_to split: prod.splits)
qed (use events.visit_items [OF assms(1,2)] descriptors.cursor_after [OF assms(3), of j] assms(4) in simp_all)

text \<open>Two events, the second with four bytes of information, and behind them two descriptors.\<close>

definition sample_events :: "u8 list" where
  "sample_events =
     [24, 0, 0, 0, 3, 0, 24, 0,  2, 0, 0, 0, 0, 0, 0, 0,  5, 0, 0, 0, 9, 0, 0, 0,
      28, 0, 0, 0, 3, 0, 24, 0,  32, 0, 0, 0, 0, 0, 0, 0,  6, 0, 0, 0, 9, 0, 0, 0,  1, 2, 4, 0,
      0, 2, 0, 4, 0, 0, 0, 2, 7, 8,  0, 0, 0, 1, 0, 0, 0, 0]"

definition event_memory :: memory where
  "event_memory = write_bytes 0 sample_events (\<lambda>a. 0)"

lemma event_byte: "event_memory k = (if k < 70 then sample_events ! k else 0)"
  by (simp add: event_memory_def write_bytes_def sample_events_def)

lemma sample_laid_out:
  "items_at (event_at event_memory) event_space 0 [(2, 5, []), (32, 6, [1, 2, 4, 0])]"
  "items_at (desc_at event_memory) desc_space 52 [(0x20004, [7, 8]), (1, [])]"
  by (simp_all add: event_at_def event_space_def desc_at_def desc_space_def desc_tag_def desc_len_def event_len_def
      event_mask_def event_fd_def load64_def load32_def load16_def be16_def event_byte sample_events_def
      FC_TLV_DESC_LENGTH_FROM_SZ_def FC_TLV_DESC_HDR_SZ_def little_cpu_to_be32_def swab32_def fswab32_def
      constant_swab32_def)

lemma events_visited_witness:
  "visit_all (FAN_EVENT_OK event_memory) (FAN_EVENT_NEXT event_memory) 0 52 = Some [0, 24] \<and>
   (event_mask event_memory 24, event_fd event_memory 24) = (32, 6) \<and>
   little_be32_to_cpu False (desc_tag event_memory (fc_tlv_next_desc event_memory 52)) = 1"
  using events_visited [OF sample_laid_out(1) _ sample_laid_out(2), of 52 1]
  by (auto simp: event_space_def desc_space_def)

end
