(* ===== verification/Word_Sets.thy ===== *)
theory Word_Sets
  imports Bit_Set Packed_Code
begin

text \<open>
  Five more sets of small numbers: interfaces of a multicast route (\<^verbatim>\<open>linux/mroute6.h\<close> and the one
  word of \<^verbatim>\<open>linux/mroute.h\<close>), options to strip (\<^verbatim>\<open>linux/netfilter/xt_TCPOPTSTRIP.h\<close>), thread
  events (\<^verbatim>\<open>thread_db.h\<close>) and the byte arrays of \<^verbatim>\<open>sys/param.h\<close>, with the rounding macros there.
  An access outside an array is \<open>None\<close>.
\<close>

section \<open>Bits of an array, with its bound\<close>

definition or_bit :: "nat \<Rightarrow> 'a::len word list \<Rightarrow> 'a word list option" where
  "or_bit i xs =
     (if i div LENGTH('a) < length xs
      then Some (xs[i div LENGTH('a) := xs ! (i div LENGTH('a)) OR push_bit (i mod LENGTH('a)) 1]) else None)"

definition clear_bit :: "nat \<Rightarrow> 'a::len word list \<Rightarrow> 'a word list option" where
  "clear_bit i xs =
     (if i div LENGTH('a) < length xs
      then Some (xs[i div LENGTH('a) := xs ! (i div LENGTH('a)) AND NOT (push_bit (i mod LENGTH('a)) 1)])
      else None)"

definition test_bit :: "nat \<Rightarrow> 'a::len word list \<Rightarrow> bool option" where
  "test_bit i xs =
     (if i div LENGTH('a) < length xs
      then Some (xs ! (i div LENGTH('a)) AND push_bit (i mod LENGTH('a)) 1 \<noteq> 0) else None)"

lemma test_bit: "test_bit i (xs :: 'a::len word list) = (if i < length xs * LENGTH('a) then Some (array_bit xs i) else None)"
  by (simp add: test_bit_def div_in_array array_bit_test del: push_bit_of_1)

lemma set_bits:
  fixes xs :: "'a::len word list"
  assumes "i < length xs * LENGTH('a)"
  shows "\<exists>ys. or_bit i xs = Some ys \<and> length ys = length xs \<and> (\<forall>j. array_bit ys j \<longleftrightarrow> j = i \<or> array_bit xs j)"
    and "\<exists>ys. clear_bit i xs = Some ys \<and> length ys = length xs \<and> (\<forall>j. array_bit ys j \<longleftrightarrow> j \<noteq> i \<and> array_bit xs j)"
  using assms array_bit_set [OF assms] array_bit_clear [OF assms]
  by (simp_all add: or_bit_def clear_bit_def div_in_array)

text \<open>Every macro below is one of these three operations, and so an operation on finite sets.\<close>

lemma array_set:
  "extensional_set (n * LENGTH('a::len)) (\<lambda>xs :: 'a word list. length xs = n) (\<lambda>xs i. test_bit i xs = Some True)
     (\<lambda>i xs. the (or_bit i xs)) (\<lambda>i xs. the (clear_bit i xs))"
proof unfold_locales
  fix s t :: "'a word list" and i j :: nat
  assume s: "length s = n"
  {
    assume i: "i < n * LENGTH('a)"
    obtain u v where u: "or_bit i s = Some u" "length u = length s" "\<forall>j. array_bit u j \<longleftrightarrow> j = i \<or> array_bit s j"
      and v: "clear_bit i s = Some v" "length v = length s" "\<forall>j. array_bit v j \<longleftrightarrow> j \<noteq> i \<and> array_bit s j"
      using set_bits [of i s] i s by blast
    then show "length (the (or_bit i s)) = n" "length (the (clear_bit i s)) = n"
      using s by simp_all
    assume "j < n * LENGTH('a)"
    then show "test_bit j (the (or_bit i s)) = Some True \<longleftrightarrow> j = i \<or> test_bit j s = Some True"
      and "test_bit j (the (clear_bit i s)) = Some True \<longleftrightarrow> j \<noteq> i \<and> test_bit j s = Some True"
      using s u v by (simp_all add: test_bit)
  }
  assume t: "length t = n"
    and e: "elems (n * LENGTH('a)) (\<lambda>xs i. test_bit i xs = Some True) s =
      elems (n * LENGTH('a)) (\<lambda>xs i. test_bit i xs = Some True) t"
  have "array_bit s k = array_bit t k" if "k < n * LENGTH('a)" for k
    using e [THEN eqset_imp_iff, of k] that s t by (simp add: elems_def test_bit)
  then show "s = t"
    using array_eq_iff [of s t] s t by simp
qed

section \<open>Interfaces of a multicast route\<close>

definition IF_SETSIZE :: nat where "IF_SETSIZE = 256"

definition NIFBITS :: nat where "NIFBITS = 4 * 8"

definition KERNEL_DIV_ROUND_UP :: "nat \<Rightarrow> nat \<Rightarrow> nat" where
  "KERNEL_DIV_ROUND_UP n d = (n + d - 1) div d"

type_synonym if_set = "u32 list"

definition if_set_words :: nat where
  "if_set_words = KERNEL_DIV_ROUND_UP IF_SETSIZE NIFBITS"

definition IF_SET :: "nat \<Rightarrow> if_set \<Rightarrow> if_set option" where
  "IF_SET n p =
     (if n div NIFBITS < length p
      then Some (p[n div NIFBITS := p ! (n div NIFBITS) OR push_bit (n mod NIFBITS) 1]) else None)"

definition IF_CLR :: "nat \<Rightarrow> if_set \<Rightarrow> if_set option" where
  "IF_CLR n p =
     (if n div NIFBITS < length p
      then Some (p[n div NIFBITS := p ! (n div NIFBITS) AND NOT (push_bit (n mod NIFBITS) 1)]) else None)"

definition IF_ISSET :: "nat \<Rightarrow> if_set \<Rightarrow> bool option" where
  "IF_ISSET n p =
     (if n div NIFBITS < length p then Some (p ! (n div NIFBITS) AND push_bit (n mod NIFBITS) 1 \<noteq> 0) else None)"

definition IF_COPY :: "if_set \<Rightarrow> if_set \<Rightarrow> if_set" where
  "IF_COPY f t = take (length f) f @ drop (length f) t"

definition IF_ZERO :: "if_set \<Rightarrow> if_set" where
  "IF_ZERO p = replicate (length p) 0"

lemma if_set_generic: "IF_SET = or_bit" "IF_CLR = clear_bit" "IF_ISSET = test_bit"
  by (simp_all add: fun_eq_iff IF_SET_def IF_CLR_def IF_ISSET_def or_bit_def clear_bit_def test_bit_def NIFBITS_def)

interpretation ifs: extensional_set IF_SETSIZE "\<lambda>p. length p = if_set_words" "\<lambda>p n. IF_ISSET n p = Some True"
  "\<lambda>n p. the (IF_SET n p)" "\<lambda>n p. the (IF_CLR n p)"
  using array_set [where 'a = 32, of 8]
  by (simp add: if_set_generic IF_SETSIZE_def if_set_words_def KERNEL_DIV_ROUND_UP_def NIFBITS_def)

section \<open>The interfaces of a route in one word\<close>

text \<open>
  \<^verbatim>\<open>vifbitmap_t\<close> is an \<^verbatim>\<open>unsigned long\<close>, but \<^verbatim>\<open>1<<(n)\<close> is an \<^verbatim>\<open>int\<close>: for the last interface, 31, it is
  negative, and extended with ones when it meets the map.
\<close>

definition MAXVIFS :: nat where "MAXVIFS = 32"

definition VIFM_SET :: "nat \<Rightarrow> u64 \<Rightarrow> u64" where "VIFM_SET n m = m OR scast (push_bit n 1 :: u32)"

definition VIFM_CLR :: "nat \<Rightarrow> u64 \<Rightarrow> u64" where "VIFM_CLR n m = m AND scast (NOT (push_bit n 1 :: u32))"

definition VIFM_ISSET :: "nat \<Rightarrow> u64 \<Rightarrow> bool" where
  "VIFM_ISSET n m \<longleftrightarrow> m AND scast (push_bit n 1 :: u32) \<noteq> 0"

definition VIFM_CLRALL :: "u64 \<Rightarrow> u64" where "VIFM_CLRALL m = 0"

definition VIFM_COPY :: "u64 \<Rightarrow> u64 \<Rightarrow> u64" where "VIFM_COPY mfrom mto = mfrom"

definition VIFM_SAME :: "u64 \<Rightarrow> u64 \<Rightarrow> bool" where "VIFM_SAME m1 m2 \<longleftrightarrow> m1 = m2"

lemma vif_bit:
  "n < 32 \<Longrightarrow> k < 64 \<Longrightarrow> bit (scast (push_bit n 1 :: u32) :: u64) k \<longleftrightarrow> k = n \<or> n = 31 \<and> 31 \<le> k"
  "n < 32 \<Longrightarrow> k < 64 \<Longrightarrow> bit (scast (NOT (push_bit n 1) :: u32) :: u64) k \<longleftrightarrow> \<not> (k = n \<or> n = 31 \<and> 31 \<le> k)"
  by (auto simp: bit_signed_iff bit_push_bit_iff bit_not_iff_eq bit_1_iff min_def simp del: push_bit_of_1)

text \<open>What the operations keep: the upper half repeats bit 31.\<close>

definition vif_map :: "u64 \<Rightarrow> bool" where
  "vif_map m \<longleftrightarrow> (\<forall>k \<in> {32..<64}. bit m k = bit m 31)"

lemma vif_isset:
  assumes "vif_map m" and "n < 32"
  shows "VIFM_ISSET n m \<longleftrightarrow> bit m n"
proof
  assume "VIFM_ISSET n m"
  then obtain k where k: "k < 64" "bit m k" "k = n \<or> n = 31 \<and> 31 \<le> k"
    using assms(2) vif_bit(1) by (auto simp: VIFM_ISSET_def bit_eq_iff bit_and_iff)
  then show "bit m n"
    using assms(1) by (cases "k = 31") (auto simp: vif_map_def)
next
  assume "bit m n"
  then have "bit (m AND scast (push_bit n 1 :: u32)) n"
    using assms(2) vif_bit(1) [of n n] by (simp add: bit_and_iff del: push_bit_of_1)
  then show "VIFM_ISSET n m"
    unfolding VIFM_ISSET_def by (metis bit_0_eq bot_apply bot_bool_def)
qed

lemma vif_set_bit:
  "n < 32 \<Longrightarrow> k < 64 \<Longrightarrow> bit (VIFM_SET n m) k \<longleftrightarrow> bit m k \<or> k = n \<or> n = 31 \<and> 31 \<le> k"
  "n < 32 \<Longrightarrow> k < 64 \<Longrightarrow> bit (VIFM_CLR n m) k \<longleftrightarrow> bit m k \<and> \<not> (k = n \<or> n = 31 \<and> 31 \<le> k)"
  using vif_bit [of n k] by (simp_all add: VIFM_SET_def VIFM_CLR_def bit_or_iff bit_and_iff del: push_bit_of_1)

lemma vif_map_kept: "vif_map m \<Longrightarrow> n < 32 \<Longrightarrow> vif_map (VIFM_SET n m)" "vif_map m \<Longrightarrow> n < 32 \<Longrightarrow> vif_map (VIFM_CLR n m)"
  "vif_map (VIFM_CLRALL m)"
  by (auto simp: vif_map_def vif_set_bit VIFM_CLRALL_def)

interpretation vifs: extensional_set MAXVIFS vif_map "\<lambda>m n. VIFM_ISSET n m" VIFM_SET VIFM_CLR
proof unfold_locales
  fix m m' :: u64 and i j :: nat
  assume m: "vif_map m"
  {
    assume i: "i < MAXVIFS"
    then show "vif_map (VIFM_SET i m)" "vif_map (VIFM_CLR i m)"
      using vif_map_kept m by (simp_all add: MAXVIFS_def)
    assume "j < MAXVIFS"
    then show "VIFM_ISSET j (VIFM_SET i m) \<longleftrightarrow> j = i \<or> VIFM_ISSET j m"
      and "VIFM_ISSET j (VIFM_CLR i m) \<longleftrightarrow> j \<noteq> i \<and> VIFM_ISSET j m"
      using i m vif_map_kept(1) [of m i] vif_map_kept(2) [of m i] by (auto simp: MAXVIFS_def vif_isset vif_set_bit)
  }
  assume m': "vif_map m'" and e: "elems MAXVIFS (\<lambda>m n. VIFM_ISSET n m) m = elems MAXVIFS (\<lambda>m n. VIFM_ISSET n m) m'"
  have low: "bit m k = bit m' k" if "k < 32" for k
    using e [THEN eqset_imp_iff, of k] that m m' by (simp add: elems_def vif_isset MAXVIFS_def)
  show "m = m'"
  proof (rule bit_word_eqI)
    fix k assume "k < LENGTH(64)"
    then show "bit m k = bit m' k"
      using low [of k] low [of 31] m m' by (cases "k < 32") (auto simp: vif_map_def)
  qed
qed

section \<open>Options to strip, and thread events\<close>

text \<open>An option number is a byte, the map has eight words.\<close>

definition tcpoptstrip_set_bit :: "u32 list \<Rightarrow> u8 \<Rightarrow> u32 list option" where
  "tcpoptstrip_set_bit bmap idx =
     (if unat (drop_bit 5 idx) < length bmap
      then Some (bmap[unat (drop_bit 5 idx) := bmap ! unat (drop_bit 5 idx) OR push_bit (unat (idx AND 31)) 1])
      else None)"

definition tcpoptstrip_test_bit :: "u32 list \<Rightarrow> u8 \<Rightarrow> bool option" where
  "tcpoptstrip_test_bit bmap idx =
     (if unat (drop_bit 5 idx) < length bmap
      then Some (push_bit (unat (idx AND 31)) 1 AND bmap ! unat (drop_bit 5 idx) \<noteq> 0) else None)"

lemma five_bits:
  fixes x :: "'a::len word"
  assumes "5 < LENGTH('a)"
  shows "unat (drop_bit 5 x) = unat x div 32" "unat (x AND 31) = unat x mod 32"
proof -
  have m: "x AND 31 = take_bit 5 x" by (simp add: take_bit_eq_mask mask_eq_exp_minus_1)
  show "unat (x AND 31) = unat x mod 32"
    unfolding m unsigned_take_bit_eq by (simp add: take_bit_eq_mod)
  show "unat (drop_bit 5 x) = unat x div 32"
    unfolding unat_drop_bit_eq by (simp add: drop_bit_eq_div)
qed

lemma strip_generic:
  "tcpoptstrip_set_bit bmap idx = or_bit (unat idx) bmap" "tcpoptstrip_test_bit bmap idx = test_bit (unat idx) bmap"
  by (simp_all add: tcpoptstrip_set_bit_def tcpoptstrip_test_bit_def or_bit_def test_bit_def five_bits and.commute
      del: push_bit_of_1)

text \<open>Events are numbered from one.  The word index is computed in 32 bits, so event zero, the one that
  stands for all of them, has a word far outside the array.\<close>

definition TD_EVENTSIZE :: nat where "TD_EVENTSIZE = 2"

definition BT_UISHIFT :: nat where "BT_UISHIFT = 5"

definition BT_NBIPUI :: u32 where "BT_NBIPUI = push_bit BT_UISHIFT 1"

definition BT_UIMASK :: u32 where "BT_UIMASK = BT_NBIPUI - 1"

definition td_eventmask :: "u32 \<Rightarrow> u32" where
  "td_eventmask n = push_bit (unat ((n - 1) AND BT_UIMASK)) 1"

definition td_eventword :: "u32 \<Rightarrow> nat" where
  "td_eventword n = unat (drop_bit BT_UISHIFT (n - 1))"

type_synonym event_bits = "u32 list"

fun td_event_loop :: "u32 \<Rightarrow> nat \<Rightarrow> event_bits \<Rightarrow> event_bits" where
  "td_event_loop w 0 bits = bits"
| "td_event_loop w (Suc i) bits = td_event_loop w i (bits[i := w])"

definition td_event_emptyset :: "event_bits \<Rightarrow> event_bits" where
  "td_event_emptyset setp = td_event_loop 0 TD_EVENTSIZE setp"

definition td_event_fillset :: "event_bits \<Rightarrow> event_bits" where
  "td_event_fillset setp = td_event_loop 0xffffffff TD_EVENTSIZE setp"

definition td_event_addset :: "event_bits \<Rightarrow> u32 \<Rightarrow> event_bits option" where
  "td_event_addset setp n =
     (if td_eventword n < length setp
      then Some (setp[td_eventword n := setp ! td_eventword n OR td_eventmask n]) else None)"

definition td_event_delset :: "event_bits \<Rightarrow> u32 \<Rightarrow> event_bits option" where
  "td_event_delset setp n =
     (if td_eventword n < length setp
      then Some (setp[td_eventword n := setp ! td_eventword n AND NOT (td_eventmask n)]) else None)"

definition td_eventismember :: "event_bits \<Rightarrow> u32 \<Rightarrow> bool option" where
  "td_eventismember setp n =
     (if td_eventword n < length setp then Some (td_eventmask n AND setp ! td_eventword n \<noteq> 0) else None)"

definition td_eventisempty :: "event_bits \<Rightarrow> bool" where
  "td_eventisempty setp \<longleftrightarrow> \<not> (setp ! 0 \<noteq> 0) \<and> \<not> (setp ! 1 \<noteq> 0)"

lemma event_generic:
  "td_event_addset s n = or_bit (unat (n - 1)) s" "td_event_delset s n = clear_bit (unat (n - 1)) s"
  "td_eventismember s n = test_bit (unat (n - 1)) s"
proof -
  have "BT_UIMASK = 31"
    by (simp add: BT_UIMASK_def BT_NBIPUI_def BT_UISHIFT_def push_bit_eq_mult)
  have "td_eventmask n = push_bit (unat (n - 1) mod 32) 1"
    unfolding td_eventmask_def \<open>BT_UIMASK = 31\<close> by (simp add: five_bits)
  moreover have "td_eventword n = unat (n - 1) div 32"
    by (simp add: td_eventword_def BT_UISHIFT_def five_bits)
  ultimately show "td_event_addset s n = or_bit (unat (n - 1)) s" "td_event_delset s n = clear_bit (unat (n - 1)) s"
    "td_eventismember s n = test_bit (unat (n - 1)) s"
    by (simp_all add: td_event_addset_def td_event_delset_def td_eventismember_def or_bit_def clear_bit_def
        test_bit_def and.commute del: push_bit_of_1)
qed

section \<open>Byte arrays\<close>

definition NBBY :: nat where "NBBY = 8"

definition setbit :: "u8 list \<Rightarrow> nat \<Rightarrow> u8 list option" where
  "setbit a i =
     (if i div NBBY < length a then Some (a[i div NBBY := a ! (i div NBBY) OR push_bit (i mod NBBY) 1]) else None)"

definition clrbit :: "u8 list \<Rightarrow> nat \<Rightarrow> u8 list option" where
  "clrbit a i =
     (if i div NBBY < length a
      then Some (a[i div NBBY := a ! (i div NBBY) AND NOT (push_bit (i mod NBBY) 1)]) else None)"

definition isset :: "u8 list \<Rightarrow> nat \<Rightarrow> bool option" where
  "isset a i =
     (if i div NBBY < length a then Some (a ! (i div NBBY) AND push_bit (i mod NBBY) 1 \<noteq> 0) else None)"

definition isclr :: "u8 list \<Rightarrow> nat \<Rightarrow> bool option" where
  "isclr a i =
     (if i div NBBY < length a then Some (a ! (i div NBBY) AND push_bit (i mod NBBY) 1 = 0) else None)"

lemma byte_generic: "setbit a i = or_bit i a" "clrbit a i = clear_bit i a" "isset a i = test_bit i a"
  "isclr a i = map_option Not (isset a i)"
  by (simp_all add: setbit_def clrbit_def isset_def isclr_def or_bit_def clear_bit_def test_bit_def NBBY_def)

section \<open>Counting and rounding\<close>

definition howmany :: "u64 \<Rightarrow> u64 \<Rightarrow> u64" where "howmany x y = (x + (y - 1)) div y"

definition powerof2 :: "u64 \<Rightarrow> bool" where "powerof2 x \<longleftrightarrow> (x - 1) AND x = 0"

text \<open>The flag says that the compiler knows \<^verbatim>\<open>y\<close> to be constant.\<close>

definition roundup :: "bool \<Rightarrow> u64 \<Rightarrow> u64 \<Rightarrow> u64" where
  "roundup is_constant x y =
     (if is_constant \<and> powerof2 y then (x + y - 1) AND NOT (y - 1) else ((x + (y - 1)) div y) * y)"

lemma unat_plus_below:
  fixes x y :: u64
  assumes "0 < y" and "unat x + unat y \<le> 2 ^ 64"
  shows "unat (x + (y - 1)) = unat x + (unat y - 1)"
proof -
  have "0 < unat y" using assms(1) by (simp add: word_less_nat_alt)
  then have "unat (y - 1) = unat y - 1"
    using assms(1) by (intro unat_minus_one) auto
  then show ?thesis
    using assms(2) \<open>0 < unat y\<close> by (subst unat_add_lem [THEN iffD1]) simp_all
qed

lemma one_bit_nat: "0 < n \<Longrightarrow> (n - 1) AND n = 0 \<Longrightarrow> \<exists>k. n = 2 ^ k" for n :: nat
proof (induction n rule: nat_bit_induct)
  case (even m)
  then obtain j where j: "m = Suc j" by (cases m) auto
  have "(2 * m - 1) AND (2 * m) = 2 * ((m - 1) AND m)"
    unfolding j by (subst and_rec) simp
  then obtain k where "m = 2 ^ k"
    using even by auto
  then show ?case by (intro exI [of _ "Suc k"]) simp
next
  case (odd m)
  have "(Suc (2 * m) - 1) AND Suc (2 * m) = 2 * m"
    by (subst and_rec) simp
  then show ?case
    using odd by (intro exI [of _ 0]) simp
qed simp

lemma powerof2: "0 < y \<Longrightarrow> powerof2 y \<Longrightarrow> \<exists>k < 64. y = 2 ^ k \<and> unat y = 2 ^ k"
proof -
  assume y: "0 < y" "powerof2 y"
  have "unat ((y - 1) AND y) = 0"
    using y(2) by (simp add: powerof2_def)
  then have "(unat y - 1) AND unat y = 0"
    using y(1) by (simp add: unsigned_and_eq unat_minus_one)
  then obtain k where k: "unat y = 2 ^ k"
    using one_bit_nat [of "unat y"] y(1) by (auto simp: word_less_nat_alt)
  have "unat y < 2 ^ 64"
    using unsigned_less [of y] by simp
  then have "(2 :: nat) ^ k < 2 ^ 64"
    unfolding k .
  then have "k < 64"
    by (simp only: power_strict_increasing_iff one_less_numeral_iff semiring_norm)
  moreover have "y = 2 ^ k"
    using arg_cong [OF k, of "of_nat :: nat \<Rightarrow> u64"] by simp
  ultimately show ?thesis using k by blast
qed

lemma howmany: "0 < y \<Longrightarrow> unat x + unat y \<le> 2 ^ 64 \<Longrightarrow> unat (howmany x y) = (unat x + unat y - 1) div unat y"
  using unat_plus_below [of y x] by (simp add: howmany_def unat_div word_less_nat_alt)

text \<open>Both forms of \<^verbatim>\<open>roundup\<close> give the least multiple.\<close>

lemma roundup:
  assumes "0 < y" and "unat x + unat y \<le> 2 ^ 64"
  shows "unat (roundup c x y) = round_up (unat y) (unat x)"
proof (cases "c \<and> powerof2 y")
  case True
  then obtain k where k: "k < 64" "y = 2 ^ k" "unat y = 2 ^ k"
    using powerof2 [OF assms(1)] by blast
  then have "roundup c x y = (x + (2 ^ k - 1)) AND NOT (2 ^ k - 1)"
    using True by (simp add: roundup_def add_diff_eq)
  then show ?thesis
    using unat_round_up [of x k] assms(2) k(1,3) by simp
next
  case False
  have y: "0 < unat y" using assms(1) by (simp add: word_less_nat_alt)
  let ?q = "(unat x + unat y - 1) div unat y"
  have "unat ((x + (y - 1)) div y) = ?q"
    using howmany [OF assms] by (simp add: howmany_def)
  moreover have "?q * unat y < 2 ^ 64"
    using div_times_less_eq_dividend [of "unat x + unat y - 1" "unat y"] assms(2) y by linarith
  ultimately have "unat ((x + (y - 1)) div y * y) = ?q * unat y"
    by (subst unat_mult_lem [THEN iffD1]) simp_all
  then show ?thesis
    using False by (auto simp: roundup_def round_up_def)
qed

section \<open>Properties\<close>

definition members :: "nat \<Rightarrow> ('s \<Rightarrow> nat \<Rightarrow> bool option) \<Rightarrow> 's \<Rightarrow> nat set" where
  "members n test s = elems n (\<lambda>s i. test s i = Some True) s"

lemma array_members:
  fixes xs :: "'a::len word list"
  assumes "i < length xs * LENGTH('a)" and "n = length xs * LENGTH('a)"
  shows "\<exists>ys. or_bit i xs = Some ys \<and> length ys = length xs \<and>
      members n (\<lambda>xs i. test_bit i xs) ys = insert i (members n (\<lambda>xs i. test_bit i xs) xs)"
    and "\<exists>ys. clear_bit i xs = Some ys \<and> length ys = length xs \<and>
      members n (\<lambda>xs i. test_bit i xs) ys = members n (\<lambda>xs i. test_bit i xs) xs - {i}"
    and "test_bit i xs = Some (i \<in> members n (\<lambda>xs i. test_bit i xs) xs)"
  using set_bits [OF assms(1)] assms by (auto simp: members_def elems_def test_bit)

text \<open>C37: on the interfaces 0 to 31 the multicast map is a set: setting, clearing and testing are
  insertion, removal and membership, two maps made by them are the same exactly when their sets are,
  although interface 31 fills or clears the whole upper half of the word.\<close>

theorem vif_map_refines_sets:
  assumes "vif_map m" and "vif_map m'" and "n < MAXVIFS"
  shows "vif_map (VIFM_SET n m) \<and> vif_map (VIFM_CLR n m) \<and> vif_map (VIFM_CLRALL m) \<and>
    elems MAXVIFS (\<lambda>m n. VIFM_ISSET n m) (VIFM_SET n m) = insert n (elems MAXVIFS (\<lambda>m n. VIFM_ISSET n m) m) \<and>
    elems MAXVIFS (\<lambda>m n. VIFM_ISSET n m) (VIFM_CLR n m) = elems MAXVIFS (\<lambda>m n. VIFM_ISSET n m) m - {n} \<and>
    elems MAXVIFS (\<lambda>m n. VIFM_ISSET n m) (VIFM_CLRALL m) = {} \<and>
    (VIFM_SAME m m' \<longleftrightarrow> elems MAXVIFS (\<lambda>m n. VIFM_ISSET n m) m = elems MAXVIFS (\<lambda>m n. VIFM_ISSET n m) m') \<and>
    (VIFM_ISSET n (VIFM_SET 31 m) \<longleftrightarrow> n = 31 \<or> VIFM_ISSET n m) \<and>
    VIFM_SET 31 0 = 0xffffffff80000000"
proof (intro conjI)
  show "VIFM_SAME m m' \<longleftrightarrow> elems MAXVIFS (\<lambda>m n. VIFM_ISSET n m) m = elems MAXVIFS (\<lambda>m n. VIFM_ISSET n m) m'"
    using vifs.same_elems [OF assms(1,2)] by (auto simp: VIFM_SAME_def)
  show "elems MAXVIFS (\<lambda>m n. VIFM_ISSET n m) (VIFM_CLRALL m) = {}"
    by (simp add: elems_def VIFM_ISSET_def VIFM_CLRALL_def)
  show "VIFM_SET 31 0 = 0xffffffff80000000"
    by (simp add: VIFM_SET_def)
qed (use assms vifs.invar_ins vifs.invar_del vif_map_kept(3) vifs.elems_ins vifs.elems_del
    vifs.isin_ins [OF assms(1), of 31 n] in \<open>simp_all add: MAXVIFS_def\<close>)

lemma vif_map_refines_sets_witness:
  "vif_map (VIFM_SET 31 0) \<and> VIFM_SAME (VIFM_CLR 31 (VIFM_SET 31 0)) 0 \<and> VIFM_ISSET 31 (VIFM_SET 31 0)"
proof -
  have "vif_map 0" "31 < MAXVIFS" by (simp_all add: vif_map_def MAXVIFS_def)
  note t = vif_map_refines_sets [OF this(1) this]
  then have "vif_map (VIFM_SET 31 0)" "VIFM_ISSET 31 (VIFM_SET 31 0)"
    by blast+
  moreover have "VIFM_SAME (VIFM_CLR 31 (VIFM_SET 31 0)) 0"
    by (simp add: VIFM_SAME_def VIFM_CLR_def VIFM_SET_def)
  ultimately show ?thesis by blast
qed

text \<open>The interfaces of a version 6 route are a set below 256, and any other number reaches past the
  array.\<close>

lemma if_set_refines_sets:
  assumes "length p = if_set_words"
  shows "if n < IF_SETSIZE then
      (\<exists>q r. IF_SET n p = Some q \<and> members 256 (\<lambda>p n. IF_ISSET n p) q = insert n (members 256 (\<lambda>p n. IF_ISSET n p) p) \<and>
         IF_CLR n p = Some r \<and> members 256 (\<lambda>p n. IF_ISSET n p) r = members 256 (\<lambda>p n. IF_ISSET n p) p - {n}) \<and>
      IF_ISSET n p = Some (n \<in> members 256 (\<lambda>p n. IF_ISSET n p) p)
    else IF_SET n p = None \<and> IF_CLR n p = None \<and> IF_ISSET n p = None"
proof (cases "n < IF_SETSIZE")
  case True
  then have "n < length p * LENGTH(32)" "256 = length p * LENGTH(32)"
    by (simp_all add: assms if_set_words_def KERNEL_DIV_ROUND_UP_def IF_SETSIZE_def NIFBITS_def)
  note a = array_members [OF this, folded if_set_generic]
  then obtain q r where "IF_SET n p = Some q" "IF_CLR n p = Some r"
    "members 256 (\<lambda>p n. IF_ISSET n p) q = insert n (members 256 (\<lambda>p n. IF_ISSET n p) p)"
    "members 256 (\<lambda>p n. IF_ISSET n p) r = members 256 (\<lambda>p n. IF_ISSET n p) p - {n}"
    by blast
  then show ?thesis
    using a(3) True by simp
next
  case False
  then show ?thesis
    using assms by (simp add: IF_SET_def IF_CLR_def IF_ISSET_def if_set_words_def KERNEL_DIV_ROUND_UP_def
        IF_SETSIZE_def NIFBITS_def)
qed

text \<open>Every option has a bit of its own in the map of options to strip.\<close>

lemma strip_map_refines_sets:
  assumes "length bmap = 8"
  shows "\<exists>b. tcpoptstrip_set_bit bmap opt = Some b \<and> length b = 8 \<and>
    tcpoptstrip_test_bit b opt' = Some (opt' = opt \<or> tcpoptstrip_test_bit bmap opt' = Some True)"
proof -
  have "unat x < length bmap * LENGTH(32)" for x :: u8
    using unat_less_256 [of x] assms by simp
  note i = this
  obtain b where "or_bit (unat opt) bmap = Some b" "length b = 8"
    "\<forall>j. array_bit b j \<longleftrightarrow> j = unat opt \<or> array_bit bmap j"
    using set_bits(1) [OF i] assms by auto
  then show ?thesis
    using i [of opt'] assms unfolding strip_generic by (simp add: test_bit word_unat_eq_iff)
qed

text \<open>Thread events are a set of the numbers 1 to 64; zero, which stands for all events, is refused by
  none of the macros and reaches far past the array.\<close>

lemma event_index: "1 \<le> n \<Longrightarrow> unat (n - 1 :: u32) = unat n - 1" "unat (0 - 1 :: u32) = 4294967295"
proof -
  assume "1 \<le> n"
  then have "n \<noteq> 0" by auto
  then show "unat (n - 1 :: u32) = unat n - 1" by (rule unat_minus_one)
qed (simp add: unsigned_minus_1_eq_mask mask_eq_exp_minus_1)

lemma thread_events_refine_sets:
  assumes "length s = TD_EVENTSIZE"
  shows "1 \<le> n \<and> n \<le> 64 \<and> 1 \<le> k \<and> k \<le> 64 \<Longrightarrow>
      \<exists>t u. td_event_addset s n = Some t \<and> td_event_delset s n = Some u \<and>
        td_eventismember t k = Some (k = n \<or> td_eventismember s k = Some True) \<and>
        td_eventismember u k = Some (k \<noteq> n \<and> td_eventismember s k = Some True)"
    and "td_event_addset s 0 = None \<and> td_event_delset s 0 = None \<and> td_eventismember s 0 = None"
    and "td_event_emptyset s = [0, 0]" "td_event_fillset s = [0xffffffff, 0xffffffff]"
    and "td_eventisempty s \<longleftrightarrow> s = td_event_emptyset s"
proof -
  have two: "TD_EVENTSIZE = Suc (Suc 0)" by (simp add: TD_EVENTSIZE_def)
  obtain a b where s: "s = [a, b]"
    using assms unfolding two by (auto simp: length_Suc_conv)
  show e: "td_event_emptyset s = [0, 0]" and "td_event_fillset s = [0xffffffff, 0xffffffff]"
    by (simp_all add: td_event_emptyset_def td_event_fillset_def two s)
  then show "td_eventisempty s \<longleftrightarrow> s = td_event_emptyset s"
    by (auto simp: td_eventisempty_def s)
  show "td_event_addset s 0 = None \<and> td_event_delset s 0 = None \<and> td_eventismember s 0 = None"
    using event_index(2) by (simp add: event_generic or_bit_def clear_bit_def test_bit_def s)
  assume n: "1 \<le> n \<and> n \<le> 64 \<and> 1 \<le> k \<and> k \<le> 64"
  then have i: "unat (n - 1) < length s * LENGTH(32)" "unat (k - 1) < length s * LENGTH(32)"
    by (auto simp: event_index s word_le_nat_alt)
  obtain t u where "or_bit (unat (n - 1)) s = Some t" "length t = length s"
    "\<forall>j. array_bit t j \<longleftrightarrow> j = unat (n - 1) \<or> array_bit s j"
    "clear_bit (unat (n - 1)) s = Some u" "length u = length s"
    "\<forall>j. array_bit u j \<longleftrightarrow> j \<noteq> unat (n - 1) \<and> array_bit s j"
    using set_bits [OF i(1)] by blast
  moreover have "unat (k - 1) = unat (n - 1) \<longleftrightarrow> k = n"
    by (simp flip: word_unat_eq_iff)
  ultimately show "\<exists>t u. td_event_addset s n = Some t \<and> td_event_delset s n = Some u \<and>
        td_eventismember t k = Some (k = n \<or> td_eventismember s k = Some True) \<and>
        td_eventismember u k = Some (k \<noteq> n \<and> td_eventismember s k = Some True)"
    using i(2) unfolding event_generic by (simp add: test_bit)
qed

text \<open>A byte array has a bit for each number below eight times its length.\<close>

lemma byte_array_refines_sets:
  assumes "i < length a * NBBY" and "j < length a * NBBY"
  shows "\<exists>b c. setbit a i = Some b \<and> clrbit a i = Some c \<and>
    isset b j = Some (j = i \<or> isset a j = Some True) \<and> isclr c j = Some (j = i \<or> isclr a j = Some True)"
proof -
  have i: "i < length a * LENGTH(8)" "j < length a * LENGTH(8)"
    using assms by (simp_all add: NBBY_def)
  obtain b c where "or_bit i a = Some b" "length b = length a" "\<forall>j. array_bit b j \<longleftrightarrow> j = i \<or> array_bit a j"
    "clear_bit i a = Some c" "length c = length a" "\<forall>j. array_bit c j \<longleftrightarrow> j \<noteq> i \<and> array_bit a j"
    using set_bits [OF i(1)] by blast
  then show ?thesis
    using i(2) unfolding byte_generic by (simp add: test_bit)
qed

end
