(* ===== verification/Exec_Layout.thy ===== *)
theory Exec_Layout
  imports Prelude
begin

text \<open>
  Headers of old executables, \<^verbatim>\<open>a.out.h\<close>: the three fields packed into \<^verbatim>\<open>a_info\<close>, where the sections
  are in the file and where the segments are in memory.  \<^verbatim>\<open>a_info\<close> is an \<^verbatim>\<open>unsigned long\<close> while the
  macros shift \<^verbatim>\<open>int\<close> values; file offsets start from a \<^verbatim>\<open>sizeof\<close> and are 64-bit, addresses in memory
  are computed in 32 bits.
\<close>

section \<open>The header\<close>

record exec =
  a_info :: u64
  a_text :: u32
  a_data :: u32
  a_bss :: u32
  a_syms :: u32
  a_entry :: u32
  a_trsize :: u32
  a_drsize :: u32

definition sizeof_exec :: u64 where "sizeof_exec = 40"

definition N_MAGIC :: "exec \<Rightarrow> u64" where "N_MAGIC x = a_info x AND 0xffff"

definition N_MACHTYPE :: "exec \<Rightarrow> u32" where "N_MACHTYPE x = ucast (drop_bit 16 (a_info x) AND 0xff)"

definition N_FLAGS :: "exec \<Rightarrow> u64" where "N_FLAGS x = drop_bit 24 (a_info x) AND 0xff"

definition N_SET_INFO :: "u32 \<Rightarrow> u32 \<Rightarrow> u32 \<Rightarrow> exec \<Rightarrow> exec" where
  "N_SET_INFO magic ty flags x =
     x\<lparr>a_info := scast ((magic AND 0xffff) OR push_bit 16 (ty AND 0xff) OR push_bit 24 (flags AND 0xff))\<rparr>"

definition N_SET_MAGIC :: "u32 \<Rightarrow> exec \<Rightarrow> exec" where
  "N_SET_MAGIC magic x = x\<lparr>a_info := (a_info x AND 0xffff0000) OR scast (magic AND 0xffff)\<rparr>"

definition N_SET_MACHTYPE :: "u32 \<Rightarrow> exec \<Rightarrow> exec" where
  "N_SET_MACHTYPE machtype x =
     x\<lparr>a_info := (a_info x AND 0xff00ffff) OR scast (push_bit 16 (machtype AND 0xff))\<rparr>"

definition N_SET_FLAGS :: "u32 \<Rightarrow> exec \<Rightarrow> exec" where
  "N_SET_FLAGS flags x = x\<lparr>a_info := (a_info x AND 0x00ffffff) OR scast (push_bit 24 (flags AND 0xff))\<rparr>"

definition OMAGIC :: u64 where "OMAGIC = 0x107"

definition NMAGIC :: u64 where "NMAGIC = 0x108"

definition ZMAGIC :: u64 where "ZMAGIC = 0x10b"

definition QMAGIC :: u64 where "QMAGIC = 0xcc"

definition CMAGIC :: u64 where "CMAGIC = 0x111"

definition N_TRSIZE :: "exec \<Rightarrow> u32" where "N_TRSIZE x = a_trsize x"

definition N_DRSIZE :: "exec \<Rightarrow> u32" where "N_DRSIZE x = a_drsize x"

definition N_SYMSIZE :: "exec \<Rightarrow> u32" where "N_SYMSIZE x = a_syms x"

definition N_BADMAG :: "exec \<Rightarrow> bool" where
  "N_BADMAG x \<longleftrightarrow> N_MAGIC x \<noteq> OMAGIC \<and> N_MAGIC x \<noteq> NMAGIC \<and> N_MAGIC x \<noteq> ZMAGIC \<and> N_MAGIC x \<noteq> QMAGIC"

section \<open>Places in the file\<close>

definition N_HDROFF :: "exec \<Rightarrow> u64" where "N_HDROFF x = 1024 - sizeof_exec"

definition N_TXTOFF :: "exec \<Rightarrow> u64" where
  "N_TXTOFF x = (if N_MAGIC x = ZMAGIC then N_HDROFF x + sizeof_exec
     else if N_MAGIC x = QMAGIC then 0 else sizeof_exec)"

definition N_DATOFF :: "exec \<Rightarrow> u64" where "N_DATOFF x = N_TXTOFF x + ucast (a_text x)"

definition N_TRELOFF :: "exec \<Rightarrow> u64" where "N_TRELOFF x = N_DATOFF x + ucast (a_data x)"

definition N_DRELOFF :: "exec \<Rightarrow> u64" where "N_DRELOFF x = N_TRELOFF x + ucast (N_TRSIZE x)"

definition N_SYMOFF :: "exec \<Rightarrow> u64" where "N_SYMOFF x = N_DRELOFF x + ucast (N_DRSIZE x)"

definition N_STROFF :: "exec \<Rightarrow> u64" where "N_STROFF x = N_SYMOFF x + ucast (N_SYMSIZE x)"

section \<open>Places in memory\<close>

definition N_TXTADDR :: "exec \<Rightarrow> u32" where "N_TXTADDR x = (if N_MAGIC x = QMAGIC then 4096 else 0)"

definition SEGMENT_SIZE :: u32 where "SEGMENT_SIZE = 1024"

definition N_SEGMENT_ROUND :: "u32 \<Rightarrow> u32" where
  "N_SEGMENT_ROUND x = (x + SEGMENT_SIZE - 1) AND NOT (SEGMENT_SIZE - 1)"

definition N_TXTENDADDR :: "exec \<Rightarrow> u32" where "N_TXTENDADDR x = N_TXTADDR x + a_text x"

definition N_DATADDR :: "exec \<Rightarrow> u32" where
  "N_DATADDR x = (if N_MAGIC x = OMAGIC then N_TXTENDADDR x else N_SEGMENT_ROUND (N_TXTENDADDR x))"

definition N_BSSADDR :: "exec \<Rightarrow> u32" where "N_BSSADDR x = N_DATADDR x + a_data x"

section \<open>The packed fields\<close>

lemma info_masks:
  "(0xffff :: u32) = mask 16" "(0xff :: u32) = mask 8" "(0xffff :: u64) = mask 16" "(0xff :: u64) = mask 8"
  "(0xffff0000 :: u64) = push_bit 16 (mask 16)" "(0x00ffffff :: u64) = mask 24"
  "(0xff00ffff :: u64) = push_bit 24 (mask 8) OR mask 16"
  by (simp_all add: mask_eq_exp_minus_1 push_bit_eq_mult)

lemmas info_defs =
  N_MAGIC_def N_MACHTYPE_def N_FLAGS_def N_SET_INFO_def N_SET_MAGIC_def N_SET_MACHTYPE_def N_SET_FLAGS_def

text \<open>Flags of 128 and more make the \<^verbatim>\<open>int\<close> negative, so the upper half of the word is filled with ones;
  the readers do not see it, and the two other setters clear it.\<close>

lemma set_flags_upper:
  "bit flags 7 \<Longrightarrow> 32 \<le> k \<Longrightarrow> k < 64 \<Longrightarrow> bit (a_info (N_SET_FLAGS flags x)) k"
  "32 \<le> k \<Longrightarrow> \<not> bit (a_info (N_SET_MAGIC magic x)) k" "32 \<le> k \<Longrightarrow> \<not> bit (a_info (N_SET_MACHTYPE ty x)) k"
  unfolding info_defs info_masks by (auto simp: bit_simps min_def simp del: push_bit_and)

lemma magic_top_bit: "7 \<le> n \<Longrightarrow> n < 8 \<Longrightarrow> n = 7" for n :: nat
  by simp

lemma info_read:
  "N_MAGIC (N_SET_INFO magic ty flags x) = ucast (magic AND 0xffff)"
  "N_MACHTYPE (N_SET_INFO magic ty flags x) = ty AND 0xff"
  "N_FLAGS (N_SET_INFO magic ty flags x) = ucast (flags AND 0xff)"
  unfolding info_defs info_masks by (rule bit_word_eqI; auto simp: bit_simps min_def simp del: push_bit_and dest: magic_top_bit)+

lemma magic_read:
  "N_MAGIC (N_SET_MAGIC magic x) = ucast (magic AND 0xffff)"
  "N_MACHTYPE (N_SET_MAGIC magic x) = N_MACHTYPE x" "N_FLAGS (N_SET_MAGIC magic x) = N_FLAGS x"
  unfolding info_defs info_masks by (rule bit_word_eqI; auto simp: bit_simps min_def simp del: push_bit_and dest: magic_top_bit)+

lemma machtype_read:
  "N_MAGIC (N_SET_MACHTYPE ty x) = N_MAGIC x" "N_MACHTYPE (N_SET_MACHTYPE ty x) = ty AND 0xff"
  "N_FLAGS (N_SET_MACHTYPE ty x) = N_FLAGS x"
  unfolding info_defs info_masks by (rule bit_word_eqI; auto simp: bit_simps min_def simp del: push_bit_and dest: magic_top_bit)+

lemma flags_read:
  "N_MAGIC (N_SET_FLAGS flags x) = N_MAGIC x" "N_MACHTYPE (N_SET_FLAGS flags x) = N_MACHTYPE x"
  "N_FLAGS (N_SET_FLAGS flags x) = ucast (flags AND 0xff)"
  unfolding info_defs info_masks by (rule bit_word_eqI; auto simp: bit_simps min_def simp del: push_bit_and dest: magic_top_bit)+

section \<open>The file and the memory\<close>

text \<open>Offsets do not wrap: they are sums of at most seven 32-bit sizes.\<close>

lemma unat_plus_size:
  fixes o' :: u64 and s :: u32
  assumes "unat o' + 4294967296 \<le> 18446744073709551616"
  shows "unat (o' + ucast s) = unat o' + unat s"
proof -
  have "unat s < 4294967296" using unsigned_less [of s] by simp
  then show ?thesis
    using assms by (subst unat_add_lem [THEN iffD1]) (simp_all add: unat_ucast_up)
qed

lemma text_offset: "unat (N_TXTOFF x) = (if N_MAGIC x = ZMAGIC then 1024 else if N_MAGIC x = QMAGIC then 0 else 40)"
  by (simp add: N_TXTOFF_def N_HDROFF_def sizeof_exec_def)

lemma file_offsets:
  "unat (N_DATOFF x) = unat (N_TXTOFF x) + unat (a_text x)"
  "unat (N_TRELOFF x) = unat (N_DATOFF x) + unat (a_data x)"
  "unat (N_DRELOFF x) = unat (N_TRELOFF x) + unat (a_trsize x)"
  "unat (N_SYMOFF x) = unat (N_DRELOFF x) + unat (a_drsize x)"
  "unat (N_STROFF x) = unat (N_SYMOFF x) + unat (a_syms x)"
proof -
  have small: "unat s < 4294967296" for s :: u32 using unsigned_less [of s] by simp
  note s = small [of "a_text x"] small [of "a_data x"] small [of "a_trsize x"] small [of "a_drsize x"]
  have t: "unat (N_TXTOFF x) \<le> 1024" by (simp add: text_offset)
  show 1: "unat (N_DATOFF x) = unat (N_TXTOFF x) + unat (a_text x)"
    unfolding N_DATOFF_def by (rule unat_plus_size) (use t in linarith)
  show 2: "unat (N_TRELOFF x) = unat (N_DATOFF x) + unat (a_data x)"
    unfolding N_TRELOFF_def by (rule unat_plus_size) (use t 1 s in linarith)
  show 3: "unat (N_DRELOFF x) = unat (N_TRELOFF x) + unat (a_trsize x)"
    unfolding N_DRELOFF_def N_TRSIZE_def by (rule unat_plus_size) (use t 1 2 s in linarith)
  show 4: "unat (N_SYMOFF x) = unat (N_DRELOFF x) + unat (a_drsize x)"
    unfolding N_SYMOFF_def N_DRSIZE_def by (rule unat_plus_size) (use t 1 2 3 s in linarith)
  show "unat (N_STROFF x) = unat (N_SYMOFF x) + unat (a_syms x)"
    unfolding N_STROFF_def N_SYMSIZE_def by (rule unat_plus_size) (use t 1 2 3 4 s in linarith)
qed

text \<open>The segments in memory, when the program fits below four gigabytes.\<close>

lemma segments:
  assumes "unat (N_TXTADDR x) + unat (a_text x) + 1023 + unat (a_data x) < 2 ^ 32"
  shows "unat (N_TXTENDADDR x) = unat (N_TXTADDR x) + unat (a_text x)"
    and "unat (N_DATADDR x) =
      (if N_MAGIC x = OMAGIC then unat (N_TXTENDADDR x) else round_up 1024 (unat (N_TXTENDADDR x)))"
    and "unat (N_BSSADDR x) = unat (N_DATADDR x) + unat (a_data x)"
proof -
  show e: "unat (N_TXTENDADDR x) = unat (N_TXTADDR x) + unat (a_text x)"
    using assms unfolding N_TXTENDADDR_def by (subst unat_add_lem [THEN iffD1]) simp_all
  have "N_SEGMENT_ROUND a = (a + (2 ^ 10 - 1)) AND NOT (2 ^ 10 - 1)" for a
    by (simp add: N_SEGMENT_ROUND_def SEGMENT_SIZE_def add.commute)
  then have "unat (N_SEGMENT_ROUND (N_TXTENDADDR x)) = round_up (2 ^ 10) (unat (N_TXTENDADDR x))"
    using unat_round_up [of "N_TXTENDADDR x" 10] assms e by simp
  then show d: "unat (N_DATADDR x) =
      (if N_MAGIC x = OMAGIC then unat (N_TXTENDADDR x) else round_up 1024 (unat (N_TXTENDADDR x)))"
    by (simp add: N_DATADDR_def)
  have "unat (N_DATADDR x) \<le> unat (N_TXTENDADDR x) + 1023"
    using round_up(3) [of 1024 "unat (N_TXTENDADDR x)"] by (simp add: d)
  then show "unat (N_BSSADDR x) = unat (N_DATADDR x) + unat (a_data x)"
    using assms e unfolding N_BSSADDR_def by (subst unat_add_lem [THEN iffD1]) simp_all
qed

section \<open>Properties\<close>

fun back_to_back :: "nat \<Rightarrow> (u64 \<times> u32) list \<Rightarrow> bool" where
  "back_to_back p [] \<longleftrightarrow> True"
| "back_to_back p ((off, len) # xs) \<longleftrightarrow> unat off = p \<and> back_to_back (p + unat len) xs"

text \<open>In the file, text, data, the two relocation tables, symbols and strings follow each other
  without gap or overlap, whatever the sizes, from where the text of the format begins.  In
  memory, when the program fits into 32-bit addresses, the data starts at or after the end of the
  text, on a segment boundary and less than a segment further unless the text is writable, and the
  uninitialized data follows it.\<close>

theorem exec_layout:
  assumes "unat (N_TXTADDR x) + unat (a_text x) + 1023 + unat (a_data x) < 2 ^ 32"
  shows "back_to_back (if N_MAGIC x = ZMAGIC then 1024 else if N_MAGIC x = QMAGIC then 0 else 40)
      [(N_TXTOFF x, a_text x), (N_DATOFF x, a_data x), (N_TRELOFF x, a_trsize x), (N_DRELOFF x, a_drsize x),
       (N_SYMOFF x, a_syms x), (N_STROFF x, 0)] \<and>
    unat (N_TXTADDR x) + unat (a_text x) \<le> unat (N_DATADDR x) \<and>
    (if N_MAGIC x = OMAGIC then unat (N_DATADDR x) = unat (a_text x)
     else 1024 dvd unat (N_DATADDR x) \<and> unat (N_DATADDR x) < unat (N_TXTADDR x) + unat (a_text x) + 1024) \<and>
    unat (N_BSSADDR x) = unat (N_DATADDR x) + unat (a_data x)"
proof -
  note s = segments [OF assms]
  have "unat (N_DATADDR x) = unat (a_text x)" if "N_MAGIC x = OMAGIC"
    using s that by (simp add: N_TXTADDR_def OMAGIC_def QMAGIC_def)
  moreover have "unat (N_TXTADDR x) + unat (a_text x) \<le> unat (N_DATADDR x)"
    using s round_up(2) [of 1024 "unat (N_TXTENDADDR x)"] by simp
  ultimately show ?thesis
    using s round_up(1,3) [of 1024 "unat (N_TXTENDADDR x)"] by (simp add: text_offset file_offsets)
qed

definition sample_exec :: exec where
  "sample_exec = \<lparr>a_info = 0x64010b, a_text = 5000, a_data = 300, a_bss = 8, a_syms = 24, a_entry = 32,
     a_trsize = 16, a_drsize = 8\<rparr>"

lemma exec_layout_witness:
  "unat (N_STROFF sample_exec) = 6372 \<and> unat (N_DATADDR sample_exec) \<in> {5000..<6024} \<and>
   1024 dvd unat (N_DATADDR sample_exec) \<and> unat (N_BSSADDR sample_exec) = unat (N_DATADDR sample_exec) + 300"
  using exec_layout [of sample_exec]
  by (simp add: sample_exec_def N_TXTADDR_def N_MAGIC_def ZMAGIC_def QMAGIC_def OMAGIC_def)

end
