(* ===== verification/Kvm_Register.thy ===== *)
theory Kvm_Register
  imports Packed_Code Sve_Layout
begin

text \<open>
  Numbers of the registers of a virtual processor, \<^verbatim>\<open>asm/kvm.h\<close> over \<^verbatim>\<open>linux/kvm.h\<close>: architecture and
  size in the upper bits, the group of the register below, and for system registers the five
  fields of their encoding, for vector registers the register and the slice.
\<close>

section \<open>Parts of a number\<close>

definition KVM_REG_ARCH_MASK :: u64 where "KVM_REG_ARCH_MASK = 0xff00000000000000"

definition KVM_REG_GENERIC :: u64 where "KVM_REG_GENERIC = 0x0000000000000000"

definition KVM_REG_PPC :: u64 where "KVM_REG_PPC = 0x1000000000000000"

definition KVM_REG_X86 :: u64 where "KVM_REG_X86 = 0x2000000000000000"

definition KVM_REG_IA64 :: u64 where "KVM_REG_IA64 = 0x3000000000000000"

definition KVM_REG_ARM :: u64 where "KVM_REG_ARM = 0x4000000000000000"

definition KVM_REG_S390 :: u64 where "KVM_REG_S390 = 0x5000000000000000"

definition KVM_REG_ARM64 :: u64 where "KVM_REG_ARM64 = 0x6000000000000000"

definition KVM_REG_MIPS :: u64 where "KVM_REG_MIPS = 0x7000000000000000"

definition KVM_REG_RISCV :: u64 where "KVM_REG_RISCV = 0x8000000000000000"

definition KVM_REG_SIZE_SHIFT :: nat where "KVM_REG_SIZE_SHIFT = 52"

definition KVM_REG_SIZE_MASK :: u64 where "KVM_REG_SIZE_MASK = 0x00f0000000000000"

definition KVM_REG_SIZE_U8 :: u64 where "KVM_REG_SIZE_U8 = 0x0000000000000000"

definition KVM_REG_SIZE_U16 :: u64 where "KVM_REG_SIZE_U16 = 0x0010000000000000"

definition KVM_REG_SIZE_U32 :: u64 where "KVM_REG_SIZE_U32 = 0x0020000000000000"

definition KVM_REG_SIZE_U64 :: u64 where "KVM_REG_SIZE_U64 = 0x0030000000000000"

definition KVM_REG_SIZE_U128 :: u64 where "KVM_REG_SIZE_U128 = 0x0040000000000000"

definition KVM_REG_SIZE_U256 :: u64 where "KVM_REG_SIZE_U256 = 0x0050000000000000"

definition KVM_REG_SIZE_U512 :: u64 where "KVM_REG_SIZE_U512 = 0x0060000000000000"

definition KVM_REG_SIZE_U1024 :: u64 where "KVM_REG_SIZE_U1024 = 0x0070000000000000"

definition KVM_REG_SIZE_U2048 :: u64 where "KVM_REG_SIZE_U2048 = 0x0080000000000000"

definition KVM_REG_SIZE :: "u64 \<Rightarrow> u32" where
  "KVM_REG_SIZE id' = push_bit (unat (drop_bit KVM_REG_SIZE_SHIFT (id' AND KVM_REG_SIZE_MASK))) 1"

definition KVM_REG_ARM_COPROC_MASK :: u64 where "KVM_REG_ARM_COPROC_MASK = 0x000000000FFF0000"

definition KVM_REG_ARM_COPROC_SHIFT :: nat where "KVM_REG_ARM_COPROC_SHIFT = 16"

definition KVM_REG_ARM_CORE :: u64 where "KVM_REG_ARM_CORE = push_bit KVM_REG_ARM_COPROC_SHIFT 0x0010"

definition KVM_REG_ARM_DEMUX :: u64 where "KVM_REG_ARM_DEMUX = push_bit KVM_REG_ARM_COPROC_SHIFT 0x0011"

definition KVM_REG_ARM64_SYSREG :: u64 where "KVM_REG_ARM64_SYSREG = push_bit KVM_REG_ARM_COPROC_SHIFT 0x0013"

definition KVM_REG_ARM_FW :: u64 where "KVM_REG_ARM_FW = push_bit KVM_REG_ARM_COPROC_SHIFT 0x0014"

definition KVM_REG_ARM64_SVE :: u64 where "KVM_REG_ARM64_SVE = push_bit KVM_REG_ARM_COPROC_SHIFT 0x15"

section \<open>System registers\<close>

definition KVM_REG_ARM64_SYSREG_OP0_MASK :: u64 where "KVM_REG_ARM64_SYSREG_OP0_MASK = 0x000000000000c000"

definition KVM_REG_ARM64_SYSREG_OP0_SHIFT :: nat where "KVM_REG_ARM64_SYSREG_OP0_SHIFT = 14"

definition KVM_REG_ARM64_SYSREG_OP1_MASK :: u64 where "KVM_REG_ARM64_SYSREG_OP1_MASK = 0x0000000000003800"

definition KVM_REG_ARM64_SYSREG_OP1_SHIFT :: nat where "KVM_REG_ARM64_SYSREG_OP1_SHIFT = 11"

definition KVM_REG_ARM64_SYSREG_CRN_MASK :: u64 where "KVM_REG_ARM64_SYSREG_CRN_MASK = 0x0000000000000780"

definition KVM_REG_ARM64_SYSREG_CRN_SHIFT :: nat where "KVM_REG_ARM64_SYSREG_CRN_SHIFT = 7"

definition KVM_REG_ARM64_SYSREG_CRM_MASK :: u64 where "KVM_REG_ARM64_SYSREG_CRM_MASK = 0x0000000000000078"

definition KVM_REG_ARM64_SYSREG_CRM_SHIFT :: nat where "KVM_REG_ARM64_SYSREG_CRM_SHIFT = 3"

definition KVM_REG_ARM64_SYSREG_OP2_MASK :: u64 where "KVM_REG_ARM64_SYSREG_OP2_MASK = 0x0000000000000007"

definition KVM_REG_ARM64_SYSREG_OP2_SHIFT :: nat where "KVM_REG_ARM64_SYSREG_OP2_SHIFT = 0"

text \<open>The macro pastes the field's name into the names of its shift and its mask.\<close>

definition ARM64_SYS_REG_SHIFT_MASK :: "u64 \<Rightarrow> nat \<times> u64 \<Rightarrow> u64" where
  "ARM64_SYS_REG_SHIFT_MASK x n = push_bit (fst n) x AND snd n"

abbreviation OP0 :: "nat \<times> u64" where "OP0 \<equiv> (KVM_REG_ARM64_SYSREG_OP0_SHIFT, KVM_REG_ARM64_SYSREG_OP0_MASK)"

abbreviation OP1 :: "nat \<times> u64" where "OP1 \<equiv> (KVM_REG_ARM64_SYSREG_OP1_SHIFT, KVM_REG_ARM64_SYSREG_OP1_MASK)"

abbreviation CRN :: "nat \<times> u64" where "CRN \<equiv> (KVM_REG_ARM64_SYSREG_CRN_SHIFT, KVM_REG_ARM64_SYSREG_CRN_MASK)"

abbreviation CRM :: "nat \<times> u64" where "CRM \<equiv> (KVM_REG_ARM64_SYSREG_CRM_SHIFT, KVM_REG_ARM64_SYSREG_CRM_MASK)"

abbreviation OP2 :: "nat \<times> u64" where "OP2 \<equiv> (KVM_REG_ARM64_SYSREG_OP2_SHIFT, KVM_REG_ARM64_SYSREG_OP2_MASK)"

definition u_ARM64_SYS_REG :: "u64 \<Rightarrow> u64 \<Rightarrow> u64 \<Rightarrow> u64 \<Rightarrow> u64 \<Rightarrow> u64" where
  "u_ARM64_SYS_REG op0 op1 crn crm op2 =
     KVM_REG_ARM64 OR KVM_REG_ARM64_SYSREG OR ARM64_SYS_REG_SHIFT_MASK op0 OP0 OR
     ARM64_SYS_REG_SHIFT_MASK op1 OP1 OR ARM64_SYS_REG_SHIFT_MASK crn CRN OR
     ARM64_SYS_REG_SHIFT_MASK crm CRM OR ARM64_SYS_REG_SHIFT_MASK op2 OP2"

definition ARM64_SYS_REG :: "u64 \<Rightarrow> u64 \<Rightarrow> u64 \<Rightarrow> u64 \<Rightarrow> u64 \<Rightarrow> u64" where
  "ARM64_SYS_REG op0 op1 crn crm op2 = u_ARM64_SYS_REG op0 op1 crn crm op2 OR KVM_REG_SIZE_U64"

definition KVM_REG_ARM_PTIMER_CTL :: u64 where "KVM_REG_ARM_PTIMER_CTL = ARM64_SYS_REG 3 3 14 2 1"

definition KVM_REG_ARM_PTIMER_CVAL :: u64 where "KVM_REG_ARM_PTIMER_CVAL = ARM64_SYS_REG 3 3 14 2 2"

definition KVM_REG_ARM_PTIMER_CNT :: u64 where "KVM_REG_ARM_PTIMER_CNT = ARM64_SYS_REG 3 3 14 0 1"

definition KVM_REG_ARM_TIMER_CTL :: u64 where "KVM_REG_ARM_TIMER_CTL = ARM64_SYS_REG 3 3 14 3 1"

definition KVM_REG_ARM_TIMER_CVAL :: u64 where "KVM_REG_ARM_TIMER_CVAL = ARM64_SYS_REG 3 3 14 0 2"

definition KVM_REG_ARM_TIMER_CNT :: u64 where "KVM_REG_ARM_TIMER_CNT = ARM64_SYS_REG 3 3 14 3 2"

section \<open>Firmware and vector registers\<close>

definition KVM_REG_ARM_FW_REG :: "u64 \<Rightarrow> u64" where
  "KVM_REG_ARM_FW_REG r = KVM_REG_ARM64 OR KVM_REG_SIZE_U64 OR KVM_REG_ARM_FW OR (r AND 0xffff)"

definition KVM_REG_ARM_PSCI_VERSION :: u64 where
  "KVM_REG_ARM_PSCI_VERSION = KVM_REG_ARM_FW_REG 0"

definition KVM_REG_ARM_SMCCC_ARCH_WORKAROUND_1 :: u64 where
  "KVM_REG_ARM_SMCCC_ARCH_WORKAROUND_1 = KVM_REG_ARM_FW_REG 1"

definition KVM_REG_ARM_SMCCC_ARCH_WORKAROUND_2 :: u64 where
  "KVM_REG_ARM_SMCCC_ARCH_WORKAROUND_2 = KVM_REG_ARM_FW_REG 2"

definition KVM_REG_ARM_SMCCC_ARCH_WORKAROUND_3 :: u64 where
  "KVM_REG_ARM_SMCCC_ARCH_WORKAROUND_3 = KVM_REG_ARM_FW_REG 3"

definition KVM_REG_ARM64_SVE_ZREG_BASE :: u64 where "KVM_REG_ARM64_SVE_ZREG_BASE = 0"

definition KVM_REG_ARM64_SVE_PREG_BASE :: u64 where "KVM_REG_ARM64_SVE_PREG_BASE = 0x400"

definition KVM_REG_ARM64_SVE_FFR_BASE :: u64 where "KVM_REG_ARM64_SVE_FFR_BASE = 0x600"

definition KVM_ARM64_SVE_NUM_ZREGS :: u64 where "KVM_ARM64_SVE_NUM_ZREGS = ucast SVE_NUM_ZREGS"

definition KVM_ARM64_SVE_NUM_PREGS :: u64 where "KVM_ARM64_SVE_NUM_PREGS = ucast SVE_NUM_PREGS"

definition KVM_ARM64_SVE_MAX_SLICES :: u64 where "KVM_ARM64_SVE_MAX_SLICES = 32"

definition KVM_REG_ARM64_SVE_ZREG :: "u64 \<Rightarrow> u64 \<Rightarrow> u64" where
  "KVM_REG_ARM64_SVE_ZREG n i =
     KVM_REG_ARM64 OR KVM_REG_ARM64_SVE OR KVM_REG_ARM64_SVE_ZREG_BASE OR KVM_REG_SIZE_U2048 OR
     push_bit 5 (n AND (KVM_ARM64_SVE_NUM_ZREGS - 1)) OR (i AND (KVM_ARM64_SVE_MAX_SLICES - 1))"

definition KVM_REG_ARM64_SVE_PREG :: "u64 \<Rightarrow> u64 \<Rightarrow> u64" where
  "KVM_REG_ARM64_SVE_PREG n i =
     KVM_REG_ARM64 OR KVM_REG_ARM64_SVE OR KVM_REG_ARM64_SVE_PREG_BASE OR KVM_REG_SIZE_U256 OR
     push_bit 5 (n AND (KVM_ARM64_SVE_NUM_PREGS - 1)) OR (i AND (KVM_ARM64_SVE_MAX_SLICES - 1))"

definition KVM_REG_ARM64_SVE_FFR :: "u64 \<Rightarrow> u64" where
  "KVM_REG_ARM64_SVE_FFR i =
     KVM_REG_ARM64 OR KVM_REG_ARM64_SVE OR KVM_REG_ARM64_SVE_FFR_BASE OR KVM_REG_SIZE_U256 OR
     (i AND (KVM_ARM64_SVE_MAX_SLICES - 1))"

definition KVM_REG_ARM64_SVE_VLS :: u64 where
  "KVM_REG_ARM64_SVE_VLS = KVM_REG_ARM64 OR KVM_REG_ARM64_SVE OR KVM_REG_SIZE_U512 OR 0xffff"

section \<open>Numbers as prefix and index\<close>

text \<open>Every number is a prefix, from bit 16 up, and an index below it.\<close>

definition prefix_of :: "u64 \<Rightarrow> u64" where "prefix_of r = drop_bit 16 r"

definition index_of :: "u64 \<Rightarrow> u64" where "index_of r = r AND mask 16"

lemma prefix_index: "r = r' \<longleftrightarrow> prefix_of r = prefix_of r' \<and> index_of r = index_of r'"
proof -
  have "push_bit 16 (prefix_of r) OR index_of r = r" for r
    by (rule bit_word_eqI) (auto simp: prefix_of_def index_of_def bit_simps)
  then show ?thesis by metis
qed

lemma or_parts [simp]: "prefix_of (a OR b) = prefix_of a OR prefix_of b" "index_of (a OR b) = index_of a OR index_of b"
  by (rule bit_word_eqI; auto simp: prefix_of_def index_of_def bit_simps)+

lemma masked_parts:
  "k \<le> 16 \<Longrightarrow> prefix_of (x AND mask k) = 0" "k \<le> 16 \<Longrightarrow> index_of (x AND mask k) = x AND mask k"
  "j + k \<le> 16 \<Longrightarrow> prefix_of (push_bit j (x AND mask k)) = 0"
  "j + k \<le> 16 \<Longrightarrow> index_of (push_bit j (x AND mask k)) = push_bit j (x AND mask k)"
  by (rule bit_word_eqI; auto simp: prefix_of_def index_of_def bit_simps simp del: push_bit_and)+

text \<open>The groups have prefixes of their own, and the system register fields are disjoint.\<close>

lemma number_masks:
  "(0xffff :: u64) = mask 16" "(31 :: u64) = mask 5" "(15 :: u64) = mask 4"
  "(0xc000 :: u64) = push_bit 14 (mask 2)" "(0x3800 :: u64) = push_bit 11 (mask 3)"
  "(0x780 :: u64) = push_bit 7 (mask 4)" "(0x78 :: u64) = push_bit 3 (mask 4)" "(7 :: u64) = mask 3"
  by (simp_all add: mask_eq_exp_minus_1 push_bit_eq_mult)

lemma shift_masks:
  "ARM64_SYS_REG_SHIFT_MASK x OP0 = push_bit 14 (x AND mask 2)"
  "ARM64_SYS_REG_SHIFT_MASK x OP1 = push_bit 11 (x AND mask 3)"
  "ARM64_SYS_REG_SHIFT_MASK x CRN = push_bit 7 (x AND mask 4)"
  "ARM64_SYS_REG_SHIFT_MASK x CRM = push_bit 3 (x AND mask 4)"
  "ARM64_SYS_REG_SHIFT_MASK x OP2 = x AND mask 3"
  unfolding ARM64_SYS_REG_SHIFT_MASK_def fst_conv snd_conv
    KVM_REG_ARM64_SYSREG_OP0_MASK_def KVM_REG_ARM64_SYSREG_OP1_MASK_def KVM_REG_ARM64_SYSREG_CRN_MASK_def
    KVM_REG_ARM64_SYSREG_CRM_MASK_def KVM_REG_ARM64_SYSREG_OP2_MASK_def KVM_REG_ARM64_SYSREG_OP0_SHIFT_def
    KVM_REG_ARM64_SYSREG_OP1_SHIFT_def KVM_REG_ARM64_SYSREG_CRN_SHIFT_def KVM_REG_ARM64_SYSREG_CRM_SHIFT_def
    KVM_REG_ARM64_SYSREG_OP2_SHIFT_def number_masks
  by simp_all

lemmas register_defs =
  KVM_REG_ARM64_def KVM_REG_ARM64_SYSREG_def KVM_REG_ARM_FW_def KVM_REG_ARM64_SVE_def KVM_REG_ARM_COPROC_SHIFT_def
  KVM_REG_SIZE_U64_def KVM_REG_SIZE_U256_def KVM_REG_SIZE_U512_def KVM_REG_SIZE_U2048_def
  KVM_REG_ARM64_SVE_ZREG_BASE_def KVM_REG_ARM64_SVE_PREG_BASE_def KVM_REG_ARM64_SVE_FFR_BASE_def

lemmas number_defs =
  ARM64_SYS_REG_def u_ARM64_SYS_REG_def KVM_REG_ARM_FW_REG_def KVM_REG_ARM64_SVE_ZREG_def
  KVM_REG_ARM64_SVE_PREG_def KVM_REG_ARM64_SVE_FFR_def KVM_REG_ARM64_SVE_VLS_def

lemma slice_masks:
  "KVM_ARM64_SVE_NUM_ZREGS - 1 = mask 5" "KVM_ARM64_SVE_NUM_PREGS - 1 = mask 4" "KVM_ARM64_SVE_MAX_SLICES - 1 = mask 5"
  by (simp_all add: KVM_ARM64_SVE_NUM_ZREGS_def KVM_ARM64_SVE_NUM_PREGS_def KVM_ARM64_SVE_MAX_SLICES_def
      SVE_NUM_ZREGS_def SVE_NUM_PREGS_def mask_eq_exp_minus_1)

lemma part_numerals:
  "prefix_of (push_bit 16 x) = x AND mask 48" "index_of (push_bit 16 x) = 0"
  "prefix_of 0 = 0" "index_of 0 = 0" "prefix_of (numeral k) = drop_bit 16 (numeral k)"
  "index_of (numeral k) = take_bit 16 (numeral k)"
  by (rule bit_word_eqI; auto simp: prefix_of_def index_of_def bit_simps take_bit_eq_mask)+

text \<open>The number of each register by its prefix and its index.\<close>

lemma prefixes:
  "prefix_of (ARM64_SYS_REG op0 op1 crn crm op2) = 0x603000000013"
  "prefix_of (KVM_REG_ARM_FW_REG r) = 0x603000000014"
  "prefix_of (KVM_REG_ARM64_SVE_ZREG n i) = 0x608000000015"
  "prefix_of (KVM_REG_ARM64_SVE_PREG n i) = 0x605000000015"
  "prefix_of (KVM_REG_ARM64_SVE_FFR i) = 0x605000000015"
  "prefix_of KVM_REG_ARM64_SVE_VLS = 0x606000000015"
  unfolding number_defs shift_masks slice_masks register_defs number_masks(1)
  by (simp_all only: or_parts masked_parts number_masks(1)) (simp_all add: part_numerals mask_eq_exp_minus_1)

lemma indices:
  "index_of (ARM64_SYS_REG op0 op1 crn crm op2) =
    push_bit 14 (op0 AND mask 2) OR push_bit 11 (op1 AND mask 3) OR push_bit 7 (crn AND mask 4) OR
    push_bit 3 (crm AND mask 4) OR (op2 AND mask 3)"
  "index_of (KVM_REG_ARM_FW_REG r) = r AND mask 16"
  "index_of (KVM_REG_ARM64_SVE_ZREG n i) = push_bit 5 (n AND mask 5) OR (i AND mask 5)"
  "index_of (KVM_REG_ARM64_SVE_PREG n i) = 0x400 OR push_bit 5 (n AND mask 4) OR (i AND mask 5)"
  "index_of (KVM_REG_ARM64_SVE_FFR i) = 0x600 OR (i AND mask 5)"
  unfolding number_defs shift_masks slice_masks register_defs number_masks(1)
  by (simp_all only: or_parts masked_parts number_masks(1)) (simp_all add: part_numerals del: push_bit_and)

text \<open>A size of the vector registers' own, whatever the register and the slice.\<close>

lemma size_in_prefix: "KVM_REG_SIZE r = push_bit (unat (drop_bit 36 (prefix_of r AND 0x00f000000000))) 1"
proof -
  have m: "(0x00f0000000000000 :: u64) = push_bit 52 (mask 4)" "(0x00f000000000 :: u64) = push_bit 36 (mask 4)"
    by (simp_all add: mask_eq_exp_minus_1 push_bit_eq_mult)
  have "drop_bit 52 (r AND push_bit 52 (mask 4)) = drop_bit 36 (prefix_of r AND push_bit 36 (mask 4))"
    by (rule bit_word_eqI) (auto simp: prefix_of_def bit_simps)
  then show ?thesis
    unfolding KVM_REG_SIZE_def KVM_REG_SIZE_MASK_def KVM_REG_SIZE_SHIFT_def m by (simp only:)
qed

lemma sizes:
  "KVM_REG_SIZE (ARM64_SYS_REG op0 op1 crn crm op2) = 8" "KVM_REG_SIZE (KVM_REG_ARM_FW_REG r) = 8"
  "KVM_REG_SIZE (KVM_REG_ARM64_SVE_ZREG n i) = 256" "KVM_REG_SIZE (KVM_REG_ARM64_SVE_PREG n i) = 32"
  "KVM_REG_SIZE (KVM_REG_ARM64_SVE_FFR i) = 32" "KVM_REG_SIZE KVM_REG_ARM64_SVE_VLS = 64"
  by (simp_all add: size_in_prefix prefixes)

lemma index_bit: "bit (index_of r) k \<longleftrightarrow> k < 16 \<and> bit r k"
  by (auto simp: index_of_def bit_simps)

lemma field_of_index:
  "j + k \<le> 16 \<Longrightarrow> drop_bit j (r AND push_bit j (mask k)) = drop_bit j (index_of r) AND mask k"
  by (rule bit_word_eqI) (auto simp: bit_simps index_of_def)

lemma shifted_small: "v < 2 ^ k \<Longrightarrow> k < 64 \<Longrightarrow> v AND mask k = v" for v :: u64
  by (simp add: take_bit_less flip: take_bit_eq_mask)

text \<open>The five fields read back with the masks and the shifts of the header.\<close>

lemma sys_reg_fields:
  "drop_bit 14 (index_of (ARM64_SYS_REG op0 op1 crn crm op2)) AND mask 2 = op0 AND mask 2"
  "drop_bit 11 (index_of (ARM64_SYS_REG op0 op1 crn crm op2)) AND mask 3 = op1 AND mask 3"
  "drop_bit 7 (index_of (ARM64_SYS_REG op0 op1 crn crm op2)) AND mask 4 = crn AND mask 4"
  "drop_bit 3 (index_of (ARM64_SYS_REG op0 op1 crn crm op2)) AND mask 4 = crm AND mask 4"
  "index_of (ARM64_SYS_REG op0 op1 crn crm op2) AND mask 3 = op2 AND mask 3"
  unfolding indices by (rule bit_word_eqI; auto simp: bit_simps simp del: push_bit_and)+

definition sys_reg_parts :: "u64 \<Rightarrow> u64 \<times> u64 \<times> u64 \<times> u64 \<times> u64" where
  "sys_reg_parts r =
     (drop_bit KVM_REG_ARM64_SYSREG_OP0_SHIFT (r AND KVM_REG_ARM64_SYSREG_OP0_MASK),
      drop_bit KVM_REG_ARM64_SYSREG_OP1_SHIFT (r AND KVM_REG_ARM64_SYSREG_OP1_MASK),
      drop_bit KVM_REG_ARM64_SYSREG_CRN_SHIFT (r AND KVM_REG_ARM64_SYSREG_CRN_MASK),
      drop_bit KVM_REG_ARM64_SYSREG_CRM_SHIFT (r AND KVM_REG_ARM64_SYSREG_CRM_MASK),
      drop_bit KVM_REG_ARM64_SYSREG_OP2_SHIFT (r AND KVM_REG_ARM64_SYSREG_OP2_MASK))"

lemma parts_of_index:
  "sys_reg_parts r =
     (drop_bit 14 (index_of r) AND mask 2, drop_bit 11 (index_of r) AND mask 3, drop_bit 7 (index_of r) AND mask 4,
      drop_bit 3 (index_of r) AND mask 4, index_of r AND mask 3)"
proof -
  have f: "drop_bit 14 (r AND push_bit 14 (mask 2)) = drop_bit 14 (index_of r) AND mask 2"
    "drop_bit 11 (r AND push_bit 11 (mask 3)) = drop_bit 11 (index_of r) AND mask 3"
    "drop_bit 7 (r AND push_bit 7 (mask 4)) = drop_bit 7 (index_of r) AND mask 4"
    "drop_bit 3 (r AND push_bit 3 (mask 4)) = drop_bit 3 (index_of r) AND mask 4"
    by (rule field_of_index; simp)+
  have "drop_bit 0 (r AND mask 3) = index_of r AND mask 3"
    by (rule bit_word_eqI) (auto simp: bit_simps index_of_def)
  then show ?thesis
    unfolding sys_reg_parts_def KVM_REG_ARM64_SYSREG_OP0_MASK_def KVM_REG_ARM64_SYSREG_OP1_MASK_def
      KVM_REG_ARM64_SYSREG_CRN_MASK_def KVM_REG_ARM64_SYSREG_CRM_MASK_def KVM_REG_ARM64_SYSREG_OP2_MASK_def
      KVM_REG_ARM64_SYSREG_OP0_SHIFT_def KVM_REG_ARM64_SYSREG_OP1_SHIFT_def KVM_REG_ARM64_SYSREG_CRN_SHIFT_def
      KVM_REG_ARM64_SYSREG_CRM_SHIFT_def KVM_REG_ARM64_SYSREG_OP2_SHIFT_def number_masks
    by (simp only: f)
qed

interpretation sys_reg: packed_code
  "\<lambda>(op0, op1, crn, crm, op2). ARM64_SYS_REG op0 op1 crn crm op2" sys_reg_parts
  "\<lambda>(op0, op1, crn, crm, op2). op0 < 2 ^ 2 \<and> op1 < 2 ^ 3 \<and> crn < 2 ^ 4 \<and> crm < 2 ^ 4 \<and> op2 < 2 ^ 3"
  by unfold_locales (auto simp: parts_of_index sys_reg_fields shifted_small)

text \<open>Numbers of vector registers: in range, register and slice determine the number and are
  determined by it.\<close>

lemma pair_inject:
  fixes n i n' i' :: u64
  assumes "i < 2 ^ 5" and "i' < 2 ^ 5" and "n < 2 ^ 5" and "n' < 2 ^ 5"
  shows "push_bit 5 n OR i = push_bit 5 n' OR i' \<longleftrightarrow> n = n' \<and> i = i'"
proof
  assume e: "push_bit 5 n OR i = push_bit 5 n' OR i'"
  have "take_bit 59 v = v" if "v < 2 ^ 5" for v :: u64
    using that by (intro take_bit_less) (auto intro: less_le_trans)
  then have hi: "drop_bit 5 (push_bit 5 u OR j) = u" if "u < 2 ^ 5" "j < 2 ^ 5" for u j :: u64
    using field_hi [of j 5 u] that by simp
  have lo: "(push_bit 5 u OR j) AND mask 5 = j" if "j < 2 ^ 5" for u j :: u64
    using field_lo [of j 5 u] that by simp
  show "n = n' \<and> i = i'"
    using hi [OF assms(3,1)] hi [OF assms(4,2)] lo [OF assms(1), of n] lo [OF assms(2), of n'] e by metis
qed simp

lemma zreg_inject:
  "n < 2 ^ 5 \<Longrightarrow> n' < 2 ^ 5 \<Longrightarrow> i < 2 ^ 5 \<Longrightarrow> i' < 2 ^ 5 \<Longrightarrow>
   KVM_REG_ARM64_SVE_ZREG n i = KVM_REG_ARM64_SVE_ZREG n' i' \<longleftrightarrow> n = n' \<and> i = i'"
  unfolding prefix_index [of "KVM_REG_ARM64_SVE_ZREG n i"] prefixes indices
  by (simp only: shifted_small pair_inject) simp

lemma or_high:
  fixes a b c :: u64
  assumes "b AND c = 0" and "b' AND c = 0"
  shows "c OR b = c OR b' \<longleftrightarrow> b = b'"
proof
  assume "c OR b = c OR b'"
  then have "(c OR b) AND NOT c = (c OR b') AND NOT c" by simp
  moreover have "(c OR x) AND NOT c = x" if "x AND c = 0" for x
  proof (rule bit_word_eqI)
    fix k assume "k < LENGTH(64)"
    then show "bit ((c OR x) AND NOT c) k = bit x k"
      using arg_cong [OF that, of "\<lambda>w. bit w k"] by (auto simp: bit_simps)
  qed
  ultimately show "b = b'" using assms by simp
qed simp

lemma low_index: "j < 1024 \<Longrightarrow> j AND 0x400 = (0 :: u64)"
proof -
  assume "j < 1024"
  then have "j < 2 ^ 10" by simp
  from less_not_bit [OF this, of 10] have "\<not> bit j 10" by simp
  moreover have e: "(0x400 :: u64) = push_bit 10 1" by (simp add: push_bit_eq_mult)
  ultimately show "j AND 0x400 = 0"
    unfolding e by (simp only: and_exp_eq_0_iff_not_bit push_bit_of_1) simp
qed

lemma small_index: "push_bit 5 (n AND mask 4) OR (i AND mask 5) < (1024 :: u64)"
proof -
  have "push_bit 5 (n AND mask 4) OR (i AND mask 5) = (push_bit 5 n OR (i AND mask 5)) AND mask 9"
    by (rule bit_word_eqI) (auto simp: bit_simps simp del: push_bit_and)
  also have "\<dots> < 2 ^ 9" by (rule and_mask_less) simp
  also have "\<dots> < 1024" by simp
  finally show ?thesis .
qed

lemma preg_inject:
  assumes "n < 2 ^ 4" "n' < 2 ^ 4" "i < 2 ^ 5" "i' < 2 ^ 5"
  shows "KVM_REG_ARM64_SVE_PREG n i = KVM_REG_ARM64_SVE_PREG n' i' \<longleftrightarrow> n = n' \<and> i = i'"
proof -
  have "n < 2 ^ 5" "n' < 2 ^ 5" using assms by (auto intro: less_le_trans)
  then have "push_bit 5 n OR i = push_bit 5 n' OR i' \<longleftrightarrow> n = n' \<and> i = i'"
    by (intro pair_inject) (use assms in simp_all)
  moreover have "push_bit 5 u OR j < 1024" if "u < 2 ^ 4" "j < 2 ^ 5" for u j :: u64
    using small_index [of u j] that by (simp only: shifted_small)
  then have "0x400 OR (push_bit 5 n OR i) = 0x400 OR (push_bit 5 n' OR i') \<longleftrightarrow>
      push_bit 5 n OR i = push_bit 5 n' OR i'"
    using assms by (intro or_high low_index)
  ultimately show ?thesis
    unfolding prefix_index [of "KVM_REG_ARM64_SVE_PREG n i"] prefixes indices
    using assms by (simp only: shifted_small or.assoc) simp
qed

lemma ffr_inject: "i < 2 ^ 5 \<Longrightarrow> i' < 2 ^ 5 \<Longrightarrow> KVM_REG_ARM64_SVE_FFR i = KVM_REG_ARM64_SVE_FFR i' \<longleftrightarrow> i = i'"
proof -
  assume i: "i < 2 ^ 5" "i' < 2 ^ 5"
  have "j AND 0x600 = 0" if "j < 2 ^ 5" for j :: u64
  proof (rule bit_word_eqI)
    have e: "(0x600 :: u64) = push_bit 9 (mask 2)" by (simp add: push_bit_eq_mult mask_eq_exp_minus_1)
    show "bit (j AND 0x600) k = bit 0 k" for k
      unfolding e using less_not_bit [OF that, of k] by (auto simp: bit_and_iff bit_push_bit_iff)
  qed
  then have "0x600 OR i = 0x600 OR i' \<longleftrightarrow> i = i'"
    using i by (intro or_high)
  then show ?thesis
    unfolding prefix_index [of "KVM_REG_ARM64_SVE_FFR i"] prefixes indices
    using i by (simp only: shifted_small) simp
qed

text \<open>The first fault register lies above the predicate registers.\<close>

lemma preg_not_ffr: "KVM_REG_ARM64_SVE_PREG n i \<noteq> KVM_REG_ARM64_SVE_FFR j"
proof -
  have "bit (index_of (KVM_REG_ARM64_SVE_FFR j)) 9"
    unfolding indices by (simp add: bit_or_iff)
  moreover have "\<not> bit (index_of (KVM_REG_ARM64_SVE_PREG n i)) 9"
    unfolding indices by (simp add: bit_simps del: push_bit_and)
  ultimately show ?thesis by metis
qed

section \<open>Properties\<close>

text \<open>Register numbers name one register each.  A system register's number gives back the five
  fields of its encoding through the header's masks and shifts, so two encodings with fields in
  range share a number only if they are equal; vector register numbers share one only for the same
  register and slice; numbers of different groups differ; and every number states its register's size.\<close>

theorem register_numbers_unique:
  assumes sys: "op0 < 2 ^ 2" "op1 < 2 ^ 3" "crn < 2 ^ 4" "crm < 2 ^ 4" "op2 < 2 ^ 3"
    and vec: "z < 2 ^ 5" "z' < 2 ^ 5" "q < 2 ^ 4" "q' < 2 ^ 4" "i < 2 ^ 5" "i' < 2 ^ 5"
  shows "sys_reg_parts (ARM64_SYS_REG op0 op1 crn crm op2) = (op0, op1, crn, crm, op2) \<and>
    (KVM_REG_ARM64_SVE_ZREG z i = KVM_REG_ARM64_SVE_ZREG z' i' \<longleftrightarrow> z = z' \<and> i = i') \<and>
    (KVM_REG_ARM64_SVE_PREG q i = KVM_REG_ARM64_SVE_PREG q' i' \<longleftrightarrow> q = q' \<and> i = i') \<and>
    (KVM_REG_ARM64_SVE_FFR i = KVM_REG_ARM64_SVE_FFR i' \<longleftrightarrow> i = i') \<and>
    distinct [ARM64_SYS_REG op0 op1 crn crm op2, KVM_REG_ARM_FW_REG r, KVM_REG_ARM64_SVE_ZREG z i,
      KVM_REG_ARM64_SVE_PREG q i', KVM_REG_ARM64_SVE_FFR i, KVM_REG_ARM64_SVE_VLS] \<and>
    map KVM_REG_SIZE [ARM64_SYS_REG op0 op1 crn crm op2, KVM_REG_ARM_FW_REG r, KVM_REG_ARM64_SVE_ZREG z i,
      KVM_REG_ARM64_SVE_PREG q i', KVM_REG_ARM64_SVE_FFR i, KVM_REG_ARM64_SVE_VLS] = [8, 8, 256, 32, 32, 64]"
proof (intro conjI)
  have apart: "prefix_of a \<noteq> prefix_of b \<Longrightarrow> a \<noteq> b" for a b by metis
  show "distinct [ARM64_SYS_REG op0 op1 crn crm op2, KVM_REG_ARM_FW_REG r, KVM_REG_ARM64_SVE_ZREG z i,
      KVM_REG_ARM64_SVE_PREG q i', KVM_REG_ARM64_SVE_FFR i, KVM_REG_ARM64_SVE_VLS]"
    by (simp add: preg_not_ffr) (intro conjI; rule apart; simp add: prefixes)
  show "sys_reg_parts (ARM64_SYS_REG op0 op1 crn crm op2) = (op0, op1, crn, crm, op2)"
    using sys_reg.unpack_pack [of "(op0, op1, crn, crm, op2)"] sys by simp
qed (use vec zreg_inject preg_inject ffr_inject in \<open>simp_all add: sizes\<close>)

lemma register_numbers_unique_witness:
  "sys_reg_parts KVM_REG_ARM_TIMER_CTL = (3, 3, 14, 3, 1) \<and>
   KVM_REG_ARM64_SVE_ZREG 31 0 \<noteq> KVM_REG_ARM64_SVE_ZREG 0 31 \<and>
   KVM_REG_ARM64_SVE_PREG 15 0 \<noteq> KVM_REG_ARM64_SVE_PREG 0 31 \<and>
   KVM_REG_SIZE (KVM_REG_ARM_FW_REG 70000) = 8"
  using register_numbers_unique [of 3 3 14 3 1 31 0 15 0 0 31 70000]
  by (simp add: KVM_REG_ARM_TIMER_CTL_def)

text \<open>The two numbers of the virtual timer that the header says were swapped: each has the fields of
  the other's encoding, the counter's being 14, 0, 2 and the comparison value's 14, 3, 2.\<close>

lemma timer_numbers_swapped:
  "sys_reg_parts KVM_REG_ARM_TIMER_CVAL = (3, 3, 14, 0, 2)" "sys_reg_parts KVM_REG_ARM_TIMER_CNT = (3, 3, 14, 3, 2)"
  using sys_reg.unpack_pack [of "(3, 3, 14, 0, 2)"] sys_reg.unpack_pack [of "(3, 3, 14, 3, 2)"]
  by (simp_all add: KVM_REG_ARM_TIMER_CVAL_def KVM_REG_ARM_TIMER_CNT_def)

end
