(* ===== verification/Segment_Display.thy ===== *)
theory Segment_Display
  imports Prelude
begin

text \<open>
  Characters on a seven-segment display, \<^verbatim>\<open>linux/map_to_7segment.h\<close>: the two conversion maps the
  header builds and the function that looks a character up.
\<close>

section \<open>Segments\<close>

definition BIT_SEG7_A :: nat where "BIT_SEG7_A = 0"

definition BIT_SEG7_B :: nat where "BIT_SEG7_B = 1"

definition BIT_SEG7_C :: nat where "BIT_SEG7_C = 2"

definition BIT_SEG7_D :: nat where "BIT_SEG7_D = 3"

definition BIT_SEG7_E :: nat where "BIT_SEG7_E = 4"

definition BIT_SEG7_F :: nat where "BIT_SEG7_F = 5"

definition BIT_SEG7_G :: nat where "BIT_SEG7_G = 6"

text \<open>The first argument of the macro is the character, which it does not use.\<close>

definition SEG7 :: "char \<Rightarrow> u8 \<Rightarrow> u8 \<Rightarrow> u8 \<Rightarrow> u8 \<Rightarrow> u8 \<Rightarrow> u8 \<Rightarrow> u8 \<Rightarrow> u8" where
  "SEG7 l a b c d e f g =
     push_bit BIT_SEG7_A a OR push_bit BIT_SEG7_B b OR push_bit BIT_SEG7_C c OR push_bit BIT_SEG7_D d OR
     push_bit BIT_SEG7_E e OR push_bit BIT_SEG7_F f OR push_bit BIT_SEG7_G g"

section \<open>Maps\<close>

definition MAP_0_32_ASCII_SEG7_NON_PRINTABLE :: "u8 list" where
  "MAP_0_32_ASCII_SEG7_NON_PRINTABLE = replicate 33 0"

definition MAP_33_47_ASCII_SEG7_SYMBOL :: "u8 list" where
  "MAP_33_47_ASCII_SEG7_SYMBOL =
     [SEG7 (CHR ''!'') 0 0 0 0 1 1 0, SEG7 (CHR 0x22) 0 1 0 0 0 1 0, SEG7 (CHR ''#'') 0 1 1 0 1 1 0,
      SEG7 (CHR ''$'') 1 0 1 1 0 1 1, SEG7 (CHR ''%'') 0 0 1 0 0 1 0, SEG7 (CHR ''&'') 1 0 1 1 1 1 1,
      SEG7 (CHR 0x27) 0 0 0 0 0 1 0, SEG7 (CHR ''('') 1 0 0 1 1 1 0, SEG7 (CHR '')'') 1 1 1 1 0 0 0,
      SEG7 (CHR ''*'') 0 1 1 0 1 1 1, SEG7 (CHR ''+'') 0 1 1 0 0 0 1, SEG7 (CHR '','') 0 0 0 0 1 0 0,
      SEG7 (CHR ''-'') 0 0 0 0 0 0 1, SEG7 (CHR ''.'') 0 0 0 0 1 0 0, SEG7 (CHR ''/'') 0 1 0 0 1 0 1]"

definition MAP_48_57_ASCII_SEG7_NUMERIC :: "u8 list" where
  "MAP_48_57_ASCII_SEG7_NUMERIC =
     [SEG7 (CHR ''0'') 1 1 1 1 1 1 0, SEG7 (CHR ''1'') 0 1 1 0 0 0 0, SEG7 (CHR ''2'') 1 1 0 1 1 0 1,
      SEG7 (CHR ''3'') 1 1 1 1 0 0 1, SEG7 (CHR ''4'') 0 1 1 0 0 1 1, SEG7 (CHR ''5'') 1 0 1 1 0 1 1,
      SEG7 (CHR ''6'') 1 0 1 1 1 1 1, SEG7 (CHR ''7'') 1 1 1 0 0 0 0, SEG7 (CHR ''8'') 1 1 1 1 1 1 1,
      SEG7 (CHR ''9'') 1 1 1 1 0 1 1]"

definition MAP_58_64_ASCII_SEG7_SYMBOL :: "u8 list" where
  "MAP_58_64_ASCII_SEG7_SYMBOL =
     [SEG7 (CHR '':'') 0 0 0 1 0 0 1, SEG7 (CHR '';'') 0 0 0 1 0 0 1, SEG7 (CHR ''<'') 1 0 0 0 0 1 1,
      SEG7 (CHR ''='') 0 0 0 1 0 0 1, SEG7 (CHR ''>'') 1 1 0 0 0 0 1, SEG7 (CHR ''?'') 1 1 1 0 0 1 0,
      SEG7 (CHR ''@'') 1 1 0 1 1 1 1]"

definition MAP_65_90_ASCII_SEG7_ALPHA_UPPR :: "u8 list" where
  "MAP_65_90_ASCII_SEG7_ALPHA_UPPR =
     [SEG7 (CHR ''A'') 1 1 1 0 1 1 1, SEG7 (CHR ''B'') 1 1 1 1 1 1 1, SEG7 (CHR ''C'') 1 0 0 1 1 1 0,
      SEG7 (CHR ''D'') 1 1 1 1 1 1 0, SEG7 (CHR ''E'') 1 0 0 1 1 1 1, SEG7 (CHR ''F'') 1 0 0 0 1 1 1,
      SEG7 (CHR ''G'') 1 1 1 1 0 1 1, SEG7 (CHR ''H'') 0 1 1 0 1 1 1, SEG7 (CHR ''I'') 0 1 1 0 0 0 0,
      SEG7 (CHR ''J'') 0 1 1 1 0 0 0, SEG7 (CHR ''K'') 0 1 1 0 1 1 1, SEG7 (CHR ''L'') 0 0 0 1 1 1 0,
      SEG7 (CHR ''M'') 1 1 1 0 1 1 0, SEG7 (CHR ''N'') 1 1 1 0 1 1 0, SEG7 (CHR ''O'') 1 1 1 1 1 1 0,
      SEG7 (CHR ''P'') 1 1 0 0 1 1 1, SEG7 (CHR ''Q'') 1 1 1 1 1 1 0, SEG7 (CHR ''R'') 1 1 1 0 1 1 1,
      SEG7 (CHR ''S'') 1 0 1 1 0 1 1, SEG7 (CHR ''T'') 0 0 0 1 1 1 1, SEG7 (CHR ''U'') 0 1 1 1 1 1 0,
      SEG7 (CHR ''V'') 0 1 1 1 1 1 0, SEG7 (CHR ''W'') 0 1 1 1 1 1 1, SEG7 (CHR ''X'') 0 1 1 0 1 1 1,
      SEG7 (CHR ''Y'') 0 1 1 0 0 1 1, SEG7 (CHR ''Z'') 1 1 0 1 1 0 1]"

definition MAP_91_96_ASCII_SEG7_SYMBOL :: "u8 list" where
  "MAP_91_96_ASCII_SEG7_SYMBOL =
     [SEG7 (CHR ''['') 1 0 0 1 1 1 0, SEG7 (CHR 0x5C) 0 0 1 0 0 1 1, SEG7 (CHR '']'') 1 1 1 1 0 0 0,
      SEG7 (CHR ''^'') 1 1 0 0 0 1 0, SEG7 (CHR ''_'') 0 0 0 1 0 0 0, SEG7 (CHR 0x60) 0 1 0 0 0 0 0]"

definition MAP_97_122_ASCII_SEG7_ALPHA_LOWER :: "u8 list" where
  "MAP_97_122_ASCII_SEG7_ALPHA_LOWER =
     [SEG7 (CHR ''A'') 1 1 1 0 1 1 1, SEG7 (CHR ''b'') 0 0 1 1 1 1 1, SEG7 (CHR ''c'') 0 0 0 1 1 0 1,
      SEG7 (CHR ''d'') 0 1 1 1 1 0 1, SEG7 (CHR ''E'') 1 0 0 1 1 1 1, SEG7 (CHR ''F'') 1 0 0 0 1 1 1,
      SEG7 (CHR ''G'') 1 1 1 1 0 1 1, SEG7 (CHR ''h'') 0 0 1 0 1 1 1, SEG7 (CHR ''i'') 0 0 1 0 0 0 0,
      SEG7 (CHR ''j'') 0 0 1 1 0 0 0, SEG7 (CHR ''k'') 0 0 1 0 1 1 1, SEG7 (CHR ''L'') 0 0 0 1 1 1 0,
      SEG7 (CHR ''M'') 1 1 1 0 1 1 0, SEG7 (CHR ''n'') 0 0 1 0 1 0 1, SEG7 (CHR ''o'') 0 0 1 1 1 0 1,
      SEG7 (CHR ''P'') 1 1 0 0 1 1 1, SEG7 (CHR ''q'') 1 1 1 0 0 1 1, SEG7 (CHR ''r'') 0 0 0 0 1 0 1,
      SEG7 (CHR ''S'') 1 0 1 1 0 1 1, SEG7 (CHR ''T'') 0 0 0 1 1 1 1, SEG7 (CHR ''u'') 0 0 1 1 1 0 0,
      SEG7 (CHR ''v'') 0 0 1 1 1 0 0, SEG7 (CHR ''W'') 0 1 1 1 1 1 1, SEG7 (CHR ''X'') 0 1 1 0 1 1 1,
      SEG7 (CHR ''y'') 0 1 1 1 0 1 1, SEG7 (CHR ''Z'') 1 1 0 1 1 0 1]"

definition MAP_123_126_ASCII_SEG7_SYMBOL :: "u8 list" where
  "MAP_123_126_ASCII_SEG7_SYMBOL =
     [SEG7 (CHR ''{'') 1 0 0 1 1 1 0, SEG7 (CHR ''|'') 0 0 0 0 1 1 0, SEG7 (CHR ''}'') 1 1 1 1 0 0 0,
      SEG7 (CHR ''~'') 1 0 0 0 0 0 0]"

definition MAP_ASCII7SEG_ALPHANUM :: "u8 list" where
  "MAP_ASCII7SEG_ALPHANUM =
     MAP_0_32_ASCII_SEG7_NON_PRINTABLE @ MAP_33_47_ASCII_SEG7_SYMBOL @ MAP_48_57_ASCII_SEG7_NUMERIC @
     MAP_58_64_ASCII_SEG7_SYMBOL @ MAP_65_90_ASCII_SEG7_ALPHA_UPPR @ MAP_91_96_ASCII_SEG7_SYMBOL @
     MAP_97_122_ASCII_SEG7_ALPHA_LOWER @ MAP_123_126_ASCII_SEG7_SYMBOL"

definition MAP_ASCII7SEG_ALPHANUM_LC :: "u8 list" where
  "MAP_ASCII7SEG_ALPHANUM_LC =
     MAP_0_32_ASCII_SEG7_NON_PRINTABLE @ MAP_33_47_ASCII_SEG7_SYMBOL @ MAP_48_57_ASCII_SEG7_NUMERIC @
     MAP_58_64_ASCII_SEG7_SYMBOL @ MAP_97_122_ASCII_SEG7_ALPHA_LOWER @ MAP_91_96_ASCII_SEG7_SYMBOL @
     MAP_97_122_ASCII_SEG7_ALPHA_LOWER @ MAP_123_126_ASCII_SEG7_SYMBOL"

text \<open>The table has 128 entries; those the initializer does not reach are zero.\<close>

record seg7_conversion_map =
  seg7_table :: "u8 list"

definition SEG7_CONVERSION_MAP :: "u8 list \<Rightarrow> seg7_conversion_map" where
  "SEG7_CONVERSION_MAP init = \<lparr>seg7_table = take 128 (init @ replicate 128 0)\<rparr>"

definition SEG7_DEFAULT_MAP :: seg7_conversion_map where
  "SEG7_DEFAULT_MAP = SEG7_CONVERSION_MAP MAP_ASCII7SEG_ALPHANUM"

text \<open>The value, or \<^verbatim>\<open>-EINVAL\<close> for a character outside the table.\<close>

definition EINVAL :: int where "EINVAL = 22"

definition map_to_seg7 :: "seg7_conversion_map \<Rightarrow> int \<Rightarrow> int" where
  "map_to_seg7 m c =
     (if 0 \<le> c \<and> c < int (length (seg7_table m)) then uint (seg7_table m ! nat c) else - EINVAL)"

section \<open>What the maps show\<close>

lemmas seg7_blocks =
  MAP_0_32_ASCII_SEG7_NON_PRINTABLE_def MAP_33_47_ASCII_SEG7_SYMBOL_def MAP_48_57_ASCII_SEG7_NUMERIC_def
  MAP_58_64_ASCII_SEG7_SYMBOL_def MAP_65_90_ASCII_SEG7_ALPHA_UPPR_def MAP_91_96_ASCII_SEG7_SYMBOL_def
  MAP_97_122_ASCII_SEG7_ALPHA_LOWER_def MAP_123_126_ASCII_SEG7_SYMBOL_def

lemmas seg7_bits =
  SEG7_def BIT_SEG7_A_def BIT_SEG7_B_def BIT_SEG7_C_def BIT_SEG7_D_def BIT_SEG7_E_def BIT_SEG7_F_def BIT_SEG7_G_def

lemma block_lengths:
  "length MAP_0_32_ASCII_SEG7_NON_PRINTABLE = 33" "length MAP_33_47_ASCII_SEG7_SYMBOL = 15"
  "length MAP_48_57_ASCII_SEG7_NUMERIC = 10" "length MAP_58_64_ASCII_SEG7_SYMBOL = 7"
  "length MAP_65_90_ASCII_SEG7_ALPHA_UPPR = 26" "length MAP_91_96_ASCII_SEG7_SYMBOL = 6"
  "length MAP_97_122_ASCII_SEG7_ALPHA_LOWER = 26" "length MAP_123_126_ASCII_SEG7_SYMBOL = 4"
  by (simp_all add: seg7_blocks)

text \<open>Each block of a map begins at the code its name states.\<close>

definition map_with :: "u8 list \<Rightarrow> u8 list" where
  "map_with letters =
     MAP_0_32_ASCII_SEG7_NON_PRINTABLE @ MAP_33_47_ASCII_SEG7_SYMBOL @ MAP_48_57_ASCII_SEG7_NUMERIC @
     MAP_58_64_ASCII_SEG7_SYMBOL @ letters @ MAP_91_96_ASCII_SEG7_SYMBOL @
     MAP_97_122_ASCII_SEG7_ALPHA_LOWER @ MAP_123_126_ASCII_SEG7_SYMBOL"

lemma both_maps:
  "MAP_ASCII7SEG_ALPHANUM = map_with MAP_65_90_ASCII_SEG7_ALPHA_UPPR"
  "MAP_ASCII7SEG_ALPHANUM_LC = map_with MAP_97_122_ASCII_SEG7_ALPHA_LOWER"
  by (simp_all add: map_with_def MAP_ASCII7SEG_ALPHANUM_def MAP_ASCII7SEG_ALPHANUM_LC_def)

lemma block_places:
  assumes "length letters = 26"
  shows "i < 33 \<Longrightarrow> map_with letters ! i = 0"
    "i < 15 \<Longrightarrow> map_with letters ! (33 + i) = MAP_33_47_ASCII_SEG7_SYMBOL ! i"
    "i < 10 \<Longrightarrow> map_with letters ! (48 + i) = MAP_48_57_ASCII_SEG7_NUMERIC ! i"
    "i < 7 \<Longrightarrow> map_with letters ! (58 + i) = MAP_58_64_ASCII_SEG7_SYMBOL ! i"
    "i < 26 \<Longrightarrow> map_with letters ! (65 + i) = letters ! i"
    "i < 6 \<Longrightarrow> map_with letters ! (91 + i) = MAP_91_96_ASCII_SEG7_SYMBOL ! i"
    "i < 26 \<Longrightarrow> map_with letters ! (97 + i) = MAP_97_122_ASCII_SEG7_ALPHA_LOWER ! i"
    "i < 4 \<Longrightarrow> map_with letters ! (123 + i) = MAP_123_126_ASCII_SEG7_SYMBOL ! i"
    "length (map_with letters) = 127"
  by (simp_all add: map_with_def nth_append assms block_lengths)
    (simp add: MAP_0_32_ASCII_SEG7_NON_PRINTABLE_def)

lemma table_lookup:
  assumes "length init = 127"
  shows "map_to_seg7 (SEG7_CONVERSION_MAP init) c =
    (if 0 \<le> c \<and> c < 128 then uint ((init @ [0]) ! nat c) else - 22)"
proof -
  have t: "seg7_table (SEG7_CONVERSION_MAP init) = init @ [0]"
    using assms by (simp add: SEG7_CONVERSION_MAP_def numeral_eq_Suc)
  show ?thesis
    unfolding map_to_seg7_def t EINVAL_def using assms by simp
qed

definition show_default :: "string \<Rightarrow> int list" where
  "show_default = map (\<lambda>c. map_to_seg7 SEG7_DEFAULT_MAP (of_char c))"

definition show_lower :: "string \<Rightarrow> int list" where
  "show_lower = map (\<lambda>c. map_to_seg7 (SEG7_CONVERSION_MAP MAP_ASCII7SEG_ALPHANUM_LC) (of_char c))"

lemma hex_shown:
  "show_lower ''0123456789'' = [63, 6, 91, 79, 102, 109, 125, 7, 127, 111]"
  "show_lower ''ABCDEF'' = [119, 124, 88, 94, 121, 113]" "show_lower ''abcdef'' = [119, 124, 88, 94, 121, 113]"
  "show_default ''0123456789'' = [63, 6, 91, 79, 102, 109, 125, 7, 127, 111]"
  "show_default ''ABCDEF'' = [119, 127, 57, 63, 121, 113]"
  by code_simp+

lemma blank_shown: "show_default (map char_of [0..<33]) = replicate 33 0"
  by code_simp

section \<open>Properties\<close>

text \<open>Exactly the characters outside the table are refused; every other one gives a byte.  The map
  for discrimination shows the sixteen hexadecimal digits differently and upper case as lower case,
  as its comment promises; the default map shows an upper case B like an 8 and a D like a 0.\<close>

theorem seven_segment_hex:
  "(map_to_seg7 SEG7_DEFAULT_MAP c = - EINVAL \<longleftrightarrow> c < 0 \<or> 128 \<le> c) \<and>
   (map_to_seg7 SEG7_DEFAULT_MAP c = - EINVAL \<or> map_to_seg7 SEG7_DEFAULT_MAP c \<in> {0..<256}) \<and>
   distinct (show_lower ''0123456789'' @ show_lower ''ABCDEF'') \<and> show_lower ''abcdef'' = show_lower ''ABCDEF'' \<and>
   show_default ''ABCDEF'' ! 1 = show_default ''0123456789'' ! 8 \<and>
   show_default ''ABCDEF'' ! 3 = show_default ''0123456789'' ! 0"
proof -
  have l: "length (map_with MAP_65_90_ASCII_SEG7_ALPHA_UPPR) = 127"
    by (rule block_places) (simp add: block_lengths)
  have "uint v < 256" for v :: u8
    using unsigned_less [of v] by simp
  moreover have "0 \<le> uint v \<and> uint v \<noteq> - 22" for v :: u8
    using uint_nonnegative [of v] by linarith
  ultimately have "uint v \<noteq> - 22 \<and> 0 \<le> uint v \<and> uint v < 256" for v :: u8
    by blast
  then have "map_to_seg7 SEG7_DEFAULT_MAP c = - EINVAL \<longleftrightarrow> c < 0 \<or> 128 \<le> c"
    and "map_to_seg7 SEG7_DEFAULT_MAP c = - EINVAL \<or> map_to_seg7 SEG7_DEFAULT_MAP c \<in> {0..<256}"
    unfolding SEG7_DEFAULT_MAP_def both_maps table_lookup [OF l] EINVAL_def by auto
  then show ?thesis
    by (simp only: hex_shown) simp
qed

end
