(* ===== verification/Interface_Helpers.thy ===== *)
theory Interface_Helpers
  imports Packed_Code Byte_Order
begin

text \<open>
  Short functions and macros of interfaces that are otherwise structures and numbers: mount kinds
  (\<^verbatim>\<open>linux/auto_fs.h\<close>), queries for space maps (\<^verbatim>\<open>linux/fsmap.h\<close>), packet headers (\<^verbatim>\<open>linux/dccp.h\<close>),
  command names (\<^verbatim>\<open>linux/ndctl.h\<close>), migration states (\<^verbatim>\<open>linux/vfio.h\<close>), message priorities
  (\<^verbatim>\<open>sys/syslog.h\<close>), version numbers (\<^verbatim>\<open>sound/sof/abi.h\<close>, \<^verbatim>\<open>sound/asound.h\<close>), bus addresses
  (\<^verbatim>\<open>linux/pci.h\<close>) and bit places (\<^verbatim>\<open>linux/audit.h\<close>, \<^verbatim>\<open>linux/capability.h\<close>).
\<close>

section \<open>Kinds of mounts\<close>

definition AUTOFS_TYPE_ANY :: u32 where "AUTOFS_TYPE_ANY = 0"

definition AUTOFS_TYPE_INDIRECT :: u32 where "AUTOFS_TYPE_INDIRECT = 1"

definition AUTOFS_TYPE_DIRECT :: u32 where "AUTOFS_TYPE_DIRECT = 2"

definition AUTOFS_TYPE_OFFSET :: u32 where "AUTOFS_TYPE_OFFSET = 4"

text \<open>A setter writes through its pointer; here it is the new value of the word.\<close>

definition set_autofs_type_indirect :: "u32 \<Rightarrow> u32" where "set_autofs_type_indirect ty = AUTOFS_TYPE_INDIRECT"

definition autofs_type_indirect :: "u32 \<Rightarrow> bool" where "autofs_type_indirect ty \<longleftrightarrow> ty = AUTOFS_TYPE_INDIRECT"

definition set_autofs_type_direct :: "u32 \<Rightarrow> u32" where "set_autofs_type_direct ty = AUTOFS_TYPE_DIRECT"

definition autofs_type_direct :: "u32 \<Rightarrow> bool" where "autofs_type_direct ty \<longleftrightarrow> ty = AUTOFS_TYPE_DIRECT"

definition set_autofs_type_offset :: "u32 \<Rightarrow> u32" where "set_autofs_type_offset ty = AUTOFS_TYPE_OFFSET"

definition autofs_type_offset :: "u32 \<Rightarrow> bool" where "autofs_type_offset ty \<longleftrightarrow> ty = AUTOFS_TYPE_OFFSET"

definition set_autofs_type_any :: "u32 \<Rightarrow> u32" where "set_autofs_type_any ty = AUTOFS_TYPE_ANY"

definition autofs_type_any :: "u32 \<Rightarrow> bool" where "autofs_type_any ty \<longleftrightarrow> ty = AUTOFS_TYPE_ANY"

definition autofs_type_trigger :: "u32 \<Rightarrow> bool" where
  "autofs_type_trigger ty \<longleftrightarrow> ty = AUTOFS_TYPE_DIRECT \<or> ty = AUTOFS_TYPE_OFFSET"

section \<open>Space maps\<close>

record fsmap =
  fmr_device :: u32
  fmr_flags :: u32
  fmr_physical :: u64
  fmr_owner :: u64
  fmr_offset :: u64
  fmr_length :: u64
  fmr_reserved :: "u64 list"

record fsmap_head =
  fmh_iflags :: u32
  fmh_oflags :: u32
  fmh_count :: u32
  fmh_entries :: u32
  fmh_reserved :: "u64 list"
  fmh_keys :: "fsmap list"
  fmh_recs :: "fsmap list"

definition sizeof_fsmap :: u64 where "sizeof_fsmap = 64"

definition sizeof_fsmap_head :: u64 where "sizeof_fsmap_head = 64 + 2 * sizeof_fsmap"

definition fsmap_sizeof :: "u32 \<Rightarrow> u64" where
  "fsmap_sizeof nr = sizeof_fsmap_head + ucast nr * sizeof_fsmap"

text \<open>The last entry is at \<^verbatim>\<open>fmh_entries - 1\<close>, computed in 32 bits; no value when it is not a record.\<close>

definition fsmap_advance :: "fsmap_head \<Rightarrow> fsmap_head option" where
  "fsmap_advance head =
     (if unat (fmh_entries head - 1) < length (fmh_recs head)
      then Some (head\<lparr>fmh_keys := (fmh_keys head)[0 := fmh_recs head ! unat (fmh_entries head - 1)]\<rparr>) else None)"

definition FMR_OWNER :: "u64 \<Rightarrow> u64 \<Rightarrow> u64" where
  "FMR_OWNER ty code = push_bit 32 ty OR (code AND 0xFFFFFFFF)"

definition FMR_OWNER_TYPE :: "u64 \<Rightarrow> u32" where "FMR_OWNER_TYPE owner = ucast (drop_bit 32 owner)"

definition FMR_OWNER_CODE :: "u64 \<Rightarrow> u32" where "FMR_OWNER_CODE owner = ucast (owner AND 0xFFFFFFFF)"

definition FMR_OWN_FREE :: u64 where "FMR_OWN_FREE = FMR_OWNER 0 1"

definition FMR_OWN_UNKNOWN :: u64 where "FMR_OWN_UNKNOWN = FMR_OWNER 0 2"

definition FMR_OWN_METADATA :: u64 where "FMR_OWN_METADATA = FMR_OWNER 0 3"

section \<open>Packet headers\<close>

definition DCCP_PKT_REQUEST :: u8 where "DCCP_PKT_REQUEST = 0"

definition DCCP_PKT_RESPONSE :: u8 where "DCCP_PKT_RESPONSE = 1"

definition DCCP_PKT_DATA :: u8 where "DCCP_PKT_DATA = 2"

definition DCCP_PKT_ACK :: u8 where "DCCP_PKT_ACK = 3"

definition DCCP_PKT_DATAACK :: u8 where "DCCP_PKT_DATAACK = 4"

definition DCCP_PKT_CLOSEREQ :: u8 where "DCCP_PKT_CLOSEREQ = 5"

definition DCCP_PKT_CLOSE :: u8 where "DCCP_PKT_CLOSE = 6"

definition DCCP_PKT_RESET :: u8 where "DCCP_PKT_RESET = 7"

definition DCCP_PKT_SYNC :: u8 where "DCCP_PKT_SYNC = 8"

definition DCCP_PKT_SYNCACK :: u8 where "DCCP_PKT_SYNCACK = 9"

definition DCCP_PKT_INVALID :: u8 where "DCCP_PKT_INVALID = 10"

text \<open>Sizes of the four headers that follow the generic one.\<close>

definition sizeof_ack_bits :: u32 where "sizeof_ack_bits = 2 + 2 + 4"

definition sizeof_hdr_request :: u32 where "sizeof_hdr_request = 4"

definition sizeof_hdr_response :: u32 where "sizeof_hdr_response = sizeof_ack_bits + 4"

definition sizeof_hdr_reset :: u32 where "sizeof_hdr_reset = sizeof_ack_bits + 1 + 3"

definition dccp_packet_hdr_len :: "u8 \<Rightarrow> u32" where
  "dccp_packet_hdr_len ty =
     (if ty = DCCP_PKT_DATA then 0
      else if ty = DCCP_PKT_DATAACK \<or> ty = DCCP_PKT_ACK \<or> ty = DCCP_PKT_SYNC \<or> ty = DCCP_PKT_SYNCACK \<or>
        ty = DCCP_PKT_CLOSE \<or> ty = DCCP_PKT_CLOSEREQ then sizeof_ack_bits
      else if ty = DCCP_PKT_REQUEST then sizeof_hdr_request
      else if ty = DCCP_PKT_RESPONSE then sizeof_hdr_response
      else sizeof_hdr_reset)"

section \<open>Names of commands\<close>

definition ND_CMD_ARS_CAP :: u32 where "ND_CMD_ARS_CAP = 1"

definition ND_CMD_ARS_START :: u32 where "ND_CMD_ARS_START = 2"

definition ND_CMD_ARS_STATUS :: u32 where "ND_CMD_ARS_STATUS = 3"

definition ND_CMD_CLEAR_ERROR :: u32 where "ND_CMD_CLEAR_ERROR = 4"

definition ND_CMD_SMART :: u32 where "ND_CMD_SMART = 1"

definition ND_CMD_SMART_THRESHOLD :: u32 where "ND_CMD_SMART_THRESHOLD = 2"

definition ND_CMD_DIMM_FLAGS :: u32 where "ND_CMD_DIMM_FLAGS = 3"

definition ND_CMD_GET_CONFIG_SIZE :: u32 where "ND_CMD_GET_CONFIG_SIZE = 4"

definition ND_CMD_GET_CONFIG_DATA :: u32 where "ND_CMD_GET_CONFIG_DATA = 5"

definition ND_CMD_SET_CONFIG_DATA :: u32 where "ND_CMD_SET_CONFIG_DATA = 6"

definition ND_CMD_VENDOR_EFFECT_LOG_SIZE :: u32 where "ND_CMD_VENDOR_EFFECT_LOG_SIZE = 7"

definition ND_CMD_VENDOR_EFFECT_LOG :: u32 where "ND_CMD_VENDOR_EFFECT_LOG = 8"

definition ND_CMD_VENDOR :: u32 where "ND_CMD_VENDOR = 9"

definition ND_CMD_CALL :: u32 where "ND_CMD_CALL = 10"

definition nvdimm_bus_cmd_name :: "u32 \<Rightarrow> string" where
  "nvdimm_bus_cmd_name cmd =
     (if cmd = ND_CMD_ARS_CAP then ''ars_cap''
      else if cmd = ND_CMD_ARS_START then ''ars_start''
      else if cmd = ND_CMD_ARS_STATUS then ''ars_status''
      else if cmd = ND_CMD_CLEAR_ERROR then ''clear_error''
      else if cmd = ND_CMD_CALL then ''cmd_call''
      else ''unknown'')"

definition nvdimm_cmd_name :: "u32 \<Rightarrow> string" where
  "nvdimm_cmd_name cmd =
     (if cmd = ND_CMD_SMART then ''smart''
      else if cmd = ND_CMD_SMART_THRESHOLD then ''smart_thresh''
      else if cmd = ND_CMD_DIMM_FLAGS then ''flags''
      else if cmd = ND_CMD_GET_CONFIG_SIZE then ''get_size''
      else if cmd = ND_CMD_GET_CONFIG_DATA then ''get_data''
      else if cmd = ND_CMD_SET_CONFIG_DATA then ''set_data''
      else if cmd = ND_CMD_VENDOR_EFFECT_LOG_SIZE then ''effect_size''
      else if cmd = ND_CMD_VENDOR_EFFECT_LOG then ''effect_log''
      else if cmd = ND_CMD_VENDOR then ''vendor''
      else if cmd = ND_CMD_CALL then ''cmd_call''
      else ''unknown'')"

section \<open>Migration states\<close>

definition VFIO_DEVICE_STATE_STOP :: u32 where "VFIO_DEVICE_STATE_STOP = 0"

definition VFIO_DEVICE_STATE_RUNNING :: u32 where "VFIO_DEVICE_STATE_RUNNING = push_bit 0 1"

definition VFIO_DEVICE_STATE_SAVING :: u32 where "VFIO_DEVICE_STATE_SAVING = push_bit 1 1"

definition VFIO_DEVICE_STATE_RESUMING :: u32 where "VFIO_DEVICE_STATE_RESUMING = push_bit 2 1"

definition VFIO_DEVICE_STATE_MASK :: u32 where
  "VFIO_DEVICE_STATE_MASK = VFIO_DEVICE_STATE_RUNNING OR VFIO_DEVICE_STATE_SAVING OR VFIO_DEVICE_STATE_RESUMING"

definition VFIO_DEVICE_STATE_VALID :: "u32 \<Rightarrow> bool" where
  "VFIO_DEVICE_STATE_VALID state \<longleftrightarrow>
     (if state AND VFIO_DEVICE_STATE_RESUMING \<noteq> 0 then state AND VFIO_DEVICE_STATE_MASK = VFIO_DEVICE_STATE_RESUMING else True)"

definition VFIO_DEVICE_STATE_IS_ERROR :: "u32 \<Rightarrow> bool" where
  "VFIO_DEVICE_STATE_IS_ERROR state \<longleftrightarrow> state AND VFIO_DEVICE_STATE_MASK = VFIO_DEVICE_STATE_SAVING OR VFIO_DEVICE_STATE_RESUMING"

section \<open>Message priorities\<close>

definition LOG_PRIMASK :: u32 where "LOG_PRIMASK = 0x07"

definition LOG_PRI :: "u32 \<Rightarrow> u32" where "LOG_PRI p = p AND LOG_PRIMASK"

definition LOG_MAKEPRI :: "u32 \<Rightarrow> u32 \<Rightarrow> u32" where "LOG_MAKEPRI fac pri = fac OR pri"

definition LOG_FACMASK :: u32 where "LOG_FACMASK = 0x03f8"

definition LOG_FAC :: "u32 \<Rightarrow> u32" where "LOG_FAC p = drop_bit 3 (p AND LOG_FACMASK)"

definition LOG_MASK :: "nat \<Rightarrow> u32" where "LOG_MASK pri = push_bit pri 1"

definition LOG_UPTO :: "nat \<Rightarrow> u32" where "LOG_UPTO pri = push_bit (pri + 1) 1 - 1"

definition LOG_NFACILITIES :: u32 where "LOG_NFACILITIES = 24"

section \<open>Version numbers and bus addresses\<close>

definition SOF_ABI_MAJOR_SHIFT :: nat where "SOF_ABI_MAJOR_SHIFT = 24"

definition SOF_ABI_MAJOR_MASK :: u32 where "SOF_ABI_MAJOR_MASK = 0xff"

definition SOF_ABI_MINOR_SHIFT :: nat where "SOF_ABI_MINOR_SHIFT = 12"

definition SOF_ABI_MINOR_MASK :: u32 where "SOF_ABI_MINOR_MASK = 0xfff"

definition SOF_ABI_PATCH_SHIFT :: nat where "SOF_ABI_PATCH_SHIFT = 0"

definition SOF_ABI_PATCH_MASK :: u32 where "SOF_ABI_PATCH_MASK = 0xfff"

definition SOF_ABI_VER :: "u32 \<Rightarrow> u32 \<Rightarrow> u32 \<Rightarrow> u32" where
  "SOF_ABI_VER major minor patch =
     push_bit SOF_ABI_MAJOR_SHIFT major OR push_bit SOF_ABI_MINOR_SHIFT minor OR push_bit SOF_ABI_PATCH_SHIFT patch"

definition SOF_ABI_VERSION_MAJOR :: "u32 \<Rightarrow> u32" where
  "SOF_ABI_VERSION_MAJOR version = drop_bit SOF_ABI_MAJOR_SHIFT version AND SOF_ABI_MAJOR_MASK"

definition SOF_ABI_VERSION_MINOR :: "u32 \<Rightarrow> u32" where
  "SOF_ABI_VERSION_MINOR version = drop_bit SOF_ABI_MINOR_SHIFT version AND SOF_ABI_MINOR_MASK"

definition SOF_ABI_VERSION_PATCH :: "u32 \<Rightarrow> u32" where
  "SOF_ABI_VERSION_PATCH version = drop_bit SOF_ABI_PATCH_SHIFT version AND SOF_ABI_PATCH_MASK"

definition SOF_ABI_VERSION_INCOMPATIBLE :: "u32 \<Rightarrow> u32 \<Rightarrow> bool" where
  "SOF_ABI_VERSION_INCOMPATIBLE sof_ver client_ver \<longleftrightarrow>
     SOF_ABI_VERSION_MAJOR sof_ver \<noteq> SOF_ABI_VERSION_MAJOR client_ver"

definition SNDRV_PROTOCOL_VERSION :: "u32 \<Rightarrow> u32 \<Rightarrow> u32 \<Rightarrow> u32" where
  "SNDRV_PROTOCOL_VERSION major minor subminor = push_bit 16 major OR push_bit 8 minor OR subminor"

definition SNDRV_PROTOCOL_MAJOR :: "u32 \<Rightarrow> u32" where
  "SNDRV_PROTOCOL_MAJOR version = drop_bit 16 version AND 0xffff"

definition SNDRV_PROTOCOL_MINOR :: "u32 \<Rightarrow> u32" where
  "SNDRV_PROTOCOL_MINOR version = drop_bit 8 version AND 0xff"

definition SNDRV_PROTOCOL_MICRO :: "u32 \<Rightarrow> u32" where "SNDRV_PROTOCOL_MICRO version = version AND 0xff"

definition SNDRV_PROTOCOL_INCOMPATIBLE :: "u32 \<Rightarrow> u32 \<Rightarrow> bool" where
  "SNDRV_PROTOCOL_INCOMPATIBLE kversion uversion \<longleftrightarrow>
     SNDRV_PROTOCOL_MAJOR kversion \<noteq> SNDRV_PROTOCOL_MAJOR uversion \<or>
     SNDRV_PROTOCOL_MAJOR kversion = SNDRV_PROTOCOL_MAJOR uversion \<and>
       SNDRV_PROTOCOL_MINOR kversion \<noteq> SNDRV_PROTOCOL_MINOR uversion"

definition PCI_DEVFN :: "u32 \<Rightarrow> u32 \<Rightarrow> u32" where
  "PCI_DEVFN slot func = push_bit 3 (slot AND 0x1f) OR (func AND 0x07)"

definition PCI_SLOT :: "u32 \<Rightarrow> u32" where "PCI_SLOT devfn = drop_bit 3 devfn AND 0x1f"

definition PCI_FUNC :: "u32 \<Rightarrow> u32" where "PCI_FUNC devfn = devfn AND 0x07"

section \<open>Places of bits\<close>

definition AUDIT_WORD :: "u32 \<Rightarrow> u32" where "AUDIT_WORD nr = nr div 32"

definition AUDIT_BIT :: "u32 \<Rightarrow> u32" where "AUDIT_BIT nr = push_bit (unat (nr - AUDIT_WORD nr * 32)) 1"

definition CAP_TO_INDEX :: "u32 \<Rightarrow> u32" where "CAP_TO_INDEX x = drop_bit 5 x"

definition CAP_TO_MASK :: "u32 \<Rightarrow> u32" where "CAP_TO_MASK x = push_bit (unat (x AND 31)) 1"

section \<open>What they satisfy\<close>

text \<open>The kinds are told apart, and the ones that trigger a mount are those that are neither indirect
  nor unset.\<close>

lemmas autofs_defs =
  set_autofs_type_any_def set_autofs_type_indirect_def set_autofs_type_direct_def set_autofs_type_offset_def
  autofs_type_any_def autofs_type_indirect_def autofs_type_direct_def autofs_type_offset_def
  autofs_type_trigger_def AUTOFS_TYPE_ANY_def AUTOFS_TYPE_INDIRECT_def AUTOFS_TYPE_DIRECT_def AUTOFS_TYPE_OFFSET_def

lemma autofs_kinds:
  "autofs_type_any (set_autofs_type_any t)" "autofs_type_indirect (set_autofs_type_indirect t)"
  "autofs_type_direct (set_autofs_type_direct t)" "autofs_type_offset (set_autofs_type_offset t)"
  "autofs_type_trigger t \<Longrightarrow> \<not> autofs_type_indirect t \<and> \<not> autofs_type_any t"
  "\<not> autofs_type_trigger (set_autofs_type_indirect t)" "\<not> autofs_type_trigger (set_autofs_type_any t)"
  by (auto simp: autofs_defs)

text \<open>The next query starts where the last returned record is; without any record the place is far
  outside the array.\<close>

lemma fsmap_next_query:
  assumes "unat (fmh_entries head) \<le> length (fmh_recs head)" and "fmh_entries head \<noteq> 0"
  shows "\<exists>h. fsmap_advance head = Some h \<and> fmh_recs h = fmh_recs head \<and> fmh_entries h = fmh_entries head \<and>
    fmh_keys h = (fmh_keys head)[0 := fmh_recs head ! (unat (fmh_entries head) - 1)]"
proof -
  have "unat (fmh_entries head - 1) = unat (fmh_entries head) - 1" "0 < unat (fmh_entries head)"
    using assms(2) by (simp_all add: unat_minus_one unat_gt_0)
  then show ?thesis
    using assms(1) by (simp add: fsmap_advance_def)
qed

lemma fsmap_no_record: "fmh_entries head = 0 \<Longrightarrow> length (fmh_recs head) < 2 ^ 32 - 1 \<Longrightarrow> fsmap_advance head = None"
  by (simp add: fsmap_advance_def unsigned_minus_1_eq_mask mask_eq_exp_minus_1)

lemma fsmap_size: "unat (fsmap_sizeof nr) = 192 + 64 * unat nr"
proof -
  have n: "unat nr < 4294967296" using unsigned_less [of nr] by simp
  then have "unat (ucast nr * (64 :: u64)) = unat nr * 64"
    by (subst unat_mult_lem [THEN iffD1]) (simp_all add: unat_ucast_up)
  then show ?thesis
    using n unfolding fsmap_sizeof_def sizeof_fsmap_head_def sizeof_fsmap_def
    by (subst unat_add_lem [THEN iffD1]) simp_all
qed

interpretation owner: full_code "\<lambda>(ty, code). FMR_OWNER (ucast ty) (ucast code)"
  "\<lambda>w. (FMR_OWNER_TYPE w, FMR_OWNER_CODE w)" "\<lambda>_. True"
proof -
  have m: "(0xFFFFFFFF :: u64) = mask 32" by (simp add: mask_eq_exp_minus_1)
  show "full_code (\<lambda>(ty, code). FMR_OWNER (ucast ty) (ucast code))
      (\<lambda>w. (FMR_OWNER_TYPE w, FMR_OWNER_CODE w)) (\<lambda>_. True)"
    unfolding FMR_OWNER_def FMR_OWNER_TYPE_def FMR_OWNER_CODE_def m
    by unfold_locales (auto intro!: bit_word_eqI simp: bit_simps dest: bit_imp_le_length)
qed

lemma dccp_lengths: "dccp_packet_hdr_len ty \<in> {0, 4, 8, 12}" "dccp_packet_hdr_len ty = 0 \<longleftrightarrow> ty = DCCP_PKT_DATA"
  by (simp_all add: dccp_packet_hdr_len_def sizeof_ack_bits_def sizeof_hdr_request_def sizeof_hdr_response_def
      sizeof_hdr_reset_def)

text \<open>A name other than the default belongs to one command.\<close>

lemma command_names:
  "nvdimm_bus_cmd_name c = nvdimm_bus_cmd_name c' \<Longrightarrow> nvdimm_bus_cmd_name c \<noteq> ''unknown'' \<Longrightarrow> c = c'"
  "nvdimm_cmd_name c = nvdimm_cmd_name c' \<Longrightarrow> nvdimm_cmd_name c \<noteq> ''unknown'' \<Longrightarrow> c = c'"
  by (simp_all add: nvdimm_bus_cmd_name_def nvdimm_cmd_name_def split: if_splits)

text \<open>The error state is the only invalid one besides resuming while running.\<close>

lemma three_bits:
  fixes w v :: u32
  shows "w AND mask 3 = v AND mask 3 \<longleftrightarrow> bit w 0 = bit v 0 \<and> bit w 1 = bit v 1 \<and> bit w 2 = bit v 2"
proof
  assume "bit w 0 = bit v 0 \<and> bit w 1 = bit v 1 \<and> bit w 2 = bit v 2"
  then have "n < 3 \<Longrightarrow> bit w n = bit v n" for n
    by (auto simp: numeral_3_eq_3 numeral_2_eq_2 less_Suc_eq)
  then show "w AND mask 3 = v AND mask 3"
    by (intro bit_word_eqI) (auto simp: bit_simps)
next
  assume e: "w AND mask 3 = v AND mask 3"
  have "n < 3 \<Longrightarrow> bit w n = bit v n" for n
    using arg_cong [OF e, of "\<lambda>x. bit x n"] by (auto simp: bit_simps)
  then show "bit w 0 = bit v 0 \<and> bit w 1 = bit v 1 \<and> bit w 2 = bit v 2" by simp
qed

lemma migration_states:
  "VFIO_DEVICE_STATE_VALID state \<longleftrightarrow> \<not> bit state 2 \<or> \<not> bit state 0 \<and> \<not> bit state 1"
  "VFIO_DEVICE_STATE_IS_ERROR state \<longleftrightarrow> \<not> bit state 0 \<and> bit state 1 \<and> bit state 2"
  "VFIO_DEVICE_STATE_IS_ERROR state \<Longrightarrow> \<not> VFIO_DEVICE_STATE_VALID state"
proof -
  have m: "VFIO_DEVICE_STATE_MASK = mask 3" "VFIO_DEVICE_STATE_RESUMING = 4 AND mask 3"
    "VFIO_DEVICE_STATE_SAVING OR VFIO_DEVICE_STATE_RESUMING = 6 AND mask 3"
    by (simp_all add: VFIO_DEVICE_STATE_MASK_def VFIO_DEVICE_STATE_RUNNING_def VFIO_DEVICE_STATE_SAVING_def
        VFIO_DEVICE_STATE_RESUMING_def mask_eq_exp_minus_1 push_bit_eq_mult)
  have r: "state AND VFIO_DEVICE_STATE_RESUMING \<noteq> 0 \<longleftrightarrow> bit state 2"
    unfolding VFIO_DEVICE_STATE_RESUMING_def push_bit_of_1 by (simp only: and_exp_eq_0_iff_not_bit) simp
  have b: "\<not> bit (4 :: u32) 0" "\<not> bit (4 :: u32) 1" "bit (4 :: u32) 2" "\<not> bit (6 :: u32) 0" "bit (6 :: u32) 1" "bit (6 :: u32) 2"
    by simp_all
  show v: "VFIO_DEVICE_STATE_VALID state \<longleftrightarrow> \<not> bit state 2 \<or> \<not> bit state 0 \<and> \<not> bit state 1"
    unfolding VFIO_DEVICE_STATE_VALID_def r unfolding m three_bits using b by auto
  show e: "VFIO_DEVICE_STATE_IS_ERROR state \<longleftrightarrow> \<not> bit state 0 \<and> bit state 1 \<and> bit state 2"
    unfolding VFIO_DEVICE_STATE_IS_ERROR_def m(3) m(1) three_bits using b by auto
  show "VFIO_DEVICE_STATE_IS_ERROR state \<Longrightarrow> \<not> VFIO_DEVICE_STATE_VALID state"
    unfolding v e by blast
qed

lemma helper_masks:
  "(0x07 :: u32) = mask 3" "(0x1f :: u32) = mask 5" "(0xff :: u32) = mask 8" "(0xfff :: u32) = mask 12"
  "(0xffff :: u32) = mask 16" "(0x03f8 :: u32) = push_bit 3 (mask 7)"
  by (simp_all add: mask_eq_exp_minus_1 push_bit_eq_mult)

lemma priority_parts:
  assumes "pri < 2 ^ 3" and "fac < 2 ^ 7"
  shows "LOG_PRI (LOG_MAKEPRI (push_bit 3 fac) pri) = pri" "LOG_FAC (LOG_MAKEPRI (push_bit 3 fac) pri) = fac"
proof -
  note s = assms [THEN not_bit_small, simplified]
  have below: "bit fac n \<Longrightarrow> n < 29" for n
    using s(2) by fastforce
  show "LOG_PRI (LOG_MAKEPRI (push_bit 3 fac) pri) = pri" "LOG_FAC (LOG_MAKEPRI (push_bit 3 fac) pri) = fac"
    unfolding LOG_PRI_def LOG_FAC_def LOG_MAKEPRI_def LOG_PRIMASK_def LOG_FACMASK_def helper_masks
    by (rule bit_word_eqI; auto simp: bit_simps simp del: push_bit_and intro: below dest: s)+
qed

text \<open>The mask of all priorities up to one holds exactly those.\<close>

lemma priorities_upto:
  assumes "p < 31" and "q < 32"
  shows "LOG_MASK q AND LOG_UPTO p \<noteq> 0 \<longleftrightarrow> q \<le> p"
proof -
  have u: "LOG_UPTO p = mask (p + 1)"
    by (simp add: LOG_UPTO_def mask_eq_exp_minus_1)
  have "LOG_UPTO p AND LOG_MASK q \<noteq> 0 \<longleftrightarrow> bit (LOG_UPTO p) q"
    unfolding LOG_MASK_def push_bit_of_1 by (simp only: and_exp_eq_0_iff_not_bit) simp
  then show ?thesis
    unfolding u using assms by (auto simp: and.commute bit_simps)
qed

interpretation sof: packed_code "\<lambda>(major, minor, patch). SOF_ABI_VER major minor patch"
  "\<lambda>v. (SOF_ABI_VERSION_MAJOR v, SOF_ABI_VERSION_MINOR v, SOF_ABI_VERSION_PATCH v)"
  "\<lambda>(major, minor, patch). major < 2 ^ 8 \<and> minor < 2 ^ 12 \<and> patch < 2 ^ 12"
proof unfold_locales
  fix x :: "u32 \<times> u32 \<times> u32"
  obtain a b c where x: "x = (a, b, c)" by (cases x)
  assume f: "case x of (major, minor, patch) \<Rightarrow> major < 2 ^ 8 \<and> minor < 2 ^ 12 \<and> patch < 2 ^ 12"
  then have "a < 2 ^ 8" "b < 2 ^ 12" "c < 2 ^ 12" by (simp_all add: x)
  note s = this [THEN not_bit_small, simplified]
  have "SOF_ABI_VERSION_MAJOR (SOF_ABI_VER a b c) = a" "SOF_ABI_VERSION_MINOR (SOF_ABI_VER a b c) = b"
    "SOF_ABI_VERSION_PATCH (SOF_ABI_VER a b c) = c"
    unfolding SOF_ABI_VERSION_MAJOR_def SOF_ABI_VERSION_MINOR_def SOF_ABI_VERSION_PATCH_def SOF_ABI_VER_def
      SOF_ABI_MAJOR_SHIFT_def SOF_ABI_MINOR_SHIFT_def SOF_ABI_PATCH_SHIFT_def SOF_ABI_MAJOR_MASK_def
      SOF_ABI_MINOR_MASK_def SOF_ABI_PATCH_MASK_def helper_masks
    by (rule bit_word_eqI; auto simp: bit_simps simp del: push_bit_and dest: s)+
  then show "(\<lambda>v. (SOF_ABI_VERSION_MAJOR v, SOF_ABI_VERSION_MINOR v, SOF_ABI_VERSION_PATCH v))
      (case x of (major, minor, patch) \<Rightarrow> SOF_ABI_VER major minor patch) = x"
    by (simp add: x)
qed

interpretation alsa: packed_code "\<lambda>(major, minor, micro). SNDRV_PROTOCOL_VERSION major minor micro"
  "\<lambda>v. (SNDRV_PROTOCOL_MAJOR v, SNDRV_PROTOCOL_MINOR v, SNDRV_PROTOCOL_MICRO v)"
  "\<lambda>(major, minor, micro). major < 2 ^ 16 \<and> minor < 2 ^ 8 \<and> micro < 2 ^ 8"
proof unfold_locales
  fix x :: "u32 \<times> u32 \<times> u32"
  obtain a b c where x: "x = (a, b, c)" by (cases x)
  assume f: "case x of (major, minor, micro) \<Rightarrow> major < 2 ^ 16 \<and> minor < 2 ^ 8 \<and> micro < 2 ^ 8"
  then have "a < 2 ^ 16" "b < 2 ^ 8" "c < 2 ^ 8" by (simp_all add: x)
  note s = this [THEN not_bit_small, simplified]
  have "SNDRV_PROTOCOL_MAJOR (SNDRV_PROTOCOL_VERSION a b c) = a" "SNDRV_PROTOCOL_MINOR (SNDRV_PROTOCOL_VERSION a b c) = b"
    "SNDRV_PROTOCOL_MICRO (SNDRV_PROTOCOL_VERSION a b c) = c"
    unfolding SNDRV_PROTOCOL_MAJOR_def SNDRV_PROTOCOL_MINOR_def SNDRV_PROTOCOL_MICRO_def SNDRV_PROTOCOL_VERSION_def
      helper_masks
    by (rule bit_word_eqI; auto simp: bit_simps simp del: push_bit_and dest: s)+
  then show "(\<lambda>v. (SNDRV_PROTOCOL_MAJOR v, SNDRV_PROTOCOL_MINOR v, SNDRV_PROTOCOL_MICRO v))
      (case x of (major, minor, micro) \<Rightarrow> SNDRV_PROTOCOL_VERSION major minor micro) = x"
    by (simp add: x)
qed

text \<open>Two sound protocol versions are incompatible when they differ before the last number.\<close>

lemma alsa_incompatible:
  "SNDRV_PROTOCOL_INCOMPATIBLE k u \<longleftrightarrow>
     (SNDRV_PROTOCOL_MAJOR k, SNDRV_PROTOCOL_MINOR k) \<noteq> (SNDRV_PROTOCOL_MAJOR u, SNDRV_PROTOCOL_MINOR u)"
  by (auto simp: SNDRV_PROTOCOL_INCOMPATIBLE_def)

lemma bus_address: "PCI_SLOT (PCI_DEVFN slot func) = slot AND 0x1f" "PCI_FUNC (PCI_DEVFN slot func) = func AND 0x07"
  "d < 256 \<Longrightarrow> PCI_DEVFN (PCI_SLOT d) (PCI_FUNC d) = d"
proof -
  show "PCI_SLOT (PCI_DEVFN slot func) = slot AND 0x1f" "PCI_FUNC (PCI_DEVFN slot func) = func AND 0x07"
    unfolding PCI_SLOT_def PCI_FUNC_def PCI_DEVFN_def helper_masks
    by (rule bit_word_eqI; auto simp: bit_simps simp del: push_bit_and)+
  assume "d < 256"
  then have "d < 2 ^ 8" by simp
  from not_bit_small [OF this, simplified] have "bit d n \<Longrightarrow> n - 3 < 5" for n
    by fastforce
  then show "PCI_DEVFN (PCI_SLOT d) (PCI_FUNC d) = d"
    unfolding PCI_SLOT_def PCI_FUNC_def PCI_DEVFN_def helper_masks
    by (intro bit_word_eqI) (auto simp: bit_simps simp del: push_bit_and)
qed

end
