(* ===== verification/Fortify_Base.thy ===== *)
theory Fortify_Base
  imports Prelude
begin

text \<open>
  What the fortified functions of the C library headers have in common.  Each looks at what the
  compiler knows of the destination object and passes the call on to the plain function, to a
  checking one, or to a checking one that the compiler warns about.  The functions called are in the
  library: a fortified function is modelled by the call it makes.
\<close>

section \<open>Calls\<close>

text \<open>
  The entries declared for a function: the plain one (\<^verbatim>\<open>__read_alias\<close>), the plain one with a warning
  (\<^verbatim>\<open>__gets_warn\<close>), the checking one (\<^verbatim>\<open>__read_chk\<close>), the checking one with a warning
  (\<^verbatim>\<open>__read_chk_warn\<close>), and the one without optional arguments (\<^verbatim>\<open>__open_2\<close>).  \<^verbatim>\<open>Inline\<close> is no
  call: the header's own code does the work.
\<close>

datatype entry = Alias string | Alias_warn string | Chk string | Chk_warn string | Short string
  | Inline string

text \<open>The entry and its arguments, as numbers; a pointer is its address.\<close>

type_synonym ext_call = "entry \<times> int list"

text \<open>
  \<^verbatim>\<open>__glibc_objsize0\<close>, \<^verbatim>\<open>__glibc_objsize\<close> (\<^verbatim>\<open>sys/cdefs.h\<close>) and \<^verbatim>\<open>__USE_FORTIFY_LEVEL\<close>, which the compiler
  provides: the number of bytes from the pointer to the end of its object, or of the smallest part
  of the object it points into, and all ones when that is not known.
\<close>

record compiler =
  objsize0 :: "u64 \<Rightarrow> u64"
  objsize :: "u64 \<Rightarrow> u64"
  fortify_level :: int

section \<open>What a call may be\<close>

text \<open>
  For a destination of \<open>b\<close> bytes, or of unknown size, of which the call is to fill \<open>bytes\<close>: the plain
  function is called, or code of the header runs, only for what is known to fit or of unknown size;
  the compiler warns only when it does not fit, or, for the two functions that are told no size,
  when the object's is unknown; and a checking function is told the room there is, in its own unit.
\<close>

definition guarded :: "u64 \<Rightarrow> u64 \<Rightarrow> nat \<Rightarrow> ext_call \<Rightarrow> bool" where
  "guarded b room bytes call \<longleftrightarrow>
     (case call of
        (Alias _, _) \<Rightarrow> b = - 1 \<or> bytes \<le> unat b
      | (Inline _, _) \<Rightarrow> b = - 1 \<or> bytes \<le> unat b
      | (Alias_warn f, _) \<Rightarrow> b = - 1 \<and> f \<in> {''getwd'', ''gets''}
      | (Chk _, args) \<Rightarrow> uint room \<in> set args
      | (Chk_warn _, args) \<Rightarrow> b \<noteq> - 1 \<and> unat b < bytes \<and> uint room \<in> set args
      | (Short _, _) \<Rightarrow> False)"

lemma div_less_iff: "b div u < n \<longleftrightarrow> unat b < unat u * unat n" if "u \<noteq> 0" for b u n :: u64
proof -
  have "0 < unat u" using that by (simp add: word_neq_0_conv word_less_nat_alt)
  then show ?thesis
    by (simp add: word_less_nat_alt unat_div div_less_iff_less_mult mult.commute)
qed

text \<open>The shape most of the functions have, for a length counted in units of \<open>u\<close> bytes.\<close>

locale checked_call =
  fixes size_of :: "compiler \<Rightarrow> u64"
    and room :: "u64 \<Rightarrow> u64"
    and u :: u64
    and call :: "compiler \<Rightarrow> bool \<Rightarrow> u64 \<Rightarrow> ext_call"
    and f :: string
    and chk_args :: "compiler \<Rightarrow> u64 \<Rightarrow> int list"
    and plain_args :: "u64 \<Rightarrow> int list"
  assumes call: "call cc c n =
      (if size_of cc \<noteq> - 1 \<and> \<not> c then (Chk f, chk_args cc n)
       else if size_of cc \<noteq> - 1 \<and> size_of cc div u < n then (Chk_warn f, chk_args cc n)
       else (Alias f, plain_args n))"
    and told: "uint (room (size_of cc)) \<in> set (chk_args cc n)"
    and unit: "u \<noteq> 0"
begin

lemma guarded: "guarded (size_of cc) (room (size_of cc)) (unat u * unat n) (call cc c n)"
  using told [of cc n] div_less_iff [OF unit, of "size_of cc" n] by (auto simp: guarded_def call)

lemma unknown: "size_of cc = - 1 \<Longrightarrow> call cc c n = (Alias f, plain_args n)"
  by (simp add: call)

lemma variable_checked: "size_of cc \<noteq> - 1 \<Longrightarrow> call cc False n = (Chk f, chk_args cc n)"
  by (simp add: call)

lemma fits: "size_of cc \<noteq> - 1 \<Longrightarrow> unat u * unat n \<le> unat (size_of cc) \<Longrightarrow> call cc True n = (Alias f, plain_args n)"
  using div_less_iff [OF unit, of "size_of cc" n] by (simp add: call)

end

text \<open>Signed lengths.\<close>

lemma scast_positive:
  fixes n :: u32
  assumes "0 \<le> sint n"
  shows "unat (scast n :: u64) = nat (sint n)"
proof -
  have "sint n < 2 ^ 31" using sint_lt [of n] by simp
  then have "take_bit 64 (sint n) = sint n"
    using assms by (simp add: take_bit_int_eq_self)
  then have "uint (of_int (sint n) :: u64) = sint n"
    using assms by (subst unsigned_of_int) simp
  then show ?thesis
    unfolding of_int_sint by (simp flip: nat_uint_eq)
qed

end
