(* ===== verification/Fortify_Calls.thy ===== *)
theory Fortify_Calls
  imports Fortify_Base
begin

text \<open>
  The fortified functions on bytes: \<^verbatim>\<open>bits/unistd.h\<close>, \<^verbatim>\<open>bits/socket2.h\<close>, \<^verbatim>\<open>bits/poll2.h\<close>,
  \<^verbatim>\<open>bits/stdlib.h\<close>, \<^verbatim>\<open>bits/stdio2.h\<close>, \<^verbatim>\<open>bits/string_fortified.h\<close>, \<^verbatim>\<open>bits/strings_fortified.h\<close> and
  \<^verbatim>\<open>bits/syslog.h\<close>.  \<open>c\<close> says whether the compiler knows the length argument.  Variable arguments are
  a list, an argument pack one more pointer.
\<close>

section \<open>The functions\<close>

definition read :: "compiler \<Rightarrow> u32 \<Rightarrow> u64 \<Rightarrow> u64 \<Rightarrow> bool \<Rightarrow> ext_call" where
  "read cc fd buf nbytes c =
     (if objsize0 cc buf \<noteq> - 1 \<and> \<not> c
      then (Chk ''read'', [sint fd, uint buf, uint nbytes, uint (objsize0 cc buf)])
      else if objsize0 cc buf \<noteq> - 1 \<and> objsize0 cc buf < nbytes
      then (Chk_warn ''read'', [sint fd, uint buf, uint nbytes, uint (objsize0 cc buf)])
      else (Alias ''read'', [sint fd, uint buf, uint nbytes]))"

definition pread :: "compiler \<Rightarrow> u32 \<Rightarrow> u64 \<Rightarrow> u64 \<Rightarrow> u64 \<Rightarrow> bool \<Rightarrow> ext_call" where
  "pread cc fd buf nbytes off c =
     (if objsize0 cc buf \<noteq> - 1 \<and> \<not> c
      then (Chk ''pread'', [sint fd, uint buf, uint nbytes, sint off, uint (objsize0 cc buf)])
      else if objsize0 cc buf \<noteq> - 1 \<and> objsize0 cc buf < nbytes
      then (Chk_warn ''pread'', [sint fd, uint buf, uint nbytes, sint off, uint (objsize0 cc buf)])
      else (Alias ''pread'', [sint fd, uint buf, uint nbytes, sint off]))"

definition pread_file_offset64 :: "compiler \<Rightarrow> u32 \<Rightarrow> u64 \<Rightarrow> u64 \<Rightarrow> u64 \<Rightarrow> bool \<Rightarrow> ext_call" where
  "pread_file_offset64 cc fd buf nbytes off c =
     (if objsize0 cc buf \<noteq> - 1 \<and> \<not> c
      then (Chk ''pread64'', [sint fd, uint buf, uint nbytes, sint off, uint (objsize0 cc buf)])
      else if objsize0 cc buf \<noteq> - 1 \<and> objsize0 cc buf < nbytes
      then (Chk_warn ''pread64'', [sint fd, uint buf, uint nbytes, sint off, uint (objsize0 cc buf)])
      else (Alias ''pread64'', [sint fd, uint buf, uint nbytes, sint off]))"

definition pread64 :: "compiler \<Rightarrow> u32 \<Rightarrow> u64 \<Rightarrow> u64 \<Rightarrow> u64 \<Rightarrow> bool \<Rightarrow> ext_call" where
  "pread64 cc fd buf nbytes off c =
     (if objsize0 cc buf \<noteq> - 1 \<and> \<not> c
      then (Chk ''pread64'', [sint fd, uint buf, uint nbytes, sint off, uint (objsize0 cc buf)])
      else if objsize0 cc buf \<noteq> - 1 \<and> objsize0 cc buf < nbytes
      then (Chk_warn ''pread64'', [sint fd, uint buf, uint nbytes, sint off, uint (objsize0 cc buf)])
      else (Alias ''pread64'', [sint fd, uint buf, uint nbytes, sint off]))"

definition readlink :: "compiler \<Rightarrow> u64 \<Rightarrow> u64 \<Rightarrow> u64 \<Rightarrow> bool \<Rightarrow> ext_call" where
  "readlink cc path buf len c =
     (if objsize cc buf \<noteq> - 1 \<and> \<not> c
      then (Chk ''readlink'', [uint path, uint buf, uint len, uint (objsize cc buf)])
      else if objsize cc buf \<noteq> - 1 \<and> objsize cc buf < len
      then (Chk_warn ''readlink'', [uint path, uint buf, uint len, uint (objsize cc buf)])
      else (Alias ''readlink'', [uint path, uint buf, uint len]))"

definition readlinkat :: "compiler \<Rightarrow> u32 \<Rightarrow> u64 \<Rightarrow> u64 \<Rightarrow> u64 \<Rightarrow> bool \<Rightarrow> ext_call" where
  "readlinkat cc fd path buf len c =
     (if objsize cc buf \<noteq> - 1 \<and> \<not> c
      then (Chk ''readlinkat'', [sint fd, uint path, uint buf, uint len, uint (objsize cc buf)])
      else if objsize cc buf \<noteq> - 1 \<and> objsize cc buf < len
      then (Chk_warn ''readlinkat'', [sint fd, uint path, uint buf, uint len, uint (objsize cc buf)])
      else (Alias ''readlinkat'', [sint fd, uint path, uint buf, uint len]))"

definition getcwd :: "compiler \<Rightarrow> u64 \<Rightarrow> u64 \<Rightarrow> bool \<Rightarrow> ext_call" where
  "getcwd cc buf sz c =
     (if objsize cc buf \<noteq> - 1 \<and> \<not> c
      then (Chk ''getcwd'', [uint buf, uint sz, uint (objsize cc buf)])
      else if objsize cc buf \<noteq> - 1 \<and> objsize cc buf < sz
      then (Chk_warn ''getcwd'', [uint buf, uint sz, uint (objsize cc buf)])
      else (Alias ''getcwd'', [uint buf, uint sz]))"

definition getwd :: "compiler \<Rightarrow> u64 \<Rightarrow> ext_call" where
  "getwd cc buf =
     (if objsize cc buf \<noteq> - 1
      then (Chk ''getwd'', [uint buf, uint (objsize cc buf)])
      else (Alias_warn ''getwd'', [uint buf]))"

definition confstr :: "compiler \<Rightarrow> u32 \<Rightarrow> u64 \<Rightarrow> u64 \<Rightarrow> bool \<Rightarrow> ext_call" where
  "confstr cc name buf len c =
     (if objsize cc buf \<noteq> - 1 \<and> \<not> c
      then (Chk ''confstr'', [sint name, uint buf, uint len, uint (objsize cc buf)])
      else if objsize cc buf \<noteq> - 1 \<and> objsize cc buf < len
      then (Chk_warn ''confstr'', [sint name, uint buf, uint len, uint (objsize cc buf)])
      else (Alias ''confstr'', [sint name, uint buf, uint len]))"

definition getgroups :: "compiler \<Rightarrow> u32 \<Rightarrow> u64 \<Rightarrow> bool \<Rightarrow> ext_call" where
  "getgroups cc sz grouplist c =
     (if objsize cc grouplist \<noteq> - 1 \<and> (\<not> c \<or> sz <s 0)
      then (Chk ''getgroups'', [sint sz, uint grouplist, uint (objsize cc grouplist)])
      else if objsize cc grouplist \<noteq> - 1 \<and> objsize cc grouplist < scast sz * 4
      then (Chk_warn ''getgroups'', [sint sz, uint grouplist, uint (objsize cc grouplist)])
      else (Alias ''getgroups'', [sint sz, uint grouplist]))"

definition ttyname_r :: "compiler \<Rightarrow> u32 \<Rightarrow> u64 \<Rightarrow> u64 \<Rightarrow> bool \<Rightarrow> ext_call" where
  "ttyname_r cc fd buf buflen c =
     (if objsize cc buf \<noteq> - 1 \<and> \<not> c
      then (Chk ''ttyname_r'', [sint fd, uint buf, uint buflen, uint (objsize cc buf)])
      else if objsize cc buf \<noteq> - 1 \<and> objsize cc buf < buflen
      then (Chk_warn ''ttyname_r'', [sint fd, uint buf, uint buflen, uint (objsize cc buf)])
      else (Alias ''ttyname_r'', [sint fd, uint buf, uint buflen]))"

definition getlogin_r :: "compiler \<Rightarrow> u64 \<Rightarrow> u64 \<Rightarrow> bool \<Rightarrow> ext_call" where
  "getlogin_r cc buf buflen c =
     (if objsize cc buf \<noteq> - 1 \<and> \<not> c
      then (Chk ''getlogin_r'', [uint buf, uint buflen, uint (objsize cc buf)])
      else if objsize cc buf \<noteq> - 1 \<and> objsize cc buf < buflen
      then (Chk_warn ''getlogin_r'', [uint buf, uint buflen, uint (objsize cc buf)])
      else (Alias ''getlogin_r'', [uint buf, uint buflen]))"

definition gethostname :: "compiler \<Rightarrow> u64 \<Rightarrow> u64 \<Rightarrow> bool \<Rightarrow> ext_call" where
  "gethostname cc buf buflen c =
     (if objsize cc buf \<noteq> - 1 \<and> \<not> c
      then (Chk ''gethostname'', [uint buf, uint buflen, uint (objsize cc buf)])
      else if objsize cc buf \<noteq> - 1 \<and> objsize cc buf < buflen
      then (Chk_warn ''gethostname'', [uint buf, uint buflen, uint (objsize cc buf)])
      else (Alias ''gethostname'', [uint buf, uint buflen]))"

definition getdomainname :: "compiler \<Rightarrow> u64 \<Rightarrow> u64 \<Rightarrow> bool \<Rightarrow> ext_call" where
  "getdomainname cc buf buflen c =
     (if objsize cc buf \<noteq> - 1 \<and> \<not> c
      then (Chk ''getdomainname'', [uint buf, uint buflen, uint (objsize cc buf)])
      else if objsize cc buf \<noteq> - 1 \<and> objsize cc buf < buflen
      then (Chk_warn ''getdomainname'', [uint buf, uint buflen, uint (objsize cc buf)])
      else (Alias ''getdomainname'', [uint buf, uint buflen]))"

definition recv :: "compiler \<Rightarrow> u32 \<Rightarrow> u64 \<Rightarrow> u64 \<Rightarrow> u32 \<Rightarrow> bool \<Rightarrow> ext_call" where
  "recv cc fd buf n flags c =
     (if objsize0 cc buf \<noteq> - 1 \<and> \<not> c
      then (Chk ''recv'', [sint fd, uint buf, uint n, uint (objsize0 cc buf), sint flags])
      else if objsize0 cc buf \<noteq> - 1 \<and> objsize0 cc buf < n
      then (Chk_warn ''recv'', [sint fd, uint buf, uint n, uint (objsize0 cc buf), sint flags])
      else (Alias ''recv'', [sint fd, uint buf, uint n, sint flags]))"

definition recvfrom :: "compiler \<Rightarrow> u32 \<Rightarrow> u64 \<Rightarrow> u64 \<Rightarrow> u32 \<Rightarrow> u64 \<Rightarrow> u64 \<Rightarrow> bool \<Rightarrow> ext_call" where
  "recvfrom cc fd buf n flags addr addr_len c =
     (if objsize0 cc buf \<noteq> - 1 \<and> \<not> c
      then (Chk ''recvfrom'', [sint fd, uint buf, uint n, uint (objsize0 cc buf), sint flags, uint addr, uint addr_len])
      else if objsize0 cc buf \<noteq> - 1 \<and> objsize0 cc buf < n
      then (Chk_warn ''recvfrom'', [sint fd, uint buf, uint n, uint (objsize0 cc buf), sint flags, uint addr, uint addr_len])
      else (Alias ''recvfrom'', [sint fd, uint buf, uint n, sint flags, uint addr, uint addr_len]))"

definition poll :: "compiler \<Rightarrow> u64 \<Rightarrow> u64 \<Rightarrow> u32 \<Rightarrow> bool \<Rightarrow> ext_call" where
  "poll cc fds nfds timeout c =
     (if objsize cc fds \<noteq> - 1 \<and> \<not> c
      then (Chk ''poll'', [uint fds, uint nfds, sint timeout, uint (objsize cc fds)])
      else if objsize cc fds \<noteq> - 1 \<and> objsize cc fds div 8 < nfds
      then (Chk_warn ''poll'', [uint fds, uint nfds, sint timeout, uint (objsize cc fds)])
      else (Alias ''poll'', [uint fds, uint nfds, sint timeout]))"

definition ppoll :: "compiler \<Rightarrow> u64 \<Rightarrow> u64 \<Rightarrow> u64 \<Rightarrow> u64 \<Rightarrow> bool \<Rightarrow> ext_call" where
  "ppoll cc fds nfds timeout ss c =
     (if objsize cc fds \<noteq> - 1 \<and> \<not> c
      then (Chk ''ppoll'', [uint fds, uint nfds, uint timeout, uint ss, uint (objsize cc fds)])
      else if objsize cc fds \<noteq> - 1 \<and> objsize cc fds div 8 < nfds
      then (Chk_warn ''ppoll'', [uint fds, uint nfds, uint timeout, uint ss, uint (objsize cc fds)])
      else (Alias ''ppoll'', [uint fds, uint nfds, uint timeout, uint ss]))"

definition ptsname_r :: "compiler \<Rightarrow> u32 \<Rightarrow> u64 \<Rightarrow> u64 \<Rightarrow> bool \<Rightarrow> ext_call" where
  "ptsname_r cc fd buf buflen c =
     (if objsize cc buf \<noteq> - 1 \<and> \<not> c
      then (Chk ''ptsname_r'', [sint fd, uint buf, uint buflen, uint (objsize cc buf)])
      else if objsize cc buf \<noteq> - 1 \<and> objsize cc buf < buflen
      then (Chk_warn ''ptsname_r'', [sint fd, uint buf, uint buflen, uint (objsize cc buf)])
      else (Alias ''ptsname_r'', [sint fd, uint buf, uint buflen]))"

definition wctomb :: "compiler \<Rightarrow> u64 \<Rightarrow> u32 \<Rightarrow> ext_call" where
  "wctomb cc s wchar =
     (if objsize cc s \<noteq> - 1 \<and> objsize cc s < 16
      then (Chk ''wctomb'', [uint s, uint wchar, uint (objsize cc s)])
      else (Alias ''wctomb'', [uint s, uint wchar]))"

definition mbstowcs :: "compiler \<Rightarrow> u64 \<Rightarrow> u64 \<Rightarrow> u64 \<Rightarrow> bool \<Rightarrow> ext_call" where
  "mbstowcs cc dst src len c =
     (if objsize cc dst \<noteq> - 1 \<and> \<not> c
      then (Chk ''mbstowcs'', [uint dst, uint src, uint len, uint (objsize cc dst div 4)])
      else if objsize cc dst \<noteq> - 1 \<and> objsize cc dst div 4 < len
      then (Chk_warn ''mbstowcs'', [uint dst, uint src, uint len, uint (objsize cc dst div 4)])
      else (Alias ''mbstowcs'', [uint dst, uint src, uint len]))"

definition wcstombs :: "compiler \<Rightarrow> u64 \<Rightarrow> u64 \<Rightarrow> u64 \<Rightarrow> bool \<Rightarrow> ext_call" where
  "wcstombs cc dst src len c =
     (if objsize cc dst \<noteq> - 1 \<and> \<not> c
      then (Chk ''wcstombs'', [uint dst, uint src, uint len, uint (objsize cc dst)])
      else if objsize cc dst \<noteq> - 1 \<and> objsize cc dst < len
      then (Chk_warn ''wcstombs'', [uint dst, uint src, uint len, uint (objsize cc dst)])
      else (Alias ''wcstombs'', [uint dst, uint src, uint len]))"

definition sprintf :: "compiler \<Rightarrow> u64 \<Rightarrow> u64 \<Rightarrow> (int list) \<Rightarrow> ext_call" where
  "sprintf cc s fmt va =
     (Chk ''sprintf'', [uint s, fortify_level cc - 1, uint (objsize cc s), uint fmt] @ va)"

definition vsprintf :: "compiler \<Rightarrow> u64 \<Rightarrow> u64 \<Rightarrow> u64 \<Rightarrow> ext_call" where
  "vsprintf cc s fmt ap =
     (Chk ''vsprintf'', [uint s, fortify_level cc - 1, uint (objsize cc s), uint fmt, uint ap])"

definition snprintf :: "compiler \<Rightarrow> u64 \<Rightarrow> u64 \<Rightarrow> u64 \<Rightarrow> (int list) \<Rightarrow> ext_call" where
  "snprintf cc s n fmt va =
     (Chk ''snprintf'', [uint s, uint n, fortify_level cc - 1, uint (objsize cc s), uint fmt] @ va)"

definition vsnprintf :: "compiler \<Rightarrow> u64 \<Rightarrow> u64 \<Rightarrow> u64 \<Rightarrow> u64 \<Rightarrow> ext_call" where
  "vsnprintf cc s n fmt ap =
     (Chk ''vsnprintf'', [uint s, uint n, fortify_level cc - 1, uint (objsize cc s), uint fmt, uint ap])"

definition fprintf :: "compiler \<Rightarrow> u64 \<Rightarrow> u64 \<Rightarrow> (int list) \<Rightarrow> ext_call" where
  "fprintf cc stream fmt va =
     (Chk ''fprintf'', [uint stream, fortify_level cc - 1, uint fmt] @ va)"

definition printf :: "compiler \<Rightarrow> u64 \<Rightarrow> (int list) \<Rightarrow> ext_call" where
  "printf cc fmt va =
     (Chk ''printf'', [fortify_level cc - 1, uint fmt] @ va)"

definition vprintf :: "compiler \<Rightarrow> bool \<Rightarrow> u64 \<Rightarrow> u64 \<Rightarrow> u64 \<Rightarrow> ext_call" where
  "vprintf cc inlines stdout fmt ap =
     (if inlines then (Chk ''vfprintf'', [uint stdout, fortify_level cc - 1, uint fmt, uint ap])
      else (Chk ''vprintf'', [fortify_level cc - 1, uint fmt, uint ap]))"

definition vfprintf :: "compiler \<Rightarrow> u64 \<Rightarrow> u64 \<Rightarrow> u64 \<Rightarrow> ext_call" where
  "vfprintf cc stream fmt ap =
     (Chk ''vfprintf'', [uint stream, fortify_level cc - 1, uint fmt, uint ap])"

definition dprintf :: "compiler \<Rightarrow> u32 \<Rightarrow> u64 \<Rightarrow> (int list) \<Rightarrow> ext_call" where
  "dprintf cc fd fmt va =
     (Chk ''dprintf'', [sint fd, fortify_level cc - 1, uint fmt] @ va)"

definition vdprintf :: "compiler \<Rightarrow> u32 \<Rightarrow> u64 \<Rightarrow> u64 \<Rightarrow> ext_call" where
  "vdprintf cc fd fmt ap =
     (Chk ''vdprintf'', [sint fd, fortify_level cc - 1, uint fmt, uint ap])"

definition asprintf :: "compiler \<Rightarrow> u64 \<Rightarrow> u64 \<Rightarrow> (int list) \<Rightarrow> ext_call" where
  "asprintf cc ptr fmt va =
     (Chk ''asprintf'', [uint ptr, fortify_level cc - 1, uint fmt] @ va)"

definition u_asprintf :: "compiler \<Rightarrow> u64 \<Rightarrow> u64 \<Rightarrow> (int list) \<Rightarrow> ext_call" where
  "u_asprintf cc ptr fmt va =
     (Chk ''asprintf'', [uint ptr, fortify_level cc - 1, uint fmt] @ va)"

definition obstack_printf :: "compiler \<Rightarrow> u64 \<Rightarrow> u64 \<Rightarrow> (int list) \<Rightarrow> ext_call" where
  "obstack_printf cc obstack fmt va =
     (Chk ''obstack_printf'', [uint obstack, fortify_level cc - 1, uint fmt] @ va)"

definition vasprintf :: "compiler \<Rightarrow> u64 \<Rightarrow> u64 \<Rightarrow> u64 \<Rightarrow> ext_call" where
  "vasprintf cc ptr fmt ap =
     (Chk ''vasprintf'', [uint ptr, fortify_level cc - 1, uint fmt, uint ap])"

definition obstack_vprintf :: "compiler \<Rightarrow> u64 \<Rightarrow> u64 \<Rightarrow> u64 \<Rightarrow> ext_call" where
  "obstack_vprintf cc obstack fmt ap =
     (Chk ''obstack_vprintf'', [uint obstack, fortify_level cc - 1, uint fmt, uint ap])"

definition gets :: "compiler \<Rightarrow> u64 \<Rightarrow> ext_call" where
  "gets cc str =
     (if objsize cc str \<noteq> - 1
      then (Chk ''gets'', [uint str, uint (objsize cc str)])
      else (Alias_warn ''gets'', [uint str]))"

definition fgets :: "compiler \<Rightarrow> u64 \<Rightarrow> u32 \<Rightarrow> u64 \<Rightarrow> bool \<Rightarrow> ext_call" where
  "fgets cc s n stream c =
     (if objsize cc s \<noteq> - 1 \<and> (\<not> c \<or> n \<le>s 0)
      then (Chk ''fgets'', [uint s, uint (objsize cc s), sint n, uint stream])
      else if objsize cc s \<noteq> - 1 \<and> objsize cc s < scast n
      then (Chk_warn ''fgets'', [uint s, uint (objsize cc s), sint n, uint stream])
      else (Alias ''fgets'', [uint s, sint n, uint stream]))"

definition fgets_unlocked :: "compiler \<Rightarrow> u64 \<Rightarrow> u32 \<Rightarrow> u64 \<Rightarrow> bool \<Rightarrow> ext_call" where
  "fgets_unlocked cc s n stream c =
     (if objsize cc s \<noteq> - 1 \<and> (\<not> c \<or> n \<le>s 0)
      then (Chk ''fgets_unlocked'', [uint s, uint (objsize cc s), sint n, uint stream])
      else if objsize cc s \<noteq> - 1 \<and> objsize cc s < scast n
      then (Chk_warn ''fgets_unlocked'', [uint s, uint (objsize cc s), sint n, uint stream])
      else (Alias ''fgets_unlocked'', [uint s, sint n, uint stream]))"

definition fread :: "compiler \<Rightarrow> u64 \<Rightarrow> u64 \<Rightarrow> u64 \<Rightarrow> u64 \<Rightarrow> bool \<Rightarrow> bool \<Rightarrow> ext_call" where
  "fread cc ptr sz n stream cs c =
     (if objsize0 cc ptr \<noteq> - 1 \<and> (\<not> cs \<or> \<not> c \<or> push_bit 32 1 \<le> sz OR n)
      then (Chk ''fread'', [uint ptr, uint (objsize0 cc ptr), uint sz, uint n, uint stream])
      else if objsize0 cc ptr \<noteq> - 1 \<and> objsize0 cc ptr < sz * n
      then (Chk_warn ''fread'', [uint ptr, uint (objsize0 cc ptr), uint sz, uint n, uint stream])
      else (Alias ''fread'', [uint ptr, uint sz, uint n, uint stream]))"

text \<open>
  Here \<open>inlines\<close> is \<^verbatim>\<open>__USE_EXTERN_INLINES\<close>: a few bytes are then read by a loop in the header, at
  most as many as the last number says.
\<close>

definition fread_unlocked_entry ::
    "compiler \<Rightarrow> bool \<Rightarrow> u64 \<Rightarrow> u64 \<Rightarrow> u64 \<Rightarrow> u64 \<Rightarrow> bool \<Rightarrow> bool \<Rightarrow> ext_call" where
  "fread_unlocked_entry cc inlines ptr sz n stream cs c =
     (if objsize0 cc ptr \<noteq> - 1 \<and> (\<not> cs \<or> \<not> c \<or> push_bit 32 1 \<le> sz OR n)
      then (Chk ''fread_unlocked'', [uint ptr, uint (objsize0 cc ptr), uint sz, uint n, uint stream])
      else if objsize0 cc ptr \<noteq> - 1 \<and> objsize0 cc ptr < sz * n
      then (Chk_warn ''fread_unlocked'', [uint ptr, uint (objsize0 cc ptr), uint sz, uint n, uint stream])
      else if inlines \<and> cs \<and> c \<and> sz OR n < push_bit 32 1 \<and> sz * n \<le> 8
      then (Inline ''fread_unlocked'', [uint ptr, uint (sz * n), uint stream])
      else (Alias ''fread_unlocked'', [uint ptr, uint sz, uint n, uint stream]))"

definition fortified_memcpy :: "compiler \<Rightarrow> u64 \<Rightarrow> u64 \<Rightarrow> u64 \<Rightarrow> ext_call" where
  "fortified_memcpy cc dest src len =
     (Chk ''memcpy'', [uint dest, uint src, uint len, uint (objsize0 cc dest)])"

definition memmove :: "compiler \<Rightarrow> u64 \<Rightarrow> u64 \<Rightarrow> u64 \<Rightarrow> ext_call" where
  "memmove cc dest src len =
     (Chk ''memmove'', [uint dest, uint src, uint len, uint (objsize0 cc dest)])"

definition mempcpy :: "compiler \<Rightarrow> u64 \<Rightarrow> u64 \<Rightarrow> u64 \<Rightarrow> ext_call" where
  "mempcpy cc dest src len =
     (Chk ''mempcpy'', [uint dest, uint src, uint len, uint (objsize0 cc dest)])"

definition fortified_memset :: "compiler \<Rightarrow> u64 \<Rightarrow> u32 \<Rightarrow> u64 \<Rightarrow> ext_call" where
  "fortified_memset cc dest ch len =
     (Chk ''memset'', [uint dest, sint ch, uint len, uint (objsize0 cc dest)])"

definition explicit_bzero :: "compiler \<Rightarrow> u64 \<Rightarrow> u64 \<Rightarrow> ext_call" where
  "explicit_bzero cc dest len =
     (Chk ''explicit_bzero'', [uint dest, uint len, uint (objsize0 cc dest)])"

definition strcpy :: "compiler \<Rightarrow> u64 \<Rightarrow> u64 \<Rightarrow> ext_call" where
  "strcpy cc dest src =
     (Chk ''strcpy'', [uint dest, uint src, uint (objsize cc dest)])"

definition stpcpy :: "compiler \<Rightarrow> u64 \<Rightarrow> u64 \<Rightarrow> ext_call" where
  "stpcpy cc dest src =
     (Chk ''stpcpy'', [uint dest, uint src, uint (objsize cc dest)])"

definition strcat :: "compiler \<Rightarrow> u64 \<Rightarrow> u64 \<Rightarrow> ext_call" where
  "strcat cc dest src =
     (Chk ''strcat'', [uint dest, uint src, uint (objsize cc dest)])"

definition strncpy :: "compiler \<Rightarrow> u64 \<Rightarrow> u64 \<Rightarrow> u64 \<Rightarrow> ext_call" where
  "strncpy cc dest src len =
     (Chk ''strncpy'', [uint dest, uint src, uint len, uint (objsize cc dest)])"

definition stpncpy :: "compiler \<Rightarrow> u64 \<Rightarrow> u64 \<Rightarrow> u64 \<Rightarrow> ext_call" where
  "stpncpy cc dest src len =
     (Chk ''stpncpy'', [uint dest, uint src, uint len, uint (objsize cc dest)])"

definition strncat :: "compiler \<Rightarrow> u64 \<Rightarrow> u64 \<Rightarrow> u64 \<Rightarrow> ext_call" where
  "strncat cc dest src len =
     (Chk ''strncat'', [uint dest, uint src, uint len, uint (objsize cc dest)])"

definition bcopy :: "compiler \<Rightarrow> u64 \<Rightarrow> u64 \<Rightarrow> u64 \<Rightarrow> ext_call" where
  "bcopy cc src dest len =
     (Chk ''memmove'', [uint dest, uint src, uint len, uint (objsize0 cc dest)])"

definition bzero :: "compiler \<Rightarrow> u64 \<Rightarrow> u64 \<Rightarrow> ext_call" where
  "bzero cc dest len =
     (Chk ''memset'', [uint dest, 0, uint len, uint (objsize0 cc dest)])"

definition syslog :: "compiler \<Rightarrow> u32 \<Rightarrow> u64 \<Rightarrow> (int list) \<Rightarrow> ext_call" where
  "syslog cc pri fmt va =
     (Chk ''syslog'', [sint pri, fortify_level cc - 1, uint fmt] @ va)"

definition vsyslog :: "compiler \<Rightarrow> u32 \<Rightarrow> u64 \<Rightarrow> u64 \<Rightarrow> ext_call" where
  "vsyslog cc pri fmt ap =
     (Chk ''vsyslog'', [sint pri, fortify_level cc - 1, uint fmt, uint ap])"

definition PATH_MAX :: u64 where "PATH_MAX = 4096"

text \<open>\<open>limits\<close>: \<^verbatim>\<open>limits.h\<close> was included, so that the constant is known.\<close>

definition realpath :: "compiler \<Rightarrow> bool \<Rightarrow> u64 \<Rightarrow> u64 \<Rightarrow> ext_call" where
  "realpath cc limits name resolved =
     (if objsize cc resolved \<noteq> - 1
      then if limits \<and> objsize cc resolved < PATH_MAX
           then (Chk_warn ''realpath'', [uint name, uint resolved, uint (objsize cc resolved)])
           else (Chk ''realpath'', [uint name, uint resolved, uint (objsize cc resolved)])
      else (Alias ''realpath'', [uint name, uint resolved]))"

section \<open>Functions of the common shape\<close>

interpretation read_call: checked_call "\<lambda>cc. objsize0 cc buf" "\<lambda>b. b" 1
    "\<lambda>cc c nbytes. read cc fd buf nbytes c" "''read''"
    "\<lambda>cc nbytes. [sint fd, uint buf, uint nbytes, uint (objsize0 cc buf)]"
    "\<lambda>nbytes. [sint fd, uint buf, uint nbytes]"
  for fd buf
  by unfold_locales (simp_all add: read_def)

interpretation pread_call: checked_call "\<lambda>cc. objsize0 cc buf" "\<lambda>b. b" 1
    "\<lambda>cc c nbytes. pread cc fd buf nbytes off c" "''pread''"
    "\<lambda>cc nbytes. [sint fd, uint buf, uint nbytes, sint off, uint (objsize0 cc buf)]"
    "\<lambda>nbytes. [sint fd, uint buf, uint nbytes, sint off]"
  for fd buf off
  by unfold_locales (simp_all add: pread_def)

interpretation pread_file_offset64_call: checked_call "\<lambda>cc. objsize0 cc buf" "\<lambda>b. b" 1
    "\<lambda>cc c nbytes. pread_file_offset64 cc fd buf nbytes off c" "''pread64''"
    "\<lambda>cc nbytes. [sint fd, uint buf, uint nbytes, sint off, uint (objsize0 cc buf)]"
    "\<lambda>nbytes. [sint fd, uint buf, uint nbytes, sint off]"
  for fd buf off
  by unfold_locales (simp_all add: pread_file_offset64_def)

interpretation pread64_call: checked_call "\<lambda>cc. objsize0 cc buf" "\<lambda>b. b" 1
    "\<lambda>cc c nbytes. pread64 cc fd buf nbytes off c" "''pread64''"
    "\<lambda>cc nbytes. [sint fd, uint buf, uint nbytes, sint off, uint (objsize0 cc buf)]"
    "\<lambda>nbytes. [sint fd, uint buf, uint nbytes, sint off]"
  for fd buf off
  by unfold_locales (simp_all add: pread64_def)

interpretation readlink_call: checked_call "\<lambda>cc. objsize cc buf" "\<lambda>b. b" 1
    "\<lambda>cc c len. readlink cc path buf len c" "''readlink''"
    "\<lambda>cc len. [uint path, uint buf, uint len, uint (objsize cc buf)]"
    "\<lambda>len. [uint path, uint buf, uint len]"
  for path buf
  by unfold_locales (simp_all add: readlink_def)

interpretation readlinkat_call: checked_call "\<lambda>cc. objsize cc buf" "\<lambda>b. b" 1
    "\<lambda>cc c len. readlinkat cc fd path buf len c" "''readlinkat''"
    "\<lambda>cc len. [sint fd, uint path, uint buf, uint len, uint (objsize cc buf)]"
    "\<lambda>len. [sint fd, uint path, uint buf, uint len]"
  for fd path buf
  by unfold_locales (simp_all add: readlinkat_def)

interpretation getcwd_call: checked_call "\<lambda>cc. objsize cc buf" "\<lambda>b. b" 1
    "\<lambda>cc c sz. getcwd cc buf sz c" "''getcwd''"
    "\<lambda>cc sz. [uint buf, uint sz, uint (objsize cc buf)]"
    "\<lambda>sz. [uint buf, uint sz]"
  for buf
  by unfold_locales (simp_all add: getcwd_def)

interpretation confstr_call: checked_call "\<lambda>cc. objsize cc buf" "\<lambda>b. b" 1
    "\<lambda>cc c len. confstr cc name buf len c" "''confstr''"
    "\<lambda>cc len. [sint name, uint buf, uint len, uint (objsize cc buf)]"
    "\<lambda>len. [sint name, uint buf, uint len]"
  for name buf
  by unfold_locales (simp_all add: confstr_def)

interpretation ttyname_r_call: checked_call "\<lambda>cc. objsize cc buf" "\<lambda>b. b" 1
    "\<lambda>cc c buflen. ttyname_r cc fd buf buflen c" "''ttyname_r''"
    "\<lambda>cc buflen. [sint fd, uint buf, uint buflen, uint (objsize cc buf)]"
    "\<lambda>buflen. [sint fd, uint buf, uint buflen]"
  for fd buf
  by unfold_locales (simp_all add: ttyname_r_def)

interpretation getlogin_r_call: checked_call "\<lambda>cc. objsize cc buf" "\<lambda>b. b" 1
    "\<lambda>cc c buflen. getlogin_r cc buf buflen c" "''getlogin_r''"
    "\<lambda>cc buflen. [uint buf, uint buflen, uint (objsize cc buf)]"
    "\<lambda>buflen. [uint buf, uint buflen]"
  for buf
  by unfold_locales (simp_all add: getlogin_r_def)

interpretation gethostname_call: checked_call "\<lambda>cc. objsize cc buf" "\<lambda>b. b" 1
    "\<lambda>cc c buflen. gethostname cc buf buflen c" "''gethostname''"
    "\<lambda>cc buflen. [uint buf, uint buflen, uint (objsize cc buf)]"
    "\<lambda>buflen. [uint buf, uint buflen]"
  for buf
  by unfold_locales (simp_all add: gethostname_def)

interpretation getdomainname_call: checked_call "\<lambda>cc. objsize cc buf" "\<lambda>b. b" 1
    "\<lambda>cc c buflen. getdomainname cc buf buflen c" "''getdomainname''"
    "\<lambda>cc buflen. [uint buf, uint buflen, uint (objsize cc buf)]"
    "\<lambda>buflen. [uint buf, uint buflen]"
  for buf
  by unfold_locales (simp_all add: getdomainname_def)

interpretation recv_call: checked_call "\<lambda>cc. objsize0 cc buf" "\<lambda>b. b" 1
    "\<lambda>cc c n. recv cc fd buf n flags c" "''recv''"
    "\<lambda>cc n. [sint fd, uint buf, uint n, uint (objsize0 cc buf), sint flags]"
    "\<lambda>n. [sint fd, uint buf, uint n, sint flags]"
  for fd buf flags
  by unfold_locales (simp_all add: recv_def)

interpretation recvfrom_call: checked_call "\<lambda>cc. objsize0 cc buf" "\<lambda>b. b" 1
    "\<lambda>cc c n. recvfrom cc fd buf n flags addr addr_len c" "''recvfrom''"
    "\<lambda>cc n. [sint fd, uint buf, uint n, uint (objsize0 cc buf), sint flags, uint addr, uint addr_len]"
    "\<lambda>n. [sint fd, uint buf, uint n, sint flags, uint addr, uint addr_len]"
  for fd buf flags addr addr_len
  by unfold_locales (simp_all add: recvfrom_def)

interpretation poll_call: checked_call "\<lambda>cc. objsize cc fds" "\<lambda>b. b" 8
    "\<lambda>cc c nfds. poll cc fds nfds timeout c" "''poll''"
    "\<lambda>cc nfds. [uint fds, uint nfds, sint timeout, uint (objsize cc fds)]"
    "\<lambda>nfds. [uint fds, uint nfds, sint timeout]"
  for fds timeout
  by unfold_locales (simp_all add: poll_def)

interpretation ppoll_call: checked_call "\<lambda>cc. objsize cc fds" "\<lambda>b. b" 8
    "\<lambda>cc c nfds. ppoll cc fds nfds timeout ss c" "''ppoll''"
    "\<lambda>cc nfds. [uint fds, uint nfds, uint timeout, uint ss, uint (objsize cc fds)]"
    "\<lambda>nfds. [uint fds, uint nfds, uint timeout, uint ss]"
  for fds timeout ss
  by unfold_locales (simp_all add: ppoll_def)

interpretation ptsname_r_call: checked_call "\<lambda>cc. objsize cc buf" "\<lambda>b. b" 1
    "\<lambda>cc c buflen. ptsname_r cc fd buf buflen c" "''ptsname_r''"
    "\<lambda>cc buflen. [sint fd, uint buf, uint buflen, uint (objsize cc buf)]"
    "\<lambda>buflen. [sint fd, uint buf, uint buflen]"
  for fd buf
  by unfold_locales (simp_all add: ptsname_r_def)

interpretation mbstowcs_call: checked_call "\<lambda>cc. objsize cc dst" "\<lambda>b. b div 4" 4
    "\<lambda>cc c len. mbstowcs cc dst src len c" "''mbstowcs''"
    "\<lambda>cc len. [uint dst, uint src, uint len, uint (objsize cc dst div 4)]"
    "\<lambda>len. [uint dst, uint src, uint len]"
  for dst src
  by unfold_locales (simp_all add: mbstowcs_def)

interpretation wcstombs_call: checked_call "\<lambda>cc. objsize cc dst" "\<lambda>b. b" 1
    "\<lambda>cc c len. wcstombs cc dst src len c" "''wcstombs''"
    "\<lambda>cc len. [uint dst, uint src, uint len, uint (objsize cc dst)]"
    "\<lambda>len. [uint dst, uint src, uint len]"
  for dst src
  by unfold_locales (simp_all add: wcstombs_def)

section \<open>The others\<close>

lemma guarded_getwd: "guarded (objsize cc buf) (objsize cc buf) bytes
     (getwd cc buf)"
  by (simp add: getwd_def guarded_def)

lemma guarded_wctomb: "guarded (objsize cc s) (objsize cc s) 16
     (wctomb cc s wchar)"
  by (simp add: wctomb_def guarded_def word_less_nat_alt word_le_nat_alt not_less)

lemma guarded_sprintf: "guarded (objsize cc s) (objsize cc s) bytes
     (sprintf cc s fmt va)"
  by (simp add: sprintf_def guarded_def)

lemma guarded_vsprintf: "guarded (objsize cc s) (objsize cc s) bytes
     (vsprintf cc s fmt ap)"
  by (simp add: vsprintf_def guarded_def)

lemma guarded_snprintf: "guarded (objsize cc s) (objsize cc s) bytes
     (snprintf cc s n fmt va)"
  by (simp add: snprintf_def guarded_def)

lemma guarded_vsnprintf: "guarded (objsize cc s) (objsize cc s) bytes
     (vsnprintf cc s n fmt ap)"
  by (simp add: vsnprintf_def guarded_def)

lemma guarded_gets: "guarded (objsize cc str) (objsize cc str) bytes
     (gets cc str)"
  by (simp add: gets_def guarded_def)

lemma guarded_fortified_memcpy: "guarded (objsize0 cc dest) (objsize0 cc dest) bytes
     (fortified_memcpy cc dest src len)"
  by (simp add: fortified_memcpy_def guarded_def)

lemma guarded_memmove: "guarded (objsize0 cc dest) (objsize0 cc dest) bytes
     (memmove cc dest src len)"
  by (simp add: memmove_def guarded_def)

lemma guarded_mempcpy: "guarded (objsize0 cc dest) (objsize0 cc dest) bytes
     (mempcpy cc dest src len)"
  by (simp add: mempcpy_def guarded_def)

lemma guarded_fortified_memset: "guarded (objsize0 cc dest) (objsize0 cc dest) bytes
     (fortified_memset cc dest ch len)"
  by (simp add: fortified_memset_def guarded_def)

lemma guarded_explicit_bzero: "guarded (objsize0 cc dest) (objsize0 cc dest) bytes
     (explicit_bzero cc dest len)"
  by (simp add: explicit_bzero_def guarded_def)

lemma guarded_strcpy: "guarded (objsize cc dest) (objsize cc dest) bytes
     (strcpy cc dest src)"
  by (simp add: strcpy_def guarded_def)

lemma guarded_stpcpy: "guarded (objsize cc dest) (objsize cc dest) bytes
     (stpcpy cc dest src)"
  by (simp add: stpcpy_def guarded_def)

lemma guarded_strcat: "guarded (objsize cc dest) (objsize cc dest) bytes
     (strcat cc dest src)"
  by (simp add: strcat_def guarded_def)

lemma guarded_strncpy: "guarded (objsize cc dest) (objsize cc dest) bytes
     (strncpy cc dest src len)"
  by (simp add: strncpy_def guarded_def)

lemma guarded_stpncpy: "guarded (objsize cc dest) (objsize cc dest) bytes
     (stpncpy cc dest src len)"
  by (simp add: stpncpy_def guarded_def)

lemma guarded_strncat: "guarded (objsize cc dest) (objsize cc dest) bytes
     (strncat cc dest src len)"
  by (simp add: strncat_def guarded_def)

lemma guarded_bcopy: "guarded (objsize0 cc dest) (objsize0 cc dest) bytes
     (bcopy cc src dest len)"
  by (simp add: bcopy_def guarded_def)

lemma guarded_bzero: "guarded (objsize0 cc dest) (objsize0 cc dest) bytes
     (bzero cc dest len)"
  by (simp add: bzero_def guarded_def)

lemma guarded_realpath: "guarded (objsize cc resolved) (objsize cc resolved) 4096
     (realpath cc limits name resolved)"
  by (simp add: realpath_def guarded_def PATH_MAX_def word_less_nat_alt)

text \<open>A count or length of type \<^verbatim>\<open>int\<close>; one that is not positive asks for nothing.\<close>

lemma guarded_getgroups: "guarded (objsize cc grouplist) (objsize cc grouplist) (4 * nat (sint sz))
     (getgroups cc sz grouplist c)"
proof -
  have "unat (scast sz * 4 :: u64) = 4 * nat (sint sz)" if "\<not> sz <s 0"
  proof -
    have nonneg: "0 \<le> sint sz" using that by (simp add: word_sless_alt not_less)
    have "nat (sint sz) < 2 ^ 31" using sint_lt [of sz] by simp
    then show ?thesis
      using scast_positive [OF nonneg] by (subst unat_mult_lem [THEN iffD1]) auto
  qed
  then show ?thesis
    by (auto simp: getgroups_def guarded_def word_less_nat_alt)
qed

lemma guarded_fgets: "guarded (objsize cc s) (objsize cc s) (nat (sint n)) (fgets cc s n stream c)"
  using scast_positive [of n]
  by (auto simp: fgets_def guarded_def word_less_nat_alt word_sle_eq not_le less_imp_le)

lemma guarded_fgets_unlocked:
  "guarded (objsize cc s) (objsize cc s) (nat (sint n)) (fgets_unlocked cc s n stream c)"
  using scast_positive [of n]
  by (auto simp: fgets_unlocked_def guarded_def word_less_nat_alt word_sle_eq not_le less_imp_le)

text \<open>The product is only formed below \<^verbatim>\<open>2^32\<close>, where it cannot wrap.\<close>

lemma product_exact: "unat (sz * n) = unat sz * unat n" if "sz OR n < push_bit 32 1" for sz n :: u64
proof -
  have low: "\<not> bit (sz OR n) k" if "32 \<le> k" for k
    using less_not_bit [of "sz OR n" 32 k] \<open>sz OR n < push_bit 32 1\<close> that by simp
  have "sz < 2 ^ 32" and "n < 2 ^ 32"
    by (rule bits_less; use low in \<open>simp add: bit_or_iff\<close>)+
  then have "unat sz < 2 ^ 32" and "unat n < 2 ^ 32"
    by (auto simp: word_less_nat_alt)
  then have "unat sz * unat n < 2 ^ 32 * 2 ^ 32"
    by (intro mult_strict_mono) auto
  then show ?thesis
    by (intro unat_mult_lem [THEN iffD1]) simp
qed

lemma guarded_fread: "guarded (objsize0 cc ptr) (objsize0 cc ptr) (unat sz * unat n)
     (fread cc ptr sz n stream cs c)"
  using product_exact [of sz n]
  by (auto simp: fread_def guarded_def word_less_nat_alt not_le not_less simp del: push_bit_of_1)

lemma guarded_fread_unlocked: "guarded (objsize0 cc ptr) (objsize0 cc ptr) (unat sz * unat n)
     (fread_unlocked_entry cc inlines ptr sz n stream cs c)"
  using product_exact [of sz n]
  by (auto simp: fread_unlocked_entry_def guarded_def word_less_nat_alt not_le not_less
      simp del: push_bit_of_1)

end
