(* ===== verification/Fortify_Wide.thy ===== *)
theory Fortify_Wide
  imports Fortify_Base
begin

text \<open>
  The fortified functions on wide characters, \<^verbatim>\<open>bits/wchar2.h\<close>: lengths count characters of four
  bytes, and the checking functions are told the room in characters.
\<close>

section \<open>The functions\<close>

definition wmemcpy :: "compiler \<Rightarrow> u64 \<Rightarrow> u64 \<Rightarrow> u64 \<Rightarrow> bool \<Rightarrow> ext_call" where
  "wmemcpy cc s1 s2 n c =
     (if objsize0 cc s1 \<noteq> - 1 \<and> \<not> c
      then (Chk ''wmemcpy'', [uint s1, uint s2, uint n, uint (objsize0 cc s1 div 4)])
      else if objsize0 cc s1 \<noteq> - 1 \<and> objsize0 cc s1 div 4 < n
      then (Chk_warn ''wmemcpy'', [uint s1, uint s2, uint n, uint (objsize0 cc s1 div 4)])
      else (Alias ''wmemcpy'', [uint s1, uint s2, uint n]))"

definition wmemmove :: "compiler \<Rightarrow> u64 \<Rightarrow> u64 \<Rightarrow> u64 \<Rightarrow> bool \<Rightarrow> ext_call" where
  "wmemmove cc s1 s2 n c =
     (if objsize0 cc s1 \<noteq> - 1 \<and> \<not> c
      then (Chk ''wmemmove'', [uint s1, uint s2, uint n, uint (objsize0 cc s1 div 4)])
      else if objsize0 cc s1 \<noteq> - 1 \<and> objsize0 cc s1 div 4 < n
      then (Chk_warn ''wmemmove'', [uint s1, uint s2, uint n, uint (objsize0 cc s1 div 4)])
      else (Alias ''wmemmove'', [uint s1, uint s2, uint n]))"

definition wmempcpy :: "compiler \<Rightarrow> u64 \<Rightarrow> u64 \<Rightarrow> u64 \<Rightarrow> bool \<Rightarrow> ext_call" where
  "wmempcpy cc s1 s2 n c =
     (if objsize0 cc s1 \<noteq> - 1 \<and> \<not> c
      then (Chk ''wmempcpy'', [uint s1, uint s2, uint n, uint (objsize0 cc s1 div 4)])
      else if objsize0 cc s1 \<noteq> - 1 \<and> objsize0 cc s1 div 4 < n
      then (Chk_warn ''wmempcpy'', [uint s1, uint s2, uint n, uint (objsize0 cc s1 div 4)])
      else (Alias ''wmempcpy'', [uint s1, uint s2, uint n]))"

definition wmemset :: "compiler \<Rightarrow> u64 \<Rightarrow> u32 \<Rightarrow> u64 \<Rightarrow> bool \<Rightarrow> ext_call" where
  "wmemset cc s ch n c =
     (if objsize0 cc s \<noteq> - 1 \<and> \<not> c
      then (Chk ''wmemset'', [uint s, uint ch, uint n, uint (objsize0 cc s div 4)])
      else if objsize0 cc s \<noteq> - 1 \<and> objsize0 cc s div 4 < n
      then (Chk_warn ''wmemset'', [uint s, uint ch, uint n, uint (objsize0 cc s div 4)])
      else (Alias ''wmemset'', [uint s, uint ch, uint n]))"

definition wcscpy :: "compiler \<Rightarrow> u64 \<Rightarrow> u64 \<Rightarrow> ext_call" where
  "wcscpy cc dest src =
     (if objsize cc dest \<noteq> - 1
      then (Chk ''wcscpy'', [uint dest, uint src, uint (objsize cc dest div 4)])
      else (Alias ''wcscpy'', [uint dest, uint src]))"

definition wcpcpy :: "compiler \<Rightarrow> u64 \<Rightarrow> u64 \<Rightarrow> ext_call" where
  "wcpcpy cc dest src =
     (if objsize cc dest \<noteq> - 1
      then (Chk ''wcpcpy'', [uint dest, uint src, uint (objsize cc dest div 4)])
      else (Alias ''wcpcpy'', [uint dest, uint src]))"

definition wcscat :: "compiler \<Rightarrow> u64 \<Rightarrow> u64 \<Rightarrow> ext_call" where
  "wcscat cc dest src =
     (if objsize cc dest \<noteq> - 1
      then (Chk ''wcscat'', [uint dest, uint src, uint (objsize cc dest div 4)])
      else (Alias ''wcscat'', [uint dest, uint src]))"

definition wcsncpy :: "compiler \<Rightarrow> u64 \<Rightarrow> u64 \<Rightarrow> u64 \<Rightarrow> bool \<Rightarrow> ext_call" where
  "wcsncpy cc dest src n c =
     (if objsize cc dest \<noteq> - 1 \<and> \<not> c
      then (Chk ''wcsncpy'', [uint dest, uint src, uint n, uint (objsize cc dest div 4)])
      else if objsize cc dest \<noteq> - 1 \<and> objsize cc dest div 4 < n
      then (Chk_warn ''wcsncpy'', [uint dest, uint src, uint n, uint (objsize cc dest div 4)])
      else (Alias ''wcsncpy'', [uint dest, uint src, uint n]))"

definition wcpncpy :: "compiler \<Rightarrow> u64 \<Rightarrow> u64 \<Rightarrow> u64 \<Rightarrow> bool \<Rightarrow> ext_call" where
  "wcpncpy cc dest src n c =
     (if objsize cc dest \<noteq> - 1 \<and> \<not> c
      then (Chk ''wcpncpy'', [uint dest, uint src, uint n, uint (objsize cc dest div 4)])
      else if objsize cc dest \<noteq> - 1 \<and> objsize cc dest div 4 < n
      then (Chk_warn ''wcpncpy'', [uint dest, uint src, uint n, uint (objsize cc dest div 4)])
      else (Alias ''wcpncpy'', [uint dest, uint src, uint n]))"

definition wcsncat :: "compiler \<Rightarrow> u64 \<Rightarrow> u64 \<Rightarrow> u64 \<Rightarrow> ext_call" where
  "wcsncat cc dest src n =
     (if objsize cc dest \<noteq> - 1
      then (Chk ''wcsncat'', [uint dest, uint src, uint n, uint (objsize cc dest div 4)])
      else (Alias ''wcsncat'', [uint dest, uint src, uint n]))"

definition swprintf :: "compiler \<Rightarrow> u64 \<Rightarrow> u64 \<Rightarrow> u64 \<Rightarrow> (int list) \<Rightarrow> ext_call" where
  "swprintf cc s n fmt va =
     (if objsize cc s \<noteq> - 1 \<or> 1 < fortify_level cc
      then (Chk ''swprintf'', [uint s, uint n, fortify_level cc - 1, uint (objsize cc s div 4), uint fmt] @ va)
      else (Alias ''swprintf'', [uint s, uint n, uint fmt] @ va))"

definition vswprintf :: "compiler \<Rightarrow> u64 \<Rightarrow> u64 \<Rightarrow> u64 \<Rightarrow> u64 \<Rightarrow> ext_call" where
  "vswprintf cc s n fmt ap =
     (if objsize cc s \<noteq> - 1 \<or> 1 < fortify_level cc
      then (Chk ''vswprintf'', [uint s, uint n, fortify_level cc - 1, uint (objsize cc s div 4), uint fmt, uint ap])
      else (Alias ''vswprintf'', [uint s, uint n, uint fmt, uint ap]))"

definition wprintf :: "compiler \<Rightarrow> u64 \<Rightarrow> (int list) \<Rightarrow> ext_call" where
  "wprintf cc fmt va =
     (Chk ''wprintf'', [fortify_level cc - 1, uint fmt] @ va)"

definition fwprintf :: "compiler \<Rightarrow> u64 \<Rightarrow> u64 \<Rightarrow> (int list) \<Rightarrow> ext_call" where
  "fwprintf cc stream fmt va =
     (Chk ''fwprintf'', [uint stream, fortify_level cc - 1, uint fmt] @ va)"

definition vwprintf :: "compiler \<Rightarrow> u64 \<Rightarrow> u64 \<Rightarrow> ext_call" where
  "vwprintf cc fmt ap =
     (Chk ''vwprintf'', [fortify_level cc - 1, uint fmt, uint ap])"

definition vfwprintf :: "compiler \<Rightarrow> u64 \<Rightarrow> u64 \<Rightarrow> u64 \<Rightarrow> ext_call" where
  "vfwprintf cc stream fmt ap =
     (Chk ''vfwprintf'', [uint stream, fortify_level cc - 1, uint fmt, uint ap])"

definition fgetws :: "compiler \<Rightarrow> u64 \<Rightarrow> u32 \<Rightarrow> u64 \<Rightarrow> bool \<Rightarrow> ext_call" where
  "fgetws cc s n stream c =
     (if objsize cc s \<noteq> - 1 \<and> (\<not> c \<or> n \<le>s 0)
      then (Chk ''fgetws'', [uint s, uint (objsize cc s div 4), sint n, uint stream])
      else if objsize cc s \<noteq> - 1 \<and> objsize cc s div 4 < scast n
      then (Chk_warn ''fgetws'', [uint s, uint (objsize cc s div 4), sint n, uint stream])
      else (Alias ''fgetws'', [uint s, sint n, uint stream]))"

definition fgetws_unlocked :: "compiler \<Rightarrow> u64 \<Rightarrow> u32 \<Rightarrow> u64 \<Rightarrow> bool \<Rightarrow> ext_call" where
  "fgetws_unlocked cc s n stream c =
     (if objsize cc s \<noteq> - 1 \<and> (\<not> c \<or> n \<le>s 0)
      then (Chk ''fgetws_unlocked'', [uint s, uint (objsize cc s div 4), sint n, uint stream])
      else if objsize cc s \<noteq> - 1 \<and> objsize cc s div 4 < scast n
      then (Chk_warn ''fgetws_unlocked'', [uint s, uint (objsize cc s div 4), sint n, uint stream])
      else (Alias ''fgetws_unlocked'', [uint s, sint n, uint stream]))"

definition wcrtomb :: "compiler \<Rightarrow> u64 \<Rightarrow> u32 \<Rightarrow> u64 \<Rightarrow> ext_call" where
  "wcrtomb cc s wchar ps =
     (if objsize cc s \<noteq> - 1 \<and> objsize cc s < 16
      then (Chk ''wcrtomb'', [uint s, uint wchar, uint ps, uint (objsize cc s)])
      else (Alias ''wcrtomb'', [uint s, uint wchar, uint ps]))"

definition mbsrtowcs :: "compiler \<Rightarrow> u64 \<Rightarrow> u64 \<Rightarrow> u64 \<Rightarrow> u64 \<Rightarrow> bool \<Rightarrow> ext_call" where
  "mbsrtowcs cc dst src len ps c =
     (if objsize cc dst \<noteq> - 1 \<and> \<not> c
      then (Chk ''mbsrtowcs'', [uint dst, uint src, uint len, uint ps, uint (objsize cc dst div 4)])
      else if objsize cc dst \<noteq> - 1 \<and> objsize cc dst div 4 < len
      then (Chk_warn ''mbsrtowcs'', [uint dst, uint src, uint len, uint ps, uint (objsize cc dst div 4)])
      else (Alias ''mbsrtowcs'', [uint dst, uint src, uint len, uint ps]))"

definition wcsrtombs :: "compiler \<Rightarrow> u64 \<Rightarrow> u64 \<Rightarrow> u64 \<Rightarrow> u64 \<Rightarrow> bool \<Rightarrow> ext_call" where
  "wcsrtombs cc dst src len ps c =
     (if objsize cc dst \<noteq> - 1 \<and> \<not> c
      then (Chk ''wcsrtombs'', [uint dst, uint src, uint len, uint ps, uint (objsize cc dst)])
      else if objsize cc dst \<noteq> - 1 \<and> objsize cc dst < len
      then (Chk_warn ''wcsrtombs'', [uint dst, uint src, uint len, uint ps, uint (objsize cc dst)])
      else (Alias ''wcsrtombs'', [uint dst, uint src, uint len, uint ps]))"

definition mbsnrtowcs :: "compiler \<Rightarrow> u64 \<Rightarrow> u64 \<Rightarrow> u64 \<Rightarrow> u64 \<Rightarrow> u64 \<Rightarrow> bool \<Rightarrow> ext_call" where
  "mbsnrtowcs cc dst src nmc len ps c =
     (if objsize cc dst \<noteq> - 1 \<and> \<not> c
      then (Chk ''mbsnrtowcs'', [uint dst, uint src, uint nmc, uint len, uint ps, uint (objsize cc dst div 4)])
      else if objsize cc dst \<noteq> - 1 \<and> objsize cc dst div 4 < len
      then (Chk_warn ''mbsnrtowcs'', [uint dst, uint src, uint nmc, uint len, uint ps, uint (objsize cc dst div 4)])
      else (Alias ''mbsnrtowcs'', [uint dst, uint src, uint nmc, uint len, uint ps]))"

definition wcsnrtombs :: "compiler \<Rightarrow> u64 \<Rightarrow> u64 \<Rightarrow> u64 \<Rightarrow> u64 \<Rightarrow> u64 \<Rightarrow> bool \<Rightarrow> ext_call" where
  "wcsnrtombs cc dst src nwc len ps c =
     (if objsize cc dst \<noteq> - 1 \<and> \<not> c
      then (Chk ''wcsnrtombs'', [uint dst, uint src, uint nwc, uint len, uint ps, uint (objsize cc dst)])
      else if objsize cc dst \<noteq> - 1 \<and> objsize cc dst < len
      then (Chk_warn ''wcsnrtombs'', [uint dst, uint src, uint nwc, uint len, uint ps, uint (objsize cc dst)])
      else (Alias ''wcsnrtombs'', [uint dst, uint src, uint nwc, uint len, uint ps]))"

section \<open>Functions of the common shape\<close>

interpretation wmemcpy_call: checked_call "\<lambda>cc. objsize0 cc s1" "\<lambda>b. b div 4" 4
    "\<lambda>cc c n. wmemcpy cc s1 s2 n c" "''wmemcpy''"
    "\<lambda>cc n. [uint s1, uint s2, uint n, uint (objsize0 cc s1 div 4)]"
    "\<lambda>n. [uint s1, uint s2, uint n]"
  for s1 s2
  by unfold_locales (simp_all add: wmemcpy_def)

interpretation wmemmove_call: checked_call "\<lambda>cc. objsize0 cc s1" "\<lambda>b. b div 4" 4
    "\<lambda>cc c n. wmemmove cc s1 s2 n c" "''wmemmove''"
    "\<lambda>cc n. [uint s1, uint s2, uint n, uint (objsize0 cc s1 div 4)]"
    "\<lambda>n. [uint s1, uint s2, uint n]"
  for s1 s2
  by unfold_locales (simp_all add: wmemmove_def)

interpretation wmempcpy_call: checked_call "\<lambda>cc. objsize0 cc s1" "\<lambda>b. b div 4" 4
    "\<lambda>cc c n. wmempcpy cc s1 s2 n c" "''wmempcpy''"
    "\<lambda>cc n. [uint s1, uint s2, uint n, uint (objsize0 cc s1 div 4)]"
    "\<lambda>n. [uint s1, uint s2, uint n]"
  for s1 s2
  by unfold_locales (simp_all add: wmempcpy_def)

interpretation wmemset_call: checked_call "\<lambda>cc. objsize0 cc s" "\<lambda>b. b div 4" 4
    "\<lambda>cc c n. wmemset cc s ch n c" "''wmemset''"
    "\<lambda>cc n. [uint s, uint ch, uint n, uint (objsize0 cc s div 4)]"
    "\<lambda>n. [uint s, uint ch, uint n]"
  for s ch
  by unfold_locales (simp_all add: wmemset_def)

interpretation wcsncpy_call: checked_call "\<lambda>cc. objsize cc dest" "\<lambda>b. b div 4" 4
    "\<lambda>cc c n. wcsncpy cc dest src n c" "''wcsncpy''"
    "\<lambda>cc n. [uint dest, uint src, uint n, uint (objsize cc dest div 4)]"
    "\<lambda>n. [uint dest, uint src, uint n]"
  for dest src
  by unfold_locales (simp_all add: wcsncpy_def)

interpretation wcpncpy_call: checked_call "\<lambda>cc. objsize cc dest" "\<lambda>b. b div 4" 4
    "\<lambda>cc c n. wcpncpy cc dest src n c" "''wcpncpy''"
    "\<lambda>cc n. [uint dest, uint src, uint n, uint (objsize cc dest div 4)]"
    "\<lambda>n. [uint dest, uint src, uint n]"
  for dest src
  by unfold_locales (simp_all add: wcpncpy_def)

interpretation mbsrtowcs_call: checked_call "\<lambda>cc. objsize cc dst" "\<lambda>b. b div 4" 4
    "\<lambda>cc c len. mbsrtowcs cc dst src len ps c" "''mbsrtowcs''"
    "\<lambda>cc len. [uint dst, uint src, uint len, uint ps, uint (objsize cc dst div 4)]"
    "\<lambda>len. [uint dst, uint src, uint len, uint ps]"
  for dst src ps
  by unfold_locales (simp_all add: mbsrtowcs_def)

interpretation wcsrtombs_call: checked_call "\<lambda>cc. objsize cc dst" "\<lambda>b. b" 1
    "\<lambda>cc c len. wcsrtombs cc dst src len ps c" "''wcsrtombs''"
    "\<lambda>cc len. [uint dst, uint src, uint len, uint ps, uint (objsize cc dst)]"
    "\<lambda>len. [uint dst, uint src, uint len, uint ps]"
  for dst src ps
  by unfold_locales (simp_all add: wcsrtombs_def)

interpretation mbsnrtowcs_call: checked_call "\<lambda>cc. objsize cc dst" "\<lambda>b. b div 4" 4
    "\<lambda>cc c len. mbsnrtowcs cc dst src nmc len ps c" "''mbsnrtowcs''"
    "\<lambda>cc len. [uint dst, uint src, uint nmc, uint len, uint ps, uint (objsize cc dst div 4)]"
    "\<lambda>len. [uint dst, uint src, uint nmc, uint len, uint ps]"
  for dst src nmc ps
  by unfold_locales (simp_all add: mbsnrtowcs_def)

interpretation wcsnrtombs_call: checked_call "\<lambda>cc. objsize cc dst" "\<lambda>b. b" 1
    "\<lambda>cc c len. wcsnrtombs cc dst src nwc len ps c" "''wcsnrtombs''"
    "\<lambda>cc len. [uint dst, uint src, uint nwc, uint len, uint ps, uint (objsize cc dst)]"
    "\<lambda>len. [uint dst, uint src, uint nwc, uint len, uint ps]"
  for dst src nwc ps
  by unfold_locales (simp_all add: wcsnrtombs_def)

section \<open>The others\<close>

lemma guarded_wcscpy: "guarded (objsize cc dest) (objsize cc dest div 4) bytes
     (wcscpy cc dest src)"
  by (simp add: wcscpy_def guarded_def)

lemma guarded_wcpcpy: "guarded (objsize cc dest) (objsize cc dest div 4) bytes
     (wcpcpy cc dest src)"
  by (simp add: wcpcpy_def guarded_def)

lemma guarded_wcscat: "guarded (objsize cc dest) (objsize cc dest div 4) bytes
     (wcscat cc dest src)"
  by (simp add: wcscat_def guarded_def)

lemma guarded_wcsncat: "guarded (objsize cc dest) (objsize cc dest div 4) bytes
     (wcsncat cc dest src n)"
  by (simp add: wcsncat_def guarded_def)

lemma guarded_swprintf: "guarded (objsize cc s) (objsize cc s div 4) bytes
     (swprintf cc s n fmt va)"
  by (simp add: swprintf_def guarded_def)

lemma guarded_vswprintf: "guarded (objsize cc s) (objsize cc s div 4) bytes
     (vswprintf cc s n fmt ap)"
  by (simp add: vswprintf_def guarded_def)

lemma guarded_wcrtomb: "guarded (objsize cc s) (objsize cc s) 16
     (wcrtomb cc s wchar ps)"
  by (simp add: wcrtomb_def guarded_def word_less_nat_alt word_le_nat_alt not_less)

lemma guarded_fgetws: "guarded (objsize cc s) (objsize cc s div 4) (4 * nat (sint n)) (fgetws cc s n stream c)"
  using scast_positive [of n] div_less_iff [of 4 "objsize cc s" "scast n"]
  by (auto simp: fgetws_def guarded_def word_sle_eq not_le less_imp_le)

lemma guarded_fgetws_unlocked:
  "guarded (objsize cc s) (objsize cc s div 4) (4 * nat (sint n)) (fgetws_unlocked cc s n stream c)"
  using scast_positive [of n] div_less_iff [of 4 "objsize cc s" "scast n"]
  by (auto simp: fgetws_unlocked_def guarded_def word_sle_eq not_le less_imp_le)

end
