(* ===== verification/Fortify.thy ===== *)
theory Fortify
  imports Fortify_Calls Fortify_Wide
begin

text \<open>
  Every fortified function that fills an object, as one relation, and what holds for all of them; the
  functions that open files (\<^verbatim>\<open>bits/fcntl2.h\<close>, \<^verbatim>\<open>bits/mqueue2.h\<close>), where the checked property is
  whether a mode is passed; and the index of a descriptor set (\<^verbatim>\<open>bits/select2.h\<close>).
\<close>

section \<open>Functions that fill an object\<close>

text \<open>
  \<open>fortified cc b room bytes call\<close>: some function makes \<open>call\<close>, for a destination whose size the
  compiler gives as \<open>b\<close>, that is \<open>room\<close> in the function's unit, and of which \<open>bytes\<close> are to be filled.
  Where the number is not an argument (a string is copied, text is formatted), it is arbitrary.
\<close>

inductive fortified :: "compiler \<Rightarrow> u64 \<Rightarrow> u64 \<Rightarrow> nat \<Rightarrow> ext_call \<Rightarrow> bool" where
  read: "fortified cc (objsize0 cc buf) (objsize0 cc buf) (unat nbytes)
     (read cc fd buf nbytes c)"
| pread: "fortified cc (objsize0 cc buf) (objsize0 cc buf) (unat nbytes)
     (pread cc fd buf nbytes off c)"
| pread_file_offset64: "fortified cc (objsize0 cc buf) (objsize0 cc buf) (unat nbytes)
     (pread_file_offset64 cc fd buf nbytes off c)"
| pread64: "fortified cc (objsize0 cc buf) (objsize0 cc buf) (unat nbytes)
     (pread64 cc fd buf nbytes off c)"
| readlink: "fortified cc (objsize cc buf) (objsize cc buf) (unat len)
     (readlink cc path buf len c)"
| readlinkat: "fortified cc (objsize cc buf) (objsize cc buf) (unat len)
     (readlinkat cc fd path buf len c)"
| getcwd: "fortified cc (objsize cc buf) (objsize cc buf) (unat sz)
     (getcwd cc buf sz c)"
| getwd: "fortified cc (objsize cc buf) (objsize cc buf) bytes
     (getwd cc buf)"
| confstr: "fortified cc (objsize cc buf) (objsize cc buf) (unat len)
     (confstr cc name buf len c)"
| getgroups: "fortified cc (objsize cc grouplist) (objsize cc grouplist) (4 * nat (sint sz))
     (getgroups cc sz grouplist c)"
| ttyname_r: "fortified cc (objsize cc buf) (objsize cc buf) (unat buflen)
     (ttyname_r cc fd buf buflen c)"
| getlogin_r: "fortified cc (objsize cc buf) (objsize cc buf) (unat buflen)
     (getlogin_r cc buf buflen c)"
| gethostname: "fortified cc (objsize cc buf) (objsize cc buf) (unat buflen)
     (gethostname cc buf buflen c)"
| getdomainname: "fortified cc (objsize cc buf) (objsize cc buf) (unat buflen)
     (getdomainname cc buf buflen c)"
| recv: "fortified cc (objsize0 cc buf) (objsize0 cc buf) (unat n)
     (recv cc fd buf n flags c)"
| recvfrom: "fortified cc (objsize0 cc buf) (objsize0 cc buf) (unat n)
     (recvfrom cc fd buf n flags addr addr_len c)"
| poll: "fortified cc (objsize cc fds) (objsize cc fds) (8 * unat nfds)
     (poll cc fds nfds timeout c)"
| ppoll: "fortified cc (objsize cc fds) (objsize cc fds) (8 * unat nfds)
     (ppoll cc fds nfds timeout ss c)"
| ptsname_r: "fortified cc (objsize cc buf) (objsize cc buf) (unat buflen)
     (ptsname_r cc fd buf buflen c)"
| wctomb: "fortified cc (objsize cc s) (objsize cc s) 16
     (wctomb cc s wchar)"
| mbstowcs: "fortified cc (objsize cc dst) (objsize cc dst div 4) (4 * unat len)
     (mbstowcs cc dst src len c)"
| wcstombs: "fortified cc (objsize cc dst) (objsize cc dst) (unat len)
     (wcstombs cc dst src len c)"
| sprintf: "fortified cc (objsize cc s) (objsize cc s) bytes
     (sprintf cc s fmt va)"
| vsprintf: "fortified cc (objsize cc s) (objsize cc s) bytes
     (vsprintf cc s fmt ap)"
| snprintf: "fortified cc (objsize cc s) (objsize cc s) bytes
     (snprintf cc s n fmt va)"
| vsnprintf: "fortified cc (objsize cc s) (objsize cc s) bytes
     (vsnprintf cc s n fmt ap)"
| gets: "fortified cc (objsize cc str) (objsize cc str) bytes
     (gets cc str)"
| fgets: "fortified cc (objsize cc s) (objsize cc s) (nat (sint n))
     (fgets cc s n stream c)"
| fgets_unlocked: "fortified cc (objsize cc s) (objsize cc s) (nat (sint n))
     (fgets_unlocked cc s n stream c)"
| fread: "fortified cc (objsize0 cc ptr) (objsize0 cc ptr) (unat sz * unat n)
     (fread cc ptr sz n stream cs c)"
| fread_unlocked: "fortified cc (objsize0 cc ptr) (objsize0 cc ptr) (unat sz * unat n)
     (fread_unlocked_entry cc inlines ptr sz n stream cs c)"
| fortified_memcpy: "fortified cc (objsize0 cc dest) (objsize0 cc dest) bytes
     (fortified_memcpy cc dest src len)"
| memmove: "fortified cc (objsize0 cc dest) (objsize0 cc dest) bytes
     (memmove cc dest src len)"
| mempcpy: "fortified cc (objsize0 cc dest) (objsize0 cc dest) bytes
     (mempcpy cc dest src len)"
| fortified_memset: "fortified cc (objsize0 cc dest) (objsize0 cc dest) bytes
     (fortified_memset cc dest ch len)"
| explicit_bzero: "fortified cc (objsize0 cc dest) (objsize0 cc dest) bytes
     (explicit_bzero cc dest len)"
| strcpy: "fortified cc (objsize cc dest) (objsize cc dest) bytes
     (strcpy cc dest src)"
| stpcpy: "fortified cc (objsize cc dest) (objsize cc dest) bytes
     (stpcpy cc dest src)"
| strcat: "fortified cc (objsize cc dest) (objsize cc dest) bytes
     (strcat cc dest src)"
| strncpy: "fortified cc (objsize cc dest) (objsize cc dest) bytes
     (strncpy cc dest src len)"
| stpncpy: "fortified cc (objsize cc dest) (objsize cc dest) bytes
     (stpncpy cc dest src len)"
| strncat: "fortified cc (objsize cc dest) (objsize cc dest) bytes
     (strncat cc dest src len)"
| bcopy: "fortified cc (objsize0 cc dest) (objsize0 cc dest) bytes
     (bcopy cc src dest len)"
| bzero: "fortified cc (objsize0 cc dest) (objsize0 cc dest) bytes
     (bzero cc dest len)"
| wmemcpy: "fortified cc (objsize0 cc s1) (objsize0 cc s1 div 4) (4 * unat n)
     (wmemcpy cc s1 s2 n c)"
| wmemmove: "fortified cc (objsize0 cc s1) (objsize0 cc s1 div 4) (4 * unat n)
     (wmemmove cc s1 s2 n c)"
| wmempcpy: "fortified cc (objsize0 cc s1) (objsize0 cc s1 div 4) (4 * unat n)
     (wmempcpy cc s1 s2 n c)"
| wmemset: "fortified cc (objsize0 cc s) (objsize0 cc s div 4) (4 * unat n)
     (wmemset cc s ch n c)"
| wcscpy: "fortified cc (objsize cc dest) (objsize cc dest div 4) bytes
     (wcscpy cc dest src)"
| wcpcpy: "fortified cc (objsize cc dest) (objsize cc dest div 4) bytes
     (wcpcpy cc dest src)"
| wcscat: "fortified cc (objsize cc dest) (objsize cc dest div 4) bytes
     (wcscat cc dest src)"
| wcsncpy: "fortified cc (objsize cc dest) (objsize cc dest div 4) (4 * unat n)
     (wcsncpy cc dest src n c)"
| wcpncpy: "fortified cc (objsize cc dest) (objsize cc dest div 4) (4 * unat n)
     (wcpncpy cc dest src n c)"
| wcsncat: "fortified cc (objsize cc dest) (objsize cc dest div 4) bytes
     (wcsncat cc dest src n)"
| swprintf: "fortified cc (objsize cc s) (objsize cc s div 4) bytes
     (swprintf cc s n fmt va)"
| vswprintf: "fortified cc (objsize cc s) (objsize cc s div 4) bytes
     (vswprintf cc s n fmt ap)"
| fgetws: "fortified cc (objsize cc s) (objsize cc s div 4) (4 * nat (sint n))
     (fgetws cc s n stream c)"
| fgetws_unlocked: "fortified cc (objsize cc s) (objsize cc s div 4) (4 * nat (sint n))
     (fgetws_unlocked cc s n stream c)"
| wcrtomb: "fortified cc (objsize cc s) (objsize cc s) 16
     (wcrtomb cc s wchar ps)"
| mbsrtowcs: "fortified cc (objsize cc dst) (objsize cc dst div 4) (4 * unat len)
     (mbsrtowcs cc dst src len ps c)"
| wcsrtombs: "fortified cc (objsize cc dst) (objsize cc dst) (unat len)
     (wcsrtombs cc dst src len ps c)"
| mbsnrtowcs: "fortified cc (objsize cc dst) (objsize cc dst div 4) (4 * unat len)
     (mbsnrtowcs cc dst src nmc len ps c)"
| wcsnrtombs: "fortified cc (objsize cc dst) (objsize cc dst) (unat len)
     (wcsnrtombs cc dst src nwc len ps c)"
| realpath: "fortified cc (objsize cc resolved) (objsize cc resolved) 4096 (realpath cc limits name resolved)"

lemmas guarded_calls [simplified] =
  read_call.guarded pread_call.guarded pread_file_offset64_call.guarded pread64_call.guarded
  readlink_call.guarded readlinkat_call.guarded getcwd_call.guarded guarded_getwd
  confstr_call.guarded guarded_getgroups ttyname_r_call.guarded getlogin_r_call.guarded
  gethostname_call.guarded getdomainname_call.guarded recv_call.guarded recvfrom_call.guarded
  poll_call.guarded ppoll_call.guarded ptsname_r_call.guarded guarded_wctomb mbstowcs_call.guarded
  wcstombs_call.guarded guarded_sprintf guarded_vsprintf guarded_snprintf guarded_vsnprintf
  guarded_gets guarded_fgets guarded_fgets_unlocked guarded_fread guarded_fread_unlocked guarded_fortified_memcpy
  guarded_memmove guarded_mempcpy guarded_fortified_memset guarded_explicit_bzero guarded_strcpy
  guarded_stpcpy guarded_strcat guarded_strncpy guarded_stpncpy guarded_strncat guarded_bcopy
  guarded_bzero wmemcpy_call.guarded wmemmove_call.guarded wmempcpy_call.guarded
  wmemset_call.guarded guarded_wcscpy guarded_wcpcpy guarded_wcscat wcsncpy_call.guarded
  wcpncpy_call.guarded guarded_wcsncat guarded_swprintf guarded_vswprintf guarded_fgetws
  guarded_fgetws_unlocked guarded_wcrtomb mbsrtowcs_call.guarded wcsrtombs_call.guarded
  mbsnrtowcs_call.guarded wcsnrtombs_call.guarded guarded_realpath

text \<open>C7: No fortified function of the C library headers that fills an object of the caller calls the
  unchecked function, or fills it with code of its own, when the request is known to overrun the object:
  then the object's size is not known or the whole request fits, computed without wrapping.  The
  compiler warns only about requests that do not fit, except that getwd and gets, which are told no
  size, warn whenever the object's size is not known; and the checking function is always told the
  room there is.\<close>

theorem fortified_calls_guarded: "fortified cc b room bytes call \<Longrightarrow> guarded b room bytes call"
  by (induction rule: fortified.induct) (rule guarded_calls)+

definition sized :: "u64 \<Rightarrow> compiler" where
  "sized b = \<lparr>objsize0 = (\<lambda>_. b), objsize = (\<lambda>_. b), fortify_level = 2\<rparr>"

theorem fortified_calls_guarded_witness:
  "guarded 16 4 20 (wmemcpy (sized 16) 4096 8192 5 True)"
  using fortified_calls_guarded [OF fortified.wmemcpy [of "sized 16" 4096 5 8192 True]] by (simp add: sized_def)

section \<open>Opening files\<close>

text \<open>\<^verbatim>\<open>bits/fcntl.h\<close> and \<^verbatim>\<open>bits/fcntl-linux.h\<close>, in octal there.\<close>

definition O_CREAT :: u32 where "O_CREAT = 64"

definition O_DIRECTORY :: u32 where "O_DIRECTORY = 16384"

definition O_TMPFILE :: u32 where "O_TMPFILE = 4194304 OR O_DIRECTORY"

definition OPEN_NEEDS_MODE :: "u32 \<Rightarrow> bool" where
  "OPEN_NEEDS_MODE oflag \<longleftrightarrow> oflag AND O_CREAT \<noteq> 0 \<or> oflag AND O_TMPFILE = O_TMPFILE"

text \<open>
  The error functions that are called, which stop the compilation when the call is not removed, and the
  library function; \<open>va\<close> are the anonymous arguments, \<open>c\<close> says whether the flags are constant.
\<close>

definition fortified_open :: "u64 \<Rightarrow> u32 \<Rightarrow> bool \<Rightarrow> int list \<Rightarrow> string list \<times> ext_call" where
  "fortified_open path oflag c va =
     (let many = (if 1 < length va then [''__open_too_many_args''] else []) in
      if c
      then if OPEN_NEEDS_MODE oflag \<and> length va < 1
           then (many @ [''__open_missing_mode''], (Short ''open'', [uint path, sint oflag]))
           else (many, (Alias ''open'', [uint path, sint oflag] @ va))
      else if length va < 1
      then (many, (Short ''open'', [uint path, sint oflag]))
      else (many, (Alias ''open'', [uint path, sint oflag] @ va)))"

definition fortified_open64 :: "u64 \<Rightarrow> u32 \<Rightarrow> bool \<Rightarrow> int list \<Rightarrow> string list \<times> ext_call" where
  "fortified_open64 path oflag c va =
     (let many = (if 1 < length va then [''__open64_too_many_args''] else []) in
      if c
      then if OPEN_NEEDS_MODE oflag \<and> length va < 1
           then (many @ [''__open64_missing_mode''], (Short ''open64'', [uint path, sint oflag]))
           else (many, (Alias ''open64'', [uint path, sint oflag] @ va))
      else if length va < 1
      then (many, (Short ''open64'', [uint path, sint oflag]))
      else (many, (Alias ''open64'', [uint path, sint oflag] @ va)))"

definition fortified_openat :: "u32 \<Rightarrow> u64 \<Rightarrow> u32 \<Rightarrow> bool \<Rightarrow> int list \<Rightarrow> string list \<times> ext_call" where
  "fortified_openat fd path oflag c va =
     (let many = (if 1 < length va then [''__openat_too_many_args''] else []) in
      if c
      then if OPEN_NEEDS_MODE oflag \<and> length va < 1
           then (many @ [''__openat_missing_mode''], (Short ''openat'', [sint fd, uint path, sint oflag]))
           else (many, (Alias ''openat'', [sint fd, uint path, sint oflag] @ va))
      else if length va < 1
      then (many, (Short ''openat'', [sint fd, uint path, sint oflag]))
      else (many, (Alias ''openat'', [sint fd, uint path, sint oflag] @ va)))"

definition fortified_openat64 :: "u32 \<Rightarrow> u64 \<Rightarrow> u32 \<Rightarrow> bool \<Rightarrow> int list \<Rightarrow> string list \<times> ext_call" where
  "fortified_openat64 fd path oflag c va =
     (let many = (if 1 < length va then [''__openat64_too_many_args''] else []) in
      if c
      then if OPEN_NEEDS_MODE oflag \<and> length va < 1
           then (many @ [''__openat64_missing_mode''], (Short ''openat64'', [sint fd, uint path, sint oflag]))
           else (many, (Alias ''openat64'', [sint fd, uint path, sint oflag] @ va))
      else if length va < 1
      then (many, (Short ''openat64'', [sint fd, uint path, sint oflag]))
      else (many, (Alias ''openat64'', [sint fd, uint path, sint oflag] @ va)))"

definition mq_open :: "u64 \<Rightarrow> u32 \<Rightarrow> bool \<Rightarrow> int list \<Rightarrow> string list \<times> ext_call" where
  "mq_open name oflag c va =
     (let wrong = (if length va \<noteq> 0 \<and> length va \<noteq> 2 then [''__mq_open_wrong_number_of_args''] else []) in
      if c
      then if oflag AND O_CREAT \<noteq> 0 \<and> length va = 0
           then (wrong @ [''__mq_open_missing_mode_and_attr''], (Short ''mq_open'', [uint name, sint oflag]))
           else (wrong, (Alias ''mq_open'', [uint name, sint oflag] @ va))
      else if length va = 0
      then (wrong, (Short ''mq_open'', [uint name, sint oflag]))
      else (wrong, (Alias ''mq_open'', [uint name, sint oflag] @ va)))"

text \<open>What they share: \<open>needs\<close> tells which flags need the \<open>k\<close> further arguments.\<close>

locale opener =
  fixes call :: "u32 \<Rightarrow> bool \<Rightarrow> int list \<Rightarrow> string list \<times> ext_call"
    and f :: string
    and fixed :: "u32 \<Rightarrow> int list"
    and needs :: "u32 \<Rightarrow> bool"
    and k :: nat
  assumes plain: "snd (call oflag c va) =
      (if va = [] \<and> (c \<longrightarrow> needs oflag) then (Short f, fixed oflag) else (Alias f, fixed oflag @ va))"
    and accepted: "fst (call oflag c va) = [] \<longleftrightarrow>
      (va = [] \<or> length va = k) \<and> \<not> (c \<and> needs oflag \<and> va = [])"
begin

lemma arguments_complete:
  assumes "call oflag c va = ([], e, args)"
  shows "e = Short f \<and> args = fixed oflag \<and> \<not> c \<and> va = [] \<or>
         e = Alias f \<and> args = fixed oflag \<and> c \<and> \<not> needs oflag \<and> va = [] \<or>
         e = Alias f \<and> args = fixed oflag @ va \<and> length va = k"
  using plain [of oflag c va] accepted [of oflag c va] assms by (auto split: if_splits)

end

lemma none_or_one: "\<not> 1 < length va \<longleftrightarrow> va = [] \<or> length va = 1"
  by (cases va) auto

interpretation open_call: opener "fortified_open path" "''open''" "\<lambda>oflag. [uint path, sint oflag]" OPEN_NEEDS_MODE 1
  for path
  by unfold_locales (use none_or_one in \<open>auto simp: fortified_open_def Let_def\<close>)

interpretation open64_call: opener "fortified_open64 path" "''open64''" "\<lambda>oflag. [uint path, sint oflag]" OPEN_NEEDS_MODE 1
  for path
  by unfold_locales (use none_or_one in \<open>auto simp: fortified_open64_def Let_def\<close>)

interpretation openat_call: opener "fortified_openat fd path" "''openat''" "\<lambda>oflag. [sint fd, uint path, sint oflag]"
    OPEN_NEEDS_MODE 1
  for fd path
  by unfold_locales (use none_or_one in \<open>auto simp: fortified_openat_def Let_def\<close>)

interpretation openat64_call: opener "fortified_openat64 fd path" "''openat64''"
    "\<lambda>oflag. [sint fd, uint path, sint oflag]" OPEN_NEEDS_MODE 1
  for fd path
  by unfold_locales (use none_or_one in \<open>auto simp: fortified_openat64_def Let_def\<close>)

interpretation mq_open_call: opener "mq_open name" "''mq_open''" "\<lambda>oflag. [uint name, sint oflag]"
    "\<lambda>oflag. oflag AND O_CREAT \<noteq> 0" 2
  for name
  by unfold_locales (auto simp: mq_open_def Let_def)

text \<open>
  A call of \<^verbatim>\<open>open\<close> that compiles passes a mode whenever constant flags need one; without constant
  flags and without a mode, it is the entry that checks the flags at run time.
\<close>

theorem open_passes_mode:
  assumes "fortified_open path oflag c va = ([], e, args)"
  shows "e = Alias ''open'' \<and> (OPEN_NEEDS_MODE oflag \<longrightarrow> (\<exists>mode. args = [uint path, sint oflag, mode])) \<or>
         e = Short ''open'' \<and> \<not> c"
proof -
  have "length va = 1 \<Longrightarrow> \<exists>mode. va = [mode]" by (cases va) auto
  then show ?thesis
    using open_call.arguments_complete [OF assms] by auto
qed

section \<open>The index of a descriptor set\<close>

text \<open>\<^verbatim>\<open>__fdelt_chk\<close> and \<^verbatim>\<open>__fdelt_warn\<close> are one library function, \<open>fdelt_chk\<close>, that stops the program
  (\<open>None\<close>) for a descriptor outside the set.\<close>

definition fortified_FD_ELT :: "(int \<Rightarrow> int option) \<Rightarrow> int \<Rightarrow> bool \<Rightarrow> int option" where
  "fortified_FD_ELT fdelt_chk d c =
     (if c then if 0 \<le> d \<and> d < 1024 then Some (d div 64) else fdelt_chk d else fdelt_chk d)"

theorem fd_elt_inside:
  assumes "\<And>d. fdelt_chk d = (if 0 \<le> d \<and> d < 1024 then Some (d div 64) else None)"
    and "fortified_FD_ELT fdelt_chk d c = Some k"
  shows "0 \<le> k \<and> k < 16 \<and> k = d div 64"
  using assms(2) unfolding fortified_FD_ELT_def assms(1) by (auto split: if_splits)

end
