(* ===== verification/Stdio_Stream.thy ===== *)
theory Stdio_Stream
  imports Byte_Memory
begin

text \<open>
  The buffered character streams of \<^verbatim>\<open>bits/types/struct_FILE.h\<close> and the inline functions of
  \<^verbatim>\<open>bits/stdio.h\<close> that work on the buffer directly.  When the buffer is empty or full they call
  \<^verbatim>\<open>__uflow\<close> and \<^verbatim>\<open>__overflow\<close>, which are in the C library: they are parameters here, and
  \<open>source_ok\<close> and \<open>sink_ok\<close> state what the library documents of them.
\<close>

section \<open>Streams\<close>

text \<open>The members of \<^verbatim>\<open>struct _IO_FILE\<close> that the inlines use.\<close>

record io_file =
  io_flags :: u32
  IO_read_ptr :: nat
  IO_read_end :: nat
  IO_write_base :: nat
  IO_write_ptr :: nat
  IO_write_end :: nat

text \<open>The stream, the memory, and what the library knows of the file behind it.\<close>

record 'w io_state =
  fp :: io_file
  bytes :: memory
  device :: 'w

type_synonym 'w uflow_fn = "'w io_state \<Rightarrow> u32 \<times> 'w io_state"
type_synonym 'w overflow_fn = "u8 \<Rightarrow> 'w io_state \<Rightarrow> u32 \<times> 'w io_state"
type_synonym 'w block_fn = "nat \<Rightarrow> u64 \<Rightarrow> u64 \<Rightarrow> 'w io_state \<Rightarrow> u64 \<times> 'w io_state"

definition EOF :: u32 where "EOF = - 1"

definition IO_EOF_SEEN :: u32 where "IO_EOF_SEEN = 0x0010"

definition IO_ERR_SEEN :: u32 where "IO_ERR_SEEN = 0x0020"

definition getc_unlocked_body :: "'w uflow_fn \<Rightarrow> 'w io_state \<Rightarrow> u32 \<times> 'w io_state" where
  "getc_unlocked_body uflow s =
     (if IO_read_end (fp s) \<le> IO_read_ptr (fp s) then uflow s
      else (ucast (bytes s (IO_read_ptr (fp s))),
            s\<lparr>fp := (fp s)\<lparr>IO_read_ptr := IO_read_ptr (fp s) + 1\<rparr>\<rparr>))"

definition putc_unlocked_body :: "'w overflow_fn \<Rightarrow> u32 \<Rightarrow> 'w io_state \<Rightarrow> u32 \<times> 'w io_state" where
  "putc_unlocked_body overflow ch s =
     (if IO_write_end (fp s) \<le> IO_write_ptr (fp s) then overflow (ucast ch) s
      else (ucast (ucast ch :: u8),
            s\<lparr>bytes := (bytes s)(IO_write_ptr (fp s) := ucast ch),
              fp := (fp s)\<lparr>IO_write_ptr := IO_write_ptr (fp s) + 1\<rparr>\<rparr>))"

definition feof_unlocked_body :: "'w io_state \<Rightarrow> bool" where
  "feof_unlocked_body s \<longleftrightarrow> io_flags (fp s) AND IO_EOF_SEEN \<noteq> 0"

definition ferror_unlocked_body :: "'w io_state \<Rightarrow> bool" where
  "ferror_unlocked_body s \<longleftrightarrow> io_flags (fp s) AND IO_ERR_SEEN \<noteq> 0"

definition fgetc_unlocked :: "'w uflow_fn \<Rightarrow> 'w io_state \<Rightarrow> u32 \<times> 'w io_state" where
  "fgetc_unlocked uflow stream = getc_unlocked_body uflow stream"

definition getc_unlocked :: "'w uflow_fn \<Rightarrow> 'w io_state \<Rightarrow> u32 \<times> 'w io_state" where
  "getc_unlocked uflow stream = getc_unlocked_body uflow stream"

definition getchar_unlocked :: "'w uflow_fn \<Rightarrow> 'w io_state \<Rightarrow> u32 \<times> 'w io_state" where
  "getchar_unlocked uflow stdin = getc_unlocked_body uflow stdin"

definition fputc_unlocked :: "'w overflow_fn \<Rightarrow> u32 \<Rightarrow> 'w io_state \<Rightarrow> u32 \<times> 'w io_state" where
  "fputc_unlocked overflow c stream = putc_unlocked_body overflow c stream"

definition putc_unlocked :: "'w overflow_fn \<Rightarrow> u32 \<Rightarrow> 'w io_state \<Rightarrow> u32 \<times> 'w io_state" where
  "putc_unlocked overflow c stream = putc_unlocked_body overflow c stream"

definition putchar_unlocked :: "'w overflow_fn \<Rightarrow> u32 \<Rightarrow> 'w io_state \<Rightarrow> u32 \<times> 'w io_state" where
  "putchar_unlocked overflow c stdout = putc_unlocked_body overflow c stdout"

definition feof_unlocked :: "'w io_state \<Rightarrow> u32" where
  "feof_unlocked stream = (if feof_unlocked_body stream then 1 else 0)"

definition ferror_unlocked :: "'w io_state \<Rightarrow> u32" where
  "ferror_unlocked stream = (if ferror_unlocked_body stream then 1 else 0)"

text \<open>Locked and delimited input are the library's: the inlines only choose the stream or the delimiter.\<close>

definition getchar :: "('w io_state \<Rightarrow> u32 \<times> 'w io_state) \<Rightarrow> 'w io_state \<Rightarrow> u32 \<times> 'w io_state" where
  "getchar getc stdin = getc stdin"

definition putchar :: "(u32 \<Rightarrow> 'w io_state \<Rightarrow> u32 \<times> 'w io_state) \<Rightarrow> u32 \<Rightarrow> 'w io_state \<Rightarrow> u32 \<times> 'w io_state" where
  "putchar putc c stdout = putc c stdout"

definition getline :: "(nat \<Rightarrow> nat \<Rightarrow> u32 \<Rightarrow> 'w io_state \<Rightarrow> u64 \<times> 'w io_state) \<Rightarrow>
    nat \<Rightarrow> nat \<Rightarrow> 'w io_state \<Rightarrow> u64 \<times> 'w io_state" where
  "getline getdelim lineptr n stream = getdelim lineptr n 10 stream"

section \<open>Small blocks without a call\<close>

text \<open>
  The loops of \<^verbatim>\<open>fread_unlocked\<close> and \<^verbatim>\<open>fwrite_unlocked\<close>: what is left of the count when they stop,
  and the state.
\<close>

primrec fread_loop :: "'w uflow_fn \<Rightarrow> nat \<Rightarrow> nat \<Rightarrow> 'w io_state \<Rightarrow> nat \<times> 'w io_state" where
  "fread_loop uflow ptr 0 s = (0, s)"
| "fread_loop uflow ptr (Suc n) s =
     (case getc_unlocked uflow s of (c, s') \<Rightarrow>
        if c = EOF then (Suc n, s')
        else fread_loop uflow (Suc ptr) n (s'\<lparr>bytes := (bytes s')(ptr := ucast c)\<rparr>))"

primrec fwrite_loop :: "'w overflow_fn \<Rightarrow> nat \<Rightarrow> nat \<Rightarrow> 'w io_state \<Rightarrow> nat \<times> 'w io_state" where
  "fwrite_loop overflow ptr 0 s = (0, s)"
| "fwrite_loop overflow ptr (Suc n) s =
     (case putc_unlocked overflow (ucast (bytes s ptr)) s of (c, s') \<Rightarrow>
        if c = EOF then (Suc n, s') else fwrite_loop overflow (Suc ptr) n s')"

text \<open>
  The macros.  \<open>sz_c\<close> and \<open>n_c\<close> say whether the compiler knows the argument; \<open>library\<close> is the
  function the macro is named after.
\<close>

definition fread_unlocked ::
    "'w block_fn \<Rightarrow> 'w uflow_fn \<Rightarrow> bool \<Rightarrow> bool \<Rightarrow> nat \<Rightarrow> u64 \<Rightarrow> u64 \<Rightarrow> 'w io_state \<Rightarrow> u64 \<times> 'w io_state" where
  "fread_unlocked library uflow sz_c n_c ptr sz n s =
     (if sz_c \<and> n_c \<and> sz * n \<le> 8 \<and> sz \<noteq> 0
      then case fread_loop uflow ptr (unat (sz * n)) s of (cnt, s') \<Rightarrow>
             ((sz * n - of_nat cnt) div sz, s')
      else if sz_c \<and> sz = 0 \<or> n_c \<and> n = 0 then (0, s)
      else library ptr sz n s)"

definition fwrite_unlocked ::
    "'w block_fn \<Rightarrow> 'w overflow_fn \<Rightarrow> bool \<Rightarrow> bool \<Rightarrow> nat \<Rightarrow> u64 \<Rightarrow> u64 \<Rightarrow> 'w io_state \<Rightarrow> u64 \<times> 'w io_state" where
  "fwrite_unlocked library overflow sz_c n_c ptr sz n s =
     (if sz_c \<and> n_c \<and> sz * n \<le> 8 \<and> sz \<noteq> 0
      then case fwrite_loop overflow ptr (unat (sz * n)) s of (cnt, s') \<Rightarrow>
             ((sz * n - of_nat cnt) div sz, s')
      else if sz_c \<and> sz = 0 \<or> n_c \<and> n = 0 then (0, s)
      else library ptr sz n s)"

text \<open>
  The function that replaces the macro under fortification (\<^verbatim>\<open>bits/stdio2.h\<close>): \<open>bos\<close> is the size of
  the object at \<open>ptr\<close>, all ones when the compiler does not know it; the checked functions take it.
\<close>

definition fread_unlocked_fortified ::
    "('w block_fn \<times> (u64 \<Rightarrow> 'w block_fn) \<times> (u64 \<Rightarrow> 'w block_fn)) \<Rightarrow> 'w uflow_fn \<Rightarrow> u64 \<Rightarrow> bool \<Rightarrow> bool \<Rightarrow>
      nat \<Rightarrow> u64 \<Rightarrow> u64 \<Rightarrow> 'w io_state \<Rightarrow> u64 \<times> 'w io_state" where
  "fread_unlocked_fortified libs uflow bos sz_c n_c ptr sz n s =
     (case libs of (alias, chk, chk_warn) \<Rightarrow>
        if bos \<noteq> - 1 \<and> (\<not> sz_c \<or> \<not> n_c \<or> push_bit 32 1 \<le> sz OR n) then chk bos ptr sz n s
        else if bos \<noteq> - 1 \<and> bos < sz * n then chk_warn bos ptr sz n s
        else if sz_c \<and> n_c \<and> sz OR n < push_bit 32 1 \<and> sz * n \<le> 8
        then if sz * n = 0 then (0, s)
             else case fread_loop uflow ptr (unat (sz * n)) s of (cnt, s') \<Rightarrow>
                    (of_nat (unat (sz * n) - cnt) div sz, s')
        else alias ptr sz n s)"

section \<open>What the library promises\<close>

text \<open>
  \<open>B\<close> is the buffer of the stream.  \<open>unread\<close> is what is still to be read, from the buffer and then
  from the device; \<open>written\<close> is what was written, to the device and then to the buffer.
\<close>

definition unread :: "('w \<Rightarrow> u8 list) \<Rightarrow> 'w io_state \<Rightarrow> u8 list" where
  "unread rest s =
     read_bytes (bytes s) (IO_read_ptr (fp s)) (IO_read_end (fp s) - IO_read_ptr (fp s)) @ rest (device s)"

definition get_area :: "nat set \<Rightarrow> 'w io_state \<Rightarrow> bool" where
  "get_area B s \<longleftrightarrow> {IO_read_ptr (fp s) ..< IO_read_end (fp s)} \<subseteq> B"

definition written :: "('w \<Rightarrow> u8 list) \<Rightarrow> 'w io_state \<Rightarrow> u8 list" where
  "written out s =
     out (device s) @ read_bytes (bytes s) (IO_write_base (fp s)) (IO_write_ptr (fp s) - IO_write_base (fp s))"

definition put_area :: "nat set \<Rightarrow> 'w io_state \<Rightarrow> bool" where
  "put_area B s \<longleftrightarrow> IO_write_base (fp s) \<le> IO_write_ptr (fp s) \<and>
     {IO_write_base (fp s) ..< IO_write_ptr (fp s)} \<subseteq> B \<and> {IO_write_ptr (fp s) ..< IO_write_end (fp s)} \<subseteq> B"

definition untouched :: "nat set \<Rightarrow> 'w io_state \<Rightarrow> 'w io_state \<Rightarrow> bool" where
  "untouched B s s' \<longleftrightarrow> (\<forall>a. a \<notin> B \<longrightarrow> bytes s' a = bytes s a)"

text \<open>
  \<^verbatim>\<open>__uflow\<close> returns the next byte, or \<^verbatim>\<open>EOF\<close> with one of the two flags set and nothing lost, the
  end-of-file flag only at the end; \<^verbatim>\<open>__overflow\<close> takes the byte, or returns \<^verbatim>\<open>EOF\<close> with the error
  flag set.  Both keep to the stream's own buffer.
\<close>

definition source_ok :: "nat set \<Rightarrow> ('w \<Rightarrow> u8 list) \<Rightarrow> 'w uflow_fn \<Rightarrow> bool" where
  "source_ok B rest uflow \<longleftrightarrow> (\<forall>s c s'. IO_read_end (fp s) \<le> IO_read_ptr (fp s) \<and> uflow s = (c, s') \<longrightarrow>
     get_area B s' \<and> untouched B s s' \<and>
     (if c = EOF
      then unread rest s' = unread rest s \<and>
           (feof_unlocked_body s' \<and> unread rest s' = [] \<or> ferror_unlocked_body s')
      else \<exists>b. c = ucast b \<and> unread rest s = b # unread rest s'))"

definition sink_ok :: "nat set \<Rightarrow> ('w \<Rightarrow> u8 list) \<Rightarrow> 'w overflow_fn \<Rightarrow> bool" where
  "sink_ok B out overflow \<longleftrightarrow>
     (\<forall>s b c s'. put_area B s \<and> IO_write_end (fp s) \<le> IO_write_ptr (fp s) \<and> overflow b s = (c, s') \<longrightarrow>
       put_area B s' \<and> untouched B s s' \<and>
       (if c = EOF then written out s' = written out s \<and> ferror_unlocked_body s'
        else c = ucast b \<and> written out s' = written out s @ [b]))"

lemma untouched_refl [simp]: "untouched B s s"
  by (simp add: untouched_def)

lemma untouched_trans: "untouched B s s' \<Longrightarrow> untouched C s' s'' \<Longrightarrow> untouched (B \<union> C) s s''"
  by (simp add: untouched_def)

lemma untouched_mono: "untouched B s s' \<Longrightarrow> B \<subseteq> C \<Longrightarrow> untouched C s s'"
  by (auto simp: untouched_def)

lemma byte_not_EOF [simp]: "(ucast (b :: u8) :: u32) \<noteq> EOF"
proof
  assume "(ucast b :: u32) = EOF"
  then have "unat (ucast b :: u32) = unat EOF" by simp
  then show False
    using unat_less_256 [of b] by (simp add: unat_ucast_up EOF_def unsigned_minus_1_eq_mask mask_eq_exp_minus_1)
qed

lemma byte_of_byte [simp]: "(ucast (ucast (b :: u8) :: u32) :: u8) = b"
  by (rule bit_word_eqI) (simp add: bit_simps)

section \<open>One character\<close>

lemma getc_unlocked_reads:
  assumes ok: "source_ok B rest uflow" and area: "get_area B s" and get: "getc_unlocked uflow s = (c, s')"
  shows "get_area B s'" and "untouched B s s'"
    and "c = EOF \<Longrightarrow> unread rest s' = unread rest s \<and>
           (feof_unlocked_body s' \<and> unread rest s' = [] \<or> ferror_unlocked_body s')"
    and "c \<noteq> EOF \<Longrightarrow> \<exists>b. c = ucast b \<and> unread rest s = b # unread rest s'"
proof -
  let ?p = "IO_read_ptr (fp s)" and ?e = "IO_read_end (fp s)"
  have "get_area B s' \<and> untouched B s s' \<and>
     (if c = EOF
      then unread rest s' = unread rest s \<and>
           (feof_unlocked_body s' \<and> unread rest s' = [] \<or> ferror_unlocked_body s')
      else \<exists>b. c = ucast b \<and> unread rest s = b # unread rest s')"
  proof (cases "?e \<le> ?p")
    case True
    then have "uflow s = (c, s')"
      using get by (simp add: getc_unlocked_def getc_unlocked_body_def)
    then show ?thesis
      using True ok unfolding source_ok_def by blast
  next
    case False
    then have "read_bytes (bytes s) ?p (?e - ?p) = bytes s ?p # read_bytes (bytes s) (?p + 1) (?e - (?p + 1))"
      by (intro nth_equalityI) (auto simp: nth_Cons')
    then show ?thesis
      using get False area
      by (auto simp: getc_unlocked_def getc_unlocked_body_def unread_def get_area_def untouched_def)
  qed
  then show "get_area B s'" and "untouched B s s'"
    and "c = EOF \<Longrightarrow> unread rest s' = unread rest s \<and>
           (feof_unlocked_body s' \<and> unread rest s' = [] \<or> ferror_unlocked_body s')"
    and "c \<noteq> EOF \<Longrightarrow> \<exists>b. c = ucast b \<and> unread rest s = b # unread rest s'"
    by (auto split: if_splits)
qed

lemma putc_unlocked_writes:
  assumes ok: "sink_ok B out overflow" and area: "put_area B s" and put: "putc_unlocked overflow ch s = (c, s')"
  shows "put_area B s'" and "untouched B s s'"
    and "c = EOF \<Longrightarrow> written out s' = written out s \<and> ferror_unlocked_body s'"
    and "c \<noteq> EOF \<Longrightarrow> c = ucast (ucast ch :: u8) \<and> written out s' = written out s @ [ucast ch]"
proof -
  let ?b = "IO_write_base (fp s)" and ?p = "IO_write_ptr (fp s)" and ?e = "IO_write_end (fp s)"
  have "put_area B s' \<and> untouched B s s' \<and>
       (if c = EOF then written out s' = written out s \<and> ferror_unlocked_body s'
        else c = ucast (ucast ch :: u8) \<and> written out s' = written out s @ [ucast ch])"
  proof (cases "?e \<le> ?p")
    case True
    then have "overflow (ucast ch) s = (c, s')"
      using put by (simp add: putc_unlocked_def putc_unlocked_body_def)
    then show ?thesis
      using True area ok unfolding sink_ok_def by blast
  next
    case False
    have b: "?b \<le> ?p" using area by (simp add: put_area_def)
    then have "read_bytes ((bytes s)(?p := x)) ?b (Suc ?p - ?b) = read_bytes (bytes s) ?b (?p - ?b) @ [x]" for x
      by (intro nth_equalityI) (auto simp: nth_append less_Suc_eq Suc_diff_le)
    moreover have "?p \<in> B"
      using area False by (auto simp: put_area_def)
    ultimately show ?thesis
      using put False area b
      by (auto simp: putc_unlocked_def putc_unlocked_body_def written_def put_area_def untouched_def less_Suc_eq)
  qed
  then show "put_area B s'" and "untouched B s s'"
    and "c = EOF \<Longrightarrow> written out s' = written out s \<and> ferror_unlocked_body s'"
    and "c \<noteq> EOF \<Longrightarrow> c = ucast (ucast ch :: u8) \<and> written out s' = written out s @ [ucast ch]"
    by (auto split: if_splits)
qed

section \<open>Blocks\<close>

text \<open>\<open>k\<close> bytes went from the stream to memory at \<open>ptr\<close>, or from memory to the stream.\<close>

definition fetched :: "nat set \<Rightarrow> ('w \<Rightarrow> u8 list) \<Rightarrow> nat \<Rightarrow> nat \<Rightarrow> 'w io_state \<Rightarrow> 'w io_state \<Rightarrow> bool" where
  "fetched B rest ptr k s s' \<longleftrightarrow>
     k \<le> length (unread rest s) \<and> unread rest s' = drop k (unread rest s) \<and>
     read_bytes (bytes s') ptr k = take k (unread rest s) \<and> get_area B s' \<and> untouched (B \<union> {ptr ..< ptr + k}) s s'"

definition emitted :: "nat set \<Rightarrow> ('w \<Rightarrow> u8 list) \<Rightarrow> nat \<Rightarrow> nat \<Rightarrow> 'w io_state \<Rightarrow> 'w io_state \<Rightarrow> bool" where
  "emitted B out ptr k s s' \<longleftrightarrow>
     written out s' = written out s @ read_bytes (bytes s) ptr k \<and> put_area B s' \<and> untouched B s s'"

lemma read_bytes_Cons: "read_bytes m p (Suc k) = m p # read_bytes m (Suc p) k"
  by (rule nth_equalityI) (auto simp: nth_Cons')

lemma unread_store:
  assumes "get_area B s" and "p \<notin> B"
  shows "unread rest (s\<lparr>bytes := (bytes s)(p := b)\<rparr>) = unread rest s"
proof -
  have "IO_read_ptr (fp s) + i \<noteq> p" if "i < IO_read_end (fp s) - IO_read_ptr (fp s)" for i
    using assms that by (auto simp: get_area_def subset_iff)
  then show ?thesis
    by (auto simp: unread_def read_bytes_def)
qed

lemma fread_loop_fetches:
  assumes ok: "source_ok B rest uflow"
  shows "get_area B s \<Longrightarrow> {ptr ..< ptr + n} \<inter> B = {} \<Longrightarrow> fread_loop uflow ptr n s = (cnt, s') \<Longrightarrow>
    cnt \<le> n \<and> fetched B rest ptr (n - cnt) s s' \<and>
    (0 < cnt \<longrightarrow> feof_unlocked_body s' \<and> unread rest s' = [] \<or> ferror_unlocked_body s')"
proof (induction n arbitrary: ptr s)
  case 0
  then show ?case by (simp add: fetched_def read_bytes_def)
next
  case (Suc n)
  obtain c s1 where get: "getc_unlocked uflow s = (c, s1)" by fastforce
  note one = getc_unlocked_reads [OF ok Suc.prems(1) get]
  show ?case
  proof (cases "c = EOF")
    case True
    then show ?thesis
      using Suc.prems(3) one(1,3) untouched_mono [OF one(2)] get by (auto simp: fetched_def read_bytes_def)
  next
    case False
    then obtain b where b: "c = ucast b" "unread rest s = b # unread rest s1"
      using one(4) by blast
    have ptr: "ptr \<notin> B" using Suc.prems(2) by (auto simp: disjoint_iff)
    define s2 where "s2 = s1\<lparr>bytes := (bytes s1)(ptr := b)\<rparr>"
    have loop: "fread_loop uflow (Suc ptr) n s2 = (cnt, s')"
      using Suc.prems(3) get False b(1) by (simp add: s2_def)
    have area: "get_area B s2" using one(1) by (simp add: s2_def get_area_def)
    have same: "unread rest s2 = unread rest s1"
      using one(1) ptr unfolding s2_def by (rule unread_store)
    have dst: "{Suc ptr ..< Suc ptr + n} \<inter> B = {}" using Suc.prems(2) by (auto simp: disjoint_iff)
    note IH = Suc.IH [OF area dst loop]
    then have le: "cnt \<le> n" and f: "fetched B rest (Suc ptr) (n - cnt) s2 s'" by blast+
    have "bytes s' ptr = b"
      using f ptr by (simp add: fetched_def untouched_def s2_def)
    moreover have "untouched (B \<union> {ptr ..< ptr + Suc (n - cnt)}) s s'"
      using f one(2) by (auto simp: fetched_def untouched_def s2_def)
    ultimately have "fetched B rest ptr (Suc (n - cnt)) s s'"
      using f same b(2) by (simp add: fetched_def read_bytes_Cons)
    then show ?thesis
      using IH le by (simp add: Suc_diff_le)
  qed
qed

lemma fwrite_loop_emits:
  assumes ok: "sink_ok B out overflow"
  shows "put_area B s \<Longrightarrow> {ptr ..< ptr + n} \<inter> B = {} \<Longrightarrow> fwrite_loop overflow ptr n s = (cnt, s') \<Longrightarrow>
    cnt \<le> n \<and> emitted B out ptr (n - cnt) s s' \<and> (0 < cnt \<longrightarrow> ferror_unlocked_body s')"
proof (induction n arbitrary: ptr s)
  case 0
  then show ?case by (simp add: emitted_def read_bytes_def)
next
  case (Suc n)
  obtain c s1 where put: "putc_unlocked overflow (ucast (bytes s ptr)) s = (c, s1)" by fastforce
  note one = putc_unlocked_writes [OF ok Suc.prems(1) put]
  show ?case
  proof (cases "c = EOF")
    case True
    then show ?thesis
      using Suc.prems(3) one(1-3) put by (auto simp: emitted_def read_bytes_def)
  next
    case False
    have loop: "fwrite_loop overflow (Suc ptr) n s1 = (cnt, s')"
      using Suc.prems(3) put False by simp
    have dst: "{Suc ptr ..< Suc ptr + n} \<inter> B = {}" using Suc.prems(2) by (auto simp: disjoint_iff)
    note IH = Suc.IH [OF one(1) dst loop]
    then have le: "cnt \<le> n" and e: "emitted B out (Suc ptr) (n - cnt) s1 s'" by blast+
    have "read_bytes (bytes s1) (Suc ptr) (n - cnt) = read_bytes (bytes s) (Suc ptr) (n - cnt)"
      using one(2) dst by (intro nth_equalityI) (auto simp: untouched_def disjoint_iff)
    then have "emitted B out ptr (Suc (n - cnt)) s s'"
      using e one(2,4) False by (auto simp: emitted_def read_bytes_Cons untouched_def)
    then show ?thesis
      using IH le by (simp add: Suc_diff_le)
  qed
qed

lemma items_left:
  fixes m sz :: u64
  assumes "cnt \<le> unat m"
  shows "(m - of_nat cnt) div sz = of_nat ((unat m - cnt) div unat sz)"
proof -
  have "unat m < 2 ^ LENGTH(64)" by (rule unsigned_less)
  then have c: "unat (of_nat cnt :: u64) = cnt"
    using assms by (intro unat_of_nat64) simp
  have "unat (m - of_nat cnt) = unat m - cnt"
    using assms c unat_sub [of "of_nat cnt" m] by (simp add: word_le_nat_alt)
  then have "unat ((m - of_nat cnt) div sz) = (unat m - cnt) div unat sz"
    by (simp add: unat_div)
  then have "of_nat (unat ((m - of_nat cnt) div sz)) = (of_nat ((unat m - cnt) div unat sz) :: u64)"
    by simp
  then show ?thesis
    by simp
qed

text \<open>C8: Reading and writing small blocks without a call moves whole prefixes: with a library that keeps
  its promises, \<^verbatim>\<open>fread_unlocked\<close> with constant arguments takes the next bytes of the stream, as many
  as were asked for unless the end or an error is flagged, puts exactly those at the destination,
  touches nothing else outside the stream's own buffer, and returns the number of complete items;
  \<^verbatim>\<open>fwrite_unlocked\<close> appends exactly a prefix of the block to what was written, the whole block unless
  an error is flagged, and returns the number of complete items.
\<close>

theorem blocks_transferred:
  assumes sz: "0 < sz" "unat sz * unat n \<le> 8" and apart: "{ptr ..< ptr + unat sz * unat n} \<inter> B = {}"
    and source: "source_ok B rest uflow" "get_area B s"
    and sink: "sink_ok B out overflow" "put_area B t"
  shows "(\<exists>k \<le> unat sz * unat n. \<exists>s'.
            fread_unlocked lib_read uflow True True ptr sz n s = (of_nat (k div unat sz), s') \<and>
            fetched B rest ptr k s s' \<and>
            (k = unat sz * unat n \<or> feof_unlocked_body s' \<and> unread rest s' = [] \<or> ferror_unlocked_body s')) \<and>
         (\<exists>k \<le> unat sz * unat n. \<exists>t'.
            fwrite_unlocked lib_write overflow True True ptr sz n t = (of_nat (k div unat sz), t') \<and>
            emitted B out ptr k t t' \<and> (k = unat sz * unat n \<or> ferror_unlocked_body t'))"
proof -
  have m: "unat (sz * n) = unat sz * unat n"
    using sz(2) by (intro unat_mult_lem [THEN iffD1]) simp
  then have small: "sz * n \<le> 8" and nz: "sz \<noteq> 0"
    using sz by (auto simp: word_le_nat_alt)
  obtain cnt s' where r: "fread_loop uflow ptr (unat (sz * n)) s = (cnt, s')" by fastforce
  note R = fread_loop_fetches [OF source(1,2) apart r [unfolded m]]
  obtain cnu t' where w: "fwrite_loop overflow ptr (unat (sz * n)) t = (cnu, t')" by fastforce
  note W = fwrite_loop_emits [OF sink(1,2) apart w [unfolded m]]
  show ?thesis
  proof (rule conjI)
    show "\<exists>k \<le> unat sz * unat n. \<exists>s'.
            fread_unlocked lib_read uflow True True ptr sz n s = (of_nat (k div unat sz), s') \<and>
            fetched B rest ptr k s s' \<and>
            (k = unat sz * unat n \<or> feof_unlocked_body s' \<and> unread rest s' = [] \<or> ferror_unlocked_body s')"
      using R r small nz m items_left [of cnt "sz * n" sz]
      by (intro exI [of _ "unat (sz * n) - cnt"] conjI exI [of _ s']) (auto simp: fread_unlocked_def)
    show "\<exists>k \<le> unat sz * unat n. \<exists>t'.
            fwrite_unlocked lib_write overflow True True ptr sz n t = (of_nat (k div unat sz), t') \<and>
            emitted B out ptr k t t' \<and> (k = unat sz * unat n \<or> ferror_unlocked_body t')"
      using W w small nz m items_left [of cnu "sz * n" sz]
      by (intro exI [of _ "unat (sz * n) - cnu"] conjI exI [of _ t']) (auto simp: fwrite_unlocked_def)
  qed
qed

section \<open>A library\<close>

text \<open>A file as the list of its bytes, read through a buffer of three and flushed when full.\<close>

definition refill :: "u8 list uflow_fn" where
  "refill s =
     (case device s of
        [] \<Rightarrow> (EOF, s\<lparr>fp := (fp s)\<lparr>io_flags := io_flags (fp s) OR IO_EOF_SEEN\<rparr>\<rparr>)
      | b # bs \<Rightarrow>
          (ucast b, s\<lparr>fp := (fp s)\<lparr>IO_read_ptr := 1000, IO_read_end := 1000 + length (take 3 bs)\<rparr>,
                      bytes := write_bytes 1000 (take 3 bs) (bytes s), device := drop 3 bs\<rparr>))"

definition spill :: "u8 list overflow_fn" where
  "spill b s =
     (ucast b, s\<lparr>device := written id s @ [b], fp := (fp s)\<lparr>IO_write_ptr := IO_write_base (fp s)\<rparr>\<rparr>)"

definition opened :: "u8 list \<Rightarrow> u8 list io_state" where
  "opened bs =
     \<lparr>fp = \<lparr>io_flags = 0, IO_read_ptr = 1000, IO_read_end = 1000,
            IO_write_base = 1000, IO_write_ptr = 1000, IO_write_end = 1003\<rparr>,
      bytes = (\<lambda>_. 0), device = bs\<rparr>"

lemma or_flag: "(x OR IO_EOF_SEEN) AND IO_EOF_SEEN = IO_EOF_SEEN" for x :: u32
  by (rule bit_word_eqI) (auto simp: bit_simps)

lemma refill_ok: "source_ok {1000 ..< 1003} id refill"
  unfolding source_ok_def
proof (intro allI impI, elim conjE)
  fix s :: "u8 list io_state" and c s'
  assume empty: "IO_read_end (fp s) \<le> IO_read_ptr (fp s)" and r: "refill s = (c, s')"
  show "get_area {1000 ..< 1003} s' \<and> untouched {1000 ..< 1003} s s' \<and>
      (if c = EOF then unread id s' = unread id s \<and>
         (feof_unlocked_body s' \<and> unread id s' = [] \<or> ferror_unlocked_body s')
       else \<exists>b. c = ucast b \<and> unread id s = b # unread id s')"
  proof (cases "device s")
    case Nil
    then show ?thesis
      using empty r or_flag
      by (auto simp: refill_def get_area_def untouched_def unread_def feof_unlocked_body_def read_bytes_def IO_EOF_SEEN_def)
  next
    case (Cons b bs)
    have "read_bytes (write_bytes 1000 (take 3 bs) (bytes s)) 1000 (length (take 3 bs)) = take 3 bs"
      using stored_write [of 1000 "take 3 bs" "bytes s"] by (simp only: stored_read)
    then show ?thesis
      using empty r Cons
      by (auto simp: refill_def get_area_def untouched_def unread_def write_bytes_def read_bytes_def)
  qed
qed

lemma spill_ok: "sink_ok {1000 ..< 1003} id spill"
  by (auto simp: sink_ok_def spill_def put_area_def untouched_def written_def read_bytes_def)

theorem blocks_transferred_witness:
  "(\<exists>k \<le> 6. \<exists>s'. fread_unlocked (\<lambda>_ _ _ s. (0, s)) refill True True 0 3 2 (opened [1, 2, 3, 4, 5]) =
        (of_nat (k div 3), s') \<and>
      fetched {1000 ..< 1003} id 0 k (opened [1, 2, 3, 4, 5]) s' \<and>
      (k = 6 \<or> feof_unlocked_body s' \<and> unread id s' = [] \<or> ferror_unlocked_body s')) \<and>
   (\<exists>k \<le> 6. \<exists>t'. fwrite_unlocked (\<lambda>_ _ _ s. (0, s)) spill True True 0 3 2 (opened []) = (of_nat (k div 3), t') \<and>
      emitted {1000 ..< 1003} id 0 k (opened []) t' \<and> (k = 6 \<or> ferror_unlocked_body t'))"
  using blocks_transferred [OF _ _ _ refill_ok _ spill_ok, of 3 2 0 "opened [1, 2, 3, 4, 5]" "opened []"
      "\<lambda>_ _ _ s. (0, s)" "\<lambda>_ _ _ s. (0, s)"]
  by (simp add: get_area_def put_area_def opened_def)

lemma read_five_by_three:
  "fst (fread_unlocked (\<lambda>_ _ _ s. (0, s)) refill True True 0 3 2 (opened [1, 2, 3, 4, 5])) = 1"
  by code_simp

section \<open>The two forms of the reader\<close>

lemma fread_loop_le: "fread_loop uflow ptr n s = (cnt, s') \<Longrightarrow> cnt \<le> n"
proof (induction n arbitrary: ptr s)
  case (Suc n)
  then show ?case
    by (auto split: prod.splits if_splits intro: le_SucI)
qed simp

text \<open>C40: For constant arguments whose values lie below \<^verbatim>\<open>2^32\<close>, and an object that is large enough or
  of unknown size, the function that fortification puts in place of the \<^verbatim>\<open>fread_unlocked\<close> macro
  returns the same count and leaves the same state, whatever the stream and the library do.
\<close>

theorem fread_forms_agree:
  assumes "sz OR n < push_bit 32 1" and "bos = - 1 \<or> sz * n \<le> bos"
  shows "fread_unlocked_fortified (library, chk, chk_warn) uflow bos True True ptr sz n s =
         fread_unlocked library uflow True True ptr sz n s"
proof -
  define m where "m = sz * n"
  obtain cnt s' where r: "fread_loop uflow ptr (unat m) s = (cnt, s')" by fastforce
  have count: "(m - of_nat cnt) div sz = of_nat (unat m - cnt) div sz"
  proof -
    have le: "cnt \<le> unat m" using r by (rule fread_loop_le)
    have "(m - of_nat cnt) div 1 = (of_nat ((unat m - cnt) div unat (1 :: u64)) :: u64)"
      using le by (rule items_left)
    then show ?thesis by simp
  qed
  have "\<not> push_bit 32 1 \<le> sz OR n" and "bos = - 1 \<or> \<not> bos < m"
    using assms by (auto simp: m_def not_less)
  then have fortified: "fread_unlocked_fortified (library, chk, chk_warn) uflow bos True True ptr sz n s =
      (if m \<le> 8 then if m = 0 then (0, s) else ((m - of_nat cnt) div sz, s') else library ptr sz n s)"
    using assms(1) r count unfolding fread_unlocked_fortified_def m_def by (auto simp del: push_bit_of_1)
  have "n = 0 \<or> sz = 0 \<Longrightarrow> m = 0" and "m = 0 \<Longrightarrow> fread_loop uflow ptr (unat m) s = (0, s)"
    by (auto simp: m_def)
  then show ?thesis
    using r unfolding fortified fread_unlocked_def m_def [symmetric] by auto
qed

theorem fread_forms_agree_witness:
  "fread_unlocked_fortified (\<lambda>_ _ _ s. (0, s), \<lambda>_ _ _ _ s. (1, s), \<lambda>_ _ _ _ s. (2, s)) refill 6 True True 0 3 2
      (opened [1, 2, 3, 4]) =
   fread_unlocked (\<lambda>_ _ _ s. (0, s)) refill True True 0 3 2 (opened [1, 2, 3, 4])"
  by (rule fread_forms_agree) (simp_all add: word_less_nat_alt)

text \<open>The macro reads eight bytes for a block of \<^verbatim>\<open>2^64 + 8\<close>, and reports no item.\<close>

lemma macro_product_wraps:
  "fread_loop uflow ptr 8 s = (0, s') \<Longrightarrow>
   fread_unlocked library uflow True True ptr 0x2000000000000001 8 s = (0, s')"
  by (simp add: fread_unlocked_def word_le_nat_alt)

end
