(* ===== verification/Sound_Tlv.thy ===== *)
theory Sound_Tlv
  imports Prelude
begin

text \<open>
  The type-length-value items of the sound interface, \<^verbatim>\<open>sound/tlv.h\<close>: macros that lay an item out as
  words, the length computed by the compiler from the data they are given.  An item is the list of
  its words; the specification is a tree of items and the reader that the comment of the header
  describes.
\<close>

section \<open>Items\<close>

definition SNDRV_CTL_TLVT_CONTAINER :: u32 where "SNDRV_CTL_TLVT_CONTAINER = 0"

definition SNDRV_CTL_TLVT_DB_SCALE :: u32 where "SNDRV_CTL_TLVT_DB_SCALE = 1"

definition SNDRV_CTL_TLVT_DB_LINEAR :: u32 where "SNDRV_CTL_TLVT_DB_LINEAR = 2"

definition SNDRV_CTL_TLVT_DB_RANGE :: u32 where "SNDRV_CTL_TLVT_DB_RANGE = 3"

definition SNDRV_CTL_TLVT_DB_MINMAX :: u32 where "SNDRV_CTL_TLVT_DB_MINMAX = 4"

definition SNDRV_CTL_TLVT_DB_MINMAX_MUTE :: u32 where "SNDRV_CTL_TLVT_DB_MINMAX_MUTE = 5"

definition SNDRV_CTL_TLVT_CHMAP_FIXED :: u32 where "SNDRV_CTL_TLVT_CHMAP_FIXED = 0x101"

definition SNDRV_CTL_TLVT_CHMAP_VAR :: u32 where "SNDRV_CTL_TLVT_CHMAP_VAR = 0x102"

definition SNDRV_CTL_TLVT_CHMAP_PAIRED :: u32 where "SNDRV_CTL_TLVT_CHMAP_PAIRED = 0x103"

definition SNDRV_CTL_TLVD_LENGTH :: "u32 list \<Rightarrow> u32" where
  "SNDRV_CTL_TLVD_LENGTH va = of_nat (4 * length va)"

definition SNDRV_CTL_TLVD_ITEM :: "u32 \<Rightarrow> u32 list \<Rightarrow> u32 list" where
  "SNDRV_CTL_TLVD_ITEM ty va = [ty, SNDRV_CTL_TLVD_LENGTH va] @ va"

definition SNDRV_CTL_TLVO_TYPE :: nat where "SNDRV_CTL_TLVO_TYPE = 0"

definition SNDRV_CTL_TLVO_LEN :: nat where "SNDRV_CTL_TLVO_LEN = 1"

definition SNDRV_CTL_TLVD_CONTAINER_ITEM :: "u32 list \<Rightarrow> u32 list" where
  "SNDRV_CTL_TLVD_CONTAINER_ITEM va = SNDRV_CTL_TLVD_ITEM SNDRV_CTL_TLVT_CONTAINER va"

definition SNDRV_CTL_TLVD_DECLARE_CONTAINER :: "u32 list \<Rightarrow> u32 list" where
  "SNDRV_CTL_TLVD_DECLARE_CONTAINER va = SNDRV_CTL_TLVD_CONTAINER_ITEM va"

definition SNDRV_CTL_TLVD_DB_SCALE_MASK :: u32 where "SNDRV_CTL_TLVD_DB_SCALE_MASK = 0xffff"

definition SNDRV_CTL_TLVD_DB_SCALE_MUTE :: u32 where "SNDRV_CTL_TLVD_DB_SCALE_MUTE = 0x10000"

definition SNDRV_CTL_TLVD_DB_SCALE_ITEM :: "u32 \<Rightarrow> u32 \<Rightarrow> bool \<Rightarrow> u32 list" where
  "SNDRV_CTL_TLVD_DB_SCALE_ITEM mn step mute =
     SNDRV_CTL_TLVD_ITEM SNDRV_CTL_TLVT_DB_SCALE
       [mn, (step AND SNDRV_CTL_TLVD_DB_SCALE_MASK) OR (if mute then SNDRV_CTL_TLVD_DB_SCALE_MUTE else 0)]"

definition SNDRV_CTL_TLVD_DECLARE_DB_SCALE :: "u32 \<Rightarrow> u32 \<Rightarrow> bool \<Rightarrow> u32 list" where
  "SNDRV_CTL_TLVD_DECLARE_DB_SCALE mn step mute = SNDRV_CTL_TLVD_DB_SCALE_ITEM mn step mute"

definition SNDRV_CTL_TLVO_DB_SCALE_MIN :: nat where "SNDRV_CTL_TLVO_DB_SCALE_MIN = 2"

definition SNDRV_CTL_TLVO_DB_SCALE_MUTE_AND_STEP :: nat where "SNDRV_CTL_TLVO_DB_SCALE_MUTE_AND_STEP = 3"

definition SNDRV_CTL_TLVD_DB_MINMAX_ITEM :: "u32 \<Rightarrow> u32 \<Rightarrow> u32 list" where
  "SNDRV_CTL_TLVD_DB_MINMAX_ITEM min_dB max_dB = SNDRV_CTL_TLVD_ITEM SNDRV_CTL_TLVT_DB_MINMAX [min_dB, max_dB]"

definition SNDRV_CTL_TLVD_DB_MINMAX_MUTE_ITEM :: "u32 \<Rightarrow> u32 \<Rightarrow> u32 list" where
  "SNDRV_CTL_TLVD_DB_MINMAX_MUTE_ITEM min_dB max_dB =
     SNDRV_CTL_TLVD_ITEM SNDRV_CTL_TLVT_DB_MINMAX_MUTE [min_dB, max_dB]"

definition SNDRV_CTL_TLVD_DECLARE_DB_MINMAX :: "u32 \<Rightarrow> u32 \<Rightarrow> u32 list" where
  "SNDRV_CTL_TLVD_DECLARE_DB_MINMAX min_dB max_dB = SNDRV_CTL_TLVD_DB_MINMAX_ITEM min_dB max_dB"

definition SNDRV_CTL_TLVD_DECLARE_DB_MINMAX_MUTE :: "u32 \<Rightarrow> u32 \<Rightarrow> u32 list" where
  "SNDRV_CTL_TLVD_DECLARE_DB_MINMAX_MUTE min_dB max_dB = SNDRV_CTL_TLVD_DB_MINMAX_MUTE_ITEM min_dB max_dB"

definition SNDRV_CTL_TLVO_DB_MINMAX_MIN :: nat where "SNDRV_CTL_TLVO_DB_MINMAX_MIN = 2"

definition SNDRV_CTL_TLVO_DB_MINMAX_MAX :: nat where "SNDRV_CTL_TLVO_DB_MINMAX_MAX = 3"

definition SNDRV_CTL_TLVD_DB_LINEAR_ITEM :: "u32 \<Rightarrow> u32 \<Rightarrow> u32 list" where
  "SNDRV_CTL_TLVD_DB_LINEAR_ITEM min_dB max_dB = SNDRV_CTL_TLVD_ITEM SNDRV_CTL_TLVT_DB_LINEAR [min_dB, max_dB]"

definition SNDRV_CTL_TLVD_DECLARE_DB_LINEAR :: "u32 \<Rightarrow> u32 \<Rightarrow> u32 list" where
  "SNDRV_CTL_TLVD_DECLARE_DB_LINEAR min_dB max_dB = SNDRV_CTL_TLVD_DB_LINEAR_ITEM min_dB max_dB"

definition SNDRV_CTL_TLVO_DB_LINEAR_MIN :: nat where "SNDRV_CTL_TLVO_DB_LINEAR_MIN = 2"

definition SNDRV_CTL_TLVO_DB_LINEAR_MAX :: nat where "SNDRV_CTL_TLVO_DB_LINEAR_MAX = 3"

definition SNDRV_CTL_TLVD_DB_RANGE_ITEM :: "u32 list \<Rightarrow> u32 list" where
  "SNDRV_CTL_TLVD_DB_RANGE_ITEM va = SNDRV_CTL_TLVD_ITEM SNDRV_CTL_TLVT_DB_RANGE va"

definition SNDRV_CTL_TLVD_DECLARE_DB_RANGE :: "u32 list \<Rightarrow> u32 list" where
  "SNDRV_CTL_TLVD_DECLARE_DB_RANGE va = SNDRV_CTL_TLVD_DB_RANGE_ITEM va"

definition SNDRV_CTL_TLVD_DB_GAIN_MUTE :: u32 where "SNDRV_CTL_TLVD_DB_GAIN_MUTE = - 9999999"

lemmas tlv_types = SNDRV_CTL_TLVT_CONTAINER_def SNDRV_CTL_TLVT_DB_SCALE_def SNDRV_CTL_TLVT_DB_LINEAR_def
  SNDRV_CTL_TLVT_DB_RANGE_def SNDRV_CTL_TLVT_DB_MINMAX_def SNDRV_CTL_TLVT_DB_MINMAX_MUTE_def
  SNDRV_CTL_TLVT_CHMAP_FIXED_def SNDRV_CTL_TLVT_CHMAP_VAR_def SNDRV_CTL_TLVT_CHMAP_PAIRED_def

section \<open>Trees of items\<close>

text \<open>
  What the macros can be composed to: containers of items, ranges with an item each, and the plain
  items.  \<open>encode\<close> is that composition.
\<close>

datatype sound_tlv =
    Container "sound_tlv list"
  | Range "(u32 \<times> u32 \<times> sound_tlv) list"
  | Scale u32 u32 bool
  | Linear u32 u32
  | Minmax u32 u32 bool
  | Chmap u32 "u32 list"

primrec encode :: "sound_tlv \<Rightarrow> u32 list" where
  "encode (Container ts) = SNDRV_CTL_TLVD_CONTAINER_ITEM (concat (map encode ts))"
| "encode (Range rs) =
     SNDRV_CTL_TLVD_DB_RANGE_ITEM (concat (map (\<lambda>(lo, hi, w). [lo, hi] @ w) (map (map_prod id (map_prod id encode)) rs)))"
| "encode (Scale mn step mute) = SNDRV_CTL_TLVD_DB_SCALE_ITEM mn step mute"
| "encode (Linear lo hi) = SNDRV_CTL_TLVD_DB_LINEAR_ITEM lo hi"
| "encode (Minmax lo hi mute) =
     (if mute then SNDRV_CTL_TLVD_DB_MINMAX_MUTE_ITEM lo hi else SNDRV_CTL_TLVD_DB_MINMAX_ITEM lo hi)"
| "encode (Chmap ty chs) = SNDRV_CTL_TLVD_ITEM ty chs"

text \<open>
  The steps a mixer can have are sixteen bits wide, channel maps have one of three types, and the
  whole is short of \<^verbatim>\<open>2^32\<close> bytes.
\<close>

primrec sound_ok :: "sound_tlv \<Rightarrow> bool" where
  "sound_ok (Container ts) \<longleftrightarrow> list_all id (map sound_ok ts)"
| "sound_ok (Range rs) \<longleftrightarrow> list_all (\<lambda>(lo, hi, b). b) (map (map_prod id (map_prod id sound_ok)) rs)"
| "sound_ok (Scale mn step mute) \<longleftrightarrow> step < 0x10000"
| "sound_ok (Linear lo hi) \<longleftrightarrow> True"
| "sound_ok (Minmax lo hi mute) \<longleftrightarrow> True"
| "sound_ok (Chmap ty chs) \<longleftrightarrow>
     ty \<in> {SNDRV_CTL_TLVT_CHMAP_FIXED, SNDRV_CTL_TLVT_CHMAP_VAR, SNDRV_CTL_TLVT_CHMAP_PAIRED}"

section \<open>Reading\<close>

text \<open>
  The reader of the comment: type, length in bytes, data up to the next word.  It is given fuel for
  the depth and number of items; the number of words is enough.
\<close>

definition block_words :: "u32 \<Rightarrow> nat" where
  "block_words l = unat ((l + 3) AND NOT 3) div 4"

fun decode :: "nat \<Rightarrow> u32 list \<Rightarrow> (sound_tlv \<times> u32 list) option"
  and decode_all :: "nat \<Rightarrow> u32 list \<Rightarrow> sound_tlv list option"
  and decode_ranges :: "nat \<Rightarrow> u32 list \<Rightarrow> (u32 \<times> u32 \<times> sound_tlv) list option" where
  "decode (Suc n) (ty # l # ws) =
     (let d = take (block_words l) ws; r = drop (block_words l) ws in
      if length ws < block_words l then None
      else if ty = SNDRV_CTL_TLVT_CONTAINER then map_option (\<lambda>ts. (Container ts, r)) (decode_all n d)
      else if ty = SNDRV_CTL_TLVT_DB_RANGE then map_option (\<lambda>rs. (Range rs, r)) (decode_ranges n d)
      else if ty \<in> {SNDRV_CTL_TLVT_CHMAP_FIXED, SNDRV_CTL_TLVT_CHMAP_VAR, SNDRV_CTL_TLVT_CHMAP_PAIRED}
      then Some (Chmap ty d, r)
      else case d of
        [a, b] \<Rightarrow>
          if ty = SNDRV_CTL_TLVT_DB_SCALE
          then Some (Scale a (b AND SNDRV_CTL_TLVD_DB_SCALE_MASK) (b AND SNDRV_CTL_TLVD_DB_SCALE_MUTE \<noteq> 0), r)
          else if ty = SNDRV_CTL_TLVT_DB_LINEAR then Some (Linear a b, r)
          else if ty = SNDRV_CTL_TLVT_DB_MINMAX then Some (Minmax a b False, r)
          else if ty = SNDRV_CTL_TLVT_DB_MINMAX_MUTE then Some (Minmax a b True, r)
          else None
      | _ \<Rightarrow> None)"
| "decode _ _ = None"
| "decode_all n [] = Some []"
| "decode_all 0 _ = None"
| "decode_all (Suc n) ws =
     (case decode n ws of
        Some (t, r) \<Rightarrow> map_option ((#) t) (decode_all n r)
      | None \<Rightarrow> None)"
| "decode_ranges n [] = Some []"
| "decode_ranges (Suc n) (lo # hi # ws) =
     (case decode n ws of
        Some (t, r) \<Rightarrow> map_option ((#) (lo, hi, t)) (decode_ranges n r)
      | None \<Rightarrow> None)"
| "decode_ranges _ _ = None"

lemma block_words_length:
  assumes "4 * k + 8 \<le> 2 ^ 32"
  shows "block_words (of_nat (4 * k)) = k"
proof -
  have "unat (of_nat (4 * k) + 3 :: u32) = 4 * k + 3"
  proof -
    have "of_nat (4 * k) + 3 = (of_nat (4 * k + 3) :: u32)" by simp
    then show ?thesis using assms unat_of_nat32 [of "4 * k + 3"] by simp
  qed
  then have "unat ((of_nat (4 * k) + 3) AND NOT 3 :: u32) = 4 * k"
    unfolding mask_numerals(2) unat_and_not_mask by simp
  then show ?thesis
    by (simp add: block_words_def)
qed

lemma decode_item:
  assumes "4 * length va + 8 \<le> 2 ^ 32"
  shows "decode (Suc n) (SNDRV_CTL_TLVD_ITEM ty va @ r) =
     (if ty = SNDRV_CTL_TLVT_CONTAINER then map_option (\<lambda>ts. (Container ts, r)) (decode_all n va)
      else if ty = SNDRV_CTL_TLVT_DB_RANGE then map_option (\<lambda>rs. (Range rs, r)) (decode_ranges n va)
      else if ty \<in> {SNDRV_CTL_TLVT_CHMAP_FIXED, SNDRV_CTL_TLVT_CHMAP_VAR, SNDRV_CTL_TLVT_CHMAP_PAIRED}
      then Some (Chmap ty va, r)
      else case va of
        [a, b] \<Rightarrow>
          if ty = SNDRV_CTL_TLVT_DB_SCALE
          then Some (Scale a (b AND SNDRV_CTL_TLVD_DB_SCALE_MASK) (b AND SNDRV_CTL_TLVD_DB_SCALE_MUTE \<noteq> 0), r)
          else if ty = SNDRV_CTL_TLVT_DB_LINEAR then Some (Linear a b, r)
          else if ty = SNDRV_CTL_TLVT_DB_MINMAX then Some (Minmax a b False, r)
          else if ty = SNDRV_CTL_TLVT_DB_MINMAX_MUTE then Some (Minmax a b True, r)
          else None
      | _ \<Rightarrow> None)"
  using block_words_length [OF assms]
  by (simp add: SNDRV_CTL_TLVD_ITEM_def SNDRV_CTL_TLVD_LENGTH_def Let_def del: of_nat_mult of_nat_numeral)

lemma scale_fields:
  assumes "step < 0x10000"
  shows "((step AND SNDRV_CTL_TLVD_DB_SCALE_MASK) OR (if mute then SNDRV_CTL_TLVD_DB_SCALE_MUTE else 0))
           AND SNDRV_CTL_TLVD_DB_SCALE_MASK = step"
    and "((step AND SNDRV_CTL_TLVD_DB_SCALE_MASK) OR (if mute then SNDRV_CTL_TLVD_DB_SCALE_MUTE else 0))
           AND SNDRV_CTL_TLVD_DB_SCALE_MUTE \<noteq> 0 \<longleftrightarrow> mute"
proof -
  have m: "SNDRV_CTL_TLVD_DB_SCALE_MASK = mask 16" and b: "SNDRV_CTL_TLVD_DB_SCALE_MUTE = push_bit 16 1"
    by (simp_all add: SNDRV_CTL_TLVD_DB_SCALE_MASK_def SNDRV_CTL_TLVD_DB_SCALE_MUTE_def mask_eq_exp_minus_1)
  have low: "k < 16" if "bit step k" for k
    using less_not_bit [of step 16 k] assms that by (auto simp: not_less [symmetric])
  show "((step AND SNDRV_CTL_TLVD_DB_SCALE_MASK) OR (if mute then SNDRV_CTL_TLVD_DB_SCALE_MUTE else 0))
           AND SNDRV_CTL_TLVD_DB_SCALE_MASK = step"
    unfolding m b by (rule bit_word_eqI) (use low in \<open>auto simp: bit_simps simp del: push_bit_of_1\<close>)
  show "((step AND SNDRV_CTL_TLVD_DB_SCALE_MASK) OR (if mute then SNDRV_CTL_TLVD_DB_SCALE_MUTE else 0))
           AND SNDRV_CTL_TLVD_DB_SCALE_MUTE \<noteq> 0 \<longleftrightarrow> mute"
  proof (cases mute)
    case True
    have "bit (((step AND mask 16) OR push_bit 16 1) AND push_bit 16 1 :: u32) 16"
      by (simp add: bit_simps del: push_bit_of_1)
    then have "((step AND mask 16) OR push_bit 16 1) AND push_bit 16 1 \<noteq> (0 :: u32)"
      by (intro notI) (simp only: bit_0_eq bot_apply bot_bool_def)
    then show ?thesis
      unfolding m b by (simp only: True if_True simp_thms)
  next
    case False
    have "(step AND mask 16) AND push_bit 16 1 = (0 :: u32)"
      by (rule bit_word_eqI) (auto simp: bit_simps simp del: push_bit_of_1)
    then show ?thesis
      unfolding m b using False by simp
  qed
qed

lemma length_item: "length (SNDRV_CTL_TLVD_ITEM ty va) = length va + 2"
  by (simp add: SNDRV_CTL_TLVD_ITEM_def)

lemma encode_long: "2 \<le> length (encode t)"
  by (cases t) (simp_all add: SNDRV_CTL_TLVD_CONTAINER_ITEM_def SNDRV_CTL_TLVD_DB_RANGE_ITEM_def
      SNDRV_CTL_TLVD_DB_SCALE_ITEM_def SNDRV_CTL_TLVD_DB_LINEAR_ITEM_def SNDRV_CTL_TLVD_DB_MINMAX_ITEM_def
      SNDRV_CTL_TLVD_DB_MINMAX_MUTE_ITEM_def length_item)

text \<open>A sequence of items is read when each of them is.\<close>

definition reads :: "sound_tlv \<Rightarrow> bool" where
  "reads t \<longleftrightarrow> (\<forall>n r. length (encode t) \<le> n \<longrightarrow> decode n (encode t @ r) = Some (t, r))"

lemma readsI:
  assumes "\<And>m r. length (encode t) \<le> Suc m \<Longrightarrow> decode (Suc m) (encode t @ r) = Some (t, r)"
  shows "reads t"
  unfolding reads_def
proof (intro allI impI)
  fix n r assume "length (encode t) \<le> n"
  moreover from this obtain m where "n = Suc m" using encode_long [of t] by (cases n) auto
  ultimately show "decode n (encode t @ r) = Some (t, r)" using assms by simp
qed

lemma decode_all_reads:
  "\<forall>t \<in> set ts. reads t \<Longrightarrow> length (concat (map encode ts)) < n \<Longrightarrow> decode_all n (concat (map encode ts)) = Some ts"
proof (induction ts arbitrary: n)
  case (Cons t ts)
  then obtain m where n: "n = Suc m" by (cases n) auto
  have "encode t @ concat (map encode ts) \<noteq> []" using encode_long [of t] by auto
  then obtain w ws where w: "encode t @ concat (map encode ts) = w # ws" by (cases "encode t @ concat (map encode ts)") auto
  have "decode m (encode t @ concat (map encode ts)) = Some (t, concat (map encode ts))"
    using Cons.prems n by (auto simp: reads_def)
  moreover have "decode_all m (concat (map encode ts)) = Some ts"
    using Cons.prems n encode_long [of t] by (intro Cons.IH) auto
  ultimately show ?case
    using n w by simp
qed simp

definition range_words :: "(u32 \<times> u32 \<times> sound_tlv) list \<Rightarrow> u32 list" where
  "range_words rs = concat (map (\<lambda>(lo, hi, t). [lo, hi] @ encode t) rs)"

lemma decode_ranges_reads:
  "\<forall>(lo, hi, t) \<in> set rs. reads t \<Longrightarrow> length (range_words rs) < n \<Longrightarrow> decode_ranges n (range_words rs) = Some rs"
proof (induction rs arbitrary: n)
  case (Cons x rs)
  obtain lo hi t where x: "x = (lo, hi, t)" by (cases x)
  obtain m where n: "n = Suc m" using Cons.prems by (cases n) auto
  have "decode m (encode t @ range_words rs) = Some (t, range_words rs)"
    using Cons.prems n x by (auto simp: reads_def range_words_def)
  moreover have "decode_ranges m (range_words rs) = Some rs"
    using Cons.prems n x by (intro Cons.IH) (auto simp: range_words_def)
  ultimately show ?case
    using n x by (simp add: range_words_def)
qed (simp add: range_words_def)

lemma encode_range: "encode (Range rs) = SNDRV_CTL_TLVD_DB_RANGE_ITEM (range_words rs)"
  by (simp add: range_words_def comp_def map_prod_def case_prod_unfold)

lemmas tlv_items = SNDRV_CTL_TLVD_CONTAINER_ITEM_def SNDRV_CTL_TLVD_DB_RANGE_ITEM_def
  SNDRV_CTL_TLVD_DB_SCALE_ITEM_def SNDRV_CTL_TLVD_DB_LINEAR_ITEM_def SNDRV_CTL_TLVD_DB_MINMAX_ITEM_def
  SNDRV_CTL_TLVD_DB_MINMAX_MUTE_ITEM_def

lemma reads_container:
  assumes "\<forall>t \<in> set ts. reads t" and "4 * length (encode (Container ts)) \<le> 2 ^ 32"
  shows "reads (Container ts)"
proof (rule readsI)
  fix m r assume "length (encode (Container ts)) \<le> Suc m"
  then have "length (concat (map encode ts)) < m" by (simp add: tlv_items length_item)
  then show "decode (Suc m) (encode (Container ts) @ r) = Some (Container ts, r)"
    using assms decode_all_reads by (simp add: tlv_items decode_item length_item)
qed

lemma reads_range:
  assumes "\<forall>(lo, hi, t) \<in> set rs. reads t" and "4 * length (encode (Range rs)) \<le> 2 ^ 32"
  shows "reads (Range rs)"
proof (rule readsI)
  fix m r assume "length (encode (Range rs)) \<le> Suc m"
  then have "length (range_words rs) < m" by (simp add: encode_range tlv_items length_item del: encode.simps)
  then show "decode (Suc m) (encode (Range rs) @ r) = Some (Range rs, r)"
    using assms decode_ranges_reads
    by (simp add: encode_range tlv_items decode_item length_item tlv_types del: encode.simps)
qed

lemma length_concat_member: "x \<in> set xs \<Longrightarrow> length (f x) \<le> length (concat (map f xs))"
  by (induction xs) auto

lemma reads_scale: "step < 0x10000 \<Longrightarrow> reads (Scale mn step mute)"
  using scale_fields [of step mute] by (intro readsI) (simp add: tlv_items decode_item tlv_types)

lemma reads_chmap: "sound_ok (Chmap ty chs) \<Longrightarrow> 4 * length (encode (Chmap ty chs)) \<le> 2 ^ 32 \<Longrightarrow> reads (Chmap ty chs)"
  by (intro readsI) (auto simp: decode_item tlv_types length_item)

lemma reads_pairs: "reads (Linear lo hi)" "reads (Minmax lo hi mute)"
  by (intro readsI; simp add: tlv_items decode_item tlv_types)+

lemma encode_reads: "sound_ok t \<Longrightarrow> 4 * length (encode t) \<le> 2 ^ 32 \<Longrightarrow> reads t"
proof (induction t)
  case (Container ts)
  have "reads t" if "t \<in> set ts" for t
  proof (rule Container.IH [OF that])
    show "sound_ok t" using Container.prems(1) that by (simp add: list_all_iff)
    show "4 * length (encode t) \<le> 2 ^ 32"
      using length_concat_member [OF that, of encode] Container.prems(2) by (simp add: tlv_items length_item)
  qed
  then show ?case
    using Container.prems(2) by (intro reads_container) auto
next
  case (Range rs)
  have "reads t" if "(lo, hi, t) \<in> set rs" for lo hi t
  proof (rule Range.IH [OF that])
    show "(hi, t) \<in> Basic_BNFs.snds (lo, hi, t)" and "t \<in> Basic_BNFs.snds (hi, t)" by simp_all
    show "sound_ok t" using Range.prems(1) that by (auto simp: list_all_iff)
    show "4 * length (encode t) \<le> 2 ^ 32"
      using length_concat_member [OF that, of "\<lambda>(lo, hi, t). [lo, hi] @ encode t"] Range.prems(2)
      unfolding encode_range by (simp add: tlv_items length_item range_words_def)
  qed
  then show ?case
    using Range.prems(2) by (intro reads_range) auto
qed (use reads_scale reads_chmap reads_pairs in auto)

text \<open>C23: Whatever tree of containers, ranges and items is built with the macros, the reader that the
  comment of the header describes gives the tree back and the words that follow it: the lengths the
  compiler computes fit together at every level.  The bounds are a step of sixteen bits, the three
  types of channel maps, and four gigabytes in all; the number of words is fuel enough.
\<close>

theorem sound_tree_read:
  assumes "sound_ok t" and "4 * length (encode t) \<le> 2 ^ 32"
  shows "decode (length (encode t)) (encode t @ rest) = Some (t, rest)"
  using encode_reads [OF assms] by (simp add: reads_def)

text \<open>A mute switch inside a range inside a container, next to a second item.\<close>

definition sample_tree :: sound_tlv where
  "sample_tree = Container [Range [(0, 10, Scale 5 50 True)], Minmax 1 2 False]"

lemma sample_words: "encode sample_tree = [0, 48, 3, 24, 0, 10, 1, 8, 5, 0x10032, 4, 8, 1, 2]"
  by code_simp

theorem sound_tree_read_witness:
  "decode 14 ([0, 48, 3, 24, 0, 10, 1, 8, 5, 0x10032, 4, 8, 1, 2] @ [7]) = Some (sample_tree, [7])"
proof -
  have l: "length (encode sample_tree) = 14" and ok: "sound_ok sample_tree"
    unfolding sample_words by (simp_all add: sample_tree_def)
  show ?thesis
    unfolding sample_words [symmetric] by (rule sound_tree_read [OF ok, unfolded l]) simp
qed

end
