(* ===== verification/File_Kind.thy ===== *)
theory File_Kind
  imports Byte_Order
begin

text \<open>
  File types, as the mode of \<^verbatim>\<open>sys/stat.h\<close> (with \<^verbatim>\<open>bits/stat.h\<close>) and of \<^verbatim>\<open>linux/stat.h\<close> and as the type
  of a directory entry of \<^verbatim>\<open>dirent.h\<close>, \<^verbatim>\<open>linux/coda.h\<close> and \<^verbatim>\<open>linux/gfs2_ondisk.h\<close>; and the sizes and
  positions of entries and inodes in \<^verbatim>\<open>linux/coda.h\<close>, \<^verbatim>\<open>linux/gfs2_ondisk.h\<close>, \<^verbatim>\<open>linux/fuse.h\<close>,
  \<^verbatim>\<open>linux/bfs_fs.h\<close> and \<^verbatim>\<open>linux/msdos_fs.h\<close>.
\<close>

section \<open>Modes\<close>

definition u_S_IFMT :: u32 where "u_S_IFMT = 0xF000"

definition u_S_IFDIR :: u32 where "u_S_IFDIR = 0x4000"

definition u_S_IFCHR :: u32 where "u_S_IFCHR = 0x2000"

definition u_S_IFBLK :: u32 where "u_S_IFBLK = 0x6000"

definition u_S_IFREG :: u32 where "u_S_IFREG = 0x8000"

definition u_S_IFIFO :: u32 where "u_S_IFIFO = 0x1000"

definition u_S_IFLNK :: u32 where "u_S_IFLNK = 0xA000"

definition u_S_IFSOCK :: u32 where "u_S_IFSOCK = 0xC000"

definition u_S_ISTYPE :: "u32 \<Rightarrow> u32 \<Rightarrow> bool" where
  "u_S_ISTYPE mode m \<longleftrightarrow> mode AND u_S_IFMT = m"

definition S_ISDIR :: "u32 \<Rightarrow> bool" where
  "S_ISDIR mode \<longleftrightarrow> u_S_ISTYPE mode u_S_IFDIR"

definition S_ISCHR :: "u32 \<Rightarrow> bool" where
  "S_ISCHR mode \<longleftrightarrow> u_S_ISTYPE mode u_S_IFCHR"

definition S_ISBLK :: "u32 \<Rightarrow> bool" where
  "S_ISBLK mode \<longleftrightarrow> u_S_ISTYPE mode u_S_IFBLK"

definition S_ISREG :: "u32 \<Rightarrow> bool" where
  "S_ISREG mode \<longleftrightarrow> u_S_ISTYPE mode u_S_IFREG"

definition S_ISFIFO :: "u32 \<Rightarrow> bool" where
  "S_ISFIFO mode \<longleftrightarrow> u_S_ISTYPE mode u_S_IFIFO"

definition S_ISLNK :: "u32 \<Rightarrow> bool" where
  "S_ISLNK mode \<longleftrightarrow> u_S_ISTYPE mode u_S_IFLNK"

definition S_ISSOCK :: "u32 \<Rightarrow> bool" where
  "S_ISSOCK mode \<longleftrightarrow> u_S_ISTYPE mode u_S_IFSOCK"

definition u_S_TYPEISMQ :: "u32 \<Rightarrow> u32" where
  "u_S_TYPEISMQ st_mode = st_mode - st_mode"

definition u_S_TYPEISSEM :: "u32 \<Rightarrow> u32" where
  "u_S_TYPEISSEM st_mode = st_mode - st_mode"

definition u_S_TYPEISSHM :: "u32 \<Rightarrow> u32" where
  "u_S_TYPEISSHM st_mode = st_mode - st_mode"

definition S_TYPEISMQ :: "u32 \<Rightarrow> u32" where
  "S_TYPEISMQ st_mode = u_S_TYPEISMQ st_mode"

definition S_TYPEISSEM :: "u32 \<Rightarrow> u32" where
  "S_TYPEISSEM st_mode = u_S_TYPEISSEM st_mode"

definition S_TYPEISSHM :: "u32 \<Rightarrow> u32" where
  "S_TYPEISSHM st_mode = u_S_TYPEISSHM st_mode"

text \<open>Protection bits; those of group and others are those of the owner, shifted.\<close>

definition u_S_ISUID :: u32 where "u_S_ISUID = 0x800"

definition u_S_ISGID :: u32 where "u_S_ISGID = 0x400"

definition u_S_ISVTX :: u32 where "u_S_ISVTX = 0x200"

definition u_S_IREAD :: u32 where "u_S_IREAD = 0x100"

definition u_S_IWRITE :: u32 where "u_S_IWRITE = 0x80"

definition u_S_IEXEC :: u32 where "u_S_IEXEC = 0x40"

definition S_IRUSR :: u32 where "S_IRUSR = u_S_IREAD"

definition S_IWUSR :: u32 where "S_IWUSR = u_S_IWRITE"

definition S_IXUSR :: u32 where "S_IXUSR = u_S_IEXEC"

definition S_IRWXU :: u32 where "S_IRWXU = u_S_IREAD OR u_S_IWRITE OR u_S_IEXEC"

definition S_IRGRP :: u32 where "S_IRGRP = drop_bit 3 S_IRUSR"

definition S_IWGRP :: u32 where "S_IWGRP = drop_bit 3 S_IWUSR"

definition S_IXGRP :: u32 where "S_IXGRP = drop_bit 3 S_IXUSR"

definition S_IRWXG :: u32 where "S_IRWXG = drop_bit 3 S_IRWXU"

definition S_IROTH :: u32 where "S_IROTH = drop_bit 3 S_IRGRP"

definition S_IWOTH :: u32 where "S_IWOTH = drop_bit 3 S_IWGRP"

definition S_IXOTH :: u32 where "S_IXOTH = drop_bit 3 S_IXGRP"

definition S_IRWXO :: u32 where "S_IRWXO = drop_bit 3 S_IRWXG"

text \<open>The kernel header has them written out.\<close>

definition linux_S_IFMT :: u32 where "linux_S_IFMT = 0xF000"

definition linux_S_IFSOCK :: u32 where "linux_S_IFSOCK = 0xC000"

definition linux_S_IFLNK :: u32 where "linux_S_IFLNK = 0xA000"

definition linux_S_IFREG :: u32 where "linux_S_IFREG = 0x8000"

definition linux_S_IFBLK :: u32 where "linux_S_IFBLK = 0x6000"

definition linux_S_IFDIR :: u32 where "linux_S_IFDIR = 0x4000"

definition linux_S_IFCHR :: u32 where "linux_S_IFCHR = 0x2000"

definition linux_S_IFIFO :: u32 where "linux_S_IFIFO = 0x1000"

definition linux_S_ISDIR :: "u32 \<Rightarrow> bool" where
  "linux_S_ISDIR m \<longleftrightarrow> m AND linux_S_IFMT = linux_S_IFDIR"

definition linux_S_ISCHR :: "u32 \<Rightarrow> bool" where
  "linux_S_ISCHR m \<longleftrightarrow> m AND linux_S_IFMT = linux_S_IFCHR"

definition linux_S_ISBLK :: "u32 \<Rightarrow> bool" where
  "linux_S_ISBLK m \<longleftrightarrow> m AND linux_S_IFMT = linux_S_IFBLK"

definition linux_S_ISREG :: "u32 \<Rightarrow> bool" where
  "linux_S_ISREG m \<longleftrightarrow> m AND linux_S_IFMT = linux_S_IFREG"

definition linux_S_ISFIFO :: "u32 \<Rightarrow> bool" where
  "linux_S_ISFIFO m \<longleftrightarrow> m AND linux_S_IFMT = linux_S_IFIFO"

definition linux_S_ISLNK :: "u32 \<Rightarrow> bool" where
  "linux_S_ISLNK m \<longleftrightarrow> m AND linux_S_IFMT = linux_S_IFLNK"

definition linux_S_ISSOCK :: "u32 \<Rightarrow> bool" where
  "linux_S_ISSOCK m \<longleftrightarrow> m AND linux_S_IFMT = linux_S_IFSOCK"

definition linux_S_IRWXU :: u32 where "linux_S_IRWXU = 0x1C0"

definition linux_S_IRUSR :: u32 where "linux_S_IRUSR = 0x100"

definition linux_S_IWUSR :: u32 where "linux_S_IWUSR = 0x80"

definition linux_S_IXUSR :: u32 where "linux_S_IXUSR = 0x40"

definition linux_S_IRWXG :: u32 where "linux_S_IRWXG = 0x38"

definition linux_S_IRGRP :: u32 where "linux_S_IRGRP = 0x20"

definition linux_S_IWGRP :: u32 where "linux_S_IWGRP = 0x10"

definition linux_S_IXGRP :: u32 where "linux_S_IXGRP = 0x8"

definition linux_S_IRWXO :: u32 where "linux_S_IRWXO = 0x7"

definition linux_S_IROTH :: u32 where "linux_S_IROTH = 0x4"

definition linux_S_IWOTH :: u32 where "linux_S_IWOTH = 0x2"

definition linux_S_IXOTH :: u32 where "linux_S_IXOTH = 0x1"

section \<open>Types of directory entries\<close>

definition DT_UNKNOWN :: u32 where "DT_UNKNOWN = 0"

definition DT_FIFO :: u32 where "DT_FIFO = 1"

definition DT_CHR :: u32 where "DT_CHR = 2"

definition DT_DIR :: u32 where "DT_DIR = 4"

definition DT_BLK :: u32 where "DT_BLK = 6"

definition DT_REG :: u32 where "DT_REG = 8"

definition DT_LNK :: u32 where "DT_LNK = 10"

definition DT_SOCK :: u32 where "DT_SOCK = 12"

definition DT_WHT :: u32 where "DT_WHT = 14"

definition IFTODT :: "u32 \<Rightarrow> u32" where
  "IFTODT mode = drop_bit 12 (mode AND 0xF000)"

definition DTTOIF :: "u32 \<Rightarrow> u32" where
  "DTTOIF dirtype = push_bit 12 dirtype"

definition CDT_UNKNOWN :: u32 where "CDT_UNKNOWN = 0"

definition CDT_FIFO :: u32 where "CDT_FIFO = 1"

definition CDT_CHR :: u32 where "CDT_CHR = 2"

definition CDT_DIR :: u32 where "CDT_DIR = 4"

definition CDT_BLK :: u32 where "CDT_BLK = 6"

definition CDT_REG :: u32 where "CDT_REG = 8"

definition CDT_LNK :: u32 where "CDT_LNK = 10"

definition CDT_SOCK :: u32 where "CDT_SOCK = 12"

definition CDT_WHT :: u32 where "CDT_WHT = 14"

definition IFTOCDT :: "u32 \<Rightarrow> u32" where
  "IFTOCDT mode = drop_bit 12 (mode AND 0xF000)"

definition CDTTOIF :: "u32 \<Rightarrow> u32" where
  "CDTTOIF dirtype = push_bit 12 dirtype"

definition DT2IF :: "u32 \<Rightarrow> u32" where
  "DT2IF dt = push_bit 12 dt AND linux_S_IFMT"

definition IF2DT :: "u32 \<Rightarrow> u32" where
  "IF2DT sif = drop_bit 12 (sif AND linux_S_IFMT)"

lemmas mode_bits = u_S_IFMT_def u_S_IFDIR_def u_S_IFCHR_def u_S_IFBLK_def u_S_IFREG_def u_S_IFIFO_def u_S_IFLNK_def u_S_IFSOCK_def
  linux_S_IFMT_def linux_S_IFDIR_def linux_S_IFCHR_def linux_S_IFBLK_def linux_S_IFREG_def linux_S_IFIFO_def linux_S_IFLNK_def linux_S_IFSOCK_def

lemmas kind_tests = u_S_ISTYPE_def S_ISDIR_def S_ISCHR_def S_ISBLK_def S_ISREG_def S_ISFIFO_def S_ISLNK_def S_ISSOCK_def

lemmas linux_kind_tests = linux_S_ISDIR_def linux_S_ISCHR_def linux_S_ISBLK_def linux_S_ISREG_def linux_S_ISFIFO_def linux_S_ISLNK_def linux_S_ISSOCK_def

lemmas entry_types = DT_UNKNOWN_def DT_FIFO_def DT_CHR_def DT_DIR_def DT_BLK_def DT_REG_def DT_LNK_def DT_SOCK_def DT_WHT_def

lemmas coda_types = CDT_UNKNOWN_def CDT_FIFO_def CDT_CHR_def CDT_DIR_def CDT_BLK_def CDT_REG_def CDT_LNK_def CDT_SOCK_def CDT_WHT_def

lemmas kind_moves = IFTODT_def DTTOIF_def IFTOCDT_def CDTTOIF_def DT2IF_def IF2DT_def

text \<open>The type is the top nibble of a sixteen-bit mode.\<close>

lemma nibble: "(0xF000 :: u32) = push_bit 12 (mask 4)"
  by (simp add: mask_eq_exp_minus_1)

lemma kind_of_mode:
  fixes mode v :: u32
  assumes "v < 16"
  shows "drop_bit 12 (mode AND 0xF000) = v \<longleftrightarrow> mode AND 0xF000 = push_bit 12 v"
proof
  have "push_bit 12 (drop_bit 12 (mode AND 0xF000)) = mode AND 0xF000"
    unfolding nibble by (rule bit_word_eqI) (auto simp: bit_simps)
  then show "drop_bit 12 (mode AND 0xF000) = v \<Longrightarrow> mode AND 0xF000 = push_bit 12 v" by simp
next
  have low: "k < 4" if "bit v k" for k
    using less_not_bit [of v 4 k] assms that by (auto simp: not_less [symmetric])
  have "drop_bit 12 (push_bit 12 v) = v"
    by (rule bit_word_eqI) (use low in \<open>auto simp: bit_simps dest: low\<close>)
  then show "mode AND 0xF000 = push_bit 12 v \<Longrightarrow> drop_bit 12 (mode AND 0xF000) = v" by simp
qed

lemma conversions_same: "IFTOCDT = IFTODT" "IF2DT = IFTODT" "CDTTOIF = DTTOIF"
  by (simp_all add: fun_eq_iff kind_moves linux_S_IFMT_def)

lemma kind_names: "CDT_FIFO = DT_FIFO" "CDT_CHR = DT_CHR" "CDT_DIR = DT_DIR" "CDT_BLK = DT_BLK" "CDT_REG = DT_REG"
  "CDT_LNK = DT_LNK" "CDT_SOCK = DT_SOCK"
  by (simp_all add: entry_types coda_types)

lemma tests_same: "linux_S_ISDIR = S_ISDIR" "linux_S_ISCHR = S_ISCHR" "linux_S_ISBLK = S_ISBLK" "linux_S_ISREG = S_ISREG" "linux_S_ISFIFO = S_ISFIFO" "linux_S_ISLNK = S_ISLNK" "linux_S_ISSOCK = S_ISSOCK"
  by (simp_all add: fun_eq_iff kind_tests linux_kind_tests mode_bits)

lemma type_iff_test: "IFTODT mode = DT_DIR \<longleftrightarrow> S_ISDIR mode"
  "IFTODT mode = DT_CHR \<longleftrightarrow> S_ISCHR mode"
  "IFTODT mode = DT_BLK \<longleftrightarrow> S_ISBLK mode"
  "IFTODT mode = DT_REG \<longleftrightarrow> S_ISREG mode"
  "IFTODT mode = DT_FIFO \<longleftrightarrow> S_ISFIFO mode"
  "IFTODT mode = DT_LNK \<longleftrightarrow> S_ISLNK mode"
  "IFTODT mode = DT_SOCK \<longleftrightarrow> S_ISSOCK mode"
  using kind_of_mode [of _ mode] by (simp_all add: IFTODT_def entry_types kind_tests mode_bits)

text \<open>C24: The headers agree on what a file is.  For every mode, the seven tests of \<^verbatim>\<open>sys/stat.h\<close> and of
  \<^verbatim>\<open>linux/stat.h\<close> give the same answers, and each holds exactly when the conversion of \<^verbatim>\<open>dirent.h\<close>, of
  \<^verbatim>\<open>linux/coda.h\<close> and of \<^verbatim>\<open>linux/gfs2_ondisk.h\<close> gives the entry type of that name; at most one holds;
  and converting an entry type to a mode and back gives the type.
\<close>

theorem file_kinds_agree:
  "((linux_S_ISDIR mode \<longleftrightarrow> S_ISDIR mode) \<and> (IFTODT mode = DT_DIR \<longleftrightarrow> S_ISDIR mode) \<and>
    (IFTOCDT mode = CDT_DIR \<longleftrightarrow> S_ISDIR mode) \<and> (IF2DT mode = DT_DIR \<longleftrightarrow> S_ISDIR mode) \<and>
    (linux_S_ISCHR mode \<longleftrightarrow> S_ISCHR mode) \<and> (IFTODT mode = DT_CHR \<longleftrightarrow> S_ISCHR mode) \<and>
    (IFTOCDT mode = CDT_CHR \<longleftrightarrow> S_ISCHR mode) \<and> (IF2DT mode = DT_CHR \<longleftrightarrow> S_ISCHR mode) \<and>
    (linux_S_ISBLK mode \<longleftrightarrow> S_ISBLK mode) \<and> (IFTODT mode = DT_BLK \<longleftrightarrow> S_ISBLK mode) \<and>
    (IFTOCDT mode = CDT_BLK \<longleftrightarrow> S_ISBLK mode) \<and> (IF2DT mode = DT_BLK \<longleftrightarrow> S_ISBLK mode) \<and>
    (linux_S_ISREG mode \<longleftrightarrow> S_ISREG mode) \<and> (IFTODT mode = DT_REG \<longleftrightarrow> S_ISREG mode) \<and>
    (IFTOCDT mode = CDT_REG \<longleftrightarrow> S_ISREG mode) \<and> (IF2DT mode = DT_REG \<longleftrightarrow> S_ISREG mode) \<and>
    (linux_S_ISFIFO mode \<longleftrightarrow> S_ISFIFO mode) \<and> (IFTODT mode = DT_FIFO \<longleftrightarrow> S_ISFIFO mode) \<and>
    (IFTOCDT mode = CDT_FIFO \<longleftrightarrow> S_ISFIFO mode) \<and> (IF2DT mode = DT_FIFO \<longleftrightarrow> S_ISFIFO mode) \<and>
    (linux_S_ISLNK mode \<longleftrightarrow> S_ISLNK mode) \<and> (IFTODT mode = DT_LNK \<longleftrightarrow> S_ISLNK mode) \<and>
    (IFTOCDT mode = CDT_LNK \<longleftrightarrow> S_ISLNK mode) \<and> (IF2DT mode = DT_LNK \<longleftrightarrow> S_ISLNK mode) \<and>
    (linux_S_ISSOCK mode \<longleftrightarrow> S_ISSOCK mode) \<and> (IFTODT mode = DT_SOCK \<longleftrightarrow> S_ISSOCK mode) \<and>
    (IFTOCDT mode = CDT_SOCK \<longleftrightarrow> S_ISSOCK mode) \<and> (IF2DT mode = DT_SOCK \<longleftrightarrow> S_ISSOCK mode)) \<and>
   length (filter (\<lambda>test. test mode) [S_ISDIR, S_ISCHR, S_ISBLK, S_ISREG, S_ISFIFO, S_ISLNK, S_ISSOCK]) \<le> 1 \<and>
   (IFTODT (DTTOIF dt) = dt \<longleftrightarrow> dt < 16) \<and> IF2DT (DT2IF dt) = dt AND 0xF"
proof -
  have one: "length (filter (\<lambda>test. test mode) [S_ISDIR, S_ISCHR, S_ISBLK, S_ISREG, S_ISFIFO, S_ISLNK, S_ISSOCK]) \<le> 1"
    by (simp add: kind_tests mode_bits)
  have "IFTODT (DTTOIF dt) = dt AND mask 4" and again: "IF2DT (DT2IF dt) = dt AND mask 4"
    unfolding kind_moves linux_S_IFMT_def nibble
    by (rule bit_word_eqI; auto simp: bit_simps)+
  moreover have "dt AND mask 4 = dt \<longleftrightarrow> dt < 16"
    using take_bit_less [of dt 4] and_mask_less [of 4 dt] by (auto simp: take_bit_eq_mask)
  ultimately show ?thesis
    using one again unfolding conversions_same tests_same kind_names type_iff_test by (simp add: mask_numerals)
qed

section \<open>Entries and inodes\<close>

text \<open>\<^verbatim>\<open>linux/coda.h\<close>: a directory entry has a header of eight bytes and a name of at most 255.\<close>

definition CODA_MAXNAMLEN :: u64 where "CODA_MAXNAMLEN = 255"

definition sizeof_venus_dirent :: u64 where "sizeof_venus_dirent = 264"

definition DIRSIZ :: "u8 \<Rightarrow> u64" where
  "DIRSIZ d_namlen = (sizeof_venus_dirent - (CODA_MAXNAMLEN + 1)) + scast ((ucast d_namlen + 1 + 3 :: u32) AND NOT 3)"

text \<open>A file identifier is four words; a null pointer has number 0.\<close>

definition coda_f2i :: "u32 list option \<Rightarrow> u32" where
  "coda_f2i fid =
     (case fid of
        Some opaque \<Rightarrow>
          opaque ! 3 XOR push_bit 10 (opaque ! 2) XOR push_bit 20 (opaque ! 1) XOR opaque ! 0
      | None \<Rightarrow> 0)"

definition CODA_REPLACE :: int where "CODA_REPLACE = 24"

definition CODA_PURGEFID :: int where "CODA_PURGEFID = 30"

definition DOWNCALL :: "int \<Rightarrow> bool" where
  "DOWNCALL opcode \<longleftrightarrow> CODA_REPLACE \<le> opcode \<and> opcode \<le> CODA_PURGEFID"

text \<open>\<^verbatim>\<open>linux/gfs2_ondisk.h\<close>\<close>

definition sizeof_gfs2_dirent :: u64 where "sizeof_gfs2_dirent = 40"

definition GFS2_DIRENT_SIZE :: "u64 \<Rightarrow> u64" where
  "GFS2_DIRENT_SIZE name_len = (sizeof_gfs2_dirent + name_len + 7) AND NOT 7"

definition GFS2_MIN_DIRENT_SIZE :: u64 where "GFS2_MIN_DIRENT_SIZE = GFS2_DIRENT_SIZE 1"

definition GFS2_EATYPE_LAST :: u32 where "GFS2_EATYPE_LAST = 4"

definition GFS2_EATYPE_VALID :: "u32 \<Rightarrow> bool" where
  "GFS2_EATYPE_VALID x \<longleftrightarrow> x \<le> GFS2_EATYPE_LAST"

text \<open>\<^verbatim>\<open>linux/fuse.h\<close>: the offsets of the name in the two kinds of entries.\<close>

definition FUSE_NAME_OFFSET :: u64 where "FUSE_NAME_OFFSET = 24"

definition FUSE_NAME_OFFSET_DIRENTPLUS :: u64 where "FUSE_NAME_OFFSET_DIRENTPLUS = 152"

definition FUSE_DIRENT_ALIGN :: "u64 \<Rightarrow> u64" where
  "FUSE_DIRENT_ALIGN x = (x + 8 - 1) AND NOT (8 - 1)"

definition FUSE_DIRENT_SIZE :: "u32 \<Rightarrow> u64" where
  "FUSE_DIRENT_SIZE namelen = FUSE_DIRENT_ALIGN (FUSE_NAME_OFFSET + ucast namelen)"

definition FUSE_DIRENTPLUS_SIZE :: "u32 \<Rightarrow> u64" where
  "FUSE_DIRENTPLUS_SIZE namelen = FUSE_DIRENT_ALIGN (FUSE_NAME_OFFSET_DIRENTPLUS + ucast namelen)"

text \<open>\<^verbatim>\<open>linux/bfs_fs.h\<close>: inodes of 64 bytes behind the first block, the first of which has number 2.\<close>

definition BFS_BSIZE_BITS :: nat where "BFS_BSIZE_BITS = 9"

definition BFS_BSIZE :: "'a::len word" where "BFS_BSIZE = push_bit BFS_BSIZE_BITS 1"

definition BFS_ROOT_INO :: u64 where "BFS_ROOT_INO = 2"

definition sizeof_bfs_inode :: u64 where "sizeof_bfs_inode = 64"

record bfs_inode =
  i_sblock :: u32
  i_eblock :: u32
  i_eoffset :: u32

definition BFS_OFF2INO :: "u64 \<Rightarrow> u64" where
  "BFS_OFF2INO off = (off - BFS_BSIZE) div sizeof_bfs_inode + BFS_ROOT_INO"

definition BFS_INO2OFF :: "u64 \<Rightarrow> u32" where
  "BFS_INO2OFF ino = ucast ((ino - BFS_ROOT_INO) * sizeof_bfs_inode) + BFS_BSIZE"

definition BFS_NZFILESIZE :: "bfs_inode \<Rightarrow> u32" where
  "BFS_NZFILESIZE ip = (little_le32_to_cpu (i_eoffset ip) + 1) - little_le32_to_cpu (i_sblock ip) * BFS_BSIZE"

definition BFS_FILESIZE :: "bfs_inode \<Rightarrow> u32" where
  "BFS_FILESIZE ip = (if i_sblock ip = 0 then 0 else BFS_NZFILESIZE ip)"

definition BFS_FILEBLOCKS :: "bfs_inode \<Rightarrow> u32" where
  "BFS_FILEBLOCKS ip =
     (if i_sblock ip = 0 then 0 else (little_le32_to_cpu (i_eblock ip) + 1) - little_le32_to_cpu (i_sblock ip))"

text \<open>The flag for a read-only mount is the kernel's, and a parameter.\<close>

definition BFS_UNCLEAN :: "u64 \<Rightarrow> u32 \<Rightarrow> u32 \<Rightarrow> u64 \<Rightarrow> bool" where
  "BFS_UNCLEAN SB_RDONLY s_from s_to s_flags \<longleftrightarrow>
     little_le32_to_cpu s_from \<noteq> - 1 \<and> little_le32_to_cpu s_to \<noteq> - 1 \<and> \<not> (s_flags AND SB_RDONLY \<noteq> 0)"

text \<open>\<^verbatim>\<open>linux/msdos_fs.h\<close>\<close>

definition DELETED_FLAG :: u8 where "DELETED_FLAG = 0xe5"

definition IS_FREE :: "u8 \<Rightarrow> bool" where
  "IS_FREE n \<longleftrightarrow> n = 0 \<or> n = DELETED_FLAG"

definition FAT_FSINFO_SIG1 :: u32 where "FAT_FSINFO_SIG1 = 0x41615252"

definition FAT_FSINFO_SIG2 :: u32 where "FAT_FSINFO_SIG2 = 0x61417272"

definition IS_FSINFO :: "u32 \<Rightarrow> u32 \<Rightarrow> bool" where
  "IS_FSINFO signature1 signature2 \<longleftrightarrow>
     little_le32_to_cpu signature1 = FAT_FSINFO_SIG1 \<and> little_le32_to_cpu signature2 = FAT_FSINFO_SIG2"

definition CF_LE_W :: "u16 \<Rightarrow> u16" where "CF_LE_W v = little_le16_to_cpu v"

definition CF_LE_L :: "u32 \<Rightarrow> u32" where "CF_LE_L v = little_le32_to_cpu v"

definition CT_LE_W :: "u16 \<Rightarrow> u16" where "CT_LE_W v = little_cpu_to_le16 v"

definition CT_LE_L :: "u32 \<Rightarrow> u32" where "CT_LE_L v = little_cpu_to_le32 v"

text \<open>Sizes of entries: multiples of eight that hold header and name, with less than eight bytes lost.\<close>

lemma align8:
  fixes x :: u64
  assumes "unat x + 7 < 2 ^ 64"
  shows "unat ((x + 7) AND NOT 7) = round_up 8 (unat x)"
  using unat_round_up [of x 3] assms by simp

lemma entry_sizes:
  "unat (FUSE_DIRENT_SIZE n) = round_up 8 (24 + unat n)"
  "unat (FUSE_DIRENTPLUS_SIZE n) = round_up 8 (152 + unat n)"
  "unat k < 2 ^ 63 \<Longrightarrow> unat (GFS2_DIRENT_SIZE k) = round_up 8 (40 + unat k)"
proof -
  have "unat n < 2 ^ LENGTH(32)" by (rule unsigned_less)
  then have n: "unat n < 2 ^ 32" by simp
  have sum: "unat (c + ucast n :: u64) = unat c + unat n" if "unat c < 2 ^ 32" for c :: u64
    using n that by (subst unat_add_lem [THEN iffD1]) (simp_all add: unat_ucast_up)
  show "unat (FUSE_DIRENT_SIZE n) = round_up 8 (24 + unat n)"
    using align8 [of "FUSE_NAME_OFFSET + ucast n"] sum [of FUSE_NAME_OFFSET] n
    by (simp add: FUSE_DIRENT_SIZE_def FUSE_DIRENT_ALIGN_def FUSE_NAME_OFFSET_def)
  show "unat (FUSE_DIRENTPLUS_SIZE n) = round_up 8 (152 + unat n)"
    using align8 [of "FUSE_NAME_OFFSET_DIRENTPLUS + ucast n"] sum [of FUSE_NAME_OFFSET_DIRENTPLUS] n
    by (simp add: FUSE_DIRENTPLUS_SIZE_def FUSE_DIRENT_ALIGN_def FUSE_NAME_OFFSET_DIRENTPLUS_def)
  show "unat (GFS2_DIRENT_SIZE k) = round_up 8 (40 + unat k)" if "unat k < 2 ^ 63"
  proof -
    have "unat (sizeof_gfs2_dirent + k) = 40 + unat k"
      using that unat_add_lem [of sizeof_gfs2_dirent k] by (simp add: sizeof_gfs2_dirent_def)
    then show ?thesis
      using align8 [of "sizeof_gfs2_dirent + k"] that by (simp add: GFS2_DIRENT_SIZE_def)
  qed
qed

lemma block_size: "BFS_BSIZE = (512 :: u64)" "BFS_BSIZE = (512 :: u32)"
  by (simp_all add: BFS_BSIZE_def BFS_BSIZE_BITS_def)

text \<open>Offsets and numbers of inodes correspond as long as the offset fits its 32 bits.\<close>

lemma inode_offsets:
  assumes "2 \<le> ino" and "unat ino < 2 ^ 26 - 8"
  shows "BFS_OFF2INO (ucast (BFS_INO2OFF ino)) = ino"
proof -
  have d: "unat (ino - 2) = unat ino - 2"
    using assms(1) by (simp add: unat_sub)
  have m: "unat ((ino - 2) * 64) = (unat ino - 2) * 64"
    using assms(2) d by (subst unat_mult_lem [THEN iffD1]) auto
  then have "unat (ucast ((ino - 2) * 64) :: u32) = (unat ino - 2) * 64"
    using assms(2) by (simp add: unsigned_ucast_eq take_bit_nat_eq_self)
  then have o: "unat (BFS_INO2OFF ino) = (unat ino - 2) * 64 + 512"
    using assms(2) unfolding BFS_INO2OFF_def BFS_ROOT_INO_def sizeof_bfs_inode_def block_size
    by (subst unat_add_lem [THEN iffD1]) auto
  have "unat (ucast (BFS_INO2OFF ino) - 512 :: u64) = (unat ino - 2) * 64"
    using o by (subst unat_sub) (simp_all add: word_le_nat_alt unat_ucast_up)
  then have "unat ((ucast (BFS_INO2OFF ino) - 512 :: u64) div 64) = unat (ino - 2)"
    using d by (simp add: unat_div)
  then have "(ucast (BFS_INO2OFF ino) - 512 :: u64) div 64 = ino - 2"
    by (simp add: word_unat_eq_iff)
  then show ?thesis
    by (simp add: BFS_OFF2INO_def BFS_ROOT_INO_def sizeof_bfs_inode_def block_size)
qed

end
