(* ===== verification/Wire_Words.thy ===== *)
theory Wire_Words
  imports Byte_Order Packed_Code
begin

text \<open>
  Words of network protocols and of the filters on them: flags of a tunnelled packet
  (\<^verbatim>\<open>linux/if_tunnel.h\<close>), policies of partial reliability (\<^verbatim>\<open>linux/sctp.h\<close>), connection states
  (\<^verbatim>\<open>linux/netfilter/nf_conntrack_common.h\<close>, \<^verbatim>\<open>nf_conntrack_tuple_common.h\<close>, \<^verbatim>\<open>xt_conntrack.h\<close>,
  \<^verbatim>\<open>xt_state.h\<close>), message types of \<^verbatim>\<open>nfnetlink.h\<close>, socket options, cells and addresses of
  \<^verbatim>\<open>linux/atm.h\<close> and \<^verbatim>\<open>linux/atmsap.h\<close>, options of \<^verbatim>\<open>linux/ppp-comp.h\<close>, versions of
  \<^verbatim>\<open>linux/tls.h\<close>, the set of reported events of \<^verbatim>\<open>linux/wireless.h\<close> and the message rounding of
  \<^verbatim>\<open>linux/if_packet.h\<close> and \<^verbatim>\<open>scsi/\<close>.  An \<^verbatim>\<open>int\<close> is its 32 bits.
\<close>

section \<open>Flags of a tunnelled packet\<close>

text \<open>The words are in network order; the program is compiled for a little-endian processor.\<close>

definition GRE_CSUM :: u16 where "GRE_CSUM = little_cpu_to_be16 True 0x8000"

definition GRE_ROUTING :: u16 where "GRE_ROUTING = little_cpu_to_be16 True 0x4000"

definition GRE_KEY :: u16 where "GRE_KEY = little_cpu_to_be16 True 0x2000"

definition GRE_SEQ :: u16 where "GRE_SEQ = little_cpu_to_be16 True 0x1000"

definition GRE_STRICT :: u16 where "GRE_STRICT = little_cpu_to_be16 True 0x0800"

definition GRE_REC :: u16 where "GRE_REC = little_cpu_to_be16 True 0x0700"

definition GRE_ACK :: u16 where "GRE_ACK = little_cpu_to_be16 True 0x0080"

definition GRE_FLAGS :: u16 where "GRE_FLAGS = little_cpu_to_be16 True 0x0078"

definition GRE_VERSION :: u16 where "GRE_VERSION = little_cpu_to_be16 True 0x0007"

definition GRE_VERSION_0 :: u16 where "GRE_VERSION_0 = little_cpu_to_be16 True 0x0000"

definition GRE_VERSION_1 :: u16 where "GRE_VERSION_1 = little_cpu_to_be16 True 0x0001"

definition GRE_PROTO_PPP :: u16 where "GRE_PROTO_PPP = little_cpu_to_be16 True 0x880b"

definition GRE_PPTP_KEY_MASK :: u32 where "GRE_PPTP_KEY_MASK = little_cpu_to_be32 True 0xffff"

definition GRE_IS_CSUM :: "u16 \<Rightarrow> u16" where
  "GRE_IS_CSUM f = f AND GRE_CSUM"

definition GRE_IS_ROUTING :: "u16 \<Rightarrow> u16" where
  "GRE_IS_ROUTING f = f AND GRE_ROUTING"

definition GRE_IS_KEY :: "u16 \<Rightarrow> u16" where
  "GRE_IS_KEY f = f AND GRE_KEY"

definition GRE_IS_SEQ :: "u16 \<Rightarrow> u16" where
  "GRE_IS_SEQ f = f AND GRE_SEQ"

definition GRE_IS_STRICT :: "u16 \<Rightarrow> u16" where
  "GRE_IS_STRICT f = f AND GRE_STRICT"

definition GRE_IS_REC :: "u16 \<Rightarrow> u16" where
  "GRE_IS_REC f = f AND GRE_REC"

definition GRE_IS_ACK :: "u16 \<Rightarrow> u16" where
  "GRE_IS_ACK f = f AND GRE_ACK"

section \<open>Partial reliability\<close>

definition SCTP_PR_SCTP_NONE :: u16 where "SCTP_PR_SCTP_NONE = 0x0000"

definition SCTP_PR_SCTP_TTL :: u16 where "SCTP_PR_SCTP_TTL = 0x0010"

definition SCTP_PR_SCTP_RTX :: u16 where "SCTP_PR_SCTP_RTX = 0x0020"

definition SCTP_PR_SCTP_PRIO :: u16 where "SCTP_PR_SCTP_PRIO = 0x0030"

definition SCTP_PR_SCTP_MAX :: u16 where "SCTP_PR_SCTP_MAX = SCTP_PR_SCTP_PRIO"

definition SCTP_PR_SCTP_MASK :: u16 where "SCTP_PR_SCTP_MASK = 0x0030"

text \<open>The index is an \<^verbatim>\<open>int\<close>, so the first policy, which has none, gives minus one.\<close>

definition SCTP_PR_INDEX :: "u16 \<Rightarrow> int" where
  "SCTP_PR_INDEX x = (uint x div 2 ^ 4) - 1"

definition SCTP_PR_POLICY :: "u16 \<Rightarrow> u16" where
  "SCTP_PR_POLICY x = x AND SCTP_PR_SCTP_MASK"

definition SCTP_PR_SET_POLICY :: "u16 \<Rightarrow> u16 \<Rightarrow> u16" where
  "SCTP_PR_SET_POLICY flags x = (flags AND NOT SCTP_PR_SCTP_MASK) OR x"

definition SCTP_PR_TTL_ENABLED :: "u16 \<Rightarrow> bool" where
  "SCTP_PR_TTL_ENABLED x \<longleftrightarrow> SCTP_PR_POLICY x = SCTP_PR_SCTP_TTL"

definition SCTP_PR_RTX_ENABLED :: "u16 \<Rightarrow> bool" where
  "SCTP_PR_RTX_ENABLED x \<longleftrightarrow> SCTP_PR_POLICY x = SCTP_PR_SCTP_RTX"

definition SCTP_PR_PRIO_ENABLED :: "u16 \<Rightarrow> bool" where
  "SCTP_PR_PRIO_ENABLED x \<longleftrightarrow> SCTP_PR_POLICY x = SCTP_PR_SCTP_PRIO"

section \<open>Connection states\<close>

definition IP_CT_ESTABLISHED :: u32 where "IP_CT_ESTABLISHED = 0"

definition IP_CT_RELATED :: u32 where "IP_CT_RELATED = 1"

definition IP_CT_NEW :: u32 where "IP_CT_NEW = 2"

definition IP_CT_IS_REPLY :: u32 where "IP_CT_IS_REPLY = 3"

definition IP_CT_ESTABLISHED_REPLY :: u32 where "IP_CT_ESTABLISHED_REPLY = IP_CT_ESTABLISHED + IP_CT_IS_REPLY"

definition IP_CT_RELATED_REPLY :: u32 where "IP_CT_RELATED_REPLY = IP_CT_RELATED + IP_CT_IS_REPLY"

definition IP_CT_NUMBER :: u32 where "IP_CT_NUMBER = 5"

definition IP_CT_NEW_REPLY :: u32 where "IP_CT_NEW_REPLY = IP_CT_NUMBER"

datatype ip_conntrack_dir = IP_CT_DIR_ORIGINAL | IP_CT_DIR_REPLY

definition NF_CT_STATE_INVALID_BIT :: u32 where "NF_CT_STATE_INVALID_BIT = push_bit 0 1"

definition NF_CT_STATE_BIT :: "u32 \<Rightarrow> u32" where
  "NF_CT_STATE_BIT ctinfo = push_bit (unat (ctinfo mod IP_CT_IS_REPLY + 1)) 1"

definition XT_CONNTRACK_STATE_BIT :: "u32 \<Rightarrow> u32" where
  "XT_CONNTRACK_STATE_BIT ctinfo = push_bit (unat (ctinfo mod IP_CT_IS_REPLY + 1)) 1"

definition XT_STATE_BIT :: "u32 \<Rightarrow> u32" where
  "XT_STATE_BIT ctinfo = push_bit (unat (ctinfo mod IP_CT_IS_REPLY + 1)) 1"

definition NF_CT_STATE_UNTRACKED_BIT :: u32 where "NF_CT_STATE_UNTRACKED_BIT = push_bit 6 1"

definition XT_CONNTRACK_STATE_INVALID :: u32 where "XT_CONNTRACK_STATE_INVALID = push_bit 0 1"

definition XT_CONNTRACK_STATE_SNAT :: u32 where "XT_CONNTRACK_STATE_SNAT = push_bit (unat (IP_CT_NUMBER + 1)) 1"

definition XT_CONNTRACK_STATE_DNAT :: u32 where "XT_CONNTRACK_STATE_DNAT = push_bit (unat (IP_CT_NUMBER + 2)) 1"

definition XT_CONNTRACK_STATE_UNTRACKED :: u32 where "XT_CONNTRACK_STATE_UNTRACKED = push_bit (unat (IP_CT_NUMBER + 3)) 1"

definition XT_STATE_INVALID :: u32 where "XT_STATE_INVALID = push_bit 0 1"

definition XT_STATE_UNTRACKED :: u32 where "XT_STATE_UNTRACKED = push_bit (unat (IP_CT_NUMBER + 1)) 1"

definition CTINFO2DIR :: "u32 \<Rightarrow> ip_conntrack_dir" where
  "CTINFO2DIR ctinfo = (if IP_CT_IS_REPLY \<le> ctinfo then IP_CT_DIR_REPLY else IP_CT_DIR_ORIGINAL)"

definition NFNL_SUBSYS_ID :: "u16 \<Rightarrow> u16" where
  "NFNL_SUBSYS_ID x = drop_bit 8 (x AND 0xff00)"

definition NFNL_MSG_TYPE :: "u16 \<Rightarrow> u16" where
  "NFNL_MSG_TYPE x = x AND 0x00ff"

section \<open>Socket options, cells and addresses\<close>

text \<open>The size is a \<^verbatim>\<open>size_t\<close>, so the parts are widened, with their sign, before they are joined.\<close>

definition SO_ENCODE :: "u32 \<Rightarrow> u32 \<Rightarrow> u64 \<Rightarrow> u64" where
  "SO_ENCODE l n t = scast (push_bit 22 (l AND 0x1FF) OR push_bit 16 n) OR t"

text \<open>An option number arrives as an \<^verbatim>\<open>int\<close> and is shifted with its sign.\<close>

definition SO_LEVEL_MATCH :: "u32 \<Rightarrow> u32 \<Rightarrow> bool" where
  "SO_LEVEL_MATCH c m \<longleftrightarrow> signed_drop_bit 22 c = m AND 0x1FF"

definition SO_NUMBER :: "u32 \<Rightarrow> u32" where
  "SO_NUMBER c = signed_drop_bit 16 c AND 0x3f"

definition SO_SIZE :: "u32 \<Rightarrow> u32" where
  "SO_SIZE c = c AND 0x3fff"

definition ATM_HDR_GFC_MASK :: u32 where "ATM_HDR_GFC_MASK = 0xf0000000"

definition ATM_HDR_VPI_MASK :: u32 where "ATM_HDR_VPI_MASK = 0x0ff00000"

definition ATM_HDR_VCI_MASK :: u32 where "ATM_HDR_VCI_MASK = 0x000ffff0"

definition ATM_HDR_PTI_MASK :: u32 where "ATM_HDR_PTI_MASK = 0x0000000e"

definition ATM_HDR_GFC_SHIFT :: nat where "ATM_HDR_GFC_SHIFT = 28"

definition ATM_HDR_VPI_SHIFT :: nat where "ATM_HDR_VPI_SHIFT = 20"

definition ATM_HDR_VCI_SHIFT :: nat where "ATM_HDR_VCI_SHIFT = 4"

definition ATM_HDR_PTI_SHIFT :: nat where "ATM_HDR_PTI_SHIFT = 1"

definition ATM_HDR_CLP :: u32 where "ATM_HDR_CLP = 0x00000001"

definition ATM_ESA_LEN :: nat where "ATM_ESA_LEN = 20"

definition ATM_E164_LEN :: nat where "ATM_E164_LEN = 12"

record sockaddr_atmpvc =
  pvc_itf :: u16
  pvc_vpi :: u16
  pvc_vci :: u32

record sockaddr_atmsvc =
  svc_prv :: "u8 list"
  svc_pub :: "u8 list"
  svc_lij_type :: u8
  svc_lij_id :: u32

text \<open>The two arrays of an address have 20 and 13 bytes.\<close>

definition atmsvc_wf :: "sockaddr_atmsvc \<Rightarrow> bool" where
  "atmsvc_wf addr \<longleftrightarrow> length (svc_prv addr) = ATM_ESA_LEN \<and> length (svc_pub addr) = ATM_E164_LEN + 1"

definition atmsvc_addr_in_use :: "sockaddr_atmsvc \<Rightarrow> bool" where
  "atmsvc_addr_in_use addr \<longleftrightarrow> svc_prv addr ! 0 \<noteq> 0 \<or> svc_pub addr ! 0 \<noteq> 0"

definition atmpvc_addr_in_use :: "sockaddr_atmpvc \<Rightarrow> bool" where
  "atmpvc_addr_in_use addr \<longleftrightarrow> pvc_itf addr \<noteq> 0 \<or> pvc_vpi addr \<noteq> 0 \<or> pvc_vci addr \<noteq> 0"

text \<open>Of the low-layer information only the protocols are read.\<close>

record atm_blli =
  l2_proto :: u8
  l3_proto :: u8

definition blli_in_use :: "atm_blli \<Rightarrow> bool" where
  "blli_in_use blli \<longleftrightarrow> l2_proto blli \<noteq> 0 \<or> l3_proto blli \<noteq> 0"

section \<open>Compression options\<close>

definition CCP_CODE :: "u8 list \<Rightarrow> u8" where
  "CCP_CODE dp = dp ! 0"

definition CCP_ID :: "u8 list \<Rightarrow> u8" where
  "CCP_ID dp = dp ! 1"

definition CCP_LENGTH :: "u8 list \<Rightarrow> u32" where
  "CCP_LENGTH dp = push_bit 8 (ucast (dp ! 2)) + ucast (dp ! 3)"

definition CCP_HDRLEN :: nat where "CCP_HDRLEN = 4"

definition CCP_OPT_CODE :: "u8 list \<Rightarrow> u8" where
  "CCP_OPT_CODE dp = dp ! 0"

definition CCP_OPT_LENGTH :: "u8 list \<Rightarrow> u8" where
  "CCP_OPT_LENGTH dp = dp ! 1"

definition CCP_OPT_MINLEN :: nat where "CCP_OPT_MINLEN = 2"

definition BSD_NBITS :: "u32 \<Rightarrow> u32" where
  "BSD_NBITS x = x AND 0x1F"

definition BSD_VERSION :: "u32 \<Rightarrow> u32" where
  "BSD_VERSION x = drop_bit 5 x"

definition BSD_CURRENT_VERSION :: u32 where "BSD_CURRENT_VERSION = 1"

definition BSD_MAKE_OPT :: "u32 \<Rightarrow> u32 \<Rightarrow> u32" where
  "BSD_MAKE_OPT v n = push_bit 5 v OR n"

definition BSD_MIN_BITS :: u32 where "BSD_MIN_BITS = 9"

definition BSD_MAX_BITS :: u32 where "BSD_MAX_BITS = 15"

definition DEFLATE_MIN_SIZE :: u32 where "DEFLATE_MIN_SIZE = 9"

definition DEFLATE_MAX_SIZE :: u32 where "DEFLATE_MAX_SIZE = 15"

definition DEFLATE_METHOD_VAL :: u32 where "DEFLATE_METHOD_VAL = 8"

definition DEFLATE_SIZE :: "u32 \<Rightarrow> u32" where
  "DEFLATE_SIZE x = drop_bit 4 x + 8"

definition DEFLATE_METHOD :: "u32 \<Rightarrow> u32" where
  "DEFLATE_METHOD x = x AND 0x0F"

definition DEFLATE_MAKE_OPT :: "u32 \<Rightarrow> u32" where
  "DEFLATE_MAKE_OPT w = push_bit 4 (w - 8) + DEFLATE_METHOD_VAL"

section \<open>Protocol versions\<close>

definition TLS_VERSION_MINOR :: "u32 \<Rightarrow> u32" where
  "TLS_VERSION_MINOR ver = ver AND 0xFF"

definition TLS_VERSION_MAJOR :: "u32 \<Rightarrow> u32" where
  "TLS_VERSION_MAJOR ver = drop_bit 8 ver AND 0xFF"

text \<open>The macro pastes the names of the two parts, which are the arguments here.\<close>

definition TLS_VERSION_NUMBER :: "u32 \<Rightarrow> u32 \<Rightarrow> u32" where
  "TLS_VERSION_NUMBER major minor = push_bit 8 (major AND 0xFF) OR (minor AND 0xFF)"

definition TLS_1_2_VERSION_MAJOR :: u32 where "TLS_1_2_VERSION_MAJOR = 0x3"

definition TLS_1_2_VERSION_MINOR :: u32 where "TLS_1_2_VERSION_MINOR = 0x3"

definition TLS_1_2_VERSION :: u32 where
  "TLS_1_2_VERSION = TLS_VERSION_NUMBER TLS_1_2_VERSION_MAJOR TLS_1_2_VERSION_MINOR"

definition TLS_1_3_VERSION_MAJOR :: u32 where "TLS_1_3_VERSION_MAJOR = 0x3"

definition TLS_1_3_VERSION_MINOR :: u32 where "TLS_1_3_VERSION_MINOR = 0x4"

definition TLS_1_3_VERSION :: u32 where
  "TLS_1_3_VERSION = TLS_VERSION_NUMBER TLS_1_3_VERSION_MAJOR TLS_1_3_VERSION_MINOR"

section \<open>Reported wireless events\<close>

definition SIOCIWFIRST :: u32 where "SIOCIWFIRST = 0x8B00"

definition SIOCIWFIRSTPRIV :: u32 where "SIOCIWFIRSTPRIV = 0x8BE0"

definition SIOCIWLASTPRIV :: u32 where "SIOCIWLASTPRIV = 0x8BFF"

definition SIOCIWLAST :: u32 where "SIOCIWLAST = SIOCIWLASTPRIV"

definition IWEVFIRST :: u32 where "IWEVFIRST = 0x8C00"

definition IW_IOCTL_IDX :: "u32 \<Rightarrow> u32" where
  "IW_IOCTL_IDX cmd = cmd - SIOCIWFIRST"

definition IW_EVENT_IDX :: "u32 \<Rightarrow> u32" where
  "IW_EVENT_IDX cmd = cmd - IWEVFIRST"

definition IW_EVENT_CAPA_BASE :: "u32 \<Rightarrow> u32" where
  "IW_EVENT_CAPA_BASE cmd = (if SIOCIWFIRSTPRIV \<le> cmd then cmd - SIOCIWFIRSTPRIV + 0x60 else cmd - SIOCIWFIRST)"

definition IW_EVENT_CAPA_INDEX :: "u32 \<Rightarrow> u32" where
  "IW_EVENT_CAPA_INDEX cmd = drop_bit 5 (IW_EVENT_CAPA_BASE cmd)"

definition IW_EVENT_CAPA_MASK :: "u32 \<Rightarrow> u32" where
  "IW_EVENT_CAPA_MASK cmd = push_bit (unat (IW_EVENT_CAPA_BASE cmd AND 0x1F)) 1"

definition IW_EVENT_CAPA_K_0 :: u32 where
  "IW_EVENT_CAPA_K_0 = IW_EVENT_CAPA_MASK 0x8B04 OR IW_EVENT_CAPA_MASK 0x8B06 OR IW_EVENT_CAPA_MASK 0x8B1A"

definition IW_EVENT_CAPA_K_1 :: u32 where "IW_EVENT_CAPA_K_1 = IW_EVENT_CAPA_MASK 0x8B2A"

text \<open>A store outside the array is \<open>None\<close>.\<close>

definition or_word :: "nat \<Rightarrow> u32 \<Rightarrow> u32 list \<Rightarrow> u32 list option" where
  "or_word i v ws = (if i < length ws then Some (ws[i := ws ! i OR v]) else None)"

definition IW_EVENT_CAPA_SET :: "u32 \<Rightarrow> u32 list \<Rightarrow> u32 list option" where
  "IW_EVENT_CAPA_SET cmd event_capa =
     or_word (unat (IW_EVENT_CAPA_INDEX cmd)) (IW_EVENT_CAPA_MASK cmd) event_capa"

definition IW_EVENT_CAPA_SET_KERNEL :: "u32 list \<Rightarrow> u32 list option" where
  "IW_EVENT_CAPA_SET_KERNEL event_capa =
     Option.bind (or_word 0 IW_EVENT_CAPA_K_0 event_capa) (or_word 1 IW_EVENT_CAPA_K_1)"

section \<open>Rounding of messages\<close>

definition TPACKET_ALIGNMENT :: u64 where "TPACKET_ALIGNMENT = 16"

definition TPACKET_ALIGN :: "u64 \<Rightarrow> u64" where
  "TPACKET_ALIGN x = (x + TPACKET_ALIGNMENT - 1) AND NOT (TPACKET_ALIGNMENT - 1)"

definition SCSI_NL_MSGALIGN :: "u64 \<Rightarrow> u64" where
  "SCSI_NL_MSGALIGN len = (len + 7) AND NOT 7"

definition FC_NL_MSGALIGN :: "u64 \<Rightarrow> u64" where
  "FC_NL_MSGALIGN len = (len + 7) AND NOT 7"

definition SCSI_NL_VID_TYPE_SHIFT :: nat where "SCSI_NL_VID_TYPE_SHIFT = 56"

definition SCSI_NL_VID_TYPE_MASK :: u64 where "SCSI_NL_VID_TYPE_MASK = push_bit SCSI_NL_VID_TYPE_SHIFT 0xFF"

definition SCSI_NL_VID_TYPE_PCI :: u64 where "SCSI_NL_VID_TYPE_PCI = push_bit SCSI_NL_VID_TYPE_SHIFT 0x01"

definition SCSI_NL_VID_ID_MASK :: u64 where "SCSI_NL_VID_ID_MASK = NOT SCSI_NL_VID_TYPE_MASK"

record scsi_nl_hdr =
  nl_version :: u8
  nl_transport :: u8
  nl_magic :: u16
  nl_msgtype :: u16
  nl_msglen :: u16

definition SCSI_NL_VERSION :: u8 where "SCSI_NL_VERSION = 1"

definition SCSI_NL_MAGIC :: u16 where "SCSI_NL_MAGIC = 0xA1B2"

definition INIT_SCSI_NL_HDR :: "scsi_nl_hdr \<Rightarrow> u8 \<Rightarrow> u16 \<Rightarrow> u16 \<Rightarrow> scsi_nl_hdr" where
  "INIT_SCSI_NL_HDR hdr t mtype mlen = hdr\<lparr>nl_version := SCSI_NL_VERSION, nl_transport := t, nl_magic := SCSI_NL_MAGIC,
       nl_msgtype := mtype, nl_msglen := mlen\<rparr>"

section \<open>Flags as they arrive\<close>

lemmas gre_defs =
  GRE_CSUM_def GRE_ROUTING_def GRE_KEY_def GRE_SEQ_def GRE_STRICT_def GRE_REC_def GRE_ACK_def GRE_FLAGS_def
  GRE_VERSION_def

lemmas gre_is_defs =
  GRE_IS_CSUM_def GRE_IS_ROUTING_def GRE_IS_KEY_def GRE_IS_SEQ_def GRE_IS_STRICT_def GRE_IS_REC_def
  GRE_IS_ACK_def

lemma gre_values:
  "GRE_CSUM = 0x0080" "GRE_ROUTING = 0x0040" "GRE_KEY = 0x0020" "GRE_SEQ = 0x0010" "GRE_STRICT = 0x0008"
  "GRE_REC = 0x0007" "GRE_ACK = 0x8000" "GRE_FLAGS = 0x7800" "GRE_VERSION = 0x0700"
  by (simp_all add: gre_defs little_cpu_to_be16_def swab16_def fswab16_def constant_swab16_def)

text \<open>The masks share no bit and leave none out.\<close>

definition gre_masks :: "u16 list" where
  "gre_masks = [GRE_CSUM, GRE_ROUTING, GRE_KEY, GRE_SEQ, GRE_STRICT, GRE_REC, GRE_ACK, GRE_FLAGS, GRE_VERSION]"

lemma gre_partition:
  "foldr (OR) gre_masks 0 = - 1" "sum_list (map unat gre_masks) = 2 ^ 16 - 1"
  by (simp_all add: gre_masks_def gre_values)

text \<open>The first two bytes of a packet, loaded as they lie: a test looks at the bit the protocol numbers.\<close>

definition wire16 :: "u8 \<Rightarrow> u8 \<Rightarrow> u16" where "wire16 b0 b1 = ucast b0 OR push_bit 8 (ucast b1)"

lemma low_bits_u16:
  "(x :: u16) AND 0x80 \<noteq> 0 \<longleftrightarrow> bit x 7" "x AND 0x40 \<noteq> 0 \<longleftrightarrow> bit x 6" "x AND 0x20 \<noteq> 0 \<longleftrightarrow> bit x 5"
  "x AND 0x10 \<noteq> 0 \<longleftrightarrow> bit x 4" "x AND 0x8 \<noteq> 0 \<longleftrightarrow> bit x 3" "x AND 0x8000 \<noteq> 0 \<longleftrightarrow> bit x 15"
  by (simp_all add: and_exp_eq_0_iff_not_bit [where n = 7, simplified]
    and_exp_eq_0_iff_not_bit [where n = 6, simplified] and_exp_eq_0_iff_not_bit [where n = 5, simplified]
    and_exp_eq_0_iff_not_bit [where n = 4, simplified] and_exp_eq_0_iff_not_bit [where n = 3, simplified]
    and_exp_eq_0_iff_not_bit [where n = 15, simplified])

lemma gre_flags_on_wire:
  "GRE_IS_CSUM (wire16 b0 b1) \<noteq> 0 \<longleftrightarrow> bit b0 7" "GRE_IS_ROUTING (wire16 b0 b1) \<noteq> 0 \<longleftrightarrow> bit b0 6"
  "GRE_IS_KEY (wire16 b0 b1) \<noteq> 0 \<longleftrightarrow> bit b0 5" "GRE_IS_SEQ (wire16 b0 b1) \<noteq> 0 \<longleftrightarrow> bit b0 4"
  "GRE_IS_STRICT (wire16 b0 b1) \<noteq> 0 \<longleftrightarrow> bit b0 3" "GRE_IS_ACK (wire16 b0 b1) \<noteq> 0 \<longleftrightarrow> bit b1 7"
  unfolding gre_is_defs gre_values
  by (auto simp: low_bits_u16 wire16_def bit_simps dest: bit_u8_less)

lemma network_high: "little_cpu_to_be16 True (push_bit 8 (ucast (c :: u8))) = ucast c"
proof -
  have e: "(0xff :: u16) = mask 8" "(0xff00 :: u16) = push_bit 8 (mask 8)"
    by (simp_all add: mask_eq_exp_minus_1 push_bit_eq_mult)
  show ?thesis
    unfolding little_cpu_to_be16_def swab16_def fswab16_def constant_swab16_def if_True if_False e
    by (rule bit_word_eqI) (auto simp: bit_simps dest: bit_u8_less)
qed

lemma gre_version_on_wire: "little_cpu_to_be16 True (wire16 b0 b1 AND GRE_VERSION) = ucast (b1 AND 7)"
proof -
  have "wire16 b0 b1 AND GRE_VERSION = push_bit 8 (ucast (b1 AND 7))"
  proof -
    have e: "(0x0700 :: u16) = push_bit 8 (mask 3)" "(7 :: u8) = mask 3"
      by (simp_all add: mask_eq_exp_minus_1 push_bit_eq_mult)
    show ?thesis
      unfolding wire16_def gre_values e by (rule bit_word_eqI) (auto simp: bit_simps dest: bit_u8_less)
  qed
  then show ?thesis by (simp only: network_high)
qed

section \<open>A policy is set and read\<close>

lemma sctp_mask: "SCTP_PR_SCTP_MASK = push_bit 4 (mask 2)"
  by (simp add: SCTP_PR_SCTP_MASK_def mask_eq_exp_minus_1 push_bit_eq_mult)

lemma sctp_policy_set:
  assumes "x AND SCTP_PR_SCTP_MASK = x"
  shows "SCTP_PR_POLICY (SCTP_PR_SET_POLICY flags x) = x"
    and "SCTP_PR_SET_POLICY flags x AND NOT SCTP_PR_SCTP_MASK = flags AND NOT SCTP_PR_SCTP_MASK"
    and "SCTP_PR_SET_POLICY (SCTP_PR_SET_POLICY flags x) y = SCTP_PR_SET_POLICY flags y"
proof -
  have x: "bit x n \<Longrightarrow> bit SCTP_PR_SCTP_MASK n" for n
    using assms by (metis bit_and_iff)
  show "SCTP_PR_POLICY (SCTP_PR_SET_POLICY flags x) = x"
    and "SCTP_PR_SET_POLICY flags x AND NOT SCTP_PR_SCTP_MASK = flags AND NOT SCTP_PR_SCTP_MASK"
    and "SCTP_PR_SET_POLICY (SCTP_PR_SET_POLICY flags x) y = SCTP_PR_SET_POLICY flags y"
    unfolding SCTP_PR_POLICY_def SCTP_PR_SET_POLICY_def
    by (rule bit_word_eqI; auto simp: bit_simps dest: x)+
qed

text \<open>The new policy is not masked: its other bits are joined to the flags.\<close>

lemma sctp_policy_stray:
  "SCTP_PR_SET_POLICY flags x AND NOT SCTP_PR_SCTP_MASK = (flags OR x) AND NOT SCTP_PR_SCTP_MASK"
  unfolding SCTP_PR_SET_POLICY_def by (rule bit_word_eqI) (auto simp: bit_simps)

lemmas sctp_policy_defs =
  SCTP_PR_SCTP_NONE_def SCTP_PR_SCTP_TTL_def SCTP_PR_SCTP_RTX_def SCTP_PR_SCTP_PRIO_def SCTP_PR_SCTP_MAX_def

lemma sctp_policies:
  "set [SCTP_PR_SCTP_NONE, SCTP_PR_SCTP_TTL, SCTP_PR_SCTP_RTX, SCTP_PR_SCTP_PRIO] = {x. x AND SCTP_PR_SCTP_MASK = x}"
proof -
  have "x \<in> {0, 0x10, 0x20, 0x30}" if "x AND 0x30 = x" for x :: u16
  proof -
    have "bit (push_bit 4 (mask 2) :: u16) n" if "bit x n" for n
      using that \<open>x AND 0x30 = x\<close> unfolding sctp_mask [unfolded SCTP_PR_SCTP_MASK_def] by (metis bit_and_iff)
    then have b: "4 \<le> n \<and> n - 4 < 2" if "bit x n" for n
      using that by (auto simp: bit_simps)
    then have "x = push_bit 4 (drop_bit 4 x AND mask 2)"
      by (intro bit_word_eqI) (auto simp: bit_simps dest: b)
    moreover have "drop_bit 4 x AND mask 2 \<in> {0, 1, 2, 3}"
    proof -
      have "unat (drop_bit 4 x AND mask 2 :: u16) < 4"
        using unat_and_mask [of "drop_bit 4 x" 2] by simp
      then have "unat (drop_bit 4 x AND mask 2 :: u16) \<in> {0, 1, 2, 3}" by auto
      then show ?thesis by (auto simp: word_unat_eq_iff)
    qed
    ultimately show ?thesis by (auto simp: push_bit_eq_mult)
  qed
  then show ?thesis by (auto simp: sctp_policy_defs SCTP_PR_SCTP_MASK_def)
qed

lemma sctp_policy_total:
  "SCTP_PR_TTL_ENABLED x \<or> SCTP_PR_RTX_ENABLED x \<or> SCTP_PR_PRIO_ENABLED x \<or> SCTP_PR_POLICY x = SCTP_PR_SCTP_NONE"
proof -
  have "SCTP_PR_POLICY x AND SCTP_PR_SCTP_MASK = SCTP_PR_POLICY x" by (simp add: SCTP_PR_POLICY_def and.assoc)
  then have "SCTP_PR_POLICY x \<in> set [SCTP_PR_SCTP_NONE, SCTP_PR_SCTP_TTL, SCTP_PR_SCTP_RTX, SCTP_PR_SCTP_PRIO]"
    unfolding sctp_policies by simp
  then show ?thesis
    by (auto simp: SCTP_PR_TTL_ENABLED_def SCTP_PR_RTX_ENABLED_def SCTP_PR_PRIO_ENABLED_def)
qed

lemma sctp_index:
  "map SCTP_PR_INDEX [SCTP_PR_SCTP_NONE, SCTP_PR_SCTP_TTL, SCTP_PR_SCTP_RTX, SCTP_PR_SCTP_MAX] = [-1, 0, 1, 2]"
  by (simp add: SCTP_PR_INDEX_def sctp_policy_defs)

section \<open>States of either direction\<close>

text \<open>The three headers agree on the bit of a state, which does not depend on the direction.\<close>

lemma state_bits_agree: "XT_CONNTRACK_STATE_BIT = NF_CT_STATE_BIT" "XT_STATE_BIT = NF_CT_STATE_BIT"
  by (rule ext, simp add: XT_CONNTRACK_STATE_BIT_def XT_STATE_BIT_def NF_CT_STATE_BIT_def)+

lemmas state_numbers =
  IP_CT_ESTABLISHED_def IP_CT_RELATED_def IP_CT_NEW_def IP_CT_IS_REPLY_def IP_CT_ESTABLISHED_REPLY_def
  IP_CT_RELATED_REPLY_def IP_CT_NUMBER_def IP_CT_NEW_REPLY_def

lemma state_bits:
  "map NF_CT_STATE_BIT [IP_CT_ESTABLISHED, IP_CT_RELATED, IP_CT_NEW, IP_CT_ESTABLISHED_REPLY, IP_CT_RELATED_REPLY,
     IP_CT_NEW_REPLY] = [2, 4, 8, 2, 4, 8]"
  by (simp add: NF_CT_STATE_BIT_def state_numbers)

lemma state_directions:
  "map CTINFO2DIR [IP_CT_ESTABLISHED, IP_CT_RELATED, IP_CT_NEW] = [IP_CT_DIR_ORIGINAL, IP_CT_DIR_ORIGINAL, IP_CT_DIR_ORIGINAL]"
  "map CTINFO2DIR [IP_CT_ESTABLISHED_REPLY, IP_CT_RELATED_REPLY, IP_CT_NEW_REPLY] = [IP_CT_DIR_REPLY, IP_CT_DIR_REPLY, IP_CT_DIR_REPLY]"
  by (simp_all add: CTINFO2DIR_def state_numbers word_le_nat_alt)

text \<open>A state below the sixth is known from its bit and its direction.\<close>

lemma state_known:
  assumes "a \<le> IP_CT_NEW_REPLY" "b \<le> IP_CT_NEW_REPLY"
    and "NF_CT_STATE_BIT a = NF_CT_STATE_BIT b" "CTINFO2DIR a = CTINFO2DIR b"
  shows "a = b"
proof -
  have e: "x \<in> {0, 1, 2, 3, 4, 5}" if "x \<le> 5" for x :: u32
  proof -
    have "unat x \<le> 5" using that by (simp add: word_le_nat_alt)
    then have "unat x \<in> {0, 1, 2, 3, 4, 5}" by auto
    then show ?thesis by (auto simp: word_unat_eq_iff)
  qed
  let ?f = "\<lambda>x. (NF_CT_STATE_BIT x, CTINFO2DIR x)"
  have "map ?f [0, 1, 2, 3, 4, 5] = concat (map (\<lambda>d. [(2, d), (4, d), (8, d)]) [IP_CT_DIR_ORIGINAL, IP_CT_DIR_REPLY])"
    by (simp add: NF_CT_STATE_BIT_def CTINFO2DIR_def state_numbers word_le_nat_alt)
  then have "distinct (map ?f [0, 1, 2, 3, 4, 5])" by simp
  then have "inj_on ?f {0, 1, 2, 3, 4, 5}" by (simp only: distinct_map list.set)
  moreover have "?f a = ?f b" using assms(3, 4) by simp
  moreover have "a \<in> {0, 1, 2, 3, 4, 5}" using assms(1) unfolding state_numbers by (rule e)
  moreover have "b \<in> {0, 1, 2, 3, 4, 5}" using assms(2) unfolding state_numbers by (rule e)
  ultimately show ?thesis by (rule inj_onD)
qed

lemma special_states:
  "XT_STATE_UNTRACKED = NF_CT_STATE_UNTRACKED_BIT" "XT_STATE_INVALID = NF_CT_STATE_INVALID_BIT"
  "XT_CONNTRACK_STATE_INVALID = NF_CT_STATE_INVALID_BIT"
  "[XT_CONNTRACK_STATE_SNAT, XT_CONNTRACK_STATE_DNAT, XT_CONNTRACK_STATE_UNTRACKED] = [64, 128, 256]"
  by (simp_all add: XT_STATE_UNTRACKED_def NF_CT_STATE_UNTRACKED_BIT_def XT_STATE_INVALID_def
    NF_CT_STATE_INVALID_BIT_def XT_CONNTRACK_STATE_INVALID_def XT_CONNTRACK_STATE_SNAT_def
    XT_CONNTRACK_STATE_DNAT_def XT_CONNTRACK_STATE_UNTRACKED_def state_numbers)

text \<open>So the bit one match uses for an untracked packet is the one the other uses for a translated source.\<close>

lemma untracked_is_translated: "XT_STATE_UNTRACKED = XT_CONNTRACK_STATE_SNAT"
  using special_states by (simp add: NF_CT_STATE_UNTRACKED_BIT_def)

lemma nfnl_type: "push_bit 8 (NFNL_SUBSYS_ID x) OR NFNL_MSG_TYPE x = x" "NFNL_SUBSYS_ID x < 256"
proof -
  have e: "(0x00ff :: u16) = mask 8" "(0xff00 :: u16) = push_bit 8 (mask 8)"
    by (simp_all add: mask_eq_exp_minus_1 push_bit_eq_mult)
  show "push_bit 8 (NFNL_SUBSYS_ID x) OR NFNL_MSG_TYPE x = x"
    unfolding NFNL_SUBSYS_ID_def NFNL_MSG_TYPE_def e by (rule bit_word_eqI) (auto simp: bit_simps)
  have "NFNL_SUBSYS_ID x = NFNL_SUBSYS_ID x AND mask 8"
    unfolding NFNL_SUBSYS_ID_def e by (rule bit_word_eqI) (auto simp: bit_simps)
  then show "NFNL_SUBSYS_ID x < 256"
    using and_mask_less' [of 8 "NFNL_SUBSYS_ID x"] by simp
qed

section \<open>Options, cells and versions are read as they were made\<close>

lemma so_encode_decode:
  fixes l n m c :: u32 and t :: u64
  assumes "n < 64" "t < 0x4000" and c_def: "c = ucast (SO_ENCODE l n t)"
  shows "SO_LEVEL_MATCH c m \<longleftrightarrow> l AND 0x1FF = m AND 0x1FF" and "SO_NUMBER c = n" and "SO_SIZE c = ucast t"
proof -
  have e: "(0x1FF :: u32) = mask 9" "(0x3f :: u32) = mask 6" "(0x3fff :: u32) = mask 14"
    by (simp_all add: mask_eq_exp_minus_1)
  have n: "k < 6" if "bit n k" for k
    using less_not_bit [of n 6 k] assms(1) that by (simp add: not_le) (metis not_le)
  have t: "k < 14" if "bit t k" for k
    using less_not_bit [of t 14 k] assms(2) that by (simp add: not_le) (metis not_le)
  have c: "c = push_bit 22 (l AND mask 9) OR push_bit 16 n OR ucast t"
    unfolding c_def SO_ENCODE_def e by (rule bit_word_eqI) (auto simp: bit_simps)
  have "signed_drop_bit 22 c = l AND mask 9"
    unfolding c by (rule bit_word_eqI) (auto simp: bit_simps dest: n t)
  then show "SO_LEVEL_MATCH c m \<longleftrightarrow> l AND 0x1FF = m AND 0x1FF" by (simp add: SO_LEVEL_MATCH_def e)
  show "SO_NUMBER c = n" "SO_SIZE c = ucast t"
    unfolding c SO_NUMBER_def SO_SIZE_def e by (rule bit_word_eqI, auto simp: bit_simps dest: n t)+
qed

text \<open>Levels that differ above nine bits are taken for each other, as the comment on the macro warns.\<close>

lemma so_level_collision: "SO_LEVEL_MATCH (ucast (SO_ENCODE 0xFFFF 2 8)) 0x1FF"
proof -
  have "(0xFFFF :: u32) AND 0x1FF = 0x1FF AND 0x1FF" by (simp add: mask_eq_exp_minus_1 [of 9, symmetric])
  moreover have "SO_LEVEL_MATCH (ucast (SO_ENCODE 0xFFFF 2 8)) 0x1FF \<longleftrightarrow> (0xFFFF :: u32) AND 0x1FF = 0x1FF AND 0x1FF"
    by (rule so_encode_decode(1) [where n = 2 and t = 8]) simp_all
  ultimately show ?thesis by blast
qed

lemma cell_header:
  "ATM_HDR_GFC_MASK OR ATM_HDR_VPI_MASK OR ATM_HDR_VCI_MASK OR ATM_HDR_PTI_MASK OR ATM_HDR_CLP = - 1"
  "ATM_HDR_GFC_MASK = push_bit ATM_HDR_GFC_SHIFT (mask 4)" "ATM_HDR_VPI_MASK = push_bit ATM_HDR_VPI_SHIFT (mask 8)"
  "ATM_HDR_VCI_MASK = push_bit ATM_HDR_VCI_SHIFT (mask 16)" "ATM_HDR_PTI_MASK = push_bit ATM_HDR_PTI_SHIFT (mask 3)"
  by (simp_all add: ATM_HDR_GFC_MASK_def ATM_HDR_VPI_MASK_def ATM_HDR_VCI_MASK_def ATM_HDR_PTI_MASK_def
    ATM_HDR_CLP_def ATM_HDR_GFC_SHIFT_def ATM_HDR_VPI_SHIFT_def ATM_HDR_VCI_SHIFT_def ATM_HDR_PTI_SHIFT_def
    mask_eq_exp_minus_1 push_bit_eq_mult)

text \<open>A cleared address is one that is not in use.\<close>

lemma cleared_addresses:
  "\<not> atmpvc_addr_in_use \<lparr>pvc_itf = 0, pvc_vpi = 0, pvc_vci = 0\<rparr>"
  "\<not> atmsvc_addr_in_use \<lparr>svc_prv = replicate ATM_ESA_LEN 0, svc_pub = replicate (ATM_E164_LEN + 1) 0,
      svc_lij_type = t, svc_lij_id = i\<rparr>"
  "atmsvc_wf \<lparr>svc_prv = replicate ATM_ESA_LEN 0, svc_pub = replicate (ATM_E164_LEN + 1) 0,
      svc_lij_type = t, svc_lij_id = i\<rparr>"
  by (simp_all add: atmpvc_addr_in_use_def atmsvc_addr_in_use_def atmsvc_wf_def ATM_ESA_LEN_def ATM_E164_LEN_def)

lemma bsd_option:
  assumes "v < 8" "n < 32"
  shows "BSD_VERSION (BSD_MAKE_OPT v n) = v" "BSD_NBITS (BSD_MAKE_OPT v n) = n" "BSD_MAKE_OPT v n < 256"
proof -
  have e: "(0x1F :: u32) = mask 5" by (simp add: mask_eq_exp_minus_1)
  have v: "k < 3" if "bit v k" for k
    using less_not_bit [of v 3 k] assms(1) that by (simp add: not_le) (metis not_le)
  have n: "k < 5" if "bit n k" for k
    using less_not_bit [of n 5 k] assms(2) that by (simp add: not_le) (metis not_le)
  show "BSD_VERSION (BSD_MAKE_OPT v n) = v" "BSD_NBITS (BSD_MAKE_OPT v n) = n"
    unfolding BSD_VERSION_def BSD_NBITS_def BSD_MAKE_OPT_def e
    by (rule bit_word_eqI, auto simp: bit_simps dest: v n)+
  have "BSD_MAKE_OPT v n = BSD_MAKE_OPT v n AND mask 8"
    unfolding BSD_MAKE_OPT_def by (rule bit_word_eqI) (auto simp: bit_simps dest: v n)
  then show "BSD_MAKE_OPT v n < 256" using and_mask_less [of 8 "BSD_MAKE_OPT v n"] by simp
qed

lemma deflate_option:
  "map (\<lambda>w. (DEFLATE_SIZE (DEFLATE_MAKE_OPT w), DEFLATE_METHOD (DEFLATE_MAKE_OPT w))) [9, 10, 11, 12, 13, 14, 15] =
   map (\<lambda>w. (w, DEFLATE_METHOD_VAL)) [9, 10, 11, 12, 13, 14, 15]"
  by (simp add: DEFLATE_SIZE_def DEFLATE_METHOD_def DEFLATE_MAKE_OPT_def DEFLATE_METHOD_VAL_def)

lemma tls_version:
  "TLS_VERSION_MAJOR (TLS_VERSION_NUMBER a b) = a AND 0xFF" "TLS_VERSION_MINOR (TLS_VERSION_NUMBER a b) = b AND 0xFF"
proof -
  have e: "(0xFF :: u32) = mask 8" by (simp add: mask_eq_exp_minus_1)
  show "TLS_VERSION_MAJOR (TLS_VERSION_NUMBER a b) = a AND 0xFF"
    "TLS_VERSION_MINOR (TLS_VERSION_NUMBER a b) = b AND 0xFF"
    unfolding TLS_VERSION_MAJOR_def TLS_VERSION_MINOR_def TLS_VERSION_NUMBER_def e
    by (rule bit_word_eqI, auto simp: bit_simps)+
qed

lemma tls_versions: "TLS_1_2_VERSION = 0x0303" "TLS_1_3_VERSION = 0x0304" "TLS_1_2_VERSION < TLS_1_3_VERSION"
  by (simp_all add: TLS_1_2_VERSION_def TLS_1_3_VERSION_def TLS_VERSION_NUMBER_def TLS_1_2_VERSION_MAJOR_def
    TLS_1_2_VERSION_MINOR_def TLS_1_3_VERSION_MAJOR_def TLS_1_3_VERSION_MINOR_def)

section \<open>The set of reported events\<close>

text \<open>
  A driver tells which commands it reports with one bit for each; the commands are those below
  \<open>0x8B60\<close>, the private ones and the events that follow them.  They share no bit.
\<close>

definition reported :: "u32 \<Rightarrow> bool" where
  "reported cmd \<longleftrightarrow> SIOCIWFIRST \<le> cmd \<and> cmd < 0x8B60 \<or> SIOCIWFIRSTPRIV \<le> cmd \<and> cmd < 0x8C40"

definition event_told :: "u32 list \<Rightarrow> u32 \<Rightarrow> bool" where
  "event_told ws cmd \<longleftrightarrow> (let n = unat (IW_EVENT_CAPA_BASE cmd) in bit (ws ! (n div 32)) (n mod 32))"

lemma base_reported:
  assumes "reported cmd"
  shows "unat (IW_EVENT_CAPA_BASE cmd) = (if unat cmd < 0x8BE0 then unat cmd - 0x8B00 else unat cmd - 0x8B80)"
    and "unat (IW_EVENT_CAPA_BASE cmd) < 192"
proof -
  have "unat (cmd - 0x8BE0 + 0x60) = unat cmd - 0x8B80" if "0x8BE0 \<le> unat cmd" "unat cmd < 0x8C40"
  proof -
    have "unat (cmd - 0x8BE0) = unat cmd - 0x8BE0"
      using that by (subst unat_sub) (simp_all add: word_le_nat_alt)
    then show ?thesis
      using that by (subst unat_add_lem [THEN iffD1]) simp_all
  qed
  moreover have "unat (cmd - 0x8B00) = unat cmd - 0x8B00" if "0x8B00 \<le> unat cmd"
    using that by (subst unat_sub) (simp_all add: word_le_nat_alt)
  ultimately show "unat (IW_EVENT_CAPA_BASE cmd) = (if unat cmd < 0x8BE0 then unat cmd - 0x8B00 else unat cmd - 0x8B80)"
    using assms
    by (auto simp: reported_def IW_EVENT_CAPA_BASE_def SIOCIWFIRST_def SIOCIWFIRSTPRIV_def word_le_nat_alt word_less_nat_alt)
  then show "unat (IW_EVENT_CAPA_BASE cmd) < 192"
    using assms by (auto simp: reported_def SIOCIWFIRST_def SIOCIWFIRSTPRIV_def word_le_nat_alt word_less_nat_alt)
qed

lemma base_inj:
  assumes "reported a" "reported b" "unat (IW_EVENT_CAPA_BASE a) = unat (IW_EVENT_CAPA_BASE b)"
  shows "a = b"
  using assms base_reported(1) [of a] base_reported(1) [of b]
  by (auto simp: reported_def SIOCIWFIRST_def SIOCIWFIRSTPRIV_def word_le_nat_alt word_less_nat_alt word_unat_eq_iff
    split: if_splits)

lemma capa_parts:
  "unat (IW_EVENT_CAPA_INDEX cmd) = unat (IW_EVENT_CAPA_BASE cmd) div 32"
  "IW_EVENT_CAPA_MASK cmd = push_bit (unat (IW_EVENT_CAPA_BASE cmd) mod 32) 1"
proof -
  show "unat (IW_EVENT_CAPA_INDEX cmd) = unat (IW_EVENT_CAPA_BASE cmd) div 32"
    unfolding IW_EVENT_CAPA_INDEX_def unat_drop_bit_eq by (simp add: drop_bit_eq_div)
  have e: "(0x1F :: u32) = mask 5" by (simp add: mask_eq_exp_minus_1)
  show "IW_EVENT_CAPA_MASK cmd = push_bit (unat (IW_EVENT_CAPA_BASE cmd) mod 32) 1"
    unfolding IW_EVENT_CAPA_MASK_def e unat_and_mask by simp
qed

lemma capa_set:
  assumes "length ws = 6" "reported cmd"
  shows "\<exists>vs. IW_EVENT_CAPA_SET cmd ws = Some vs \<and> length vs = 6 \<and>
    (\<forall>c. reported c \<longrightarrow> (event_told vs c \<longleftrightarrow> c = cmd \<or> event_told ws c))"
proof -
  let ?n = "unat (IW_EVENT_CAPA_BASE cmd)"
  have n: "?n div 32 < 6" using base_reported(2) [OF assms(2)] by simp
  have "event_told (ws[?n div 32 := ws ! (?n div 32) OR push_bit (?n mod 32) 1]) c \<longleftrightarrow> c = cmd \<or> event_told ws c"
    if "reported c" for c
  proof -
    let ?k = "unat (IW_EVENT_CAPA_BASE c)"
    have "c = cmd \<longleftrightarrow> ?n = ?k" using base_inj [OF assms(2) that] by auto
    also have "\<dots> \<longleftrightarrow> ?n div 32 = ?k div 32 \<and> ?n mod 32 = ?k mod 32" by (metis div_mult_mod_eq)
    finally show ?thesis
      using n assms(1) by (cases "?n div 32 = ?k div 32")
        (auto simp: event_told_def Let_def bit_simps nth_list_update)
  qed
  then show ?thesis
    using n assms(1) by (simp add: IW_EVENT_CAPA_SET_def or_word_def capa_parts)
qed

text \<open>The first command after the standard ones would share its bit with the first private one.\<close>

lemma capa_collision: "IW_EVENT_CAPA_BASE 0x8B60 = IW_EVENT_CAPA_BASE 0x8BE0" "\<not> reported 0x8B60"
  by (simp_all add: IW_EVENT_CAPA_BASE_def SIOCIWFIRST_def SIOCIWFIRSTPRIV_def reported_def)

text \<open>The constants for the kernel's own events are the bits of four commands, in the words they belong to.\<close>

lemma capa_kernel:
  "IW_EVENT_CAPA_SET_KERNEL ws =
   fold (\<lambda>cmd r. Option.bind r (IW_EVENT_CAPA_SET cmd)) [0x8B04, 0x8B06, 0x8B1A, 0x8B2A] (Some ws)"
proof (cases "1 < length ws")
  case True
  then show ?thesis
    by (cases ws) (auto simp: IW_EVENT_CAPA_SET_KERNEL_def IW_EVENT_CAPA_SET_def or_word_def IW_EVENT_CAPA_INDEX_def
      IW_EVENT_CAPA_MASK_def IW_EVENT_CAPA_BASE_def IW_EVENT_CAPA_K_0_def IW_EVENT_CAPA_K_1_def SIOCIWFIRST_def
      SIOCIWFIRSTPRIV_def or.assoc)
next
  case False
  then show ?thesis
    by (cases ws) (auto simp: IW_EVENT_CAPA_SET_KERNEL_def IW_EVENT_CAPA_SET_def or_word_def IW_EVENT_CAPA_INDEX_def
      IW_EVENT_CAPA_BASE_def SIOCIWFIRST_def SIOCIWFIRSTPRIV_def split: bind_splits)
qed

section \<open>Rounded messages\<close>

lemma message_rounding:
  "unat x + 15 < 2 ^ 64 \<Longrightarrow> unat (TPACKET_ALIGN x) = round_up 16 (unat x)"
  "unat x + 7 < 2 ^ 64 \<Longrightarrow> unat (SCSI_NL_MSGALIGN x) = round_up 8 (unat x)"
  "FC_NL_MSGALIGN x = SCSI_NL_MSGALIGN x"
  using unat_round_up [of x 4] unat_round_up [of x 3]
  by (simp_all add: TPACKET_ALIGN_def TPACKET_ALIGNMENT_def SCSI_NL_MSGALIGN_def FC_NL_MSGALIGN_def add.commute [of x])

text \<open>A vendor identifier is its type and its data, and nothing else.\<close>

lemma vendor_parts:
  "(v AND SCSI_NL_VID_TYPE_MASK) OR (v AND SCSI_NL_VID_ID_MASK) = v"
  "SCSI_NL_VID_TYPE_PCI AND SCSI_NL_VID_TYPE_MASK = SCSI_NL_VID_TYPE_PCI"
  by (simp_all add: SCSI_NL_VID_ID_MASK_def SCSI_NL_VID_TYPE_MASK_def SCSI_NL_VID_TYPE_PCI_def
    SCSI_NL_VID_TYPE_SHIFT_def flip: bit.conj_disj_distrib)

text \<open>The initialiser leaves nothing of the old header: it fills every member.\<close>

lemma header_filled:
  "INIT_SCSI_NL_HDR h t mtype mlen =
   \<lparr>nl_version = 1, nl_transport = t, nl_magic = 0xA1B2, nl_msgtype = mtype, nl_msglen = mlen\<rparr>"
  by (simp add: INIT_SCSI_NL_HDR_def SCSI_NL_VERSION_def SCSI_NL_MAGIC_def)

end
