(* ===== verification/Register_Fields.thy ===== *)
theory Register_Fields
  imports Packed_Code Byte_Memory
begin

text \<open>
  Fields of registers, instructions and records: \<^verbatim>\<open>linux/pci_regs.h\<close>, firmware calls of
  \<^verbatim>\<open>linux/psci.h\<close> and \<^verbatim>\<open>linux/arm_sdei.h\<close>, filter instructions of \<^verbatim>\<open>linux/bpf_common.h\<close> and
  \<^verbatim>\<open>linux/filter.h\<close>, type records of \<^verbatim>\<open>linux/btf.h\<close>, identifiers of \<^verbatim>\<open>linux/uuid.h\<close>, stream
  parameters of \<^verbatim>\<open>linux/v4l2-controls.h\<close>, request codes of \<^verbatim>\<open>linux/virtio_crypto.h\<close> and the pixel
  clock of \<^verbatim>\<open>linux/fb.h\<close>.
\<close>

section \<open>Configuration registers\<close>

definition PCI_X_CMD_VERSION :: "u32 \<Rightarrow> u32" where
  "PCI_X_CMD_VERSION x = drop_bit 12 x AND 3"

definition PCI_ERR_CAP_FEP :: "u32 \<Rightarrow> u32" where
  "PCI_ERR_CAP_FEP x = x AND 31"

definition PCI_PWR_DATA_BASE :: "u32 \<Rightarrow> u32" where
  "PCI_PWR_DATA_BASE x = x AND 0xff"

definition PCI_PWR_DATA_SCALE :: "u32 \<Rightarrow> u32" where
  "PCI_PWR_DATA_SCALE x = drop_bit 8 x AND 3"

definition PCI_PWR_DATA_PM_SUB :: "u32 \<Rightarrow> u32" where
  "PCI_PWR_DATA_PM_SUB x = drop_bit 10 x AND 7"

definition PCI_PWR_DATA_PM_STATE :: "u32 \<Rightarrow> u32" where
  "PCI_PWR_DATA_PM_STATE x = drop_bit 13 x AND 3"

definition PCI_PWR_DATA_TYPE :: "u32 \<Rightarrow> u32" where
  "PCI_PWR_DATA_TYPE x = drop_bit 15 x AND 7"

definition PCI_PWR_DATA_RAIL :: "u32 \<Rightarrow> u32" where
  "PCI_PWR_DATA_RAIL x = drop_bit 18 x AND 7"

definition PCI_PWR_CAP_BUDGET :: "u32 \<Rightarrow> u32" where
  "PCI_PWR_CAP_BUDGET x = x AND 1"

definition PCI_RCEC_BUSN_NEXT :: "u32 \<Rightarrow> u32" where
  "PCI_RCEC_BUSN_NEXT x = drop_bit 8 x AND 0xff"

definition PCI_RCEC_BUSN_LAST :: "u32 \<Rightarrow> u32" where
  "PCI_RCEC_BUSN_LAST x = drop_bit 16 x AND 0xff"

definition PCI_VNDR_HEADER_ID :: "u32 \<Rightarrow> u32" where
  "PCI_VNDR_HEADER_ID x = x AND 0xffff"

definition PCI_VNDR_HEADER_REV :: "u32 \<Rightarrow> u32" where
  "PCI_VNDR_HEADER_REV x = drop_bit 16 x AND 0xf"

definition PCI_VNDR_HEADER_LEN :: "u32 \<Rightarrow> u32" where
  "PCI_VNDR_HEADER_LEN x = drop_bit 20 x AND 0xfff"

definition PCI_ARI_CAP_NFN :: "u32 \<Rightarrow> u32" where
  "PCI_ARI_CAP_NFN x = drop_bit 8 x AND 0xff"

definition PCI_ARI_CTRL_FG :: "u32 \<Rightarrow> u32" where
  "PCI_ARI_CTRL_FG x = drop_bit 4 x AND 7"

definition PCI_ATS_CAP_QDEP :: "u32 \<Rightarrow> u32" where
  "PCI_ATS_CAP_QDEP x = x AND 0x1f"

definition PCI_ATS_CTRL_STU :: "u32 \<Rightarrow> u32" where
  "PCI_ATS_CTRL_STU x = x AND 0x1f"

definition PCI_SRIOV_CAP_INTR :: "u32 \<Rightarrow> u32" where
  "PCI_SRIOV_CAP_INTR x = drop_bit 21 x"

definition PCI_SRIOV_VFM_BIR :: "u32 \<Rightarrow> u32" where
  "PCI_SRIOV_VFM_BIR x = x AND 7"

definition PCI_SRIOV_VFM_OFFSET :: "u32 \<Rightarrow> u32" where
  "PCI_SRIOV_VFM_OFFSET x = x AND NOT 7"

definition PCI_EXT_CAP_ID :: "u32 \<Rightarrow> u32" where
  "PCI_EXT_CAP_ID header = header AND 0x0000ffff"

definition PCI_EXT_CAP_VER :: "u32 \<Rightarrow> u32" where
  "PCI_EXT_CAP_VER header = drop_bit 16 header AND 0xf"

definition PCI_EXT_CAP_NEXT :: "u32 \<Rightarrow> u32" where
  "PCI_EXT_CAP_NEXT header = drop_bit 20 header AND 0xffc"

section \<open>Firmware calls\<close>

definition PSCI_0_2_FN_BASE :: u32 where "PSCI_0_2_FN_BASE = 0x84000000"

definition PSCI_0_2_FN :: "u32 \<Rightarrow> u32" where
  "PSCI_0_2_FN n = PSCI_0_2_FN_BASE + n"

definition PSCI_0_2_64BIT :: u32 where "PSCI_0_2_64BIT = 0x40000000"

definition PSCI_0_2_FN64_BASE :: u32 where "PSCI_0_2_FN64_BASE = PSCI_0_2_FN_BASE + PSCI_0_2_64BIT"

definition PSCI_0_2_FN64 :: "u32 \<Rightarrow> u32" where
  "PSCI_0_2_FN64 n = PSCI_0_2_FN64_BASE + n"

definition PSCI_0_2_FN_PSCI_VERSION :: u32 where "PSCI_0_2_FN_PSCI_VERSION = PSCI_0_2_FN 0"

definition PSCI_0_2_FN_CPU_SUSPEND :: u32 where "PSCI_0_2_FN_CPU_SUSPEND = PSCI_0_2_FN 1"

definition PSCI_0_2_FN_CPU_OFF :: u32 where "PSCI_0_2_FN_CPU_OFF = PSCI_0_2_FN 2"

definition PSCI_0_2_FN_CPU_ON :: u32 where "PSCI_0_2_FN_CPU_ON = PSCI_0_2_FN 3"

definition PSCI_0_2_FN_AFFINITY_INFO :: u32 where "PSCI_0_2_FN_AFFINITY_INFO = PSCI_0_2_FN 4"

definition PSCI_0_2_FN_MIGRATE :: u32 where "PSCI_0_2_FN_MIGRATE = PSCI_0_2_FN 5"

definition PSCI_0_2_FN_MIGRATE_INFO_TYPE :: u32 where "PSCI_0_2_FN_MIGRATE_INFO_TYPE = PSCI_0_2_FN 6"

definition PSCI_0_2_FN_MIGRATE_INFO_UP_CPU :: u32 where "PSCI_0_2_FN_MIGRATE_INFO_UP_CPU = PSCI_0_2_FN 7"

definition PSCI_0_2_FN_SYSTEM_OFF :: u32 where "PSCI_0_2_FN_SYSTEM_OFF = PSCI_0_2_FN 8"

definition PSCI_0_2_FN_SYSTEM_RESET :: u32 where "PSCI_0_2_FN_SYSTEM_RESET = PSCI_0_2_FN 9"

definition PSCI_0_2_FN64_CPU_SUSPEND :: u32 where "PSCI_0_2_FN64_CPU_SUSPEND = PSCI_0_2_FN64 1"

definition PSCI_0_2_FN64_CPU_ON :: u32 where "PSCI_0_2_FN64_CPU_ON = PSCI_0_2_FN64 3"

definition PSCI_0_2_FN64_AFFINITY_INFO :: u32 where "PSCI_0_2_FN64_AFFINITY_INFO = PSCI_0_2_FN64 4"

definition PSCI_0_2_FN64_MIGRATE :: u32 where "PSCI_0_2_FN64_MIGRATE = PSCI_0_2_FN64 5"

definition PSCI_0_2_FN64_MIGRATE_INFO_UP_CPU :: u32 where "PSCI_0_2_FN64_MIGRATE_INFO_UP_CPU = PSCI_0_2_FN64 7"

definition PSCI_1_0_FN_PSCI_FEATURES :: u32 where "PSCI_1_0_FN_PSCI_FEATURES = PSCI_0_2_FN 10"

definition PSCI_1_0_FN_SYSTEM_SUSPEND :: u32 where "PSCI_1_0_FN_SYSTEM_SUSPEND = PSCI_0_2_FN 14"

definition PSCI_1_0_FN_SET_SUSPEND_MODE :: u32 where "PSCI_1_0_FN_SET_SUSPEND_MODE = PSCI_0_2_FN 15"

definition PSCI_1_1_FN_SYSTEM_RESET2 :: u32 where "PSCI_1_1_FN_SYSTEM_RESET2 = PSCI_0_2_FN 18"

definition PSCI_1_0_FN64_SYSTEM_SUSPEND :: u32 where "PSCI_1_0_FN64_SYSTEM_SUSPEND = PSCI_0_2_FN64 14"

definition PSCI_1_1_FN64_SYSTEM_RESET2 :: u32 where "PSCI_1_1_FN64_SYSTEM_RESET2 = PSCI_0_2_FN64 18"

definition PSCI_VERSION_MAJOR_SHIFT :: nat where "PSCI_VERSION_MAJOR_SHIFT = 16"

definition PSCI_VERSION_MINOR_MASK :: u32 where "PSCI_VERSION_MINOR_MASK = push_bit PSCI_VERSION_MAJOR_SHIFT 1 - 1"

definition PSCI_VERSION_MAJOR_MASK :: u32 where "PSCI_VERSION_MAJOR_MASK = NOT PSCI_VERSION_MINOR_MASK"

definition PSCI_VERSION_MAJOR :: "u32 \<Rightarrow> u32" where
  "PSCI_VERSION_MAJOR ver = drop_bit PSCI_VERSION_MAJOR_SHIFT (ver AND PSCI_VERSION_MAJOR_MASK)"

definition PSCI_VERSION_MINOR :: "u32 \<Rightarrow> u32" where
  "PSCI_VERSION_MINOR ver = ver AND PSCI_VERSION_MINOR_MASK"

definition PSCI_VERSION :: "u32 \<Rightarrow> u32 \<Rightarrow> u32" where
  "PSCI_VERSION maj mnr = (push_bit PSCI_VERSION_MAJOR_SHIFT maj AND PSCI_VERSION_MAJOR_MASK) OR (mnr AND PSCI_VERSION_MINOR_MASK)"

definition PSCI_0_2_POWER_STATE_ID_MASK :: u32 where "PSCI_0_2_POWER_STATE_ID_MASK = 0xffff"

definition PSCI_0_2_POWER_STATE_TYPE_MASK :: u32 where "PSCI_0_2_POWER_STATE_TYPE_MASK = push_bit 16 0x1"

definition PSCI_0_2_POWER_STATE_AFFL_MASK :: u32 where "PSCI_0_2_POWER_STATE_AFFL_MASK = push_bit 24 0x3"

definition PSCI_1_0_EXT_POWER_STATE_ID_MASK :: u32 where "PSCI_1_0_EXT_POWER_STATE_ID_MASK = 0xfffffff"

definition PSCI_1_0_EXT_POWER_STATE_TYPE_MASK :: u32 where "PSCI_1_0_EXT_POWER_STATE_TYPE_MASK = push_bit 30 0x1"

definition SDEI_1_0_FN_BASE :: u32 where "SDEI_1_0_FN_BASE = 0xC4000020"

definition SDEI_1_0_MASK :: u32 where "SDEI_1_0_MASK = 0xFFFFFFE0"

definition SDEI_1_0_FN :: "u32 \<Rightarrow> u32" where
  "SDEI_1_0_FN n = SDEI_1_0_FN_BASE + n"

definition SDEI_1_0_FN_SDEI_VERSION :: u32 where "SDEI_1_0_FN_SDEI_VERSION = SDEI_1_0_FN 0x00"

definition SDEI_1_0_FN_SDEI_EVENT_REGISTER :: u32 where "SDEI_1_0_FN_SDEI_EVENT_REGISTER = SDEI_1_0_FN 0x01"

definition SDEI_1_0_FN_SDEI_EVENT_ENABLE :: u32 where "SDEI_1_0_FN_SDEI_EVENT_ENABLE = SDEI_1_0_FN 0x02"

definition SDEI_1_0_FN_SDEI_EVENT_DISABLE :: u32 where "SDEI_1_0_FN_SDEI_EVENT_DISABLE = SDEI_1_0_FN 0x03"

definition SDEI_1_0_FN_SDEI_EVENT_CONTEXT :: u32 where "SDEI_1_0_FN_SDEI_EVENT_CONTEXT = SDEI_1_0_FN 0x04"

definition SDEI_1_0_FN_SDEI_EVENT_COMPLETE :: u32 where "SDEI_1_0_FN_SDEI_EVENT_COMPLETE = SDEI_1_0_FN 0x05"

definition SDEI_1_0_FN_SDEI_EVENT_COMPLETE_AND_RESUME :: u32 where "SDEI_1_0_FN_SDEI_EVENT_COMPLETE_AND_RESUME = SDEI_1_0_FN 0x06"

definition SDEI_1_0_FN_SDEI_EVENT_UNREGISTER :: u32 where "SDEI_1_0_FN_SDEI_EVENT_UNREGISTER = SDEI_1_0_FN 0x07"

definition SDEI_1_0_FN_SDEI_EVENT_STATUS :: u32 where "SDEI_1_0_FN_SDEI_EVENT_STATUS = SDEI_1_0_FN 0x08"

definition SDEI_1_0_FN_SDEI_EVENT_GET_INFO :: u32 where "SDEI_1_0_FN_SDEI_EVENT_GET_INFO = SDEI_1_0_FN 0x09"

definition SDEI_1_0_FN_SDEI_EVENT_ROUTING_SET :: u32 where "SDEI_1_0_FN_SDEI_EVENT_ROUTING_SET = SDEI_1_0_FN 0x0A"

definition SDEI_1_0_FN_SDEI_PE_MASK :: u32 where "SDEI_1_0_FN_SDEI_PE_MASK = SDEI_1_0_FN 0x0B"

definition SDEI_1_0_FN_SDEI_PE_UNMASK :: u32 where "SDEI_1_0_FN_SDEI_PE_UNMASK = SDEI_1_0_FN 0x0C"

definition SDEI_1_0_FN_SDEI_INTERRUPT_BIND :: u32 where "SDEI_1_0_FN_SDEI_INTERRUPT_BIND = SDEI_1_0_FN 0x0D"

definition SDEI_1_0_FN_SDEI_INTERRUPT_RELEASE :: u32 where "SDEI_1_0_FN_SDEI_INTERRUPT_RELEASE = SDEI_1_0_FN 0x0E"

definition SDEI_1_0_FN_SDEI_PRIVATE_RESET :: u32 where "SDEI_1_0_FN_SDEI_PRIVATE_RESET = SDEI_1_0_FN 0x11"

definition SDEI_1_0_FN_SDEI_SHARED_RESET :: u32 where "SDEI_1_0_FN_SDEI_SHARED_RESET = SDEI_1_0_FN 0x12"

definition SDEI_VERSION_MAJOR_SHIFT :: nat where "SDEI_VERSION_MAJOR_SHIFT = 48"

definition SDEI_VERSION_MAJOR_MASK :: u64 where "SDEI_VERSION_MAJOR_MASK = 0x7fff"

definition SDEI_VERSION_MAJOR :: "u64 \<Rightarrow> u64" where
  "SDEI_VERSION_MAJOR x = drop_bit SDEI_VERSION_MAJOR_SHIFT x AND SDEI_VERSION_MAJOR_MASK"

definition SDEI_VERSION_MINOR_SHIFT :: nat where "SDEI_VERSION_MINOR_SHIFT = 32"

definition SDEI_VERSION_MINOR_MASK :: u64 where "SDEI_VERSION_MINOR_MASK = 0xffff"

definition SDEI_VERSION_MINOR :: "u64 \<Rightarrow> u64" where
  "SDEI_VERSION_MINOR x = drop_bit SDEI_VERSION_MINOR_SHIFT x AND SDEI_VERSION_MINOR_MASK"

definition SDEI_VERSION_VENDOR_SHIFT :: nat where "SDEI_VERSION_VENDOR_SHIFT = 0"

definition SDEI_VERSION_VENDOR_MASK :: u64 where "SDEI_VERSION_VENDOR_MASK = 0xffffffff"

definition SDEI_VERSION_VENDOR :: "u64 \<Rightarrow> u64" where
  "SDEI_VERSION_VENDOR x = drop_bit SDEI_VERSION_VENDOR_SHIFT x AND SDEI_VERSION_VENDOR_MASK"

section \<open>Filter instructions\<close>

definition BPF_CLASS :: "u16 \<Rightarrow> u16" where
  "BPF_CLASS code = code AND 0x07"

definition BPF_SIZE :: "u16 \<Rightarrow> u16" where
  "BPF_SIZE code = code AND 0x18"

definition BPF_MODE :: "u16 \<Rightarrow> u16" where
  "BPF_MODE code = code AND 0xe0"

definition BPF_OP :: "u16 \<Rightarrow> u16" where
  "BPF_OP code = code AND 0xf0"

definition BPF_SRC :: "u16 \<Rightarrow> u16" where
  "BPF_SRC code = code AND 0x08"

definition BPF_RVAL :: "u16 \<Rightarrow> u16" where
  "BPF_RVAL code = code AND 0x18"

definition BPF_MISCOP :: "u16 \<Rightarrow> u16" where
  "BPF_MISCOP code = code AND 0xf8"

definition BPF_LD :: u16 where "BPF_LD = 0x00"

definition BPF_LDX :: u16 where "BPF_LDX = 0x01"

definition BPF_ST :: u16 where "BPF_ST = 0x02"

definition BPF_STX :: u16 where "BPF_STX = 0x03"

definition BPF_ALU :: u16 where "BPF_ALU = 0x04"

definition BPF_JMP :: u16 where "BPF_JMP = 0x05"

definition BPF_RET :: u16 where "BPF_RET = 0x06"

definition BPF_MISC :: u16 where "BPF_MISC = 0x07"

definition BPF_W :: u16 where "BPF_W = 0x00"

definition BPF_H :: u16 where "BPF_H = 0x08"

definition BPF_B :: u16 where "BPF_B = 0x10"

definition BPF_IMM :: u16 where "BPF_IMM = 0x00"

definition BPF_ABS :: u16 where "BPF_ABS = 0x20"

definition BPF_IND :: u16 where "BPF_IND = 0x40"

definition BPF_MEM :: u16 where "BPF_MEM = 0x60"

definition BPF_LEN :: u16 where "BPF_LEN = 0x80"

definition BPF_MSH :: u16 where "BPF_MSH = 0xa0"

definition BPF_ADD :: u16 where "BPF_ADD = 0x00"

definition BPF_SUB :: u16 where "BPF_SUB = 0x10"

definition BPF_MUL :: u16 where "BPF_MUL = 0x20"

definition BPF_DIV :: u16 where "BPF_DIV = 0x30"

definition BPF_OR :: u16 where "BPF_OR = 0x40"

definition BPF_AND :: u16 where "BPF_AND = 0x50"

definition BPF_LSH :: u16 where "BPF_LSH = 0x60"

definition BPF_RSH :: u16 where "BPF_RSH = 0x70"

definition BPF_NEG :: u16 where "BPF_NEG = 0x80"

definition BPF_MOD :: u16 where "BPF_MOD = 0x90"

definition BPF_XOR :: u16 where "BPF_XOR = 0xa0"

definition BPF_JA :: u16 where "BPF_JA = 0x00"

definition BPF_JEQ :: u16 where "BPF_JEQ = 0x10"

definition BPF_JGT :: u16 where "BPF_JGT = 0x20"

definition BPF_JGE :: u16 where "BPF_JGE = 0x30"

definition BPF_JSET :: u16 where "BPF_JSET = 0x40"

definition BPF_K :: u16 where "BPF_K = 0x00"

definition BPF_X :: u16 where "BPF_X = 0x08"

definition BPF_A :: u16 where "BPF_A = 0x10"

definition BPF_TAX :: u16 where "BPF_TAX = 0x00"

definition BPF_TXA :: u16 where "BPF_TXA = 0x80"

record sock_filter =
  sf_code :: u16
  sf_jt :: u8
  sf_jf :: u8
  sf_k :: u32

definition BPF_STMT :: "u16 \<Rightarrow> u32 \<Rightarrow> sock_filter" where
  "BPF_STMT code k = \<lparr>sf_code = code, sf_jt = 0, sf_jf = 0, sf_k = k\<rparr>"

definition BPF_JUMP :: "u16 \<Rightarrow> u32 \<Rightarrow> u8 \<Rightarrow> u8 \<Rightarrow> sock_filter" where
  "BPF_JUMP code k jt jf = \<lparr>sf_code = code, sf_jt = jt, sf_jf = jf, sf_k = k\<rparr>"

section \<open>Type records\<close>

definition BTF_INFO_KIND :: "u32 \<Rightarrow> u32" where
  "BTF_INFO_KIND info = drop_bit 24 info AND 0x1f"

definition BTF_INFO_VLEN :: "u32 \<Rightarrow> u32" where
  "BTF_INFO_VLEN info = info AND 0xffff"

definition BTF_INFO_KFLAG :: "u32 \<Rightarrow> u32" where
  "BTF_INFO_KFLAG info = drop_bit 31 info"

definition BTF_KIND_UNKN :: u32 where "BTF_KIND_UNKN = 0"

definition BTF_KIND_INT :: u32 where "BTF_KIND_INT = 1"

definition BTF_KIND_PTR :: u32 where "BTF_KIND_PTR = 2"

definition BTF_KIND_ARRAY :: u32 where "BTF_KIND_ARRAY = 3"

definition BTF_KIND_STRUCT :: u32 where "BTF_KIND_STRUCT = 4"

definition BTF_KIND_UNION :: u32 where "BTF_KIND_UNION = 5"

definition BTF_KIND_ENUM :: u32 where "BTF_KIND_ENUM = 6"

definition BTF_KIND_FWD :: u32 where "BTF_KIND_FWD = 7"

definition BTF_KIND_TYPEDEF :: u32 where "BTF_KIND_TYPEDEF = 8"

definition BTF_KIND_VOLATILE :: u32 where "BTF_KIND_VOLATILE = 9"

definition BTF_KIND_CONST :: u32 where "BTF_KIND_CONST = 10"

definition BTF_KIND_RESTRICT :: u32 where "BTF_KIND_RESTRICT = 11"

definition BTF_KIND_FUNC :: u32 where "BTF_KIND_FUNC = 12"

definition BTF_KIND_FUNC_PROTO :: u32 where "BTF_KIND_FUNC_PROTO = 13"

definition BTF_KIND_VAR :: u32 where "BTF_KIND_VAR = 14"

definition BTF_KIND_DATASEC :: u32 where "BTF_KIND_DATASEC = 15"

definition BTF_KIND_FLOAT :: u32 where "BTF_KIND_FLOAT = 16"

definition BTF_KIND_MAX :: u32 where "BTF_KIND_MAX = BTF_KIND_FLOAT"

definition NR_BTF_KINDS :: u32 where "NR_BTF_KINDS = BTF_KIND_MAX + 1"

definition BTF_INT_ENCODING :: "u32 \<Rightarrow> u32" where
  "BTF_INT_ENCODING val = drop_bit 24 (val AND 0x0f000000)"

definition BTF_INT_OFFSET :: "u32 \<Rightarrow> u32" where
  "BTF_INT_OFFSET val = drop_bit 16 (val AND 0x00ff0000)"

definition BTF_INT_BITS :: "u32 \<Rightarrow> u32" where
  "BTF_INT_BITS val = val AND 0x000000ff"

definition BTF_MEMBER_BITFIELD_SIZE :: "u32 \<Rightarrow> u32" where
  "BTF_MEMBER_BITFIELD_SIZE val = drop_bit 24 val"

definition BTF_MEMBER_BIT_OFFSET :: "u32 \<Rightarrow> u32" where
  "BTF_MEMBER_BIT_OFFSET val = val AND 0xffffff"

definition BTF_MAX_TYPE :: u32 where "BTF_MAX_TYPE = 0x000fffff"

definition BTF_MAX_NAME_OFFSET :: u32 where "BTF_MAX_NAME_OFFSET = 0x00ffffff"

definition BTF_MAX_VLEN :: u32 where "BTF_MAX_VLEN = 0xffff"

section \<open>Identifiers\<close>

definition GUID_INIT :: "u32 \<Rightarrow> u16 \<Rightarrow> u16 \<Rightarrow> u8 list \<Rightarrow> u8 list" where
  "GUID_INIT a b c d =
     [ucast (a AND 0xff), ucast (drop_bit 8 a AND 0xff), ucast (drop_bit 16 a AND 0xff), ucast (drop_bit 24 a AND 0xff),
      ucast (b AND 0xff), ucast (drop_bit 8 b AND 0xff), ucast (c AND 0xff), ucast (drop_bit 8 c AND 0xff)] @ d"

definition UUID_LE :: "u32 \<Rightarrow> u16 \<Rightarrow> u16 \<Rightarrow> u8 list \<Rightarrow> u8 list" where "UUID_LE a b c d = GUID_INIT a b c d"

definition NULL_UUID_LE :: "u8 list" where "NULL_UUID_LE = UUID_LE 0 0 0 [0, 0, 0, 0, 0, 0, 0, 0]"

section \<open>Stream parameters, requests and clocks\<close>

text \<open>The picture parameters; of the sequence and the slice only the member the macro reads is passed.\<close>

record h264_pps =
  pps_pic_parameter_set_id :: u8
  pps_seq_parameter_set_id :: u8
  pps_num_slice_groups_minus1 :: u8
  pps_num_ref_idx_l0_default_active_minus1 :: u8
  pps_num_ref_idx_l1_default_active_minus1 :: u8
  pps_weighted_bipred_idc :: u8
  pps_pic_init_qp_minus26 :: u8
  pps_pic_init_qs_minus26 :: u8
  pps_chroma_qp_index_offset :: u8
  pps_second_chroma_qp_index_offset :: u8
  pps_flags :: u16

definition V4L2_H264_SPS_HAS_CHROMA_FORMAT :: "u8 \<Rightarrow> bool" where
  "V4L2_H264_SPS_HAS_CHROMA_FORMAT profile_idc \<longleftrightarrow>
     profile_idc = 100 \<or> profile_idc = 110 \<or> profile_idc = 122 \<or> profile_idc = 244 \<or> profile_idc = 44 \<or>
     profile_idc = 83 \<or> profile_idc = 86 \<or> profile_idc = 118 \<or> profile_idc = 128 \<or> profile_idc = 138 \<or>
     profile_idc = 139 \<or> profile_idc = 134 \<or> profile_idc = 135"

definition V4L2_H264_PPS_FLAG_WEIGHTED_PRED :: u16 where "V4L2_H264_PPS_FLAG_WEIGHTED_PRED = 0x0004"

definition V4L2_H264_SLICE_TYPE_P :: u8 where "V4L2_H264_SLICE_TYPE_P = 0"

definition V4L2_H264_SLICE_TYPE_B :: u8 where "V4L2_H264_SLICE_TYPE_B = 1"

definition V4L2_H264_SLICE_TYPE_I :: u8 where "V4L2_H264_SLICE_TYPE_I = 2"

definition V4L2_H264_SLICE_TYPE_SP :: u8 where "V4L2_H264_SLICE_TYPE_SP = 3"

definition V4L2_H264_SLICE_TYPE_SI :: u8 where "V4L2_H264_SLICE_TYPE_SI = 4"

definition V4L2_H264_CTRL_PRED_WEIGHTS_REQUIRED :: "h264_pps \<Rightarrow> u8 \<Rightarrow> bool" where
  "V4L2_H264_CTRL_PRED_WEIGHTS_REQUIRED pps slice_type \<longleftrightarrow> (pps_flags pps AND V4L2_H264_PPS_FLAG_WEIGHTED_PRED \<noteq> 0 \<and>
       (slice_type = V4L2_H264_SLICE_TYPE_P \<or> slice_type = V4L2_H264_SLICE_TYPE_SP)) \<or>
     (pps_weighted_bipred_idc pps = 1 \<and> slice_type = V4L2_H264_SLICE_TYPE_B)"

definition V4L2_VP8_FRAME_FLAG_KEY_FRAME :: u64 where "V4L2_VP8_FRAME_FLAG_KEY_FRAME = 0x01"

definition V4L2_VP8_FRAME_IS_KEY_FRAME :: "u64 \<Rightarrow> bool" where
  "V4L2_VP8_FRAME_IS_KEY_FRAME flags \<longleftrightarrow> flags AND V4L2_VP8_FRAME_FLAG_KEY_FRAME \<noteq> 0"

definition VIRTIO_CRYPTO_SERVICE_CIPHER :: u32 where "VIRTIO_CRYPTO_SERVICE_CIPHER = 0"

definition VIRTIO_CRYPTO_SERVICE_HASH :: u32 where "VIRTIO_CRYPTO_SERVICE_HASH = 1"

definition VIRTIO_CRYPTO_SERVICE_MAC :: u32 where "VIRTIO_CRYPTO_SERVICE_MAC = 2"

definition VIRTIO_CRYPTO_SERVICE_AEAD :: u32 where "VIRTIO_CRYPTO_SERVICE_AEAD = 3"

definition VIRTIO_CRYPTO_OPCODE :: "u32 \<Rightarrow> u32 \<Rightarrow> u32" where
  "VIRTIO_CRYPTO_OPCODE service op = push_bit 8 service OR op"

definition VIRTIO_CRYPTO_CIPHER_CREATE_SESSION :: u32 where "VIRTIO_CRYPTO_CIPHER_CREATE_SESSION = VIRTIO_CRYPTO_OPCODE VIRTIO_CRYPTO_SERVICE_CIPHER 0x02"

definition VIRTIO_CRYPTO_CIPHER_DESTROY_SESSION :: u32 where "VIRTIO_CRYPTO_CIPHER_DESTROY_SESSION = VIRTIO_CRYPTO_OPCODE VIRTIO_CRYPTO_SERVICE_CIPHER 0x03"

definition VIRTIO_CRYPTO_HASH_CREATE_SESSION :: u32 where "VIRTIO_CRYPTO_HASH_CREATE_SESSION = VIRTIO_CRYPTO_OPCODE VIRTIO_CRYPTO_SERVICE_HASH 0x02"

definition VIRTIO_CRYPTO_HASH_DESTROY_SESSION :: u32 where "VIRTIO_CRYPTO_HASH_DESTROY_SESSION = VIRTIO_CRYPTO_OPCODE VIRTIO_CRYPTO_SERVICE_HASH 0x03"

definition VIRTIO_CRYPTO_MAC_CREATE_SESSION :: u32 where "VIRTIO_CRYPTO_MAC_CREATE_SESSION = VIRTIO_CRYPTO_OPCODE VIRTIO_CRYPTO_SERVICE_MAC 0x02"

definition VIRTIO_CRYPTO_MAC_DESTROY_SESSION :: u32 where "VIRTIO_CRYPTO_MAC_DESTROY_SESSION = VIRTIO_CRYPTO_OPCODE VIRTIO_CRYPTO_SERVICE_MAC 0x03"

definition VIRTIO_CRYPTO_AEAD_CREATE_SESSION :: u32 where "VIRTIO_CRYPTO_AEAD_CREATE_SESSION = VIRTIO_CRYPTO_OPCODE VIRTIO_CRYPTO_SERVICE_AEAD 0x02"

definition VIRTIO_CRYPTO_AEAD_DESTROY_SESSION :: u32 where "VIRTIO_CRYPTO_AEAD_DESTROY_SESSION = VIRTIO_CRYPTO_OPCODE VIRTIO_CRYPTO_SERVICE_AEAD 0x03"

definition VIRTIO_CRYPTO_CIPHER_ENCRYPT :: u32 where "VIRTIO_CRYPTO_CIPHER_ENCRYPT = VIRTIO_CRYPTO_OPCODE VIRTIO_CRYPTO_SERVICE_CIPHER 0x00"

definition VIRTIO_CRYPTO_CIPHER_DECRYPT :: u32 where "VIRTIO_CRYPTO_CIPHER_DECRYPT = VIRTIO_CRYPTO_OPCODE VIRTIO_CRYPTO_SERVICE_CIPHER 0x01"

definition VIRTIO_CRYPTO_HASH :: u32 where "VIRTIO_CRYPTO_HASH = VIRTIO_CRYPTO_OPCODE VIRTIO_CRYPTO_SERVICE_HASH 0x00"

definition VIRTIO_CRYPTO_MAC :: u32 where "VIRTIO_CRYPTO_MAC = VIRTIO_CRYPTO_OPCODE VIRTIO_CRYPTO_SERVICE_MAC 0x00"

definition VIRTIO_CRYPTO_AEAD_ENCRYPT :: u32 where "VIRTIO_CRYPTO_AEAD_ENCRYPT = VIRTIO_CRYPTO_OPCODE VIRTIO_CRYPTO_SERVICE_AEAD 0x00"

definition VIRTIO_CRYPTO_AEAD_DECRYPT :: u32 where "VIRTIO_CRYPTO_AEAD_DECRYPT = VIRTIO_CRYPTO_OPCODE VIRTIO_CRYPTO_SERVICE_AEAD 0x01"

definition PICOS2KHZ :: "u64 \<Rightarrow> u64" where
  "PICOS2KHZ a = 1000000000 div a"

definition KHZ2PICOS :: "u64 \<Rightarrow> u64" where
  "KHZ2PICOS a = 1000000000 div a"

section \<open>The fields make up the register\<close>

lemma field_masks:
  "(3 :: u32) = mask 2" "(7 :: u32) = mask 3" "(0xf :: u32) = mask 4" "(0x1f :: u32) = mask 5"
  "(0xff :: u32) = mask 8" "(0xfff :: u32) = mask 12" "(0xffff :: u32) = mask 16" "(0xffffff :: u32) = mask 24"
  "(0xffc :: u32) = push_bit 2 (mask 10)" "(0x0f000000 :: u32) = push_bit 24 (mask 4)"
  "(0x00ff0000 :: u32) = push_bit 16 (mask 8)"
  by (simp_all add: mask_eq_exp_minus_1 push_bit_eq_mult)

text \<open>Fields next to each other join to a wider one.\<close>

lemma join_fields:
  "(x AND mask a) OR push_bit a (drop_bit a x AND mask b) = (x :: 'a::len word) AND mask (a + b)"
proof (rule bit_word_eqI)
  fix n assume "n < LENGTH('a)"
  then show "bit ((x AND mask a) OR push_bit a (drop_bit a x AND mask b)) n \<longleftrightarrow> bit (x AND mask (a + b)) n"
    by (cases "n < a") (auto simp: bit_simps)
qed

lemma whole_word: "x AND mask 32 = (x :: u32)" by (rule bit_word_eqI) (auto simp: bit_simps)

text \<open>Identifier, version and next offset of an extended capability; the offset's low bits are dropped.\<close>

lemma capability_header:
  "PCI_EXT_CAP_ID h OR push_bit 16 (PCI_EXT_CAP_VER h) OR push_bit 20 (PCI_EXT_CAP_NEXT h) =
   h AND NOT (push_bit 20 3)"
proof -
  have e: "push_bit 20 3 = push_bit 20 (mask 2 :: u32)" by (simp add: field_masks)
  have "(h AND mask 16) OR push_bit 16 (drop_bit 16 h AND mask 4) = h AND mask 20"
    using join_fields [of h 16 4] by simp
  moreover have "(h AND mask 20) OR push_bit 20 (drop_bit 20 h AND push_bit 2 (mask 10)) = h AND NOT (push_bit 20 (mask 2))"
  proof (rule bit_word_eqI)
    fix n assume "n < LENGTH(32)"
    then show "bit ((h AND mask 20) OR push_bit 20 (drop_bit 20 h AND push_bit 2 (mask 10))) n \<longleftrightarrow>
        bit (h AND NOT (push_bit 20 (mask 2))) n"
      by (cases "n < 20") (auto simp: bit_simps)
  qed
  ultimately show ?thesis
    unfolding PCI_EXT_CAP_ID_def PCI_EXT_CAP_VER_def PCI_EXT_CAP_NEXT_def e
    unfolding field_masks by (simp flip: or.assoc)
qed

lemma capability_next_aligned: "4 dvd unat (PCI_EXT_CAP_NEXT h)" "unat (PCI_EXT_CAP_NEXT h) < 4096"
proof -
  have "PCI_EXT_CAP_NEXT h AND mask 2 = 0" "PCI_EXT_CAP_NEXT h AND mask 12 = PCI_EXT_CAP_NEXT h"
    unfolding PCI_EXT_CAP_NEXT_def field_masks by (rule bit_word_eqI, auto simp: bit_simps)+
  then have "unat (PCI_EXT_CAP_NEXT h) mod 2 ^ 2 = 0"
    "unat (PCI_EXT_CAP_NEXT h) mod 2 ^ 12 = unat (PCI_EXT_CAP_NEXT h)"
    by (simp_all only: unat_0 flip: unat_and_mask)
  then show "4 dvd unat (PCI_EXT_CAP_NEXT h)" by (simp add: dvd_eq_mod_eq_0)
  show "unat (PCI_EXT_CAP_NEXT h) < 4096"
    using mod_less_divisor [of "2 ^ 12" "unat (PCI_EXT_CAP_NEXT h)"]
      \<open>unat (PCI_EXT_CAP_NEXT h) mod 2 ^ 12 = unat (PCI_EXT_CAP_NEXT h)\<close> by simp
qed

lemma vendor_header:
  "PCI_VNDR_HEADER_ID h OR push_bit 16 (PCI_VNDR_HEADER_REV h) OR push_bit 20 (PCI_VNDR_HEADER_LEN h) = h"
  using join_fields [of h 16 4] join_fields [of h 20 12] whole_word [of h]
  unfolding PCI_VNDR_HEADER_ID_def PCI_VNDR_HEADER_REV_def PCI_VNDR_HEADER_LEN_def field_masks
  by (simp flip: or.assoc)

lemma power_data:
  "PCI_PWR_DATA_BASE x OR push_bit 8 (PCI_PWR_DATA_SCALE x) OR push_bit 10 (PCI_PWR_DATA_PM_SUB x) OR
   push_bit 13 (PCI_PWR_DATA_PM_STATE x) OR push_bit 15 (PCI_PWR_DATA_TYPE x) OR push_bit 18 (PCI_PWR_DATA_RAIL x) =
   x AND mask 21"
  using join_fields [of x 8 2] join_fields [of x 10 3] join_fields [of x 13 2] join_fields [of x 15 3]
    join_fields [of x 18 3]
  unfolding PCI_PWR_DATA_BASE_def PCI_PWR_DATA_SCALE_def PCI_PWR_DATA_PM_SUB_def PCI_PWR_DATA_PM_STATE_def
    PCI_PWR_DATA_TYPE_def PCI_PWR_DATA_RAIL_def field_masks
  by (simp flip: or.assoc)

lemma migration_place: "PCI_SRIOV_VFM_OFFSET x OR PCI_SRIOV_VFM_BIR x = x" "PCI_SRIOV_VFM_OFFSET x AND PCI_SRIOV_VFM_BIR x = 0"
  unfolding PCI_SRIOV_VFM_OFFSET_def PCI_SRIOV_VFM_BIR_def by (rule bit_word_eqI, auto simp: bit_simps)+

section \<open>Numbers of firmware calls\<close>

definition psci_calls :: "u32 list" where
  "psci_calls =
    [PSCI_0_2_FN_PSCI_VERSION, PSCI_0_2_FN_CPU_SUSPEND, PSCI_0_2_FN_CPU_OFF, PSCI_0_2_FN_CPU_ON,
     PSCI_0_2_FN_AFFINITY_INFO, PSCI_0_2_FN_MIGRATE, PSCI_0_2_FN_MIGRATE_INFO_TYPE,
     PSCI_0_2_FN_MIGRATE_INFO_UP_CPU, PSCI_0_2_FN_SYSTEM_OFF, PSCI_0_2_FN_SYSTEM_RESET,
     PSCI_1_0_FN_PSCI_FEATURES, PSCI_1_0_FN_SYSTEM_SUSPEND, PSCI_1_0_FN_SET_SUSPEND_MODE,
     PSCI_1_1_FN_SYSTEM_RESET2]"

definition psci_calls64 :: "u32 list" where
  "psci_calls64 =
    [PSCI_0_2_FN64_CPU_SUSPEND, PSCI_0_2_FN64_CPU_ON, PSCI_0_2_FN64_AFFINITY_INFO,
     PSCI_0_2_FN64_MIGRATE, PSCI_0_2_FN64_MIGRATE_INFO_UP_CPU, PSCI_1_0_FN64_SYSTEM_SUSPEND,
     PSCI_1_1_FN64_SYSTEM_RESET2]"

definition sdei_calls :: "u32 list" where
  "sdei_calls =
    [SDEI_1_0_FN_SDEI_VERSION, SDEI_1_0_FN_SDEI_EVENT_REGISTER, SDEI_1_0_FN_SDEI_EVENT_ENABLE,
     SDEI_1_0_FN_SDEI_EVENT_DISABLE, SDEI_1_0_FN_SDEI_EVENT_CONTEXT, SDEI_1_0_FN_SDEI_EVENT_COMPLETE,
     SDEI_1_0_FN_SDEI_EVENT_COMPLETE_AND_RESUME, SDEI_1_0_FN_SDEI_EVENT_UNREGISTER,
     SDEI_1_0_FN_SDEI_EVENT_STATUS, SDEI_1_0_FN_SDEI_EVENT_GET_INFO,
     SDEI_1_0_FN_SDEI_EVENT_ROUTING_SET, SDEI_1_0_FN_SDEI_PE_MASK, SDEI_1_0_FN_SDEI_PE_UNMASK,
     SDEI_1_0_FN_SDEI_INTERRUPT_BIND, SDEI_1_0_FN_SDEI_INTERRUPT_RELEASE,
     SDEI_1_0_FN_SDEI_PRIVATE_RESET, SDEI_1_0_FN_SDEI_SHARED_RESET]"

lemmas call_defs =
  PSCI_0_2_FN_PSCI_VERSION_def PSCI_0_2_FN_CPU_SUSPEND_def PSCI_0_2_FN_CPU_OFF_def
  PSCI_0_2_FN_CPU_ON_def PSCI_0_2_FN_AFFINITY_INFO_def PSCI_0_2_FN_MIGRATE_def
  PSCI_0_2_FN_MIGRATE_INFO_TYPE_def PSCI_0_2_FN_MIGRATE_INFO_UP_CPU_def PSCI_0_2_FN_SYSTEM_OFF_def
  PSCI_0_2_FN_SYSTEM_RESET_def PSCI_0_2_FN64_CPU_SUSPEND_def PSCI_0_2_FN64_CPU_ON_def
  PSCI_0_2_FN64_AFFINITY_INFO_def PSCI_0_2_FN64_MIGRATE_def PSCI_0_2_FN64_MIGRATE_INFO_UP_CPU_def
  PSCI_1_0_FN_PSCI_FEATURES_def PSCI_1_0_FN_SYSTEM_SUSPEND_def PSCI_1_0_FN_SET_SUSPEND_MODE_def
  PSCI_1_1_FN_SYSTEM_RESET2_def PSCI_1_0_FN64_SYSTEM_SUSPEND_def PSCI_1_1_FN64_SYSTEM_RESET2_def
  SDEI_1_0_FN_SDEI_VERSION_def SDEI_1_0_FN_SDEI_EVENT_REGISTER_def SDEI_1_0_FN_SDEI_EVENT_ENABLE_def
  SDEI_1_0_FN_SDEI_EVENT_DISABLE_def SDEI_1_0_FN_SDEI_EVENT_CONTEXT_def
  SDEI_1_0_FN_SDEI_EVENT_COMPLETE_def SDEI_1_0_FN_SDEI_EVENT_COMPLETE_AND_RESUME_def
  SDEI_1_0_FN_SDEI_EVENT_UNREGISTER_def SDEI_1_0_FN_SDEI_EVENT_STATUS_def
  SDEI_1_0_FN_SDEI_EVENT_GET_INFO_def SDEI_1_0_FN_SDEI_EVENT_ROUTING_SET_def
  SDEI_1_0_FN_SDEI_PE_MASK_def SDEI_1_0_FN_SDEI_PE_UNMASK_def SDEI_1_0_FN_SDEI_INTERRUPT_BIND_def
  SDEI_1_0_FN_SDEI_INTERRUPT_RELEASE_def SDEI_1_0_FN_SDEI_PRIVATE_RESET_def
  SDEI_1_0_FN_SDEI_SHARED_RESET_def
  PSCI_0_2_FN_def PSCI_0_2_FN64_def PSCI_0_2_FN_BASE_def PSCI_0_2_FN64_BASE_def PSCI_0_2_64BIT_def SDEI_1_0_FN_def
  SDEI_1_0_FN_BASE_def

text \<open>No two calls have the same number, and the numbers of the event interface share its prefix.\<close>

lemma firmware_calls_distinct: "distinct (psci_calls @ psci_calls64 @ sdei_calls)"
  by (simp add: psci_calls_def psci_calls64_def sdei_calls_def call_defs)

lemma sdei_prefix: "list_all (\<lambda>f. f AND SDEI_1_0_MASK = SDEI_1_0_FN_BASE) sdei_calls"
  by (simp add: sdei_calls_def call_defs SDEI_1_0_MASK_def)

lemma psci_width: "list_all (\<lambda>f. f AND PSCI_0_2_64BIT = 0) psci_calls" "list_all (\<lambda>f. f AND PSCI_0_2_64BIT \<noteq> 0) psci_calls64"
  by (simp_all add: psci_calls_def psci_calls64_def call_defs)

lemma psci_version:
  assumes "maj < 2 ^ 16" "mnr < 2 ^ 16"
  shows "PSCI_VERSION_MAJOR (PSCI_VERSION maj mnr) = maj" "PSCI_VERSION_MINOR (PSCI_VERSION maj mnr) = mnr"
proof -
  have e: "PSCI_VERSION_MINOR_MASK = mask 16"
    by (simp add: PSCI_VERSION_MINOR_MASK_def PSCI_VERSION_MAJOR_SHIFT_def mask_eq_exp_minus_1)
  have b: "k < 16" if "bit maj k \<or> bit mnr k" for k
  proof (rule ccontr)
    assume "\<not> k < 16"
    then show False using less_not_bit [of maj 16 k] less_not_bit [of mnr 16 k] assms that by auto
  qed
  show "PSCI_VERSION_MAJOR (PSCI_VERSION maj mnr) = maj" "PSCI_VERSION_MINOR (PSCI_VERSION maj mnr) = mnr"
    unfolding PSCI_VERSION_MAJOR_def PSCI_VERSION_MINOR_def PSCI_VERSION_def PSCI_VERSION_MAJOR_MASK_def e
      PSCI_VERSION_MAJOR_SHIFT_def
    by (rule bit_word_eqI, auto simp: bit_simps intro: b [OF disjI1] b [OF disjI2])+
qed

lemma psci_version_back: "PSCI_VERSION (PSCI_VERSION_MAJOR v) (PSCI_VERSION_MINOR v) = v"
proof -
  have e: "PSCI_VERSION_MINOR_MASK = mask 16"
    by (simp add: PSCI_VERSION_MINOR_MASK_def PSCI_VERSION_MAJOR_SHIFT_def mask_eq_exp_minus_1)
  show ?thesis
    unfolding PSCI_VERSION_MAJOR_def PSCI_VERSION_MINOR_def PSCI_VERSION_def PSCI_VERSION_MAJOR_MASK_def e
      PSCI_VERSION_MAJOR_SHIFT_def
    by (rule bit_word_eqI) (auto simp: bit_simps)
qed

lemma sdei_version:
  "SDEI_VERSION_VENDOR x OR push_bit 32 (SDEI_VERSION_MINOR x) OR push_bit 48 (SDEI_VERSION_MAJOR x) = x AND mask 63"
proof -
  have e: "(0x7fff :: u64) = mask 15" "(0xffff :: u64) = mask 16" "(0xffffffff :: u64) = mask 32"
    by (simp_all add: mask_eq_exp_minus_1)
  show ?thesis
    using join_fields [of x 32 16] join_fields [of x 48 15]
    unfolding SDEI_VERSION_MAJOR_def SDEI_VERSION_MINOR_def SDEI_VERSION_VENDOR_def SDEI_VERSION_MAJOR_SHIFT_def
      SDEI_VERSION_MINOR_SHIFT_def SDEI_VERSION_VENDOR_SHIFT_def SDEI_VERSION_MAJOR_MASK_def
      SDEI_VERSION_MINOR_MASK_def SDEI_VERSION_VENDOR_MASK_def e
    by (simp flip: or.assoc)
qed

section \<open>Instructions and type records\<close>

text \<open>An eight-bit code is its class with size and mode, or its class with source and operation.\<close>

lemma masks16:
  "(0x07 :: u16) = mask 3" "(0x18 :: u16) = push_bit 3 (mask 2)" "(0xe0 :: u16) = push_bit 5 (mask 3)"
  "(0xf0 :: u16) = push_bit 4 (mask 4)" "(0x08 :: u16) = push_bit 3 (mask 1)" "(0xf8 :: u16) = push_bit 3 (mask 5)"
  by (simp_all add: mask_eq_exp_minus_1 push_bit_eq_mult)

lemma one_bits: "bit (8 :: int) n \<longleftrightarrow> n = 3" "bit (2147483648 :: int) n \<longleftrightarrow> n = 31"
  using bit_exp_iff [of 3 n, where ?'a = int] bit_exp_iff [of 31 n, where ?'a = int] by auto

lemma code_parts:
  "BPF_CLASS code OR BPF_SIZE code OR BPF_MODE code = code AND mask 8"
  "BPF_CLASS code OR BPF_SRC code OR BPF_OP code = code AND mask 8"
  "BPF_CLASS code OR BPF_MISCOP code = code AND mask 8"
  unfolding BPF_CLASS_def BPF_SIZE_def BPF_MODE_def BPF_SRC_def BPF_OP_def BPF_MISCOP_def masks16
  by (rule bit_word_eqI, auto simp: bit_simps one_bits)+

lemma parts_of_code:
  assumes "BPF_CLASS c = c" "BPF_SIZE s = s" "BPF_MODE m = m"
  shows "BPF_CLASS (c OR s OR m) = c" "BPF_SIZE (c OR s OR m) = s" "BPF_MODE (c OR s OR m) = m"
proof -
  have c: "k < 3" if "bit c k" for k
    using assms(1) that unfolding BPF_CLASS_def masks16 by (metis bit_and_iff bit_mask_iff)
  have s: "3 \<le> k \<and> k < 5" if "bit s k" for k
  proof -
    have "bit (push_bit 3 (mask 2) :: u16) k"
      using assms(2) that unfolding BPF_SIZE_def masks16 by (metis bit_and_iff)
    then show ?thesis by (auto simp: bit_simps)
  qed
  have m: "5 \<le> k" if "bit m k" for k
  proof -
    have "bit (push_bit 5 (mask 3) :: u16) k"
      using assms(3) that unfolding BPF_MODE_def masks16 by (metis bit_and_iff)
    then show ?thesis by (auto simp: bit_simps)
  qed
  have m8: "k < 8" if "bit m k" for k
  proof -
    have "bit (push_bit 5 (mask 3) :: u16) k"
      using assms(3) that unfolding BPF_MODE_def masks16 by (metis bit_and_iff)
    then show ?thesis by (auto simp: bit_simps)
  qed
  show "BPF_CLASS (c OR s OR m) = c" "BPF_SIZE (c OR s OR m) = s" "BPF_MODE (c OR s OR m) = m"
    unfolding BPF_CLASS_def BPF_SIZE_def BPF_MODE_def masks16
    by (rule bit_word_eqI, auto simp: bit_simps dest: c s m m8)+
qed

lemmas bpf_defs =
  BPF_LD_def BPF_LDX_def BPF_ST_def BPF_STX_def BPF_ALU_def BPF_JMP_def BPF_RET_def BPF_MISC_def
  BPF_W_def BPF_H_def BPF_B_def BPF_IMM_def BPF_ABS_def BPF_IND_def BPF_MEM_def BPF_LEN_def BPF_MSH_def
  BPF_ADD_def BPF_SUB_def BPF_MUL_def BPF_DIV_def BPF_OR_def BPF_AND_def BPF_LSH_def BPF_RSH_def
  BPF_NEG_def BPF_MOD_def BPF_XOR_def BPF_JA_def BPF_JEQ_def BPF_JGT_def BPF_JGE_def BPF_JSET_def
  BPF_K_def BPF_X_def BPF_A_def BPF_TAX_def BPF_TXA_def

text \<open>Every named part is one its reader gives back, and parts read by the same macro differ.\<close>

lemma bpf_parts:
  "list_all (\<lambda>c. BPF_CLASS c = c) [BPF_LD, BPF_LDX, BPF_ST, BPF_STX, BPF_ALU, BPF_JMP, BPF_RET, BPF_MISC]"
  "list_all (\<lambda>c. BPF_SIZE c = c) [BPF_W, BPF_H, BPF_B]"
  "list_all (\<lambda>c. BPF_MODE c = c) [BPF_IMM, BPF_ABS, BPF_IND, BPF_MEM, BPF_LEN, BPF_MSH]"
  "list_all (\<lambda>c. BPF_OP c = c)
    [BPF_ADD, BPF_SUB, BPF_MUL, BPF_DIV, BPF_OR, BPF_AND, BPF_LSH, BPF_RSH, BPF_NEG, BPF_MOD, BPF_XOR]"
  "list_all (\<lambda>c. BPF_OP c = c) [BPF_JA, BPF_JEQ, BPF_JGT, BPF_JGE, BPF_JSET]"
  "list_all (\<lambda>c. BPF_SRC c = c) [BPF_K, BPF_X]" "list_all (\<lambda>c. BPF_RVAL c = c) [BPF_K, BPF_X, BPF_A]"
  "list_all (\<lambda>c. BPF_MISCOP c = c) [BPF_TAX, BPF_TXA]"
  by (simp_all add: BPF_CLASS_def BPF_SIZE_def BPF_MODE_def BPF_OP_def BPF_SRC_def BPF_RVAL_def BPF_MISCOP_def bpf_defs)

lemma bpf_parts_distinct:
  "distinct [BPF_LD, BPF_LDX, BPF_ST, BPF_STX, BPF_ALU, BPF_JMP, BPF_RET, BPF_MISC]" "distinct [BPF_W, BPF_H, BPF_B]"
  "distinct [BPF_IMM, BPF_ABS, BPF_IND, BPF_MEM, BPF_LEN, BPF_MSH]"
  "distinct [BPF_ADD, BPF_SUB, BPF_MUL, BPF_DIV, BPF_OR, BPF_AND, BPF_LSH, BPF_RSH, BPF_NEG, BPF_MOD, BPF_XOR]"
  "distinct [BPF_JA, BPF_JEQ, BPF_JGT, BPF_JGE, BPF_JSET]" "distinct [BPF_K, BPF_X, BPF_A]" "distinct [BPF_TAX, BPF_TXA]"
  by (simp_all add: bpf_defs)

text \<open>A statement never branches: both its offsets are zero, as for a jump to the next instruction.\<close>

lemma statement_is_jump: "BPF_STMT code k = BPF_JUMP code k 0 0"
  by (simp add: BPF_STMT_def BPF_JUMP_def)

text \<open>
  The comment on the record gives the kind bits 24 to 27 and calls 28 to 30 unused, but the reader takes
  bit 28 too, and the last kind needs it.
\<close>

lemma btf_info:
  "BTF_INFO_VLEN info OR push_bit 24 (BTF_INFO_KIND info) OR push_bit 31 (BTF_INFO_KFLAG info) =
   info AND (mask 16 OR push_bit 24 (mask 5) OR push_bit 31 1)"
proof (rule bit_word_eqI)
  fix n assume "n < LENGTH(32)"
  then consider "n < 24" | "24 \<le> n" "n < 31" | "n = 31" by force
  then show "bit (BTF_INFO_VLEN info OR push_bit 24 (BTF_INFO_KIND info) OR push_bit 31 (BTF_INFO_KFLAG info)) n \<longleftrightarrow>
    bit (info AND (mask 16 OR push_bit 24 (mask 5) OR push_bit 31 1)) n"
    unfolding BTF_INFO_VLEN_def BTF_INFO_KIND_def BTF_INFO_KFLAG_def field_masks
    by cases (auto simp: bit_simps one_bits)
qed

lemma btf_kind_needs_unused_bit:
  "BTF_INFO_KIND (push_bit 24 BTF_KIND_FLOAT) = BTF_KIND_FLOAT"
  "drop_bit 24 (push_bit 24 BTF_KIND_FLOAT) AND 0xf = BTF_KIND_UNKN"
  by (simp_all add: BTF_INFO_KIND_def BTF_KIND_FLOAT_def BTF_KIND_UNKN_def)

definition btf_kinds :: "u32 list" where
  "btf_kinds =
    [BTF_KIND_UNKN, BTF_KIND_INT, BTF_KIND_PTR, BTF_KIND_ARRAY, BTF_KIND_STRUCT, BTF_KIND_UNION,
     BTF_KIND_ENUM, BTF_KIND_FWD, BTF_KIND_TYPEDEF, BTF_KIND_VOLATILE, BTF_KIND_CONST,
     BTF_KIND_RESTRICT, BTF_KIND_FUNC, BTF_KIND_FUNC_PROTO, BTF_KIND_VAR, BTF_KIND_DATASEC,
     BTF_KIND_FLOAT]"

lemmas btf_kind_defs =
  BTF_KIND_UNKN_def BTF_KIND_INT_def BTF_KIND_PTR_def BTF_KIND_ARRAY_def BTF_KIND_STRUCT_def
  BTF_KIND_UNION_def BTF_KIND_ENUM_def BTF_KIND_FWD_def BTF_KIND_TYPEDEF_def BTF_KIND_VOLATILE_def
  BTF_KIND_CONST_def BTF_KIND_RESTRICT_def BTF_KIND_FUNC_def BTF_KIND_FUNC_PROTO_def BTF_KIND_VAR_def
  BTF_KIND_DATASEC_def BTF_KIND_FLOAT_def

lemma btf_kinds: "btf_kinds = map of_nat [0..<unat NR_BTF_KINDS]"
  by (simp add: btf_kinds_def NR_BTF_KINDS_def BTF_KIND_MAX_def btf_kind_defs upt_rec)

lemma btf_kinds_read: "list_all (\<lambda>k. BTF_INFO_KIND (push_bit 24 k OR v AND 0xffff) = k) btf_kinds"
proof -
  have "BTF_INFO_KIND (push_bit 24 k OR v AND 0xffff) = k AND mask 5" for k
    unfolding BTF_INFO_KIND_def field_masks by (rule bit_word_eqI) (auto simp: bit_simps)
  moreover have "list_all (\<lambda>k. k AND 0x1f = k) btf_kinds"
    by (simp add: btf_kinds_def btf_kind_defs)
  ultimately show ?thesis by (simp add: field_masks)
qed

lemma btf_integer:
  "BTF_INT_BITS v OR push_bit 16 (BTF_INT_OFFSET v) OR push_bit 24 (BTF_INT_ENCODING v) = v AND 0x0fff00ff"
proof -
  have e: "(0x0fff00ff :: u32) = mask 8 OR push_bit 16 (mask 12)"
    by (simp add: mask_eq_exp_minus_1 push_bit_eq_mult)
  show ?thesis
  proof (rule bit_word_eqI)
    fix n assume "n < LENGTH(32)"
    then show "bit (BTF_INT_BITS v OR push_bit 16 (BTF_INT_OFFSET v) OR push_bit 24 (BTF_INT_ENCODING v)) n \<longleftrightarrow>
      bit (v AND 0x0fff00ff) n"
      unfolding BTF_INT_BITS_def BTF_INT_OFFSET_def BTF_INT_ENCODING_def e field_masks
      by (cases "n < 16"; cases "n < 24") (auto simp: bit_simps)
  qed
qed

lemma btf_member: "BTF_MEMBER_BIT_OFFSET v OR push_bit 24 (BTF_MEMBER_BITFIELD_SIZE v) = v"
proof (rule bit_word_eqI)
  fix n assume "n < LENGTH(32)"
  then show "bit (BTF_MEMBER_BIT_OFFSET v OR push_bit 24 (BTF_MEMBER_BITFIELD_SIZE v)) n \<longleftrightarrow> bit v n"
    unfolding BTF_MEMBER_BIT_OFFSET_def BTF_MEMBER_BITFIELD_SIZE_def field_masks
    by (cases "n < 24") (auto simp: bit_simps)
qed

section \<open>Identifiers, requests and clocks\<close>

text \<open>The first three parts are stored from the low byte up, and can be read back; the rest is copied.\<close>

lemma guid_init:
  fixes a :: u32 and b c :: u16 and d :: "u8 list"
  defines "g \<equiv> GUID_INIT a b c d"
  shows "length g = 8 + length d" and "drop 8 g = d"
    and "ucast (g ! 0) OR push_bit 8 (ucast (g ! 1)) OR push_bit 16 (ucast (g ! 2)) OR push_bit 24 (ucast (g ! 3)) = a"
    and "ucast (g ! 4) OR push_bit 8 (ucast (g ! 5)) = b" and "ucast (g ! 6) OR push_bit 8 (ucast (g ! 7)) = c"
proof -
  have e: "(0xff :: u16) = mask 8" by (simp add: mask_eq_exp_minus_1)
  show "length g = 8 + length d" "drop 8 g = d" by (simp_all add: g_def GUID_INIT_def)
  show "ucast (g ! 0) OR push_bit 8 (ucast (g ! 1)) OR push_bit 16 (ucast (g ! 2)) OR push_bit 24 (ucast (g ! 3)) = a"
  proof (rule bit_word_eqI)
    fix n assume "n < LENGTH(32)"
    then consider "n < 8" | "8 \<le> n" "n < 16" | "16 \<le> n" "n < 24" | "24 \<le> n" "n < 32" by force
    then show "bit (ucast (g ! 0) OR push_bit 8 (ucast (g ! 1)) OR push_bit 16 (ucast (g ! 2)) OR
        push_bit 24 (ucast (g ! 3)) :: u32) n \<longleftrightarrow> bit a n"
      unfolding g_def GUID_INIT_def field_masks by cases (auto simp: bit_simps)
  qed
  have w: "ucast (ucast (x AND mask 8) :: u8) OR push_bit 8 (ucast (ucast (drop_bit 8 x AND mask 8) :: u8)) = x"
    for x :: u16
  proof (rule bit_word_eqI)
    fix n assume "n < LENGTH(16)"
    then show "bit (ucast (ucast (x AND mask 8) :: u8) OR push_bit 8 (ucast (ucast (drop_bit 8 x AND mask 8) :: u8)) :: u16) n
        \<longleftrightarrow> bit x n"
      by (cases "n < 8") (auto simp: bit_simps)
  qed
  show "ucast (g ! 4) OR push_bit 8 (ucast (g ! 5)) = b" "ucast (g ! 6) OR push_bit 8 (ucast (g ! 7)) = c"
    using w [of b] w [of c] by (simp_all add: g_def GUID_INIT_def e)
qed

lemma null_identifier: "NULL_UUID_LE = replicate 16 0"
  by (simp add: NULL_UUID_LE_def UUID_LE_def GUID_INIT_def numeral_eq_Suc)

text \<open>Weights are never asked for in a slice that predicts nothing.\<close>

lemma no_weights_for_intra:
  "\<not> V4L2_H264_CTRL_PRED_WEIGHTS_REQUIRED pps V4L2_H264_SLICE_TYPE_I"
  "\<not> V4L2_H264_CTRL_PRED_WEIGHTS_REQUIRED pps V4L2_H264_SLICE_TYPE_SI"
  by (simp_all add: V4L2_H264_CTRL_PRED_WEIGHTS_REQUIRED_def V4L2_H264_SLICE_TYPE_P_def V4L2_H264_SLICE_TYPE_B_def
    V4L2_H264_SLICE_TYPE_I_def V4L2_H264_SLICE_TYPE_SP_def V4L2_H264_SLICE_TYPE_SI_def)

lemma key_frame: "V4L2_VP8_FRAME_IS_KEY_FRAME flags \<longleftrightarrow> odd flags"
  by (simp add: V4L2_VP8_FRAME_IS_KEY_FRAME_def V4L2_VP8_FRAME_FLAG_KEY_FRAME_def and_one_eq odd_iff_mod_2_eq_one)

text \<open>Every request has its own code, and the service can be read from it.\<close>

definition crypto_requests :: "(u32 \<times> u32) list" where
  "crypto_requests =
    [(VIRTIO_CRYPTO_CIPHER_CREATE_SESSION, VIRTIO_CRYPTO_SERVICE_CIPHER),
     (VIRTIO_CRYPTO_CIPHER_DESTROY_SESSION, VIRTIO_CRYPTO_SERVICE_CIPHER),
     (VIRTIO_CRYPTO_HASH_CREATE_SESSION, VIRTIO_CRYPTO_SERVICE_HASH),
     (VIRTIO_CRYPTO_HASH_DESTROY_SESSION, VIRTIO_CRYPTO_SERVICE_HASH),
     (VIRTIO_CRYPTO_MAC_CREATE_SESSION, VIRTIO_CRYPTO_SERVICE_MAC),
     (VIRTIO_CRYPTO_MAC_DESTROY_SESSION, VIRTIO_CRYPTO_SERVICE_MAC),
     (VIRTIO_CRYPTO_AEAD_CREATE_SESSION, VIRTIO_CRYPTO_SERVICE_AEAD),
     (VIRTIO_CRYPTO_AEAD_DESTROY_SESSION, VIRTIO_CRYPTO_SERVICE_AEAD),
     (VIRTIO_CRYPTO_CIPHER_ENCRYPT, VIRTIO_CRYPTO_SERVICE_CIPHER),
     (VIRTIO_CRYPTO_CIPHER_DECRYPT, VIRTIO_CRYPTO_SERVICE_CIPHER),
     (VIRTIO_CRYPTO_HASH, VIRTIO_CRYPTO_SERVICE_HASH), (VIRTIO_CRYPTO_MAC, VIRTIO_CRYPTO_SERVICE_MAC),
     (VIRTIO_CRYPTO_AEAD_ENCRYPT, VIRTIO_CRYPTO_SERVICE_AEAD),
     (VIRTIO_CRYPTO_AEAD_DECRYPT, VIRTIO_CRYPTO_SERVICE_AEAD)]"

lemma crypto_requests:
  "distinct (map fst crypto_requests)" "list_all (\<lambda>(code, service). drop_bit 8 code = service) crypto_requests"
  by (simp_all add: crypto_requests_def VIRTIO_CRYPTO_OPCODE_def VIRTIO_CRYPTO_SERVICE_CIPHER_def
    VIRTIO_CRYPTO_SERVICE_HASH_def VIRTIO_CRYPTO_SERVICE_MAC_def VIRTIO_CRYPTO_SERVICE_AEAD_def
    VIRTIO_CRYPTO_CIPHER_CREATE_SESSION_def VIRTIO_CRYPTO_CIPHER_DESTROY_SESSION_def
    VIRTIO_CRYPTO_HASH_CREATE_SESSION_def VIRTIO_CRYPTO_HASH_DESTROY_SESSION_def
    VIRTIO_CRYPTO_MAC_CREATE_SESSION_def VIRTIO_CRYPTO_MAC_DESTROY_SESSION_def
    VIRTIO_CRYPTO_AEAD_CREATE_SESSION_def VIRTIO_CRYPTO_AEAD_DESTROY_SESSION_def
    VIRTIO_CRYPTO_CIPHER_ENCRYPT_def VIRTIO_CRYPTO_CIPHER_DECRYPT_def VIRTIO_CRYPTO_HASH_def
    VIRTIO_CRYPTO_MAC_def VIRTIO_CRYPTO_AEAD_ENCRYPT_def VIRTIO_CRYPTO_AEAD_DECRYPT_def)

text \<open>
  A period turned to a frequency and back is never shorter than it was, and a frequency never lower.
  A period of zero, where the macro divides by zero, is outside the statement.
\<close>

lemma clock_back:
  assumes "0 < a" "a \<le> 1000000000"
  shows "a \<le> KHZ2PICOS (PICOS2KHZ a)" and "a \<le> PICOS2KHZ (KHZ2PICOS a)"
proof -
  have n: "a' \<le> N div (N div a')" if "0 < a'" "a' \<le> N" for a' N :: nat
  proof -
    have "0 < N div a'" using that by (simp add: div_greater_zero_iff)
    moreover have "a' * (N div a') \<le> N" by simp
    ultimately show ?thesis by (simp add: less_eq_div_iff_mult_less_eq)
  qed
  have "unat a \<le> 1000000000 div (1000000000 div unat a)"
    using assms by (intro n) (simp_all add: word_le_nat_alt word_less_nat_alt)
  then have "a \<le> 1000000000 div (1000000000 div a)" by (simp add: word_le_nat_alt unat_div)
  then show "a \<le> KHZ2PICOS (PICOS2KHZ a)" "a \<le> PICOS2KHZ (KHZ2PICOS a)"
    by (simp_all add: KHZ2PICOS_def PICOS2KHZ_def)
qed

end
