(* ===== verification/Descriptor_Layout.thy ===== *)
theory Descriptor_Layout
  imports Usb_Descriptor
begin

text \<open>
  The packed descriptors of USB devices (\<^verbatim>\<open>linux/usb/ch9.h\<close>, \<^verbatim>\<open>audio.h\<close>, \<^verbatim>\<open>video.h\<close>,
  \<^verbatim>\<open>midi.h\<close>, \<^verbatim>\<open>cdc.h\<close>): every structure that starts with its length, as the list of its members'
  names and widths in bytes, the structures the \<^verbatim>\<open>DECLARE_\<close> macros make for a number of elements, and the
  sizes the headers give for them.  A trailing array without a size takes no space.
\<close>

section \<open>Packed structures\<close>

type_synonym members = "(string \<times> nat) list"

definition sizeof_members :: "members \<Rightarrow> nat" where "sizeof_members s = sum_list (map snd s)"

fun offset_of :: "string \<Rightarrow> members \<Rightarrow> nat option" where
  "offset_of m [] = None"
| "offset_of m ((n, w) # s) = (if n = m then Some 0 else map_option ((+) w) (offset_of m s))"

section \<open>Video devices\<close>

definition uvc_descriptor_header :: "members" where
  "uvc_descriptor_header =
    [(''bLength'', 1), (''bDescriptorType'', 1), (''bDescriptorSubType'', 1)]"

definition uvc_header_descriptor :: "members" where
  "uvc_header_descriptor =
    [(''bLength'', 1), (''bDescriptorType'', 1), (''bDescriptorSubType'', 1), (''bcdUVC'', 2),
     (''wTotalLength'', 2), (''dwClockFrequency'', 4), (''bInCollection'', 1)]"

definition UVC_DT_HEADER_SIZE :: "nat \<Rightarrow> nat" where "UVC_DT_HEADER_SIZE n = 12 + n"

definition DECLARE_UVC_HEADER_DESCRIPTOR :: "nat \<Rightarrow> members" where
  "DECLARE_UVC_HEADER_DESCRIPTOR n =
    [(''bLength'', 1), (''bDescriptorType'', 1), (''bDescriptorSubType'', 1), (''bcdUVC'', 2),
     (''wTotalLength'', 2), (''dwClockFrequency'', 4), (''bInCollection'', 1), (''baInterfaceNr'', n)]"

definition uvc_input_terminal_descriptor :: "members" where
  "uvc_input_terminal_descriptor =
    [(''bLength'', 1), (''bDescriptorType'', 1), (''bDescriptorSubType'', 1), (''bTerminalID'', 1),
     (''wTerminalType'', 2), (''bAssocTerminal'', 1), (''iTerminal'', 1)]"

definition UVC_DT_INPUT_TERMINAL_SIZE :: "nat" where "UVC_DT_INPUT_TERMINAL_SIZE = 8"

definition uvc_output_terminal_descriptor :: "members" where
  "uvc_output_terminal_descriptor =
    [(''bLength'', 1), (''bDescriptorType'', 1), (''bDescriptorSubType'', 1), (''bTerminalID'', 1),
     (''wTerminalType'', 2), (''bAssocTerminal'', 1), (''bSourceID'', 1), (''iTerminal'', 1)]"

definition UVC_DT_OUTPUT_TERMINAL_SIZE :: "nat" where "UVC_DT_OUTPUT_TERMINAL_SIZE = 9"

definition uvc_camera_terminal_descriptor :: "members" where
  "uvc_camera_terminal_descriptor =
    [(''bLength'', 1), (''bDescriptorType'', 1), (''bDescriptorSubType'', 1), (''bTerminalID'', 1),
     (''wTerminalType'', 2), (''bAssocTerminal'', 1), (''iTerminal'', 1),
     (''wObjectiveFocalLengthMin'', 2), (''wObjectiveFocalLengthMax'', 2), (''wOcularFocalLength'', 2),
     (''bControlSize'', 1), (''bmControls'', 3)]"

definition UVC_DT_CAMERA_TERMINAL_SIZE :: "nat \<Rightarrow> nat" where "UVC_DT_CAMERA_TERMINAL_SIZE n = 15 + n"

definition uvc_selector_unit_descriptor :: "members" where
  "uvc_selector_unit_descriptor =
    [(''bLength'', 1), (''bDescriptorType'', 1), (''bDescriptorSubType'', 1), (''bUnitID'', 1),
     (''bNrInPins'', 1), (''baSourceID'', 0), (''iSelector'', 1)]"

definition UVC_DT_SELECTOR_UNIT_SIZE :: "nat \<Rightarrow> nat" where "UVC_DT_SELECTOR_UNIT_SIZE n = 6 + n"

definition DECLARE_UVC_SELECTOR_UNIT_DESCRIPTOR :: "nat \<Rightarrow> members" where
  "DECLARE_UVC_SELECTOR_UNIT_DESCRIPTOR n =
    [(''bLength'', 1), (''bDescriptorType'', 1), (''bDescriptorSubType'', 1), (''bUnitID'', 1),
     (''bNrInPins'', 1), (''baSourceID'', n), (''iSelector'', 1)]"

definition uvc_processing_unit_descriptor :: "members" where
  "uvc_processing_unit_descriptor =
    [(''bLength'', 1), (''bDescriptorType'', 1), (''bDescriptorSubType'', 1), (''bUnitID'', 1),
     (''bSourceID'', 1), (''wMaxMultiplier'', 2), (''bControlSize'', 1), (''bmControls'', 2),
     (''iProcessing'', 1), (''bmVideoStandards'', 1)]"

definition UVC_DT_PROCESSING_UNIT_SIZE :: "nat \<Rightarrow> nat" where "UVC_DT_PROCESSING_UNIT_SIZE n = 10 + n"

definition uvc_extension_unit_descriptor :: "members" where
  "uvc_extension_unit_descriptor =
    [(''bLength'', 1), (''bDescriptorType'', 1), (''bDescriptorSubType'', 1), (''bUnitID'', 1),
     (''guidExtensionCode'', 16), (''bNumControls'', 1), (''bNrInPins'', 1), (''baSourceID'', 0),
     (''bControlSize'', 1), (''bmControls'', 0), (''iExtension'', 1)]"

definition UVC_DT_EXTENSION_UNIT_SIZE :: "nat \<Rightarrow> nat \<Rightarrow> nat" where "UVC_DT_EXTENSION_UNIT_SIZE p n = 24 + p + n"

definition DECLARE_UVC_EXTENSION_UNIT_DESCRIPTOR :: "nat \<Rightarrow> nat \<Rightarrow> members" where
  "DECLARE_UVC_EXTENSION_UNIT_DESCRIPTOR p n =
    [(''bLength'', 1), (''bDescriptorType'', 1), (''bDescriptorSubType'', 1), (''bUnitID'', 1),
     (''guidExtensionCode'', 16), (''bNumControls'', 1), (''bNrInPins'', 1), (''baSourceID'', p),
     (''bControlSize'', 1), (''bmControls'', n), (''iExtension'', 1)]"

definition uvc_control_endpoint_descriptor :: "members" where
  "uvc_control_endpoint_descriptor =
    [(''bLength'', 1), (''bDescriptorType'', 1), (''bDescriptorSubType'', 1), (''wMaxTransferSize'', 2)]"

definition UVC_DT_CONTROL_ENDPOINT_SIZE :: "nat" where "UVC_DT_CONTROL_ENDPOINT_SIZE = 5"

definition uvc_input_header_descriptor :: "members" where
  "uvc_input_header_descriptor =
    [(''bLength'', 1), (''bDescriptorType'', 1), (''bDescriptorSubType'', 1), (''bNumFormats'', 1),
     (''wTotalLength'', 2), (''bEndpointAddress'', 1), (''bmInfo'', 1), (''bTerminalLink'', 1),
     (''bStillCaptureMethod'', 1), (''bTriggerSupport'', 1), (''bTriggerUsage'', 1), (''bControlSize'', 1)]"

definition UVC_DT_INPUT_HEADER_SIZE :: "nat \<Rightarrow> nat \<Rightarrow> nat" where "UVC_DT_INPUT_HEADER_SIZE n p = 13 + n * p"

definition DECLARE_UVC_INPUT_HEADER_DESCRIPTOR :: "nat \<Rightarrow> nat \<Rightarrow> members" where
  "DECLARE_UVC_INPUT_HEADER_DESCRIPTOR n p =
    [(''bLength'', 1), (''bDescriptorType'', 1), (''bDescriptorSubType'', 1), (''bNumFormats'', 1),
     (''wTotalLength'', 2), (''bEndpointAddress'', 1), (''bmInfo'', 1), (''bTerminalLink'', 1),
     (''bStillCaptureMethod'', 1), (''bTriggerSupport'', 1), (''bTriggerUsage'', 1), (''bControlSize'', 1),
     (''bmaControls'', p * n)]"

definition uvc_output_header_descriptor :: "members" where
  "uvc_output_header_descriptor =
    [(''bLength'', 1), (''bDescriptorType'', 1), (''bDescriptorSubType'', 1), (''bNumFormats'', 1),
     (''wTotalLength'', 2), (''bEndpointAddress'', 1), (''bTerminalLink'', 1), (''bControlSize'', 1)]"

definition UVC_DT_OUTPUT_HEADER_SIZE :: "nat \<Rightarrow> nat \<Rightarrow> nat" where "UVC_DT_OUTPUT_HEADER_SIZE n p = 9 + n * p"

definition DECLARE_UVC_OUTPUT_HEADER_DESCRIPTOR :: "nat \<Rightarrow> nat \<Rightarrow> members" where
  "DECLARE_UVC_OUTPUT_HEADER_DESCRIPTOR n p =
    [(''bLength'', 1), (''bDescriptorType'', 1), (''bDescriptorSubType'', 1), (''bNumFormats'', 1),
     (''wTotalLength'', 2), (''bEndpointAddress'', 1), (''bTerminalLink'', 1), (''bControlSize'', 1),
     (''bmaControls'', p * n)]"

definition uvc_color_matching_descriptor :: "members" where
  "uvc_color_matching_descriptor =
    [(''bLength'', 1), (''bDescriptorType'', 1), (''bDescriptorSubType'', 1), (''bColorPrimaries'', 1),
     (''bTransferCharacteristics'', 1), (''bMatrixCoefficients'', 1)]"

definition UVC_DT_COLOR_MATCHING_SIZE :: "nat" where "UVC_DT_COLOR_MATCHING_SIZE = 6"

definition uvc_format_uncompressed :: "members" where
  "uvc_format_uncompressed =
    [(''bLength'', 1), (''bDescriptorType'', 1), (''bDescriptorSubType'', 1), (''bFormatIndex'', 1),
     (''bNumFrameDescriptors'', 1), (''guidFormat'', 16), (''bBitsPerPixel'', 1),
     (''bDefaultFrameIndex'', 1), (''bAspectRatioX'', 1), (''bAspectRatioY'', 1),
     (''bmInterfaceFlags'', 1), (''bCopyProtect'', 1)]"

definition UVC_DT_FORMAT_UNCOMPRESSED_SIZE :: "nat" where "UVC_DT_FORMAT_UNCOMPRESSED_SIZE = 27"

definition uvc_frame_uncompressed :: "members" where
  "uvc_frame_uncompressed =
    [(''bLength'', 1), (''bDescriptorType'', 1), (''bDescriptorSubType'', 1), (''bFrameIndex'', 1),
     (''bmCapabilities'', 1), (''wWidth'', 2), (''wHeight'', 2), (''dwMinBitRate'', 4),
     (''dwMaxBitRate'', 4), (''dwMaxVideoFrameBufferSize'', 4), (''dwDefaultFrameInterval'', 4),
     (''bFrameIntervalType'', 1)]"

definition UVC_DT_FRAME_UNCOMPRESSED_SIZE :: "nat \<Rightarrow> nat" where "UVC_DT_FRAME_UNCOMPRESSED_SIZE n = 26 + 4 * n"

definition DECLARE_UVC_FRAME_UNCOMPRESSED :: "nat \<Rightarrow> members" where
  "DECLARE_UVC_FRAME_UNCOMPRESSED n =
    [(''bLength'', 1), (''bDescriptorType'', 1), (''bDescriptorSubType'', 1), (''bFrameIndex'', 1),
     (''bmCapabilities'', 1), (''wWidth'', 2), (''wHeight'', 2), (''dwMinBitRate'', 4),
     (''dwMaxBitRate'', 4), (''dwMaxVideoFrameBufferSize'', 4), (''dwDefaultFrameInterval'', 4),
     (''bFrameIntervalType'', 1), (''dwFrameInterval'', 4 * n)]"

definition uvc_format_mjpeg :: "members" where
  "uvc_format_mjpeg =
    [(''bLength'', 1), (''bDescriptorType'', 1), (''bDescriptorSubType'', 1), (''bFormatIndex'', 1),
     (''bNumFrameDescriptors'', 1), (''bmFlags'', 1), (''bDefaultFrameIndex'', 1), (''bAspectRatioX'', 1),
     (''bAspectRatioY'', 1), (''bmInterfaceFlags'', 1), (''bCopyProtect'', 1)]"

definition UVC_DT_FORMAT_MJPEG_SIZE :: "nat" where "UVC_DT_FORMAT_MJPEG_SIZE = 11"

definition uvc_frame_mjpeg :: "members" where
  "uvc_frame_mjpeg =
    [(''bLength'', 1), (''bDescriptorType'', 1), (''bDescriptorSubType'', 1), (''bFrameIndex'', 1),
     (''bmCapabilities'', 1), (''wWidth'', 2), (''wHeight'', 2), (''dwMinBitRate'', 4),
     (''dwMaxBitRate'', 4), (''dwMaxVideoFrameBufferSize'', 4), (''dwDefaultFrameInterval'', 4),
     (''bFrameIntervalType'', 1)]"

definition UVC_DT_FRAME_MJPEG_SIZE :: "nat \<Rightarrow> nat" where "UVC_DT_FRAME_MJPEG_SIZE n = 26 + 4 * n"

definition DECLARE_UVC_FRAME_MJPEG :: "nat \<Rightarrow> members" where
  "DECLARE_UVC_FRAME_MJPEG n =
    [(''bLength'', 1), (''bDescriptorType'', 1), (''bDescriptorSubType'', 1), (''bFrameIndex'', 1),
     (''bmCapabilities'', 1), (''wWidth'', 2), (''wHeight'', 2), (''dwMinBitRate'', 4),
     (''dwMaxBitRate'', 4), (''dwMaxVideoFrameBufferSize'', 4), (''dwDefaultFrameInterval'', 4),
     (''bFrameIntervalType'', 1), (''dwFrameInterval'', 4 * n)]"

section \<open>Music devices\<close>

definition usb_ms_header_descriptor :: "members" where
  "usb_ms_header_descriptor =
    [(''bLength'', 1), (''bDescriptorType'', 1), (''bDescriptorSubtype'', 1), (''bcdMSC'', 2),
     (''wTotalLength'', 2)]"

definition USB_DT_MS_HEADER_SIZE :: "nat" where "USB_DT_MS_HEADER_SIZE = 7"

definition usb_midi_in_jack_descriptor :: "members" where
  "usb_midi_in_jack_descriptor =
    [(''bLength'', 1), (''bDescriptorType'', 1), (''bDescriptorSubtype'', 1), (''bJackType'', 1),
     (''bJackID'', 1), (''iJack'', 1)]"

definition USB_DT_MIDI_IN_SIZE :: "nat" where "USB_DT_MIDI_IN_SIZE = 6"

definition usb_midi_source_pin :: "members" where
  "usb_midi_source_pin =
    [(''baSourceID'', 1), (''baSourcePin'', 1)]"

definition usb_midi_out_jack_descriptor :: "members" where
  "usb_midi_out_jack_descriptor =
    [(''bLength'', 1), (''bDescriptorType'', 1), (''bDescriptorSubtype'', 1), (''bJackType'', 1),
     (''bJackID'', 1), (''bNrInputPins'', 1)]"

definition USB_DT_MIDI_OUT_SIZE :: "nat \<Rightarrow> nat" where "USB_DT_MIDI_OUT_SIZE p = 7 + 2 * p"

definition DECLARE_USB_MIDI_OUT_JACK_DESCRIPTOR :: "nat \<Rightarrow> members" where
  "DECLARE_USB_MIDI_OUT_JACK_DESCRIPTOR p =
    [(''bLength'', 1), (''bDescriptorType'', 1), (''bDescriptorSubtype'', 1), (''bJackType'', 1),
     (''bJackID'', 1), (''bNrInputPins'', 1), (''pins'', 2 * p), (''iJack'', 1)]"

definition usb_ms_endpoint_descriptor :: "members" where
  "usb_ms_endpoint_descriptor =
    [(''bLength'', 1), (''bDescriptorType'', 1), (''bDescriptorSubtype'', 1), (''bNumEmbMIDIJack'', 1)]"

definition USB_DT_MS_ENDPOINT_SIZE :: "nat \<Rightarrow> nat" where "USB_DT_MS_ENDPOINT_SIZE n = 4 + n"

definition DECLARE_USB_MS_ENDPOINT_DESCRIPTOR :: "nat \<Rightarrow> members" where
  "DECLARE_USB_MS_ENDPOINT_DESCRIPTOR n =
    [(''bLength'', 1), (''bDescriptorType'', 1), (''bDescriptorSubtype'', 1), (''bNumEmbMIDIJack'', 1),
     (''baAssocJackID'', n)]"

section \<open>Devices, configurations and capabilities\<close>

definition usb_descriptor_header :: "members" where
  "usb_descriptor_header =
    [(''bLength'', 1), (''bDescriptorType'', 1)]"

definition usb_device_descriptor :: "members" where
  "usb_device_descriptor =
    [(''bLength'', 1), (''bDescriptorType'', 1), (''bcdUSB'', 2), (''bDeviceClass'', 1),
     (''bDeviceSubClass'', 1), (''bDeviceProtocol'', 1), (''bMaxPacketSize0'', 1), (''idVendor'', 2),
     (''idProduct'', 2), (''bcdDevice'', 2), (''iManufacturer'', 1), (''iProduct'', 1),
     (''iSerialNumber'', 1), (''bNumConfigurations'', 1)]"

definition USB_DT_DEVICE_SIZE :: "nat" where "USB_DT_DEVICE_SIZE = 18"

definition usb_config_descriptor :: "members" where
  "usb_config_descriptor =
    [(''bLength'', 1), (''bDescriptorType'', 1), (''wTotalLength'', 2), (''bNumInterfaces'', 1),
     (''bConfigurationValue'', 1), (''iConfiguration'', 1), (''bmAttributes'', 1), (''bMaxPower'', 1)]"

definition USB_DT_CONFIG_SIZE :: "nat" where "USB_DT_CONFIG_SIZE = 9"

definition usb_string_descriptor :: "members" where
  "usb_string_descriptor =
    [(''bLength'', 1), (''bDescriptorType'', 1), (''wData'', 2)]"

definition usb_interface_descriptor :: "members" where
  "usb_interface_descriptor =
    [(''bLength'', 1), (''bDescriptorType'', 1), (''bInterfaceNumber'', 1), (''bAlternateSetting'', 1),
     (''bNumEndpoints'', 1), (''bInterfaceClass'', 1), (''bInterfaceSubClass'', 1),
     (''bInterfaceProtocol'', 1), (''iInterface'', 1)]"

definition USB_DT_INTERFACE_SIZE :: "nat" where "USB_DT_INTERFACE_SIZE = 9"

definition usb_endpoint_descriptor_members :: "members" where
  "usb_endpoint_descriptor_members =
    [(''bLength'', 1), (''bDescriptorType'', 1), (''bEndpointAddress'', 1), (''bmAttributes'', 1),
     (''wMaxPacketSize'', 2), (''bInterval'', 1), (''bRefresh'', 1), (''bSynchAddress'', 1)]"

definition USB_DT_ENDPOINT_SIZE :: "nat" where "USB_DT_ENDPOINT_SIZE = 7"

definition USB_DT_ENDPOINT_AUDIO_SIZE :: "nat" where "USB_DT_ENDPOINT_AUDIO_SIZE = 9"

definition usb_ssp_isoc_ep_comp_descriptor :: "members" where
  "usb_ssp_isoc_ep_comp_descriptor =
    [(''bLength'', 1), (''bDescriptorType'', 1), (''wReseved'', 2), (''dwBytesPerInterval'', 4)]"

definition USB_DT_SSP_ISOC_EP_COMP_SIZE :: "nat" where "USB_DT_SSP_ISOC_EP_COMP_SIZE = 8"

definition usb_ss_ep_comp_descriptor :: "members" where
  "usb_ss_ep_comp_descriptor =
    [(''bLength'', 1), (''bDescriptorType'', 1), (''bMaxBurst'', 1), (''bmAttributes'', 1),
     (''wBytesPerInterval'', 2)]"

definition USB_DT_SS_EP_COMP_SIZE :: "nat" where "USB_DT_SS_EP_COMP_SIZE = 6"

definition usb_qualifier_descriptor :: "members" where
  "usb_qualifier_descriptor =
    [(''bLength'', 1), (''bDescriptorType'', 1), (''bcdUSB'', 2), (''bDeviceClass'', 1),
     (''bDeviceSubClass'', 1), (''bDeviceProtocol'', 1), (''bMaxPacketSize0'', 1),
     (''bNumConfigurations'', 1), (''bRESERVED'', 1)]"

definition usb_otg_descriptor :: "members" where
  "usb_otg_descriptor =
    [(''bLength'', 1), (''bDescriptorType'', 1), (''bmAttributes'', 1)]"

definition usb_otg20_descriptor :: "members" where
  "usb_otg20_descriptor =
    [(''bLength'', 1), (''bDescriptorType'', 1), (''bmAttributes'', 1), (''bcdOTG'', 2)]"

definition usb_debug_descriptor :: "members" where
  "usb_debug_descriptor =
    [(''bLength'', 1), (''bDescriptorType'', 1), (''bDebugInEndpoint'', 1), (''bDebugOutEndpoint'', 1)]"

definition usb_interface_assoc_descriptor :: "members" where
  "usb_interface_assoc_descriptor =
    [(''bLength'', 1), (''bDescriptorType'', 1), (''bFirstInterface'', 1), (''bInterfaceCount'', 1),
     (''bFunctionClass'', 1), (''bFunctionSubClass'', 1), (''bFunctionProtocol'', 1), (''iFunction'', 1)]"

definition USB_DT_INTERFACE_ASSOCIATION_SIZE :: "nat" where "USB_DT_INTERFACE_ASSOCIATION_SIZE = 8"

definition usb_security_descriptor :: "members" where
  "usb_security_descriptor =
    [(''bLength'', 1), (''bDescriptorType'', 1), (''wTotalLength'', 2), (''bNumEncryptionTypes'', 1)]"

definition usb_key_descriptor :: "members" where
  "usb_key_descriptor =
    [(''bLength'', 1), (''bDescriptorType'', 1), (''tTKID'', 3), (''bReserved'', 1), (''bKeyData'', 0)]"

definition usb_encryption_descriptor :: "members" where
  "usb_encryption_descriptor =
    [(''bLength'', 1), (''bDescriptorType'', 1), (''bEncryptionType'', 1), (''bEncryptionValue'', 1),
     (''bAuthKeyIndex'', 1)]"

definition usb_bos_descriptor :: "members" where
  "usb_bos_descriptor =
    [(''bLength'', 1), (''bDescriptorType'', 1), (''wTotalLength'', 2), (''bNumDeviceCaps'', 1)]"

definition USB_DT_BOS_SIZE :: "nat" where "USB_DT_BOS_SIZE = 5"

definition usb_dev_cap_header :: "members" where
  "usb_dev_cap_header =
    [(''bLength'', 1), (''bDescriptorType'', 1), (''bDevCapabilityType'', 1)]"

definition usb_wireless_cap_descriptor :: "members" where
  "usb_wireless_cap_descriptor =
    [(''bLength'', 1), (''bDescriptorType'', 1), (''bDevCapabilityType'', 1), (''bmAttributes'', 1),
     (''wPHYRates'', 2), (''bmTFITXPowerInfo'', 1), (''bmFFITXPowerInfo'', 1), (''bmBandGroup'', 2),
     (''bReserved'', 1)]"

definition USB_DT_USB_WIRELESS_CAP_SIZE :: "nat" where "USB_DT_USB_WIRELESS_CAP_SIZE = 11"

definition usb_ext_cap_descriptor :: "members" where
  "usb_ext_cap_descriptor =
    [(''bLength'', 1), (''bDescriptorType'', 1), (''bDevCapabilityType'', 1), (''bmAttributes'', 4)]"

definition USB_DT_USB_EXT_CAP_SIZE :: "nat" where "USB_DT_USB_EXT_CAP_SIZE = 7"

definition usb_ss_cap_descriptor :: "members" where
  "usb_ss_cap_descriptor =
    [(''bLength'', 1), (''bDescriptorType'', 1), (''bDevCapabilityType'', 1), (''bmAttributes'', 1),
     (''wSpeedSupported'', 2), (''bFunctionalitySupport'', 1), (''bU1devExitLat'', 1),
     (''bU2DevExitLat'', 2)]"

definition USB_DT_USB_SS_CAP_SIZE :: "nat" where "USB_DT_USB_SS_CAP_SIZE = 10"

definition usb_ss_container_id_descriptor :: "members" where
  "usb_ss_container_id_descriptor =
    [(''bLength'', 1), (''bDescriptorType'', 1), (''bDevCapabilityType'', 1), (''bReserved'', 1),
     (''ContainerID'', 16)]"

definition USB_DT_USB_SS_CONTN_ID_SIZE :: "nat" where "USB_DT_USB_SS_CONTN_ID_SIZE = 20"

definition usb_ssp_cap_descriptor :: "members" where
  "usb_ssp_cap_descriptor =
    [(''bLength'', 1), (''bDescriptorType'', 1), (''bDevCapabilityType'', 1), (''bReserved'', 1),
     (''bmAttributes'', 4), (''wFunctionalitySupport'', 2), (''wReserved'', 2), (''bmSublinkSpeedAttr'', 4)]"

definition usb_pd_cap_descriptor :: "members" where
  "usb_pd_cap_descriptor =
    [(''bLength'', 1), (''bDescriptorType'', 1), (''bDevCapabilityType'', 1), (''bReserved'', 1),
     (''bmAttributes'', 4), (''bmProviderPorts'', 2), (''bmConsumerPorts'', 2), (''bcdBCVersion'', 2),
     (''bcdPDVersion'', 2), (''bcdUSBTypeCVersion'', 2)]"

definition usb_pd_cap_battery_info_descriptor :: "members" where
  "usb_pd_cap_battery_info_descriptor =
    [(''bLength'', 1), (''bDescriptorType'', 1), (''bDevCapabilityType'', 1), (''iBattery'', 1),
     (''iSerial'', 1), (''iManufacturer'', 1), (''bBatteryId'', 1), (''bReserved'', 1),
     (''dwChargedThreshold'', 4), (''dwWeakThreshold'', 4), (''dwBatteryDesignCapacity'', 4),
     (''dwBatteryLastFullchargeCapacity'', 4)]"

definition usb_pd_cap_consumer_port_descriptor :: "members" where
  "usb_pd_cap_consumer_port_descriptor =
    [(''bLength'', 1), (''bDescriptorType'', 1), (''bDevCapabilityType'', 1), (''bReserved'', 1),
     (''bmCapabilities'', 1), (''wMinVoltage'', 2), (''wMaxVoltage'', 2), (''wReserved'', 2),
     (''dwMaxOperatingPower'', 4), (''dwMaxPeakPower'', 4), (''dwMaxPeakPowerTime'', 4)]"

definition usb_pd_cap_provider_port_descriptor :: "members" where
  "usb_pd_cap_provider_port_descriptor =
    [(''bLength'', 1), (''bDescriptorType'', 1), (''bDevCapabilityType'', 1), (''bReserved1'', 1),
     (''bmCapabilities'', 1), (''bNumOfPDObjects'', 1), (''bReserved2'', 1)]"

definition usb_ptm_cap_descriptor :: "members" where
  "usb_ptm_cap_descriptor =
    [(''bLength'', 1), (''bDescriptorType'', 1), (''bDevCapabilityType'', 1)]"

definition USB_DT_USB_PTM_ID_SIZE :: "nat" where "USB_DT_USB_PTM_ID_SIZE = 3"

definition USB_DT_USB_SSP_CAP_SIZE :: "nat \<Rightarrow> nat" where "USB_DT_USB_SSP_CAP_SIZE ssac = 12 + (ssac + 1) * 4"

definition usb_wireless_ep_comp_descriptor :: "members" where
  "usb_wireless_ep_comp_descriptor =
    [(''bLength'', 1), (''bDescriptorType'', 1), (''bMaxBurst'', 1), (''bMaxSequence'', 1),
     (''wMaxStreamDelay'', 2), (''wOverTheAirPacketSize'', 2), (''bOverTheAirInterval'', 1),
     (''bmCompAttributes'', 1)]"

section \<open>Sound devices\<close>

definition uac1_ac_header_descriptor :: "members" where
  "uac1_ac_header_descriptor =
    [(''bLength'', 1), (''bDescriptorType'', 1), (''bDescriptorSubtype'', 1), (''bcdADC'', 2),
     (''wTotalLength'', 2), (''bInCollection'', 1)]"

definition DECLARE_UAC_AC_HEADER_DESCRIPTOR :: "nat \<Rightarrow> members" where
  "DECLARE_UAC_AC_HEADER_DESCRIPTOR n =
    [(''bLength'', 1), (''bDescriptorType'', 1), (''bDescriptorSubtype'', 1), (''bcdADC'', 2),
     (''wTotalLength'', 2), (''bInCollection'', 1), (''baInterfaceNr'', n)]"

definition uac_input_terminal_descriptor :: "members" where
  "uac_input_terminal_descriptor =
    [(''bLength'', 1), (''bDescriptorType'', 1), (''bDescriptorSubtype'', 1), (''bTerminalID'', 1),
     (''wTerminalType'', 2), (''bAssocTerminal'', 1), (''bNrChannels'', 1), (''wChannelConfig'', 2),
     (''iChannelNames'', 1), (''iTerminal'', 1)]"

definition UAC_DT_INPUT_TERMINAL_SIZE :: "nat" where "UAC_DT_INPUT_TERMINAL_SIZE = 12"

definition uac1_output_terminal_descriptor :: "members" where
  "uac1_output_terminal_descriptor =
    [(''bLength'', 1), (''bDescriptorType'', 1), (''bDescriptorSubtype'', 1), (''bTerminalID'', 1),
     (''wTerminalType'', 2), (''bAssocTerminal'', 1), (''bSourceID'', 1), (''iTerminal'', 1)]"

definition UAC_DT_OUTPUT_TERMINAL_SIZE :: "nat" where "UAC_DT_OUTPUT_TERMINAL_SIZE = 9"

definition DECLARE_UAC_FEATURE_UNIT_DESCRIPTOR :: "nat \<Rightarrow> members" where
  "DECLARE_UAC_FEATURE_UNIT_DESCRIPTOR ch =
    [(''bLength'', 1), (''bDescriptorType'', 1), (''bDescriptorSubtype'', 1), (''bUnitID'', 1),
     (''bSourceID'', 1), (''bControlSize'', 1), (''bmaControls'', 2 * (ch + 1)), (''iFeature'', 1)]"

definition uac_mixer_unit_descriptor :: "members" where
  "uac_mixer_unit_descriptor =
    [(''bLength'', 1), (''bDescriptorType'', 1), (''bDescriptorSubtype'', 1), (''bUnitID'', 1),
     (''bNrInPins'', 1)]"

definition uac_selector_unit_descriptor :: "members" where
  "uac_selector_unit_descriptor =
    [(''bLength'', 1), (''bDescriptorType'', 1), (''bDescriptorSubtype'', 1), (''bUintID'', 1),
     (''bNrInPins'', 1)]"

definition uac_feature_unit_descriptor :: "members" where
  "uac_feature_unit_descriptor =
    [(''bLength'', 1), (''bDescriptorType'', 1), (''bDescriptorSubtype'', 1), (''bUnitID'', 1),
     (''bSourceID'', 1), (''bControlSize'', 1), (''bmaControls'', 0)]"

definition uac_processing_unit_descriptor :: "members" where
  "uac_processing_unit_descriptor =
    [(''bLength'', 1), (''bDescriptorType'', 1), (''bDescriptorSubtype'', 1), (''bUnitID'', 1),
     (''wProcessType'', 2), (''bNrInPins'', 1)]"

definition uac1_as_header_descriptor :: "members" where
  "uac1_as_header_descriptor =
    [(''bLength'', 1), (''bDescriptorType'', 1), (''bDescriptorSubtype'', 1), (''bTerminalLink'', 1),
     (''bDelay'', 1), (''wFormatTag'', 2)]"

definition UAC_DT_AS_HEADER_SIZE :: "nat" where "UAC_DT_AS_HEADER_SIZE = 7"

definition uac_format_type_i_continuous_descriptor :: "members" where
  "uac_format_type_i_continuous_descriptor =
    [(''bLength'', 1), (''bDescriptorType'', 1), (''bDescriptorSubtype'', 1), (''bFormatType'', 1),
     (''bNrChannels'', 1), (''bSubframeSize'', 1), (''bBitResolution'', 1), (''bSamFreqType'', 1),
     (''tLowerSamFreq'', 3), (''tUpperSamFreq'', 3)]"

definition UAC_FORMAT_TYPE_I_CONTINUOUS_DESC_SIZE :: "nat" where "UAC_FORMAT_TYPE_I_CONTINUOUS_DESC_SIZE = 14"

definition uac_format_type_i_discrete_descriptor :: "members" where
  "uac_format_type_i_discrete_descriptor =
    [(''bLength'', 1), (''bDescriptorType'', 1), (''bDescriptorSubtype'', 1), (''bFormatType'', 1),
     (''bNrChannels'', 1), (''bSubframeSize'', 1), (''bBitResolution'', 1), (''bSamFreqType'', 1)]"

definition DECLARE_UAC_FORMAT_TYPE_I_DISCRETE_DESC :: "nat \<Rightarrow> members" where
  "DECLARE_UAC_FORMAT_TYPE_I_DISCRETE_DESC n =
    [(''bLength'', 1), (''bDescriptorType'', 1), (''bDescriptorSubtype'', 1), (''bFormatType'', 1),
     (''bNrChannels'', 1), (''bSubframeSize'', 1), (''bBitResolution'', 1), (''bSamFreqType'', 1),
     (''tSamFreq'', n * 3)]"

definition uac_format_type_i_ext_descriptor :: "members" where
  "uac_format_type_i_ext_descriptor =
    [(''bLength'', 1), (''bDescriptorType'', 1), (''bDescriptorSubtype'', 1), (''bFormatType'', 1),
     (''bSubslotSize'', 1), (''bBitResolution'', 1), (''bHeaderLength'', 1), (''bControlSize'', 1),
     (''bSideBandProtocol'', 1)]"

definition uac_format_type_ii_discrete_descriptor :: "members" where
  "uac_format_type_ii_discrete_descriptor =
    [(''bLength'', 1), (''bDescriptorType'', 1), (''bDescriptorSubtype'', 1), (''bFormatType'', 1),
     (''wMaxBitRate'', 2), (''wSamplesPerFrame'', 2), (''bSamFreqType'', 1)]"

definition uac_format_type_ii_ext_descriptor :: "members" where
  "uac_format_type_ii_ext_descriptor =
    [(''bLength'', 1), (''bDescriptorType'', 1), (''bDescriptorSubtype'', 1), (''bFormatType'', 1),
     (''wMaxBitRate'', 2), (''wSamplesPerFrame'', 2), (''bHeaderLength'', 1), (''bSideBandProtocol'', 1)]"

definition uac_iso_endpoint_descriptor :: "members" where
  "uac_iso_endpoint_descriptor =
    [(''bLength'', 1), (''bDescriptorType'', 1), (''bDescriptorSubtype'', 1), (''bmAttributes'', 1),
     (''bLockDelayUnits'', 1), (''wLockDelay'', 2)]"

definition UAC_ISO_ENDPOINT_DESC_SIZE :: "nat" where "UAC_ISO_ENDPOINT_DESC_SIZE = 7"

section \<open>Communication devices\<close>

definition usb_cdc_header_desc :: "members" where
  "usb_cdc_header_desc =
    [(''bLength'', 1), (''bDescriptorType'', 1), (''bDescriptorSubType'', 1), (''bcdCDC'', 2)]"

definition usb_cdc_call_mgmt_descriptor :: "members" where
  "usb_cdc_call_mgmt_descriptor =
    [(''bLength'', 1), (''bDescriptorType'', 1), (''bDescriptorSubType'', 1), (''bmCapabilities'', 1),
     (''bDataInterface'', 1)]"

definition usb_cdc_acm_descriptor :: "members" where
  "usb_cdc_acm_descriptor =
    [(''bLength'', 1), (''bDescriptorType'', 1), (''bDescriptorSubType'', 1), (''bmCapabilities'', 1)]"

definition usb_cdc_union_desc :: "members" where
  "usb_cdc_union_desc =
    [(''bLength'', 1), (''bDescriptorType'', 1), (''bDescriptorSubType'', 1), (''bMasterInterface0'', 1),
     (''bSlaveInterface0'', 1)]"

definition usb_cdc_country_functional_desc :: "members" where
  "usb_cdc_country_functional_desc =
    [(''bLength'', 1), (''bDescriptorType'', 1), (''bDescriptorSubType'', 1), (''iCountryCodeRelDate'', 1),
     (''wCountyCode0'', 2)]"

definition usb_cdc_network_terminal_desc :: "members" where
  "usb_cdc_network_terminal_desc =
    [(''bLength'', 1), (''bDescriptorType'', 1), (''bDescriptorSubType'', 1), (''bEntityId'', 1),
     (''iName'', 1), (''bChannelIndex'', 1), (''bPhysicalInterface'', 1)]"

definition usb_cdc_ether_desc :: "members" where
  "usb_cdc_ether_desc =
    [(''bLength'', 1), (''bDescriptorType'', 1), (''bDescriptorSubType'', 1), (''iMACAddress'', 1),
     (''bmEthernetStatistics'', 4), (''wMaxSegmentSize'', 2), (''wNumberMCFilters'', 2),
     (''bNumberPowerFilters'', 1)]"

definition usb_cdc_mdlm_desc :: "members" where
  "usb_cdc_mdlm_desc =
    [(''bLength'', 1), (''bDescriptorType'', 1), (''bDescriptorSubType'', 1), (''bcdVersion'', 2),
     (''bGUID'', 16)]"

definition usb_cdc_mdlm_detail_desc :: "members" where
  "usb_cdc_mdlm_detail_desc =
    [(''bLength'', 1), (''bDescriptorType'', 1), (''bDescriptorSubType'', 1), (''bGuidDescriptorType'', 1),
     (''bDetailData'', 0)]"

definition usb_cdc_obex_desc :: "members" where
  "usb_cdc_obex_desc =
    [(''bLength'', 1), (''bDescriptorType'', 1), (''bDescriptorSubType'', 1), (''bcdVersion'', 2)]"

definition usb_cdc_ncm_desc :: "members" where
  "usb_cdc_ncm_desc =
    [(''bLength'', 1), (''bDescriptorType'', 1), (''bDescriptorSubType'', 1), (''bcdNcmVersion'', 2),
     (''bmNetworkCapabilities'', 1)]"

definition usb_cdc_mbim_desc :: "members" where
  "usb_cdc_mbim_desc =
    [(''bLength'', 1), (''bDescriptorType'', 1), (''bDescriptorSubType'', 1), (''bcdMBIMVersion'', 2),
     (''wMaxControlMessage'', 2), (''bNumberFilters'', 1), (''bMaxFilterSize'', 1),
     (''wMaxSegmentSize'', 2), (''bmNetworkCapabilities'', 1)]"

definition usb_cdc_mbim_extended_desc :: "members" where
  "usb_cdc_mbim_extended_desc =
    [(''bLength'', 1), (''bDescriptorType'', 1), (''bDescriptorSubType'', 1),
     (''bcdMBIMExtendedVersion'', 2), (''bMaxOutstandingCommandMessages'', 1), (''wMTU'', 2)]"

section \<open>What the headers say of the sizes\<close>

lemmas layout_defs =
  uvc_descriptor_header_def uvc_header_descriptor_def DECLARE_UVC_HEADER_DESCRIPTOR_def
  uvc_input_terminal_descriptor_def uvc_output_terminal_descriptor_def
  uvc_camera_terminal_descriptor_def uvc_selector_unit_descriptor_def
  DECLARE_UVC_SELECTOR_UNIT_DESCRIPTOR_def uvc_processing_unit_descriptor_def
  uvc_extension_unit_descriptor_def DECLARE_UVC_EXTENSION_UNIT_DESCRIPTOR_def
  uvc_control_endpoint_descriptor_def uvc_input_header_descriptor_def
  DECLARE_UVC_INPUT_HEADER_DESCRIPTOR_def uvc_output_header_descriptor_def
  DECLARE_UVC_OUTPUT_HEADER_DESCRIPTOR_def uvc_color_matching_descriptor_def
  uvc_format_uncompressed_def uvc_frame_uncompressed_def DECLARE_UVC_FRAME_UNCOMPRESSED_def
  uvc_format_mjpeg_def uvc_frame_mjpeg_def DECLARE_UVC_FRAME_MJPEG_def usb_ms_header_descriptor_def
  usb_midi_in_jack_descriptor_def usb_midi_source_pin_def usb_midi_out_jack_descriptor_def
  DECLARE_USB_MIDI_OUT_JACK_DESCRIPTOR_def usb_ms_endpoint_descriptor_def
  DECLARE_USB_MS_ENDPOINT_DESCRIPTOR_def usb_descriptor_header_def usb_device_descriptor_def
  usb_config_descriptor_def usb_string_descriptor_def usb_interface_descriptor_def
  usb_endpoint_descriptor_members_def usb_ssp_isoc_ep_comp_descriptor_def usb_ss_ep_comp_descriptor_def
  usb_qualifier_descriptor_def usb_otg_descriptor_def usb_otg20_descriptor_def usb_debug_descriptor_def
  usb_interface_assoc_descriptor_def usb_security_descriptor_def usb_key_descriptor_def
  usb_encryption_descriptor_def usb_bos_descriptor_def usb_dev_cap_header_def
  usb_wireless_cap_descriptor_def usb_ext_cap_descriptor_def usb_ss_cap_descriptor_def
  usb_ss_container_id_descriptor_def usb_ssp_cap_descriptor_def usb_pd_cap_descriptor_def
  usb_pd_cap_battery_info_descriptor_def usb_pd_cap_consumer_port_descriptor_def
  usb_pd_cap_provider_port_descriptor_def usb_ptm_cap_descriptor_def
  usb_wireless_ep_comp_descriptor_def uac1_ac_header_descriptor_def
  DECLARE_UAC_AC_HEADER_DESCRIPTOR_def uac_input_terminal_descriptor_def
  uac1_output_terminal_descriptor_def DECLARE_UAC_FEATURE_UNIT_DESCRIPTOR_def
  uac_mixer_unit_descriptor_def uac_selector_unit_descriptor_def uac_feature_unit_descriptor_def
  uac_processing_unit_descriptor_def uac1_as_header_descriptor_def
  uac_format_type_i_continuous_descriptor_def uac_format_type_i_discrete_descriptor_def
  DECLARE_UAC_FORMAT_TYPE_I_DISCRETE_DESC_def uac_format_type_i_ext_descriptor_def
  uac_format_type_ii_discrete_descriptor_def uac_format_type_ii_ext_descriptor_def
  uac_iso_endpoint_descriptor_def usb_cdc_header_desc_def usb_cdc_call_mgmt_descriptor_def
  usb_cdc_acm_descriptor_def usb_cdc_union_desc_def usb_cdc_country_functional_desc_def
  usb_cdc_network_terminal_desc_def usb_cdc_ether_desc_def usb_cdc_mdlm_desc_def
  usb_cdc_mdlm_detail_desc_def usb_cdc_obex_desc_def usb_cdc_ncm_desc_def usb_cdc_mbim_desc_def
  usb_cdc_mbim_extended_desc_def

lemmas size_defs =
  UVC_DT_HEADER_SIZE_def UVC_DT_INPUT_TERMINAL_SIZE_def UVC_DT_OUTPUT_TERMINAL_SIZE_def
  UVC_DT_CAMERA_TERMINAL_SIZE_def UVC_DT_SELECTOR_UNIT_SIZE_def UVC_DT_PROCESSING_UNIT_SIZE_def
  UVC_DT_EXTENSION_UNIT_SIZE_def UVC_DT_CONTROL_ENDPOINT_SIZE_def UVC_DT_INPUT_HEADER_SIZE_def
  UVC_DT_OUTPUT_HEADER_SIZE_def UVC_DT_COLOR_MATCHING_SIZE_def UVC_DT_FORMAT_UNCOMPRESSED_SIZE_def
  UVC_DT_FRAME_UNCOMPRESSED_SIZE_def UVC_DT_FORMAT_MJPEG_SIZE_def UVC_DT_FRAME_MJPEG_SIZE_def
  USB_DT_MS_HEADER_SIZE_def USB_DT_MIDI_IN_SIZE_def USB_DT_MIDI_OUT_SIZE_def
  USB_DT_MS_ENDPOINT_SIZE_def USB_DT_DEVICE_SIZE_def USB_DT_CONFIG_SIZE_def USB_DT_INTERFACE_SIZE_def
  USB_DT_ENDPOINT_SIZE_def USB_DT_ENDPOINT_AUDIO_SIZE_def USB_DT_SSP_ISOC_EP_COMP_SIZE_def
  USB_DT_SS_EP_COMP_SIZE_def USB_DT_INTERFACE_ASSOCIATION_SIZE_def USB_DT_BOS_SIZE_def
  USB_DT_USB_WIRELESS_CAP_SIZE_def USB_DT_USB_EXT_CAP_SIZE_def USB_DT_USB_SS_CAP_SIZE_def
  USB_DT_USB_SS_CONTN_ID_SIZE_def USB_DT_USB_PTM_ID_SIZE_def USB_DT_USB_SSP_CAP_SIZE_def
  UAC_DT_INPUT_TERMINAL_SIZE_def UAC_DT_OUTPUT_TERMINAL_SIZE_def UAC_DT_AS_HEADER_SIZE_def
  UAC_FORMAT_TYPE_I_CONTINUOUS_DESC_SIZE_def UAC_ISO_ENDPOINT_DESC_SIZE_def UAC_DT_AC_HEADER_SIZE_def
  UAC_DT_FEATURE_UNIT_SIZE_def UAC_FORMAT_TYPE_I_DISCRETE_DESC_SIZE_def

lemma fixed_sizes:
  "map sizeof_members
    [uvc_input_terminal_descriptor, uvc_output_terminal_descriptor, uvc_control_endpoint_descriptor,
     uvc_color_matching_descriptor, uvc_format_uncompressed, uvc_format_mjpeg,
     usb_ms_header_descriptor, usb_midi_in_jack_descriptor, usb_device_descriptor,
     usb_config_descriptor, usb_interface_descriptor, usb_endpoint_descriptor_members,
     usb_ssp_isoc_ep_comp_descriptor, usb_ss_ep_comp_descriptor, usb_interface_assoc_descriptor,
     usb_bos_descriptor, usb_wireless_cap_descriptor, usb_ext_cap_descriptor, usb_ss_cap_descriptor,
     usb_ss_container_id_descriptor, usb_ssp_cap_descriptor, usb_ptm_cap_descriptor,
     uac_input_terminal_descriptor, uac1_output_terminal_descriptor, uac1_as_header_descriptor,
     uac_format_type_i_continuous_descriptor, uac_iso_endpoint_descriptor,
     uvc_camera_terminal_descriptor, uvc_processing_unit_descriptor] =
    [UVC_DT_INPUT_TERMINAL_SIZE, UVC_DT_OUTPUT_TERMINAL_SIZE, UVC_DT_CONTROL_ENDPOINT_SIZE,
     UVC_DT_COLOR_MATCHING_SIZE, UVC_DT_FORMAT_UNCOMPRESSED_SIZE, UVC_DT_FORMAT_MJPEG_SIZE,
     USB_DT_MS_HEADER_SIZE, USB_DT_MIDI_IN_SIZE, USB_DT_DEVICE_SIZE, USB_DT_CONFIG_SIZE,
     USB_DT_INTERFACE_SIZE, USB_DT_ENDPOINT_AUDIO_SIZE, USB_DT_SSP_ISOC_EP_COMP_SIZE,
     USB_DT_SS_EP_COMP_SIZE, USB_DT_INTERFACE_ASSOCIATION_SIZE, USB_DT_BOS_SIZE,
     USB_DT_USB_WIRELESS_CAP_SIZE, USB_DT_USB_EXT_CAP_SIZE, USB_DT_USB_SS_CAP_SIZE,
     USB_DT_USB_SS_CONTN_ID_SIZE, USB_DT_USB_SSP_CAP_SIZE 0, USB_DT_USB_PTM_ID_SIZE,
     UAC_DT_INPUT_TERMINAL_SIZE, UAC_DT_OUTPUT_TERMINAL_SIZE, UAC_DT_AS_HEADER_SIZE,
     UAC_FORMAT_TYPE_I_CONTINUOUS_DESC_SIZE, UAC_ISO_ENDPOINT_DESC_SIZE, UVC_DT_CAMERA_TERMINAL_SIZE 3,
     UVC_DT_PROCESSING_UNIT_SIZE 2]"
  by (simp add: sizeof_members_def layout_defs size_defs)

lemma declared_sizes:
  "sizeof_members (DECLARE_UVC_HEADER_DESCRIPTOR n) = UVC_DT_HEADER_SIZE n"
  "sizeof_members (DECLARE_UVC_SELECTOR_UNIT_DESCRIPTOR n) = UVC_DT_SELECTOR_UNIT_SIZE n"
  "sizeof_members (DECLARE_UVC_EXTENSION_UNIT_DESCRIPTOR p n) = UVC_DT_EXTENSION_UNIT_SIZE p n"
  "sizeof_members (DECLARE_UVC_INPUT_HEADER_DESCRIPTOR n p) = UVC_DT_INPUT_HEADER_SIZE n p"
  "sizeof_members (DECLARE_UVC_OUTPUT_HEADER_DESCRIPTOR n p) = UVC_DT_OUTPUT_HEADER_SIZE n p"
  "sizeof_members (DECLARE_UVC_FRAME_UNCOMPRESSED n) = UVC_DT_FRAME_UNCOMPRESSED_SIZE n"
  "sizeof_members (DECLARE_UVC_FRAME_MJPEG n) = UVC_DT_FRAME_MJPEG_SIZE n"
  "sizeof_members (DECLARE_USB_MIDI_OUT_JACK_DESCRIPTOR p) = USB_DT_MIDI_OUT_SIZE p"
  "sizeof_members (DECLARE_USB_MS_ENDPOINT_DESCRIPTOR n) = USB_DT_MS_ENDPOINT_SIZE n"
  "sizeof_members (DECLARE_UAC_AC_HEADER_DESCRIPTOR n) = UAC_DT_AC_HEADER_SIZE n"
  "sizeof_members (DECLARE_UAC_FEATURE_UNIT_DESCRIPTOR n) = UAC_DT_FEATURE_UNIT_SIZE n"
  "sizeof_members (DECLARE_UAC_FORMAT_TYPE_I_DISCRETE_DESC n) = UAC_FORMAT_TYPE_I_DISCRETE_DESC_SIZE n"
  by (simp_all add: sizeof_members_def layout_defs size_defs)

text \<open>
  A reader that knows only \<^verbatim>\<open>struct usb_descriptor_header\<close> finds the length and the type of every
  descriptor, whatever follows.
\<close>

definition with_header :: "members \<Rightarrow> bool" where
  "with_header s \<longleftrightarrow> take 2 s = usb_descriptor_header"

lemma fixed_with_header:
  "list_all with_header
    [uvc_descriptor_header, uvc_header_descriptor, uvc_input_terminal_descriptor,
     uvc_output_terminal_descriptor, uvc_camera_terminal_descriptor, uvc_selector_unit_descriptor,
     uvc_processing_unit_descriptor, uvc_extension_unit_descriptor, uvc_control_endpoint_descriptor,
     uvc_input_header_descriptor, uvc_output_header_descriptor, uvc_color_matching_descriptor,
     uvc_format_uncompressed, uvc_frame_uncompressed, uvc_format_mjpeg, uvc_frame_mjpeg,
     usb_ms_header_descriptor, usb_midi_in_jack_descriptor, usb_midi_out_jack_descriptor,
     usb_ms_endpoint_descriptor, usb_descriptor_header, usb_device_descriptor, usb_config_descriptor,
     usb_string_descriptor, usb_interface_descriptor, usb_endpoint_descriptor_members,
     usb_ssp_isoc_ep_comp_descriptor, usb_ss_ep_comp_descriptor, usb_qualifier_descriptor,
     usb_otg_descriptor, usb_otg20_descriptor, usb_debug_descriptor, usb_interface_assoc_descriptor,
     usb_security_descriptor, usb_key_descriptor, usb_encryption_descriptor, usb_bos_descriptor,
     usb_dev_cap_header, usb_wireless_cap_descriptor, usb_ext_cap_descriptor, usb_ss_cap_descriptor,
     usb_ss_container_id_descriptor, usb_ssp_cap_descriptor, usb_pd_cap_descriptor,
     usb_pd_cap_battery_info_descriptor, usb_pd_cap_consumer_port_descriptor,
     usb_pd_cap_provider_port_descriptor, usb_ptm_cap_descriptor, usb_wireless_ep_comp_descriptor,
     uac1_ac_header_descriptor, uac_input_terminal_descriptor, uac1_output_terminal_descriptor,
     uac_mixer_unit_descriptor, uac_selector_unit_descriptor, uac_feature_unit_descriptor,
     uac_processing_unit_descriptor, uac1_as_header_descriptor,
     uac_format_type_i_continuous_descriptor, uac_format_type_i_discrete_descriptor,
     uac_format_type_i_ext_descriptor, uac_format_type_ii_discrete_descriptor,
     uac_format_type_ii_ext_descriptor, uac_iso_endpoint_descriptor, usb_cdc_header_desc,
     usb_cdc_call_mgmt_descriptor, usb_cdc_acm_descriptor, usb_cdc_union_desc,
     usb_cdc_country_functional_desc, usb_cdc_network_terminal_desc, usb_cdc_ether_desc,
     usb_cdc_mdlm_desc, usb_cdc_mdlm_detail_desc, usb_cdc_obex_desc, usb_cdc_ncm_desc,
     usb_cdc_mbim_desc, usb_cdc_mbim_extended_desc]"
  by (simp add: with_header_def layout_defs)

lemma declared_with_header:
  "with_header (DECLARE_UVC_HEADER_DESCRIPTOR n)"
  "with_header (DECLARE_UVC_SELECTOR_UNIT_DESCRIPTOR n)"
  "with_header (DECLARE_UVC_EXTENSION_UNIT_DESCRIPTOR p n)"
  "with_header (DECLARE_UVC_INPUT_HEADER_DESCRIPTOR n p)"
  "with_header (DECLARE_UVC_OUTPUT_HEADER_DESCRIPTOR n p)"
  "with_header (DECLARE_UVC_FRAME_UNCOMPRESSED n)"
  "with_header (DECLARE_UVC_FRAME_MJPEG n)"
  "with_header (DECLARE_USB_MIDI_OUT_JACK_DESCRIPTOR p)"
  "with_header (DECLARE_USB_MS_ENDPOINT_DESCRIPTOR n)"
  "with_header (DECLARE_UAC_AC_HEADER_DESCRIPTOR n)"
  "with_header (DECLARE_UAC_FEATURE_UNIT_DESCRIPTOR n)"
  "with_header (DECLARE_UAC_FORMAT_TYPE_I_DISCRETE_DESC n)"
  by (simp_all add: with_header_def layout_defs)

lemma with_header_found:
  assumes "with_header s"
  shows "offset_of ''bLength'' s = Some 0" "offset_of ''bDescriptorType'' s = Some 1"
  using assms by (cases s; cases "tl s"; auto simp: with_header_def usb_descriptor_header_def)+

text \<open>What a macro declares extends the structure of the header, so a pointer to it can be passed for one.\<close>

lemma offset_of_append: "offset_of m s = Some k \<Longrightarrow> offset_of m (s @ t) = Some k"
  by (induction s arbitrary: k) (auto split: if_splits)

lemma declared_extend:
  "DECLARE_UVC_HEADER_DESCRIPTOR n = uvc_header_descriptor @ [(''baInterfaceNr'', n)]"
  "DECLARE_UVC_INPUT_HEADER_DESCRIPTOR n p = uvc_input_header_descriptor @ [(''bmaControls'', p * n)]"
  "DECLARE_UVC_OUTPUT_HEADER_DESCRIPTOR n p = uvc_output_header_descriptor @ [(''bmaControls'', p * n)]"
  "DECLARE_UVC_FRAME_UNCOMPRESSED n = uvc_frame_uncompressed @ [(''dwFrameInterval'', 4 * n)]"
  "DECLARE_UVC_FRAME_MJPEG n = uvc_frame_mjpeg @ [(''dwFrameInterval'', 4 * n)]"
  "DECLARE_USB_MIDI_OUT_JACK_DESCRIPTOR p = usb_midi_out_jack_descriptor @ [(''pins'', 2 * p), (''iJack'', 1)]"
  "DECLARE_USB_MS_ENDPOINT_DESCRIPTOR n = usb_ms_endpoint_descriptor @ [(''baAssocJackID'', n)]"
  "DECLARE_UAC_AC_HEADER_DESCRIPTOR n = uac1_ac_header_descriptor @ [(''baInterfaceNr'', n)]"
  "DECLARE_UAC_FORMAT_TYPE_I_DISCRETE_DESC n = uac_format_type_i_discrete_descriptor @ [(''tSamFreq'', n * 3)]"
  by (simp_all add: layout_defs)

text \<open>
  Two structures have an empty array in the middle.  The members after it are where the structure
  puts them only when the array is empty: in a descriptor with sources they lie further on.
\<close>

lemma members_after_sources:
  "offset_of ''iSelector'' (DECLARE_UVC_SELECTOR_UNIT_DESCRIPTOR n) = offset_of ''iSelector'' uvc_selector_unit_descriptor \<longleftrightarrow>
   n = 0"
  "offset_of ''bControlSize'' (DECLARE_UVC_EXTENSION_UNIT_DESCRIPTOR p n) =
   offset_of ''bControlSize'' uvc_extension_unit_descriptor \<longleftrightarrow> p = 0"
  "offset_of ''iExtension'' (DECLARE_UVC_EXTENSION_UNIT_DESCRIPTOR p n) =
   offset_of ''iExtension'' uvc_extension_unit_descriptor \<longleftrightarrow> p = 0 \<and> n = 0"
  by (simp_all add: layout_defs)

text \<open>An endpoint has the first seven of the nine bytes, which is why its size must be given by hand.\<close>

lemma endpoint_sizes:
  "USB_DT_ENDPOINT_SIZE = sizeof_members (take 6 usb_endpoint_descriptor_members)"
  "offset_of ''bRefresh'' usb_endpoint_descriptor_members = Some USB_DT_ENDPOINT_SIZE"
  by (simp_all add: sizeof_members_def layout_defs size_defs)

section \<open>The accessors read the members\<close>

text \<open>The offsets the unit accessors use are those of the members in the structures.\<close>

definition member :: "memory \<Rightarrow> nat \<Rightarrow> members \<Rightarrow> string \<Rightarrow> u8 option" where
  "member m desc s n = map_option (\<lambda>k. m (desc + k)) (offset_of n s)"

lemma accessor_offsets:
  "mixer_baSourceID desc = desc + sizeof_members uac_mixer_unit_descriptor"
  "processing_baSourceID desc = desc + sizeof_members uac_processing_unit_descriptor"
  "Some (mixer_bNrInPins m desc) = map_option unat (member m desc uac_mixer_unit_descriptor ''bNrInPins'')"
  "Some (processing_bNrInPins m desc) = map_option unat (member m desc uac_processing_unit_descriptor ''bNrInPins'')"
  by (simp_all add: mixer_baSourceID_def processing_baSourceID_def mixer_bNrInPins_def processing_bNrInPins_def
    member_def sizeof_members_def layout_defs numeral_eq_Suc)

text \<open>
  A feature unit declared for its channels and given the size of the header: the accessor that looks
  at the last byte finds the name, whatever the number of channels.
\<close>

lemma declared_feature_unit:
  assumes "unat (m desc) = UAC_DT_FEATURE_UNIT_SIZE ch"
  shows "member m desc (DECLARE_UAC_FEATURE_UNIT_DESCRIPTOR ch) ''iFeature'' = Some (uac_feature_unit_iFeature m desc)"
proof -
  have "offset_of ''iFeature'' (DECLARE_UAC_FEATURE_UNIT_DESCRIPTOR ch) = Some (8 + 2 * ch)" by (simp add: layout_defs)
  moreover have "desc + unat (m desc) - 1 = desc + (8 + 2 * ch)" using assms by (simp add: size_defs)
  ultimately show ?thesis by (simp add: member_def uac_feature_unit_iFeature_def)
qed

end
