(* ===== verification/Spec2Isabelle.thy ===== *)
theory Spec2Isabelle
  imports Cec_Protocol Cec_Address Queue_Slist Queue_List Queue_Stailq Queue_Simpleq Queue_Tailq
    Queue_Circleq Byte_Swap Bsearch Tipc_Tlv Virtio_Ring Netlink Control_Msg Bcache Rule_Blob
    Tipc_Address Device_Number Wait_Status Ioctl_Number Elf_Info Cpu_Set Descriptor_Set Filter_Map
    Byte_Order Time_Value Obstack Sequencer Usb_Descriptor Inet_Address Phonet Nilfs Sve_Layout
    Argz Name_Message V4l2_Formats Drm_Formats Drm_Modifier Video_Dev Tagged_Words
    Event_Walk Word_Sets Exec_Layout Kvm_Register Segment_Display Interface_Helpers
    Fortify Stdio_Stream Sound_Tlv File_Kind Wire_Words Register_Fields Descriptor_Layout
begin

text \<open>
  \<^bold>\<open>What is verified.\<close>  The repository documents how to run embedded Linux under QEMU and
  carries the root file system of a Raspberry Pi 3B toolchain.  The C code in it is that file
  system's headers, \<^verbatim>\<open>rpi3b-tools/rootfs/usr/include\<close>, a 64-bit little-endian ARM target; the
  programs are documentation, shell scripts and binaries.  The development models the headers that
  carry code: functions and statement macros with a behaviour of their own.  All paths below are
  relative to that directory.

  \<^bold>\<open>HDMI Consumer Electronics Control\<close>, \<^verbatim>\<open>linux/cec.h\<close> and \<^verbatim>\<open>linux/cec-funcs.h\<close>.  A message is a
  frame of at most sixteen bytes; the header functions build one in place
  (\<^verbatim>\<open>cec_msg_...\<close>) and take one apart (\<^verbatim>\<open>cec_ops_...\<close>).

    \<^item> \<open>Cec_Core\<close>: \<^verbatim>\<open>struct cec_msg\<close> as the record \<open>cec_msg\<close>, its payload array as a list of bytes;
      the header nibbles, \<^verbatim>\<open>cec_msg_init\<close>, \<^verbatim>\<open>cec_msg_set_reply_to\<close>, \<^verbatim>\<open>cec_msg_status_is_ok\<close>.  The
      contract of a builder (\<open>cec_builder\<close>: the length, the opcode, the addresses, what it leaves
      alone), of a builder with its reader (\<open>cec_codec\<close>: the reader returns a view of the operands
      sent), and of a request (\<open>cec_request\<close>: the opcode it expects back) are locales.  Every
      message function of the header is an interpretation of one of them.
    \<^item> \<open>Cec_Opcodes\<close>: the opcode, operand and flag constants.
    \<^item> \<open>Cec_Routing\<close>, \<open>Cec_Record\<close>, \<open>Cec_Timer\<close>, \<open>Cec_System\<close>, \<open>Cec_Tuner\<close>, \<open>Cec_Menu\<close>,
      \<open>Cec_General\<close>, \<open>Cec_Audio\<close>, \<open>Cec_Cdc\<close>: one theory per feature group of \<^verbatim>\<open>cec-funcs.h\<close>, all
      150 functions.  Output parameters of a reader are the components of its result; C unions
      (record source, tuner service, user-control operand) are their storage, with a datatype of
      what it means (\<open>rs_view\<close>, \<open>ds_view\<close>, \<open>ui_view\<close>); byte-array operands are lists with the explicit count the C functions take.  \<open>Cec_Buffers\<close> holds the loops that copy
      variable-length operands.
    \<^item> \<open>Cec_Protocol\<close>: the relation \<open>cec_call\<close> of all calls of builders, those that write a message
      (\<open>cec_step\<close>) and those of \<^verbatim>\<open>cec_msg_record_on\<close> with a source it does not know; the objects reachable
      from \<^verbatim>\<open>cec_msg_init\<close>, by calls, replies and received frames of any content, and what holds for
      each of them; and the reply field of the requests.
    \<^item> \<open>Cec_Address\<close>: logical-address masks and device classes of \<^verbatim>\<open>cec.h\<close>.

  \<^bold>\<open>Intrusive lists\<close>, \<^verbatim>\<open>sys/queue.h\<close>.  \<open>Queue_Base\<close> has the store (a link field per element), the
  representation predicates, and the contracts \<open>linked_list\<close>, \<open>linked_queue\<close> and \<open>linked_before\<close>:
  every operation run on the store corresponds to the operation on lists, for whole sequences of
  operations.  \<open>Queue_Slist\<close>, \<open>Queue_List\<close>, \<open>Queue_Stailq\<close>, \<open>Queue_Simpleq\<close> and \<open>Queue_Tailq\<close>
  interpret them, \<open>Queue_Circleq\<close> has its own simulation.  Pointers to pointers (\<^verbatim>\<open>le_prev\<close>,
  \<^verbatim>\<open>tqh_last\<close>, \<^verbatim>\<open>tqe_prev\<close>, \<^verbatim>\<open>stqh_last\<close>) are places, and a write through one goes to the head or
  to the element it designates.

  \<^bold>\<open>Walks over items in memory.\<close>  \<open>Byte_Memory\<close> is a memory of bytes with the loads, stores and
  block operations of the headers, \<open>Item_Walk\<close> the loop that their \<^verbatim>\<open>..._OK\<close> and \<^verbatim>\<open>..._NEXT\<close> macros are
  written for, with the contracts \<open>item_cursor\<close> and \<open>message_walk\<close>.  \<open>Netlink\<close>
  (\<^verbatim>\<open>linux/netlink.h\<close>, \<^verbatim>\<open>linux/rtnetlink.h\<close>, \<^verbatim>\<open>linux/netfilter/nfnetlink_compat.h\<close>) interprets them for
  messages and for two kinds of attributes; \<open>Control_Msg\<close> (\<^verbatim>\<open>bits/socket.h\<close>) for ancillary data,
  whose step is the inline function \<^verbatim>\<open>__cmsg_nxthdr\<close>; \<open>Rule_Blob\<close> (\<^verbatim>\<open>linux/netfilter/x_tables.h\<close>, the
  IPv4, IPv6 and ARP tables, \<^verbatim>\<open>linux/netfilter_bridge/ebtables.h\<close>) for rules, matches and watchers,
  where the macros call a function on each item and may be stopped by it.  \<open>Tipc_Tlv\<close> has the
  type-length-value items and configuration messages of \<^verbatim>\<open>linux/tipc_config.h\<close>.

  \<^bold>\<open>Numbers packed into numbers.\<close>  \<open>Bit_Field\<close> has the two expressions that read and write a field,
  \<open>Packed_Code\<close> the contract of packing macros.  \<open>Bcache\<close>: keys, pointers and superblock flags of
  \<^verbatim>\<open>linux/bcache.h\<close>.  \<open>Tipc_Address\<close> (\<^verbatim>\<open>linux/tipc.h\<close>), \<open>Device_Number\<close> (\<^verbatim>\<open>bits/sysmacros.h\<close>,
  \<^verbatim>\<open>linux/kdev_t.h\<close>, \<^verbatim>\<open>linux/ioprio.h\<close>), \<open>Ioctl_Number\<close> (\<^verbatim>\<open>asm-generic/ioctl.h\<close>), \<open>Elf_Info\<close>
  (\<^verbatim>\<open>elf.h\<close>) and \<open>Wait_Status\<close> (\<^verbatim>\<open>bits/waitstatus.h\<close>) pack and take apart.

  \<^bold>\<open>Sets of small numbers.\<close>  \<open>Bit_Set\<close> is the contract, a set of numbers below a bound; \<open>Cpu_Set\<close>
  (\<^verbatim>\<open>bits/cpu-set.h\<close>, \<^verbatim>\<open>sched.h\<close>), \<open>Descriptor_Set\<close> (\<^verbatim>\<open>bits/select.h\<close>, \<^verbatim>\<open>sys/select.h\<close>) and \<open>Filter_Map\<close>
  (\<^verbatim>\<open>linux/netfilter/xt_sctp.h\<close>, \<^verbatim>\<open>netinet/icmp6.h\<close>) are arrays of words that provide it.  \<open>Word_Sets\<close>
  (\<^verbatim>\<open>linux/mroute6.h\<close>, \<^verbatim>\<open>linux/mroute.h\<close>, \<^verbatim>\<open>linux/netfilter/xt_TCPOPTSTRIP.h\<close>, \<^verbatim>\<open>thread_db.h\<close>,
  \<^verbatim>\<open>sys/param.h\<close>) has further ones; its set of virtual interfaces is a single long word set through
  a signed 32-bit mask, so interface 31 drags the upper half along, and the refinement is by an
  invariant on that half.

  \<^bold>\<open>Buffers that grow and are flushed.\<close>  \<open>Obstack\<close> (\<^verbatim>\<open>obstack.h\<close>): the state is the control structure
  and the memory; a new chunk comes from the C library, so \<open>newchunk_ok\<close> states what that function
  documents and the growing operations take it as a parameter.  \<open>Sequencer\<close>
  (\<^verbatim>\<open>linux/soundcard.h\<close>): the event macros over a buffer that the application's \<^verbatim>\<open>seqbuf_dump\<close> empties,
  with the sample the header gives as an interpretation of \<open>buffer_dump\<close>.  The result of \<^verbatim>\<open>write\<close> is any
  function of the writes so far; \<open>-1\<close> ends the program, which is \<open>None\<close>.  \<open>Ultrasound\<close>
  (\<^verbatim>\<open>linux/ultrasound.h\<close>) adds the events of one sound card to the same stream.

  Two more walks use the same contracts: \<open>Event_Walk\<close> (\<^verbatim>\<open>linux/fanotify.h\<close>, \<^verbatim>\<open>scsi/fc/fc_els.h\<close>)
  for events read from a group and for link service descriptors, and \<open>Argz\<close> (\<^verbatim>\<open>argz.h\<close>) for the
  strings of an argument vector, with both loops the header's comment shows.  \<open>Usb_Descriptor\<close>
  (\<^verbatim>\<open>linux/usb/ch9.h\<close>, \<^verbatim>\<open>linux/usb/audio.h\<close>) reads endpoint and audio unit descriptors whose tail
  moves with the number of input pins; \<open>Name_Message\<close> (\<^verbatim>\<open>arpa/nameser.h\<close>) has the field macros
  over a memory and a cursor, and the message and record accessors.

  \<^bold>\<open>More numbers packed into numbers.\<close>  \<open>Nilfs\<close> (\<^verbatim>\<open>linux/nilfs2_ondisk.h\<close>,
  \<^verbatim>\<open>linux/nilfs2_api.h\<close>): flag words of checkpoints and segments, record lengths and places;
  \<open>Phonet\<close> (\<^verbatim>\<open>linux/phonet.h\<close>) and \<open>Inet_Address\<close> (\<^verbatim>\<open>netinet/in.h\<close>, \<^verbatim>\<open>linux/in.h\<close>,
  \<^verbatim>\<open>netinet/if_ether.h\<close>): addresses; \<open>Sve_Layout\<close> (\<^verbatim>\<open>asm/sve_context.h\<close>, \<^verbatim>\<open>asm/sigcontext.h\<close>,
  \<^verbatim>\<open>asm/ptrace.h\<close>): offsets and sizes of vector registers for every vector length;
  \<open>Kvm_Register\<close> (\<^verbatim>\<open>asm/kvm.h\<close>): register numbers; \<open>Exec_Layout\<close> (\<^verbatim>\<open>a.out.h\<close>): executable headers
  and the offsets they imply; \<open>Tagged_Words\<close>: infrared samples, target commands, coverage handles,
  management addresses, block group flags, scheduler handles, event codes and speeds, each from its
  own small header; \<open>Wire_Words\<close>: flags of tunnelled packets, reliability policies, connection states,
  cells and addresses, compression options, protocol versions, the set of reported wireless events and
  message rounding; \<open>Register_Fields\<close>: configuration registers, firmware calls, filter instructions, type
  records, identifiers and request codes; \<open>Descriptor_Layout\<close>: the members of every packed USB descriptor,
  the sizes the headers give for them, and the accessors of \<open>Usb_Descriptor\<close> reading those members.

  \<^bold>\<open>Video and graphics.\<close>  \<open>Four_Cc\<close> is the contract of a code made of four characters;
  \<open>V4l2_Formats\<close> (\<^verbatim>\<open>linux/videodev2.h\<close>) and \<open>Drm_Formats\<close> (\<^verbatim>\<open>drm/drm_fourcc.h\<close>) are the codes,
  \<open>Drm_Modifier\<close> the layout modifiers with the parameters of each vendor, \<open>Video_Dev\<close> the macros
  that classify fields, buffers, colour spaces, controls and timings.  \<open>Segment_Display\<close>
  (\<^verbatim>\<open>linux/map_to_7segment.h\<close>) has both character tables and the look-up.

  \<^bold>\<open>The C library's own inlines.\<close>  \<open>Stdio_Stream\<close> (\<^verbatim>\<open>bits/stdio.h\<close>,
  \<^verbatim>\<open>bits/types/struct_FILE.h\<close>) has the characters and blocks that the inlines move between a stream's
  buffer and memory; the functions that fill and empty the buffer are in the library, \<open>source_ok\<close> and
  \<open>sink_ok\<close> state what it documents of them, and a library with a buffer of three bytes meets both.
  \<open>Fortify_Base\<close> has the call a fortified function makes and the contract \<open>checked_call\<close>;
  \<open>Fortify_Calls\<close> and \<open>Fortify_Wide\<close> are the functions of \<^verbatim>\<open>bits/unistd.h\<close>, \<^verbatim>\<open>bits/socket2.h\<close>,
  \<^verbatim>\<open>bits/poll2.h\<close>, \<^verbatim>\<open>bits/stdlib.h\<close>, \<^verbatim>\<open>bits/stdio2.h\<close>, \<^verbatim>\<open>bits/string_fortified.h\<close> and
  \<^verbatim>\<open>bits/wchar2.h\<close>; \<open>Fortify\<close> puts them into one relation and adds those that open files.  What the
  compiler knows of an object and of an argument is a parameter.

  \<^bold>\<open>Files and sound.\<close>  \<open>File_Kind\<close>: the type of a file in modes and directory entries (\<^verbatim>\<open>sys/stat.h\<close>,
  \<^verbatim>\<open>linux/stat.h\<close>, \<^verbatim>\<open>dirent.h\<close>) and the entries and inodes of four file systems.  \<open>Sound_Tlv\<close>
  (\<^verbatim>\<open>sound/tlv.h\<close>): items composed by macros, as trees, and the reader the header describes; its
  fuel is the number of words.

  \<^bold>\<open>Smaller components.\<close>  \<open>Byte_Swap\<close>: \<^verbatim>\<open>linux/swab.h\<close> and \<^verbatim>\<open>bits/byteswap.h\<close>; \<open>Byte_Order\<close>: the two
  headers of \<^verbatim>\<open>linux/byteorder\<close>, little and big endian, over it.  \<open>Bsearch\<close>:
  \<^verbatim>\<open>bits/stdlib-bsearch.h\<close>.  \<open>Virtio_Ring\<close>: layout and notifications of \<^verbatim>\<open>linux/virtio_ring.h\<close>.
  \<open>Time_Value\<close>: \<^verbatim>\<open>sys/time.h\<close>.  \<open>Interface_Helpers\<close>: the inline functions and macros of
  \<^verbatim>\<open>linux/auto_fs.h\<close>, \<^verbatim>\<open>linux/fsmap.h\<close>, \<^verbatim>\<open>linux/dccp.h\<close>, \<^verbatim>\<open>linux/ndctl.h\<close>, \<^verbatim>\<open>linux/vfio.h\<close>,
  \<^verbatim>\<open>sys/syslog.h\<close> and others too small for a theory of their own.  \<open>Prelude\<close> has the integer types, byte and bit-field idioms and
  rounding lemmas they all share.

  \<^bold>\<open>What the theorems show.\<close>  For CEC: what each builder puts into the frame and that it keeps
  length, addresses and broadcast bit right; that readers return what builders sent, operand by
  operand, with the exact ranges for which they do; that the reply field of a request has
  the opcode of its answer; that every reachable message is well formed.  Where the code departs from that (the channel
  number joined at the wrong shift, the encoder state read from the host state's bits, the
  set-state message sent as an inquiry, the feature loop that does not move) the theorem states
  what the code does.  For the lists: refinement of sequences of operations, the effect of
  concatenation, and the neighbours reached through back pointers.  For the walks: on arbitrary
  bytes no item reaches outside the buffer and the loop returns; on well-formed contents every item
  is visited once, in order; and where a step is not checked, what happens then.  For packed
  numbers: round trips, independence of fields, ranges.  For sets: refinement of finite sets by
  every operation, and no effect outside the set's words.  For object stacks: growing appends to the current object wherever its chunk is,
  and copying objects changes exactly their bytes.  For the sequencer: the writes are offered exactly
  the bytes sent, and if each takes all it is offered the device's reader can split the stream again.  For the others: byte permutations,
  host-independent formats, totality and correctness of the search, layout and the notification
  window, arithmetic and order of times.

  \<^bold>\<open>Integers, bounds and partiality.\<close>  \<^verbatim>\<open>__u8\<close> to \<^verbatim>\<open>__u64\<close> are words of their width, and implicit
  conversions are written as \<open>ucast\<close> or \<open>scast\<close>; a comparison is signed where the usual conversions
  make it so.  Time values are integers whose arithmetic gives \<open>None\<close> on signed overflow, which the
  language leaves open.  Addresses inside one object are natural numbers, since they do not wrap,
  except in \<open>Control_Msg\<close> and \<open>Bsearch\<close>, where they are words.  An array index outside a descriptor
  set is \<open>None\<close>.  Loops over counters and buffers have a \<open>measure\<close>; loops whose step is read from
  memory (\<open>visit_all\<close>, \<open>iterate_loop\<close>, \<open>cmsg_loop\<close>, the binary search) are partial functions, with
  \<open>None\<close> for not returning, and the theorems about them state that they return: up to \<^verbatim>\<open>2^63\<close> elements
  for the search, any contents for netlink, contents with nonzero steps for rule tables.

  \<^bold>\<open>Not modelled.\<close>  Structures, constants and prototypes of interfaces whose implementation is the
  kernel or the C library: the repository has no body for them.  The architecture overrides of
  \<^verbatim>\<open>swab.h\<close> and the compiler builtins of \<^verbatim>\<open>byteswap.h\<close>, absent or outside the sources.  The CEC
  clock stamps and ioctls, which no header function touches.  The bodies of \<^verbatim>\<open>_obstack_newchunk\<close> and
  \<^verbatim>\<open>_obstack_free\<close> and the counting of processors, which are in the C library.
  \<^verbatim>\<open>VFIO_DEVICE_STATE_SET_ERROR\<close>, which names a constant that no header defines, and
  \<^verbatim>\<open>is_drop_point_hw\<close>, whose loop is not well-formed C: neither compiles where it is used.
  The look-ups of \<^verbatim>\<open>ctype.h\<close>, whose tables are the library's, and \<^verbatim>\<open>tgmath.h\<close>, which dispatches on the
  type of an expression.
\<close>

section \<open>The two views of fread-unlocked\<close>

text \<open>What the function of \<^verbatim>\<open>bits/stdio2.h\<close> calls (\<open>Fortify_Calls\<close>) and what it computes (\<open>Stdio_Stream\<close>)
  are the same decision.\<close>

lemma fread_unlocked_dispatch:
  "fread_unlocked_fortified (alias, chk, chk_warn) uflow (objsize0 cc p) cs c ptr sz n s =
     (case fst (fread_unlocked_entry cc True p sz n file_ptr cs c) of
        Chk f \<Rightarrow> chk (objsize0 cc p) ptr sz n s
      | Chk_warn f \<Rightarrow> chk_warn (objsize0 cc p) ptr sz n s
      | Inline f \<Rightarrow> if sz * n = 0 then (0, s)
          else (case fread_loop uflow ptr (unat (sz * n)) s of
            (cnt, s') \<Rightarrow> (of_nat (unat (sz * n) - cnt) div sz, s'))
      | _ \<Rightarrow> alias ptr sz n s)"
  by (simp add: fread_unlocked_fortified_def fread_unlocked_entry_def)

end
